(* ===== verification/Prelude.thy ===== *)
theory Prelude
  imports Complex_Main "HOL-Library.Sublist"
begin

text \<open>
  Shared ground of the development: the types every component uses (bytes, strings,
  identifiers, instants), the result type, the few list operations of the Rust standard
  library that several components call, and the collections of facts the proofs share.

  A Rust \<open>&[u8]\<close> and a Rust \<open>&str\<close> are both a \<open>char list\<close> here: one HOL character
  is one byte, and a \<open>str\<close> is the list of its UTF-8 bytes. Instants and durations
  (\<open>chrono\<close>) are integers counting nanoseconds. Unsigned machine counters are natural
  numbers with the saturation of the source written out.
\<close>

section \<open>Types\<close>

type_synonym byte = char
type_synonym bytes = "char list"
type_synonym str = "char list"
type_synonym uuid = "char list"
type_synonym time = int
type_synonym duration = int

text \<open>A fallible operation returns \<open>Inl\<close> of its error or \<open>Inr\<close> of its value.\<close>

abbreviation Err :: "'e \<Rightarrow> 'e + 'a" where "Err \<equiv> Inl"
abbreviation Ok :: "'a \<Rightarrow> 'e + 'a" where "Ok \<equiv> Inr"

definition is_ok :: "'e + 'a \<Rightarrow> bool" where
  "is_ok r = (case r of Inl _ \<Rightarrow> False | Inr _ \<Rightarrow> True)"

definition is_err :: "'e + 'a \<Rightarrow> bool" where
  "is_err r = (\<not> is_ok r)"

lemma is_ok_simps [simp]: "is_ok (Ok x)" "\<not> is_ok (Err e)"
  by (simp_all add: is_ok_def)

lemma is_err_simps [simp]: "is_err (Err e)" "\<not> is_err (Ok x)"
  by (simp_all add: is_err_def)

lemma is_ok_iff: "is_ok r \<longleftrightarrow> (\<exists>x. r = Ok x)"
  by (cases r) auto

lemma is_err_iff: "is_err r \<longleftrightarrow> (\<exists>e. r = Err e)"
  by (cases r) auto

text \<open>\<open>Option::is_some_and\<close> and \<open>Option::is_none_or\<close>.\<close>

definition is_some_and :: "('a \<Rightarrow> bool) \<Rightarrow> 'a option \<Rightarrow> bool" where
  "is_some_and p r = (case r of None \<Rightarrow> False | Some x \<Rightarrow> p x)"

definition is_none_or :: "('a \<Rightarrow> bool) \<Rightarrow> 'a option \<Rightarrow> bool" where
  "is_none_or p r = (case r of None \<Rightarrow> True | Some x \<Rightarrow> p x)"

definition unwrap_or :: "'a \<Rightarrow> 'a option \<Rightarrow> 'a" where
  "unwrap_or d r = (case r of None \<Rightarrow> d | Some x \<Rightarrow> x)"

lemma is_some_and_simps [simp]: "\<not> is_some_and p None" "is_some_and p (Some x) = p x"
  by (simp_all add: is_some_and_def)

lemma is_none_or_simps [simp]: "is_none_or p None" "is_none_or p (Some x) = p x"
  by (simp_all add: is_none_or_def)

lemma unwrap_or_simps [simp]: "unwrap_or d None = d" "unwrap_or d (Some x) = x"
  by (simp_all add: unwrap_or_def)

lemma is_some_and_iff: "is_some_and p r \<longleftrightarrow> (\<exists>x. r = Some x \<and> p x)"
  by (cases r) auto

lemma is_none_or_iff: "is_none_or p r \<longleftrightarrow> (\<forall>x. r = Some x \<longrightarrow> p x)"
  by (cases r) auto

text \<open>\<open>collect::<Result<Vec<_>>>\<close>: the first error, or all the values in order.\<close>

fun collect_results :: "('e + 'a) list \<Rightarrow> 'e + 'a list" where
  "collect_results [] = Ok []"
| "collect_results (r # rs) =
     (case r of Inl e \<Rightarrow> Err e
      | Inr x \<Rightarrow> (case collect_results rs of Inl e \<Rightarrow> Err e | Inr xs \<Rightarrow> Ok (x # xs)))"

lemma collect_results_Ok_iff: "collect_results rs = Ok xs \<longleftrightarrow> rs = map Ok xs"
  by (induction rs arbitrary: xs) (auto split: sum.splits, blast)

lemma collect_results_map_Ok: "(\<And>x. x \<in> set xs \<Longrightarrow> f x = Ok (g x)) \<Longrightarrow>
   collect_results (map f xs) = Ok (map g xs)"
  by (simp add: collect_results_Ok_iff)

text \<open>\<open>ok_or\<close>: an option with the error its absence stands for.\<close>

definition ok_or :: "'e \<Rightarrow> 'a option \<Rightarrow> 'e + 'a" where
  "ok_or e r = (case r of None \<Rightarrow> Err e | Some x \<Rightarrow> Ok x)"

lemma ok_or_simps [simp]: "ok_or e None = Err e" "ok_or e (Some x) = Ok x"
  by (simp_all add: ok_or_def)

definition bind_ok :: "'e + 'a \<Rightarrow> ('a \<Rightarrow> 'e + 'b) \<Rightarrow> 'e + 'b" where
  "bind_ok r f = (case r of Inl e \<Rightarrow> Err e | Inr x \<Rightarrow> f x)"

lemma bind_ok_simps [simp]: "bind_ok (Err e) f = Err e" "bind_ok (Ok x) f = f x"
  by (simp_all add: bind_ok_def)

lemma bind_ok_Ok_iff: "bind_ok r f = Ok y \<longleftrightarrow> (\<exists>x. r = Ok x \<and> f x = Ok y)"
  by (cases r) auto

section \<open>Fact collections\<close>

text \<open>
  \<open>op_defs\<close>: the definitions of a component's operations, unfolded together when an
  invariant is carried over all of them. \<open>inv_defs\<close>: the parts of the invariants.
  \<open>obs\<close>: what an operation leaves unchanged.
\<close>

named_theorems op_defs
named_theorems inv_defs
named_theorems obs

section \<open>Machine arithmetic and time\<close>

definition u64_max :: nat where "u64_max = 2 ^ 64 - 1"

definition sat_add_u64 :: "nat \<Rightarrow> nat \<Rightarrow> nat" where
  "sat_add_u64 a b = min (a + b) u64_max"

lemma sat_add_u64_le [simp]: "sat_add_u64 a b \<le> u64_max"
  by (simp add: sat_add_u64_def)

lemma sat_add_u64_mono: "a \<le> u64_max \<Longrightarrow> a \<le> sat_add_u64 a b"
  by (simp add: sat_add_u64_def)

lemma sat_add_u64_pos: "0 < sat_add_u64 a (Suc b)"
  by (simp add: sat_add_u64_def u64_max_def)

definition secs :: "int \<Rightarrow> duration" where
  "secs n = n * 1000000000"

definition millis :: "int \<Rightarrow> duration" where
  "millis n = n * 1000000"

text \<open>\<open>Duration::num_seconds\<close> truncates towards zero.\<close>

definition num_seconds :: "duration \<Rightarrow> int" where
  "num_seconds d = sgn d * (\<bar>d\<bar> div 1000000000)"

lemma secs_le_iff [simp]: "secs a \<le> secs b \<longleftrightarrow> a \<le> b"
  by (simp add: secs_def)

lemma secs_less_iff [simp]: "secs a < secs b \<longleftrightarrow> a < b"
  by (simp add: secs_def)

lemma num_seconds_secs [simp]: "num_seconds (secs n) = n"
  by (simp add: num_seconds_def secs_def abs_mult sgn_mult mult_sgn_abs)

text \<open>\<open>Ord::clamp\<close>.\<close>

definition clamp :: "'a::linorder \<Rightarrow> 'a \<Rightarrow> 'a \<Rightarrow> 'a" where
  "clamp lo hi x = (if x < lo then lo else if hi < x then hi else x)"

lemma clamp_bounds: "lo \<le> hi \<Longrightarrow> lo \<le> clamp lo hi x \<and> clamp lo hi x \<le> hi"
  by (auto simp: clamp_def)

section \<open>Slices\<close>

text \<open>
  \<open>find_sub p s\<close> is \<open>s.windows(p.len()).position(|w| w == p)\<close>: the offset of the first
  window equal to \<open>p\<close>. \<open>windows\<close> panics on an empty pattern; every caller passes a
  non-empty one.
\<close>

fun find_sub :: "'a list \<Rightarrow> 'a list \<Rightarrow> nat option" where
  "find_sub p [] = (if p = [] then Some 0 else None)"
| "find_sub p (x # xs) =
     (if take (length p) (x # xs) = p then Some 0 else map_option Suc (find_sub p xs))"

definition has_sub :: "'a list \<Rightarrow> 'a list \<Rightarrow> bool" where
  "has_sub p s = (find_sub p s \<noteq> None)"

lemma find_sub_Some:
  "find_sub p s = Some i \<Longrightarrow> i + length p \<le> length s \<and> take (length p) (drop i s) = p"
proof (induction s arbitrary: i)
  case Nil
  then show ?case by (auto split: if_splits)
next
  case (Cons x xs)
  then show ?case
    by (auto split: if_splits) (metis length_take min.absorb_iff2 length_Cons)
qed

lemma find_sub_first:
  "find_sub p s = Some i \<Longrightarrow> j < i \<Longrightarrow> take (length p) (drop j s) \<noteq> p"
proof (induction s arbitrary: i j)
  case Nil
  then show ?case by (auto split: if_splits)
next
  case (Cons x xs)
  then show ?case by (cases j) (auto split: if_splits)
qed

lemma find_sub_None:
  "find_sub p s = None \<longleftrightarrow> (\<forall>j. take (length p) (drop j s) \<noteq> p)"
proof (induction s)
  case Nil
  then show ?case by simp
next
  case (Cons x xs)
  show ?case
  proof
    assume "find_sub p (x # xs) = None"
    then have "take (length p) (x # xs) \<noteq> p" "\<forall>j. take (length p) (drop j xs) \<noteq> p"
      using Cons.IH by (auto split: if_splits)
    then show "\<forall>j. take (length p) (drop j (x # xs)) \<noteq> p"
      by (metis drop_0 drop_Cons' )
  next
    assume a: "\<forall>j. take (length p) (drop j (x # xs)) \<noteq> p"
    then have "take (length p) (x # xs) \<noteq> p" using drop_0 by metis
    moreover have "\<forall>j. take (length p) (drop j xs) \<noteq> p" using a drop_Suc_Cons by metis
    ultimately show "find_sub p (x # xs) = None" using Cons.IH by simp
  qed
qed

lemma has_sub_iff: "p \<noteq> [] \<Longrightarrow> has_sub p s \<longleftrightarrow> sublist p s"
proof
  assume "has_sub p s"
  then obtain i where "find_sub p s = Some i" by (auto simp: has_sub_def)
  then have "take (length p) (drop i s) = p" by (auto dest: find_sub_Some)
  then have "s = take i s @ p @ drop (length p) (drop i s)"
    by (metis append_take_drop_id)
  then show "sublist p s" by (auto simp: sublist_def)
next
  assume "sublist p s"
  then obtain a b where "s = a @ p @ b" by (auto simp: sublist_def)
  then have "take (length p) (drop (length a) s) = p" by simp
  then show "has_sub p s" by (auto simp: has_sub_def find_sub_None)
qed

text \<open>\<open>strip_prefix\<close> and \<open>strip_suffix\<close> of \<open>str\<close>, and \<open>split_once\<close>/\<open>rsplit_once\<close> on a byte.\<close>

definition starts_with :: "'a list \<Rightarrow> 'a list \<Rightarrow> bool" where
  "starts_with p s = (take (length p) s = p)"

definition ends_with :: "'a list \<Rightarrow> 'a list \<Rightarrow> bool" where
  "ends_with p s = (length p \<le> length s \<and> drop (length s - length p) s = p)"

definition strip_prefix :: "'a list \<Rightarrow> 'a list \<Rightarrow> 'a list option" where
  "strip_prefix p s = (if starts_with p s then Some (drop (length p) s) else None)"

definition strip_suffix :: "'a list \<Rightarrow> 'a list \<Rightarrow> 'a list option" where
  "strip_suffix p s =
     (if ends_with p s then Some (take (length s - length p) s) else None)"

lemma starts_with_iff: "starts_with p s \<longleftrightarrow> (\<exists>r. s = p @ r)"
  unfolding starts_with_def by (metis append_eq_conv_conj append_take_drop_id)

lemma strip_prefix_Some_iff: "strip_prefix p s = Some r \<longleftrightarrow> s = p @ r"
  by (auto simp: strip_prefix_def starts_with_def) (metis append_take_drop_id)

lemma ends_with_iff: "ends_with p s \<longleftrightarrow> (\<exists>r. s = r @ p)"
proof
  assume "ends_with p s"
  then show "\<exists>r. s = r @ p"
    unfolding ends_with_def by (metis append_take_drop_id)
qed (auto simp: ends_with_def)

lemma strip_suffix_Some_iff: "strip_suffix p s = Some r \<longleftrightarrow> s = r @ p"
  by (auto simp: strip_suffix_def ends_with_def) (metis append_take_drop_id)

fun split_once :: "'a \<Rightarrow> 'a list \<Rightarrow> ('a list \<times> 'a list) option" where
  "split_once c [] = None"
| "split_once c (x # xs) =
     (if x = c then Some ([], xs)
      else map_option (\<lambda>(a, b). (x # a, b)) (split_once c xs))"

definition rsplit_once :: "'a \<Rightarrow> 'a list \<Rightarrow> ('a list \<times> 'a list) option" where
  "rsplit_once c s = map_option (\<lambda>(a, b). (rev b, rev a)) (split_once c (rev s))"

lemma split_once_Some_iff:
  "split_once c s = Some (a, b) \<longleftrightarrow> s = a @ c # b \<and> c \<notin> set a"
proof (induction s arbitrary: a)
  case Nil
  then show ?case by simp
next
  case (Cons x xs)
  show ?case
    by (cases a) (auto simp: Cons.IH)
qed

lemma split_once_None_iff: "split_once c s = None \<longleftrightarrow> c \<notin> set s"
  by (induction s) auto

lemma rsplit_once_Some_iff:
  "rsplit_once c s = Some (a, b) \<longleftrightarrow> s = a @ c # b \<and> c \<notin> set b"
proof -
  have "rsplit_once c s = Some (a, b) \<longleftrightarrow> split_once c (rev s) = Some (rev b, rev a)"
    by (auto simp: rsplit_once_def)
  also have "\<dots> \<longleftrightarrow> rev s = rev b @ c # rev a \<and> c \<notin> set b"
    by (simp add: split_once_Some_iff)
  also have "rev s = rev b @ c # rev a \<longleftrightarrow> s = a @ c # b"
    by (metis rev_append rev.simps(2) rev_rev_ident append_Cons append_assoc append_Nil)
  finally show ?thesis .
qed

lemma rsplit_once_None_iff: "rsplit_once c s = None \<longleftrightarrow> c \<notin> set s"
  by (simp add: rsplit_once_def split_once_None_iff)

text \<open>\<open>str::split\<close> on one separator byte: always at least one piece.\<close>

fun split_on :: "'a \<Rightarrow> 'a list \<Rightarrow> 'a list list" where
  "split_on c [] = [[]]"
| "split_on c (x # xs) =
     (if x = c then [] # split_on c xs
      else (case split_on c xs of [] \<Rightarrow> [[x]] | y # ys \<Rightarrow> (x # y) # ys))"

lemma split_on_nonempty [simp]: "split_on c s \<noteq> []"
  by (induction s) (auto split: list.splits)

section \<open>Subsequences\<close>

lemma subseq_distinct: "subseq xs ys \<Longrightarrow> distinct ys \<Longrightarrow> distinct xs"
  by (auto simp: subseq_conv_nths distinct_nthsI)

lemma subseq_set: "subseq xs ys \<Longrightarrow> set xs \<subseteq> set ys"
  by (auto simp: subseq_conv_nths dest: in_set_nthsD)

section \<open>Finding and updating the first matching element\<close>

text \<open>
  \<open>iter_mut().find(p)\<close> followed by a write through the reference updates the first
  element satisfying \<open>p\<close> in place.
\<close>

fun update_first :: "('a \<Rightarrow> bool) \<Rightarrow> ('a \<Rightarrow> 'a) \<Rightarrow> 'a list \<Rightarrow> 'a list" where
  "update_first p f [] = []"
| "update_first p f (x # xs) = (if p x then f x # xs else x # update_first p f xs)"

lemma length_update_first [simp]: "length (update_first p f xs) = length xs"
  by (induction xs) auto

lemma update_first_None: "List.find p xs = None \<Longrightarrow> update_first p f xs = xs"
  by (induction xs) (auto split: if_splits)

lemma map_update_first:
  "(\<And>x. g (f x) = g x) \<Longrightarrow> map g (update_first p f xs) = map g xs"
  by (induction xs) auto

lemma set_update_first:
  "y \<in> set (update_first p f xs) \<Longrightarrow> y \<in> set xs \<or> (\<exists>x \<in> set xs. p x \<and> y = f x)"
  by (induction xs) (auto split: if_splits)

lemma update_first_cong:
  "(\<And>x. x \<in> set xs \<Longrightarrow> p x = q x) \<Longrightarrow> update_first p f xs = update_first q f xs"
  by (induction xs) auto

lemma update_first_key:
  "distinct (map h xs) \<Longrightarrow> update_first (\<lambda>x. h x = i) f xs = map (\<lambda>x. if h x = i then f x else x) xs"
proof (induction xs)
  case (Cons x xs)
  have "map (\<lambda>y. if h y = i then f y else y) xs = xs" if "h x = i"
    using that Cons.prems by (intro map_idI) (auto simp: image_iff)
  then show ?case using Cons by simp
qed simp

lemma map_if_key:
  "y \<in> set (map (\<lambda>x. if h x = i then f x else x) xs) \<Longrightarrow> h y = i \<Longrightarrow> (\<And>x. P (f x)) \<Longrightarrow> P y"
  by (auto split: if_splits)

lemma find_Some_mem: "List.find p xs = Some x \<Longrightarrow> x \<in> set xs \<and> p x"
  by (auto simp: find_Some_iff)

lemma find_update_first:
  "List.find p xs = Some x \<Longrightarrow> (\<And>y. p y \<Longrightarrow> q (f y)) \<Longrightarrow> (\<And>y. q y \<Longrightarrow> p y) \<Longrightarrow>
   List.find q (update_first p f xs) = Some (f x)"
  by (induction xs) (auto split: if_splits)

end
