(* ===== verification/Text.thy ===== *)
theory Text
  imports Prelude
begin

text \<open>
  The text functions of the Rust standard library that the program calls, on strings
  represented by their UTF-8 bytes: \<open>std::str::from_utf8\<close>, \<open>chars\<close>, \<open>trim\<close>,
  \<open>char::is_control\<close>, the ASCII classes and case folding of \<open>u8\<close> and \<open>char\<close>,
  \<open>str::parse::<u16>\<close>, \<open>str::lines\<close>, and the lower-case hexadecimal formatting
  \<open>{:02x}\<close>. They are the language, not the program: no entry of the manifest maps here.
\<close>

section \<open>Bytes\<close>

definition code :: "byte \<Rightarrow> nat" where "code c = of_char c"

lemma code_less [simp]: "code c < 256"
  by (simp add: code_def)

lemma code_inject [simp]: "code a = code b \<longleftrightarrow> a = b"
  by (simp add: code_def)

definition is_ascii_digit :: "byte \<Rightarrow> bool" where
  "is_ascii_digit c = (48 \<le> code c \<and> code c \<le> 57)"

definition is_ascii_alpha :: "byte \<Rightarrow> bool" where
  "is_ascii_alpha c = (65 \<le> code c \<and> code c \<le> 90 \<or> 97 \<le> code c \<and> code c \<le> 122)"

definition is_ascii_alphanumeric :: "byte \<Rightarrow> bool" where
  "is_ascii_alphanumeric c = (is_ascii_digit c \<or> is_ascii_alpha c)"

definition is_ascii_hexdigit :: "byte \<Rightarrow> bool" where
  "is_ascii_hexdigit c =
     (is_ascii_digit c \<or> 65 \<le> code c \<and> code c \<le> 70 \<or> 97 \<le> code c \<and> code c \<le> 102)"

text \<open>\<open>u8::is_ascii_whitespace\<close>: space, tab, line feed, form feed, carriage return.\<close>

definition is_ascii_whitespace :: "byte \<Rightarrow> bool" where
  "is_ascii_whitespace c = (code c \<in> {32, 9, 10, 12, 13})"

definition LF :: byte where "LF = CHR 0x0A"
definition CR :: byte where "CR = CHR 0x0D"

definition ascii_lower :: "byte \<Rightarrow> byte" where
  "ascii_lower c = (if 65 \<le> code c \<and> code c \<le> 90 then char_of (code c + 32) else c)"

definition to_ascii_lowercase :: "str \<Rightarrow> str" where
  "to_ascii_lowercase = map ascii_lower"

definition eq_ignore_ascii_case :: "str \<Rightarrow> str \<Rightarrow> bool" where
  "eq_ignore_ascii_case a b = (to_ascii_lowercase a = to_ascii_lowercase b)"

lemma code_char_of [simp]: "n < 256 \<Longrightarrow> code (char_of n) = n"
  by (simp add: code_def)

lemma ascii_lower_idem [simp]: "ascii_lower (ascii_lower c) = ascii_lower c"
  by (auto simp: ascii_lower_def)

lemma to_ascii_lowercase_idem [simp]:
  "to_ascii_lowercase (to_ascii_lowercase s) = to_ascii_lowercase s"
  by (simp add: to_ascii_lowercase_def)

lemma ascii_lower_eq_iff:
  "\<not> (97 \<le> code d \<and> code d \<le> 122) \<Longrightarrow> \<not> (65 \<le> code d \<and> code d \<le> 90) \<Longrightarrow>
   ascii_lower c = d \<longleftrightarrow> c = d"
  by (auto simp: ascii_lower_def)

section \<open>UTF-8\<close>

definition is_cont :: "byte \<Rightarrow> bool" where
  "is_cont c = (128 \<le> code c \<and> code c \<le> 191)"

text \<open>
  The well-formed sequences of Unicode's table 3-7, as \<open>from_utf8\<close> accepts them. The
  result pairs each code point with its bytes.
\<close>

definition utf8_second3 :: "byte \<Rightarrow> byte \<Rightarrow> bool" where
  "utf8_second3 a b =
     (is_cont b \<and> (code a = 224 \<longrightarrow> 160 \<le> code b) \<and> (code a = 237 \<longrightarrow> code b \<le> 159))"

definition utf8_second4 :: "byte \<Rightarrow> byte \<Rightarrow> bool" where
  "utf8_second4 a b =
     (is_cont b \<and> (code a = 240 \<longrightarrow> 144 \<le> code b) \<and> (code a = 244 \<longrightarrow> code b \<le> 143))"

fun utf8_next :: "bytes \<Rightarrow> (nat \<times> bytes \<times> bytes) option" where
  "utf8_next [] = None"
| "utf8_next (a # s) =
     (if code a < 128 then Some (code a, [a], s)
      else if 194 \<le> code a \<and> code a \<le> 223 then
        (case s of b # r \<Rightarrow>
           if is_cont b then Some ((code a - 192) * 64 + (code b - 128), [a, b], r) else None
         | [] \<Rightarrow> None)
      else if 224 \<le> code a \<and> code a \<le> 239 then
        (case s of b # c # r \<Rightarrow>
           if utf8_second3 a b \<and> is_cont c
           then Some ((code a - 224) * 4096 + (code b - 128) * 64 + (code c - 128), [a, b, c], r)
           else None
         | _ \<Rightarrow> None)
      else if 240 \<le> code a \<and> code a \<le> 244 then
        (case s of b # c # d # r \<Rightarrow>
           if utf8_second4 a b \<and> is_cont c \<and> is_cont d
           then Some ((code a - 240) * 262144 + (code b - 128) * 4096 + (code c - 128) * 64
                        + (code d - 128), [a, b, c, d], r)
           else None
         | _ \<Rightarrow> None)
      else None)"

lemma utf8_next_split:
  "utf8_next s = Some (n, g, r) \<Longrightarrow> s = g @ r \<and> g \<noteq> []"
  by (cases s) (auto split: if_splits list.splits)

function utf8_segments :: "bytes \<Rightarrow> (nat \<times> bytes) list option" where
  "utf8_segments s =
     (if s = [] then Some []
      else (case utf8_next s of
              None \<Rightarrow> None
            | Some (n, g, r) \<Rightarrow> map_option (Cons (n, g)) (utf8_segments r)))"
  by pat_completeness auto
termination
  by (relation "measure length") (auto dest!: utf8_next_split)

declare utf8_segments.simps [simp del]

lemma utf8_segments_Nil [simp]: "utf8_segments [] = Some []"
  by (simp add: utf8_segments.simps)

lemma utf8_segments_Cons:
  "utf8_segments (a # s) =
     (case utf8_next (a # s) of
        None \<Rightarrow> None
      | Some (n, g, r) \<Rightarrow> map_option (Cons (n, g)) (utf8_segments r))"
  by (simp add: utf8_segments.simps [of "a # s"])

lemma utf8_segments_ascii [simp]:
  "code a < 128 \<Longrightarrow> utf8_segments (a # s) = map_option (Cons (code a, [a])) (utf8_segments s)"
  by (simp add: utf8_segments_Cons)

lemma utf8_segments_bytes:
  "utf8_segments s = Some gs \<Longrightarrow> concat (map snd gs) = s"
proof (induction s arbitrary: gs rule: utf8_segments.induct)
  case (1 s)
  show ?case
  proof (cases "s = []")
    case True
    with "1.prems" show ?thesis by simp
  next
    case False
    with "1.prems" obtain n g r gs' where
      n: "utf8_next s = Some (n, g, r)" and r: "utf8_segments r = Some gs'"
      and gs: "gs = (n, g) # gs'"
      by (auto simp: utf8_segments.simps [of s] split: option.splits)
    have "concat (map snd gs') = r"
      by (rule "1.IH" [OF False n refl refl r])
    then show ?thesis using utf8_next_split [OF n] gs by simp
  qed
qed

text \<open>\<open>std::str::from_utf8\<close> succeeds.\<close>

definition valid_utf8 :: "bytes \<Rightarrow> bool" where
  "valid_utf8 s = (utf8_segments s \<noteq> None)"

text \<open>\<open>str::chars\<close>, as code points.\<close>

definition chars :: "str \<Rightarrow> nat list" where
  "chars s = (case utf8_segments s of None \<Rightarrow> [] | Some gs \<Rightarrow> map fst gs)"

text \<open>\<open>char::is_control\<close> (category Cc) and \<open>char::is_whitespace\<close> (property White\_Space).\<close>

definition is_control :: "nat \<Rightarrow> bool" where
  "is_control n = (n < 32 \<or> 127 \<le> n \<and> n \<le> 159)"

definition is_whitespace :: "nat \<Rightarrow> bool" where
  "is_whitespace n =
     (9 \<le> n \<and> n \<le> 13 \<or> n \<in> {32, 133, 160, 5760, 8232, 8233, 8239, 8287, 12288}
      \<or> 8192 \<le> n \<and> n \<le> 8202)"

text \<open>\<open>str::trim\<close>.\<close>

definition trim_segments :: "(nat \<times> bytes) list \<Rightarrow> (nat \<times> bytes) list" where
  "trim_segments gs =
     rev (dropWhile (is_whitespace \<circ> fst) (rev (dropWhile (is_whitespace \<circ> fst) gs)))"

definition trim :: "str \<Rightarrow> str" where
  "trim s = (case utf8_segments s of None \<Rightarrow> s | Some gs \<Rightarrow> concat (map snd (trim_segments gs)))"

lemma trim_length: "length (trim s) \<le> length s"
proof (cases "utf8_segments s")
  case None
  then show ?thesis by (simp add: trim_def)
next
  case (Some gs)
  have dw: "length (concat (map snd (dropWhile p hs))) \<le> length (concat (map snd hs))"
    for p and hs :: "(nat \<times> bytes) list"
    by (induction hs) auto
  have rv: "length (concat (map snd (rev hs))) = length (concat (map snd hs))"
    for hs :: "(nat \<times> bytes) list"
    by (induction hs) auto
  let ?d = "dropWhile (is_whitespace \<circ> fst)"
  have "length (concat (map snd (trim_segments gs))) \<le> length (concat (map snd (rev (?d gs))))"
    unfolding trim_segments_def rv [of "?d (rev (?d gs))"] by (rule dw)
  also have "\<dots> \<le> length (concat (map snd gs))"
    unfolding rv by (rule dw)
  finally have "length (concat (map snd (trim_segments gs))) \<le> length (concat (map snd gs))" .
  then show ?thesis using Some utf8_segments_bytes [OF Some] by (simp add: trim_def)
qed

section \<open>Numbers\<close>

definition digit_val :: "byte \<Rightarrow> nat" where "digit_val c = code c - 48"

fun dec_val :: "nat \<Rightarrow> str \<Rightarrow> nat" where
  "dec_val acc [] = acc"
| "dec_val acc (c # cs) = dec_val (acc * 10 + digit_val c) cs"

text \<open>
  \<open>str::parse\<close> to an unsigned integer with largest value \<open>limit\<close>: one optional leading
  \<open>+\<close>, then at least one digit, no overflow.
\<close>

definition parse_unsigned :: "nat \<Rightarrow> str \<Rightarrow> nat option" where
  "parse_unsigned limit s =
     (let ds = (case s of c # r \<Rightarrow> if c = CHR ''+'' then r else s | [] \<Rightarrow> s)
      in if ds = [] \<or> \<not> list_all is_ascii_digit ds \<or> limit < dec_val 0 ds
         then None else Some (dec_val 0 ds))"

definition parse_u16 :: "str \<Rightarrow> nat option" where
  "parse_u16 = parse_unsigned 65535"

lemma parse_u16_le: "parse_u16 s = Some n \<Longrightarrow> n \<le> 65535"
  by (auto simp: parse_u16_def parse_unsigned_def Let_def split: if_splits list.splits)

lemma parse_u16_no_colon: "parse_u16 s = Some n \<Longrightarrow> CHR '':'' \<notin> set s"
  by (auto simp: parse_u16_def parse_unsigned_def Let_def list_all_iff is_ascii_digit_def code_def
      split: if_splits list.splits)

text \<open>Decimal rendering, as \<open>format!("{n}")\<close>.\<close>

fun show_nat :: "nat \<Rightarrow> str" where
  "show_nat n = (if n < 10 then [char_of (48 + n)] else show_nat (n div 10) @ [char_of (48 + n mod 10)])"

declare show_nat.simps [simp del]

lemma dec_val_append: "dec_val a (xs @ ys) = dec_val (dec_val a xs) ys"
  by (induction xs arbitrary: a) auto

lemma show_nat_digits: "show_nat n \<noteq> [] \<and> list_all is_ascii_digit (show_nat n) \<and> dec_val 0 (show_nat n) = n"
proof (induction n rule: show_nat.induct)
  case (1 n)
  show ?case
  proof (cases "n < 10")
    case True
    then show ?thesis
      by (simp add: show_nat.simps [of n] is_ascii_digit_def digit_val_def)
  next
    case False
    then show ?thesis
      using "1.IH" by (simp add: show_nat.simps [of n] is_ascii_digit_def digit_val_def dec_val_append)
  qed
qed

lemma parse_show_u16: "n \<le> 65535 \<Longrightarrow> parse_u16 (show_nat n) = Some n"
proof -
  assume n: "n \<le> 65535"
  obtain c r where cr: "show_nat n = c # r"
    using show_nat_digits [of n] by (cases "show_nat n") auto
  have "is_ascii_digit c" using show_nat_digits [of n] cr by simp
  then have "c \<noteq> CHR ''+''" by (auto simp: is_ascii_digit_def code_def)
  then show ?thesis
    using show_nat_digits [of n] n cr
    by (simp add: parse_u16_def parse_unsigned_def)
qed

section \<open>Hexadecimal\<close>

definition hex_digit :: "nat \<Rightarrow> byte" where
  "hex_digit n = (if n < 10 then char_of (48 + n) else char_of (87 + n))"

text \<open>\<open>format!("{byte:02x}")\<close>.\<close>

definition hex2 :: "byte \<Rightarrow> str" where
  "hex2 b = [hex_digit (code b div 16), hex_digit (code b mod 16)]"

definition to_hex :: "bytes \<Rightarrow> str" where
  "to_hex bs = concat (map hex2 bs)"

lemma length_to_hex [simp]: "length (to_hex bs) = 2 * length bs"
  by (induction bs) (auto simp: to_hex_def hex2_def)

lemma hex_digit_inject: "a < 16 \<Longrightarrow> b < 16 \<Longrightarrow> hex_digit a = hex_digit b \<longleftrightarrow> a = b"
  by (auto simp: hex_digit_def code_inject [symmetric] simp del: code_inject split: if_splits)

lemma hex2_inject [simp]: "hex2 a = hex2 b \<longleftrightarrow> a = b"
proof
  assume "hex2 a = hex2 b"
  moreover have "code a div 16 < 16" "code b div 16 < 16"
    by (simp_all add: less_mult_imp_div_less)
  ultimately have "code a div 16 = code b div 16" "code a mod 16 = code b mod 16"
    by (simp_all add: hex2_def hex_digit_inject)
  then have "code a = code b" by (metis div_mult_mod_eq)
  then show "a = b" by simp
qed simp

lemma to_hex_Cons: "to_hex (a # xs) = hex2 a @ to_hex xs"
  by (simp add: to_hex_def)

lemma to_hex_inject [simp]: "to_hex a = to_hex b \<longleftrightarrow> a = b"
proof (induction a arbitrary: b)
  case Nil
  then show ?case by (cases b) (auto simp: to_hex_def hex2_def)
next
  case (Cons x xs)
  show ?case
  proof (cases b)
    case Nil
    then show ?thesis by (simp add: to_hex_def hex2_def)
  next
    case b: (Cons y ys)
    have "length (hex2 x) = length (hex2 y)" by (simp add: hex2_def)
    then show ?thesis using b Cons.IH by (simp add: to_hex_Cons)
  qed
qed

lemma hex_digit_hexdigit: "n < 16 \<Longrightarrow> is_ascii_hexdigit (hex_digit n)"
  by (auto simp: hex_digit_def is_ascii_hexdigit_def is_ascii_digit_def)

lemma to_hex_hexdigits: "list_all is_ascii_hexdigit (to_hex bs)"
proof (induction bs)
  case Nil
  then show ?case by (simp add: to_hex_def)
next
  case (Cons b bs)
  have "code b div 16 < 16" "code b mod 16 < 16"
    by (simp_all add: less_mult_imp_div_less)
  then show ?case using Cons.IH by (simp add: to_hex_Cons hex2_def hex_digit_hexdigit)
qed

end
