(* ===== verification/Vault.thy ===== *)
theory Vault
  imports Text
begin

text \<open>
  The credential vault of \<open>crates/core/src/lib.rs\<close>: the rows it stores, its two views
  (redacted summaries, encrypted database records), every operation of \<open>impl Vault\<close>, and
  the file it persists to.

  The cryptographic and codec crates (\<open>aes-gcm\<close>, \<open>sha2\<close>, \<open>hex\<close>, \<open>base64\<close>) are not in the
  repository: they are the fields of a \<open>crypto\<close> record every operation takes, and
  \<open>crypto_ok\<close> names their documented behaviour. The clock, the fresh identifier, the random
  bytes and the outcome of the file write are the fields of an \<open>env\<close> record. The constant
  time operations of \<open>subtle\<close> have the values of equality and of a conditional.
\<close>

section \<open>What the vault relies on\<close>

record crypto =
  sha256 :: "bytes \<Rightarrow> bytes"
  hex_encode :: "bytes \<Rightarrow> str"
  hex_decode :: "str \<Rightarrow> bytes option"
  b64_encode :: "bytes \<Rightarrow> str"
  b64_decode :: "str \<Rightarrow> bytes option"
  aead_seal :: "bytes \<Rightarrow> bytes \<Rightarrow> bytes \<Rightarrow> bytes \<Rightarrow> bytes option"
  aead_open :: "bytes \<Rightarrow> bytes \<Rightarrow> bytes \<Rightarrow> bytes \<Rightarrow> bytes option"

definition crypto_ok :: "crypto \<Rightarrow> bool" where
  "crypto_ok c \<longleftrightarrow>
     (\<forall>b. length (sha256 c b) = 32) \<and>
     (\<forall>b. hex_decode c (hex_encode c b) = Some b) \<and>
     (\<forall>b. b64_decode c (b64_encode c b) = Some b) \<and>
     (\<forall>k n a p ct. aead_seal c k n a p = Some ct \<longrightarrow>
        aead_open c k n a ct = Some p \<and> length ct = length p + 16)"

datatype persist_io = Persist_ok | Fail_before_rename | Fail_after_rename

record env =
  env_now :: time
  env_uuid :: uuid
  env_random :: bytes
  env_io :: persist_io

section \<open>Stored rows and views\<close>

definition MAX_UPSTREAM_KEYS :: nat where "MAX_UPSTREAM_KEYS = 2"

definition PROFILES :: "str list" where
  "PROFILES =
     [''z-ai/glm-5.2'',
      ''microsoft/phi-4-multimodal-instruct'',
      ''nvidia/vila'',
      ''nvidia/nvclip'',
      ''black-forest-labs/flux.1-kontext-dev'',
      ''stabilityai/stable-video-diffusion'',
      ''nvidia/magpie-tts-multilingual'',
      ''nvidia/parakeet-ctc-1.1b'']"

record key_summary =
  ks_id :: uuid
  ks_label :: str
  ks_fingerprint :: str
  ks_enabled :: bool
  ks_verified :: bool
  ks_cooldown_until :: "time option"
  ks_request_count :: nat
  ks_failure_count :: nat

record downstream_summary_view =
  ds_id :: uuid
  ds_label :: str
  ds_scopes :: "str list"
  ds_active :: bool
  ds_request_count :: nat
  ds_last_used_at :: "time option"
  ds_created_at :: time
  ds_revoked_at :: "time option"

record downstream_identity =
  di_id :: uuid
  di_active :: bool

datatype downstream_auth_error = InvalidCredential | InsufficientScope

record issued_downstream =
  iss_summary :: downstream_summary_view
  iss_token :: str

record vault_key_record =
  kr_id :: uuid
  kr_label :: str
  kr_fingerprint :: bytes
  kr_nonce :: bytes
  kr_ciphertext :: bytes
  kr_enabled :: bool
  kr_verified :: bool
  kr_retired :: bool
  kr_cooldown_until :: "time option"
  kr_request_count :: nat
  kr_failure_count :: nat

record vault_downstream_record =
  dr_id :: uuid
  dr_label :: str
  dr_scopes :: "str list"
  dr_token_digest :: bytes
  dr_active :: bool
  dr_request_count :: nat
  dr_last_used_at :: "time option"
  dr_created_at :: time
  dr_revoked_at :: "time option"

record stored_key =
  sk_id :: uuid
  sk_label :: str
  sk_fingerprint :: str
  sk_nonce :: str
  sk_ciphertext :: str
  sk_enabled :: bool
  sk_verified :: bool
  sk_retired :: bool
  sk_cooldown_until :: "time option"
  sk_request_count :: nat
  sk_failure_count :: nat

record stored_downstream =
  sd_id :: uuid
  sd_label :: str
  sd_scopes :: "str list"
  sd_token_digest :: str
  sd_active :: bool
  sd_request_count :: nat
  sd_last_used_at :: "time option"
  sd_created_at :: time
  sd_revoked_at :: "time option"

record vault_file =
  vf_version :: nat
  vf_keys :: "stored_key list"
  vf_downstream :: "stored_downstream list"
  vf_router_cursor :: nat
  vf_router_cursors :: "str \<Rightarrow> nat option"

text \<open>What is at the vault's path; the JSON encoding of \<open>vault_file\<close> is \<open>serde\<close>'s.\<close>

datatype disk = Absent | Unreadable | Undecodable | Holds vault_file

record vault =
  v_master_key :: bytes
  v_state :: vault_file
  v_disk :: disk

datatype vault_error =
    Read_vault | Decode_vault | Unsupported_version | Too_many_upstreams
  | Duplicate_fingerprints | Invalid_upstream_row | Invalid_downstream_digest
  | Decode_fingerprint | Decode_nonce | Decode_ciphertext | Decode_digest
  | Label_invalid | Downstream_label_invalid | Credential_shape_invalid
  | Upstream_exists | Upstream_label_exists | Encryption_failed
  | Downstream_label_exists | Downstream_not_found | Scopes_invalid | Scopes_not_unique
  | Invalid_downstream_credential | Auth_error downstream_auth_error
  | Key_not_found | Probe_required | Key_cooling_down
  | Invalid_nonce | Decryption_failed | Credential_utf8 | Persist_failed

abbreviation v_keys :: "vault \<Rightarrow> stored_key list" where
  "v_keys v \<equiv> vf_keys (v_state v)"

abbreviation v_downstream :: "vault \<Rightarrow> stored_downstream list" where
  "v_downstream v \<equiv> vf_downstream (v_state v)"

definition set_keys :: "stored_key list \<Rightarrow> vault \<Rightarrow> vault" where
  "set_keys ks v = v\<lparr>v_state := (v_state v)\<lparr>vf_keys := ks\<rparr>\<rparr>"

definition set_downstream :: "stored_downstream list \<Rightarrow> vault \<Rightarrow> vault" where
  "set_downstream ds v = v\<lparr>v_state := (v_state v)\<lparr>vf_downstream := ds\<rparr>\<rparr>"

lemma set_keys_simps [simp]:
  "v_state (set_keys ks v) = (v_state v)\<lparr>vf_keys := ks\<rparr>"
  "v_disk (set_keys ks v) = v_disk v" "v_master_key (set_keys ks v) = v_master_key v"
  by (simp_all add: set_keys_def)

lemma set_downstream_simps [simp]:
  "v_state (set_downstream ds v) = (v_state v)\<lparr>vf_downstream := ds\<rparr>"
  "v_disk (set_downstream ds v) = v_disk v" "v_master_key (set_downstream ds v) = v_master_key v"
  by (simp_all add: set_downstream_def)

section \<open>Helpers of the module\<close>

definition summary :: "stored_key \<Rightarrow> key_summary" where
  "summary k =
     \<lparr>ks_id = sk_id k, ks_label = sk_label k, ks_fingerprint = sk_fingerprint k,
      ks_enabled = sk_enabled k, ks_verified = sk_verified k,
      ks_cooldown_until = sk_cooldown_until k, ks_request_count = sk_request_count k,
      ks_failure_count = sk_failure_count k\<rparr>"

definition downstream_summary :: "stored_downstream \<Rightarrow> downstream_summary_view" where
  "downstream_summary d =
     \<lparr>ds_id = sd_id d, ds_label = sd_label d, ds_scopes = sd_scopes d, ds_active = sd_active d,
      ds_request_count = sd_request_count d, ds_last_used_at = sd_last_used_at d,
      ds_created_at = sd_created_at d, ds_revoked_at = sd_revoked_at d\<rparr>"

definition fingerprint :: "crypto \<Rightarrow> bytes \<Rightarrow> str" where
  "fingerprint c value = to_hex (sha256 c value)"

definition valid_upstream_credential :: "str \<Rightarrow> bool" where
  "valid_upstream_credential value \<longleftrightarrow>
     38 \<le> length value \<and> length value \<le> 198 \<and> starts_with ''nvapi-'' value \<and>
     list_all (\<lambda>b. is_ascii_alphanumeric b \<or> b = CHR ''_'' \<or> b = CHR ''-'') (drop 6 value)"

definition validate_label :: "str \<Rightarrow> vault_error + unit" where
  "validate_label label =
     (let count = length (chars label) in
      if \<not> (1 \<le> count \<and> count \<le> 128) \<or> trim label \<noteq> label
         \<or> list_ex is_control (chars label)
      then Err Label_invalid else Ok ())"

definition validate_downstream_label :: "str \<Rightarrow> vault_error + unit" where
  "validate_downstream_label label =
     bind_ok (validate_label label)
       (\<lambda>_. if length (chars label) > 120 then Err Downstream_label_invalid else Ok ())"

definition SCOPES :: "str list" where
  "SCOPES =
     [''models:read'', ''chat:write'', ''embeddings:write'', ''images:write'', ''audio:write'',
      ''media:write'']"

text \<open>The sort key of \<open>sort_by_key\<close>: the scope's position, or \<open>usize::MAX\<close>.\<close>

definition scope_rank :: "str \<Rightarrow> nat" where
  "scope_rank s = (case List.find (\<lambda>i. SCOPES ! i = s) [0..<6] of None \<Rightarrow> u64_max | Some i \<Rightarrow> i)"

definition canonical_scopes :: "str list \<Rightarrow> vault_error + str list" where
  "canonical_scopes scopes =
     (if scopes = [] \<or> length scopes > 6 \<or> list_ex (\<lambda>s. s \<notin> set SCOPES) scopes
      then Err Scopes_invalid
      else (let result = remdups_adj (sort_key scope_rank scopes) in
            if length result \<noteq> length scopes then Err Scopes_not_unique else Ok result))"

text \<open>
  \<open>Vault::persist\<close>: write a temporary file, sync it, restrict its mode, rename it over the
  vault, sync the directory. A failure before the rename leaves the old file in place, one
  after it (the directory sync) reports an error with the new file already committed.
\<close>

definition persist :: "persist_io \<Rightarrow> vault \<Rightarrow> (vault_error + unit) \<times> vault" where
  "persist i v =
     (case i of
        Persist_ok \<Rightarrow> (Ok (), v\<lparr>v_disk := Holds (v_state v)\<rparr>)
      | Fail_before_rename \<Rightarrow> (Err Persist_failed, v)
      | Fail_after_rename \<Rightarrow> (Err Persist_failed, v\<lparr>v_disk := Holds (v_state v)\<rparr>))"

text \<open>\<open>self.persist()?; Ok(result)\<close>, the common end of the mutating operations.\<close>

definition commit :: "env \<Rightarrow> 'a \<Rightarrow> vault \<Rightarrow> (vault_error + 'a) \<times> vault" where
  "commit e r v =
     (case persist (env_io e) v of (Inl er, v') \<Rightarrow> (Err er, v') | (Inr _, v') \<Rightarrow> (Ok r, v'))"

lemma persist_state [simp]: "v_state (snd (persist i v)) = v_state v"
  by (simp add: persist_def split: persist_io.splits)

lemma commit_state [simp]: "v_state (snd (commit e r v)) = v_state v"
  by (simp add: commit_def persist_def split: persist_io.splits)

lemma commit_key [simp]: "v_master_key (snd (commit e r v)) = v_master_key v"
  by (simp add: commit_def persist_def split: persist_io.splits)

lemma commit_fst: "fst (commit e r v) = (if env_io e = Persist_ok then Ok r else Err Persist_failed)"
  by (simp add: commit_def persist_def split: persist_io.splits)

lemma commit_Ok_disk: "fst (commit e r v) = Ok x \<Longrightarrow> v_disk (snd (commit e r v)) = Holds (v_state v)"
  by (auto simp: commit_def persist_def split: persist_io.splits)

section \<open>Opening and the database records\<close>

definition active_keys :: "stored_key list \<Rightarrow> stored_key list" where
  "active_keys ks = filter (\<lambda>k. \<not> sk_retired k) ks"

definition vault_open :: "disk \<Rightarrow> bytes \<Rightarrow> vault_error + vault" where
  "vault_open d key =
     bind_ok
       (case d of
          Unreadable \<Rightarrow> Err Read_vault
        | Undecodable \<Rightarrow> Err Decode_vault
        | Holds s \<Rightarrow> Ok s
        | Absent \<Rightarrow> Ok \<lparr>vf_version = 1, vf_keys = [], vf_downstream = [],
                         vf_router_cursor = 0, vf_router_cursors = Map.empty\<rparr>)
       (\<lambda>s. if vf_version s \<noteq> 1 then Err Unsupported_version
            else if MAX_UPSTREAM_KEYS < length (active_keys (vf_keys s)) then Err Too_many_upstreams
            else if \<not> distinct (map sk_fingerprint (vf_keys s)) then Err Duplicate_fingerprints
            else Ok \<lparr>v_master_key = key, v_state = s, v_disk = d\<rparr>)"

definition stored_of_key_record :: "crypto \<Rightarrow> vault_key_record \<Rightarrow> vault_error + stored_key" where
  "stored_of_key_record c r =
     (if length (kr_nonce r) \<noteq> 12 \<or> length (kr_ciphertext r) \<le> 16 \<or> length (kr_fingerprint r) \<noteq> 32
      then Err Invalid_upstream_row
      else Ok \<lparr>sk_id = kr_id r, sk_label = kr_label r,
               sk_fingerprint = hex_encode c (kr_fingerprint r),
               sk_nonce = b64_encode c (kr_nonce r),
               sk_ciphertext = b64_encode c (kr_ciphertext r),
               sk_enabled = kr_enabled r, sk_verified = kr_verified r, sk_retired = kr_retired r,
               sk_cooldown_until = kr_cooldown_until r,
               sk_request_count = kr_request_count r, sk_failure_count = kr_failure_count r\<rparr>)"

definition stored_of_downstream_record ::
    "crypto \<Rightarrow> vault_downstream_record \<Rightarrow> vault_error + stored_downstream" where
  "stored_of_downstream_record c r =
     (if length (dr_token_digest r) \<noteq> 32 then Err Invalid_downstream_digest
      else Ok \<lparr>sd_id = dr_id r, sd_label = dr_label r, sd_scopes = dr_scopes r,
               sd_token_digest = hex_encode c (dr_token_digest r), sd_active = dr_active r,
               sd_request_count = dr_request_count r, sd_last_used_at = dr_last_used_at r,
               sd_created_at = dr_created_at r, sd_revoked_at = dr_revoked_at r\<rparr>)"

text \<open>The loop that inserts each fingerprint in a set, stopping at the first bad row.\<close>

fun fingerprints_distinct :: "bytes list \<Rightarrow> vault_key_record list \<Rightarrow> bool" where
  "fingerprints_distinct seen [] = True"
| "fingerprints_distinct seen (r # rs) =
     (if length (kr_fingerprint r) \<noteq> 32 \<or> kr_fingerprint r \<in> set seen then False
      else fingerprints_distinct (kr_fingerprint r # seen) rs)"

definition from_records_with_cursors ::
    "crypto \<Rightarrow> disk \<Rightarrow> bytes \<Rightarrow> vault_key_record list \<Rightarrow> vault_downstream_record list \<Rightarrow>
     (str \<Rightarrow> nat option) \<Rightarrow> vault_error + vault" where
  "from_records_with_cursors c d key krs drs cursors =
     (if MAX_UPSTREAM_KEYS < length (filter (\<lambda>r. \<not> kr_retired r) krs) then Err Too_many_upstreams
      else if \<not> fingerprints_distinct [] krs then Err Duplicate_fingerprints
      else bind_ok (collect_results (map (stored_of_key_record c) krs))
        (\<lambda>ks. bind_ok (collect_results (map (stored_of_downstream_record c) drs))
          (\<lambda>ds. Ok \<lparr>v_master_key = key,
                    v_state = \<lparr>vf_version = 1, vf_keys = ks, vf_downstream = ds,
                               vf_router_cursor = unwrap_or 0 (cursors ''__legacy__''),
                               vf_router_cursors = cursors\<rparr>,
                    v_disk = d\<rparr>)))"

definition from_records ::
    "crypto \<Rightarrow> disk \<Rightarrow> bytes \<Rightarrow> vault_key_record list \<Rightarrow> vault_downstream_record list \<Rightarrow>
     nat \<Rightarrow> vault_error + vault" where
  "from_records c d key krs drs cursor =
     from_records_with_cursors c d key krs drs [''__legacy__'' \<mapsto> cursor]"

definition key_record_of_stored :: "crypto \<Rightarrow> stored_key \<Rightarrow> vault_error + vault_key_record" where
  "key_record_of_stored c k =
     bind_ok (ok_or Decode_fingerprint (hex_decode c (sk_fingerprint k)))
       (\<lambda>fp. bind_ok (ok_or Decode_nonce (b64_decode c (sk_nonce k)))
         (\<lambda>n. bind_ok (ok_or Decode_ciphertext (b64_decode c (sk_ciphertext k)))
           (\<lambda>ct. Ok \<lparr>kr_id = sk_id k, kr_label = sk_label k, kr_fingerprint = fp, kr_nonce = n,
                     kr_ciphertext = ct, kr_enabled = sk_enabled k, kr_verified = sk_verified k,
                     kr_retired = sk_retired k, kr_cooldown_until = sk_cooldown_until k,
                     kr_request_count = sk_request_count k,
                     kr_failure_count = sk_failure_count k\<rparr>)))"

definition key_records :: "crypto \<Rightarrow> vault \<Rightarrow> vault_error + vault_key_record list" where
  "key_records c v = collect_results (map (key_record_of_stored c) (v_keys v))"

definition downstream_record_of_stored ::
    "crypto \<Rightarrow> stored_downstream \<Rightarrow> vault_error + vault_downstream_record" where
  "downstream_record_of_stored c d =
     bind_ok (ok_or Decode_digest (hex_decode c (sd_token_digest d)))
       (\<lambda>dg. Ok \<lparr>dr_id = sd_id d, dr_label = sd_label d, dr_scopes = sd_scopes d,
                 dr_token_digest = dg, dr_active = sd_active d,
                 dr_request_count = sd_request_count d, dr_last_used_at = sd_last_used_at d,
                 dr_created_at = sd_created_at d, dr_revoked_at = sd_revoked_at d\<rparr>)"

definition downstream_records :: "crypto \<Rightarrow> vault \<Rightarrow> vault_error + vault_downstream_record list" where
  "downstream_records c v = collect_results (map (downstream_record_of_stored c) (v_downstream v))"

section \<open>Upstream credentials\<close>

text \<open>The slot \<open>add\<close> may recycle: the first active row an operator has disabled.\<close>

definition retire_replaced :: "stored_key list \<Rightarrow> stored_key list" where
  "retire_replaced ks =
     update_first (\<lambda>k. \<not> sk_retired k \<and> \<not> sk_enabled k)
       (\<lambda>k. k\<lparr>sk_retired := True, sk_enabled := False\<rparr>) ks"

definition new_key :: "crypto \<Rightarrow> env \<Rightarrow> str \<Rightarrow> str \<Rightarrow> bytes \<Rightarrow> stored_key" where
  "new_key c e label credential payload =
     \<lparr>sk_id = env_uuid e, sk_label = label, sk_fingerprint = fingerprint c credential,
      sk_nonce = b64_encode c (env_random e), sk_ciphertext = b64_encode c payload,
      sk_enabled = False, sk_verified = False, sk_retired = False, sk_cooldown_until = None,
      sk_request_count = 0, sk_failure_count = 0\<rparr>"

definition add :: "crypto \<Rightarrow> env \<Rightarrow> str \<Rightarrow> str \<Rightarrow> vault \<Rightarrow> (vault_error + key_summary) \<times> vault" where
  "add c e label credential v =
     (case validate_label label of
        Inl er \<Rightarrow> (Err er, v)
      | Inr _ \<Rightarrow>
        if \<not> valid_upstream_credential credential then (Err Credential_shape_invalid, v)
        else if list_ex (\<lambda>k. sk_fingerprint k = fingerprint c credential) (v_keys v)
        then (Err Upstream_exists, v)
        else if list_ex (\<lambda>k. \<not> sk_retired k \<and> sk_label k = label) (v_keys v)
        then (Err Upstream_label_exists, v)
        else
          (let full = (MAX_UPSTREAM_KEYS \<le> length (active_keys (v_keys v)));
               replaceable = list_ex (\<lambda>k. \<not> sk_retired k \<and> \<not> sk_enabled k) (v_keys v)
           in if full \<and> \<not> replaceable then (Err Too_many_upstreams, v)
              else
                (let v1 = (if full then set_keys (retire_replaced (v_keys v)) v else v)
                 in case aead_seal c (v_master_key v) (env_random e) (env_uuid e) credential of
                      None \<Rightarrow> (Err Encryption_failed, v1)
                    | Some payload \<Rightarrow>
                        (let entry = new_key c e label credential payload
                         in commit e (summary entry) (set_keys (v_keys v1 @ [entry]) v1)))))"

text \<open>\<open>Vault::list\<close>: the summaries of the rows that are not retired.\<close>

definition vault_list :: "vault \<Rightarrow> key_summary list" where
  "vault_list v = map summary (active_keys (v_keys v))"

definition is_retired :: "uuid \<Rightarrow> vault \<Rightarrow> bool" where
  "is_retired i v = is_none_or sk_retired (List.find (\<lambda>k. sk_id k = i) (v_keys v))"

text \<open>
  The shape shared by the operations on one row: find it, check it, write it in place,
  persist, return. \<open>p\<close> is the search condition, \<open>chk\<close> the early returns after it, \<open>f\<close> the
  assignments, \<open>r\<close> the returned value.
\<close>

definition with_key ::
    "(stored_key \<Rightarrow> bool) \<Rightarrow> (stored_key \<Rightarrow> vault_error option) \<Rightarrow> (stored_key \<Rightarrow> stored_key) \<Rightarrow>
     (stored_key \<Rightarrow> 'a) \<Rightarrow> env \<Rightarrow> vault \<Rightarrow> (vault_error + 'a) \<times> vault" where
  "with_key p chk f r e v =
     (case List.find p (v_keys v) of
        None \<Rightarrow> (Err Key_not_found, v)
      | Some k \<Rightarrow>
          (case chk k of
             Some er \<Rightarrow> (Err er, v)
           | None \<Rightarrow> commit e (r (f k)) (set_keys (update_first p f (v_keys v)) v)))"

definition live_key :: "uuid \<Rightarrow> stored_key \<Rightarrow> bool" where
  "live_key i k = (sk_id k = i \<and> \<not> sk_retired k)"

definition any_key :: "uuid \<Rightarrow> stored_key \<Rightarrow> bool" where
  "any_key i k = (sk_id k = i)"

definition enable_check :: "time \<Rightarrow> bool \<Rightarrow> stored_key \<Rightarrow> vault_error option" where
  "enable_check now enabled k =
     (if enabled \<and> \<not> sk_verified k then Some Probe_required
      else if enabled \<and> is_some_and (\<lambda>until. until > now) (sk_cooldown_until k)
      then Some Key_cooling_down
      else None)"

definition set_enabled :: "env \<Rightarrow> uuid \<Rightarrow> bool \<Rightarrow> vault \<Rightarrow> (vault_error + key_summary) \<times> vault" where
  "set_enabled e i enabled v =
     with_key (live_key i) (enable_check (env_now e) enabled) (sk_enabled_update (\<lambda>_. enabled))
       summary e v"

definition verified_row :: "stored_key \<Rightarrow> stored_key" where
  "verified_row k = k\<lparr>sk_verified := True, sk_cooldown_until := None, sk_failure_count := 0\<rparr>"

definition mark_verified :: "env \<Rightarrow> uuid \<Rightarrow> vault \<Rightarrow> (vault_error + key_summary) \<times> vault" where
  "mark_verified e i v = with_key (live_key i) (\<lambda>_. None) verified_row summary e v"

definition retired_row :: "stored_key \<Rightarrow> stored_key" where
  "retired_row k =
     k\<lparr>sk_retired := True, sk_enabled := False, sk_verified := False, sk_cooldown_until := None\<rparr>"

definition delete :: "env \<Rightarrow> uuid \<Rightarrow> vault \<Rightarrow> (vault_error + unit) \<times> vault" where
  "delete e i v = with_key (live_key i) (\<lambda>_. None) retired_row (\<lambda>_. ()) e v"

definition quarantined_row :: "stored_key \<Rightarrow> stored_key" where
  "quarantined_row k =
     k\<lparr>sk_enabled := False, sk_verified := False, sk_cooldown_until := None,
       sk_failure_count := 0\<rparr>"

definition quarantine :: "env \<Rightarrow> uuid \<Rightarrow> vault \<Rightarrow> (vault_error + key_summary) \<times> vault" where
  "quarantine e i v = with_key (live_key i) (\<lambda>_. None) quarantined_row summary e v"

definition credential :: "crypto \<Rightarrow> uuid \<Rightarrow> vault \<Rightarrow> vault_error + str" where
  "credential c i v =
     (case List.find (any_key i) (v_keys v) of
        None \<Rightarrow> Err Key_not_found
      | Some k \<Rightarrow>
          bind_ok (ok_or Decode_nonce (b64_decode c (sk_nonce k)))
            (\<lambda>nonce. if length nonce \<noteq> 12 then Err Invalid_nonce
               else bind_ok (ok_or Decode_ciphertext (b64_decode c (sk_ciphertext k)))
                 (\<lambda>ct. bind_ok (ok_or Decryption_failed (aead_open c (v_master_key v) nonce i ct))
                   (\<lambda>pt. if valid_utf8 pt then Ok pt else Err Credential_utf8))))"

definition requested_row :: "stored_key \<Rightarrow> stored_key" where
  "requested_row k =
     k\<lparr>sk_request_count := sat_add_u64 (sk_request_count k) 1, sk_failure_count := 0,
       sk_cooldown_until := None\<rparr>"

definition record_request :: "env \<Rightarrow> uuid \<Rightarrow> vault \<Rightarrow> (vault_error + unit) \<times> vault" where
  "record_request e i v = with_key (any_key i) (\<lambda>_. None) requested_row (\<lambda>_. ()) e v"

text \<open>
  The delay of one failure: the provider's hint clamped to 0..300 s, or \<open>1 << min(count, 6)\<close>
  seconds of the counter just incremented.
\<close>

definition failure_delay :: "duration option \<Rightarrow> nat \<Rightarrow> duration" where
  "failure_delay retry_after failures =
     (case retry_after of
        Some d \<Rightarrow> clamp (secs 0) (secs 300) d
      | None \<Rightarrow> secs (2 ^ min failures 6))"

definition failed_row :: "time \<Rightarrow> duration option \<Rightarrow> stored_key \<Rightarrow> stored_key" where
  "failed_row now retry_after k =
     (let failures = sat_add_u64 (sk_failure_count k) 1;
          until = now + failure_delay retry_after failures
      in if sk_retired k then k\<lparr>sk_failure_count := failures, sk_cooldown_until := None\<rparr>
         else k\<lparr>sk_failure_count := failures,
                sk_cooldown_until :=
                  Some (case sk_cooldown_until k of None \<Rightarrow> until | Some old \<Rightarrow> max old until)\<rparr>)"

definition record_failure ::
    "env \<Rightarrow> uuid \<Rightarrow> duration option \<Rightarrow> vault \<Rightarrow> (vault_error + unit) \<times> vault" where
  "record_failure e i retry_after v =
     with_key (any_key i) (\<lambda>_. None) (failed_row (env_now e) retry_after) (\<lambda>_. ()) e v"

definition persist_for_rollback :: "env \<Rightarrow> vault \<Rightarrow> (vault_error + unit) \<times> vault" where
  "persist_for_rollback e v = persist (env_io e) v"

section \<open>Routing cursors\<close>

definition router_cursor :: "vault \<Rightarrow> nat" where
  "router_cursor v = unwrap_or (vf_router_cursor (v_state v)) (vf_router_cursors (v_state v) ''__legacy__'')"

definition set_router_cursor :: "env \<Rightarrow> nat \<Rightarrow> vault \<Rightarrow> (vault_error + unit) \<times> vault" where
  "set_router_cursor e cursor v =
     persist (env_io e)
       (v\<lparr>v_state := (v_state v)\<lparr>vf_router_cursor := cursor,
            vf_router_cursors := (vf_router_cursors (v_state v))(''__legacy__'' \<mapsto> cursor)\<rparr>\<rparr>)"

definition router_cursor_for :: "str \<Rightarrow> vault \<Rightarrow> nat" where
  "router_cursor_for profile v =
     (case vf_router_cursors (v_state v) profile of
        Some n \<Rightarrow> n
      | None \<Rightarrow> unwrap_or (vf_router_cursor (v_state v)) (vf_router_cursors (v_state v) ''__legacy__''))"

definition set_router_cursor_for :: "env \<Rightarrow> str \<Rightarrow> nat \<Rightarrow> vault \<Rightarrow> (vault_error + unit) \<times> vault" where
  "set_router_cursor_for e profile cursor v =
     persist (env_io e)
       (v\<lparr>v_state := (v_state v)\<lparr>vf_router_cursors :=
            (vf_router_cursors (v_state v))(profile \<mapsto> cursor)\<rparr>\<rparr>)"

section \<open>Downstream credentials\<close>

definition issued_token :: "crypto \<Rightarrow> env \<Rightarrow> str" where
  "issued_token c e = ''nblb_ds_'' @ hex_encode c (env_random e)"

definition issue_downstream ::
    "crypto \<Rightarrow> env \<Rightarrow> str \<Rightarrow> str list \<Rightarrow> vault \<Rightarrow> (vault_error + issued_downstream) \<times> vault" where
  "issue_downstream c e label requested v =
     (case bind_ok (validate_downstream_label label) (\<lambda>_. canonical_scopes requested) of
        Inl er \<Rightarrow> (Err er, v)
      | Inr scopes \<Rightarrow>
          if list_ex (\<lambda>d. sd_active d \<and> sd_label d = label) (v_downstream v)
          then (Err Downstream_label_exists, v)
          else
            (let token = issued_token c e;
                 entry = \<lparr>sd_id = env_uuid e, sd_label = label, sd_scopes = scopes,
                          sd_token_digest = fingerprint c token, sd_active = True,
                          sd_request_count = 0, sd_last_used_at = None,
                          sd_created_at = env_now e, sd_revoked_at = None\<rparr>
             in commit e \<lparr>iss_summary = downstream_summary entry, iss_token = token\<rparr>
                  (set_downstream (v_downstream v @ [entry]) v)))"

definition list_downstream :: "vault \<Rightarrow> downstream_summary_view list" where
  "list_downstream v = map downstream_summary (v_downstream v)"

definition with_downstream ::
    "(stored_downstream \<Rightarrow> bool) \<Rightarrow> vault_error \<Rightarrow> (stored_downstream \<Rightarrow> stored_downstream) \<Rightarrow>
     (stored_downstream \<Rightarrow> 'a) \<Rightarrow> env \<Rightarrow> vault \<Rightarrow> (vault_error + 'a) \<times> vault" where
  "with_downstream p missing f r e v =
     (case List.find p (v_downstream v) of
        None \<Rightarrow> (Err missing, v)
      | Some d \<Rightarrow> commit e (r (f d)) (set_downstream (update_first p f (v_downstream v)) v))"

definition live_downstream :: "uuid \<Rightarrow> stored_downstream \<Rightarrow> bool" where
  "live_downstream i d = (sd_id d = i \<and> sd_active d)"

definition revoked_row :: "time \<Rightarrow> stored_downstream \<Rightarrow> stored_downstream" where
  "revoked_row now d = d\<lparr>sd_active := False, sd_revoked_at := Some now\<rparr>"

text \<open>Revoking an already revoked credential changes and persists nothing.\<close>

definition revoke_downstream ::
    "env \<Rightarrow> uuid \<Rightarrow> vault \<Rightarrow> (vault_error + downstream_summary_view) \<times> vault" where
  "revoke_downstream e i v =
     (case List.find (\<lambda>d. sd_id d = i) (v_downstream v) of
        None \<Rightarrow> (Err Downstream_not_found, v)
      | Some d \<Rightarrow>
          if sd_active d
          then commit e (downstream_summary (revoked_row (env_now e) d))
                 (set_downstream
                    (update_first (\<lambda>d. sd_id d = i) (revoked_row (env_now e)) (v_downstream v)) v)
          else (Ok (downstream_summary d), v))"

definition rotate_downstream ::
    "crypto \<Rightarrow> env \<Rightarrow> uuid \<Rightarrow> vault \<Rightarrow> (vault_error + issued_downstream) \<times> vault" where
  "rotate_downstream c e i v =
     (let token = issued_token c e
      in with_downstream (live_downstream i) Downstream_not_found
           (sd_token_digest_update (\<lambda>_. fingerprint c token))
           (\<lambda>d. \<lparr>iss_summary = downstream_summary d, iss_token = token\<rparr>) e v)"

definition update_downstream_scopes ::
    "env \<Rightarrow> uuid \<Rightarrow> str list \<Rightarrow> vault \<Rightarrow> (vault_error + downstream_summary_view) \<times> vault" where
  "update_downstream_scopes e i requested v =
     (case canonical_scopes requested of
        Inl er \<Rightarrow> (Err er, v)
      | Inr scopes \<Rightarrow>
          with_downstream (live_downstream i) Downstream_not_found
            (sd_scopes_update (\<lambda>_. scopes)) downstream_summary e v)"

text \<open>
  \<open>identify_downstream\<close> scans every row without an early exit: the identity selected is that
  of the last row whose digest matches.
\<close>

definition select_byte :: "bool \<Rightarrow> byte \<Rightarrow> byte \<Rightarrow> byte" where
  "select_byte matched selected candidate = (if matched then candidate else selected)"

definition identify_step ::
    "str \<Rightarrow> uuid \<times> bool \<times> bool \<Rightarrow> stored_downstream \<Rightarrow> uuid \<times> bool \<times> bool" where
  "identify_step digest acc d =
     (case acc of (selected, active, found) \<Rightarrow>
        (let matched = (sd_token_digest d = digest)
         in (map2 (select_byte matched) selected (sd_id d),
             if matched then sd_active d else active,
             found \<or> matched)))"

definition identify_downstream ::
    "crypto \<Rightarrow> str \<Rightarrow> vault \<Rightarrow> downstream_auth_error + downstream_identity" where
  "identify_downstream c token v =
     (case foldl (identify_step (fingerprint c token))
             (replicate 16 (CHR 0x00), False, False) (v_downstream v) of
        (selected, active, found) \<Rightarrow>
          if token = [] \<or> \<not> starts_with ''nblb_ds_'' token \<or> \<not> found
          then Err InvalidCredential
          else Ok \<lparr>di_id = selected, di_active = active\<rparr>)"

definition require_downstream_scope ::
    "uuid \<Rightarrow> str \<Rightarrow> vault \<Rightarrow> downstream_auth_error + unit" where
  "require_downstream_scope i required v =
     (case List.find (\<lambda>d. sd_id d = i) (v_downstream v) of
        None \<Rightarrow> Err InvalidCredential
      | Some d \<Rightarrow> if required \<notin> set (sd_scopes d) then Err InsufficientScope else Ok ())"

definition used_row :: "time \<Rightarrow> stored_downstream \<Rightarrow> stored_downstream" where
  "used_row used_at d =
     d\<lparr>sd_request_count := sat_add_u64 (sd_request_count d) 1, sd_last_used_at := Some used_at\<rparr>"

definition record_downstream_use ::
    "env \<Rightarrow> uuid \<Rightarrow> time \<Rightarrow> vault \<Rightarrow> (vault_error + downstream_summary_view) \<times> vault" where
  "record_downstream_use e i used_at v =
     with_downstream (live_downstream i) Invalid_downstream_credential (used_row used_at)
       downstream_summary e v"

definition authenticate_downstream ::
    "crypto \<Rightarrow> env \<Rightarrow> str \<Rightarrow> str \<Rightarrow> vault \<Rightarrow> (vault_error + downstream_summary_view) \<times> vault" where
  "authenticate_downstream c e token required v =
     (case identify_downstream c token v of
        Inl er \<Rightarrow> (Err (Auth_error er), v)
      | Inr ident \<Rightarrow>
          if \<not> di_active ident then (Err (Auth_error InvalidCredential), v)
          else (case require_downstream_scope (di_id ident) required v of
                  Inl er \<Rightarrow> (Err (Auth_error er), v)
                | Inr _ \<Rightarrow> record_downstream_use e (di_id ident) (env_now e) v))"

end
