(* ===== verification/Vault_Inv.thy ===== *)
theory Vault_Inv
  imports Vault
begin

text \<open>
  What every reachable vault satisfies, whatever the order of operations, failed writes and
  restarts: at most two active upstream rows, distinct fingerprints and identifiers, no row
  eligible for routing without a probe receipt, distinct labels among the active rows of each
  kind, canonical scopes, and a revocation time exactly on the revoked credentials.
  The operations on one row go through the locale \<open>row_update\<close>, interpreted on each of them.
\<close>

section \<open>Scopes\<close>

definition scopes_canonical :: "str list \<Rightarrow> bool" where
  "scopes_canonical s \<longleftrightarrow> s \<noteq> [] \<and> s = filter (\<lambda>x. x \<in> set s) SCOPES"

lemma SCOPES_distinct: "distinct SCOPES"
  by (simp add: SCOPES_def)

lemma SCOPES_rank: "map scope_rank SCOPES = [0..<6]"
  by (simp add: SCOPES_def scope_rank_def upt_conv_Cons)

lemma SCOPES_rank_sorted: "sorted (map scope_rank SCOPES)"
  by (simp add: SCOPES_rank)

lemma inj_scope_rank: "inj_on scope_rank (set SCOPES)"
proof -
  have "distinct (map scope_rank SCOPES)" by (simp add: SCOPES_rank)
  then show ?thesis by (simp add: distinct_map)
qed

lemma remdups_adj_length_distinct:
  assumes "sorted (map f xs)" "inj_on f (set xs)" "length (remdups_adj xs) = length xs"
  shows "distinct xs"
  using assms
proof (induction xs rule: remdups_adj.induct)
  case (3 x y ys)
  have ne: "x \<noteq> y"
  proof
    assume "x = y"
    then have "length (remdups_adj (y # ys)) = Suc (length (y # ys))" using "3.prems"(3) by simp
    then show False using remdups_adj_length [of "y # ys"] by simp
  qed
  have "inj_on f (set (y # ys))" using inj_on_subset [OF "3.prems"(2)] by auto
  moreover have "sorted (map f (y # ys))" using "3.prems"(1) by simp
  moreover have "length (remdups_adj (y # ys)) = length (y # ys)" using "3.prems"(3) ne by simp
  ultimately have d: "distinct (y # ys)" using "3.IH"(2) [OF ne] by blast
  have "f x < f z" if "z \<in> set (y # ys)" for z
  proof -
    have "f x \<le> f y" "f y \<le> f z" using "3.prems"(1) that by auto
    moreover have "f x \<noteq> f y" using ne "3.prems"(2) by (auto simp: inj_on_def)
    ultimately show ?thesis by order
  qed
  then have "x \<notin> set (y # ys)" by blast
  then show ?case using d by simp
qed auto

lemma sort_key_eq_filter:
  assumes "distinct xs" "set xs \<subseteq> set SCOPES"
  shows "sort_key scope_rank xs = filter (\<lambda>x. x \<in> set xs) SCOPES"
proof (rule map_sorted_distinct_set_unique [where f = scope_rank])
  let ?ys = "filter (\<lambda>x. x \<in> set xs) SCOPES"
  show "inj_on scope_rank (set (sort_key scope_rank xs) \<union> set ?ys)"
    by (rule inj_on_subset [OF inj_scope_rank]) (use assms in auto)
  show "sorted (map scope_rank (sort_key scope_rank xs))" by simp
  show "sorted (map scope_rank ?ys)"
    using SCOPES_rank_sorted by (rule sorted_filter)
  show "distinct (map scope_rank (sort_key scope_rank xs))"
    using assms inj_scope_rank by (auto simp: distinct_map intro: inj_on_subset)
  show "distinct (map scope_rank ?ys)"
    using SCOPES_distinct inj_scope_rank by (auto simp: distinct_map intro: inj_on_subset)
  show "set (sort_key scope_rank xs) = set ?ys" using assms by auto
qed

lemma canonical_scopes_Ok:
  "canonical_scopes scopes = Ok r \<longleftrightarrow>
     scopes \<noteq> [] \<and> distinct scopes \<and> set scopes \<subseteq> set SCOPES \<and>
     r = filter (\<lambda>x. x \<in> set scopes) SCOPES"
proof
  assume ok: "canonical_scopes scopes = Ok r"
  then have ne: "scopes \<noteq> []" and sub: "set scopes \<subseteq> set SCOPES"
    and len: "length (remdups_adj (sort_key scope_rank scopes)) = length scopes"
    and r: "r = remdups_adj (sort_key scope_rank scopes)"
    by (auto simp: canonical_scopes_def Let_def list_ex_iff split: if_splits)
  have "distinct (sort_key scope_rank scopes)"
    by (rule remdups_adj_length_distinct [where f = scope_rank])
      (use sub len inj_scope_rank in \<open>auto intro: inj_on_subset\<close>)
  then have d: "distinct scopes" by simp
  then have "r = sort_key scope_rank scopes" using r by (simp add: remdups_adj_distinct)
  then show "scopes \<noteq> [] \<and> distinct scopes \<and> set scopes \<subseteq> set SCOPES \<and>
      r = filter (\<lambda>x. x \<in> set scopes) SCOPES"
    using ne d sub sort_key_eq_filter [OF d sub] by simp
next
  assume a: "scopes \<noteq> [] \<and> distinct scopes \<and> set scopes \<subseteq> set SCOPES \<and>
      r = filter (\<lambda>x. x \<in> set scopes) SCOPES"
  then have "card (set scopes) \<le> card (set SCOPES)" by (auto intro: card_mono)
  then have len: "length scopes \<le> 6"
    using a SCOPES_distinct by (simp add: distinct_card SCOPES_def)
  have "remdups_adj (sort_key scope_rank scopes) = r"
    using a sort_key_eq_filter [of scopes] by (simp add: remdups_adj_distinct SCOPES_distinct)
  moreover have "length r = length scopes"
    using a sort_key_eq_filter [of scopes] by (metis length_sort)
  ultimately show "canonical_scopes scopes = Ok r"
    using a len by (auto simp: canonical_scopes_def Let_def list_ex_iff)
qed

lemma canonical_scopes_canonical: "canonical_scopes scopes = Ok r \<Longrightarrow> scopes_canonical r"
proof -
  assume "canonical_scopes scopes = Ok r"
  then have ne: "scopes \<noteq> []" and sub: "set scopes \<subseteq> set SCOPES"
    and r: "r = filter (\<lambda>x. x \<in> set scopes) SCOPES"
    by (simp_all add: canonical_scopes_Ok)
  from sub r have sr: "set r = set scopes" by auto
  with ne have "r \<noteq> []" by auto
  then show ?thesis using r sr by (simp add: scopes_canonical_def)
qed

section \<open>The invariant\<close>

definition row_ok :: "stored_key \<Rightarrow> bool" where
  "row_ok k \<longleftrightarrow> (sk_enabled k \<longrightarrow> sk_verified k) \<and> (sk_retired k \<longrightarrow> \<not> sk_enabled k)"

definition keys_inv :: "stored_key list \<Rightarrow> bool" where
  "keys_inv ks \<longleftrightarrow>
     length (active_keys ks) \<le> MAX_UPSTREAM_KEYS \<and>
     distinct (map sk_fingerprint ks) \<and>
     distinct (map sk_id ks) \<and>
     distinct (map sk_label (active_keys ks)) \<and>
     list_all row_ok ks"

definition downstream_row_ok :: "stored_downstream \<Rightarrow> bool" where
  "downstream_row_ok d \<longleftrightarrow>
     length (sd_id d) = 16 \<and> scopes_canonical (sd_scopes d) \<and>
     (sd_active d \<longleftrightarrow> sd_revoked_at d = None)"

definition downstream_inv :: "stored_downstream list \<Rightarrow> bool" where
  "downstream_inv ds \<longleftrightarrow>
     distinct (map sd_id ds) \<and>
     distinct (map sd_label (filter sd_active ds)) \<and>
     list_all downstream_row_ok ds"

definition state_inv :: "vault_file \<Rightarrow> bool" where
  "state_inv s \<longleftrightarrow>
     vf_version s = 1 \<and> keys_inv (vf_keys s) \<and> downstream_inv (vf_downstream s)"

definition disk_inv :: "disk \<Rightarrow> bool" where
  "disk_inv d = (case d of Absent \<Rightarrow> True | Holds s \<Rightarrow> state_inv s | _ \<Rightarrow> False)"

definition vault_inv :: "vault \<Rightarrow> bool" where
  "vault_inv v \<longleftrightarrow> state_inv (v_state v) \<and> disk_inv (v_disk v)"

lemma keys_inv_Nil [simp]: "keys_inv []"
  by (simp add: keys_inv_def active_keys_def)

lemma downstream_inv_Nil [simp]: "downstream_inv []"
  by (simp add: downstream_inv_def)

lemma persist_inv: "vault_inv v \<Longrightarrow> vault_inv (snd (persist i v))"
  by (simp add: persist_def vault_inv_def disk_inv_def split: persist_io.splits)

lemma commit_inv: "vault_inv v \<Longrightarrow> vault_inv (snd (commit e r v))"
  by (simp add: commit_def persist_def vault_inv_def disk_inv_def split: persist_io.splits)

lemma set_keys_inv: "vault_inv v \<Longrightarrow> keys_inv ks \<Longrightarrow> vault_inv (set_keys ks v)"
  by (simp add: vault_inv_def state_inv_def)

lemma set_downstream_inv: "vault_inv v \<Longrightarrow> downstream_inv ds \<Longrightarrow> vault_inv (set_downstream ds v)"
  by (simp add: vault_inv_def state_inv_def)

lemma active_update_first:
  assumes "\<And>k. sk_retired k \<Longrightarrow> sk_retired (f k)" "\<And>k. sk_label (f k) = sk_label k"
  shows "subseq (map sk_label (active_keys (update_first p f ks))) (map sk_label (active_keys ks))"
  by (induction ks) (auto simp: active_keys_def assms)

section \<open>Updates of one upstream row\<close>

text \<open>
  The contract of an operation that rewrites the first row satisfying \<open>p\<close> once \<open>chk\<close> lets it
  through: it keeps the row's identity and ciphertext, never revives a retired row, and
  preserves \<open>row_ok\<close>.
\<close>

locale row_update =
  fixes p :: "stored_key \<Rightarrow> bool"
    and chk :: "stored_key \<Rightarrow> vault_error option"
    and f :: "stored_key \<Rightarrow> stored_key"
  assumes same_id: "sk_id (f k) = sk_id k"
    and same_label: "sk_label (f k) = sk_label k"
    and same_fingerprint: "sk_fingerprint (f k) = sk_fingerprint k"
    and same_nonce: "sk_nonce (f k) = sk_nonce k"
    and same_ciphertext: "sk_ciphertext (f k) = sk_ciphertext k"
    and retired_mono: "sk_retired k \<Longrightarrow> sk_retired (f k)"
    and keeps_row_ok: "p k \<Longrightarrow> chk k = None \<Longrightarrow> row_ok k \<Longrightarrow> row_ok (f k)"
begin

lemma list_all_row_ok:
  "List.find p ks = Some k \<Longrightarrow> chk k = None \<Longrightarrow> list_all row_ok ks \<Longrightarrow>
   list_all row_ok (update_first p f ks)"
  by (induction ks) (auto simp: keeps_row_ok split: if_splits)

lemma keys_inv_update:
  assumes "keys_inv ks" "List.find p ks = Some k" "chk k = None"
  shows "keys_inv (update_first p f ks)"
proof -
  have sub: "subseq (map sk_label (active_keys (update_first p f ks))) (map sk_label (active_keys ks))"
    by (rule active_update_first) (simp_all add: retired_mono same_label)
  have "length (active_keys (update_first p f ks)) \<le> length (active_keys ks)"
    using list_emb_length [OF sub] by simp
  moreover have "distinct (map sk_label (active_keys (update_first p f ks)))"
    using sub assms(1) by (auto simp: keys_inv_def intro: subseq_distinct)
  moreover have "map sk_fingerprint (update_first p f ks) = map sk_fingerprint ks"
    "map sk_id (update_first p f ks) = map sk_id ks"
    by (simp_all add: map_update_first same_fingerprint same_id)
  ultimately show ?thesis
    using assms list_all_row_ok [OF assms(2,3)] by (auto simp: keys_inv_def)
qed

lemma with_key_inv: "vault_inv v \<Longrightarrow> vault_inv (snd (with_key p chk f r e v))"
proof -
  assume inv: "vault_inv v"
  have "vault_inv (set_keys (update_first p f (v_keys v)) v)"
    if "List.find p (v_keys v) = Some k" "chk k = None" for k
    by (rule set_keys_inv [OF inv])
      (use inv that in \<open>auto simp: vault_inv_def state_inv_def intro: keys_inv_update\<close>)
  then show ?thesis
    using inv unfolding with_key_def
    by (auto simp del: set_keys_simps split: option.splits intro!: commit_inv)
qed

lemma with_key_downstream [simp]: "v_downstream (snd (with_key p chk f r e v)) = v_downstream v"
  by (simp add: with_key_def split: option.splits)

lemma with_key_ids: "map sk_id (v_keys (snd (with_key p chk f r e v))) = map sk_id (v_keys v)"
  by (simp add: with_key_def map_update_first same_id split: option.splits)

text \<open>The encrypted payload under every identifier survives the operation.\<close>

lemma find_id_update:
  "map_option (\<lambda>k. (sk_nonce k, sk_ciphertext k)) (List.find (any_key i) (update_first p f ks)) =
   map_option (\<lambda>k. (sk_nonce k, sk_ciphertext k)) (List.find (any_key i) ks)"
  by (induction ks) (auto simp: any_key_def same_id same_nonce same_ciphertext)

lemma with_key_credential: "credential c i (snd (with_key p chk f r e v)) = credential c i v"
proof -
  let ?v = "snd (with_key p chk f r e v)"
  have "map_option (\<lambda>k. (sk_nonce k, sk_ciphertext k)) (List.find (any_key i) (v_keys ?v)) =
        map_option (\<lambda>k. (sk_nonce k, sk_ciphertext k)) (List.find (any_key i) (v_keys v))"
    by (simp add: with_key_def find_id_update split: option.splits)
  moreover have "v_master_key ?v = v_master_key v"
    by (simp add: with_key_def split: option.splits)
  ultimately show ?thesis
    by (cases "List.find (any_key i) (v_keys ?v)"; cases "List.find (any_key i) (v_keys v)")
      (simp_all add: credential_def cong: if_cong)
qed

end

interpretation enable: row_update "live_key i" "enable_check now enabled" "sk_enabled_update (\<lambda>_. enabled)"
  for i now enabled
  by unfold_locales (auto simp: row_ok_def live_key_def enable_check_def split: if_splits)

interpretation verify: row_update "live_key i" "\<lambda>_. None" verified_row for i
  by unfold_locales (auto simp: row_ok_def live_key_def verified_row_def)

interpretation retire: row_update "live_key i" "\<lambda>_. None" retired_row for i
  by unfold_locales (auto simp: row_ok_def live_key_def retired_row_def)

interpretation quarantining: row_update "live_key i" "\<lambda>_. None" quarantined_row for i
  by unfold_locales (auto simp: row_ok_def live_key_def quarantined_row_def)

interpretation account: row_update "any_key i" "\<lambda>_. None" requested_row for i
  by unfold_locales (auto simp: row_ok_def requested_row_def)

interpretation cool: row_update "any_key i" "\<lambda>_. None" "failed_row now retry_after" for i now retry_after
  by unfold_locales (auto simp: row_ok_def failed_row_def Let_def)

lemmas row_op_defs = set_enabled_def mark_verified_def delete_def quarantine_def
  record_request_def record_failure_def

lemmas row_ops_inv = enable.with_key_inv verify.with_key_inv retire.with_key_inv
  quarantining.with_key_inv account.with_key_inv cool.with_key_inv

lemmas row_ops_credential = enable.with_key_credential verify.with_key_credential
  retire.with_key_credential quarantining.with_key_credential account.with_key_credential
  cool.with_key_credential

section \<open>Adding an upstream credential\<close>

lemma replace_row_update:
  "row_update (\<lambda>k. \<not> sk_retired k \<and> \<not> sk_enabled k) (\<lambda>_. None)
     (\<lambda>k. k\<lparr>sk_retired := True, sk_enabled := False\<rparr>)"
  by unfold_locales (auto simp: row_ok_def)

lemma retire_replaced_ids [simp]:
  "map sk_id (retire_replaced ks) = map sk_id ks"
  "map sk_fingerprint (retire_replaced ks) = map sk_fingerprint ks"
  by (simp_all add: retire_replaced_def map_update_first)

lemma retire_replaced_labels:
  "subseq (map sk_label (active_keys (retire_replaced ks))) (map sk_label (active_keys ks))"
  unfolding retire_replaced_def by (rule active_update_first) auto

lemma retire_replaced_length:
  "list_ex (\<lambda>k. \<not> sk_retired k \<and> \<not> sk_enabled k) ks \<Longrightarrow>
   Suc (length (active_keys (retire_replaced ks))) = length (active_keys ks)"
  unfolding retire_replaced_def by (induction ks) (auto simp: active_keys_def)

lemma list_ex_find: "list_ex p xs \<longleftrightarrow> (\<exists>x. List.find p xs = Some x)"
  by (induction xs) auto

lemma retire_replaced_inv:
  assumes "keys_inv ks" "list_ex (\<lambda>k. \<not> sk_retired k \<and> \<not> sk_enabled k) ks"
  shows "keys_inv (retire_replaced ks)"
proof -
  obtain k where "List.find (\<lambda>k. \<not> sk_retired k \<and> \<not> sk_enabled k) ks = Some k"
    using assms(2) by (auto simp: list_ex_find)
  then show ?thesis
    unfolding retire_replaced_def
    by (rule row_update.keys_inv_update [OF replace_row_update assms(1)]) simp
qed

lemma keys_inv_snoc:
  assumes "keys_inv ks" "length (active_keys ks) < MAX_UPSTREAM_KEYS" "row_ok k"
    "sk_fingerprint k \<notin> set (map sk_fingerprint ks)" "sk_id k \<notin> set (map sk_id ks)"
    "sk_label k \<notin> set (map sk_label (active_keys ks))"
  shows "keys_inv (ks @ [k])"
  using assms by (auto simp: keys_inv_def active_keys_def)

lemma add_inv:
  assumes inv: "vault_inv v" and fresh: "env_uuid e \<notin> set (map sk_id (v_keys v))"
  shows "vault_inv (snd (add c e label cr v))"
proof -
  define full where "full = (MAX_UPSTREAM_KEYS \<le> length (active_keys (v_keys v)))"
  define ks where "ks = (if full then retire_replaced (v_keys v) else v_keys v)"
  define v1 where "v1 = (if full then set_keys (retire_replaced (v_keys v)) v else v)"
  have ki: "keys_inv (v_keys v)" using inv by (simp add: vault_inv_def state_inv_def)
  have v1k: "v_keys v1 = ks" by (simp add: v1_def ks_def)
  have v1inv: "vault_inv v1" and room: "length (active_keys ks) < MAX_UPSTREAM_KEYS"
    if "\<not> (full \<and> \<not> list_ex (\<lambda>k. \<not> sk_retired k \<and> \<not> sk_enabled k) (v_keys v))"
  proof -
    show "vault_inv v1"
      using that inv ki retire_replaced_inv [of "v_keys v"] by (auto simp: v1_def set_keys_inv)
    show "length (active_keys ks) < MAX_UPSTREAM_KEYS"
      using that ki retire_replaced_length [of "v_keys v"]
      by (auto simp: ks_def full_def keys_inv_def)
  qed
  have snoc: "vault_inv (snd (commit e' r (set_keys (ks @ [new_key c e label cr pl]) v1)))"
    if room': "\<not> (full \<and> \<not> list_ex (\<lambda>k. \<not> sk_retired k \<and> \<not> sk_enabled k) (v_keys v))"
      and fp: "\<not> list_ex (\<lambda>k. sk_fingerprint k = fingerprint c cr) (v_keys v)"
      and lb: "\<not> list_ex (\<lambda>k. \<not> sk_retired k \<and> sk_label k = label) (v_keys v)"
    for e' :: env and r :: key_summary and pl
  proof -
    have "keys_inv ks"
      using v1inv [OF room'] by (simp add: vault_inv_def state_inv_def v1k)
    moreover have "label \<notin> set (map sk_label (active_keys ks))"
    proof -
      have "label \<notin> set (map sk_label (active_keys (v_keys v)))"
        using lb by (auto simp: list_ex_iff active_keys_def)
      then show ?thesis
        using subseq_set [OF retire_replaced_labels, of "v_keys v"] by (auto simp: ks_def)
    qed
    moreover have "map sk_fingerprint ks = map sk_fingerprint (v_keys v)"
      "map sk_id ks = map sk_id (v_keys v)"
      by (simp_all add: ks_def)
    moreover have "fingerprint c cr \<notin> set (map sk_fingerprint (v_keys v))"
      using fp by (auto simp: list_ex_iff)
    ultimately have "keys_inv (ks @ [new_key c e label cr pl])"
      using room [OF room'] fresh
      by (intro keys_inv_snoc) (simp_all add: new_key_def row_ok_def del: set_map)
    then have "vault_inv (set_keys (ks @ [new_key c e label cr pl]) v1)"
      by (rule set_keys_inv [OF v1inv [OF room']])
    then show ?thesis by (rule commit_inv)
  qed
  show ?thesis
    using inv v1inv snoc
    unfolding add_def full_def [symmetric] v1_def [symmetric] Let_def v1k
    by (simp split: sum.splits option.splits if_splits)
qed

section \<open>Updates of one downstream credential\<close>

text \<open>
  The contract of an operation that rewrites the first credential satisfying \<open>p\<close>: identity
  and label are kept, a revoked credential is never revived, \<open>downstream_row_ok\<close> is preserved.
\<close>

locale downstream_update =
  fixes p :: "stored_downstream \<Rightarrow> bool"
    and f :: "stored_downstream \<Rightarrow> stored_downstream"
  assumes same_id: "sd_id (f d) = sd_id d"
    and same_label: "sd_label (f d) = sd_label d"
    and revoked_mono: "sd_active (f d) \<Longrightarrow> sd_active d"
    and keeps_ok: "p d \<Longrightarrow> downstream_row_ok d \<Longrightarrow> downstream_row_ok (f d)"
begin

lemma labels_update:
  "subseq (map sd_label (filter sd_active (update_first p f ds))) (map sd_label (filter sd_active ds))"
  by (induction ds) (auto simp: same_label dest: revoked_mono)

lemma downstream_inv_update: "downstream_inv ds \<Longrightarrow> downstream_inv (update_first p f ds)"
proof -
  assume inv: "downstream_inv ds"
  have "list_all downstream_row_ok (update_first p f ds)"
  proof -
    have "list_all downstream_row_ok ds" using inv by (simp add: downstream_inv_def)
    then show ?thesis by (induction ds) (auto simp: keeps_ok)
  qed
  moreover have "map sd_id (update_first p f ds) = map sd_id ds"
    by (simp add: map_update_first same_id)
  ultimately show ?thesis
    using inv subseq_distinct [OF labels_update] by (simp add: downstream_inv_def)
qed

lemma update_inv: "vault_inv v \<Longrightarrow> vault_inv (set_downstream (update_first p f (v_downstream v)) v)"
  by (rule set_downstream_inv) (auto simp: vault_inv_def state_inv_def intro: downstream_inv_update)

lemma with_downstream_inv: "vault_inv v \<Longrightarrow> vault_inv (snd (with_downstream p m f r e v))"
  by (auto simp: with_downstream_def simp del: set_downstream_simps
      split: option.splits intro!: commit_inv update_inv)

end

interpretation revoking: downstream_update "\<lambda>d. sd_id d = i" "revoked_row now" for i now
  by unfold_locales (auto simp: downstream_row_ok_def revoked_row_def)

interpretation rotating: downstream_update "live_downstream i" "sd_token_digest_update (\<lambda>_. dg)" for i dg
  by unfold_locales (auto simp: downstream_row_ok_def split: if_splits)

interpretation using_credential: downstream_update "live_downstream i" "used_row now" for i now
  by unfold_locales (auto simp: downstream_row_ok_def used_row_def)

interpretation rescoping: downstream_update "live_downstream i"
  "\<lambda>d. if scopes_canonical s then d\<lparr>sd_scopes := s\<rparr> else d" for i s
  by unfold_locales (auto simp: downstream_row_ok_def split: if_splits)

lemma issue_inv:
  assumes inv: "vault_inv v" and "env_uuid e \<notin> set (map sd_id (v_downstream v))"
    "length (env_uuid e) = 16"
  shows "vault_inv (snd (issue_downstream c e label requested v))"
proof (cases "bind_ok (validate_downstream_label label) (\<lambda>_. canonical_scopes requested)")
  case (Inl er)
  then show ?thesis using inv by (simp add: issue_downstream_def)
next
  case (Inr scopes)
  then have "scopes_canonical scopes"
    by (auto simp: bind_ok_Ok_iff intro: canonical_scopes_canonical)
  moreover have "downstream_inv (v_downstream v)"
    using inv by (simp add: vault_inv_def state_inv_def)
  ultimately have "downstream_inv (v_downstream v @ [d])"
    if "sd_id d = env_uuid e" "sd_label d = label" "sd_scopes d = scopes" "sd_active d"
      "sd_revoked_at d = None" "\<not> list_ex (\<lambda>d. sd_active d \<and> sd_label d = label) (v_downstream v)"
    for d
    using assms(2,3) that by (auto simp: downstream_inv_def downstream_row_ok_def list_ex_iff)
  then show ?thesis
    using inv Inr
    by (auto simp: issue_downstream_def Let_def simp del: set_downstream_simps
        intro!: commit_inv set_downstream_inv)
qed

lemma update_scopes_inv: "vault_inv v \<Longrightarrow> vault_inv (snd (update_downstream_scopes e i requested v))"
proof (cases "canonical_scopes requested")
  case (Inr s)
  assume inv: "vault_inv v"
  have "scopes_canonical s" using Inr by (rule canonical_scopes_canonical)
  then have eq: "sd_scopes_update (\<lambda>_. s) = (\<lambda>d. if scopes_canonical s then d\<lparr>sd_scopes := s\<rparr> else d)"
    by auto
  show ?thesis
    unfolding update_downstream_scopes_def Inr sum.case
    by (subst eq) (rule rescoping.with_downstream_inv [OF inv])
qed (simp add: update_downstream_scopes_def)

section \<open>Reachable vaults\<close>

text \<open>
  One rule per public mutating operation, for any environment (fresh identifiers apart), plus
  a restart, which opens whatever the last writes left on disk.
\<close>

inductive vault_step :: "crypto \<Rightarrow> vault \<Rightarrow> vault \<Rightarrow> bool" for c where
  step_add: "env_uuid e \<notin> set (map sk_id (v_keys v)) \<Longrightarrow> vault_step c v (snd (add c e label cr v))"
| step_set_enabled: "vault_step c v (snd (set_enabled e i enabled v))"
| step_mark_verified: "vault_step c v (snd (mark_verified e i v))"
| step_delete: "vault_step c v (snd (delete e i v))"
| step_quarantine: "vault_step c v (snd (quarantine e i v))"
| step_record_request: "vault_step c v (snd (record_request e i v))"
| step_record_failure: "vault_step c v (snd (record_failure e i retry_after v))"
| step_cursor: "vault_step c v (snd (set_router_cursor e n v))"
| step_cursor_for: "vault_step c v (snd (set_router_cursor_for e profile n v))"
| step_issue: "env_uuid e \<notin> set (map sd_id (v_downstream v)) \<Longrightarrow> length (env_uuid e) = 16 \<Longrightarrow>
    vault_step c v (snd (issue_downstream c e label scopes v))"
| step_revoke: "vault_step c v (snd (revoke_downstream e i v))"
| step_rotate: "vault_step c v (snd (rotate_downstream c e i v))"
| step_scopes: "vault_step c v (snd (update_downstream_scopes e i scopes v))"
| step_use: "vault_step c v (snd (record_downstream_use e i used_at v))"
| step_authenticate: "vault_step c v (snd (authenticate_downstream c e token scope v))"
| step_rollback: "vault_step c v (snd (persist_for_rollback e v))"
| step_restart: "vault_open (v_disk v) (v_master_key v) = Ok v' \<Longrightarrow> vault_step c v v'"

inductive vault_reachable :: "crypto \<Rightarrow> vault \<Rightarrow> bool" for c where
  fresh: "vault_open Absent key = Ok v \<Longrightarrow> vault_reachable c v"
| step: "vault_reachable c v \<Longrightarrow> vault_step c v v' \<Longrightarrow> vault_reachable c v'"

lemma open_inv: "vault_open d key = Ok v \<Longrightarrow> disk_inv d \<Longrightarrow> vault_inv v"
  by (cases d) (auto simp: vault_open_def vault_inv_def disk_inv_def state_inv_def split: if_splits)

lemma cursor_inv:
  assumes "vault_inv v"
  shows "vault_inv (v\<lparr>v_state := (v_state v)\<lparr>vf_router_cursors := m\<rparr>\<rparr>)"
    and "vault_inv (v\<lparr>v_state := (v_state v)\<lparr>vf_router_cursor := n, vf_router_cursors := m\<rparr>\<rparr>)"
  using assms by (simp_all add: vault_inv_def state_inv_def)

lemma revoke_inv: "vault_inv v \<Longrightarrow> vault_inv (snd (revoke_downstream e i v))"
  by (auto simp: revoke_downstream_def simp del: set_downstream_simps
      split: option.splits intro!: commit_inv revoking.update_inv)

lemma use_inv: "vault_inv v \<Longrightarrow> vault_inv (snd (record_downstream_use e i used_at v))"
  by (simp add: record_downstream_use_def using_credential.with_downstream_inv)

lemma authenticate_inv: "vault_inv v \<Longrightarrow> vault_inv (snd (authenticate_downstream c e token scope v))"
  by (simp add: authenticate_downstream_def use_inv split: sum.splits)

lemma vault_step_inv: "vault_step c v v' \<Longrightarrow> vault_inv v \<Longrightarrow> vault_inv v'"
proof (induction rule: vault_step.induct)
  case (step_restart v v')
  then have "disk_inv (v_disk v)" by (simp add: vault_inv_def)
  with step_restart(1) show ?case by (rule open_inv)
qed (auto simp: row_op_defs row_ops_inv add_inv issue_inv revoke_inv use_inv authenticate_inv
    update_scopes_inv rotate_downstream_def Let_def rotating.with_downstream_inv
    set_router_cursor_def set_router_cursor_for_def persist_for_rollback_def
    intro!: persist_inv cursor_inv)

lemma vault_reachable_inv: "vault_reachable c v \<Longrightarrow> vault_inv v"
proof (induction rule: vault_reachable.induct)
  case (fresh key v)
  then show ?case by (rule open_inv) (simp add: disk_inv_def)
next
  case (step v v')
  then show ?case by (blast intro: vault_step_inv)
qed

lemma open_of_inv: "disk_inv d \<Longrightarrow> \<exists>v. vault_open d key = Ok v"
  by (cases d) (auto simp: vault_open_def disk_inv_def state_inv_def keys_inv_def active_keys_def)

end
