(* ===== verification/Vault_Props.thy ===== *)
theory Vault_Props
  imports Vault_Inv
begin

text \<open>
  The correctness of the vault: what every reachable vault satisfies, that credentials in
  custody stay decryptable and retired rows stay retired through any history, the round
  trips of encryption and of the database records, the failure cooldown's bounds, and the
  authentication of downstream tokens.
\<close>

section \<open>A concrete environment for the witnesses\<close>

text \<open>
  One instance of the cryptographic parameters with the documented laws: a digest that keeps
  a 32-byte prefix, the identity codecs, and a cipher that appends a 16-byte tag.
\<close>

definition plain_crypto :: crypto where
  "plain_crypto =
     \<lparr>sha256 = (\<lambda>b. take 32 (b @ replicate 32 (CHR ''0''))),
      hex_encode = (\<lambda>b. b), hex_decode = Some, b64_encode = (\<lambda>b. b), b64_decode = Some,
      aead_seal = (\<lambda>k n a p. Some (p @ replicate 16 (CHR ''t''))),
      aead_open = (\<lambda>k n a ct. Some (take (length ct - 16) ct))\<rparr>"

lemma plain_crypto_ok: "crypto_ok plain_crypto"
  by (auto simp: plain_crypto_def crypto_ok_def min_def)

definition demo_env :: "uuid \<Rightarrow> env" where
  "demo_env i =
     \<lparr>env_now = secs 1000, env_uuid = i, env_random = ''nonce-nonce-'', env_io = Persist_ok\<rparr>"

definition demo_id :: uuid where "demo_id = ''id-0000000000001''"

definition demo_credential :: str where
  "demo_credential = ''nvapi-abcdefghijklmnopqrstuvwxyz123456''"

definition empty_vault :: vault where
  "empty_vault =
     \<lparr>v_master_key = replicate 32 (CHR ''k''),
      v_state = \<lparr>vf_version = 1, vf_keys = [], vf_downstream = [], vf_router_cursor = 0,
                 vf_router_cursors = Map.empty\<rparr>,
      v_disk = Absent\<rparr>"

lemma empty_vault_reachable: "vault_reachable c empty_vault"
  by (rule vault_reachable.fresh [where key = "replicate 32 (CHR ''k'')"])
    (simp add: vault_open_def empty_vault_def active_keys_def MAX_UPSTREAM_KEYS_def)

definition demo_row :: stored_key where
  "demo_row = new_key plain_crypto (demo_env demo_id) ''one'' demo_credential
     (demo_credential @ replicate 16 (CHR ''t''))"

definition demo_file :: vault_file where
  "demo_file = (v_state empty_vault)\<lparr>vf_keys := [demo_row]\<rparr>"

definition demo_vault :: vault where
  "demo_vault = empty_vault\<lparr>v_state := demo_file, v_disk := Holds demo_file\<rparr>"

lemma demo_label_ok: "validate_label ''one'' = Ok ()"
  by (simp add: validate_label_def chars_def trim_def trim_segments_def is_whitespace_def
      is_control_def code_def)

lemma demo_credential_ok: "valid_upstream_credential demo_credential"
  by (simp add: valid_upstream_credential_def demo_credential_def starts_with_def
      is_ascii_alphanumeric_def is_ascii_digit_def is_ascii_alpha_def code_def)

lemma demo_add:
  "add plain_crypto (demo_env demo_id) ''one'' demo_credential empty_vault =
     (Ok (summary demo_row), demo_vault)"
  by (simp add: add_def demo_label_ok demo_credential_ok empty_vault_def active_keys_def
      MAX_UPSTREAM_KEYS_def commit_def persist_def demo_env_def demo_row_def demo_file_def
      demo_vault_def set_keys_def Let_def plain_crypto_def)

lemma demo_vault_reachable: "vault_reachable plain_crypto demo_vault"
proof -
  have "vault_step plain_crypto empty_vault
      (snd (add plain_crypto (demo_env demo_id) ''one'' demo_credential empty_vault))"
    by (rule step_add) (simp add: empty_vault_def)
  then show ?thesis
    using vault_reachable.step [OF empty_vault_reachable] by (simp add: demo_add)
qed

section \<open>Safety of every reachable vault\<close>

text \<open>
  C1. Whatever operations run, in whatever order, with whatever failed writes and restarts,
  the vault keeps at most two active upstream rows with distinct labels, all fingerprints and
  identifiers distinct, no enabled row without a probe receipt and no retired row enabled;
  downstream scopes stay canonical and exactly the revoked credentials carry a revocation time.
\<close>

theorem reachable_vault_safe:
  assumes "vault_reachable c v"
  shows "length (vault_list v) \<le> MAX_UPSTREAM_KEYS \<and>
    distinct (map ks_label (vault_list v)) \<and>
    distinct (map sk_fingerprint (v_keys v)) \<and> distinct (map sk_id (v_keys v)) \<and>
    list_all (\<lambda>k. (sk_enabled k \<longrightarrow> sk_verified k) \<and> (sk_retired k \<longrightarrow> \<not> sk_enabled k)) (v_keys v) \<and>
    distinct (map sd_label (filter sd_active (v_downstream v))) \<and>
    list_all (\<lambda>d. scopes_canonical (sd_scopes d) \<and> (sd_active d \<longleftrightarrow> sd_revoked_at d = None))
      (v_downstream v)"
proof -
  have "keys_inv (v_keys v)" "downstream_inv (v_downstream v)"
    using vault_reachable_inv [OF assms] by (simp_all add: vault_inv_def state_inv_def)
  moreover have "map ks_label (vault_list v) = map sk_label (active_keys (v_keys v))"
    "length (vault_list v) = length (active_keys (v_keys v))"
    by (simp_all add: vault_list_def summary_def)
  ultimately show ?thesis
    by (auto simp: keys_inv_def downstream_inv_def row_ok_def downstream_row_ok_def list_all_iff)
qed

theorem reachable_vault_safe_witness:
  "vault_reachable plain_crypto demo_vault \<and> length (vault_list demo_vault) \<le> MAX_UPSTREAM_KEYS"
  using reachable_vault_safe [OF demo_vault_reachable] demo_vault_reachable by simp

text \<open>
  C14. The file never locks the operator out: after any history, including writes that failed
  half way, reopening what is on disk succeeds and gives a vault satisfying the invariant again.
\<close>

theorem reachable_vault_reopens:
  assumes "vault_reachable c v"
  shows "\<exists>v'. vault_open (v_disk v) key = Ok v' \<and> vault_inv v'"
proof -
  have "disk_inv (v_disk v)" using vault_reachable_inv [OF assms] by (simp add: vault_inv_def)
  then show ?thesis using open_of_inv open_inv by blast
qed

theorem reachable_vault_reopens_witness:
  "\<exists>v'. vault_open (Holds demo_file) (replicate 32 (CHR ''k'')) = Ok v' \<and> vault_inv v'"
  using reachable_vault_reopens [OF demo_vault_reachable] by (simp add: demo_vault_def)

section \<open>Facts about one row that survive every history\<close>

definition holds_row :: "(stored_key \<Rightarrow> bool) \<Rightarrow> uuid \<Rightarrow> vault_file \<Rightarrow> bool" where
  "holds_row P i s = is_some_and P (List.find (any_key i) (vf_keys s))"

definition durable_row :: "(stored_key \<Rightarrow> bool) \<Rightarrow> uuid \<Rightarrow> vault \<Rightarrow> bool" where
  "durable_row P i v \<longleftrightarrow>
     holds_row P i (v_state v) \<and> (case v_disk v of Holds s \<Rightarrow> holds_row P i s | _ \<Rightarrow> False)"

lemma holds_row_update:
  assumes "holds_row P i s" "vf_keys s' = update_first p f (vf_keys s)"
    "\<And>k. sk_id (f k) = sk_id k" "\<And>k. p k \<Longrightarrow> P k \<Longrightarrow> P (f k)"
  shows "holds_row P i s'"
proof -
  have "is_some_and P (List.find (any_key i) ks) \<Longrightarrow>
        is_some_and P (List.find (any_key i) (update_first p f ks))" for ks
    by (induction ks) (auto simp: any_key_def assms(3) assms(4) split: if_splits)
  then show ?thesis using assms(1,2) by (simp add: holds_row_def)
qed

lemma holds_row_append: "holds_row P i s \<Longrightarrow> vf_keys s' = vf_keys s @ ks \<Longrightarrow> holds_row P i s'"
proof -
  have "is_some_and P (List.find p xs) \<Longrightarrow> is_some_and P (List.find p (xs @ ks))" for p xs
    by (induction xs) auto
  then show "holds_row P i s \<Longrightarrow> vf_keys s' = vf_keys s @ ks \<Longrightarrow> holds_row P i s'"
    by (simp add: holds_row_def)
qed

lemma durable_commit:
  "holds_row P i (v_state v) \<Longrightarrow> durable_row P i v0 \<Longrightarrow> v_disk v = v_disk v0 \<Longrightarrow>
   durable_row P i (snd (commit e r v))"
  by (auto simp: durable_row_def commit_def persist_def split: persist_io.splits)

lemma row_ids:
  "sk_id (verified_row k) = sk_id k" "sk_id (retired_row k) = sk_id k"
  "sk_id (quarantined_row k) = sk_id k" "sk_id (requested_row k) = sk_id k"
  "sk_id (failed_row now ra k) = sk_id k"
  by (simp_all add: verified_row_def retired_row_def quarantined_row_def requested_row_def
      failed_row_def Let_def)

text \<open>A predicate on a row that no update of the row falsifies.\<close>

locale row_fact =
  fixes P :: "stored_key \<Rightarrow> bool"
  assumes P_enable: "live_key i k \<Longrightarrow> P k \<Longrightarrow> P (k\<lparr>sk_enabled := b\<rparr>)"
    and P_verify: "live_key i k \<Longrightarrow> P k \<Longrightarrow> P (verified_row k)"
    and P_retire: "P k \<Longrightarrow> P (retired_row k)"
    and P_quarantine: "live_key i k \<Longrightarrow> P k \<Longrightarrow> P (quarantined_row k)"
    and P_request: "P k \<Longrightarrow> P (requested_row k)"
    and P_fail: "P k \<Longrightarrow> P (failed_row now ra k)"
    and P_replace: "\<not> sk_retired k \<Longrightarrow> P k \<Longrightarrow> P (k\<lparr>sk_retired := True, sk_enabled := False\<rparr>)"
begin

lemma durable_with_key:
  assumes "durable_row P j v" "\<And>k. sk_id (f k) = sk_id k" "\<And>k. p k \<Longrightarrow> P k \<Longrightarrow> P (f k)"
  shows "durable_row P j (snd (with_key p chk f r e v))"
proof -
  have "holds_row P j (v_state (set_keys (update_first p f (v_keys v)) v))"
    by (rule holds_row_update [where s = "v_state v" and p = p and f = f])
      (use assms in \<open>auto simp: durable_row_def\<close>)
  then show ?thesis
    using assms(1) by (auto simp: with_key_def split: option.splits
        intro!: durable_commit [OF _ assms(1)] simp del: set_keys_simps(1))
qed

lemma durable_add:
  assumes "durable_row P j v"
  shows "durable_row P j (snd (add c e label cr v))"
proof -
  have st: "holds_row P j (v_state v)" using assms by (simp add: durable_row_def)
  have r: "holds_row P j ((v_state v)\<lparr>vf_keys := retire_replaced (v_keys v)\<rparr>)"
    by (rule holds_row_update [OF st, where p = "\<lambda>k. \<not> sk_retired k \<and> \<not> sk_enabled k"
          and f = "\<lambda>k. k\<lparr>sk_retired := True, sk_enabled := False\<rparr>"])
      (auto simp: retire_replaced_def intro: P_replace)
  have n: "holds_row P j ((v_state v)\<lparr>vf_keys := v_keys v @ [k]\<rparr>)"
    and rn: "holds_row P j ((v_state v)\<lparr>vf_keys := retire_replaced (v_keys v) @ [k]\<rparr>)" for k
    using holds_row_append [OF st] holds_row_append [OF r] by auto
  have rv: "durable_row P j (set_keys (retire_replaced (v_keys v)) v)"
    using assms r by (simp add: durable_row_def)
  show ?thesis
    using assms r n rn rv
    by (auto simp: add_def Let_def split: sum.splits option.splits
        intro!: durable_commit [OF _ assms])
qed

lemma durable_same_keys:
  assumes "durable_row P j v" "v_keys v' = v_keys v"
    "v_disk v' = v_disk v \<or> v_disk v' = Holds (v_state v')"
  shows "durable_row P j v'"
  using assms by (auto simp: durable_row_def holds_row_def)

lemma with_downstream_keys:
  "v_keys (snd (with_downstream p m f r e v)) = v_keys v \<and>
   (v_disk (snd (with_downstream p m f r e v)) = v_disk v \<or>
    v_disk (snd (with_downstream p m f r e v)) = Holds (v_state (snd (with_downstream p m f r e v))))"
  by (auto simp: with_downstream_def commit_def persist_def split: option.splits persist_io.splits)

lemma durable_downstream: "durable_row P j v \<Longrightarrow> durable_row P j (snd (with_downstream p m f r e v))"
  using with_downstream_keys by (blast intro: durable_same_keys)

lemma durable_commit_other:
  "durable_row P j v \<Longrightarrow> durable_row P j (snd (commit e r (set_downstream ds v)))"
  by (rule durable_same_keys [of j v]) (auto simp: commit_def persist_def split: persist_io.splits)

lemma durable_step: "vault_step c v v' \<Longrightarrow> durable_row P j v \<Longrightarrow> durable_row P j v'"
proof (induction rule: vault_step.induct)
  case (step_restart v v')
  then obtain s where "v_disk v = Holds s" "holds_row P j s"
    by (auto simp: durable_row_def split: disk.splits)
  with step_restart show ?case
    by (auto simp: vault_open_def durable_row_def split: if_splits)
next
  case (step_add e v label cr)
  then show ?case by (blast intro: durable_add)
next
  case (step_issue e v label scopes)
  then show ?case
    by (auto simp: issue_downstream_def Let_def durable_commit_other split: sum.splits)
next
  case (step_revoke v e i)
  then show ?case by (auto simp: revoke_downstream_def durable_commit_other split: option.splits)
next
  case (step_cursor v e n)
  then show ?case
    by (auto simp: set_router_cursor_def persist_def split: persist_io.splits
        intro: durable_same_keys [of j v])
next
  case (step_cursor_for v e profile n)
  then show ?case
    by (auto simp: set_router_cursor_for_def persist_def split: persist_io.splits
        intro: durable_same_keys [of j v])
next
  case (step_rollback v e)
  then show ?case
    by (auto simp: persist_for_rollback_def persist_def split: persist_io.splits
        intro: durable_same_keys [of j v])
next
  case (step_authenticate v e token scope)
  then show ?case
    by (auto simp: authenticate_downstream_def record_downstream_use_def durable_downstream
        split: sum.splits)
next
  case (step_scopes v e i scopes)
  then show ?case by (auto simp: update_downstream_scopes_def durable_downstream split: sum.splits)
qed (auto simp: row_op_defs rotate_downstream_def record_downstream_use_def Let_def row_ids
    intro!: durable_with_key durable_downstream
    intro: P_enable P_verify P_retire P_quarantine P_request P_fail)

lemma durable_steps: "(vault_step c)\<^sup>*\<^sup>* v v' \<Longrightarrow> durable_row P j v \<Longrightarrow> durable_row P j v'"
  by (induction rule: rtranclp_induct) (auto intro: durable_step)

end

interpretation retirement: row_fact sk_retired
  by unfold_locales
    (auto simp: verified_row_def retired_row_def quarantined_row_def requested_row_def
      failed_row_def Let_def)

interpretation payload: row_fact "\<lambda>k. sk_nonce k = n \<and> sk_ciphertext k = ct" for n ct
  by unfold_locales
    (auto simp: verified_row_def retired_row_def quarantined_row_def requested_row_def
      failed_row_def Let_def)

section \<open>Custody\<close>

lemma valid_utf8_ascii: "list_all (\<lambda>b. code b < 128) s \<Longrightarrow> valid_utf8 s"
  by (induction s) (auto simp: valid_utf8_def)

lemma credential_ascii:
  assumes "valid_upstream_credential cr"
  shows "list_all (\<lambda>b. code b < 128) cr"
proof -
  have "cr = take 6 cr @ drop 6 cr" by simp
  moreover have "take 6 cr = ''nvapi-''"
    using assms by (simp add: valid_upstream_credential_def starts_with_def numeral_eq_Suc)
  moreover have "list_all (\<lambda>b. code b < 128) ''nvapi-''" by (simp add: code_def)
  moreover have "list_all (\<lambda>b. code b < 128) (drop 6 cr)"
    using assms
    by (auto simp: valid_upstream_credential_def list_all_iff is_ascii_alphanumeric_def
        is_ascii_digit_def is_ascii_alpha_def code_def)
  ultimately show ?thesis by (metis list_all_append)
qed

definition sealed_row :: "crypto \<Rightarrow> bytes \<Rightarrow> uuid \<Rightarrow> str \<Rightarrow> stored_key \<Rightarrow> bool" where
  "sealed_row c key i cr k \<longleftrightarrow>
     (\<exists>nonce ct. length nonce = 12 \<and> aead_seal c key nonce i cr = Some ct \<and>
        sk_nonce k = b64_encode c nonce \<and> sk_ciphertext k = b64_encode c ct)"

lemma find_append_fresh:
  "i \<notin> set (map sk_id ks) \<Longrightarrow> List.find (any_key i) (ks @ [k]) = (if sk_id k = i then Some k else None)"
  by (induction ks) (auto simp: any_key_def)

lemma add_OkE:
  assumes "add c e label cr v = (Ok s, v')"
  obtains payload ks where
    "aead_seal c (v_master_key v) (env_random e) (env_uuid e) cr = Some payload"
    "ks = v_keys v \<or> ks = retire_replaced (v_keys v)"
    "v_state v' = (v_state v)\<lparr>vf_keys := ks @ [new_key c e label cr payload]\<rparr>"
    "v_disk v' = Holds (v_state v')" "v_master_key v' = v_master_key v"
    "s = summary (new_key c e label cr payload)"
    "valid_upstream_credential cr" "validate_label label = Ok ()"
    "length (active_keys (v_keys v)) < MAX_UPSTREAM_KEYS \<Longrightarrow> ks = v_keys v"
    "\<not> list_ex (\<lambda>k. sk_fingerprint k = fingerprint c cr) (v_keys v)"
  using assms
  by (fastforce simp: add_def Let_def commit_def persist_def
      split: sum.splits if_splits option.splits persist_io.splits)

lemma add_sealed:
  assumes "add c e label cr v = (Ok s, v')" "length (env_random e) = 12"
    "env_uuid e \<notin> set (map sk_id (v_keys v))"
  shows "\<exists>n ct. durable_row (\<lambda>k. sk_nonce k = n \<and> sk_ciphertext k = ct) (ks_id s) v' \<and>
    (\<exists>nonce payload. n = b64_encode c nonce \<and> ct = b64_encode c payload \<and> length nonce = 12 \<and>
       aead_seal c (v_master_key v) nonce (ks_id s) cr = Some payload) \<and>
    v_master_key v' = v_master_key v \<and> valid_upstream_credential cr"
  using assms(1)
proof (rule add_OkE)
  fix payload ks
  assume seal: "aead_seal c (v_master_key v) (env_random e) (env_uuid e) cr = Some payload"
    and ks: "ks = v_keys v \<or> ks = retire_replaced (v_keys v)"
    and st: "v_state v' = (v_state v)\<lparr>vf_keys := ks @ [new_key c e label cr payload]\<rparr>"
    and dk: "v_disk v' = Holds (v_state v')" and mk: "v_master_key v' = v_master_key v"
    and s: "s = summary (new_key c e label cr payload)" and vc: "valid_upstream_credential cr"
  have "map sk_id ks = map sk_id (v_keys v)" using ks by auto
  then have "List.find (any_key (env_uuid e)) (ks @ [new_key c e label cr payload]) =
      Some (new_key c e label cr payload)"
    using assms(3) by (subst find_append_fresh) (simp_all add: new_key_def)
  then have "durable_row (\<lambda>k. sk_nonce k = b64_encode c (env_random e) \<and>
      sk_ciphertext k = b64_encode c payload) (env_uuid e) v'"
    by (simp add: durable_row_def holds_row_def st dk new_key_def)
  moreover have "ks_id s = env_uuid e" by (simp add: s summary_def new_key_def)
  ultimately show ?thesis using seal assms(2) mk vc by auto
qed

lemma vault_step_key: "vault_step c v v' \<Longrightarrow> v_master_key v' = v_master_key v"
proof (induction rule: vault_step.induct)
  case (step_restart v v')
  then show ?case by (auto simp: vault_open_def bind_ok_Ok_iff split: if_splits)
qed (auto simp: add_def row_op_defs with_key_def with_downstream_def rotate_downstream_def
    update_downstream_scopes_def record_downstream_use_def authenticate_downstream_def
    revoke_downstream_def issue_downstream_def set_router_cursor_def set_router_cursor_for_def
    persist_for_rollback_def persist_def Let_def
    split: option.splits sum.splits persist_io.splits)

lemma vault_steps_key: "(vault_step c)\<^sup>*\<^sup>* v v' \<Longrightarrow> v_master_key v' = v_master_key v"
  by (induction rule: rtranclp_induct) (auto dest: vault_step_key)

text \<open>
  C2. Custody: once \<open>add\<close> has answered with a summary, decrypting under the returned
  identifier gives back exactly the credential, immediately and after every later history of
  operations, failed writes, retirements and restarts.
\<close>

theorem credential_custody:
  assumes "crypto_ok c" "add c e label cr v = (Ok s, v')" "length (env_random e) = 12"
    "env_uuid e \<notin> set (map sk_id (v_keys v))" "(vault_step c)\<^sup>*\<^sup>* v' v''"
  shows "credential c (ks_id s) v'' = Ok cr"
proof -
  obtain nonce payload where
    d: "durable_row (\<lambda>k. sk_nonce k = b64_encode c nonce \<and> sk_ciphertext k = b64_encode c payload)
          (ks_id s) v'"
    and len: "length nonce = 12"
    and seal: "aead_seal c (v_master_key v) nonce (ks_id s) cr = Some payload"
    and mk: "v_master_key v' = v_master_key v" and vc: "valid_upstream_credential cr"
    using add_sealed [OF assms(2-4)] by blast
  have "durable_row (\<lambda>k. sk_nonce k = b64_encode c nonce \<and> sk_ciphertext k = b64_encode c payload)
      (ks_id s) v''"
    using assms(5) d by (rule payload.durable_steps)
  then obtain k where k: "List.find (any_key (ks_id s)) (v_keys v'') = Some k"
    "sk_nonce k = b64_encode c nonce" "sk_ciphertext k = b64_encode c payload"
    by (auto simp: durable_row_def holds_row_def is_some_and_iff)
  moreover have "aead_open c (v_master_key v) nonce (ks_id s) payload = Some cr"
    using assms(1) seal by (simp add: crypto_ok_def)
  ultimately show ?thesis
    using assms(1) len mk vault_steps_key [OF assms(5)] valid_utf8_ascii [OF credential_ascii [OF vc]]
    by (simp add: credential_def crypto_ok_def)
qed

theorem credential_custody_witness:
  "credential plain_crypto demo_id (snd (delete (demo_env demo_id) demo_id demo_vault)) =
     Ok demo_credential"
proof -
  have "(vault_step plain_crypto)\<^sup>*\<^sup>* demo_vault (snd (delete (demo_env demo_id) demo_id demo_vault))"
    by (rule r_into_rtranclp) (rule step_delete)
  from credential_custody [OF plain_crypto_ok demo_add _ _ this]
  show ?thesis
    by (simp add: demo_env_def empty_vault_def demo_row_def summary_def new_key_def)
qed

text \<open>
  C6. Retirement is permanent: after a successful \<open>delete\<close> the identifier is never listed
  again, so never routed to, by any later history; restarts included.
\<close>

theorem deleted_never_listed:
  assumes "delete e i v = (Ok (), v')" "(vault_step c)\<^sup>*\<^sup>* v' v''" "vault_inv v"
  shows "is_retired i v'' \<and> i \<notin> set (map ks_id (vault_list v''))"
proof -
  obtain k where k: "List.find (live_key i) (v_keys v) = Some k"
    and v': "v_state v' = (v_state v)\<lparr>vf_keys := update_first (live_key i) retired_row (v_keys v)\<rparr>"
    "v_disk v' = Holds (v_state v')"
    using assms(1)
    by (auto simp: delete_def with_key_def commit_def persist_def
        split: option.splits persist_io.splits)
  have "is_some_and sk_retired (List.find (any_key i) (update_first (live_key i) retired_row ks))"
    if "List.find (live_key i) ks = Some k'" for ks k'
    using that
    by (induction ks) (auto simp: any_key_def live_key_def retired_row_def split: if_splits)
  then have "durable_row sk_retired i v'"
    using k by (simp add: durable_row_def holds_row_def v')
  then have d: "durable_row sk_retired i v''"
    using assms(2) by (rule retirement.durable_steps [rotated])
  have "vault_inv v''"
  proof -
    have "vault_inv v'"
      using vault_step_inv [OF step_delete [where e = e and i = i] assms(3)] assms(1) by simp
    with assms(2) show ?thesis by (induction rule: rtranclp_induct) (auto intro: vault_step_inv)
  qed
  then have dist: "distinct (map sk_id (v_keys v''))"
    by (simp add: vault_inv_def state_inv_def keys_inv_def)
  obtain k where f: "List.find (any_key i) (v_keys v'') = Some k" and r: "sk_retired k"
    using d by (auto simp: durable_row_def holds_row_def is_some_and_iff)
  then have k: "k \<in> set (v_keys v'')" "sk_id k = i"
    by (auto dest: find_Some_mem simp: any_key_def)
  have "is_retired i v''" using f r by (simp add: is_retired_def any_key_def [abs_def])
  moreover have "i \<notin> set (map ks_id (vault_list v''))"
  proof
    assume "i \<in> set (map ks_id (vault_list v''))"
    then obtain k2 where "k2 \<in> set (v_keys v'')" "\<not> sk_retired k2" "sk_id k2 = i"
      by (auto simp: vault_list_def active_keys_def summary_def)
    with k dist r show False by (metis distinct_map inj_onD)
  qed
  ultimately show ?thesis ..
qed

theorem deleted_never_listed_witness:
  "is_retired demo_id (snd (delete (demo_env demo_id) demo_id demo_vault)) \<and>
   demo_id \<notin> set (map ks_id (vault_list (snd (delete (demo_env demo_id) demo_id demo_vault))))"
proof (rule deleted_never_listed)
  show "delete (demo_env demo_id) demo_id demo_vault =
      (Ok (), snd (delete (demo_env demo_id) demo_id demo_vault))"
    by (simp add: delete_def with_key_def demo_vault_def demo_file_def demo_row_def new_key_def
        live_key_def demo_env_def commit_def persist_def)
  show "(vault_step plain_crypto)\<^sup>*\<^sup>* (snd (delete (demo_env demo_id) demo_id demo_vault))
      (snd (delete (demo_env demo_id) demo_id demo_vault))" by simp
  show "vault_inv demo_vault" by (rule vault_reachable_inv [OF demo_vault_reachable])
qed

section \<open>Adding, enabling, cooling\<close>

text \<open>
  \<open>add\<close> never costs the operator a working slot: a successful call keeps every enabled row
  unchanged, and the row it appends is neither enabled nor verified, so no request can be
  routed to it before a provider probe and an explicit enable.
\<close>

theorem add_keeps_enabled_rows:
  assumes "add c e label cr v = (Ok s, v')"
  shows "(\<forall>k \<in> set (v_keys v). sk_enabled k \<longrightarrow> k \<in> set (v_keys v')) \<and>
    \<not> ks_enabled s \<and> \<not> ks_verified s \<and> last (v_keys v') \<notin> set (v_keys v) \<and>
    summary (last (v_keys v')) = s"
  using assms
proof (rule add_OkE)
  fix payload ks
  assume ks: "ks = v_keys v \<or> ks = retire_replaced (v_keys v)"
    and st: "v_state v' = (v_state v)\<lparr>vf_keys := ks @ [new_key c e label cr payload]\<rparr>"
    and s: "s = summary (new_key c e label cr payload)"
    and fp: "\<not> list_ex (\<lambda>k. sk_fingerprint k = fingerprint c cr) (v_keys v)"
  have "k \<in> set xs \<Longrightarrow> sk_enabled k \<Longrightarrow> k \<in> set (retire_replaced xs)" for k xs
    unfolding retire_replaced_def by (induction xs) auto
  then have "\<forall>k \<in> set (v_keys v). sk_enabled k \<longrightarrow> k \<in> set ks" using ks by auto
  moreover have "new_key c e label cr payload \<notin> set (v_keys v)"
    using fp by (auto simp: list_ex_iff new_key_def)
  ultimately show ?thesis
    by (simp add: st s) (simp add: summary_def new_key_def)
qed

theorem add_keeps_enabled_rows_witness:
  "\<not> ks_enabled (summary demo_row) \<and> \<not> ks_verified (summary demo_row) \<and>
   summary (last (v_keys demo_vault)) = summary demo_row"
  using add_keeps_enabled_rows [OF demo_add] by blast

text \<open>
  C13. The failure cooldown is bounded, and while the row is in service never shortened: recording a
  failure sets a deadline at least as late as the old one, and at most the later of the old one and
  300 seconds from now; without a provider hint the added delay is at most 64 seconds. A retired row
  loses its cooldown instead. Either way the failure is counted, the request count stays, and no
  other row changes.
\<close>

theorem failure_cooldown_bounds:
  assumes "List.find (any_key i) (v_keys v) = Some k"
  shows "\<exists>k'. List.find (any_key i) (v_keys (snd (record_failure e i ra v))) = Some k' \<and>
    sk_failure_count k' = sat_add_u64 (sk_failure_count k) 1 \<and> sk_request_count k' = sk_request_count k \<and>
    filter (\<lambda>r. sk_id r \<noteq> i) (v_keys (snd (record_failure e i ra v))) = filter (\<lambda>r. sk_id r \<noteq> i) (v_keys v) \<and>
    (if sk_retired k then sk_cooldown_until k' = None
     else (\<exists>t. sk_cooldown_until k' = Some t \<and> env_now e \<le> t \<and>
       (case sk_cooldown_until k of
          None \<Rightarrow> t \<le> env_now e + secs (if ra = None then 64 else 300)
        | Some old \<Rightarrow> old \<le> t \<and> t \<le> max old (env_now e + secs (if ra = None then 64 else 300)))))"
proof -
  define d where "d = failure_delay ra (sat_add_u64 (sk_failure_count k) 1)"
  define until where "until = env_now e + d"
  have "(2::int) ^ min n 6 \<le> 2 ^ 6" for n :: nat by (rule power_increasing) auto
  then have d: "0 \<le> d \<and> d \<le> secs (if ra = None then 64 else 300)"
    using clamp_bounds [of "secs 0" "secs 300"]
    by (auto simp: d_def failure_delay_def secs_def split: option.splits)
  let ?k = "failed_row (env_now e) ra k"
  have keys: "v_keys (snd (record_failure e i ra v)) = update_first (any_key i) (failed_row (env_now e) ra) (v_keys v)"
    using assms by (simp add: record_failure_def with_key_def)
  have "List.find (any_key i) (v_keys (snd (record_failure e i ra v))) = Some ?k"
    using find_update_first [OF assms, of "any_key i" "failed_row (env_now e) ra"]
    by (simp add: keys row_ids any_key_def)
  moreover have "filter (\<lambda>r. sk_id r \<noteq> i) (update_first (any_key i) (failed_row (env_now e) ra) ks) =
      filter (\<lambda>r. sk_id r \<noteq> i) ks" for ks
    by (induction ks) (auto simp: any_key_def row_ids)
  moreover have "sk_failure_count ?k = sat_add_u64 (sk_failure_count k) 1" "sk_request_count ?k = sk_request_count k"
    by (simp_all add: failed_row_def Let_def)
  moreover have "sk_cooldown_until ?k = (if sk_retired k then None
      else Some (case sk_cooldown_until k of None \<Rightarrow> until | Some old \<Rightarrow> max old until))"
    by (cases "sk_cooldown_until k") (simp_all add: failed_row_def Let_def until_def d_def)
  ultimately show ?thesis
    using d keys by (cases "sk_cooldown_until k") (auto simp: until_def)
qed

theorem failure_cooldown_bounds_witness:
  "\<exists>k' t. List.find (any_key demo_id) (v_keys (snd (record_failure (demo_env demo_id) demo_id
       (Some (secs 3600)) demo_vault))) = Some k' \<and>
    sk_cooldown_until k' = Some t \<and> secs 1000 \<le> t \<and> t \<le> secs 1300"
proof -
  have f: "List.find (any_key demo_id) (v_keys demo_vault) = Some demo_row" "\<not> sk_retired demo_row"
    "sk_cooldown_until demo_row = None"
    by (simp_all add: demo_vault_def demo_file_def demo_row_def new_key_def any_key_def demo_env_def)
  show ?thesis
    using failure_cooldown_bounds [OF f(1), of "demo_env demo_id" "Some (secs 3600)"] f(2,3)
    by (auto simp: demo_env_def secs_def)
qed

section \<open>Database records\<close>

lemma stored_key_roundtrip:
  "crypto_ok c \<Longrightarrow> stored_of_key_record c r = Ok k \<Longrightarrow> key_record_of_stored c k = Ok r"
  by (auto simp: stored_of_key_record_def key_record_of_stored_def crypto_ok_def split: if_splits)

lemma stored_downstream_roundtrip:
  "crypto_ok c \<Longrightarrow> stored_of_downstream_record c r = Ok d \<Longrightarrow> downstream_record_of_stored c d = Ok r"
  by (auto simp: stored_of_downstream_record_def downstream_record_of_stored_def crypto_ok_def
      split: if_splits)

lemma collect_roundtrip:
  assumes "\<And>r k. f r = Ok k \<Longrightarrow> g k = Ok r" "collect_results (map f rs) = Ok ks"
  shows "collect_results (map g ks) = Ok rs"
proof -
  have "map f rs = map Ok ks" using assms(2) by (simp add: collect_results_Ok_iff)
  then have "map g ks = map Ok rs"
    by (induction rs arbitrary: ks) (auto simp: map_eq_Cons_conv assms(1) Cons_eq_map_conv)
  then show ?thesis by (simp add: collect_results_Ok_iff)
qed

text \<open>
  The vault rebuilt from database rows exports exactly those rows again, upstream and
  downstream, and no cursor is lost.
\<close>

theorem records_roundtrip:
  assumes "crypto_ok c" "from_records_with_cursors c d key krs drs cursors = Ok v"
  shows "key_records c v = Ok krs \<and> downstream_records c v = Ok drs \<and>
    (\<forall>p n. cursors p = Some n \<longrightarrow> router_cursor_for p v = n)"
proof -
  obtain ks ds where k: "collect_results (map (stored_of_key_record c) krs) = Ok ks"
    and d: "collect_results (map (stored_of_downstream_record c) drs) = Ok ds"
    and v: "vf_keys (v_state v) = ks" "vf_downstream (v_state v) = ds"
      "vf_router_cursors (v_state v) = cursors"
    using assms(2) by (auto simp: from_records_with_cursors_def bind_ok_Ok_iff split: if_splits)
  have "collect_results (map (key_record_of_stored c) ks) = Ok krs"
    by (rule collect_roundtrip [OF stored_key_roundtrip [OF assms(1)] k])
  moreover have "collect_results (map (downstream_record_of_stored c) ds) = Ok drs"
    by (rule collect_roundtrip [OF stored_downstream_roundtrip [OF assms(1)] d])
  ultimately show ?thesis
    by (simp add: key_records_def downstream_records_def v router_cursor_for_def)
qed

definition demo_record :: vault_key_record where
  "demo_record =
     \<lparr>kr_id = demo_id, kr_label = ''one'', kr_fingerprint = replicate 32 (CHR ''f''),
      kr_nonce = replicate 12 (CHR ''n''), kr_ciphertext = replicate 20 (CHR ''c''),
      kr_enabled = True, kr_verified = True, kr_retired = False, kr_cooldown_until = None,
      kr_request_count = 7, kr_failure_count = 0\<rparr>"

theorem records_roundtrip_witness:
  "\<exists>v. from_records_with_cursors plain_crypto Absent [] [demo_record] [] [''nvidia/vila'' \<mapsto> 1] = Ok v \<and>
     key_records plain_crypto v = Ok [demo_record] \<and> router_cursor_for ''nvidia/vila'' v = 1"
proof -
  have "is_ok (from_records_with_cursors plain_crypto Absent [] [demo_record] [] [''nvidia/vila'' \<mapsto> 1])"
    by (simp add: from_records_with_cursors_def MAX_UPSTREAM_KEYS_def demo_record_def
        stored_of_key_record_def plain_crypto_def)
  then obtain v where
    v: "from_records_with_cursors plain_crypto Absent [] [demo_record] [] [''nvidia/vila'' \<mapsto> 1] = Ok v"
    by (auto simp: is_ok_iff)
  show ?thesis using records_roundtrip [OF plain_crypto_ok v] v by auto
qed

end
