(* ===== verification/Vault_Auth.thy ===== *)
theory Vault_Auth
  imports Vault_Props
begin

text \<open>
  Authentication of downstream tokens: the branch-free scan of \<open>identify_downstream\<close> computes
  the last row with the token's digest, \<open>authenticate_downstream\<close> accepts exactly the tokens
  it should, and issue, rotate and revoke change the accepted tokens as promised.
\<close>

section \<open>The scan\<close>

definition token_row :: "crypto \<Rightarrow> str \<Rightarrow> stored_downstream list \<Rightarrow> stored_downstream option" where
  "token_row c token ds =
     (if starts_with ''nblb_ds_'' token
      then List.find (\<lambda>d. sd_token_digest d = fingerprint c token) (rev ds) else None)"

lemma map2_select_byte:
  "length a = length b \<Longrightarrow> map2 (select_byte m) a b = (if m then b else a)"
  by (induction a b rule: list_induct2) (auto simp: select_byte_def)

lemma scan_last:
  assumes "list_all (\<lambda>d. length (sd_id d) = 16) ds" "length sel = 16"
  shows "foldl (identify_step dg) (sel, act, fnd) ds =
    (case List.find (\<lambda>d. sd_token_digest d = dg) (rev ds) of
       None \<Rightarrow> (sel, act, fnd)
     | Some d \<Rightarrow> (sd_id d, sd_active d, True))"
  using assms
proof (induction ds rule: rev_induct)
  case (snoc d ds)
  have f: "sd_token_digest x = dg" "length (sd_id x) = 16"
    if "List.find (\<lambda>d. sd_token_digest d = dg) (rev ds) = Some x" for x
    using find_Some_mem [OF that] snoc.prems by (auto simp: list_all_iff)
  show ?case
    using snoc f
    by (auto simp: identify_step_def Let_def map2_select_byte split: option.splits)
qed simp

lemma vault_inv_ids:
  "vault_inv v \<Longrightarrow> list_all (\<lambda>d. length (sd_id d) = 16) (v_downstream v)"
  "vault_inv v \<Longrightarrow> distinct (map sd_id (v_downstream v))"
  by (auto simp: vault_inv_def state_inv_def downstream_inv_def downstream_row_ok_def list_all_iff)

lemma identify_token_row:
  assumes "vault_inv v"
  shows "identify_downstream c token v =
    (case token_row c token (v_downstream v) of
       None \<Rightarrow> Err InvalidCredential
     | Some d \<Rightarrow> Ok \<lparr>di_id = sd_id d, di_active = sd_active d\<rparr>)"
proof -
  have "token = [] \<Longrightarrow> \<not> starts_with ''nblb_ds_'' token" by (simp add: starts_with_def)
  then show ?thesis
    using scan_last [OF vault_inv_ids(1) [OF assms], of "replicate 16 (CHR 0x00)"]
    by (auto simp: identify_downstream_def token_row_def split: option.splits)
qed

lemma token_row_mem: "token_row c token ds = Some d \<Longrightarrow> d \<in> set ds \<and> sd_token_digest d = fingerprint c token"
  by (auto simp: token_row_def dest!: find_Some_mem split: if_splits)

lemma find_distinct_id:
  "distinct (map f ds) \<Longrightarrow> d \<in> set ds \<Longrightarrow> Q d \<Longrightarrow> List.find (\<lambda>x. f x = f d \<and> Q x) ds = Some d"
  by (induction ds) (auto simp: image_iff)

lemma find_distinct_key:
  "distinct (map f ds) \<Longrightarrow> d \<in> set ds \<Longrightarrow> List.find (\<lambda>x. f x = f d) ds = Some d"
  by (induction ds) (auto simp: image_iff)

section \<open>Acceptance\<close>

lemma authenticate_outcome_iff:
  assumes "vault_inv v" "env_io e = Persist_ok"
  shows "authenticate_downstream c e token scope v =
    (case token_row c token (v_downstream v) of
       None \<Rightarrow> (Err (Auth_error InvalidCredential), v)
     | Some d \<Rightarrow>
         if \<not> sd_active d then (Err (Auth_error InvalidCredential), v)
         else if scope \<notin> set (sd_scopes d) then (Err (Auth_error InsufficientScope), v)
         else commit e (downstream_summary (used_row (env_now e) d))
                (set_downstream (update_first (\<lambda>x. x = d) (used_row (env_now e)) (v_downstream v)) v))"
proof (cases "token_row c token (v_downstream v)")
  case None
  then show ?thesis by (simp add: authenticate_downstream_def identify_token_row [OF assms(1)])
next
  case (Some d)
  then have d: "d \<in> set (v_downstream v)" by (simp add: token_row_mem)
  note dist = vault_inv_ids(2) [OF assms(1)]
  have f1: "List.find (\<lambda>x. sd_id x = sd_id d) (v_downstream v) = Some d"
    by (rule find_distinct_key [OF dist d])
  have f2: "List.find (live_downstream (sd_id d)) (v_downstream v) = Some d" if "sd_active d"
    using find_distinct_id [where Q = sd_active, OF dist d that] by (simp add: live_downstream_def [abs_def])
  have u: "update_first (live_downstream (sd_id d)) g (v_downstream v) =
      update_first (\<lambda>x. x = d) g (v_downstream v)" if "sd_active d" for g
    by (rule update_first_cong)
      (use that d dist in \<open>auto simp: live_downstream_def distinct_map inj_on_def\<close>)
  show ?thesis
    using Some f1 f2 u
    by (simp add: authenticate_downstream_def identify_token_row [OF assms(1)]
        require_downstream_scope_def record_downstream_use_def with_downstream_def)
qed

text \<open>
  C3. \<open>authenticate_downstream\<close> on a reachable vault: the outcome for every token and scope. A
  token is accepted exactly when it has the prefix, the last row with its digest is active and
  that row grants the scope; the answer is that row with its use counted. No other row changes.
\<close>

theorem authenticate_outcome:
  assumes "vault_inv v" "env_io e = Persist_ok"
  shows "authenticate_downstream c e token scope v =
    (case token_row c token (v_downstream v) of
       None \<Rightarrow> (Err (Auth_error InvalidCredential), v)
     | Some d \<Rightarrow>
         if \<not> sd_active d then (Err (Auth_error InvalidCredential), v)
         else if scope \<notin> set (sd_scopes d) then (Err (Auth_error InsufficientScope), v)
         else commit e (downstream_summary (used_row (env_now e) d))
                (set_downstream (update_first (\<lambda>x. x = d) (used_row (env_now e)) (v_downstream v)) v))"
  using assms by (rule authenticate_outcome_iff)

definition demo_scopes :: "str list" where "demo_scopes = [''chat:write'', ''models:read'']"

definition demo_issued :: "(vault_error + issued_downstream) \<times> vault" where
  "demo_issued = issue_downstream plain_crypto (demo_env demo_id) ''hermes'' demo_scopes demo_vault"

lemma demo_downstream_label: "validate_downstream_label ''hermes'' = Ok ()"
  by (simp add: validate_downstream_label_def validate_label_def chars_def trim_def
      trim_segments_def is_whitespace_def is_control_def code_def)

lemma demo_scopes_ok: "canonical_scopes demo_scopes = Ok [''models:read'', ''chat:write'']"
  by (simp add: canonical_scopes_Ok demo_scopes_def SCOPES_def)

lemma demo_issued_Ok:
  "\<exists>iss. demo_issued = (Ok iss, snd demo_issued) \<and>
     issue_downstream plain_crypto (demo_env demo_id) ''hermes'' demo_scopes demo_vault =
       (Ok iss, snd demo_issued)"
proof -
  have "is_ok (fst demo_issued)"
    by (simp add: demo_issued_def issue_downstream_def demo_downstream_label demo_scopes_ok
        demo_vault_def demo_file_def empty_vault_def Let_def commit_fst demo_env_def)
  then obtain iss where "fst demo_issued = Ok iss" by (auto simp: is_ok_iff)
  then have "demo_issued = (Ok iss, snd demo_issued)" by (simp add: prod_eq_iff)
  then show ?thesis unfolding demo_issued_def [symmetric] by blast
qed

lemma demo_id_length: "length demo_id = 16"
  by (simp add: demo_id_def)

lemma demo_issued_inv: "vault_inv (snd demo_issued)"
  unfolding demo_issued_def
  by (rule issue_inv [OF vault_reachable_inv [OF demo_vault_reachable]])
    (simp_all add: demo_vault_def demo_file_def empty_vault_def demo_env_def demo_id_length)

theorem authenticate_outcome_witness:
  "authenticate_downstream plain_crypto (demo_env demo_id) ''nope'' ''chat:write'' (snd demo_issued) =
     (Err (Auth_error InvalidCredential), snd demo_issued)"
proof -
  have "env_io (demo_env demo_id) = Persist_ok" by (simp add: demo_env_def)
  from authenticate_outcome [OF demo_issued_inv this, of plain_crypto "''nope''" "''chat:write''"]
  show ?thesis by (simp add: token_row_def starts_with_def)
qed

text \<open>
  C4. Round trip of issuance: the token an \<open>issue_downstream\<close> call returns authenticates on the
  resulting vault exactly for the scopes that were requested, as the credential just issued,
  and any other scope is refused as insufficient.
\<close>

theorem issued_token_authenticates:
  assumes inv: "vault_inv v" and iss: "issue_downstream c e label requested v = (Ok iss, v')"
    and fresh: "env_uuid e \<notin> set (map sd_id (v_downstream v))" "length (env_uuid e) = 16"
    and io: "env_io e' = Persist_ok"
  shows "fst (authenticate_downstream c e' (iss_token iss) scope v') =
    (if scope \<in> set requested
     then Ok ((iss_summary iss)\<lparr>ds_request_count := 1, ds_last_used_at := Some (env_now e')\<rparr>)
     else Err (Auth_error InsufficientScope))"
proof -
  have inv': "vault_inv v'" using issue_inv [OF inv fresh, of c label requested] iss by simp
  obtain scopes d where sc: "canonical_scopes requested = Ok scopes"
    and v': "v_downstream v' = v_downstream v @ [d]" "iss_token iss = issued_token c e"
      "iss_summary iss = downstream_summary d"
    and d: "sd_token_digest d = fingerprint c (issued_token c e)" "sd_active d" "sd_scopes d = scopes"
      "sd_request_count d = 0" "sd_last_used_at d = None"
    using iss
    by (auto simp: issue_downstream_def Let_def commit_def persist_def bind_ok_Ok_iff
        split: sum.splits if_splits persist_io.splits)
  have "starts_with ''nblb_ds_'' (issued_token c e)"
    by (simp add: issued_token_def starts_with_iff)
  then have row: "token_row c (iss_token iss) (v_downstream v') = Some d"
    by (simp add: token_row_def v' d)
  have "scope \<in> set scopes \<longleftrightarrow> scope \<in> set requested" using sc by (auto simp: canonical_scopes_Ok)
  then show ?thesis
    using authenticate_outcome_iff [OF inv' io, of c "iss_token iss" scope] row d io
    by (simp add: commit_fst v' downstream_summary_def used_row_def sat_add_u64_def u64_max_def)
qed

theorem issued_token_authenticates_witness:
  "\<exists>iss. fst demo_issued = Ok iss \<and>
     is_ok (fst (authenticate_downstream plain_crypto (demo_env demo_id) (iss_token iss) ''chat:write''
       (snd demo_issued))) \<and>
     fst (authenticate_downstream plain_crypto (demo_env demo_id) (iss_token iss) ''audio:write''
       (snd demo_issued)) = Err (Auth_error InsufficientScope)"
proof -
  obtain iss where di: "demo_issued = (Ok iss, snd demo_issued)"
    and iss: "issue_downstream plain_crypto (demo_env demo_id) ''hermes'' demo_scopes demo_vault =
      (Ok iss, snd demo_issued)"
    using demo_issued_Ok by blast
  have fst: "fst demo_issued = Ok iss" by (subst di) (rule fst_conv)
  have f: "env_uuid (demo_env demo_id) \<notin> set (map sd_id (v_downstream demo_vault))"
    "length (env_uuid (demo_env demo_id)) = 16" "env_io (demo_env demo_id) = Persist_ok"
    by (simp_all add: demo_env_def demo_vault_def demo_file_def empty_vault_def demo_id_length)
  note a = issued_token_authenticates [OF vault_reachable_inv [OF demo_vault_reachable] iss f]
  have m: "''chat:write'' \<in> set demo_scopes" "''audio:write'' \<notin> set demo_scopes"
    by (simp_all add: demo_scopes_def)
  show ?thesis
  proof (intro exI conjI)
    show "fst demo_issued = Ok iss" by (rule fst)
  qed (use a m in simp_all)
qed

section \<open>Facts about one credential that survive every history\<close>

text \<open>
  A revoked identifier stays revoked: no operation on any row revives it, and a restart reads
  back a file in which it is revoked. \<open>issue\<close> takes a fresh identifier, hence the set of
  identifiers known at revocation.
\<close>

definition revoked_in :: "uuid \<Rightarrow> vault_file \<Rightarrow> bool" where
  "revoked_in i s \<longleftrightarrow>
     (\<exists>d \<in> set (vf_downstream s). sd_id d = i) \<and>
     (\<forall>d \<in> set (vf_downstream s). sd_id d = i \<longrightarrow> \<not> sd_active d)"

definition revoked_for_good :: "uuid \<Rightarrow> vault \<Rightarrow> bool" where
  "revoked_for_good i v \<longleftrightarrow>
     revoked_in i (v_state v) \<and> (case v_disk v of Holds s \<Rightarrow> revoked_in i s | _ \<Rightarrow> False)"

lemma revoked_commit:
  "revoked_in i (v_state v) \<Longrightarrow> revoked_for_good i v0 \<Longrightarrow> v_disk v = v_disk v0 \<Longrightarrow>
   revoked_for_good i (snd (commit e r v))"
  by (auto simp: revoked_for_good_def commit_def persist_def split: persist_io.splits)

lemma revoked_same:
  assumes "revoked_for_good i v" "v_downstream v' = v_downstream v"
    "v_disk v' = v_disk v \<or> v_disk v' = Holds (v_state v')"
  shows "revoked_for_good i v'"
  using assms by (auto simp: revoked_for_good_def revoked_in_def)

context downstream_update
begin

lemma revoked_update:
  assumes "revoked_in i s"
  shows "revoked_in i (s\<lparr>vf_downstream := update_first p f (vf_downstream s)\<rparr>)"
proof -
  have "set (map sd_id (update_first p f ds)) = set (map sd_id ds)" for ds
    by (simp add: map_update_first same_id del: set_map)
  then have "i \<in> set (map sd_id (update_first p f (vf_downstream s)))"
    using assms by (auto simp: revoked_in_def)
  moreover have "\<not> sd_active d" if "d \<in> set (update_first p f (vf_downstream s))" "sd_id d = i" for d
    using set_update_first [OF that(1)] assms that(2)
    by (auto simp: revoked_in_def same_id dest: revoked_mono)
  ultimately show ?thesis by (auto simp: revoked_in_def)
qed

lemma revoked_set: "revoked_for_good i v \<Longrightarrow>
  revoked_for_good i (snd (commit e r (set_downstream (update_first p f (v_downstream v)) v)))"
  by (rule revoked_commit [where ?v0.0 = v]) (auto simp: revoked_for_good_def revoked_update)

lemma revoked_with_downstream: "revoked_for_good i v \<Longrightarrow>
  revoked_for_good i (snd (with_downstream p m f r e v))"
  by (auto simp: with_downstream_def revoked_set split: option.splits)

end

lemma revoked_step:
  "vault_step c v v' \<Longrightarrow> revoked_for_good j v \<Longrightarrow> revoked_for_good j v'"
proof (induction rule: vault_step.induct)
  case (step_restart v v')
  then obtain s where "v_disk v = Holds s" "revoked_in j s"
    by (auto simp: revoked_for_good_def split: disk.splits)
  with step_restart show ?case
    by (auto simp: vault_open_def revoked_for_good_def split: if_splits)
next
  case (step_issue e v label scopes)
  have "revoked_in j ((v_state v)\<lparr>vf_downstream := v_downstream v @ [d]\<rparr>)" if "sd_id d = env_uuid e" for d
    using step_issue that by (fastforce simp: revoked_for_good_def revoked_in_def)
  then show ?case
    using step_issue
    by (auto simp: issue_downstream_def Let_def split: sum.splits
        intro!: revoked_commit [OF _ step_issue(3)])
next
  case (step_revoke v e i)
  then show ?case
    by (auto simp: revoke_downstream_def revoking.revoked_set split: option.splits)
next
  case (step_scopes v e i scopes)
  then show ?case
  proof (cases "canonical_scopes scopes")
    case (Inr s)
    then have eq: "sd_scopes_update (\<lambda>_. s) = (\<lambda>d. if scopes_canonical s then d\<lparr>sd_scopes := s\<rparr> else d)"
      using canonical_scopes_canonical by auto
    show ?thesis
      unfolding update_downstream_scopes_def Inr sum.case
      by (subst eq) (rule rescoping.revoked_with_downstream [OF step_scopes])
  qed (simp add: update_downstream_scopes_def)
next
  case (step_authenticate v e token scope)
  then show ?case
    by (auto simp: authenticate_downstream_def record_downstream_use_def
        using_credential.revoked_with_downstream split: sum.splits)
qed (auto simp: add_def row_op_defs with_key_def rotate_downstream_def record_downstream_use_def Let_def
    set_router_cursor_def set_router_cursor_for_def persist_for_rollback_def commit_def persist_def
    rotating.revoked_with_downstream using_credential.revoked_with_downstream
    split: sum.splits option.splits persist_io.splits
    intro: revoked_same)


lemma revoked_steps: "(vault_step c)\<^sup>*\<^sup>* v v' \<Longrightarrow> revoked_for_good j v \<Longrightarrow> revoked_for_good j v'"
  by (induction rule: rtranclp_induct) (auto intro: revoked_step)

lemma vault_steps_inv: "(vault_step c)\<^sup>*\<^sup>* v v' \<Longrightarrow> vault_inv v \<Longrightarrow> vault_inv v'"
  by (induction rule: rtranclp_induct) (auto intro: vault_step_inv)

lemma revoke_establishes:
  assumes "revoke_downstream e i v = (Ok s, v')" "\<exists>d \<in> set (v_downstream v). sd_id d = i \<and> sd_active d"
    "vault_inv v"
  shows "revoked_for_good i v'"
proof -
  obtain d0 where d0: "d0 \<in> set (v_downstream v)" "sd_id d0 = i" "sd_active d0" using assms(2) by blast
  then have f: "List.find (\<lambda>d. sd_id d = i) (v_downstream v) = Some d0"
    using find_distinct_key [OF vault_inv_ids(2) [OF assms(3)], of d0] by simp
  let ?ds = "update_first (\<lambda>d. sd_id d = i) (revoked_row (env_now e)) (v_downstream v)"
  have st: "v_state v' = (v_state v)\<lparr>vf_downstream := ?ds\<rparr>" "v_disk v' = Holds (v_state v')"
    using assms(1) f d0(3)
    by (auto simp: revoke_downstream_def commit_def persist_def split: persist_io.splits)
  have ds: "?ds = map (\<lambda>d. if sd_id d = i then revoked_row (env_now e) d else d) (v_downstream v)"
    by (rule update_first_key [OF vault_inv_ids(2) [OF assms(3)]])
  have row: "revoked_row (env_now e) d0 \<in> set ?ds" "sd_id (revoked_row (env_now e) d0) = i"
    unfolding ds using d0 by (auto simp: revoked_row_def)
  have off: "\<not> sd_active d" if "d \<in> set ?ds" "sd_id d = i" for d
    by (rule map_if_key [OF that(1) [unfolded ds] that(2)]) (simp add: revoked_row_def)
  have "vf_downstream (v_state v') = ?ds" by (simp add: st(1))
  then have "revoked_in i (v_state v')"
    unfolding revoked_in_def using row off by metis
  then show ?thesis by (simp add: revoked_for_good_def st(2))
qed

text \<open>
  C5. Revocation is permanent: once \<open>revoke_downstream\<close> has answered for an active credential,
  no token authenticates as that credential any more, after any later history of operations
  (rotations and rescopings of it included), failed writes and restarts.
\<close>

theorem revoked_never_authenticates:
  assumes "revoke_downstream e i v = (Ok s, v')" "\<exists>d \<in> set (v_downstream v). sd_id d = i \<and> sd_active d"
    "vault_inv v" "(vault_step c)\<^sup>*\<^sup>* v' v''" "env_io e' = Persist_ok"
    "fst (authenticate_downstream c e' token scope v'') = Ok s'"
  shows "ds_id s' \<noteq> i"
proof -
  have "vault_step c v (snd (revoke_downstream e i v))" by (rule step_revoke)
  then have "vault_inv v'" using vault_step_inv [OF _ assms(3)] assms(1) by simp
  then have inv: "vault_inv v''" using vault_steps_inv [OF assms(4)] by simp
  have "revoked_for_good i v''"
    by (rule revoked_steps [OF assms(4) revoke_establishes [OF assms(1-3)]])
  then have r: "\<forall>d \<in> set (v_downstream v''). sd_id d = i \<longrightarrow> \<not> sd_active d"
    by (simp add: revoked_for_good_def revoked_in_def)
  obtain d where d: "token_row c token (v_downstream v'') = Some d" "sd_active d"
    "s' = downstream_summary (used_row (env_now e') d)"
    using assms(5,6) authenticate_outcome_iff [OF inv assms(5), of c token scope]
    by (auto simp: commit_fst split: option.splits if_splits)
  then show ?thesis
    using r token_row_mem [OF d(1)] by (auto simp: downstream_summary_def used_row_def)
qed


theorem revoked_never_authenticates_witness:
  "\<exists>iss. fst demo_issued = Ok iss \<and>
     \<not> is_ok (fst (authenticate_downstream plain_crypto (demo_env demo_id) (iss_token iss) ''chat:write''
       (snd (revoke_downstream (demo_env demo_id) demo_id (snd demo_issued)))))"
proof -
  obtain iss where di: "demo_issued = (Ok iss, snd demo_issued)"
    and iss: "issue_downstream plain_crypto (demo_env demo_id) ''hermes'' demo_scopes demo_vault =
      (Ok iss, snd demo_issued)"
    using demo_issued_Ok by blast
  have fst: "fst demo_issued = Ok iss" by (subst di) (rule fst_conv)
  define v' where "v' = snd (revoke_downstream (demo_env demo_id) demo_id (snd demo_issued))"
  have ds: "\<exists>d. v_downstream (snd demo_issued) = [d] \<and> sd_id d = demo_id \<and> sd_active d"
    by (simp add: demo_issued_def issue_downstream_def demo_downstream_label demo_scopes_ok
        demo_vault_def demo_file_def empty_vault_def Let_def demo_env_def)
  then have act: "\<exists>d \<in> set (v_downstream (snd demo_issued)). sd_id d = demo_id \<and> sd_active d" by auto
  obtain s where rv: "revoke_downstream (demo_env demo_id) demo_id (snd demo_issued) = (Ok s, v')"
    using ds by (auto simp: v'_def revoke_downstream_def commit_def persist_def demo_env_def)
  have io: "env_io (demo_env demo_id) = Persist_ok" by (simp add: demo_env_def)
  have only: "\<forall>d \<in> set (v_downstream v'). sd_id d = demo_id"
    using ds by (auto simp: v'_def revoke_downstream_def revoked_row_def)
  have inv': "vault_inv v'"
    unfolding v'_def by (rule revoke_inv [OF demo_issued_inv])
  have "fst (authenticate_downstream plain_crypto (demo_env demo_id) (iss_token iss) ''chat:write'' v') \<noteq> Ok s'" for s'
  proof
    assume a: "fst (authenticate_downstream plain_crypto (demo_env demo_id) (iss_token iss) ''chat:write'' v') = Ok s'"
    have "ds_id s' \<noteq> demo_id"
      by (rule revoked_never_authenticates [OF rv act demo_issued_inv rtranclp.rtrancl_refl io a])
    moreover have "ds_id s' = demo_id"
      using a only token_row_mem authenticate_outcome_iff [OF inv' io, of plain_crypto "iss_token iss" "''chat:write''"]
      by (fastforce simp: commit_fst downstream_summary_def used_row_def split: option.splits if_splits)
    ultimately show False by simp
  qed
  then show ?thesis unfolding v'_def [symmetric] is_ok_iff using fst by blast
qed

end
