(* ===== verification/Json.thy ===== *)
theory Json
  imports Text
begin

text \<open>
  JSON values as \<open>serde_json::Value\<close> has them, with the accessors the program calls. The
  parser and the serializer of \<open>serde_json\<close> are parameters of the functions that use them.
  An object is an association list in serialization order; \<open>Value\<close>'s own maps are sorted and
  duplicate free, which \<open>obj_set\<close> preserves. A \<open>f64\<close> is the rational it stands for.
\<close>

datatype json_number = NatNum nat | NegNum int | FloatNum rat

datatype json =
    JNull
  | JBool bool
  | JNumber json_number
  | JString str
  | JArray "json list"
  | JObject "(str \<times> json) list"

section \<open>Accessors\<close>

text \<open>\<open>Value::get\<close> with a string index, on an object or anything else.\<close>

definition get_field :: "str \<Rightarrow> json \<Rightarrow> json option" where
  "get_field key v = (case v of JObject m \<Rightarrow> map_of m key | _ \<Rightarrow> None)"

definition as_str :: "json \<Rightarrow> str option" where
  "as_str v = (case v of JString s \<Rightarrow> Some s | _ \<Rightarrow> None)"

definition as_bool :: "json \<Rightarrow> bool option" where
  "as_bool v = (case v of JBool b \<Rightarrow> Some b | _ \<Rightarrow> None)"

definition as_array :: "json \<Rightarrow> json list option" where
  "as_array v = (case v of JArray xs \<Rightarrow> Some xs | _ \<Rightarrow> None)"

definition as_object :: "json \<Rightarrow> (str \<times> json) list option" where
  "as_object v = (case v of JObject m \<Rightarrow> Some m | _ \<Rightarrow> None)"

definition as_u64 :: "json \<Rightarrow> nat option" where
  "as_u64 v = (case v of JNumber (NatNum n) \<Rightarrow> Some n | _ \<Rightarrow> None)"

definition as_i64 :: "json \<Rightarrow> int option" where
  "as_i64 v =
     (case v of
        JNumber (NatNum n) \<Rightarrow> if n < 2 ^ 63 then Some (int n) else None
      | JNumber (NegNum i) \<Rightarrow> Some i
      | _ \<Rightarrow> None)"

definition as_f64 :: "json \<Rightarrow> rat option" where
  "as_f64 v =
     (case v of
        JNumber (NatNum n) \<Rightarrow> Some (of_nat n)
      | JNumber (NegNum i) \<Rightarrow> Some (of_int i)
      | JNumber (FloatNum r) \<Rightarrow> Some r
      | _ \<Rightarrow> None)"

definition is_object :: "json \<Rightarrow> bool" where
  "is_object v = (case v of JObject _ \<Rightarrow> True | _ \<Rightarrow> False)"

definition is_string :: "json \<Rightarrow> bool" where
  "is_string v = (case v of JString _ \<Rightarrow> True | _ \<Rightarrow> False)"

definition is_null :: "json \<Rightarrow> bool" where
  "is_null v = (v = JNull)"

text \<open>\<open>v.get(key).and_then(Value::as_str)\<close> and its relatives.\<close>

definition get_str :: "str \<Rightarrow> json \<Rightarrow> str option" where
  "get_str key v = Option.bind (get_field key v) as_str"

definition get_array :: "str \<Rightarrow> json \<Rightarrow> json list option" where
  "get_array key v = Option.bind (get_field key v) as_array"

definition get_bool :: "str \<Rightarrow> json \<Rightarrow> bool option" where
  "get_bool key v = Option.bind (get_field key v) as_bool"

definition get_u64 :: "str \<Rightarrow> json \<Rightarrow> nat option" where
  "get_u64 key v = Option.bind (get_field key v) as_u64"

lemmas json_accessors = get_field_def as_str_def as_bool_def as_array_def as_object_def as_u64_def
  as_i64_def as_f64_def is_object_def is_string_def is_null_def get_str_def get_array_def
  get_bool_def get_u64_def

section \<open>Updates\<close>

text \<open>\<open>Map::insert\<close> on a sorted map, byte order on keys; \<open>Map::remove\<close>.\<close>

fun str_less :: "str \<Rightarrow> str \<Rightarrow> bool" where
  "str_less [] [] = False"
| "str_less [] (b # bs) = True"
| "str_less (a # as) [] = False"
| "str_less (a # as) (b # bs) = (code a < code b \<or> a = b \<and> str_less as bs)"

fun obj_set :: "str \<Rightarrow> json \<Rightarrow> (str \<times> json) list \<Rightarrow> (str \<times> json) list" where
  "obj_set k v [] = [(k, v)]"
| "obj_set k v ((k', v') # m) =
     (if k = k' then (k, v) # m
      else if str_less k k' then (k, v) # (k', v') # m
      else (k', v') # obj_set k v m)"

definition obj_remove :: "str \<Rightarrow> (str \<times> json) list \<Rightarrow> (str \<times> json) list" where
  "obj_remove k m = filter (\<lambda>(k', _). k' \<noteq> k) m"

lemma str_less_irrefl [simp]: "\<not> str_less s s"
  by (induction s) auto

lemma str_less_trans: "str_less a b \<Longrightarrow> str_less b c \<Longrightarrow> str_less a c"
proof (induction a b arbitrary: c rule: str_less.induct)
  case (4 a as b bs)
  then show ?case by (cases c) auto
qed (auto elim: str_less.elims)

lemma str_less_linear: "str_less a b \<or> a = b \<or> str_less b a"
  by (induction a b rule: str_less.induct) (auto simp: linorder_neq_iff simp flip: code_inject)

definition sorted_object :: "(str \<times> json) list \<Rightarrow> bool" where
  "sorted_object m = sorted_wrt str_less (map fst m)"

lemma map_of_obj_set [simp]: "sorted_object m \<Longrightarrow> map_of (obj_set k v m) = (map_of m)(k \<mapsto> v)"
proof (induction m)
  case (Cons e m)
  obtain k' v' where e: "e = (k', v')" by (cases e)
  have "k \<notin> fst ` set m" if "str_less k k'"
    using Cons.prems that str_less_trans [of k k'] by (fastforce simp: sorted_object_def e)
  then have "str_less k k' \<Longrightarrow> map_of m k = None" by (auto simp: map_of_eq_None_iff)
  then show ?case using Cons by (auto simp: e sorted_object_def fun_eq_iff)
qed (auto simp: sorted_object_def)

lemma set_obj_set: "set (map fst (obj_set k v m)) = insert k (set (map fst m))"
  by (induction k v m rule: obj_set.induct) auto

lemma sorted_obj_set: "sorted_object m \<Longrightarrow> sorted_object (obj_set k v m)"
proof (induction k v m rule: obj_set.induct)
  case (2 k v k' v' m)
  have s: "sorted_object m" "\<forall>x \<in> set (map fst m). str_less k' x"
    using "2.prems" by (auto simp: sorted_object_def)
  show ?case
  proof (cases "k = k' \<or> str_less k k'")
    case True
    then show ?thesis
      using "2.prems" s str_less_trans [of k k'] by (auto simp: sorted_object_def)
  next
    case False
    then have "str_less k' k" using str_less_linear [of k k'] by auto
    then have "\<forall>x \<in> set (map fst (obj_set k v m)). str_less k' x"
      unfolding set_obj_set using s(2) by simp
    then show ?thesis using False "2.IH" s(1) by (auto simp: sorted_object_def)
  qed
qed (simp add: sorted_object_def)

lemma map_of_obj_remove: "map_of (obj_remove k m) k' = (if k' = k then None else map_of m k')"
  by (induction m) (auto simp: obj_remove_def)

lemma sorted_obj_remove: "sorted_object m \<Longrightarrow> sorted_object (obj_remove k m)"
  by (induction m) (auto simp: sorted_object_def obj_remove_def)

end
