(* ===== verification/Router.thy ===== *)
theory Router
  imports Vault_Auth "HOL-Library.Multiset"
begin

text \<open>
  The round-robin selector of \<open>crates/core/src/lib.rs\<close> (\<open>Router\<close>) and the eligibility
  test of \<open>main.rs\<close>: which key is selected, when none is, and that repeated selection
  visits the eligible keys in turn. The cursor is a \<open>usize\<close>; its sum with an offset is
  written with the wrap-around of 64 bits.
\<close>

section \<open>The selector\<close>

record router =
  next_slot :: nat

definition with_next_slot :: "nat \<Rightarrow> router" where
  "with_next_slot n = \<lparr>next_slot = n\<rparr>"

definition set_next_slot :: "nat \<Rightarrow> router \<Rightarrow> router" where
  "set_next_slot n r = r\<lparr>next_slot := n\<rparr>"

definition eligible :: "time \<Rightarrow> key_summary \<Rightarrow> bool" where
  "eligible now k \<longleftrightarrow>
     ks_enabled k \<and> ks_verified k \<and> is_none_or (\<lambda>until. until \<le> now) (ks_cooldown_until k)"

text \<open>The indices the loop of \<open>select\<close> visits, in its order.\<close>

definition visit_order :: "nat \<Rightarrow> nat \<Rightarrow> nat list" where
  "visit_order slot n = map (\<lambda>offset. (slot + offset) mod 2 ^ 64 mod n) [0..<n]"

definition select :: "time \<Rightarrow> key_summary list \<Rightarrow> router \<Rightarrow> uuid option \<times> router" where
  "select now keys r =
     (if keys = [] then (None, r)
      else (case List.find (\<lambda>i. eligible now (keys ! i)) (visit_order (next_slot r) (length keys)) of
              None \<Rightarrow> (None, r)
            | Some i \<Rightarrow> (Some (ks_id (keys ! i)), r\<lparr>next_slot := (i + 1) mod length keys\<rparr>)))"

definition eligible_key_count :: "time \<Rightarrow> key_summary list \<Rightarrow> nat" where
  "eligible_key_count now keys = length (filter (eligible now) keys)"

section \<open>Selection and rotation\<close>

text \<open>Within 64 bits the loop visits every index once, starting at the cursor.\<close>

lemma visit_order_rotate:
  assumes "s + n \<le> 2 ^ 64"
  shows "visit_order s n = rotate s [0..<n]"
proof (rule nth_equalityI)
  fix i assume "i < length (visit_order s n)"
  then have "i < n" "s + i < 2 ^ 64" using assms by (auto simp: visit_order_def)
  then show "visit_order s n ! i = rotate s [0..<n] ! i"
    by (simp add: visit_order_def nth_rotate)
qed (simp add: visit_order_def)

lemma find_split:
  "List.find p xs = Some x \<Longrightarrow> \<exists>pre post. xs = pre @ x # post \<and> filter p pre = [] \<and> p x"
proof (induction xs)
  case (Cons y ys)
  show ?case
  proof (cases "p y")
    case True
    then show ?thesis using Cons.prems by - (rule exI [of _ "[]"], rule exI [of _ ys], auto)
  next
    case False
    then obtain pre post where "ys = pre @ x # post" "filter p pre = []" "p x"
      using Cons by auto
    then show ?thesis using False by - (rule exI [of _ "y # pre"], rule exI [of _ post], auto)
  qed
qed simp

lemma rotate_past:
  assumes "rotate s [0..<n] = pre @ i # post"
  shows "rotate ((i + 1) mod n) [0..<n] = post @ pre @ [i]"
proof -
  have len: "length pre < n" using arg_cong [OF assms, of length] by simp
  have "i = rotate s [0..<n] ! length pre" by (simp add: assms)
  also have "\<dots> = (s + length pre) mod n" using len by (simp add: nth_rotate)
  finally have i: "i = (s + length pre) mod n" .
  have "rotate ((i + 1) mod n) [0..<n] = rotate (i + 1) [0..<n]"
    using rotate_conv_mod [of "i + 1" "[0..<n]"] by simp
  also have "\<dots> = rotate (Suc (length pre) + s) [0..<n]"
    using rotate_conv_mod [of "i + 1" "[0..<n]"] rotate_conv_mod [of "Suc (length pre) + s" "[0..<n]"]
    by (simp add: i mod_Suc_eq add.commute)
  also have "\<dots> = rotate (Suc (length pre)) (rotate s [0..<n])" by (simp only: rotate_rotate)
  also have "\<dots> = rotate (length (pre @ [i])) ((pre @ [i]) @ post)" by (simp add: assms)
  also have "\<dots> = post @ pre @ [i]" by (simp only: rotate_append)
  finally show ?thesis .
qed

text \<open>The turn: the eligible indices, from the cursor on.\<close>

definition turn :: "time \<Rightarrow> key_summary list \<Rightarrow> router \<Rightarrow> nat list" where
  "turn now keys r = filter (\<lambda>i. eligible now (keys ! i)) (rotate (next_slot r) [0..<length keys])"

lemma select_turn:
  assumes "next_slot r + length keys \<le> 2 ^ 64"
  shows "select now keys r =
    (case turn now keys r of
       [] \<Rightarrow> (None, r)
     | i # _ \<Rightarrow> (Some (ks_id (keys ! i)), r\<lparr>next_slot := (i + 1) mod length keys\<rparr>))"
proof -
  have "List.find p xs = (case filter p xs of [] \<Rightarrow> None | x # _ \<Rightarrow> Some x)" for p :: "nat \<Rightarrow> bool" and xs
    by (induction xs) auto
  then show ?thesis
    by (cases "turn now keys r")
      (auto simp: select_def turn_def visit_order_rotate [OF assms])
qed

lemma turn_select:
  assumes "next_slot r + length keys \<le> 2 ^ 64" "turn now keys r = i # js"
  shows "select now keys r = (Some (ks_id (keys ! i)), r\<lparr>next_slot := (i + 1) mod length keys\<rparr>)"
    and "turn now keys (snd (select now keys r)) = js @ [i]"
    and "next_slot (snd (select now keys r)) < length keys" and "i < length keys"
    and "eligible now (keys ! i)"
proof -
  let ?p = "\<lambda>i. eligible now (keys ! i)" and ?l = "rotate (next_slot r) [0..<length keys]"
  show s: "select now keys r = (Some (ks_id (keys ! i)), r\<lparr>next_slot := (i + 1) mod length keys\<rparr>)"
    using assms by (simp add: select_turn)
  have i: "i \<in> set (turn now keys r)" by (simp add: assms(2))
  then show "i < length keys" "eligible now (keys ! i)" by (auto simp: turn_def)
  then have "0 < length keys" by auto
  then show "next_slot (snd (select now keys r)) < length keys" by (simp add: s)
  obtain pre post where l: "?l = pre @ i # post" "filter ?p pre = []"
  proof -
    have "List.find ?p ?l = Some i"
    proof -
      have "List.find p xs = (case filter p xs of [] \<Rightarrow> None | x # _ \<Rightarrow> Some x)" for p :: "nat \<Rightarrow> bool" and xs
        by (induction xs) auto
      then show ?thesis using assms(2) by (simp add: turn_def)
    qed
    then show ?thesis using that find_split [of ?p ?l i] by blast
  qed
  have p: "?p i" using i by (simp add: turn_def)
  then have js: "filter ?p post = js"
    using assms(2) l by (simp add: turn_def)
  have "turn now keys (r\<lparr>next_slot := (i + 1) mod length keys\<rparr>) = filter ?p (post @ pre @ [i])"
    using rotate_past [OF l(1)] by (simp add: turn_def)
  then show "turn now keys (snd (select now keys r)) = js @ [i]"
    using p js l(2) by (simp add: s)
qed

lemma turn_set: "set (turn now keys r) = {i. i < length keys \<and> eligible now (keys ! i)}"
  by (auto simp: turn_def)

lemma turn_length: "length (turn now keys r) = eligible_key_count now keys"
proof -
  have "mset (rotate1 xs) = mset xs" for xs :: "nat list" by (cases xs) auto
  then have "mset (rotate n xs) = mset xs" for n and xs :: "nat list"
    by (induction n) simp_all
  then have "mset (turn now keys r) = filter_mset (\<lambda>i. eligible now (keys ! i)) (mset [0..<length keys])"
    by (simp add: turn_def del: mset_upt)
  then have "length (turn now keys r) = length (filter (\<lambda>i. eligible now (keys ! i)) [0..<length keys])"
    by (metis mset_filter size_mset)
  also have "\<dots> = length (filter (eligible now) (map ((!) keys) [0..<length keys]))"
    by (simp add: filter_map comp_def)
  finally show ?thesis by (simp add: map_nth eligible_key_count_def)
qed

section \<open>What a selection promises\<close>

text \<open>
  C15. The selector answers exactly when some key is eligible, always with an eligible key of
  the list, and leaves the cursor inside the list.
\<close>

theorem select_correct:
  assumes "next_slot r + length keys \<le> 2 ^ 64"
  shows "(fst (select now keys r) = None \<longleftrightarrow> eligible_key_count now keys = 0) \<and>
    (\<forall>i. fst (select now keys r) = Some i \<longrightarrow>
       (\<exists>k \<in> set keys. ks_id k = i \<and> eligible now k) \<and>
       next_slot (snd (select now keys r)) < length keys)"
proof (cases "turn now keys r")
  case Nil
  then show ?thesis using turn_length [of now keys r] by (simp add: select_turn [OF assms])
next
  case (Cons i js)
  note t = turn_select [OF assms Cons]
  have "eligible_key_count now keys \<noteq> 0"
    using turn_length [of now keys r] Cons by simp
  moreover have "fst (select now keys r) = Some (ks_id (keys ! i))" by (simp add: t(1))
  moreover have "keys ! i \<in> set keys" using t(4) by simp
  ultimately show ?thesis using t(3,5) by auto
qed

definition demo_key :: "uuid \<Rightarrow> bool \<Rightarrow> time option \<Rightarrow> key_summary" where
  "demo_key i on cooling =
     \<lparr>ks_id = i, ks_label = i, ks_fingerprint = i, ks_enabled = on, ks_verified = on,
      ks_cooldown_until = cooling, ks_request_count = 0, ks_failure_count = 0\<rparr>"

definition demo_keys :: "key_summary list" where
  "demo_keys = [demo_key ''a'' True None, demo_key ''b'' True (Some 50), demo_key ''c'' False None]"

lemma demo_turn: "turn 60 demo_keys (with_next_slot 1) = [1, 0]"
  by (simp add: turn_def with_next_slot_def demo_keys_def demo_key_def eligible_def upt_rec rotate1_def)

theorem select_correct_witness:
  "fst (select 60 demo_keys (with_next_slot 1)) \<noteq> None \<and>
   fst (select 10 [demo_key ''b'' True (Some 50)] (with_next_slot 0)) = None"
  using select_correct [of "with_next_slot 1" demo_keys 60]
    select_correct [of "with_next_slot 0" "[demo_key ''b'' True (Some 50)]" 10]
  by (auto simp: with_next_slot_def demo_keys_def demo_key_def eligible_key_count_def eligible_def)

text \<open>The ids of \<open>n\<close> selections in a row over an unchanged list.\<close>

fun selections :: "time \<Rightarrow> key_summary list \<Rightarrow> nat \<Rightarrow> router \<Rightarrow> uuid option list" where
  "selections now keys 0 r = []"
| "selections now keys (Suc n) r =
     fst (select now keys r) # selections now keys n (snd (select now keys r))"

lemma selections_prefix:
  "next_slot r + length keys \<le> 2 ^ 64 \<Longrightarrow> length keys + length keys \<le> 2 ^ 64 \<Longrightarrow>
   turn now keys r = xs @ ys \<Longrightarrow>
   selections now keys (length xs + n) r = map (\<lambda>i. Some (ks_id (keys ! i))) xs @
     selections now keys n (((\<lambda>r. snd (select now keys r)) ^^ length xs) r) \<and>
   turn now keys (((\<lambda>r. snd (select now keys r)) ^^ length xs) r) = ys @ xs \<and>
   next_slot (((\<lambda>r. snd (select now keys r)) ^^ length xs) r) + length keys \<le> 2 ^ 64"
proof (induction xs arbitrary: r ys)
  case (Cons i xs)
  note t = turn_select [OF Cons.prems(1) Cons.prems(3) [unfolded append_Cons]]
  have "next_slot (snd (select now keys r)) + length keys \<le> 2 ^ 64"
    using t(3) Cons.prems(2) by linarith
  moreover have "turn now keys (snd (select now keys r)) = xs @ (ys @ [i])" by (simp add: t(2))
  ultimately show ?case
    using Cons.IH [of "snd (select now keys r)" "ys @ [i]"] Cons.prems(2) t(1)
    by (simp add: funpow_swap1 [symmetric] funpow_Suc_right del: funpow.simps)
qed simp

text \<open>
  C16. Round robin: while the list does not change, each period of as many selections as there
  are eligible keys answers every eligible key exactly once, in the same cyclic order from the
  cursor on, and the next period repeats it. No eligible key starves.
\<close>

theorem round_robin:
  assumes "next_slot r + length keys \<le> 2 ^ 64" "length keys \<le> 2 ^ 63"
    "distinct (map ks_id keys)" "m = eligible_key_count now keys"
  shows "selections now keys (m + m) r = selections now keys m r @ selections now keys m r \<and>
    distinct (selections now keys m r) \<and>
    set (selections now keys m r) = (\<lambda>k. Some (ks_id k)) ` {k \<in> set keys. eligible now k}"
proof -
  let ?t = "turn now keys r" and ?f = "\<lambda>i. Some (ks_id (keys ! i))"
  let ?r = "((\<lambda>r. snd (select now keys r)) ^^ m) r"
  have m: "m = length ?t" by (simp add: turn_length assms(4))
  have two: "length keys + length keys \<le> 2 ^ 64" using assms(2) by simp
  have a: "selections now keys (m + n) r = map ?f ?t @ selections now keys n ?r \<and>
      turn now keys ?r = ?t \<and> next_slot ?r + length keys \<le> 2 ^ 64" for n
    using selections_prefix [OF assms(1) two, of now ?t "[]" n] by (simp add: m)
  then have one: "selections now keys m r = map ?f ?t" using a [of 0] by simp
  have "selections now keys m ?r = map ?f ?t"
    using selections_prefix [of ?r keys now ?t "[]" 0] a two by (simp add: m)
  then have "selections now keys (m + m) r = selections now keys m r @ selections now keys m r"
    using a [of m] one by simp
  moreover have "distinct (map ?f ?t)"
  proof -
    have "distinct ?t" by (simp add: turn_def)
    moreover have "inj_on ?f (set ?t)"
      using assms(3) by (auto simp: turn_set inj_on_def distinct_conv_nth) 
    ultimately show ?thesis by (simp only: distinct_map)
  qed
  moreover have "set (map ?f ?t) = (\<lambda>k. Some (ks_id k)) ` {k \<in> set keys. eligible now k}"
    by (auto simp: turn_set in_set_conv_nth image_iff) 
  ultimately show ?thesis using one by simp
qed

theorem round_robin_witness:
  "selections 60 demo_keys (2 + 2) (with_next_slot 1) =
     selections 60 demo_keys 2 (with_next_slot 1) @ selections 60 demo_keys 2 (with_next_slot 1) \<and>
   set (selections 60 demo_keys 2 (with_next_slot 1)) = {Some ''a'', Some ''b''}"
proof -
  have m: "2 = eligible_key_count 60 demo_keys"
    by (simp add: eligible_key_count_def demo_keys_def demo_key_def eligible_def)
  have h: "next_slot (with_next_slot 1) + length demo_keys \<le> 2 ^ 64" "length demo_keys \<le> 2 ^ 63"
    "distinct (map ks_id demo_keys)"
    by (simp_all add: with_next_slot_def demo_keys_def demo_key_def)
  have "{k \<in> set demo_keys. eligible 60 k} = {demo_key ''a'' True None, demo_key ''b'' True (Some 50)}"
    by (auto simp: demo_keys_def demo_key_def eligible_def)
  then show ?thesis using round_robin [OF h m] by (simp add: demo_key_def)
qed

end
