(* ===== verification/Http.thy ===== *)
theory Http
  imports Json Router
begin

text \<open>
  Requests, responses and the two error envelopes (\<open>errors.rs\<close>), the request identifier
  and the middleware of \<open>request_id.rs\<close>, the readiness answer of \<open>health.rs\<close>. \<open>actix-web\<close>
  is not modelled: a request is its method, path, headers in order and extension, a handler
  is a function from requests to responses.
\<close>

section \<open>Requests and responses\<close>

record http_request =
  rq_method :: str
  rq_path :: str
  rq_headers :: "(str \<times> bytes) list"
  rq_id :: "uuid option"

datatype http_body = No_body | Json_body json | Raw_body bytes

record http_response =
  rp_status :: nat
  rp_headers :: "(str \<times> bytes) list"
  rp_body :: http_body

definition header_all :: "str \<Rightarrow> http_request \<Rightarrow> bytes list" where
  "header_all name req = map snd (filter (\<lambda>h. fst h = name) (rq_headers req))"

definition header_first :: "str \<Rightarrow> http_request \<Rightarrow> bytes option" where
  "header_first name req = map_of (rq_headers req) name"

text \<open>\<open>HeaderValue::to_str\<close>: visible ASCII and tabs only.\<close>

definition header_str :: "bytes \<Rightarrow> str option" where
  "header_str b =
     (if list_all (\<lambda>c. 32 \<le> code c \<and> code c < 127 \<or> code c = 9) b then Some b else None)"

definition json_response :: "nat \<Rightarrow> (str \<times> bytes) list \<Rightarrow> json \<Rightarrow> http_response" where
  "json_response status hs v = \<lparr>rp_status = status, rp_headers = hs, rp_body = Json_body v\<rparr>"

definition is_success :: "nat \<Rightarrow> bool" where
  "is_success status \<longleftrightarrow> 200 \<le> status \<and> status < 300"

section \<open>Error envelopes\<close>

definition openai_error :: "nat \<Rightarrow> str \<Rightarrow> str \<Rightarrow> str \<Rightarrow> http_response" where
  "openai_error status message kind error_code =
     json_response status []
       (JObject [(''error'',
          JObject [(''message'', JString message), (''type'', JString kind), (''param'', JNull),
                   (''code'', JString error_code)])])"

definition invalid_request :: "str \<Rightarrow> http_response" where
  "invalid_request message =
     openai_error 400 message ''invalid_request_error'' ''invalid_request''"

text \<open>The identifier the middleware stored, or a fresh one (\<open>request_id\<close>).\<close>

definition request_id :: "uuid \<Rightarrow> http_request \<Rightarrow> uuid" where
  "request_id fresh req = unwrap_or fresh (rq_id req)"

text \<open>\<open>show_uuid\<close> is the hyphenated lower-case text of an identifier.\<close>

definition show_uuid :: "uuid \<Rightarrow> str" where
  "show_uuid u =
     (let h = to_hex u
      in take 8 h @ ''-'' @ take 4 (drop 8 h) @ ''-'' @ take 4 (drop 12 h) @ ''-''
         @ take 4 (drop 16 h) @ ''-'' @ drop 20 h)"

definition operations_error ::
    "uuid \<Rightarrow> http_request \<Rightarrow> nat \<Rightarrow> str \<Rightarrow> str \<Rightarrow> bool \<Rightarrow> json option \<Rightarrow> http_response" where
  "operations_error fresh req status error_code message retryable details =
     json_response status []
       (JObject [(''error'',
          JObject ([(''code'', JString error_code), (''message'', JString message),
                    (''request_id'', JString (show_uuid (request_id fresh req))),
                    (''retryable'', JBool retryable)]
                   @ (case details of None \<Rightarrow> [] | Some v \<Rightarrow> [(''details'', v)])))])"

section \<open>Request identifiers and the admin boundary\<close>

definition is_dynamic_api_path :: "str \<Rightarrow> bool" where
  "is_dynamic_api_path path \<longleftrightarrow>
     path \<in> set [''/health'', ''/health/live'', ''/health/ready'']
     \<or> starts_with ''/v1/'' path \<or> starts_with ''/api/public/'' path
     \<or> starts_with ''/admin/api/'' path"

text \<open>\<open>HeaderMap::insert\<close> replaces every value of the name.\<close>

definition insert_header :: "str \<Rightarrow> bytes \<Rightarrow> http_response \<Rightarrow> http_response" where
  "insert_header name v r =
     r\<lparr>rp_headers := filter (\<lambda>h. fst h \<noteq> name) (rp_headers r) @ [(name, v)]\<rparr>"

definition assign_request_id ::
    "uuid \<Rightarrow> (http_request \<Rightarrow> 'e + http_response) \<Rightarrow> http_request \<Rightarrow> 'e + http_response" where
  "assign_request_id fresh nxt req =
     (if \<not> is_dynamic_api_path (rq_path req) then nxt req
      else bind_ok (nxt (req\<lparr>rq_id := Some fresh\<rparr>))
             (\<lambda>r. Ok (insert_header ''x-request-id'' (show_uuid fresh) r)))"

text \<open>\<open>allowed\<close> is \<open>admin_surface_allowed\<close> of the request, false without application state.\<close>

definition enforce_admin_boundary ::
    "bool \<Rightarrow> (http_request \<Rightarrow> 'e + http_response) \<Rightarrow> http_request \<Rightarrow> 'e + http_response" where
  "enforce_admin_boundary allowed nxt req =
     (if (rq_path req = ''/admin'' \<or> starts_with ''/admin/'' (rq_path req)) \<and> \<not> allowed
      then Ok \<lparr>rp_status = 404, rp_headers = [], rp_body = No_body\<rparr>
      else nxt req)"

text \<open>The audited target of a mutation; \<open>parse_uuid\<close> is \<open>Uuid::parse_str\<close>.\<close>

definition resource_kind_of :: "str \<Rightarrow> str option" where
  "resource_kind_of segment =
     map_of [(''upstreams'', ''upstream''), (''clients'', ''client''),
             (''routing'', ''routing_policy''), (''models'', ''model_catalog''),
             (''incidents'', ''incident''), (''qa'', ''qa_run''), (''settings'', ''settings'')]
       segment"

definition mutation_operation :: "str \<Rightarrow> str list \<Rightarrow> str option" where
  "mutation_operation verb segments =
     (if verb = ''POST'' then
        (case segments of
           [a] \<Rightarrow> Some ''create''
         | [a, b] \<Rightarrow>
             if a = ''qa'' \<and> b = ''runs'' then Some ''create''
             else if b \<noteq> ''policy'' then Some b else None
         | [a, b, c] \<Rightarrow> if c = ''updates'' then Some ''message.create'' else Some c
         | _ \<Rightarrow> None)
      else if verb = ''PATCH'' then Some ''update''
      else if verb = ''DELETE'' then Some ''delete''
      else None)"

definition find_map :: "('a \<Rightarrow> 'b option) \<Rightarrow> 'a list \<Rightarrow> 'b option" where
  "find_map f xs = (case List.find (\<lambda>x. f x \<noteq> None) xs of None \<Rightarrow> None | Some x \<Rightarrow> f x)"

definition failed_mutation_target ::
    "(str \<Rightarrow> uuid option) \<Rightarrow> str \<Rightarrow> str \<Rightarrow> (str \<times> str \<times> uuid option) option" where
  "failed_mutation_target parse_uuid path verb =
     (if verb \<notin> set [''POST'', ''PATCH'', ''DELETE''] then None
      else (case strip_prefix ''/admin/api/v2/'' path of
         None \<Rightarrow> None
       | Some rest \<Rightarrow>
           (case filter (\<lambda>s. s \<noteq> []) (split_on (CHR ''/'') rest) of
              [] \<Rightarrow> None
            | first # others \<Rightarrow>
                if first = ''routing'' \<and> take 1 others = [''simulate''] then None
                else Option.bind (resource_kind_of first)
                  (\<lambda>kind. Option.bind (mutation_operation verb (first # others))
                    (\<lambda>op. Some (kind @ ''.'' @ op, kind, find_map parse_uuid (first # others)))))))"

record audit_event =
  ae_id :: uuid
  ae_action :: str
  ae_resource_kind :: str
  ae_resource_id :: "uuid option"
  ae_actor :: str
  ae_request_id :: "uuid option"
  ae_outcome :: str
  ae_detail :: json
  ae_created_at :: time

text \<open>The insert leaves the identifier (\<open>fresh\<close>), the actor and the instant to the columns' defaults.\<close>

definition new_audit ::
    "uuid \<Rightarrow> time \<Rightarrow> str \<Rightarrow> str \<Rightarrow> uuid option \<Rightarrow> uuid option \<Rightarrow> str \<Rightarrow> json \<Rightarrow> audit_event" where
  "new_audit fresh now action kind i rid outcome detail =
     \<lparr>ae_id = fresh, ae_action = action, ae_resource_kind = kind, ae_resource_id = i,
      ae_actor = ''local_admin'', ae_request_id = rid, ae_outcome = outcome, ae_detail = detail,
      ae_created_at = now\<rparr>"

text \<open>
  The failure audit writes one row after a rejected or failed mutation; the row is best
  effort, so a failed insert (\<open>insert_ok\<close> false) or a file-mode gateway (\<open>database\<close> false)
  only loses the row.
\<close>

definition audit_failed_admin_mutation ::
    "(str \<Rightarrow> uuid option) \<Rightarrow> uuid \<Rightarrow> time \<Rightarrow> bool \<Rightarrow> bool \<Rightarrow> (http_request \<Rightarrow> 'e + http_response) \<Rightarrow>
     http_request \<Rightarrow> audit_event list \<Rightarrow> ('e + http_response) \<times> audit_event list" where
  "audit_failed_admin_mutation parse_uuid fresh now database insert_ok nxt req events =
     (case nxt req of
        Inl e \<Rightarrow> (Err e, events)
      | Inr r \<Rightarrow>
          (case failed_mutation_target parse_uuid (rq_path req) (rq_method req) of
             Some (action, kind, i) \<Rightarrow>
               if \<not> is_success (rp_status r) \<and> database \<and> insert_ok
               then (Ok r, events @ [new_audit fresh now action kind i (rq_id req) ''failed''
                       (JObject [(''best_effort'', JBool True),
                         (''http_status'', JNumber (NatNum (rp_status r))),
                         (''method'', JString (rq_method req))])])
               else (Ok r, events)
           | None \<Rightarrow> (Ok r, events)))"

section \<open>Readiness\<close>

record readiness =
  rd_status :: str
  rd_ready :: bool
  rd_database_ready :: bool
  rd_traffic_ready :: bool
  rd_pair_ready :: bool
  rd_eligible_keys :: nat
  rd_reason_codes :: "str list"

definition from_eligible_count :: "bool \<Rightarrow> nat \<Rightarrow> readiness" where
  "from_eligible_count database_ready eligible_keys =
     (let traffic_ready = database_ready \<and> eligible_keys > 0;
          pair_ready = database_ready \<and> eligible_keys = MAX_UPSTREAM_KEYS
      in \<lparr>rd_status = (if traffic_ready then ''ok'' else ''degraded''), rd_ready = traffic_ready,
          rd_database_ready = database_ready, rd_traffic_ready = traffic_ready,
          rd_pair_ready = pair_ready, rd_eligible_keys = eligible_keys,
          rd_reason_codes =
            (if \<not> database_ready then [''database_unavailable'']
             else if eligible_keys = 0 then [''no_eligible_upstream''] else [])
            @ (if database_ready \<and> \<not> pair_ready then [''pair_not_ready''] else [])\<rparr>)"

definition from_state :: "time \<Rightarrow> bool \<Rightarrow> key_summary list \<Rightarrow> readiness" where
  "from_state now database_ready keys =
     from_eligible_count database_ready (if database_ready then eligible_key_count now keys else 0)"

definition readiness_json :: "readiness \<Rightarrow> json" where
  "readiness_json r =
     JObject [(''status'', JString (rd_status r)), (''ready'', JBool (rd_ready r)),
              (''database_ready'', JBool (rd_database_ready r)),
              (''traffic_ready'', JBool (rd_traffic_ready r)),
              (''pair_ready'', JBool (rd_pair_ready r)),
              (''eligible_keys'', JNumber (NatNum (rd_eligible_keys r))),
              (''reason_codes'', JArray (map JString (rd_reason_codes r)))]"

definition readiness_response :: "readiness \<Rightarrow> http_response" where
  "readiness_response r =
     json_response (if rd_traffic_ready r then 200 else 503) [(''cache-control'', ''no-store'')]
       (readiness_json r)"

text \<open>
  The two handlers: \<open>guard\<close> is the answer of \<open>public_guard_response\<close>; \<open>probe\<close> is \<open>None\<close>
  in file mode, \<open>Some None\<close> when the database probe failed or timed out, \<open>Some (Some n)\<close>
  when it counted \<open>n\<close> eligible keys.
\<close>

definition liveness :: "http_response option \<Rightarrow> str \<Rightarrow> str \<Rightarrow> http_response" where
  "liveness guard version observed =
     (case guard of
        Some r \<Rightarrow> r
      | None \<Rightarrow> json_response 200 [(''cache-control'', ''no-store'')]
          (JObject [(''status'', JString ''ok''), (''live'', JBool True),
                    (''version'', JString version), (''observed_at'', JString observed)]))"

definition readiness_handler ::
    "http_response option \<Rightarrow> nat option option \<Rightarrow> time \<Rightarrow> key_summary list \<Rightarrow> http_response" where
  "readiness_handler guard probe now keys =
     (case guard of
        Some r \<Rightarrow> r
      | None \<Rightarrow>
          (case (case probe of
                   Some (Some n) \<Rightarrow> (True, n)
                 | Some None \<Rightarrow> (False, 0)
                 | None \<Rightarrow> (True, eligible_key_count now keys)) of
             (database_ready, n) \<Rightarrow> readiness_response (from_eligible_count database_ready n)))"

section \<open>What they promise\<close>

text \<open>
  C23. The readiness endpoint never advertises traffic the selector would refuse: in file
  mode, past the guard, it answers 200 exactly when a selection from any cursor answers a key,
  and its reason codes are empty exactly when both slots are eligible.
\<close>

theorem readiness_matches_selector:
  assumes "next_slot r + length keys \<le> 2 ^ 64"
  shows "(rp_status (readiness_handler None None now keys) = 200 \<longleftrightarrow>
      fst (select now keys r) \<noteq> None) \<and>
    rp_status (readiness_handler None None now keys) \<in> {200, 503} \<and>
    (rd_reason_codes (from_eligible_count True (eligible_key_count now keys)) = [] \<longleftrightarrow>
      eligible_key_count now keys = MAX_UPSTREAM_KEYS)"
proof -
  have "fst (select now keys r) = None \<longleftrightarrow> eligible_key_count now keys = 0"
    using select_turn [OF assms, of now] turn_length [of now keys r]
    by (cases "turn now keys r") auto
  then show ?thesis
    by (auto simp: readiness_handler_def readiness_response_def json_response_def
        from_eligible_count_def Let_def MAX_UPSTREAM_KEYS_def)
qed

theorem readiness_matches_selector_witness:
  "rp_status (readiness_handler None None 60 demo_keys) = 200 \<and>
   rp_status (readiness_handler None None 10 [demo_key ''b'' True (Some 50)]) = 503"
  using readiness_matches_selector [of "with_next_slot 1" demo_keys 60]
    readiness_matches_selector [of "with_next_slot 0" "[demo_key ''b'' True (Some 50)]" 10]
  by (auto simp: with_next_slot_def demo_keys_def demo_key_def eligible_def select_def
      visit_order_def)

end
