(* ===== verification/Guard.thy ===== *)
theory Guard
  imports Http "HOL-Library.Word"
begin

text \<open>
  The access guards of \<open>main.rs\<close>: parsing of the Host authority, the loopback-only admin
  surface, the public surface, bearer tokens, the constant-time comparison and the shape of
  the admin token; and the socket address syntax of \<open>std::net::Ipv6Addr\<close> they rest on.
\<close>

unbundle bit_operations_syntax

section \<open>\<open>Ipv6Addr::from_str\<close>\<close>

text \<open>Only acceptance matters to the callers: each reader answers the rest of the input.\<close>

definition read_char :: "byte \<Rightarrow> str \<Rightarrow> str option" where
  "read_char c s = (case s of x # r \<Rightarrow> if x = c then Some r else None | [] \<Rightarrow> None)"

text \<open>Up to four hexadecimal digits; a fifth one rejects the group.\<close>

definition read_group :: "str \<Rightarrow> str option" where
  "read_group s =
     (let ds = takeWhile is_ascii_hexdigit s
      in if ds = [] \<or> 4 < length ds then None else Some (drop (length ds) s))"

text \<open>One to three decimal digits, no leading zero, at most 255.\<close>

definition read_octet :: "str \<Rightarrow> str option" where
  "read_octet s =
     (let ds = takeWhile is_ascii_digit s
      in if ds = [] \<or> 3 < length ds \<or> 255 < dec_val 0 ds \<or> (1 < length ds \<and> hd ds = CHR ''0'')
         then None else Some (drop (length ds) s))"

definition read_ipv4 :: "str \<Rightarrow> str option" where
  "read_ipv4 s =
     (let dot = (\<lambda>r. Option.bind r (\<lambda>s. Option.bind (read_char (CHR ''.'') s) read_octet))
      in dot (dot (dot (read_octet s))))"

definition read_separated :: "nat \<Rightarrow> (str \<Rightarrow> str option) \<Rightarrow> str \<Rightarrow> str option" where
  "read_separated i reader s =
     (if i = 0 then reader s else Option.bind (read_char (CHR '':'') s) reader)"

text \<open>\<open>read_groups\<close> from group \<open>i\<close>: how many groups, whether they end in an IPv4 address, the rest.\<close>

function read_groups :: "nat \<Rightarrow> nat \<Rightarrow> str \<Rightarrow> nat \<times> bool \<times> str" where
  "read_groups limit i s =
     (if limit \<le> i then (limit, False, s)
      else (case (if i + 1 < limit then read_separated i read_ipv4 s else None) of
              Some r \<Rightarrow> (i + 2, True, r)
            | None \<Rightarrow>
                (case read_separated i read_group s of
                   Some r \<Rightarrow> read_groups limit (i + 1) r
                 | None \<Rightarrow> (i, False, s))))"
  by pat_completeness auto
termination by (relation "measure (\<lambda>(limit, i, s). limit - i)") auto

declare read_groups.simps [simp del]

definition parse_ipv6 :: "str \<Rightarrow> bool" where
  "parse_ipv6 s =
     (case read_groups 8 0 s of
        (n, v4, r) \<Rightarrow>
          if n = 8 then r = []
          else if v4 then False
          else (case Option.bind (read_char (CHR '':'') r) (read_char (CHR '':'')) of
                  None \<Rightarrow> False
                | Some r' \<Rightarrow> (case read_groups (8 - (n + 1)) 0 r' of (_, _, r'') \<Rightarrow> r'' = [])))"

section \<open>The Host authority\<close>

definition parse_host_authority :: "str \<Rightarrow> str \<times> nat option" where
  "parse_host_authority raw =
     (case Option.bind (strip_prefix ''['' raw) (split_once (CHR '']'')) of
        Some (host, remainder) \<Rightarrow>
          (to_ascii_lowercase host, Option.bind (strip_prefix '':'' remainder) parse_u16)
      | None \<Rightarrow>
          (case rsplit_once (CHR '':'') raw of
             Some (host, port) \<Rightarrow>
               (case parse_u16 port of
                  Some p \<Rightarrow> (to_ascii_lowercase host, Some p)
                | None \<Rightarrow> (to_ascii_lowercase raw, None))
           | None \<Rightarrow> (to_ascii_lowercase raw, None)))"

definition host_authority_well_formed :: "str \<Rightarrow> bool" where
  "host_authority_well_formed raw =
     (case strip_prefix ''['' raw of
        Some v \<Rightarrow>
          (case split_once (CHR '']'') v of
             None \<Rightarrow> False
           | Some (_, remainder) \<Rightarrow>
               remainder = [] \<or> starts_with '':'' remainder \<and> parse_u16 (drop 1 remainder) \<noteq> None)
      | None \<Rightarrow>
          if CHR ''['' \<in> set raw \<or> CHR '']'' \<in> set raw \<or> raw = [] then False
          else (let n = length (filter (\<lambda>c. c = CHR '':'') raw)
                in if n = 0 then True
                   else if n = 1 then
                     (case split_once (CHR '':'') raw of
                        None \<Rightarrow> False
                      | Some (host, port) \<Rightarrow> host \<noteq> [] \<and> parse_u16 port \<noteq> None)
                   else parse_ipv6 raw))"

definition format_origin_host :: "str \<Rightarrow> str" where
  "format_origin_host host = (if CHR '':'' \<in> set host then ''['' @ host @ '']'' else host)"

definition admin_host_allowed :: "str \<Rightarrow> bool" where
  "admin_host_allowed raw =
     (if raw = [] \<or> CHR '','' \<in> set raw \<or> \<not> host_authority_well_formed raw then False
      else if eq_ignore_ascii_case raw ''::1'' then True
      else (case strip_prefix ''['' raw of
              Some v \<Rightarrow>
                (case split_once (CHR '']'') v of
                   None \<Rightarrow> False
                 | Some (host, remainder) \<Rightarrow>
                     if remainder = [] then eq_ignore_ascii_case host ''::1''
                     else if \<not> starts_with '':'' remainder \<or> parse_u16 (drop 1 remainder) = None
                             \<or> \<not> eq_ignore_ascii_case host ''::1''
                     then False else True)
            | None \<Rightarrow>
                to_ascii_lowercase (hd (split_on (CHR '':'') raw))
                  \<in> set [''localhost'', ''127.0.0.1'', ''::1'']))"

section \<open>The two surfaces\<close>

definition admin_surface_allowed_for_port :: "http_request \<Rightarrow> nat \<Rightarrow> bool" where
  "admin_surface_allowed_for_port req public_port =
     (case header_all ''host'' req of
        [h] \<Rightarrow>
          (case header_str h of
             None \<Rightarrow> False
           | Some raw \<Rightarrow>
               if CHR '','' \<in> set raw \<or> \<not> host_authority_well_formed raw then False
               else
                 (case parse_host_authority raw of
                    (host, port) \<Rightarrow>
                      if \<not> admin_host_allowed host
                         \<or> is_some_and (\<lambda>p. p \<noteq> public_port) port
                         \<or> port = None \<and> public_port \<noteq> 80 \<and> public_port \<noteq> 443
                      then False
                      else
                        (case header_first ''origin'' req of
                           None \<Rightarrow> True
                         | Some ob \<Rightarrow>
                             (case header_str ob of
                                None \<Rightarrow> False
                              | Some origin \<Rightarrow>
                                  (let oh = format_origin_host host
                                   in origin = ''https://'' @ oh @ '':'' @ show_nat public_port
                                      \<or> origin = ''http://'' @ oh @ '':'' @ show_nat public_port
                                      \<or> public_port = 80 \<and> origin = ''http://'' @ oh
                                      \<or> public_port = 443 \<and> origin = ''https://'' @ oh)))))
      | _ \<Rightarrow> False)"

definition guard_error :: "uuid \<Rightarrow> http_request \<Rightarrow> str \<Rightarrow> str \<Rightarrow> http_response" where
  "guard_error fresh req error_code message =
     (if starts_with ''/v1/'' (rq_path req)
      then openai_error 403 message ''permission_error'' error_code
      else operations_error fresh req 403 error_code message False None)"

text \<open>\<open>port_var\<close> is the environment variable \<open>NVIDIA_BUILD_LB_PUBLIC_PORT\<close>.\<close>

definition public_guard_response ::
    "uuid \<Rightarrow> str option \<Rightarrow> http_request \<Rightarrow> http_response option" where
  "public_guard_response fresh port_var req =
     (let forbidden = Some (guard_error fresh req ''host_forbidden''
                              ''The request host is not allowed.'')
      in case header_all ''host'' req of
           [h] \<Rightarrow>
             (case header_str h of
                None \<Rightarrow> forbidden
              | Some raw \<Rightarrow>
                  if CHR '','' \<in> set raw \<or> raw = [] \<or> \<not> host_authority_well_formed raw
                  then forbidden
                  else
                    (case parse_host_authority raw of
                       (host, port) \<Rightarrow>
                         (let is_local = host \<in> set [''127.0.0.1'', ''localhost'', ''::1''];
                              is_public = (host = ''nvidia-lb.dongwontuna.net'');
                              local_port = unwrap_or 2456 (Option.bind port_var parse_u16)
                          in if \<not> (is_local \<and> port = Some local_port
                                    \<or> is_public \<and> is_none_or (\<lambda>p. p = 443) port)
                             then forbidden
                             else if header_first ''origin'' req \<noteq> None
                             then Some (guard_error fresh req ''origin_forbidden''
                                          ''Cross-origin requests are not allowed.'')
                             else None)))
         | _ \<Rightarrow> forbidden)"

section \<open>Tokens\<close>

definition bearer :: "http_request \<Rightarrow> str option" where
  "bearer req =
     (case header_all ''authorization'' req of
        [v] \<Rightarrow> Option.bind (header_str v) (strip_prefix ''Bearer '')
      | _ \<Rightarrow> None)"

text \<open>\<open>get(index).copied().unwrap_or_default()\<close>.\<close>

definition byte_or_zero :: "bytes \<Rightarrow> nat \<Rightarrow> nat" where
  "byte_or_zero s i = (if i < length s then code (s ! i) else 0)"

definition constant_time_equal :: "bytes \<Rightarrow> bytes \<Rightarrow> bool" where
  "constant_time_equal left right =
     (foldl (\<lambda>difference i. difference OR (byte_or_zero left i XOR byte_or_zero right i))
        (length left XOR length right) [0..<max (length left) (length right)] = 0)"

definition authorized :: "str \<Rightarrow> nat \<Rightarrow> http_request \<Rightarrow> bool" where
  "authorized admin_token public_port req \<longleftrightarrow>
     admin_surface_allowed_for_port req public_port
     \<and> is_some_and (\<lambda>v. constant_time_equal v admin_token) (bearer req)"

definition validate_admin_token :: "str \<Rightarrow> bool \<Rightarrow> bool" where
  "validate_admin_token v allow_test_token \<longleftrightarrow>
     length v = 75 \<and> starts_with ''nblb_admin_'' v \<and> list_all is_ascii_hexdigit (drop 11 v)
     \<or> allow_test_token \<and> v \<noteq> []"

definition admin_unauthorized :: "http_response" where
  "admin_unauthorized =
     json_response 401 [(''www-authenticate'', ''Bearer realm=\"nvidia-build-lb-admin\"'')]
       (JObject [(''error'', JObject [(''code'', JString ''invalid_admin_token''),
          (''message'', JString ''Invalid admin token.'')])])"

definition downstream_unauthorized :: "http_response" where
  "downstream_unauthorized =
     insert_header ''www-authenticate'' ''Bearer realm=\"nvidia-build-lb\"''
       (openai_error 401 ''Invalid downstream credential or scope.'' ''authentication_error''
          ''invalid_downstream_token'')"

definition downstream_forbidden :: "str \<Rightarrow> http_response" where
  "downstream_forbidden scope =
     (let r = openai_error 403 ''The downstream credential lacks the required scope.''
                ''permission_error'' ''insufficient_scope'';
          v = ''Bearer realm=\"nvidia-build-lb\", error=\"insufficient_scope\", scope=\"'' @ scope @ ''\"''
      in if header_str v = None then r else insert_header ''www-authenticate'' v r)"

text \<open>
  \<open>static_script_hashes\<close> feeds the content security policy with the bodies of the inline
  scripts: the text after each \<open><script>\<close> up to the next \<open></script>\<close>.
\<close>

function inline_script_bodies :: "str \<Rightarrow> str list" where
  "inline_script_bodies document =
     (case find_sub ''<script>'' document of
        None \<Rightarrow> []
      | Some i \<Rightarrow>
          (let rest = drop (i + 8) document
           in case find_sub ''</script>'' rest of
                None \<Rightarrow> []
              | Some j \<Rightarrow> take j rest # inline_script_bodies (drop (j + 9) rest)))"
  by pat_completeness auto
termination
  by (relation "measure length") (auto dest!: find_sub_Some)

end
