(* ===== verification/Guard_Props.thy ===== *)
theory Guard_Props
  imports Guard
begin

text \<open>
  What the guards promise: the admin surface answers loopback authorities only, the public
  surface only its own names without a cross-origin header, the comparison of tokens is
  equality, and an operator bearer is refused wherever one of these fails.
\<close>

section \<open>Loopback authorities\<close>

text \<open>A loopback name, with or without a port text of its own.\<close>

definition loopback_name :: "str \<Rightarrow> bool" where
  "loopback_name h \<longleftrightarrow>
     h = ''::1'' \<or>
     (\<exists>n \<in> {''localhost'', ''127.0.0.1''}. h = n \<or> (\<exists>p. h = n @ '':'' @ p \<and> parse_u16 p \<noteq> None))"

lemma ascii_lower_punct [simp]:
  "ascii_lower c = CHR '':'' \<longleftrightarrow> c = CHR '':''" "ascii_lower c = CHR ''['' \<longleftrightarrow> c = CHR ''[''"
  "ascii_lower c = CHR '']'' \<longleftrightarrow> c = CHR '']''" "ascii_lower c = CHR '','' \<longleftrightarrow> c = CHR '',''"
  by (simp_all add: ascii_lower_eq_iff code_def)

lemma split_on_single: "c \<notin> set s \<Longrightarrow> split_on c s = [s]"
  by (induction s) auto

lemma split_on_hd: "hd (split_on c s) = takeWhile (\<lambda>x. x \<noteq> c) s"
  by (induction s) (auto split: list.splits)

lemma parse_host_no_bracket:
  assumes "host_authority_well_formed raw" "parse_host_authority raw = (host, port)"
  shows "CHR '']'' \<notin> set host" "to_ascii_lowercase host = host"
proof -
  have low: "CHR '']'' \<in> set (to_ascii_lowercase s) \<longleftrightarrow> CHR '']'' \<in> set s" for s
    by (simp add: to_ascii_lowercase_def image_iff eq_commute [of "CHR '']''"])
  show "to_ascii_lowercase host = host"
    using assms(2) by (auto simp: parse_host_authority_def split: option.splits)
  show "CHR '']'' \<notin> set host"
  proof (cases "strip_prefix ''['' raw")
    case (Some v)
    then obtain h r where "split_once (CHR '']'') v = Some (h, r)"
      using assms(1) by (auto simp: host_authority_well_formed_def split: option.splits)
    moreover have "CHR '']'' \<notin> set h" using calculation by (simp add: split_once_Some_iff)
    ultimately show ?thesis
      using assms(2) Some by (auto simp: parse_host_authority_def low)
  next
    case None
    then have raw: "CHR '']'' \<notin> set raw"
      using assms(1) by (auto simp: host_authority_well_formed_def split: if_splits)
    show ?thesis
    proof (cases "rsplit_once (CHR '':'') raw")
      case None
      then show ?thesis
        using assms(2) raw \<open>strip_prefix ''['' raw = None\<close>
        by (auto simp: parse_host_authority_def low)
    next
      case (Some hp)
      obtain h p where hp: "hp = (h, p)" by (cases hp)
      then have "raw = h @ CHR '':'' # p" using Some by (simp add: rsplit_once_Some_iff)
      then have "CHR '']'' \<notin> set h" using raw by simp
      then show ?thesis
        using assms(2) raw Some hp \<open>strip_prefix ''['' raw = None\<close>
        by (auto simp: parse_host_authority_def low split: option.splits)
    qed
  qed
qed

lemma not_ipv6_names:
  "\<not> parse_ipv6 (''localhost'' @ CHR '':'' # r)" "\<not> parse_ipv6 (''127.0.0.1'' @ CHR '':'' # r)"
  by (simp_all add: parse_ipv6_def read_groups.simps [of 8 0] read_separated_def read_ipv4_def
      read_octet_def read_char_def read_group_def is_ascii_digit_def is_ascii_alpha_def
      is_ascii_hexdigit_def code_def Let_def digit_val_def)

lemma admin_host_loopback:
  assumes "admin_host_allowed h" "CHR '']'' \<notin> set h" "to_ascii_lowercase h = h"
  shows "loopback_name h"
proof -
  have wf: "host_authority_well_formed h" and ne: "h \<noteq> []"
    using assms(1) by (auto simp: admin_host_allowed_def split: if_splits)
  have pre: "strip_prefix ''['' h = None"
    using wf assms(2)
    by (auto simp: host_authority_well_formed_def split_once_Some_iff strip_prefix_Some_iff
        split: option.splits)
  have one: "to_ascii_lowercase ''::1'' = ''::1''"
    by (simp add: to_ascii_lowercase_def ascii_lower_def code_def)
  show ?thesis
  proof (cases "h = ''::1''")
    case False
    define n where "n = takeWhile (\<lambda>x. x \<noteq> CHR '':'') h"
    have lown: "to_ascii_lowercase n = n"
      using assms(3) unfolding n_def to_ascii_lowercase_def
      by (metis map_append takeWhile_dropWhile_id same_append_eq append_eq_append_conv length_map)
    have "n \<noteq> ''::1''" using set_takeWhileD [of _ "\<lambda>x. x \<noteq> CHR '':''" h] unfolding n_def by fastforce
    then have n: "n \<in> {''localhost'', ''127.0.0.1''}"
      using assms(1) False pre lown one assms(3)
      by (auto simp: admin_host_allowed_def eq_ignore_ascii_case_def split_on_hd n_def split: if_splits)
    consider (bare) "h = n" | (port) r where "h = n @ CHR '':'' # r"
    proof (cases "dropWhile (\<lambda>x. x \<noteq> CHR '':'') h")
      case Nil
      then show ?thesis by (intro bare) (metis append_Nil2 n_def takeWhile_dropWhile_id)
    next
      case (Cons a r)
      then have "a = CHR '':''" using hd_dropWhile [of "\<lambda>x. x \<noteq> CHR '':''" h] by simp
      then show ?thesis
        using port [of r] Cons takeWhile_dropWhile_id [of "\<lambda>x. x \<noteq> CHR '':''" h] by (simp add: n_def)
    qed
    then show ?thesis
    proof cases
      case bare
      then show ?thesis using n by (auto simp: loopback_name_def)
    next
      case (port r)
      have nc: "CHR '':'' \<notin> set n" by (auto simp: n_def dest: set_takeWhileD)
      have "\<not> parse_ipv6 h" using n not_ipv6_names port by auto
      then have "length (filter (\<lambda>c. c = CHR '':'') h) = 1"
        using wf pre port by (auto simp: host_authority_well_formed_def Let_def split: if_splits)
      moreover have "split_once (CHR '':'') h = Some (n, r)" using port nc by (simp add: split_once_Some_iff)
      ultimately have "parse_u16 r \<noteq> None"
        using wf pre by (auto simp: host_authority_well_formed_def Let_def split: if_splits)
      then show ?thesis using n port by (auto simp: loopback_name_def)
    qed
  qed (simp add: loopback_name_def)
qed

text \<open>
  C19. The admin surface is loopback only: a request it admits carries exactly one Host
  header, whose name is a loopback name and whose port is the configured one (or absent on the
  two default ports), and any Origin it carries is that same host over http or https.
\<close>

theorem admin_surface_loopback_only:
  assumes "admin_surface_allowed_for_port req public_port"
  shows "\<exists>raw host port. header_all ''host'' req = [raw] \<and>
    parse_host_authority raw = (host, port) \<and> loopback_name host \<and>
    (port = Some public_port \<or> port = None \<and> public_port \<in> {80, 443}) \<and>
    (\<forall>origin. header_first ''origin'' req = Some origin \<longrightarrow>
       (\<exists>scheme \<in> {''http://'', ''https://''}.
          origin = scheme @ format_origin_host host @ '':'' @ show_nat public_port \<or>
          public_port \<in> {80, 443} \<and> origin = scheme @ format_origin_host host))"
proof -
  obtain raw where raw: "header_all ''host'' req = [raw]" "header_str raw = Some raw"
    and wf: "host_authority_well_formed raw"
    using assms
    by (auto simp: admin_surface_allowed_for_port_def header_str_def
        split: list.splits option.splits if_splits)
  obtain host port where p: "parse_host_authority raw = (host, port)" by (cases "parse_host_authority raw")
  have a: "admin_host_allowed host" "\<not> is_some_and (\<lambda>p. p \<noteq> public_port) port"
      "\<not> (port = None \<and> public_port \<noteq> 80 \<and> public_port \<noteq> 443)"
    and o: "case header_first ''origin'' req of None \<Rightarrow> True | Some ob \<Rightarrow>
       (case header_str ob of None \<Rightarrow> False | Some origin \<Rightarrow>
          (let oh = format_origin_host host
           in origin = ''https://'' @ oh @ '':'' @ show_nat public_port
              \<or> origin = ''http://'' @ oh @ '':'' @ show_nat public_port
              \<or> public_port = 80 \<and> origin = ''http://'' @ oh
              \<or> public_port = 443 \<and> origin = ''https://'' @ oh))"
    using assms raw wf p
    by (simp_all add: admin_surface_allowed_for_port_def split: if_splits)
  have "loopback_name host"
    by (rule admin_host_loopback [OF a(1) parse_host_no_bracket [OF wf p]])
  moreover have "port = Some public_port \<or> port = None \<and> public_port \<in> {80, 443}"
    using a(2,3) by (cases port) auto
  moreover have "\<exists>scheme \<in> {''http://'', ''https://''}.
          origin = scheme @ format_origin_host host @ '':'' @ show_nat public_port \<or>
          public_port \<in> {80, 443} \<and> origin = scheme @ format_origin_host host"
    if "header_first ''origin'' req = Some origin" for origin
    using o that by (auto simp: Let_def header_str_def split: option.splits if_splits)
  ultimately show ?thesis using raw(1) p by blast
qed

definition demo_request :: "str \<Rightarrow> (str \<times> bytes) list \<Rightarrow> http_request" where
  "demo_request path hs = \<lparr>rq_method = ''GET'', rq_path = path, rq_headers = hs, rq_id = None\<rparr>"

definition demo_hosts :: "(str \<times> bytes) list" where
  "demo_hosts = [(''host'', ''localhost:80''), (''origin'', ''http://localhost'')]"

theorem admin_surface_loopback_only_witness:
  "admin_surface_allowed_for_port (demo_request ''/admin'' demo_hosts) 80 \<and>
   loopback_name (fst (parse_host_authority ''localhost:80''))"
proof
  have u: "parse_u16 ''80'' = Some 80"
    by (simp add: parse_u16_def parse_unsigned_def is_ascii_digit_def code_def digit_val_def)
  have p: "parse_host_authority ''localhost:80'' = (''localhost'', Some 80)"
    by (simp add: parse_host_authority_def strip_prefix_def starts_with_def rsplit_once_def u
        to_ascii_lowercase_def ascii_lower_def code_def)
  have w: "host_authority_well_formed ''localhost:80''" "host_authority_well_formed ''localhost''"
    by (simp_all add: host_authority_well_formed_def strip_prefix_def starts_with_def u)
  have l: "admin_host_allowed ''localhost''"
    by (simp add: admin_host_allowed_def w(2) strip_prefix_def starts_with_def
        eq_ignore_ascii_case_def to_ascii_lowercase_def ascii_lower_def code_def)
  have h: "header_all ''host'' (demo_request ''/admin'' demo_hosts) = [''localhost:80'']"
    "header_first ''origin'' (demo_request ''/admin'' demo_hosts) = Some ''http://localhost''"
    by (simp_all add: header_all_def header_first_def demo_request_def demo_hosts_def)
  have v: "header_str ''localhost:80'' = Some ''localhost:80''"
    "header_str ''http://localhost'' = Some ''http://localhost''"
    by (simp_all add: header_str_def code_def)
  show a: "admin_surface_allowed_for_port (demo_request ''/admin'' demo_hosts) 80"
    by (simp add: admin_surface_allowed_for_port_def h v w p l format_origin_host_def)
  show "loopback_name (fst (parse_host_authority ''localhost:80''))"
    using admin_surface_loopback_only [OF a] h(1) by (metis fst_conv list.inject)
qed

section \<open>Tokens\<close>

lemma xor_eq_0_nat: "(a XOR b = 0) = (a = b)" for a b :: nat
  by (auto simp: bit_eq_iff bit_simps)

lemma foldl_or_eq_0:
  "foldl (\<lambda>d i. d OR f i) a xs = 0 \<longleftrightarrow> a = 0 \<and> (\<forall>i \<in> set xs. f i = (0::nat))"
  by (induction xs arbitrary: a) (auto simp: or_eq_0_iff)

lemma constant_time_equal_iff: "constant_time_equal l r \<longleftrightarrow> l = r"
proof -
  have "constant_time_equal l r \<longleftrightarrow>
      length l = length r \<and> (\<forall>i < max (length l) (length r). byte_or_zero l i = byte_or_zero r i)"
    by (auto simp: constant_time_equal_def foldl_or_eq_0 xor_eq_0_nat)
  also have "\<dots> \<longleftrightarrow> l = r" by (auto simp: list_eq_iff_nth_eq byte_or_zero_def)
  finally show ?thesis .
qed

text \<open>
  C20. Operator access: \<open>authorized\<close> holds exactly when the request is on the admin surface
  and carries exactly one Authorization header, \<open>Bearer\<close> followed by the operator token byte
  for byte. The comparison without early exit is equality, for inputs of any two lengths.
\<close>

theorem authorized_iff:
  "authorized token port req \<longleftrightarrow>
     admin_surface_allowed_for_port req port \<and>
     (\<exists>v. header_all ''authorization'' req = [v] \<and> header_str v = Some (''Bearer '' @ token))"
  by (auto simp: authorized_def bearer_def is_some_and_iff constant_time_equal_iff
      strip_prefix_Some_iff bind_eq_Some_conv split: list.splits)

section \<open>The public surface\<close>

text \<open>
  The public guard admits exactly its own authority without an Origin header: a request
  passes when its single, well-formed Host names the public name (no port or 443) or a loopback
  name on the configured port, and no Origin is present; every refusal is a 403.
\<close>

theorem public_guard_outcome:
  "(public_guard_response fresh port_var req = None \<longleftrightarrow>
      (\<exists>raw host port. header_all ''host'' req = [raw] \<and> header_str raw = Some raw \<and>
         CHR '','' \<notin> set raw \<and> raw \<noteq> [] \<and> host_authority_well_formed raw \<and>
         parse_host_authority raw = (host, port) \<and>
         (host \<in> {''127.0.0.1'', ''localhost'', ''::1''} \<and>
            port = Some (unwrap_or 2456 (Option.bind port_var parse_u16)) \<or>
          host = ''nvidia-lb.dongwontuna.net'' \<and> port \<in> {None, Some 443}) \<and>
         header_first ''origin'' req = None)) \<and>
   is_none_or (\<lambda>r. rp_status r = 403) (public_guard_response fresh port_var req)"
proof -
  have e: "rp_status (guard_error fresh req c m) = 403" for c m
    by (simp add: guard_error_def openai_error_def operations_error_def json_response_def)
  show ?thesis
  proof (cases "header_all ''host'' req")
    case (Cons raw rest)
    show ?thesis
    proof (cases "rest = [] \<and> header_str raw = Some raw \<and> CHR '','' \<notin> set raw \<and> raw \<noteq> [] \<and>
        host_authority_well_formed raw")
      case True
      obtain host port where "parse_host_authority raw = (host, port)"
        by (cases "parse_host_authority raw")
      then show ?thesis
        using Cons True e by (cases port) (auto simp: public_guard_response_def Let_def)
    next
      case False
      have "header_str raw = None \<or> header_str raw = Some raw" by (simp add: header_str_def)
      then show ?thesis
        using Cons False e by (cases rest) (auto simp: public_guard_response_def Let_def)
    qed
  qed (simp add: public_guard_response_def Let_def e)
qed

end
