(* ===== verification/Sse.thy ===== *)
theory Sse
  imports Json
begin

text \<open>
  The validator of upstream event streams (\<open>SseValidator\<close> of \<open>streaming.rs\<close>): framing on
  blank lines, the accepted fields, the shape of a chat completion chunk, what is re-emitted
  to the client, and the priming of a stream. \<open>parse\<close> is \<open>serde_json::from_str\<close>. A failed
  call leaves no validator: every caller drops it.
\<close>

section \<open>Framing\<close>

record sse =
  sse_buffer :: bytes
  sse_emitted :: "bytes list"
  sse_done :: bool
  sse_frame_count :: nat
  sse_data_frame_count :: nat
  sse_message_id :: "str option"
  sse_model :: "str option"

definition new_sse :: sse where
  "new_sse =
     \<lparr>sse_buffer = [], sse_emitted = [], sse_done = False, sse_frame_count = 0,
      sse_data_frame_count = 0, sse_message_id = None, sse_model = None\<rparr>"

definition take_emitted :: "sse \<Rightarrow> bytes list \<times> sse" where
  "take_emitted v = (sse_emitted v, v\<lparr>sse_emitted := []\<rparr>)"

text \<open>Offset and length of the delimiter that ends the first frame of the buffer.\<close>

definition delimiter :: "bytes \<Rightarrow> (nat \<times> nat) option" where
  "delimiter buf =
     (case (find_sub [LF, LF] buf, find_sub [CR, LF, CR, LF] buf) of
        (Some lf, Some crlf) \<Rightarrow> if crlf < lf then Some (crlf, 4) else Some (lf, 2)
      | (Some lf, None) \<Rightarrow> Some (lf, 2)
      | (None, Some crlf) \<Rightarrow> Some (crlf, 4)
      | (None, None) \<Rightarrow> None)"

text \<open>\<open>str::lines\<close>: pieces ended by a line feed lose a final carriage return too.\<close>

definition strip_cr :: "str \<Rightarrow> str" where
  "strip_cr l = unwrap_or l (strip_suffix [CR] l)"

definition lines :: "str \<Rightarrow> str list" where
  "lines s =
     (let ps = split_on LF s
      in map strip_cr (butlast ps) @ (if last ps = [] then [] else [last ps]))"

section \<open>One frame\<close>

datatype field = Skipped | Data str | Refused

definition classify_line :: "str \<Rightarrow> field" where
  "classify_line raw =
     (let l = strip_cr raw
      in if l = [] \<or> starts_with '':'' l then Skipped
         else case strip_prefix ''data:'' l of
           Some v \<Rightarrow> Data (unwrap_or v (strip_prefix '' '' v))
         | None \<Rightarrow>
           (case strip_prefix ''event:'' l of
              Some v \<Rightarrow>
                if 64 < length (trim v)
                   \<or> \<not> list_all (\<lambda>b. 32 \<le> code b \<and> code b \<le> 126) (trim v)
                then Refused else Skipped
            | None \<Rightarrow>
              (case strip_prefix ''id:'' l of
                 Some v \<Rightarrow> if 128 < length (trim v) \<or> CHR 0x00 \<in> set v then Refused else Skipped
               | None \<Rightarrow>
                 (case strip_prefix ''retry:'' l of
                    Some v \<Rightarrow>
                      if trim v = [] \<or> 6 < length (trim v) \<or> \<not> list_all is_ascii_digit (trim v)
                      then Refused else Skipped
                  | None \<Rightarrow> Refused))))"

text \<open>The loop over the lines: the data values in order, or a refusal.\<close>

fun data_lines :: "str list \<Rightarrow> str list option" where
  "data_lines [] = Some []"
| "data_lines (l # ls) =
     (case classify_line l of
        Refused \<Rightarrow> None
      | Skipped \<Rightarrow> data_lines ls
      | Data v \<Rightarrow> map_option (Cons v) (data_lines ls))"

fun join_lines :: "str list \<Rightarrow> str" where
  "join_lines [] = []"
| "join_lines [l] = l"
| "join_lines (l # ls) = l @ LF # join_lines ls"

definition CHUNK_KEYS :: "str list" where
  "CHUNK_KEYS =
     [''id'', ''object'', ''model'', ''choices'', ''created'', ''system_fingerprint'',
      ''service_tier'', ''usage'', ''reasoning'', ''reasoning_content'']"

definition CHOICE_KEYS :: "str list" where
  "CHOICE_KEYS = [''index'', ''delta'', ''finish_reason'', ''logprobs'', ''content_filter_results'']"

definition DELTA_KEYS :: "str list" where
  "DELTA_KEYS = [''role'', ''content'', ''tool_calls'', ''function_call'', ''refusal'', ''audio'']"

definition keys_within :: "str list \<Rightarrow> (str \<times> json) list \<Rightarrow> bool" where
  "keys_within allowed m = list_all (\<lambda>(k, _). k \<in> set allowed) m"

definition bad_choice :: "json \<Rightarrow> bool" where
  "bad_choice choice \<longleftrightarrow>
     \<not> is_object choice
     \<or> is_some_and (\<lambda>m. \<not> keys_within CHOICE_KEYS m) (as_object choice)
     \<or> get_u64 ''index'' choice = None
     \<or> is_none_or (\<lambda>m. \<not> keys_within DELTA_KEYS m)
          (Option.bind (get_field ''delta'' choice) as_object)
     \<or> \<not> is_some_and (\<lambda>r. is_null r \<or> is_string r) (get_field ''finish_reason'' choice)"

definition emitted_frame :: "str \<Rightarrow> bytes" where
  "emitted_frame data = ''data: '' @ data @ [LF, LF]"

text \<open>The checks on a parsed chunk, in the code's order, and the state they leave.\<close>

definition accept_chunk :: "str \<Rightarrow> json \<Rightarrow> sse \<Rightarrow> sse option" where
  "accept_chunk data value v =
     (case as_object value of
        None \<Rightarrow> None
      | Some m \<Rightarrow>
        if \<not> keys_within CHUNK_KEYS m then None
        else (case (get_str ''id'' value, get_str ''model'' value) of
          (Some i, Some model) \<Rightarrow>
            if get_str ''object'' value \<noteq> Some ''chat.completion.chunk'' \<or> i = [] \<or> model = []
               \<or> get_array ''choices'' value = None
            then None
            else if is_some_and (\<lambda>p. p \<noteq> i) (sse_message_id v)
                    \<or> is_some_and (\<lambda>p. p \<noteq> model) (sse_model v)
            then None
            else (case get_array ''choices'' value of
                    None \<Rightarrow> None
                  | Some choices \<Rightarrow>
                      if choices = [] \<or> list_ex bad_choice choices then None
                      else Some (v\<lparr>sse_message_id := Some i, sse_model := Some model,
                                   sse_emitted := sse_emitted v @ [emitted_frame data]\<rparr>))
        | _ \<Rightarrow> None))"

definition accept_data :: "(str \<Rightarrow> json option) \<Rightarrow> str \<Rightarrow> sse \<Rightarrow> sse option" where
  "accept_data parse data v =
     (let v1 = v\<lparr>sse_frame_count := sat_add_u64 (sse_frame_count v) 1\<rparr>
      in if trim data = ''[DONE]'' then Some (v1\<lparr>sse_done := True\<rparr>)
         else Option.bind (parse data)
           (\<lambda>value. accept_chunk data value
              (v1\<lparr>sse_data_frame_count := sat_add_u64 (sse_data_frame_count v) 1\<rparr>)))"

definition validate_frame :: "(str \<Rightarrow> json option) \<Rightarrow> bytes \<Rightarrow> sse \<Rightarrow> sse option" where
  "validate_frame parse frame v =
     (if 1024 * 1024 < length frame \<or> \<not> valid_utf8 frame then None
      else if frame = [] then Some v
      else if sse_done v then None
      else (case data_lines (lines frame) of
              None \<Rightarrow> None
            | Some [] \<Rightarrow> Some v
            | Some ds \<Rightarrow> accept_data parse (join_lines ds) v))"

section \<open>Feeding and finishing\<close>

lemma accept_data_buffer: "accept_data parse data v = Some v' \<Longrightarrow> sse_buffer v' = sse_buffer v"
  by (auto simp: accept_data_def accept_chunk_def Let_def bind_eq_Some_conv
      split: if_splits option.splits)

lemma validate_frame_buffer:
  "validate_frame parse frame v = Some v' \<Longrightarrow> sse_buffer v' = sse_buffer v"
  by (auto simp: validate_frame_def accept_data_buffer split: if_splits option.splits list.splits)

lemma delimiter_bounds: "delimiter buf = Some (i, d) \<Longrightarrow> 0 < d \<and> i + d \<le> length buf"
  by (auto simp: delimiter_def dest!: find_sub_Some split: option.splits if_splits)

function feed_loop :: "(str \<Rightarrow> json option) \<Rightarrow> sse \<Rightarrow> sse option" where
  "feed_loop parse v =
     (case delimiter (sse_buffer v) of
        None \<Rightarrow> Some v
      | Some (i, d) \<Rightarrow>
          (case validate_frame parse (take i (sse_buffer v))
                  (v\<lparr>sse_buffer := drop (i + d) (sse_buffer v)\<rparr>) of
             None \<Rightarrow> None
           | Some v' \<Rightarrow> feed_loop parse v'))"
  by pat_completeness auto
termination
  by (relation "measure (\<lambda>(_, v). length (sse_buffer v))")
    (auto dest!: delimiter_bounds validate_frame_buffer)

declare feed_loop.simps [simp del]

definition SSE_BUFFER_LIMIT :: nat where "SSE_BUFFER_LIMIT = 256 * 1024 * 1024"

definition feed :: "(str \<Rightarrow> json option) \<Rightarrow> bytes \<Rightarrow> sse \<Rightarrow> sse option" where
  "feed parse bs v =
     (if SSE_BUFFER_LIMIT < sat_add_u64 (length (sse_buffer v)) (length bs) then None
      else feed_loop parse (v\<lparr>sse_buffer := sse_buffer v @ bs\<rparr>))"

definition sse_finish :: "sse \<Rightarrow> bool" where
  "sse_finish v \<longleftrightarrow>
     list_all is_ascii_whitespace (sse_buffer v) \<and> sse_done v \<and> 1 \<le> sse_data_frame_count v"

section \<open>Priming\<close>

text \<open>
  The body of the upstream is its items in order: bytes, a transport error, or a wait that times
  out; the end of the list is the end of the body. The answer is the rest of the body, the
  validator and the frames to send first, or a failure that leaves failover possible.
\<close>

datatype body_item = Chunk bytes | Broken | Stalled

fun prime_stream ::
    "(str \<Rightarrow> json option) \<Rightarrow> body_item list \<Rightarrow> sse \<Rightarrow> bytes list \<Rightarrow>
     (body_item list \<times> sse \<times> bytes list) option" where
  "prime_stream parse [] v ready = None"
| "prime_stream parse (Broken # items) v ready = None"
| "prime_stream parse (Chunk chunk # items) v ready =
     (case feed parse chunk v of
        None \<Rightarrow> None
      | Some v1 \<Rightarrow>
          (let ready' = ready @ fst (take_emitted v1); v2 = snd (take_emitted v1)
           in if 0 < sse_data_frame_count v2 then Some (items, v2, ready')
              else if 256 < length ready' then None
              else prime_stream parse items v2 ready'))"
| "prime_stream parse (Stalled # items) v ready = None"

definition sse_error_frame :: "(json \<Rightarrow> str) \<Rightarrow> str \<Rightarrow> bytes" where
  "sse_error_frame show_json message =
     ''event: error'' @ [LF] @ ''data: ''
     @ show_json (JObject [(''error'', JObject [(''message'', JString message),
         (''type'', JString ''upstream_stream_error'')])])
     @ [LF, LF] @ ''data: [DONE]'' @ [LF, LF]"

end
