(* ===== verification/Sse_Props.thy ===== *)
theory Sse_Props
  imports Sse
begin

text \<open>
  The event stream validator: framing does not depend on how the body is cut into chunks, a
  primed stream has something valid to send, one stream carries one message, and what is
  re-emitted is accepted again, unless a provider spread one event over several data lines.
\<close>

section \<open>Chunk boundaries\<close>

lemma find_sub_append: "find_sub p s = Some i \<Longrightarrow> find_sub p (s @ x) = Some i"
proof (induction s arbitrary: i)
  case Nil
  then have "p = []" "i = 0" by (auto split: if_splits)
  then show ?case by (cases x) auto
next
  case (Cons a s)
  show ?case
  proof (cases "take (length p) (a # s) = p")
    case True
    then have "length p \<le> length (a # s)" by (metis length_take min.cobounded2 min.commute)
    then have "take (length p) ((a # s) @ x) = p" using True by (simp only: take_append) simp
    then show ?thesis using True Cons.prems by simp
  next
    case False
    then obtain j where j: "find_sub p s = Some j" "i = Suc j" using Cons.prems by auto
    have "take (length p) (a # s @ x) \<noteq> p"
    proof
      assume t: "take (length p) (a # s @ x) = p"
      have "length p \<le> length s" using find_sub_Some [OF j(1)] by simp
      then have "take (length p) (a # s @ x) = take (length p) (a # s)"
        by (cases "length p") auto
      then show False using False t by simp
    qed
    then show ?thesis using Cons.IH [OF j(1)] j(2) by simp
  qed
qed

lemma find_sub_inside:
  assumes "find_sub p (s @ x) = Some i" "i + length p \<le> length s"
  shows "find_sub p s \<noteq> None"
proof -
  have "take (length p) (drop i (s @ x)) = p" using find_sub_Some [OF assms(1)] by simp
  then have "take (length p) (drop i s) = p" using assms(2) by simp
  then show ?thesis by (auto simp: find_sub_None)
qed

lemma find_sub_nth:
  "find_sub p s = Some i \<Longrightarrow> j < length p \<Longrightarrow> s ! (i + j) = p ! j"
  using find_sub_Some [of p s i] by (metis nth_take nth_drop add_leD1)

lemma delimiter_append:
  assumes "delimiter buf = Some (i, d)"
  shows "delimiter (buf @ x) = Some (i, d)"
proof -
  let ?lf = "find_sub [LF, LF] buf" and ?crlf = "find_sub [CR, LF, CR, LF] buf"
  let ?lf' = "find_sub [LF, LF] (buf @ x)" and ?crlf' = "find_sub [CR, LF, CR, LF] (buf @ x)"
  have ne: "CR \<noteq> LF" by (simp add: CR_def LF_def)
  consider (both) l c where "?lf = Some l" "?crlf = Some c" | (lf) l where "?lf = Some l" "?crlf = None"
    | (crlf) c where "?lf = None" "?crlf = Some c"
    using assms by (auto simp: delimiter_def split: option.splits)
  then show ?thesis
  proof cases
    case both
    then show ?thesis using assms by (simp add: delimiter_def find_sub_append)
  next
    case lf
    have lf': "?lf' = Some l" using lf(1) by (rule find_sub_append)
    have len: "l + 2 \<le> length buf" using find_sub_Some [OF lf(1)] by simp
    have "\<not> c < l" if c: "?crlf' = Some c" for c
    proof
      assume "c < l"
      have "\<not> c + 4 \<le> length buf" using find_sub_inside [OF c] lf(2) by auto
      with \<open>c < l\<close> len have "l = c + 1" by simp
      moreover have "(buf @ x) ! (c + 2) = CR" using find_sub_nth [OF c, of 2] by simp
      moreover have "(buf @ x) ! (l + 1) = LF" using find_sub_nth [OF lf', of 1] by simp
      ultimately show False using ne by simp
    qed
    then show ?thesis using assms lf lf' by (cases ?crlf') (auto simp: delimiter_def)
  next
    case crlf
    have crlf': "?crlf' = Some c" using crlf(2) by (rule find_sub_append)
    have len: "c + 4 \<le> length buf" using find_sub_Some [OF crlf(2)] by simp
    have "c < l" if l: "?lf' = Some l" for l
    proof (rule ccontr)
      assume "\<not> c < l"
      moreover have "\<not> l + 2 \<le> length buf" using find_sub_inside [OF l] crlf(1) by auto
      ultimately show False using len by simp
    qed
    then show ?thesis using assms crlf crlf' by (cases ?lf') (auto simp: delimiter_def)
  qed
qed

definition with_buffer :: "bytes \<Rightarrow> sse \<Rightarrow> sse" where
  "with_buffer b v = v\<lparr>sse_buffer := b\<rparr>"

lemma accept_chunk_with_buffer:
  "accept_chunk data value (with_buffer b v) = map_option (with_buffer b) (accept_chunk data value v)"
  by (simp add: accept_chunk_def with_buffer_def split: option.split)

lemma accept_data_with_buffer:
  "accept_data parse data (with_buffer b v) = map_option (with_buffer b) (accept_data parse data v)"
proof (cases "trim data = ''[DONE]'' \<or> parse data = None")
  case True
  then show ?thesis by (auto simp: accept_data_def with_buffer_def Let_def)
next
  case False
  then obtain val where val: "parse data = Some val" by auto
  have eq: "(with_buffer b v)\<lparr>sse_frame_count := n, sse_data_frame_count := m\<rparr> =
      with_buffer b (v\<lparr>sse_frame_count := n, sse_data_frame_count := m\<rparr>)" for n m
    by (simp add: with_buffer_def)
  have sel: "sse_frame_count (with_buffer b v) = sse_frame_count v"
    "sse_data_frame_count (with_buffer b v) = sse_data_frame_count v"
    by (simp_all add: with_buffer_def)
  show ?thesis
    using False by (simp add: accept_data_def Let_def val eq sel accept_chunk_with_buffer)
qed

lemma validate_frame_with_buffer:
  "validate_frame parse frame (with_buffer b v) = map_option (with_buffer b) (validate_frame parse frame v)"
proof -
  have "sse_done (with_buffer b v) = sse_done v" by (simp add: with_buffer_def)
  then show ?thesis
    by (simp add: validate_frame_def accept_data_with_buffer split: option.split list.split)
qed

lemma feed_loop_append:
  "feed_loop parse (with_buffer (sse_buffer v @ x) v) =
     Option.bind (feed_loop parse v) (\<lambda>v'. feed_loop parse (with_buffer (sse_buffer v' @ x) v'))"
proof (induction parse v rule: feed_loop.induct)
  case (1 parse v)
  show ?case
  proof (cases "delimiter (sse_buffer v)")
    case None
    then show ?thesis by (simp add: feed_loop.simps [of parse v])
  next
    case (Some id)
    obtain i d where id: "id = (i, d)" by (cases id)
    have b: "i + d \<le> length (sse_buffer v)" using delimiter_bounds Some id by blast
    have dx: "delimiter (sse_buffer (with_buffer (sse_buffer v @ x) v)) = Some (i, d)"
      using delimiter_append Some id by (simp add: with_buffer_def)
    let ?w = "with_buffer (drop (i + d) (sse_buffer v)) v"
    let ?f = "take i (sse_buffer v)"
    have step: "feed_loop parse (with_buffer (sse_buffer v @ x) v) =
        Option.bind (validate_frame parse ?f (with_buffer (sse_buffer ?w @ x) ?w)) (feed_loop parse)"
      using b by (subst feed_loop.simps) (simp add: dx, simp add: with_buffer_def split: option.splits)
    have base: "feed_loop parse v = Option.bind (validate_frame parse ?f ?w) (feed_loop parse)"
      using Some id by (subst feed_loop.simps) (simp add: with_buffer_def split: option.splits)
    show ?thesis
    proof (cases "validate_frame parse ?f ?w")
      case None
      then show ?thesis by (simp add: step base validate_frame_with_buffer [of parse ?f _ ?w])
    next
      case (Some v')
      have "sse_buffer v' = sse_buffer ?w" using Some by (rule validate_frame_buffer)
      moreover have "feed_loop parse (with_buffer (sse_buffer v' @ x) v') =
          Option.bind (feed_loop parse v') (\<lambda>v'. feed_loop parse (with_buffer (sse_buffer v' @ x) v'))"
        by (rule "1.IH") (use \<open>delimiter (sse_buffer v) = Some id\<close> id Some in \<open>simp_all add: with_buffer_def\<close>)
      ultimately show ?thesis
        using Some by (simp add: step base validate_frame_with_buffer [of parse ?f _ ?w])
    qed
  qed
qed

lemma feed_loop_buffer: "feed_loop parse v = Some v' \<Longrightarrow> length (sse_buffer v') \<le> length (sse_buffer v)"
proof (induction parse v rule: feed_loop.induct)
  case (1 parse v)
  show ?case
  proof (cases "delimiter (sse_buffer v)")
    case None
    then show ?thesis using "1.prems" by (simp add: feed_loop.simps [of parse v])
  next
    case (Some id)
    obtain i d where id: "id = (i, d)" by (cases id)
    obtain w where w: "validate_frame parse (take i (sse_buffer v))
        (v\<lparr>sse_buffer := drop (i + d) (sse_buffer v)\<rparr>) = Some w" "feed_loop parse w = Some v'"
      using "1.prems" Some id by (subst (asm) feed_loop.simps) (auto split: option.splits)
    have "length (sse_buffer v') \<le> length (sse_buffer w)"
      by (rule "1.IH" [OF _ _ w(1) w(2)]) (use Some id in auto)
    then show ?thesis using validate_frame_buffer [OF w(1)] by simp
  qed
qed

fun feed_all :: "(str \<Rightarrow> json option) \<Rightarrow> bytes list \<Rightarrow> sse \<Rightarrow> sse option" where
  "feed_all parse [] v = Some v"
| "feed_all parse (c # cs) v = Option.bind (feed parse c v) (feed_all parse cs)"

lemma feed_within:
  "length (sse_buffer v) + length bs \<le> SSE_BUFFER_LIMIT \<Longrightarrow>
   feed parse bs v = feed_loop parse (with_buffer (sse_buffer v @ bs) v)"
  by (auto simp: feed_def with_buffer_def sat_add_u64_def SSE_BUFFER_LIMIT_def u64_max_def)

lemma feed_append:
  assumes "length (sse_buffer v) + length a + length b \<le> SSE_BUFFER_LIMIT"
  shows "feed parse (a @ b) v = Option.bind (feed parse a v) (feed parse b)"
proof -
  let ?w = "with_buffer (sse_buffer v @ a) v"
  have "with_buffer (sse_buffer ?w @ b) ?w = with_buffer (sse_buffer v @ a @ b) v"
    by (simp add: with_buffer_def)
  then have "feed parse (a @ b) v =
      Option.bind (feed_loop parse ?w) (\<lambda>v'. feed_loop parse (with_buffer (sse_buffer v' @ b) v'))"
    using feed_loop_append [of parse ?w b] assms by (simp add: feed_within)
  also have "\<dots> = Option.bind (feed_loop parse ?w) (feed parse b)"
  proof (cases "feed_loop parse ?w")
    case (Some v')
    have "length (sse_buffer v') \<le> length (sse_buffer v) + length a"
      using feed_loop_buffer [OF Some] by (simp add: with_buffer_def)
    then show ?thesis using Some assms by (simp add: feed_within)
  qed simp
  finally show ?thesis using assms by (simp add: feed_within)
qed

lemma feed_all_concat:
  "length (sse_buffer v) + length (concat cs) \<le> SSE_BUFFER_LIMIT \<Longrightarrow> cs \<noteq> [] \<Longrightarrow>
   feed_all parse cs v = feed parse (concat cs) v"
proof (induction cs arbitrary: v rule: rev_induct)
  case (snoc c cs)
  have app: "feed_all parse (cs @ [c]) v = Option.bind (feed_all parse cs v) (feed parse c)"
    for v
  proof (induction cs arbitrary: v)
    case Nil
    show ?case by (cases "feed parse c v") simp_all
  next
    case (Cons a as)
    then show ?case by (cases "feed parse a v") simp_all
  qed
  show ?case
  proof (cases "cs = []")
    case False
    have "feed_all parse cs v = feed parse (concat cs) v" by (rule snoc.IH) (use snoc.prems False in auto)
    then show ?thesis using feed_append [of v "concat cs" c parse] snoc.prems by (simp add: app)
  qed (cases "feed parse c v", simp_all)
qed simp

text \<open>
  C17. Framing does not depend on transport chunks: two ways of cutting the same body give the
  same validator, frames re-emitted and verdict alike, as long as the body fits the buffer
  limit; in particular a delimiter split between two chunks is found.
\<close>

theorem chunking_irrelevant:
  assumes "concat cs = concat ds" "cs \<noteq> []" "ds \<noteq> []"
    "length (sse_buffer v) + length (concat cs) \<le> SSE_BUFFER_LIMIT"
  shows "feed_all parse cs v = feed_all parse ds v"
  using assms by (simp add: feed_all_concat)

definition demo_chunk :: json where
  "demo_chunk = JObject
     [(''choices'', JArray [JObject [(''delta'', JObject []), (''finish_reason'', JNull),
        (''index'', JNumber (NatNum 0))]]),
      (''id'', JString ''m''), (''model'', JString ''g''),
      (''object'', JString ''chat.completion.chunk'')]"

definition demo_parse :: "str \<Rightarrow> json option" where
  "demo_parse s = (if s \<in> {''{}'', ''{'' @ LF # ''}''} then Some demo_chunk else None)"

theorem chunking_irrelevant_witness:
  "feed_all demo_parse [''data: {}'' @ [LF], [LF]] new_sse =
   feed_all demo_parse [''data'', '': {}'', [LF, LF]] new_sse"
  by (rule chunking_irrelevant) (simp_all add: new_sse_def SSE_BUFFER_LIMIT_def)

section \<open>One stream, one message\<close>

text \<open>What a validator has accepted so far: its counters, its identity and what it emitted agree.\<close>

definition sse_inv :: "sse \<Rightarrow> bool" where
  "sse_inv v \<longleftrightarrow>
     (sse_message_id v = None \<longleftrightarrow> sse_model v = None) \<and>
     (0 < sse_data_frame_count v \<longleftrightarrow> sse_message_id v \<noteq> None) \<and>
     (sse_emitted v \<noteq> [] \<longrightarrow> 0 < sse_data_frame_count v) \<and>
     sse_data_frame_count v \<le> sse_frame_count v \<and> sse_frame_count v \<le> u64_max"

lemma accept_chunk_Some:
  assumes "accept_chunk data val v = Some v'"
  obtains i model where "v' = v\<lparr>sse_message_id := Some i, sse_model := Some model,
      sse_emitted := sse_emitted v @ [emitted_frame data]\<rparr>"
    "get_str ''id'' val = Some i" "get_str ''model'' val = Some model" "i \<noteq> []" "model \<noteq> []"
    "sse_message_id v = None \<or> sse_message_id v = Some i"
    "sse_model v = None \<or> sse_model v = Some model"
  using assms
  by (auto simp: accept_chunk_def is_some_and_def split: option.splits if_splits)

lemma accept_data_inv: "accept_data parse data v = Some v' \<Longrightarrow> sse_inv v \<Longrightarrow> sse_inv v'"
proof (cases "trim data = ''[DONE]''")
  case False
  assume a: "accept_data parse data v = Some v'" and inv: "sse_inv v"
  from a False obtain val where
    c: "accept_chunk data val (v\<lparr>sse_frame_count := sat_add_u64 (sse_frame_count v) 1,
        sse_data_frame_count := sat_add_u64 (sse_data_frame_count v) 1\<rparr>) = Some v'"
    by (auto simp: accept_data_def Let_def bind_eq_Some_conv)
  have "sat_add_u64 (sse_data_frame_count v) 1 \<le> sat_add_u64 (sse_frame_count v) 1"
    using inv by (auto simp: sse_inv_def sat_add_u64_def)
  moreover have "0 < sat_add_u64 (sse_data_frame_count v) 1"
    using sat_add_u64_pos [of _ 0] by simp
  ultimately show ?thesis
    by (rule_tac accept_chunk_Some [OF c]) (simp add: sse_inv_def)
next
  case True
  assume "accept_data parse data v = Some v'" "sse_inv v"
  moreover have "sse_frame_count v \<le> sat_add_u64 (sse_frame_count v) 1" if "sse_inv v"
    using that by (intro sat_add_u64_mono) (simp add: sse_inv_def)
  ultimately show ?thesis
    using True by (auto simp: accept_data_def Let_def sse_inv_def)
qed

text \<open>The identity, once set, never changes, and a stream once done accepts no data.\<close>

definition same_stream :: "sse \<Rightarrow> sse \<Rightarrow> bool" where
  "same_stream v v' \<longleftrightarrow>
     (\<forall>i. sse_message_id v = Some i \<longrightarrow> sse_message_id v' = Some i) \<and>
     (\<forall>m. sse_model v = Some m \<longrightarrow> sse_model v' = Some m) \<and>
     (sse_done v \<longrightarrow> sse_done v' \<and> sse_data_frame_count v' = sse_data_frame_count v \<and>
        sse_emitted v' = sse_emitted v) \<and>
     (\<exists>fs. sse_emitted v' = sse_emitted v @ fs) \<and>
     (sse_data_frame_count v = 0 \<longrightarrow> 0 < sse_data_frame_count v' \<longrightarrow>
        sse_emitted v' \<noteq> sse_emitted v)"

lemma same_stream_refl: "same_stream v v"
  by (simp add: same_stream_def)

lemma same_stream_trans: "same_stream u v \<Longrightarrow> same_stream v w \<Longrightarrow> same_stream u w"
  by (auto simp: same_stream_def)

lemma same_stream_buffer: "same_stream v w \<Longrightarrow> same_stream (with_buffer b v) w"
  "same_stream v w \<Longrightarrow> same_stream v (with_buffer b w)"
  by (simp_all add: same_stream_def with_buffer_def)

lemma accept_data_same: "accept_data parse data v = Some v' \<Longrightarrow> \<not> sse_done v \<Longrightarrow> same_stream v v'"
proof (cases "trim data = ''[DONE]''")
  case False
  assume a: "accept_data parse data v = Some v'" and nd: "\<not> sse_done v"
  from a False obtain val where
    c: "accept_chunk data val (v\<lparr>sse_frame_count := sat_add_u64 (sse_frame_count v) 1,
        sse_data_frame_count := sat_add_u64 (sse_data_frame_count v) 1\<rparr>) = Some v'"
    by (auto simp: accept_data_def Let_def bind_eq_Some_conv)
  show ?thesis by (rule accept_chunk_Some [OF c]) (auto simp: same_stream_def nd)
qed (auto simp: accept_data_def Let_def same_stream_def)

lemma validate_frame_keeps:
  assumes "validate_frame parse frame v = Some v'"
  shows "(sse_inv v \<longrightarrow> sse_inv v') \<and> same_stream v v'"
  using assms
  by (auto simp: validate_frame_def same_stream_refl intro: accept_data_inv accept_data_same
      split: if_splits option.splits list.splits)

lemma feed_loop_keeps:
  "feed_loop parse v = Some v' \<Longrightarrow> (sse_inv v \<longrightarrow> sse_inv v') \<and> same_stream v v'"
proof (induction parse v rule: feed_loop.induct)
  case (1 parse v)
  show ?case
  proof (cases "delimiter (sse_buffer v)")
    case None
    then show ?thesis using "1.prems" by (simp add: feed_loop.simps [of parse v] same_stream_refl)
  next
    case (Some id)
    obtain i d where id: "id = (i, d)" by (cases id)
    let ?w = "v\<lparr>sse_buffer := drop (i + d) (sse_buffer v)\<rparr>"
    obtain w where w: "validate_frame parse (take i (sse_buffer v)) ?w = Some w"
      "feed_loop parse w = Some v'"
      using "1.prems" Some id by (subst (asm) feed_loop.simps) (auto split: option.splits)
    have "(sse_inv w \<longrightarrow> sse_inv v') \<and> same_stream w v'"
      by (rule "1.IH" [OF _ _ w(1) w(2)]) (use Some id in auto)
    moreover have "(sse_inv ?w \<longrightarrow> sse_inv w) \<and> same_stream ?w w" by (rule validate_frame_keeps [OF w(1)])
    moreover have "sse_inv ?w = sse_inv v" "same_stream v ?w" by (simp_all add: sse_inv_def same_stream_def)
    ultimately show ?thesis using same_stream_trans by blast
  qed
qed

lemma feed_keeps: "feed parse bs v = Some v' \<Longrightarrow> (sse_inv v \<longrightarrow> sse_inv v') \<and> same_stream v v'"
proof -
  assume "feed parse bs v = Some v'"
  then have "feed_loop parse (with_buffer (sse_buffer v @ bs) v) = Some v'"
    by (simp add: feed_def with_buffer_def split: if_splits)
  moreover have "sse_inv (with_buffer b v) = sse_inv v" "same_stream v (with_buffer b v)" for b
    by (simp_all add: sse_inv_def same_stream_def with_buffer_def)
  ultimately show ?thesis using feed_loop_keeps same_stream_trans by blast
qed

lemma prime_stream_keeps:
  "prime_stream parse items v ready = Some (rest, v', ready') \<Longrightarrow> sse_inv v \<Longrightarrow> sse_emitted v = [] \<Longrightarrow>
   sse_data_frame_count v = 0 \<Longrightarrow>
   sse_inv v' \<and> ready' \<noteq> [] \<and> 0 < sse_data_frame_count v' \<and> sse_emitted v' = [] \<and>
   length rest < length items \<and> sse_message_id v' \<noteq> None"
proof (induction parse items v ready arbitrary: rest v' ready' rule: prime_stream.induct)
  case (3 parse chunk items v ready)
  obtain v1 where f: "feed parse chunk v = Some v1" using "3.prems"(1) by (auto split: option.splits)
  have k: "sse_inv v1" "same_stream v v1" using feed_keeps [OF f] "3.prems"(2) by auto
  let ?v2 = "v1\<lparr>sse_emitted := []\<rparr>"
  have inv2: "sse_inv ?v2" using k(1) by (auto simp: sse_inv_def)
  show ?case
  proof (cases "0 < sse_data_frame_count v1")
    case True
    then have "sse_emitted v1 \<noteq> []" using k(2) "3.prems"(3,4) by (auto simp: same_stream_def)
    then show ?thesis using True "3.prems"(1) f inv2
      by (auto simp: take_emitted_def Let_def sse_inv_def)
  next
    case False
    then have "prime_stream parse items ?v2 (ready @ sse_emitted v1) = Some (rest, v', ready')"
      using "3.prems"(1) f by (auto simp: take_emitted_def Let_def split: if_splits)
    moreover have "\<not> 256 < length (ready @ sse_emitted v1)"
      using False "3.prems"(1) f by (auto simp: take_emitted_def Let_def split: if_splits)
    moreover have "sse_data_frame_count ?v2 = 0" "sse_emitted ?v2 = []" using False by simp_all
    ultimately have "sse_inv v' \<and> ready' \<noteq> [] \<and> 0 < sse_data_frame_count v' \<and> sse_emitted v' = [] \<and>
        length rest < length items \<and> sse_message_id v' \<noteq> None"
      using "3.IH" [OF f refl refl, unfolded take_emitted_def fst_conv snd_conv] False inv2 by blast
    then show ?thesis by simp
  qed
qed simp_all

text \<open>
  C18. A primed stream is usable: when priming succeeds there is at least one validated chunk to
  send, the message identity is fixed, and every later chunk of the body that the validator
  accepts carries that identity; frames are only ever appended to what was emitted. A body that
  ends, fails or breaks the protocol before its first valid chunk is refused with nothing sent.
\<close>

theorem primed_stream_usable:
  assumes "prime_stream parse items new_sse [] = Some (rest, v, ready)"
    "feed_all parse chunks v = Some v'"
  shows "ready \<noteq> [] \<and> (\<exists>i m. sse_message_id v = Some i \<and> sse_model v = Some m \<and>
      sse_message_id v' = Some i \<and> sse_model v' = Some m) \<and>
    length rest < length items \<and> (\<exists>fs. sse_emitted v' = sse_emitted v @ fs)"
proof -
  have p: "sse_inv v" "ready \<noteq> []" "sse_message_id v \<noteq> None" "length rest < length items"
    using prime_stream_keeps [OF assms(1)] by (auto simp: new_sse_def sse_inv_def)
  have "same_stream w w'" if "feed_all parse cs w = Some w'" for cs w w'
    using that
  proof (induction cs arbitrary: w)
    case (Cons c cs)
    then obtain w1 where "feed parse c w = Some w1" "feed_all parse cs w1 = Some w'"
      by (auto simp: bind_eq_Some_conv)
    then show ?case using Cons.IH feed_keeps same_stream_trans by blast
  qed (simp add: same_stream_refl)
  then have "same_stream v v'" using assms(2) by blast
  then show ?thesis using p by (auto simp: same_stream_def sse_inv_def)
qed

lemma demo_classify:
  "classify_line ''data: {}'' = Data ''{}''" "classify_line ''data: {'' = Data ''{''"
  "classify_line ''data: }'' = Data ''}''" "classify_line ''}'' = Refused"
  by (simp_all add: classify_line_def strip_cr_def strip_suffix_def ends_with_def CR_def
      starts_with_def strip_prefix_def Let_def)

lemma demo_accept:
  "s \<in> {''{}'', ''{'' @ LF # ''}''} \<Longrightarrow> \<exists>v'. accept_data demo_parse s new_sse = Some v' \<and>
     sse_emitted v' = [emitted_frame s] \<and> sse_buffer v' = [] \<and> sse_data_frame_count v' = 1"
proof -
  assume s: "s \<in> {''{}'', ''{'' @ LF # ''}''}"
  have t: "trim s \<noteq> ''[DONE]''"
    using s by (auto simp: trim_def trim_segments_def is_whitespace_def code_def LF_def)
  have p: "demo_parse s = Some demo_chunk" using s by (simp add: demo_parse_def)
  show ?thesis
    by (simp add: accept_data_def t p accept_chunk_def demo_chunk_def json_accessors keys_within_def
        CHUNK_KEYS_def CHOICE_KEYS_def DELTA_KEYS_def bad_choice_def new_sse_def
        sat_add_u64_def u64_max_def)
qed

lemma demo_feed:
  "\<exists>v. feed demo_parse (''data: {}'' @ [LF, LF]) new_sse = Some v \<and>
     sse_emitted v = [emitted_frame ''{}''] \<and> sse_buffer v = [] \<and> sse_data_frame_count v = 1"
proof -
  have d: "delimiter (''data: {}'' @ [LF, LF]) = Some (8, 2)" "delimiter [] = None"
    by (simp_all add: delimiter_def LF_def CR_def)
  have l: "lines ''data: {}'' = [''data: {}'']" by (simp add: lines_def LF_def)
  have u: "valid_utf8 ''data: {}''" by (simp add: valid_utf8_def code_def)
  obtain v' where v': "accept_data demo_parse ''{}'' new_sse = Some v'"
    "sse_emitted v' = [emitted_frame ''{}'']" "sse_buffer v' = []" "sse_data_frame_count v' = 1"
    using demo_accept [of "''{}''"] by auto
  have "validate_frame demo_parse ''data: {}'' new_sse = Some v'"
    using v'(1) by (simp add: validate_frame_def l u demo_classify) (simp add: new_sse_def)
  moreover have "new_sse\<lparr>sse_buffer := []\<rparr> = new_sse" by (simp add: new_sse_def)
  ultimately have "feed_loop demo_parse (with_buffer (''data: {}'' @ [LF, LF]) new_sse) = Some v'"
    using d v'(3) by (subst feed_loop.simps) (simp add: with_buffer_def feed_loop.simps [of _ v'])
  moreover have "length (sse_buffer new_sse) + length (''data: {}'' @ [LF, LF]) \<le> SSE_BUFFER_LIMIT"
    by (simp add: new_sse_def SSE_BUFFER_LIMIT_def)
  ultimately have "feed demo_parse (''data: {}'' @ [LF, LF]) new_sse = Some v'"
    using feed_within [of new_sse "''data: {}'' @ [LF, LF]" demo_parse] by (simp add: new_sse_def)
  then show ?thesis using v' by auto
qed

theorem primed_stream_usable_witness:
  "\<exists>v ready i. prime_stream demo_parse [Chunk (''data: {}'' @ [LF, LF]), Broken] new_sse [] =
       Some ([Broken], v, ready) \<and> ready \<noteq> [] \<and> sse_message_id v = Some i"
proof -
  obtain v where f: "feed demo_parse (''data: {}'' @ [LF, LF]) new_sse = Some v"
    "sse_data_frame_count v = 1" using demo_feed by auto
  then have "prime_stream demo_parse [Chunk (''data: {}'' @ [LF, LF]), Broken] new_sse [] =
      Some ([Broken], v\<lparr>sse_emitted := []\<rparr>, sse_emitted v)"
    by (simp add: take_emitted_def Let_def)
  with primed_stream_usable [OF this, of "[]"] show ?thesis by auto
qed

section \<open>Re-emission\<close>

lemma split_on_notin: "c \<notin> set a \<Longrightarrow> split_on c (a @ c # b) = a # split_on c b"
  by (induction a) auto

lemma split_on_whole: "c \<notin> set s \<Longrightarrow> split_on c s = [s]"
  by (induction s) auto

lemma lines_single: "LF \<notin> set s \<Longrightarrow> s \<noteq> [] \<Longrightarrow> lines s = [s]"
  by (simp add: lines_def split_on_whole)

lemma strip_cr_clean: "CR \<notin> set s \<Longrightarrow> strip_cr s = s"
  by (auto simp: strip_cr_def strip_suffix_def ends_with_iff)

lemma valid_utf8_prefix: "list_all (\<lambda>b. code b < 128) a \<Longrightarrow> valid_utf8 (a @ s) = valid_utf8 s"
  by (induction a) (auto simp: valid_utf8_def)

lemma classify_data_line: "CR \<notin> set d \<Longrightarrow> classify_line (''data: '' @ d) = Data d"
  using strip_cr_clean [of "''data: '' @ d"]
  by (simp add: classify_line_def starts_with_def strip_prefix_def CR_def)

text \<open>
  Re-emission is faithful for one data line: the frame sent for an accepted event whose
  data is a single line is accepted again by a validator of the same kind, which sends exactly
  the same bytes; a gateway behind the gateway changes nothing.
\<close>

theorem reemitted_frame_accepted:
  assumes "accept_data parse data v = Some v'" "trim data \<noteq> ''[DONE]''" "valid_utf8 data"
    "LF \<notin> set data" "CR \<notin> set data" "length data + 6 \<le> 1024 * 1024"
  shows "\<exists>w. validate_frame parse (''data: '' @ data) new_sse = Some w \<and>
    sse_emitted w = [emitted_frame data] \<and> emitted_frame data = (''data: '' @ data) @ [LF, LF] \<and>
    last (sse_emitted v') = emitted_frame data"
proof -
  obtain val where val: "parse data = Some val"
    and a: "accept_chunk data val (v\<lparr>sse_frame_count := sat_add_u64 (sse_frame_count v) 1,
        sse_data_frame_count := sat_add_u64 (sse_data_frame_count v) 1\<rparr>) = Some v'"
    using assms(1,2) by (auto simp: accept_data_def Let_def bind_eq_Some_conv)
  have "\<exists>w. accept_chunk data val u = Some w \<and> sse_emitted w = [emitted_frame data]"
    if "sse_message_id u = None" "sse_model u = None" "sse_emitted u = []" for u
    using a that by (auto simp: accept_chunk_def split: option.splits if_splits)
  from this [of "new_sse\<lparr>sse_frame_count := sat_add_u64 0 1, sse_data_frame_count := sat_add_u64 0 1\<rparr>"]
  obtain w where "accept_data parse data new_sse = Some w" "sse_emitted w = [emitted_frame data]"
    using assms(2) val by (auto simp: accept_data_def Let_def new_sse_def)
  moreover have "valid_utf8 (''data: '' @ data)"
    using assms(3) by (subst valid_utf8_prefix) (simp_all add: code_def)
  moreover have "LF \<notin> set (''data: '' @ data)" using assms(4) by (simp add: LF_def)
  moreover have "lines (''data: '' @ data) = [''data: '' @ data]"
    by (rule lines_single) (use calculation(4) in simp_all)
  then have "data_lines (lines (''data: '' @ data)) = Some [data]"
    using classify_data_line [OF assms(5)] by simp
  moreover have "\<not> sse_done new_sse" by (simp add: new_sse_def)
  ultimately have "validate_frame parse (''data: '' @ data) new_sse = Some w"
    using assms(6) by (simp add: validate_frame_def)
  moreover have "last (sse_emitted v') = emitted_frame data"
    by (rule accept_chunk_Some [OF a]) simp
  ultimately show ?thesis
    using \<open>sse_emitted w = [emitted_frame data]\<close> by (simp add: emitted_frame_def)
qed

theorem reemitted_frame_accepted_witness:
  "\<exists>w. validate_frame demo_parse ''data: {}'' new_sse = Some w \<and> sse_emitted w = [emitted_frame ''{}'']"
proof -
  obtain v' where a: "accept_data demo_parse ''{}'' new_sse = Some v'"
    using demo_accept [of "''{}''"] by auto
  have "trim ''{}'' \<noteq> ''[DONE]''" "valid_utf8 ''{}''" "LF \<notin> set ''{}''" "CR \<notin> set ''{}''"
    by (simp_all add: trim_def trim_segments_def is_whitespace_def valid_utf8_def code_def LF_def CR_def)
  from reemitted_frame_accepted [OF a this] show ?thesis by auto
qed

text \<open>
  An event spread over several data lines is accepted, and what is re-emitted for it joins them
  behind one \<open>data:\<close> prefix. Where the second value is itself no line of an event stream, the
  validator reading the frame back refuses it, whatever its state.
\<close>

lemma multi_line_event_broken:
  assumes "data_lines (lines frame) = Some (l1 # l2 # ls)"
    "validate_frame parse frame v = Some v'" "trim (join_lines (l1 # l2 # ls)) \<noteq> ''[DONE]''"
    "LF \<notin> set l1" "LF \<notin> set l2" "CR \<notin> set l1" "CR \<notin> set l2" "classify_line l2 = Refused"
  shows "sse_emitted v' = sse_emitted v @ [emitted_frame (join_lines (l1 # l2 # ls))] \<and>
    validate_frame parse' (''data: '' @ join_lines (l1 # l2 # ls)) w = None"
proof -
  let ?data = "join_lines (l1 # l2 # ls)"
  have "frame \<noteq> []" using assms(1) by (auto simp: lines_def)
  then have "accept_data parse ?data v = Some v'"
    using assms(1,2) by (auto simp: validate_frame_def split: if_splits)
  then obtain val where a: "accept_chunk ?data val (v\<lparr>sse_frame_count := sat_add_u64 (sse_frame_count v) 1,
        sse_data_frame_count := sat_add_u64 (sse_data_frame_count v) 1\<rparr>) = Some v'"
    using assms(3) by (auto simp: accept_data_def Let_def bind_eq_Some_conv)
  have "sse_emitted v' = sse_emitted v @ [emitted_frame ?data]"
    by (rule accept_chunk_Some [OF a]) simp
  moreover have "data_lines (lines (''data: '' @ ?data)) = None"
  proof -
    have l2: "l2 \<noteq> []" using assms(8) by (auto simp: classify_line_def strip_cr_def strip_suffix_def)
    obtain rest where r: "split_on LF ?data = l1 # l2 # rest \<and> (rest = [] \<or> rest \<noteq> [])"
    proof (cases ls)
      case Nil
      then show ?thesis using that assms(4,5) by (simp add: split_on_notin split_on_whole)
    next
      case (Cons a as)
      then have "?data = l1 @ LF # l2 @ LF # join_lines (a # as)" by simp
      then show ?thesis using that assms(4,5) by (simp add: split_on_notin del: join_lines.simps)
    qed
    have pre: "split_on LF (''data: '' @ s) = (''data: '' @ hd (split_on LF s)) # tl (split_on LF s)" for s
      by (cases "split_on LF s") (auto simp: LF_def)
    have "lines (''data: '' @ ?data) = strip_cr (''data: '' @ l1) # strip_cr l2 # map strip_cr (butlast rest)
        @ (if last rest = [] then [] else [last rest]) \<or> lines (''data: '' @ ?data) = [strip_cr (''data: '' @ l1), l2]"
      using l2 pre [of ?data] r by (cases rest) (auto simp: lines_def Let_def)
    moreover have "strip_cr l2 = l2" by (rule strip_cr_clean [OF assms(7)])
    moreover have "strip_cr (''data: '' @ l1) = ''data: '' @ l1"
      by (rule strip_cr_clean) (use assms(6) in \<open>simp add: CR_def\<close>)
    ultimately show ?thesis
      using assms(8) classify_data_line [OF assms(6)] by auto
  qed
  ultimately show ?thesis by (simp add: validate_frame_def)
qed

lemma multi_line_event_example:
  "\<exists>v'. validate_frame demo_parse (''data: {'' @ LF # ''data: }'') new_sse = Some v' \<and>
     sse_emitted v' = [emitted_frame (''{'' @ LF # ''}'')] \<and>
     validate_frame demo_parse (''data: {'' @ LF # ''}'') new_sse = None"
proof -
  have l: "lines (''data: {'' @ LF # ''data: }'') = [''data: {'', ''data: }'']"
    by (simp add: lines_def LF_def strip_cr_def strip_suffix_def ends_with_def CR_def)
  have d: "data_lines (lines (''data: {'' @ LF # ''data: }'')) = Some [''{'', ''}'']"
    using demo_classify(2,3) unfolding l by simp
  have u: "valid_utf8 (''data: {'' @ LF # ''data: }'')" by (simp add: valid_utf8_def code_def LF_def)
  obtain v' where "accept_data demo_parse (''{'' @ LF # ''}'') new_sse = Some v'"
    using demo_accept [of "''{'' @ LF # ''}''"] by auto
  then have v: "validate_frame demo_parse (''data: {'' @ LF # ''data: }'') new_sse = Some v'"
    using d u by (simp add: validate_frame_def) (simp add: new_sse_def)
  have t: "trim (join_lines [''{'', ''}'']) \<noteq> ''[DONE]''"
    by (simp add: trim_def trim_segments_def is_whitespace_def code_def LF_def)
  have n: "LF \<notin> set ''{''" "LF \<notin> set ''}''" "CR \<notin> set ''{''" "CR \<notin> set ''}''"
    by (simp_all add: LF_def CR_def)
  show ?thesis
    using v multi_line_event_broken [OF d v t n demo_classify(4), of demo_parse new_sse]
    by (simp add: new_sse_def)
qed

end
