(* ===== verification/Media.thy ===== *)
theory Media
  imports Json
begin

text \<open>
  The byte-level media checks of \<open>streaming.rs\<close> (JPEG, PNG, MP4, WAV, base64, data URLs)
  and the fixtures of \<open>main.rs\<close> they must accept. Every read out of range panics in Rust: a
  reader answers \<open>None\<close> there, and the checks are option valued, so that the absence of
  panics is a theorem. \<open>b64e\<close> and \<open>b64d\<close> are the standard base64 engine.
\<close>

section \<open>Reading bytes\<close>

definition byte_at :: "bytes \<Rightarrow> nat \<Rightarrow> nat option" where
  "byte_at bs i = (if i < length bs then Some (code (bs ! i)) else None)"

text \<open>\<open>&bytes[lo..hi]\<close>.\<close>

definition slice :: "nat \<Rightarrow> nat \<Rightarrow> bytes \<Rightarrow> bytes option" where
  "slice lo hi bs = (if lo \<le> hi \<and> hi \<le> length bs then Some (take (hi - lo) (drop lo bs)) else None)"

definition be_val :: "bytes \<Rightarrow> nat" where
  "be_val bs = foldl (\<lambda>n b. n * 256 + code b) 0 bs"

definition le_val :: "bytes \<Rightarrow> nat" where
  "le_val bs = be_val (rev bs)"

definition be_at :: "nat \<Rightarrow> nat \<Rightarrow> bytes \<Rightarrow> nat option" where
  "be_at i n bs = map_option be_val (slice i (i + n) bs)"

definition le_at :: "nat \<Rightarrow> nat \<Rightarrow> bytes \<Rightarrow> nat option" where
  "le_at i n bs = map_option le_val (slice i (i + n) bs)"

lemma slice_Some [simp]: "lo \<le> hi \<Longrightarrow> hi \<le> length bs \<Longrightarrow> slice lo hi bs = Some (take (hi - lo) (drop lo bs))"
  by (simp add: slice_def)

text \<open>\<open>windows(n).any(|w| w == p)\<close> on a slice of any length.\<close>

abbreviation contains_window :: "bytes \<Rightarrow> bytes \<Rightarrow> bool" where
  "contains_window p bs \<equiv> has_sub p bs"

section \<open>JPEG\<close>

text \<open>The length of the run of \<open>0xff\<close> fill bytes from \<open>i\<close>.\<close>

definition fill_run :: "bytes \<Rightarrow> nat \<Rightarrow> nat" where
  "fill_run bs i = length (takeWhile (\<lambda>b. code b = 255) (drop i bs))"

text \<open>A standalone marker carries no length: SOI, TEM, RST0 to RST7.\<close>

definition standalone_marker :: "nat \<Rightarrow> bool" where
  "standalone_marker m \<longleftrightarrow> m = 216 \<or> m = 1 \<or> 208 \<le> m \<and> m \<le> 215"

text \<open>What one turn of the scan decides: the verdict, or where the next turn starts.\<close>

datatype scan_step = Stop bool | Continue nat bool

text \<open>The segment whose two length bytes start at \<open>p\<close>, after a marker that carries one.\<close>

definition jpeg_segment :: "bytes \<Rightarrow> nat \<Rightarrow> nat \<Rightarrow> bool \<Rightarrow> scan_step option" where
  "jpeg_segment bs p marker has_frame =
     (if length bs < p + 2 then Some (Stop False)
      else Option.bind (be_at p 2 bs) (\<lambda>seg.
        if seg < 2 \<or> length bs < p + seg then Some (Stop False)
        else if 192 \<le> marker \<and> marker \<le> 195 then
          (if seg < 7 then Some (Stop False)
           else Option.bind (be_at (p + 3) 2 bs) (\<lambda>height.
             Option.bind (be_at (p + 5) 2 bs) (\<lambda>width.
               Some (Continue (p + seg) (0 < width \<and> 0 < height)))))
        else Some (Continue (p + seg) has_frame)))"

definition jpeg_step :: "bytes \<Rightarrow> nat \<Rightarrow> bool \<Rightarrow> scan_step option" where
  "jpeg_step bs i has_frame =
     (if \<not> i + 3 < length bs - 2 then Some (Stop has_frame)
      else Option.bind (byte_at bs i) (\<lambda>b.
        if b \<noteq> 255 then Some (Continue (i + 1) has_frame)
        else
          (let j = i + fill_run bs i
           in if length bs \<le> j then Some (Stop has_frame)
              else Option.bind (byte_at bs j) (\<lambda>marker.
                if marker = 217 \<or> marker = 218 then Some (Stop has_frame)
                else if standalone_marker marker then Some (Continue (j + 1) has_frame)
                else jpeg_segment bs (j + 1) marker has_frame))))"

lemma jpeg_segment_forward:
  "jpeg_segment bs p m hf = Some (Continue i' hf') \<Longrightarrow> p < i' \<and> i' \<le> length bs"
  by (auto simp: jpeg_segment_def bind_eq_Some_conv split: if_splits)

lemma jpeg_step_forward:
  "jpeg_step bs i hf = Some (Continue i' hf') \<Longrightarrow> i < i' \<and> i < length bs"
  by (auto simp: jpeg_step_def Let_def bind_eq_Some_conv dest!: jpeg_segment_forward split: if_splits)

function jpeg_scan :: "bytes \<Rightarrow> nat \<Rightarrow> bool \<Rightarrow> bool option" where
  "jpeg_scan bs i has_frame =
     (case jpeg_step bs i has_frame of
        None \<Rightarrow> None
      | Some (Stop verdict) \<Rightarrow> Some verdict
      | Some (Continue i' has_frame') \<Rightarrow> jpeg_scan bs i' has_frame')"
  by pat_completeness auto
termination
  by (relation "measure (\<lambda>(bs, i, _). length bs - i)") (auto dest!: jpeg_step_forward)

declare jpeg_scan.simps [simp del]

definition valid_jpeg :: "bytes \<Rightarrow> bool option" where
  "valid_jpeg bs =
     (if length bs < 16 \<or> \<not> starts_with [CHR 0xFF, CHR 0xD8] bs \<or> \<not> ends_with [CHR 0xFF, CHR 0xD9] bs
      then Some False
      else jpeg_scan bs 2 False)"

section \<open>PNG, MP4, WAV\<close>

definition valid_png :: "bytes \<Rightarrow> bool option" where
  "valid_png bs =
     Some (24 \<le> length bs
       \<and> starts_with [CHR 0x89, CHR ''P'', CHR ''N'', CHR ''G'', CR, LF, CHR 0x1A, LF] bs
       \<and> contains_window ''IEND'' bs)"

definition valid_image :: "bytes \<Rightarrow> bool option" where
  "valid_image bs = Option.bind (valid_jpeg bs) (\<lambda>ok. if ok then Some True else valid_png bs)"

definition valid_mp4 :: "bytes \<Rightarrow> bool option" where
  "valid_mp4 bs =
     (if length bs < 16 then Some False
      else Option.bind (slice 4 8 bs) (\<lambda>tag.
        if tag \<noteq> ''ftyp'' then Some False
        else Option.bind (be_at 0 4 bs) (\<lambda>size.
          if \<not> (16 \<le> size \<and> size \<le> length bs) then Some False
          else Option.bind (slice 8 size bs) (\<lambda>brands.
            Some (contains_window ''isom'' brands \<and> contains_window ''moov'' bs)))))"

definition valid_wav :: "bytes \<Rightarrow> bool option" where
  "valid_wav bs =
     (if length bs < 44 then Some False
      else Option.bind (slice 0 4 bs) (\<lambda>riff. Option.bind (slice 8 12 bs) (\<lambda>wave.
        if riff \<noteq> ''RIFF'' \<or> wave \<noteq> ''WAVE'' then Some False
        else Option.bind (le_at 16 4 bs) (\<lambda>fmt_size.
          Option.bind (le_at 22 2 bs) (\<lambda>channels.
          Option.bind (le_at 24 4 bs) (\<lambda>sample_rate.
          Option.bind (le_at 34 2 bs) (\<lambda>bits.
          Option.bind (le_at 4 4 bs) (\<lambda>riff_size.
            (case find_sub ''data'' bs of
               None \<Rightarrow> Some False
             | Some data_offset \<Rightarrow>
                 if length bs < data_offset + 8 then Some False
                 else Option.bind (le_at (data_offset + 4) 4 bs) (\<lambda>data_size.
                   Some (16 \<le> fmt_size \<and> channels = 1 \<and> sample_rate = 44100 \<and> bits = 16
                         \<and> riff_size + 8 = length bs \<and> 0 < data_size
                         \<and> data_offset + 8 + data_size = length bs)))))))))))"

section \<open>Base64 and data URLs\<close>

definition decode_base64 ::
    "(bytes \<Rightarrow> str) \<Rightarrow> (str \<Rightarrow> bytes option) \<Rightarrow> str \<Rightarrow> bytes option" where
  "decode_base64 b64e b64d v =
     (if v = [] \<or> list_ex is_ascii_whitespace v then None
      else Option.bind (b64d v) (\<lambda>bs. if b64e bs = v then Some bs else None))"

definition valid_data_url ::
    "(bytes \<Rightarrow> str) \<Rightarrow> (str \<Rightarrow> bytes option) \<Rightarrow> str \<Rightarrow> bool \<Rightarrow> bool option" where
  "valid_data_url b64e b64d v image_only =
     (case split_once (CHR '','') v of
        None \<Rightarrow> Some False
      | Some (pre, encoded) \<Rightarrow>
          (case decode_base64 b64e b64d encoded of
             None \<Rightarrow> Some False
           | Some bs \<Rightarrow>
               if pre = ''data:image/png;base64'' \<and> image_only then valid_png bs
               else if pre = ''data:image/jpeg;base64'' \<and> image_only then valid_jpeg bs
               else Some False))"

section \<open>The fixtures\<close>

definition le_bytes :: "nat \<Rightarrow> nat \<Rightarrow> bytes" where
  "le_bytes n v = map (\<lambda>i. char_of (v div 256 ^ i)) [0..<n]"

definition mock_wav :: bytes where
  "mock_wav =
     ''RIFF'' @ le_bytes 4 40 @ ''WAVE'' @ ''fmt '' @ le_bytes 4 16 @ le_bytes 2 1 @ le_bytes 2 1
     @ le_bytes 4 44100 @ le_bytes 4 88200 @ le_bytes 2 2 @ le_bytes 2 16 @ ''data''
     @ le_bytes 4 4 @ replicate 4 (CHR 0x00)"

definition mock_mp4 :: bytes where
  "mock_mp4 =
     [CHR 0x00, CHR 0x00, CHR 0x00, CHR 0x18] @ ''ftypisom'' @ replicate 4 (CHR 0x00) @ ''isommp4''
     @ [CHR 0x00] @ [CHR 0x00, CHR 0x00, CHR 0x00, CHR 0x0C] @ ''mdat'' @ replicate 4 (CHR 0x00)
     @ [CHR 0x00, CHR 0x00, CHR 0x00, CHR 0x08] @ ''moov''"

section \<open>No panic\<close>

lemma byte_at_Some: "i < length bs \<Longrightarrow> byte_at bs i = Some (code (bs ! i))"
  by (simp add: byte_at_def)

lemma be_at_Some: "i + n \<le> length bs \<Longrightarrow> be_at i n bs = Some (be_val (take n (drop i bs)))"
  by (simp add: be_at_def)

lemma le_at_Some: "i + n \<le> length bs \<Longrightarrow> le_at i n bs = Some (le_val (take n (drop i bs)))"
  by (simp add: le_at_def)

lemma jpeg_segment_total: "jpeg_segment bs p m hf \<noteq> None"
  by (auto simp: jpeg_segment_def be_at_Some)

lemma jpeg_step_total: "jpeg_step bs i hf \<noteq> None"
  using jpeg_segment_total [of bs] by (auto simp: jpeg_step_def byte_at_Some Let_def)

lemma jpeg_scan_total: "jpeg_scan bs i has_frame \<noteq> None"
proof (induction bs i has_frame rule: jpeg_scan.induct)
  case (1 bs i has_frame)
  then show ?case
    using jpeg_step_total [of bs i has_frame]
    by (subst jpeg_scan.simps) (auto simp del: not_None_eq split: option.splits scan_step.splits)
qed

lemma some_not_none: "Some x \<noteq> None" by simp

lemma image_checks_total: "valid_jpeg bs \<noteq> None" "valid_png bs \<noteq> None" "valid_image bs \<noteq> None"
proof -
  show j: "valid_jpeg bs \<noteq> None" and p: "valid_png bs \<noteq> None"
    using jpeg_scan_total by (simp_all add: valid_jpeg_def valid_png_def del: not_None_eq)
  then show "valid_image bs \<noteq> None" by (auto simp: valid_image_def)
qed

text \<open>
  C22. No media check panics: on every byte string, whatever a client or the provider sent, the
  JPEG scan (whose loop always ends), the PNG, MP4 and WAV checks and the data URL check all
  return a verdict; no index or slice of theirs is ever out of range.
\<close>

theorem media_checks_never_panic:
  "valid_jpeg bs \<noteq> None \<and> valid_png bs \<noteq> None \<and> valid_image bs \<noteq> None \<and>
   valid_mp4 bs \<noteq> None \<and> valid_wav bs \<noteq> None \<and> valid_data_url b64e b64d u only \<noteq> None"
proof (intro conjI)
  show "valid_mp4 bs \<noteq> None" by (auto simp: valid_mp4_def be_at_Some)
  show "valid_wav bs \<noteq> None" by (auto simp: valid_wav_def le_at_Some split: option.splits)
  show "valid_data_url b64e b64d u only \<noteq> None"
    using image_checks_total by (auto simp: valid_data_url_def split: option.splits prod.splits)
qed (rule image_checks_total)+

end
