(* ===== verification/Provider.thy ===== *)
theory Provider
  imports Http Media Sse
begin

text \<open>
  The provider side of one request (\<open>provider.rs\<close>): which URL counts as NVIDIA's own, where a
  model's requests go, the body sent for each modality, and the shape required of a chat
  completion. \<open>parse_url\<close> is \<open>reqwest::Url::parse\<close>; an environment variable is an
  argument; a \<open>f64\<close> literal is its rational.
\<close>

section \<open>Endpoints\<close>

record url =
  url_scheme :: str
  url_username :: str
  url_password :: "str option"
  url_host :: "str option"
  url_port_or_known_default :: "nat option"
  url_query :: "str option"
  url_fragment :: "str option"

definition is_canonical_nvidia_url :: "(str \<Rightarrow> url option) \<Rightarrow> str \<Rightarrow> bool" where
  "is_canonical_nvidia_url parse_url v =
     (case parse_url v of
        None \<Rightarrow> False
      | Some u \<Rightarrow>
          url_scheme u = ''https'' \<and> url_username u = [] \<and> url_password u = None
          \<and> url_port_or_known_default u = Some 443 \<and> url_query u = None \<and> url_fragment u = None
          \<and> is_some_and (\<lambda>h. h \<in> set [''integrate.api.nvidia.com'', ''ai.api.nvidia.com'',
                                        ''api.nvcf.nvidia.com'']
                               \<or> ends_with ''.api.nvcf.nvidia.com'' h) (url_host u))"

text \<open>\<open>trim_end_matches\<close> on one byte.\<close>

definition trim_end_char :: "byte \<Rightarrow> str \<Rightarrow> str" where
  "trim_end_char c s = rev (dropWhile (\<lambda>x. x = c) (rev s))"

definition magpie_tts_endpoint :: "str option \<Rightarrow> str" where
  "magpie_tts_endpoint var =
     unwrap_or
       ''https://877104f7-e885-42b9-8de8-f6e4c6303969.invocation.api.nvcf.nvidia.com/v1/audio/synthesize''
       var"

definition live_qa_provider_is_canonical ::
    "(str \<Rightarrow> url option) \<Rightarrow> str option \<Rightarrow> str \<Rightarrow> bool" where
  "live_qa_provider_is_canonical parse_url var configured \<longleftrightarrow>
     is_canonical_nvidia_url parse_url configured
     \<and> is_canonical_nvidia_url parse_url (magpie_tts_endpoint var)"

definition upstream_endpoint :: "str \<Rightarrow> str \<Rightarrow> str" where
  "upstream_endpoint configured path =
     (let c = trim_end_char (CHR ''/'') configured;
          versionless_path = unwrap_or path (strip_prefix ''/v1'' path)
      in case strip_suffix ''/chat/completions'' c of
           Some pre \<Rightarrow> pre @ versionless_path
         | None \<Rightarrow> if ends_with ''/v1'' c then c @ versionless_path else c @ path)"

definition upstream_endpoint_for :: "str option \<Rightarrow> str \<Rightarrow> str \<Rightarrow> str \<Rightarrow> str" where
  "upstream_endpoint_for var configured path model =
     (if starts_with ''mock://'' configured then configured
      else
        (let c = trim_end_char (CHR ''/'') configured
         in if c \<in> set [''https://integrate.api.nvidia.com/v1/chat/completions'',
                        ''https://integrate.api.nvidia.com/v1'']
            then
              (if model = ''nvidia/vila'' then ''https://ai.api.nvidia.com/v1/vlm/nvidia/vila''
               else if model = ''black-forest-labs/flux.1-kontext-dev''
               then ''https://ai.api.nvidia.com/v1/genai/black-forest-labs/flux.1-kontext-dev''
               else if model = ''stabilityai/stable-video-diffusion''
               then ''https://ai.api.nvidia.com/v1/genai/stabilityai/stable-video-diffusion''
               else if model = ''microsoft/phi-4-multimodal-instruct''
               then ''https://integrate.api.nvidia.com/v1/chat/completions''
               else if model = ''nvidia/nvclip'' then ''https://integrate.api.nvidia.com/v1/embeddings''
               else if model = ''nvidia/magpie-tts-multilingual'' then magpie_tts_endpoint var
               else if model = ''nvidia/parakeet-ctc-1.1b''
               then upstream_endpoint c ''/v1/audio/transcriptions''
               else upstream_endpoint c path)
            else upstream_endpoint c path))"

section \<open>The body sent to the provider\<close>

definition opt_field :: "str \<Rightarrow> (str \<times> json) list \<Rightarrow> (json \<Rightarrow> 'a option) \<Rightarrow> 'a option" where
  "opt_field key m acc = Option.bind (map_of m key) acc"

definition prepare_image_request :: "(str \<times> json) list \<Rightarrow> http_response + json" where
  "prepare_image_request m =
     (case opt_field ''prompt'' m as_str of
        None \<Rightarrow> Err (invalid_request ''prompt must be a string'')
      | Some prompt \<Rightarrow>
          (let size = unwrap_or ''1024x1024'' (opt_field ''size'' m as_str);
               image = (case opt_field ''image'' m as_str of
                          Some s \<Rightarrow> if s = [] then None else Some s | None \<Rightarrow> None);
               ratio = (if image \<noteq> None then Some ''match_input_image''
                        else if size = ''1024x1024'' then Some ''1:1''
                        else if size \<in> set [''1792x1024'', ''1536x864''] then Some ''16:9''
                        else if size \<in> set [''1024x1792'', ''864x1536''] then Some ''9:16''
                        else None)
           in case ratio of
                None \<Rightarrow> Err (invalid_request ''size is not supported by FLUX'')
              | Some aspect_ratio \<Rightarrow>
                  if unwrap_or 1 (opt_field ''n'' m as_u64) \<noteq> 1
                  then Err (invalid_request ''FLUX supports exactly one image'')
                  else Ok (JObject
                    (obj_set ''seed''
                       (JNumber (NatNum (unwrap_or 0 (opt_field ''seed'' m as_u64))))
                    (obj_set ''cfg_scale''
                       (JNumber (FloatNum (unwrap_or (7 / 2) (opt_field ''cfg_scale'' m as_f64))))
                    (obj_set ''steps''
                       (JNumber (NatNum (unwrap_or 30 (opt_field ''steps'' m as_u64))))
                    (obj_set ''aspect_ratio'' (JString aspect_ratio)
                    (case image of
                       Some i \<Rightarrow> obj_set ''image'' (JString i) (obj_set ''prompt'' (JString prompt) [])
                     | None \<Rightarrow> obj_set ''prompt'' (JString prompt) []))))))))"

definition prepare_video_request :: "(str \<times> json) list \<Rightarrow> http_response + json" where
  "prepare_video_request m =
     (case opt_field ''input_reference'' m as_str of
        None \<Rightarrow> Err (invalid_request ''input_reference must be a PNG or JPEG data URL'')
      | Some input \<Rightarrow>
          if \<not> (starts_with ''data:image/png;base64,'' input
                 \<or> starts_with ''data:image/jpeg;base64,'' input)
          then Err (invalid_request ''input_reference must be a PNG or JPEG data URL'')
          else Ok (JObject
            (obj_set ''motion_bucket_id''
               (unwrap_or (JNumber (NatNum 127)) (map_of m ''motion_bucket_id''))
            (obj_set ''cfg_scale''
               (unwrap_or (JNumber (FloatNum (9 / 5))) (map_of m ''cfg_scale''))
            (obj_set ''seed'' (unwrap_or (JNumber (NatNum 0)) (map_of m ''seed''))
            (obj_set ''image'' (JString input) []))))))"

definition prepare_modality_request :: "str \<Rightarrow> json \<Rightarrow> http_response + json" where
  "prepare_modality_request path request =
     (case as_object request of
        None \<Rightarrow> Err (invalid_request ''request body must be a JSON object'')
      | Some m \<Rightarrow>
          if path = ''/v1/images/generations'' then prepare_image_request m
          else if path = ''/v1/videos/generations'' then prepare_video_request m
          else if path = ''/v1/nvidia/inference'' then Ok (JObject (obj_remove ''model'' m))
          else Ok request)"

section \<open>Chat completions\<close>

definition RESPONSE_KEYS :: "str list" where
  "RESPONSE_KEYS =
     [''id'', ''object'', ''created'', ''model'', ''choices'', ''usage'', ''system_fingerprint'',
      ''service_tier'', ''prompt_filter_results'', ''reasoning'', ''reasoning_content'']"

definition RESPONSE_CHOICE_KEYS :: "str list" where
  "RESPONSE_CHOICE_KEYS =
     [''index'', ''message'', ''finish_reason'', ''logprobs'', ''content_filter_results'']"

definition MESSAGE_KEYS :: "str list" where
  "MESSAGE_KEYS =
     [''role'', ''content'', ''tool_calls'', ''function_call'', ''refusal'', ''audio'', ''annotations'']"

definition USAGE_KEYS :: "str list" where
  "USAGE_KEYS =
     [''prompt_tokens'', ''completion_tokens'', ''total_tokens'', ''prompt_tokens_details'',
      ''completion_tokens_details'']"

definition is_array :: "json \<Rightarrow> bool" where
  "is_array v = (case v of JArray _ \<Rightarrow> True | _ \<Rightarrow> False)"

definition text_or_null :: "json \<Rightarrow> bool" where
  "text_or_null v \<longleftrightarrow> is_string v \<or> is_null v"

definition valid_message :: "(str \<times> json) list \<Rightarrow> bool" where
  "valid_message m \<longleftrightarrow>
     keys_within MESSAGE_KEYS m
     \<and> is_some_and (\<lambda>r. r \<noteq> []) (opt_field ''role'' m as_str)
     \<and> is_none_or text_or_null (map_of m ''content'')
     \<and> is_none_or text_or_null (map_of m ''refusal'')
     \<and> is_none_or is_array (map_of m ''tool_calls'')
     \<and> is_none_or is_array (map_of m ''annotations'')"

definition valid_response_choice :: "json \<Rightarrow> bool" where
  "valid_response_choice v =
     (case as_object v of
        None \<Rightarrow> False
      | Some m \<Rightarrow>
          keys_within RESPONSE_CHOICE_KEYS m \<and> opt_field ''index'' m as_u64 \<noteq> None
          \<and> is_some_and text_or_null (map_of m ''finish_reason'')
          \<and> is_some_and valid_message (opt_field ''message'' m as_object))"

definition valid_usage :: "json \<Rightarrow> bool" where
  "valid_usage v =
     (case as_object v of
        None \<Rightarrow> False
      | Some m \<Rightarrow>
          keys_within USAGE_KEYS m
          \<and> list_all (\<lambda>(k, x). if k \<in> set [''prompt_tokens'', ''completion_tokens'', ''total_tokens'']
                                then as_u64 x \<noteq> None else is_object x \<or> is_null x) m)"

definition valid_chat_object :: "json \<Rightarrow> bool" where
  "valid_chat_object v =
     (case as_object v of
        None \<Rightarrow> False
      | Some m \<Rightarrow>
          keys_within RESPONSE_KEYS m
          \<and> opt_field ''object'' m as_str = Some ''chat.completion''
          \<and> is_some_and (\<lambda>s. s \<noteq> []) (opt_field ''id'' m as_str)
          \<and> is_some_and (\<lambda>s. s \<noteq> []) (opt_field ''model'' m as_str)
          \<and> is_none_or (\<lambda>c. is_some_and (\<lambda>n. 0 \<le> n) (as_i64 c)) (map_of m ''created'')
          \<and> is_some_and (\<lambda>cs. cs \<noteq> [] \<and> list_all valid_response_choice cs)
               (opt_field ''choices'' m as_array)
          \<and> is_none_or valid_usage (map_of m ''usage''))"

text \<open>\<open>parse\<close> reads bytes here (\<open>serde_json::from_slice\<close>) and text in the stream case.\<close>

definition validate_chat_response :: "(bytes \<Rightarrow> json option) \<Rightarrow> bytes \<Rightarrow> bool \<Rightarrow> bool" where
  "validate_chat_response parse body stream =
     (if stream
      then (case feed parse body new_sse of None \<Rightarrow> False | Some v \<Rightarrow> sse_finish v)
      else is_some_and valid_chat_object (parse body))"

end
