(* ===== verification/Requests.thy ===== *)
theory Requests
  imports Provider
begin

text \<open>
  What the gateway accepts from a client (\<open>proxy.rs\<close>): the fields of each modality, the
  chat request, multipart transcriptions, the body limits and the models of each route; and
  the pieces of one request the mock provider reads.
\<close>

section \<open>Routes and limits\<close>

definition profile_supports_path :: "str \<Rightarrow> str \<Rightarrow> bool" where
  "profile_supports_path path model =
     (if path = ''/v1/chat/completions''
      then model \<in> set [''z-ai/glm-5.2'', ''microsoft/phi-4-multimodal-instruct'', ''nvidia/vila'']
      else if path = ''/v1/embeddings'' then model = ''nvidia/nvclip''
      else if path = ''/v1/images/generations'' then model = ''black-forest-labs/flux.1-kontext-dev''
      else if path = ''/v1/videos/generations'' then model = ''stabilityai/stable-video-diffusion''
      else if path = ''/v1/audio/speech'' then model = ''nvidia/magpie-tts-multilingual''
      else if path = ''/v1/audio/transcriptions'' then model = ''nvidia/parakeet-ctc-1.1b''
      else if path = ''/v1/nvidia/inference'' then model = ''nvidia/vila''
      else False)"

definition modality_body_limit :: "str \<Rightarrow> nat" where
  "modality_body_limit path =
     (if path = ''/v1/images/generations'' then 256 * 1024
      else if path = ''/v1/audio/speech'' then 64 * 1024
      else if path = ''/v1/nvidia/inference'' then 1024 * 1024
      else if path \<in> set [''/v1/embeddings'', ''/v1/audio/transcriptions''] then 32 * 1024 * 1024
      else if path = ''/v1/videos/generations'' then 32 * 1024 * 1024
      else 64 * 1024 * 1024)"

text \<open>One payload item per step: \<open>Inr\<close> a chunk, \<open>Inl\<close> a transport error.\<close>

fun read_request_body_from ::
    "(unit + bytes) list \<Rightarrow> nat \<Rightarrow> bytes \<Rightarrow> http_response + bytes" where
  "read_request_body_from [] limit body = Ok body"
| "read_request_body_from (Inl _ # items) limit body =
     Err (invalid_request ''request body could not be read'')"
| "read_request_body_from (Inr chunk # items) limit body =
     (if limit < sat_add_u64 (length body) (length chunk)
      then Err (openai_error 413 ''request body exceeds the endpoint limit''
                  ''invalid_request_error'' ''request_too_large'')
      else read_request_body_from items limit (body @ chunk))"

definition read_request_body :: "(unit + bytes) list \<Rightarrow> nat \<Rightarrow> http_response + bytes" where
  "read_request_body items limit = read_request_body_from items limit []"

definition model_not_found :: http_response where
  "model_not_found =
     openai_error 404 ''model is not advertised'' ''invalid_request_error'' ''model_not_found''"

definition model_route_mismatch :: http_response where
  "model_route_mismatch =
     openai_error 422 ''model is not compatible with this endpoint'' ''invalid_request_error''
       ''model_route_mismatch''"

section \<open>Chat requests\<close>

definition valid_content_item :: "str list \<Rightarrow> json \<Rightarrow> bool" where
  "valid_content_item allowed_types item =
     (case as_object item of
        None \<Rightarrow> False
      | Some m \<Rightarrow>
          (case opt_field ''type'' m as_str of
             None \<Rightarrow> False
           | Some kind \<Rightarrow>
               if kind \<notin> set allowed_types then False
               else if kind = ''text'' then
                 is_some_and (\<lambda>s. s \<noteq> []) (opt_field ''text'' m as_str)
                 \<and> keys_within [''type'', ''text''] m
               else if kind \<in> set [''image_url'', ''audio_url'', ''video_url''] then
                 keys_within [''type'', ''image_url'', ''audio_url'', ''video_url''] m
                 \<and> is_some_and (\<lambda>v. is_string v \<or> is_object v) (map_of m kind)
               else False))"

definition validate_chat_content :: "json \<Rightarrow> str list \<Rightarrow> bool" where
  "validate_chat_content content allowed_types =
     (case as_str content of
        Some t \<Rightarrow> t \<noteq> []
      | None \<Rightarrow>
          (case as_array content of
             None \<Rightarrow> False
           | Some items \<Rightarrow> items \<noteq> [] \<and> list_all (valid_content_item allowed_types) items))"

definition GLM_ALLOWED :: "str list" where
  "GLM_ALLOWED =
     [''model'', ''messages'', ''stream'', ''temperature'', ''top_p'', ''max_tokens'',
      ''max_completion_tokens'', ''stop'', ''tools'', ''tool_choice'', ''response_format'',
      ''user'', ''n'', ''seed'', ''frequency_penalty'', ''presence_penalty'', ''metadata'',
      ''chat_template_kwargs'']"

definition chat_fields :: "str \<Rightarrow> str list" where
  "chat_fields model =
     (if model = ''z-ai/glm-5.2'' then GLM_ALLOWED
      else [''model'', ''messages'', ''stream'', ''temperature'', ''top_p'', ''max_tokens'', ''seed''])"

definition chat_content_types :: "str \<Rightarrow> str list" where
  "chat_content_types model =
     (if model = ''microsoft/phi-4-multimodal-instruct'' then [''text'', ''image_url'', ''audio_url'']
      else if model = ''nvidia/vila'' then [''text'', ''image_url'', ''video_url'']
      else [''text''])"

text \<open>The first unknown field, in the order of the object.\<close>

definition unknown_field :: "str list \<Rightarrow> (str \<times> json) list \<Rightarrow> str option" where
  "unknown_field allowed m = List.find (\<lambda>k. k \<notin> set allowed) (map fst m)"

definition check_chat_message :: "str list \<Rightarrow> json \<Rightarrow> http_response option" where
  "check_chat_message types message =
     (case as_object message of
        None \<Rightarrow> Some (invalid_request ''messages must contain valid role/content entries'')
      | Some m \<Rightarrow>
          (let role = opt_field ''role'' m as_str
           in if \<not> is_some_and (\<lambda>r. r \<in> set [''system'', ''user'', ''assistant'', ''tool'']) role
              then Some (invalid_request ''message role is not supported'')
              else case map_of m ''content'' of
                None \<Rightarrow> Some (invalid_request ''message content is required'')
              | Some content \<Rightarrow>
                  if is_null content \<and> role = Some ''assistant''
                     \<and> (is_some_and is_array (map_of m ''tool_calls'')
                        \<or> is_some_and is_object (map_of m ''function_call''))
                  then None
                  else if \<not> validate_chat_content content types
                  then Some (invalid_request ''message content does not match the selected model'')
                  else None))"

text \<open>The loop over the messages stops at the first refusal.\<close>

definition first_error :: "('a \<Rightarrow> 'e option) \<Rightarrow> 'a list \<Rightarrow> 'e option" where
  "first_error = find_map"

definition required_model :: "(str \<times> json) list \<Rightarrow> str option" where
  "required_model m =
     (case opt_field ''model'' m as_str of
        Some s \<Rightarrow> if trim s = [] then None else Some s | None \<Rightarrow> None)"

definition validate_chat_request :: "json \<Rightarrow> http_response + unit" where
  "validate_chat_request request =
     (case as_object request of
        None \<Rightarrow> Err (invalid_request ''request body must be a JSON object'')
      | Some m \<Rightarrow>
        (case required_model m of
           None \<Rightarrow> Err (invalid_request ''model is required'')
         | Some model \<Rightarrow>
             if model \<notin> set PROFILES then Err model_not_found
             else if \<not> profile_supports_path ''/v1/chat/completions'' model
             then Err model_route_mismatch
             else (case unknown_field (chat_fields model) m of
               Some f \<Rightarrow> Err (invalid_request (''unsupported field: '' @ f))
             | None \<Rightarrow>
               (case opt_field ''messages'' m as_array of
                  None \<Rightarrow> Err (invalid_request ''messages must be an array'')
                | Some messages \<Rightarrow>
                    if messages = []
                    then Err (invalid_request ''messages must contain valid role/content entries'')
                    else (case first_error (check_chat_message (chat_content_types model)) messages of
                            Some r \<Rightarrow> Err r
                          | None \<Rightarrow> Ok ())))))"

section \<open>The fields of each modality\<close>

definition modality_fields :: "str \<Rightarrow> str list \<times> str list" where
  "modality_fields path =
     (if path = ''/v1/embeddings'' then
        ([''input''], [''model'', ''input'', ''encoding_format'', ''dimensions'', ''user''])
      else if path = ''/v1/images/generations'' then
        ([''prompt''], [''model'', ''prompt'', ''image'', ''n'', ''size'', ''response_format'',
                        ''steps'', ''cfg_scale'', ''seed'', ''user''])
      else if path = ''/v1/audio/speech'' then
        ([''input''], [''model'', ''input'', ''voice'', ''response_format'', ''speed''])
      else if path = ''/v1/videos/generations'' then
        ([''input_reference''], [''model'', ''input_reference'', ''seed'', ''cfg_scale'',
                                 ''motion_bucket_id''])
      else if path = ''/v1/nvidia/inference'' then
        ([''messages''], [''model'', ''messages'', ''temperature'', ''top_p'', ''max_tokens'', ''seed''])
      else ([], [''model'']))"

definition check :: "bool \<Rightarrow> str \<Rightarrow> http_response + unit" where
  "check ok message = (if ok then Ok () else Err (invalid_request message))"

definition valid_embedding_input :: "json \<Rightarrow> bool" where
  "valid_embedding_input v \<longleftrightarrow>
     is_some_and (\<lambda>s. s \<noteq> []) (as_str v)
     \<or> is_some_and (\<lambda>items. items \<noteq> [] \<and> length items \<le> 64
          \<and> list_all (\<lambda>i. is_some_and (\<lambda>s. s \<noteq> []) (as_str i)) items) (as_array v)"

text \<open>\<open>object["input"]\<close> on a field the caller has just found present.\<close>

definition present_field :: "str \<Rightarrow> (str \<times> json) list \<Rightarrow> json" where
  "present_field key m = unwrap_or JNull (map_of m key)"

text \<open>A data URL check whose answer is used as a truth value; it never panics.\<close>

definition accepts_data_url :: "(bytes \<Rightarrow> str) \<Rightarrow> (str \<Rightarrow> bytes option) \<Rightarrow> str \<Rightarrow> bool" where
  "accepts_data_url b64e b64d v = (valid_data_url b64e b64d v True = Some True)"

definition check_image_fields ::
    "(bytes \<Rightarrow> str) \<Rightarrow> (str \<Rightarrow> bytes option) \<Rightarrow> (str \<times> json) list \<Rightarrow> http_response + unit" where
  "check_image_fields b64e b64d m =
     bind_ok (check (is_string (present_field ''prompt'' m)) ''prompt must be a string'')
     (\<lambda>_. bind_ok (check (is_none_or (\<lambda>v. is_some_and (\<lambda>s. s \<in> set [''1024x1024'', ''1792x1024'',
             ''1536x864'', ''1024x1792'', ''864x1536'']) (as_str v)) (map_of m ''size''))
           ''size must be one of 1024x1024, 1792x1024, 1536x864, 1024x1792, 864x1536'')
     (\<lambda>_. bind_ok (check (unwrap_or 1 (opt_field ''n'' m as_u64) = 1) ''n must be 1'')
     (\<lambda>_. bind_ok (check (is_none_or (\<lambda>v. as_str v = Some ''b64_json'') (map_of m ''response_format''))
           ''response_format must be b64_json'')
     (\<lambda>_. bind_ok (check (is_none_or (\<lambda>v. is_some_and (accepts_data_url b64e b64d) (as_str v))
             (map_of m ''image''))
           ''image must be a valid PNG or JPEG data URL'')
     (\<lambda>_. bind_ok (check (is_none_or (\<lambda>v. is_some_and (\<lambda>n. 1 \<le> n \<and> n \<le> 50) (as_u64 v))
             (map_of m ''steps''))
           ''steps must be an integer from 1 to 50'')
     (\<lambda>_. bind_ok (check (is_none_or (\<lambda>v. is_some_and (\<lambda>r. 0 \<le> r \<and> r \<le> 20) (as_f64 v))
             (map_of m ''cfg_scale''))
           ''cfg_scale must be from 0 to 20'')
     (\<lambda>_. check (is_none_or (\<lambda>v. as_u64 v \<noteq> None) (map_of m ''seed''))
           ''seed must be a non-negative integer'')))))))"

definition validate_video_options :: "(str \<times> json) list \<Rightarrow> http_response + unit" where
  "validate_video_options m =
     bind_ok (check (is_none_or (\<lambda>v. is_some_and (\<lambda>i. 0 \<le> i \<and> i \<le> 4294967295) (as_i64 v))
             (map_of m ''seed''))
           ''seed must be an integer between 0 and 4294967295'')
     (\<lambda>_. bind_ok (check (is_none_or (\<lambda>v. is_some_and (\<lambda>r. 1 \<le> r \<and> r \<le> 9 \<and> r \<noteq> 1) (as_f64 v))
             (map_of m ''cfg_scale''))
           ''cfg_scale must be greater than 1 and at most 9'')
     (\<lambda>_. check (is_none_or (\<lambda>v. as_i64 v = Some 127) (map_of m ''motion_bucket_id''))
           ''motion_bucket_id must equal 127''))"

definition check_speech_fields :: "(str \<times> json) list \<Rightarrow> http_response + unit" where
  "check_speech_fields m =
     bind_ok (check (is_string (present_field ''input'' m)) ''input must be a string'')
     (\<lambda>_. bind_ok (check (is_none_or (\<lambda>v. as_str v = Some ''wav'') (map_of m ''response_format''))
           ''response_format must be wav'')
     (\<lambda>_. bind_ok (check (is_none_or (\<lambda>v. as_f64 v = Some 1) (map_of m ''speed''))
           ''speed must be 1.0'')
     (\<lambda>_. check (is_none_or (\<lambda>v. is_some_and (\<lambda>s. trim s \<noteq> [] \<and> \<not> list_ex is_control (chars s))
             (as_str v)) (map_of m ''voice''))
           ''voice must be a non-empty safe string'')))"

definition validate_modality_fields ::
    "(bytes \<Rightarrow> str) \<Rightarrow> (str \<Rightarrow> bytes option) \<Rightarrow> str \<Rightarrow> (str \<times> json) list \<Rightarrow> http_response + unit" where
  "validate_modality_fields b64e b64d path m =
     (case modality_fields path of
        (required, allowed) \<Rightarrow>
          (case List.find (\<lambda>f. map_of m f = None) required of
             Some f \<Rightarrow> Err (invalid_request (f @ '' is required''))
           | None \<Rightarrow>
             (case unknown_field allowed m of
                Some f \<Rightarrow> Err (invalid_request (''unsupported field: '' @ f))
              | None \<Rightarrow>
                  if path = ''/v1/embeddings'' then
                    check (valid_embedding_input (present_field ''input'' m))
                      ''input must be a non-empty string or an array of at most 64 strings''
                  else if path = ''/v1/images/generations'' then check_image_fields b64e b64d m
                  else if path = ''/v1/videos/generations'' then
                    bind_ok (check (is_some_and (accepts_data_url b64e b64d)
                               (opt_field ''input_reference'' m as_str))
                             ''input_reference must be a valid PNG or JPEG data URL'')
                      (\<lambda>_. validate_video_options m)
                  else if path = ''/v1/audio/speech'' then check_speech_fields m
                  else if path = ''/v1/nvidia/inference'' then validate_chat_request (JObject m)
                  else Ok ())))"

section \<open>Multimodal requests\<close>

text \<open>\<open>str::split\<close> on a non-empty pattern, and \<open>String::from_utf8_lossy\<close>.\<close>

function split_str :: "str \<Rightarrow> str \<Rightarrow> str list" where
  "split_str p s =
     (case find_sub p s of
        None \<Rightarrow> [s]
      | Some i \<Rightarrow> if p = [] then [s] else take i s # split_str p (drop (i + length p) s))"
  by pat_completeness auto
termination
  by (relation "measure (\<lambda>(p, s). length s)") (auto dest!: find_sub_Some simp flip: length_greater_0_conv)

text \<open>The length of the maximal ill-formed subpart replaced by one U+FFFD.\<close>

definition bad_utf8_length :: "bytes \<Rightarrow> nat" where
  "bad_utf8_length s =
     (case s of
        a # b # c # _ \<Rightarrow>
          if 224 \<le> code a \<and> code a \<le> 239 \<and> utf8_second3 a b then 2
          else if 240 \<le> code a \<and> code a \<le> 244 \<and> utf8_second4 a b
          then (if is_cont c then 3 else 2) else 1
      | [a, b] \<Rightarrow>
          if 224 \<le> code a \<and> code a \<le> 239 \<and> utf8_second3 a b
             \<or> 240 \<le> code a \<and> code a \<le> 244 \<and> utf8_second4 a b then 2 else 1
      | _ \<Rightarrow> 1)"

function utf8_lossy :: "bytes \<Rightarrow> str" where
  "utf8_lossy s =
     (if s = [] then []
      else (case utf8_next s of
              Some (_, g, r) \<Rightarrow> g @ utf8_lossy r
            | None \<Rightarrow> [CHR 0xEF, CHR 0xBF, CHR 0xBD] @ utf8_lossy (drop (bad_utf8_length s) s)))"
  by pat_completeness auto
termination
proof (relation "measure length")
  fix s :: bytes
  assume "s \<noteq> []"
  moreover have "0 < bad_utf8_length s" by (auto simp: bad_utf8_length_def split: list.split)
  ultimately show "(drop (bad_utf8_length s) s, s) \<in> measure length" by simp
qed (auto dest!: utf8_next_split)

definition trim_matches_char :: "byte \<Rightarrow> str \<Rightarrow> str" where
  "trim_matches_char c s = trim_end_char c (dropWhile (\<lambda>x. x = c) s)"

definition nth_piece :: "nat \<Rightarrow> str list \<Rightarrow> str option" where
  "nth_piece i ps = (if i < length ps then Some (ps ! i) else None)"

definition multipart_boundary :: "str \<Rightarrow> str option" where
  "multipart_boundary content_type =
     (case find_map (strip_prefix ''boundary='') (map trim (split_on (CHR '';'') content_type)) of
        None \<Rightarrow> None
      | Some v \<Rightarrow> (let b = trim_matches_char (CHR 0x22) v in if b = [] then None else Some b))"

text \<open>\<open>windows(n).any(eq_ignore_ascii_case)\<close>.\<close>

definition has_sub_ignore_case :: "bytes \<Rightarrow> bytes \<Rightarrow> bool" where
  "has_sub_ignore_case p s = has_sub (to_ascii_lowercase p) (to_ascii_lowercase s)"

definition MODEL_FIELD :: str where "MODEL_FIELD = ''name='' @ [CHR 0x22] @ ''model'' @ [CHR 0x22]"
definition FILE_FIELD :: str where "FILE_FIELD = ''name='' @ [CHR 0x22] @ ''file'' @ [CHR 0x22]"

definition multipart_model :: "bytes \<Rightarrow> str option" where
  "multipart_model body =
     (case Option.bind (nth_piece 1 (split_str MODEL_FIELD (utf8_lossy body)))
             (\<lambda>part. Option.bind (nth_piece 1 (split_str [CR, LF, CR, LF] part))
               (\<lambda>v. nth_piece 0 (split_str ([CR, LF] @ ''--'') v))) of
        None \<Rightarrow> None
      | Some v \<Rightarrow> if trim v = [] then None else Some (trim v))"

definition check_model_route :: "str \<Rightarrow> str \<Rightarrow> http_response option" where
  "check_model_route path model =
     (if model \<notin> set PROFILES then Some model_not_found
      else if \<not> profile_supports_path path model then Some model_route_mismatch else None)"

definition parse_multipart :: "str \<Rightarrow> bytes \<Rightarrow> str \<Rightarrow> http_response + json" where
  "parse_multipart path body content_type =
     (case multipart_boundary content_type of
        None \<Rightarrow> Err (invalid_request ''multipart boundary is required'')
      | Some boundary \<Rightarrow>
          if \<not> has_sub (''--'' @ boundary) body \<or> \<not> has_sub MODEL_FIELD body
             \<or> \<not> has_sub FILE_FIELD body
          then Err (invalid_request ''multipart transcription requires model and file fields'')
          else if 64 * 1024 * 1024 < length body
          then Err (invalid_request ''multipart body exceeds 64 MiB'')
          else if \<not> has_sub_ignore_case ''Content-Type: audio/'' body
          then Err (invalid_request ''multipart transcription file must declare an audio MIME type'')
          else (case multipart_model body of
                  None \<Rightarrow> Err (invalid_request ''multipart model field is empty'')
                | Some model \<Rightarrow>
                    (case check_model_route path model of
                       Some r \<Rightarrow> Err r
                     | None \<Rightarrow> Ok (JObject [(''__nblb_multipart'', JBool True),
                                             (''model'', JString model)]))))"

definition required_body_field :: "str \<Rightarrow> str option" where
  "required_body_field path =
     map_of [(''/v1/images/generations'', ''prompt''), (''/v1/videos/generations'', ''input_reference''),
             (''/v1/embeddings'', ''input''), (''/v1/audio/speech'', ''input'')] path"

definition parse_multimodal_request ::
    "(bytes \<Rightarrow> str) \<Rightarrow> (str \<Rightarrow> bytes option) \<Rightarrow> (bytes \<Rightarrow> json option) \<Rightarrow>
     str \<Rightarrow> bytes \<Rightarrow> str \<Rightarrow> http_response + json" where
  "parse_multimodal_request b64e b64d parse path body content_type =
     (if path = ''/v1/audio/transcriptions'' \<and> starts_with ''multipart/form-data'' content_type
      then parse_multipart path body content_type
      else if \<not> starts_with ''application/json'' content_type
      then Err (invalid_request ''JSON content-type is required for this modality'')
      else
        (case parse body of
           None \<Rightarrow> Err (invalid_request ''request body must be valid JSON'')
         | Some request \<Rightarrow>
           (case as_object request of
              None \<Rightarrow> Err (invalid_request ''request body must be a JSON object'')
            | Some m \<Rightarrow>
              (case required_model m of
                 None \<Rightarrow> Err (invalid_request ''model is required'')
               | Some model \<Rightarrow>
                 (case check_model_route path model of
                    Some r \<Rightarrow> Err r
                  | None \<Rightarrow>
                      bind_ok (validate_modality_fields b64e b64d path m)
                        (\<lambda>_. case required_body_field path of
                            Some f \<Rightarrow>
                              if map_of m f = None then Err (invalid_request (f @ '' is required''))
                              else Ok request
                          | None \<Rightarrow> Ok request))))))"

section \<open>What the mock provider reads\<close>

definition mock_metadata :: "str \<Rightarrow> json \<Rightarrow> json option" where
  "mock_metadata key request =
     Option.bind (Option.bind (get_field ''metadata'' request) as_object) (\<lambda>m. map_of m key)"

definition mock_status :: "json \<Rightarrow> nat option" where
  "mock_status request =
     (case Option.bind (mock_metadata ''mock_status'' request) as_u64 of
        None \<Rightarrow> None
      | Some n \<Rightarrow> if n \<le> 65535 \<and> n \<in> set [400, 401, 403, 429, 500] then Some n else None)"

definition mock_response_kind :: "json \<Rightarrow> str option" where
  "mock_response_kind request = Option.bind (mock_metadata ''mock_response'' request) as_str"

definition mock_stream_scenario :: "json \<Rightarrow> str option" where
  "mock_stream_scenario request = Option.bind (mock_metadata ''mock_stream_scenario'' request) as_str"

definition has_audio_part :: "json \<Rightarrow> bool" where
  "has_audio_part message =
     is_some_and (list_ex (\<lambda>part. get_str ''type'' part = Some ''audio_url''))
       (get_array ''content'' message)"

definition mock_chat_content :: "json \<Rightarrow> str" where
  "mock_chat_content request =
     (if list_ex has_audio_part (unwrap_or [] (get_array ''messages'' request))
      then ''hello'' else ''NVIDIA Build LB'')"

end
