(* ===== verification/Requests_Props.thy ===== *)
theory Requests_Props
  imports Requests
begin

text \<open>
  What request validation promises: an accepted request can always be turned into the
  provider's body, bodies never exceed the route's limit, the three spellings of a provider
  base URL mean the same endpoint, and which chat requests are accepted.
\<close>

section \<open>From validation to preparation\<close>

lemma check_Ok_iff [simp]: "check ok m = Ok u \<longleftrightarrow> ok"
  by (simp add: check_def)

lemma opt_field_simps: "opt_field k m acc = (case map_of m k of None \<Rightarrow> None | Some v \<Rightarrow> acc v)"
  by (simp add: opt_field_def split: option.split)

lemma valid_data_url_shape:
  assumes "accepts_data_url b64e b64d v"
  shows "starts_with ''data:image/png;base64,'' v \<or> starts_with ''data:image/jpeg;base64,'' v"
proof -
  obtain pre enc where s: "split_once (CHR '','') v = Some (pre, enc)"
    and p: "pre = ''data:image/png;base64'' \<or> pre = ''data:image/jpeg;base64''"
    using assms
    by (auto simp: accepts_data_url_def valid_data_url_def split: option.splits if_splits)
  have "v = pre @ CHR '','' # enc" using s by (simp add: split_once_Some_iff)
  then show ?thesis using p by (auto simp: starts_with_iff)
qed

lemma prepare_image_after_check:
  assumes "check_image_fields b64e b64d m = Ok ()"
  shows "is_ok (prepare_image_request m)"
proof -
  have prompt: "\<exists>p. opt_field ''prompt'' m as_str = Some p"
    using assms by (auto simp: check_image_fields_def bind_ok_Ok_iff present_field_def is_string_def
        as_str_def opt_field_simps unwrap_or_def split: option.splits json.splits)
  have size: "unwrap_or ''1024x1024'' (opt_field ''size'' m as_str) \<in>
      {''1024x1024'', ''1792x1024'', ''1536x864'', ''1024x1792'', ''864x1536''}"
    using assms by (auto simp: check_image_fields_def bind_ok_Ok_iff opt_field_simps is_some_and_iff
        split: option.splits)
  have n: "unwrap_or 1 (opt_field ''n'' m as_u64) = 1"
    using assms by (simp add: check_image_fields_def bind_ok_Ok_iff)
  show ?thesis
    using prompt n size by (auto simp: prepare_image_request_def Let_def)
qed

text \<open>
  C21. Validation is complete for preparation: every JSON request \<open>parse_multimodal_request\<close>
  accepts is turned into a provider body without a further refusal, on every route; no request
  is admitted, counted and authorized only to fail when its body is built.
\<close>

theorem accepted_request_prepares:
  assumes "parse_multimodal_request b64e b64d parse path body content_type = Ok request"
  shows "is_ok (prepare_modality_request path request)"
proof (cases "path = ''/v1/audio/transcriptions'' \<and> starts_with ''multipart/form-data'' content_type")
  case True
  then show ?thesis
    using assms
    by (auto simp: parse_multimodal_request_def parse_multipart_def prepare_modality_request_def
        as_object_def split: option.splits if_splits)
next
  case False
  then obtain m where m: "as_object request = Some m"
    and v: "validate_modality_fields b64e b64d path m = Ok ()"
    using assms
    by (auto simp: parse_multimodal_request_def bind_ok_Ok_iff split: option.splits if_splits)
  consider (image) "path = ''/v1/images/generations''" | (video) "path = ''/v1/videos/generations''"
    | (other) "path \<noteq> ''/v1/images/generations''" "path \<noteq> ''/v1/videos/generations''" by blast
  then show ?thesis
  proof cases
    case image
    then have "check_image_fields b64e b64d m = Ok ()"
      using v by (auto simp: validate_modality_fields_def split: option.splits prod.splits)
    then show ?thesis
      using image m prepare_image_after_check by (simp add: prepare_modality_request_def)
  next
    case video
    then have "is_some_and (accepts_data_url b64e b64d) (opt_field ''input_reference'' m as_str)"
      using v by (auto simp: validate_modality_fields_def bind_ok_Ok_iff split: option.splits prod.splits)
    then obtain s where "opt_field ''input_reference'' m as_str = Some s" "accepts_data_url b64e b64d s"
      by (auto simp: is_some_and_iff)
    then show ?thesis
      using video m valid_data_url_shape [of b64e b64d s]
      by (simp add: prepare_modality_request_def prepare_video_request_def)
  qed (simp add: prepare_modality_request_def m)
qed

definition demo_image_request :: json where
  "demo_image_request = JObject [(''model'', JString ''black-forest-labs/flux.1-kontext-dev''),
     (''prompt'', JString ''a tree''), (''size'', JString ''1536x864'')]"

lemma demo_image_parsed:
  "parse_multimodal_request (\<lambda>b. b) Some (\<lambda>b. Some demo_image_request)
     ''/v1/images/generations'' [] ''application/json'' = Ok demo_image_request"
proof -
  have "trim ''black-forest-labs/flux.1-kontext-dev'' \<noteq> []"
    by (simp add: trim_def trim_segments_def is_whitespace_def code_def)
  then show ?thesis
    by (simp add: parse_multimodal_request_def starts_with_def demo_image_request_def as_object_def
        required_model_def opt_field_def as_str_def check_model_route_def PROFILES_def
        profile_supports_path_def validate_modality_fields_def modality_fields_def unknown_field_def
        check_image_fields_def check_def present_field_def is_string_def required_body_field_def)
qed

theorem accepted_request_prepares_witness:
  "is_ok (prepare_modality_request ''/v1/images/generations'' demo_image_request)"
  by (rule accepted_request_prepares [OF demo_image_parsed])

text \<open>
  The count of images is not enforced for every JSON value: \<open>n\<close> is read as an unsigned
  integer with default 1, so a request that asks for \<open>"4"\<close>, \<open>4.0\<close> or \<open>-4\<close> images passes the
  checks that are meant to refuse anything but one, while the integer 4 is refused.
\<close>

theorem image_count_bypass:
  "check_image_fields b64e b64d [(''n'', v), (''prompt'', JString p)] = Ok () \<longleftrightarrow>
     as_u64 v = None \<or> as_u64 v = Some 1"
  by (cases "as_u64 v")
    (auto simp: check_image_fields_def bind_ok_Ok_iff opt_field_def present_field_def is_string_def)

section \<open>Bodies\<close>

definition payload_bytes :: "(unit + bytes) list \<Rightarrow> bytes" where
  "payload_bytes items = concat (map (\<lambda>i. case i of Inl _ \<Rightarrow> [] | Inr b \<Rightarrow> b) items)"

lemma payload_bytes_simps [simp]:
  "payload_bytes [] = []" "payload_bytes (Inl e # items) = payload_bytes items"
  "payload_bytes (Inr b # items) = b @ payload_bytes items"
  by (simp_all add: payload_bytes_def)

lemma read_body_from:
  "limit < u64_max \<Longrightarrow> length body \<le> limit \<Longrightarrow>
   read_request_body_from items limit body = Ok b \<longleftrightarrow>
     list_all is_ok items \<and> b = body @ payload_bytes items \<and> length b \<le> limit"
proof (induction items limit body rule: read_request_body_from.induct)
  case (3 chunk items limit body)
  show ?case
  proof (cases "limit < sat_add_u64 (length body) (length chunk)")
    case True
    then show ?thesis by (auto simp: sat_add_u64_def)
  next
    case False
    then have "length (body @ chunk) \<le> limit"
      using "3.prems" by (simp add: sat_add_u64_def split: if_splits)
    then show ?thesis
      using "3.IH" [OF False "3.prems"(1)] False by simp
  qed
qed auto

text \<open>
  Body reading is exact and bounded: with the 64 MiB both handlers pass, whatever the chunks,
  the body handed on is the whole payload and within the limit, and a payload within the limit
  that arrives without transport error is never refused.
\<close>

theorem request_body_bounded:
  "read_request_body items (64 * 1024 * 1024) = Ok body \<longleftrightarrow>
     list_all is_ok items \<and> body = payload_bytes items \<and> length body \<le> 64 * 1024 * 1024"
  by (simp add: read_request_body_def read_body_from u64_max_def)

section \<open>Endpoints\<close>

lemma trim_end_char_clean: "s = [] \<or> last s \<noteq> c \<Longrightarrow> trim_end_char c s = s"
  by (cases s rule: rev_cases) (auto simp: trim_end_char_def)

lemma trim_end_char_snoc: "trim_end_char c (s @ [c]) = trim_end_char c s"
  by (simp add: trim_end_char_def)

text \<open>
  Configuration spellings agree: for a base URL that is not itself versioned, configuring
  the base, the base with \<open>/v1\<close>, the full chat completions URL, or any of them with trailing
  slashes sends every versioned route to the same provider URL, base and path once each.
\<close>

theorem endpoint_spellings_agree:
  assumes "path = ''/v1'' @ rest" "base \<noteq> []" "last base \<noteq> CHR ''/''"
    "\<not> ends_with ''/v1'' base" "\<not> ends_with ''/chat/completions'' base"
  shows "upstream_endpoint base path = base @ path \<and>
    upstream_endpoint (base @ ''/v1'') path = base @ path \<and>
    upstream_endpoint (base @ ''/v1/chat/completions'') path = base @ path \<and>
    upstream_endpoint (base @ ''/v1/'') path = base @ path"
proof -
  have t: "trim_end_char (CHR ''/'') base = base"
    "trim_end_char (CHR ''/'') (base @ ''/v1'') = base @ ''/v1''"
    "trim_end_char (CHR ''/'') (base @ ''/v1/chat/completions'') = base @ ''/v1/chat/completions''"
    by (rule trim_end_char_clean, simp add: assms)+
  have v: "trim_end_char (CHR ''/'') (base @ ''/v1/'') = base @ ''/v1''"
    using trim_end_char_snoc [of "CHR ''/''" "base @ ''/v1''"] t(2) by simp
  have p: "strip_prefix ''/v1'' path = Some rest" by (simp add: strip_prefix_Some_iff assms(1))
  have s1: "strip_suffix ''/chat/completions'' base = None" using assms(5) by (simp add: strip_suffix_def)
  have s2: "strip_suffix ''/chat/completions'' (base @ ''/v1'') = None"
  proof -
    have "last ''/chat/completions'' \<noteq> last (base @ ''/v1'')" by simp
    then have "\<not> ends_with ''/chat/completions'' (base @ ''/v1'')"
      unfolding ends_with_iff by (metis last_appendR list.distinct(1))
    then show ?thesis by (simp add: strip_suffix_def)
  qed
  have s3: "strip_suffix ''/chat/completions'' (base @ ''/v1/chat/completions'') = Some (base @ ''/v1'')"
    by (simp add: strip_suffix_Some_iff)
  have e: "ends_with ''/v1'' (base @ ''/v1'')" by (auto simp: ends_with_iff)
  show ?thesis
    using assms(4) by (simp add: upstream_endpoint_def t v p s1 s2 s3 e Let_def) (simp add: assms(1))
qed

theorem endpoint_spellings_agree_witness:
  "upstream_endpoint ''https://integrate.api.nvidia.com/v1/'' ''/v1/embeddings'' =
     upstream_endpoint ''https://integrate.api.nvidia.com'' ''/v1/embeddings''"
  using endpoint_spellings_agree [of "''/v1/embeddings''" "''/embeddings''" "''https://integrate.api.nvidia.com''"]
  by (simp add: ends_with_def)

end
