(* ===== verification/Responses.thy ===== *)
theory Responses
  imports Requests
begin

text \<open>
  What a modality answer of the provider must look like and the shape the client gets
  (\<open>validate_modality_response\<close>, \<open>normalize_modality_response\<close> of \<open>streaming.rs\<close>), and the
  bounded collection of a response body (\<open>proxy.rs\<close>). \<open>parse\<close> is \<open>serde_json::from_slice\<close>,
  \<open>show_json\<close> is \<open>serde_json::to_vec\<close>; a check that would panic does not pass (none does:
  \<open>media_checks_never_panic\<close>).
\<close>

section \<open>Bodies\<close>

definition CHAT_RESPONSE_LIMIT :: nat where "CHAT_RESPONSE_LIMIT = 16 * 1024 * 1024"

definition response_body_limit :: "str \<Rightarrow> nat" where
  "response_body_limit path =
     (if path = ''/v1/videos/generations'' then 128 * 1024 * 1024
      else if path \<in> set [''/v1/images/generations'', ''/v1/audio/speech''] then 32 * 1024 * 1024
      else if path \<in> set [''/v1/embeddings'', ''/v1/audio/transcriptions'', ''/v1/nvidia/inference'']
      then 16 * 1024 * 1024
      else CHAT_RESPONSE_LIMIT)"

datatype response_body_error = TooLarge | Transport

text \<open>The chunks of a body in order: \<open>Inr\<close> bytes, \<open>Inl\<close> a transport error.\<close>

fun collect_body :: "(unit + bytes) list \<Rightarrow> nat \<Rightarrow> bytes \<Rightarrow> response_body_error + bytes" where
  "collect_body [] limit body = Ok body"
| "collect_body (Inl _ # chunks) limit body = Err Transport"
| "collect_body (Inr chunk # chunks) limit body =
     (if limit < sat_add_u64 (length body) (length chunk) then Err TooLarge
      else collect_body chunks limit (body @ chunk))"

definition bounded_response_bytes ::
    "nat option \<Rightarrow> (unit + bytes) list \<Rightarrow> nat \<Rightarrow> response_body_error + bytes" where
  "bounded_response_bytes content_length chunks limit =
     (if is_some_and (\<lambda>n. limit < n) content_length then Err TooLarge
      else collect_body chunks limit [])"

section \<open>Validation\<close>

definition media_type_of :: "str \<Rightarrow> str" where
  "media_type_of content_type = trim (hd (split_on (CHR '';'') content_type))"

definition valid_embedding_item :: "nat \<Rightarrow> json \<Rightarrow> bool" where
  "valid_embedding_item index item \<longleftrightarrow>
     get_str ''object'' item = Some ''embedding'' \<and> get_u64 ''index'' item = Some index \<and>
     is_some_and (\<lambda>vector. length vector = 1024 \<and> list_all (\<lambda>x. as_f64 x \<noteq> None) vector)
       (get_array ''embedding'' item)"

definition valid_embedding_response :: "json \<Rightarrow> bool" where
  "valid_embedding_response v \<longleftrightarrow>
     is_some_and (keys_within [''object'', ''data'', ''model'', ''usage'']) (as_object v) \<and>
     get_str ''object'' v = Some ''list'' \<and> get_str ''model'' v = Some ''nvidia/nvclip'' \<and>
     is_some_and (\<lambda>items. items \<noteq> [] \<and>
         list_all (\<lambda>i. valid_embedding_item i (items ! i)) [0..<length items])
       (get_array ''data'' v) \<and>
     is_some_and (\<lambda>usage. map_of usage ''prompt_tokens'' \<noteq> None \<and>
         map_of usage ''total_tokens'' \<noteq> None \<and>
         keys_within [''prompt_tokens'', ''total_tokens''] usage \<and>
         list_all (\<lambda>(_, x). as_u64 x \<noteq> None) usage)
       (Option.bind (get_field ''usage'' v) as_object)"

definition encoded_media ::
    "(bytes \<Rightarrow> str) \<Rightarrow> (str \<Rightarrow> bytes option) \<Rightarrow> (bytes \<Rightarrow> bool option) \<Rightarrow> str option \<Rightarrow> bool" where
  "encoded_media b64e b64d ok v =
     is_some_and (\<lambda>bs. ok bs = Some True) (Option.bind v (decode_base64 b64e b64d))"

definition valid_data_items ::
    "(bytes \<Rightarrow> str) \<Rightarrow> (str \<Rightarrow> bytes option) \<Rightarrow> (bytes \<Rightarrow> bool option) \<Rightarrow> json \<Rightarrow> bool" where
  "valid_data_items b64e b64d ok v =
     is_some_and (\<lambda>items. items \<noteq> [] \<and>
         list_all (\<lambda>item. encoded_media b64e b64d ok (get_str ''b64_json'' item)) items)
       (get_array ''data'' v)"

definition get_i64 :: "str \<Rightarrow> json \<Rightarrow> int option" where
  "get_i64 key v = Option.bind (get_field key v) as_i64"

definition valid_artifacts ::
    "(bytes \<Rightarrow> str) \<Rightarrow> (str \<Rightarrow> bytes option) \<Rightarrow> json \<Rightarrow> bool" where
  "valid_artifacts b64e b64d v =
     is_some_and (\<lambda>items. items \<noteq> [] \<and>
         list_all (\<lambda>item. get_str ''finishReason'' item = Some ''SUCCESS'' \<and>
             get_i64 ''seed'' item \<noteq> None \<and>
             encoded_media b64e b64d valid_image (get_str ''base64'' item)) items)
       (get_array ''artifacts'' v)"

definition valid_video_result ::
    "(bytes \<Rightarrow> str) \<Rightarrow> (str \<Rightarrow> bytes option) \<Rightarrow> json \<Rightarrow> bool" where
  "valid_video_result b64e b64d v \<longleftrightarrow>
     encoded_media b64e b64d valid_mp4 (get_str ''video'' v) \<and>
     get_str ''finish_reason'' v = Some ''SUCCESS'' \<and> get_i64 ''seed'' v \<noteq> None"

text \<open>\<open>value.get("audio").or_else(|| value.get("data"))\<close>.\<close>

definition speech_field :: "json \<Rightarrow> json option" where
  "speech_field v =
     (case get_field ''audio'' v of Some a \<Rightarrow> Some a | None \<Rightarrow> get_field ''data'' v)"

definition validate_modality_response ::
    "(bytes \<Rightarrow> str) \<Rightarrow> (str \<Rightarrow> bytes option) \<Rightarrow> (bytes \<Rightarrow> json option) \<Rightarrow>
     str \<Rightarrow> bytes \<Rightarrow> str \<Rightarrow> bool" where
  "validate_modality_response b64e b64d parse path body content_type =
     (if path = ''/v1/audio/speech'' \<and> media_type_of content_type \<in> set [''audio/wav'', ''audio/x-wav'']
      then valid_wav body = Some True
      else (case parse body of
         None \<Rightarrow> False
       | Some v \<Rightarrow>
           if path = ''/v1/embeddings'' then valid_embedding_response v
           else if path = ''/v1/images/generations''
           then valid_data_items b64e b64d valid_image v \<or> valid_artifacts b64e b64d v
           else if path = ''/v1/audio/speech''
           then encoded_media b64e b64d valid_wav (Option.bind (speech_field v) as_str)
           else if path = ''/v1/audio/transcriptions''
           then is_some_and (\<lambda>s. trim s \<noteq> []) (get_str ''text'' v)
           else if path = ''/v1/videos/generations''
           then valid_video_result b64e b64d v \<or> valid_data_items b64e b64d valid_mp4 v
           else if path = ''/v1/nvidia/inference'' then validate_chat_response parse body False
           else is_object v))"

section \<open>Normalisation\<close>

definition b64_item :: "json \<Rightarrow> json" where
  "b64_item encoded = JObject [(''b64_json'', encoded)]"

text \<open>One artifact: its \<open>base64\<close> text, which must not be empty.\<close>

definition artifact_item :: "json \<Rightarrow> unit + json" where
  "artifact_item item =
     (case get_str ''base64'' item of
        None \<Rightarrow> Err ()
      | Some encoded \<Rightarrow> if encoded = [] then Err () else Ok (b64_item (JString encoded)))"

definition normalized_images :: "nat \<Rightarrow> json list \<Rightarrow> json" where
  "normalized_images created items =
     JObject [(''created'', JNumber (NatNum created)), (''data'', JArray items)]"

definition normalized_video :: "json \<Rightarrow> str \<Rightarrow> json" where
  "normalized_video v video =
     JObject [(''data'', JArray [b64_item (JString video)]),
              (''model'', unwrap_or JNull (get_field ''model'' v))]"

text \<open>\<open>created\<close> is \<open>Utc::now().timestamp()\<close>, after 1970; \<open>None\<close> is the \<open>Err\<close> of the code.\<close>

definition normalize_modality_response ::
    "(bytes \<Rightarrow> str) \<Rightarrow> (str \<Rightarrow> bytes option) \<Rightarrow> (bytes \<Rightarrow> json option) \<Rightarrow> (json \<Rightarrow> bytes) \<Rightarrow> nat \<Rightarrow>
     str \<Rightarrow> bytes \<Rightarrow> str \<Rightarrow> (bytes \<times> str) option" where
  "normalize_modality_response b64e b64d parse show_json created path body content_type =
     (if \<not> validate_modality_response b64e b64d parse path body content_type then None
      else if path = ''/v1/images/generations'' then
        Option.bind (parse body) (\<lambda>v.
          if get_field ''data'' v \<noteq> None then Some (body, ''application/json'')
          else Option.bind (get_array ''artifacts'' v) (\<lambda>artifacts.
            case collect_results (map artifact_item artifacts) of
              Inl _ \<Rightarrow> None
            | Inr items \<Rightarrow> Some (show_json (normalized_images created items), ''application/json'')))
      else if path = ''/v1/videos/generations'' then
        Option.bind (parse body) (\<lambda>v.
          if get_field ''data'' v \<noteq> None then Some (body, ''application/json'')
          else (case get_str ''video'' v of
                  Some video \<Rightarrow> Some (show_json (normalized_video v video), ''application/json'')
                | None \<Rightarrow> Some (body, content_type)))
      else Some (body, content_type))"

end
