(* ===== verification/Responses_Props.thy ===== *)
theory Responses_Props
  imports Responses Requests_Props
begin

text \<open>
  What the media answers promise: the base64 items of a normalised answer decode to media the
  checks accepted, an accepted answer is never lost in normalisation, and the two cases in
  which an unchecked \<open>data\<close> field travels to the client.
\<close>

section \<open>Normalised media\<close>

lemma artifact_items:
  assumes "valid_artifacts b64e b64d v" "get_array ''artifacts'' v = Some items"
  shows "\<exists>encs. collect_results (map artifact_item items) = Ok (map (\<lambda>e. b64_item (JString e)) encs) \<and>
    encs \<noteq> [] \<and> length encs = length items \<and>
    (\<forall>e \<in> set encs. encoded_media b64e b64d valid_image (Some e))"
proof -
  have ne: "items \<noteq> []"
    and ok: "\<And>i. i \<in> set items \<Longrightarrow> encoded_media b64e b64d valid_image (get_str ''base64'' i)"
    using assms by (auto simp: valid_artifacts_def list_all_iff)
  let ?enc = "\<lambda>i. the (get_str ''base64'' i)"
  have "artifact_item i = Ok (b64_item (JString (?enc i)))" if "i \<in> set items" for i
    using ok [OF that]
    by (auto simp: encoded_media_def is_some_and_iff bind_eq_Some_conv artifact_item_def decode_base64_def)
  then have "collect_results (map artifact_item items) =
      Ok (map (\<lambda>e. b64_item (JString e)) (map ?enc items))"
    by (simp add: collect_results_map_Ok [where g = "\<lambda>i. b64_item (JString (?enc i))"] comp_def)
  moreover have "encoded_media b64e b64d valid_image (Some (?enc i))" if "i \<in> set items" for i
    using ok [OF that] by (auto simp: encoded_media_def is_some_and_iff bind_eq_Some_conv)
  ultimately show ?thesis
    using ne by (intro exI [of _ "map ?enc items"]) auto
qed

text \<open>
  C29. An image answer in the artifact format reaches the client only as checked images: the
  normalised body is a list with one \<open>b64_json\<close> item per artifact and every item decodes,
  canonically, to bytes that pass the JPEG or PNG check. Normalisation never refuses an answer
  the validation accepted.
\<close>

theorem normalized_images_verified:
  assumes "validate_modality_response b64e b64d parse ''/v1/images/generations'' body ct"
    "parse body = Some v" "get_field ''data'' v = None"
  shows "\<exists>encs. encs \<noteq> [] \<and>
    normalize_modality_response b64e b64d parse show_json created ''/v1/images/generations'' body ct =
      Some (show_json (normalized_images created (map (\<lambda>e. b64_item (JString e)) encs)),
            ''application/json'') \<and>
    (\<forall>e \<in> set encs. \<exists>bs. b64d e = Some bs \<and> b64e bs = e \<and>
       (valid_jpeg bs = Some True \<or> valid_png bs = Some True))"
proof -
  have a: "valid_artifacts b64e b64d v"
    using assms by (auto simp: validate_modality_response_def valid_data_items_def get_array_def)
  then obtain items where items: "get_array ''artifacts'' v = Some items"
    by (auto simp: valid_artifacts_def is_some_and_iff)
  obtain encs where e: "collect_results (map artifact_item items) =
        Ok (map (\<lambda>e. b64_item (JString e)) encs)" "encs \<noteq> []"
      "\<forall>e \<in> set encs. encoded_media b64e b64d valid_image (Some e)"
    using artifact_items [OF a items] by blast
  have "\<exists>bs. b64d x = Some bs \<and> b64e bs = x \<and> (valid_jpeg bs = Some True \<or> valid_png bs = Some True)"
    if "x \<in> set encs" for x
    using e(3) that
    by (auto simp: encoded_media_def is_some_and_iff bind_eq_Some_conv decode_base64_def
        valid_image_def split: if_splits)
  then show ?thesis
    using assms items e(1,2) by (auto simp: normalize_modality_response_def)
qed

definition demo_png :: bytes where
  "demo_png = [CHR 0x89, CHR ''P'', CHR ''N'', CHR ''G'', CR, LF, CHR 0x1A, LF] @
     ''0123456789ab'' @ ''IEND''"

definition demo_artifact :: json where
  "demo_artifact = JObject [(''base64'', JString ''QUJD''), (''finishReason'', JString ''SUCCESS''),
     (''seed'', JNumber (NatNum 7))]"

definition demo_answer :: "(str \<times> json) list \<Rightarrow> json" where
  "demo_answer extra = JObject ((''artifacts'', JArray [demo_artifact]) # extra)"

lemma demo_artifacts_valid: "valid_artifacts (\<lambda>_. ''QUJD'') (\<lambda>_. Some demo_png) (demo_answer extra)"
  by (simp add: valid_artifacts_def demo_answer_def demo_artifact_def json_accessors get_i64_def
      encoded_media_def decode_base64_def is_ascii_whitespace_def valid_image_def valid_jpeg_def
      valid_png_def demo_png_def starts_with_def has_sub_def code_def)

theorem normalized_images_verified_witness:
  "\<exists>encs. encs \<noteq> [] \<and>
    normalize_modality_response (\<lambda>_. ''QUJD'') (\<lambda>_. Some demo_png) (\<lambda>_. Some (demo_answer []))
      (\<lambda>_. ''{}'') 5 ''/v1/images/generations'' [] ''text/plain'' = Some (''{}'', ''application/json'')"
proof -
  have "validate_modality_response (\<lambda>_. ''QUJD'') (\<lambda>_. Some demo_png) (\<lambda>_. Some (demo_answer []))
      ''/v1/images/generations'' [] ''text/plain''"
    by (simp add: validate_modality_response_def demo_artifacts_valid)
  from normalized_images_verified [OF this, where show_json = "\<lambda>_. ''{}''" and created = 5]
  show ?thesis by (auto simp: demo_answer_def get_field_def)
qed

text \<open>
  C30. One valid result vouches for an unchecked one: when an image answer carries valid
  artifacts, or a video answer a valid \<open>video\<close>, any \<open>data\<close> field beside it, \<open>null\<close> and
  undecodable items included, passes the validation and is handed to the client as it came.
\<close>

theorem unchecked_data_passes:
  assumes "get_field ''data'' v = Some d" "parse body = Some v"
    "path = ''/v1/images/generations'' \<and> valid_artifacts b64e b64d v \<or>
     path = ''/v1/videos/generations'' \<and> valid_video_result b64e b64d v"
  shows "normalize_modality_response b64e b64d parse show_json created path body ct =
    Some (body, ''application/json'')"
  using assms
  by (auto simp: normalize_modality_response_def validate_modality_response_def)

theorem unchecked_data_passes_witness:
  "normalize_modality_response (\<lambda>_. ''QUJD'') (\<lambda>_. Some demo_png)
     (\<lambda>_. Some (demo_answer [(''data'', JNull)])) (\<lambda>_. []) 5 ''/v1/images/generations'' ''raw'' ''x'' =
   Some (''raw'', ''application/json'')"
  by (rule unchecked_data_passes [where v = "demo_answer [(''data'', JNull)]" and d = JNull])
    (simp_all add: demo_artifacts_valid, simp add: demo_answer_def get_field_def)

end
