(* ===== verification/Database.thy ===== *)
theory Database
  imports Http
begin

text \<open>
  The PostgreSQL side of the gateway: the rows its statements read and write, with the
  constraints of \<open>migrations/sqlx\<close> a statement can break, and the way a statement or a
  transaction can fail. A table is a list of rows in insertion order; a statement that updates
  the one row of a primary key is \<open>update_one\<close>, one that updates every matching row is
  \<open>update_where\<close>; a transaction answers \<open>None\<close> where the code bails out or a constraint is
  broken, and then nothing of it is kept.
\<close>

section \<open>Rows\<close>

record key_row =
  kw_key :: vault_key_record
  kw_slot :: nat

record client_row =
  cw_client :: vault_downstream_record
  cw_expires_at :: "time option"
  cw_model_allowlist :: "str list option"
  cw_rpm_limit :: "nat option"
  cw_max_concurrency :: "nat option"
  cw_request_limit_day :: "nat option"
  cw_rotated_at :: "time option"

record routing_row =
  rt_profile :: str
  rt_next_slot :: nat
  rt_generation :: nat

record receipt_row =
  rc_profile :: str
  rc_key :: uuid
  rc_verified_at :: time
  rc_probe :: "uuid option"
  rc_invalidated_at :: "time option"
  rc_reason :: "str option"

record instance_row =
  in_id :: uuid
  in_last_seen :: time

record request_row =
  pr_request_id :: uuid
  pr_owner :: "uuid option"
  pr_client :: "uuid option"
  pr_endpoint :: str
  pr_profile :: str
  pr_stream :: bool
  pr_modality :: str
  pr_outcome :: str
  pr_status :: "nat option"
  pr_error :: "str option"
  pr_duration :: "int option"
  pr_ttfb :: "int option"
  pr_failover :: nat
  pr_started_at :: time
  pr_finished_at :: "time option"
  pr_rolled_up :: "time option"

text \<open>
  The parent of an attempt is its request's row; the request identifier is unique, so it also
  names the parent (\<open>None\<close>: no parent).
\<close>

record attempt_row =
  ra_request_id :: uuid
  ra_parent :: "uuid option"
  ra_no :: nat
  ra_profile :: str
  ra_key :: uuid
  ra_owner :: "uuid option"
  ra_outcome :: str
  ra_status :: "nat option"
  ra_error :: "str option"
  ra_cooldown :: "time option"
  ra_bytes :: "int option"
  ra_ttfb :: "int option"
  ra_response_started :: bool
  ra_latency :: "int option"
  ra_created_at :: time
  ra_finished_at :: "time option"

record permit_row =
  pm_request_id :: uuid
  pm_client :: uuid
  pm_owner :: "uuid option"
  pm_profile :: str
  pm_acquired_at :: time
  pm_released_at :: "time option"

record probe_row =
  pb_id :: uuid
  pb_kind :: str
  pb_upstream :: uuid
  pb_profile :: "str option"
  pb_status :: str
  pb_status_code :: "nat option"
  pb_latency :: nat
  pb_error :: "str option"
  pb_billable :: bool
  pb_requested_by :: str
  pb_created_at :: time
  pb_started_at :: "time option"
  pb_finished_at :: "time option"

record fixture_row =
  fx_kind :: str
  fx_client :: uuid
  fx_run :: uuid
  fx_consumed_at :: "time option"
  fx_request :: "uuid option"
  fx_key :: "uuid option"

record policy_row =
  po_version :: nat
  po_active :: bool
  po_document :: json

record settings_row =
  se_freshness :: nat
  se_request_retention :: nat
  se_metric_retention :: nat
  se_public_incidents :: bool

record incident_row =
  ic_id :: uuid
  ic_slug :: str
  ic_title :: str
  ic_status :: str
  ic_severity :: str
  ic_public :: bool
  ic_started_at :: time
  ic_resolved_at :: "time option"
  ic_created_at :: time
  ic_updated_at :: time

record incident_update_row =
  iu_id :: uuid
  iu_incident :: uuid
  iu_status :: str
  iu_message :: str
  iu_published_at :: time

record catalog_row =
  ct_profile :: str
  ct_endpoint :: str
  ct_inputs :: "str list"
  ct_outputs :: "str list"
  ct_streaming :: bool
  ct_tools :: bool
  ct_advertised :: bool
  ct_billable :: bool

record qa_run_row =
  qr_id :: uuid
  qr_suite :: str
  qr_live :: bool
  qr_provider :: str
  qr_commit :: str
  qr_status :: str
  qr_created_at :: time
  qr_started_at :: "time option"
  qr_finished_at :: "time option"

record qa_case_row =
  qc_id :: uuid
  qc_run :: uuid
  qc_name :: str
  qc_status :: str
  qc_evidence :: json
  qc_started_at :: "time option"
  qc_finished_at :: "time option"

text \<open>
  The minute buckets of the metrics. The columns of a histogram are the sum and the number of
  the samples, then how many are at most 250, 500, 1000, 2500 and 5000 milliseconds, and more.
\<close>

record histogram =
  hg_sum :: int
  hg_samples :: nat
  hg_le_250 :: nat
  hg_le_500 :: nat
  hg_le_1000 :: nat
  hg_le_2500 :: nat
  hg_le_5000 :: nat
  hg_gt_5000 :: nat

record metric_row =
  me_start :: time
  me_endpoint :: str
  me_profile :: str
  me_class :: str
  me_requests :: nat
  me_failovers :: nat
  me_duration :: histogram
  me_ttfb :: histogram

record capacity_row =
  ca_start :: time
  ca_eligible :: nat

record db =
  db_keys :: "key_row list"
  db_clients :: "client_row list"
  db_routing :: "routing_row list"
  db_receipts :: "receipt_row list"
  db_instances :: "instance_row list"
  db_requests :: "request_row list"
  db_attempts :: "attempt_row list"
  db_permits :: "permit_row list"
  db_probes :: "probe_row list"
  db_audit :: "audit_event list"
  db_fixtures :: "fixture_row list"
  db_policies :: "policy_row list"
  db_settings :: "settings_row option"
  db_incidents :: "incident_row list"
  db_incident_updates :: "incident_update_row list"
  db_catalog :: "catalog_row list"
  db_qa_runs :: "qa_run_row list"
  db_qa_cases :: "qa_case_row list"
  db_metrics :: "metric_row list"
  db_capacity :: "capacity_row list"

section \<open>Statements\<close>

text \<open>\<open>a = b\<close> on nullable columns: never true on \<open>NULL\<close>.\<close>

definition sql_eq :: "'a option \<Rightarrow> 'a option \<Rightarrow> bool" where
  "sql_eq a b \<longleftrightarrow> a \<noteq> None \<and> a = b"

definition update_where :: "('r \<Rightarrow> bool) \<Rightarrow> ('r \<Rightarrow> 'r) \<Rightarrow> 'r list \<Rightarrow> 'r list" where
  "update_where p f rows = map (\<lambda>r. if p r then f r else r) rows"

text \<open>
  \<open>UPDATE\<close> followed by \<open>rows_affected() != 1\<close>: exactly one row matches and its new value
  breaks no constraint (\<open>f r = Some r'\<close>).
\<close>

definition update_one :: "('r \<Rightarrow> bool) \<Rightarrow> ('r \<Rightarrow> 'r option) \<Rightarrow> 'r list \<Rightarrow> 'r list option" where
  "update_one p f rows =
     (case filter p rows of
        [r] \<Rightarrow> map_option (\<lambda>r'. update_where p (\<lambda>_. r') rows) (f r)
      | _ \<Rightarrow> None)"

definition checked :: "('r \<Rightarrow> bool) \<Rightarrow> 'r \<Rightarrow> 'r option" where
  "checked ok r = (if ok r then Some r else None)"

text \<open>
  How one statement or transaction ends for its caller: as computed, refused with nothing
  kept (\<open>Failed\<close>), or kept with the answer lost on the way back (\<open>Lost\<close>).
\<close>

datatype fault = Fine | Failed | Lost

definition run_tx :: "fault \<Rightarrow> (db \<Rightarrow> ('a \<times> db) option) \<Rightarrow> db \<Rightarrow> 'a option \<times> db" where
  "run_tx f t d =
     (case f of
        Failed \<Rightarrow> (None, d)
      | Fine \<Rightarrow> (case t d of None \<Rightarrow> (None, d) | Some (r, d') \<Rightarrow> (Some r, d'))
      | Lost \<Rightarrow> (case t d of None \<Rightarrow> (None, d) | Some (r, d') \<Rightarrow> (None, d')))"

section \<open>Constraints\<close>

definition status_ok :: "nat option \<Rightarrow> bool" where
  "status_ok s = is_none_or (\<lambda>n. 100 \<le> n \<and> n \<le> 599) s"

definition ms_ok :: "int option \<Rightarrow> bool" where
  "ms_ok v = is_none_or (\<lambda>n. 0 \<le> n) v"

definition REQUEST_OUTCOMES :: "str list" where
  "REQUEST_OUTCOMES =
     [''started'', ''succeeded'', ''failed'', ''cancelled'', ''rejected'', ''abandoned_after_restart'']"

definition ATTEMPT_OUTCOMES :: "str list" where
  "ATTEMPT_OUTCOMES = [''started'', ''succeeded'', ''failed'', ''cancelled'', ''abandoned_after_restart'']"

definition error_ok :: "str option \<Rightarrow> bool" where
  "error_ok e = is_none_or (\<lambda>s. 1 \<le> length s \<and> length s \<le> 80) e"

definition request_row_ok :: "request_row \<Rightarrow> bool" where
  "request_row_ok r \<longleftrightarrow>
     pr_outcome r \<in> set REQUEST_OUTCOMES \<and> status_ok (pr_status r) \<and> error_ok (pr_error r) \<and>
     ms_ok (pr_duration r) \<and> ms_ok (pr_ttfb r) \<and> pr_failover r \<le> 8 \<and>
     (pr_outcome r = ''started'' \<longleftrightarrow> pr_finished_at r = None)"

definition attempt_row_ok :: "attempt_row \<Rightarrow> bool" where
  "attempt_row_ok a \<longleftrightarrow>
     ra_outcome a \<in> set ATTEMPT_OUTCOMES \<and> 1 \<le> ra_no a \<and> ra_no a \<le> 8 \<and>
     status_ok (ra_status a) \<and> error_ok (ra_error a) \<and> ms_ok (ra_latency a) \<and>
     ms_ok (ra_ttfb a) \<and> ms_ok (ra_bytes a) \<and>
     (ra_outcome a = ''started'' \<longleftrightarrow> ra_finished_at a = None)"

definition permit_row_ok :: "permit_row \<Rightarrow> bool" where
  "permit_row_ok p \<longleftrightarrow> is_none_or (\<lambda>t. pm_acquired_at p \<le> t) (pm_released_at p)"

definition key_row_ok :: "key_row \<Rightarrow> bool" where
  "key_row_ok k \<longleftrightarrow>
     (let n = length (chars (kr_label (kw_key k))) in 1 \<le> n \<and> n \<le> 128) \<and>
     length (kr_fingerprint (kw_key k)) = 32 \<and> 16 < length (kr_ciphertext (kw_key k)) \<and>
     length (kr_nonce (kw_key k)) = 12 \<and> kw_slot k \<in> {1, 2}"

text \<open>The three partial unique indexes over the rows that are not retired.\<close>

definition active_rows :: "key_row list \<Rightarrow> key_row list" where
  "active_rows ks = filter (\<lambda>k. \<not> kr_retired (kw_key k)) ks"

definition key_rows_unique :: "key_row list \<Rightarrow> bool" where
  "key_rows_unique ks \<longleftrightarrow>
     distinct (map (\<lambda>k. kr_fingerprint (kw_key k)) (active_rows ks)) \<and>
     distinct (map (\<lambda>k. kr_label (kw_key k)) (active_rows ks)) \<and>
     distinct (map kw_slot (active_rows ks))"

definition client_row_ok :: "client_row \<Rightarrow> bool" where
  "client_row_ok c \<longleftrightarrow>
     (let n = length (chars (dr_label (cw_client c))) in 1 \<le> n \<and> n \<le> 120) \<and>
     length (dr_token_digest (cw_client c)) = 32 \<and>
     canonical_scopes (dr_scopes (cw_client c)) = Ok (dr_scopes (cw_client c)) \<and>
     is_none_or (\<lambda>ms. 1 \<le> length ms \<and> length ms \<le> 64) (cw_model_allowlist c) \<and>
     is_none_or (\<lambda>n. 1 \<le> n \<and> n \<le> 100000) (cw_rpm_limit c) \<and>
     is_none_or (\<lambda>n. 1 \<le> n \<and> n \<le> 64) (cw_max_concurrency c) \<and>
     is_none_or (\<lambda>n. 1 \<le> n \<and> n \<le> 10000000) (cw_request_limit_day c) \<and>
     is_none_or (\<lambda>t. dr_created_at (cw_client c) < t) (cw_expires_at c)"

definition client_rows_unique :: "client_row list \<Rightarrow> bool" where
  "client_rows_unique cs \<longleftrightarrow>
     distinct (map (\<lambda>c. dr_token_digest (cw_client c)) cs) \<and>
     distinct (map (\<lambda>c. dr_label (cw_client c)) (filter (\<lambda>c. dr_active (cw_client c)) cs))"

text \<open>Foreign keys.\<close>

definition has_key :: "db \<Rightarrow> uuid \<Rightarrow> bool" where
  "has_key d i \<longleftrightarrow> list_ex (\<lambda>k. kr_id (kw_key k) = i) (db_keys d)"

definition has_client :: "db \<Rightarrow> uuid \<Rightarrow> bool" where
  "has_client d i \<longleftrightarrow> list_ex (\<lambda>c. dr_id (cw_client c) = i) (db_clients d)"

definition has_profile :: "db \<Rightarrow> str \<Rightarrow> bool" where
  "has_profile d p \<longleftrightarrow> list_ex (\<lambda>r. rt_profile r = p) (db_routing d)"

definition has_instance :: "db \<Rightarrow> uuid \<Rightarrow> bool" where
  "has_instance d i \<longleftrightarrow> list_ex (\<lambda>r. in_id r = i) (db_instances d)"

text \<open>\<open>SELECT .. FROM routing_policies WHERE active=true ORDER BY version DESC LIMIT 1\<close>.\<close>

definition active_policy :: "db \<Rightarrow> policy_row option" where
  "active_policy d =
     (case rev (sort_key po_version (filter po_active (db_policies d))) of [] \<Rightarrow> None | p # _ \<Rightarrow> Some p)"

text \<open>A lease seen within thirty seconds.\<close>

definition live_instance :: "time \<Rightarrow> db \<Rightarrow> uuid option \<Rightarrow> bool" where
  "live_instance now d owner \<longleftrightarrow>
     list_ex (\<lambda>r. sql_eq (Some (in_id r)) owner \<and> now - secs 30 \<le> in_last_seen r) (db_instances d)"

section \<open>Facts of the statements\<close>

lemma update_where_length [simp]: "length (update_where p f rows) = length rows"
  by (simp add: update_where_def)

lemma update_where_map: "(\<And>r. p r \<Longrightarrow> g (f r) = g r) \<Longrightarrow> map g (update_where p f rows) = map g rows"
  by (induction rows) (auto simp: update_where_def)

lemma update_where_all:
  "(\<And>r. r \<in> set rows \<Longrightarrow> P r) \<Longrightarrow> (\<And>r. P r \<Longrightarrow> p r \<Longrightarrow> P (f r)) \<Longrightarrow> r \<in> set (update_where p f rows) \<Longrightarrow> P r"
  by (auto simp: update_where_def split: if_splits)

lemma update_where_keeps: "r \<in> set rows \<Longrightarrow> \<not> p r \<Longrightarrow> r \<in> set (update_where p f rows)"
  by (force simp: update_where_def)

lemma update_where_new: "r \<in> set rows \<Longrightarrow> p r \<Longrightarrow> f r \<in> set (update_where p f rows)"
  by (force simp: update_where_def)

lemma update_one_SomeE:
  assumes "update_one p f rows = Some rows'"
  obtains r r' where "filter p rows = [r]" "f r = Some r'" "rows' = update_where p (\<lambda>_. r') rows"
    "r \<in> set rows" "p r"
proof -
  obtain r r' where *: "filter p rows = [r]" "f r = Some r'" "rows' = update_where p (\<lambda>_. r') rows"
    using assms by (auto simp: update_one_def split: list.splits)
  then have "r \<in> set (filter p rows)" by simp
  then have "r \<in> set rows" "p r" by auto
  with * show ?thesis using that by blast
qed

lemma update_one_map:
  assumes "update_one p f rows = Some rows'" "\<And>r r'. p r \<Longrightarrow> f r = Some r' \<Longrightarrow> g r' = g r"
  shows "map g rows' = map g rows"
proof -
  obtain r r' where u: "filter p rows = [r]" "f r = Some r'" "rows' = update_where p (\<lambda>_. r') rows" "p r"
    using assms(1) by (elim update_one_SomeE)
  have "x = r" if "x \<in> set rows" "p x" for x
  proof -
    have "x \<in> set (filter p rows)" using that by simp
    then show ?thesis using u(1) by simp
  qed
  then show ?thesis using u assms(2) by (auto simp: update_where_def)
qed

lemma update_one_keeps:
  "update_one p f rows = Some rows' \<Longrightarrow> r \<in> set rows \<Longrightarrow> \<not> p r \<Longrightarrow> r \<in> set rows'"
  by (elim update_one_SomeE) (simp add: update_where_keeps)

lemma update_one_member:
  assumes "update_one p f rows = Some rows'" "x \<in> set rows'"
  shows "x \<in> set rows \<and> \<not> p x \<or> (\<exists>r. r \<in> set rows \<and> p r \<and> f r = Some x)"
  using assms by (elim update_one_SomeE) (auto simp: update_where_def split: if_splits)

lemma checked_Some [simp]: "checked ok r = Some r' \<longleftrightarrow> ok r \<and> r' = r"
  by (auto simp: checked_def)

lemma run_tx_cases:
  obtains "run_tx f t d = (None, d)"
  | r d' where "t d = Some (r, d')" "f = Fine" "run_tx f t d = (Some r, d')"
  | r d' where "t d = Some (r, d')" "f = Lost" "run_tx f t d = (None, d')"
  by (cases f; cases "t d") (auto simp: run_tx_def)

end
