(* ===== verification/Sync.thy ===== *)
theory Sync
  imports Database
begin

text \<open>
  Writing the vault through to PostgreSQL (\<open>main.rs\<close>): the incremental transaction
  \<open>sync_database_delta\<close> with its optional audited mutation, the full upsert
  \<open>sync_database_rows\<close>, and the conversion of rows back to vault records. The advisory
  transaction lock serialises these transactions, so each one runs alone on the tables.
\<close>

section \<open>What a mutation carries\<close>

record client_policy =
  cp_id :: uuid
  cp_expires_at :: "time option option"
  cp_model_allowlist :: "str list option option"
  cp_rpm_limit :: "nat option option"
  cp_max_concurrency :: "nat option option"
  cp_request_limit_day :: "nat option option"

record probe_mutation =
  pm_id :: uuid
  pm_kind :: str
  pm_upstream :: uuid
  pm_profile_id :: "str option"
  pm_receipt_profile :: "str option"
  pm_billable :: bool
  pm_status_code :: "nat option"
  pm_error_class :: "str option"
  pm_latency_ms :: nat

record audit_mutation =
  am_action :: str
  am_resource_kind :: str
  am_resource_id :: "uuid option"
  am_request_id :: uuid
  am_detail :: json
  am_client_policy :: "client_policy option"
  am_probe :: "probe_mutation option"

record snapshot =
  sn_keys :: "vault_key_record list"
  sn_downstream :: "vault_downstream_record list"
  sn_cursors :: "str \<Rightarrow> nat"

text \<open>\<open>i64::try_from\<close> of an unsigned count; the sum of a \<open>bigint\<close> column and a delta.\<close>

definition i64_of :: "nat \<Rightarrow> int option" where
  "i64_of n = (if n < 2 ^ 63 then Some (int n) else None)"

definition add_count :: "nat \<Rightarrow> int \<Rightarrow> nat option" where
  "add_count n delta = (if int n + delta < 2 ^ 63 then Some (nat (max 0 (int n + delta))) else None)"

definition count_delta :: "nat \<Rightarrow> nat \<Rightarrow> int option" where
  "count_delta current previous =
     Option.bind (i64_of current) (\<lambda>c. Option.bind (i64_of previous) (\<lambda>p. Some (c - p)))"

section \<open>Upstream keys\<close>

definition free_slot :: "key_row list \<Rightarrow> nat option" where
  "free_slot ks = List.find (\<lambda>s. \<not> list_ex (\<lambda>k. kw_slot k = s) (active_rows ks)) [1, 2]"

text \<open>The branch for a key the previous snapshot does not hold.\<close>

definition insert_key :: "vault_key_record \<Rightarrow> db \<Rightarrow> db option" where
  "insert_key current d =
     (if MAX_UPSTREAM_KEYS \<le> length (active_rows (db_keys d)) then None
      else Option.bind (i64_of (kr_request_count current)) (\<lambda>_.
        Option.bind (i64_of (kr_failure_count current)) (\<lambda>_.
        Option.bind (free_slot (db_keys d)) (\<lambda>slot.
          (let row = \<lparr>kw_key = current, kw_slot = slot\<rparr>; rows = db_keys d @ [row]
           in if has_key d (kr_id current) \<or> \<not> key_row_ok row \<or> \<not> key_rows_unique rows then None
              else Some (d\<lparr>db_keys := rows\<rparr>))))))"

text \<open>One \<open>UPDATE nblb.upstream_keys SET .. WHERE id=$1 AND ..\<close>, done only when needed.\<close>

definition update_key ::
    "uuid \<Rightarrow> bool \<Rightarrow> (vault_key_record \<Rightarrow> bool) \<Rightarrow> (vault_key_record \<Rightarrow> vault_key_record option) \<Rightarrow>
     db \<Rightarrow> db option" where
  "update_key i needed cond f d =
     (if \<not> needed then Some d
      else Option.bind
        (update_one (\<lambda>r. kr_id (kw_key r) = i \<and> cond (kw_key r))
           (\<lambda>r. map_option (\<lambda>k. r\<lparr>kw_key := k\<rparr>) (f (kw_key r))) (db_keys d))
        (\<lambda>rows. if key_rows_unique rows then Some (d\<lparr>db_keys := rows\<rparr>) else None))"

definition invalidate_receipts :: "time \<Rightarrow> uuid \<Rightarrow> str \<Rightarrow> receipt_row list \<Rightarrow> receipt_row list" where
  "invalidate_receipts now i reason rows =
     update_where (\<lambda>r. rc_key r = i)
       (\<lambda>r. r\<lparr>rc_invalidated_at := Some (unwrap_or now (rc_invalidated_at r)),
              rc_reason := Some (unwrap_or reason (rc_reason r))\<rparr>) rows"

definition stale_receipts ::
    "time \<Rightarrow> vault_key_record \<Rightarrow> vault_key_record \<Rightarrow> db \<Rightarrow> db option" where
  "stale_receipts now previous current d =
     (let retired = kr_retired current \<and> \<not> kr_retired previous
      in if \<not> kr_verified current \<and> kr_verified previous \<or> retired
         then Some (d\<lparr>db_receipts := invalidate_receipts now (kr_id current)
                 (if retired then ''upstream_retired'' else ''credential_unverified'')
                 (db_receipts d)\<rparr>)
         else Some d)"

definition set_count ::
    "(nat \<Rightarrow> vault_key_record \<Rightarrow> vault_key_record) \<Rightarrow> (vault_key_record \<Rightarrow> nat) \<Rightarrow> int \<Rightarrow>
     vault_key_record \<Rightarrow> vault_key_record option" where
  "set_count put get delta k = map_option (\<lambda>n. put n k) (add_count (get k) delta)"

definition update_key_count ::
    "uuid \<Rightarrow> (nat \<Rightarrow> vault_key_record \<Rightarrow> vault_key_record) \<Rightarrow> (vault_key_record \<Rightarrow> nat) \<Rightarrow>
     nat \<Rightarrow> nat \<Rightarrow> db \<Rightarrow> db option" where
  "update_key_count i put get current previous d =
     (if current = previous then Some d
      else Option.bind (count_delta current previous)
        (\<lambda>delta. update_key i True (\<lambda>_. True) (set_count put get delta) d))"

definition sync_existing_key ::
    "time \<Rightarrow> vault_key_record \<Rightarrow> vault_key_record \<Rightarrow> db \<Rightarrow> db option" where
  "sync_existing_key now previous current d =
     (let i = kr_id current in
      Option.bind (update_key i (kr_enabled current \<noteq> kr_enabled previous)
          (\<lambda>k. kr_enabled k = kr_enabled previous)
          (\<lambda>k. Some (k\<lparr>kr_enabled := kr_enabled current\<rparr>)) d) (\<lambda>d.
      Option.bind (update_key i (kr_verified current \<noteq> kr_verified previous)
          (\<lambda>k. kr_verified k = kr_verified previous)
          (\<lambda>k. Some (k\<lparr>kr_verified := kr_verified current\<rparr>)) d) (\<lambda>d.
      Option.bind (update_key i (kr_retired current \<noteq> kr_retired previous)
          (\<lambda>k. kr_retired k = kr_retired previous)
          (\<lambda>k. Some (k\<lparr>kr_retired := kr_retired current\<rparr>)) d) (\<lambda>d.
      Option.bind (stale_receipts now previous current d) (\<lambda>d.
      Option.bind (update_key i (kr_cooldown_until current \<noteq> kr_cooldown_until previous)
          (\<lambda>k. kr_cooldown_until k = kr_cooldown_until previous)
          (\<lambda>k. Some (k\<lparr>kr_cooldown_until := kr_cooldown_until current\<rparr>)) d) (\<lambda>d.
      Option.bind (update_key_count i (\<lambda>n. kr_request_count_update (\<lambda>_. n)) kr_request_count
          (kr_request_count current) (kr_request_count previous) d) (\<lambda>d.
      update_key_count i (\<lambda>n. kr_failure_count_update (\<lambda>_. n)) kr_failure_count
          (kr_failure_count current) (kr_failure_count previous) d)))))))"

text \<open>The previous row of the same identifier, the last one as in a map built by insertion.\<close>

definition previous_key :: "vault_key_record list \<Rightarrow> uuid \<Rightarrow> vault_key_record option" where
  "previous_key ks i = List.find (\<lambda>k. kr_id k = i) (rev ks)"

definition sync_key :: "time \<Rightarrow> vault_key_record list \<Rightarrow> vault_key_record \<Rightarrow> db \<Rightarrow> db option" where
  "sync_key now previous current d =
     (case previous_key previous (kr_id current) of
        None \<Rightarrow> insert_key current d
      | Some p \<Rightarrow> sync_existing_key now p current d)"

text \<open>\<open>for x in xs { .. ? }\<close> over the tables.\<close>

fun for_each :: "('x \<Rightarrow> db \<Rightarrow> db option) \<Rightarrow> 'x list \<Rightarrow> db \<Rightarrow> db option" where
  "for_each f [] d = Some d"
| "for_each f (x # xs) d = Option.bind (f x d) (for_each f xs)"

section \<open>Downstream credentials\<close>

definition new_client_row :: "vault_downstream_record \<Rightarrow> client_row" where
  "new_client_row c =
     \<lparr>cw_client = c, cw_expires_at = None, cw_model_allowlist = None, cw_rpm_limit = None,
      cw_max_concurrency = None, cw_request_limit_day = None, cw_rotated_at = None\<rparr>"

definition insert_client :: "vault_downstream_record \<Rightarrow> db \<Rightarrow> db option" where
  "insert_client current d =
     Option.bind (i64_of (dr_request_count current)) (\<lambda>_.
       (let row = new_client_row current; rows = db_clients d @ [row]
        in if has_client d (dr_id current) \<or> \<not> client_row_ok row \<or> \<not> client_rows_unique rows
           then None else Some (d\<lparr>db_clients := rows\<rparr>)))"

definition update_client_row ::
    "uuid \<Rightarrow> bool \<Rightarrow> (vault_downstream_record \<Rightarrow> bool) \<Rightarrow> (client_row \<Rightarrow> client_row option) \<Rightarrow>
     db \<Rightarrow> db option" where
  "update_client_row i needed cond f d =
     (if \<not> needed then Some d
      else Option.bind
        (update_one (\<lambda>r. dr_id (cw_client r) = i \<and> cond (cw_client r)) f (db_clients d))
        (\<lambda>rows. if list_all client_row_ok rows \<and> client_rows_unique rows
                then Some (d\<lparr>db_clients := rows\<rparr>) else None))"

definition put_client ::
    "(vault_downstream_record \<Rightarrow> vault_downstream_record) \<Rightarrow> client_row \<Rightarrow> client_row option" where
  "put_client f r = Some (r\<lparr>cw_client := f (cw_client r)\<rparr>)"

text \<open>\<open>GREATEST\<close> skips \<open>NULL\<close> arguments.\<close>

definition greatest_time :: "time option \<Rightarrow> time option \<Rightarrow> time option" where
  "greatest_time a b =
     (case (a, b) of (Some x, Some y) \<Rightarrow> Some (max x y) | (None, y) \<Rightarrow> y | (x, None) \<Rightarrow> x)"

definition update_client_count ::
    "uuid \<Rightarrow> nat \<Rightarrow> nat \<Rightarrow> db \<Rightarrow> db option" where
  "update_client_count i current previous d =
     (if current = previous then Some d
      else Option.bind (count_delta current previous) (\<lambda>delta.
        update_client_row i True (\<lambda>_. True)
          (\<lambda>r. map_option (\<lambda>n. r\<lparr>cw_client := (cw_client r)\<lparr>dr_request_count := n\<rparr>\<rparr>)
                 (add_count (dr_request_count (cw_client r)) delta)) d))"

definition sync_existing_client ::
    "time \<Rightarrow> vault_downstream_record \<Rightarrow> vault_downstream_record \<Rightarrow> db \<Rightarrow> db option" where
  "sync_existing_client now previous current d =
     (let i = dr_id current in
      Option.bind (update_client_row i (dr_active current \<noteq> dr_active previous)
          (\<lambda>c. dr_active c = dr_active previous)
          (put_client (dr_active_update (\<lambda>_. dr_active current))) d) (\<lambda>d.
      Option.bind (update_client_row i (dr_token_digest current \<noteq> dr_token_digest previous)
          (\<lambda>c. dr_token_digest c = dr_token_digest previous)
          (\<lambda>r. put_client (dr_token_digest_update (\<lambda>_. dr_token_digest current))
                 (r\<lparr>cw_rotated_at := Some now\<rparr>)) d) (\<lambda>d.
      Option.bind (update_client_row i (dr_scopes current \<noteq> dr_scopes previous)
          (\<lambda>c. dr_scopes c = dr_scopes previous)
          (put_client (dr_scopes_update (\<lambda>_. dr_scopes current))) d) (\<lambda>d.
      Option.bind (update_client_row i (dr_revoked_at current \<noteq> dr_revoked_at previous)
          (\<lambda>c. dr_revoked_at c = dr_revoked_at previous)
          (put_client (dr_revoked_at_update (\<lambda>_. dr_revoked_at current))) d) (\<lambda>d.
      Option.bind (update_client_count i (dr_request_count current) (dr_request_count previous) d) (\<lambda>d.
      update_client_row i (dr_last_used_at current \<noteq> dr_last_used_at previous) (\<lambda>_. True)
          (put_client (\<lambda>c. c\<lparr>dr_last_used_at :=
             greatest_time (dr_last_used_at c) (dr_last_used_at current)\<rparr>)) d))))))"

definition previous_client :: "vault_downstream_record list \<Rightarrow> uuid \<Rightarrow> vault_downstream_record option" where
  "previous_client cs i = List.find (\<lambda>c. dr_id c = i) (rev cs)"

definition sync_client ::
    "time \<Rightarrow> vault_downstream_record list \<Rightarrow> vault_downstream_record \<Rightarrow> db \<Rightarrow> db option" where
  "sync_client now previous current d =
     (case previous_client previous (dr_id current) of
        None \<Rightarrow> insert_client current d
      | Some p \<Rightarrow> sync_existing_client now p current d)"

section \<open>Routing cursors\<close>

text \<open>\<open>previous.wrapping_sub(current) % 2 == 0\<close> on \<open>usize\<close> skips the profile.\<close>

definition sync_cursor ::
    "(str \<Rightarrow> nat) \<Rightarrow> (str \<Rightarrow> nat) \<Rightarrow> str \<Rightarrow> db \<Rightarrow> db option" where
  "sync_cursor previous current profile d =
     (if (previous profile + 2 ^ 64 - current profile) mod 2 ^ 64 mod 2 = 0 then Some d
      else map_option (\<lambda>rows. d\<lparr>db_routing := rows\<rparr>)
        (update_one (\<lambda>r. rt_profile r = profile)
           (\<lambda>r. Some (r\<lparr>rt_next_slot := (if rt_next_slot r = 1 then 2 else 1),
                        rt_generation := rt_generation r + 1\<rparr>)) (db_routing d)))"

section \<open>The audited mutation\<close>

definition changed :: "'a option \<Rightarrow> 'a \<Rightarrow> 'a" where
  "changed new old = unwrap_or old new"

definition apply_client_policy :: "client_policy \<Rightarrow> db \<Rightarrow> db option" where
  "apply_client_policy p d =
     map_option (\<lambda>rows. d\<lparr>db_clients := rows\<rparr>)
       (update_one (\<lambda>r. dr_id (cw_client r) = cp_id p \<and> dr_active (cw_client r))
          (\<lambda>r. checked client_row_ok
             (r\<lparr>cw_expires_at := changed (cp_expires_at p) (cw_expires_at r),
                cw_model_allowlist := changed (cp_model_allowlist p) (cw_model_allowlist r),
                cw_rpm_limit := changed (cp_rpm_limit p) (cw_rpm_limit r),
                cw_max_concurrency := changed (cp_max_concurrency p) (cw_max_concurrency r),
                cw_request_limit_day := changed (cp_request_limit_day p) (cw_request_limit_day r)\<rparr>))
          (db_clients d))"

text \<open>\<open>INSERT .. ON CONFLICT(profile_id,key_id) DO UPDATE\<close>: the receipt is fresh afterwards.\<close>

definition upsert_receipt ::
    "time \<Rightarrow> str \<Rightarrow> uuid \<Rightarrow> uuid option \<Rightarrow> db \<Rightarrow> db option" where
  "upsert_receipt now profile i probe d =
     (if \<not> has_profile d profile \<or> \<not> has_key d i then None
      else (let same = (\<lambda>r. rc_profile r = profile \<and> rc_key r = i);
                fresh = (\<lambda>r. r\<lparr>rc_verified_at := now, rc_invalidated_at := None, rc_reason := None,
                               rc_probe := (case probe of None \<Rightarrow> rc_probe r | Some _ \<Rightarrow> probe)\<rparr>)
            in Some (d\<lparr>db_receipts :=
                 (if list_ex same (db_receipts d) then update_where same fresh (db_receipts d)
                  else db_receipts d @ [\<lparr>rc_profile = profile, rc_key = i, rc_verified_at = now,
                         rc_probe = probe, rc_invalidated_at = None, rc_reason = None\<rparr>])\<rparr>)))"

definition probe_passed :: "probe_mutation \<Rightarrow> bool" where
  "probe_passed p \<longleftrightarrow> pm_error_class p = None \<and> is_some_and is_success (pm_status_code p)"

text \<open>
  The insert of a finished probe run with the constraints it can break: the shape contract of
  its kind, the foreign keys, the status and error bounds, the primary key.
\<close>

definition probe_shape_ok :: "db \<Rightarrow> probe_mutation \<Rightarrow> bool" where
  "probe_shape_ok d p \<longleftrightarrow>
     pm_kind p = ''credential'' \<and> pm_profile_id p = None \<or>
     pm_kind p = ''profile'' \<and> is_some_and (has_profile d) (pm_profile_id p)"

definition insert_probe :: "time \<Rightarrow> probe_mutation \<Rightarrow> db \<Rightarrow> db option" where
  "insert_probe now p d =
     (let row = \<lparr>pb_id = pm_id p, pb_kind = pm_kind p, pb_upstream = pm_upstream p,
                 pb_profile = pm_profile_id p,
                 pb_status = (if probe_passed p then ''passed'' else ''failed''),
                 pb_status_code = pm_status_code p, pb_latency = min (pm_latency_ms p) (2 ^ 63 - 1),
                 pb_error = pm_error_class p, pb_billable = pm_billable p,
                 pb_requested_by = ''local_admin'', pb_created_at = now,
                 pb_started_at = Some now, pb_finished_at = Some now\<rparr>
      in if \<not> probe_shape_ok d p \<or> \<not> has_key d (pm_upstream p) \<or> \<not> status_ok (pm_status_code p)
            \<or> \<not> error_ok (pm_error_class p) \<or> list_ex (\<lambda>b. pb_id b = pm_id p) (db_probes d)
         then None else Some (d\<lparr>db_probes := db_probes d @ [row]\<rparr>))"

definition store_receipt :: "time \<Rightarrow> probe_mutation \<Rightarrow> db \<Rightarrow> db option" where
  "store_receipt now p d =
     (case pm_receipt_profile p of
        None \<Rightarrow> Some d
      | Some profile \<Rightarrow> upsert_receipt now profile (pm_upstream p) (Some (pm_id p)) d)"

definition auth_refused :: "nat option \<Rightarrow> bool" where
  "auth_refused status \<longleftrightarrow> status = Some 401 \<or> status = Some 403"

definition record_probe :: "time \<Rightarrow> probe_mutation \<Rightarrow> db \<Rightarrow> db option" where
  "record_probe now p d =
     Option.bind (insert_probe now p d) (\<lambda>d.
       if probe_passed p then store_receipt now p d
       else if auth_refused (pm_status_code p)
       then Some (d\<lparr>db_receipts := update_where (\<lambda>r. rc_key r = pm_upstream p)
              (\<lambda>r. r\<lparr>rc_invalidated_at := Some (unwrap_or now (rc_invalidated_at r)),
                     rc_reason := Some ''provider_auth_error''\<rparr>) (db_receipts d)\<rparr>)
       else Some d)"

definition write_audit :: "time \<Rightarrow> uuid \<Rightarrow> audit_mutation \<Rightarrow> db \<Rightarrow> (uuid \<times> db) option" where
  "write_audit now fresh a d =
     Option.bind (case am_client_policy a of None \<Rightarrow> Some d | Some p \<Rightarrow> apply_client_policy p d) (\<lambda>d.
     Option.bind (case am_probe a of None \<Rightarrow> Some d | Some p \<Rightarrow> record_probe now p d) (\<lambda>d.
       Some (fresh, d\<lparr>db_audit := db_audit d @
         [new_audit fresh now (am_action a) (am_resource_kind a) (am_resource_id a)
            (Some (am_request_id a)) ''succeeded'' (am_detail a)]\<rparr>)))"

section \<open>The two transactions\<close>

definition sync_database_delta ::
    "time \<Rightarrow> uuid \<Rightarrow> snapshot \<Rightarrow> snapshot \<Rightarrow> audit_mutation option \<Rightarrow> db \<Rightarrow> (uuid option \<times> db) option" where
  "sync_database_delta now fresh previous current audit d =
     Option.bind (for_each (sync_key now (sn_keys previous)) (sn_keys current) d) (\<lambda>d.
     Option.bind (for_each (sync_client now (sn_downstream previous)) (sn_downstream current) d) (\<lambda>d.
     Option.bind (for_each (sync_cursor (sn_cursors previous) (sn_cursors current)) PROFILES d) (\<lambda>d.
       case audit of
         None \<Rightarrow> Some (None, d)
       | Some a \<Rightarrow> map_option (\<lambda>(i, d). (Some i, d)) (write_audit now fresh a d))))"

text \<open>\<open>hash_slot\<close> is the slot PostgreSQL derives from \<open>hashtext\<close> for a retired row.\<close>

definition upsert_slot :: "(uuid \<Rightarrow> nat) \<Rightarrow> vault_key_record \<Rightarrow> key_row list \<Rightarrow> nat option" where
  "upsert_slot hash_slot k rows =
     (case List.find (\<lambda>r. kr_id (kw_key r) = kr_id k) rows of
        Some r \<Rightarrow> Some (kw_slot r)
      | None \<Rightarrow> if kr_retired k then Some (hash_slot (kr_id k)) else free_slot rows)"

definition upsert_key :: "(uuid \<Rightarrow> nat) \<Rightarrow> vault_key_record \<Rightarrow> db \<Rightarrow> db option" where
  "upsert_key hash_slot k d =
     Option.bind (i64_of (kr_request_count k)) (\<lambda>_.
     Option.bind (i64_of (kr_failure_count k)) (\<lambda>_.
     Option.bind (upsert_slot hash_slot k (db_keys d)) (\<lambda>slot.
       (let row = \<lparr>kw_key = k, kw_slot = slot\<rparr>;
            rows = (if has_key d (kr_id k)
                    then update_where (\<lambda>r. kr_id (kw_key r) = kr_id k) (kw_key_update (\<lambda>_. k)) (db_keys d)
                    else db_keys d @ [row])
        in if \<not> key_row_ok row \<or> \<not> key_rows_unique rows then None else Some (d\<lparr>db_keys := rows\<rparr>)))))"

text \<open>The upsert keeps the stored \<open>created_at\<close> of a known credential.\<close>

definition upsert_client :: "vault_downstream_record \<Rightarrow> db \<Rightarrow> db option" where
  "upsert_client c d =
     Option.bind (i64_of (dr_request_count c)) (\<lambda>_.
       (let rows = (if has_client d (dr_id c)
                    then update_where (\<lambda>r. dr_id (cw_client r) = dr_id c)
                           (\<lambda>r. r\<lparr>cw_client := c\<lparr>dr_created_at := dr_created_at (cw_client r)\<rparr>\<rparr>)
                           (db_clients d)
                    else db_clients d @ [new_client_row c])
        in if list_all client_row_ok rows \<and> client_rows_unique rows
           then Some (d\<lparr>db_clients := rows\<rparr>) else None))"

definition upsert_cursor :: "(str \<Rightarrow> nat) \<Rightarrow> str \<Rightarrow> db \<Rightarrow> db option" where
  "upsert_cursor cursors profile d =
     (let slot = cursors profile mod 2 + 1
      in Some (d\<lparr>db_routing :=
           (if has_profile d profile
            then update_where (\<lambda>r. rt_profile r = profile)
                   (\<lambda>r. r\<lparr>rt_next_slot := slot, rt_generation := rt_generation r + 1\<rparr>) (db_routing d)
            else db_routing d @ [\<lparr>rt_profile = profile, rt_next_slot = slot, rt_generation = 1\<rparr>])\<rparr>))"

definition sync_database_rows ::
    "(uuid \<Rightarrow> nat) \<Rightarrow> snapshot \<Rightarrow> db \<Rightarrow> (unit \<times> db) option" where
  "sync_database_rows hash_slot s d =
     Option.bind (for_each (upsert_key hash_slot) (sn_keys s) d) (\<lambda>d.
     Option.bind (for_each upsert_client (sn_downstream s) d) (\<lambda>d.
     Option.bind (for_each (upsert_cursor (sn_cursors s)) PROFILES d) (\<lambda>d. Some ((), d))))"

section \<open>Reading a vault's snapshot\<close>

definition snapshot_of :: "crypto \<Rightarrow> vault \<Rightarrow> vault_error + snapshot" where
  "snapshot_of c v =
     bind_ok (key_records c v) (\<lambda>ks. bind_ok (downstream_records c v) (\<lambda>ds.
       Ok \<lparr>sn_keys = ks, sn_downstream = ds, sn_cursors = (\<lambda>p. router_cursor_for p v)\<rparr>))"

text \<open>
  The rows read back at startup, \<open>bigint\<close> counts into \<open>u64\<close>: the columns are non-negative, and
  a vault record holds the same values as its row.
\<close>

definition should_migrate_file_vault :: "nat \<Rightarrow> nat \<Rightarrow> nat \<Rightarrow> nat \<Rightarrow> bool" where
  "should_migrate_file_vault database_keys database_downstream file_keys file_downstream \<longleftrightarrow>
     database_keys = 0 \<and> database_downstream = 0 \<and> (0 < file_keys \<or> 0 < file_downstream)"

definition load_cursors :: "routing_row list \<Rightarrow> str \<Rightarrow> nat option" where
  "load_cursors rows = map_of (map (\<lambda>r. (rt_profile r, rt_next_slot r - 1)) rows)"

end
