(* ===== verification/Ledger.thy ===== *)
theory Ledger
  imports Sync
begin

text \<open>
  The request ledger (\<open>main.rs\<close>, \<open>evidence.rs\<close>): terminal values of requests and attempts, and
  every transaction of the request path on the tables \<open>proxy_requests\<close>, \<open>request_attempts\<close>,
  \<open>downstream_request_permits\<close>, \<open>routing_state\<close> and \<open>gateway_instances\<close>. Each is a partial
  function of the tables, \<open>None\<close> where a statement fails or the code bails out; \<open>run_tx\<close> adds
  the failures of the connection. \<open>now\<close> is the transaction's \<open>now()\<close>.
\<close>

section \<open>Terminal values\<close>

record attempt_terminal =
  at_outcome :: str
  at_status :: "nat option"
  at_error :: "str option"
  at_cooldown :: "time option"
  at_bytes :: "int option"

record request_terminal =
  rq_outcome :: str
  rq_status :: "nat option"
  rq_error :: "str option"
  rq_ttfb :: "int option"

text \<open>\<open>i64::try_from(bytes).unwrap_or(i64::MAX)\<close>.\<close>

definition i64_bytes :: "nat \<Rightarrow> int" where
  "i64_bytes n = min (int n) (2 ^ 63 - 1)"

definition request_succeeded :: "nat \<Rightarrow> request_terminal" where
  "request_succeeded status =
     \<lparr>rq_outcome = ''succeeded'', rq_status = Some status, rq_error = None, rq_ttfb = None\<rparr>"

definition request_failed :: "nat \<Rightarrow> str \<Rightarrow> request_terminal" where
  "request_failed status e =
     \<lparr>rq_outcome = ''failed'', rq_status = Some status, rq_error = Some e, rq_ttfb = None\<rparr>"

definition request_rejected :: "nat \<Rightarrow> str \<Rightarrow> request_terminal" where
  "request_rejected status e =
     \<lparr>rq_outcome = ''rejected'', rq_status = Some status, rq_error = Some e, rq_ttfb = None\<rparr>"

definition with_ttfb :: "int option \<Rightarrow> request_terminal \<Rightarrow> request_terminal" where
  "with_ttfb t r = r\<lparr>rq_ttfb := t\<rparr>"

definition attempt_succeeded :: "nat \<Rightarrow> nat option \<Rightarrow> attempt_terminal" where
  "attempt_succeeded status bytes_out =
     \<lparr>at_outcome = ''succeeded'', at_status = Some status, at_error = None, at_cooldown = None,
      at_bytes = map_option i64_bytes bytes_out\<rparr>"

definition attempt_failed :: "nat option \<Rightarrow> str \<Rightarrow> time option \<Rightarrow> attempt_terminal" where
  "attempt_failed status e cooldown =
     \<lparr>at_outcome = ''failed'', at_status = status, at_error = Some e, at_cooldown = cooldown,
      at_bytes = None\<rparr>"

definition with_bytes_out :: "nat \<Rightarrow> attempt_terminal \<Rightarrow> attempt_terminal" where
  "with_bytes_out n a = a\<lparr>at_bytes := Some (i64_bytes n)\<rparr>"

definition with_cooldown :: "time option \<Rightarrow> attempt_terminal \<Rightarrow> attempt_terminal" where
  "with_cooldown t a = a\<lparr>at_cooldown := t\<rparr>"

definition terminal_bytes_out :: "attempt_terminal \<Rightarrow> nat" where
  "terminal_bytes_out a = (case at_bytes a of Some n \<Rightarrow> nat n | None \<Rightarrow> 0)"

section \<open>Attempts\<close>

text \<open>\<open>GREATEST(0, floor(extract(epoch FROM (now() - t)) * 1000))\<close>.\<close>

definition elapsed_ms :: "time \<Rightarrow> time \<Rightarrow> int" where
  "elapsed_ms now t = max 0 ((now - t) div 1000000)"

definition open_attempt :: "uuid \<Rightarrow> uuid \<Rightarrow> uuid option \<Rightarrow> attempt_row \<Rightarrow> bool" where
  "open_attempt rid key owner a \<longleftrightarrow>
     ra_request_id a = rid \<and> ra_key a = key \<and> sql_eq (ra_owner a) owner \<and> ra_finished_at a = None"

text \<open>\<open>ORDER BY created_at DESC LIMIT 1\<close>, the last inserted of equal times.\<close>

definition later_of :: "attempt_row list \<Rightarrow> nat option \<Rightarrow> nat \<Rightarrow> nat option" where
  "later_of rows best i =
     (case best of
        None \<Rightarrow> Some i
      | Some b \<Rightarrow> if ra_created_at (rows ! b) \<le> ra_created_at (rows ! i) then Some i else best)"

definition latest_index :: "(attempt_row \<Rightarrow> bool) \<Rightarrow> attempt_row list \<Rightarrow> nat option" where
  "latest_index p rows = foldl (later_of rows) None (filter (\<lambda>i. p (rows ! i)) [0..<length rows])"

definition update_latest ::
    "(attempt_row \<Rightarrow> bool) \<Rightarrow> (attempt_row \<Rightarrow> attempt_row) \<Rightarrow> attempt_row list \<Rightarrow> attempt_row list option" where
  "update_latest p f rows =
     (case latest_index p rows of
        None \<Rightarrow> None
      | Some i \<Rightarrow> if attempt_row_ok (f (rows ! i)) then Some (rows[i := f (rows ! i)]) else None)"

definition children :: "db \<Rightarrow> uuid \<Rightarrow> attempt_row list" where
  "children d rid = filter (\<lambda>a. ra_parent a = Some rid) (db_attempts d)"

definition started_request :: "uuid \<Rightarrow> request_row \<Rightarrow> bool" where
  "started_request rid r \<longleftrightarrow> pr_request_id r = rid \<and> pr_outcome r = ''started''"

definition new_attempt :: "time \<Rightarrow> uuid \<Rightarrow> str \<Rightarrow> uuid \<Rightarrow> uuid option \<Rightarrow> nat \<Rightarrow> attempt_row" where
  "new_attempt now rid profile key owner no =
     \<lparr>ra_request_id = rid, ra_parent = Some rid, ra_no = no, ra_profile = profile, ra_key = key,
      ra_owner = owner, ra_outcome = ''started'', ra_status = None, ra_error = None,
      ra_cooldown = None, ra_bytes = None, ra_ttfb = None, ra_response_started = False,
      ra_latency = None, ra_created_at = now, ra_finished_at = None\<rparr>"

definition insert_attempt :: "attempt_row \<Rightarrow> db \<Rightarrow> db option" where
  "insert_attempt a d =
     (if \<not> attempt_row_ok a \<or> \<not> has_key d (ra_key a) \<or> \<not> has_profile d (ra_profile a)
         \<or> \<not> is_none_or (has_instance d) (ra_owner a)
         \<or> list_ex (\<lambda>b. ra_parent b = ra_parent a \<and> ra_no b = ra_no a) (db_attempts d)
      then None else Some (d\<lparr>db_attempts := db_attempts d @ [a]\<rparr>))"

definition tx_attempt_started ::
    "time \<Rightarrow> uuid option \<Rightarrow> uuid \<Rightarrow> str \<Rightarrow> uuid \<Rightarrow> db \<Rightarrow> (unit \<times> db) option" where
  "tx_attempt_started now owner rid profile key d =
     (if length (filter (started_request rid) (db_requests d)) \<noteq> 1 then None
      else map_option (Pair ())
        (insert_attempt (new_attempt now rid profile key owner
           (foldl max 0 (map ra_no (children d rid)) + 1)) d))"

definition finish_attempt :: "time \<Rightarrow> attempt_terminal \<Rightarrow> attempt_row \<Rightarrow> attempt_row" where
  "finish_attempt now t a =
     a\<lparr>ra_outcome := at_outcome t, ra_status := at_status t, ra_error := at_error t,
       ra_cooldown := at_cooldown t, ra_bytes := at_bytes t,
       ra_latency := Some (elapsed_ms now (ra_created_at a)), ra_finished_at := Some now\<rparr>"

definition open_profile :: "uuid \<Rightarrow> uuid \<Rightarrow> uuid option \<Rightarrow> db \<Rightarrow> str option" where
  "open_profile rid key owner d =
     map_option (\<lambda>i. ra_profile (db_attempts d ! i)) (latest_index (open_attempt rid key owner) (db_attempts d))"

definition tx_open_profile :: "uuid option \<Rightarrow> uuid \<Rightarrow> uuid \<Rightarrow> db \<Rightarrow> (str \<times> db) option" where
  "tx_open_profile owner rid key d = map_option (\<lambda>p. (p, d)) (open_profile rid key owner d)"

definition tx_finish_attempt ::
    "time \<Rightarrow> uuid option \<Rightarrow> uuid \<Rightarrow> uuid \<Rightarrow> attempt_terminal \<Rightarrow> db \<Rightarrow> (unit \<times> db) option" where
  "tx_finish_attempt now owner rid key t d =
     map_option (\<lambda>rows. ((), d\<lparr>db_attempts := rows\<rparr>))
       (update_latest (open_attempt rid key owner) (finish_attempt now t) (db_attempts d))"

definition tx_receipt :: "time \<Rightarrow> str \<Rightarrow> uuid \<Rightarrow> db \<Rightarrow> (unit \<times> db) option" where
  "tx_receipt now profile key d = map_option (Pair ()) (upsert_receipt now profile key None d)"

definition tx_attempt_response_started ::
    "uuid option \<Rightarrow> uuid \<Rightarrow> uuid \<Rightarrow> int \<Rightarrow> db \<Rightarrow> (unit \<times> db) option" where
  "tx_attempt_response_started owner rid key ttfb d =
     map_option (\<lambda>rows. ((), d\<lparr>db_attempts := rows\<rparr>))
       (update_latest (open_attempt rid key owner)
          (\<lambda>a. a\<lparr>ra_response_started := True, ra_ttfb := Some ttfb\<rparr>) (db_attempts d))"

section \<open>Requests\<close>

definition new_request ::
    "time \<Rightarrow> uuid \<Rightarrow> uuid \<Rightarrow> uuid option \<Rightarrow> str \<Rightarrow> str \<Rightarrow> bool \<Rightarrow> str \<Rightarrow> request_row" where
  "new_request now owner rid client endpoint profile stream modality =
     \<lparr>pr_request_id = rid, pr_owner = Some owner, pr_client = client, pr_endpoint = endpoint,
      pr_profile = profile, pr_stream = stream, pr_modality = modality, pr_outcome = ''started'',
      pr_status = None, pr_error = None, pr_duration = None, pr_ttfb = None, pr_failover = 0,
      pr_started_at = now, pr_finished_at = None,
      pr_rolled_up = None\<rparr>"

definition insert_request :: "request_row \<Rightarrow> db \<Rightarrow> db option" where
  "insert_request r d =
     (if \<not> request_row_ok r \<or> \<not> has_profile d (pr_profile r)
         \<or> \<not> is_none_or (has_instance d) (pr_owner r) \<or> \<not> is_none_or (has_client d) (pr_client r)
         \<or> list_ex (\<lambda>q. pr_request_id q = pr_request_id r) (db_requests d)
      then None else Some (d\<lparr>db_requests := db_requests d @ [r]\<rparr>))"

definition tx_request_started ::
    "time \<Rightarrow> uuid \<Rightarrow> uuid \<Rightarrow> uuid option \<Rightarrow> str \<Rightarrow> str \<Rightarrow> bool \<Rightarrow> str \<Rightarrow> db \<Rightarrow> (unit \<times> db) option" where
  "tx_request_started now owner rid client endpoint profile stream modality d =
     map_option (Pair ())
       (insert_request (new_request now owner rid client endpoint profile stream modality) d)"

text \<open>\<open>GREATEST(0, count(*) - 1)\<close> over the attempts of the request.\<close>

definition failover_count :: "db \<Rightarrow> uuid \<Rightarrow> nat" where
  "failover_count d rid = length (children d rid) - 1"

definition finish_request ::
    "time \<Rightarrow> db \<Rightarrow> str \<Rightarrow> nat option \<Rightarrow> str option \<Rightarrow> int option \<Rightarrow> request_row \<Rightarrow> request_row" where
  "finish_request now d outcome status e ttfb r =
     r\<lparr>pr_outcome := outcome, pr_status := status, pr_error := e,
       pr_duration := Some (elapsed_ms now (pr_started_at r)), pr_ttfb := ttfb,
       pr_failover := failover_count d (pr_request_id r), pr_finished_at := Some now\<rparr>"

definition tx_request_finished ::
    "time \<Rightarrow> uuid \<Rightarrow> str \<Rightarrow> nat option \<Rightarrow> str option \<Rightarrow> int option \<Rightarrow> db \<Rightarrow> (unit \<times> db) option" where
  "tx_request_finished now rid outcome status e ttfb d =
     map_option (\<lambda>rows. ((), d\<lparr>db_requests := rows\<rparr>))
       (update_one (started_request rid)
          (\<lambda>r. checked request_row_ok (finish_request now d outcome status e ttfb r)) (db_requests d))"

text \<open>The final attempt, the receipt of a success and the request in one transaction.\<close>

definition tx_request_and_attempt_finished ::
    "time \<Rightarrow> uuid option \<Rightarrow> uuid \<Rightarrow> uuid \<Rightarrow> attempt_terminal \<Rightarrow> request_terminal \<Rightarrow> db \<Rightarrow> (unit \<times> db) option" where
  "tx_request_and_attempt_finished now owner rid key att req d =
     Option.bind (open_profile rid key owner d) (\<lambda>profile.
     Option.bind (tx_finish_attempt now owner rid key att d) (\<lambda>(_, d).
     Option.bind (if at_outcome att = ''succeeded'' then tx_receipt now profile key d else Some ((), d)) (\<lambda>(_, d).
       tx_request_finished now rid (rq_outcome req) (rq_status req) (rq_error req) (rq_ttfb req) d)))"

definition close_open_attempt ::
    "time \<Rightarrow> str \<Rightarrow> nat option \<Rightarrow> str \<Rightarrow> int option \<Rightarrow> nat \<Rightarrow> attempt_row \<Rightarrow> attempt_row" where
  "close_open_attempt now outcome status e ttfb bytes_out a =
     a\<lparr>ra_outcome := outcome, ra_status := status, ra_error := Some e,
       ra_bytes := Some (i64_bytes bytes_out),
       ra_ttfb := (case ra_ttfb a of Some t \<Rightarrow> Some t | None \<Rightarrow> ttfb),
       ra_response_started := (ra_response_started a \<or> ttfb \<noteq> None),
       ra_latency := Some (elapsed_ms now (ra_created_at a)), ra_finished_at := Some now\<rparr>"

definition tx_request_and_open_attempts_finished ::
    "time \<Rightarrow> uuid \<Rightarrow> uuid \<Rightarrow> str \<Rightarrow> nat option \<Rightarrow> str \<Rightarrow> int option \<Rightarrow> nat \<Rightarrow> db \<Rightarrow> (unit \<times> db) option" where
  "tx_request_and_open_attempts_finished now owner rid outcome status e ttfb bytes_out d =
     (let p = (\<lambda>a. ra_request_id a = rid \<and> ra_owner a = Some owner \<and> ra_finished_at a = None);
          f = close_open_attempt now outcome status e ttfb bytes_out;
          d1 = d\<lparr>db_attempts := update_where p f (db_attempts d)\<rparr>
      in if list_ex (\<lambda>a. p a \<and> \<not> attempt_row_ok (f a)) (db_attempts d) then None
         else tx_request_finished now rid outcome status (Some e) ttfb d1)"

section \<open>Selection\<close>

definition fresh_receipt :: "time \<Rightarrow> db \<Rightarrow> str \<Rightarrow> uuid \<Rightarrow> bool" where
  "fresh_receipt now d profile key \<longleftrightarrow>
     list_ex (\<lambda>r. rc_profile r = profile \<and> rc_key r = key \<and> rc_invalidated_at r = None
                 \<and> is_some_and (\<lambda>s. now - secs (int (se_freshness s)) \<le> rc_verified_at r) (db_settings d))
       (db_receipts d)"

definition hard_eligible :: "time \<Rightarrow> db \<Rightarrow> uuid \<Rightarrow> str \<Rightarrow> key_row \<Rightarrow> bool" where
  "hard_eligible now d owner profile k \<longleftrightarrow>
     \<not> kr_retired (kw_key k) \<and> kr_enabled (kw_key k) \<and> kr_verified (kw_key k) \<and>
     is_none_or (\<lambda>t. t \<le> now) (kr_cooldown_until (kw_key k)) \<and>
     fresh_receipt now d profile (kr_id (kw_key k)) \<and> live_instance now d (Some owner)"

definition candidates :: "time \<Rightarrow> db \<Rightarrow> uuid \<Rightarrow> str \<Rightarrow> key_row list" where
  "candidates now d owner profile =
     sort_key kw_slot (filter (hard_eligible now d owner profile) (db_keys d))"

definition pick_slot :: "nat \<Rightarrow> key_row list \<Rightarrow> key_row option" where
  "pick_slot slot ks =
     (case List.find (\<lambda>k. kw_slot k = slot) ks of
        Some k \<Rightarrow> Some k
      | None \<Rightarrow> (case ks of [] \<Rightarrow> None | k # _ \<Rightarrow> Some k))"

definition following_slot :: "nat \<Rightarrow> nat" where
  "following_slot slot = (if slot = 1 then 2 else 1)"

definition advance_cursor :: "str \<Rightarrow> nat \<Rightarrow> db \<Rightarrow> db" where
  "advance_cursor profile slot d =
     d\<lparr>db_routing := update_where (\<lambda>r. rt_profile r = profile)
        (\<lambda>r. r\<lparr>rt_next_slot := slot, rt_generation := rt_generation r + 1\<rparr>) (db_routing d)\<rparr>"

definition routing_slot :: "str \<Rightarrow> db \<Rightarrow> nat option" where
  "routing_slot profile d =
     map_option rt_next_slot (List.find (\<lambda>r. rt_profile r = profile) (db_routing d))"

text \<open>The row written when no key can be selected.\<close>

definition rejected_request :: "time \<Rightarrow> request_row \<Rightarrow> request_row" where
  "rejected_request now r =
     r\<lparr>pr_outcome := ''failed'', pr_status := Some 503, pr_error := Some ''no_eligible_upstream'',
       pr_duration := Some 0, pr_failover := 0, pr_finished_at := Some now\<rparr>"

definition tx_select_and_start ::
    "time \<Rightarrow> uuid \<Rightarrow> uuid \<Rightarrow> uuid option \<Rightarrow> str \<Rightarrow> str \<Rightarrow> bool \<Rightarrow> str \<Rightarrow> db \<Rightarrow> (uuid option \<times> db) option" where
  "tx_select_and_start now owner rid client endpoint profile stream modality d =
     Option.bind (routing_slot profile d) (\<lambda>slot.
       let request = new_request now owner rid client endpoint profile stream modality
       in case pick_slot slot (candidates now d owner profile) of
            None \<Rightarrow> map_option (Pair None) (insert_request (rejected_request now request) d)
          | Some k \<Rightarrow>
              Option.bind (insert_request request
                  (advance_cursor profile (following_slot (kw_slot k)) d)) (\<lambda>d.
                map_option (Pair (Some (kr_id (kw_key k))))
                  (insert_attempt (new_attempt now rid profile (kr_id (kw_key k)) (Some owner) 1) d)))"

text \<open>The selection of \<open>select_initial_key\<close> with a database, and that of \<open>select_failover_key\<close>.\<close>

definition tx_select_initial :: "time \<Rightarrow> uuid \<Rightarrow> str \<Rightarrow> db \<Rightarrow> ((uuid \<times> nat) \<times> db) option" where
  "tx_select_initial now owner profile d =
     Option.bind (routing_slot profile d) (\<lambda>slot.
     Option.bind (pick_slot slot (candidates now d owner profile)) (\<lambda>k.
       Some ((kr_id (kw_key k), following_slot (kw_slot k)),
             advance_cursor profile (following_slot (kw_slot k)) d)))"

definition tx_select_failover :: "time \<Rightarrow> uuid \<Rightarrow> str \<Rightarrow> uuid list \<Rightarrow> db \<Rightarrow> (uuid \<times> db) option" where
  "tx_select_failover now owner profile attempted d =
     (case filter (\<lambda>k. kr_id (kw_key k) \<notin> set attempted) (candidates now d owner profile) of
        [] \<Rightarrow> None
      | k # _ \<Rightarrow> Some (kr_id (kw_key k), d))"

section \<open>Permits\<close>

datatype permit_error =
    Expired | ModelForbidden | RateLimited nat | DailyLimit | ConcurrencyLimit | StoreUnavailable

definition trunc_to :: "duration \<Rightarrow> time \<Rightarrow> time" where
  "trunc_to unit_ns t = t - t mod unit_ns"

definition permits_since :: "uuid \<Rightarrow> time \<Rightarrow> db \<Rightarrow> nat" where
  "permits_since client t d =
     length (filter (\<lambda>p. pm_client p = client \<and> t \<le> pm_acquired_at p) (db_permits d))"

definition active_permits :: "uuid \<Rightarrow> db \<Rightarrow> nat" where
  "active_permits client d =
     length (filter (\<lambda>p. pm_client p = client \<and> pm_released_at p = None) (db_permits d))"

text \<open>Seconds to the next minute, rounded up, at least one.\<close>

definition retry_hint :: "time \<Rightarrow> nat" where
  "retry_hint now =
     nat (max 1 (- ((now - (trunc_to (secs 60) now + secs 60)) div secs 1)))"

definition at_limit :: "nat option \<Rightarrow> nat \<Rightarrow> bool" where
  "at_limit limit n = is_some_and (\<lambda>l. l \<le> n) limit"

text \<open>
  The checks in the code's order; \<open>utc\<close> is the process's clock, \<open>now\<close> the database's, and
  \<open>hint\<close> is \<open>None\<close> when the query for the hint fails.
\<close>

definition permit_check ::
    "time \<Rightarrow> time \<Rightarrow> nat option \<Rightarrow> str \<Rightarrow> client_row \<Rightarrow> db \<Rightarrow> permit_error option" where
  "permit_check utc now hint profile c d =
     (let i = dr_id (cw_client c) in
      if \<not> dr_active (cw_client c) \<or> is_some_and (\<lambda>t. t \<le> utc) (cw_expires_at c) then Some Expired
      else if is_some_and (\<lambda>ms. profile \<notin> set ms) (cw_model_allowlist c) then Some ModelForbidden
      else if at_limit (cw_rpm_limit c) (permits_since i (trunc_to (secs 60) now) d)
      then Some (RateLimited (unwrap_or 60 hint))
      else if at_limit (cw_request_limit_day c) (permits_since i (trunc_to (secs 86400) now) d)
      then Some DailyLimit
      else if at_limit (cw_max_concurrency c) (active_permits i d) then Some ConcurrencyLimit
      else None)"

definition tx_acquire_permit ::
    "time \<Rightarrow> time \<Rightarrow> nat option \<Rightarrow> uuid \<Rightarrow> uuid \<Rightarrow> uuid \<Rightarrow> str \<Rightarrow> db \<Rightarrow> ((permit_error + unit) \<times> db) option" where
  "tx_acquire_permit utc now hint owner rid client profile d =
     (case List.find (\<lambda>c. dr_id (cw_client c) = client) (db_clients d) of
        None \<Rightarrow> Some (Err Expired, d)
      | Some c \<Rightarrow>
          (case permit_check utc now hint profile c d of
             Some e \<Rightarrow> Some (Err e, d)
           | None \<Rightarrow>
               if list_ex (\<lambda>p. pm_request_id p = rid) (db_permits d)
                  \<or> \<not> has_instance d owner \<or> \<not> has_profile d profile
               then None
               else Some (Ok (), d\<lparr>db_permits := db_permits d @
                      [\<lparr>pm_request_id = rid, pm_client = client, pm_owner = Some owner,
                        pm_profile = profile, pm_acquired_at = now, pm_released_at = None\<rparr>]\<rparr>)))"

definition tx_release_permit :: "time \<Rightarrow> uuid \<Rightarrow> db \<Rightarrow> (unit \<times> db) option" where
  "tx_release_permit now rid d =
     (let rows = update_where (\<lambda>p. pm_request_id p = rid)
            (\<lambda>p. p\<lparr>pm_released_at := Some (unwrap_or now (pm_released_at p))\<rparr>) (db_permits d)
      in if list_all permit_row_ok rows then Some ((), d\<lparr>db_permits := rows\<rparr>) else None)"

section \<open>Owner leases and recovery\<close>

definition tx_heartbeat :: "time \<Rightarrow> uuid \<Rightarrow> db \<Rightarrow> (unit \<times> db) option" where
  "tx_heartbeat now owner d =
     map_option (\<lambda>rows. ((), d\<lparr>db_instances := rows\<rparr>))
       (update_one (\<lambda>r. in_id r = owner) (\<lambda>r. Some (r\<lparr>in_last_seen := now\<rparr>)) (db_instances d))"

definition abandon_attempts :: "time \<Rightarrow> db \<Rightarrow> db" where
  "abandon_attempts now d =
     d\<lparr>db_attempts := update_where
         (\<lambda>a. ra_finished_at a = None \<and> ra_owner a \<noteq> None \<and> \<not> live_instance now d (ra_owner a))
         (\<lambda>a. a\<lparr>ra_outcome := ''abandoned_after_restart'', ra_finished_at := Some now\<rparr>) (db_attempts d)\<rparr>"

definition abandon_permits :: "time \<Rightarrow> db \<Rightarrow> db" where
  "abandon_permits now d =
     d\<lparr>db_permits := update_where
         (\<lambda>p. pm_released_at p = None \<and> \<not> live_instance now d (pm_owner p))
         (\<lambda>p. p\<lparr>pm_released_at := Some now\<rparr>) (db_permits d)\<rparr>"

definition abandon_request :: "time \<Rightarrow> db \<Rightarrow> request_row \<Rightarrow> request_row" where
  "abandon_request now d r =
     r\<lparr>pr_outcome := ''abandoned_after_restart'', pr_error := Some ''owner_lease_expired'',
       pr_duration := Some (elapsed_ms now (pr_started_at r)),
       pr_failover := failover_count d (pr_request_id r), pr_finished_at := Some now\<rparr>"

definition abandon_requests :: "time \<Rightarrow> db \<Rightarrow> db" where
  "abandon_requests now d =
     d\<lparr>db_requests := update_where
         (\<lambda>r. pr_finished_at r = None \<and> (pr_owner r = None \<or> \<not> live_instance now d (pr_owner r)))
         (abandon_request now d) (db_requests d)\<rparr>"

text \<open>The two statements of \<open>cleanup_stale_attempts\<close>, and \<open>cleanup_stale_proxy_requests\<close>.\<close>

definition tx_cleanup_attempts :: "time \<Rightarrow> db \<Rightarrow> (unit \<times> db) option" where
  "tx_cleanup_attempts now d = Some ((), abandon_attempts now d)"

definition tx_cleanup_permits :: "time \<Rightarrow> db \<Rightarrow> (unit \<times> db) option" where
  "tx_cleanup_permits now d =
     (if list_all permit_row_ok (db_permits (abandon_permits now d))
      then Some ((), abandon_permits now d) else None)"

definition tx_cleanup_requests :: "time \<Rightarrow> db \<Rightarrow> (unit \<times> db) option" where
  "tx_cleanup_requests now d =
     (if list_all request_row_ok (db_requests (abandon_requests now d))
      then Some ((), abandon_requests now d) else None)"

text \<open>
  The startup transaction of \<open>VaultStore::open\<close>: register the lease, abandon what expired
  owners left, prune their leases (\<open>ON DELETE SET NULL\<close> clears the owners of their rows).
\<close>

definition prune_instances :: "time \<Rightarrow> uuid \<Rightarrow> db \<Rightarrow> db" where
  "prune_instances now owner d =
     (let gone = (\<lambda>o'. is_some_and (\<lambda>i. i \<noteq> owner \<and>
            list_ex (\<lambda>r. in_id r = i \<and> in_last_seen r < now - secs 30) (db_instances d)) o')
      in d\<lparr>db_instances := filter (\<lambda>r. \<not> (in_last_seen r < now - secs 30 \<and> in_id r \<noteq> owner)) (db_instances d),
           db_attempts := update_where (\<lambda>a. gone (ra_owner a)) (\<lambda>a. a\<lparr>ra_owner := None\<rparr>) (db_attempts d),
           db_requests := update_where (\<lambda>r. gone (pr_owner r)) (\<lambda>r. r\<lparr>pr_owner := None\<rparr>) (db_requests d),
           db_permits := update_where (\<lambda>p. gone (pm_owner p)) (\<lambda>p. p\<lparr>pm_owner := None\<rparr>) (db_permits d)\<rparr>)"

definition tx_register_owner :: "time \<Rightarrow> uuid \<Rightarrow> db \<Rightarrow> (unit \<times> db) option" where
  "tx_register_owner now owner d =
     (if has_instance d owner then None
      else (let d1 = d\<lparr>db_instances := db_instances d @ [\<lparr>in_id = owner, in_last_seen = now\<rparr>]\<rparr>;
                d2 = abandon_permits now (abandon_requests now (abandon_attempts now d1))
            in if list_all request_row_ok (db_requests d2) \<and> list_all permit_row_ok (db_permits d2) then Some ((), prune_instances now owner d2)
               else None))"

section \<open>The controlled failure of a QA run\<close>

text \<open>The first unconsumed fixture of the client's running live failover suite, by kind.\<close>

definition fixture_armed :: "db \<Rightarrow> fixture_row \<Rightarrow> bool" where
  "fixture_armed d f \<longleftrightarrow>
     list_ex (\<lambda>r. qr_id r = fx_run f \<and> qr_status r = ''running'' \<and> qr_live r \<and> qr_suite r = ''failover'') (db_qa_runs d)"

definition fixture_index :: "uuid \<Rightarrow> db \<Rightarrow> nat option" where
  "fixture_index client d =
     (let rows = db_fixtures d;
          usable = (\<lambda>i. fx_client (rows ! i) = client \<and> fx_consumed_at (rows ! i) = None \<and> fixture_armed d (rows ! i));
          rank = (\<lambda>i. if fx_kind (rows ! i) = ''before_first_frame'' then 0 else (1::nat))
      in case sort_key rank (filter usable [0..<length rows]) of [] \<Rightarrow> None | i # _ \<Rightarrow> Some i)"

definition tx_consume_fixture ::
    "time \<Rightarrow> uuid \<Rightarrow> uuid \<Rightarrow> uuid \<Rightarrow> db \<Rightarrow> (str option \<times> db) option" where
  "tx_consume_fixture now client rid key d =
     (case fixture_index client d of
        None \<Rightarrow> Some (None, d)
      | Some i \<Rightarrow>
          if list_ex (\<lambda>f. fx_request f = Some rid) (db_fixtures d) \<or> \<not> has_key d key then None
          else Some (Some (fx_kind (db_fixtures d ! i)),
                     d\<lparr>db_fixtures := (db_fixtures d)[i := (db_fixtures d ! i)
                        \<lparr>fx_consumed_at := Some now, fx_request := Some rid, fx_key := Some key\<rparr>]\<rparr>))"

end
