(* ===== verification/Maintenance.thy ===== *)
theory Maintenance
  imports Ledger
begin

text \<open>
  The periodic transactions of \<open>evidence.rs\<close>: the rollup of terminal requests into the minute
  buckets (\<open>sql/rollup_request_metrics.sql\<close>) and the retention of old rows. Both run under the
  maintenance lock; \<open>got\<close> says whether \<open>pg_try_advisory_xact_lock\<close> gave it. Sums are unbounded
  here, and the session's time zone has days of 24 hours.
\<close>

section \<open>Rollup\<close>

definition ROLLUP_BATCH_SIZE :: nat where
  "ROLLUP_BATCH_SIZE = 500"

definition unrolled :: "request_row \<Rightarrow> bool" where
  "unrolled r \<longleftrightarrow> pr_finished_at r \<noteq> None \<and> pr_rolled_up r = None"

text \<open>
  \<open>ORDER BY finished_at, id LIMIT batch FOR UPDATE SKIP LOCKED\<close>: \<open>free\<close> are the rows no other
  transaction holds, \<open>rank\<close> orders the random row identifiers.
\<close>

definition selected_requests ::
    "(uuid \<Rightarrow> bool) \<Rightarrow> (uuid \<Rightarrow> nat) \<Rightarrow> nat \<Rightarrow> db \<Rightarrow> request_row list" where
  "selected_requests free rank batch d =
     take batch
       (sort_key (\<lambda>r. unwrap_or 0 (pr_finished_at r))
         (sort_key (\<lambda>r. rank (pr_request_id r))
           (filter (\<lambda>r. unrolled r \<and> free (pr_request_id r)) (db_requests d))))"

definition outcome_class :: "request_row \<Rightarrow> str" where
  "outcome_class r =
     (if pr_outcome r = ''succeeded'' then ''success''
      else if pr_outcome r = ''cancelled'' then ''cancelled''
      else if pr_outcome r = ''rejected'' then ''rejected''
      else if pr_outcome r \<in> {''failed'', ''abandoned_after_restart''} then ''upstream_error''
      else if is_some_and (\<lambda>n. 400 \<le> n \<and> n \<le> 499) (pr_status r) then ''client_error''
      else ''upstream_error'')"

type_synonym bucket = "time \<times> str \<times> str \<times> str"

definition bucket_of :: "request_row \<Rightarrow> bucket" where
  "bucket_of r =
     (trunc_to (secs 60) (unwrap_or 0 (pr_finished_at r)), pr_endpoint r, pr_profile r, outcome_class r)"

definition metric_key :: "metric_row \<Rightarrow> bucket" where
  "metric_key m = (me_start m, me_endpoint m, me_profile m, me_class m)"

definition samples_where :: "(int \<Rightarrow> bool) \<Rightarrow> int option list \<Rightarrow> nat" where
  "samples_where p xs = length (filter (is_some_and p) xs)"

definition histogram_of :: "int option list \<Rightarrow> histogram" where
  "histogram_of xs =
     \<lparr>hg_sum = sum_list (map (unwrap_or 0) xs), hg_samples = samples_where (\<lambda>_. True) xs,
      hg_le_250 = samples_where (\<lambda>n. n \<le> 250) xs, hg_le_500 = samples_where (\<lambda>n. n \<le> 500) xs,
      hg_le_1000 = samples_where (\<lambda>n. n \<le> 1000) xs, hg_le_2500 = samples_where (\<lambda>n. n \<le> 2500) xs,
      hg_le_5000 = samples_where (\<lambda>n. n \<le> 5000) xs, hg_gt_5000 = samples_where (\<lambda>n. 5000 < n) xs\<rparr>"

definition add_histogram :: "histogram \<Rightarrow> histogram \<Rightarrow> histogram" where
  "add_histogram a b =
     \<lparr>hg_sum = hg_sum a + hg_sum b, hg_samples = hg_samples a + hg_samples b,
      hg_le_250 = hg_le_250 a + hg_le_250 b, hg_le_500 = hg_le_500 a + hg_le_500 b,
      hg_le_1000 = hg_le_1000 a + hg_le_1000 b, hg_le_2500 = hg_le_2500 a + hg_le_2500 b,
      hg_le_5000 = hg_le_5000 a + hg_le_5000 b, hg_gt_5000 = hg_gt_5000 a + hg_gt_5000 b\<rparr>"

text \<open>The row of one group, and \<open>ON CONFLICT DO UPDATE\<close> adding it to what the bucket holds.\<close>

definition metric_of :: "bucket \<Rightarrow> request_row list \<Rightarrow> metric_row" where
  "metric_of b rows =
     (case b of (start, endpoint, profile, cls) \<Rightarrow>
        \<lparr>me_start = start, me_endpoint = endpoint, me_profile = profile, me_class = cls,
         me_requests = length rows, me_failovers = sum_list (map pr_failover rows),
         me_duration = histogram_of (map pr_duration rows), me_ttfb = histogram_of (map pr_ttfb rows)\<rparr>)"

definition add_metric :: "metric_row \<Rightarrow> metric_row \<Rightarrow> metric_row" where
  "add_metric e m =
     m\<lparr>me_requests := me_requests m + me_requests e, me_failovers := me_failovers m + me_failovers e,
       me_duration := add_histogram (me_duration m) (me_duration e),
       me_ttfb := add_histogram (me_ttfb m) (me_ttfb e)\<rparr>"

definition upsert_metric :: "metric_row \<Rightarrow> metric_row list \<Rightarrow> metric_row list" where
  "upsert_metric e ms =
     (if list_ex (\<lambda>m. metric_key m = metric_key e) ms
      then update_where (\<lambda>m. metric_key m = metric_key e) (add_metric e) ms else ms @ [e])"

definition aggregated :: "request_row list \<Rightarrow> metric_row list" where
  "aggregated rows =
     map (\<lambda>b. metric_of b (filter (\<lambda>r. bucket_of r = b) rows)) (remdups (map bucket_of rows))"

definition tx_rollup ::
    "bool \<Rightarrow> (uuid \<Rightarrow> bool) \<Rightarrow> (uuid \<Rightarrow> nat) \<Rightarrow> time \<Rightarrow> db \<Rightarrow> (nat \<times> db) option" where
  "tx_rollup got free rank now d =
     (if \<not> got then Some (0, d)
      else let rows = selected_requests free rank ROLLUP_BATCH_SIZE d;
               ids = map pr_request_id rows
           in Some (length rows,
                d\<lparr>db_metrics := fold upsert_metric (aggregated rows) (db_metrics d),
                  db_requests := update_where (\<lambda>r. pr_request_id r \<in> set ids)
                    (\<lambda>r. r\<lparr>pr_rolled_up := Some now\<rparr>) (db_requests d)\<rparr>))"

section \<open>Retention\<close>

definition AUDIT_AND_QA_RETENTION_DAYS :: nat where
  "AUDIT_AND_QA_RETENTION_DAYS = 180"

text \<open>\<open>now() - make_interval(days=>n)\<close>.\<close>

definition days_ago :: "time \<Rightarrow> nat \<Rightarrow> time" where
  "days_ago now n = now - secs (86400 * int n)"

definition request_expired :: "time \<Rightarrow> settings_row \<Rightarrow> request_row \<Rightarrow> bool" where
  "request_expired now s r \<longleftrightarrow>
     pr_finished_at r \<noteq> None \<and>
     pr_started_at r < days_ago now
       (if pr_rolled_up r \<noteq> None then se_request_retention s else se_metric_retention s)"

definition attempt_expired :: "time \<Rightarrow> settings_row \<Rightarrow> attempt_row \<Rightarrow> bool" where
  "attempt_expired now s a \<longleftrightarrow>
     ra_finished_at a \<noteq> None \<and> ra_created_at a < days_ago now (se_request_retention s)"

definition permit_expired :: "time \<Rightarrow> settings_row \<Rightarrow> permit_row \<Rightarrow> bool" where
  "permit_expired now s p \<longleftrightarrow>
     pm_released_at p \<noteq> None \<and> pm_acquired_at p < days_ago now (se_request_retention s)"

definition probe_expired :: "time \<Rightarrow> settings_row \<Rightarrow> probe_row \<Rightarrow> bool" where
  "probe_expired now s p \<longleftrightarrow>
     pb_finished_at p \<noteq> None \<and> pb_created_at p < days_ago now (se_metric_retention s)"

definition run_expired :: "time \<Rightarrow> qa_run_row \<Rightarrow> bool" where
  "run_expired now r \<longleftrightarrow>
     qr_finished_at r \<noteq> None \<and> qr_created_at r < days_ago now AUDIT_AND_QA_RETENTION_DAYS"

text \<open>
  Each \<open>DELETE\<close> with what its foreign keys do: the attempts of a request and the receipt of a
  probe stay with their reference cleared, the cases and the fixtures of a QA run go with it.
\<close>

definition expire_requests :: "time \<Rightarrow> settings_row \<Rightarrow> db \<Rightarrow> nat \<times> db" where
  "expire_requests now s d =
     (let gone = filter (request_expired now s) (db_requests d)
      in (length gone,
          d\<lparr>db_requests := filter (\<lambda>r. \<not> request_expired now s r) (db_requests d),
            db_attempts := update_where
              (\<lambda>a. is_some_and (\<lambda>i. i \<in> set (map pr_request_id gone)) (ra_parent a))
              (\<lambda>a. a\<lparr>ra_parent := None\<rparr>) (db_attempts d)\<rparr>))"

definition expire_permits :: "time \<Rightarrow> settings_row \<Rightarrow> db \<Rightarrow> nat \<times> db" where
  "expire_permits now s d =
     (length (filter (permit_expired now s) (db_permits d)),
      d\<lparr>db_permits := filter (\<lambda>p. \<not> permit_expired now s p) (db_permits d)\<rparr>)"

definition expire_attempts :: "time \<Rightarrow> settings_row \<Rightarrow> db \<Rightarrow> nat \<times> db" where
  "expire_attempts now s d =
     (length (filter (attempt_expired now s) (db_attempts d)),
      d\<lparr>db_attempts := filter (\<lambda>a. \<not> attempt_expired now s a) (db_attempts d)\<rparr>)"

definition expire_metrics :: "time \<Rightarrow> settings_row \<Rightarrow> db \<Rightarrow> nat \<times> db" where
  "expire_metrics now s d =
     (let old = (\<lambda>m. me_start m < days_ago now (se_metric_retention s))
      in (length (filter old (db_metrics d)), d\<lparr>db_metrics := filter (\<lambda>m. \<not> old m) (db_metrics d)\<rparr>))"

definition expire_capacity :: "time \<Rightarrow> settings_row \<Rightarrow> db \<Rightarrow> nat \<times> db" where
  "expire_capacity now s d =
     (let old = (\<lambda>c. ca_start c < days_ago now (se_metric_retention s))
      in (length (filter old (db_capacity d)), d\<lparr>db_capacity := filter (\<lambda>c. \<not> old c) (db_capacity d)\<rparr>))"

definition expire_probes :: "time \<Rightarrow> settings_row \<Rightarrow> db \<Rightarrow> nat \<times> db" where
  "expire_probes now s d =
     (let gone = filter (probe_expired now s) (db_probes d)
      in (length gone,
          d\<lparr>db_probes := filter (\<lambda>p. \<not> probe_expired now s p) (db_probes d),
            db_receipts := update_where
              (\<lambda>r. is_some_and (\<lambda>i. i \<in> set (map pb_id gone)) (rc_probe r))
              (\<lambda>r. r\<lparr>rc_probe := None\<rparr>) (db_receipts d)\<rparr>))"

definition expire_audit :: "time \<Rightarrow> db \<Rightarrow> nat \<times> db" where
  "expire_audit now d =
     (let old = (\<lambda>e. ae_created_at e < days_ago now AUDIT_AND_QA_RETENTION_DAYS)
      in (length (filter old (db_audit d)), d\<lparr>db_audit := filter (\<lambda>e. \<not> old e) (db_audit d)\<rparr>))"

definition expire_qa_runs :: "time \<Rightarrow> db \<Rightarrow> nat \<times> db" where
  "expire_qa_runs now d =
     (let gone = filter (run_expired now) (db_qa_runs d);
          ids = map qr_id gone
      in (length gone,
          d\<lparr>db_qa_runs := filter (\<lambda>r. \<not> run_expired now r) (db_qa_runs d),
            db_qa_cases := filter (\<lambda>c. qc_run c \<notin> set ids) (db_qa_cases d),
            db_fixtures := filter (\<lambda>f. fx_run f \<notin> set ids) (db_fixtures d)\<rparr>))"

definition expire_all :: "time \<Rightarrow> settings_row \<Rightarrow> db \<Rightarrow> nat \<times> db" where
  "expire_all now s d =
     foldl (\<lambda>(n, d) expire. case expire d of (m, d') \<Rightarrow> (n + m, d')) (0, d)
       [expire_requests now s, expire_permits now s, expire_attempts now s, expire_metrics now s,
        expire_capacity now s, expire_probes now s, expire_audit now, expire_qa_runs now]"

definition tx_retention :: "bool \<Rightarrow> time \<Rightarrow> db \<Rightarrow> (nat \<times> db) option" where
  "tx_retention got now d =
     (if \<not> got then Some (0, d) else map_option (\<lambda>s. expire_all now s d) (db_settings d))"

end
