(* ===== verification/Sync_Props.thy ===== *)
theory Sync_Props
  imports Sync
begin

text \<open>
  The write-through is a refinement: when the tables hold exactly the rows of the previous
  snapshot, a committed delta leaves them holding exactly the rows of the current one. The
  argument is the same for the two credential tables; it is made once, in a locale, and
  interpreted on both.
\<close>

section \<open>One table following a list of records\<close>

definition put_record :: "('x \<Rightarrow> uuid) \<Rightarrow> 'x \<Rightarrow> 'x list \<Rightarrow> 'x list" where
  "put_record ident c xs = map (\<lambda>x. if ident x = ident c then c else x) xs"

lemma put_record_ids [simp]: "map ident (put_record ident c xs) = map ident xs"
  by (induction xs) (auto simp: put_record_def)

lemma put_record_twice:
  "ident b = ident c \<Longrightarrow> put_record ident c (put_record ident b xs) = put_record ident c xs"
  by (simp add: put_record_def)

lemma put_record_member: "x \<in> set xs \<Longrightarrow> ident x = ident c \<Longrightarrow> c \<in> set (put_record ident c xs)"
  by (force simp: put_record_def)

lemma put_record_same:
  "distinct (map ident xs) \<Longrightarrow> x \<in> set xs \<Longrightarrow> put_record ident x xs = xs"
  unfolding put_record_def by (rule map_idI) (auto simp: distinct_map inj_on_def)

lemma list_all2_ids:
  "list_all2 (\<lambda>p c. ident p = ident c \<and> evolves p c) ps cs \<Longrightarrow> map ident ps = map ident cs"
  by (induction rule: list_all2_induct) auto

lemma put_record_middle:
  "distinct (map ident (pre @ p # post)) \<Longrightarrow> ident p = ident c \<Longrightarrow>
   put_record ident c (pre @ p # post) = pre @ c # post"
  by (auto simp: put_record_def image_iff intro!: map_idI)

locale mirrored_table =
  fixes ident :: "'x \<Rightarrow> uuid"
    and rows :: "db \<Rightarrow> 'x list"
    and step :: "'x list \<Rightarrow> 'x \<Rightarrow> db \<Rightarrow> db option"
    and evolves :: "'x \<Rightarrow> 'x \<Rightarrow> bool"
  assumes step_existing:
    "\<lbrakk>step prev c d = Some d'; distinct (map ident prev); p \<in> set prev; ident p = ident c;
      evolves p c; distinct (map ident (rows d)); p \<in> set (rows d)\<rbrakk>
     \<Longrightarrow> rows d' = put_record ident c (rows d)"
    and step_fresh:
    "\<lbrakk>step prev c d = Some d'; ident c \<notin> ident ` set prev\<rbrakk> \<Longrightarrow> rows d' = rows d @ [c]"
begin

lemma for_each_follows:
  assumes "for_each (step prev) cs d = Some d'" "rows d = pre @ ps"
    "distinct (map ident prev)" "set ps \<subseteq> set prev"
    "list_all2 (\<lambda>p c. ident p = ident c \<and> evolves p c) ps (take (length ps) cs)"
    "distinct (map ident (pre @ cs))"
    "ident ` set (drop (length ps) cs) \<inter> ident ` set prev = {}"
  shows "rows d' = pre @ cs"
  using assms
proof (induction cs arbitrary: d pre ps)
  case Nil
  then show ?case by simp
next
  case (Cons c cs)
  obtain d1 where d1: "step prev c d = Some d1" "for_each (step prev) cs d1 = Some d'"
    using Cons.prems(1) by (auto simp: bind_eq_Some_conv)
  show ?case
  proof (cases ps)
    case Nil
    then have "ident c \<notin> ident ` set prev" using Cons.prems(7) by auto
    then have "rows d1 = (pre @ [c]) @ []"
      using step_fresh [OF d1(1)] Cons.prems(2) Nil by simp
    from Cons.IH [OF d1(2) this Cons.prems(3)] show ?thesis
      using Cons.prems Nil by simp
  next
    case (Cons p ps')
    have ids: "map ident ps' = map ident (take (length ps') cs)"
      using list_all2_ids [OF Cons.prems(5)] Cons by simp
    have disj: "distinct (map ident (pre @ p # ps'))"
    proof -
      have "map ident (pre @ p # ps') = map ident (take (length pre + Suc (length ps')) (pre @ c # cs))"
        using Cons.prems(5) Cons ids by simp
      then show ?thesis
        using distinct_take [OF Cons.prems(6), of "length pre + Suc (length ps')"]
        by (simp only: take_map)
    qed
    have "rows d1 = put_record ident c (rows d)"
      by (rule step_existing [OF d1(1) Cons.prems(3), of p])
        (use Cons.prems(2,4,5) Cons disj in auto)
    also have "\<dots> = (pre @ [c]) @ ps'"
      using put_record_middle [OF disj] Cons.prems(2,5) Cons by simp
    finally have "rows d1 = (pre @ [c]) @ ps'" .
    from Cons.IH [OF d1(2) this Cons.prems(3)] show ?thesis
      using Cons.prems Cons by simp
  qed
qed

lemma follows:
  assumes "for_each (step (rows d)) cs d = Some d'" "distinct (map ident (rows d))"
    "list_all2 (\<lambda>p c. ident p = ident c \<and> evolves p c) (rows d) (take (length (rows d)) cs)"
    "distinct (map ident cs)"
  shows "rows d' = cs"
proof -
  have ids: "map ident (rows d) = map ident (take (length (rows d)) cs)"
    by (rule list_all2_ids [OF assms(3)])
  have "ident ` set (rows d) = ident ` set (take (length (rows d)) cs)"
    using arg_cong [OF ids, of set] by simp
  moreover have "distinct (map ident (take (length (rows d)) cs) @ map ident (drop (length (rows d)) cs))"
    using assms(4) by (simp flip: map_append)
  ultimately have "ident ` set (drop (length (rows d)) cs) \<inter> ident ` set (rows d) = {}"
    by (auto simp: distinct_append)
  then show ?thesis
    using for_each_follows [OF assms(1), of "[]" "rows d"] assms(2,3,4) by simp
qed

end

section \<open>Upstream keys\<close>

definition key_table :: "db \<Rightarrow> vault_key_record list" where
  "key_table d = map kw_key (db_keys d)"

definition client_table :: "db \<Rightarrow> vault_downstream_record list" where
  "client_table d = map cw_client (db_clients d)"

text \<open>What the operations of the vault never change in a row.\<close>

definition key_evolves :: "vault_key_record \<Rightarrow> vault_key_record \<Rightarrow> bool" where
  "key_evolves p c \<longleftrightarrow>
     kr_label c = kr_label p \<and> kr_fingerprint c = kr_fingerprint p \<and> kr_nonce c = kr_nonce p \<and>
     kr_ciphertext c = kr_ciphertext p"

definition client_evolves :: "vault_downstream_record \<Rightarrow> vault_downstream_record \<Rightarrow> bool" where
  "client_evolves p c \<longleftrightarrow>
     dr_label c = dr_label p \<and> dr_created_at c = dr_created_at p \<and>
     greatest_time (dr_last_used_at p) (dr_last_used_at c) = dr_last_used_at c"

lemma update_one_id:
  assumes "distinct (map key rows)" "r \<in> set rows"
  shows "update_one (\<lambda>x. key x = key r \<and> c x) f rows =
    (if c r then map_option (\<lambda>r'. update_where (\<lambda>x. key x = key r) (\<lambda>_. r') rows) (f r) else None)"
proof -
  have same: "x = r" if "x \<in> set rows" "key x = key r" for x
    using assms that by (auto simp: distinct_map inj_on_def)
  have "filter (\<lambda>x. key x = key r \<and> c x) rows = (if c r then [r] else [])"
    using assms
  proof (induction rows)
    case (Cons y ys)
    then show ?case by (auto simp: filter_empty_conv image_iff)
  qed simp
  moreover have "update_where (\<lambda>x. key x = key r \<and> c x) (\<lambda>_. r') rows =
      update_where (\<lambda>x. key x = key r) (\<lambda>_. r') rows" if "c r" for r'
    using same that by (auto simp: update_where_def)
  ultimately show ?thesis by (cases "f r") (auto simp: update_one_def)
qed

text \<open>One conditional update, seen on the records of the table.\<close>

lemma update_key_table:
  assumes "update_key i needed cond f d = Some d'" "distinct (map kr_id (key_table d))"
    "k \<in> set (key_table d)" "kr_id k = i" "\<And>x y. f x = Some y \<Longrightarrow> kr_id y = kr_id x"
  shows "\<exists>k'. (if needed then cond k \<and> f k = Some k' else k' = k) \<and> kr_id k' = i \<and>
    key_table d' = put_record kr_id k' (key_table d) \<and> client_table d' = client_table d"
proof (cases needed)
  case False
  then show ?thesis
    using assms by (auto simp: update_key_def put_record_same)
next
  case True
  obtain r where r: "r \<in> set (db_keys d)" "k = kw_key r" using assms(3) by (auto simp: key_table_def)
  have dist: "distinct (map (\<lambda>r. kr_id (kw_key r)) (db_keys d))"
    using assms(2) by (simp add: key_table_def comp_def)
  let ?f = "\<lambda>r. map_option (\<lambda>k. r\<lparr>kw_key := k\<rparr>) (f (kw_key r))"
  let ?p = "\<lambda>r'. kr_id (kw_key r') = kr_id (kw_key r) \<and> cond (kw_key r')"
  have i: "i = kr_id (kw_key r)" using assms(4) r(2) by simp
  obtain rows where rows: "update_one ?p ?f (db_keys d) = Some rows" "d' = d\<lparr>db_keys := rows\<rparr>"
    using assms(1) True unfolding update_key_def i
    by (simp add: bind_eq_Some_conv split: if_splits)
  have u: "update_one ?p ?f (db_keys d) =
      (if cond (kw_key r) then map_option (\<lambda>r'. update_where (\<lambda>x. kr_id (kw_key x) = kr_id (kw_key r))
         (\<lambda>_. r') (db_keys d)) (?f r) else None)"
    by (rule update_one_id [OF dist r(1)])
  have c: "cond k" using u rows(1) r(2) by (cases "cond (kw_key r)") auto
  then obtain k' where k': "f k = Some k'"
      "rows = update_where (\<lambda>x. kr_id (kw_key x) = kr_id k) (\<lambda>_. r\<lparr>kw_key := k'\<rparr>) (db_keys d)"
    using u rows(1) r(2) by (cases "f k") auto
  have "kr_id k' = i" using assms(4,5) k'(1) by simp
  moreover have "key_table d' = put_record kr_id k' (key_table d)"
    using rows(2) k'(2) \<open>kr_id k' = i\<close> assms(4)
    by (auto simp: key_table_def put_record_def update_where_def)
  moreover have "client_table d' = client_table d" using rows(2) by (simp add: client_table_def)
  ultimately show ?thesis using True k'(1) c by auto
qed

lemma count_delta_add: "count_delta n m = Some delta \<Longrightarrow> add_count m delta = Some n' \<Longrightarrow> n' = n"
  by (auto simp: count_delta_def i64_of_def add_count_def bind_eq_Some_conv split: if_splits)

lemma update_key_count_table:
  assumes "update_key_count i put get n m d = Some d'" "distinct (map kr_id (key_table d))"
    "k \<in> set (key_table d)" "kr_id k = i" "get k = m" "\<And>x y. kr_id (put x y) = kr_id y"
    "put (get k) k = k"
  shows "key_table d' = put_record kr_id (put n k) (key_table d) \<and> client_table d' = client_table d"
proof (cases "n = m")
  case True
  then have "d' = d" "put n k = k" using assms(1,5,7) by (simp_all add: update_key_count_def)
  then show ?thesis using put_record_same [OF assms(2,3)] by simp
next
  case False
  then obtain delta where d: "count_delta n m = Some delta"
      "update_key i True (\<lambda>_. True) (set_count put get delta) d = Some d'"
    using assms(1) by (auto simp: update_key_count_def bind_eq_Some_conv)
  have "kr_id y = kr_id x" if "set_count put get delta x = Some y" for x y
    using that assms(6) by (auto simp: set_count_def)
  from update_key_table [OF d(2) assms(2,3,4) this]
  obtain k' where k': "set_count put get delta k = Some k'"
      "key_table d' = put_record kr_id k' (key_table d)" "client_table d' = client_table d"
    by auto
  obtain n' where "add_count m delta = Some n'" "k' = put n' k"
    using k'(1) assms(5) by (auto simp: set_count_def)
  then have "k' = put n k" using count_delta_add [OF d(1)] by simp
  then show ?thesis using k' by simp
qed

lemma stale_receipts_table:
  "stale_receipts now p c d = Some d' \<Longrightarrow> key_table d' = key_table d \<and> client_table d' = client_table d"
  by (auto simp: stale_receipts_def Let_def key_table_def client_table_def split: if_splits)

lemma bind_SomeE:
  assumes "Option.bind x f = Some y"
  obtains z where "x = Some z" "f z = Some y"
  using assms by (auto simp: bind_eq_Some_conv)

text \<open>A field update while the table is the original one with row \<open>k\<close> put.\<close>

lemma update_field:
  assumes "update_key (kr_id k) (a \<noteq> b) cond f d = Some d'" "f k = Some k'" "a = b \<Longrightarrow> k' = k"
    "key_table d = put_record kr_id k T \<and> client_table d = C"
    "distinct (map kr_id T)" "kr_id k \<in> kr_id ` set T" "\<And>x y. f x = Some y \<Longrightarrow> kr_id y = kr_id x"
  shows "key_table d' = put_record kr_id k' T \<and> client_table d' = C"
proof -
  have d: "distinct (map kr_id (key_table d))" using assms(4,5) by simp
  have m: "k \<in> set (key_table d)" using assms(4,6) put_record_member [of _ T kr_id k] by auto
  from update_key_table [OF assms(1) d m refl assms(7)] obtain k'' where
    "if a \<noteq> b then cond k \<and> f k = Some k'' else k'' = k"
    "key_table d' = put_record kr_id k'' (key_table d)" "client_table d' = client_table d"
    by blast
  moreover have "kr_id k' = kr_id k" using assms(2,7) by blast
  ultimately show ?thesis
    using assms(2,3,4) by (cases "a = b") (simp_all add: put_record_twice)
qed

lemma update_count_field:
  assumes "update_key_count (kr_id k) put get n (get k) d = Some d'"
    "key_table d = put_record kr_id k T \<and> client_table d = C"
    "distinct (map kr_id T)" "kr_id k \<in> kr_id ` set T" "\<And>x y. kr_id (put x y) = kr_id y"
    "put (get k) k = k"
  shows "key_table d' = put_record kr_id (put n k) T \<and> client_table d' = C"
proof -
  have d: "distinct (map kr_id (key_table d))" using assms(2,3) by simp
  have m: "k \<in> set (key_table d)" using assms(2,4) put_record_member [of _ T kr_id k] by auto
  from update_key_count_table [OF assms(1) d m refl refl assms(5,6)] show ?thesis
    using assms(2,5) by (simp add: put_record_twice)
qed

lemma sync_existing_key_table:
  assumes "sync_existing_key now p c d = Some d'" "distinct (map kr_id (key_table d))"
    "p \<in> set (key_table d)" "kr_id p = kr_id c" "key_evolves p c"
  shows "key_table d' = put_record kr_id c (key_table d) \<and> client_table d' = client_table d"
proof -
  let ?T = "key_table d" and ?C = "client_table d"
  define k1 where "k1 = p\<lparr>kr_enabled := kr_enabled c\<rparr>"
  define k2 where "k2 = k1\<lparr>kr_verified := kr_verified c\<rparr>"
  define k3 where "k3 = k2\<lparr>kr_retired := kr_retired c\<rparr>"
  define k4 where "k4 = k3\<lparr>kr_cooldown_until := kr_cooldown_until c\<rparr>"
  define k5 where "k5 = k4\<lparr>kr_request_count := kr_request_count c\<rparr>"
  define k6 where "k6 = k5\<lparr>kr_failure_count := kr_failure_count c\<rparr>"
  note ks = k1_def k2_def k3_def k4_def k5_def k6_def
  have id: "kr_id k1 = kr_id p" "kr_id k2 = kr_id p" "kr_id k3 = kr_id p" "kr_id k4 = kr_id p"
    "kr_id k5 = kr_id p" by (simp_all add: ks)
  have m: "kr_id p \<in> kr_id ` set ?T" using assms(3) by simp
  obtain d1 d2 d3 d4 d5 d6 where s:
    "update_key (kr_id p) (kr_enabled c \<noteq> kr_enabled p) (\<lambda>k. kr_enabled k = kr_enabled p)
       (\<lambda>k. Some (k\<lparr>kr_enabled := kr_enabled c\<rparr>)) d = Some d1"
    "update_key (kr_id k1) (kr_verified c \<noteq> kr_verified p) (\<lambda>k. kr_verified k = kr_verified p)
       (\<lambda>k. Some (k\<lparr>kr_verified := kr_verified c\<rparr>)) d1 = Some d2"
    "update_key (kr_id k2) (kr_retired c \<noteq> kr_retired p) (\<lambda>k. kr_retired k = kr_retired p)
       (\<lambda>k. Some (k\<lparr>kr_retired := kr_retired c\<rparr>)) d2 = Some d3"
    "stale_receipts now p c d3 = Some d4"
    "update_key (kr_id k3) (kr_cooldown_until c \<noteq> kr_cooldown_until p)
       (\<lambda>k. kr_cooldown_until k = kr_cooldown_until p)
       (\<lambda>k. Some (k\<lparr>kr_cooldown_until := kr_cooldown_until c\<rparr>)) d4 = Some d5"
    "update_key_count (kr_id k4) (\<lambda>n. kr_request_count_update (\<lambda>_. n)) kr_request_count
       (kr_request_count c) (kr_request_count k4) d5 = Some d6"
    "update_key_count (kr_id k5) (\<lambda>n. kr_failure_count_update (\<lambda>_. n)) kr_failure_count
       (kr_failure_count c) (kr_failure_count k5) d6 = Some d'"
    using assms(1,4) id unfolding sync_existing_key_def Let_def
    by (simp add: bind_eq_Some_conv ks) metis
  have t0: "key_table d = put_record kr_id p ?T \<and> client_table d = ?C"
    using put_record_same [OF assms(2,3)] by simp
  have t1: "key_table d1 = put_record kr_id k1 ?T \<and> client_table d1 = ?C"
    by (rule update_field [OF s(1) _ _ t0 assms(2)]) (auto simp: ks m)
  have t2: "key_table d2 = put_record kr_id k2 ?T \<and> client_table d2 = ?C"
    by (rule update_field [OF s(2) _ _ t1 assms(2)]) (auto simp: ks m)
  have t3: "key_table d3 = put_record kr_id k3 ?T \<and> client_table d3 = ?C"
    by (rule update_field [OF s(3) _ _ t2 assms(2)]) (auto simp: ks m)
  have t4: "key_table d4 = put_record kr_id k3 ?T \<and> client_table d4 = ?C"
    using stale_receipts_table [OF s(4)] t3 by simp
  have t5: "key_table d5 = put_record kr_id k4 ?T \<and> client_table d5 = ?C"
    by (rule update_field [OF s(5) _ _ t4 assms(2)]) (auto simp: ks m)
  have t6: "key_table d6 = put_record kr_id k5 ?T \<and> client_table d6 = ?C"
    using update_count_field [OF s(6) t5 assms(2)] by (simp add: id m k5_def)
  have t7: "key_table d' = put_record kr_id k6 ?T \<and> client_table d' = ?C"
    using update_count_field [OF s(7) t6 assms(2)] by (simp add: id m k6_def)
  have "k6 = c" using assms(4,5) by (simp add: ks key_evolves_def)
  then show ?thesis using t7 by simp
qed

lemma insert_key_table:
  "insert_key c d = Some d' \<Longrightarrow> key_table d' = key_table d @ [c] \<and> client_table d' = client_table d"
  by (auto simp: insert_key_def key_table_def client_table_def Let_def bind_eq_Some_conv split: if_splits)

lemma find_unique:
  assumes "distinct (map ident xs)" "x \<in> set xs" "ident x = i"
  shows "List.find (\<lambda>y. ident y = i) (rev xs) = Some x"
proof (cases "List.find (\<lambda>y. ident y = i) (rev xs)")
  case None
  then show ?thesis using assms by (auto simp: find_None_iff)
next
  case (Some y)
  then have "y \<in> set xs" "ident y = i" by (auto simp: find_Some_iff) (metis length_rev nth_mem set_rev)
  then show ?thesis using Some assms by (auto simp: distinct_map inj_on_def)
qed

interpretation key_mirror: mirrored_table kr_id key_table "sync_key now" key_evolves for now
proof
  fix prev c d d' p
  assume s: "sync_key now prev c d = Some d'" "distinct (map kr_id prev)" "p \<in> set prev"
    "kr_id p = kr_id c" "key_evolves p c" "distinct (map kr_id (key_table d))" "p \<in> set (key_table d)"
  have "previous_key prev (kr_id c) = Some p"
    using find_unique [OF s(2,3,4)] by (simp add: previous_key_def)
  then show "key_table d' = put_record kr_id c (key_table d)"
    using s sync_existing_key_table by (auto simp: sync_key_def)
next
  fix prev c d d'
  assume s: "sync_key now prev c d = Some d'" "kr_id c \<notin> kr_id ` set prev"
  then have "previous_key prev (kr_id c) = None"
    unfolding previous_key_def find_None_iff by (metis image_eqI set_rev)
  then show "key_table d' = key_table d @ [c]"
    using s(1) insert_key_table by (auto simp: sync_key_def)
qed

section \<open>Downstream credentials\<close>

text \<open>The same chain on the client table; \<open>G\<close> is what the update does to the vault's columns.\<close>

lemma update_client_table:
  assumes "update_client_row i needed cond f d = Some d'" "distinct (map dr_id (client_table d))"
    "k \<in> set (client_table d)" "dr_id k = i"
    "\<And>r r'. f r = Some r' \<Longrightarrow> G (cw_client r) (cw_client r')" "\<And>x y. G x y \<Longrightarrow> dr_id y = dr_id x"
  shows "\<exists>k'. (if needed then cond k \<and> G k k' else k' = k) \<and> dr_id k' = i \<and>
    client_table d' = put_record dr_id k' (client_table d) \<and> key_table d' = key_table d"
proof (cases needed)
  case False
  then show ?thesis using assms by (auto simp: update_client_row_def put_record_same)
next
  case True
  obtain r where r: "r \<in> set (db_clients d)" "k = cw_client r"
    using assms(3) by (auto simp: client_table_def)
  have dist: "distinct (map (\<lambda>r. dr_id (cw_client r)) (db_clients d))"
    using assms(2) by (simp add: client_table_def comp_def)
  let ?p = "\<lambda>r'. dr_id (cw_client r') = dr_id (cw_client r) \<and> cond (cw_client r')"
  have i: "i = dr_id (cw_client r)" using assms(4) r(2) by simp
  obtain rows where rows: "update_one ?p f (db_clients d) = Some rows" "d' = d\<lparr>db_clients := rows\<rparr>"
    using assms(1) True unfolding update_client_row_def i
    by (simp add: bind_eq_Some_conv split: if_splits)
  have u: "update_one ?p f (db_clients d) =
      (if cond (cw_client r) then map_option (\<lambda>r'. update_where
         (\<lambda>x. dr_id (cw_client x) = dr_id (cw_client r)) (\<lambda>_. r') (db_clients d)) (f r) else None)"
    by (rule update_one_id [OF dist r(1)])
  have c: "cond k" using u rows(1) r(2) by (cases "cond (cw_client r)") auto
  then obtain r' where r': "f r = Some r'"
      "rows = update_where (\<lambda>x. dr_id (cw_client x) = dr_id k) (\<lambda>_. r') (db_clients d)"
    using u rows(1) r(2) by (cases "f r") auto
  have g: "G k (cw_client r')" using assms(5) r'(1) r(2) by simp
  moreover have "dr_id (cw_client r') = i" using assms(4,6) g by simp
  moreover have "client_table d' = put_record dr_id (cw_client r') (client_table d)"
    using rows(2) r'(2) assms(4) assms(6) [OF g]
    by (auto simp: client_table_def put_record_def update_where_def)
  moreover have "key_table d' = key_table d" using rows(2) by (simp add: key_table_def)
  ultimately show ?thesis using True c by (intro exI [of _ "cw_client r'"]) simp
qed

lemma update_client_field:
  assumes "update_client_row i needed cond f d = Some d'"
    "\<And>r r'. f r = Some r' \<Longrightarrow> G (cw_client r) (cw_client r')" "\<And>x y. G x y \<Longrightarrow> dr_id y = dr_id x"
    "\<And>y. G k y \<Longrightarrow> y = k'" "\<not> needed \<Longrightarrow> k' = k"
    "client_table d = put_record dr_id k T \<and> key_table d = C"
    "distinct (map dr_id T)" "dr_id k \<in> dr_id ` set T" "dr_id k = i"
  shows "client_table d' = put_record dr_id k' T \<and> key_table d' = C"
proof -
  have d: "distinct (map dr_id (client_table d))" using assms(6,7) by simp
  have m: "k \<in> set (client_table d)" using assms(6,8) put_record_member [of _ T dr_id k] by auto
  have "\<exists>k'. (if needed then cond k \<and> G k k' else k' = k) \<and> dr_id k' = i \<and>
      client_table d' = put_record dr_id k' (client_table d) \<and> key_table d' = key_table d"
    by (rule update_client_table [where G = G, OF assms(1) d m assms(9)]) (fact assms(2,3))+
  then obtain k'' where "if needed then cond k \<and> G k k'' else k'' = k" "dr_id k'' = i"
    "client_table d' = put_record dr_id k'' (client_table d)" "key_table d' = key_table d"
    by blast
  moreover then have "k'' = k'" using assms(4,5) by (cases needed) auto
  ultimately show ?thesis using assms(6,9) by (simp add: put_record_twice)
qed

lemma update_client_count_field:
  assumes "update_client_count i n m d = Some d'"
    "client_table d = put_record dr_id k T \<and> key_table d = C"
    "distinct (map dr_id T)" "dr_id k \<in> dr_id ` set T" "dr_id k = i" "dr_request_count k = m"
  shows "client_table d' = put_record dr_id (k\<lparr>dr_request_count := n\<rparr>) T \<and> key_table d' = C"
proof (cases "n = m")
  case True
  then show ?thesis using assms(1,2,6) by (auto simp: update_client_count_def)
next
  case False
  then obtain delta where d: "count_delta n m = Some delta"
      "update_client_row i True (\<lambda>_. True) (\<lambda>r. map_option
         (\<lambda>n. r\<lparr>cw_client := (cw_client r)\<lparr>dr_request_count := n\<rparr>\<rparr>)
         (add_count (dr_request_count (cw_client r)) delta)) d = Some d'"
    using assms(1) by (auto simp: update_client_count_def bind_eq_Some_conv)
  show ?thesis
    by (rule update_client_field [where G = "\<lambda>x y. \<exists>m. add_count (dr_request_count x) delta = Some m \<and>
          y = x\<lparr>dr_request_count := m\<rparr>", OF d(2) _ _ _ _ assms(2-5)])
      (use assms(6) count_delta_add [OF d(1)] in auto)
qed

lemma put_client_G: "put_client g r = Some r' \<Longrightarrow> cw_client r' = g (cw_client r)"
  by (auto simp: put_client_def)

lemma sync_existing_client_table:
  assumes "sync_existing_client now p c d = Some d'" "distinct (map dr_id (client_table d))"
    "p \<in> set (client_table d)" "dr_id p = dr_id c" "client_evolves p c"
  shows "client_table d' = put_record dr_id c (client_table d) \<and> key_table d' = key_table d"
proof -
  let ?T = "client_table d" and ?C = "key_table d"
  define k1 where "k1 = p\<lparr>dr_active := dr_active c\<rparr>"
  define k2 where "k2 = k1\<lparr>dr_token_digest := dr_token_digest c\<rparr>"
  define k3 where "k3 = k2\<lparr>dr_scopes := dr_scopes c\<rparr>"
  define k4 where "k4 = k3\<lparr>dr_revoked_at := dr_revoked_at c\<rparr>"
  define k5 where "k5 = k4\<lparr>dr_request_count := dr_request_count c\<rparr>"
  define k6 where "k6 = k5\<lparr>dr_last_used_at := dr_last_used_at c\<rparr>"
  note ks = k1_def k2_def k3_def k4_def k5_def k6_def
  have id: "dr_id k1 = dr_id p" "dr_id k2 = dr_id p" "dr_id k3 = dr_id p" "dr_id k4 = dr_id p"
    "dr_id k5 = dr_id p" by (simp_all add: ks)
  have m: "dr_id p \<in> dr_id ` set ?T" using assms(3) by simp
  obtain d1 d2 d3 d4 d5 where s:
    "update_client_row (dr_id p) (dr_active c \<noteq> dr_active p) (\<lambda>x. dr_active x = dr_active p)
       (put_client (dr_active_update (\<lambda>_. dr_active c))) d = Some d1"
    "update_client_row (dr_id p) (dr_token_digest c \<noteq> dr_token_digest p)
       (\<lambda>x. dr_token_digest x = dr_token_digest p)
       (\<lambda>r. put_client (dr_token_digest_update (\<lambda>_. dr_token_digest c)) (r\<lparr>cw_rotated_at := Some now\<rparr>)) d1 = Some d2"
    "update_client_row (dr_id p) (dr_scopes c \<noteq> dr_scopes p) (\<lambda>x. dr_scopes x = dr_scopes p)
       (put_client (dr_scopes_update (\<lambda>_. dr_scopes c))) d2 = Some d3"
    "update_client_row (dr_id p) (dr_revoked_at c \<noteq> dr_revoked_at p) (\<lambda>x. dr_revoked_at x = dr_revoked_at p)
       (put_client (dr_revoked_at_update (\<lambda>_. dr_revoked_at c))) d3 = Some d4"
    "update_client_count (dr_id p) (dr_request_count c) (dr_request_count p) d4 = Some d5"
    "update_client_row (dr_id p) (dr_last_used_at c \<noteq> dr_last_used_at p) (\<lambda>_. True)
       (put_client (\<lambda>x. x\<lparr>dr_last_used_at := greatest_time (dr_last_used_at x) (dr_last_used_at c)\<rparr>)) d5 = Some d'"
    using assms(1) unfolding sync_existing_client_def Let_def assms(4) [symmetric]
    by (elim bind_SomeE) (rule that)
  have t0: "client_table d = put_record dr_id p ?T \<and> key_table d = ?C"
    using put_record_same [OF assms(2,3)] by simp
  have t1: "client_table d1 = put_record dr_id k1 ?T \<and> key_table d1 = ?C"
    by (rule update_client_field [where G = "\<lambda>x y. y = dr_active_update (\<lambda>_. dr_active c) x",
          OF s(1) _ _ _ _ t0 assms(2)]) (auto simp: put_client_def ks m)
  have t2: "client_table d2 = put_record dr_id k2 ?T \<and> key_table d2 = ?C"
    by (rule update_client_field [where G = "\<lambda>x y. y = dr_token_digest_update (\<lambda>_. dr_token_digest c) x",
          OF s(2) _ _ _ _ t1 assms(2)]) (auto simp: put_client_def ks m)
  have t3: "client_table d3 = put_record dr_id k3 ?T \<and> key_table d3 = ?C"
    by (rule update_client_field [where G = "\<lambda>x y. y = dr_scopes_update (\<lambda>_. dr_scopes c) x",
          OF s(3) _ _ _ _ t2 assms(2)]) (auto simp: put_client_def ks m)
  have t4: "client_table d4 = put_record dr_id k4 ?T \<and> key_table d4 = ?C"
    by (rule update_client_field [where G = "\<lambda>x y. y = dr_revoked_at_update (\<lambda>_. dr_revoked_at c) x",
          OF s(4) _ _ _ _ t3 assms(2)]) (auto simp: put_client_def ks m)
  have t5: "client_table d5 = put_record dr_id k5 ?T \<and> key_table d5 = ?C"
    using update_client_count_field [OF s(5) t4 assms(2)] by (simp add: id m k5_def) (simp add: ks)
  have g: "greatest_time (dr_last_used_at p) (dr_last_used_at c) = dr_last_used_at c"
    using assms(5) by (simp add: client_evolves_def)
  have t6: "client_table d' = put_record dr_id k6 ?T \<and> key_table d' = ?C"
    by (rule update_client_field [where G = "\<lambda>x y. y = x\<lparr>dr_last_used_at :=
            greatest_time (dr_last_used_at x) (dr_last_used_at c)\<rparr>",
          OF s(6) _ _ _ _ t5 assms(2)]) (auto simp: put_client_def ks m g)
  have "k6 = c" using assms(4,5) by (simp add: ks client_evolves_def)
  then show ?thesis using t6 by simp
qed

lemma insert_client_table:
  "insert_client c d = Some d' \<Longrightarrow> client_table d' = client_table d @ [c] \<and> key_table d' = key_table d"
  by (auto simp: insert_client_def key_table_def client_table_def Let_def bind_eq_Some_conv
      new_client_row_def split: if_splits)

interpretation client_mirror: mirrored_table dr_id client_table "sync_client now" client_evolves for now
proof
  fix prev c d d' p
  assume s: "sync_client now prev c d = Some d'" "distinct (map dr_id prev)" "p \<in> set prev"
    "dr_id p = dr_id c" "client_evolves p c" "distinct (map dr_id (client_table d))"
    "p \<in> set (client_table d)"
  have "previous_client prev (dr_id c) = Some p"
    using find_unique [OF s(2,3,4)] by (simp add: previous_client_def)
  then show "client_table d' = put_record dr_id c (client_table d)"
    using s sync_existing_client_table by (auto simp: sync_client_def)
next
  fix prev c d d'
  assume s: "sync_client now prev c d = Some d'" "dr_id c \<notin> dr_id ` set prev"
  then have "previous_client prev (dr_id c) = None"
    unfolding previous_client_def find_None_iff by (metis image_eqI set_rev)
  then show "client_table d' = client_table d @ [c]"
    using s(1) insert_client_table by (auto simp: sync_client_def)
qed

section \<open>The committed delta\<close>

lemma for_each_keeps:
  assumes "\<And>x d d'. f x d = Some d' \<Longrightarrow> g d' = g d" "for_each f xs d = Some d'"
  shows "g d' = g d"
  using assms(2) by (induction xs arbitrary: d) (auto simp: bind_eq_Some_conv dest: assms(1))

lemma bind_keeps:
  assumes "Option.bind x f = Some d'" "\<And>z. x = Some z \<Longrightarrow> g z = g d" "\<And>z. f z = Some d' \<Longrightarrow> g d' = g z"
  shows "g d' = g d"
  using assms by (auto simp: bind_eq_Some_conv)

lemma update_key_clients: "update_key i n c f d = Some d' \<Longrightarrow> client_table d' = client_table d"
  by (auto simp: update_key_def client_table_def bind_eq_Some_conv split: if_splits)

lemma update_key_count_clients:
  "update_key_count i put get n m d = Some d' \<Longrightarrow> client_table d' = client_table d"
  by (auto simp: update_key_count_def bind_eq_Some_conv update_key_clients split: if_splits)

lemma sync_key_clients: "sync_key now prev c d = Some d' \<Longrightarrow> client_table d' = client_table d"
proof (cases "previous_key prev (kr_id c)")
  case (Some p)
  assume "sync_key now prev c d = Some d'"
  then have "sync_existing_key now p c d = Some d'" using Some by (simp add: sync_key_def)
  then show ?thesis
    unfolding sync_existing_key_def Let_def
    by (elim bind_SomeE)
      (auto dest!: update_key_clients update_key_count_clients stale_receipts_table)
qed (use insert_key_table in \<open>auto simp: sync_key_def\<close>)

lemma update_client_keys: "update_client_row i n c f d = Some d' \<Longrightarrow> key_table d' = key_table d"
  by (auto simp: update_client_row_def key_table_def bind_eq_Some_conv split: if_splits)

lemma update_client_count_keys: "update_client_count i n m d = Some d' \<Longrightarrow> key_table d' = key_table d"
  by (auto simp: update_client_count_def bind_eq_Some_conv update_client_keys split: if_splits)

lemma sync_client_keys: "sync_client now prev c d = Some d' \<Longrightarrow> key_table d' = key_table d"
proof (cases "previous_client prev (dr_id c)")
  case (Some p)
  assume "sync_client now prev c d = Some d'"
  then have "sync_existing_client now p c d = Some d'" using Some by (simp add: sync_client_def)
  then show ?thesis
    unfolding sync_existing_client_def Let_def
    by (elim bind_SomeE) (auto dest!: update_client_keys update_client_count_keys)
qed (use insert_client_table in \<open>auto simp: sync_client_def\<close>)

lemma sync_cursor_tables:
  "sync_cursor a b p d = Some d' \<Longrightarrow> key_table d' = key_table d \<and> client_table d' = client_table d"
  by (auto simp: sync_cursor_def key_table_def client_table_def split: if_splits)

lemma apply_client_policy_tables:
  assumes "apply_client_policy p d = Some d'"
  shows "key_table d' = key_table d \<and> client_table d' = client_table d"
proof -
  obtain rows where rows: "update_one (\<lambda>r. dr_id (cw_client r) = cp_id p \<and> dr_active (cw_client r))
      (\<lambda>r. checked client_row_ok
             (r\<lparr>cw_expires_at := changed (cp_expires_at p) (cw_expires_at r),
                cw_model_allowlist := changed (cp_model_allowlist p) (cw_model_allowlist r),
                cw_rpm_limit := changed (cp_rpm_limit p) (cw_rpm_limit r),
                cw_max_concurrency := changed (cp_max_concurrency p) (cw_max_concurrency r),
                cw_request_limit_day := changed (cp_request_limit_day p) (cw_request_limit_day r)\<rparr>))
      (db_clients d) = Some rows" "d' = d\<lparr>db_clients := rows\<rparr>"
    using assms by (auto simp: apply_client_policy_def)
  have "map cw_client rows = map cw_client (db_clients d)"
    by (rule update_one_map [OF rows(1)]) auto
  then show ?thesis by (simp add: rows(2) key_table_def client_table_def)
qed

lemma record_probe_tables:
  "record_probe now p d = Some d' \<Longrightarrow> key_table d' = key_table d \<and> client_table d' = client_table d"
  by (auto simp: record_probe_def insert_probe_def store_receipt_def bind_eq_Some_conv upsert_receipt_def Let_def key_table_def client_table_def
      split: if_splits option.splits)

lemma write_audit_tables:
  assumes "write_audit now fresh a d = Some (i, d')"
  shows "key_table d' = key_table d \<and> client_table d' = client_table d"
proof -
  obtain d1 d2 where s:
    "(case am_client_policy a of None \<Rightarrow> Some d | Some p \<Rightarrow> apply_client_policy p d) = Some d1"
    "(case am_probe a of None \<Rightarrow> Some d1 | Some p \<Rightarrow> record_probe now p d1) = Some d2"
    "db_keys d' = db_keys d2" "db_clients d' = db_clients d2"
    using assms by (auto simp: write_audit_def bind_eq_Some_conv)
  have "key_table d1 = key_table d \<and> client_table d1 = client_table d"
    using s(1) apply_client_policy_tables by (auto split: option.splits)
  moreover have "key_table d2 = key_table d1 \<and> client_table d2 = client_table d1"
    using s(2) record_probe_tables by (auto split: option.splits)
  ultimately show ?thesis using s(3,4) by (simp add: key_table_def client_table_def)
qed

lemma delta_mirrors:
  assumes "sync_database_delta now fresh previous current audit d = Some (r, d')"
    "key_table d = sn_keys previous" "client_table d = sn_downstream previous"
    "list_all2 (\<lambda>p c. kr_id p = kr_id c \<and> key_evolves p c) (sn_keys previous)
       (take (length (sn_keys previous)) (sn_keys current))"
    "list_all2 (\<lambda>p c. dr_id p = dr_id c \<and> client_evolves p c) (sn_downstream previous)
       (take (length (sn_downstream previous)) (sn_downstream current))"
    "distinct (map kr_id (sn_keys current))" "distinct (map dr_id (sn_downstream current))"
  shows "key_table d' = sn_keys current \<and> client_table d' = sn_downstream current"
proof -
  obtain d1 d2 d3 where s:
    "for_each (sync_key now (sn_keys previous)) (sn_keys current) d = Some d1"
    "for_each (sync_client now (sn_downstream previous)) (sn_downstream current) d1 = Some d2"
    "for_each (sync_cursor (sn_cursors previous) (sn_cursors current)) PROFILES d2 = Some d3"
    "(case audit of None \<Rightarrow> Some (None, d3)
      | Some a \<Rightarrow> map_option (\<lambda>(i, d). (Some i, d)) (write_audit now fresh a d3)) = Some (r, d')"
    using assms(1) unfolding sync_database_delta_def by (elim bind_SomeE) (rule that)
  have dk: "distinct (map kr_id (key_table d))"
  proof -
    have "map kr_id (sn_keys previous) = take (length (sn_keys previous)) (map kr_id (sn_keys current))"
      using list_all2_ids [OF assms(4)] by (simp add: take_map)
    then show ?thesis using assms(2,6) by (simp add: distinct_take)
  qed
  have dc: "distinct (map dr_id (client_table d1))" and c1: "client_table d1 = client_table d"
  proof -
    show "client_table d1 = client_table d" by (rule for_each_keeps [OF sync_key_clients s(1)])
    moreover have "map dr_id (sn_downstream previous) =
        take (length (sn_downstream previous)) (map dr_id (sn_downstream current))"
      using list_all2_ids [OF assms(5)] by (simp add: take_map)
    ultimately show "distinct (map dr_id (client_table d1))" using assms(3,7) by (simp add: distinct_take)
  qed
  have k1: "key_table d1 = sn_keys current"
    using key_mirror.follows [of now d "sn_keys current" d1] s(1) dk assms(2,4,6) by simp
  have k2: "key_table d2 = key_table d1" by (rule for_each_keeps [OF sync_client_keys s(2)])
  have c2: "client_table d2 = sn_downstream current"
    using client_mirror.follows [of now d1 "sn_downstream current" d2] s(2) dc c1 assms(3,5,7) by simp
  have "key_table d3 = key_table d2" "client_table d3 = client_table d2"
    using for_each_keeps [where g = key_table, OF _ s(3)] for_each_keeps [where g = client_table, OF _ s(3)]
      sync_cursor_tables by blast+
  moreover have "key_table d' = key_table d3 \<and> client_table d' = client_table d3"
    using s(4) write_audit_tables by (auto split: option.splits)
  ultimately show ?thesis using k1 k2 c2 by simp
qed

text \<open>
  C28. The incremental write-through refines the vault: if the two credential tables hold exactly
  the records of the previous snapshot, then after a committed delta, whatever changed and
  with or without an audited mutation, they hold exactly the records of the current one, in
  the same order. (The identity columns never change and the clock of a credential's last use
  does not run back; the per-row predicates of an update and its row count are what makes a
  partial match impossible.)
\<close>

theorem committed_delta_mirrors:
  assumes "sync_database_delta now fresh previous current audit d = Some (r, d')"
    "key_table d = sn_keys previous" "client_table d = sn_downstream previous"
    "list_all2 (\<lambda>p c. kr_id p = kr_id c \<and> key_evolves p c) (sn_keys previous)
       (take (length (sn_keys previous)) (sn_keys current))"
    "list_all2 (\<lambda>p c. dr_id p = dr_id c \<and> client_evolves p c) (sn_downstream previous)
       (take (length (sn_downstream previous)) (sn_downstream current))"
    "distinct (map kr_id (sn_keys current))" "distinct (map dr_id (sn_downstream current))"
  shows "key_table d' = sn_keys current \<and> client_table d' = sn_downstream current"
  by (rule delta_mirrors [OF assms])

definition demo_record :: "nat \<Rightarrow> time option \<Rightarrow> vault_key_record" where
  "demo_record failures cooling =
     \<lparr>kr_id = ''k'', kr_label = ''one'', kr_fingerprint = replicate 32 (CHR ''f''),
      kr_nonce = replicate 12 (CHR ''n''), kr_ciphertext = replicate 17 (CHR ''c''),
      kr_enabled = True, kr_verified = True, kr_retired = False, kr_cooldown_until = cooling,
      kr_request_count = 3, kr_failure_count = failures\<rparr>"

definition demo_db :: db where
  "demo_db =
     \<lparr>db_keys = [\<lparr>kw_key = demo_record 0 None, kw_slot = 1\<rparr>], db_clients = [], db_routing = [],
      db_receipts = [], db_instances = [], db_requests = [], db_attempts = [], db_permits = [],
      db_probes = [], db_audit = [], db_fixtures = [], db_policies = [],
      db_settings = Some \<lparr>se_freshness = 604800, se_request_retention = 30, se_metric_retention = 90,
        se_public_incidents = True\<rparr>,
      db_incidents = [], db_incident_updates = [], db_catalog = [], db_qa_runs = [], db_qa_cases = [],
      db_metrics = [], db_capacity = []\<rparr>"

definition demo_snapshot :: "nat \<Rightarrow> time option \<Rightarrow> snapshot" where
  "demo_snapshot failures cooling =
     \<lparr>sn_keys = [demo_record failures cooling], sn_downstream = [], sn_cursors = (\<lambda>_. 0)\<rparr>"

lemma demo_sync:
  "\<exists>d'. sync_database_delta 5 ''x'' (demo_snapshot 0 None) (demo_snapshot 1 (Some 9)) None demo_db =
     Some (None, d')"
  by (simp add: sync_database_delta_def demo_snapshot_def demo_db_def sync_key_def previous_key_def
      sync_existing_key_def Let_def update_key_def update_key_count_def demo_record_def
      stale_receipts_def update_one_def update_where_def key_rows_unique_def active_rows_def
      count_delta_def i64_of_def set_count_def add_count_def sync_cursor_def PROFILES_def)

theorem committed_delta_mirrors_witness:
  "\<exists>d'. sync_database_delta 5 ''x'' (demo_snapshot 0 None) (demo_snapshot 1 (Some 9)) None demo_db =
      Some (None, d') \<and> key_table d' = [demo_record 1 (Some 9)]"
proof -
  obtain d' where s: "sync_database_delta 5 ''x'' (demo_snapshot 0 None) (demo_snapshot 1 (Some 9)) None
      demo_db = Some (None, d')"
    using demo_sync by blast
  have "key_table d' = sn_keys (demo_snapshot 1 (Some 9)) \<and>
      client_table d' = sn_downstream (demo_snapshot 1 (Some 9))"
    by (rule committed_delta_mirrors [OF s])
      (simp_all add: demo_snapshot_def demo_db_def key_table_def client_table_def key_evolves_def
        demo_record_def)
  then show ?thesis using s by (simp add: demo_snapshot_def)
qed

end
