(* ===== verification/Ledger_Props.thy ===== *)
theory Ledger_Props
  imports Maintenance Sync_Props
begin

text \<open>
  The ledger over any history of transactions: which rows can change, what every reachable
  ledger satisfies, that a terminal row is final, that the last attempt and its request end
  together, and the limits of the admission permits. \<open>ledger_step\<close> is one committed
  transaction of any process; a failed one keeps nothing and is no step.
\<close>

section \<open>The invariant and what is kept\<close>

definition attempt_numbers :: "attempt_row list \<Rightarrow> (uuid option \<times> nat) list" where
  "attempt_numbers rows = filter (\<lambda>x. fst x \<noteq> None) (map (\<lambda>a. (ra_parent a, ra_no a)) rows)"

definition ledger_inv :: "db \<Rightarrow> bool" where
  "ledger_inv d \<longleftrightarrow>
     distinct (map pr_request_id (db_requests d)) \<and> list_all request_row_ok (db_requests d) \<and>
     list_all attempt_row_ok (db_attempts d) \<and> distinct (attempt_numbers (db_attempts d))"

text \<open>
  What time does to a terminal row: the lease of its owner may be pruned, a request is marked once
  when it has been counted, an attempt may lose its request to the retention. Nothing else.
\<close>

definition request_aged :: "request_row \<Rightarrow> request_row \<Rightarrow> bool" where
  "request_aged r q \<longleftrightarrow>
     q = r\<lparr>pr_owner := pr_owner q, pr_rolled_up := pr_rolled_up q\<rparr> \<and>
     pr_owner q \<in> {pr_owner r, None} \<and>
     (pr_rolled_up r \<noteq> None \<longrightarrow> pr_rolled_up q = pr_rolled_up r)"

definition attempt_aged :: "attempt_row \<Rightarrow> attempt_row \<Rightarrow> bool" where
  "attempt_aged a b \<longleftrightarrow>
     b = a\<lparr>ra_owner := ra_owner b, ra_parent := ra_parent b\<rparr> \<and>
     ra_owner b \<in> {ra_owner a, None} \<and> ra_parent b \<in> {ra_parent a, None}"

lemma aged_refl [simp]: "request_aged r r" "attempt_aged a a"
  by (simp_all add: request_aged_def attempt_aged_def)

lemma request_agedE:
  assumes "request_aged r q"
  obtains own m where "q = r\<lparr>pr_owner := own, pr_rolled_up := m\<rparr>" "own \<in> {pr_owner r, None}"
    "pr_rolled_up r \<noteq> None \<Longrightarrow> m = pr_rolled_up r"
  using assms unfolding request_aged_def by (elim conjE) (rule that, assumption+, blast)

lemma attempt_agedE:
  assumes "attempt_aged a b"
  obtains own p where "b = a\<lparr>ra_owner := own, ra_parent := p\<rparr>" "own \<in> {ra_owner a, None}"
    "p \<in> {ra_parent a, None}"
  using assms unfolding attempt_aged_def by (elim conjE) (rule that)

lemma request_aged_trans: "request_aged p q \<Longrightarrow> request_aged q r \<Longrightarrow> request_aged p r"
  by (elim request_agedE) (auto simp: request_aged_def)

lemma attempt_aged_trans: "attempt_aged a b \<Longrightarrow> attempt_aged b c \<Longrightarrow> attempt_aged a c"
  by (elim attempt_agedE) (auto simp: attempt_aged_def)

lemma request_aged_same:
  "request_aged r q \<Longrightarrow> pr_request_id q = pr_request_id r \<and> pr_outcome q = pr_outcome r"
  by (elim request_agedE) simp

lemma attempt_aged_same: "attempt_aged a b \<Longrightarrow> ra_outcome b = ra_outcome a"
  by (elim attempt_agedE) simp

definition keeps_terminal :: "db \<Rightarrow> db \<Rightarrow> bool" where
  "keeps_terminal d d' \<longleftrightarrow>
     (\<forall>r \<in> set (db_requests d). pr_outcome r \<noteq> ''started'' \<longrightarrow>
        (\<exists>q \<in> set (db_requests d'). request_aged r q)) \<and>
     (\<forall>a \<in> set (db_attempts d). ra_outcome a \<noteq> ''started'' \<longrightarrow>
        (\<exists>b \<in> set (db_attempts d'). attempt_aged a b))"

definition lawful :: "db \<Rightarrow> db \<Rightarrow> bool" where
  "lawful d d' \<longleftrightarrow> (ledger_inv d \<longrightarrow> ledger_inv d' \<and> keeps_terminal d d')"

lemma keeps_terminal_trans:
  assumes "keeps_terminal a b" "keeps_terminal b c"
  shows "keeps_terminal a c"
  unfolding keeps_terminal_def
proof (intro conjI ballI impI)
  fix r assume "r \<in> set (db_requests a)" "pr_outcome r \<noteq> ''started''"
  then obtain q where "q \<in> set (db_requests b)" "request_aged r q" "pr_outcome q \<noteq> ''started''"
    using assms(1) request_aged_same unfolding keeps_terminal_def by fastforce
  then show "\<exists>q \<in> set (db_requests c). request_aged r q"
    using assms(2) request_aged_trans unfolding keeps_terminal_def by blast
next
  fix r assume "r \<in> set (db_attempts a)" "ra_outcome r \<noteq> ''started''"
  then obtain q where "q \<in> set (db_attempts b)" "attempt_aged r q" "ra_outcome q \<noteq> ''started''"
    using assms(1) attempt_aged_same unfolding keeps_terminal_def by fastforce
  then show "\<exists>q \<in> set (db_attempts c). attempt_aged r q"
    using assms(2) attempt_aged_trans unfolding keeps_terminal_def by blast
qed

lemma lawful_trans: "lawful a b \<Longrightarrow> lawful b c \<Longrightarrow> lawful a c"
  unfolding lawful_def using keeps_terminal_trans by blast

lemma same_request: "r \<in> set rs \<Longrightarrow> \<exists>q \<in> set rs. request_aged r q"
  by (intro bexI [of _ r]) simp_all

lemma same_attempt: "a \<in> set rs \<Longrightarrow> \<exists>b \<in> set rs. attempt_aged a b"
  by (intro bexI [of _ a]) simp_all

lemma lawful_same:
  assumes "db_requests d' = db_requests d" "db_attempts d' = db_attempts d"
  shows "lawful d d'"
  using same_request same_attempt
  unfolding lawful_def ledger_inv_def keeps_terminal_def assms by blast

section \<open>Changes of the two tables\<close>

text \<open>Requests: rows change only while started (or in their owner), new rows have new ids.\<close>

lemma lawful_requests:
  assumes "db_attempts d' = db_attempts d"
    "ledger_inv d \<Longrightarrow> map pr_request_id (db_requests d') = map pr_request_id (db_requests d) @ ids"
    "distinct ids" "set ids \<inter> pr_request_id ` set (db_requests d) = {}"
    "ledger_inv d \<Longrightarrow> list_all request_row_ok (db_requests d')"
    "\<And>r. ledger_inv d \<Longrightarrow> r \<in> set (db_requests d) \<Longrightarrow> pr_outcome r \<noteq> ''started'' \<Longrightarrow>
       \<exists>q \<in> set (db_requests d'). request_aged r q"
  shows "lawful d d'"
  using assms same_attempt
  by (auto simp: lawful_def ledger_inv_def keeps_terminal_def)

lemma insert_request_lawful:
  assumes "insert_request r d = Some d'"
  shows "lawful d d'"
proof -
  have d': "d' = d\<lparr>db_requests := db_requests d @ [r]\<rparr>" and ok: "request_row_ok r"
    and new: "pr_request_id r \<notin> pr_request_id ` set (db_requests d)"
    using assms by (auto simp: insert_request_def list_ex_iff split: if_splits)
  show ?thesis
  proof (rule lawful_requests [where ids = "[pr_request_id r]"])
    fix x assume "x \<in> set (db_requests d)"
    then show "\<exists>q \<in> set (db_requests d'). request_aged x q"
      by (intro same_request) (simp add: d')
  qed (use new ok in \<open>auto simp: d' ledger_inv_def\<close>)
qed

text \<open>Attempts: the same, rows changing only while open.\<close>

lemma lawful_attempts:
  assumes "db_requests d' = db_requests d"
    "ledger_inv d \<Longrightarrow> map (\<lambda>a. (ra_parent a, ra_no a)) (db_attempts d') =
       map (\<lambda>a. (ra_parent a, ra_no a)) (db_attempts d)"
    "ledger_inv d \<Longrightarrow> list_all attempt_row_ok (db_attempts d')"
    "\<And>a. ledger_inv d \<Longrightarrow> a \<in> set (db_attempts d) \<Longrightarrow> ra_outcome a \<noteq> ''started'' \<Longrightarrow>
       \<exists>b \<in> set (db_attempts d'). attempt_aged a b"
  shows "lawful d d'"
proof -
  have "attempt_numbers (db_attempts d') = attempt_numbers (db_attempts d)" if "ledger_inv d"
    using assms(2) [OF that] by (simp add: attempt_numbers_def)
  then show ?thesis
    using assms same_request by (auto simp: lawful_def ledger_inv_def keeps_terminal_def)
qed

lemma insert_attempt_lawful:
  assumes "insert_attempt a d = Some d'"
  shows "lawful d d'"
proof -
  have d': "d' = d\<lparr>db_attempts := db_attempts d @ [a]\<rparr>" and ok: "attempt_row_ok a"
    and new: "\<forall>b \<in> set (db_attempts d). \<not> (ra_parent b = ra_parent a \<and> ra_no b = ra_no a)"
    using assms by (auto simp: insert_attempt_def list_ex_iff split: if_splits)
  have "(ra_parent a, ra_no a) \<notin> set (map (\<lambda>a. (ra_parent a, ra_no a)) (db_attempts d))"
    using new by auto
  then have "ledger_inv d'" if "ledger_inv d"
    using that by (auto simp: d' ledger_inv_def ok attempt_numbers_def)
  moreover have "keeps_terminal d d'"
    by (auto simp: d' keeps_terminal_def intro: same_request dest: same_attempt)
  ultimately show ?thesis by (simp add: lawful_def)
qed

lemma latest_index_Some:
  assumes "latest_index p rows = Some i"
  shows "i < length rows \<and> p (rows ! i)"
proof -
  have "foldl (later_of rows) b js \<in> set (map Some js) \<union> {b}" for b js
  proof (induction js arbitrary: b)
    case (Cons i js)
    show ?case
      using Cons [of "later_of rows b i"] by (auto simp: later_of_def split: option.splits if_splits)
  qed simp
  from this [of None "filter (\<lambda>i. p (rows ! i)) [0..<length rows]"] show ?thesis
    using assms by (auto simp: latest_index_def)
qed

lemma update_latest_lawful:
  assumes "update_latest p f (db_attempts d) = Some rows" "\<And>a. p a \<Longrightarrow> ra_finished_at a = None"
    "\<And>a. ra_parent (f a) = ra_parent a \<and> ra_no (f a) = ra_no a"
  shows "lawful d (d\<lparr>db_attempts := rows\<rparr>)"
proof -
  obtain i where i: "i < length (db_attempts d)" "p (db_attempts d ! i)"
    and rows: "rows = (db_attempts d)[i := f (db_attempts d ! i)]" and ok: "attempt_row_ok (f (db_attempts d ! i))"
    using assms(1) latest_index_Some [of p "db_attempts d"]
    by (auto simp: update_latest_def split: option.splits if_splits)
  show ?thesis
  proof (rule lawful_attempts)
    show "map (\<lambda>a. (ra_parent a, ra_no a)) (db_attempts (d\<lparr>db_attempts := rows\<rparr>)) =
        map (\<lambda>a. (ra_parent a, ra_no a)) (db_attempts d)"
      using i by (simp add: rows map_update assms(3) list_update_same_conv)
    assume inv: "ledger_inv d"
    then show "list_all attempt_row_ok (db_attempts (d\<lparr>db_attempts := rows\<rparr>))"
      using ok i by (auto simp: rows list_all_length ledger_inv_def nth_list_update)
    fix a assume a: "a \<in> set (db_attempts d)" "ra_outcome a \<noteq> ''started''"
    then have "a \<noteq> db_attempts d ! i"
      using inv i assms(2) by (auto simp: ledger_inv_def list_all_iff attempt_row_ok_def)
    then have "a \<in> set rows"
      using a(1) i unfolding rows by (metis in_set_conv_nth length_list_update nth_list_update_neq)
    then show "\<exists>b \<in> set (db_attempts (d\<lparr>db_attempts := rows\<rparr>)). attempt_aged a b"
      by (simp add: same_attempt)
  qed simp
qed

lemma update_where_attempts_lawful:
  assumes "\<And>a. p a \<Longrightarrow> ra_finished_at a = None"
    "\<And>a. ra_parent (f a) = ra_parent a \<and> ra_no (f a) = ra_no a"
    "\<And>a. a \<in> set (db_attempts d) \<Longrightarrow> attempt_row_ok a \<Longrightarrow> p a \<Longrightarrow> attempt_row_ok (f a)"
  shows "lawful d (d\<lparr>db_attempts := update_where p f (db_attempts d)\<rparr>)"
proof (rule lawful_attempts)
  show "map (\<lambda>a. (ra_parent a, ra_no a)) (db_attempts (d\<lparr>db_attempts := update_where p f (db_attempts d)\<rparr>)) =
      map (\<lambda>a. (ra_parent a, ra_no a)) (db_attempts d)"
    using assms(2) by (simp add: update_where_map)
  assume inv: "ledger_inv d"
  then show "list_all attempt_row_ok (db_attempts (d\<lparr>db_attempts := update_where p f (db_attempts d)\<rparr>))"
    using assms(3) by (auto simp: ledger_inv_def list_all_iff update_where_def)
  fix a assume a: "a \<in> set (db_attempts d)" "ra_outcome a \<noteq> ''started''"
  then have "\<not> p a" using inv assms(1) by (auto simp: ledger_inv_def list_all_iff attempt_row_ok_def)
  then show "\<exists>b \<in> set (db_attempts (d\<lparr>db_attempts := update_where p f (db_attempts d)\<rparr>)). attempt_aged a b"
    using a(1) update_where_keeps [of a _ p f] by (simp add: same_attempt)
qed simp

lemma update_where_requests_lawful:
  assumes "\<And>r. request_row_ok r \<Longrightarrow> p r \<Longrightarrow> pr_outcome r = ''started''"
    "\<And>r. pr_request_id (f r) = pr_request_id r"
    "ledger_inv d \<Longrightarrow> list_all request_row_ok (update_where p f (db_requests d))"
  shows "lawful d (d\<lparr>db_requests := update_where p f (db_requests d)\<rparr>)"
proof (rule lawful_requests [where ids = "[]"])
  show "map pr_request_id (db_requests (d\<lparr>db_requests := update_where p f (db_requests d)\<rparr>)) =
      map pr_request_id (db_requests d) @ []"
    using assms(2) by (simp add: update_where_map)
  assume inv: "ledger_inv d"
  fix r assume r: "r \<in> set (db_requests d)" "pr_outcome r \<noteq> ''started''"
  then have "\<not> p r" using inv assms(1) by (auto simp: ledger_inv_def list_all_iff)
  then show "\<exists>q \<in> set (db_requests (d\<lparr>db_requests := update_where p f (db_requests d)\<rparr>)). request_aged r q"
    using r(1) update_where_keeps [of r _ p f] by (simp add: same_request)
qed (use assms(3) in auto)

section \<open>The transactions\<close>

lemma tx_attempt_started_lawful: "tx_attempt_started now owner rid profile key d = Some (u, d') \<Longrightarrow> lawful d d'"
  by (auto simp: tx_attempt_started_def intro: insert_attempt_lawful split: if_splits)

lemma finish_attempt_cols:
  "ra_parent (finish_attempt now t a) = ra_parent a \<and> ra_no (finish_attempt now t a) = ra_no a"
  by (simp add: finish_attempt_def)

lemma tx_finish_attempt_lawful: "tx_finish_attempt now owner rid key t d = Some (u, d') \<Longrightarrow> lawful d d'"
  by (auto simp: tx_finish_attempt_def finish_attempt_cols open_attempt_def
      intro!: update_latest_lawful)

lemma tx_response_started_lawful:
  "tx_attempt_response_started owner rid key ttfb d = Some (u, d') \<Longrightarrow> lawful d d'"
  by (auto simp: tx_attempt_response_started_def open_attempt_def intro!: update_latest_lawful)

lemma tx_receipt_lawful: "tx_receipt now profile key d = Some (u, d') \<Longrightarrow> lawful d d'"
  by (auto simp: tx_receipt_def upsert_receipt_def Let_def intro!: lawful_same split: if_splits)

lemma tx_request_started_lawful:
  "tx_request_started now owner rid client endpoint profile stream modality d = Some (u, d') \<Longrightarrow> lawful d d'"
  by (auto simp: tx_request_started_def intro: insert_request_lawful)

lemma tx_request_finished_lawful:
  assumes "tx_request_finished now rid outcome status e ttfb d = Some (u, d')"
  shows "lawful d d'"
proof -
  obtain rows r r' where u: "d' = d\<lparr>db_requests := rows\<rparr>" "request_row_ok r'"
      "rows = update_where (started_request rid) (\<lambda>_. r') (db_requests d)"
      "r' = finish_request now d outcome status e ttfb r" "started_request rid r"
    using assms by (auto simp: tx_request_finished_def elim!: update_one_SomeE)
  have id: "pr_request_id r' = rid" using u(4,5) by (simp add: finish_request_def started_request_def)
  show ?thesis
    unfolding u(1) u(3)
  proof (rule lawful_requests [where ids = "[]"])
    show "map pr_request_id (db_requests (d\<lparr>db_requests := update_where (started_request rid) (\<lambda>_. r') (db_requests d)\<rparr>)) =
        map pr_request_id (db_requests d) @ []"
      using id by (auto simp: update_where_def started_request_def)
    assume "ledger_inv d"
    then show "list_all request_row_ok (db_requests (d\<lparr>db_requests := update_where (started_request rid) (\<lambda>_. r') (db_requests d)\<rparr>))"
      using u(2) by (auto simp: ledger_inv_def list_all_iff update_where_def)
    fix x assume "x \<in> set (db_requests d)" "pr_outcome x \<noteq> ''started''"
    then show "\<exists>q \<in> set (db_requests (d\<lparr>db_requests := update_where (started_request rid) (\<lambda>_. r') (db_requests d)\<rparr>)). request_aged x q"
      using update_where_keeps [of x "db_requests d" "started_request rid" "\<lambda>_. r'"]
      by (auto simp: started_request_def intro: same_request)
  qed simp_all
qed

lemma tx_both_finished_lawful:
  assumes "tx_request_and_attempt_finished now owner rid key att req d = Some (u, d')"
  shows "lawful d d'"
proof -
  obtain profile d1 d2 where s: "tx_finish_attempt now owner rid key att d = Some ((), d1)"
      "(if at_outcome att = ''succeeded'' then tx_receipt now profile key d1 else Some ((), d1)) = Some ((), d2)"
      "tx_request_finished now rid (rq_outcome req) (rq_status req) (rq_error req) (rq_ttfb req) d2 = Some (u, d')"
    using assms by (auto simp: tx_request_and_attempt_finished_def bind_eq_Some_conv)
  have "lawful d1 d2"
    using s(2) tx_receipt_lawful lawful_same [of d1 d1] by (auto split: if_splits)
  then show ?thesis
    using tx_finish_attempt_lawful [OF s(1)] tx_request_finished_lawful [OF s(3)] lawful_trans by blast
qed

lemma tx_open_finished_lawful:
  assumes "tx_request_and_open_attempts_finished now owner rid outcome status e ttfb n d = Some (u, d')"
  shows "lawful d d'"
proof -
  let ?p = "\<lambda>a. ra_request_id a = rid \<and> ra_owner a = Some owner \<and> ra_finished_at a = None"
  let ?f = "close_open_attempt now outcome status e ttfb n"
  have "lawful d (d\<lparr>db_attempts := update_where ?p ?f (db_attempts d)\<rparr>)"
    using assms
    by (intro update_where_attempts_lawful)
      (auto simp: tx_request_and_open_attempts_finished_def close_open_attempt_def Let_def list_ex_iff
        split: if_splits)
  moreover have "lawful (d\<lparr>db_attempts := update_where ?p ?f (db_attempts d)\<rparr>) d'"
    using assms tx_request_finished_lawful
    by (auto simp: tx_request_and_open_attempts_finished_def Let_def split: if_splits)
  ultimately show ?thesis by (rule lawful_trans)
qed

lemma advance_cursor_lawful: "lawful d (advance_cursor profile slot d)"
  by (rule lawful_same) (simp_all add: advance_cursor_def)

lemma tx_select_and_start_lawful:
  assumes "tx_select_and_start now owner rid client endpoint profile stream modality d = Some (k, d')"
  shows "lawful d d'"
proof -
  obtain slot where slot: "routing_slot profile d = Some slot"
    using assms by (auto simp: tx_select_and_start_def bind_eq_Some_conv)
  show ?thesis
  proof (cases "pick_slot slot (candidates now d owner profile)")
    case None
    then show ?thesis
      using assms slot by (auto simp: tx_select_and_start_def intro: insert_request_lawful)
  next
    case (Some key)
    then obtain d1 where "insert_request (new_request now owner rid client endpoint profile stream modality)
          (advance_cursor profile (following_slot (kw_slot key)) d) = Some d1"
        "insert_attempt (new_attempt now rid profile (kr_id (kw_key key)) (Some owner) 1) d1 = Some d'"
      using assms slot by (auto simp: tx_select_and_start_def bind_eq_Some_conv)
    then show ?thesis
      by (meson advance_cursor_lawful insert_request_lawful insert_attempt_lawful lawful_trans)
  qed
qed

lemma abandon_attempts_lawful: "lawful d (abandon_attempts now d)"
  unfolding abandon_attempts_def
  by (rule update_where_attempts_lawful) (auto simp: attempt_row_ok_def ATTEMPT_OUTCOMES_def)

lemma abandon_permits_lawful: "lawful d (abandon_permits now d)"
  by (rule lawful_same) (simp_all add: abandon_permits_def)

lemma tx_cleanup_requests_lawful: "tx_cleanup_requests now d = Some (u, d') \<Longrightarrow> lawful d d'"
  by (auto simp: tx_cleanup_requests_def abandon_requests_def abandon_request_def request_row_ok_def
      intro!: update_where_requests_lawful split: if_splits)

lemma abandon_requests_lawful:
  "list_all request_row_ok (db_requests (abandon_requests now d)) \<Longrightarrow> lawful d (abandon_requests now d)"
  unfolding abandon_requests_def
  by (rule update_where_requests_lawful) (auto simp: abandon_request_def request_row_ok_def)

lemma clear_request_owner_lawful:
  "lawful d (d\<lparr>db_requests := update_where p (\<lambda>r. r\<lparr>pr_owner := None\<rparr>) (db_requests d)\<rparr>)"
proof (rule lawful_requests [where ids = "[]"])
  let ?d = "d\<lparr>db_requests := update_where p (\<lambda>r. r\<lparr>pr_owner := None\<rparr>) (db_requests d)\<rparr>"
  show "map pr_request_id (db_requests ?d) = map pr_request_id (db_requests d) @ []"
    by (simp add: update_where_map)
  assume "ledger_inv d"
  then show "list_all request_row_ok (db_requests ?d)"
    by (auto simp: ledger_inv_def list_all_iff update_where_def request_row_ok_def)
  fix r assume r: "r \<in> set (db_requests d)"
  show "\<exists>q \<in> set (db_requests ?d). request_aged r q"
  proof (cases "p r")
    case True
    then have "r\<lparr>pr_owner := None\<rparr> \<in> set (db_requests ?d)"
      using update_where_new [of r _ p "\<lambda>r. r\<lparr>pr_owner := None\<rparr>"] r by simp
    then show ?thesis by (rule bexI [rotated]) (simp add: request_aged_def)
  next
    case False
    then show ?thesis using update_where_keeps [of r _ p "\<lambda>r. r\<lparr>pr_owner := None\<rparr>"] r
      by (simp add: same_request)
  qed
qed simp_all

lemma clear_attempt_owner_lawful:
  "lawful d (d\<lparr>db_attempts := update_where p (\<lambda>a. a\<lparr>ra_owner := None\<rparr>) (db_attempts d)\<rparr>)"
proof (rule lawful_attempts)
  let ?d = "d\<lparr>db_attempts := update_where p (\<lambda>a. a\<lparr>ra_owner := None\<rparr>) (db_attempts d)\<rparr>"
  show "map (\<lambda>a. (ra_parent a, ra_no a)) (db_attempts ?d) = map (\<lambda>a. (ra_parent a, ra_no a)) (db_attempts d)"
    by (simp add: update_where_map)
  assume "ledger_inv d"
  then show "list_all attempt_row_ok (db_attempts ?d)"
    by (auto simp: ledger_inv_def list_all_iff update_where_def attempt_row_ok_def)
  fix a assume a: "a \<in> set (db_attempts d)"
  show "\<exists>b \<in> set (db_attempts ?d). attempt_aged a b"
  proof (cases "p a")
    case True
    then have "a\<lparr>ra_owner := None\<rparr> \<in> set (db_attempts ?d)"
      using update_where_new [of a _ p "\<lambda>a. a\<lparr>ra_owner := None\<rparr>"] a by simp
    then show ?thesis by (rule bexI [rotated]) (simp add: attempt_aged_def)
  next
    case False
    then show ?thesis using update_where_keeps [of a _ p "\<lambda>a. a\<lparr>ra_owner := None\<rparr>"] a
      by (simp add: same_attempt)
  qed
qed simp_all

lemma prune_instances_lawful: "lawful d (prune_instances now owner d)"
proof -
  let ?gone = "\<lambda>o'. is_some_and (\<lambda>i. i \<noteq> owner \<and>
     list_ex (\<lambda>r. in_id r = i \<and> in_last_seen r < now - secs 30) (db_instances d)) o'"
  let ?a = "d\<lparr>db_attempts := update_where (\<lambda>a. ?gone (ra_owner a)) (\<lambda>a. a\<lparr>ra_owner := None\<rparr>) (db_attempts d)\<rparr>"
  let ?r = "?a\<lparr>db_requests := update_where (\<lambda>r. ?gone (pr_owner r)) (\<lambda>r. r\<lparr>pr_owner := None\<rparr>) (db_requests ?a)\<rparr>"
  have "lawful d ?a" by (rule clear_attempt_owner_lawful)
  moreover have "lawful ?a ?r" by (rule clear_request_owner_lawful)
  moreover have "lawful ?r (prune_instances now owner d)"
    by (rule lawful_same) (simp_all add: prune_instances_def Let_def)
  ultimately show ?thesis using lawful_trans by blast
qed

lemma tx_register_owner_lawful:
  assumes "tx_register_owner now owner d = Some (u, d')"
  shows "lawful d d'"
proof -
  let ?d1 = "d\<lparr>db_instances := db_instances d @ [\<lparr>in_id = owner, in_last_seen = now\<rparr>]\<rparr>"
  let ?d2 = "abandon_requests now (abandon_attempts now ?d1)"
  have ok: "list_all request_row_ok (db_requests ?d2)" and d': "d' = prune_instances now owner (abandon_permits now ?d2)"
    using assms by (auto simp: tx_register_owner_def Let_def abandon_permits_def split: if_splits)
  have "lawful d ?d1" by (rule lawful_same) simp_all
  moreover have "lawful ?d1 (abandon_attempts now ?d1)" by (rule abandon_attempts_lawful)
  moreover have "lawful (abandon_attempts now ?d1) ?d2" by (rule abandon_requests_lawful [OF ok])
  moreover have "lawful ?d2 (abandon_permits now ?d2)" by (rule abandon_permits_lawful)
  moreover have "lawful (abandon_permits now ?d2) d'" unfolding d' by (rule prune_instances_lawful)
  ultimately show ?thesis by (meson lawful_trans)
qed

section \<open>The vault's transactions leave the ledger alone\<close>

definition ledger_of :: "db \<Rightarrow> request_row list \<times> attempt_row list \<times> permit_row list \<times> fixture_row list" where
  "ledger_of d = (db_requests d, db_attempts d, db_permits d, db_fixtures d)"

lemma lawful_ledger_of: "ledger_of d' = ledger_of d \<Longrightarrow> lawful d d'"
  by (rule lawful_same) (simp_all add: ledger_of_def)

lemma update_key_ledger: "update_key i n c f d = Some d' \<Longrightarrow> ledger_of d' = ledger_of d"
  by (auto simp: update_key_def ledger_of_def bind_eq_Some_conv split: if_splits)

lemma update_key_count_ledger: "update_key_count i put get n m d = Some d' \<Longrightarrow> ledger_of d' = ledger_of d"
  by (auto simp: update_key_count_def bind_eq_Some_conv update_key_ledger split: if_splits)

lemma stale_receipts_ledger: "stale_receipts now p c d = Some d' \<Longrightarrow> ledger_of d' = ledger_of d"
  by (auto simp: stale_receipts_def Let_def ledger_of_def split: if_splits)

lemma sync_key_ledger: "sync_key now prev c d = Some d' \<Longrightarrow> ledger_of d' = ledger_of d"
proof (cases "previous_key prev (kr_id c)")
  case (Some p)
  assume "sync_key now prev c d = Some d'"
  then have "sync_existing_key now p c d = Some d'" using Some by (simp add: sync_key_def)
  then show ?thesis
    unfolding sync_existing_key_def Let_def
    by (elim bind_SomeE)
      (auto dest!: update_key_ledger update_key_count_ledger stale_receipts_ledger)
qed (auto simp: sync_key_def insert_key_def Let_def bind_eq_Some_conv ledger_of_def split: if_splits)

lemma update_client_ledger: "update_client_row i n c f d = Some d' \<Longrightarrow> ledger_of d' = ledger_of d"
  by (auto simp: update_client_row_def ledger_of_def bind_eq_Some_conv split: if_splits)

lemma update_client_count_ledger: "update_client_count i n m d = Some d' \<Longrightarrow> ledger_of d' = ledger_of d"
  by (auto simp: update_client_count_def bind_eq_Some_conv update_client_ledger split: if_splits)

lemma sync_client_ledger: "sync_client now prev c d = Some d' \<Longrightarrow> ledger_of d' = ledger_of d"
proof (cases "previous_client prev (dr_id c)")
  case (Some p)
  assume "sync_client now prev c d = Some d'"
  then have "sync_existing_client now p c d = Some d'" using Some by (simp add: sync_client_def)
  then show ?thesis
    unfolding sync_existing_client_def Let_def
    by (elim bind_SomeE) (auto dest!: update_client_ledger update_client_count_ledger)
qed (auto simp: sync_client_def insert_client_def Let_def bind_eq_Some_conv ledger_of_def split: if_splits)

lemma sync_cursor_ledger: "sync_cursor a b p d = Some d' \<Longrightarrow> ledger_of d' = ledger_of d"
  by (auto simp: sync_cursor_def ledger_of_def split: if_splits)

lemma record_probe_ledger: "record_probe now p d = Some d' \<Longrightarrow> ledger_of d' = ledger_of d"
  by (auto simp: record_probe_def insert_probe_def store_receipt_def bind_eq_Some_conv upsert_receipt_def Let_def ledger_of_def split: if_splits option.splits)

lemma write_audit_ledger:
  assumes "write_audit now fresh a d = Some (i, d')"
  shows "ledger_of d' = ledger_of d"
proof -
  obtain d1 d2 where s:
    "(case am_client_policy a of None \<Rightarrow> Some d | Some p \<Rightarrow> apply_client_policy p d) = Some d1"
    "(case am_probe a of None \<Rightarrow> Some d1 | Some p \<Rightarrow> record_probe now p d1) = Some d2"
    "ledger_of d' = ledger_of d2"
    using assms by (auto simp: write_audit_def bind_eq_Some_conv ledger_of_def)
  have "ledger_of d1 = ledger_of d"
    using s(1) by (auto simp: apply_client_policy_def ledger_of_def split: option.splits)
  moreover have "ledger_of d2 = ledger_of d1" using s(2) record_probe_ledger by (auto split: option.splits)
  ultimately show ?thesis using s(3) by simp
qed

lemma sync_delta_ledger:
  assumes "sync_database_delta now fresh previous current audit d = Some (r, d')"
  shows "ledger_of d' = ledger_of d"
proof -
  obtain d1 d2 d3 where s:
    "for_each (sync_key now (sn_keys previous)) (sn_keys current) d = Some d1"
    "for_each (sync_client now (sn_downstream previous)) (sn_downstream current) d1 = Some d2"
    "for_each (sync_cursor (sn_cursors previous) (sn_cursors current)) PROFILES d2 = Some d3"
    "(case audit of None \<Rightarrow> Some (None, d3)
      | Some a \<Rightarrow> map_option (\<lambda>(i, d). (Some i, d)) (write_audit now fresh a d3)) = Some (r, d')"
    using assms unfolding sync_database_delta_def by (elim bind_SomeE) (rule that)
  have "ledger_of d' = ledger_of d3" using s(4) write_audit_ledger by (auto split: option.splits)
  then show ?thesis
    using for_each_keeps [where g = ledger_of, OF sync_key_ledger s(1)]
      for_each_keeps [where g = ledger_of, OF sync_client_ledger s(2)]
      for_each_keeps [where g = ledger_of, OF sync_cursor_ledger s(3)] by simp
qed

lemma sync_rows_ledger:
  assumes "sync_database_rows hash_slot s d = Some (r, d')"
  shows "ledger_of d' = ledger_of d"
proof -
  obtain d1 d2 where s:
    "for_each (upsert_key hash_slot) (sn_keys s) d = Some d1"
    "for_each upsert_client (sn_downstream s) d1 = Some d2"
    "for_each (upsert_cursor (sn_cursors s)) PROFILES d2 = Some d'"
    using assms by (auto simp: sync_database_rows_def bind_eq_Some_conv)
  have "ledger_of d1 = ledger_of d"
    by (rule for_each_keeps [OF _ s(1)])
      (auto simp: upsert_key_def Let_def bind_eq_Some_conv ledger_of_def split: if_splits)
  moreover have "ledger_of d2 = ledger_of d1"
    by (rule for_each_keeps [OF _ s(2)])
      (auto simp: upsert_client_def Let_def bind_eq_Some_conv ledger_of_def split: if_splits)
  moreover have "ledger_of d' = ledger_of d2"
    by (rule for_each_keeps [OF _ s(3)])
      (auto simp: upsert_cursor_def Let_def ledger_of_def split: if_splits)
  ultimately show ?thesis by simp
qed

section \<open>Rollup and retention\<close>

lemma tx_rollup_lawful:
  assumes "tx_rollup got free rank now d = Some (n, d')"
  shows "lawful d d'"
proof (cases got)
  case False
  then show ?thesis using assms lawful_same [of d d] by (simp add: tx_rollup_def)
next
  case True
  let ?rows = "selected_requests free rank ROLLUP_BATCH_SIZE d"
  let ?p = "\<lambda>r. pr_request_id r \<in> set (map pr_request_id ?rows)"
  let ?f = "\<lambda>r. r\<lparr>pr_rolled_up := Some now\<rparr>"
  have d': "db_requests d' = update_where ?p ?f (db_requests d)" "db_attempts d' = db_attempts d"
    using assms True by (auto simp: tx_rollup_def Let_def)
  have sel: "x \<in> set (db_requests d) \<and> unrolled x" if "x \<in> set ?rows" for x
    using that by (auto simp: selected_requests_def dest!: in_set_takeD)
  show ?thesis
  proof (rule lawful_requests [where ids = "[]"])
    show "map pr_request_id (db_requests d') = map pr_request_id (db_requests d) @ []"
      by (simp add: d' update_where_map)
    assume inv: "ledger_inv d"
    then show "list_all request_row_ok (db_requests d')"
      by (auto simp: d' ledger_inv_def list_all_iff update_where_def request_row_ok_def)
    fix r assume r: "r \<in> set (db_requests d)"
    show "\<exists>q \<in> set (db_requests d'). request_aged r q"
    proof (cases "?p r")
      case True
      then obtain x where x: "x \<in> set ?rows" "pr_request_id x = pr_request_id r" by auto
      then have "x = r"
        using sel [of x] r inv by (auto simp: ledger_inv_def distinct_map dest: inj_onD)
      then have "pr_rolled_up r = None" using sel [of x] x by (simp add: unrolled_def)
      then have "request_aged r (?f r)" by (simp add: request_aged_def)
      moreover have "?f r \<in> set (db_requests d')" unfolding d' by (rule update_where_new) (use True r in auto)
      ultimately show ?thesis by blast
    next
      case False
      then show ?thesis using update_where_keeps [of r _ ?p ?f] r by (simp add: same_request d')
    qed
  qed (simp_all add: d')
qed

text \<open>What the retention leaves of the two tables.\<close>

lemma retention_tables:
  assumes "tx_retention True now d = Some (n, d')"
  obtains s ids where "db_settings d = Some s"
    "ids = map pr_request_id (filter (request_expired now s) (db_requests d))"
    "db_requests d' = filter (\<lambda>r. \<not> request_expired now s r) (db_requests d)"
    "db_attempts d' = filter (\<lambda>a. \<not> attempt_expired now s a)
       (update_where (\<lambda>a. is_some_and (\<lambda>i. i \<in> set ids) (ra_parent a)) (\<lambda>a. a\<lparr>ra_parent := None\<rparr>)
         (db_attempts d))"
proof -
  obtain s where s: "db_settings d = Some s" "(n, d') = expire_all now s d"
    using assms by (auto simp: tx_retention_def)
  from s show thesis
    by (intro that [OF s(1) refl])
      (simp_all add: expire_all_def expire_requests_def expire_permits_def expire_attempts_def
        expire_metrics_def expire_capacity_def expire_probes_def expire_audit_def expire_qa_runs_def Let_def)
qed

lemma attempt_numbers_thinned:
  "set (attempt_numbers (filter q (update_where p (\<lambda>a. a\<lparr>ra_parent := None\<rparr>) rows))) \<subseteq> set (attempt_numbers rows) \<and>
   (distinct (attempt_numbers rows) \<longrightarrow>
      distinct (attempt_numbers (filter q (update_where p (\<lambda>a. a\<lparr>ra_parent := None\<rparr>) rows))))"
  by (induction rows) (auto simp: attempt_numbers_def update_where_def)

lemma retention_inv:
  assumes "tx_retention True now d = Some (n, d')" "ledger_inv d"
  shows "ledger_inv d'"
proof -
  obtain s ids where t: "db_requests d' = filter (\<lambda>r. \<not> request_expired now s r) (db_requests d)"
    "db_attempts d' = filter (\<lambda>a. \<not> attempt_expired now s a)
       (update_where (\<lambda>a. is_some_and (\<lambda>i. i \<in> set ids) (ra_parent a)) (\<lambda>a. a\<lparr>ra_parent := None\<rparr>)
         (db_attempts d))"
    using retention_tables [OF assms(1)] by metis
  have "distinct (attempt_numbers (db_attempts d'))"
    unfolding t(2) using attempt_numbers_thinned assms(2) by (auto simp: ledger_inv_def)
  moreover have "list_all attempt_row_ok (db_attempts d')"
    unfolding t(2) using assms(2)
    by (auto simp: ledger_inv_def list_all_iff update_where_def attempt_row_ok_def)
  ultimately show ?thesis
    using assms(2) by (auto simp: t(1) ledger_inv_def list_all_iff distinct_map inj_on_def)
qed

lemma retention_request:
  assumes "tx_retention True now d = Some (n, d')" "r \<in> set (db_requests d)"
  shows "r \<in> set (db_requests d') \<or> (\<exists>s. db_settings d = Some s \<and> request_expired now s r)"
  proof -
  obtain s where "db_settings d = Some s"
    "db_requests d' = filter (\<lambda>r. \<not> request_expired now s r) (db_requests d)"
    using retention_tables [OF assms(1)] by metis
  then show ?thesis using assms(2) by simp
qed

lemma retention_attempt:
  assumes "tx_retention True now d = Some (n, d')" "a \<in> set (db_attempts d)"
  shows "(\<exists>b \<in> set (db_attempts d'). attempt_aged a b) \<or>
    (\<exists>s. db_settings d = Some s \<and> attempt_expired now s a)"
proof -
  obtain s ids where t: "db_settings d = Some s"
    "db_attempts d' = filter (\<lambda>a. \<not> attempt_expired now s a)
       (update_where (\<lambda>a. is_some_and (\<lambda>i. i \<in> set ids) (ra_parent a)) (\<lambda>a. a\<lparr>ra_parent := None\<rparr>)
         (db_attempts d))"
    using retention_tables [OF assms(1)] by metis
  let ?p = "\<lambda>a. is_some_and (\<lambda>i. i \<in> set ids) (ra_parent a)"
  let ?b = "if ?p a then a\<lparr>ra_parent := None\<rparr> else a"
  have "?b \<in> set (update_where ?p (\<lambda>a. a\<lparr>ra_parent := None\<rparr>) (db_attempts d))"
    using assms(2) unfolding update_where_def by (auto intro: image_eqI)
  moreover have "attempt_aged a ?b" by (simp add: attempt_aged_def)
  moreover have "attempt_expired now s ?b = attempt_expired now s a" by (simp add: attempt_expired_def)
  ultimately show ?thesis
    unfolding t(2) using t(1) by (cases "attempt_expired now s a") (auto intro!: bexI [of _ ?b])
qed

section \<open>Histories\<close>

text \<open>
  One committed transaction of any process: those of the request path, of the owner leases, of the
  vault's synchronisation, the rollup and the retention, and any other (the console's, the QA
  runner's) as a step that touches neither table.
\<close>

inductive ledger_step :: "db \<Rightarrow> db \<Rightarrow> bool" where
  step_attempt_started: "tx_attempt_started now owner' rid profile key d = Some (u, d') \<Longrightarrow> ledger_step d d'"
| step_finish_attempt: "tx_finish_attempt now owner' rid key att d = Some (u, d') \<Longrightarrow> ledger_step d d'"
| step_receipt: "tx_receipt now profile key d = Some (u, d') \<Longrightarrow> ledger_step d d'"
| step_response: "tx_attempt_response_started owner' rid key ttfb d = Some (u, d') \<Longrightarrow> ledger_step d d'"
| step_request_started:
    "tx_request_started now owner rid client endpoint profile stream modality d = Some (u, d') \<Longrightarrow> ledger_step d d'"
| step_request_finished: "tx_request_finished now rid outcome status e ttfb d = Some (u, d') \<Longrightarrow> ledger_step d d'"
| step_both: "tx_request_and_attempt_finished now owner' rid key att req d = Some (u, d') \<Longrightarrow> ledger_step d d'"
| step_recovery:
    "tx_request_and_open_attempts_finished now owner rid outcome status e' ttfb n d = Some (u, d') \<Longrightarrow> ledger_step d d'"
| step_select:
    "tx_select_and_start now owner rid client endpoint profile stream modality d = Some (k, d') \<Longrightarrow> ledger_step d d'"
| step_select_initial: "tx_select_initial now owner profile d = Some (k', d') \<Longrightarrow> ledger_step d d'"
| step_acquire: "tx_acquire_permit utc now hint owner rid i profile d = Some (p, d') \<Longrightarrow> ledger_step d d'"
| step_release: "tx_release_permit now rid d = Some (u, d') \<Longrightarrow> ledger_step d d'"
| step_heartbeat: "tx_heartbeat now owner d = Some (u, d') \<Longrightarrow> ledger_step d d'"
| step_cleanup_attempts: "tx_cleanup_attempts now d = Some (u, d') \<Longrightarrow> ledger_step d d'"
| step_cleanup_permits: "tx_cleanup_permits now d = Some (u, d') \<Longrightarrow> ledger_step d d'"
| step_cleanup_requests: "tx_cleanup_requests now d = Some (u, d') \<Longrightarrow> ledger_step d d'"
| step_register: "tx_register_owner now owner d = Some (u, d') \<Longrightarrow> ledger_step d d'"
| step_fixture: "tx_consume_fixture now i rid key d = Some (kind, d') \<Longrightarrow> ledger_step d d'"
| step_sync: "sync_database_delta now fresh previous current audit d = Some (a, d') \<Longrightarrow> ledger_step d d'"
| step_sync_rows: "sync_database_rows hash_slot s d = Some (u, d') \<Longrightarrow> ledger_step d d'"
| step_rollup: "tx_rollup got free rank now d = Some (n', d') \<Longrightarrow> ledger_step d d'"
| step_retention: "tx_retention got now d = Some (n', d') \<Longrightarrow> ledger_step d d'"
| step_elsewhere: "db_requests d' = db_requests d \<Longrightarrow> db_attempts d' = db_attempts d \<Longrightarrow> ledger_step d d'"

lemma tx_other_lawful:
  "tx_select_initial now owner profile d = Some (k', d') \<Longrightarrow> lawful d d'"
  "tx_acquire_permit utc now hint owner rid i profile d = Some (p, d') \<Longrightarrow> lawful d d'"
  "tx_release_permit now rid d = Some (u, d') \<Longrightarrow> lawful d d'"
  "tx_heartbeat now owner d = Some (u, d') \<Longrightarrow> lawful d d'"
  "tx_consume_fixture now i rid key d = Some (kind, d') \<Longrightarrow> lawful d d'"
  by (auto simp: tx_select_initial_def tx_acquire_permit_def tx_release_permit_def tx_heartbeat_def
      tx_consume_fixture_def bind_eq_Some_conv advance_cursor_def Let_def intro!: lawful_same
      split: option.splits if_splits)

lemma tx_cleanup_lawful:
  "tx_cleanup_attempts now d = Some (u, d') \<Longrightarrow> lawful d d'"
  "tx_cleanup_permits now d = Some (u', d'') \<Longrightarrow> lawful d d''"
  using abandon_attempts_lawful abandon_permits_lawful
  by (auto simp: tx_cleanup_attempts_def tx_cleanup_permits_def split: if_splits)

lemma ledger_step_split:
  "ledger_step d d' \<Longrightarrow> lawful d d' \<or> (\<exists>now n. tx_retention True now d = Some (n, d'))"
proof (induction rule: ledger_step.induct)
  case (step_retention got now d n' d')
  then show ?case using lawful_same [of d d] by (cases got) (auto simp: tx_retention_def)
next
  case (step_elsewhere d' d)
  then show ?case using lawful_same by blast
qed (rule disjI1, (fact tx_attempt_started_lawful tx_finish_attempt_lawful tx_receipt_lawful
    tx_response_started_lawful tx_request_started_lawful tx_request_finished_lawful
    tx_both_finished_lawful tx_open_finished_lawful tx_select_and_start_lawful tx_other_lawful
    tx_cleanup_requests_lawful tx_register_owner_lawful tx_cleanup_lawful tx_rollup_lawful
  | (rule lawful_ledger_of, (erule sync_delta_ledger sync_rows_ledger))))+

lemma ledger_steps_inv: "ledger_step\<^sup>*\<^sup>* d d' \<Longrightarrow> ledger_inv d \<Longrightarrow> ledger_inv d'"
proof (induction rule: rtranclp_induct)
  case (step b c)
  then show ?case using ledger_step_split [OF step(2)] retention_inv by (auto simp: lawful_def)
qed

text \<open>The way out of the ledger: a retention on the way found the row, as it was then, expired.\<close>

definition retired_between :: "(time \<Rightarrow> settings_row \<Rightarrow> db \<Rightarrow> bool) \<Rightarrow> db \<Rightarrow> db \<Rightarrow> bool" where
  "retired_between expired d d' \<longleftrightarrow>
     (\<exists>b c now n s. ledger_step\<^sup>*\<^sup>* d b \<and> tx_retention True now b = Some (n, c) \<and> ledger_step\<^sup>*\<^sup>* c d' \<and>
        db_settings b = Some s \<and> expired now s b)"

lemma retired_between_step: "retired_between x d b \<Longrightarrow> ledger_step b c \<Longrightarrow> retired_between x d c"
  unfolding retired_between_def by (meson rtranclp.rtrancl_into_rtrancl)

lemma retired_betweenI:
  "ledger_step\<^sup>*\<^sup>* d b \<Longrightarrow> tx_retention True now b = Some (n, c) \<Longrightarrow> db_settings b = Some s \<Longrightarrow>
     x now s b \<Longrightarrow> retired_between x d c"
  unfolding retired_between_def by blast

abbreviation request_gone :: "request_row \<Rightarrow> time \<Rightarrow> settings_row \<Rightarrow> db \<Rightarrow> bool" where
  "request_gone r now s b \<equiv> \<exists>q \<in> set (db_requests b). request_aged r q \<and> request_expired now s q"

abbreviation attempt_gone :: "attempt_row \<Rightarrow> time \<Rightarrow> settings_row \<Rightarrow> db \<Rightarrow> bool" where
  "attempt_gone a now s b \<equiv> \<exists>q \<in> set (db_attempts b). attempt_aged a q \<and> attempt_expired now s q"

lemma terminal_request_history:
  assumes "ledger_step\<^sup>*\<^sup>* d d'" "ledger_inv d" "r \<in> set (db_requests d)" "pr_outcome r \<noteq> ''started''"
  shows "(\<exists>q \<in> set (db_requests d'). request_aged r q) \<or> retired_between (request_gone r) d d'"
  using assms(1)
proof (induction rule: rtranclp_induct)
  case (step b c)
  have inv: "ledger_inv b" using ledger_steps_inv [OF step(1) assms(2)] .
  from step(3) show ?case
  proof (elim disjE)
    assume "\<exists>q \<in> set (db_requests b). request_aged r q"
    then obtain q where q: "q \<in> set (db_requests b)" "request_aged r q" by blast
    have out: "pr_outcome q \<noteq> ''started''" using request_aged_same [OF q(2)] assms(4) by simp
    from ledger_step_split [OF step(2)] show ?thesis
    proof
      assume "lawful b c"
      then have "\<exists>q' \<in> set (db_requests c). request_aged q q'"
        using inv q(1) out by (simp add: lawful_def keeps_terminal_def)
      then show ?thesis using request_aged_trans [OF q(2)] by blast
    next
      assume "\<exists>now n. tx_retention True now b = Some (n, c)"
      then obtain now n where t: "tx_retention True now b = Some (n, c)" by blast
      show ?thesis
        using retention_request [OF t q(1)] q retired_betweenI [OF step(1) t, of _ "request_gone r"] by blast
    qed
  qed (use step(2) retired_between_step in blast)
qed (use assms(3) aged_refl in blast)

lemma terminal_attempt_history:
  assumes "ledger_step\<^sup>*\<^sup>* d d'" "ledger_inv d" "a \<in> set (db_attempts d)" "ra_outcome a \<noteq> ''started''"
  shows "(\<exists>b \<in> set (db_attempts d'). attempt_aged a b) \<or> retired_between (attempt_gone a) d d'"
  using assms(1)
proof (induction rule: rtranclp_induct)
  case (step b c)
  have inv: "ledger_inv b" using ledger_steps_inv [OF step(1) assms(2)] .
  from step(3) show ?case
  proof (elim disjE)
    assume "\<exists>q \<in> set (db_attempts b). attempt_aged a q"
    then obtain q where q: "q \<in> set (db_attempts b)" "attempt_aged a q" by blast
    have out: "ra_outcome q \<noteq> ''started''" using attempt_aged_same [OF q(2)] assms(4) by simp
    from ledger_step_split [OF step(2)] show ?thesis
    proof
      assume "lawful b c"
      then have "\<exists>q' \<in> set (db_attempts c). attempt_aged q q'"
        using inv q(1) out by (simp add: lawful_def keeps_terminal_def)
      then show ?thesis using attempt_aged_trans [OF q(2)] by blast
    next
      assume "\<exists>now n. tx_retention True now b = Some (n, c)"
      then obtain now n where t: "tx_retention True now b = Some (n, c)" by blast
      show ?thesis
        using retention_attempt [OF t q(1)] attempt_aged_trans [OF q(2)] q
          retired_betweenI [OF step(1) t, of _ "attempt_gone a"] by blast
    qed
  qed (use step(2) retired_between_step in blast)
qed (use assms(3) aged_refl in blast)

lemma filter_distinct_key:
  "distinct (map f xs) \<Longrightarrow> x \<in> set xs \<Longrightarrow> f x = k \<Longrightarrow> filter (\<lambda>y. f y = k) xs = [x]"
  by (induction xs) (auto simp: filter_empty_conv image_iff)

text \<open>A ledger with one open request of one key, and the same after its success.\<close>

definition demo_request :: request_row where
  "demo_request = new_request 0 ''o'' ''r'' None ''/v1/chat/completions'' ''p'' False ''chat''"

definition demo_attempt :: attempt_row where
  "demo_attempt = new_attempt 0 ''r'' ''p'' ''k'' (Some ''o'') 1"

definition demo_open :: db where
  "demo_open = demo_db
     \<lparr>db_routing := [\<lparr>rt_profile = ''p'', rt_next_slot = 1, rt_generation = 0\<rparr>],
      db_instances := [\<lparr>in_id = ''o'', in_last_seen = 0\<rparr>],
      db_requests := [demo_request], db_attempts := [demo_attempt]\<rparr>"

definition demo_closed :: db where
  "demo_closed = demo_open
     \<lparr>db_requests := [finish_request 1 demo_open ''succeeded'' (Some 200) None None demo_request],
      db_attempts := [finish_attempt 1 (attempt_succeeded 200 None) demo_attempt]\<rparr>"

lemma demo_closed_inv: "ledger_inv demo_closed"
  by (simp add: ledger_inv_def demo_closed_def demo_request_def demo_attempt_def new_request_def
      new_attempt_def finish_request_def finish_attempt_def attempt_succeeded_def request_row_ok_def
      attempt_row_ok_def REQUEST_OUTCOMES_def ATTEMPT_OUTCOMES_def status_ok_def ms_ok_def error_ok_def
      elapsed_ms_def failover_count_def children_def demo_open_def demo_db_def attempt_numbers_def)

text \<open>Another process starts a minute later, and prunes the lease of the first.\<close>

lemma demo_register: "\<exists>d'. tx_register_owner (secs 60) ''q'' demo_closed = Some ((), d')"
  by (simp add: tx_register_owner_def has_instance_def demo_closed_def demo_request_def demo_attempt_def
      new_request_def new_attempt_def finish_request_def finish_attempt_def attempt_succeeded_def
      request_row_ok_def REQUEST_OUTCOMES_def status_ok_def ms_ok_def error_ok_def
      elapsed_ms_def failover_count_def children_def demo_open_def demo_db_def Let_def
      abandon_permits_def abandon_requests_def abandon_attempts_def update_where_def)

text \<open>Two months later the maintenance has counted the request and deletes it with its attempt.\<close>

definition demo_success :: request_row where
  "demo_success = finish_request 1 demo_open ''succeeded'' (Some 200) None None demo_request"

definition demo_counted :: db where
  "demo_counted = demo_closed
     \<lparr>db_metrics := fold upsert_metric (aggregated [demo_success]) [],
      db_requests := [demo_success\<lparr>pr_rolled_up := Some (secs 60)\<rparr>]\<rparr>"

lemma demo_success:
  "db_requests demo_closed = [demo_success]" "db_metrics demo_closed = []" "unrolled demo_success"
  "pr_request_id demo_success = ''r''" "pr_outcome demo_success = ''succeeded''"
  "pr_started_at demo_success = 0" "pr_finished_at demo_success = Some 1"
  by (simp_all add: demo_closed_def demo_open_def demo_db_def demo_request_def new_request_def
      finish_request_def unrolled_def demo_success_def)

text \<open>
  C24. Terminal evidence is final: whatever transactions of whatever processes follow, restarts,
  recovery sweeps, the rollup and the retention included, a request or an attempt that has
  reached an outcome keeps every column of its row, except that the lease of its owner may have
  been pruned, that a request is marked once when it is counted, and that an attempt's reference
  to a deleted request is cleared; the request's row remains the only one of its identifier. The
  only way such a row disappears is a retention that found it terminal and older than the days
  the settings of that moment give it (a request not yet counted is given the metrics' days).
\<close>

theorem terminal_rows_final:
  assumes "ledger_inv d" "ledger_step\<^sup>*\<^sup>* d d'"
  shows "(\<forall>r \<in> set (db_requests d). pr_outcome r \<noteq> ''started'' \<longrightarrow>
      (\<exists>q. filter (\<lambda>x. pr_request_id x = pr_request_id r) (db_requests d') = [q] \<and> request_aged r q) \<or>
      retired_between (request_gone r) d d') \<and>
    (\<forall>a \<in> set (db_attempts d). ra_outcome a \<noteq> ''started'' \<longrightarrow>
      (\<exists>q \<in> set (db_attempts d'). attempt_aged a q) \<or> retired_between (attempt_gone a) d d')"
proof -
  have inv: "ledger_inv d'" using ledger_steps_inv [OF assms(2,1)] .
  have one: "filter (\<lambda>x. pr_request_id x = pr_request_id r) (db_requests d') = [q]"
    if "q \<in> set (db_requests d')" "request_aged r q" for r q
    using inv that request_aged_same [OF that(2)] filter_distinct_key [of pr_request_id "db_requests d'" q]
    by (simp add: ledger_inv_def)
  show ?thesis
  proof (intro conjI ballI impI)
    fix r assume "r \<in> set (db_requests d)" "pr_outcome r \<noteq> ''started''"
    from terminal_request_history [OF assms(2,1) this]
    show "(\<exists>q. filter (\<lambda>x. pr_request_id x = pr_request_id r) (db_requests d') = [q] \<and> request_aged r q) \<or>
        retired_between (request_gone r) d d'"
      using one by blast
  next
    fix a assume "a \<in> set (db_attempts d)" "ra_outcome a \<noteq> ''started''"
    from terminal_attempt_history [OF assms(2,1) this]
    show "(\<exists>q \<in> set (db_attempts d'). attempt_aged a q) \<or> retired_between (attempt_gone a) d d'" .
  qed
qed

lemma demo_counted:
  "tx_rollup True (\<lambda>_. True) (\<lambda>_. 0) (secs 60) demo_closed = Some (1, demo_counted)"
  "db_requests demo_counted = [demo_success\<lparr>pr_rolled_up := Some (secs 60)\<rparr>]"
  "db_settings demo_counted = db_settings demo_db"
proof -
  show "tx_rollup True (\<lambda>_. True) (\<lambda>_. 0) (secs 60) demo_closed = Some (1, demo_counted)"
    by (simp add: tx_rollup_def Let_def selected_requests_def ROLLUP_BATCH_SIZE_def demo_success
        demo_counted_def update_where_def)
qed (simp_all add: demo_counted_def demo_closed_def demo_open_def)

lemma demo_counted_expired:
  "db_settings demo_db = Some s \<Longrightarrow>
     request_expired (secs (86400 * 60)) s (demo_success\<lparr>pr_rolled_up := Some (secs 60)\<rparr>)"
  by (auto simp: request_expired_def demo_success days_ago_def secs_def demo_db_def)

theorem terminal_rows_final_witness:
  "\<exists>n d'. tx_retention True (secs (86400 * 60)) demo_counted = Some (n, d') \<and> db_requests d' = [] \<and>
     retired_between (request_gone demo_success) demo_closed d'"
proof -
  let ?now = "secs (86400 * 60)"
  obtain s where s: "db_settings demo_counted = Some s" by (simp add: demo_counted demo_db_def)
  then obtain n d' where d': "tx_retention True ?now demo_counted = Some (n, d')"
    by (cases "expire_all ?now s demo_counted") (simp add: tx_retention_def)
  have gone: "db_requests d' = []"
    using demo_counted_expired s by (rule_tac retention_tables [OF d']) (simp add: demo_counted)
  have "ledger_step\<^sup>*\<^sup>* demo_closed d'"
    using step_rollup [OF demo_counted(1)] step_retention [OF d']
    by (meson converse_rtranclp_into_rtranclp r_into_rtranclp)
  note final = conjunct1 [OF terminal_rows_final [OF demo_closed_inv this]]
  have "retired_between (request_gone demo_success) demo_closed d'"
    using bspec [OF final, of demo_success] gone by (simp add: demo_success)
  then show ?thesis using d' gone by blast
qed

lemma child_numbers:
  "map (Pair (Some i)) (map ra_no (filter (\<lambda>a. ra_parent a = Some i) rows)) =
   filter (\<lambda>x. fst x = Some i) (attempt_numbers rows)"
  by (induction rows) (auto simp: attempt_numbers_def)



section \<open>The last attempt and its request\<close>

text \<open>What the final commit leaves behind.\<close>

definition final_rows ::
    "time \<Rightarrow> uuid \<Rightarrow> uuid \<Rightarrow> attempt_terminal \<Rightarrow> request_terminal \<Rightarrow> db \<Rightarrow> bool" where
  "final_rows now rid key att req d \<longleftrightarrow>
     (\<exists>r \<in> set (db_requests d). pr_request_id r = rid \<and> pr_outcome r = rq_outcome req \<and>
        pr_status r = rq_status req \<and> pr_error r = rq_error req \<and> pr_finished_at r = Some now) \<and>
     (\<exists>a \<in> set (db_attempts d). ra_request_id a = rid \<and> ra_key a = key \<and>
        ra_outcome a = at_outcome att \<and> ra_status a = at_status att \<and> ra_finished_at a = Some now \<and>
        (at_outcome att = ''succeeded'' \<longrightarrow> (\<exists>c \<in> set (db_receipts d). rc_profile c = ra_profile a \<and>
           rc_key c = key \<and> rc_verified_at c = now \<and> rc_invalidated_at c = None)))"

lemma tx_request_finished_Some:
  assumes "tx_request_finished now rid outcome status e ttfb d = Some (u, d')"
  shows "\<exists>r rows. started_request rid r \<and> d' = d\<lparr>db_requests := rows\<rparr> \<and>
    finish_request now d outcome status e ttfb r \<in> set rows"
proof -
  obtain rows where rows: "d' = d\<lparr>db_requests := rows\<rparr>"
    and u: "update_one (started_request rid)
        (\<lambda>r. checked request_row_ok (finish_request now d outcome status e ttfb r)) (db_requests d) = Some rows"
    using assms by (auto simp: tx_request_finished_def)
  obtain r r' where r: "r \<in> set (db_requests d)" "started_request rid r"
      "r' = finish_request now d outcome status e ttfb r"
      "rows = update_where (started_request rid) (\<lambda>_. r') (db_requests d)"
    using u by (elim update_one_SomeE) auto
  have "r' \<in> set rows"
    unfolding r(4) using update_where_new [of r "db_requests d" "started_request rid" "\<lambda>_. r'"] r(1,2) by simp
  then show ?thesis using rows r by blast
qed

lemma upsert_receipt_fresh:
  assumes "upsert_receipt now profile key probe d = Some d'"
  shows "\<exists>c \<in> set (db_receipts d'). rc_profile c = profile \<and> rc_key c = key \<and> rc_verified_at c = now \<and>
    rc_invalidated_at c = None"
proof (cases "list_ex (\<lambda>r. rc_profile r = profile \<and> rc_key r = key) (db_receipts d)")
  case True
  then obtain c where c: "c \<in> set (db_receipts d)" "rc_profile c = profile" "rc_key c = key"
    by (auto simp: list_ex_iff)
  let ?f = "\<lambda>r. r\<lparr>rc_verified_at := now, rc_invalidated_at := None, rc_reason := None,
     rc_probe := (case probe of None \<Rightarrow> rc_probe r | Some _ \<Rightarrow> probe)\<rparr>"
  have "?f c \<in> set (update_where (\<lambda>r. rc_profile r = profile \<and> rc_key r = key) ?f (db_receipts d))"
    by (rule update_where_new) (use c in auto)
  then show ?thesis
    using assms True c by (intro bexI [of _ "?f c"]) (auto simp: upsert_receipt_def Let_def split: if_splits)
qed (use assms in \<open>auto simp: upsert_receipt_def Let_def split: if_splits\<close>)

lemma tx_both_finished_final:
  assumes "tx_request_and_attempt_finished now owner rid key att req d = Some (u, d')"
  shows "final_rows now rid key att req d'"
proof -
  obtain profile d1 d2 where s: "open_profile rid key owner d = Some profile"
      "tx_finish_attempt now owner rid key att d = Some ((), d1)"
      "(if at_outcome att = ''succeeded'' then tx_receipt now profile key d1 else Some ((), d1)) = Some ((), d2)"
      "tx_request_finished now rid (rq_outcome req) (rq_status req) (rq_error req) (rq_ttfb req) d2 = Some (u, d')"
    using assms by (auto simp: tx_request_and_attempt_finished_def bind_eq_Some_conv)
  obtain i where i: "latest_index (open_attempt rid key owner) (db_attempts d) = Some i"
      "profile = ra_profile (db_attempts d ! i)"
    using s(1) by (auto simp: open_profile_def)
  note li = latest_index_Some [OF i(1)]
  let ?a = "finish_attempt now att (db_attempts d ! i)"
  have d1: "d1 = d\<lparr>db_attempts := (db_attempts d)[i := ?a]\<rparr>"
    using s(2) i(1) by (auto simp: tx_finish_attempt_def update_latest_def split: if_splits)
  have a: "?a \<in> set (db_attempts d1)" using li by (auto simp: d1 set_update_memI)
  have keep: "db_attempts d2 = db_attempts d1"
    using s(3) by (auto simp: tx_receipt_def upsert_receipt_def Let_def split: if_splits)
  obtain r rows where r: "started_request rid r" "d' = d2\<lparr>db_requests := rows\<rparr>"
      "finish_request now d2 (rq_outcome req) (rq_status req) (rq_error req) (rq_ttfb req) r \<in> set rows"
    using tx_request_finished_Some [OF s(4)] by blast
  have "\<exists>c \<in> set (db_receipts d'). rc_profile c = ra_profile ?a \<and> rc_key c = key \<and>
      rc_verified_at c = now \<and> rc_invalidated_at c = None" if "at_outcome att = ''succeeded''"
    using upsert_receipt_fresh [of now profile key None d1 d2] s(3) that i(2) r(2)
    by (auto simp: tx_receipt_def finish_attempt_def)
  moreover have "?a \<in> set (db_attempts d')" using a keep r(2) by simp
  moreover have "ra_request_id ?a = rid" "ra_key ?a = key" "ra_outcome ?a = at_outcome att"
    "ra_status ?a = at_status att" "ra_finished_at ?a = Some now"
    using li by (simp_all add: finish_attempt_def open_attempt_def)
  moreover have "\<exists>q \<in> set (db_requests d'). pr_request_id q = rid \<and> pr_outcome q = rq_outcome req \<and>
      pr_status q = rq_status req \<and> pr_error q = rq_error req \<and> pr_finished_at q = Some now"
    by (intro bexI [of _ "finish_request now d2 (rq_outcome req) (rq_status req) (rq_error req) (rq_ttfb req) r"])
      (use r in \<open>auto simp: finish_request_def started_request_def\<close>)
  ultimately show ?thesis unfolding final_rows_def by blast
qed

text \<open>
  C25. The end of a request is all or nothing: whatever fails, before or after the commit
  reached the server, the tables are either untouched and the caller told so, or both the final
  attempt and its request carry the given outcome, with the provider receipt of a success
  refreshed in the same instant.
\<close>

theorem final_commit_atomic:
  assumes "run_tx f (tx_request_and_attempt_finished now owner rid key att req) d = (res, d')"
  shows "res = None \<and> d' = d \<or> final_rows now rid key att req d'"
  using assms tx_both_finished_final
  by (cases rule: run_tx_cases [of f "tx_request_and_attempt_finished now owner rid key att req" d]) auto

abbreviation "demo_end \<equiv> tx_request_and_attempt_finished 2 (Some ''o'') ''r'' ''k''
  (attempt_failed (Some 502) ''bad_gateway'' None) (request_failed 502 ''bad_gateway'')"

lemma demo_end: "\<exists>d'. demo_end demo_open = Some ((), d')"
  by (simp add: tx_request_and_attempt_finished_def open_profile_def latest_index_def later_of_def
      demo_open_def demo_db_def demo_attempt_def demo_request_def new_attempt_def new_request_def
      open_attempt_def sql_eq_def tx_finish_attempt_def update_latest_def finish_attempt_def
      attempt_failed_def request_failed_def attempt_row_ok_def ATTEMPT_OUTCOMES_def status_ok_def
      ms_ok_def error_ok_def elapsed_ms_def tx_request_finished_def update_one_def started_request_def
      finish_request_def request_row_ok_def REQUEST_OUTCOMES_def failover_count_def children_def)

theorem final_commit_atomic_witness:
  "\<exists>d'. run_tx Fine demo_end demo_open = (Some (), d') \<and>
     final_rows 2 ''r'' ''k'' (attempt_failed (Some 502) ''bad_gateway'' None)
       (request_failed 502 ''bad_gateway'') d'"
proof -
  obtain d' where d': "run_tx Fine demo_end demo_open = (Some (), d')"
    using demo_end by (auto simp: run_tx_def)
  from final_commit_atomic [OF this] show ?thesis using d' by auto
qed

section \<open>Admission permits\<close>

lemma permits_since_snoc:
  "permits_since i t (d\<lparr>db_permits := db_permits d @ [p]\<rparr>) =
     permits_since i t d + (if pm_client p = i \<and> t \<le> pm_acquired_at p then 1 else 0)"
  by (simp add: permits_since_def)

lemma active_permits_snoc:
  "active_permits i (d\<lparr>db_permits := db_permits d @ [p]\<rparr>) =
     active_permits i d + (if pm_client p = i \<and> pm_released_at p = None then 1 else 0)"
  by (simp add: active_permits_def)

lemma trunc_to_le: "0 < u \<Longrightarrow> trunc_to u t \<le> t"
  by (simp add: trunc_to_def)

text \<open>
  C26. Admission is exact: a request is admitted only while its credential is active, not
  expired and allowed the model, and after the admission the permits of the current minute, of
  the current UTC day and the ones still held are all within the credential's limits; a
  refusal records nothing and its cause is one of those conditions.
\<close>

theorem permit_within_limits:
  assumes "tx_acquire_permit utc now hint owner rid i profile d = Some (res, d')"
    "List.find (\<lambda>c. dr_id (cw_client c) = i) (db_clients d) = Some c"
  shows "(res = Ok () \<longrightarrow>
      dr_active (cw_client c) \<and> is_none_or (\<lambda>t. utc < t) (cw_expires_at c) \<and>
      is_none_or (\<lambda>ms. profile \<in> set ms) (cw_model_allowlist c) \<and>
      is_none_or (\<lambda>l. permits_since i (trunc_to (secs 60) now) d' \<le> l) (cw_rpm_limit c) \<and>
      is_none_or (\<lambda>l. permits_since i (trunc_to (secs 86400) now) d' \<le> l) (cw_request_limit_day c) \<and>
      is_none_or (\<lambda>l. active_permits i d' \<le> l) (cw_max_concurrency c) \<and>
      active_permits i d' = active_permits i d + 1) \<and>
    (res \<noteq> Ok () \<longrightarrow> d' = d \<and>
      (\<not> dr_active (cw_client c) \<or> is_some_and (\<lambda>t. t \<le> utc) (cw_expires_at c) \<or>
       is_some_and (\<lambda>ms. profile \<notin> set ms) (cw_model_allowlist c) \<or>
       at_limit (cw_rpm_limit c) (permits_since i (trunc_to (secs 60) now) d) \<or>
       at_limit (cw_request_limit_day c) (permits_since i (trunc_to (secs 86400) now) d) \<or>
       at_limit (cw_max_concurrency c) (active_permits i d)))"
proof -
  have id: "dr_id (cw_client c) = i" using assms(2) by (auto simp: find_Some_iff)
  have t: "trunc_to (secs 60) now \<le> now" "trunc_to (secs 86400) now \<le> now"
    by (rule trunc_to_le, simp add: secs_def)+
  show ?thesis
  proof (cases "permit_check utc now hint profile c d")
    case None
    then have d': "res = Ok ()" "d' = d\<lparr>db_permits := db_permits d @
        [\<lparr>pm_request_id = rid, pm_client = i, pm_owner = Some owner, pm_profile = profile,
          pm_acquired_at = now, pm_released_at = None\<rparr>]\<rparr>"
      using assms by (auto simp: tx_acquire_permit_def split: if_splits)
    have ok: "dr_active (cw_client c)" "\<not> is_some_and (\<lambda>t. t \<le> utc) (cw_expires_at c)"
      "\<not> is_some_and (\<lambda>ms. profile \<notin> set ms) (cw_model_allowlist c)"
      "\<not> at_limit (cw_rpm_limit c) (permits_since i (trunc_to (secs 60) now) d)"
      "\<not> at_limit (cw_request_limit_day c) (permits_since i (trunc_to (secs 86400) now) d)"
      "\<not> at_limit (cw_max_concurrency c) (active_permits i d)"
      using None by (auto simp: permit_check_def Let_def id split: if_splits)
    have "is_none_or (\<lambda>t. utc < t) (cw_expires_at c)"
      "is_none_or (\<lambda>ms. profile \<in> set ms) (cw_model_allowlist c)"
      using ok(2,3) by (auto simp: is_none_or_iff is_some_and_iff)
    then show ?thesis
      using ok(1,4-6) t unfolding d'
      by (auto simp: permits_since_snoc active_permits_snoc at_limit_def is_none_or_iff is_some_and_iff)
  next
    case (Some e)
    then have "res = Err e" "d' = d" using assms by (auto simp: tx_acquire_permit_def)
    then show ?thesis using Some by (auto simp: permit_check_def Let_def id split: if_splits)
  qed
qed

text \<open>A client allowed one request at a time.\<close>

definition demo_limited_client :: client_row where
  "demo_limited_client =
     \<lparr>cw_client = \<lparr>dr_id = ''c'', dr_label = ''one'', dr_scopes = [''proxy''],
        dr_token_digest = replicate 32 (CHR ''d''), dr_active = True, dr_request_count = 0,
        dr_last_used_at = None, dr_created_at = 0, dr_revoked_at = None\<rparr>,
      cw_expires_at = None, cw_model_allowlist = None, cw_rpm_limit = Some 5,
      cw_max_concurrency = Some 1, cw_request_limit_day = None, cw_rotated_at = None\<rparr>"

definition demo_admission :: db where
  "demo_admission = demo_open\<lparr>db_clients := [demo_limited_client]\<rparr>"

theorem permit_within_limits_witness:
  "\<exists>d'. tx_acquire_permit 7 7 None ''o'' ''r'' ''c'' ''p'' demo_admission = Some (Ok (), d') \<and>
     active_permits ''c'' d' = 1"
proof -
  let ?p = "\<lparr>pm_request_id = ''r'', pm_client = ''c'', pm_owner = Some ''o'', pm_profile = ''p'',
    pm_acquired_at = 7, pm_released_at = None\<rparr>"
  have s: "tx_acquire_permit 7 7 None ''o'' ''r'' ''c'' ''p'' demo_admission =
      Some (Ok (), demo_admission\<lparr>db_permits := [?p]\<rparr>)"
    by (simp add: tx_acquire_permit_def permit_check_def Let_def demo_admission_def demo_limited_client_def
        demo_open_def demo_db_def at_limit_def permits_since_def active_permits_def has_instance_def
        has_profile_def)
  have f: "List.find (\<lambda>c. dr_id (cw_client c) = ''c'') (db_clients demo_admission) = Some demo_limited_client"
    by (simp add: demo_admission_def demo_limited_client_def)
  from permit_within_limits [OF s f] show ?thesis
    using s by (auto simp: active_permits_def demo_admission_def demo_open_def demo_db_def)
qed

end
