(* ===== verification/World.thy ===== *)
theory World
  imports Ledger Responses "HOL-Library.State_Monad"
begin

text \<open>
  The state of one running gateway (\<open>AppState\<close>, \<open>main.rs\<close>) and the programs that run on it.
  A program is a state transformer over \<open>world\<close>. What the outside decides is data: a \<open>tick\<close> is
  consumed by every operation that reaches the vault file or the database and says how long it
  took, how it ends and which random values it draws; the provider's answers are a list. Work
  handed to \<open>tokio::spawn\<close> is queued in \<open>w_tasks\<close>, a QA run handed to its
  runner in \<open>w_qa_runs\<close>. With no ticks left every operation succeeds.
\<close>

section \<open>State\<close>

record tick =
  tk_elapsed :: nat
  tk_fault :: fault
  tk_io :: persist_io
  tk_uuid :: uuid
  tk_random :: bytes
  tk_hint :: bool

definition quiet :: tick where
  "quiet = \<lparr>tk_elapsed = 0, tk_fault = Fine, tk_io = Persist_ok, tk_uuid = [], tk_random = [], tk_hint = True\<rparr>"

definition env_of :: "tick \<Rightarrow> time \<Rightarrow> env" where
  "env_of t now = \<lparr>env_now = now, env_uuid = tk_uuid t, env_random = tk_random t, env_io = tk_io t\<rparr>"

text \<open>How an abandoned request is closed (\<open>DropRecovery\<close>), and the request's owner (\<open>RequestEvidence\<close>).\<close>

record drop_recovery =
  rv_outcome :: str
  rv_status :: "nat option"
  rv_error :: str
  rv_ttfb :: "int option"
  rv_bytes :: nat

record evidence =
  ev_request_id :: uuid
  ev_started :: time
  ev_terminal :: bool
  ev_permit :: bool
  ev_recovery :: drop_recovery

text \<open>A value whose drop does nothing stands for the absence of evidence.\<close>

definition no_recovery :: drop_recovery where
  "no_recovery =
     \<lparr>rv_outcome = ''failed'', rv_status = None, rv_error = ''handler_abandoned'', rv_ttfb = None, rv_bytes = 0\<rparr>"

definition no_evidence :: evidence where
  "no_evidence =
     \<lparr>ev_request_id = [], ev_started = 0, ev_terminal = True, ev_permit = False, ev_recovery = no_recovery\<rparr>"

text \<open>Spawned work: the retry of a permit release, the drop of an evidence, the drop of a stream guard.\<close>

datatype task = Release_task uuid duration | Evidence_task evidence | Guard_task evidence drop_recovery

text \<open>
  An answer of the provider: its status and headers (names in lower case), the host of the URL it
  came from, the declared length and the items of its body.
\<close>

record provider_response =
  ps_status :: nat
  ps_headers :: "(str \<times> bytes) list"
  ps_host :: "str option"
  ps_origin :: str
  ps_length :: "nat option"
  ps_body :: "body_item list"

datatype verb = Get | Post

text \<open>What is sent: JSON, the client's own bytes under their content type, or a multipart form of texts.\<close>

datatype sent_body = No_body | Json_body json | Raw_bytes str bytes | Form_body "(str \<times> str) list"

record sent =
  st_verb :: verb
  st_url :: str
  st_credential :: str
  st_body :: sent_body

record world =
  w_vault :: vault
  w_db :: "db option"
  w_owner :: "uuid option"
  w_routers :: "str \<Rightarrow> router option"
  w_clock :: time
  w_ticks :: "tick list"
  w_evidence :: evidence
  w_tasks :: "task list"
  w_provider :: "(unit + provider_response) list"
  w_sent :: "sent list"
  w_qa_runs :: "uuid list"

text \<open>
  What does not change while the gateway runs: its configuration and the library functions it
  calls (cryptography and base64, the JSON parser and printer, URL parsing, \<open>hashtext\<close>).
\<close>

record gateway =
  gw_crypto :: crypto
  gw_upstream_url :: str
  gw_require_token :: bool
  gw_public_port :: "str option"
  gw_magpie_url :: "str option"
  gw_parse :: "bytes \<Rightarrow> json option"
  gw_show :: "json \<Rightarrow> bytes"
  gw_parse_date :: "str \<Rightarrow> time option"
  gw_join :: "str \<Rightarrow> str \<Rightarrow> str option"
  gw_hash_slot :: "uuid \<Rightarrow> nat"

type_synonym 'a program = "(world, 'a) state"
type_synonym 'a handler = "(world, http_response + 'a) state"

section \<open>Steps of a program\<close>

definition next_tick :: "tick program" where
  "next_tick = State (\<lambda>w.
     case w_ticks w of
       [] \<Rightarrow> (quiet, w)
     | t # ts \<Rightarrow> (t, w\<lparr>w_ticks := ts, w_clock := w_clock w + int (tk_elapsed t)\<rparr>))"

definition observe :: "(world \<Rightarrow> 'a) \<Rightarrow> 'a program" where
  "observe f = State (\<lambda>w. (f w, w))"

definition modify :: "(world \<Rightarrow> world) \<Rightarrow> unit program" where
  "modify f = State (\<lambda>w. ((), f w))"

text \<open>One operation of the vault, and one statement or transaction of the database.\<close>

definition vault_call :: "(env \<Rightarrow> vault \<Rightarrow> 'a \<times> vault) \<Rightarrow> 'a program" where
  "vault_call f = do {
     t \<leftarrow> next_tick;
     State (\<lambda>w. case f (env_of t (w_clock w)) (w_vault w) of (r, v) \<Rightarrow> (r, w\<lparr>w_vault := v\<rparr>))
   }"

definition database_call :: "(tick \<Rightarrow> time \<Rightarrow> db \<Rightarrow> ('a \<times> db) option) \<Rightarrow> 'a option program" where
  "database_call f = do {
     t \<leftarrow> next_tick;
     State (\<lambda>w. case w_db w of
         None \<Rightarrow> (None, w)
       | Some d \<Rightarrow> (case run_tx (tk_fault t) (f t (w_clock w)) d of
                     (r, d') \<Rightarrow> (r, w\<lparr>w_db := Some d'\<rparr>)))
   }"

text \<open>\<open>let Some(pool) = &self.database else { return Ok(()) }\<close>, then one statement.\<close>

definition if_database :: "(tick \<Rightarrow> time \<Rightarrow> db \<Rightarrow> (unit \<times> db) option) \<Rightarrow> bool program" where
  "if_database f = do {
     d \<leftarrow> observe w_db;
     case d of
       None \<Rightarrow> State_Monad.return True
     | Some _ \<Rightarrow> do { r \<leftarrow> database_call f; State_Monad.return (r \<noteq> None) }
   }"

text \<open>\<open>match m { Ok(x) => f(x), Err(response) => return response }\<close>.\<close>

definition and_then :: "'a handler \<Rightarrow> ('a \<Rightarrow> 'b handler) \<Rightarrow> 'b handler" where
  "and_then m f = do {
     r \<leftarrow> m;
     case r of Inl e \<Rightarrow> State_Monad.return (Err e) | Inr x \<Rightarrow> f x
   }"

definition answer :: "http_response \<Rightarrow> 'a handler" where
  "answer r = State_Monad.return (Err r)"

definition yield_ok :: "'a \<Rightarrow> 'a handler" where
  "yield_ok x = State_Monad.return (Ok x)"

section \<open>Reasoning about programs\<close>

text \<open>\<open>post m w Q\<close>: the value and the state \<open>m\<close> ends with from \<open>w\<close> satisfy \<open>Q\<close>.\<close>

definition post :: "'a program \<Rightarrow> world \<Rightarrow> ('a \<Rightarrow> world \<Rightarrow> bool) \<Rightarrow> bool" where
  "post m w Q = (case run_state m w of (r, w') \<Rightarrow> Q r w')"

lemma post_return [simp]: "post (State_Monad.return x) w Q \<longleftrightarrow> Q x w"
  by (simp add: post_def)

lemma post_bind [simp]: "post (State_Monad.bind m f) w Q \<longleftrightarrow> post m w (\<lambda>x w'. post (f x) w' Q)"
  by (simp add: post_def split: prod.splits)

lemma post_observe [simp]: "post (observe f) w Q \<longleftrightarrow> Q (f w) w"
  by (simp add: post_def observe_def)

lemma post_modify [simp]: "post (modify f) w Q \<longleftrightarrow> Q () (f w)"
  by (simp add: post_def modify_def)

lemma post_mono: "post m w P \<Longrightarrow> (\<And>x w'. P x w' \<Longrightarrow> Q x w') \<Longrightarrow> post m w Q"
  by (auto simp: post_def split: prod.splits)

lemma post_conj: "post m w (\<lambda>x w'. P x w' \<and> Q x w') \<longleftrightarrow> post m w P \<and> post m w Q"
  by (auto simp: post_def split: prod.splits)

lemma post_and_then [simp]:
  "post (and_then m f) w Q \<longleftrightarrow>
     post m w (\<lambda>r w'. case r of Inl e \<Rightarrow> Q (Err e) w' | Inr x \<Rightarrow> post (f x) w' Q)"
  unfolding and_then_def post_bind
  by (rule arg_cong [where f = "post m w"]) (auto simp: fun_eq_iff split: sum.splits)

lemma post_answer [simp]: "post (answer r) w Q \<longleftrightarrow> Q (Err r) w"
  by (simp add: answer_def)

lemma post_yield_ok [simp]: "post (yield_ok x) w Q \<longleftrightarrow> Q (Ok x) w"
  by (simp add: yield_ok_def)

text \<open>A step consumes at most one tick, and the clock does not run back.\<close>

definition tick_of :: "world \<Rightarrow> tick \<Rightarrow> bool" where
  "tick_of w t \<longleftrightarrow> t = quiet \<or> t \<in> set (w_ticks w)"

definition later :: "world \<Rightarrow> tick list \<Rightarrow> time \<Rightarrow> bool" where
  "later w ts now \<longleftrightarrow> set ts \<subseteq> set (w_ticks w) \<and> w_clock w \<le> now"

lemma vault_callI:
  assumes "\<And>t now ts r v. tick_of w t \<Longrightarrow> later w ts now \<Longrightarrow> f (env_of t now) (w_vault w) = (r, v) \<Longrightarrow>
    Q r (w\<lparr>w_ticks := ts, w_clock := now, w_vault := v\<rparr>)"
  shows "post (vault_call f) w Q"
proof (cases "w_ticks w")
  case Nil
  then have same: "w\<lparr>w_ticks := []\<rparr> = w" by (cases w) simp
  from Nil show ?thesis
    using assms [of quiet "w_ticks w" "w_clock w"]
    by (auto simp: same vault_call_def next_tick_def post_def tick_of_def later_def split: prod.splits)
next
  case (Cons t ts)
  then show ?thesis
    using assms [of t ts "w_clock w + int (tk_elapsed t)"]
    by (auto simp: vault_call_def next_tick_def post_def tick_of_def later_def split: prod.splits)
qed

lemma database_callI:
  assumes "w_db w = Some d"
    "\<And>t now ts r d'. tick_of w t \<Longrightarrow> later w ts now \<Longrightarrow> run_tx (tk_fault t) (f t now) d = (r, d') \<Longrightarrow>
       Q r (w\<lparr>w_ticks := ts, w_clock := now, w_db := Some d'\<rparr>)"
  shows "post (database_call f) w Q"
proof (cases "w_ticks w")
  case Nil
  then have same: "w\<lparr>w_ticks := []\<rparr> = w" by (cases w) simp
  from Nil show ?thesis
    using assms(2) [of quiet "w_ticks w" "w_clock w"] assms(1)
    by (auto simp: same database_call_def next_tick_def post_def tick_of_def later_def split: prod.splits)
next
  case (Cons t ts)
  then show ?thesis
    using assms(2) [of t ts "w_clock w + int (tk_elapsed t)"] assms(1)
    by (auto simp: database_call_def next_tick_def post_def tick_of_def later_def split: prod.splits)
qed

text \<open>\<open>keeps f m\<close>: whatever happens, \<open>m\<close> leaves \<open>f\<close> of the state as it was.\<close>

definition keeps :: "(world \<Rightarrow> 'x) \<Rightarrow> 'a program \<Rightarrow> bool" where
  "keeps f m \<longleftrightarrow> (\<forall>w. f (snd (run_state m w)) = f w)"

lemma keepsI: "(\<And>w. post m w (\<lambda>_ w'. f w' = f w)) \<Longrightarrow> keeps f m"
  by (simp add: keeps_def post_def split_beta)

lemma keeps_post: "keeps f m \<Longrightarrow> post m w (\<lambda>_ w'. f w' = f w)"
  by (simp add: keeps_def post_def split_beta)

lemma keeps_return [intro, simp]: "keeps f (State_Monad.return x)"
  by (simp add: keeps_def)

lemma keeps_bind [intro]: "keeps f m \<Longrightarrow> (\<And>x. keeps f (g x)) \<Longrightarrow> keeps f (State_Monad.bind m g)"
  by (simp add: keeps_def split_beta)

lemma keeps_and_then [intro]: "keeps f m \<Longrightarrow> (\<And>x. keeps f (g x)) \<Longrightarrow> keeps f (and_then m g)"
  unfolding and_then_def by (auto split: sum.splits intro!: keeps_bind)

lemma keeps_simple [intro, simp]:
  "keeps f (observe h)" "keeps f (answer r)" "keeps f (yield_ok x)"
  by (simp_all add: keeps_def observe_def answer_def yield_ok_def)

lemma keeps_modify [intro]: "(\<And>w. f (g w) = f w) \<Longrightarrow> keeps f (modify g)"
  by (simp add: keeps_def modify_def)

text \<open>
  \<open>evolves R m\<close>: from every state, the states before and after \<open>m\<close> are related by \<open>R\<close>. For a
  reflexive and transitive \<open>R\<close> it composes.
\<close>

definition evolves :: "(world \<Rightarrow> world \<Rightarrow> bool) \<Rightarrow> 'a program \<Rightarrow> bool" where
  "evolves R m \<longleftrightarrow> (\<forall>w. R w (snd (run_state m w)))"

lemma evolvesI: "(\<And>w. post m w (\<lambda>_ w'. R w w')) \<Longrightarrow> evolves R m"
  by (simp add: evolves_def post_def split_beta)

lemma evolves_post: "evolves R m \<Longrightarrow> post m w (\<lambda>_ w'. R w w')"
  by (simp add: evolves_def post_def split_beta)

locale history =
  fixes R :: "world \<Rightarrow> world \<Rightarrow> bool"
  assumes same: "R w w"
    and trans: "R a b \<Longrightarrow> R b c \<Longrightarrow> R a c"
begin

lemma return: "evolves R (State_Monad.return x)"
  by (simp add: evolves_def same)

lemma bind: "evolves R m \<Longrightarrow> (\<And>x. evolves R (g x)) \<Longrightarrow> evolves R (State_Monad.bind m g)"
  unfolding evolves_def by (simp add: split_beta) (blast intro: trans)

lemma and_then: "evolves R m \<Longrightarrow> (\<And>x. evolves R (g x)) \<Longrightarrow> evolves R (and_then m g)"
  unfolding and_then_def by (rule bind) (auto split: sum.splits intro: return)

lemma simple: "evolves R (observe h)" "evolves R (answer r)" "evolves R (yield_ok x)"
  by (simp_all add: evolves_def observe_def answer_def yield_ok_def same)

lemma modify: "(\<And>w. R w (g w)) \<Longrightarrow> evolves R (modify g)"
  by (simp add: evolves_def modify_def)

lemmas compose = return bind and_then simple

end

end
