(* ===== verification/Store.thy ===== *)
theory Store
  imports World Guard
begin

text \<open>
  \<open>VaultStore\<close> (\<open>main.rs\<close>) and the functions of \<open>main.rs\<close> that wrap it for the handlers: the
  mutations of the vault that are mirrored in the database or rolled back, authorization of a
  downstream token, admission, selection of an upstream key, and the health updates.
\<close>

section \<open>Mutation with rollback\<close>

text \<open>
  What a mutation can fail with: the operation's own error, rows that cannot be exported, a
  failed synchronisation, a rollback that cannot be written, an audit without a database.
\<close>

datatype store_error =
    Operation vault_error | Not_exported vault_error | Not_synced | Rollback_failed | Needs_database

text \<open>\<open>*vault = previous\<close>: the memory goes back, the file stays as the last write left it.\<close>

definition restore_vault :: "vault \<Rightarrow> unit program" where
  "restore_vault previous = modify (\<lambda>w. w\<lparr>w_vault := previous\<lparr>v_disk := v_disk (w_vault w)\<rparr>\<rparr>)"

definition sync_unlocked_with_audit ::
    "gateway \<Rightarrow> vault option \<Rightarrow> audit_mutation option \<Rightarrow> (store_error + uuid option) program" where
  "sync_unlocked_with_audit g previous audit = do {
     w \<leftarrow> observe id;
     case w_db w of
       None \<Rightarrow> State_Monad.return (Ok None)
     | Some _ \<Rightarrow>
         (case snapshot_of (gw_crypto g) (w_vault w) of
            Inl e \<Rightarrow> State_Monad.return (Err (Not_exported e))
          | Inr current \<Rightarrow>
              (case previous of
                 Some p \<Rightarrow>
                   (case snapshot_of (gw_crypto g) p of
                      Inl e \<Rightarrow> State_Monad.return (Err (Not_exported e))
                    | Inr before \<Rightarrow> do {
                        r \<leftarrow> database_call (\<lambda>t now. sync_database_delta now (tk_uuid t) before current audit);
                        State_Monad.return (ok_or Not_synced r)
                      })
               | None \<Rightarrow> do {
                   r \<leftarrow> database_call (\<lambda>t now. sync_database_rows (gw_hash_slot g) current);
                   State_Monad.return (case r of None \<Rightarrow> Err Not_synced | Some _ \<Rightarrow> Ok None)
                 }))
   }"

definition sync_unlocked :: "gateway \<Rightarrow> vault option \<Rightarrow> (store_error + unit) program" where
  "sync_unlocked g previous = do {
     r \<leftarrow> sync_unlocked_with_audit g previous None;
     State_Monad.return (bind_ok r (\<lambda>_. Ok ()))
   }"

text \<open>\<open>*vault = previous; vault.persist_for_rollback()?\<close>, then the error \<open>e\<close>.\<close>

definition roll_back :: "vault \<Rightarrow> store_error \<Rightarrow> (store_error + 'a) program" where
  "roll_back previous e = do {
     _ \<leftarrow> restore_vault previous;
     p \<leftarrow> vault_call persist_for_rollback;
     State_Monad.return (case p of Inl _ \<Rightarrow> Err Rollback_failed | Inr _ \<Rightarrow> Err e)
   }"

definition mutate ::
    "gateway \<Rightarrow> (env \<Rightarrow> vault \<Rightarrow> (vault_error + 'a) \<times> vault) \<Rightarrow> (store_error + 'a) program" where
  "mutate g operation = do {
     previous \<leftarrow> observe w_vault;
     result \<leftarrow> vault_call operation;
     case result of
       Inl e \<Rightarrow> do { _ \<leftarrow> restore_vault previous; State_Monad.return (Err (Operation e)) }
     | Inr x \<Rightarrow> do {
         s \<leftarrow> sync_unlocked g (Some previous);
         case s of Inl e \<Rightarrow> roll_back previous e | Inr _ \<Rightarrow> State_Monad.return (Ok x)
       }
   }"

definition mutate_with_audit ::
    "gateway \<Rightarrow> (env \<Rightarrow> vault \<Rightarrow> (vault_error + 'a) \<times> vault) \<Rightarrow> ('a \<Rightarrow> audit_mutation) \<Rightarrow>
     (store_error + 'a \<times> uuid) program" where
  "mutate_with_audit g operation audit_for = do {
     previous \<leftarrow> observe w_vault;
     result \<leftarrow> vault_call operation;
     case result of
       Inl e \<Rightarrow> do { _ \<leftarrow> restore_vault previous; State_Monad.return (Err (Operation e)) }
     | Inr x \<Rightarrow> do {
         s \<leftarrow> sync_unlocked_with_audit g (Some previous) (Some (audit_for x));
         case s of
           Inr (Some audit_id) \<Rightarrow> State_Monad.return (Ok (x, audit_id))
         | Inr None \<Rightarrow> roll_back previous Needs_database
         | Inl e \<Rightarrow> roll_back previous e
       }
   }"

definition set_cursor :: "gateway \<Rightarrow> str \<Rightarrow> nat \<Rightarrow> (store_error + unit) program" where
  "set_cursor g profile cursor = do {
     previous \<leftarrow> observe w_vault;
     result \<leftarrow> vault_call (\<lambda>e. set_router_cursor_for e profile cursor);
     case result of
       Inl e \<Rightarrow> do { _ \<leftarrow> restore_vault previous; State_Monad.return (Err (Operation e)) }
     | Inr _ \<Rightarrow> do {
         s \<leftarrow> sync_unlocked g (Some previous);
         case s of Inl e \<Rightarrow> roll_back previous e | Inr _ \<Rightarrow> State_Monad.return (Ok ())
       }
   }"

section \<open>Reads\<close>

definition store_list :: "key_summary list program" where
  "store_list = observe (\<lambda>w. vault_list (w_vault w))"

definition store_credential :: "gateway \<Rightarrow> uuid \<Rightarrow> (vault_error + str) program" where
  "store_credential g i = observe (\<lambda>w. credential (gw_crypto g) i (w_vault w))"

definition credential_for_probe :: "gateway \<Rightarrow> uuid \<Rightarrow> (vault_error + str) program" where
  "credential_for_probe g i = observe (\<lambda>w.
     if is_retired i (w_vault w) then Err Key_not_found else credential (gw_crypto g) i (w_vault w))"

section \<open>Downstream credentials\<close>

datatype authentication_error = Invalid_credential | Insufficient_scope | Store_unavailable

text \<open>\<open>SELECT active,expires_at\<close>: \<open>None\<close> where the query fails, the credential's row otherwise.\<close>

definition client_admitted :: "uuid \<Rightarrow> (authentication_error + unit) program" where
  "client_admitted i = do {
     r \<leftarrow> database_call (\<lambda>_ _ d. Some (List.find (\<lambda>c. dr_id (cw_client c) = i) (db_clients d), d));
     now \<leftarrow> observe w_clock;
     State_Monad.return
       (case r of
          None \<Rightarrow> Err Store_unavailable
        | Some None \<Rightarrow> Err Invalid_credential
        | Some (Some c) \<Rightarrow>
            if \<not> dr_active (cw_client c) \<or> is_some_and (\<lambda>t. t \<le> now) (cw_expires_at c)
            then Err Invalid_credential else Ok ())
   }"

definition client_admitted_if_database :: "uuid \<Rightarrow> (authentication_error + unit) program" where
  "client_admitted_if_database i = do {
     d \<leftarrow> observe w_db;
     case d of None \<Rightarrow> State_Monad.return (Ok ()) | Some _ \<Rightarrow> client_admitted i
   }"

definition scope_error :: "downstream_auth_error \<Rightarrow> authentication_error" where
  "scope_error e = (case e of InvalidCredential \<Rightarrow> Invalid_credential | InsufficientScope \<Rightarrow> Insufficient_scope)"

definition authorize_downstream :: "gateway \<Rightarrow> str \<Rightarrow> str \<Rightarrow> (authentication_error + uuid) program" where
  "authorize_downstream g token scope = do {
     identity \<leftarrow> observe (\<lambda>w. identify_downstream (gw_crypto g) token (w_vault w));
     case identity of
       Inl _ \<Rightarrow> State_Monad.return (Err Invalid_credential)
     | Inr i \<Rightarrow>
         if \<not> di_active i then State_Monad.return (Err Invalid_credential)
         else do {
           admitted \<leftarrow> client_admitted_if_database (di_id i);
           case admitted of
             Inl e \<Rightarrow> State_Monad.return (Err e)
           | Inr _ \<Rightarrow> do {
               granted \<leftarrow> observe (\<lambda>w. require_downstream_scope (di_id i) scope (w_vault w));
               State_Monad.return
                 (case granted of Inl e \<Rightarrow> Err (scope_error e) | Inr _ \<Rightarrow> Ok (di_id i))
             }
         }
   }"

definition record_accepted_use :: "gateway \<Rightarrow> uuid \<Rightarrow> (authentication_error + unit) program" where
  "record_accepted_use g i = do {
     admitted \<leftarrow> client_admitted_if_database i;
     case admitted of
       Inl e \<Rightarrow> State_Monad.return (Err e)
     | Inr _ \<Rightarrow> do {
         r \<leftarrow> mutate g (\<lambda>e. record_downstream_use e i (env_now e));
         State_Monad.return (case r of Inl _ \<Rightarrow> Err Store_unavailable | Inr _ \<Rightarrow> Ok ())
       }
   }"

text \<open>\<open>authorize_scope\<close> and \<open>record_accepted_downstream_use\<close> of \<open>main.rs\<close>.\<close>

definition store_unavailable :: "str \<Rightarrow> http_response" where
  "store_unavailable message =
     openai_error 503 message ''service_unavailable_error'' ''credential_store_unavailable''"

definition authorize_scope :: "gateway \<Rightarrow> http_request \<Rightarrow> str \<Rightarrow> uuid option handler" where
  "authorize_scope g req scope =
     (case bearer req of
        None \<Rightarrow> if \<not> gw_require_token g then yield_ok None else answer downstream_unauthorized
      | Some token \<Rightarrow> do {
          r \<leftarrow> authorize_downstream g token scope;
          State_Monad.return
            (case r of
               Inr i \<Rightarrow> Ok (Some i)
             | Inl Insufficient_scope \<Rightarrow> Err (downstream_forbidden scope)
             | Inl Invalid_credential \<Rightarrow> Err downstream_unauthorized
             | Inl Store_unavailable \<Rightarrow>
                 Err (store_unavailable ''Credential store is temporarily unavailable.''))
        })"

definition record_accepted_downstream_use :: "gateway \<Rightarrow> uuid option \<Rightarrow> unit handler" where
  "record_accepted_downstream_use g downstream =
     (case downstream of
        None \<Rightarrow> yield_ok ()
      | Some i \<Rightarrow> do {
          r \<leftarrow> record_accepted_use g i;
          State_Monad.return
            (case r of
               Inr _ \<Rightarrow> Ok ()
             | Inl Invalid_credential \<Rightarrow> Err downstream_unauthorized
             | Inl Insufficient_scope \<Rightarrow>
                 Err (openai_error 403
                   ''The downstream credential is not allowed to perform this operation.''
                   ''permission_error'' ''insufficient_scope'')
             | Inl Store_unavailable \<Rightarrow>
                 Err (store_unavailable ''Credential usage could not be recorded.''))
        })"

section \<open>Permits\<close>

definition acquire_downstream_permit ::
    "uuid \<Rightarrow> uuid option \<Rightarrow> str \<Rightarrow> (permit_error + bool) program" where
  "acquire_downstream_permit rid downstream profile = do {
     w \<leftarrow> observe id;
     case (w_db w, downstream) of
       (Some _, Some i) \<Rightarrow>
         (case w_owner w of
            None \<Rightarrow> State_Monad.return (Err StoreUnavailable)
          | Some owner \<Rightarrow> do {
              r \<leftarrow> database_call (\<lambda>t now.
                  tx_acquire_permit now now (if tk_hint t then Some (retry_hint now) else None)
                    owner rid i profile);
              State_Monad.return
                (case r of None \<Rightarrow> Err StoreUnavailable
                 | Some (Inl e) \<Rightarrow> Err e
                 | Some (Inr _) \<Rightarrow> Ok True)
            })
     | _ \<Rightarrow> State_Monad.return (Ok False)
   }"

definition release_downstream_permit :: "uuid \<Rightarrow> bool program" where
  "release_downstream_permit rid = if_database (\<lambda>_ now. tx_release_permit now rid)"

section \<open>Selection\<close>

definition router_of :: "str \<Rightarrow> world \<Rightarrow> router" where
  "router_of profile w = unwrap_or (with_next_slot 0) (w_routers w profile)"

definition put_router :: "str \<Rightarrow> router \<Rightarrow> unit program" where
  "put_router profile r = modify (\<lambda>w. w\<lparr>w_routers := (w_routers w)(profile \<mapsto> r)\<rparr>)"

definition select_in_database :: "uuid \<Rightarrow> str \<Rightarrow> uuid option program" where
  "select_in_database owner profile = do {
     r \<leftarrow> database_call (\<lambda>_ now. tx_select_initial now owner profile);
     case r of
       None \<Rightarrow> State_Monad.return None
     | Some (key, following) \<Rightarrow> do {
         router \<leftarrow> observe (router_of profile);
         _ \<leftarrow> put_router profile (set_next_slot (following - 1) router);
         State_Monad.return (Some key)
       }
   }"

text \<open>
  The file-backed selection: the router advances, the cursor is persisted, and the router goes
  back when it cannot be.
\<close>

definition select_in_file :: "gateway \<Rightarrow> str \<Rightarrow> uuid option program" where
  "select_in_file g profile = do {
     w \<leftarrow> observe id;
     let router = router_of profile w;
     case select (w_clock w) (vault_list (w_vault w)) router of
       (None, router') \<Rightarrow> do { _ \<leftarrow> put_router profile router'; State_Monad.return None }
     | (Some key, router') \<Rightarrow> do {
         _ \<leftarrow> put_router profile router';
         r \<leftarrow> set_cursor g profile (next_slot router');
         case r of
           Inr _ \<Rightarrow> State_Monad.return (Some key)
         | Inl _ \<Rightarrow> do {
             _ \<leftarrow> put_router profile (set_next_slot (next_slot router) router');
             State_Monad.return None
           }
       }
   }"

definition select_initial_key :: "gateway \<Rightarrow> str \<Rightarrow> uuid option program" where
  "select_initial_key g profile = do {
     w \<leftarrow> observe id;
     case (w_db w, w_owner w) of
       (Some _, Some owner) \<Rightarrow> select_in_database owner profile
     | _ \<Rightarrow> select_in_file g profile
   }"

definition select_failover_key :: "str \<Rightarrow> uuid list \<Rightarrow> uuid option program" where
  "select_failover_key profile attempted = do {
     w \<leftarrow> observe id;
     case (w_db w, w_owner w) of
       (Some _, Some owner) \<Rightarrow>
         database_call (\<lambda>_ now. tx_select_failover now owner profile attempted)
     | _ \<Rightarrow> State_Monad.return
         (map_option ks_id
            (List.find (\<lambda>k. ks_id k \<notin> set attempted \<and> eligible (w_clock w) k)
               (vault_list (w_vault w))))
   }"

section \<open>Accounting and health\<close>

definition ledger_unavailable :: "nat \<Rightarrow> str \<Rightarrow> http_response" where
  "ledger_unavailable status message =
     openai_error status message ''service_unavailable_error'' ''ledger_unavailable''"

definition or_ledger_unavailable :: "nat \<Rightarrow> str \<Rightarrow> 'e + 'a \<Rightarrow> http_response + 'a" where
  "or_ledger_unavailable status message r =
     (case r of Inl _ \<Rightarrow> Err (ledger_unavailable status message) | Inr x \<Rightarrow> Ok x)"

definition record_request_for :: "gateway \<Rightarrow> uuid \<Rightarrow> unit handler" where
  "record_request_for g i = do {
     r \<leftarrow> mutate g (\<lambda>e. record_request e i);
     State_Monad.return (or_ledger_unavailable 500 ''request accounting unavailable'' r)
   }"

definition fail_and_read_cooldown ::
    "uuid \<Rightarrow> duration option \<Rightarrow> env \<Rightarrow> vault \<Rightarrow> (vault_error + time option) \<times> vault" where
  "fail_and_read_cooldown i retry_after e v =
     (case record_failure e i retry_after v of
        (Inl er, v') \<Rightarrow> (Err er, v')
      | (Inr _, v') \<Rightarrow>
          (Ok (Option.bind (List.find (\<lambda>k. ks_id k = i) (vault_list v')) ks_cooldown_until), v'))"

definition record_failure_for :: "gateway \<Rightarrow> uuid \<Rightarrow> duration option \<Rightarrow> time option handler" where
  "record_failure_for g i retry_after = do {
     r \<leftarrow> mutate g (fail_and_read_cooldown i retry_after);
     State_Monad.return (or_ledger_unavailable 503 ''upstream health state unavailable'' r)
   }"

definition quarantine_key :: "gateway \<Rightarrow> uuid \<Rightarrow> unit handler" where
  "quarantine_key g i = do {
     r \<leftarrow> mutate g (\<lambda>e. quarantine e i);
     State_Monad.return
       (case or_ledger_unavailable 503 ''upstream health state unavailable'' r of
          Inl e \<Rightarrow> Err e | Inr _ \<Rightarrow> Ok ())
   }"

section \<open>Attempts\<close>

definition attempt_ledger :: "(tick \<Rightarrow> time \<Rightarrow> uuid option \<Rightarrow> db \<Rightarrow> (unit \<times> db) option) \<Rightarrow> unit handler" where
  "attempt_ledger f = do {
     owner \<leftarrow> observe w_owner;
     ok \<leftarrow> if_database (\<lambda>t now. f t now owner);
     State_Monad.return
       (if ok then Ok () else Err (ledger_unavailable 500 ''request attempt ledger unavailable''))
   }"

definition attempt_started :: "uuid \<Rightarrow> str \<Rightarrow> uuid \<Rightarrow> unit handler" where
  "attempt_started rid profile key =
     attempt_ledger (\<lambda>_ now owner. tx_attempt_started now owner rid profile key)"

definition attempt_response_started :: "uuid \<Rightarrow> uuid \<Rightarrow> int \<Rightarrow> unit handler" where
  "attempt_response_started rid key ttfb =
     attempt_ledger (\<lambda>_ now owner. tx_attempt_response_started owner rid key ttfb)"

text \<open>Three statements of their own: the profile, the terminal update, the receipt of a success.\<close>

definition attempt_finished_steps :: "uuid \<Rightarrow> uuid \<Rightarrow> attempt_terminal \<Rightarrow> bool program" where
  "attempt_finished_steps rid key att = do {
     owner \<leftarrow> observe w_owner;
     p \<leftarrow> database_call (\<lambda>_ _. tx_open_profile owner rid key);
     case p of
       None \<Rightarrow> State_Monad.return False
     | Some profile \<Rightarrow> do {
         u \<leftarrow> database_call (\<lambda>_ now. tx_finish_attempt now owner rid key att);
         case u of
           None \<Rightarrow> State_Monad.return False
         | Some _ \<Rightarrow>
             if at_outcome att = ''succeeded'' then do {
               r \<leftarrow> database_call (\<lambda>_ now. tx_receipt now profile key);
               State_Monad.return (r \<noteq> None)
             } else State_Monad.return True
       }
   }"

definition attempt_finished :: "uuid \<Rightarrow> uuid \<Rightarrow> attempt_terminal \<Rightarrow> unit handler" where
  "attempt_finished rid key att = do {
     d \<leftarrow> observe w_db;
     ok \<leftarrow> (case d of None \<Rightarrow> State_Monad.return True | Some _ \<Rightarrow> attempt_finished_steps rid key att);
     State_Monad.return
       (if ok then Ok () else Err (ledger_unavailable 500 ''request attempt ledger unavailable''))
   }"

section \<open>Opening the store\<close>

text \<open>
  \<open>VaultStore::open\<close>: the lock of the single owner (\<open>acquired\<close>), the lease with the recovery of
  what expired owners left, the rows, and the vault they make; an encrypted file is migrated into
  empty tables. \<open>w_vault\<close> of the starting world only carries the file.
\<close>

datatype open_error =
    Owned_elsewhere | No_lease | Rows_unreadable | Vault_invalid vault_error | Migration_failed

definition use_vault :: "vault \<Rightarrow> (open_error + unit) program" where
  "use_vault v = do { _ \<leftarrow> modify (\<lambda>w. w\<lparr>w_vault := v\<rparr>); State_Monad.return (Ok ()) }"

definition open_vault_file :: "bytes \<Rightarrow> (open_error + vault) program" where
  "open_vault_file key = observe (\<lambda>w.
     case vault_open (v_disk (w_vault w)) key of Inl e \<Rightarrow> Err (Vault_invalid e) | Inr v \<Rightarrow> Ok v)"

definition register_owner :: "uuid option program" where
  "register_owner = do {
     r \<leftarrow> database_call (\<lambda>t now d. map_option (\<lambda>(_, d). (tk_uuid t, d)) (tx_register_owner now (tk_uuid t) d));
     _ \<leftarrow> modify (\<lambda>w. w\<lparr>w_owner := r\<rparr>);
     State_Monad.return r
   }"

definition load_rows ::
    "(vault_key_record list \<times> vault_downstream_record list \<times> (str \<Rightarrow> nat option)) option program" where
  "load_rows = do {
     ks \<leftarrow> database_call (\<lambda>_ _ d. Some (map kw_key (db_keys d), d));
     ds \<leftarrow> database_call (\<lambda>_ _ d. Some (map cw_client (db_clients d), d));
     cs \<leftarrow> database_call (\<lambda>_ _ d. Some (load_cursors (db_routing d), d));
     State_Monad.return
       (Option.bind ks (\<lambda>ks. Option.bind ds (\<lambda>ds. map_option (\<lambda>cs. (ks, ds, cs)) cs)))
   }"

definition migrate_file :: "gateway \<Rightarrow> vault \<Rightarrow> (open_error + unit) program" where
  "migrate_file g v =
     (case snapshot_of (gw_crypto g) v of
        Inl e \<Rightarrow> State_Monad.return (Err (Vault_invalid e))
      | Inr s \<Rightarrow> do {
          r \<leftarrow> database_call (\<lambda>_ _. sync_database_rows (gw_hash_slot g) s);
          case r of None \<Rightarrow> State_Monad.return (Err Migration_failed) | Some _ \<Rightarrow> use_vault v
        })"

definition open_database_vault :: "gateway \<Rightarrow> bytes \<Rightarrow> (open_error + unit) program" where
  "open_database_vault g key = do {
     rows \<leftarrow> load_rows;
     disk \<leftarrow> observe (\<lambda>w. v_disk (w_vault w));
     case rows of
       None \<Rightarrow> State_Monad.return (Err Rows_unreadable)
     | Some (ks, ds, cursors) \<Rightarrow>
         (let from_rows =
            (case from_records_with_cursors (gw_crypto g) disk key ks ds cursors of
               Inl e \<Rightarrow> State_Monad.return (Err (Vault_invalid e))
             | Inr v \<Rightarrow> use_vault v)
          in if ks = [] \<and> ds = [] then do {
               file \<leftarrow> open_vault_file key;
               case file of
                 Inl e \<Rightarrow> State_Monad.return (Err e)
               | Inr v \<Rightarrow>
                   if should_migrate_file_vault (length ks) (length ds) (length (vault_list v))
                        (length (list_downstream v))
                   then migrate_file g v else from_rows
             } else from_rows)
   }"

definition open_store :: "gateway \<Rightarrow> bool \<Rightarrow> bytes \<Rightarrow> (open_error + unit) program" where
  "open_store g acquired key = do {
     d \<leftarrow> observe w_db;
     case d of
       None \<Rightarrow> do {
         file \<leftarrow> open_vault_file key;
         case file of Inl e \<Rightarrow> State_Monad.return (Err e) | Inr v \<Rightarrow> use_vault v
       }
     | Some _ \<Rightarrow>
         if \<not> acquired then State_Monad.return (Err Owned_elsewhere)
         else do {
           owner \<leftarrow> register_owner;
           case owner of
             None \<Rightarrow> State_Monad.return (Err No_lease)
           | Some _ \<Rightarrow> open_database_vault g key
         }
   }"

end
