(* ===== verification/Store_Props.thy ===== *)
theory Store_Props
  imports Store Sync_Props
begin

text \<open>
  What the store promises: a mutation leaves the credential tables mirroring the vault or
  changes neither, and what a selection and an authorization answer rests on.
\<close>

section \<open>The tables mirror the vault\<close>

definition mirrored :: "crypto \<Rightarrow> vault \<Rightarrow> db \<Rightarrow> bool" where
  "mirrored c v d \<longleftrightarrow>
     (\<exists>s. snapshot_of c v = Ok s \<and> key_table d = sn_keys s \<and> client_table d = sn_downstream s \<and>
        distinct (map kr_id (sn_keys s)) \<and> distinct (map dr_id (sn_downstream s)))"

text \<open>The exported rows of \<open>v'\<close> are those of \<open>v\<close>, changed in their mutable columns only.\<close>

definition rows_follow :: "crypto \<Rightarrow> vault \<Rightarrow> vault \<Rightarrow> bool" where
  "rows_follow c v v' \<longleftrightarrow>
     (\<forall>s. snapshot_of c v = Ok s \<longrightarrow> (\<exists>s'. snapshot_of c v' = Ok s' \<and>
        list_all2 (\<lambda>p r. kr_id p = kr_id r \<and> key_evolves p r) (sn_keys s) (sn_keys s') \<and>
        list_all2 (\<lambda>p r. dr_id p = dr_id r \<and> client_evolves p r) (sn_downstream s) (sn_downstream s')))"

definition no_lost_answer :: "world \<Rightarrow> bool" where
  "no_lost_answer w \<longleftrightarrow> (\<forall>t \<in> set (w_ticks w). tk_fault t \<noteq> Lost)"

lemma no_lost_tick: "no_lost_answer w \<Longrightarrow> tick_of w t \<Longrightarrow> tk_fault t \<noteq> Lost"
  by (auto simp: no_lost_answer_def tick_of_def quiet_def)

lemma snapshot_state: "v_state v' = v_state v \<Longrightarrow> snapshot_of c v' = snapshot_of c v"
  by (simp add: snapshot_of_def key_records_def downstream_records_def router_cursor_for_def router_cursor_def
      cong: option.case_cong)

lemma mirrored_state: "v_state v' = v_state v \<Longrightarrow> mirrored c v' d = mirrored c v d"
  using snapshot_state [of v' v c] by (simp add: mirrored_def)

lemma list_all2_map_eq: "list_all2 P xs ys \<Longrightarrow> (\<And>p r. P p r \<Longrightarrow> f p = f r) \<Longrightarrow> map f ys = map f xs"
proof -
  assume "list_all2 P xs ys" and f: "\<And>p r. P p r \<Longrightarrow> f p = f r"
  then have "list_all2 (\<lambda>p r. f p = f r) xs ys" by (blast intro: list_all2_mono)
  then have "list_all2 (=) (map f xs) (map f ys)" by (simp add: list_all2_map1 list_all2_map2)
  then show "map f ys = map f xs" by (simp add: list.rel_eq)
qed

lemma delta_follows:
  assumes "sync_database_delta now fresh s s' audit d = Some (r, d')" "mirrored c v d"
    "snapshot_of c v = Ok s" "snapshot_of c v' = Ok s'" "rows_follow c v v'"
  shows "mirrored c v' d'"
proof -
  have m: "key_table d = sn_keys s" "client_table d = sn_downstream s"
    "distinct (map kr_id (sn_keys s))" "distinct (map dr_id (sn_downstream s))"
    using assms(2,3) by (auto simp: mirrored_def)
  have f: "list_all2 (\<lambda>p r. kr_id p = kr_id r \<and> key_evolves p r) (sn_keys s) (sn_keys s')"
    "list_all2 (\<lambda>p r. dr_id p = dr_id r \<and> client_evolves p r) (sn_downstream s) (sn_downstream s')"
    using assms(3-5) by (auto simp: rows_follow_def)
  have d: "distinct (map kr_id (sn_keys s'))" "distinct (map dr_id (sn_downstream s'))"
    using m(3,4) list_all2_map_eq [OF f(1), of kr_id] list_all2_map_eq [OF f(2), of dr_id] by simp_all
  have "key_table d' = sn_keys s' \<and> client_table d' = sn_downstream s'"
    by (rule delta_mirrors [OF assms(1)])
      (use m f d list_all2_lengthD [OF f(1)] list_all2_lengthD [OF f(2)] in simp_all)
  then show ?thesis using assms(4) d by (auto simp: mirrored_def)
qed

lemma sync_mirrors:
  assumes "w_db w = Some d" "mirrored (gw_crypto g) v d" "no_lost_answer w"
    "rows_follow (gw_crypto g) v (w_vault w)"
  shows "post (sync_unlocked_with_audit g (Some v) audit) w (\<lambda>r w'. w_vault w' = w_vault w \<and>
    (if is_err r then w_db w' = Some d else \<exists>d'. w_db w' = Some d' \<and> mirrored (gw_crypto g) (w_vault w) d'))"
proof -
  obtain s where s: "snapshot_of (gw_crypto g) v = Ok s" using assms(2) by (auto simp: mirrored_def)
  obtain s' where s': "snapshot_of (gw_crypto g) (w_vault w) = Ok s'"
    using assms(4) s by (auto simp: rows_follow_def)
  have "post (database_call (\<lambda>t now. sync_database_delta now (tk_uuid t) s s' audit)) w (\<lambda>r w'.
      w_vault w' = w_vault w \<and> (if r = None then w_db w' = Some d
        else \<exists>d'. w_db w' = Some d' \<and> mirrored (gw_crypto g) (w_vault w) d'))"
  proof (rule database_callI [OF assms(1)])
    fix t now ts r d'
    assume t: "tick_of w t" and r: "run_tx (tk_fault t) (sync_database_delta now (tk_uuid t) s s' audit) d = (r, d')"
    have "tk_fault t \<noteq> Lost" using no_lost_tick [OF assms(3) t] .
    then show "w_vault (w\<lparr>w_ticks := ts, w_clock := now, w_db := Some d'\<rparr>) = w_vault w \<and>
      (if r = None then w_db (w\<lparr>w_ticks := ts, w_clock := now, w_db := Some d'\<rparr>) = Some d
       else \<exists>e. w_db (w\<lparr>w_ticks := ts, w_clock := now, w_db := Some d'\<rparr>) = Some e \<and>
         mirrored (gw_crypto g) (w_vault w) e)"
      using r delta_follows [OF _ assms(2) s s' assms(4)]
      by (cases rule: run_tx_cases [of "tk_fault t" "sync_database_delta now (tk_uuid t) s s' audit" d]) auto
  qed
  then show ?thesis
    unfolding sync_unlocked_with_audit_def
    using assms(1) s s' by (auto elim!: post_mono simp: ok_or_def split: option.splits)
qed

lemma roll_back_mirrors:
  assumes "w_db w = Some d" "mirrored c v d"
  shows "post (roll_back v e) w (\<lambda>r w'. w_db w' = Some d \<and> mirrored c (w_vault w') d \<and>
    is_err r \<and> v_state (w_vault w') = v_state v)"
proof -
  have "mirrored c v' d" if "v_state v' = v_state v" for v' using assms(2) mirrored_state that by blast
  then show ?thesis
    using assms(1) unfolding roll_back_def restore_vault_def
    by (auto simp: persist_for_rollback_def persist_def split: persist_io.splits sum.splits intro!: vault_callI)
qed

text \<open>
  An operation whose successful run only changes mutable columns, under a condition \<open>ready\<close> on
  the time and the vault it starts from. Through \<open>mutate\<close> it keeps the mirror.
\<close>

definition mirror_kept :: "crypto \<Rightarrow> world \<Rightarrow> bool \<Rightarrow> world \<Rightarrow> bool" where
  "mirror_kept c w failed w' \<longleftrightarrow>
     (\<exists>d'. w_db w' = Some d' \<and> mirrored c (w_vault w') d' \<and>
        (failed \<longrightarrow> w_db w' = w_db w \<and> v_state (w_vault w') = v_state (w_vault w)))"

lemma mirror_kept_False [simp]:
  "mirror_kept c w False w' \<longleftrightarrow> (\<exists>d'. w_db w' = Some d' \<and> mirrored c (w_vault w') d')"
  by (simp add: mirror_kept_def)

locale tracked_operation =
  fixes c :: crypto and ready :: "time \<Rightarrow> vault \<Rightarrow> bool"
    and operation :: "env \<Rightarrow> vault \<Rightarrow> (vault_error + 'a) \<times> vault"
  assumes follows: "operation e v = (Ok x, v') \<Longrightarrow> ready (env_now e) v \<Longrightarrow> rows_follow c v v'"
begin

lemma mutate_mirrors:
  assumes d: "w_db w = Some d" and m: "mirrored c (w_vault w) d" and nl: "no_lost_answer w"
    and c: "gw_crypto g = c" and ready: "\<And>now. w_clock w \<le> now \<Longrightarrow> ready now (w_vault w)"
  shows "post (mutate g operation) w (\<lambda>r w'. mirror_kept c w (is_err r) w')"
proof -
  let ?v = "w_vault w"
  have step: "post (do {
        s \<leftarrow> sync_unlocked g (Some ?v);
        case s of Inl e \<Rightarrow> roll_back ?v e | Inr _ \<Rightarrow> State_Monad.return (Ok x) }) w1
      (\<lambda>r w'. mirror_kept c w (is_err r) w')"
    if w1: "w_db w1 = Some d" "no_lost_answer w1" "rows_follow c ?v (w_vault w1)" for x :: 'a and w1
  proof -
    have undone: "post (roll_back ?v e) w2 (\<lambda>r. mirror_kept (gw_crypto g) w (is_err r))" if "w_db w2 = Some d" for e w2
      by (rule post_mono [OF roll_back_mirrors [OF that m]]) (auto simp: mirror_kept_def d c)
    show ?thesis
      unfolding sync_unlocked_def post_bind
      by (rule post_mono [OF sync_mirrors [OF w1(1)]])
        (use m w1 c in \<open>auto simp: bind_ok_def split: sum.splits if_splits intro: undone\<close>)
  qed
  show ?thesis
    unfolding mutate_def post_bind post_observe
  proof (rule vault_callI)
    fix t now ts r v
    assume t: "tick_of w t" "later w ts now" and r: "operation (env_of t now) ?v = (r, v)"
    let ?w = "w\<lparr>w_ticks := ts, w_clock := now, w_vault := v\<rparr>"
    have nl': "no_lost_answer ?w" using nl t(2) by (auto simp: no_lost_answer_def later_def)
    show "post (case r of
        Inl e \<Rightarrow> do { _ \<leftarrow> restore_vault ?v; State_Monad.return (Err (Operation e)) }
      | Inr x \<Rightarrow> do {
          s \<leftarrow> sync_unlocked g (Some ?v);
          case s of Inl e \<Rightarrow> roll_back ?v e | Inr _ \<Rightarrow> State_Monad.return (Ok x) }) ?w
       (\<lambda>r w'. mirror_kept c w (is_err r) w')"
    proof (cases r)
      case (Inl e)
      then show ?thesis
        using m d mirrored_state [of "?v\<lparr>v_disk := v_disk v\<rparr>" ?v]
        by (simp add: restore_vault_def mirror_kept_def)
    next
      case (Inr x)
      have "rows_follow c ?v v"
        using follows [of "env_of t now" ?v x v] r Inr ready t(2) by (simp add: later_def env_of_def)
      then show ?thesis using step [of ?w x] nl' d Inr by simp
    qed
  qed
qed

end

section \<open>The health updates and the accounting are tracked\<close>

lemma records_update_first:
  assumes "map conv xs = map Ok ks" "\<And>x k. conv x = Ok k \<Longrightarrow> p x \<Longrightarrow> x \<in> set xs \<Longrightarrow> \<exists>k'. conv (f x) = Ok k' \<and> R k k'"
    "\<And>k. R k k"
  shows "\<exists>ks'. map conv (update_first p f xs) = map Ok ks' \<and> list_all2 R ks ks'"
  using assms(1,2)
proof (induction xs arbitrary: ks)
  case Nil
  then show ?case by (intro exI [of _ "[]"]) simp
next
  case (Cons x xs)
  then obtain k ks1 where ks: "ks = k # ks1" "conv x = Ok k" "map conv xs = map Ok ks1" by (cases ks) auto
  show ?case
  proof (cases "p x")
    case True
    then obtain k' where "conv (f x) = Ok k'" "R k k'" using Cons.prems(2) ks(2) by auto
    then show ?thesis
      using ks True assms(3) by (intro exI [of _ "k' # ks1"]) (simp add: list_all2_refl)
  next
    case False
    obtain ks' where "map conv (update_first p f xs) = map Ok ks'" "list_all2 R ks1 ks'"
      using Cons.IH [OF ks(3)] Cons.prems(2) by auto
    then show ?thesis using ks False assms(3) by (intro exI [of _ "k # ks'"]) simp
  qed
qed

lemma key_evolves_refl: "key_evolves k k"
  by (simp add: key_evolves_def)

lemma client_evolves_refl: "client_evolves k k"
  by (cases "dr_last_used_at k") (simp_all add: client_evolves_def greatest_time_def)

lemma key_row_converts:
  assumes "key_record_of_stored c k = Ok r"
    "sk_id k' = sk_id k" "sk_label k' = sk_label k" "sk_fingerprint k' = sk_fingerprint k"
    "sk_nonce k' = sk_nonce k" "sk_ciphertext k' = sk_ciphertext k"
  shows "\<exists>r'. key_record_of_stored c k' = Ok r' \<and> kr_id r = kr_id r' \<and> key_evolves r r'"
  using assms by (auto simp: key_record_of_stored_def bind_ok_Ok_iff key_evolves_def)

lemma keys_update_follows:
  assumes "v_state v' = v_state (set_keys (update_first p f (v_keys v)) v)"
    "\<And>k. sk_id (f k) = sk_id k \<and> sk_label (f k) = sk_label k \<and> sk_fingerprint (f k) = sk_fingerprint k \<and>
       sk_nonce (f k) = sk_nonce k \<and> sk_ciphertext (f k) = sk_ciphertext k"
  shows "rows_follow c v v'"
  unfolding rows_follow_def
proof (intro allI impI)
  fix s assume "snapshot_of c v = Ok s"
  then obtain ks ds where s: "collect_results (map (key_record_of_stored c) (v_keys v)) = Ok ks"
      "downstream_records c v = Ok ds" "sn_keys s = ks" "sn_downstream s = ds"
    by (auto simp: snapshot_of_def key_records_def bind_ok_Ok_iff)
  have ks: "map (key_record_of_stored c) (v_keys v) = map Ok ks" using s(1) by (simp add: collect_results_Ok_iff)
  obtain ks' where ks': "map (key_record_of_stored c) (update_first p f (v_keys v)) = map Ok ks'"
      "list_all2 (\<lambda>a b. kr_id a = kr_id b \<and> key_evolves a b) ks ks'"
    using records_update_first [OF ks, of p f "\<lambda>a b. kr_id a = kr_id b \<and> key_evolves a b"]
      key_row_converts assms(2) key_evolves_refl by blast
  have "v_keys v' = update_first p f (v_keys v)" "v_downstream v' = v_downstream v"
    using assms(1) by (simp_all add: set_keys_def)
  then have "\<exists>cs. snapshot_of c v' = Ok \<lparr>sn_keys = ks', sn_downstream = ds, sn_cursors = cs\<rparr>"
    using ks'(1) s(2) by (simp add: snapshot_of_def key_records_def downstream_records_def collect_results_Ok_iff [THEN iffD2])
  then show "\<exists>s'. snapshot_of c v' = Ok s' \<and>
      list_all2 (\<lambda>p r. kr_id p = kr_id r \<and> key_evolves p r) (sn_keys s) (sn_keys s') \<and>
      list_all2 (\<lambda>p r. dr_id p = dr_id r \<and> client_evolves p r) (sn_downstream s) (sn_downstream s')"
    using ks'(2) s client_evolves_refl by (auto simp: list_all2_refl)
qed

lemma with_key_follows:
  assumes "with_key p chk f r e v = (Ok x, v')"
    "\<And>k. sk_id (f k) = sk_id k \<and> sk_label (f k) = sk_label k \<and> sk_fingerprint (f k) = sk_fingerprint k \<and>
       sk_nonce (f k) = sk_nonce k \<and> sk_ciphertext (f k) = sk_ciphertext k"
  shows "rows_follow c v v'"
proof (rule keys_update_follows [where p = p and f = f])
  have v': "v' = snd (with_key p chk f r e v)" using assms(1) by simp
  show "v_state v' = v_state (set_keys (update_first p f (v_keys v)) v)"
    using assms(1) unfolding v' by (auto simp: with_key_def split: option.splits)
qed (use assms(2) in blast)

lemma client_row_converts:
  assumes "downstream_record_of_stored c k = Ok r" "sd_id k' = sd_id k" "sd_label k' = sd_label k"
    "sd_created_at k' = sd_created_at k" "sd_token_digest k' = sd_token_digest k"
    "greatest_time (sd_last_used_at k) (sd_last_used_at k') = sd_last_used_at k'"
  shows "\<exists>r'. downstream_record_of_stored c k' = Ok r' \<and> dr_id r = dr_id r' \<and> client_evolves r r'"
  using assms by (auto simp: downstream_record_of_stored_def bind_ok_Ok_iff client_evolves_def)

lemma with_downstream_follows:
  assumes "with_downstream p missing f r e v = (Ok x, v')"
    "\<And>k. k \<in> set (v_downstream v) \<Longrightarrow> sd_id (f k) = sd_id k \<and> sd_label (f k) = sd_label k \<and>
       sd_created_at (f k) = sd_created_at k \<and> sd_token_digest (f k) = sd_token_digest k \<and>
       greatest_time (sd_last_used_at k) (sd_last_used_at (f k)) = sd_last_used_at (f k)"
  shows "rows_follow c v v'"
  unfolding rows_follow_def
proof (intro allI impI)
  fix s assume "snapshot_of c v = Ok s"
  then obtain ks ds where s: "key_records c v = Ok ks"
      "collect_results (map (downstream_record_of_stored c) (v_downstream v)) = Ok ds"
      "sn_keys s = ks" "sn_downstream s = ds"
    by (auto simp: snapshot_of_def downstream_records_def bind_ok_Ok_iff)
  have ds: "map (downstream_record_of_stored c) (v_downstream v) = map Ok ds"
    using s(2) by (simp add: collect_results_Ok_iff)
  obtain ds' where ds': "map (downstream_record_of_stored c) (update_first p f (v_downstream v)) = map Ok ds'"
      "list_all2 (\<lambda>a b. dr_id a = dr_id b \<and> client_evolves a b) ds ds'"
    using records_update_first [OF ds, of p f "\<lambda>a b. dr_id a = dr_id b \<and> client_evolves a b"]
      client_row_converts assms(2) client_evolves_refl by blast
  have v': "v' = snd (with_downstream p missing f r e v)" using assms(1) by simp
  have "v_state v' = v_state (set_downstream (update_first p f (v_downstream v)) v)"
    using assms(1) unfolding v' by (auto simp: with_downstream_def split: option.splits)
  then have "v_downstream v' = update_first p f (v_downstream v)" "v_keys v' = v_keys v"
    by (simp_all add: set_downstream_def)
  then have "\<exists>cs. snapshot_of c v' = Ok \<lparr>sn_keys = ks, sn_downstream = ds', sn_cursors = cs\<rparr>"
    using ds'(1) s(1) by (simp add: snapshot_of_def key_records_def downstream_records_def collect_results_Ok_iff [THEN iffD2])
  then show "\<exists>s'. snapshot_of c v' = Ok s' \<and>
      list_all2 (\<lambda>p r. kr_id p = kr_id r \<and> key_evolves p r) (sn_keys s) (sn_keys s') \<and>
      list_all2 (\<lambda>p r. dr_id p = dr_id r \<and> client_evolves p r) (sn_downstream s) (sn_downstream s')"
    using ds'(2) s key_evolves_refl by (auto simp: list_all2_refl)
qed

interpretation counted: tracked_operation c "\<lambda>_ _. True" "\<lambda>e. record_request e i" for c i
  by unfold_locales (auto simp: record_request_def requested_row_def intro: with_key_follows)

interpretation quarantined: tracked_operation c "\<lambda>_ _. True" "\<lambda>e. quarantine e i" for c i
  by unfold_locales (auto simp: quarantine_def quarantined_row_def intro: with_key_follows)

interpretation cooled: tracked_operation c "\<lambda>_ _. True" "fail_and_read_cooldown i retry_after" for c i retry_after
proof
  fix e v x v' assume "fail_and_read_cooldown i retry_after e v = (Ok x, v')"
  then obtain u where "record_failure e i retry_after v = (Ok u, v')"
    by (auto simp: fail_and_read_cooldown_def split: prod.splits sum.splits)
  then show "rows_follow c v v'"
    unfolding record_failure_def by (rule with_key_follows) (simp add: failed_row_def Let_def)
qed

definition used_before :: "time \<Rightarrow> vault \<Rightarrow> bool" where
  "used_before now v \<longleftrightarrow> (\<forall>k \<in> set (v_downstream v). is_none_or (\<lambda>t. t \<le> now) (sd_last_used_at k))"

interpretation used: tracked_operation c used_before "\<lambda>e. record_downstream_use e i (env_now e)" for c i
proof
  fix e v x v' assume "record_downstream_use e i (env_now e) v = (Ok x, v')" "used_before (env_now e) v"
  then show "rows_follow c v v'"
    unfolding record_downstream_use_def
    by (elim with_downstream_follows)
      (auto simp: used_row_def used_before_def greatest_time_def is_none_or_iff split: option.splits)
qed

interpretation toggled: tracked_operation c "\<lambda>_ _. True" "\<lambda>e. set_enabled e i on" for c i on
  by unfold_locales (auto simp: set_enabled_def intro: with_key_follows)

interpretation probed: tracked_operation c "\<lambda>_ _. True" "\<lambda>e. mark_verified e i" for c i
  by unfold_locales (auto simp: mark_verified_def verified_row_def intro: with_key_follows)

interpretation removed: tracked_operation c "\<lambda>_ _. True" "\<lambda>e. delete e i" for c i
  by unfold_locales (auto simp: delete_def retired_row_def intro: with_key_follows)

text \<open>A read-only query: nothing of the database changes, the answer is the query's or none.\<close>

lemma query_callI:
  assumes "w_db w = Some d"
    "\<And>now ts. later w ts now \<Longrightarrow> Q (Some (q now d)) (w\<lparr>w_ticks := ts, w_clock := now, w_db := Some d\<rparr>)"
    "\<And>now ts. later w ts now \<Longrightarrow> Q None (w\<lparr>w_ticks := ts, w_clock := now, w_db := Some d\<rparr>)"
  shows "post (database_call (\<lambda>t now d. Some (q now d, d))) w Q"
proof (rule database_callI [OF assms(1)])
  fix t now ts r d'
  assume "later w ts now" "run_tx (tk_fault t) (\<lambda>d. Some (q now d, d)) d = (r, d')"
  then show "Q r (w\<lparr>w_ticks := ts, w_clock := now, w_db := Some d'\<rparr>)"
    using assms(2,3) by (auto simp: run_tx_def split: fault.splits)
qed

lemma client_admitted_quiet:
  "post (client_admitted_if_database i) w (\<lambda>_ w'. w_db w' = w_db w \<and> w_vault w' = w_vault w \<and>
     set (w_ticks w') \<subseteq> set (w_ticks w) \<and> w_clock w \<le> w_clock w')"
proof (cases "w_db w")
  case (Some d)
  have "post (client_admitted i) w (\<lambda>_ w'. w_db w' = w_db w \<and> w_vault w' = w_vault w \<and>
     set (w_ticks w') \<subseteq> set (w_ticks w) \<and> w_clock w \<le> w_clock w')"
    unfolding client_admitted_def post_bind
    by (rule query_callI [OF Some, of _ "\<lambda>_ d. List.find (\<lambda>c. dr_id (cw_client c) = i) (db_clients d)"])
      (auto simp: later_def Some split: option.splits)
  then show ?thesis using Some by (simp add: client_admitted_if_database_def)
qed (simp add: client_admitted_if_database_def)

text \<open>
  C33. What the handlers write about an upstream or a client reaches both stores or neither:
  when the two tables mirror the vault before the update, they mirror it after it, whatever
  failed on the way short of a commit whose answer is lost, and an update that reports failure
  has left the tables and the vault in memory as they were. For the recorded use of a client this
  needs a clock that has not gone back behind a use already recorded (\<open>used_before\<close>): the vault
  stores the time of the use, the table the greater of the two.
\<close>

theorem health_updates_mirrored:
  assumes "w_db w = Some d" "mirrored (gw_crypto g) (w_vault w) d" "no_lost_answer w"
  shows "post (record_request_for g i) w (\<lambda>r. mirror_kept (gw_crypto g) w (is_err r)) \<and>
    post (record_failure_for g i retry_after) w (\<lambda>r. mirror_kept (gw_crypto g) w (is_err r)) \<and>
    post (quarantine_key g i) w (\<lambda>r. mirror_kept (gw_crypto g) w (is_err r)) \<and>
    (used_before (w_clock w) (w_vault w) \<longrightarrow>
      post (record_accepted_downstream_use g (Some i)) w (\<lambda>r. mirror_kept (gw_crypto g) w (is_err r)))"
proof -
  have "post (record_request_for g i) w (\<lambda>r. mirror_kept (gw_crypto g) w (is_err r))"
    unfolding record_request_for_def post_bind
    by (rule post_mono [OF counted.mutate_mirrors [OF assms refl]])
      (auto simp: or_ledger_unavailable_def split: sum.splits)
  moreover have "post (record_failure_for g i retry_after) w (\<lambda>r. mirror_kept (gw_crypto g) w (is_err r))"
    unfolding record_failure_for_def post_bind
    by (rule post_mono [OF cooled.mutate_mirrors [OF assms refl]])
      (auto simp: or_ledger_unavailable_def split: sum.splits)
  moreover have "post (quarantine_key g i) w (\<lambda>r. mirror_kept (gw_crypto g) w (is_err r))"
    unfolding quarantine_key_def post_bind
    by (rule post_mono [OF quarantined.mutate_mirrors [OF assms refl]])
      (auto simp: or_ledger_unavailable_def split: sum.splits)
  moreover have "post (record_accepted_downstream_use g (Some i)) w (\<lambda>r. mirror_kept (gw_crypto g) w (is_err r))"
    if u: "used_before (w_clock w) (w_vault w)"
  proof -
    have recorded: "post (mutate g (\<lambda>e. record_downstream_use e i (env_now e))) w1
        (\<lambda>r w'. mirror_kept (gw_crypto g) w (is_err r) w')"
      if w1: "w_db w1 = w_db w" "w_vault w1 = w_vault w" "set (w_ticks w1) \<subseteq> set (w_ticks w)" "w_clock w \<le> w_clock w1" for w1
    proof -
      have "used_before now (w_vault w1)" if "w_clock w1 \<le> now" for now
        using u that w1(2,4) by (fastforce simp: used_before_def is_none_or_iff)
      moreover have "no_lost_answer w1" using assms(3) w1(3) by (auto simp: no_lost_answer_def)
      ultimately show ?thesis
        using used.mutate_mirrors [of w1 d, OF _ _ _ refl] assms w1(1,2)
        by (fastforce simp: mirror_kept_def elim!: post_mono)
    qed
    have "post (record_accepted_use g i) w (\<lambda>r w'. mirror_kept (gw_crypto g) w (is_err r) w')"
      unfolding record_accepted_use_def post_bind
    proof (rule post_mono [OF client_admitted_quiet])
      fix r :: "authentication_error + unit" and w1 :: world
      assume w1: "w_db w1 = w_db w \<and> w_vault w1 = w_vault w \<and> set (w_ticks w1) \<subseteq> set (w_ticks w) \<and> w_clock w \<le> w_clock w1"
      then show "post (case r of Inl e \<Rightarrow> State_Monad.return (Err e) | Inr _ \<Rightarrow> do {
          r \<leftarrow> mutate g (\<lambda>e. record_downstream_use e i (env_now e));
          State_Monad.return (case r of Inl _ \<Rightarrow> Err Store_unavailable | Inr _ \<Rightarrow> Ok ()) }) w1
        (\<lambda>r w'. mirror_kept (gw_crypto g) w (is_err r) w')"
        using recorded [of w1] assms(1,2)
        by (auto simp: mirror_kept_def split: sum.splits elim!: post_mono)
    qed
    then show ?thesis
      unfolding record_accepted_downstream_use_def option.case post_bind
      by (rule post_mono) (auto split: sum.splits authentication_error.splits)
  qed
  ultimately show ?thesis by blast
qed

text \<open>A gateway with one upstream row, in the vault and in the table.\<close>

definition demo_gateway :: gateway where
  "demo_gateway =
     \<lparr>gw_crypto = plain_crypto, gw_upstream_url = ''https://integrate.api.nvidia.com/v1'',
      gw_require_token = True, gw_public_port = None, gw_magpie_url = None, gw_parse = (\<lambda>_. None), gw_show = (\<lambda>_. []),
      gw_parse_date = (\<lambda>_. None), gw_join = (\<lambda>_ _. None), gw_hash_slot = (\<lambda>_. 1)\<rparr>"

definition demo_exported :: vault_key_record where
  "demo_exported =
     \<lparr>kr_id = sk_id demo_row, kr_label = sk_label demo_row, kr_fingerprint = sk_fingerprint demo_row,
      kr_nonce = sk_nonce demo_row, kr_ciphertext = sk_ciphertext demo_row,
      kr_enabled = sk_enabled demo_row, kr_verified = sk_verified demo_row,
      kr_retired = sk_retired demo_row, kr_cooldown_until = sk_cooldown_until demo_row,
      kr_request_count = sk_request_count demo_row, kr_failure_count = sk_failure_count demo_row\<rparr>"

definition demo_world :: world where
  "demo_world =
     \<lparr>w_vault = demo_vault, w_db = Some (demo_db\<lparr>db_keys := [\<lparr>kw_key = demo_exported, kw_slot = 1\<rparr>]\<rparr>),
      w_owner = Some ''o'', w_routers = (\<lambda>_. None), w_clock = 9, w_ticks = [], w_evidence = no_evidence,
      w_tasks = [], w_provider = [], w_sent = [], w_qa_runs = []\<rparr>"

lemma demo_world_mirrored:
  "mirrored (gw_crypto demo_gateway) (w_vault demo_world) (demo_db\<lparr>db_keys := [\<lparr>kw_key = demo_exported, kw_slot = 1\<rparr>]\<rparr>)"
  by (simp add: mirrored_def demo_world_def demo_gateway_def snapshot_of_def key_records_def
      downstream_records_def demo_vault_def demo_file_def empty_vault_def key_record_of_stored_def
      plain_crypto_def demo_exported_def key_table_def client_table_def demo_db_def)

text \<open>The same with a client that was used before.\<close>

definition demo_client :: stored_downstream where
  "demo_client = \<lparr>sd_id = ''c'', sd_label = ''app'', sd_scopes = [''chat:write''], sd_token_digest = ''digest'',
     sd_active = True, sd_request_count = 3, sd_last_used_at = Some 5, sd_created_at = 1, sd_revoked_at = None\<rparr>"

definition demo_used_world :: world where
  "demo_used_world = demo_world\<lparr>w_vault := set_downstream [demo_client] demo_vault,
     w_db := Some (demo_db\<lparr>db_keys := [\<lparr>kw_key = demo_exported, kw_slot = 1\<rparr>],
       db_clients := [\<lparr>cw_client = \<lparr>dr_id = ''c'', dr_label = ''app'', dr_scopes = [''chat:write''], dr_token_digest = ''digest'',
         dr_active = True, dr_request_count = 3, dr_last_used_at = Some 5, dr_created_at = 1, dr_revoked_at = None\<rparr>,
         cw_expires_at = None, cw_model_allowlist = None, cw_rpm_limit = None, cw_max_concurrency = None,
         cw_request_limit_day = None, cw_rotated_at = None\<rparr>]\<rparr>)\<rparr>"

lemma demo_used_mirrored: "mirrored plain_crypto (w_vault demo_used_world) (the (w_db demo_used_world))"
  by (simp add: mirrored_def demo_used_world_def demo_world_def demo_gateway_def snapshot_of_def key_records_def
      downstream_records_def demo_vault_def demo_file_def empty_vault_def key_record_of_stored_def
      downstream_record_of_stored_def set_downstream_def demo_client_def
      plain_crypto_def demo_exported_def key_table_def client_table_def demo_db_def)

theorem health_updates_mirrored_witness:
  "post (quarantine_key demo_gateway demo_id) demo_used_world
     (\<lambda>r. mirror_kept plain_crypto demo_used_world (is_err r)) \<and>
   post (record_accepted_downstream_use demo_gateway (Some ''c'')) demo_used_world
     (\<lambda>r. mirror_kept plain_crypto demo_used_world (is_err r))"
proof -
  have m: "mirrored (gw_crypto demo_gateway) (w_vault demo_used_world) (the (w_db demo_used_world))"
    using demo_used_mirrored by (simp add: demo_gateway_def)
  have u: "used_before (w_clock demo_used_world) (w_vault demo_used_world)"
    by (simp add: used_before_def demo_used_world_def demo_world_def set_downstream_def demo_client_def)
  have n: "no_lost_answer demo_used_world" "w_db demo_used_world = Some (the (w_db demo_used_world))"
    by (simp_all add: no_lost_answer_def demo_used_world_def demo_world_def)
  show ?thesis
    using health_updates_mirrored [OF n(2) m n(1), of demo_id None]
      health_updates_mirrored [OF n(2) m n(1), of "''c''" None] u
    by (simp add: demo_gateway_def)
qed

section \<open>Authorization and selection\<close>

lemma run_post: "run_state m w = (r, w') \<Longrightarrow> post m w Q \<Longrightarrow> Q r w'"
  by (simp add: post_def)

text \<open>
  C34. A downstream token is authorized only as a credential the vault identifies by it, active
  and granted the scope, and with a database only while the credential's row there is active
  and not expired at the time it was read: a revocation or an expiry written by any process
  takes effect at once. Authorization changes neither store.
\<close>

theorem authorization_sound:
  assumes "run_state (authorize_downstream g token scope) w = (r, w')"
  shows "w_vault w' = w_vault w \<and> w_db w' = w_db w \<and>
    (\<forall>i. r = Ok i \<longrightarrow>
      identify_downstream (gw_crypto g) token (w_vault w) = Ok \<lparr>di_id = i, di_active = True\<rparr> \<and>
      require_downstream_scope i scope (w_vault w) = Ok () \<and>
      (\<forall>d. w_db w = Some d \<longrightarrow> (\<exists>c \<in> set (db_clients d). dr_id (cw_client c) = i \<and>
         dr_active (cw_client c) \<and> is_none_or (\<lambda>t. w_clock w' < t) (cw_expires_at c))))"
proof -
  have q: "post (client_admitted_if_database i) w (\<lambda>r w'. w_vault w' = w_vault w \<and> w_db w' = w_db w \<and>
      (r = Ok () \<longrightarrow> (\<forall>d. w_db w = Some d \<longrightarrow> (\<exists>c \<in> set (db_clients d). dr_id (cw_client c) = i \<and>
         dr_active (cw_client c) \<and> is_none_or (\<lambda>t. w_clock w' < t) (cw_expires_at c)))))" for i
  proof (cases "w_db w")
    case (Some d)
    have "post (client_admitted i) w (\<lambda>r w'. w_vault w' = w_vault w \<and> w_db w' = w_db w \<and>
        (r = Ok () \<longrightarrow> (\<exists>c \<in> set (db_clients d). dr_id (cw_client c) = i \<and>
           dr_active (cw_client c) \<and> is_none_or (\<lambda>t. w_clock w' < t) (cw_expires_at c))))"
      unfolding client_admitted_def post_bind
      by (rule query_callI [OF Some, of _ "\<lambda>_ d. List.find (\<lambda>c. dr_id (cw_client c) = i) (db_clients d)"])
        (auto simp: Some find_Some_iff is_none_or_iff is_some_and_iff not_le split: option.splits if_splits intro!: nth_mem)
    then show ?thesis using Some by (simp add: client_admitted_if_database_def)
  qed (simp add: client_admitted_if_database_def)
  have "post (authorize_downstream g token scope) w (\<lambda>r w'. w_vault w' = w_vault w \<and> w_db w' = w_db w \<and>
    (\<forall>i. r = Ok i \<longrightarrow>
      identify_downstream (gw_crypto g) token (w_vault w) = Ok \<lparr>di_id = i, di_active = True\<rparr> \<and>
      require_downstream_scope i scope (w_vault w) = Ok () \<and>
      (\<forall>d. w_db w = Some d \<longrightarrow> (\<exists>c \<in> set (db_clients d). dr_id (cw_client c) = i \<and>
         dr_active (cw_client c) \<and> is_none_or (\<lambda>t. w_clock w' < t) (cw_expires_at c)))))"
  proof (cases "identify_downstream (gw_crypto g) token (w_vault w)")
    case (Inr ident)
    show ?thesis
    proof (cases "di_active ident")
      case True
      then have "ident = \<lparr>di_id = di_id ident, di_active = True\<rparr>" by (cases ident) simp
      then show ?thesis
        using Inr True post_mono [OF q [of "di_id ident"]]
        by (auto simp: authorize_downstream_def split: sum.splits)
    qed (use Inr in \<open>simp add: authorize_downstream_def\<close>)
  qed (simp add: authorize_downstream_def)
  then show ?thesis by (rule run_post [OF assms])
qed

text \<open>A client of the vault in file mode.\<close>

definition demo_client_row :: stored_downstream where
  "demo_client_row =
     \<lparr>sd_id = demo_id, sd_label = ''one'', sd_scopes = [''chat:write''],
      sd_token_digest = fingerprint plain_crypto ''nblb_ds_t'', sd_active = True, sd_request_count = 0,
      sd_last_used_at = None, sd_created_at = 0, sd_revoked_at = None\<rparr>"

definition demo_client_world :: world where
  "demo_client_world = demo_world\<lparr>w_vault := set_downstream [demo_client_row] demo_vault, w_db := None\<rparr>"

theorem authorization_sound_witness:
  "fst (run_state (authorize_downstream demo_gateway ''nblb_ds_t'' ''chat:write'') demo_client_world) = Ok demo_id \<and>
   require_downstream_scope demo_id ''chat:write'' (w_vault demo_client_world) = Ok ()"
proof -
  have r: "run_state (authorize_downstream demo_gateway ''nblb_ds_t'' ''chat:write'') demo_client_world =
      (Ok demo_id, demo_client_world)"
    by (simp add: authorize_downstream_def observe_def identify_downstream_def demo_client_world_def
        demo_gateway_def demo_client_row_def identify_step_def Let_def starts_with_def demo_id_def
        select_byte_def client_admitted_if_database_def require_downstream_scope_def numeral_eq_Suc)
  show ?thesis using authorization_sound [OF r] r by simp
qed

definition usable :: "str \<Rightarrow> world \<Rightarrow> time \<Rightarrow> uuid \<Rightarrow> bool" where
  "usable profile w now key \<longleftrightarrow>
     (case (w_db w, w_owner w) of
        (Some d, Some owner) \<Rightarrow>
          (\<exists>k \<in> set (db_keys d). kr_id (kw_key k) = key \<and> hard_eligible now d owner profile k)
      | _ \<Rightarrow> (\<exists>k \<in> set (vault_list (w_vault w)). ks_id k = key \<and> eligible now k))"

lemma candidates_usable:
  "k \<in> set (candidates now d owner profile) \<Longrightarrow> k \<in> set (db_keys d) \<and> hard_eligible now d owner profile k"
  by (simp add: candidates_def)

lemma pick_slot_member: "pick_slot slot ks = Some k \<Longrightarrow> k \<in> set ks"
  by (auto simp: pick_slot_def find_Some_iff split: option.splits list.splits)

lemma select_member:
  assumes "select now keys r = (Some key, r')"
  shows "\<exists>k \<in> set keys. ks_id k = key \<and> eligible now k"
  using assms
  by (auto simp: select_def find_Some_iff visit_order_def split: if_splits option.splits)

lemma post_any: "post m w (\<lambda>_ _. True)"
  by (simp add: post_def split: prod.splits)

lemma post_put_router [simp]:
  "post (put_router profile r) w Q \<longleftrightarrow> Q () (w\<lparr>w_routers := (w_routers w)(profile \<mapsto> r)\<rparr>)"
  by (simp add: put_router_def)

lemma find_member: "List.find p xs = Some x \<Longrightarrow> x \<in> set xs \<and> p x"
  by (auto simp: find_Some_iff)

text \<open>
  Time passes: the clock of the world after is not before. The moment of a selection lies between
  the two; without a database it is the moment the selection starts.
\<close>

definition during :: "world \<Rightarrow> world \<Rightarrow> time \<Rightarrow> bool" where
  "during w w' now \<longleftrightarrow>
     w_clock w \<le> now \<and> now \<le> w_clock w' \<and> (w_db w = None \<or> w_owner w = None \<longrightarrow> now = w_clock w)"

interpretation passing: history "\<lambda>w w'. w_clock w \<le> w_clock w'"
  by unfold_locales auto

lemma database_call_passing: "evolves (\<lambda>w w'. w_clock w \<le> w_clock w') (database_call f)"
proof (rule evolvesI)
  fix w
  show "post (database_call f) w (\<lambda>_ w'. w_clock w \<le> w_clock w')"
  proof (cases "w_db w")
    case None
    then show ?thesis by (simp add: post_def database_call_def next_tick_def split: list.split)
  next
    case (Some d)
    show ?thesis by (rule database_callI [OF Some]) (simp add: later_def)
  qed
qed

lemma set_cursor_passing: "evolves (\<lambda>w w'. w_clock w \<le> w_clock w') (set_cursor g profile n)"
proof -
  have vault: "evolves (\<lambda>w w'. w_clock w \<le> w_clock w') (vault_call f)" for f :: "env \<Rightarrow> vault \<Rightarrow> 'a \<times> vault"
    by (rule evolvesI, rule vault_callI) (simp add: later_def)
  have restore: "evolves (\<lambda>w w'. w_clock w \<le> w_clock w') (restore_vault v)" for v
    unfolding restore_vault_def by (rule passing.modify) simp
  show ?thesis
    unfolding set_cursor_def sync_unlocked_def sync_unlocked_with_audit_def roll_back_def
    by (auto split: sum.split option.split intro!: passing.compose vault restore database_call_passing)
qed

lemma select_in_database_usable:
  assumes d: "w_db w = Some d" and o: "w_owner w = Some owner"
  shows "post (select_in_database owner profile) w (\<lambda>r w'. \<forall>key. r = Some key \<longrightarrow>
    (\<exists>now. during w w' now \<and> usable profile w now key))"
  unfolding select_in_database_def post_bind
proof (rule database_callI [OF d])
  fix t now ts r d'
  assume l: "later w ts now" and r: "run_tx (tk_fault t) (tx_select_initial now owner profile) d = (r, d')"
  have "\<exists>k \<in> set (db_keys d). kr_id (kw_key k) = key \<and> hard_eligible now d owner profile k"
    if "r = Some (key, following)" for key following
  proof -
    have "tx_select_initial now owner profile d = Some ((key, following), d')"
      using r that by (auto simp: run_tx_def split: fault.splits option.splits)
    then obtain slot k where "pick_slot slot (candidates now d owner profile) = Some k" "kr_id (kw_key k) = key"
      by (auto simp: tx_select_initial_def bind_eq_Some_conv)
    then show ?thesis using pick_slot_member candidates_usable by blast
  qed
  then show "post (case r of
      None \<Rightarrow> State_Monad.return None
    | Some (key, following) \<Rightarrow> do {
        router \<leftarrow> observe (router_of profile);
        _ \<leftarrow> put_router profile (set_next_slot (following - 1) router);
        State_Monad.return (Some key) }) (w\<lparr>w_ticks := ts, w_clock := now, w_db := Some d'\<rparr>)
     (\<lambda>r w'. \<forall>key. r = Some key \<longrightarrow> (\<exists>now. during w w' now \<and> usable profile w now key))"
    using l d o by (auto simp: put_router_def usable_def later_def during_def split: option.splits)
qed

lemma select_in_file_usable:
  assumes "w_db w = None \<or> w_owner w = None"
  shows "post (select_in_file g profile) w (\<lambda>r w'. \<forall>key. r = Some key \<longrightarrow>
    (\<exists>now. during w w' now \<and> usable profile w now key))"
proof -
  obtain found router' where s: "select (w_clock w) (vault_list (w_vault w)) (router_of profile w) = (found, router')"
    by fastforce
  have "usable profile w (w_clock w) key" if "found = Some key" for key
    using select_member [of "w_clock w" "vault_list (w_vault w)" "router_of profile w" key router'] s assms that
    by (auto simp: usable_def split: option.splits)
  then have "post (do {
        r \<leftarrow> set_cursor g profile cursor;
        case r of Inr _ \<Rightarrow> State_Monad.return (Some a)
        | Inl _ \<Rightarrow> do { _ \<leftarrow> put_router profile router1; State_Monad.return None } }) w1
      (\<lambda>r w'. \<forall>key. r = Some key \<longrightarrow> (\<exists>now. during w w' now \<and> usable profile w now key))"
    if "found = Some a" "w_clock w1 = w_clock w" for a cursor router1 w1
    using that
    unfolding post_bind
    by - (rule post_mono [OF evolves_post [OF set_cursor_passing]],
      use that in \<open>auto simp: during_def split: sum.splits\<close>)
  then show ?thesis
    by (cases found) (simp_all add: select_in_file_def s Let_def)
qed

lemma select_failover_usable:
  "post (select_failover_key profile attempted) w (\<lambda>r w'. \<forall>key. r = Some key \<longrightarrow>
     key \<notin> set attempted \<and> (\<exists>now. during w w' now \<and> usable profile w now key))"
proof (cases "w_db w = None \<or> w_owner w = None")
  case True
  then show ?thesis
    by (auto simp: select_failover_key_def usable_def during_def dest!: find_member split: option.splits)
next
  case False
  then obtain d owner where d: "w_db w = Some d" and o: "w_owner w = Some owner" by auto
  have "post (database_call (\<lambda>_ now. tx_select_failover now owner profile attempted)) w
      (\<lambda>r w'. \<forall>key. r = Some key \<longrightarrow> key \<notin> set attempted \<and> (\<exists>now. during w w' now \<and> usable profile w now key))"
  proof (rule database_callI [OF d])
    fix t now ts r d'
    assume l: "later w ts now" and r: "run_tx (tk_fault t) (tx_select_failover now owner profile attempted) d = (r, d')"
    let ?w = "w\<lparr>w_ticks := ts, w_clock := now, w_db := Some d'\<rparr>"
    show "\<forall>key. r = Some key \<longrightarrow> key \<notin> set attempted \<and> (\<exists>now. during w ?w now \<and> usable profile w now key)"
    proof (intro allI impI)
      fix key assume "r = Some key"
      then have "tx_select_failover now owner profile attempted d = Some (key, d')"
        using r by (auto simp: run_tx_def split: fault.splits option.splits)
      then obtain k ks where "filter (\<lambda>k. kr_id (kw_key k) \<notin> set attempted) (candidates now d owner profile) = k # ks"
          "kr_id (kw_key k) = key"
        by (auto simp: tx_select_failover_def split: list.splits)
      then have "k \<in> set (candidates now d owner profile)" "key \<notin> set attempted"
        by (auto simp: filter_eq_Cons_iff)
      then show "key \<notin> set attempted \<and> (\<exists>now. during w ?w now \<and> usable profile w now key)"
        using candidates_usable [of k now d owner profile] l d o \<open>kr_id (kw_key k) = key\<close>
        by (auto simp: usable_def later_def during_def)
    qed
  qed
  then show ?thesis by (simp add: select_failover_key_def d o)
qed

text \<open>
  C35. A selected key can serve the request: with a database it is the identifier of a row that
  is enabled, verified, not retired, not cooling down, with a fresh receipt for the profile,
  under the lease of a live owner; in file mode of a listed row that is eligible. The moment at which
  this holds lies within the selection, in file mode at its start. The selection of a failover also
  avoids every key already tried.
\<close>

theorem selected_key_usable:
  "post (select_initial_key g profile) w (\<lambda>r w'. \<forall>key. r = Some key \<longrightarrow>
      (\<exists>now. during w w' now \<and> usable profile w now key)) \<and>
   post (select_failover_key profile attempted) w (\<lambda>r w'. \<forall>key. r = Some key \<longrightarrow>
      key \<notin> set attempted \<and> (\<exists>now. during w w' now \<and> usable profile w now key))"
  using select_in_database_usable select_in_file_usable select_failover_usable
  by (auto simp: select_initial_key_def split: option.splits)

theorem selected_key_usable_witness:
  "(\<exists>now. during demo_world demo_world now \<and> usable ''p'' (demo_world\<lparr>w_vault := set_keys
       [demo_row\<lparr>sk_enabled := True, sk_verified := True\<rparr>] demo_vault, w_db := None\<rparr>) now demo_id)"
proof -
  let ?w = "demo_world\<lparr>w_vault := set_keys [demo_row\<lparr>sk_enabled := True, sk_verified := True\<rparr>] demo_vault, w_db := None\<rparr>"
  have "run_state (select_failover_key ''p'' []) ?w = (Some demo_id, ?w)"
    by (simp add: select_failover_key_def observe_def demo_world_def vault_list_def active_keys_def
        summary_def eligible_def demo_row_def new_key_def demo_env_def)
  with selected_key_usable [of demo_gateway "''p''" ?w "[]"]
  have "\<exists>now. during ?w ?w now \<and> usable ''p'' ?w now demo_id" by (simp add: post_def)
  then show ?thesis by (auto simp: during_def demo_world_def)
qed

end
