(* ===== verification/Evidence.thy ===== *)
theory Evidence
  imports Store
begin

text \<open>
  \<open>evidence.rs\<close>: the owner of a request's ledger row. \<open>RequestEvidence\<close> admits and starts a
  request, records its end, and when it is dropped before that hands a recovery to a spawned
  task; the admission permit is released at the end or by a retrying task. The methods take the
  evidence and return it updated; \<open>with_evidence\<close> runs one on the evidence the handler owns.
\<close>

section \<open>Spawned tasks\<close>

definition PERMIT_RELEASE_RETRY_INITIAL :: duration where
  "PERMIT_RELEASE_RETRY_INITIAL = 25 * 1000000"

definition PERMIT_RELEASE_RETRY_MAX :: duration where
  "PERMIT_RELEASE_RETRY_MAX = secs 5"

definition spawn :: "task \<Rightarrow> unit program" where
  "spawn t = modify (\<lambda>w. w\<lparr>w_tasks := w_tasks w @ [t]\<rparr>)"

definition spawn_permit_release_retry :: "uuid \<Rightarrow> unit program" where
  "spawn_permit_release_retry rid = spawn (Release_task rid PERMIT_RELEASE_RETRY_INITIAL)"

text \<open>The drop of a \<open>PermitReleaseGuard\<close>; \<open>transfer\<close> disarms it.\<close>

definition drop_permit_guard :: "uuid \<Rightarrow> bool \<Rightarrow> unit program" where
  "drop_permit_guard rid armed =
     (if armed then spawn_permit_release_retry rid else State_Monad.return ())"

section \<open>Ledger calls of the store\<close>

definition with_owner :: "(uuid \<Rightarrow> bool program) \<Rightarrow> bool program" where
  "with_owner f = do {
     w \<leftarrow> observe id;
     case w_db w of
       None \<Rightarrow> State_Monad.return True
     | Some _ \<Rightarrow> (case w_owner w of None \<Rightarrow> State_Monad.return False | Some owner \<Rightarrow> f owner)
   }"

definition succeeds :: "(tick \<Rightarrow> time \<Rightarrow> db \<Rightarrow> ('a \<times> db) option) \<Rightarrow> bool program" where
  "succeeds f = do { r \<leftarrow> database_call f; State_Monad.return (r \<noteq> None) }"

definition proxy_request_started ::
    "uuid \<Rightarrow> uuid option \<Rightarrow> str \<Rightarrow> str \<Rightarrow> bool \<Rightarrow> str \<Rightarrow> bool program" where
  "proxy_request_started rid client endpoint profile stream modality =
     with_owner (\<lambda>owner. succeeds (\<lambda>_ now. tx_request_started now owner rid client endpoint profile stream modality))"

definition proxy_request_finished ::
    "uuid \<Rightarrow> str \<Rightarrow> nat option \<Rightarrow> str option \<Rightarrow> int option \<Rightarrow> bool program" where
  "proxy_request_finished rid outcome status e ttfb =
     if_database (\<lambda>_ now. tx_request_finished now rid outcome status e ttfb)"

definition request_and_attempt_finished ::
    "uuid \<Rightarrow> uuid \<Rightarrow> attempt_terminal \<Rightarrow> request_terminal \<Rightarrow> bool program" where
  "request_and_attempt_finished rid key att req = do {
     owner \<leftarrow> observe w_owner;
     if_database (\<lambda>_ now. tx_request_and_attempt_finished now owner rid key att req)
   }"

definition proxy_request_and_open_attempts_finished :: "uuid \<Rightarrow> drop_recovery \<Rightarrow> bool program" where
  "proxy_request_and_open_attempts_finished rid rv =
     with_owner (\<lambda>owner. succeeds (\<lambda>_ now.
       tx_request_and_open_attempts_finished now owner rid (rv_outcome rv) (rv_status rv) (rv_error rv)
         (rv_ttfb rv) (rv_bytes rv)))"

text \<open>\<open>None\<close> is the error of the call, \<open>Some None\<close> a request refused for want of a key.\<close>

definition select_and_start_request ::
    "uuid \<Rightarrow> uuid option \<Rightarrow> str \<Rightarrow> str \<Rightarrow> bool \<Rightarrow> str \<Rightarrow> uuid option option program" where
  "select_and_start_request rid client endpoint profile stream modality = do {
     w \<leftarrow> observe id;
     case (w_db w, w_owner w) of
       (Some _, Some owner) \<Rightarrow>
         database_call (\<lambda>_ now. tx_select_and_start now owner rid client endpoint profile stream modality)
     | _ \<Rightarrow> State_Monad.return None
   }"

section \<open>The evidence of a request\<close>

definition evidence_unavailable :: http_response where
  "evidence_unavailable =
     openai_error 500 ''Request evidence is temporarily unavailable.'' ''service_unavailable_error''
       ''evidence_unavailable''"

definition permit_error_response :: "permit_error \<Rightarrow> http_response" where
  "permit_error_response e =
     (case e of
        Expired \<Rightarrow> openai_error 401 ''The downstream credential is expired or revoked.''
          ''authentication_error'' ''invalid_downstream_token''
      | ModelForbidden \<Rightarrow> openai_error 403 ''The requested model is not allowed for this credential.''
          ''permission_error'' ''model_not_allowed''
      | RateLimited retry_after \<Rightarrow> insert_header ''retry-after'' (show_nat retry_after)
          (openai_error 429 ''The per-minute request limit has been reached.'' ''rate_limit_error''
             ''rpm_limit_exceeded'')
      | DailyLimit \<Rightarrow> openai_error 429 ''The daily request limit has been reached.'' ''rate_limit_error''
          ''daily_limit_exceeded''
      | ConcurrencyLimit \<Rightarrow> openai_error 429 ''The concurrent request limit has been reached.''
          ''rate_limit_error'' ''concurrency_limit_exceeded''
      | StoreUnavailable \<Rightarrow> evidence_unavailable)"

definition new_evidence :: "uuid \<Rightarrow> time \<Rightarrow> bool \<Rightarrow> evidence" where
  "new_evidence rid now permit =
     \<lparr>ev_request_id = rid, ev_started = now, ev_terminal = False, ev_permit = permit,
      ev_recovery = no_recovery\<rparr>"

definition arm_drop_recovery :: "drop_recovery \<Rightarrow> evidence \<Rightarrow> evidence" where
  "arm_drop_recovery rv e = e\<lparr>ev_recovery := rv\<rparr>"

definition arm_evidence_failure :: "int option \<Rightarrow> nat \<Rightarrow> evidence \<Rightarrow> evidence" where
  "arm_evidence_failure ttfb bytes_out e =
     arm_drop_recovery
       \<lparr>rv_outcome = ''failed'', rv_status = Some 500, rv_error = ''evidence_unavailable'',
        rv_ttfb = ttfb, rv_bytes = bytes_out\<rparr> e"

definition reset_drop_recovery :: "evidence \<Rightarrow> evidence" where
  "reset_drop_recovery e = e\<lparr>ev_recovery := no_recovery\<rparr>"

definition evidence_elapsed_ms :: "time \<Rightarrow> evidence \<Rightarrow> int" where
  "evidence_elapsed_ms now e = min ((now - ev_started e) div 1000000) (2 ^ 63 - 1)"

definition release_permit_now :: "evidence \<Rightarrow> evidence program" where
  "release_permit_now e =
     (if \<not> ev_permit e then State_Monad.return e
      else do {
        ok \<leftarrow> release_downstream_permit (ev_request_id e);
        _ \<leftarrow> (if ok then State_Monad.return () else spawn_permit_release_retry (ev_request_id e));
        State_Monad.return (e\<lparr>ev_permit := False\<rparr>)
      })"

text \<open>What follows a terminal update: the row is closed and the permit goes back.\<close>

definition closed :: "evidence \<Rightarrow> evidence program" where
  "closed e = release_permit_now (e\<lparr>ev_terminal := True\<rparr>)"

definition finish_with_attempt ::
    "uuid \<Rightarrow> attempt_terminal \<Rightarrow> request_terminal \<Rightarrow> evidence \<Rightarrow> ((http_response + unit) \<times> evidence) program" where
  "finish_with_attempt key att req e =
     (let e = arm_evidence_failure (rq_ttfb req) (terminal_bytes_out att) e
      in do {
        ok \<leftarrow> request_and_attempt_finished (ev_request_id e) key att req;
        if ok then do { e \<leftarrow> closed e; State_Monad.return (Ok (), e) }
        else State_Monad.return (Err evidence_unavailable, e)
      })"

definition finish_with_attempt_silently ::
    "uuid \<Rightarrow> attempt_terminal \<Rightarrow> request_terminal \<Rightarrow> evidence \<Rightarrow> (bool \<times> evidence) program" where
  "finish_with_attempt_silently key att req e =
     (let e = arm_drop_recovery
           \<lparr>rv_outcome = ''failed'', rv_status = rq_status req, rv_error = ''evidence_unavailable'',
            rv_ttfb = rq_ttfb req, rv_bytes = terminal_bytes_out att\<rparr> e
      in do {
        ok \<leftarrow> request_and_attempt_finished (ev_request_id e) key att req;
        if ok then do { e \<leftarrow> closed e; State_Monad.return (True, e) }
        else State_Monad.return (False, e)
      })"

definition finish_with_open_attempts_silently :: "drop_recovery \<Rightarrow> evidence \<Rightarrow> (bool \<times> evidence) program" where
  "finish_with_open_attempts_silently rv e =
     (let e = arm_drop_recovery rv e
      in do {
        ok \<leftarrow> proxy_request_and_open_attempts_finished (ev_request_id e) rv;
        if ok then do { e \<leftarrow> closed e; State_Monad.return (True, e) }
        else State_Monad.return (False, e)
      })"

text \<open>\<open>finish\<close>, and \<open>fail\<close>: the request's row alone.\<close>

definition finish_evidence ::
    "str \<Rightarrow> nat option \<Rightarrow> str option \<Rightarrow> int option \<Rightarrow> evidence \<Rightarrow> ((http_response + unit) \<times> evidence) program" where
  "finish_evidence outcome status error_class ttfb e =
     (let e = arm_evidence_failure ttfb 0 e
      in do {
        ok \<leftarrow> proxy_request_finished (ev_request_id e) outcome status error_class ttfb;
        if ok then do { e \<leftarrow> closed e; State_Monad.return (Ok (), e) }
        else State_Monad.return (Err evidence_unavailable, e)
      })"

definition fail_evidence :: "nat \<Rightarrow> str \<Rightarrow> evidence \<Rightarrow> ((http_response + unit) \<times> evidence) program" where
  "fail_evidence status error_class =
     finish_evidence ''failed'' (Some status) (Some error_class) None"

definition drop_evidence :: "evidence \<Rightarrow> unit program" where
  "drop_evidence e =
     (if ev_terminal e \<and> \<not> ev_permit e then State_Monad.return () else spawn (Evidence_task e))"

section \<open>The evidence a handler owns\<close>

definition with_evidence :: "(evidence \<Rightarrow> ('a \<times> evidence) program) \<Rightarrow> 'a program" where
  "with_evidence f = do {
     e \<leftarrow> observe w_evidence;
     r \<leftarrow> f e;
     _ \<leftarrow> modify (\<lambda>w. w\<lparr>w_evidence := snd r\<rparr>);
     State_Monad.return (fst r)
   }"

definition change_evidence :: "(evidence \<Rightarrow> evidence) \<Rightarrow> unit program" where
  "change_evidence f = modify (\<lambda>w. w\<lparr>w_evidence := f (w_evidence w)\<rparr>)"

definition take_evidence :: "evidence program" where
  "take_evidence = do {
     e \<leftarrow> observe w_evidence;
     _ \<leftarrow> change_evidence (\<lambda>_. no_evidence);
     State_Monad.return e
   }"

text \<open>A handler's locals are dropped when it returns.\<close>

definition scoped :: "'a program \<Rightarrow> 'a program" where
  "scoped m = do {
     r \<leftarrow> m;
     e \<leftarrow> take_evidence;
     _ \<leftarrow> drop_evidence e;
     State_Monad.return r
   }"

section \<open>Admission\<close>

definition no_upstream :: http_response where
  "no_upstream =
     openai_error 503 ''No verified NVIDIA upstream is currently available.''
       ''service_unavailable_error'' ''no_eligible_upstream''"

definition permit_or_refuse :: "uuid \<Rightarrow> uuid option \<Rightarrow> str \<Rightarrow> bool handler" where
  "permit_or_refuse rid client profile = do {
     r \<leftarrow> acquire_downstream_permit rid client profile;
     State_Monad.return (case r of Inl e \<Rightarrow> Err (permit_error_response e) | Inr b \<Rightarrow> Ok b)
   }"

definition start_evidence :: "uuid \<Rightarrow> uuid option \<Rightarrow> str \<Rightarrow> str \<Rightarrow> bool \<Rightarrow> str \<Rightarrow> unit handler" where
  "start_evidence rid client endpoint profile stream modality =
     and_then (permit_or_refuse rid client profile) (\<lambda>permit. do {
       ok \<leftarrow> proxy_request_started rid client endpoint profile stream modality;
       if ok then do {
         now \<leftarrow> observe w_clock;
         _ \<leftarrow> change_evidence (\<lambda>_. new_evidence rid now permit);
         yield_ok ()
       } else do {
         _ \<leftarrow> drop_permit_guard rid permit;
         answer evidence_unavailable
       }
     })"

definition start_in_file_mode ::
    "gateway \<Rightarrow> uuid \<Rightarrow> uuid option \<Rightarrow> str \<Rightarrow> str \<Rightarrow> bool \<Rightarrow> str \<Rightarrow> uuid handler" where
  "start_in_file_mode g rid client endpoint profile stream modality =
     and_then (start_evidence rid client endpoint profile stream modality) (\<lambda>_. do {
       key \<leftarrow> select_initial_key g profile;
       case key of
         None \<Rightarrow>
           and_then (with_evidence (fail_evidence 503 ''no_eligible_upstream''))
             (\<lambda>_. answer no_upstream)
       | Some key \<Rightarrow> do {
           _ \<leftarrow> change_evidence (arm_evidence_failure None 0);
           and_then (attempt_started rid profile key) (\<lambda>_. do {
             _ \<leftarrow> change_evidence reset_drop_recovery;
             yield_ok key
           })
         }
     })"

definition start_in_database ::
    "uuid \<Rightarrow> uuid option \<Rightarrow> str \<Rightarrow> str \<Rightarrow> bool \<Rightarrow> str \<Rightarrow> uuid handler" where
  "start_in_database rid client endpoint profile stream modality =
     and_then (permit_or_refuse rid client profile) (\<lambda>permit. do {
       selected \<leftarrow> select_and_start_request rid client endpoint profile stream modality;
       case selected of
         Some (Some key) \<Rightarrow> do {
           now \<leftarrow> observe w_clock;
           _ \<leftarrow> change_evidence (\<lambda>_. new_evidence rid now permit);
           yield_ok key
         }
       | Some None \<Rightarrow> do { _ \<leftarrow> drop_permit_guard rid permit; answer no_upstream }
       | None \<Rightarrow> do { _ \<leftarrow> drop_permit_guard rid permit; answer evidence_unavailable }
     })"

definition admit_and_start_selected ::
    "gateway \<Rightarrow> uuid \<Rightarrow> uuid option \<Rightarrow> str \<Rightarrow> str \<Rightarrow> bool \<Rightarrow> str \<Rightarrow> uuid handler" where
  "admit_and_start_selected g rid client endpoint profile stream modality = do {
     d \<leftarrow> observe w_db;
     case d of
       None \<Rightarrow> start_in_file_mode g rid client endpoint profile stream modality
     | Some _ \<Rightarrow> start_in_database rid client endpoint profile stream modality
   }"

definition modality_for_path :: "str \<Rightarrow> str" where
  "modality_for_path path =
     (if path = ''/v1/chat/completions'' then ''text''
      else if path = ''/v1/embeddings'' then ''embedding''
      else if path = ''/v1/images/generations'' then ''image''
      else if path = ''/v1/videos/generations'' \<or> path = ''/v1/nvidia/inference'' then ''video''
      else if path = ''/v1/audio/speech'' then ''speech''
      else if path = ''/v1/audio/transcriptions'' then ''transcription''
      else ''unknown'')"

section \<open>Running what was spawned\<close>

text \<open>
  One round of a task. A release that fails sleeps and tries again with twice the delay, up to
  the maximum.
\<close>

definition run_evidence_task :: "evidence \<Rightarrow> unit program" where
  "run_evidence_task e = do {
     _ \<leftarrow> (if ev_terminal e then State_Monad.return True
          else proxy_request_and_open_attempts_finished (ev_request_id e) (ev_recovery e));
     if ev_permit e then spawn_permit_release_retry (ev_request_id e) else State_Monad.return ()
   }"

definition run_task :: "task \<Rightarrow> unit program" where
  "run_task t =
     (case t of
        Release_task rid delay \<Rightarrow> do {
          ok \<leftarrow> release_downstream_permit rid;
          if ok then State_Monad.return ()
          else do {
            _ \<leftarrow> modify (\<lambda>w. w\<lparr>w_clock := w_clock w + delay\<rparr>);
            spawn (Release_task rid (min (delay * 2) PERMIT_RELEASE_RETRY_MAX))
          }
        }
      | Evidence_task e \<Rightarrow> run_evidence_task e
      | Guard_task e rv \<Rightarrow> do {
          r \<leftarrow> finish_with_open_attempts_silently rv e;
          drop_evidence (snd r)
        })"

definition run_next_task :: "bool program" where
  "run_next_task = do {
     ts \<leftarrow> observe w_tasks;
     case ts of
       [] \<Rightarrow> State_Monad.return False
     | t # ts \<Rightarrow> do {
         _ \<leftarrow> modify (\<lambda>w. w\<lparr>w_tasks := ts\<rparr>);
         _ \<leftarrow> run_task t;
         State_Monad.return True
       }
   }"

end
