(* ===== verification/Upstream.thy ===== *)
theory Upstream
  imports Evidence
begin

text \<open>
  The gateway's calls to the provider: sending a request, reading a bounded body, the polling of
  an accepted NVCF request (\<open>main.rs\<close>), the routing policy, and what a refusal says about when to
  try again (\<open>proxy.rs\<close>). A tick longer than the limit of a wait is a wait that timed out.
\<close>

section \<open>Limits\<close>

definition UPSTREAM_REQUEST_TIMEOUT :: duration where "UPSTREAM_REQUEST_TIMEOUT = secs 60"
definition STREAM_RESPONSE_HEADER_TIMEOUT :: duration where "STREAM_RESPONSE_HEADER_TIMEOUT = secs 15"
definition NVCF_POLL_TIMEOUT :: duration where "NVCF_POLL_TIMEOUT = secs 5"
definition NVCF_POLL_DEADLINE :: duration where "NVCF_POLL_DEADLINE = secs 30"
definition NVCF_INITIAL_POLL_DELAY :: duration where "NVCF_INITIAL_POLL_DELAY = millis 250"

section \<open>Sending\<close>

definition sleep :: "duration \<Rightarrow> unit program" where
  "sleep d = modify (\<lambda>w. w\<lparr>w_clock := w_clock w + d\<rparr>)"

definition send :: "duration \<Rightarrow> sent \<Rightarrow> (unit + provider_response) program" where
  "send limit request = do {
     _ \<leftarrow> modify (\<lambda>w. w\<lparr>w_sent := w_sent w @ [request]\<rparr>);
     t \<leftarrow> next_tick;
     State (\<lambda>w. case w_provider w of
         [] \<Rightarrow> (Err (), w)
       | a # rest \<Rightarrow> (if limit < int (tk_elapsed t) then Err () else a, w\<lparr>w_provider := rest\<rparr>))
   }"

definition provider_header :: "str \<Rightarrow> provider_response \<Rightarrow> str option" where
  "provider_header name p = Option.bind (map_of (ps_headers p) name) header_str"

definition chunk_of :: "body_item \<Rightarrow> unit + bytes" where
  "chunk_of i = (case i of Chunk b \<Rightarrow> Ok b | _ \<Rightarrow> Err ())"

definition provider_bytes :: "nat \<Rightarrow> provider_response \<Rightarrow> response_body_error + bytes" where
  "provider_bytes limit p = bounded_response_bytes (ps_length p) (map chunk_of (ps_body p)) limit"

definition has_media_type :: "str \<Rightarrow> str \<Rightarrow> bool" where
  "has_media_type expected content_type = eq_ignore_ascii_case (media_type_of content_type) expected"

section \<open>Polling\<close>

text \<open>The lower-case hyphenated form, which \<open>Uuid::parse_str\<close> reads and prints unchanged.\<close>

definition canonical_uuid_text :: "str \<Rightarrow> bool" where
  "canonical_uuid_text s \<longleftrightarrow>
     length s = 36 \<and>
     list_all (\<lambda>i. if i \<in> {8, 13, 18, 23} then s ! i = CHR ''-''
                   else is_ascii_digit (s ! i) \<or> 97 \<le> code (s ! i) \<and> code (s ! i) \<le> 102) [0..<36]"

definition poll_request_id :: "provider_response \<Rightarrow> str option" where
  "poll_request_id p =
     (case provider_header ''nvcf-reqid'' p of
        None \<Rightarrow> None
      | Some s \<Rightarrow> if canonical_uuid_text s then Some s else None)"

definition poll_endpoint :: "gateway \<Rightarrow> provider_response \<Rightarrow> str \<Rightarrow> str option" where
  "poll_endpoint g p rid =
     (if is_some_and (\<lambda>h. h = ''api.nvcf.nvidia.com'' \<or> ends_with ''.nvidia.com'' h) (ps_host p)
      then Some (''https://api.nvcf.nvidia.com/v2/nvcf/pexec/status/'' @ rid)
      else gw_join g (ps_origin p) (''/v2/nvcf/pexec/status/'' @ rid))"

definition redirects_poll :: "str \<Rightarrow> provider_response \<Rightarrow> bool" where
  "redirects_poll endpoint p \<longleftrightarrow>
     list_ex (\<lambda>name. is_some_and (\<lambda>v. v \<noteq> endpoint) (provider_header name p))
       [''location'', ''nvcf-status-url'']"

datatype poll_error =
    No_request_id | Not_accepted | No_endpoint | Foreign_endpoint | Timed_out | Poll_failed | Not_json

definition poll_answer :: "provider_response \<Rightarrow> poll_error + provider_response" where
  "poll_answer p =
     (if \<not> is_success (ps_status p) then Err Poll_failed
      else if has_media_type ''application/json'' (unwrap_or [] (provider_header ''content-type'' p))
      then Ok p else Err Not_json)"

text \<open>\<open>None\<close> when the fuel is out, which \<open>POLL_ROUNDS\<close> rounds never are.\<close>

fun poll_loop ::
    "nat \<Rightarrow> str \<Rightarrow> str \<Rightarrow> time \<Rightarrow> duration \<Rightarrow> (poll_error + provider_response) option program" where
  "poll_loop 0 endpoint secret deadline delay = State_Monad.return None"
| "poll_loop (Suc n) endpoint secret deadline delay = do {
     now \<leftarrow> observe w_clock;
     if deadline \<le> now then State_Monad.return (Some (Err Timed_out))
     else do {
       _ \<leftarrow> sleep delay;
       now \<leftarrow> observe w_clock;
       if deadline \<le> now then State_Monad.return (Some (Err Timed_out))
       else do {
         r \<leftarrow> send NVCF_POLL_TIMEOUT
               \<lparr>st_verb = Get, st_url = endpoint, st_credential = secret, st_body = No_body\<rparr>;
         case r of
           Inl _ \<Rightarrow> State_Monad.return (Some (Err Poll_failed))
         | Inr p \<Rightarrow>
             if ps_status p = 202
             then poll_loop n endpoint secret deadline (min (delay * 2) (secs 2))
             else State_Monad.return (Some (poll_answer p))
       }
     }
   }"

definition POLL_ROUNDS :: nat where
  "POLL_ROUNDS = nat (NVCF_POLL_DEADLINE div NVCF_INITIAL_POLL_DELAY) + 1"

definition poll_nvcf ::
    "gateway \<Rightarrow> provider_response \<Rightarrow> str \<Rightarrow> (poll_error + provider_response) option program" where
  "poll_nvcf g p secret =
     (case poll_request_id p of
        None \<Rightarrow> State_Monad.return (Some (Err No_request_id))
      | Some rid \<Rightarrow>
          if ps_status p \<noteq> 202 then State_Monad.return (Some (Err Not_accepted))
          else (case poll_endpoint g p rid of
                  None \<Rightarrow> State_Monad.return (Some (Err No_endpoint))
                | Some endpoint \<Rightarrow>
                    if redirects_poll endpoint p then State_Monad.return (Some (Err Foreign_endpoint))
                    else do {
                      now \<leftarrow> observe w_clock;
                      poll_loop POLL_ROUNDS endpoint secret (now + NVCF_POLL_DEADLINE)
                        NVCF_INITIAL_POLL_DELAY
                    }))"

section \<open>Retry hints\<close>

text \<open>\<open>str::parse::<i64>\<close>.\<close>

definition parse_i64 :: "str \<Rightarrow> int option" where
  "parse_i64 s =
     (case s of
        c # ds \<Rightarrow>
          if c = CHR ''-''
          then (if ds = [] \<or> \<not> list_all is_ascii_digit ds \<or> 2 ^ 63 < dec_val 0 ds then None
                else Some (- int (dec_val 0 ds)))
          else map_option int (parse_unsigned (2 ^ 63 - 1) s)
      | [] \<Rightarrow> None)"

definition retry_after_duration :: "gateway \<Rightarrow> time \<Rightarrow> provider_response \<Rightarrow> duration option" where
  "retry_after_duration g now p =
     (case map_option trim (provider_header ''retry-after'' p) of
        None \<Rightarrow> None
      | Some v \<Rightarrow>
          (case parse_i64 v of
             Some seconds \<Rightarrow> if 0 < seconds then Some (secs (min seconds 300)) else None
           | None \<Rightarrow>
               (case gw_parse_date g v of
                  None \<Rightarrow> None
                | Some deadline \<Rightarrow>
                    if deadline < now then None
                    else Some (secs (clamp 1 300 ((deadline - now) div 1000000000))))))"

definition retry_after_for_keys :: "time \<Rightarrow> key_summary list \<Rightarrow> nat option" where
  "retry_after_for_keys now keys =
     (if keys = [] \<or> list_ex (eligible now) keys then None
      else (case filter (\<lambda>s. 0 \<le> s)
                   (map (\<lambda>t. num_seconds (t - now)) (List.map_filter ks_cooldown_until keys)) of
              [] \<Rightarrow> None
            | s # rest \<Rightarrow> Some (clamp 1 300 (nat (foldr min rest s)))))"

section \<open>Routing policy\<close>

record routing_policy =
  ro_retryable_statuses :: "nat list"
  ro_default_cooldown :: duration

definition default_routing_policy :: routing_policy where
  "default_routing_policy =
     \<lparr>ro_retryable_statuses = [402, 408, 429, 500, 502, 503, 504], ro_default_cooldown = secs 2\<rparr>"

definition u16_of :: "json \<Rightarrow> nat option" where
  "u16_of v = (case as_u64 v of Some n \<Rightarrow> if n \<le> 65535 then Some n else None | None \<Rightarrow> None)"

definition routing_policy_of :: "json \<Rightarrow> routing_policy" where
  "routing_policy_of document =
     (let statuses = map_option (List.map_filter u16_of) (get_array ''retryable_statuses'' document);
          seconds = Option.bind (get_field ''default_cooldown_seconds'' document) as_i64
      in \<lparr>ro_retryable_statuses =
            (case statuses of
               Some (s # ss) \<Rightarrow> s # ss
             | _ \<Rightarrow> ro_retryable_statuses default_routing_policy),
          ro_default_cooldown =
            secs (case seconds of Some n \<Rightarrow> if 1 \<le> n \<and> n \<le> 3600 then n else 2 | None \<Rightarrow> 2)\<rparr>)"

definition load_routing_policy :: "routing_policy program" where
  "load_routing_policy = do {
     d \<leftarrow> observe w_db;
     case d of
       None \<Rightarrow> State_Monad.return default_routing_policy
     | Some _ \<Rightarrow> do {
         r \<leftarrow> database_call (\<lambda>_ _ d. Some (map_option po_document (active_policy d), d));
         State_Monad.return
           (case r of Some (Some document) \<Rightarrow> routing_policy_of document | _ \<Rightarrow> default_routing_policy)
       }
   }"

definition retryable_error_class :: "nat \<Rightarrow> str" where
  "retryable_error_class status =
     (if status = 401 \<or> status = 403 then ''upstream_auth_error''
      else if status = 402 then ''upstream_quota_error''
      else if status = 408 then ''upstream_timeout''
      else if status = 429 then ''upstream_rate_limited''
      else if 500 \<le> status \<and> status \<le> 599 then ''upstream_server_error''
      else ''upstream_failure'')"

section \<open>Lemmas\<close>

lemma send_simple_keeps:
  "keeps w_db (send l s)" "keeps w_vault (send l s)" "keeps w_evidence (send l s)" "keeps w_tasks (send l s)"
  "keeps w_owner (send l s)" "keeps w_routers (send l s)"
  by (auto simp: keeps_def send_def modify_def next_tick_def split: list.splits)

lemma post_send: "post (send l s) w (\<lambda>_ w'. w_clock w \<le> w_clock w' \<and> w_sent w' = w_sent w @ [s])"
  by (auto simp: post_def send_def modify_def next_tick_def split: list.splits)

lemma post_sleep [simp]: "post (sleep d) w Q \<longleftrightarrow> Q () (w\<lparr>w_clock := w_clock w + d\<rparr>)"
  by (simp add: sleep_def)

declare poll_loop.simps [simp del]

text \<open>Every round sleeps at least the initial delay, so the fuel outlasts the deadline.\<close>

lemma poll_round:
  assumes "\<And>w'. w_clock w + delay \<le> w_clock w' \<Longrightarrow>
      post (poll_loop n endpoint secret deadline (min (delay * 2) (secs 2))) w' (\<lambda>r _. r \<noteq> None)"
  shows "post (poll_loop (Suc n) endpoint secret deadline delay) w (\<lambda>r _. r \<noteq> None)"
proof -
  let ?w = "w\<lparr>w_clock := w_clock w + delay\<rparr>"
  let ?s = "\<lparr>st_verb = Get, st_url = endpoint, st_credential = secret, st_body = No_body\<rparr>"
  have "post (send NVCF_POLL_TIMEOUT ?s) ?w (\<lambda>r w'. post
      (case r of Inl _ \<Rightarrow> State_Monad.return (Some (Err Poll_failed))
       | Inr p \<Rightarrow> if ps_status p = 202 then poll_loop n endpoint secret deadline (min (delay * 2) (secs 2))
           else State_Monad.return (Some (poll_answer p))) w' (\<lambda>r _. r \<noteq> None))"
    by (rule post_mono [OF post_send]) (use assms in \<open>auto split: sum.split\<close>)
  then show ?thesis by (simp add: poll_loop.simps)
qed

lemma poll_loop_ends:
  "deadline \<le> w_clock w + int n * NVCF_INITIAL_POLL_DELAY \<Longrightarrow> NVCF_INITIAL_POLL_DELAY \<le> delay \<Longrightarrow>
   post (poll_loop (Suc n) endpoint secret deadline delay) w (\<lambda>r _. r \<noteq> None)"
proof (induction n arbitrary: w delay)
  case 0
  then show ?case by (simp add: poll_loop.simps)
next
  case (Suc n)
  have "NVCF_INITIAL_POLL_DELAY \<le> min (delay * 2) (secs 2)"
    using Suc.prems(2) by (simp add: NVCF_INITIAL_POLL_DELAY_def millis_def secs_def)
  then show ?case
    using Suc.prems by (intro poll_round Suc.IH) (simp_all add: algebra_simps)
qed

text \<open>
  C36. Polling an accepted request ends: whatever the provider answers, the loop leaves within its
  rounds, because every round sleeps and the deadline is fixed.
\<close>

theorem poll_nvcf_ends: "post (poll_nvcf g p secret) w (\<lambda>r _. r \<noteq> None)"
proof -
  have "post (poll_loop POLL_ROUNDS endpoint secret (w_clock w + NVCF_POLL_DEADLINE) NVCF_INITIAL_POLL_DELAY)
      w (\<lambda>r _. r \<noteq> None)" for endpoint
    using poll_loop_ends [of "w_clock w + NVCF_POLL_DEADLINE" w "nat (NVCF_POLL_DEADLINE div NVCF_INITIAL_POLL_DELAY)"]
    by (simp add: POLL_ROUNDS_def NVCF_POLL_DEADLINE_def NVCF_INITIAL_POLL_DELAY_def secs_def millis_def)
  then show ?thesis
    by (simp add: poll_nvcf_def split: option.split)
qed

end
