(* ===== verification/Stream_Guard.thy ===== *)
theory Stream_Guard
  imports Upstream Requests
begin

text \<open>
  The streaming half of a response (\<open>streaming.rs\<close>): \<open>StreamAttemptGuard\<close> owns the evidence of a
  request while its body is sent, \<open>chat_response_stream\<close> is the body, one frame per poll, and the
  mock provider's stream (\<open>main.rs\<close>) runs over the same guard. A client that reads some frames and
  goes away is \<open>read_stream\<close>: the body is dropped and with it the guard.
\<close>

section \<open>The guard\<close>

record stream_guard =
  sg_terminal :: bool
  sg_request :: "evidence option"
  sg_ttfb :: "int option"
  sg_bytes :: nat
  sg_outcome :: str
  sg_status :: "nat option"
  sg_error :: str

datatype stream_terminal_result = RequestedTerminalCommitted | RecoveredAsEvidenceFailure | PendingDropRetry

definition is_durable :: "stream_terminal_result \<Rightarrow> bool" where
  "is_durable r \<longleftrightarrow> r \<noteq> PendingDropRetry"

definition guard_with_request :: "evidence \<Rightarrow> stream_guard" where
  "guard_with_request e =
     \<lparr>sg_terminal = False, sg_request = Some e, sg_ttfb = None, sg_bytes = 0,
      sg_outcome = ''failed'', sg_status = None, sg_error = ''handler_abandoned''\<rparr>"

definition mark_terminal :: "stream_guard \<Rightarrow> stream_guard" where
  "mark_terminal sg = sg\<lparr>sg_terminal := True\<rparr>"

definition mark_if_durable :: "stream_terminal_result \<Rightarrow> stream_guard \<Rightarrow> stream_guard" where
  "mark_if_durable r sg = (if is_durable r then mark_terminal sg else sg)"

definition request_elapsed_ms :: "time \<Rightarrow> stream_guard \<Rightarrow> int" where
  "request_elapsed_ms now sg =
     (case sg_request sg of None \<Rightarrow> 0 | Some e \<Rightarrow> evidence_elapsed_ms now e)"

definition mark_response_started :: "int \<Rightarrow> stream_guard \<Rightarrow> stream_guard" where
  "mark_response_started ttfb sg = sg\<lparr>sg_ttfb := Some ttfb\<rparr>"

definition arm_guard_failure :: "int option \<Rightarrow> nat \<Rightarrow> stream_guard \<Rightarrow> stream_guard" where
  "arm_guard_failure ttfb bytes_out sg =
     sg\<lparr>sg_ttfb := ttfb, sg_bytes := bytes_out, sg_outcome := ''failed'', sg_status := Some 500,
        sg_error := ''evidence_unavailable''\<rparr>"

definition mark_response_committed :: "nat \<Rightarrow> stream_guard \<Rightarrow> stream_guard" where
  "mark_response_committed status sg =
     sg\<lparr>sg_outcome := ''cancelled'', sg_status := Some status, sg_error := ''downstream_cancelled''\<rparr>"

definition record_bytes_out :: "nat \<Rightarrow> stream_guard \<Rightarrow> stream_guard" where
  "record_bytes_out n sg = sg\<lparr>sg_bytes := sat_add_u64 (sg_bytes sg) n\<rparr>"

text \<open>What the drop of the guard would write.\<close>

definition guard_recovery :: "stream_guard \<Rightarrow> drop_recovery" where
  "guard_recovery sg =
     \<lparr>rv_outcome = sg_outcome sg, rv_status = sg_status sg, rv_error = sg_error sg,
      rv_ttfb = sg_ttfb sg, rv_bytes = sg_bytes sg\<rparr>"

text \<open>\<open>release_request\<close> disarms the guard and gives its evidence back to the handler.\<close>

definition release_request :: "stream_guard \<Rightarrow> unit program" where
  "release_request sg =
     (case sg_request sg of
        None \<Rightarrow> State_Monad.return ()
      | Some e \<Rightarrow> change_evidence (\<lambda>_. e))"

definition drop_guard :: "stream_guard \<Rightarrow> unit program" where
  "drop_guard sg =
     (case sg_request sg of
        None \<Rightarrow> State_Monad.return ()
      | Some e \<Rightarrow> if sg_terminal sg then drop_evidence e else spawn (Guard_task e (guard_recovery sg)))"

text \<open>The first update rolled back: one awaited recovery, and if it fails too the drop tries again.\<close>

definition recover_request ::
    "request_terminal \<Rightarrow> nat \<Rightarrow> evidence \<Rightarrow> stream_guard \<Rightarrow> (stream_terminal_result \<times> stream_guard) program" where
  "recover_request terminal recovery_bytes e sg =
     (let sg = sg\<lparr>sg_outcome := ''failed'', sg_status := rq_status terminal,
                  sg_error := ''evidence_unavailable'', sg_bytes := recovery_bytes\<rparr>
      in do {
        r \<leftarrow> finish_with_open_attempts_silently (guard_recovery sg) e;
        State_Monad.return
          (if fst r then RecoveredAsEvidenceFailure else PendingDropRetry, sg\<lparr>sg_request := Some (snd r)\<rparr>)
      })"

definition finish_request_and_attempt ::
    "uuid \<Rightarrow> attempt_terminal \<Rightarrow> request_terminal \<Rightarrow> nat \<Rightarrow> stream_guard \<Rightarrow>
     (stream_terminal_result \<times> stream_guard) program" where
  "finish_request_and_attempt key att terminal recovery_bytes sg =
     (let terminal = with_ttfb (sg_ttfb sg) terminal
      in case sg_request sg of
           None \<Rightarrow> State_Monad.return (RequestedTerminalCommitted, sg)
         | Some e \<Rightarrow> do {
             r \<leftarrow> finish_with_attempt_silently key att terminal e;
             if fst r then State_Monad.return (RequestedTerminalCommitted, sg\<lparr>sg_request := Some (snd r)\<rparr>)
             else recover_request terminal recovery_bytes (snd r) sg
           })"

definition finish_stream_failure ::
    "gateway \<Rightarrow> uuid \<Rightarrow> attempt_terminal \<Rightarrow> str \<Rightarrow> stream_guard \<Rightarrow>
     (stream_terminal_result \<times> stream_guard) program" where
  "finish_stream_failure g key terminal error_class sg = do {
     r \<leftarrow> record_failure_for g key None;
     let cooldown = (case r of Inl _ \<Rightarrow> None | Inr c \<Rightarrow> c);
     finish_request_and_attempt key
       (with_bytes_out (sg_bytes sg) (with_cooldown cooldown terminal))
       (request_failed 200 error_class) (sg_bytes sg) sg
   }"

definition DONE_FRAME :: bytes where "DONE_FRAME = ''data: [DONE]'' @ [LF, LF]"

definition finish_accounting_failure ::
    "gateway \<Rightarrow> uuid \<Rightarrow> stream_guard \<Rightarrow> (bytes \<times> stream_guard) program" where
  "finish_accounting_failure g key sg =
     (let frame = sse_error_frame (gw_show g) ''request accounting unavailable'';
          sg = record_bytes_out (length frame) sg
      in do {
        r \<leftarrow> finish_request_and_attempt key
          (with_bytes_out (sg_bytes sg) (attempt_failed (Some 200) ''request_accounting_unavailable'' None))
          (request_failed 200 ''request_accounting_unavailable'') (sg_bytes sg) sg;
        State_Monad.return (frame, mark_if_durable (fst r) (snd r))
      })"

definition finish_stream_success ::
    "gateway \<Rightarrow> uuid \<Rightarrow> stream_guard \<Rightarrow> (bytes \<times> stream_guard) program" where
  "finish_stream_success g key sg = do {
     accounted \<leftarrow> record_request_for g key;
     case accounted of
       Inl _ \<Rightarrow> finish_accounting_failure g key sg
     | Inr _ \<Rightarrow>
         (let error_frame = sse_error_frame (gw_show g) ''request evidence unavailable'';
              success_bytes = sat_add_u64 (sg_bytes sg) (length DONE_FRAME);
              recovery_bytes = sat_add_u64 (sg_bytes sg) (length error_frame)
          in do {
            r \<leftarrow> finish_request_and_attempt key (attempt_succeeded 200 (Some success_bytes))
              (request_succeeded 200) recovery_bytes sg;
            State_Monad.return
              (case fst r of
                 RequestedTerminalCommitted \<Rightarrow>
                   (DONE_FRAME, mark_terminal (record_bytes_out (length DONE_FRAME) (snd r)))
               | RecoveredAsEvidenceFailure \<Rightarrow> (error_frame, mark_terminal (snd r))
               | PendingDropRetry \<Rightarrow> (error_frame, snd r))
          })
   }"

section \<open>The body\<close>

record chat_stream =
  cs_upstream :: "body_item list"
  cs_validator :: sse
  cs_prefix :: "bytes list"
  cs_key :: uuid
  cs_guard :: stream_guard
  cs_terminal :: bool

definition fail_stream ::
    "gateway \<Rightarrow> str \<Rightarrow> str \<Rightarrow> chat_stream \<Rightarrow> (bytes \<times> chat_stream) program" where
  "fail_stream g message error_class cs =
     (let frame = sse_error_frame (gw_show g) message;
          sg = record_bytes_out (length frame) (cs_guard cs)
      in do {
        r \<leftarrow> finish_stream_failure g (cs_key cs) (attempt_failed (Some 200) error_class None) error_class sg;
        State_Monad.return
          (frame, cs\<lparr>cs_guard := mark_if_durable (fst r) (snd r), cs_terminal := True\<rparr>)
      })"

definition succeed_stream :: "gateway \<Rightarrow> chat_stream \<Rightarrow> (bytes \<times> chat_stream) program" where
  "succeed_stream g cs = do {
     r \<leftarrow> finish_stream_success g (cs_key cs) (cs_guard cs);
     State_Monad.return (fst r, cs\<lparr>cs_guard := snd r, cs_terminal := True\<rparr>)
   }"

text \<open>The loop of one poll; the first argument is what is left of the provider's body.\<close>

fun stream_loop :: "body_item list \<Rightarrow> gateway \<Rightarrow> chat_stream \<Rightarrow> (bytes \<times> chat_stream) program" where
  "stream_loop items g cs =
     (case cs_prefix cs of
        chunk # rest \<Rightarrow>
          State_Monad.return
            (chunk, cs\<lparr>cs_upstream := items, cs_prefix := rest,
                       cs_guard := record_bytes_out (length chunk) (cs_guard cs)\<rparr>)
      | [] \<Rightarrow>
          if sse_finish (cs_validator cs) then succeed_stream g (cs\<lparr>cs_upstream := items\<rparr>)
          else
            (case items of
               [] \<Rightarrow>
                 if \<not> sse_finish (cs_validator cs)
                 then fail_stream g ''incomplete upstream stream'' ''incomplete_upstream_stream''
                        (cs\<lparr>cs_upstream := []\<rparr>)
                 else succeed_stream g (cs\<lparr>cs_upstream := []\<rparr>)
             | Chunk chunk # rest \<Rightarrow>
                 (case feed (gw_parse g) chunk (cs_validator cs) of
                    None \<Rightarrow> fail_stream g ''invalid upstream stream'' ''upstream_protocol_error''
                              (cs\<lparr>cs_upstream := rest\<rparr>)
                  | Some v \<Rightarrow>
                      stream_loop rest g
                        (cs\<lparr>cs_validator := snd (take_emitted v), cs_prefix := fst (take_emitted v)\<rparr>))
             | Broken # rest \<Rightarrow>
                 fail_stream g ''upstream stream failed'' ''upstream_stream_error'' (cs\<lparr>cs_upstream := rest\<rparr>)
             | Stalled # rest \<Rightarrow>
                 fail_stream g ''upstream stream timed out'' ''upstream_stream_idle_timeout''
                   (cs\<lparr>cs_upstream := rest\<rparr>)))"

declare stream_loop.simps [simp del]

definition next_frame :: "gateway \<Rightarrow> chat_stream \<Rightarrow> (bytes option \<times> chat_stream) program" where
  "next_frame g cs =
     (if cs_terminal cs then State_Monad.return (None, cs)
      else do { r \<leftarrow> stream_loop (cs_upstream cs) g cs; State_Monad.return (Some (fst r), snd r) })"

text \<open>A client that polls at most \<open>n\<close> frames before it drops the body.\<close>

fun read_stream :: "nat \<Rightarrow> gateway \<Rightarrow> chat_stream \<Rightarrow> bytes list program" where
  "read_stream 0 g cs = do { _ \<leftarrow> drop_guard (cs_guard cs); State_Monad.return [] }"
| "read_stream (Suc n) g cs = do {
     r \<leftarrow> next_frame g cs;
     case fst r of
       None \<Rightarrow> do { _ \<leftarrow> drop_guard (cs_guard (snd r)); State_Monad.return [] }
     | Some frame \<Rightarrow> do {
         frames \<leftarrow> read_stream n g (snd r);
         State_Monad.return (frame # frames)
       }
   }"

section \<open>Replies\<close>

datatype reply = Plain http_response | Streaming nat "(str \<times> bytes) list" chat_stream

text \<open>
  From a primed body to the reply: the guard is armed while the response start is recorded, and a
  drop from then on is the client's cancellation.
\<close>

definition commit_stream ::
    "uuid \<Rightarrow> uuid \<Rightarrow> nat \<Rightarrow> str \<Rightarrow> body_item list \<Rightarrow> sse \<Rightarrow> bytes list \<Rightarrow> stream_guard \<Rightarrow> reply program" where
  "commit_stream rid key status content_type items v prefixed sg = do {
     now \<leftarrow> observe w_clock;
     let ttfb = request_elapsed_ms now sg;
     let sg = arm_guard_failure (Some ttfb) 0 sg;
     started \<leftarrow> attempt_response_started rid key ttfb;
     case started of
       Inl response \<Rightarrow> do { _ \<leftarrow> drop_guard sg; State_Monad.return (Plain response) }
     | Inr _ \<Rightarrow>
         State_Monad.return
           (Streaming status [(''content-type'', content_type), (''cache-control'', ''no-cache'')]
              \<lparr>cs_upstream = items, cs_validator = v, cs_prefix = prefixed, cs_key = key,
               cs_guard = mark_response_committed status (mark_response_started ttfb sg),
               cs_terminal = False\<rparr>)
   }"

section \<open>The mock provider\<close>

definition mock_model :: "json \<Rightarrow> str" where
  "mock_model request = unwrap_or ''z-ai/glm-5.2'' (get_str ''model'' request)"

definition mock_id :: "str program" where
  "mock_id = do { t \<leftarrow> next_tick; State_Monad.return (''chatcmpl-'' @ show_uuid (tk_uuid t)) }"

definition mock_chunk :: "str \<Rightarrow> str \<Rightarrow> (str \<times> json) list \<Rightarrow> json \<Rightarrow> json" where
  "mock_chunk ident model delta finish_reason =
     JObject
       [(''choices'', JArray [JObject
           [(''delta'', JObject delta), (''finish_reason'', finish_reason), (''index'', JNumber (NatNum 0))]]),
        (''id'', JString ident), (''model'', JString model), (''object'', JString ''chat.completion.chunk'')]"

definition mock_first :: "gateway \<Rightarrow> str \<Rightarrow> json \<Rightarrow> bytes" where
  "mock_first g ident request =
     ''data: '' @ gw_show g (mock_chunk ident (mock_model request)
        [(''content'', JString (mock_chat_content request)), (''role'', JString ''assistant'')] JNull)
     @ [LF, LF]"

definition mock_last :: "gateway \<Rightarrow> str \<Rightarrow> json \<Rightarrow> bytes" where
  "mock_last g ident request =
     ''data: '' @ gw_show g (mock_chunk ident (mock_model request) [] (JString ''stop'')) @ [LF, LF]
     @ DONE_FRAME"

text \<open>The pieces of \<open>joined\<close> between the cuts that are in order and within it.\<close>

fun cut_at :: "nat list \<Rightarrow> nat \<Rightarrow> bytes \<Rightarrow> bytes list" where
  "cut_at [] start joined = []"
| "cut_at (stop # rest) start joined =
     (if start < stop \<and> stop \<le> length joined
      then take (stop - start) (drop start joined) # cut_at rest stop joined
      else cut_at rest start joined)"

definition mock_chunks :: "gateway \<Rightarrow> str \<Rightarrow> json \<Rightarrow> bytes list" where
  "mock_chunks g ident request =
     (let first = mock_first g ident request; terminal = mock_last g ident request
      in if mock_stream_scenario request = Some ''disconnect_after_first_frame'' then [first]
         else if mock_stream_scenario request = Some ''fragmented_sse''
         then (let joined = first @ terminal
               in cut_at [1, 7, 31, length joined - 3, length joined] 0 joined)
         else [first, terminal])"

definition mock_prime_failure :: "gateway \<Rightarrow> uuid \<Rightarrow> stream_guard \<Rightarrow> reply program" where
  "mock_prime_failure g key sg = do {
     failed \<leftarrow> record_failure_for g key None;
     let cooldown = (case failed of Inl _ \<Rightarrow> None | Inr c \<Rightarrow> c);
     r \<leftarrow> finish_request_and_attempt key (attempt_failed (Some 502) ''mock_stream_prime_error'' cooldown)
       (request_failed 502 ''mock_stream_prime_error'') (sg_bytes sg) sg;
     _ \<leftarrow> drop_guard (mark_if_durable (fst r) (snd r));
     State_Monad.return (Plain
       (openai_error 502 ''mock upstream stream did not produce a valid first frame'' ''upstream_error''
          ''mock_stream_prime_error''))
   }"

definition mock_stream_response :: "gateway \<Rightarrow> json \<Rightarrow> uuid \<Rightarrow> uuid \<Rightarrow> reply program" where
  "mock_stream_response g request rid key = do {
     ident \<leftarrow> mock_id;
     e \<leftarrow> take_evidence;
     let sg = guard_with_request e;
     case prime_stream (gw_parse g) (map Chunk (mock_chunks g ident request)) new_sse [] of
       None \<Rightarrow> mock_prime_failure g key sg
     | Some (items, v, prefixed) \<Rightarrow> commit_stream rid key 200 ''text/event-stream'' items v prefixed sg
   }"

definition mock_response :: "json \<Rightarrow> reply program" where
  "mock_response request = do {
     ident \<leftarrow> mock_id;
     State_Monad.return (Plain (json_response 200 []
       (JObject
         [(''choices'', JArray [JObject
             [(''finish_reason'', JString ''stop''), (''index'', JNumber (NatNum 0)),
              (''message'', JObject [(''content'', JString (mock_chat_content request)),
                                     (''role'', JString ''assistant'')])]]),
          (''id'', JString ident), (''model'', JString (mock_model request)),
          (''object'', JString ''chat.completion''),
          (''usage'', JObject [(''completion_tokens'', JNumber (NatNum 3)),
             (''prompt_tokens'', JNumber (NatNum 0)), (''total_tokens'', JNumber (NatNum 3))])])))
   }"

end
