(* ===== verification/Failover.thy ===== *)
theory Failover
  imports Stream_Guard
begin

text \<open>
  \<open>chat_completions\<close> (\<open>proxy.rs\<close>): the request is admitted with its first key, then every round of
  the loop tries one key and either continues with the next one, leaves the loop, or returns the
  reply. The evidence is the world's \<open>w_evidence\<close> until a stream guard takes it. \<open>Return\<close> is the
  \<open>return\<close> of the handler from inside the loop.
\<close>

section \<open>Locals and early returns\<close>

record call =
  ca_request :: json
  ca_id :: uuid
  ca_client :: "uuid option"
  ca_profile :: str
  ca_stream :: bool
  ca_first_key :: uuid
  ca_key_attempts :: nat

record loop_locals =
  lo_attempted :: "uuid list"
  lo_next_key :: "uuid option"
  lo_rate_limited :: bool
  lo_all_limited :: bool

datatype flow = Continue loop_locals | Break loop_locals | Return reply

text \<open>\<open>match m { Ok(x) => f(x), Err(response) => return response }\<close>.\<close>

definition or_return :: "'a handler \<Rightarrow> ('a \<Rightarrow> flow program) \<Rightarrow> flow program" where
  "or_return m f = do {
     r \<leftarrow> m;
     case r of Inl response \<Rightarrow> State_Monad.return (Return (Plain response)) | Inr x \<Rightarrow> f x
   }"

definition or_reply :: "'a handler \<Rightarrow> ('a \<Rightarrow> reply program) \<Rightarrow> reply program" where
  "or_reply m f = do {
     r \<leftarrow> m;
     case r of Inl response \<Rightarrow> State_Monad.return (Plain response) | Inr x \<Rightarrow> f x
   }"

definition return_plain :: "http_response \<Rightarrow> flow program" where
  "return_plain r = State_Monad.return (Return (Plain r))"

section \<open>The end of an attempt\<close>

definition upstream_rate_limited :: "nat option \<Rightarrow> http_response" where
  "upstream_rate_limited retry_after =
     (let r = openai_error 429 ''All NVIDIA upstream keys are rate limited'' ''rate_limit_error''
                ''upstream_rate_limited''
      in case retry_after of None \<Rightarrow> r | Some s \<Rightarrow> insert_header ''retry-after'' (show_nat s) r)"

definition no_eligible_upstream :: http_response where
  "no_eligible_upstream =
     openai_error 503 ''No eligible NVIDIA upstream is available.'' ''service_unavailable_error''
       ''no_eligible_upstream''"

text \<open>The last attempt and the request, when no other key can be tried.\<close>

definition finish_exhausted :: "uuid \<Rightarrow> attempt_terminal \<Rightarrow> bool \<Rightarrow> uuid handler" where
  "finish_exhausted key att all_limited = do {
     now \<leftarrow> observe w_clock;
     keys \<leftarrow> store_list;
     and_then
       (with_evidence (finish_with_attempt key att
          (if all_limited then request_failed 429 ''upstream_rate_limited''
           else request_failed 503 ''no_eligible_upstream'')))
       (\<lambda>_. answer (if all_limited then upstream_rate_limited (retry_after_for_keys now keys)
                    else no_eligible_upstream))
   }"

definition finish_retryable_or_terminal ::
    "uuid \<Rightarrow> str \<Rightarrow> uuid list \<Rightarrow> bool \<Rightarrow> uuid \<Rightarrow> attempt_terminal \<Rightarrow> bool \<Rightarrow> uuid handler" where
  "finish_retryable_or_terminal rid profile attempted retry_allowed key att all_limited = do {
     selected \<leftarrow> (if retry_allowed then select_failover_key profile attempted else State_Monad.return None);
     case selected of
       Some next_key \<Rightarrow>
         and_then (attempt_finished rid key att) (\<lambda>_. do {
           _ \<leftarrow> change_evidence reset_drop_recovery;
           yield_ok next_key
         })
     | None \<Rightarrow> finish_exhausted key att all_limited
   }"

definition start_evidenced_attempt :: "uuid \<Rightarrow> str \<Rightarrow> uuid \<Rightarrow> unit handler" where
  "start_evidenced_attempt rid profile key = do {
     _ \<leftarrow> change_evidence (arm_evidence_failure None 0);
     and_then (attempt_started rid profile key) (\<lambda>_. do {
       _ \<leftarrow> change_evidence reset_drop_recovery;
       yield_ok ()
     })
   }"

text \<open>The recurring ends of a round: try the next key, or answer the client.\<close>

definition next_or_return ::
    "call \<Rightarrow> loop_locals \<Rightarrow> uuid \<Rightarrow> attempt_terminal \<Rightarrow> bool \<Rightarrow> flow program" where
  "next_or_return c l key att all_limited =
     or_return
       (finish_retryable_or_terminal (ca_id c) (ca_profile c) (lo_attempted l)
          (length (lo_attempted l) < ca_key_attempts c) key att all_limited)
       (\<lambda>next_key. State_Monad.return (Continue (l\<lparr>lo_next_key := Some next_key\<rparr>)))"

definition cool_and_retry ::
    "gateway \<Rightarrow> call \<Rightarrow> loop_locals \<Rightarrow> uuid \<Rightarrow> duration option \<Rightarrow> nat option \<Rightarrow> str \<Rightarrow> bool \<Rightarrow> flow program" where
  "cool_and_retry g c l key retry_after status error_class all_limited = do {
     _ \<leftarrow> change_evidence (arm_evidence_failure None 0);
     or_return (record_failure_for g key retry_after) (\<lambda>cooldown.
       next_or_return c l key (attempt_failed status error_class cooldown) all_limited)
   }"

definition finish_and_return ::
    "uuid \<Rightarrow> attempt_terminal \<Rightarrow> request_terminal \<Rightarrow> http_response \<Rightarrow> flow program" where
  "finish_and_return key att req response =
     or_return (with_evidence (finish_with_attempt key att req)) (\<lambda>_. return_plain response)"

text \<open>\<open>bytes_out\<close> is \<open>None\<close> where the attempt does not record it.\<close>

definition cool_and_finish ::
    "gateway \<Rightarrow> uuid \<Rightarrow> nat \<Rightarrow> str \<Rightarrow> nat option \<Rightarrow> str \<Rightarrow> flow program" where
  "cool_and_finish g key status error_class bytes_out message = do {
     _ \<leftarrow> change_evidence (arm_evidence_failure None (unwrap_or 0 bytes_out));
     or_return (record_failure_for g key None) (\<lambda>cooldown.
       let att = attempt_failed (Some status) error_class cooldown
       in finish_and_return key
            (case bytes_out of None \<Rightarrow> att | Some n \<Rightarrow> with_bytes_out n att)
            (request_failed 502 error_class)
            (openai_error 502 message ''upstream_error'' error_class))
   }"

section \<open>The controlled failure of a QA run\<close>

definition fixture_unavailable :: http_response where
  "fixture_unavailable =
     openai_error 503 ''QA failure fixture state could not be persisted'' ''service_unavailable_error''
       ''evidence_unavailable''"

definition consume_live_failure_fixture :: "uuid option \<Rightarrow> uuid \<Rightarrow> uuid \<Rightarrow> str option handler" where
  "consume_live_failure_fixture client rid key = do {
     d \<leftarrow> observe w_db;
     case (d, client) of
       (Some _, Some i) \<Rightarrow> do {
         r \<leftarrow> database_call (\<lambda>_ now. tx_consume_fixture now i rid key);
         State_Monad.return (ok_or fixture_unavailable r)
       }
     | _ \<Rightarrow> yield_ok None
   }"

definition qa_prefix :: bytes where
  "qa_prefix =
     (let q = [CHR 0x22]
      in ''data: {'' @ q @ ''id'' @ q @ '':'' @ q @ ''chatcmpl-qa-fixture'' @ q @ '','' @ q @ ''object'' @ q @ '':''
         @ q @ ''chat.completion.chunk'' @ q @ '','' @ q @ ''created'' @ q @ '':1,'' @ q @ ''model'' @ q @ '':''
         @ q @ ''z-ai/glm-5.2'' @ q @ '','' @ q @ ''choices'' @ q @ '':[{'' @ q @ ''index'' @ q @ '':0,''
         @ q @ ''delta'' @ q @ '':{'' @ q @ ''role'' @ q @ '':'' @ q @ ''assistant'' @ q @ '',''
         @ q @ ''content'' @ q @ '':'' @ q @ ''QA'' @ q @ ''},'' @ q @ ''finish_reason'' @ q @ '':null}]}''
         @ [LF, LF])"

definition injected_post_frame_failure :: "gateway \<Rightarrow> uuid \<Rightarrow> uuid \<Rightarrow> flow program" where
  "injected_post_frame_failure g rid key =
     (let e = sse_error_frame (gw_show g) ''controlled QA failure after the first frame'';
          body = qa_prefix @ e
      in or_return (attempt_response_started rid key 0) (\<lambda>_.
           finish_and_return key
             (with_bytes_out (length body) (attempt_failed (Some 200) ''qa_injected_post_frame_failure'' None))
             (with_ttfb (Some 0) (request_failed 502 ''qa_injected_post_frame_failure''))
             \<lparr>rp_status = 200,
              rp_headers = [(''content-type'', ''text/event-stream''), (''cache-control'', ''no-cache'')],
              rp_body = Raw_body body\<rparr>))"

definition contract_error :: "str \<Rightarrow> http_response" where
  "contract_error message = openai_error 500 message ''server_error'' ''qa_fixture_contract_error''"

definition fixture_turn ::
    "gateway \<Rightarrow> call \<Rightarrow> loop_locals \<Rightarrow> uuid \<Rightarrow> flow program \<Rightarrow> flow program" where
  "fixture_turn g c l key otherwise =
     or_return (consume_live_failure_fixture (ca_client c) (ca_id c) key) (\<lambda>kind.
       case kind of
         None \<Rightarrow> otherwise
       | Some k \<Rightarrow>
           if k = ''before_first_frame''
           then cool_and_retry g c l key (Some (secs 2)) None ''qa_injected_transport_failure'' False
           else if k = ''after_first_frame''
           then (if \<not> ca_stream c
                 then or_return (with_evidence (fail_evidence 500 ''qa_fixture_contract_error''))
                        (\<lambda>_. return_plain (contract_error ''QA post-frame fixture requires streaming''))
                 else injected_post_frame_failure g (ca_id c) key)
           else return_plain (contract_error ''Unknown QA failure fixture''))"

section \<open>The mock provider's answers\<close>

definition status_or_bad_gateway :: "nat \<Rightarrow> nat" where
  "status_or_bad_gateway n = (if 100 \<le> n \<and> n \<le> 999 then n else 502)"

definition mock_status_turn ::
    "gateway \<Rightarrow> call \<Rightarrow> loop_locals \<Rightarrow> uuid \<Rightarrow> nat \<Rightarrow> flow program" where
  "mock_status_turn g c l key status = do {
     _ \<leftarrow> change_evidence (arm_evidence_failure None 0);
     if status = 401 \<or> status = 403 then
       or_return (quarantine_key g key) (\<lambda>_.
         next_or_return c (l\<lparr>lo_all_limited := False\<rparr>) key
           (attempt_failed (Some status) (retryable_error_class status) None) False)
     else if status = 429 \<or> status = 500 then
       (let l = l\<lparr>lo_rate_limited := (lo_rate_limited l \<or> status = 429),
                  lo_all_limited := (lo_all_limited l \<and> status = 429)\<rparr>
        in or_return (record_failure_for g key (Some (secs (if status = 429 then 30 else 2)))) (\<lambda>cooldown.
             next_or_return c l key
               (attempt_failed (Some status) (retryable_error_class status) cooldown) (lo_all_limited l)))
     else
       (let status = status_or_bad_gateway status
        in finish_and_return key (attempt_failed (Some status) ''upstream_request_rejected'' None)
             (request_rejected status ''upstream_request_rejected'')
             (openai_error status ''mock provider rejected the request'' ''upstream_error''
                ''upstream_request_rejected''))
   }"

definition force_first_failure :: "json \<Rightarrow> uuid list \<Rightarrow> bool" where
  "force_first_failure request attempted \<longleftrightarrow>
     (unwrap_or False (Option.bind (mock_metadata ''force_first_upstream_failure'' request) as_bool) \<or>
      mock_stream_scenario request \<in> Some ` {''disconnect_before_first_frame'', ''invalid_sse''}) \<and>
     length attempted = 1"

definition mock_failure_class :: "call \<Rightarrow> str" where
  "mock_failure_class c =
     (if \<not> ca_stream c then ''mock_upstream_failure''
      else if mock_stream_scenario (ca_request c) = Some ''invalid_sse'' then ''upstream_protocol_error''
      else ''mock_stream_prime_error'')"

definition mock_success :: "gateway \<Rightarrow> call \<Rightarrow> uuid \<Rightarrow> flow program" where
  "mock_success g c key = do {
     _ \<leftarrow> change_evidence (arm_evidence_failure None 0);
     or_return (record_request_for g key) (\<lambda>_.
       or_return (with_evidence (finish_with_attempt key (attempt_succeeded 200 None) (request_succeeded 200)))
         (\<lambda>_. do { r \<leftarrow> mock_response (ca_request c); State_Monad.return (Return r) }))
   }"

definition mock_turn :: "gateway \<Rightarrow> call \<Rightarrow> loop_locals \<Rightarrow> uuid \<Rightarrow> str \<Rightarrow> bool \<Rightarrow> flow program" where
  "mock_turn g c l key secret first_attempt =
     (case (if first_attempt then mock_status (ca_request c) else None) of
        Some status \<Rightarrow> mock_status_turn g c l key status
      | None \<Rightarrow>
          (let l = l\<lparr>lo_all_limited := False\<rparr>
           in if first_attempt \<and> mock_response_kind (ca_request c) = Some ''invalid_json''
              then cool_and_finish g key 200 ''upstream_protocol_error'' (Some 8)
                     ''mock provider returned invalid JSON''
              else if has_sub ''fail'' secret \<or> force_first_failure (ca_request c) (lo_attempted l)
              then cool_and_retry g c l key (Some (secs 2)) None (mock_failure_class c) False
              else if ca_stream c
              then do { r \<leftarrow> mock_stream_response g (ca_request c) (ca_id c) key; State_Monad.return (Return r) }
              else mock_success g c key))"

section \<open>The provider's answers\<close>

text \<open>
  A whole body: read within the limit, checked (and for the other modalities rewritten), accounted,
  answered. \<open>None\<close> of \<open>answered\<close> is an answer the checks refuse.
\<close>

definition body_turn ::
    "gateway \<Rightarrow> call \<Rightarrow> loop_locals \<Rightarrow> uuid \<Rightarrow> nat \<Rightarrow> (time \<Rightarrow> bytes \<Rightarrow> (bytes \<times> str) option) \<Rightarrow> str \<Rightarrow>
     provider_response \<Rightarrow> flow program" where
  "body_turn g c l key limit answered message p =
     (case provider_bytes limit p of
        Inl TooLarge \<Rightarrow>
          cool_and_finish g key (ps_status p) ''upstream_response_too_large'' None
            ''provider response exceeded the endpoint size limit''
      | Inl Transport \<Rightarrow>
          cool_and_retry g c l key None (Some (ps_status p)) ''upstream_body_error'' False
      | Inr received \<Rightarrow> do {
          now \<leftarrow> observe w_clock;
          case answered now received of
            None \<Rightarrow>
              cool_and_finish g key (ps_status p) ''upstream_protocol_error'' (Some (length received)) message
          | Some (bytes, content_type) \<Rightarrow> do {
              _ \<leftarrow> change_evidence (arm_evidence_failure None (length bytes));
              or_return (record_request_for g key) (\<lambda>_.
                finish_and_return key (attempt_succeeded (ps_status p) (Some (length bytes)))
                  (request_succeeded (ps_status p))
                  \<lparr>rp_status = ps_status p, rp_headers = [(''content-type'', content_type)],
                   rp_body = Raw_body bytes\<rparr>)
            }
        })"

definition chat_body_turn ::
    "gateway \<Rightarrow> call \<Rightarrow> loop_locals \<Rightarrow> uuid \<Rightarrow> str \<Rightarrow> provider_response \<Rightarrow> flow program" where
  "chat_body_turn g c l key content_type =
     body_turn g c l key CHAT_RESPONSE_LIMIT
       (\<lambda>_ bytes. if validate_chat_response (gw_parse g) bytes False then Some (bytes, content_type) else None)
       ''provider returned an invalid chat response''"

definition accepted_turn ::
    "gateway \<Rightarrow> uuid \<Rightarrow> str \<Rightarrow> str \<Rightarrow> (provider_response \<Rightarrow> flow program) \<Rightarrow> provider_response \<Rightarrow> flow program" where
  "accepted_turn g key secret message proceed p = do {
     r \<leftarrow> poll_nvcf g p secret;
     case r of
       Some (Inr q) \<Rightarrow> proceed q
     | _ \<Rightarrow> cool_and_finish g key 202 ''upstream_poll_error'' None message
   }"

definition unsupported_accept :: "uuid \<Rightarrow> flow program" where
  "unsupported_accept key =
     finish_and_return key (attempt_failed (Some 202) ''upstream_protocol_error'' None)
       (request_failed 502 ''upstream_protocol_error'')
       (openai_error 502 ''NVIDIA returned an unsupported asynchronous response'' ''upstream_error''
          ''upstream_protocol_error'')"

definition prime_failure ::
    "gateway \<Rightarrow> call \<Rightarrow> loop_locals \<Rightarrow> uuid \<Rightarrow> nat \<Rightarrow> stream_guard \<Rightarrow> flow program" where
  "prime_failure g c l key status sg = do {
     let sg = arm_guard_failure None 0 sg;
     failed \<leftarrow> record_failure_for g key None;
     case failed of
       Inl response \<Rightarrow> do { _ \<leftarrow> drop_guard sg; return_plain response }
     | Inr cooldown \<Rightarrow> do {
         _ \<leftarrow> release_request sg;
         next_or_return c l key (attempt_failed (Some status) ''stream_prime_error'' cooldown) False
       }
   }"

definition stream_turn ::
    "gateway \<Rightarrow> call \<Rightarrow> loop_locals \<Rightarrow> uuid \<Rightarrow> provider_response \<Rightarrow> flow program" where
  "stream_turn g c l key p =
     (let content_type = unwrap_or ''application/json'' (provider_header ''content-type'' p)
      in if \<not> has_media_type ''text/event-stream'' content_type
         then cool_and_retry g c l key None (Some (ps_status p)) ''unexpected_stream_content_type'' False
         else do {
           e \<leftarrow> take_evidence;
           let sg = guard_with_request e;
           case prime_stream (gw_parse g) (ps_body p) new_sse [] of
             None \<Rightarrow> prime_failure g c l key (ps_status p) sg
           | Some (items, v, prefixed) \<Rightarrow> do {
               r \<leftarrow> commit_stream (ca_id c) key (ps_status p) content_type items v prefixed sg;
               State_Monad.return (Return r)
             }
         })"

definition auth_failure :: "nat \<Rightarrow> bool" where
  "auth_failure status \<longleftrightarrow> status = 401 \<or> status = 403"

definition failover_turn ::
    "gateway \<Rightarrow> call \<Rightarrow> loop_locals \<Rightarrow> uuid \<Rightarrow> routing_policy \<Rightarrow> provider_response \<Rightarrow> flow program" where
  "failover_turn g c l key policy p = do {
     _ \<leftarrow> change_evidence (arm_evidence_failure None 0);
     let att = attempt_failed (Some (ps_status p)) (retryable_error_class (ps_status p));
     if auth_failure (ps_status p)
     then or_return (quarantine_key g key) (\<lambda>_. next_or_return c l key (att None) (lo_all_limited l))
     else do {
       now \<leftarrow> observe w_clock;
       let retry = (case retry_after_duration g now p of
                      Some d \<Rightarrow> d | None \<Rightarrow> ro_default_cooldown policy);
       or_return (record_failure_for g key (Some retry)) (\<lambda>cooldown.
         next_or_return c l key (att cooldown) (lo_all_limited l))
     }
   }"

definition rejected_turn :: "uuid \<Rightarrow> provider_response \<Rightarrow> flow program" where
  "rejected_turn key p =
     finish_and_return key (attempt_failed (Some (ps_status p)) ''upstream_request_rejected'' None)
       (request_rejected (ps_status p) ''upstream_request_rejected'')
       (openai_error (ps_status p) ''NVIDIA rejected the request'' ''upstream_error''
          ''upstream_request_rejected'')"

definition answer_turn ::
    "gateway \<Rightarrow> call \<Rightarrow> loop_locals \<Rightarrow> uuid \<Rightarrow> str \<Rightarrow> routing_policy \<Rightarrow> provider_response \<Rightarrow> flow program" where
  "answer_turn g c l key secret policy p =
     (if ps_status p = 202
      then (if \<not> ca_stream c \<and> ca_profile c \<in> set [''microsoft/phi-4-multimodal-instruct'', ''nvidia/vila'']
            then accepted_turn g key secret
                   ''NVIDIA accepted the request but polling did not complete''
                   (chat_body_turn g c l key ''application/json'') p
            else unsupported_accept key)
      else if is_success (ps_status p)
      then (if ca_stream c then stream_turn g c l key p
            else chat_body_turn g c l key
                   (unwrap_or ''application/json'' (provider_header ''content-type'' p)) p)
      else if auth_failure (ps_status p) \<or> ps_status p \<in> set (ro_retryable_statuses policy)
      then failover_turn g c l key policy p
      else rejected_turn key p)"

definition note_status :: "unit + provider_response \<Rightarrow> loop_locals \<Rightarrow> loop_locals" where
  "note_status result l =
     (case result of
        Inr p \<Rightarrow> if ps_status p = 429 then l\<lparr>lo_rate_limited := True\<rparr> else l\<lparr>lo_all_limited := False\<rparr>
      | Inl _ \<Rightarrow> l\<lparr>lo_all_limited := False\<rparr>)"

text \<open>The request is posted once; its answer is judged by the policy read after it.\<close>

definition post_and_judge ::
    "gateway \<Rightarrow> call \<Rightarrow> loop_locals \<Rightarrow> uuid \<Rightarrow> duration \<Rightarrow> sent \<Rightarrow>
     (loop_locals \<Rightarrow> routing_policy \<Rightarrow> provider_response \<Rightarrow> flow program) \<Rightarrow> flow program" where
  "post_and_judge g c l key timeout request judge = do {
     result \<leftarrow> send timeout request;
     let l = note_status result l;
     policy \<leftarrow> load_routing_policy;
     case result of
       Inr p \<Rightarrow> judge l policy p
     | Inl _ \<Rightarrow> cool_and_retry g c l key None None ''upstream_transport_error'' False
   }"

definition provider_turn :: "gateway \<Rightarrow> call \<Rightarrow> loop_locals \<Rightarrow> uuid \<Rightarrow> str \<Rightarrow> flow program" where
  "provider_turn g c l key secret =
     post_and_judge g c l key
       (if ca_stream c then STREAM_RESPONSE_HEADER_TIMEOUT else UPSTREAM_REQUEST_TIMEOUT)
       \<lparr>st_verb = Post,
        st_url = upstream_endpoint_for (gw_magpie_url g) (gw_upstream_url g) ''/v1/chat/completions'' (ca_profile c),
        st_credential = secret, st_body = Json_body (ca_request c)\<rparr>
       (\<lambda>l. answer_turn g c l key secret)"

section \<open>The loop\<close>

text \<open>
  Both handlers run the same loop; a \<open>turn\<close> is the rest of its body once the key is chosen and its
  attempt started. The flag says whether this is the first attempt.
\<close>

type_synonym turn = "loop_locals \<Rightarrow> uuid \<Rightarrow> bool \<Rightarrow> flow program"

definition credential_turn :: "gateway \<Rightarrow> call \<Rightarrow> loop_locals \<Rightarrow> uuid \<Rightarrow> (str \<Rightarrow> flow program) \<Rightarrow> flow program" where
  "credential_turn g c l key proceed = do {
     r \<leftarrow> store_credential g key;
     case r of
       Inl _ \<Rightarrow> do {
         _ \<leftarrow> change_evidence (arm_evidence_failure None 0);
         next_or_return c (l\<lparr>lo_all_limited := False\<rparr>) key
           (attempt_failed None ''credential_unavailable'' None) False
       }
     | Inr secret \<Rightarrow> proceed secret
   }"

definition chat_turn :: "gateway \<Rightarrow> call \<Rightarrow> turn" where
  "chat_turn g c l key first_attempt =
     (let go = credential_turn g c l key (\<lambda>secret.
                 if starts_with ''mock://'' (gw_upstream_url g) then mock_turn g c l key secret first_attempt
                 else provider_turn g c l key secret)
      in if first_attempt then fixture_turn g c l key go else go)"

definition attempt_turn :: "turn \<Rightarrow> call \<Rightarrow> loop_locals \<Rightarrow> uuid \<Rightarrow> bool \<Rightarrow> flow program" where
  "attempt_turn play c l key first_attempt =
     (if first_attempt then play l key True
      else or_return (start_evidenced_attempt (ca_id c) (ca_profile c) key) (\<lambda>_. play l key False))"

definition pick_key :: "call \<Rightarrow> loop_locals \<Rightarrow> (uuid option \<times> loop_locals) program" where
  "pick_key c l =
     (if lo_attempted l = [] then State_Monad.return (Some (ca_first_key c), l)
      else (case lo_next_key l of
              Some k \<Rightarrow> State_Monad.return (Some k, l\<lparr>lo_next_key := None\<rparr>)
            | None \<Rightarrow> do {
                k \<leftarrow> select_failover_key (ca_profile c) (lo_attempted l);
                State_Monad.return (k, l)
              }))"

definition one_round :: "turn \<Rightarrow> call \<Rightarrow> loop_locals \<Rightarrow> flow program" where
  "one_round play c l = do {
     (key, l) \<leftarrow> pick_key c l;
     case key of
       None \<Rightarrow> State_Monad.return (Break l)
     | Some k \<Rightarrow>
         if k \<in> set (lo_attempted l) then State_Monad.return (Break l)
         else attempt_turn play c (l\<lparr>lo_attempted := lo_attempted l @ [k]\<rparr>) k (lo_attempted l = [])
   }"

fun rounds :: "nat \<Rightarrow> turn \<Rightarrow> call \<Rightarrow> loop_locals \<Rightarrow> flow program" where
  "rounds 0 play c l = State_Monad.return (Break l)"
| "rounds (Suc n) play c l = do {
     f \<leftarrow> one_round play c l;
     case f of Continue l \<Rightarrow> rounds n play c l | _ \<Rightarrow> State_Monad.return f
   }"

text \<open>What follows the loop.\<close>

definition close_silently :: "nat \<Rightarrow> str \<Rightarrow> http_response \<Rightarrow> reply program" where
  "close_silently status error_class response = do {
     ok \<leftarrow> with_evidence (finish_with_open_attempts_silently
       \<lparr>rv_outcome = ''failed'', rv_status = Some status, rv_error = error_class, rv_ttfb = None, rv_bytes = 0\<rparr>);
     State_Monad.return (Plain (if ok then response else evidence_unavailable))
   }"

definition after_loop :: "loop_locals \<Rightarrow> reply program" where
  "after_loop l = do {
     now \<leftarrow> observe w_clock;
     keys \<leftarrow> store_list;
     case retry_after_for_keys now keys of
       Some seconds \<Rightarrow>
         if lo_rate_limited l \<and> lo_all_limited l \<and> lo_attempted l \<noteq> []
         then close_silently 429 ''upstream_rate_limited'' (upstream_rate_limited (Some seconds))
         else close_silently 503 ''no_eligible_upstream'' no_eligible_upstream
     | None \<Rightarrow> close_silently 503 ''no_eligible_upstream'' no_eligible_upstream
   }"

definition initial_locals :: loop_locals where
  "initial_locals =
     \<lparr>lo_attempted = [], lo_next_key = None, lo_rate_limited = False, lo_all_limited = True\<rparr>"

definition run_loop :: "turn \<Rightarrow> call \<Rightarrow> reply program" where
  "run_loop play c = do {
     f \<leftarrow> rounds (ca_key_attempts c) play c initial_locals;
     case f of
       Return r \<Rightarrow> State_Monad.return r
     | Break l \<Rightarrow> after_loop l
     | Continue l \<Rightarrow> after_loop l
   }"

section \<open>The handler\<close>

definition record_use_or_close :: "gateway \<Rightarrow> uuid option \<Rightarrow> unit handler" where
  "record_use_or_close g client = do {
     r \<leftarrow> record_accepted_downstream_use g client;
     case r of
       Inr _ \<Rightarrow> yield_ok ()
     | Inl response \<Rightarrow> do {
         _ \<leftarrow> with_evidence (finish_with_open_attempts_silently
           \<lparr>rv_outcome = ''failed'', rv_status = Some (rp_status response),
            rv_error = ''downstream_credential_usage_record_failed'', rv_ttfb = None, rv_bytes = 0\<rparr>);
         answer response
       }
   }"

text \<open>The guard, the scope, the body and its validation; nothing is admitted before they pass.\<close>

definition chat_prologue ::
    "gateway \<Rightarrow> http_request \<Rightarrow> (unit + bytes) list \<Rightarrow> (uuid option \<times> json) handler" where
  "chat_prologue g req payload =
     and_then (authorize_scope g req ''chat:write'') (\<lambda>client.
       State_Monad.return
         (case read_request_body payload (64 * 1024 * 1024) of
            Inl response \<Rightarrow> Err response
          | Inr body \<Rightarrow>
              (case gw_parse g body of
                 None \<Rightarrow> Err (invalid_request ''request body must be valid JSON'')
               | Some request \<Rightarrow>
                   (case validate_chat_request request of
                      Inl response \<Rightarrow> Err response
                    | Inr _ \<Rightarrow> Ok (client, request)))))"

text \<open>From the admission to the reply; \<open>key_attempts\<close> is computed from the number of keys.\<close>

definition admit_and_run ::
    "gateway \<Rightarrow> http_request \<Rightarrow> uuid option \<Rightarrow> json \<Rightarrow> bool \<Rightarrow> (nat \<Rightarrow> nat) \<Rightarrow> (call \<Rightarrow> turn) \<Rightarrow> reply program" where
  "admit_and_run g req client request stream key_attempts play = do {
     t \<leftarrow> next_tick;
     let rid = request_id (tk_uuid t) req;
     let profile = unwrap_or (hd PROFILES) (get_str ''model'' request);
     or_reply
       (admit_and_start_selected g rid client (rq_path req) profile stream (modality_for_path (rq_path req)))
       (\<lambda>first_key.
          or_reply (record_use_or_close g client) (\<lambda>_. do {
            keys \<leftarrow> store_list;
            let c = \<lparr>ca_request = request, ca_id = rid, ca_client = client, ca_profile = profile,
                     ca_stream = stream, ca_first_key = first_key, ca_key_attempts = key_attempts (length keys)\<rparr>;
            run_loop (play c) c
          }))
   }"

definition guarded :: "gateway \<Rightarrow> http_request \<Rightarrow> reply program \<Rightarrow> reply program" where
  "guarded g req handler = do {
     t \<leftarrow> next_tick;
     case public_guard_response (tk_uuid t) (gw_public_port g) req of
       Some response \<Rightarrow> State_Monad.return (Plain response)
     | None \<Rightarrow> handler
   }"

definition chat_completions :: "gateway \<Rightarrow> http_request \<Rightarrow> (unit + bytes) list \<Rightarrow> reply program" where
  "chat_completions g req payload =
     scoped (guarded g req
       (or_reply (chat_prologue g req payload) (\<lambda>(client, request).
          admit_and_run g req client request (unwrap_or False (get_bool ''stream'' request)) (max 1)
            (chat_turn g))))"

end
