(* ===== verification/Phases.thy ===== *)
theory Phases
  imports Ledger_Props Failover
begin

text \<open>
  The life of one request, abstractly: not there, idle between attempts, trying a key, ended. The
  ledger's tables implement it; each transaction of the request path is a step of it, whatever
  else the tables hold, and the transactions of other requests leave it where it is.
\<close>

section \<open>The phases\<close>

datatype phase = Absent | Idle | Trying uuid | Ended

definition open_attempts :: "uuid \<Rightarrow> db \<Rightarrow> attempt_row list" where
  "open_attempts rid d = filter (\<lambda>a. ra_request_id a = rid \<and> ra_finished_at a = None) (db_attempts d)"

definition in_phase :: "uuid \<Rightarrow> uuid \<Rightarrow> phase \<Rightarrow> db \<Rightarrow> bool" where
  "in_phase owner rid ph d \<longleftrightarrow>
     (case ph of
        Absent \<Rightarrow> rid \<notin> pr_request_id ` set (db_requests d) \<and> open_attempts rid d = []
      | Idle \<Rightarrow> (\<exists>r \<in> set (db_requests d). started_request rid r) \<and> open_attempts rid d = []
      | Trying key \<Rightarrow> (\<exists>r \<in> set (db_requests d). started_request rid r) \<and>
          (\<exists>a. open_attempts rid d = [a] \<and> ra_key a = key \<and> ra_owner a = Some owner)
      | Ended \<Rightarrow> (\<exists>r \<in> set (db_requests d). pr_request_id r = rid \<and> pr_outcome r \<noteq> ''started'') \<and>
          open_attempts rid d = [])"

text \<open>The QA fixture that ends a request without its attempt is not armed.\<close>

definition no_post_frame_fixture :: "db \<Rightarrow> bool" where
  "no_post_frame_fixture d \<longleftrightarrow> list_all (\<lambda>f. fx_kind f \<noteq> ''after_first_frame'') (db_fixtures d)"

definition on_track :: "uuid \<Rightarrow> uuid \<Rightarrow> phase \<Rightarrow> db \<Rightarrow> bool" where
  "on_track owner rid ph d \<longleftrightarrow> ledger_inv d \<and> no_post_frame_fixture d \<and> in_phase owner rid ph d"

lemma on_track_rows:
  "db_requests d' = db_requests d \<Longrightarrow> db_attempts d' = db_attempts d \<Longrightarrow>
   map fx_kind (db_fixtures d') = map fx_kind (db_fixtures d) \<Longrightarrow> on_track owner rid ph d \<Longrightarrow> on_track owner rid ph d'"
proof -
  assume r: "db_requests d' = db_requests d" "db_attempts d' = db_attempts d"
    and f: "map fx_kind (db_fixtures d') = map fx_kind (db_fixtures d)" and t: "on_track owner rid ph d"
  have "list_all (\<lambda>k. k \<noteq> ''after_first_frame'') (map fx_kind (db_fixtures d'))"
    unfolding f using t by (simp add: on_track_def no_post_frame_fixture_def list_all_iff)
  then show ?thesis
    using t r
    by (auto simp: on_track_def no_post_frame_fixture_def in_phase_def open_attempts_def ledger_inv_def list_all_iff
        split: phase.splits)
qed

section \<open>Updates of the two tables\<close>

lemma filter_at:
  assumes "i < length xs"
  shows "filter p xs = filter p (take i xs) @ (if p (xs ! i) then [xs ! i] else []) @ filter p (drop (Suc i) xs)"
    "filter p (xs[i := y]) = filter p (take i xs) @ (if p y then [y] else []) @ filter p (drop (Suc i) xs)"
proof -
  have "filter p xs = filter p (take i xs @ xs ! i # drop (Suc i) xs)"
    using assms by (simp add: id_take_nth_drop [symmetric])
  then show "filter p xs = filter p (take i xs) @ (if p (xs ! i) then [xs ! i] else []) @ filter p (drop (Suc i) xs)"
    by simp
  show "filter p (xs[i := y]) = filter p (take i xs) @ (if p y then [y] else []) @ filter p (drop (Suc i) xs)"
    using assms by (simp add: upd_conv_take_nth_drop)
qed

lemma filter_update:
  assumes "i < length xs" "p (xs ! i)" "\<not> p y"
  shows "length (filter p (xs[i := y])) = length (filter p xs) - 1"
  using filter_at [OF assms(1), of p] assms(2,3) by simp

lemma filter_update_same:
  assumes "i < length xs" "\<not> p (xs ! i)" "\<not> p y"
  shows "filter p (xs[i := y]) = filter p xs"
  using filter_at [OF assms(1), of p] assms(2,3) by simp

lemma filter_update_only:
  assumes "i < length xs" "p (xs ! i)" "p y" "filter p xs = [x]"
  shows "xs ! i = x \<and> filter p (xs[i := y]) = [y]"
  using filter_at [OF assms(1), of p] assms(2-4) by (auto simp: append_eq_Cons_conv Cons_eq_append_conv)

lemma update_where_invariant:
  "(\<And>x. x \<in> set xs \<Longrightarrow> Q x) \<Longrightarrow> (\<And>x. x \<in> set xs \<Longrightarrow> Q (f x)) \<Longrightarrow> \<forall>x \<in> set (update_where p f xs). Q x"
  by (auto simp: update_where_def)

lemma filter_unique:
  assumes "distinct xs" "x \<in> set xs" "p x" "\<And>y. y \<in> set xs \<Longrightarrow> p y \<Longrightarrow> y = x"
  shows "filter p xs = [x]"
proof -
  have "p y \<longleftrightarrow> y = x" if "y \<in> set xs" for y using that assms(3,4) by blast
  then have "filter p xs = filter (\<lambda>y. y = x) xs" by (simp cong: filter_cong)
  then show ?thesis using filter_distinct_key [of "\<lambda>y. y" xs x x] assms(1,2) by simp
qed

text \<open>The end of the latest open attempt of a request.\<close>

lemma finish_latest_open:
  assumes "tx_finish_attempt now owner rid key att d = Some (u, d')"
  shows "db_requests d' = db_requests d \<and> db_fixtures d' = db_fixtures d \<and>
    length (open_attempts rid d') = length (open_attempts rid d) - 1 \<and>
    (rid' \<noteq> rid \<longrightarrow> open_attempts rid' d' = open_attempts rid' d)"
proof -
  obtain i where i: "latest_index (open_attempt rid key owner) (db_attempts d) = Some i"
    "d' = d\<lparr>db_attempts := (db_attempts d)[i := finish_attempt now att (db_attempts d ! i)]\<rparr>"
    using assms by (auto simp: tx_finish_attempt_def update_latest_def split: option.splits if_splits)
  have l: "i < length (db_attempts d)" "ra_request_id (db_attempts d ! i) = rid" "ra_finished_at (db_attempts d ! i) = None"
    using latest_index_Some [OF i(1)] by (auto simp: open_attempt_def)
  then show ?thesis
    by (simp add: i(2) open_attempts_def filter_update filter_update_same finish_attempt_def)
qed

lemma request_finish_ends:
  assumes "tx_request_finished now rid outcome status e ttfb d = Some (u, d')"
  shows "db_attempts d' = db_attempts d \<and> db_fixtures d' = db_fixtures d \<and>
    (\<exists>r \<in> set (db_requests d'). pr_request_id r = rid \<and> pr_outcome r \<noteq> ''started'') \<and>
    (\<exists>r \<in> set (db_requests d). started_request rid r) \<and>
    (rid' \<noteq> rid \<longrightarrow> filter (\<lambda>r. pr_request_id r = rid') (db_requests d') = filter (\<lambda>r. pr_request_id r = rid') (db_requests d))"
proof -
  obtain r r' where r: "r \<in> set (db_requests d)" "started_request rid r" "request_row_ok r'"
      "r' = finish_request now d outcome status e ttfb r"
      "d' = d\<lparr>db_requests := update_where (started_request rid) (\<lambda>_. r') (db_requests d)\<rparr>"
    using assms by (auto simp: tx_request_finished_def elim!: update_one_SomeE)
  have r': "pr_request_id r' = rid" "pr_outcome r' \<noteq> ''started''"
    using r(2-4) by (auto simp: finish_request_def started_request_def request_row_ok_def)
  have "r' \<in> set (update_where (started_request rid) (\<lambda>_. r') (db_requests d))"
    using update_where_new [of r "db_requests d" "started_request rid" "\<lambda>_. r'"] r(1,2) by simp
  moreover have "filter (\<lambda>q. pr_request_id q = rid') (update_where (started_request rid) (\<lambda>_. r') rows) =
      filter (\<lambda>q. pr_request_id q = rid') rows" if "rid' \<noteq> rid" for rows
    using that r'(1) by (induction rows) (auto simp: update_where_def started_request_def)
  ultimately show ?thesis using r r' by auto
qed

text \<open>A request's phase only depends on its own rows.\<close>

lemma in_phase_own_rows:
  assumes "filter (\<lambda>r. pr_request_id r = rid) (db_requests d') = filter (\<lambda>r. pr_request_id r = rid) (db_requests d)"
    "open_attempts rid d' = open_attempts rid d"
  shows "in_phase owner rid ph d' = in_phase owner rid ph d"
proof -
  have own: "{r \<in> set (db_requests d'). pr_request_id r = rid} = {r \<in> set (db_requests d). pr_request_id r = rid}"
    using arg_cong [OF assms(1), of set] by simp
  have "(\<exists>r \<in> set (db_requests d'). pr_request_id r = rid \<and> P r) = (\<exists>r \<in> set (db_requests d). pr_request_id r = rid \<and> P r)" for P
    using own by blast
  moreover have "(rid \<in> pr_request_id ` set (db_requests d')) = (rid \<in> pr_request_id ` set (db_requests d))"
    using own by blast
  ultimately show ?thesis
    by (auto simp: in_phase_def started_request_def assms(2) split: phase.split)
qed

section \<open>The steps\<close>

lemma attempt_started_tries:
  assumes "on_track owner rid Idle d" "tx_attempt_started now (Some owner) rid profile key d = Some (u, d')"
  shows "on_track owner rid (Trying key) d'"
proof -
  have l: "ledger_inv d'" using tx_attempt_started_lawful [OF assms(2)] assms(1) by (simp add: lawful_def on_track_def)
  show ?thesis
    using assms l
    by (auto simp: tx_attempt_started_def insert_attempt_def on_track_def in_phase_def open_attempts_def
        no_post_frame_fixture_def new_attempt_def split: if_splits)
qed

lemma attempt_finished_idles:
  assumes "on_track owner rid (Trying key) d" "tx_finish_attempt now (Some owner) rid key att d = Some (u, d')"
  shows "on_track owner rid Idle d'"
  using tx_finish_attempt_lawful [OF assms(2)] finish_latest_open [OF assms(2), of rid] assms(1)
  by (auto simp: lawful_def on_track_def in_phase_def no_post_frame_fixture_def)

lemma receipt_stays:
  assumes "on_track owner rid ph d" "tx_receipt now profile key d = Some (u, d')"
  shows "on_track owner rid ph d'"
  by (rule on_track_rows [OF _ _ _ assms(1)])
    (use assms(2) in \<open>auto simp: tx_receipt_def upsert_receipt_def Let_def split: if_splits\<close>)

lemma request_finished_ends:
  assumes "on_track owner rid Idle d" "tx_request_finished now rid outcome status e ttfb d = Some (u, d')"
  shows "on_track owner rid Ended d'"
  using tx_request_finished_lawful [OF assms(2)] request_finish_ends [OF assms(2), of rid] assms(1)
  by (auto simp: lawful_def on_track_def in_phase_def no_post_frame_fixture_def open_attempts_def)

lemma both_finished_ends:
  assumes "on_track owner rid (Trying key) d"
    "tx_request_and_attempt_finished now (Some owner) rid key att req d = Some (u, d')"
  shows "on_track owner rid Ended d'"
proof -
  obtain profile d1 d2 where s: "tx_finish_attempt now (Some owner) rid key att d = Some ((), d1)"
      "(if at_outcome att = ''succeeded'' then tx_receipt now profile key d1 else Some ((), d1)) = Some ((), d2)"
      "tx_request_finished now rid (rq_outcome req) (rq_status req) (rq_error req) (rq_ttfb req) d2 = Some (u, d')"
    using assms by (auto simp: tx_request_and_attempt_finished_def bind_eq_Some_conv)
  have "on_track owner rid Idle d1" by (rule attempt_finished_idles [OF assms(1) s(1)])
  then have "on_track owner rid Idle d2" using s(2) receipt_stays by (auto split: if_splits)
  then show ?thesis using s(3) by (rule request_finished_ends)
qed

lemma response_started_tries:
  assumes "on_track owner rid (Trying key) d"
    "tx_attempt_response_started (Some owner) rid key ttfb d = Some (u, d')"
  shows "on_track owner rid (Trying key) d'"
proof -
  obtain i where i: "latest_index (open_attempt rid key (Some owner)) (db_attempts d) = Some i"
    "d' = d\<lparr>db_attempts := (db_attempts d)[i := (db_attempts d ! i)\<lparr>ra_response_started := True, ra_ttfb := Some ttfb\<rparr>]\<rparr>"
    using assms(2) by (auto simp: tx_attempt_response_started_def update_latest_def split: option.splits if_splits)
  have l: "i < length (db_attempts d)" "open_attempt rid key (Some owner) (db_attempts d ! i)"
    using latest_index_Some [OF i(1)] by auto
  let ?p = "\<lambda>a. ra_request_id a = rid \<and> ra_finished_at a = None"
  let ?f = "\<lambda>a. a\<lparr>ra_response_started := True, ra_ttfb := Some ttfb\<rparr>"
  obtain a where a: "filter ?p (db_attempts d) = [a]"
    using assms(1) by (auto simp: on_track_def in_phase_def open_attempts_def)
  have "?p (db_attempts d ! i)" using l(2) by (simp add: open_attempt_def)
  note only = filter_update_only [where p = ?p, OF l(1) this, of "?f (db_attempts d ! i)"]
  have same: "db_attempts d ! i = a" using only a \<open>?p (db_attempts d ! i)\<close> by simp
  have u: "filter ?p (db_attempts d') = [?f a]"
    using only a \<open>?p (db_attempts d ! i)\<close> by (simp add: i(2) same)
  moreover have "ledger_inv d'"
    using tx_response_started_lawful [OF assms(2)] assms(1) by (simp add: lawful_def on_track_def)
  ultimately show ?thesis
    using assms(1) a u
    by (simp add: on_track_def in_phase_def open_attempts_def no_post_frame_fixture_def) (simp add: i(2))
qed

text \<open>The recovery of a request closes it from any phase it is open in.\<close>

lemma recovery_ends:
  assumes "on_track owner rid ph d" "ph \<noteq> Absent"
    "tx_request_and_open_attempts_finished now owner rid outcome status e ttfb n d = Some (u, d')"
  shows "on_track owner rid Ended d'"
proof -
  let ?p = "\<lambda>a. ra_request_id a = rid \<and> ra_owner a = Some owner \<and> ra_finished_at a = None"
  let ?f = "close_open_attempt now outcome status e ttfb n"
  let ?d1 = "d\<lparr>db_attempts := update_where ?p ?f (db_attempts d)\<rparr>"
  have s: "tx_request_finished now rid outcome status (Some e) ttfb ?d1 = Some (u, d')"
    using assms(3) by (auto simp: tx_request_and_open_attempts_finished_def Let_def split: if_splits)
  have started: "\<exists>r \<in> set (db_requests d). started_request rid r"
    using request_finish_ends [OF s, of rid] by simp
  have "\<forall>a \<in> set (open_attempts rid d). ra_owner a = Some owner"
    using assms(1,2) by (auto simp: on_track_def in_phase_def split: phase.splits)
  then have own: "ra_request_id a = rid \<Longrightarrow> ra_finished_at a = None \<Longrightarrow> ?p a" if "a \<in> set (db_attempts d)" for a
    using that by (simp add: open_attempts_def)
  then have "\<not> (ra_request_id a = rid \<and> ra_finished_at a = None)"
    if "a \<in> set (update_where ?p ?f (db_attempts d))" for a
  proof -
    have "a \<in> (\<lambda>b. if ?p b then ?f b else b) ` set (db_attempts d)"
      using that by (simp only: update_where_def set_map)
    then obtain b where b: "b \<in> set (db_attempts d)" "a = (if ?p b then ?f b else b)" by blast
    show ?thesis
    proof (cases "?p b")
      case True
      then show ?thesis by (simp add: b(2) close_open_attempt_def)
    next
      case False
      then have "a = b" using b(2) by (simp only: if_False)
      show ?thesis unfolding \<open>a = b\<close> using False own [OF b(1)] by blast
    qed
  qed
  then have "open_attempts rid ?d1 = []" by (simp add: open_attempts_def)
  then show ?thesis
    using tx_open_finished_lawful [OF assms(3)] request_finish_ends [OF s, of rid] assms(1)
    by (auto simp: lawful_def on_track_def in_phase_def no_post_frame_fixture_def open_attempts_def)
qed

text \<open>The recovery of another request leaves the phase; of an ended or absent one, it does nothing.\<close>

lemma other_recovery_stays:
  assumes "on_track owner rid ph d" "rid' \<noteq> rid \<or> ph = Ended \<or> ph = Absent"
    "tx_request_and_open_attempts_finished now owner' rid' outcome status e ttfb n d = Some (u, d')"
  shows "on_track owner rid ph d'"
proof -
  let ?p = "\<lambda>a. ra_request_id a = rid' \<and> ra_owner a = Some owner' \<and> ra_finished_at a = None"
  let ?f = "close_open_attempt now outcome status e ttfb n"
  let ?d1 = "d\<lparr>db_attempts := update_where ?p ?f (db_attempts d)\<rparr>"
  have s: "tx_request_finished now rid' outcome status (Some e) ttfb ?d1 = Some (u, d')"
    using assms(3) by (auto simp: tx_request_and_open_attempts_finished_def Let_def split: if_splits)
  obtain r where r: "r \<in> set (db_requests d)" "started_request rid' r"
    using request_finish_ends [OF s, of rid] by auto
  have ne: "rid' \<noteq> rid"
  proof
    assume same: "rid' = rid"
    then have "ph = Ended" using assms(1,2) r by (auto simp: on_track_def in_phase_def started_request_def)
    then obtain q where q: "q \<in> set (db_requests d)" "pr_request_id q = rid" "pr_outcome q \<noteq> ''started''"
      using assms(1) by (auto simp: on_track_def in_phase_def)
    then have "q = r" using r same assms(1)
      by (auto simp: on_track_def ledger_inv_def started_request_def distinct_map inj_on_def)
    then show False using q r by (simp add: started_request_def)
  qed
  have "open_attempts rid ?d1 = open_attempts rid d"
  proof -
    have "filter (\<lambda>a. ra_request_id a = rid \<and> ra_finished_at a = None) (update_where ?p ?f rows) =
        filter (\<lambda>a. ra_request_id a = rid \<and> ra_finished_at a = None) rows" for rows
      using ne by (induction rows) (auto simp: update_where_def close_open_attempt_def)
    then show ?thesis by (simp add: open_attempts_def)
  qed
  then have "in_phase owner rid ph d'"
    using request_finish_ends [OF s, of rid] ne assms(1)
    by (subst in_phase_own_rows [of rid d' d]) (auto simp: on_track_def open_attempts_def)
  then show ?thesis
    using tx_open_finished_lawful [OF assms(3)] request_finish_ends [OF s, of rid] assms(1)
    by (auto simp: lawful_def on_track_def no_post_frame_fixture_def)
qed

text \<open>A recovery with columns the tables accept succeeds on an open request.\<close>

definition recovery_ok :: "drop_recovery \<Rightarrow> bool" where
  "recovery_ok rv \<longleftrightarrow>
     rv_outcome rv \<in> set [''failed'', ''cancelled''] \<and> status_ok (rv_status rv) \<and>
     error_ok (Some (rv_error rv)) \<and> ms_ok (rv_ttfb rv)"

lemma failover_count_le:
  assumes "distinct (attempt_numbers rows)" "\<forall>a \<in> set rows. 1 \<le> ra_no a \<and> ra_no a \<le> 8"
  shows "length (filter (\<lambda>a. ra_parent a = Some i) rows) \<le> 8"
proof -
  let ?ns = "map ra_no (filter (\<lambda>a. ra_parent a = Some i) rows)"
  have "distinct (map (Pair (Some i)) ?ns)" using assms(1) by (simp only: child_numbers distinct_filter)
  then have "distinct ?ns" by (simp only: distinct_map)
  moreover have "set ?ns \<subseteq> {1..8}" using assms(2) by auto
  ultimately have "length ?ns \<le> card {1..8::nat}"
    by (metis card_mono distinct_card finite_atLeastAtMost)
  then show ?thesis by simp
qed

lemma close_open_attempt_ok:
  assumes "attempt_row_ok a" "recovery_ok rv"
  shows "attempt_row_ok (close_open_attempt now (rv_outcome rv) (rv_status rv) (rv_error rv) (rv_ttfb rv) n a)"
  using assms
  by (auto simp: attempt_row_ok_def recovery_ok_def close_open_attempt_def ATTEMPT_OUTCOMES_def ms_ok_def
      i64_bytes_def elapsed_ms_def split: option.splits)

lemma recovery_succeeds:
  assumes "on_track owner rid ph d" "ph \<noteq> Absent" "ph \<noteq> Ended" "recovery_ok rv"
  shows "\<exists>d'. tx_request_and_open_attempts_finished now owner rid (rv_outcome rv) (rv_status rv) (rv_error rv)
     (rv_ttfb rv) (rv_bytes rv) d = Some ((), d')"
proof -
  let ?p = "\<lambda>a. ra_request_id a = rid \<and> ra_owner a = Some owner \<and> ra_finished_at a = None"
  let ?f = "close_open_attempt now (rv_outcome rv) (rv_status rv) (rv_error rv) (rv_ttfb rv) (rv_bytes rv)"
  let ?d1 = "d\<lparr>db_attempts := update_where ?p ?f (db_attempts d)\<rparr>"
  have inv: "ledger_inv d" using assms(1) by (simp add: on_track_def)
  have rows: "attempt_row_ok a" if "a \<in> set (db_attempts d)" for a
    using inv that by (simp add: ledger_inv_def list_all_iff)
  have closable: "\<not> list_ex (\<lambda>a. ?p a \<and> \<not> attempt_row_ok (?f a)) (db_attempts d)"
    using close_open_attempt_ok [OF rows assms(4)] by (auto simp: list_ex_iff)
  obtain r where r: "r \<in> set (db_requests d)" "started_request rid r"
    using assms(1-3) by (auto simp: on_track_def in_phase_def split: phase.splits)
  have one: "filter (started_request rid) (db_requests d) = [r]"
  proof (rule filter_unique [where p = "started_request rid", OF _ r])
    show "distinct (db_requests d)" using inv by (simp add: ledger_inv_def distinct_map)
    fix x assume "x \<in> set (db_requests d)" "started_request rid x"
    then show "x = r" using inv r by (auto simp: ledger_inv_def started_request_def distinct_map inj_on_def)
  qed
  have no: "map (\<lambda>a. (ra_parent a, ra_no a)) (update_where ?p ?f (db_attempts d)) =
      map (\<lambda>a. (ra_parent a, ra_no a)) (db_attempts d)"
    by (simp add: update_where_def close_open_attempt_def)
  have "failover_count ?d1 rid \<le> 8"
  proof -
    have "length (filter (\<lambda>a. ra_parent a = Some rid) (update_where ?p ?f (db_attempts d))) \<le> 8"
    proof (rule failover_count_le)
      show "distinct (attempt_numbers (update_where ?p ?f (db_attempts d)))"
        using inv by (simp add: attempt_numbers_def no ledger_inv_def)
      show "\<forall>a \<in> set (update_where ?p ?f (db_attempts d)). 1 \<le> ra_no a \<and> ra_no a \<le> 8"
      proof (rule update_where_invariant)
        fix a assume "a \<in> set (db_attempts d)"
        then have "1 \<le> ra_no a \<and> ra_no a \<le> 8" using rows by (simp add: attempt_row_ok_def)
        then show "1 \<le> ra_no a \<and> ra_no a \<le> 8" "1 \<le> ra_no (?f a) \<and> ra_no (?f a) \<le> 8"
          by (simp_all add: close_open_attempt_def)
      qed
    qed
    then show ?thesis by (simp add: failover_count_def children_def)
  qed
  then have "request_row_ok (finish_request now ?d1 (rv_outcome rv) (rv_status rv) (Some (rv_error rv)) (rv_ttfb rv) r)"
    using inv r assms(4)
    by (auto simp: request_row_ok_def finish_request_def recovery_ok_def REQUEST_OUTCOMES_def ms_ok_def
        elapsed_ms_def started_request_def)
  then show ?thesis
    using closable one
    by (simp add: tx_request_and_open_attempts_finished_def Let_def tx_request_finished_def update_one_def checked_def)
qed

end
