(* ===== verification/Lifecycle.thy ===== *)
theory Lifecycle
  imports Phases
begin

text \<open>
  What the programs that keep no books leave alone. \<open>aside w w'\<close>: the request and attempt rows, the
  lease, the evidence and the spawned tasks are the same, the clock has not gone back and no tick
  was added. Health
  updates, selection, permits, the provider's calls and the reads of the store are such programs.
\<close>

section \<open>The relation\<close>

definition rows_kept :: "db \<Rightarrow> db \<Rightarrow> bool" where
  "rows_kept d d' \<longleftrightarrow>
     db_requests d' = db_requests d \<and> db_attempts d' = db_attempts d \<and>
     map fx_kind (db_fixtures d') = map fx_kind (db_fixtures d)"

definition aside :: "world \<Rightarrow> world \<Rightarrow> bool" where
  "aside w w' \<longleftrightarrow>
     w_owner w' = w_owner w \<and> w_evidence w' = w_evidence w \<and> w_tasks w' = w_tasks w \<and>
     w_clock w \<le> w_clock w' \<and> set (w_ticks w') \<subseteq> set (w_ticks w) \<and>
     (case w_db w of None \<Rightarrow> w_db w' = None | Some d \<Rightarrow> (\<exists>d'. w_db w' = Some d' \<and> rows_kept d d'))"

lemma rows_kept_refl [simp]: "rows_kept d d"
  by (simp add: rows_kept_def)

interpretation aside: history aside
  by unfold_locales (auto simp: aside_def rows_kept_def split: option.splits)

lemma rows_kept_ledger: "ledger_of d' = ledger_of d \<Longrightarrow> rows_kept d d'"
  by (simp add: ledger_of_def rows_kept_def)

section \<open>Calls\<close>

lemma vault_call_aside: "evolves aside (vault_call f)"
  by (rule evolvesI, rule vault_callI) (auto simp: aside_def later_def split: option.split)

lemma database_call_aside:
  assumes "\<And>t now d r d'. f t now d = Some (r, d') \<Longrightarrow> rows_kept d d'"
  shows "evolves aside (database_call f)"
proof (rule evolvesI)
  fix w
  show "post (database_call f) w (\<lambda>_ w'. aside w w')"
  proof (cases "w_db w")
    case None
    then show ?thesis
      by (auto simp: post_def database_call_def next_tick_def aside_def split: list.split)
  next
    case (Some d)
    show ?thesis
    proof (rule database_callI [OF Some])
      fix t now ts r d'
      assume l: "later w ts now" and r: "run_tx (tk_fault t) (f t now) d = (r, d')"
      have "rows_kept d d'"
        using r assms by (cases rule: run_tx_cases [of "tk_fault t" "f t now" d]) auto
      then show "aside w (w\<lparr>w_ticks := ts, w_clock := now, w_db := Some d'\<rparr>)"
        using l Some by (simp add: aside_def later_def)
    qed
  qed
qed

lemma query_aside: "evolves aside (database_call (\<lambda>t now d. Some (f t now d, d)))"
  by (rule database_call_aside) simp

lemma if_database_aside:
  "evolves aside (database_call f) \<Longrightarrow> evolves aside (if_database f)"
  unfolding if_database_def by (intro aside.bind) (auto split: option.split intro: aside.compose)

lemma modify_aside:
  "(\<And>w. aside w (f w)) \<Longrightarrow> evolves aside (modify f)"
  by (rule aside.modify)

lemma next_tick_aside: "evolves aside next_tick"
  by (rule evolvesI) (auto simp: post_def next_tick_def aside_def split: list.split option.split)

lemmas aside_intros =
  aside.return aside.simple aside.bind aside.and_then vault_call_aside query_aside if_database_aside next_tick_aside

section \<open>The store\<close>

lemma restore_vault_aside: "evolves aside (restore_vault v)"
  unfolding restore_vault_def by (rule modify_aside) (simp add: aside_def split: option.split)

lemma sync_aside: "evolves aside (sync_unlocked_with_audit g previous audit)"
  unfolding sync_unlocked_with_audit_def
  by (auto split: option.split sum.split intro!: aside_intros database_call_aside
      dest: rows_kept_ledger [OF sync_delta_ledger] rows_kept_ledger [OF sync_rows_ledger])

lemma sync_unlocked_aside: "evolves aside (sync_unlocked g previous)"
  unfolding sync_unlocked_def by (intro aside_intros sync_aside)

lemma roll_back_aside: "evolves aside (roll_back v e)"
  unfolding roll_back_def by (intro aside_intros restore_vault_aside)

lemma mutate_aside: "evolves aside (mutate g f)"
  unfolding mutate_def
  by (auto split: sum.split intro!: aside_intros restore_vault_aside sync_unlocked_aside roll_back_aside)

lemma set_cursor_aside: "evolves aside (set_cursor g p n)"
  unfolding set_cursor_def
  by (auto split: sum.split intro!: aside_intros restore_vault_aside sync_unlocked_aside roll_back_aside)

lemma health_aside:
  "evolves aside (record_request_for g i)" "evolves aside (record_failure_for g i retry_after)"
  "evolves aside (quarantine_key g i)"
  unfolding record_request_for_def record_failure_for_def quarantine_key_def
  by (intro aside_intros mutate_aside)+

lemma client_admitted_aside: "evolves aside (client_admitted_if_database i)"
  unfolding client_admitted_if_database_def client_admitted_def
  by (auto split: option.split intro!: aside_intros)

lemma authorize_downstream_aside: "evolves aside (authorize_downstream g token scope)"
  unfolding authorize_downstream_def
  by (auto split: sum.split intro!: aside_intros client_admitted_aside)

lemma authorize_scope_aside: "evolves aside (authorize_scope g req scope)"
  unfolding authorize_scope_def
  by (auto split: option.split intro!: aside_intros authorize_downstream_aside)

lemma record_use_aside: "evolves aside (record_accepted_downstream_use g i)"
  unfolding record_accepted_downstream_use_def record_accepted_use_def
  by (auto split: option.split sum.split intro!: aside_intros client_admitted_aside mutate_aside)

lemma permit_rows:
  "tx_acquire_permit utc now hint owner rid i profile d = Some (p, d') \<Longrightarrow> rows_kept d d'"
  "tx_release_permit now rid d = Some (u, d') \<Longrightarrow> rows_kept d d'"
  by (auto simp: tx_acquire_permit_def tx_release_permit_def rows_kept_def Let_def
      split: option.splits if_splits)

lemma acquire_aside: "evolves aside (acquire_downstream_permit rid client profile)"
  unfolding acquire_downstream_permit_def
  by (auto split: option.split intro!: aside_intros database_call_aside dest: permit_rows)

lemma release_aside: "evolves aside (release_downstream_permit rid)"
  unfolding release_downstream_permit_def
  by (auto intro!: aside_intros database_call_aside dest: permit_rows)

lemma select_failover_aside: "evolves aside (select_failover_key profile attempted)"
  unfolding select_failover_key_def
  by (auto split: option.split intro!: aside_intros database_call_aside
      simp: tx_select_failover_def split: list.splits)

lemma reads_aside:
  "evolves aside store_list" "evolves aside (store_credential g i)" "evolves aside load_routing_policy"
  unfolding store_list_def store_credential_def load_routing_policy_def
  by (auto split: option.split intro!: aside_intros)

lemma fixture_aside: "evolves aside (consume_live_failure_fixture client rid key)"
proof -
  have "rows_kept d d'" if "tx_consume_fixture now i rid key d = Some (k, d')" for now i d k d'
    using that by (auto simp: tx_consume_fixture_def rows_kept_def map_update split: option.splits if_splits)
      (metis list_update_id map_update)
  then show ?thesis
    unfolding consume_live_failure_fixture_def
    by (auto split: option.split intro!: aside_intros database_call_aside)
qed

section \<open>The provider\<close>

lemma send_aside: "evolves aside (send l s)"
  unfolding send_def
  by (intro aside_intros modify_aside)
    (auto simp: aside_def evolves_def split: option.split list.split)

lemma sleep_aside: "0 \<le> d \<Longrightarrow> evolves aside (sleep d)"
  unfolding sleep_def by (rule modify_aside) (simp add: aside_def split: option.split)

lemma poll_loop_aside: "0 \<le> delay \<Longrightarrow> evolves aside (poll_loop n endpoint secret deadline delay)"
proof (induction n arbitrary: delay)
  case (Suc n)
  have "evolves aside (poll_loop n endpoint secret deadline (min (delay * 2) (secs 2)))"
    using Suc.prems by (intro Suc.IH) (simp add: secs_def)
  then show ?case
    using Suc.prems
    by (auto simp: poll_loop.simps split: sum.split intro!: aside_intros send_aside sleep_aside)
qed (simp add: poll_loop.simps aside.return)

lemma poll_nvcf_aside: "evolves aside (poll_nvcf g p secret)"
  unfolding poll_nvcf_def
  by (auto simp: NVCF_INITIAL_POLL_DELAY_def millis_def split: option.split intro!: aside_intros poll_loop_aside)

lemma mock_aside: "evolves aside mock_id" "evolves aside (mock_response request)"
  unfolding mock_id_def mock_response_def by (intro aside_intros)+

text \<open>
  The life of a request through the handler: from its admission to the reply, every program of
  \<open>chat_completions\<close> leaves the ledger row in a phase from which the evidence, the stream guard or a
  spawned task can still close it, or has closed it.
\<close>

section \<open>Where a request stands\<close>

definition phase_is :: "uuid \<Rightarrow> phase \<Rightarrow> world \<Rightarrow> bool" where
  "phase_is rid ph w \<longleftrightarrow> (\<exists>d owner. w_db w = Some d \<and> w_owner w = Some owner \<and> on_track owner rid ph d)"

definition alive :: "uuid \<Rightarrow> world \<Rightarrow> bool" where
  "alive rid w \<longleftrightarrow> (\<exists>ph. ph \<noteq> Absent \<and> phase_is rid ph w)"

definition evidence_open :: "uuid \<Rightarrow> evidence \<Rightarrow> time \<Rightarrow> bool" where
  "evidence_open rid e now \<longleftrightarrow>
     ev_request_id e = rid \<and> \<not> ev_terminal e \<and> recovery_ok (ev_recovery e) \<and> ev_started e \<le> now"

definition running :: "uuid \<Rightarrow> phase \<Rightarrow> world \<Rightarrow> bool" where
  "running rid ph w \<longleftrightarrow> phase_is rid ph w \<and> evidence_open rid (w_evidence w) (w_clock w)"

definition still_running :: "uuid \<Rightarrow> world \<Rightarrow> bool" where
  "still_running rid w \<longleftrightarrow> alive rid w \<and> evidence_open rid (w_evidence w) (w_clock w)"

definition closer :: "uuid \<Rightarrow> task \<Rightarrow> bool" where
  "closer rid t =
     (case t of
        Release_task _ _ \<Rightarrow> False
      | Evidence_task e \<Rightarrow> ev_request_id e = rid \<and> \<not> ev_terminal e \<and> recovery_ok (ev_recovery e)
      | Guard_task e rv \<Rightarrow> ev_request_id e = rid \<and> recovery_ok rv)"

definition settled :: "uuid \<Rightarrow> world \<Rightarrow> bool" where
  "settled rid w \<longleftrightarrow>
     phase_is rid Absent w \<or> phase_is rid Ended w \<or> alive rid w \<and> (\<exists>t \<in> set (w_tasks w). closer rid t)"

definition guard_open :: "uuid \<Rightarrow> stream_guard \<Rightarrow> world \<Rightarrow> bool" where
  "guard_open rid sg w \<longleftrightarrow>
     (\<exists>e. sg_request sg = Some e \<and> ev_request_id e = rid) \<and>
     (phase_is rid Ended w \<or> alive rid w \<and> \<not> sg_terminal sg \<and> recovery_ok (guard_recovery sg))"

definition left :: "uuid \<Rightarrow> world \<Rightarrow> bool" where
  "left rid w \<longleftrightarrow> settled rid w \<or> still_running rid w"

lemma running_still: "running rid ph w \<Longrightarrow> ph \<noteq> Absent \<Longrightarrow> still_running rid w"
  by (auto simp: running_def still_running_def alive_def)

lemma still_left: "still_running rid w \<Longrightarrow> left rid w"
  by (simp add: left_def)

lemma ended_left: "phase_is rid Ended w \<Longrightarrow> left rid w"
  by (simp add: left_def settled_def)

lemma ended_alive: "phase_is rid Ended w \<Longrightarrow> alive rid w"
  by (auto simp: alive_def)

section \<open>Programs that leave the ledger alone\<close>

text \<open>Same owner, clock not back, and the rows kept; tasks and evidence may differ.\<close>

lemma phase_is_same:
  "w_db w' = w_db w \<Longrightarrow> w_owner w' = w_owner w \<Longrightarrow> phase_is rid ph w' = phase_is rid ph w"
  by (simp add: phase_is_def)

lemma alive_same: "w_db w' = w_db w \<Longrightarrow> w_owner w' = w_owner w \<Longrightarrow> alive rid w' = alive rid w"
  by (simp add: alive_def phase_is_same [of w' w])

lemma aside_phase: "aside w w' \<Longrightarrow> phase_is rid ph w \<Longrightarrow> phase_is rid ph w'"
  using on_track_rows by (fastforce simp: aside_def phase_is_def rows_kept_def)

lemma aside_alive: "aside w w' \<Longrightarrow> alive rid w \<Longrightarrow> alive rid w'"
  using aside_phase by (auto simp: alive_def)

lemma aside_evidence: "aside w w' \<Longrightarrow> evidence_open rid (w_evidence w) (w_clock w) \<Longrightarrow>
    evidence_open rid (w_evidence w') (w_clock w')"
  by (auto simp: aside_def evidence_open_def)

lemma aside_running: "aside w w' \<Longrightarrow> running rid ph w \<Longrightarrow> running rid ph w'"
  using aside_phase aside_evidence by (auto simp: running_def)

lemma aside_settled: "aside w w' \<Longrightarrow> settled rid w \<Longrightarrow> settled rid w'"
  using aside_phase aside_alive by (auto simp: settled_def aside_def)

lemma aside_left: "aside w w' \<Longrightarrow> left rid w \<Longrightarrow> left rid w'"
  using aside_settled aside_alive aside_evidence by (auto simp: left_def still_running_def)

lemma aside_guard: "aside w w' \<Longrightarrow> guard_open rid sg w \<Longrightarrow> guard_open rid sg w'"
  using aside_phase aside_alive by (auto simp: guard_open_def)

lemma aside_post: "evolves aside m \<Longrightarrow> (\<And>x w'. aside w w' \<Longrightarrow> Q x w') \<Longrightarrow> post m w Q"
  using evolves_post post_mono by blast

section \<open>Transactions\<close>

text \<open>A transaction that takes the request from \<open>ph\<close> to \<open>ph'\<close>, whatever fails around it.\<close>

definition moved :: "uuid \<Rightarrow> phase \<Rightarrow> phase \<Rightarrow> bool \<Rightarrow> world \<Rightarrow> world \<Rightarrow> bool" where
  "moved rid ph ph' answered w w' \<longleftrightarrow>
     w_evidence w' = w_evidence w \<and> w_tasks w' = w_tasks w \<and> w_owner w' = w_owner w \<and> w_clock w \<le> w_clock w' \<and>
     (if answered then phase_is rid ph' w' else phase_is rid ph w' \<or> phase_is rid ph' w')"

lemma phase_call:
  assumes "phase_is rid ph w"
    "\<And>owner t now d r d'. w_owner w = Some owner \<Longrightarrow> on_track owner rid ph d \<Longrightarrow> f t now d = Some (r, d') \<Longrightarrow>
      on_track owner rid ph' d'"
  shows "post (database_call f) w (\<lambda>r. moved rid ph ph' (r \<noteq> None) w)"
proof -
  obtain d owner where d: "w_db w = Some d" "w_owner w = Some owner" "on_track owner rid ph d"
    using assms(1) by (auto simp: phase_is_def)
  show ?thesis
  proof (rule database_callI [OF d(1)])
    fix t now ts r d'
    assume l: "later w ts now" and r: "run_tx (tk_fault t) (f t now) d = (r, d')"
    show "moved rid ph ph' (r \<noteq> None) w (w\<lparr>w_ticks := ts, w_clock := now, w_db := Some d'\<rparr>)"
      using r l d assms(2) [OF d(2,3)]
      by (cases rule: run_tx_cases [of "tk_fault t" "f t now" d])
        (auto simp: moved_def phase_is_def later_def)
  qed
qed

lemma phase_if_database:
  assumes "phase_is rid ph w"
    "\<And>owner t now d r d'. w_owner w = Some owner \<Longrightarrow> on_track owner rid ph d \<Longrightarrow> f t now d = Some (r, d') \<Longrightarrow>
      on_track owner rid ph' d'"
  shows "post (if_database f) w (\<lambda>ok. moved rid ph ph' ok w)"
proof -
  obtain d where "w_db w = Some d" using assms(1) by (auto simp: phase_is_def)
  moreover have "post (database_call f) w (\<lambda>r. moved rid ph ph' (r \<noteq> None) w)"
    by (rule phase_call [OF assms])
  ultimately show ?thesis by (simp add: if_database_def)
qed

lemma moved_running:
  "moved rid ph ph' True w w' \<Longrightarrow> running rid ph w \<Longrightarrow> running rid ph' w'"
  by (auto simp: moved_def running_def evidence_open_def)

lemma moved_still:
  "moved rid ph ph' ok w w' \<Longrightarrow> running rid ph w \<Longrightarrow> ph \<noteq> Absent \<Longrightarrow> ph' \<noteq> Absent \<Longrightarrow> still_running rid w'"
  by (auto simp: moved_def running_def evidence_open_def still_running_def alive_def split: if_splits)

section \<open>Attempts\<close>

lemma attempt_ledger_moves:
  assumes "phase_is rid ph w"
    "\<And>owner t now d r d'. w_owner w = Some owner \<Longrightarrow> on_track owner rid ph d \<Longrightarrow> f t now (Some owner) d = Some (r, d') \<Longrightarrow>
      on_track owner rid ph' d'"
  shows "post (attempt_ledger f) w (\<lambda>r. moved rid ph ph' (is_ok r) w)"
proof -
  obtain owner where o: "w_owner w = Some owner" using assms(1) by (auto simp: phase_is_def)
  have "post (if_database (\<lambda>t now. f t now (Some owner))) w (\<lambda>ok. moved rid ph ph' ok w)"
    by (rule phase_if_database [OF assms(1)]) (use o assms(2) in auto)
  then show ?thesis
    unfolding attempt_ledger_def by (simp add: o is_ok_def) (erule post_mono, auto split: if_splits)
qed

lemma attempt_started_moves:
  "phase_is rid Idle w \<Longrightarrow> post (attempt_started rid profile key) w (\<lambda>r. moved rid Idle (Trying key) (is_ok r) w)"
  unfolding attempt_started_def by (rule attempt_ledger_moves) (auto intro: attempt_started_tries)

lemma response_started_moves:
  "phase_is rid (Trying key) w \<Longrightarrow>
   post (attempt_response_started rid key ttfb) w (\<lambda>r. moved rid (Trying key) (Trying key) (is_ok r) w)"
  unfolding attempt_response_started_def by (rule attempt_ledger_moves) (auto intro: response_started_tries)

lemma moved_trans:
  "moved rid a b True w w' \<Longrightarrow> moved rid b c ok w' w'' \<Longrightarrow> (ok \<Longrightarrow> c = d) \<Longrightarrow> (\<not> ok \<Longrightarrow> {b, c} \<subseteq> {a, d}) \<Longrightarrow>
   moved rid a d ok w w''"
  by (auto simp: moved_def split: if_splits)

lemma attempt_finished_steps_moves:
  assumes "phase_is rid (Trying key) w"
  shows "post (attempt_finished_steps rid key att) w (\<lambda>ok. moved rid (Trying key) Idle ok w)"
proof -
  obtain owner where o: "w_owner w = Some owner" using assms by (auto simp: phase_is_def)
  have read: "post (database_call (\<lambda>_ _. tx_open_profile (Some owner) rid key)) w
      (\<lambda>r. moved rid (Trying key) (Trying key) (r \<noteq> None) w)"
    by (rule phase_call [OF assms]) (auto simp: tx_open_profile_def)
  have finish: "post (database_call (\<lambda>_ now. tx_finish_attempt now (Some owner) rid key att)) w'
      (\<lambda>r. moved rid (Trying key) Idle (r \<noteq> None) w')"
    if "phase_is rid (Trying key) w'" "w_owner w' = Some owner" for w'
    by (rule phase_call [OF that(1)]) (use that(2) in \<open>auto intro: attempt_finished_idles\<close>)
  have receipt: "post (database_call (\<lambda>_ now. tx_receipt now profile key)) w'
      (\<lambda>r. moved rid Idle Idle (r \<noteq> None) w')" if "phase_is rid Idle w'" for w' profile
    by (rule phase_call [OF that]) (auto intro: receipt_stays)
  have after: "post (if at_outcome att = ''succeeded''
        then do { r \<leftarrow> database_call (\<lambda>_ now. tx_receipt now profile key); State_Monad.return (r \<noteq> None) }
        else State_Monad.return True) w' (\<lambda>ok. moved rid (Trying key) Idle ok w)"
    if m: "moved rid (Trying key) Idle True w w'" for w' profile
  proof (cases "at_outcome att = ''succeeded''")
    case True
    have "phase_is rid Idle w'" using m by (simp add: moved_def)
    from receipt [OF this, of profile] show ?thesis
      using True by simp (erule post_mono, use moved_trans [OF m] in auto)
  qed (use m in simp)
  have both: "post (do {
         u \<leftarrow> database_call (\<lambda>_ now. tx_finish_attempt now (Some owner) rid key att);
         case u of
           None \<Rightarrow> State_Monad.return False
         | Some _ \<Rightarrow>
             if at_outcome att = ''succeeded'' then do {
               r \<leftarrow> database_call (\<lambda>_ now. tx_receipt now profile key);
               State_Monad.return (r \<noteq> None)
             } else State_Monad.return True
       }) w' (\<lambda>ok. moved rid (Trying key) Idle ok w)"
    if m: "moved rid (Trying key) (Trying key) True w w'" for w' profile
  proof -
    have p: "phase_is rid (Trying key) w'" "w_owner w' = Some owner" using m o by (simp_all add: moved_def)
    show ?thesis
      unfolding post_bind
    proof (rule post_mono [OF finish [OF p]])
      fix u :: "unit option" and w'' assume f: "moved rid (Trying key) Idle (u \<noteq> None) w' w''"
      show "post (case u of
           None \<Rightarrow> State_Monad.return False
         | Some _ \<Rightarrow>
             if at_outcome att = ''succeeded'' then do {
               r \<leftarrow> database_call (\<lambda>_ now. tx_receipt now profile key);
               State_Monad.return (r \<noteq> None)
             } else State_Monad.return True) w'' (\<lambda>ok. moved rid (Trying key) Idle ok w)"
        using moved_trans [OF m f] after [of w'' profile] by (cases u) auto
    qed
  qed
  show ?thesis
    unfolding attempt_finished_steps_def post_bind post_observe o
  proof (rule post_mono [OF read])
    fix p :: "str option" and w' assume m: "moved rid (Trying key) (Trying key) (p \<noteq> None) w w'"
    show "post (case p of
        None \<Rightarrow> State_Monad.return False
      | Some profile \<Rightarrow> do {
          u \<leftarrow> database_call (\<lambda>_ now. tx_finish_attempt now (Some owner) rid key att);
          case u of
            None \<Rightarrow> State_Monad.return False
          | Some _ \<Rightarrow>
              if at_outcome att = ''succeeded'' then do {
                r \<leftarrow> database_call (\<lambda>_ now. tx_receipt now profile key);
                State_Monad.return (r \<noteq> None)
              } else State_Monad.return True
        }) w' (\<lambda>ok. moved rid (Trying key) Idle ok w)"
    proof (cases p)
      case None
      then show ?thesis using m by (simp add: moved_def)
    next
      case (Some profile)
      then show ?thesis using both [of w' profile] m by simp
    qed
  qed
qed

lemma attempt_finished_moves:
  assumes "phase_is rid (Trying key) w"
  shows "post (attempt_finished rid key att) w (\<lambda>r. moved rid (Trying key) Idle (is_ok r) w)"
proof -
  obtain d where "w_db w = Some d" using assms by (auto simp: phase_is_def)
  then show ?thesis
    using attempt_finished_steps_moves [OF assms, of att]
    by (simp add: attempt_finished_def is_ok_def) (erule post_mono, auto split: if_splits)
qed

section \<open>Closing the row\<close>

lemma both_finished_any:
  assumes "on_track owner rid ph d"
    "tx_request_and_attempt_finished now (Some owner) rid key att req d = Some (u, d')"
  shows "on_track owner rid Ended d'"
proof -
  obtain i where i: "latest_index (open_attempt rid key (Some owner)) (db_attempts d) = Some i"
    using assms(2) by (auto simp: tx_request_and_attempt_finished_def open_profile_def bind_eq_Some_conv)
  have "db_attempts d ! i \<in> set (open_attempts rid d)" "ra_key (db_attempts d ! i) = key"
    using latest_index_Some [OF i] by (auto simp: open_attempts_def open_attempt_def)
  then have "ph = Trying key"
    using assms(1) by (auto simp: on_track_def in_phase_def split: phase.splits)
  then show ?thesis using assms both_finished_ends by blast
qed

lemma request_and_attempt_finished_moves:
  assumes "phase_is rid ph w"
  shows "post (request_and_attempt_finished rid key att req) w (\<lambda>ok. moved rid ph Ended ok w)"
proof -
  obtain owner where o: "w_owner w = Some owner" using assms by (auto simp: phase_is_def)
  show ?thesis
    unfolding request_and_attempt_finished_def post_bind post_observe o
    by (rule phase_if_database [OF assms]) (use o in \<open>auto intro: both_finished_any\<close>)
qed

lemma open_attempts_finished_moves:
  assumes "phase_is rid ph w" "ph \<noteq> Absent"
  shows "post (proxy_request_and_open_attempts_finished rid rv) w (\<lambda>ok. moved rid ph Ended ok w)"
proof -
  obtain d owner where o: "w_owner w = Some owner" "w_db w = Some d"
    using assms by (auto simp: phase_is_def)
  have "post (database_call (\<lambda>_ now. tx_request_and_open_attempts_finished now owner rid (rv_outcome rv)
      (rv_status rv) (rv_error rv) (rv_ttfb rv) (rv_bytes rv))) w (\<lambda>r. moved rid ph Ended (r \<noteq> None) w)"
    by (rule phase_call [OF assms(1)]) (use o assms(2) in \<open>auto intro: recovery_ends\<close>)
  then show ?thesis
    by (simp add: proxy_request_and_open_attempts_finished_def with_owner_def succeeds_def o)
qed

text \<open>What a terminal update leaves: the row closed, or a request that runs on with \<open>rv\<close> armed.\<close>

definition closing :: "uuid \<Rightarrow> evidence \<Rightarrow> drop_recovery \<Rightarrow> world \<Rightarrow> bool \<Rightarrow> evidence \<Rightarrow> world \<Rightarrow> bool" where
  "closing rid e rv w ok e' w' \<longleftrightarrow>
     ev_request_id e' = rid \<and> w_clock w \<le> w_clock w' \<and>
     (if ok then phase_is rid Ended w'
      else alive rid w' \<and> (phase_is rid Ended w \<longrightarrow> phase_is rid Ended w') \<and> e' = e\<lparr>ev_recovery := rv\<rparr>)"

lemma spawn_post [simp]: "post (spawn t) w Q \<longleftrightarrow> Q () (w\<lparr>w_tasks := w_tasks w @ [t]\<rparr>)"
  by (simp add: spawn_def)

lemma phase_is_tasks [simp]:
  "phase_is rid ph (w\<lparr>w_tasks := ts\<rparr>) = phase_is rid ph w" "alive rid (w\<lparr>w_tasks := ts\<rparr>) = alive rid w"
  "phase_is rid ph (w\<lparr>w_evidence := e\<rparr>) = phase_is rid ph w" "alive rid (w\<lparr>w_evidence := e\<rparr>) = alive rid w"
  by (rule phase_is_same alive_same; simp)+

lemma closed_closing:
  assumes "phase_is rid Ended w'" "ev_request_id e = rid" "w_clock w \<le> w_clock w'"
  shows "post (closed e) w' (\<lambda>e'. closing rid e0 rv w True e')"
proof (cases "ev_permit e")
  case True
  have "post (release_downstream_permit i) w' (\<lambda>ok w''. phase_is rid Ended w'' \<and> w_clock w \<le> w_clock w'')" for i
    by (rule aside_post [OF release_aside]) (use assms aside_phase in \<open>auto simp: aside_def\<close>)
  then have "post (release_downstream_permit i) w' (\<lambda>ok w''. post
      (if ok then State_Monad.return () else spawn_permit_release_retry i) w''
      (\<lambda>_ w''. w_clock w \<le> w_clock w'' \<and> phase_is rid Ended w''))" for i
    by (rule post_mono) (auto simp: spawn_permit_release_retry_def)
  then show ?thesis
    using assms(2) True by (simp add: closed_def release_permit_now_def closing_def cong: if_cong)
qed (use assms in \<open>simp add: closed_def release_permit_now_def closing_def\<close>)

lemma finishing_closes:
  assumes "post m w (\<lambda>ok. moved rid ph Ended ok w)" "ph \<noteq> Absent" "phase_is rid Ended w \<longrightarrow> ph = Ended"
    "ev_request_id e = rid" "e' = e\<lparr>ev_recovery := rv\<rparr>"
  shows "post (do { ok \<leftarrow> m; if ok then do { e \<leftarrow> closed e'; State_Monad.return (a, e) } else State_Monad.return (b, e') }) w
    (\<lambda>r w'. \<exists>ok. fst r = (if ok then a else b) \<and> closing rid e rv w ok (snd r) w')"
  unfolding post_bind
proof (rule post_mono [OF assms(1)])
  fix ok w' assume m: "moved rid ph Ended ok w w'"
  show "post (if ok then do { e \<leftarrow> closed e'; State_Monad.return (a, e) } else State_Monad.return (b, e')) w'
      (\<lambda>r w'. \<exists>ok. fst r = (if ok then a else b) \<and> closing rid e rv w ok (snd r) w')"
  proof (cases ok)
    case True
    have "post (closed e') w' (\<lambda>e'. closing rid e rv w True e')"
      by (rule closed_closing) (use m True assms(4,5) in \<open>auto simp: moved_def\<close>)
    then have "post (closed e') w' (\<lambda>x w'. \<exists>ok. a = (if ok then a else b) \<and> closing rid e rv w ok x w')"
      by (rule post_mono) auto
    then show ?thesis using True by simp
  next
    case False
    then have "closing rid e rv w False e' w'"
      using m assms(2-5) by (auto simp: moved_def closing_def alive_def)
    then show ?thesis using False by auto
  qed
qed

lemma moved_alive: "moved rid ph ph' ok w w' \<Longrightarrow> ph \<noteq> Absent \<Longrightarrow> ph' \<noteq> Absent \<Longrightarrow> alive rid w'"
  by (auto simp: moved_def alive_def split: if_splits)

lemma alive_phase:
  assumes "alive rid w"
  obtains ph where "ph \<noteq> Absent" "phase_is rid ph w" "phase_is rid Ended w \<longrightarrow> ph = Ended"
  using assms by (cases "phase_is rid Ended w") (auto simp: alive_def)

lemma finish_with_attempt_closes:
  assumes "alive rid w" "ev_request_id e = rid"
  shows "post (finish_with_attempt key att req e) w (\<lambda>r. closing rid e
    \<lparr>rv_outcome = ''failed'', rv_status = Some 500, rv_error = ''evidence_unavailable'',
     rv_ttfb = rq_ttfb req, rv_bytes = terminal_bytes_out att\<rparr> w (is_ok (fst r)) (snd r))"
proof -
  obtain ph where ph: "ph \<noteq> Absent" "phase_is rid ph w" "phase_is rid Ended w \<longrightarrow> ph = Ended"
    using assms(1) by (rule alive_phase)
  show ?thesis
    unfolding finish_with_attempt_def Let_def
    by (rule post_mono, rule finishing_closes [OF _ ph(1,3) assms(2)])
      (use request_and_attempt_finished_moves [OF ph(2)] assms(2) in
        \<open>auto simp: arm_evidence_failure_def arm_drop_recovery_def is_ok_def split: if_splits\<close>)
qed

lemma finish_with_attempt_silently_closes:
  assumes "alive rid w" "ev_request_id e = rid"
  shows "post (finish_with_attempt_silently key att req e) w (\<lambda>r. closing rid e
    \<lparr>rv_outcome = ''failed'', rv_status = rq_status req, rv_error = ''evidence_unavailable'',
     rv_ttfb = rq_ttfb req, rv_bytes = terminal_bytes_out att\<rparr> w (fst r) (snd r))"
proof -
  obtain ph where ph: "ph \<noteq> Absent" "phase_is rid ph w" "phase_is rid Ended w \<longrightarrow> ph = Ended"
    using assms(1) by (rule alive_phase)
  show ?thesis
    unfolding finish_with_attempt_silently_def Let_def
    by (rule post_mono, rule finishing_closes [OF _ ph(1,3) assms(2)])
      (use request_and_attempt_finished_moves [OF ph(2)] assms(2) in
        \<open>auto simp: arm_drop_recovery_def split: if_splits\<close>)
qed

lemma finish_with_open_attempts_closes:
  assumes "alive rid w" "ev_request_id e = rid"
  shows "post (finish_with_open_attempts_silently rv e) w (\<lambda>r. closing rid e rv w (fst r) (snd r))"
proof -
  obtain ph where ph: "ph \<noteq> Absent" "phase_is rid ph w" "phase_is rid Ended w \<longrightarrow> ph = Ended"
    using assms(1) by (rule alive_phase)
  show ?thesis
    unfolding finish_with_open_attempts_silently_def Let_def
    by (rule post_mono, rule finishing_closes [OF _ ph(1,3) assms(2)])
      (use open_attempts_finished_moves [OF ph(2,1)] assms(2) in
        \<open>auto simp: arm_drop_recovery_def split: if_splits\<close>)
qed

end
