(* ===== verification/Chat_Lifecycle.thy ===== *)
theory Chat_Lifecycle
  imports Lifecycle
begin

text \<open>
  Every request \<open>chat_completions\<close> admits is closed in the ledger: by the handler, by the body it
  returned, or by the task spawned when either is dropped.
\<close>

section \<open>Closing from the handler\<close>

lemma recovery_500: "ms_ok ttfb \<Longrightarrow> recovery_ok
   \<lparr>rv_outcome = ''failed'', rv_status = Some 500, rv_error = ''evidence_unavailable'', rv_ttfb = ttfb, rv_bytes = n\<rparr>"
  by (simp add: recovery_ok_def status_ok_def error_ok_def)

lemma closing_evidence:
  assumes "closing rid e rv w ok e' w'" "evidence_open rid e (w_clock w)" "recovery_ok rv"
  shows "if ok then phase_is rid Ended w' else alive rid w' \<and> evidence_open rid e' (w_clock w')"
  using assms by (auto simp: closing_def evidence_open_def)

lemma with_evidence_post:
  assumes "post (f (w_evidence w)) w (\<lambda>r w'. Q (fst r) (w'\<lparr>w_evidence := snd r\<rparr>))"
  shows "post (with_evidence f) w Q"
  using assms by (simp add: with_evidence_def)

definition closed_or_running :: "uuid \<Rightarrow> bool \<Rightarrow> world \<Rightarrow> bool" where
  "closed_or_running rid ok w \<longleftrightarrow> (if ok then phase_is rid Ended w else still_running rid w)"

lemma closed_or_running_left: "closed_or_running rid ok w \<Longrightarrow> left rid w"
  by (auto simp: closed_or_running_def left_def settled_def split: if_splits)

lemma finish_handler:
  assumes "still_running rid w" "ms_ok (rq_ttfb req)"
  shows "post (with_evidence (finish_with_attempt key att req)) w (\<lambda>r. closed_or_running rid (is_ok r))"
proof (rule with_evidence_post)
  have "alive rid w" and e: "evidence_open rid (w_evidence w) (w_clock w)"
    using assms(1) by (auto simp: still_running_def)
  then have "post (finish_with_attempt key att req (w_evidence w)) w (\<lambda>r. closing rid (w_evidence w)
      \<lparr>rv_outcome = ''failed'', rv_status = Some 500, rv_error = ''evidence_unavailable'',
       rv_ttfb = rq_ttfb req, rv_bytes = terminal_bytes_out att\<rparr> w (is_ok (fst r)) (snd r))"
    by (intro finish_with_attempt_closes) (simp_all add: evidence_open_def)
  then show "post (finish_with_attempt key att req (w_evidence w)) w
      (\<lambda>r w'. closed_or_running rid (is_ok (fst r)) (w'\<lparr>w_evidence := snd r\<rparr>))"
    by (rule post_mono) (use closing_evidence [OF _ e recovery_500 [OF assms(2)]] in
      \<open>auto simp: closed_or_running_def still_running_def split: if_splits\<close>)
qed

lemma finish_open_handler:
  assumes "still_running rid w" "recovery_ok rv"
  shows "post (with_evidence (finish_with_open_attempts_silently rv)) w (\<lambda>ok. closed_or_running rid ok)"
proof (rule with_evidence_post)
  have "alive rid w" and e: "evidence_open rid (w_evidence w) (w_clock w)"
    using assms(1) by (auto simp: still_running_def)
  then have "post (finish_with_open_attempts_silently rv (w_evidence w)) w
      (\<lambda>r. closing rid (w_evidence w) rv w (fst r) (snd r))"
    by (intro finish_with_open_attempts_closes) (simp_all add: evidence_open_def)
  then show "post (finish_with_open_attempts_silently rv (w_evidence w)) w
      (\<lambda>r w'. closed_or_running rid (fst r) (w'\<lparr>w_evidence := snd r\<rparr>))"
    by (rule post_mono) (use closing_evidence [OF _ e assms(2)] in
      \<open>auto simp: closed_or_running_def still_running_def split: if_splits\<close>)
qed

section \<open>Ends of a round\<close>

definition body_ok :: "uuid \<Rightarrow> stream_guard \<Rightarrow> world \<Rightarrow> bool" where
  "body_ok rid sg w \<longleftrightarrow> guard_open rid sg w \<and> ms_ok (sg_ttfb sg)"

definition reply_ok :: "uuid \<Rightarrow> reply \<Rightarrow> world \<Rightarrow> bool" where
  "reply_ok rid r w =
     (case r of Plain _ \<Rightarrow> left rid w | Streaming _ _ cs \<Rightarrow> body_ok rid (cs_guard cs) w)"

definition flow_ok :: "uuid \<Rightarrow> flow \<Rightarrow> world \<Rightarrow> bool" where
  "flow_ok rid f w =
     (case f of
        Continue l \<Rightarrow> lo_attempted l \<noteq> [] \<and> running rid Idle w
      | Break l \<Rightarrow> lo_attempted l \<noteq> [] \<and> running rid Idle w
      | Return r \<Rightarrow> reply_ok rid r w)"

lemma flow_ok_simps [simp]:
  "flow_ok rid (Continue l) w \<longleftrightarrow> lo_attempted l \<noteq> [] \<and> running rid Idle w"
  "flow_ok rid (Break l) w \<longleftrightarrow> lo_attempted l \<noteq> [] \<and> running rid Idle w"
  "flow_ok rid (Return r) w \<longleftrightarrow> reply_ok rid r w"
  "reply_ok rid (Plain response) w \<longleftrightarrow> left rid w"
  "reply_ok rid (Streaming s hs cs) w \<longleftrightarrow> body_ok rid (cs_guard cs) w"
  by (simp_all add: flow_ok_def reply_ok_def)

lemma post_or_return [simp]:
  "post (or_return m f) w Q \<longleftrightarrow>
     post m w (\<lambda>r w'. case r of Inl response \<Rightarrow> Q (Return (Plain response)) w' | Inr x \<Rightarrow> post (f x) w' Q)"
  unfolding or_return_def post_bind
  by (rule arg_cong [where f = "post m w"]) (auto simp: fun_eq_iff split: sum.splits)

lemma post_return_plain [simp]: "post (return_plain r) w Q \<longleftrightarrow> Q (Return (Plain r)) w"
  by (simp add: return_plain_def)

lemma post_change_evidence [simp]:
  "post (change_evidence f) w Q \<longleftrightarrow> Q () (w\<lparr>w_evidence := f (w_evidence w)\<rparr>)"
  by (simp add: change_evidence_def)

text \<open>Arming and disarming keep a request running.\<close>

lemma evidence_open_arm:
  "evidence_open rid e now \<Longrightarrow> evidence_open rid (arm_evidence_failure None n e) now"
  "evidence_open rid e now \<Longrightarrow> evidence_open rid (reset_drop_recovery e) now"
  by (auto simp: evidence_open_def arm_evidence_failure_def arm_drop_recovery_def reset_drop_recovery_def
      no_recovery_def recovery_ok_def status_ok_def error_ok_def ms_ok_def)

lemma running_arm:
  "running rid ph w \<Longrightarrow> running rid ph (w\<lparr>w_evidence := arm_evidence_failure None n (w_evidence w)\<rparr>)"
  "running rid ph w \<Longrightarrow> running rid ph (w\<lparr>w_evidence := reset_drop_recovery (w_evidence w)\<rparr>)"
  by (auto simp: running_def intro: evidence_open_arm)

lemma trying_left: "running rid (Trying key) w \<Longrightarrow> left rid w"
  by (rule still_left, rule running_still) auto

lemma trying_still: "running rid (Trying key) w \<Longrightarrow> still_running rid w"
  by (rule running_still) auto

lemma idle_still: "running rid Idle w \<Longrightarrow> still_running rid w"
  by (rule running_still) auto

lemma aside_bind:
  assumes "evolves aside m" "running rid ph w" "\<And>x w'. running rid ph w' \<Longrightarrow> post (f x) w' Q"
  shows "post (State_Monad.bind m f) w Q"
  unfolding post_bind by (rule aside_post [OF assms(1)]) (use assms(2,3) aside_running in blast)

lemma aside_or_return:
  assumes "evolves aside m" "running rid (Trying key) w" "\<And>x w'. running rid (Trying key) w' \<Longrightarrow> post (f x) w' (flow_ok rid)"
  shows "post (or_return m f) w (flow_ok rid)"
  unfolding post_or_return
proof (rule aside_post [OF assms(1)])
  fix x w' assume "aside w w'"
  then have "running rid (Trying key) w'" using assms(2) by (rule aside_running)
  then show "case x of Inl response \<Rightarrow> flow_ok rid (Return (Plain response)) w' | Inr x \<Rightarrow> post (f x) w' (flow_ok rid)"
    using assms(3) trying_left by (auto split: sum.split)
qed

lemma arm_bind:
  assumes "running rid ph w" "\<And>w'. running rid ph w' \<Longrightarrow> post (f ()) w' Q"
  shows "post (State_Monad.bind (change_evidence (arm_evidence_failure None n)) f) w Q"
  using assms running_arm(1) by simp

lemma finish_and_return_ok:
  assumes "running rid (Trying key) w" "ms_ok (rq_ttfb req)"
  shows "post (finish_and_return key' att req response) w (flow_ok rid)"
  unfolding finish_and_return_def post_or_return
  by (rule post_mono [OF finish_handler [OF trying_still [OF assms(1)] assms(2)]])
    (auto dest: closed_or_running_left split: sum.split)

lemma terminal_ttfb [simp]:
  "rq_ttfb (request_failed s e) = None" "rq_ttfb (request_rejected s e) = None"
  "rq_ttfb (request_succeeded s) = None" "rq_ttfb (with_ttfb t r) = t" "ms_ok None"
  by (simp_all add: request_failed_def request_rejected_def request_succeeded_def with_ttfb_def ms_ok_def)

definition retry_ok :: "uuid \<Rightarrow> http_response + 'a \<Rightarrow> world \<Rightarrow> bool" where
  "retry_ok rid r w = (if is_ok r then running rid Idle w else left rid w)"

lemma retry_ok_simps [simp]:
  "retry_ok rid (Err e) w \<longleftrightarrow> left rid w" "retry_ok rid (Ok x) w \<longleftrightarrow> running rid Idle w"
  by (simp_all add: retry_ok_def is_ok_def)

lemma finish_exhausted_ok:
  assumes "running rid (Trying key) w"
  shows "post (finish_exhausted key' att all_limited) w (retry_ok rid)"
  unfolding finish_exhausted_def post_bind post_observe
proof (rule aside_post [OF reads_aside(1)])
  fix keys w' assume "aside w w'"
  then have "still_running rid w'" using assms aside_running trying_still by blast
  moreover have "ms_ok (rq_ttfb (if all_limited then request_failed 429 ''upstream_rate_limited''
      else request_failed 503 ''no_eligible_upstream''))" by simp
  ultimately have "post (with_evidence (finish_with_attempt key' att
      (if all_limited then request_failed 429 ''upstream_rate_limited''
       else request_failed 503 ''no_eligible_upstream''))) w' (\<lambda>r. closed_or_running rid (is_ok r))"
    by (rule finish_handler)
  then
  show "post (and_then (with_evidence (finish_with_attempt key' att
         (if all_limited then request_failed 429 ''upstream_rate_limited''
          else request_failed 503 ''no_eligible_upstream'')))
       (\<lambda>_. answer (if all_limited then upstream_rate_limited (retry_after_for_keys (w_clock w) keys)
                    else no_eligible_upstream))) w' (retry_ok rid)"
    unfolding post_and_then
    by (elim post_mono) (auto dest: closed_or_running_left split: sum.split)
qed

lemma finish_retryable_ok:
  assumes "running rid (Trying key) w"
  shows "post (finish_retryable_or_terminal rid profile attempted allowed key att all_limited) w (retry_ok rid)"
proof -
  have retried: "post (and_then (attempt_finished rid key att) (\<lambda>_. do {
      _ \<leftarrow> change_evidence reset_drop_recovery; yield_ok next_key })) w' (retry_ok rid)"
    if r: "running rid (Trying key) w'" for w' and next_key :: uuid
  proof -
    have "phase_is rid (Trying key) w'" using r by (simp add: running_def)
    then have "post (attempt_finished rid key att) w' (\<lambda>r. moved rid (Trying key) Idle (is_ok r) w')"
      by (rule attempt_finished_moves)
    then show ?thesis
      unfolding post_and_then
    proof (rule post_mono)
      fix x :: "http_response + unit" and w'' assume m: "moved rid (Trying key) Idle (is_ok x) w' w''"
      show "case x of Inl e \<Rightarrow> retry_ok rid (Err e :: http_response + uuid) w'' | Inr _ \<Rightarrow> post (do {
          _ \<leftarrow> change_evidence reset_drop_recovery; yield_ok next_key }) w'' (retry_ok rid)"
      proof (cases x)
        case (Inl e)
        then show ?thesis using moved_still [OF m r] by (simp add: still_left)
      next
        case (Inr u)
        have "running rid Idle w''" by (rule moved_running [OF _ r]) (use m Inr in \<open>simp add: is_ok_def\<close>)
        from running_arm(2) [OF this] show ?thesis using Inr by simp
      qed
    qed
  qed
  show ?thesis
    unfolding finish_retryable_or_terminal_def
  proof (rule aside_bind [OF _ assms])
    show "evolves aside (if allowed then select_failover_key profile attempted else State_Monad.return None)"
      by (auto intro: aside_intros select_failover_aside)
    fix selected :: "uuid option" and w' assume "running rid (Trying key) w'"
    then show "post (case selected of
        Some next_key \<Rightarrow> and_then (attempt_finished rid key att) (\<lambda>_. do {
          _ \<leftarrow> change_evidence reset_drop_recovery; yield_ok next_key })
      | None \<Rightarrow> finish_exhausted key att all_limited) w' (retry_ok rid)"
      using finish_exhausted_ok retried by (cases selected) simp_all
  qed
qed

lemma next_or_return_ok:
  assumes "running rid (Trying key) w" "lo_attempted l \<noteq> []" "ca_id c = rid"
  shows "post (next_or_return c l key att all_limited) w (flow_ok rid)"
  unfolding next_or_return_def post_or_return assms(3)
  by (rule post_mono [OF finish_retryable_ok [OF assms(1)]])
    (use assms(2) in \<open>auto split: sum.splits\<close>)

lemma cool_and_retry_ok:
  assumes "running rid (Trying key) w" "lo_attempted l \<noteq> []" "ca_id c = rid"
  shows "post (cool_and_retry g c l key retry_after status error_class all_limited) w (flow_ok rid)"
  unfolding cool_and_retry_def
  by (rule arm_bind [OF assms(1)], rule aside_or_return [OF health_aside(2)], assumption)
    (rule next_or_return_ok [OF _ assms(2,3)])

lemma cool_and_finish_ok:
  assumes "running rid (Trying key) w"
  shows "post (cool_and_finish g key status error_class bytes_out message) w (flow_ok rid)"
  unfolding cool_and_finish_def Let_def
  by (rule arm_bind [OF assms], rule aside_or_return [OF health_aside(2)], assumption)
    (rule finish_and_return_ok, assumption, simp)

section \<open>Streams\<close>

text \<open>A guard that has just taken the evidence of a running request.\<close>

definition guard_running :: "uuid \<Rightarrow> uuid \<Rightarrow> stream_guard \<Rightarrow> world \<Rightarrow> bool" where
  "guard_running rid key sg w \<longleftrightarrow>
     phase_is rid (Trying key) w \<and> \<not> sg_terminal sg \<and> recovery_ok (guard_recovery sg) \<and>
     (\<exists>e. sg_request sg = Some e \<and> evidence_open rid e (w_clock w))"

lemma guard_running_open: "guard_running rid key sg w \<Longrightarrow> guard_open rid sg w"
  by (auto simp: guard_running_def guard_open_def alive_def evidence_open_def)

lemma guard_running_body: "guard_running rid key sg w \<Longrightarrow> body_ok rid sg w"
  using guard_running_open by (auto simp: body_ok_def guard_running_def recovery_ok_def guard_recovery_def)

lemma aside_guard_running: "aside w w' \<Longrightarrow> guard_running rid key sg w \<Longrightarrow> guard_running rid key sg w'"
  using aside_phase by (auto simp: guard_running_def aside_def evidence_open_def)

lemma guard_with_request_running:
  assumes "running rid (Trying key) w"
  shows "guard_running rid key (guard_with_request (w_evidence w)) (w\<lparr>w_evidence := e\<rparr>)"
  using assms
  by (auto simp: guard_running_def guard_with_request_def guard_recovery_def running_def recovery_ok_def
      status_ok_def error_ok_def ms_ok_def)

lemma guard_running_arm:
  assumes "guard_running rid key sg w" "ms_ok ttfb"
  shows "guard_running rid key (arm_guard_failure ttfb n sg) w"
  using assms recovery_500 [OF assms(2)]
  by (auto simp: guard_running_def arm_guard_failure_def guard_recovery_def)

lemma guard_running_commit:
  assumes "guard_running rid key sg w" "100 \<le> status" "status \<le> 599" "0 \<le> ttfb"
  shows "guard_running rid key (mark_response_committed status (mark_response_started ttfb sg)) w"
  using assms
  by (auto simp: guard_running_def mark_response_committed_def mark_response_started_def guard_recovery_def
      recovery_ok_def status_ok_def error_ok_def ms_ok_def)

lemma take_evidence_post [simp]:
  "post take_evidence w Q \<longleftrightarrow> Q (w_evidence w) (w\<lparr>w_evidence := no_evidence\<rparr>)"
  by (simp add: take_evidence_def)

lemma settled_more: "settled rid w \<Longrightarrow> settled rid (w\<lparr>w_tasks := w_tasks w @ ts\<rparr>)"
  by (auto simp: settled_def)

lemma drop_evidence_settles:
  assumes "evidence_open rid e now" "alive rid w"
  shows "post (drop_evidence e) w (\<lambda>_. settled rid)"
  using assms by (auto simp: drop_evidence_def settled_def evidence_open_def closer_def)

lemma drop_guard_settles:
  assumes "guard_open rid sg w"
  shows "post (drop_guard sg) w (\<lambda>_. settled rid)"
proof -
  obtain e where e: "sg_request sg = Some e" "ev_request_id e = rid" using assms by (auto simp: guard_open_def)
  show ?thesis
  proof (cases "phase_is rid Ended w")
    case True
    then show ?thesis by (auto simp: e drop_guard_def drop_evidence_def settled_def)
  next
    case False
    then show ?thesis
      using assms e by (auto simp: guard_open_def drop_guard_def settled_def closer_def)
  qed
qed

lemma commit_stream_ok:
  assumes "guard_running rid key sg w" "100 \<le> status" "status \<le> 599"
  shows "post (commit_stream rid key status content_type items v prefixed sg) w (reply_ok rid)"
proof -
  obtain e where e: "sg_request sg = Some e" "evidence_open rid e (w_clock w)"
    using assms(1) by (auto simp: guard_running_def)
  let ?t = "request_elapsed_ms (w_clock w) sg"
  have t: "0 \<le> ?t" using e by (simp add: request_elapsed_ms_def evidence_elapsed_ms_def evidence_open_def pos_imp_zdiv_nonneg_iff)
  let ?sg = "arm_guard_failure (Some ?t) 0 sg"
  have g: "guard_running rid key ?sg w"
    by (rule guard_running_arm [OF assms(1)]) (use t in \<open>simp add: ms_ok_def\<close>)
  have started: "post (attempt_response_started rid key ?t) w
      (\<lambda>r. moved rid (Trying key) (Trying key) (is_ok r) w)"
    by (rule response_started_moves) (use assms(1) in \<open>simp add: guard_running_def\<close>)
  have kept: "guard_running rid key ?sg w'" if "moved rid (Trying key) (Trying key) ok w w'" for ok w'
    using g that by (auto simp: moved_def guard_running_def evidence_open_def split: if_splits)
  show ?thesis
    unfolding commit_stream_def Let_def post_bind post_observe
  proof (rule post_mono [OF started])
    fix r :: "http_response + unit" and w' assume m: "moved rid (Trying key) (Trying key) (is_ok r) w w'"
    note k = kept [OF m]
    show "post (case r of
        Inl response \<Rightarrow> do { _ \<leftarrow> drop_guard ?sg; State_Monad.return (Plain response) }
      | Inr _ \<Rightarrow> State_Monad.return
          (Streaming status [(''content-type'', content_type), (''cache-control'', ''no-cache'')]
             \<lparr>cs_upstream = items, cs_validator = v, cs_prefix = prefixed, cs_key = key,
              cs_guard = mark_response_committed status (mark_response_started ?t ?sg),
              cs_terminal = False\<rparr>)) w' (reply_ok rid)"
    proof (cases r)
      case (Inl response)
      then show ?thesis
        using post_mono [OF drop_guard_settles [OF guard_running_open [OF k]]]
        by (simp add: reply_ok_def left_def) 
    next
      case (Inr u)
      then show ?thesis
        using guard_running_body [OF guard_running_commit [OF k assms(2,3) t]] by (simp add: reply_ok_def)
    qed
  qed
qed

lemma post_return_reply:
  "post m w (reply_ok rid) \<Longrightarrow> post (do { r \<leftarrow> m; State_Monad.return (Return r) }) w (flow_ok rid)"
  by (simp add: flow_ok_def)

lemma prime_failure_ok:
  assumes "guard_running rid key sg w" "lo_attempted l \<noteq> []" "ca_id c = rid"
  shows "post (prime_failure g c l key status sg) w (flow_ok rid)"
proof -
  let ?sg = "arm_guard_failure None 0 sg"
  have g: "guard_running rid key ?sg w" by (rule guard_running_arm [OF assms(1)]) simp
  show ?thesis
    unfolding prime_failure_def Let_def post_bind
  proof (rule aside_post [OF health_aside(2)])
    fix failed :: "http_response + time option" and w' assume "aside w w'"
    then have k: "guard_running rid key ?sg w'" using g by (rule aside_guard_running)
    show "post (case failed of
        Inl response \<Rightarrow> do { _ \<leftarrow> drop_guard ?sg; return_plain response }
      | Inr cooldown \<Rightarrow> do {
          _ \<leftarrow> release_request ?sg;
          next_or_return c l key (attempt_failed (Some status) ''stream_prime_error'' cooldown) False
        }) w' (flow_ok rid)"
    proof (cases failed)
      case (Inl response)
      then show ?thesis
        using post_mono [OF drop_guard_settles [OF guard_running_open [OF k]]] by (simp add: left_def)
    next
      case (Inr cooldown)
      obtain e where e: "sg_request ?sg = Some e" "evidence_open rid e (w_clock w')" "phase_is rid (Trying key) w'"
        using k by (auto simp: guard_running_def)
      then have "running rid (Trying key) (w'\<lparr>w_evidence := e\<rparr>)" by (simp add: running_def)
      from next_or_return_ok [OF this assms(2,3)] show ?thesis
        using e(1) by (simp add: Inr release_request_def)
    qed
  qed
qed

lemma is_success_range: "is_success n \<Longrightarrow> 100 \<le> n \<and> n \<le> 599"
  by (simp add: is_success_def)

lemma stream_turn_ok:
  assumes "running rid (Trying key) w" "lo_attempted l \<noteq> []" "ca_id c = rid" "is_success (ps_status p)"
  shows "post (stream_turn g c l key p) w (flow_ok rid)"
proof -
  note g = guard_with_request_running [OF assms(1), of no_evidence]
  show ?thesis
    unfolding stream_turn_def Let_def
    using cool_and_retry_ok [OF assms(1-3)] prime_failure_ok [OF g assms(2,3)]
      commit_stream_ok [OF g] is_success_range [OF assms(4)] assms(3)
    by (auto simp: flow_ok_def split: option.split prod.split)
qed

lemma finish_request_and_attempt_ok:
  assumes "body_ok rid sg w" "status_ok (rq_status terminal)"
  shows "post (finish_request_and_attempt key att terminal n sg) w
    (\<lambda>r w'. body_ok rid (mark_if_durable (fst r) (snd r)) w')"
proof -
  obtain e where e: "sg_request sg = Some e" "ev_request_id e = rid" using assms(1) by (auto simp: body_ok_def guard_open_def)
  have al: "alive rid w" using assms(1) ended_alive by (auto simp: body_ok_def guard_open_def)
  let ?t = "with_ttfb (sg_ttfb sg) terminal"
  let ?sg = "sg\<lparr>sg_outcome := ''failed'', sg_status := rq_status ?t, sg_error := ''evidence_unavailable'', sg_bytes := n\<rparr>"
  have rv: "recovery_ok (guard_recovery ?sg)"
    using assms by (simp add: body_ok_def guard_recovery_def recovery_ok_def with_ttfb_def error_ok_def)
  have recover: "post (recover_request ?t n e' sg) w' (\<lambda>r w'. body_ok rid (mark_if_durable (fst r) (snd r)) w')"
    if e': "ev_request_id e' = rid" "alive rid w'" "phase_is rid Ended w' \<or> \<not> sg_terminal sg" for e' w'
  proof -
    note c = finish_with_open_attempts_closes [OF e'(2,1), of "guard_recovery ?sg"]
    show ?thesis
      unfolding recover_request_def Let_def post_bind
    proof (rule post_mono [OF c])
      fix r w'' assume r: "closing rid e' (guard_recovery ?sg) w' (fst r) (snd r) w''"
      show "post (State_Monad.return (if fst r then RecoveredAsEvidenceFailure else PendingDropRetry,
          ?sg\<lparr>sg_request := Some (snd r)\<rparr>)) w'' (\<lambda>r w'. body_ok rid (mark_if_durable (fst r) (snd r)) w')"
        using r rv e'(3) assms(1) by (auto simp: body_ok_def closing_def guard_open_def mark_if_durable_def is_durable_def mark_terminal_def guard_recovery_def split: if_splits)
    qed
  qed
  note c = finish_with_attempt_silently_closes [OF al e(2), of key att ?t]
  show ?thesis
    unfolding finish_request_and_attempt_def Let_def
  proof (simp only: e(1) option.case post_bind, rule post_mono [OF c])
    fix r w' assume r: "closing rid e \<lparr>rv_outcome = ''failed'', rv_status = rq_status ?t,
        rv_error = ''evidence_unavailable'', rv_ttfb = rq_ttfb ?t, rv_bytes = terminal_bytes_out att\<rparr>
        w (fst r) (snd r) w'"
    show "post (if fst r then State_Monad.return (RequestedTerminalCommitted, sg\<lparr>sg_request := Some (snd r)\<rparr>)
        else recover_request ?t n (snd r) sg) w' (\<lambda>r w'. body_ok rid (mark_if_durable (fst r) (snd r)) w')"
    proof (cases "fst r")
      case True
      then show ?thesis
        using r assms(1) by (simp add: body_ok_def closing_def guard_open_def mark_if_durable_def mark_terminal_def)
    next
      case False
      have "post (recover_request ?t n (snd r) sg) w' (\<lambda>r w'. body_ok rid (mark_if_durable (fst r) (snd r)) w')"
        by (rule recover) (use r False assms(1) in \<open>auto simp: closing_def body_ok_def guard_open_def\<close>)
      then show ?thesis using False by simp
    qed
  qed
qed

section \<open>Bodies\<close>

lemma aside_body: "aside w w' \<Longrightarrow> body_ok rid sg w \<Longrightarrow> body_ok rid sg w'"
  using aside_guard by (auto simp: body_ok_def)

lemma body_ok_bytes [simp]: "body_ok rid (record_bytes_out n sg) w = body_ok rid sg w"
  by (simp add: body_ok_def guard_open_def record_bytes_out_def guard_recovery_def recovery_ok_def)

lemma status_200 [simp]: "status_ok (Some 200)" "status_ok (Some 502)"
  "rq_status (request_failed n e) = Some n" "rq_status (request_succeeded n) = Some n"
  by (simp_all add: status_ok_def request_failed_def request_succeeded_def)

lemma finish_stream_failure_ok:
  assumes "body_ok rid sg w"
  shows "post (finish_stream_failure g key att error_class sg) w
    (\<lambda>r w'. body_ok rid (mark_if_durable (fst r) (snd r)) w')"
  unfolding finish_stream_failure_def Let_def post_bind
  by (rule aside_post [OF health_aside(2)])
    (intro finish_request_and_attempt_ok aside_body [OF _ assms], simp_all)

lemma fail_stream_ok:
  assumes "body_ok rid (cs_guard cs) w"
  shows "post (fail_stream g message error_class cs) w (\<lambda>r. body_ok rid (cs_guard (snd r)))"
  unfolding fail_stream_def Let_def post_bind
  by (rule post_mono, rule finish_stream_failure_ok) (use assms in simp_all)

lemma finish_stream_success_ok:
  assumes "body_ok rid sg w"
  shows "post (finish_stream_success g key sg) w (\<lambda>r. body_ok rid (snd r))"
proof -
  have failed: "post (finish_accounting_failure g key sg) w' (\<lambda>r. body_ok rid (snd r))"
    if "body_ok rid sg w'" for w'
    unfolding finish_accounting_failure_def Let_def post_bind
    by (rule post_mono, rule finish_request_and_attempt_ok) (use that in simp_all)
  show ?thesis
    unfolding finish_stream_success_def Let_def post_bind
  proof (rule aside_post [OF health_aside(1)])
    fix r :: "http_response + unit" and w' assume "aside w w'"
    then have b: "body_ok rid sg w'" using assms by (rule aside_body)
    have "post (finish_request_and_attempt key att (request_succeeded 200) n sg) w'
        (\<lambda>r w''. post (State_Monad.return
            (case fst r of
               RequestedTerminalCommitted \<Rightarrow>
                 (DONE_FRAME, mark_terminal (record_bytes_out (length DONE_FRAME) (snd r)))
             | RecoveredAsEvidenceFailure \<Rightarrow> (frame, mark_terminal (snd r))
             | PendingDropRetry \<Rightarrow> (frame, snd r))) w'' (\<lambda>r. body_ok rid (snd r)))" for att n frame
    proof (rule post_mono, rule finish_request_and_attempt_ok [OF b])
      fix r :: "stream_terminal_result \<times> stream_guard" and w''
      assume "body_ok rid (mark_if_durable (fst r) (snd r)) w''"
      then show "post (State_Monad.return
            (case fst r of
               RequestedTerminalCommitted \<Rightarrow>
                 (DONE_FRAME, mark_terminal (record_bytes_out (length DONE_FRAME) (snd r)))
             | RecoveredAsEvidenceFailure \<Rightarrow> (frame, mark_terminal (snd r))
             | PendingDropRetry \<Rightarrow> (frame, snd r))) w'' (\<lambda>r. body_ok rid (snd r))"
        by (auto simp: mark_if_durable_def is_durable_def mark_terminal_def record_bytes_out_def
            body_ok_def guard_open_def split: stream_terminal_result.splits)
    qed simp
    then show "post (case r of
         Inl _ \<Rightarrow> finish_accounting_failure g key sg
       | Inr _ \<Rightarrow> do {
            r \<leftarrow> finish_request_and_attempt key
              (attempt_succeeded 200 (Some (sat_add_u64 (sg_bytes sg) (length DONE_FRAME))))
              (request_succeeded 200)
              (sat_add_u64 (sg_bytes sg) (length (sse_error_frame (gw_show g) ''request evidence unavailable''))) sg;
            State_Monad.return
              (case fst r of
                 RequestedTerminalCommitted \<Rightarrow>
                   (DONE_FRAME, mark_terminal (record_bytes_out (length DONE_FRAME) (snd r)))
               | RecoveredAsEvidenceFailure \<Rightarrow>
                   (sse_error_frame (gw_show g) ''request evidence unavailable'', mark_terminal (snd r))
               | PendingDropRetry \<Rightarrow> (sse_error_frame (gw_show g) ''request evidence unavailable'', snd r))
          }) w' (\<lambda>r. body_ok rid (snd r))"
      using failed [OF b] by (auto split: sum.split)
  qed
qed

lemma succeed_stream_ok:
  assumes "body_ok rid (cs_guard cs) w"
  shows "post (succeed_stream g cs) w (\<lambda>r. body_ok rid (cs_guard (snd r)))"
  unfolding succeed_stream_def post_bind
  by (rule post_mono, rule finish_stream_success_ok) (use assms in simp_all)

lemma stream_loop_ok:
  "body_ok rid (cs_guard cs) w \<Longrightarrow> post (stream_loop items g cs) w (\<lambda>r. body_ok rid (cs_guard (snd r)))"
proof (induction items arbitrary: cs w)
  case Nil
  then show ?case
    using succeed_stream_ok fail_stream_ok by (subst stream_loop.simps) (simp split: list.split)
next
  case (Cons item items)
  then show ?case
    using succeed_stream_ok fail_stream_ok
    by (subst stream_loop.simps) (simp split: list.split body_item.split option.split)
qed

lemma next_frame_ok:
  "body_ok rid (cs_guard cs) w \<Longrightarrow> post (next_frame g cs) w (\<lambda>r. body_ok rid (cs_guard (snd r)))"
  using stream_loop_ok by (simp add: next_frame_def)

lemma read_stream_settles:
  "body_ok rid (cs_guard cs) w \<Longrightarrow> post (read_stream n g cs) w (\<lambda>_. settled rid)"
proof (induction n arbitrary: cs w)
  case 0
  then show ?case using drop_guard_settles by (simp add: body_ok_def)
next
  case (Suc n)
  have "post (case fst r of
      None \<Rightarrow> do { _ \<leftarrow> drop_guard (cs_guard (snd r)); State_Monad.return [] }
    | Some frame \<Rightarrow> do { frames \<leftarrow> read_stream n g (snd r); State_Monad.return (frame # frames) }) w' (\<lambda>_. settled rid)"
    if "body_ok rid (cs_guard (snd r)) w'" for r :: "bytes option \<times> chat_stream" and w'
    using Suc.IH [OF that] drop_guard_settles that by (auto simp: body_ok_def split: option.split)
  then show ?case
    unfolding read_stream.simps
    by - (subst post_bind, rule post_mono [OF next_frame_ok [OF Suc.prems]], blast)
qed

section \<open>The mock provider\<close>

lemma mock_stream_ok:
  assumes "running rid (Trying key) w"
  shows "post (mock_stream_response g request rid key) w (reply_ok rid)"
  unfolding mock_stream_response_def Let_def
proof (rule aside_bind [OF mock_aside(1) assms])
  fix ident w' assume r: "running rid (Trying key) w'"
  let ?sg = "guard_with_request (w_evidence w')" and ?w = "w'\<lparr>w_evidence := no_evidence\<rparr>"
  have g: "guard_running rid key ?sg ?w" using r by (rule guard_with_request_running)
  have "post (mock_prime_failure g key ?sg) ?w (reply_ok rid)"
    unfolding mock_prime_failure_def Let_def
  proof (subst post_bind, rule aside_post [OF health_aside(2)])
    fix failed :: "http_response + time option" and w'' assume a: "aside ?w w''"
    have b: "body_ok rid ?sg w''" using guard_running_body [OF g] by (rule aside_body [OF a])
    show "post (do {
        r \<leftarrow> finish_request_and_attempt key
          (attempt_failed (Some 502) ''mock_stream_prime_error'' (case failed of Inl _ \<Rightarrow> None | Inr c \<Rightarrow> c))
          (request_failed 502 ''mock_stream_prime_error'') (sg_bytes ?sg) ?sg;
        _ \<leftarrow> drop_guard (mark_if_durable (fst r) (snd r));
        State_Monad.return (Plain (openai_error 502 ''mock upstream stream did not produce a valid first frame''
          ''upstream_error'' ''mock_stream_prime_error''))
      }) w'' (reply_ok rid)"
      unfolding post_bind
      by (rule post_mono, rule finish_request_and_attempt_ok [OF b])
        (auto simp: body_ok_def reply_ok_def left_def intro: post_mono [OF drop_guard_settles])
  qed
  then show "post (do {
      e \<leftarrow> take_evidence;
      case prime_stream (gw_parse g) (map Chunk (mock_chunks g ident request)) new_sse [] of
        None \<Rightarrow> mock_prime_failure g key (guard_with_request e)
      | Some (items, v, prefixed) \<Rightarrow>
          commit_stream rid key 200 ''text/event-stream'' items v prefixed (guard_with_request e)
    }) w' (reply_ok rid)"
    using commit_stream_ok [OF g] by (auto split: option.split)
qed

section \<open>Turns\<close>

lemma mock_status_turn_ok:
  assumes "running rid (Trying key) w" "lo_attempted l \<noteq> []" "ca_id c = rid"
  shows "post (mock_status_turn g c l key status) w (flow_ok rid)"
proof -
  have q: "post (or_return (quarantine_key g key) (\<lambda>_. next_or_return c (l\<lparr>lo_all_limited := False\<rparr>) key att False)) w'
      (flow_ok rid)" if "running rid (Trying key) w'" for w' att
    by (rule aside_or_return [OF health_aside(3) that]) (rule next_or_return_ok, use assms in simp_all)
  have f: "post (or_return (record_failure_for g key d) (\<lambda>cooldown. next_or_return c
        (l\<lparr>lo_rate_limited := a, lo_all_limited := b\<rparr>) key (att cooldown) lim)) w' (flow_ok rid)"
    if "running rid (Trying key) w'" for w' att a b d lim
    by (rule aside_or_return [OF health_aside(2) that]) (rule next_or_return_ok, use assms in simp_all)
  show ?thesis
    unfolding mock_status_turn_def Let_def
    by (rule arm_bind [OF assms(1)]) (use q f finish_and_return_ok in \<open>simp del: post_or_return\<close>)
qed

lemma mock_success_ok:
  assumes "running rid (Trying key) w"
  shows "post (mock_success g c key) w (flow_ok rid)"
  unfolding mock_success_def
proof (rule arm_bind [OF assms], rule aside_or_return [OF health_aside(1)], assumption)
  fix w' assume r: "running rid (Trying key) w'"
  have replied: "post (do { r \<leftarrow> mock_response (ca_request c); State_Monad.return (Return r) }) w'' (flow_ok rid)"
    if "phase_is rid Ended w''" for w''
    using that by (simp add: mock_response_def)
      (rule aside_post [OF mock_aside(1)], auto dest: aside_phase intro: ended_left)
  show "post (or_return (with_evidence (finish_with_attempt key (attempt_succeeded 200 None) (request_succeeded 200)))
      (\<lambda>_. do { r \<leftarrow> mock_response (ca_request c); State_Monad.return (Return r) })) w' (flow_ok rid)"
    unfolding post_or_return
    by (rule post_mono [OF finish_handler [OF trying_still [OF r]]])
      (use replied in \<open>auto simp: closed_or_running_def is_ok_def still_left split: sum.split if_splits\<close>)
qed

lemma mock_turn_ok:
  assumes "running rid (Trying key) w" "lo_attempted l \<noteq> []" "ca_id c = rid"
  shows "post (mock_turn g c l key secret first_attempt) w (flow_ok rid)"
  unfolding mock_turn_def Let_def
  using mock_status_turn_ok [OF assms] cool_and_finish_ok [OF assms(1)] mock_success_ok [OF assms(1)]
    cool_and_retry_ok [OF assms(1) _ assms(3), of "l\<lparr>lo_all_limited := False\<rparr>"] assms(2)
    post_return_reply [OF mock_stream_ok [OF assms(1)]] assms(3)
  by (auto split: option.split simp del: post_bind)

lemma body_turn_ok:
  assumes "running rid (Trying key) w" "lo_attempted l \<noteq> []" "ca_id c = rid"
  shows "post (body_turn g c l key limit answered message p) w (flow_ok rid)"
proof -
  have "post (do {
      _ \<leftarrow> change_evidence (arm_evidence_failure None n);
      or_return (record_request_for g key) (\<lambda>_. finish_and_return key (attempt_succeeded s b) (request_succeeded s) resp)
    }) w (flow_ok rid)" for n s b resp
    by (rule arm_bind [OF assms(1)], rule aside_or_return [OF health_aside(1)], assumption)
      (rule finish_and_return_ok, assumption, simp)
  then show ?thesis
    unfolding body_turn_def
    using cool_and_finish_ok [OF assms(1)] cool_and_retry_ok [OF assms]
    by (auto split: sum.split response_body_error.split option.split)
qed

lemma accepted_turn_ok:
  assumes "running rid (Trying key) w" "\<And>q w'. running rid (Trying key) w' \<Longrightarrow> post (proceed q) w' (flow_ok rid)"
  shows "post (accepted_turn g key secret message proceed p) w (flow_ok rid)"
  unfolding accepted_turn_def
  by (rule aside_bind [OF poll_nvcf_aside assms(1)])
    (use assms(2) cool_and_finish_ok in \<open>auto split: option.split sum.split\<close>)

lemma failover_turn_ok:
  assumes "running rid (Trying key) w" "lo_attempted l \<noteq> []" "ca_id c = rid"
  shows "post (failover_turn g c l key policy p) w (flow_ok rid)"
proof -
  have q: "post (or_return (quarantine_key g key) (\<lambda>_. next_or_return c l key att lim)) w' (flow_ok rid)"
    if "running rid (Trying key) w'" for w' att lim
    by (rule aside_or_return [OF health_aside(3) that]) (rule next_or_return_ok [OF _ assms(2,3)])
  have f: "post (or_return (record_failure_for g key d) (\<lambda>cooldown. next_or_return c l key (att cooldown) lim)) w' (flow_ok rid)"
    if "running rid (Trying key) w'" for w' att d lim
    by (rule aside_or_return [OF health_aside(2) that]) (rule next_or_return_ok [OF _ assms(2,3)])
  show ?thesis
    unfolding failover_turn_def Let_def
    by (rule arm_bind [OF assms(1)]) (use q f in \<open>simp del: post_or_return\<close>)
qed

lemma answer_turn_ok:
  assumes "running rid (Trying key) w" "lo_attempted l \<noteq> []" "ca_id c = rid"
  shows "post (answer_turn g c l key secret policy p) w (flow_ok rid)"
  unfolding answer_turn_def unsupported_accept_def rejected_turn_def chat_body_turn_def
  using accepted_turn_ok [OF assms(1) body_turn_ok] stream_turn_ok [OF assms] body_turn_ok [OF assms]
    failover_turn_ok [OF assms] finish_and_return_ok [OF assms(1)] assms(2,3)
  by simp

lemma note_status_attempted [simp]: "lo_attempted (note_status r l) = lo_attempted l"
  by (simp add: note_status_def split: sum.split)

lemma post_and_judge_ok:
  assumes "running rid (Trying key) w" "lo_attempted l \<noteq> []" "ca_id c = rid"
    "\<And>l policy p w'. running rid (Trying key) w' \<Longrightarrow> lo_attempted l \<noteq> [] \<Longrightarrow> post (judge l policy p) w' (flow_ok rid)"
  shows "post (post_and_judge g c l key timeout request judge) w (flow_ok rid)"
  unfolding post_and_judge_def Let_def
proof (rule aside_bind [OF send_aside assms(1)], rule aside_bind [OF reads_aside(3)], assumption)
  fix result :: "unit + provider_response" and policy w'
  assume r: "running rid (Trying key) w'"
  have l: "lo_attempted (note_status result l) \<noteq> []" using assms(2) by simp
  show "post (case result of
      Inl _ \<Rightarrow> cool_and_retry g c (note_status result l) key None None ''upstream_transport_error'' False
    | Inr p \<Rightarrow> judge (note_status result l) policy p) w' (flow_ok rid)"
    using assms(4) [OF r l] cool_and_retry_ok [OF r l assms(3)] by (auto split: sum.split)
qed

lemma provider_turn_ok:
  assumes "running rid (Trying key) w" "lo_attempted l \<noteq> []" "ca_id c = rid"
  shows "post (provider_turn g c l key secret) w (flow_ok rid)"
  unfolding provider_turn_def
  by (rule post_and_judge_ok [OF assms]) (rule answer_turn_ok [OF _ _ assms(3)])

section \<open>The loop\<close>

lemma credential_turn_ok:
  assumes "running rid (Trying key) w" "lo_attempted l \<noteq> []" "ca_id c = rid"
    "\<And>secret w'. running rid (Trying key) w' \<Longrightarrow> post (proceed secret) w' (flow_ok rid)"
  shows "post (credential_turn g c l key proceed) w (flow_ok rid)"
  unfolding credential_turn_def
proof (rule aside_bind [OF reads_aside(2) assms(1)])
  fix r :: "vault_error + str" and w' assume w': "running rid (Trying key) w'"
  have "post (do {
      _ \<leftarrow> change_evidence (arm_evidence_failure None 0);
      next_or_return c (l\<lparr>lo_all_limited := False\<rparr>) key (attempt_failed None ''credential_unavailable'' None) False
    }) w' (flow_ok rid)"
    by (rule arm_bind [OF w']) (rule next_or_return_ok, use assms in simp_all)
  then show "post (case r of
      Inl _ \<Rightarrow> do {
        _ \<leftarrow> change_evidence (arm_evidence_failure None 0);
        next_or_return c (l\<lparr>lo_all_limited := False\<rparr>) key (attempt_failed None ''credential_unavailable'' None) False
      }
    | Inr secret \<Rightarrow> proceed secret) w' (flow_ok rid)"
    using assms(4) [OF w'] by (auto split: sum.split simp del: post_bind)
qed

text \<open>
  What the loop asks of a turn: from a request that tries a key it continues with an idle request,
  or leaves one that is settled, or hands it to a body.
\<close>

locale key_turns =
  fixes play :: "call \<Rightarrow> turn"
  assumes turn_ok: "running rid (Trying key) w \<Longrightarrow> lo_attempted l \<noteq> [] \<Longrightarrow> ca_id c = rid \<Longrightarrow>
    post (play c l key first_attempt) w (flow_ok rid)"

lemma fixture_kind:
  assumes "phase_is rid ph w"
  shows "post (consume_live_failure_fixture client rid' key) w (\<lambda>r _. r \<noteq> Ok (Some ''after_first_frame''))"
proof -
  obtain d where d: "w_db w = Some d" "no_post_frame_fixture d"
    using assms by (auto simp: phase_is_def on_track_def)
  have "post (database_call (\<lambda>_ now. tx_consume_fixture now i rid' key)) w
      (\<lambda>r _. r \<noteq> Some (Some ''after_first_frame''))" for i
  proof (rule database_callI [OF d(1)])
    fix t now ts r d' assume r: "run_tx (tk_fault t) (tx_consume_fixture now i rid' key) d = (r, d')"
    have "k < length (db_fixtures d)" if index: "fixture_index i d = Some k" for k
    proof -
      let ?xs = "filter (\<lambda>j. fx_client (db_fixtures d ! j) = i \<and> fx_consumed_at (db_fixtures d ! j) = None \<and>
          fixture_armed d (db_fixtures d ! j)) [0..<length (db_fixtures d)]"
      obtain rank :: "nat \<Rightarrow> nat" and ks where "sort_key rank ?xs = k # ks"
        using index by (auto simp: fixture_index_def Let_def split: list.splits)
      then have "k \<in> set (sort_key rank ?xs)" by (metis list.set_intros(1))
      then show ?thesis by simp
    qed
    then show "r \<noteq> Some (Some ''after_first_frame'')"
      using r d(2)
      by (cases rule: run_tx_cases [of "tk_fault t" "tx_consume_fixture now i rid' key" d])
        (auto simp: tx_consume_fixture_def no_post_frame_fixture_def list_all_length split: option.splits if_splits)
  qed
  then have "post (database_call (\<lambda>_ now. tx_consume_fixture now i rid' key)) w
      (\<lambda>r _. ok_or fixture_unavailable r \<noteq> Ok (Some ''after_first_frame''))" for i
    by (rule post_mono) (auto simp: ok_or_def split: option.splits)
  then show ?thesis
    unfolding consume_live_failure_fixture_def by (simp add: d(1) split: option.split)
qed

lemma fixture_turn_ok:
  assumes "running rid (Trying key) w" "lo_attempted l \<noteq> []" "ca_id c = rid"
    "\<And>w'. running rid (Trying key) w' \<Longrightarrow> post otherwise w' (flow_ok rid)"
  shows "post (fixture_turn g c l key otherwise) w (flow_ok rid)"
proof -
  have "phase_is rid (Trying key) w" using assms(1) by (simp add: running_def)
  note kind = fixture_kind [OF this, of "ca_client c" "ca_id c" key]
  have "post (consume_live_failure_fixture (ca_client c) (ca_id c) key) w
      (\<lambda>r w'. aside w w' \<and> r \<noteq> Ok (Some ''after_first_frame''))"
    unfolding post_conj using kind evolves_post [OF fixture_aside] by blast
  then show ?thesis
    unfolding fixture_turn_def post_or_return
  proof (rule post_mono)
    fix r :: "http_response + str option" and w'
    assume r: "aside w w' \<and> r \<noteq> Ok (Some ''after_first_frame'')"
    then have w': "running rid (Trying key) w'" using assms(1) aside_running by blast
    show "case r of Inl response \<Rightarrow> flow_ok rid (Return (Plain response)) w'
      | Inr kind \<Rightarrow> post (case kind of
            None \<Rightarrow> otherwise
          | Some k \<Rightarrow>
              if k = ''before_first_frame''
              then cool_and_retry g c l key (Some (secs 2)) None ''qa_injected_transport_failure'' False
              else if k = ''after_first_frame''
              then (if \<not> ca_stream c
                    then or_return (with_evidence (fail_evidence 500 ''qa_fixture_contract_error''))
                           (\<lambda>_. return_plain (contract_error ''QA post-frame fixture requires streaming''))
                    else injected_post_frame_failure g (ca_id c) key)
              else return_plain (contract_error ''Unknown QA failure fixture'')) w' (flow_ok rid)"
      using r assms(4) [OF w'] cool_and_retry_ok [OF w' assms(2,3)] trying_left [OF w']
      by (auto split: sum.split option.split)
  qed
qed

lemma chat_turn_ok:
  assumes "running rid (Trying key) w" "lo_attempted l \<noteq> []" "ca_id c = rid"
  shows "post (chat_turn g c l key first_attempt) w (flow_ok rid)"
proof -
  have "post (credential_turn g c l key (\<lambda>secret.
      if starts_with ''mock://'' (gw_upstream_url g) then mock_turn g c l key secret first_attempt
      else provider_turn g c l key secret)) w' (flow_ok rid)" if "running rid (Trying key) w'" for w'
    by (rule credential_turn_ok [OF that assms(2,3)])
      (use mock_turn_ok [OF _ assms(2,3)] provider_turn_ok [OF _ assms(2,3)] in simp)
  then show ?thesis
    unfolding chat_turn_def Let_def using fixture_turn_ok [OF assms] assms(1) by simp
qed

lemma start_evidenced_attempt_ok:
  assumes "running rid Idle w"
  shows "post (start_evidenced_attempt rid profile key) w
    (\<lambda>r w'. if is_ok r then running rid (Trying key) w' else left rid w')"
  unfolding start_evidenced_attempt_def
proof (rule arm_bind [OF assms])
  fix w' assume w': "running rid Idle w'"
  then have "phase_is rid Idle w'" by (simp add: running_def)
  note m = attempt_started_moves [OF this, of profile key]
  show "post (and_then (attempt_started rid profile key) (\<lambda>_. do {
      _ \<leftarrow> change_evidence reset_drop_recovery; yield_ok () })) w'
      (\<lambda>r w'. if is_ok r then running rid (Trying key) w' else left rid w')"
    unfolding post_and_then
  proof (rule post_mono [OF m])
    fix r :: "http_response + unit" and w'' assume r: "moved rid Idle (Trying key) (is_ok r) w' w''"
    show "case r of Inl e \<Rightarrow> if is_ok (Err e :: http_response + unit) then running rid (Trying key) w'' else left rid w''
      | Inr _ \<Rightarrow> post (do { _ \<leftarrow> change_evidence reset_drop_recovery; yield_ok () }) w''
          (\<lambda>r w'. if is_ok r then running rid (Trying key) w' else left rid w')"
    proof (cases r)
      case (Inl e)
      have "still_running rid w''" by (rule moved_still [OF r w']) simp_all
      then show ?thesis using Inl by (simp add: is_ok_def still_left)
    next
      case (Inr u)
      have "running rid (Trying key) w''" by (rule moved_running [OF _ w']) (use r Inr in \<open>simp add: is_ok_def\<close>)
      from running_arm(2) [OF this] show ?thesis using Inr by (simp add: is_ok_def)
    qed
  qed
qed

lemma after_loop_ok:
  assumes "running rid Idle w"
  shows "post (after_loop l) w (reply_ok rid)"
proof -
  have close: "post (close_silently status e response) w' (reply_ok rid)"
    if "running rid Idle w'" "status \<in> {429, 503}" "e \<in> {''upstream_rate_limited'', ''no_eligible_upstream''}"
    for w' status e response
  proof -
    have "recovery_ok \<lparr>rv_outcome = ''failed'', rv_status = Some status, rv_error = e, rv_ttfb = None, rv_bytes = 0\<rparr>"
      using that(2,3) by (auto simp: recovery_ok_def status_ok_def error_ok_def)
    from finish_open_handler [OF idle_still [OF that(1)] this] show ?thesis
      unfolding close_silently_def
      by (simp, elim post_mono) (auto simp: reply_ok_def dest: closed_or_running_left)
  qed
  show ?thesis
    unfolding after_loop_def
    by (subst post_bind, simp del: post_bind, rule aside_bind [OF reads_aside(1) assms])
      (use close in \<open>auto split: option.split simp del: post_bind\<close>)
qed

context key_turns begin

lemma attempt_turn_next_ok:
  assumes "running rid Idle w" "lo_attempted l \<noteq> []" "ca_id c = rid"
  shows "post (attempt_turn (play c) c l key False) w (flow_ok rid)"
  unfolding attempt_turn_def if_False post_or_return assms(3)
  by (rule post_mono [OF start_evidenced_attempt_ok [OF assms(1)]])
    (use turn_ok [OF _ assms(2,3)] in \<open>auto simp: is_ok_def split: sum.splits\<close>)

lemma later_round_ok:
  assumes "running rid Idle w" "lo_attempted l \<noteq> []" "ca_id c = rid"
  shows "post (one_round (play c) c l) w (flow_ok rid)"
proof -
  have go: "post (case key of
      None \<Rightarrow> State_Monad.return (Break l')
    | Some k \<Rightarrow>
        if k \<in> set (lo_attempted l') then State_Monad.return (Break l')
        else attempt_turn (play c) c (l'\<lparr>lo_attempted := lo_attempted l' @ [k]\<rparr>) k (lo_attempted l' = [])) w' (flow_ok rid)"
    if "running rid Idle w'" "lo_attempted l' \<noteq> []" for key l' w'
    using that attempt_turn_next_ok [OF that(1) _ assms(3)] by (auto split: option.split)
  show ?thesis
  proof (cases "lo_next_key l")
    case None
    then have "pick_key c l = do { k \<leftarrow> select_failover_key (ca_profile c) (lo_attempted l); State_Monad.return (k, l) }"
      using assms(2) by (simp add: pick_key_def)
    then show ?thesis
      unfolding one_round_def
      using go [OF _ assms(2)]
      by (simp del: post_bind, subst post_bind)
        (auto intro!: aside_post [OF select_failover_aside] dest: aside_running [OF _ assms(1)])
  next
    case (Some k)
    then show ?thesis
      using go [OF assms(1), of "l\<lparr>lo_next_key := None\<rparr>" "Some k"] assms(2)
      by (simp add: one_round_def pick_key_def)
  qed
qed

lemma first_round_ok:
  assumes "running rid (Trying (ca_first_key c)) w" "ca_id c = rid"
  shows "post (one_round (play c) c initial_locals) w (flow_ok rid)"
  using turn_ok [OF assms(1) _ assms(2)]
  by (simp add: one_round_def pick_key_def initial_locals_def attempt_turn_def)

lemma rounds_ok:
  assumes "ca_id c = rid"
  shows "running rid Idle w \<Longrightarrow> lo_attempted l \<noteq> [] \<Longrightarrow> post (rounds n (play c) c l) w (flow_ok rid)"
proof (induction n arbitrary: l w)
  case (Suc n)
  show ?case
    unfolding rounds.simps
    by (subst post_bind, rule post_mono [OF later_round_ok [OF Suc.prems assms]])
      (use Suc.IH in \<open>auto split: flow.splits\<close>)
qed simp

lemma all_rounds_ok:
  assumes "running rid (Trying (ca_first_key c)) w" "ca_id c = rid" "0 < n"
  shows "post (rounds n (play c) c initial_locals) w (flow_ok rid)"
proof -
  obtain m where n: "n = Suc m" using assms(3) by (cases n) auto
  show ?thesis
    unfolding n rounds.simps
    by (subst post_bind, rule post_mono [OF first_round_ok [OF assms(1,2)]])
      (use rounds_ok [OF assms(2)] in \<open>auto split: flow.splits\<close>)
qed

lemma run_loop_ok:
  assumes "running rid (Trying (ca_first_key c)) w" "ca_id c = rid" "0 < ca_key_attempts c"
  shows "post (run_loop (play c) c) w (reply_ok rid)"
  unfolding run_loop_def
  by (subst post_bind, rule post_mono [OF all_rounds_ok [OF assms]])
    (use after_loop_ok in \<open>auto split: flow.splits\<close>)

end

interpretation chat_turns: key_turns "chat_turn g" for g
  by unfold_locales (rule chat_turn_ok)

end
