(* ===== verification/Modality.thy ===== *)
theory Modality
  imports Failover
begin

text \<open>
  \<open>multimodal\<close> (\<open>proxy.rs\<close>) and the mock provider's fixtures (\<open>main.rs\<close>): embeddings, images, videos,
  speech, transcriptions and NVIDIA inference. The loop over the keys is the one of chat requests;
  the turn differs in what is sent, in the checks and rewriting of the answer and in the mock.
\<close>

section \<open>Fixtures\<close>

definition mock_jpeg_text :: str where
  "mock_jpeg_text =
     ''/9j/4AAQSkZJRgABAQAAAQABAAD/2wBDAP//////////////////////////////////////////////////////////////////////////////////////2wBDAf//////////////////////////////////////////////////////////////////////////////////////wAARCAABAAEDASIAAhEBAxEB/8QAFQABAQAAAAAAAAAAAAAAAAAAAAX/xAAUEAEAAAAAAAAAAAAAAAAAAAAA/9oADAMBAAIQAxAAAAH/xAAUEAEAAAAAAAAAAAAAAAAAAAAA/9oACAEBAAEFAqf/xAAUEQEAAAAAAAAAAAAAAAAAAAAA/9oACAEDAQE/AYf/xAAUEQEAAAAAAAAAAAAAAAAAAAAA/9oACAECAQE/AYf/xAAUEAEAAAAAAAAAAAAAAAAAAAAA/9oACAEBAAY/Av/Z''"

text \<open>The literal is base64, so the \<open>expect\<close> of its decoding holds.\<close>

definition mock_jpeg :: "gateway \<Rightarrow> bytes" where
  "mock_jpeg g = unwrap_or [] (b64_decode (gw_crypto g) mock_jpeg_text)"

definition num :: "nat \<Rightarrow> json" where
  "num n = JNumber (NatNum n)"

definition mock_embedding :: "str \<Rightarrow> json" where
  "mock_embedding model =
     JObject
       [(''data'', JArray [JObject [(''embedding'', JArray (replicate 1024 (JNumber (FloatNum 0)))),
                                    (''index'', num 0), (''object'', JString ''embedding'')]]),
        (''model'', JString model), (''object'', JString ''list''),
        (''usage'', JObject [(''prompt_tokens'', num 1), (''total_tokens'', num 1)])]"

definition mock_image :: "gateway \<Rightarrow> str \<Rightarrow> json" where
  "mock_image g model =
     JObject
       [(''artifacts'', JArray [JObject [(''base64'', JString (b64_encode (gw_crypto g) (mock_jpeg g))),
                                         (''finishReason'', JString ''SUCCESS''), (''seed'', num 0)]]),
        (''model'', JString model)]"

definition mock_inference :: "time \<Rightarrow> str \<Rightarrow> json" where
  "mock_inference now model =
     JObject
       [(''choices'', JArray [JObject
           [(''finish_reason'', JString ''stop''), (''index'', num 0),
            (''message'', JObject [(''content'', JString ''image''), (''role'', JString ''assistant'')])]]),
        (''created'', num (nat (num_seconds now))), (''id'', JString ''vila-mock-1''),
        (''model'', JString model), (''object'', JString ''chat.completion''),
        (''usage'', JObject [(''completion_tokens'', num 1), (''prompt_tokens'', num 1),
                             (''total_tokens'', num 2)])]"

definition mock_video :: "gateway \<Rightarrow> str \<Rightarrow> json" where
  "mock_video g model =
     JObject
       [(''finish_reason'', JString ''SUCCESS''), (''model'', JString model), (''seed'', num 0),
        (''video'', JString (b64_encode (gw_crypto g) mock_mp4))]"

definition mock_modality :: "gateway \<Rightarrow> time \<Rightarrow> str \<Rightarrow> json \<Rightarrow> bytes \<times> str" where
  "mock_modality g now path request =
     (let model = unwrap_or ''nvidia/multimodal'' (get_str ''model'' request);
          answer_json = (\<lambda>v. (gw_show g v, ''application/json''))
      in if path = ''/v1/embeddings'' then answer_json (mock_embedding model)
         else if path = ''/v1/images/generations'' then answer_json (mock_image g model)
         else if path = ''/v1/audio/speech'' then (mock_wav, ''audio/wav'')
         else if path = ''/v1/audio/transcriptions''
         then answer_json (JObject [(''model'', JString model), (''text'', JString ''hello'')])
         else if path = ''/v1/nvidia/inference'' then answer_json (mock_inference now model)
         else answer_json (mock_video g model))"

section \<open>The request\<close>

text \<open>What a turn needs beside the call: the client's request as it came and as it is forwarded.\<close>

record media_request =
  md_path :: str
  md_content_type :: str
  md_body :: bytes
  md_upstream :: json
  md_mock_status :: "nat option"
  md_mock_invalid :: bool

definition scope_for_path :: "str \<Rightarrow> str" where
  "scope_for_path path =
     (if path = ''/v1/embeddings'' then ''embeddings:write''
      else if path = ''/v1/images/generations'' then ''images:write''
      else if path \<in> set [''/v1/audio/speech'', ''/v1/audio/transcriptions''] then ''audio:write''
      else ''media:write'')"

text \<open>\<open>req.headers().get(name).and_then(to_str)\<close>.\<close>

definition request_header :: "str \<Rightarrow> http_request \<Rightarrow> str option" where
  "request_header name req = Option.bind (header_first name req) header_str"

definition media_request_of :: "http_request \<Rightarrow> bytes \<Rightarrow> str \<Rightarrow> json \<Rightarrow> media_request" where
  "media_request_of req body content_type upstream_request =
     \<lparr>md_path = rq_path req, md_content_type = content_type, md_body = body, md_upstream = upstream_request,
      md_mock_status = Option.bind (request_header ''x-nblb-mock-status'' req) parse_u16,
      md_mock_invalid = (header_first ''x-nblb-mock-invalid-response'' req \<noteq> None)\<rparr>"

definition media_prologue ::
    "gateway \<Rightarrow> http_request \<Rightarrow> (unit + bytes) list \<Rightarrow> (uuid option \<times> json \<times> media_request) handler" where
  "media_prologue g req payload =
     and_then (authorize_scope g req (scope_for_path (rq_path req))) (\<lambda>client.
       State_Monad.return
         (case read_request_body payload (64 * 1024 * 1024) of
            Inl response \<Rightarrow> Err response
          | Inr body \<Rightarrow>
              (let content_type = unwrap_or ''application/json'' (request_header ''content-type'' req);
                   c = gw_crypto g
               in if modality_body_limit (rq_path req) < length body
                  then Err (openai_error 413 ''request body exceeds the endpoint limit''
                         ''invalid_request_error'' ''request_too_large'')
                  else (case parse_multimodal_request (b64_encode c) (b64_decode c) (gw_parse g)
                               (rq_path req) body content_type of
                          Inl response \<Rightarrow> Err response
                        | Inr request \<Rightarrow>
                            (case prepare_modality_request (rq_path req) request of
                               Inl response \<Rightarrow> Err response
                             | Inr upstream_request \<Rightarrow>
                                 Ok (client, request, media_request_of req body content_type upstream_request))))))"

section \<open>One turn\<close>

definition normalized ::
    "gateway \<Rightarrow> str \<Rightarrow> str \<Rightarrow> time \<Rightarrow> bytes \<Rightarrow> (bytes \<times> str) option" where
  "normalized g path content_type now body =
     normalize_modality_response (b64_encode (gw_crypto g)) (b64_decode (gw_crypto g)) (gw_parse g) (gw_show g)
       (nat (num_seconds now)) path body content_type"

definition media_mock_answer :: "gateway \<Rightarrow> media_request \<Rightarrow> call \<Rightarrow> uuid \<Rightarrow> flow program" where
  "media_mock_answer g m c key = do {
     _ \<leftarrow> change_evidence (arm_evidence_failure None 0);
     or_return (record_request_for g key) (\<lambda>_. do {
       now \<leftarrow> observe w_clock;
       let (body, content_type) =
         (if md_mock_invalid m then (''not-a-provider-response'', ''application/json'')
          else mock_modality g now (md_path m) (ca_request c));
       case normalized g (md_path m) content_type now body of
         None \<Rightarrow>
           finish_and_return key (attempt_failed (Some 502) ''mock_contract_invalid'' None)
             (request_failed 502 ''mock_contract_invalid'')
             (openai_error 502 ''mock provider fixture failed the modality contract'' ''upstream_error''
                ''mock_contract_invalid'')
       | Some (bytes, content_type) \<Rightarrow>
           finish_and_return key (attempt_succeeded 200 (Some (length bytes))) (request_succeeded 200)
             \<lparr>rp_status = 200, rp_headers = [(''content-type'', content_type)], rp_body = Raw_body bytes\<rparr>
     })
   }"

definition media_mock_turn ::
    "gateway \<Rightarrow> media_request \<Rightarrow> call \<Rightarrow> loop_locals \<Rightarrow> uuid \<Rightarrow> bool \<Rightarrow> flow program" where
  "media_mock_turn g m c l key first_attempt =
     (case (if first_attempt then md_mock_status m else None) of
        Some status \<Rightarrow> mock_status_turn g c l key status
      | None \<Rightarrow> media_mock_answer g m c key)"

definition speech_form :: "json \<Rightarrow> (str \<times> str) list" where
  "speech_form request =
     (let voice = unwrap_or ''English-US.Female-1'' (get_str ''voice'' request)
      in [(''text'', unwrap_or [] (get_str ''input'' request)),
          (''language'', if starts_with ''ko'' (to_ascii_lowercase voice) then ''ko-KR'' else ''en-US''),
          (''voice'', voice), (''encoding'', ''LINEAR_PCM''), (''sample_rate_hz'', ''44100'')])"

definition media_body :: "media_request \<Rightarrow> json \<Rightarrow> sent_body" where
  "media_body m request =
     (if md_path m = ''/v1/audio/transcriptions'' \<and> starts_with ''multipart/form-data'' (md_content_type m)
         \<and> get_bool ''__nblb_multipart'' request = Some True
      then Raw_bytes (md_content_type m) (md_body m)
      else if md_path m = ''/v1/audio/speech'' then Form_body (speech_form request)
      else Json_body (md_upstream m))"

text \<open>The answer to a success: \<open>p\<close> is the provider's first answer or, after a 202, the polled one.\<close>

definition media_body_turn ::
    "gateway \<Rightarrow> media_request \<Rightarrow> call \<Rightarrow> loop_locals \<Rightarrow> uuid \<Rightarrow> provider_response \<Rightarrow> flow program" where
  "media_body_turn g m c l key p =
     body_turn g c l key (response_body_limit (md_path m))
       (normalized g (md_path m) (unwrap_or ''application/json'' (provider_header ''content-type'' p)))
       ''provider returned an invalid modality response'' p"

definition media_answer_turn ::
    "gateway \<Rightarrow> media_request \<Rightarrow> call \<Rightarrow> loop_locals \<Rightarrow> uuid \<Rightarrow> str \<Rightarrow> routing_policy \<Rightarrow> provider_response \<Rightarrow>
     flow program" where
  "media_answer_turn g m c l key secret policy p =
     (if is_success (ps_status p)
      then (if ps_status p = 202
            then accepted_turn g key secret
                   ''NVIDIA accepted the media request but polling did not complete''
                   (media_body_turn g m c l key) p
            else media_body_turn g m c l key p)
      else if auth_failure (ps_status p) \<or> ps_status p \<in> set (ro_retryable_statuses policy)
      then failover_turn g c l key policy p
      else rejected_turn key p)"

definition media_provider_turn ::
    "gateway \<Rightarrow> media_request \<Rightarrow> call \<Rightarrow> loop_locals \<Rightarrow> uuid \<Rightarrow> str \<Rightarrow> flow program" where
  "media_provider_turn g m c l key secret =
     post_and_judge g c l key UPSTREAM_REQUEST_TIMEOUT
       \<lparr>st_verb = Post,
        st_url = upstream_endpoint_for (gw_magpie_url g) (gw_upstream_url g) (md_path m) (ca_profile c),
        st_credential = secret, st_body = media_body m (ca_request c)\<rparr>
       (\<lambda>l. media_answer_turn g m c l key secret)"

definition media_turn :: "gateway \<Rightarrow> media_request \<Rightarrow> call \<Rightarrow> turn" where
  "media_turn g m c l key first_attempt =
     credential_turn g c l key (\<lambda>secret.
       if starts_with ''mock://'' (gw_upstream_url g) then media_mock_turn g m c l key first_attempt
       else media_provider_turn g m c l key secret)"

section \<open>The handler\<close>

text \<open>Images and videos are tried on one key only.\<close>

definition media_key_attempts :: "str \<Rightarrow> nat \<Rightarrow> nat" where
  "media_key_attempts path keys =
     (if path \<in> set [''/v1/images/generations'', ''/v1/videos/generations''] then 1 else max 1 keys)"

definition multimodal :: "gateway \<Rightarrow> http_request \<Rightarrow> (unit + bytes) list \<Rightarrow> reply program" where
  "multimodal g req payload =
     scoped (guarded g req
       (or_reply (media_prologue g req payload) (\<lambda>(client, request, m).
          admit_and_run g req client request False (media_key_attempts (rq_path req)) (media_turn g m))))"

end
