(* ===== verification/Tasks.thy ===== *)
theory Tasks
  imports Chat_Lifecycle Modality
begin

text \<open>The turn of \<open>multimodal\<close> keeps the loop's contract, as the turn of chat requests does.\<close>

lemma media_mock_answer_ok:
  assumes "running rid (Trying key) w"
  shows "post (media_mock_answer g m c key) w (flow_ok rid)"
  unfolding media_mock_answer_def
  by (rule arm_bind [OF assms], rule aside_or_return [OF health_aside(1)], assumption)
    (auto intro!: finish_and_return_ok split: option.split prod.split)

lemma media_mock_turn_ok:
  assumes "running rid (Trying key) w" "lo_attempted l \<noteq> []" "ca_id c = rid"
  shows "post (media_mock_turn g m c l key first_attempt) w (flow_ok rid)"
  unfolding media_mock_turn_def
  using mock_status_turn_ok [OF assms] media_mock_answer_ok [OF assms(1)] by (auto split: option.split)

lemma media_answer_turn_ok:
  assumes "running rid (Trying key) w" "lo_attempted l \<noteq> []" "ca_id c = rid"
  shows "post (media_answer_turn g m c l key secret policy p) w (flow_ok rid)"
proof -
  have body: "post (media_body_turn g m c l key q) w' (flow_ok rid)" if "running rid (Trying key) w'" for q w'
    unfolding media_body_turn_def using body_turn_ok [OF that assms(2,3)] .
  show ?thesis
    unfolding media_answer_turn_def rejected_turn_def
    using accepted_turn_ok [OF assms(1) body] body [OF assms(1)] failover_turn_ok [OF assms]
      finish_and_return_ok [OF assms(1)]
    by simp
qed

lemma media_turn_ok:
  assumes "running rid (Trying key) w" "lo_attempted l \<noteq> []" "ca_id c = rid"
  shows "post (media_turn g m c l key first_attempt) w (flow_ok rid)"
proof -
  have "post (media_provider_turn g m c l key secret) w' (flow_ok rid)" if "running rid (Trying key) w'" for w' secret
    unfolding media_provider_turn_def
    by (rule post_and_judge_ok [OF that assms(2,3)]) (rule media_answer_turn_ok [OF _ _ assms(3)])
  then show ?thesis
    unfolding media_turn_def
    by (intro credential_turn_ok [OF assms]) (simp add: media_mock_turn_ok [OF _ assms(2,3)])
qed

interpretation media_turns: key_turns "media_turn g m" for g m
  by unfold_locales (rule media_turn_ok)

text \<open>
  The end of the story: what was spawned is run, one task after the other. \<open>proceeds\<close> is what any
  program of the evidence keeps of every request: a phase stays or becomes \<open>Ended\<close>. With no fault
  left a task that holds a request closes it.
\<close>

section \<open>Phases only move forward\<close>

definition proceeds :: "world \<Rightarrow> world \<Rightarrow> bool" where
  "proceeds w w' \<longleftrightarrow>
     (w_ticks w = [] \<longrightarrow> w_ticks w' = []) \<and> (\<exists>new. w_tasks w' = w_tasks w @ new) \<and>
     (\<forall>rid ph. phase_is rid ph w \<longrightarrow> phase_is rid ph w' \<or> ph \<noteq> Absent \<and> phase_is rid Ended w')"

interpretation proceeds: history proceeds
proof
  show "proceeds w w" for w by (simp add: proceeds_def)
  show "proceeds a c" if "proceeds a b" "proceeds b c" for a b c
    using that unfolding proceeds_def by (metis append.assoc)
qed

lemma proceeds_absent: "proceeds w w' \<Longrightarrow> phase_is rid Absent w \<Longrightarrow> phase_is rid Absent w'"
  by (auto simp: proceeds_def)

lemma proceeds_ended: "proceeds w w' \<Longrightarrow> phase_is rid Ended w \<Longrightarrow> phase_is rid Ended w'"
  by (auto simp: proceeds_def)

lemma proceeds_alive: "proceeds w w' \<Longrightarrow> alive rid w \<Longrightarrow> alive rid w'"
  by (auto simp: proceeds_def alive_def)

lemma aside_proceeds: "aside w w' \<Longrightarrow> proceeds w w'"
  using aside_phase by (auto simp: proceeds_def) (auto simp: aside_def)

lemma evolves_aside_proceeds: "evolves aside m \<Longrightarrow> evolves proceeds m"
  using aside_proceeds by (auto simp: evolves_def)

lemma proceeds_same:
  assumes "w_db w' = w_db w" "w_owner w' = w_owner w" "w_ticks w' = w_ticks w" "w_tasks w' = w_tasks w @ new"
  shows "proceeds w w'"
  using assms(3,4) phase_is_same [OF assms(1,2)] by (auto simp: proceeds_def)

lemma spawn_proceeds: "evolves proceeds (spawn t)"
  unfolding spawn_def by (rule proceeds.modify) (rule proceeds_same, simp_all)

lemma drop_evidence_proceeds: "evolves proceeds (drop_evidence e)"
  unfolding drop_evidence_def by (auto intro: spawn_proceeds proceeds.return)

lemma permit_retry_proceeds: "evolves proceeds (spawn_permit_release_retry i)"
  unfolding spawn_permit_release_retry_def by (rule spawn_proceeds)

lemma closed_proceeds: "evolves proceeds (closed e)"
  unfolding closed_def release_permit_now_def
  by (auto intro!: proceeds.bind proceeds.return permit_retry_proceeds evolves_aside_proceeds [OF release_aside])

lemma recovery_proceeds: "evolves proceeds (proxy_request_and_open_attempts_finished rid' rv)"
proof (rule evolvesI)
  fix w
  let ?f = "\<lambda>owner _ now. tx_request_and_open_attempts_finished now owner rid' (rv_outcome rv) (rv_status rv)
     (rv_error rv) (rv_ttfb rv) (rv_bytes rv)"
  have "post (database_call (?f owner)) w (\<lambda>_ w'. proceeds w w')"
    if o: "w_owner w = Some owner" and d: "w_db w = Some d" for owner d
  proof (rule database_callI [OF d])
    fix t now ts r d'
    assume l: "later w ts now" and r: "run_tx (tk_fault t) (?f owner t now) d = (r, d')"
    have "on_track owner rid ph d' \<or> ph \<noteq> Absent \<and> on_track owner rid Ended d'" if t: "on_track owner rid ph d" for rid ph
    proof -
      have "on_track owner rid ph d'' \<or> ph \<noteq> Absent \<and> on_track owner rid Ended d''"
        if s: "?f owner t now d = Some (u, d'')" for u d''
      proof (cases "rid' = rid \<and> ph \<noteq> Ended \<and> ph \<noteq> Absent")
        case True
        then show ?thesis using recovery_ends [OF t] s by simp
      next
        case False
        then show ?thesis using other_recovery_stays [OF t _ s] by blast
      qed
      then show ?thesis
        using r t by (cases rule: run_tx_cases [of "tk_fault t" "?f owner t now" d]) auto
    qed
    then show "proceeds w (w\<lparr>w_ticks := ts, w_clock := now, w_db := Some d'\<rparr>)"
      using o d l by (auto simp: proceeds_def phase_is_def later_def)
  qed
  then show "post (proxy_request_and_open_attempts_finished rid' rv) w (\<lambda>_ w'. proceeds w w')"
    unfolding proxy_request_and_open_attempts_finished_def with_owner_def succeeds_def
    by (cases "w_db w"; cases "w_owner w") (simp_all add: proceeds.same)
qed

lemma finish_open_proceeds: "evolves proceeds (finish_with_open_attempts_silently rv e)"
  unfolding finish_with_open_attempts_silently_def Let_def
  by (auto intro!: proceeds.bind proceeds.return recovery_proceeds closed_proceeds)

lemma run_task_proceeds: "evolves proceeds (run_task t)"
proof -
  have "evolves proceeds (modify (\<lambda>w. w\<lparr>w_clock := w_clock w + delay\<rparr>))" for delay
    by (rule proceeds.modify) (rule proceeds_same, simp_all)
  then show ?thesis
    unfolding run_task_def run_evidence_task_def
    by (auto split: task.split intro!: proceeds.bind proceeds.return spawn_proceeds permit_retry_proceeds
        recovery_proceeds finish_open_proceeds drop_evidence_proceeds evolves_aside_proceeds [OF release_aside])
qed

section \<open>A task that holds a request closes it\<close>

lemma recovery_closes:
  assumes "alive rid w" "w_ticks w = []" "recovery_ok rv"
  shows "post (proxy_request_and_open_attempts_finished rid rv) w (\<lambda>_. phase_is rid Ended)"
proof -
  obtain ph where ph: "ph \<noteq> Absent" "phase_is rid ph w" "phase_is rid Ended w \<longrightarrow> ph = Ended"
    using assms(1) by (rule alive_phase)
  obtain d owner where d: "w_db w = Some d" "w_owner w = Some owner" "on_track owner rid ph d"
    using ph(2) by (auto simp: phase_is_def)
  show ?thesis
  proof (cases "ph = Ended")
    case True
    then show ?thesis
      using ph(2) by (intro post_mono [OF evolves_post [OF recovery_proceeds]]) (auto intro: proceeds_ended)
  next
    case False
    have "tx_request_and_open_attempts_finished now owner rid (rv_outcome rv) (rv_status rv) (rv_error rv)
        (rv_ttfb rv) (rv_bytes rv) d \<noteq> None" for now
      using recovery_succeeds [OF d(3) ph(1) False assms(3), of now] by auto
    note some = this
    have "post (database_call (\<lambda>_ now. tx_request_and_open_attempts_finished now owner rid (rv_outcome rv)
        (rv_status rv) (rv_error rv) (rv_ttfb rv) (rv_bytes rv))) w (\<lambda>_. phase_is rid Ended)"
    proof (rule database_callI [OF d(1)])
      fix t now ts r d'
      assume t: "tick_of w t" and r: "run_tx (tk_fault t) (tx_request_and_open_attempts_finished now owner rid
        (rv_outcome rv) (rv_status rv) (rv_error rv) (rv_ttfb rv) (rv_bytes rv)) d = (r, d')"
      have "tk_fault t = Fine" using t assms(2) by (simp add: tick_of_def quiet_def)
      then have "\<exists>u. tx_request_and_open_attempts_finished now owner rid (rv_outcome rv)
        (rv_status rv) (rv_error rv) (rv_ttfb rv) (rv_bytes rv) d = Some (u, d')"
        using r some [of now] by (auto simp: run_tx_def split: option.splits)
      then have "on_track owner rid Ended d'" using recovery_ends [OF d(3) ph(1)] by blast
      then show "phase_is rid Ended (w\<lparr>w_ticks := ts, w_clock := now, w_db := Some d'\<rparr>)"
        using d(2) by (simp add: phase_is_def)
    qed
    then show ?thesis
      by (simp add: proxy_request_and_open_attempts_finished_def with_owner_def succeeds_def d(1,2))
  qed
qed

lemma ended_stays:
  assumes "evolves proceeds m" "phase_is rid Ended w"
  shows "post m w (\<lambda>_. phase_is rid Ended)"
  by (rule post_mono [OF evolves_post [OF assms(1)]]) (rule proceeds_ended [OF _ assms(2)])

lemma bind_ended:
  assumes "post m w (\<lambda>_. phase_is rid Ended)" "\<And>x. evolves proceeds (f x)"
  shows "post (State_Monad.bind m f) w (\<lambda>_. phase_is rid Ended)"
  unfolding post_bind by (rule post_mono [OF assms(1)]) (rule ended_stays [OF assms(2)])

lemma closer_closes:
  assumes "alive rid w" "w_ticks w = []" "closer rid t"
  shows "post (run_task t) w (\<lambda>_. phase_is rid Ended)"
proof (cases t)
  case (Evidence_task e)
  then have e: "ev_request_id e = rid" "\<not> ev_terminal e" "recovery_ok (ev_recovery e)"
    using assms(3) by (simp_all add: closer_def)
  have "post (State_Monad.bind (proxy_request_and_open_attempts_finished rid (ev_recovery e))
      (\<lambda>_. if ev_permit e then spawn_permit_release_retry rid else State_Monad.return ())) w (\<lambda>_. phase_is rid Ended)"
    by (rule bind_ended [OF recovery_closes [OF assms(1,2) e(3)]])
      (auto intro: permit_retry_proceeds proceeds.return)
  then show ?thesis
    using e by (cases "ev_permit e") (simp_all add: Evidence_task run_task_def run_evidence_task_def)
next
  case (Guard_task e rv)
  then have "post (finish_with_open_attempts_silently rv e) w (\<lambda>_. phase_is rid Ended)"
    using assms recovery_closes [OF assms(1,2), of rv]
    unfolding finish_with_open_attempts_silently_def Let_def
    by (intro bind_ended) (auto simp: closer_def arm_drop_recovery_def intro!: proceeds.bind proceeds.return closed_proceeds)
  then show ?thesis
    by (simp add: Guard_task run_task_def del: post_bind) (intro bind_ended drop_evidence_proceeds)
qed (use assms(3) in \<open>simp add: closer_def\<close>)

fun run_tasks :: "nat \<Rightarrow> unit program" where
  "run_tasks 0 = State_Monad.return ()"
| "run_tasks (Suc n) = do { _ \<leftarrow> run_next_task; run_tasks n }"

definition over :: "uuid \<Rightarrow> world \<Rightarrow> bool" where
  "over rid w \<longleftrightarrow> phase_is rid Absent w \<or> phase_is rid Ended w"

lemma run_tasks_over:
  "w_ticks w = [] \<Longrightarrow> n \<le> length (w_tasks w) \<Longrightarrow>
   over rid w \<or> alive rid w \<and> (\<exists>t \<in> set (take n (w_tasks w)). closer rid t) \<Longrightarrow>
   post (run_tasks n) w (\<lambda>_. over rid)"
proof (induction n arbitrary: w)
  case (Suc n)
  obtain t ts where ts: "w_tasks w = t # ts" using Suc.prems(2) by (cases "w_tasks w") auto
  let ?w = "w\<lparr>w_tasks := ts\<rparr>"
  have "post (run_task t) ?w (\<lambda>_ w'. proceeds ?w w' \<and> (alive rid w \<and> closer rid t \<longrightarrow> phase_is rid Ended w'))"
    unfolding post_conj
    using evolves_post [OF run_task_proceeds] closer_closes [of rid ?w t] Suc.prems(1)
    by (cases "alive rid w \<and> closer rid t") (auto intro: post_mono)
  then have "post (run_task t) ?w (\<lambda>_ w'. post (run_tasks n) w' (\<lambda>_. over rid))"
  proof (rule post_mono)
    fix u w' assume s: "proceeds ?w w' \<and> (alive rid w \<and> closer rid t \<longrightarrow> phase_is rid Ended w')"
    then obtain new where new: "w_tasks w' = ts @ new" "w_ticks w' = []"
      using Suc.prems(1) by (auto simp: proceeds_def)
    have "over rid w' \<or> alive rid w' \<and> (\<exists>t \<in> set (take n (w_tasks w')). closer rid t)"
      using s Suc.prems(2,3) ts new(1) proceeds_absent [of ?w w'] proceeds_ended [of ?w w'] proceeds_alive [of ?w w' rid]
      by (auto simp: over_def)
    then show "post (run_tasks n) w' (\<lambda>_. over rid)"
      using Suc.prems(2) ts new by (intro Suc.IH) simp_all
  qed
  then show ?case by (simp add: run_next_task_def ts)
qed (auto simp: over_def)

lemma settled_over:
  "settled rid w \<Longrightarrow> post (run_tasks (length (w_tasks w))) (w\<lparr>w_ticks := []\<rparr>) (\<lambda>_. over rid)"
proof -
  assume s: "settled rid w"
  have same: "phase_is rid ph (w\<lparr>w_ticks := []\<rparr>) = phase_is rid ph w" "alive rid (w\<lparr>w_ticks := []\<rparr>) = alive rid w" for ph
    by (rule phase_is_same alive_same; simp)+
  show ?thesis
    by (rule run_tasks_over) (use s same in \<open>auto simp: settled_def over_def\<close>)
qed

end
