(* ===== verification/Handler_Props.thy ===== *)
theory Handler_Props
  imports Tasks Store_Props
begin

text \<open>
  The handlers as a whole: admission starts a request in the ledger or refuses it, and a request
  that was started is closed whatever happens next.
\<close>

section \<open>Admission\<close>

lemma select_and_start_phase:
  assumes "on_track owner rid Absent d"
    "tx_select_and_start now owner rid client endpoint profile stream modality d = Some (k, d')"
  shows "on_track owner rid (case k of None \<Rightarrow> Ended | Some key \<Rightarrow> Trying key) d'"
proof -
  have "ledger_inv d'"
    using tx_select_and_start_lawful [OF assms(2)] assms(1) by (simp add: lawful_def on_track_def)
  then show ?thesis
    using assms
    by (auto simp: tx_select_and_start_def insert_request_def insert_attempt_def on_track_def in_phase_def
        open_attempts_def no_post_frame_fixture_def new_attempt_def new_request_def rejected_request_def
        advance_cursor_def started_request_def bind_eq_Some_conv Let_def split: option.splits if_splits)
qed

definition admitted_phase :: "uuid \<Rightarrow> world \<Rightarrow> uuid option option \<Rightarrow> world \<Rightarrow> bool" where
  "admitted_phase rid w r w' \<longleftrightarrow>
     w_evidence w' = w_evidence w \<and>
     (case r of
        Some (Some key) \<Rightarrow> phase_is rid (Trying key) w'
      | Some None \<Rightarrow> phase_is rid Ended w'
      | None \<Rightarrow> phase_is rid Absent w' \<or> \<not> no_lost_answer w)"

lemma select_and_start_admits:
  assumes "phase_is rid Absent w"
  shows "post (select_and_start_request rid client endpoint profile stream modality) w (admitted_phase rid w)"
proof -
  obtain d owner where d: "w_db w = Some d" "w_owner w = Some owner" "on_track owner rid Absent d"
    using assms by (auto simp: phase_is_def)
  let ?f = "\<lambda>_ now. tx_select_and_start now owner rid client endpoint profile stream modality"
  have "post (database_call ?f) w (admitted_phase rid w)"
  proof (rule database_callI [OF d(1)])
    fix t now ts r d'
    assume t: "tick_of w t" and r: "run_tx (tk_fault t) (?f t now) d = (r, d')"
    have "tk_fault t = Lost \<Longrightarrow> \<not> no_lost_answer w" using no_lost_tick [OF _ t] by auto
    moreover have "phase_is rid (case k of None \<Rightarrow> Ended | Some key \<Rightarrow> Trying key)
        (w\<lparr>w_ticks := ts, w_clock := now, w_db := Some d''\<rparr>)" if "?f t now d = Some (k, d'')" for k d''
      using select_and_start_phase [OF d(3) that] d(2) by (simp add: phase_is_def)
    ultimately show "admitted_phase rid w r (w\<lparr>w_ticks := ts, w_clock := now, w_db := Some d'\<rparr>)"
      using r d
      by (cases rule: run_tx_cases [of "tk_fault t" "?f t now" d])
        (auto simp: admitted_phase_def phase_is_def split: option.splits)
  qed
  then show ?thesis by (simp add: select_and_start_request_def d(1,2))
qed

lemma drop_permit_guard_post [simp]:
  "post (drop_permit_guard i armed) w Q \<longleftrightarrow>
     Q () (if armed then w\<lparr>w_tasks := w_tasks w @ [Release_task i PERMIT_RELEASE_RETRY_INITIAL]\<rparr> else w)"
  by (simp add: drop_permit_guard_def spawn_permit_release_retry_def)

text \<open>What admission answers with: a running request with its first key, or a refusal.\<close>

definition admission_ok :: "uuid \<Rightarrow> world \<Rightarrow> http_response + uuid \<Rightarrow> world \<Rightarrow> bool" where
  "admission_ok rid w0 r w \<longleftrightarrow>
     (case r of
        Inr key \<Rightarrow> running rid (Trying key) w
      | Inl response \<Rightarrow> settled rid w \<or> response = evidence_unavailable \<and> \<not> no_lost_answer w0)"

lemma new_evidence_running:
  "phase_is rid (Trying key) w \<Longrightarrow>
   running rid (Trying key) (w\<lparr>w_evidence := new_evidence rid (w_clock w) permit\<rparr>)"
  by (simp add: running_def evidence_open_def new_evidence_def no_recovery_def recovery_ok_def status_ok_def
      error_ok_def ms_ok_def)

lemma no_lost_aside: "aside w w' \<Longrightarrow> no_lost_answer w \<Longrightarrow> no_lost_answer w'"
  by (auto simp: aside_def no_lost_answer_def)

lemma start_in_database_ok:
  assumes "phase_is rid Absent w"
  shows "post (start_in_database rid client endpoint profile stream modality) w (admission_ok rid w)"
  unfolding start_in_database_def post_and_then permit_or_refuse_def
proof (subst post_bind, rule aside_post [OF acquire_aside])
  fix p :: "permit_error + bool" and w' assume a: "aside w w'"
  have absent: "phase_is rid Absent w'" using a assms by (rule aside_phase)
  have lost: "\<not> no_lost_answer w' \<Longrightarrow> \<not> no_lost_answer w" using no_lost_aside [OF a] by blast
  have selected: "post (do {
       selected \<leftarrow> select_and_start_request rid client endpoint profile stream modality;
       case selected of
         Some (Some key) \<Rightarrow> do {
           now \<leftarrow> observe w_clock;
           _ \<leftarrow> change_evidence (\<lambda>_. new_evidence rid now permit);
           yield_ok key
         }
       | Some None \<Rightarrow> do { _ \<leftarrow> drop_permit_guard rid permit; answer no_upstream }
       | None \<Rightarrow> do { _ \<leftarrow> drop_permit_guard rid permit; answer evidence_unavailable }
     }) w' (admission_ok rid w)" for permit
    by (subst post_bind, rule post_mono [OF select_and_start_admits [OF absent]])
      (use lost in \<open>auto simp: admitted_phase_def admission_ok_def settled_def intro: new_evidence_running
        split: option.splits\<close>)
  show "post (State_Monad.return (case p of Inl e \<Rightarrow> Err (permit_error_response e) | Inr b \<Rightarrow> Ok b)) w'
      (\<lambda>r w'. case r of Inl e \<Rightarrow> admission_ok rid w (Err e) w'
        | Inr permit \<Rightarrow> post (do {
       selected \<leftarrow> select_and_start_request rid client endpoint profile stream modality;
       case selected of
         Some (Some key) \<Rightarrow> do {
           now \<leftarrow> observe w_clock;
           _ \<leftarrow> change_evidence (\<lambda>_. new_evidence rid now permit);
           yield_ok key
         }
       | Some None \<Rightarrow> do { _ \<leftarrow> drop_permit_guard rid permit; answer no_upstream }
       | None \<Rightarrow> do { _ \<leftarrow> drop_permit_guard rid permit; answer evidence_unavailable }
     }) w' (admission_ok rid w))"
    using absent selected by (auto simp: admission_ok_def settled_def split: sum.split simp del: post_bind)
qed

lemma admit_ok:
  assumes "phase_is rid Absent w"
  shows "post (admit_and_start_selected g rid client endpoint profile stream modality) w (admission_ok rid w)"
proof -
  obtain d where "w_db w = Some d" using assms by (auto simp: phase_is_def)
  then show ?thesis
    using start_in_database_ok [OF assms] by (simp add: admit_and_start_selected_def)
qed

section \<open>The handler\<close>

definition handler_ok :: "uuid \<Rightarrow> world \<Rightarrow> reply \<Rightarrow> world \<Rightarrow> bool" where
  "handler_ok rid w0 r w \<longleftrightarrow> reply_ok rid r w \<or> r = Plain evidence_unavailable \<and> \<not> no_lost_answer w0"

lemma post_or_reply [simp]:
  "post (or_reply m f) w Q \<longleftrightarrow>
     post m w (\<lambda>r w'. case r of Inl response \<Rightarrow> Q (Plain response) w' | Inr x \<Rightarrow> post (f x) w' Q)"
  unfolding or_reply_def post_bind
  by (rule arg_cong [where f = "post m w"]) (auto simp: fun_eq_iff split: sum.splits)

text \<open>The refusals of a downstream use have a status the ledger accepts.\<close>

lemma record_use_status:
  "post (record_accepted_downstream_use g client) w (\<lambda>r _. case r of Inl e \<Rightarrow> status_ok (Some (rp_status e)) | Inr _ \<Rightarrow> True)"
proof -
  have "status_ok (Some (rp_status downstream_unauthorized))"
    by (simp add: downstream_unauthorized_def openai_error_def json_response_def insert_header_def status_ok_def)
  then show ?thesis
    unfolding record_accepted_downstream_use_def
    by (auto simp: openai_error_def store_unavailable_def json_response_def status_ok_def
        intro!: post_mono [OF post_any] split: option.split sum.split authentication_error.split)
qed

lemma record_use_or_close_ok:
  assumes "running rid (Trying key) w"
  shows "post (record_use_or_close g client) w
    (\<lambda>r w'. case r of Inl _ \<Rightarrow> left rid w' | Inr _ \<Rightarrow> running rid (Trying key) w')"
proof -
  have "post (record_accepted_downstream_use g client) w (\<lambda>r w'. aside w w' \<and>
      (case r of Inl e \<Rightarrow> status_ok (Some (rp_status e)) | Inr _ \<Rightarrow> True))"
    unfolding post_conj using record_use_status evolves_post [OF record_use_aside] by blast
  then show ?thesis
    unfolding record_use_or_close_def
  proof (subst post_bind, elim post_mono)
    fix r :: "http_response + unit" and w'
    assume r: "aside w w' \<and> (case r of Inl e \<Rightarrow> status_ok (Some (rp_status e)) | Inr _ \<Rightarrow> True)"
    have w': "running rid (Trying key) w'" using r assms aside_running by blast
    show "post (case r of
        Inl response \<Rightarrow> do {
          _ \<leftarrow> with_evidence (finish_with_open_attempts_silently
            \<lparr>rv_outcome = ''failed'', rv_status = Some (rp_status response),
             rv_error = ''downstream_credential_usage_record_failed'', rv_ttfb = None, rv_bytes = 0\<rparr>);
          answer response
        }
      | Inr _ \<Rightarrow> yield_ok ()) w' (\<lambda>r w'. case r of Inl _ \<Rightarrow> left rid w' | Inr _ \<Rightarrow> running rid (Trying key) w')"
    proof (cases r)
      case (Inl response)
      then have "recovery_ok \<lparr>rv_outcome = ''failed'', rv_status = Some (rp_status response),
             rv_error = ''downstream_credential_usage_record_failed'', rv_ttfb = None, rv_bytes = 0\<rparr>"
        using r by (simp add: recovery_ok_def error_ok_def)
      from finish_open_handler [OF trying_still [OF w'] this] show ?thesis
        by (simp add: Inl) (elim post_mono, auto dest: closed_or_running_left)
    qed (use w' in simp)
  qed
qed

context key_turns begin

lemma admit_and_run_ok:
  assumes "phase_is rid Absent w" "rq_id req = Some rid" "\<And>n. 0 < key_attempts n"
  shows "post (admit_and_run g req client request stream key_attempts play) w (handler_ok rid w)"
  unfolding admit_and_run_def
proof (subst post_bind, rule aside_post [OF next_tick_aside])
  fix t w' assume a: "aside w w'"
  have absent: "phase_is rid Absent w'" using a assms(1) by (rule aside_phase)
  have lost: "\<not> no_lost_answer w' \<Longrightarrow> \<not> no_lost_answer w" using no_lost_aside [OF a] by blast
  have rid: "request_id (tk_uuid t) req = rid" by (simp add: request_id_def assms(2) unwrap_or_def)
  let ?c = "\<lambda>profile first_key keys. \<lparr>ca_request = request, ca_id = rid, ca_client = client,
     ca_profile = profile, ca_stream = stream, ca_first_key = first_key, ca_key_attempts = key_attempts (length keys)\<rparr>"
  let ?run = "\<lambda>profile first_key. do {
        keys \<leftarrow> store_list;
        let c = ?c profile first_key keys;
        run_loop (play c) c
      }"
  have run: "post (?run profile first_key) v (handler_ok rid w)"
    if "running rid (Trying first_key) v" for profile first_key v
    unfolding Let_def
    by (rule aside_bind [OF reads_aside(1) that], rule post_mono, rule run_loop_ok)
      (auto simp: handler_ok_def assms(3))
  have admitted: "post (or_reply (record_use_or_close g client) (\<lambda>_. ?run profile first_key)) w'' (handler_ok rid w)"
    if r: "running rid (Trying first_key) w''" for first_key profile w''
    unfolding post_or_reply
    by (rule post_mono [OF record_use_or_close_ok [OF r]])
      (use run in \<open>auto simp: handler_ok_def split: sum.splits simp del: post_bind\<close>)
  show "post (let rid = request_id (tk_uuid t) req; profile = unwrap_or (hd PROFILES) (get_str ''model'' request)
     in or_reply
       (admit_and_start_selected g rid client (rq_path req) profile stream (modality_for_path (rq_path req)))
       (\<lambda>first_key.
          or_reply (record_use_or_close g client) (\<lambda>_. do {
            keys \<leftarrow> store_list;
            let c = \<lparr>ca_request = request, ca_id = rid, ca_client = client, ca_profile = profile,
                     ca_stream = stream, ca_first_key = first_key, ca_key_attempts = key_attempts (length keys)\<rparr>;
            run_loop (play c) c
          }))) w' (handler_ok rid w)"
    unfolding rid Let_def [of "rid"] Let_def [of "unwrap_or (hd PROFILES) (get_str ''model'' request)"]
    by (subst post_or_reply, rule post_mono [OF admit_ok [OF absent]])
      (use admitted lost in \<open>auto simp: admission_ok_def handler_ok_def left_def split: sum.splits simp del: post_or_reply\<close>)
qed

end

lemma chat_prologue_aside: "evolves aside (chat_prologue g req payload)"
  unfolding chat_prologue_def by (intro aside_intros authorize_scope_aside)

lemma media_prologue_aside: "evolves aside (media_prologue g req payload)"
  unfolding media_prologue_def by (intro aside_intros authorize_scope_aside)

text \<open>The drop of the handler's locals settles what it left running.\<close>

lemma scoped_ok:
  assumes "post m w (handler_ok rid w0)"
  shows "post (scoped m) w (\<lambda>r w'. case r of
      Plain response \<Rightarrow> settled rid w' \<or> response = evidence_unavailable \<and> \<not> no_lost_answer w0
    | Streaming _ _ cs \<Rightarrow> body_ok rid (cs_guard cs) w')"
  unfolding scoped_def post_bind
proof (rule post_mono [OF assms])
  fix r w' assume r: "handler_ok rid w0 r w'"
  have dropped: "post (drop_evidence (w_evidence w')) (w'\<lparr>w_evidence := no_evidence\<rparr>) (\<lambda>_. settled rid)"
    if "left rid w'"
  proof (cases "settled rid w'")
    case True
    then show ?thesis by (auto simp: drop_evidence_def settled_def)
  next
    case False
    then have "evidence_open rid (w_evidence w') (w_clock w')" "alive rid w'"
      using that by (auto simp: left_def still_running_def)
    then show ?thesis by (intro drop_evidence_settles) simp_all
  qed
  have body: "post (drop_evidence (w_evidence w')) (w'\<lparr>w_evidence := no_evidence\<rparr>) (\<lambda>_. body_ok rid sg)"
    if "body_ok rid sg w'" for sg
    using that by (auto simp: drop_evidence_def body_ok_def guard_open_def)
  show "post take_evidence w' (\<lambda>e w'. post (drop_evidence e) w' (\<lambda>_ w'. post (State_Monad.return r) w' (\<lambda>r w'. case r of
      Plain response \<Rightarrow> settled rid w' \<or> response = evidence_unavailable \<and> \<not> no_lost_answer w0
    | Streaming _ _ cs \<Rightarrow> body_ok rid (cs_guard cs) w')))"
  proof (cases r)
    case (Plain response)
    then show ?thesis
      using r dropped by (auto simp: handler_ok_def intro: post_mono post_mono [OF post_any])
  next
    case (Streaming status hs cs)
    then show ?thesis using r body by (simp add: handler_ok_def)
  qed
qed

definition reply_settles :: "uuid \<Rightarrow> world \<Rightarrow> reply \<Rightarrow> world \<Rightarrow> bool" where
  "reply_settles rid w0 r w =
     (case r of
        Plain response \<Rightarrow> settled rid w \<or> response = evidence_unavailable \<and> \<not> no_lost_answer w0
      | Streaming _ _ cs \<Rightarrow> body_ok rid (cs_guard cs) w)"

text \<open>The frame both handlers share: the guard, a prologue that admits nothing, then the loop.\<close>

lemma guarded_ok:
  assumes "phase_is rid Absent w" "evolves aside prologue"
    "\<And>x w'. phase_is rid Absent w' \<Longrightarrow> post (run x) w' (handler_ok rid w')"
  shows "post (scoped (guarded g req (or_reply prologue run))) w (reply_settles rid w)"
  unfolding guarded_def reply_settles_def
proof (rule scoped_ok, subst post_bind, rule aside_post [OF next_tick_aside])
  fix t w' assume a: "aside w w'"
  have absent: "phase_is rid Absent w'" using a assms(1) by (rule aside_phase)
  have "post (or_reply prologue run) w' (handler_ok rid w)"
    unfolding post_or_reply
  proof (rule aside_post [OF assms(2)])
    fix r :: "http_response + 'a" and w'' assume b: "aside w' w''"
    have absent': "phase_is rid Absent w''" using b absent by (rule aside_phase)
    have "\<not> no_lost_answer w'' \<Longrightarrow> \<not> no_lost_answer w" using no_lost_aside [OF a] no_lost_aside [OF b] by blast
    then have "post (run x) w'' (handler_ok rid w)" for x
      by (intro post_mono [OF assms(3) [OF absent']]) (auto simp: handler_ok_def)
    then show "case r of Inl response \<Rightarrow> handler_ok rid w (Plain response) w''
      | Inr x \<Rightarrow> post (run x) w'' (handler_ok rid w)"
      using absent' by (auto simp: handler_ok_def left_def settled_def split: sum.split)
  qed
  then show "post (case public_guard_response (tk_uuid t) (gw_public_port g) req of
       Some response \<Rightarrow> State_Monad.return (Plain response) | None \<Rightarrow> or_reply prologue run) w' (handler_ok rid w)"
    using absent by (auto simp: handler_ok_def left_def settled_def split: option.split simp del: post_or_reply)
qed

lemma chat_completions_ok:
  assumes "phase_is rid Absent w" "rq_id req = Some rid"
  shows "post (chat_completions g req payload) w (reply_settles rid w)"
  unfolding chat_completions_def
  by (rule guarded_ok [OF assms(1) chat_prologue_aside])
    (use chat_turns.admit_and_run_ok [OF _ assms(2)] in \<open>auto split: prod.split\<close>)

lemma media_key_attempts_pos: "0 < media_key_attempts path n"
  by (auto simp: media_key_attempts_def max_def)

lemma multimodal_ok:
  assumes "phase_is rid Absent w" "rq_id req = Some rid"
  shows "post (multimodal g req payload) w (reply_settles rid w)"
  unfolding multimodal_def
  by (rule guarded_ok [OF assms(1) media_prologue_aside])
    (use media_turns.admit_and_run_ok [OF _ assms(2) media_key_attempts_pos] in \<open>auto split: prod.split\<close>)

section \<open>Every admitted request is closed\<close>

text \<open>A client of a handler: it reads at most \<open>n\<close> frames of a streaming body and drops it.\<close>

definition serve :: "nat \<Rightarrow> gateway \<Rightarrow> reply program \<Rightarrow> (reply \<times> bytes list) program" where
  "serve n g handler = do {
     r \<leftarrow> handler;
     case r of
       Plain response \<Rightarrow> State_Monad.return (r, [])
     | Streaming status hs cs \<Rightarrow> do {
         frames \<leftarrow> read_stream n g cs;
         State_Monad.return (r, frames)
       }
   }"

definition nothing_open :: "uuid \<Rightarrow> world \<Rightarrow> bool" where
  "nothing_open rid w =
     (case w_db w of
        None \<Rightarrow> False
      | Some d \<Rightarrow>
          list_all (\<lambda>r. pr_request_id r = rid \<longrightarrow> pr_outcome r \<noteq> ''started'') (db_requests d) \<and>
          list_all (\<lambda>a. ra_request_id a = rid \<longrightarrow> ra_finished_at a \<noteq> None) (db_attempts d))"

text \<open>What was spawned is run to its end, on a database that answers.\<close>

definition after_tasks :: "(world \<Rightarrow> bool) \<Rightarrow> world \<Rightarrow> bool" where
  "after_tasks P w = post (run_tasks (length (w_tasks w))) (w\<lparr>w_ticks := []\<rparr>) (\<lambda>_. P)"

lemma over_nothing_open:
  assumes "over rid w"
  shows "nothing_open rid w"
proof -
  obtain d where d: "w_db w = Some d" "ledger_inv d" "open_attempts rid d = []"
    "rid \<notin> pr_request_id ` set (db_requests d) \<or>
     (\<exists>r \<in> set (db_requests d). pr_request_id r = rid \<and> pr_outcome r \<noteq> ''started'')"
    using assms by (auto simp: over_def phase_is_def on_track_def in_phase_def)
  have "pr_outcome r \<noteq> ''started''" if r: "r \<in> set (db_requests d)" "pr_request_id r = rid" for r
  proof -
    have "inj_on pr_request_id (set (db_requests d))"
      using d(2) by (simp add: ledger_inv_def distinct_map)
    then show ?thesis using d(4) r by (auto dest: inj_onD)
  qed
  then show ?thesis
    using d(1,3) by (auto simp: nothing_open_def list_all_iff open_attempts_def filter_empty_conv)
qed

lemma settled_after_tasks: "settled rid w \<Longrightarrow> after_tasks (nothing_open rid) w"
  unfolding after_tasks_def by (rule post_mono [OF settled_over [of rid]]) (auto intro: over_nothing_open)

lemma serve_closes:
  assumes "post handler w (reply_settles rid w)"
  shows "post (serve n g handler) w (\<lambda>r w'.
    after_tasks (nothing_open rid) w' \<or> fst r = Plain evidence_unavailable \<and> \<not> no_lost_answer w)"
  unfolding serve_def post_bind
  by (rule post_mono [OF assms])
    (auto simp: reply_settles_def split: reply.splits intro: settled_after_tasks post_mono [OF read_stream_settles])

text \<open>
  C37. A request of either handler that was not in the ledger before leaves no open row of its own
  behind, whatever statement, vault write or provider call fails while it is served, and whichever
  frame of a streaming body its client reads last: once the work spawned for it has run on a database
  that answers, its request row is not in the started state and all of its attempts are finished. The
  one exception is answered as unavailable evidence, and needs a commit whose answer was lost.

  What the statement assumes. No QA run has armed a failure after the first frame: with such a fixture
  \<open>chat_completions\<close> answers a request that does not stream by closing its row and leaving its attempt
  open. The handler runs to its answer: a client that leaves is one that stops reading the body, the
  cancellation of the handler's future at an await is not modelled. And the spawned work meets no
  failure: what it cannot write is left to the recovery of the next start.
\<close>

theorem request_always_closed:
  assumes "w_db w = Some d" "w_owner w = Some owner" "ledger_inv d" "no_post_frame_fixture d"
    "in_phase owner rid Absent d" "rq_id req = Some rid"
    "handler = chat_completions g req payload \<or> handler = multimodal g req payload"
  shows "post (serve n g handler) w (\<lambda>r w'.
    after_tasks (nothing_open rid) w' \<or> fst r = Plain evidence_unavailable \<and> \<not> no_lost_answer w)"
proof -
  have "phase_is rid Absent w" using assms(1-5) by (simp add: phase_is_def on_track_def)
  then show ?thesis
    using assms(6,7) chat_completions_ok multimodal_ok by (intro serve_closes) auto
qed

definition demo_ledger :: db where
  "demo_ledger = demo_db\<lparr>db_instances := [\<lparr>in_id = ''o'', in_last_seen = 0\<rparr>]\<rparr>"

definition demo_call :: http_request where
  "demo_call = \<lparr>rq_method = ''POST'', rq_path = ''/v1/chat/completions'', rq_headers = [], rq_id = Some ''r''\<rparr>"

lemma request_always_closed_witness:
  "\<forall>g n payload. post (serve n g (chat_completions g demo_call payload))
     (demo_world\<lparr>w_db := Some demo_ledger, w_owner := Some ''o''\<rparr>) (\<lambda>_ w'. after_tasks (nothing_open ''r'') w')"
proof (intro allI)
  fix g n payload
  let ?w = "demo_world\<lparr>w_db := Some demo_ledger, w_owner := Some ''o''\<rparr>"
  have "no_lost_answer ?w" by (simp add: no_lost_answer_def demo_world_def)
  moreover have "post (serve n g (chat_completions g demo_call payload)) ?w (\<lambda>r w'.
      after_tasks (nothing_open ''r'') w' \<or> fst r = Plain evidence_unavailable \<and> \<not> no_lost_answer ?w)"
    by (rule request_always_closed [where d = demo_ledger and owner = "''o''" and req = demo_call and payload = payload])
      (simp_all add: demo_ledger_def demo_db_def ledger_inv_def attempt_numbers_def no_post_frame_fixture_def
        in_phase_def open_attempts_def demo_call_def)
  ultimately show "post (serve n g (chat_completions g demo_call payload)) ?w (\<lambda>_ w'. after_tasks (nothing_open ''r'') w')"
    by simp
qed

end
