(* ===== verification/Cutover_Text.thy ===== *)
theory Cutover_Text
  imports Requests "HOL-Library.List_Lexorder" "HOL-Library.Char_ord"
begin

text \<open>
  The pure part of the cutover tool (\<open>bin/nblb-hermes-cutover.rs\<close>): its command line, the edits of
  the dotenv and YAML files, the names it accepts, the allowlist of docker commands, the search for
  credentials in streams and the decisions taken from a journal or a QA run. \<open>Uuid::parse_str\<close> is
  the parameter \<open>parse_uuid\<close>; an error is \<open>None\<close>, its text only reaches the console.
\<close>

section \<open>Command line\<close>

datatype action = Preflight | Apply | Verify | Retire_backup | Version

record options =
  op_action :: action
  op_qa_run :: "uuid option"
  op_generation :: "uuid option"
  op_provider_revoked :: bool

definition parse_action :: "str list \<Rightarrow> action option" where
  "parse_action args =
     (if args = [''apply''] then Some Apply
      else if args = [''preflight''] then Some Preflight
      else if args = [''verify''] then Some Verify
      else if args = [''retire-backup''] then Some Retire_backup
      else if args = [''version''] \<or> args = [''--version''] then Some Version
      else None)"

record scanned =
  sc_positional :: "str list"
  sc_qa_run :: "uuid option"
  sc_generation :: "uuid option"
  sc_revoked :: bool

fun scan_arguments :: "(str \<Rightarrow> uuid option) \<Rightarrow> str list \<Rightarrow> scanned \<Rightarrow> scanned option" where
  "scan_arguments parse_uuid [] s = Some s"
| "scan_arguments parse_uuid [a] s =
     (if a = ''--qa-run'' \<or> a = ''--generation'' then None
      else if a = ''--confirm-provider-revoked''
      then (if sc_revoked s then None else Some (s\<lparr>sc_revoked := True\<rparr>))
      else Some (s\<lparr>sc_positional := sc_positional s @ [a]\<rparr>))"
| "scan_arguments parse_uuid (a # b # rest) s =
     (if a = ''--qa-run''
      then (if sc_qa_run s \<noteq> None then None
            else (case parse_uuid b of
                    None \<Rightarrow> None
                  | Some i \<Rightarrow> scan_arguments parse_uuid rest (s\<lparr>sc_qa_run := Some i\<rparr>)))
      else if a = ''--generation''
      then (if sc_generation s \<noteq> None then None
            else (case parse_uuid b of
                    None \<Rightarrow> None
                  | Some i \<Rightarrow> scan_arguments parse_uuid rest (s\<lparr>sc_generation := Some i\<rparr>)))
      else if a = ''--confirm-provider-revoked''
      then (if sc_revoked s then None else scan_arguments parse_uuid (b # rest) (s\<lparr>sc_revoked := True\<rparr>))
      else scan_arguments parse_uuid (b # rest) (s\<lparr>sc_positional := sc_positional s @ [a]\<rparr>))"

definition parse_options :: "(str \<Rightarrow> uuid option) \<Rightarrow> str list \<Rightarrow> options option" where
  "parse_options parse_uuid arguments =
     Option.bind (scan_arguments parse_uuid arguments
         \<lparr>sc_positional = [], sc_qa_run = None, sc_generation = None, sc_revoked = False\<rparr>) (\<lambda>s.
       Option.bind (parse_action (sc_positional s)) (\<lambda>act.
         if sc_qa_run s \<noteq> None \<and> act \<noteq> Apply then None
         else if act = Apply \<and> sc_qa_run s = None then None
         else if act = Retire_backup \<and> (sc_generation s = None \<or> \<not> sc_revoked s) then None
         else if act \<noteq> Retire_backup \<and> (sc_generation s \<noteq> None \<or> sc_revoked s) then None
         else Some \<lparr>op_action = act, op_qa_run = sc_qa_run s, op_generation = sc_generation s,
                    op_provider_revoked = sc_revoked s\<rparr>))"

section \<open>Names\<close>

definition TARGETS :: "str list" where
  "TARGETS = [''hermes.env'', ''config.yaml'', ''manifest.json'', ''journal.json'']"

definition atomic_temp_name_matches :: "(str \<Rightarrow> uuid option) \<Rightarrow> str \<Rightarrow> str \<Rightarrow> bool" where
  "atomic_temp_name_matches parse_uuid name target \<longleftrightarrow>
     Option.bind (Option.bind (strip_prefix (''.'' @ target @ ''.'') name) (strip_suffix ''.tmp'')) parse_uuid \<noteq> None"

definition snapshot_stage_entry_allowed :: "(str \<Rightarrow> uuid option) \<Rightarrow> str \<Rightarrow> bool" where
  "snapshot_stage_entry_allowed parse_uuid name \<longleftrightarrow>
     name \<in> set TARGETS \<or> list_ex (atomic_temp_name_matches parse_uuid name) TARGETS"

definition staging_generation :: "(str \<Rightarrow> uuid option) \<Rightarrow> str \<Rightarrow> uuid option" where
  "staging_generation parse_uuid name = Option.bind (strip_prefix ''.staging-'' name) parse_uuid"

definition valid_image_id :: "str \<Rightarrow> bool" where
  "valid_image_id value =
     is_some_and (\<lambda>digest. length digest = 64 \<and> list_all is_ascii_hexdigit digest) (strip_prefix ''sha256:'' value)"

definition valid_marker_path :: "(str \<Rightarrow> uuid option) \<Rightarrow> str \<Rightarrow> bool" where
  "valid_marker_path parse_uuid path \<longleftrightarrow>
     Option.bind (strip_prefix ''/tmp/nblb-hermes-e2e-'' path) parse_uuid \<noteq> None"

definition marker_path :: "uuid \<Rightarrow> str" where
  "marker_path generation = ''/tmp/nblb-hermes-e2e-'' @ show_uuid generation"

text \<open>\<open>{byte:02X}\<close>.\<close>

definition upper_hex_digit :: "nat \<Rightarrow> byte" where
  "upper_hex_digit n = (if n < 10 then char_of (48 + n) else char_of (55 + n))"

definition percent_encode_query :: "str \<Rightarrow> str" where
  "percent_encode_query value =
     concat (map (\<lambda>b.
       if is_ascii_alphanumeric b \<or> b \<in> set ''-._~'' then [b]
       else [CHR ''%'', upper_hex_digit (code b div 16), upper_hex_digit (code b mod 16)]) value)"

definition valid_commit :: "str \<Rightarrow> str option \<Rightarrow> str option" where
  "valid_commit embedded expected =
     (case expected of
        None \<Rightarrow> None
      | Some e \<Rightarrow>
          if length e \<noteq> 40 \<or> \<not> list_all is_ascii_hexdigit e then None
          else if embedded \<noteq> e then None else Some e)"

section \<open>Files that must be private\<close>

record metadata =
  md_file :: bool
  md_dir :: bool
  md_symlink :: bool
  md_uid :: nat
  md_gid :: nat
  md_mode :: nat
  md_nlink :: nat

definition permission_bits :: "nat \<Rightarrow> nat" where "permission_bits mode = mode mod 512"

definition secure_file :: "bool \<Rightarrow> nat \<Rightarrow> nat \<Rightarrow> metadata \<Rightarrow> bool" where
  "secure_file require_single_link expected_uid expected_gid m \<longleftrightarrow>
     md_file m \<and> \<not> md_symlink m \<and> md_uid m = expected_uid \<and> md_gid m = expected_gid \<and>
     permission_bits (md_mode m) = 384 \<and> (require_single_link \<longrightarrow> md_nlink m = 1)"

definition secure_directory :: "nat \<Rightarrow> nat \<Rightarrow> metadata \<Rightarrow> bool" where
  "secure_directory expected_uid expected_gid m \<longleftrightarrow>
     md_dir m \<and> \<not> md_symlink m \<and> md_uid m = expected_uid \<and> md_gid m = expected_gid \<and>
     permission_bits (md_mode m) = 448"

definition real_directory :: "metadata \<Rightarrow> bool" where
  "real_directory m \<longleftrightarrow> md_dir m \<and> \<not> md_symlink m"

text \<open>The ancestors between the root and the directory, then the directory itself.\<close>

definition valid_root_directory :: "metadata list \<Rightarrow> metadata \<Rightarrow> bool" where
  "valid_root_directory ancestors m \<longleftrightarrow> list_all (\<lambda>a. \<not> md_symlink a) ancestors \<and> secure_directory 0 0 m"

text \<open>\<open>str::replace\<close>, and the mount points of \<open>/proc/self/mountinfo\<close>.\<close>

definition replace_all :: "str \<Rightarrow> str \<Rightarrow> str \<Rightarrow> str" where
  "replace_all from to s =
     (case split_str from s of [] \<Rightarrow> [] | p # ps \<Rightarrow> p @ concat (map (\<lambda>q. to @ q) ps))"

definition unescape_mount_path :: "str \<Rightarrow> str" where
  "unescape_mount_path value =
     (let b = [CHR 0x5C]
      in replace_all (b @ ''134'') b (replace_all (b @ ''012'') [LF]
           (replace_all (b @ ''011'') [CHR 0x09] (replace_all (b @ ''040'') '' '' value))))"

fun words_of :: "bytes \<Rightarrow> (nat \<times> bytes) list \<Rightarrow> str list" where
  "words_of acc [] = [acc]"
| "words_of acc ((n, b) # gs) = (if is_whitespace n then acc # words_of [] gs else words_of (acc @ b) gs)"

definition split_whitespace :: "str \<Rightarrow> str list" where
  "split_whitespace s =
     (case utf8_segments s of None \<Rightarrow> [s] | Some gs \<Rightarrow> filter (\<lambda>w. w \<noteq> []) (words_of [] gs))"

definition is_mountpoint :: "str \<Rightarrow> str \<Rightarrow> bool" where
  "is_mountpoint mountinfo canonical \<longleftrightarrow>
     list_ex (\<lambda>line. map_option unescape_mount_path (nth_piece 4 (split_whitespace line)) = Some canonical)
       (lines mountinfo)"

definition parse_u32 :: "str \<Rightarrow> nat option" where
  "parse_u32 = parse_unsigned 4294967295"

text \<open>\<open>require_root\<close> on the text of \<open>/proc/self/status\<close>.\<close>

definition is_root :: "str \<Rightarrow> bool" where
  "is_root status =
     (case List.map_filter (strip_prefix ''Uid:'') (lines status) of
        [] \<Rightarrow> False
      | v # _ \<Rightarrow> Option.bind (nth_piece 1 (split_whitespace v)) parse_u32 = Some 0)"

definition trim_end_newlines :: "str \<Rightarrow> str" where
  "trim_end_newlines s = rev (dropWhile (\<lambda>c. c = CR \<or> c = LF) (rev s))"

text \<open>\<open>read_secret\<close> on the file's text.\<close>

definition secret_of :: "str \<Rightarrow> str option" where
  "secret_of text = (let v = trim_end_newlines text in if v = [] then None else Some v)"

section \<open>Edits\<close>

definition join_text :: "str list \<Rightarrow> str" where
  "join_text ls = concat (map (\<lambda>l. l @ [LF]) ls)"

text \<open>The code joins with line feeds and adds one: with no line at all that is one line feed.\<close>

definition joined :: "str list \<Rightarrow> str" where
  "joined ls = (if ls = [] then [LF] else join_text ls)"

definition assigns :: "str \<Rightarrow> str \<Rightarrow> bool" where
  "assigns key line = is_some_and (\<lambda>(name, _). trim name = key) (split_once (CHR ''='') line)"

definition dotenv_lines :: "str \<Rightarrow> str \<Rightarrow> str list \<Rightarrow> str list" where
  "dotenv_lines key v ls =
     (let entry = key @ ''='' @ v; changed = map (\<lambda>l. if assigns key l then entry else l) ls
      in if list_ex (assigns key) ls then changed else changed @ [entry])"

definition update_dotenv :: "str \<Rightarrow> str \<Rightarrow> str \<Rightarrow> str" where
  "update_dotenv existing key v = joined (dotenv_lines key v (lines existing))"

definition trim_end :: "str \<Rightarrow> str" where
  "trim_end s =
     (case utf8_segments s of
        None \<Rightarrow> s
      | Some gs \<Rightarrow> concat (map snd (rev (dropWhile (is_whitespace \<circ> fst) (rev gs)))))"

definition starts_with_whitespace :: "str \<Rightarrow> bool" where
  "starts_with_whitespace s = (case utf8_segments s of Some ((n, _) # _) \<Rightarrow> is_whitespace n | _ \<Rightarrow> False)"

definition position :: "('a \<Rightarrow> bool) \<Rightarrow> 'a list \<Rightarrow> nat option" where
  "position p xs = (let i = length (takeWhile (\<lambda>x. \<not> p x) xs) in if i < length xs then Some i else None)"

text \<open>The lines with a root \<open>model:\<close> line, and its index.\<close>

definition with_model_line :: "str list \<Rightarrow> str list \<times> nat" where
  "with_model_line ls =
     (case position (\<lambda>l. trim_end l = ''model:'') ls of
        Some i \<Rightarrow> (ls, i)
      | None \<Rightarrow>
          (let ls = (if ls \<noteq> [] \<and> last ls \<noteq> [] then ls @ [[]] else ls)
           in (ls @ [''model:''], length ls)))"

text \<open>The mapping ends at the next line that is neither empty, indented nor a comment.\<close>

definition ends_mapping :: "str \<Rightarrow> bool" where
  "ends_mapping l \<longleftrightarrow> l \<noteq> [] \<and> \<not> starts_with '' '' l \<and> \<not> starts_with ''#'' l"

definition mapping_end :: "nat \<Rightarrow> str list \<Rightarrow> nat" where
  "mapping_end start ls =
     (case position ends_mapping (drop (start + 1) ls) of Some i \<Rightarrow> start + 1 + i | None \<Rightarrow> length ls)"

definition MODEL_FIELDS :: "(str \<times> str) list" where
  "MODEL_FIELDS =
     [(''provider'', ''nvidia''), (''default'', ''z-ai/glm-5.2''), (''base_url'', ''http://127.0.0.1:2456/v1'')]"

definition field_prefix :: "str \<Rightarrow> str" where "field_prefix key = ''  '' @ key @ '':''"
definition field_line :: "str \<Rightarrow> str \<Rightarrow> str" where "field_line key v = field_prefix key @ '' '' @ v"

definition set_field :: "nat \<Rightarrow> str \<times> str \<Rightarrow> str list \<times> nat \<Rightarrow> (str list \<times> nat) option" where
  "set_field start field state =
     (let (key, v) = field; (ls, insert_at) = state;
          matches = filter (\<lambda>i. starts_with (field_prefix key) (ls ! i)) [start + 1..<insert_at]
      in case matches of
           [] \<Rightarrow> Some (take insert_at ls @ [field_line key v] @ drop insert_at ls, insert_at + 1)
         | [i] \<Rightarrow> Some (ls[i := field_line key v], insert_at)
         | _ \<Rightarrow> None)"

fun set_fields :: "nat \<Rightarrow> (str \<times> str) list \<Rightarrow> str list \<times> nat \<Rightarrow> (str list \<times> nat) option" where
  "set_fields start [] state = Some state"
| "set_fields start (f # fs) state = Option.bind (set_field start f state) (set_fields start fs)"

definition yaml_lines :: "str list \<Rightarrow> str list option" where
  "yaml_lines ls =
     (if list_ex (\<lambda>l. CHR 0x09 \<in> set l) ls then None
      else (let (ls, start) = with_model_line ls
            in if starts_with_whitespace (ls ! start) then None
               else map_option fst (set_fields start MODEL_FIELDS (ls, mapping_end start ls))))"

definition update_yaml :: "str \<Rightarrow> str option" where
  "update_yaml existing = map_option joined (yaml_lines (lines existing))"

section \<open>The search for credentials\<close>

text \<open>\<open>slice::windows\<close> for a length that is not 0, and the number of windows equal to the pattern.\<close>

definition windows :: "nat \<Rightarrow> 'a list \<Rightarrow> 'a list list" where
  "windows n xs = map (\<lambda>i. take n (drop i xs)) [0..<length xs + 1 - n]"

definition count_pattern :: "bytes \<Rightarrow> bytes \<Rightarrow> nat" where
  "count_pattern b pattern = length (filter (\<lambda>w. w = pattern) (windows (length pattern) b))"

text \<open>One read: what was retained of the earlier ones and the new bytes.\<close>

definition scan_chunk :: "bytes \<Rightarrow> bytes \<Rightarrow> bytes \<times> nat \<Rightarrow> bytes \<times> nat" where
  "scan_chunk pattern chunk state =
     (let (overlap, count) = state; window = overlap @ chunk;
          retained = min (length pattern - 1) (length window)
      in (drop (length window - retained) window, sat_add_u64 count (count_pattern window pattern)))"

text \<open>\<open>file_pattern_matches\<close>, over the non-empty reads of the file.\<close>

definition file_pattern_matches :: "bytes \<Rightarrow> bytes list \<Rightarrow> nat" where
  "file_pattern_matches pattern chunks = snd (fold (scan_chunk pattern) chunks ([], 0))"

definition count_patterns_reader :: "bytes list \<Rightarrow> bytes list \<Rightarrow> nat list option" where
  "count_patterns_reader patterns chunks =
     (if [] \<in> set patterns then None else Some (map (\<lambda>p. file_pattern_matches p chunks) patterns))"

definition add_counts :: "nat list \<Rightarrow> nat list \<Rightarrow> nat list" where
  "add_counts counts new_counts =
     map2 sat_add_u64 counts new_counts @ drop (length new_counts) counts"

definition pattern_match_total :: "nat list \<Rightarrow> nat" where
  "pattern_match_total counts = foldl sat_add_u64 0 counts"

definition nvidia_credential_prefix :: bytes where "nvidia_credential_prefix = ''nvapi-''"

definition authorization_pattern :: "bool \<Rightarrow> bytes \<Rightarrow> bytes" where
  "authorization_pattern title_case credential_prefix =
     (if title_case then ''Bearer '' else ''bearer '') @ credential_prefix"

definition sensitive_patterns :: "str \<Rightarrow> str \<Rightarrow> bytes list" where
  "sensitive_patterns issued admin_token =
     [nvidia_credential_prefix, ''nblb_ds_'', ''nblb_admin_'', issued, admin_token,
      authorization_pattern True nvidia_credential_prefix, authorization_pattern True ''nblb_ds_'',
      authorization_pattern True ''nblb_admin_'', authorization_pattern False nvidia_credential_prefix,
      authorization_pattern False ''nblb_ds_'', authorization_pattern False ''nblb_admin_'']"

definition OUTPUT_LIMIT :: nat where "OUTPUT_LIMIT = 64 * 1024"

text \<open>\<open>read_bounded_output\<close>: at most the limit is kept, and whether something was cut.\<close>

definition keep_output :: "bytes \<Rightarrow> bytes \<times> bool \<Rightarrow> bytes \<times> bool" where
  "keep_output chunk state =
     (let (retained, exceeded) = state; remaining = OUTPUT_LIMIT - length retained
      in (retained @ take (min (length chunk) remaining) chunk, exceeded \<or> remaining < length chunk))"

definition read_bounded_output :: "bytes list \<Rightarrow> bytes \<times> bool" where
  "read_bounded_output chunks = fold keep_output chunks ([], False)"

definition bounded_text :: "bytes \<Rightarrow> str" where
  "bounded_text b = utf8_lossy (take OUTPUT_LIMIT b)"

text \<open>The assets the public index names, sorted and without duplicates; \<open>None\<close> is too many.\<close>

definition public_asset_paths :: "bytes \<Rightarrow> str list option" where
  "public_asset_paths index =
     (let pieces = concat (map (split_on (CHR 0x22)) (split_on (CHR 0x27) (utf8_lossy index)));
          assets = remdups_adj (sort (filter (\<lambda>v. starts_with ''/_app/'' v \<and> \<not> has_sub ''..'' v \<and>
                     set v \<inter> {CR, LF, CHR 0x5C} = {}) pieces))
      in if 128 < length assets then None else Some assets)"

section \<open>Docker commands\<close>

definition CONTAINER :: str where "CONTAINER = ''agent-hermes''"
definition APP_CONTAINER :: str where "APP_CONTAINER = ''nvidia-build-lb-app-1''"
definition CLOUDFLARED_CONTAINER :: str where "CLOUDFLARED_CONTAINER = ''cloudflared-apps''"
definition HERMES :: str where "HERMES = ''/opt/hermes/.venv/bin/hermes''"
definition CONTAINERS :: "str list" where "CONTAINERS = [APP_CONTAINER, CONTAINER, CLOUDFLARED_CONTAINER]"

definition TOOL_PROMPT :: str where
  "TOOL_PROMPT = ''Use the terminal tool exactly once to run printf '' @ [CHR 0x27] @ ''NBLB_TOOL_OK'' @ [CHR 0x5C]
     @ ''n'' @ [CHR 0x27] @ '' >> ''"

definition TOOL_PROMPT_END :: str where
  "TOOL_PROMPT_END = '', then reply with exactly: NBLB_TOOL_OK''"

definition allowed_exec_args :: "(str \<Rightarrow> uuid option) \<Rightarrow> str list \<Rightarrow> bool" where
  "allowed_exec_args parse_uuid args \<longleftrightarrow>
     args = [HERMES, ''doctor''] \<or>
     args = [HERMES, ''chat'', ''-Q'', ''--source'', ''tool'', ''--max-turns'', ''1'', ''-q'',
             ''Reply with exactly: NBLB_HERMES_OK''] \<or>
     (length args = 12 \<and> take 11 args = [HERMES, ''chat'', ''-Q'', ''--source'', ''tool'', ''--max-turns'', ''4'',
             ''--yolo'', ''-t'', ''terminal'', ''-q''] \<and>
      starts_with (TOOL_PROMPT @ ''/tmp/nblb-hermes-e2e-'') (args ! 11) \<and>
      ends_with TOOL_PROMPT_END (args ! 11)) \<or>
     (case args of
        [a, b, path] \<Rightarrow> a = ''/usr/bin/stat'' \<and> b = ''--format=%F:%s'' \<and> valid_marker_path parse_uuid path
      | [a, path] \<Rightarrow> a = ''/usr/bin/sha256sum'' \<and> valid_marker_path parse_uuid path
      | [a, b, c, path] \<Rightarrow>
          (a = ''/usr/bin/rm'' \<and> b = ''-f'' \<and> c = ''--'' \<or> a = ''/usr/bin/test'' \<and> b = ''!'' \<and> c = ''-e'') \<and>
          valid_marker_path parse_uuid path
      | _ \<Rightarrow> False)"

definition allowed_docker_args :: "(str \<Rightarrow> uuid option) \<Rightarrow> str list \<Rightarrow> bool" where
  "allowed_docker_args parse_uuid args \<longleftrightarrow>
     args = [''stop'', CONTAINER] \<or> args = [''start'', CONTAINER] \<or>
     list_ex (\<lambda>c. args = [''logs'', c]) CONTAINERS \<or>
     args = [''inspect'', ''--format={{.State.Health.Status}}'', CONTAINER] \<or>
     args = [''logs'', ''--tail'', ''100'', CONTAINER] \<or>
     args = [''logs'', ''--since'', ''24h'', ''--tail'', ''10000'', APP_CONTAINER] \<or>
     list_ex (\<lambda>c. args = [''inspect'', ''--format={{json .Config}}'', c]) CONTAINERS \<or>
     list_ex (\<lambda>c. args = [''inspect'', ''--format={{.Image}}'', c]) CONTAINERS \<or>
     (case args of
        [a, b, c, image_id] \<Rightarrow>
          (a = ''image'' \<and> b = ''inspect'' \<and> c = ''--format={{json .Config}}'' \<or>
           a = ''history'' \<and> b = ''--no-trunc'' \<and> c = ''--format={{json .}}'') \<and> valid_image_id image_id
      | _ \<Rightarrow> False) \<or>
     starts_with [''exec'', ''--workdir'', ''/tmp'', CONTAINER] args \<and> allowed_exec_args parse_uuid (drop 4 args)"

section \<open>Decisions\<close>

record recovery_journal =
  jn_schema :: str
  jn_state :: str
  jn_label :: "str option"
  jn_client :: "uuid option"

datatype recovery_act = No_recovery | Reconcile_committed | Rollback_and_revoke | Revoke_after_rollback

definition recovery_action :: "recovery_journal \<Rightarrow> recovery_act option" where
  "recovery_action j =
     (if jn_schema j \<noteq> ''nblb.hermes-journal.v1'' then None
      else if jn_state j \<in> set [''reconciled'', ''rolled_back'', ''recovered''] then Some No_recovery
      else if jn_state j \<in> set [''committed'', ''reconcile_pending''] then Some Reconcile_committed
      else if jn_state j = ''rollback_cleanup_pending''
      then (if jn_client j = None then None else Some Revoke_after_rollback)
      else if jn_state j \<in> set [''client_operation_prepared'', ''candidate_ready'', ''candidate_applied'']
      then Some Rollback_and_revoke
      else None)"

record qa_run_target =
  qr_id :: uuid
  qr_suite :: str
  qr_live :: bool
  qr_provider_identity :: str
  qr_commit :: str
  qr_status :: str

definition valid_qa_run_target :: "str \<Rightarrow> str \<Rightarrow> uuid \<Rightarrow> qa_run_target \<Rightarrow> bool" where
  "valid_qa_run_target embedded expected_commit requested_id t \<longleftrightarrow>
     qr_id t = requested_id \<and> qr_suite t = ''hermes-e2e'' \<and> qr_live t \<and>
     qr_provider_identity t = ''nvidia_hosted'' \<and> qr_commit t = embedded \<and> qr_commit t = expected_commit \<and>
     qr_status t \<in> set [''running'', ''passed'', ''failed'']"

datatype run_intent = Start_run | Recover_or_confirm_committed

definition qa_run_intent :: "str \<Rightarrow> bool \<Rightarrow> run_intent option" where
  "qa_run_intent status has_matching_recovery =
     (if status = ''running'' then Some Start_run
      else if (status = ''passed'' \<or> status = ''failed'') \<and> has_matching_recovery
      then Some Recover_or_confirm_committed
      else None)"

datatype post_lock_decision = Start_now | Complete_now

definition post_lock_qa_decision :: "str \<Rightarrow> bool \<Rightarrow> post_lock_decision option" where
  "post_lock_qa_decision status local_reconciled =
     (if status = ''running'' then Some Start_now
      else if status = ''passed'' \<and> local_reconciled then Some Complete_now
      else None)"

end
