(* ===== verification/Cutover_Edits.thy ===== *)
theory Cutover_Edits
  imports Cutover_Text
begin

text \<open>The search for credentials does not depend on the reads, and the edits change what they name only.\<close>

section \<open>The search\<close>

lemma windows_append:
  assumes "0 < n" "k = length xs + 1 - n"
  shows "windows n (xs @ ys) = windows n xs @ windows n (drop k xs @ ys)"
proof -
  have k: "k \<le> length xs" "k \<le> length (xs @ ys) + 1 - n" using assms by auto
  have "[0..<k + d] = [0..<k] @ map (\<lambda>i. i + k) [0..<d]" for d
    using upt_add_eq_append [of 0 k d] map_add_upt [of k d] by (metis add.commute le0)
  from this [of "length (xs @ ys) + 1 - n - k"]
  have split: "[0..<length (xs @ ys) + 1 - n] = [0..<k] @ map (\<lambda>i. i + k) [0..<length (xs @ ys) + 1 - n - k]"
    using k(2) by (simp only: le_add_diff_inverse)
  have inside: "take n (drop i (xs @ ys)) = take n (drop i xs)" if "i < k" for i
    using that assms by simp
  have past: "take n (drop (i + k) (xs @ ys)) = take n (drop i (drop k xs @ ys))" for i
    using k(1) by (simp add: add.commute)
  have l: "length (drop k xs @ ys) + 1 - n = length (xs @ ys) + 1 - n - k" using k by simp
  show ?thesis
    unfolding windows_def split map_append map_map l
    using inside past assms(2) by (auto simp: comp_def)
qed

text \<open>The last \<open>n\<close> elements, or all of them.\<close>

definition ending :: "nat \<Rightarrow> 'a list \<Rightarrow> 'a list" where
  "ending n xs = drop (length xs - min n (length xs)) xs"

lemma count_append:
  assumes "p \<noteq> []"
  shows "count_pattern (xs @ ys) p =
    count_pattern xs p + count_pattern (ending (length p - 1) xs @ ys) p"
proof -
  have n: "0 < length p" using assms by simp
  have k: "length xs - min (length p - 1) (length xs) = length xs + 1 - length p"
    using n by (cases "length p") (auto simp: min_def)
  show ?thesis
    unfolding count_pattern_def ending_def k windows_append [OF n refl, of xs ys] by simp
qed

lemma ending_append: "ending n (ending n xs @ ys) = ending n (xs @ ys)"
proof (cases "n \<le> length xs")
  case True
  have e: "ending n xs = drop (length xs - n) xs" "length (ending n xs) = n"
    using True by (simp_all add: ending_def min_absorb1)
  have "ending n (ending n xs @ ys) = drop (length ys) (drop (length xs - n) xs @ ys)"
    unfolding ending_def [of n "ending n xs @ ys"] length_append e(2) by (simp add: e(1))
  also have "\<dots> = drop (length ys + (length xs - n)) xs @ drop (length ys - n) ys"
    using True by (simp add: drop_append)
  also have "length ys + (length xs - n) = length xs + length ys - n" using True by simp
  also have "drop (length xs + length ys - n) xs @ drop (length ys - n) ys = ending n (xs @ ys)"
    using True by (simp add: ending_def)
  finally show ?thesis .
next
  case False
  then show ?thesis by (simp add: ending_def)
qed

lemma scan_chunks:
  assumes "p \<noteq> []"
  shows "fold (scan_chunk p) chunks (ending (length p - 1) xs, min (count_pattern xs p) u64_max) =
    (ending (length p - 1) (xs @ concat chunks), min (count_pattern (xs @ concat chunks) p) u64_max)"
proof (induction chunks arbitrary: xs)
  case (Cons c cs)
  let ?w = "ending (length p - 1) xs @ c"
  have "scan_chunk p c (ending (length p - 1) xs, min (count_pattern xs p) u64_max) =
      (ending (length p - 1) ?w, sat_add_u64 (min (count_pattern xs p) u64_max) (count_pattern ?w p))"
    by (simp add: scan_chunk_def Let_def ending_def)
  also have "\<dots> = (ending (length p - 1) (xs @ c), min (count_pattern (xs @ c) p) u64_max)"
    unfolding ending_append count_append [OF assms, of xs c] by (simp add: sat_add_u64_def min_def)
  finally show ?case using Cons.IH [of "xs @ c"] by simp
qed simp

lemma file_pattern_matches_whole:
  assumes "p \<noteq> []"
  shows "file_pattern_matches p chunks = min (count_pattern (concat chunks) p) u64_max"
proof -
  have "count_pattern [] p = 0" using assms by (simp add: count_pattern_def windows_def)
  then show ?thesis
    using scan_chunks [OF assms, of chunks "[]"] by (simp add: file_pattern_matches_def ending_def)
qed

text \<open>
  C39. The search of a stream for credentials finds exactly the occurrences in the whole stream,
  however the reads cut it, occurrences over several reads included.
\<close>

theorem credential_scan_exact:
  "count_patterns_reader patterns chunks =
     (if [] \<in> set patterns then None
      else Some (map (\<lambda>p. min (count_pattern (concat chunks) p) u64_max) patterns))"
  by (auto simp: count_patterns_reader_def intro!: file_pattern_matches_whole)

section \<open>The dotenv file\<close>

lemma split_once_here: "c \<notin> set xs \<Longrightarrow> split_once c (xs @ c # ys) = Some (xs, ys)"
  by (induction xs) auto

lemma api_key_assigned: "assigns ''NVIDIA_API_KEY'' (''NVIDIA_API_KEY='' @ v)"
proof -
  have "trim ''NVIDIA_API_KEY'' = ''NVIDIA_API_KEY''"
    by (simp add: trim_def trim_segments_def is_whitespace_def code_def)
  moreover have "split_once (CHR ''='') (''NVIDIA_API_KEY'' @ CHR ''='' # v) = Some (''NVIDIA_API_KEY'', v)"
    by (rule split_once_here) simp
  ultimately show ?thesis by (simp add: assigns_def)
qed

lemma filter_replaced:
  assumes "P e"
  shows "filter P (map (\<lambda>l. if P l then e else l) ls) = replicate (length (filter P ls)) e"
    "\<not> Q e \<Longrightarrow> (\<And>l. Q l \<Longrightarrow> \<not> P l) \<Longrightarrow> filter Q (map (\<lambda>l. if P l then e else l) ls) = filter Q ls"
proof -
  show "filter P (map (\<lambda>l. if P l then e else l) ls) = replicate (length (filter P ls)) e"
    using assms by (induction ls) auto
  show "\<not> Q e \<Longrightarrow> (\<And>l. Q l \<Longrightarrow> \<not> P l) \<Longrightarrow> filter Q (map (\<lambda>l. if P l then e else l) ls) = filter Q ls"
    by (induction ls) auto
qed

lemma dotenv_kept:
  assumes "assigns key (key @ ''='' @ v)"
  shows "filter (\<lambda>l. \<not> assigns key l) (dotenv_lines key v ls) = filter (\<lambda>l. \<not> assigns key l) ls"
    "filter (assigns key) (dotenv_lines key v ls) =
       replicate (max 1 (length (filter (assigns key) ls))) (key @ ''='' @ v)"
proof -
  define e where "e = key @ ''='' @ v"
  have a: "assigns key e" using assms by (simp only: e_def)
  have none: "\<not> list_ex (assigns key) ls \<Longrightarrow> filter (assigns key) ls = []"
    and some: "list_ex (assigns key) ls \<Longrightarrow> max 1 (length (filter (assigns key) ls)) = length (filter (assigns key) ls)"
    by (auto simp: list_ex_iff filter_empty_conv max_def Suc_le_eq not_le)
  note r = filter_replaced(1) [of "assigns key" e, OF a] filter_replaced(2) [of "assigns key" e "\<lambda>l. \<not> assigns key l", OF a]
  show "filter (\<lambda>l. \<not> assigns key l) (dotenv_lines key v ls) = filter (\<lambda>l. \<not> assigns key l) ls"
    unfolding dotenv_lines_def Let_def e_def [symmetric] using a r by simp
  show "filter (assigns key) (dotenv_lines key v ls) =
      replicate (max 1 (length (filter (assigns key) ls))) (key @ ''='' @ v)"
    unfolding dotenv_lines_def Let_def e_def [symmetric] using a r none some
    by (cases "list_ex (assigns key) ls") simp_all
qed

section \<open>The YAML file\<close>

definition set_block :: "str \<times> str \<Rightarrow> str list \<Rightarrow> str list option" where
  "set_block field blk =
     (case field of (key, v) \<Rightarrow>
        (case filter (starts_with (field_prefix key)) blk of
           [] \<Rightarrow> Some (blk @ [field_line key v])
         | [_] \<Rightarrow> Some (map (\<lambda>l. if starts_with (field_prefix key) l then field_line key v else l) blk)
         | _ \<Rightarrow> None))"

lemma filter_indices: "map ((!) xs) (filter (\<lambda>i. P (xs ! i)) [0..<length xs]) = filter P xs"
proof -
  have "filter P (map ((!) xs) [0..<length xs]) = map ((!) xs) (filter (P \<circ> (!) xs) [0..<length xs])"
    by (rule filter_map)
  then show ?thesis by (simp add: map_nth comp_def)
qed

lemma only_index:
  assumes "filter (\<lambda>i. P (xs ! i)) [0..<length xs] = [j]"
  shows "xs[j := y] = map (\<lambda>x. if P x then y else x) xs"
proof (rule nth_equalityI)
  fix i assume i: "i < length (xs[j := y])"
  have "set (filter (\<lambda>i. P (xs ! i)) [0..<length xs]) = {j}" using assms by simp
  then have "P (xs ! i) \<longleftrightarrow> i = j" using i by auto
  then show "xs[j := y] ! i = map (\<lambda>x. if P x then y else x) xs ! i" using i by (simp add: nth_list_update)
qed simp

lemma set_field_block:
  assumes "length before = start + 1"
  shows "set_field start f (before @ blk @ after, length before + length blk) =
    map_option (\<lambda>b. (before @ b @ after, length before + length b)) (set_block f blk)"
proof -
  obtain key v where f: "f = (key, v)" by (cases f)
  let ?P = "starts_with (field_prefix key)"
  let ?is = "filter (\<lambda>i. ?P (blk ! i)) [0..<length blk]"
  have "[start + 1..<length before + length blk] = map (\<lambda>i. i + length before) [0..<length blk]"
    unfolding assms map_add_upt by (simp add: add.commute)
  then have m: "filter (\<lambda>i. ?P ((before @ blk @ after) ! i)) [start + 1..<length before + length blk] =
      map (\<lambda>i. i + length before) ?is"
    by (auto simp: filter_map comp_def nth_append intro!: filter_cong arg_cong [where f = "map (\<lambda>i. i + length before)"])
  have e: "filter ?P blk = map ((!) blk) ?is" by (rule filter_indices [symmetric])
  consider "?is = []" | j where "?is = [j]" | i j r where "?is = i # j # r"
    by (cases ?is; cases "tl ?is") auto
  then show ?thesis
  proof cases
    case 2
    then have "j \<in> set ?is" by simp
    then have "j < length blk" by simp
    then have "(before @ blk @ after)[j + length before := y] = before @ blk[j := y] @ after" for y
      by (simp add: list_update_append)
    then show ?thesis
      using only_index [OF 2] unfolding set_field_def set_block_def f Let_def prod.case m e 2 by simp
  qed (unfold set_field_def set_block_def f Let_def prod.case m e, simp_all)
qed

lemma set_block_some:
  assumes "set_block (key, v) blk = Some b"
  shows "filter (starts_with (field_prefix key)) b = [field_line key v]"
    "(\<And>l. P l \<Longrightarrow> \<not> starts_with (field_prefix key) l) \<Longrightarrow> filter P b = filter P blk"
    "Q (field_line key v) \<Longrightarrow> list_all Q blk \<Longrightarrow> list_all Q b"
proof -
  let ?P = "starts_with (field_prefix key)"
  have l: "?P (field_line key v)" by (simp add: field_line_def starts_with_iff)
  note map_P = filter_replaced(1) [of ?P, OF l]
  have b: "b = blk @ [field_line key v] \<and> filter ?P blk = [] \<or>
      b = map (\<lambda>l. if ?P l then field_line key v else l) blk \<and> length (filter ?P blk) = 1"
    using assms by (auto simp: set_block_def split: list.splits)
  then show "filter ?P b = [field_line key v]" using l map_P by auto
  show "filter P b = filter P blk" if P: "\<And>l. P l \<Longrightarrow> \<not> ?P l"
  proof -
    have "\<not> P (field_line key v)" using P l by blast
    with P show ?thesis using b filter_replaced(2) [of ?P, OF l, of P] by auto
  qed
  show "list_all Q b" if "Q (field_line key v)" "list_all Q blk"
    using b that by (auto simp: list_all_iff)
qed

lemma prefixes_apart:
  "starts_with (field_prefix a) l \<Longrightarrow> starts_with (field_prefix b) l \<Longrightarrow> CHR '':'' \<notin> set a \<Longrightarrow> CHR '':'' \<notin> set b \<Longrightarrow> a = b"
proof -
  assume a: "starts_with (field_prefix a) l" "starts_with (field_prefix b) l" and c: "CHR '':'' \<notin> set a" "CHR '':'' \<notin> set b"
  then obtain r r' where "a @ CHR '':'' # r = b @ CHR '':'' # r'"
    by (auto simp: starts_with_iff field_prefix_def)
  then have "split_once (CHR '':'') (a @ CHR '':'' # r) = split_once (CHR '':'') (b @ CHR '':'' # r')" by simp
  then show "a = b" using c by (simp add: split_once_here)
qed

definition model_field :: "str \<Rightarrow> bool" where
  "model_field l \<longleftrightarrow> list_ex (\<lambda>(key, _). starts_with (field_prefix key) l) MODEL_FIELDS"

lemma set_blocks:
  assumes "set_block (''provider'', a) blk0 = Some blk1" "set_block (''default'', b) blk1 = Some blk2"
    "set_block (''base_url'', c) blk2 = Some blk3"
  shows "filter (starts_with (field_prefix ''provider'')) blk3 = [field_line ''provider'' a]"
    "filter (starts_with (field_prefix ''default'')) blk3 = [field_line ''default'' b]"
    "filter (starts_with (field_prefix ''base_url'')) blk3 = [field_line ''base_url'' c]"
    "filter (\<lambda>l. \<not> model_field l) blk3 = filter (\<lambda>l. \<not> model_field l) blk0"
proof -
  have other: "starts_with (field_prefix x) l \<Longrightarrow> x \<noteq> y \<Longrightarrow> x \<in> set [''provider'', ''default'', ''base_url''] \<Longrightarrow>
      y \<in> set [''provider'', ''default'', ''base_url''] \<Longrightarrow> \<not> starts_with (field_prefix y) l" for x y l
    using prefixes_apart [of x l y] by auto
  have none: "\<not> model_field l \<Longrightarrow> x \<in> set [''provider'', ''default'', ''base_url''] \<Longrightarrow> \<not> starts_with (field_prefix x) l" for x l
    by (auto simp: model_field_def MODEL_FIELDS_def)
  have "filter (starts_with (field_prefix ''provider'')) blk3 = filter (starts_with (field_prefix ''provider'')) blk2"
    by (rule set_block_some(2) [OF assms(3)]) (erule other, simp_all)
  also have "\<dots> = filter (starts_with (field_prefix ''provider'')) blk1"
    by (rule set_block_some(2) [OF assms(2)]) (erule other, simp_all)
  finally show "filter (starts_with (field_prefix ''provider'')) blk3 = [field_line ''provider'' a]"
    using set_block_some(1) [OF assms(1)] by simp
  have "filter (starts_with (field_prefix ''default'')) blk3 = filter (starts_with (field_prefix ''default'')) blk2"
    by (rule set_block_some(2) [OF assms(3)]) (erule other, simp_all)
  then show "filter (starts_with (field_prefix ''default'')) blk3 = [field_line ''default'' b]"
    using set_block_some(1) [OF assms(2)] by simp
  show "filter (starts_with (field_prefix ''base_url'')) blk3 = [field_line ''base_url'' c]"
    by (rule set_block_some(1) [OF assms(3)])
  have "filter (\<lambda>l. \<not> model_field l) blk3 = filter (\<lambda>l. \<not> model_field l) blk2"
    by (rule set_block_some(2) [OF assms(3)]) (erule none, simp)
  also have "\<dots> = filter (\<lambda>l. \<not> model_field l) blk1"
    by (rule set_block_some(2) [OF assms(2)]) (erule none, simp)
  also have "\<dots> = filter (\<lambda>l. \<not> model_field l) blk0"
    by (rule set_block_some(2) [OF assms(1)]) (erule none, simp)
  finally show "filter (\<lambda>l. \<not> model_field l) blk3 = filter (\<lambda>l. \<not> model_field l) blk0" .
qed

lemma position_Some:
  "position p xs = Some i \<longleftrightarrow> i < length xs \<and> p (xs ! i) \<and> list_all (\<lambda>x. \<not> p x) (take i xs)"
proof -
  let ?i = "length (takeWhile (\<lambda>x. \<not> p x) xs)"
  have "list_all (\<lambda>x. \<not> p x) (take ?i xs)"
    unfolding takeWhile_eq_take [symmetric] by (auto simp: list_all_iff dest: set_takeWhileD)
  moreover have "?i < length xs \<Longrightarrow> p (xs ! ?i)" using nth_length_takeWhile [of "\<lambda>x. \<not> p x" xs] by simp
  moreover have "?i = i" if "i < length xs" "p (xs ! i)" "list_all (\<lambda>x. \<not> p x) (take i xs)"
  proof -
    have "takeWhile (\<lambda>x. \<not> p x) xs = takeWhile (\<lambda>x. \<not> p x) (take i xs @ xs ! i # drop (Suc i) xs)"
      using that(1) by (simp add: id_take_nth_drop [symmetric])
    also have "\<dots> = take i xs" using that(2,3) by (subst takeWhile_append2) (auto simp: list_all_iff)
    finally show ?thesis using that(1) by simp
  qed
  ultimately show ?thesis by (auto simp: position_def Let_def)
qed

lemma position_None: "position p xs = None \<longleftrightarrow> list_all (\<lambda>x. \<not> p x) xs"
proof -
  have "length (takeWhile (\<lambda>x. \<not> p x) xs) \<le> length xs" by (rule length_takeWhile_le)
  moreover have "length (takeWhile (\<lambda>x. \<not> p x) xs) = length xs \<longleftrightarrow> takeWhile (\<lambda>x. \<not> p x) xs = xs"
    by (metis takeWhile_eq_take take_all order_refl)
  ultimately show ?thesis by (auto simp: position_def Let_def list_all_iff takeWhile_eq_all_conv)
qed

lemma model_line:
  assumes "with_model_line ls = (ls', start)"
  shows "start < length ls' \<and> trim_end (ls' ! start) = ''model:''"
proof -
  have "trim_end ''model:'' = ''model:''"
    by (simp add: trim_end_def is_whitespace_def code_def)
  then show ?thesis
    using assms by (auto simp: with_model_line_def position_Some Let_def nth_append split: option.splits if_splits)
qed

lemma mapping_split:
  assumes "start < length ls"
  shows "\<exists>before blk after. ls = before @ blk @ after \<and> length before = start + 1 \<and> last before = ls ! start \<and>
    mapping_end start ls = length before + length blk \<and> list_all (\<lambda>l. \<not> ends_mapping l) blk \<and>
    (after = [] \<or> ends_mapping (hd after))"
proof (cases "position ends_mapping (drop (start + 1) ls)")
  case None
  have "last (take (start + 1) ls) = ls ! start" using assms by (simp add: take_Suc_conv_app_nth)
  moreover have "length (take (start + 1) ls) = start + 1" "length (drop (start + 1) ls) = length ls - (start + 1)"
    using assms by simp_all
  moreover have "mapping_end start ls = length ls" unfolding mapping_end_def None by simp
  moreover have "list_all (\<lambda>l. \<not> ends_mapping l) (drop (start + 1) ls)" using None by (simp only: position_None)
  ultimately show ?thesis
    using assms
    by (rule_tac x = "take (start + 1) ls" in exI, rule_tac x = "drop (start + 1) ls" in exI, rule_tac x = "[]" in exI)
      (simp del: length_take)
next
  case (Some i)
  have "last (take (start + 1) ls) = ls ! start" using assms by (simp add: take_Suc_conv_app_nth)
  moreover have "hd (drop i (drop (start + 1) ls)) = drop (start + 1) ls ! i"
    using Some by (simp only: position_Some hd_drop_conv_nth)
  moreover have "mapping_end start ls = start + 1 + i" unfolding mapping_end_def Some by simp
  moreover have "ls = take (start + 1) ls @ take i (drop (start + 1) ls) @ drop i (drop (start + 1) ls)"
    by (simp only: append_take_drop_id)
  moreover have "i < length (drop (start + 1) ls)" "ends_mapping (drop (start + 1) ls ! i)"
    "list_all (\<lambda>l. \<not> ends_mapping l) (take i (drop (start + 1) ls))"
    using Some by (simp_all only: position_Some)
  ultimately show ?thesis
    using assms
    by (rule_tac x = "take (start + 1) ls" in exI, rule_tac x = "take i (drop (start + 1) ls)" in exI,
        rule_tac x = "drop i (drop (start + 1) ls)" in exI) (simp add: min_def)
qed

text \<open>
  Against the input: the first root model line ends \<open>before\<close>; where there is none, one is added at
  the end, after an empty line unless the last line is empty.
\<close>

lemma model_line_input:
  assumes "with_model_line ls = (before @ blk @ after, start)" "length before = start + 1"
  shows "if list_ex (\<lambda>l. trim_end l = ''model:'') ls
    then ls = before @ blk @ after \<and> list_all (\<lambda>l. trim_end l \<noteq> ''model:'') (butlast before)
    else before = ls @ (if ls = [] \<or> last ls = [] then [] else [[]]) @ [''model:''] \<and> blk = [] \<and> after = []"
proof (cases "position (\<lambda>l. trim_end l = ''model:'') ls")
  case None
  define pre where "pre = (if ls \<noteq> [] \<and> last ls \<noteq> [] then ls @ [[]] else ls)"
  have all: "pre @ [''model:''] = before @ blk @ after" and start: "start = length pre"
    using assms(1) None by (simp_all add: with_model_line_def pre_def Let_def)
  have "length (before @ blk @ after) = length before"
    using arg_cong [OF all, of length] start assms(2) by simp
  then have "blk = [] \<and> after = []" by simp
  moreover have "\<not> list_ex (\<lambda>l. trim_end l = ''model:'') ls"
    using None by (auto simp: position_None list_all_iff list_ex_iff)
  ultimately show ?thesis using all by (auto simp: pre_def)
next
  case (Some i)
  have ls: "ls = before @ blk @ after" "start = i"
    using assms(1) Some by (simp_all add: with_model_line_def)
  have i: "i < length ls" "trim_end (ls ! i) = ''model:''" "list_all (\<lambda>l. trim_end l \<noteq> ''model:'') (take i ls)"
    using Some by (simp_all add: position_Some)
  have "butlast before = take i ls" using assms(2) ls by (simp add: butlast_conv_take)
  moreover have "list_ex (\<lambda>l. trim_end l = ''model:'') ls" using i by (auto simp: list_ex_iff)
  ultimately show ?thesis using ls(1) i(3) by simp
qed

text \<open>
  C40. Setting the key in the environment file replaces its assignments, or adds one, and keeps every
  other line in its place. The configuration edit, when it succeeds, keeps every line of the
  file outside the mapping of its first root model line (where there is none, the whole file, and a
  model line is added at its end); inside the mapping the provider, the default model and the base URL each stand exactly once
  with the gateway's value and every other line is kept in its order.
\<close>

theorem config_edits_exact:
  assumes "yaml_lines ls = Some out"
  shows "(\<exists>before blk after blk'.
      before \<noteq> [] \<and>
      (if list_ex (\<lambda>l. trim_end l = ''model:'') ls
       then ls = before @ blk @ after \<and> list_all (\<lambda>l. trim_end l \<noteq> ''model:'') (butlast before)
       else before = ls @ (if ls = [] \<or> last ls = [] then [] else [[]]) @ [''model:''] \<and> blk = [] \<and> after = []) \<and>
      trim_end (last before) = ''model:'' \<and> list_all (\<lambda>l. \<not> ends_mapping l) blk \<and>
      (after = [] \<or> ends_mapping (hd after)) \<and> out = before @ blk' @ after \<and>
      filter (\<lambda>l. \<not> model_field l) blk' = filter (\<lambda>l. \<not> model_field l) blk \<and>
      (\<forall>(key, v) \<in> set MODEL_FIELDS. filter (starts_with (field_prefix key)) blk' = [field_line key v])) \<and>
    filter (\<lambda>l. \<not> assigns ''NVIDIA_API_KEY'' l) (dotenv_lines ''NVIDIA_API_KEY'' v es) =
       filter (\<lambda>l. \<not> assigns ''NVIDIA_API_KEY'' l) es \<and>
    filter (assigns ''NVIDIA_API_KEY'') (dotenv_lines ''NVIDIA_API_KEY'' v es) =
       replicate (max 1 (length (filter (assigns ''NVIDIA_API_KEY'') es))) (''NVIDIA_API_KEY='' @ v)"
proof -
  obtain ls' start where m: "with_model_line ls = (ls', start)" by (cases "with_model_line ls")
  obtain before blk after where s: "ls' = before @ blk @ after" "length before = start + 1"
    "last before = ls' ! start" "mapping_end start ls' = length before + length blk"
    "list_all (\<lambda>l. \<not> ends_mapping l) blk" "after = [] \<or> ends_mapping (hd after)"
    using mapping_split [of start ls'] model_line [OF m] by blast
  obtain k where "set_fields start MODEL_FIELDS (before @ blk @ after, length before + length blk) = Some (out, k)"
    using assms m s(4) by (auto simp: yaml_lines_def s(1) split: if_splits)
  then obtain b1 b2 b3 where b:
    "set_block (''provider'', ''nvidia'') blk = Some b1" "set_block (''default'', ''z-ai/glm-5.2'') b1 = Some b2"
    "set_block (''base_url'', ''http://127.0.0.1:2456/v1'') b2 = Some b3" "out = before @ b3 @ after"
    by (auto simp: MODEL_FIELDS_def set_field_block [OF s(2)] bind_eq_Some_conv simp del: append_assoc)
  have "before \<noteq> []" using s(2) by auto
  then have "\<exists>before blk after blk'.
      before \<noteq> [] \<and>
      (if list_ex (\<lambda>l. trim_end l = ''model:'') ls
       then ls = before @ blk @ after \<and> list_all (\<lambda>l. trim_end l \<noteq> ''model:'') (butlast before)
       else before = ls @ (if ls = [] \<or> last ls = [] then [] else [[]]) @ [''model:''] \<and> blk = [] \<and> after = []) \<and>
      trim_end (last before) = ''model:'' \<and> list_all (\<lambda>l. \<not> ends_mapping l) blk \<and>
      (after = [] \<or> ends_mapping (hd after)) \<and> out = before @ blk' @ after \<and>
      filter (\<lambda>l. \<not> model_field l) blk' = filter (\<lambda>l. \<not> model_field l) blk \<and>
      (\<forall>(key, v) \<in> set MODEL_FIELDS. filter (starts_with (field_prefix key)) blk' = [field_line key v])"
    using s(3-) model_line [OF m] b(4) set_blocks [OF b(1-3)] model_line_input [OF m [unfolded s(1)] s(2)]
    by (rule_tac x = before in exI, rule_tac x = blk in exI, rule_tac x = after in exI, rule_tac x = b3 in exI)
      (simp add: MODEL_FIELDS_def)
  moreover have a: "assigns ''NVIDIA_API_KEY'' (''NVIDIA_API_KEY'' @ ''='' @ v)" using api_key_assigned by simp
  moreover have "filter (assigns ''NVIDIA_API_KEY'') (dotenv_lines ''NVIDIA_API_KEY'' v es) =
       replicate (max 1 (length (filter (assigns ''NVIDIA_API_KEY'') es))) (''NVIDIA_API_KEY='' @ v)"
    using dotenv_kept(2) [OF a, of es] by simp
  ultimately show ?thesis using dotenv_kept(1) [OF a, of es] by blast
qed

lemma config_edits_exact_witness:
  "\<exists>before blk after blk'.
      before \<noteq> [] \<and> [''model:'', ''  provider: old'', ''x:''] = before @ blk @ after \<and>
      trim_end (last before) = ''model:'' \<and> list_all (\<lambda>l. \<not> ends_mapping l) blk \<and>
      (after = [] \<or> ends_mapping (hd after)) \<and>
      [''model:'', ''  provider: nvidia'', ''  default: z-ai/glm-5.2'', ''  base_url: http://127.0.0.1:2456/v1'', ''x:''] =
        before @ blk' @ after \<and>
      filter (\<lambda>l. \<not> model_field l) blk' = filter (\<lambda>l. \<not> model_field l) blk \<and>
      (\<forall>(key, v) \<in> set MODEL_FIELDS. filter (starts_with (field_prefix key)) blk' = [field_line key v])"
proof -
  have m: "with_model_line [''model:'', ''  provider: old'', ''x:''] = ([''model:'', ''  provider: old'', ''x:''], 0)"
    by (simp add: with_model_line_def position_def trim_end_def is_whitespace_def code_def Let_def)
  have e: "mapping_end 0 [''model:'', ''  provider: old'', ''x:''] = 2"
    by (simp add: mapping_end_def position_def ends_mapping_def starts_with_def Let_def)
  have w: "\<not> starts_with_whitespace ''model:''"
    by (simp add: starts_with_whitespace_def is_whitespace_def code_def)
  have f: "set_field 0 (''provider'', ''nvidia'') ([''model:'', ''  provider: old'', ''x:''], 2) =
      Some ([''model:'', ''  provider: nvidia'', ''x:''], 2)"
    "set_field 0 (''default'', ''z-ai/glm-5.2'') ([''model:'', ''  provider: nvidia'', ''x:''], 2) =
      Some ([''model:'', ''  provider: nvidia'', ''  default: z-ai/glm-5.2'', ''x:''], 3)"
    "set_field 0 (''base_url'', ''http://127.0.0.1:2456/v1'') ([''model:'', ''  provider: nvidia'', ''  default: z-ai/glm-5.2'', ''x:''], 3) =
      Some ([''model:'', ''  provider: nvidia'', ''  default: z-ai/glm-5.2'', ''  base_url: http://127.0.0.1:2456/v1'', ''x:''], 4)"
    by code_simp+
  have "yaml_lines [''model:'', ''  provider: old'', ''x:''] =
    Some [''model:'', ''  provider: nvidia'', ''  default: z-ai/glm-5.2'', ''  base_url: http://127.0.0.1:2456/v1'', ''x:'']"
    by (simp add: yaml_lines_def m e w MODEL_FIELDS_def f)
  note r = config_edits_exact [OF this, THEN conjunct1]
  have "list_ex (\<lambda>l. trim_end l = ''model:'') [''model:'', ''  provider: old'', ''x:'']"
    by (simp add: trim_end_def is_whitespace_def code_def)
  from r [unfolded if_P [OF this]] show ?thesis by blast
qed

end
