(* ===== verification/Cutover_Machine.thy ===== *)
theory Cutover_Machine
  imports Cutover_Text
begin

text \<open>
  The machine the cutover tool works on: the files it owns, and a conversation with docker and with
  the gateway's API. A \<open>step\<close> transforms the machine and returns, raises an error or dies with the
  process. Every system call, docker command and HTTP exchange consumes one \<open>event\<close>: it fails, the
  process is killed before or after its effect, or it goes through with the answer the event holds.
\<close>

section \<open>State\<close>

type_synonym path = "str list"

text \<open>The content of a symbolic link is what reading through it yields.\<close>

record node =
  nd_meta :: metadata
  nd_content :: "bytes option"

datatype fate = Lives | Fails | Dies | Dies_after

text \<open>An HTTP answer: its status and the chunks of its body, \<open>None\<close> where reading one fails.\<close>

record reply =
  rp_status :: nat
  rp_chunks :: "bytes option list"

record event =
  ev_fate :: fate
  ev_uuid :: uuid
  ev_time :: time
  ev_written :: "nat option"
  ev_synced :: bool
  ev_reply :: "reply option"
  ev_exit :: bool
  ev_stdout :: "bytes list"
  ev_stderr :: "bytes list"

text \<open>
  What was asked of docker and of the gateway (a POST or a GET, its token and body), with the status
  it answered, \<open>None\<close> when no answer came.
\<close>

datatype remote_call = Docker "str list" | Http bool str "str option" "json option" "nat option"

record machine =
  mc_files :: "(path \<times> node) list"
  mc_events :: "event list"
  mc_log :: "remote_call list"

text \<open>What is fixed for one run of the tool: its build, its environment and the libraries it calls.\<close>

record tool =
  tl_parse_uuid :: "str \<Rightarrow> uuid option"
  tl_parse :: "bytes \<Rightarrow> json option"
  tl_show :: "json \<Rightarrow> bytes"
  tl_sha256 :: "bytes \<Rightarrow> bytes"
  tl_show_time :: "time \<Rightarrow> str"
  tl_parse_time :: "str \<Rightarrow> time option"
  tl_canonical :: "path \<Rightarrow> path option"
  tl_masked :: "nat \<Rightarrow> nat"
  tl_mountinfo :: str
  tl_status :: str
  tl_commit :: str
  tl_expected :: "str option"
  tl_executable :: path

text \<open>The paths of \<open>Paths::production\<close>.\<close>

record paths =
  p_hermes_dir :: path
  p_env :: path
  p_config :: path
  p_backup_root :: path
  p_receipt_root :: path
  p_retirement_root :: path
  p_state_root :: path
  p_admin_token :: path

definition HERMES_DIR :: path where
  "HERMES_DIR = [''opt'', ''agent-apps'', ''data'', ''hermes'']"

definition GATEWAY_DIR :: path where
  "GATEWAY_DIR = [''opt'', ''nvidia-build-lb'']"

definition production :: paths where
  "production =
     \<lparr>p_hermes_dir = HERMES_DIR, p_env = HERMES_DIR @ [''.env''], p_config = HERMES_DIR @ [''config.yaml''],
      p_backup_root = GATEWAY_DIR @ [''hermes-cutover-backups''],
      p_receipt_root = GATEWAY_DIR @ [''hermes-cutover-receipts''],
      p_retirement_root = GATEWAY_DIR @ [''hermes-backup-retirement-receipts''],
      p_state_root = GATEWAY_DIR @ [''hermes-cutover-state''],
      p_admin_token = GATEWAY_DIR @ [''secrets'', ''admin_token'']\<rparr>"

section \<open>Steps\<close>

datatype 'a outcome = Return 'a | Raise | Killed

type_synonym 'a step = "machine \<Rightarrow> 'a outcome \<times> machine"

definition return :: "'a \<Rightarrow> 'a step" where
  "return x s = (Return x, s)"

definition bail :: "'a step" where
  "bail s = (Raise, s)"

text \<open>\<open>let x = m?; f(x)\<close>, and the same for its statement form.\<close>

definition chain :: "'a step \<Rightarrow> ('a \<Rightarrow> 'b step) \<Rightarrow> 'b step" where
  "chain m f s =
     (case m s of (Return x, s') \<Rightarrow> f x s' | (Raise, s') \<Rightarrow> (Raise, s') | (Killed, s') \<Rightarrow> (Killed, s'))"

definition before :: "'a step \<Rightarrow> 'b step \<Rightarrow> 'b step" where
  "before m n = chain m (\<lambda>_. n)"

text \<open>The \<open>Result\<close> of a step as a value; a killed process looks at nothing.\<close>

definition attempt :: "'a step \<Rightarrow> 'a option step" where
  "attempt m s =
     (case m s of (Return x, s') \<Rightarrow> (Return (Some x), s') | (Raise, s') \<Rightarrow> (Return None, s') | (Killed, s') \<Rightarrow> (Killed, s'))"

definition check_that :: "bool \<Rightarrow> unit step" where
  "check_that b = (if b then return () else bail)"

definition require :: "'a option \<Rightarrow> 'a step" where
  "require r = (case r of None \<Rightarrow> bail | Some x \<Rightarrow> return x)"

definition inspect :: "(machine \<Rightarrow> 'a) \<Rightarrow> 'a step" where
  "inspect f s = (Return (f s), s)"

fun for_each :: "('a \<Rightarrow> unit step) \<Rightarrow> 'a list \<Rightarrow> unit step" where
  "for_each f [] = return ()"
| "for_each f (x # xs) = before (f x) (for_each f xs)"

fun collect :: "('a \<Rightarrow> 'b step) \<Rightarrow> 'a list \<Rightarrow> 'b list step" where
  "collect f [] = return []"
| "collect f (x # xs) = chain (f x) (\<lambda>y. chain (collect f xs) (\<lambda>ys. return (y # ys)))"

text \<open>With no event left everything goes through.\<close>

definition fine :: event where
  "fine = \<lparr>ev_fate = Lives, ev_uuid = [], ev_time = 0, ev_written = None, ev_synced = True, ev_reply = None,
           ev_exit = True, ev_stdout = [], ev_stderr = []\<rparr>"

definition take_event :: "machine \<Rightarrow> event \<times> machine" where
  "take_event s = (case mc_events s of [] \<Rightarrow> (fine, s) | e # es \<Rightarrow> (e, s\<lparr>mc_events := es\<rparr>))"

text \<open>One system call: \<open>f\<close> says what it does when the event lets it, \<open>None\<close> being its own error.\<close>

definition system_call :: "(event \<Rightarrow> machine \<Rightarrow> ('a \<times> machine) option) \<Rightarrow> 'a step" where
  "system_call f s =
     (case take_event s of (e, s) \<Rightarrow>
        (case ev_fate e of
           Fails \<Rightarrow> (Raise, s)
         | Dies \<Rightarrow> (Killed, s)
         | Lives \<Rightarrow> (case f e s of None \<Rightarrow> (Raise, s) | Some (x, s') \<Rightarrow> (Return x, s'))
         | Dies_after \<Rightarrow> (case f e s of None \<Rightarrow> (Killed, s) | Some (_, s') \<Rightarrow> (Killed, s'))))"

text \<open>A system call that only reads.\<close>

definition reading :: "(machine \<Rightarrow> 'a option) \<Rightarrow> 'a step" where
  "reading f = system_call (\<lambda>_ s. map_option (\<lambda>x. (x, s)) (f s))"

definition new_uuid :: "uuid step" where
  "new_uuid s = (case take_event s of (e, s) \<Rightarrow> (Return (ev_uuid e), s))"

definition utc_now :: "time step" where
  "utc_now s = (case take_event s of (e, s) \<Rightarrow> (Return (ev_time e), s))"

section \<open>Files\<close>

definition node_at :: "machine \<Rightarrow> path \<Rightarrow> node option" where
  "node_at s = map_of (mc_files s)"

definition put_node :: "path \<Rightarrow> node \<Rightarrow> machine \<Rightarrow> machine" where
  "put_node p n s = s\<lparr>mc_files := (p, n) # filter (\<lambda>(q, _). q \<noteq> p) (mc_files s)\<rparr>"

definition drop_node :: "path \<Rightarrow> machine \<Rightarrow> machine" where
  "drop_node p s = s\<lparr>mc_files := filter (\<lambda>(q, _). q \<noteq> p) (mc_files s)\<rparr>"

definition children :: "path \<Rightarrow> machine \<Rightarrow> str list" where
  "children d s = remdups (map last (filter (\<lambda>q. q \<noteq> [] \<and> butlast q = d) (map fst (mc_files s))))"

definition is_directory :: "path \<Rightarrow> machine \<Rightarrow> bool" where
  "is_directory p s = is_some_and (\<lambda>n. real_directory (nd_meta n)) (node_at s p)"

text \<open>\<open>Path::exists\<close> follows links; it is \<open>false\<close> on any error.\<close>

definition exists_at :: "path \<Rightarrow> machine \<Rightarrow> bool" where
  "exists_at p s = is_some_and (\<lambda>n. md_symlink (nd_meta n) \<longrightarrow> nd_content n \<noteq> None) (node_at s p)"

definition symlink_metadata :: "path \<Rightarrow> metadata step" where
  "symlink_metadata p = reading (\<lambda>s. map_option nd_meta (node_at s p))"

definition read_file :: "path \<Rightarrow> bytes step" where
  "read_file p = reading (\<lambda>s. Option.bind (node_at s p) nd_content)"

definition read_to_string :: "path \<Rightarrow> str step" where
  "read_to_string p = chain (read_file p) (\<lambda>b. if utf8_segments b = None then bail else return b)"

definition read_dir :: "path \<Rightarrow> str list step" where
  "read_dir p = reading (\<lambda>s. if is_directory p s then Some (children p s) else None)"

text \<open>The owner of a new node is root, in whose name the tool runs.\<close>

definition new_meta :: "bool \<Rightarrow> nat \<Rightarrow> metadata" where
  "new_meta directory mode =
     \<lparr>md_file = \<not> directory, md_dir = directory, md_symlink = False, md_uid = 0, md_gid = 0,
      md_mode = mode, md_nlink = 1\<rparr>"

definition create_dir :: "tool \<Rightarrow> path \<Rightarrow> nat \<Rightarrow> unit step" where
  "create_dir c p mode = system_call (\<lambda>_ s.
     if node_at s p \<noteq> None \<or> \<not> is_directory (butlast p) s then None
     else Some ((), put_node p \<lparr>nd_meta = new_meta True (tl_masked c mode), nd_content = None\<rparr> s))"

definition create_new :: "tool \<Rightarrow> path \<Rightarrow> nat \<Rightarrow> unit step" where
  "create_new c p mode = system_call (\<lambda>_ s.
     if node_at s p \<noteq> None \<or> \<not> is_directory (butlast p) s then None
     else Some ((), put_node p \<lparr>nd_meta = new_meta False (tl_masked c mode), nd_content = Some []\<rparr> s))"

text \<open>\<open>write_all\<close> on a file just created: an error may leave a part of the bytes behind.\<close>

definition write_all :: "path \<Rightarrow> bytes \<Rightarrow> unit step" where
  "write_all p b = chain (system_call (\<lambda>e s.
       map_option (\<lambda>n. (ev_written e,
           put_node p (n\<lparr>nd_content := Some (case ev_written e of None \<Rightarrow> b | Some k \<Rightarrow> take k b)\<rparr>) s))
         (node_at s p)))
     (\<lambda>written. if written = None then return () else bail)"

text \<open>Whether \<open>fsync\<close> reports success has its own place in the event, apart from all other failures.\<close>

definition sync_node :: "path \<Rightarrow> unit step" where
  "sync_node p s =
     (case take_event s of (e, s) \<Rightarrow>
        if ev_fate e = Dies \<or> ev_fate e = Dies_after then (Killed, s)
        else if ev_synced e \<and> exists_at p s then (Return (), s) else (Raise, s))"

definition set_permissions :: "path \<Rightarrow> nat \<Rightarrow> unit step" where
  "set_permissions p mode = system_call (\<lambda>_ s.
     map_option (\<lambda>n. ((), put_node p (n\<lparr>nd_meta := (nd_meta n)\<lparr>md_mode := mode\<rparr>\<rparr>) s)) (node_at s p))"

definition remove_file :: "path \<Rightarrow> unit step" where
  "remove_file p = system_call (\<lambda>_ s.
     if node_at s p = None \<or> is_directory p s then None else Some ((), drop_node p s))"

definition remove_dir :: "path \<Rightarrow> unit step" where
  "remove_dir p = system_call (\<lambda>_ s.
     if \<not> is_directory p s \<or> children p s \<noteq> [] then None else Some ((), drop_node p s))"

text \<open>\<open>fs::rename\<close> of a file over what is there, and of a directory with all that is below it.\<close>

definition rename_file :: "path \<Rightarrow> path \<Rightarrow> unit step" where
  "rename_file a b = system_call (\<lambda>_ s.
     case node_at s a of
       None \<Rightarrow> None
     | Some n \<Rightarrow> if is_directory b s \<or> \<not> is_directory (butlast b) s then None
                 else Some ((), put_node b n (drop_node a s)))"

definition below :: "path \<Rightarrow> path \<Rightarrow> bool" where
  "below d p = starts_with d p"

definition moved :: "path \<Rightarrow> path \<Rightarrow> path \<Rightarrow> path" where
  "moved a b p = (if below a p then b @ drop (length a) p else p)"

definition rename_dir :: "path \<Rightarrow> path \<Rightarrow> unit step" where
  "rename_dir a b = system_call (\<lambda>_ s.
     if \<not> is_directory a s \<or> \<not> is_directory (butlast b) s \<or> node_at s b \<noteq> None then None
     else Some ((), s\<lparr>mc_files := map (\<lambda>(p, n). (moved a b p, n)) (mc_files s)\<rparr>))"

text \<open>
  The file operations of the cutover tool: the checks of ownership and mode, the atomic write, the
  cleaning of interrupted writes and of staged snapshots, the journal and the receipts on disk, and
  the search for credentials in the data tree.
\<close>

section \<open>Checks\<close>

definition validate_secure_file_with_identity :: "path \<Rightarrow> bool \<Rightarrow> nat \<Rightarrow> nat \<Rightarrow> unit step" where
  "validate_secure_file_with_identity p require_single_link expected_uid expected_gid =
     chain (symlink_metadata p) (\<lambda>m. check_that (secure_file require_single_link expected_uid expected_gid m))"

definition validate_secure_file :: "path \<Rightarrow> bool \<Rightarrow> unit step" where
  "validate_secure_file p require_single_link = validate_secure_file_with_identity p require_single_link 0 0"

definition validate_directory :: "path \<Rightarrow> unit step" where
  "validate_directory p = chain (symlink_metadata p) (\<lambda>m. check_that (real_directory m))"

definition show_path :: "path \<Rightarrow> str" where
  "show_path p = (if p = [] then ''/'' else concat (map (\<lambda>x. CHR ''/'' # x) p))"

definition reject_mountpoint :: "tool \<Rightarrow> path \<Rightarrow> unit step" where
  "reject_mountpoint c p =
     chain (reading (\<lambda>_. tl_canonical c p)) (\<lambda>canonical.
     chain (reading (\<lambda>_. Some (tl_mountinfo c))) (\<lambda>mountinfo.
     check_that (\<not> is_mountpoint mountinfo (show_path canonical))))"

definition require_root :: "tool \<Rightarrow> unit step" where
  "require_root c = chain (reading (\<lambda>_. Some (tl_status c))) (\<lambda>status. check_that (is_root status))"

definition validate_expected_commit :: "tool \<Rightarrow> str step" where
  "validate_expected_commit c = require (valid_commit (tl_commit c) (tl_expected c))"

definition validate_generation_directory_with_identity :: "tool \<Rightarrow> path \<Rightarrow> nat \<Rightarrow> nat \<Rightarrow> unit step" where
  "validate_generation_directory_with_identity c p expected_uid expected_gid =
     chain (symlink_metadata p) (\<lambda>m.
     before (check_that (secure_directory expected_uid expected_gid m)) (reject_mountpoint c p))"

definition validate_generation_directory :: "tool \<Rightarrow> path \<Rightarrow> unit step" where
  "validate_generation_directory c p = validate_generation_directory_with_identity c p 0 0"

text \<open>The parents from the nearest one up to below the root.\<close>

definition ancestors :: "path \<Rightarrow> path list" where
  "ancestors p = rev (map (\<lambda>n. take n p) [1..<length p])"

definition validate_existing_root_directory :: "tool \<Rightarrow> path \<Rightarrow> unit step" where
  "validate_existing_root_directory c p =
     before (for_each (\<lambda>a. chain (symlink_metadata a) (\<lambda>m. check_that (\<not> md_symlink m))) (ancestors p))
       (validate_generation_directory_with_identity c p 0 0)"

definition create_secure_directory :: "tool \<Rightarrow> path \<Rightarrow> unit step" where
  "create_secure_directory c p = create_dir c p 448"

definition ensure_root_directory :: "tool \<Rightarrow> path \<Rightarrow> unit step" where
  "ensure_root_directory c p =
     chain (inspect (exists_at p)) (\<lambda>there.
     before (if there then return () else create_secure_directory c p) (validate_existing_root_directory c p))"

text \<open>The lock is held to the end of the process; another instance waits in \<open>lock_exclusive\<close>.\<close>

definition acquire_cutover_lock :: "tool \<Rightarrow> paths \<Rightarrow> unit step" where
  "acquire_cutover_lock c ps =
     (let lock_path = p_state_root ps @ [''cutover.lock'']
      in before (ensure_root_directory c (p_state_root ps))
         (chain (inspect (exists_at lock_path)) (\<lambda>there.
          before (if there then return () else create_new c lock_path 384)
         (before (validate_secure_file lock_path True)
         (before (reading (\<lambda>s. map_option (\<lambda>_. ()) (node_at s lock_path)))
            (reading (\<lambda>_. Some ())))))))"

definition read_secret :: "path \<Rightarrow> str step" where
  "read_secret p =
     before (validate_secure_file p False)
       (chain (read_to_string p) (\<lambda>text. require (secret_of text)))"

section \<open>Writes\<close>

definition sync_directory :: "path \<Rightarrow> unit step" where
  "sync_directory p = sync_node p"

definition temporary_name :: "path \<Rightarrow> uuid \<Rightarrow> path" where
  "temporary_name p fresh = butlast p @ [''.'' @ last p @ ''.'' @ show_uuid fresh @ ''.tmp'']"

text \<open>Once the temporary has been renamed it is gone, so only an error before that removes it.\<close>

definition atomic_write :: "tool \<Rightarrow> path \<Rightarrow> bytes \<Rightarrow> nat \<Rightarrow> unit step" where
  "atomic_write c p b mode =
     chain new_uuid (\<lambda>fresh.
       let temporary = temporary_name p fresh
       in chain (attempt
            (before (create_new c temporary mode)
            (before (write_all temporary b)
            (before (sync_node temporary)
            (before (set_permissions temporary mode)
            (before (rename_file temporary p)
              (sync_directory (butlast p)))))))) (\<lambda>result.
          chain (inspect (exists_at temporary)) (\<lambda>left_over.
          before (if result = None \<and> left_over
                  then before (attempt (remove_file temporary))
                         (before (attempt (sync_directory (butlast p))) (return ()))
                  else return ())
            (require result))))"

definition copy_secure :: "tool \<Rightarrow> path \<Rightarrow> path \<Rightarrow> unit step" where
  "copy_secure c source destination = chain (read_file source) (\<lambda>b. atomic_write c destination b 384)"

definition sha256_file :: "tool \<Rightarrow> path \<Rightarrow> str step" where
  "sha256_file c p = chain (read_file p) (\<lambda>b. return (to_hex (tl_sha256 c b)))"

definition optional_text :: "str option \<Rightarrow> json" where
  "optional_text t = (case t of None \<Rightarrow> JNull | Some v \<Rightarrow> JString v)"

text \<open>\<open>json!\<close> keeps its keys sorted.\<close>

definition journal_json :: "tool \<Rightarrow> str \<Rightarrow> str option \<Rightarrow> uuid option \<Rightarrow> time \<Rightarrow> json" where
  "journal_json c state label client_id now =
     JObject [(''client_id'', optional_text (map_option show_uuid client_id)),
              (''operation_label'', optional_text label),
              (''schema_version'', JString ''nblb.hermes-journal.v1''),
              (''state'', JString state),
              (''updated_at'', JString (tl_show_time c now))]"

definition write_journal :: "tool \<Rightarrow> path \<Rightarrow> str \<Rightarrow> str option \<Rightarrow> uuid option \<Rightarrow> unit step" where
  "write_journal c directory state label client_id =
     chain utc_now (\<lambda>now.
       atomic_write c (directory @ [''journal.json'']) (tl_show c (journal_json c state label client_id now)) 384)"

section \<open>Reading the journal\<close>

text \<open>An \<open>Option<T>\<close> field may be absent or null; other fields are required.\<close>

definition field_text :: "str \<Rightarrow> json \<Rightarrow> str option" where
  "field_text key v = get_str key v"

definition field_optional :: "(json \<Rightarrow> 'a option) \<Rightarrow> str \<Rightarrow> json \<Rightarrow> 'a option option" where
  "field_optional decode key v =
     (case get_field key v of
        None \<Rightarrow> Some None
      | Some x \<Rightarrow> if is_null x then Some None else map_option Some (decode x))"

definition as_uuid :: "tool \<Rightarrow> json \<Rightarrow> uuid option" where
  "as_uuid c v = Option.bind (as_str v) (tl_parse_uuid c)"

definition decode_journal :: "tool \<Rightarrow> json \<Rightarrow> recovery_journal option" where
  "decode_journal c v =
     Option.bind (field_text ''schema_version'' v) (\<lambda>schema.
     Option.bind (field_text ''state'' v) (\<lambda>state.
     Option.bind (field_optional as_str ''operation_label'' v) (\<lambda>label.
     Option.bind (field_optional (as_uuid c) ''client_id'' v) (\<lambda>client_id.
       Some \<lparr>jn_schema = schema, jn_state = state, jn_label = label, jn_client = client_id\<rparr>))))"

definition read_recovery_journal :: "tool \<Rightarrow> path \<Rightarrow> recovery_journal step" where
  "read_recovery_journal c backup =
     (let journal_path = backup @ [''journal.json'']
      in chain (inspect (exists_at journal_path)) (\<lambda>there.
         before (check_that there)
        (before (validate_secure_file journal_path True)
        (chain (read_file journal_path) (\<lambda>b. require (Option.bind (tl_parse c b) (decode_journal c)))))))"

section \<open>Cleaning\<close>

definition normalize_empty_staging_directory :: "tool \<Rightarrow> path \<Rightarrow> nat \<Rightarrow> nat \<Rightarrow> unit step" where
  "normalize_empty_staging_directory c stage expected_uid expected_gid =
     chain (symlink_metadata stage) (\<lambda>m.
     before (check_that (real_directory m \<and> md_uid m = expected_uid \<and> md_gid m = expected_gid))
    (before (reject_mountpoint c stage)
      (if permission_bits (md_mode m) \<noteq> 448
       then chain (read_dir stage) (\<lambda>names.
            before (check_that (names = []))
           (before (set_permissions stage 448) (sync_directory (butlast stage))))
       else return ())))"

definition utf8_name :: "str \<Rightarrow> bool" where
  "utf8_name name \<longleftrightarrow> utf8_segments name \<noteq> None"

definition cleanup_snapshot_stage :: "tool \<Rightarrow> path \<Rightarrow> path \<Rightarrow> unit step" where
  "cleanup_snapshot_stage c backup_root stage =
     before (check_that (stage \<noteq> [] \<and> utf8_name (last stage) \<and>
               staging_generation (tl_parse_uuid c) (last stage) \<noteq> None \<and> butlast stage = backup_root))
    (before (normalize_empty_staging_directory c stage 0 0)
    (before (validate_generation_directory_with_identity c stage 0 0)
    (chain (read_dir stage) (\<lambda>names.
     before (for_each (\<lambda>name.
          before (check_that (utf8_name name \<and> snapshot_stage_entry_allowed (tl_parse_uuid c) name))
         (before (validate_secure_file_with_identity (stage @ [name]) True 0 0)
           (remove_file (stage @ [name])))) names)
    (before (remove_dir stage) (sync_directory backup_root))))))"

definition cleanup_atomic_temps :: "tool \<Rightarrow> path \<Rightarrow> str list \<Rightarrow> unit step" where
  "cleanup_atomic_temps c directory targets =
     chain (inspect (exists_at directory)) (\<lambda>there.
       if \<not> there then return ()
       else
         before (validate_directory directory)
        (chain (read_dir directory) (\<lambda>names.
           let temps = filter (\<lambda>name. utf8_name name \<and>
                 list_ex (atomic_temp_name_matches (tl_parse_uuid c) name) targets) names
           in before (for_each (\<lambda>name.
                before (validate_secure_file_with_identity (directory @ [name]) True 0 0)
                  (remove_file (directory @ [name]))) temps)
              (if temps \<noteq> [] then sync_directory directory else return ()))))"

section \<open>The data tree\<close>

text \<open>
  \<open>tree_pattern_matches\<close> walks a stack of paths: an entry is popped from its end and a directory
  pushes its entries. A tree of \<open>n\<close> entries is walked in at most \<open>n\<close> rounds, which is the fuel.
\<close>

fun walk_tree :: "nat \<Rightarrow> bytes \<Rightarrow> path list \<Rightarrow> nat \<Rightarrow> nat step" where
  "walk_tree fuel pattern [] matches = return matches"
| "walk_tree 0 pattern (p # pending) matches = bail"
| "walk_tree (Suc fuel) pattern (p # pending) matches =
     chain (symlink_metadata p) (\<lambda>m.
       if md_symlink m then bail
       else if md_dir m
       then chain (read_dir p) (\<lambda>names.
              walk_tree fuel pattern (rev (map (\<lambda>n. p @ [n]) names) @ pending) matches)
       else if md_file m
       then chain (read_file p) (\<lambda>b.
              walk_tree fuel pattern pending (sat_add_u64 matches (file_pattern_matches pattern [b])))
       else bail)"

definition tree_pattern_matches :: "path \<Rightarrow> bytes \<Rightarrow> nat step" where
  "tree_pattern_matches tree pattern =
     chain (inspect (\<lambda>s. length (mc_files s))) (\<lambda>n. walk_tree (Suc n) pattern [tree] 0)"

definition scan_for_direct_nvidia_key :: "path \<Rightarrow> unit step" where
  "scan_for_direct_nvidia_key tree =
     chain (tree_pattern_matches tree nvidia_credential_prefix) (\<lambda>matches. check_that (matches = 0))"

end
