(* ===== verification/Cutover_Remote.thy ===== *)
theory Cutover_Remote
  imports Cutover_Machine
begin

text \<open>
  The conversations of the cutover tool: docker behind its allowlist, the gateway's administration
  API, the listing and revocation of clients, the reports of a QA run, the verification of a running
  Hermes and the scan for credentials. What docker and the gateway answer is in the events.
\<close>

section \<open>HTTP\<close>

definition PUBLIC_BASE :: str where "PUBLIC_BASE = ''http://127.0.0.1:2456''"
definition ADMIN_BASE :: str where "ADMIN_BASE = ''http://127.0.0.1:2456/admin/api/v2''"

definition exchange :: "bool \<Rightarrow> str \<Rightarrow> str option \<Rightarrow> json option \<Rightarrow> reply step" where
  "exchange is_post url token body =
     chain (system_call (\<lambda>e s.
       Some (ev_reply e, s\<lparr>mc_log := mc_log s @ [Http is_post url token body (map_option rp_status (ev_reply e))]\<rparr>)))
     require"

definition body_bytes :: "reply \<Rightarrow> bytes option" where
  "body_bytes r = map_option concat (those (rp_chunks r))"

definition body_json :: "tool \<Rightarrow> reply \<Rightarrow> json option" where
  "body_json c r = Option.bind (body_bytes r) (tl_parse c)"

text \<open>Only statuses 400 to 599 are errors to \<open>error_for_status\<close>.\<close>

definition error_for_status :: "reply \<Rightarrow> reply step" where
  "error_for_status r = (if 400 \<le> rp_status r \<and> rp_status r < 600 then bail else return r)"

definition admin_get :: "tool \<Rightarrow> str \<Rightarrow> str \<Rightarrow> json step" where
  "admin_get c token p =
     chain (exchange False (ADMIN_BASE @ p) (Some token) None) (\<lambda>r.
     before (check_that (is_success (rp_status r))) (require (body_json c r)))"

definition get_json :: "tool \<Rightarrow> str \<Rightarrow> str \<Rightarrow> json step" where
  "get_json c token url =
     chain (exchange False url (Some token) None) (\<lambda>r.
     chain (error_for_status r) (\<lambda>r. require (body_json c r)))"

section \<open>Clients\<close>

record client_item =
  cl_id :: uuid
  cl_label :: str
  cl_active :: bool

definition decode_client :: "tool \<Rightarrow> json \<Rightarrow> client_item option" where
  "decode_client c v =
     Option.bind (Option.bind (get_field ''id'' v) (as_uuid c)) (\<lambda>i.
     Option.bind (get_str ''label'' v) (\<lambda>label.
     Option.bind (get_bool ''active'' v) (\<lambda>active.
       Some \<lparr>cl_id = i, cl_label = label, cl_active = active\<rparr>)))"

definition decode_mutation :: "tool \<Rightarrow> json \<Rightarrow> (client_item \<times> str) option" where
  "decode_mutation c v =
     Option.bind (Option.bind (get_field ''item'' v) (decode_client c)) (\<lambda>item.
     map_option (\<lambda>token. (item, token)) (get_str ''token'' v))"

definition decode_page :: "(json \<Rightarrow> 'a option) \<Rightarrow> json \<Rightarrow> ('a list \<times> str option) option" where
  "decode_page decode v =
     Option.bind (Option.bind (get_array ''items'' v) (\<lambda>xs. those (map decode xs))) (\<lambda>items.
     map_option (\<lambda>cursor. (items, cursor)) (field_optional as_str ''next_before'' v))"

definition page_suffix :: "str option \<Rightarrow> str" where
  "page_suffix cursor = (case cursor of None \<Rightarrow> [] | Some v \<Rightarrow> ''&before='' @ percent_encode_query v)"

text \<open>
  Every round consumes an event, and an exchange without one fails: one round more than there are
  events is never reached.
\<close>

definition enough :: "(nat \<Rightarrow> 'a step) \<Rightarrow> 'a step" where
  "enough f = chain (inspect (\<lambda>s. Suc (length (mc_events s)))) f"

primrec client_pages :: "nat \<Rightarrow> tool \<Rightarrow> str \<Rightarrow> str option \<Rightarrow> client_item list \<Rightarrow> client_item list step" where
  "client_pages 0 c token cursor clients = bail"
| "client_pages (Suc fuel) c token cursor clients =
     chain (get_json c token (ADMIN_BASE @ ''/clients?limit=100'' @ page_suffix cursor)) (\<lambda>v.
     chain (require (decode_page (decode_client c) v)) (\<lambda>(items, following).
       if following = None then return (clients @ items)
       else client_pages fuel c token following (clients @ items)))"

definition list_clients_from :: "tool \<Rightarrow> str \<Rightarrow> client_item list step" where
  "list_clients_from c token = enough (\<lambda>n. client_pages n c token None [])"

definition find_active_client_by_label :: "tool \<Rightarrow> str \<Rightarrow> str \<Rightarrow> uuid option step" where
  "find_active_client_by_label c token label =
     chain (list_clients_from c token) (\<lambda>clients.
       return (map_option cl_id (List.find (\<lambda>i. cl_active i \<and> cl_label i = label) clients)))"

definition hermes_client :: "client_item \<Rightarrow> bool" where
  "hermes_client i \<longleftrightarrow> cl_active i \<and> starts_with ''hermes-cutover-'' (cl_label i)"

definition active_hermes_client :: "tool \<Rightarrow> str \<Rightarrow> uuid option step" where
  "active_hermes_client c token =
     chain (list_clients_from c token) (\<lambda>clients.
       case map cl_id (filter hermes_client clients) of [i] \<Rightarrow> return (Some i) | _ \<Rightarrow> bail)"

definition issue_or_rotate_client :: "tool \<Rightarrow> str \<Rightarrow> str \<Rightarrow> (client_item \<times> str) step" where
  "issue_or_rotate_client c token label =
     chain (exchange True (ADMIN_BASE @ ''/clients'') (Some token)
         (Some (JObject [(''label'', JString label),
                         (''scopes'', JArray [JString ''models:read'', JString ''chat:write''])]))) (\<lambda>r.
       if is_success (rp_status r) then require (Option.bind (body_json c r) (decode_mutation c))
       else before (check_that (rp_status r = 409))
           (chain (list_clients_from c token) (\<lambda>clients.
            chain (require (List.find (\<lambda>i. cl_active i \<and> cl_label i = label) clients)) (\<lambda>existing.
            chain (exchange True (ADMIN_BASE @ ''/clients/'' @ show_uuid (cl_id existing) @ ''/rotate'') (Some token) None) (\<lambda>r.
            chain (error_for_status r) (\<lambda>r. require (Option.bind (body_json c r) (decode_mutation c))))))))"

definition revoke_url :: "uuid \<Rightarrow> str" where
  "revoke_url i = ADMIN_BASE @ ''/clients/'' @ show_uuid i @ ''/revoke''"

definition revoke_client_from :: "tool \<Rightarrow> str \<Rightarrow> uuid \<Rightarrow> unit step" where
  "revoke_client_from c token i =
     chain (exchange True (revoke_url i) (Some token) None) (\<lambda>r.
       check_that (is_success (rp_status r) \<or> rp_status r = 409))"

definition revoke_previous_clients :: "tool \<Rightarrow> str \<Rightarrow> uuid \<Rightarrow> unit step" where
  "revoke_previous_clients c token keep =
     chain (list_clients_from c token) (\<lambda>clients.
       for_each (\<lambda>i. revoke_client_from c token (cl_id i)) (filter (\<lambda>i. cl_id i \<noteq> keep \<and> hermes_client i) clients))"

section \<open>The QA run\<close>

definition decode_qa_run :: "tool \<Rightarrow> json \<Rightarrow> qa_run_target option" where
  "decode_qa_run c v =
     Option.bind (Option.bind (get_field ''id'' v) (as_uuid c)) (\<lambda>i.
     Option.bind (get_str ''suite'' v) (\<lambda>suite.
     Option.bind (get_bool ''live'' v) (\<lambda>live.
     Option.bind (get_str ''provider_identity'' v) (\<lambda>identity.
     Option.bind (get_str ''deployment_commit'' v) (\<lambda>commit.
     Option.bind (get_str ''status'' v) (\<lambda>status.
       Some \<lparr>qr_id = i, qr_suite = suite, qr_live = live, qr_provider_identity = identity, qr_commit = commit,
             qr_status = status\<rparr>))))))"

definition validate_qa_run_target :: "tool \<Rightarrow> str \<Rightarrow> uuid \<Rightarrow> str \<Rightarrow> qa_run_target step" where
  "validate_qa_run_target c token requested_id expected_commit =
     chain (exchange False (ADMIN_BASE @ ''/qa/runs/'' @ show_uuid requested_id) (Some token) None) (\<lambda>r.
     before (check_that (is_success (rp_status r)))
    (chain (require (Option.bind (body_json c r) (decode_qa_run c))) (\<lambda>target.
     before (check_that (valid_qa_run_target (tl_commit c) expected_commit requested_id target)) (return target))))"

definition completion_url :: "uuid \<Rightarrow> str" where
  "completion_url run_id = ADMIN_BASE @ ''/qa/runs/'' @ show_uuid run_id @ ''/hermes-completion''"

definition report_failed_hermes_run :: "tool \<Rightarrow> str \<Rightarrow> uuid \<Rightarrow> unit step" where
  "report_failed_hermes_run c token run_id =
     chain (exchange True (completion_url run_id) (Some token) (Some (JObject [(''status'', JString ''failed'')]))) (\<lambda>r.
     chain (error_for_status r) (\<lambda>_. return ()))"

record secret_scan_receipt =
  ss_database :: nat
  ss_app_log :: nat
  ss_hermes_log :: nat
  ss_cloudflared_log :: nat
  ss_image_metadata :: nat
  ss_helper_artifact :: nat
  ss_hermes_tree :: nat
  ss_public_bundle :: nat
  ss_admin_response :: nat
  ss_issued_token :: nat
  ss_authorization_value :: nat

definition total_matches :: "secret_scan_receipt \<Rightarrow> nat" where
  "total_matches r =
     foldl sat_add_u64 (ss_database r)
       [ss_app_log r, ss_hermes_log r, ss_cloudflared_log r, ss_image_metadata r, ss_helper_artifact r,
        ss_hermes_tree r, ss_public_bundle r, ss_admin_response r, ss_issued_token r, ss_authorization_value r]"

record request_receipt =
  rr_request_id :: uuid
  rr_attempt_count :: nat
  rr_outcome :: str
  rr_stage :: str
  rr_started :: time
  rr_finished :: time

record safe_receipt =
  sr_schema :: str
  sr_generation :: uuid
  sr_commit :: str
  sr_client :: uuid
  sr_qa_run :: "uuid option"
  sr_doctor :: bool
  sr_marker :: bool
  sr_tool :: bool
  sr_rehearsal :: bool
  sr_duration_ms :: nat
  sr_tool_sha256 :: str
  sr_scan :: secret_scan_receipt
  sr_requests :: "request_receipt list"

definition jnat :: "nat \<Rightarrow> json" where "jnat n = JNumber (NatNum n)"

text \<open>A serialized structure keeps its fields' order; a \<open>Value\<close> sorts them.\<close>

definition scan_fields :: "secret_scan_receipt \<Rightarrow> (str \<times> json) list" where
  "scan_fields r =
     [(''database_matches'', jnat (ss_database r)), (''app_log_matches'', jnat (ss_app_log r)),
      (''hermes_log_matches'', jnat (ss_hermes_log r)), (''cloudflared_log_matches'', jnat (ss_cloudflared_log r)),
      (''image_metadata_matches'', jnat (ss_image_metadata r)),
      (''helper_artifact_matches'', jnat (ss_helper_artifact r)),
      (''hermes_tree_matches'', jnat (ss_hermes_tree r)), (''public_bundle_matches'', jnat (ss_public_bundle r)),
      (''admin_response_matches'', jnat (ss_admin_response r)), (''issued_token_matches'', jnat (ss_issued_token r)),
      (''authorization_value_matches'', jnat (ss_authorization_value r))]"

definition as_value :: "(str \<times> json) list \<Rightarrow> json" where
  "as_value fs = JObject (foldr (\<lambda>(k, v). obj_set k v) fs [])"

definition passed_report :: "safe_receipt \<Rightarrow> json" where
  "passed_report r =
     as_value
       [(''status'', JString ''passed''), (''app_commit'', JString (sr_commit r)),
        (''generation'', JString (show_uuid (sr_generation r))), (''client_id'', JString (show_uuid (sr_client r))),
        (''doctor'', JBool (sr_doctor r)), (''exact_marker'', JBool (sr_marker r)), (''tool_task'', JBool (sr_tool r)),
        (''request_correlation'', JBool True), (''secret_scan'', as_value (scan_fields (sr_scan r))),
        (''rollback_rehearsal'', JBool (sr_rehearsal r)), (''reconcile_committed'', JBool True),
        (''duration_ms'', jnat (sr_duration_ms r)),
        (''lb_requests'', JArray (map (\<lambda>i.
           as_value [(''request_id'', JString (show_uuid (rr_request_id i))),
                     (''attempt_count'', jnat (rr_attempt_count i)), (''outcome'', JString (rr_outcome i)),
                     (''stage'', JString (rr_stage i))]) (sr_requests r)))]"

definition report_passed_hermes_run :: "tool \<Rightarrow> str \<Rightarrow> uuid \<Rightarrow> safe_receipt \<Rightarrow> unit step" where
  "report_passed_hermes_run c token run_id r =
     chain (exchange True (completion_url run_id) (Some token) (Some (passed_report r))) (\<lambda>r.
     chain (error_for_status r) (\<lambda>_. return ()))"

definition reconcile_remote_state :: "tool \<Rightarrow> str \<Rightarrow> safe_receipt \<Rightarrow> unit step" where
  "reconcile_remote_state c token r =
     before (revoke_previous_clients c token (sr_client r))
       (case sr_qa_run r of None \<Rightarrow> return () | Some run_id \<Rightarrow> report_passed_hermes_run c token run_id r)"

section \<open>Docker\<close>

definition run_docker :: "tool \<Rightarrow> str list \<Rightarrow> event step" where
  "run_docker c args =
     before (check_that (allowed_docker_args (tl_parse_uuid c) args))
       (system_call (\<lambda>e s. Some (e, s\<lparr>mc_log := mc_log s @ [Docker args]\<rparr>)))"

text \<open>The standard output of a command that succeeded within the output limit.\<close>

definition docker :: "tool \<Rightarrow> str list \<Rightarrow> bytes step" where
  "docker c args =
     chain (run_docker c args) (\<lambda>e.
       let (out, out_exceeded) = read_bounded_output (ev_stdout e);
           (err, err_exceeded) = read_bounded_output (ev_stderr e)
       in if out_exceeded \<or> err_exceeded \<or> \<not> ev_exit e then bail else return out)"

definition docker_ok :: "tool \<Rightarrow> str list \<Rightarrow> unit step" where
  "docker_ok c args = chain (docker c args) (\<lambda>_. return ())"

primrec health_rounds :: "nat \<Rightarrow> tool \<Rightarrow> unit step" where
  "health_rounds 0 c =
     chain (attempt (docker c [''logs'', ''--tail'', ''100'', CONTAINER])) (\<lambda>_. bail)"
| "health_rounds (Suc n) c =
     chain (docker c [''inspect'', ''--format={{.State.Health.Status}}'', CONTAINER]) (\<lambda>out.
       if trim (utf8_lossy out) = ''healthy'' then return () else health_rounds n c)"

definition wait_for_container_health :: "tool \<Rightarrow> unit step" where
  "wait_for_container_health c = health_rounds 30 c"

definition in_container :: "str list \<Rightarrow> str list" where
  "in_container args = [''exec'', ''--workdir'', ''/tmp'', CONTAINER] @ args"

definition cleanup_marker :: "tool \<Rightarrow> str \<Rightarrow> unit step" where
  "cleanup_marker c marker =
     chain (attempt (docker c (in_container [''/usr/bin/rm'', ''-f'', ''--'', marker]))) (\<lambda>removal.
     chain (attempt (docker c (in_container [''/usr/bin/test'', ''!'', ''-e'', marker]))) (\<lambda>absence.
       check_that (removal \<noteq> None \<and> absence \<noteq> None)))"

end
