(* ===== verification/Cutover_Verify.thy ===== *)
theory Cutover_Verify
  imports Cutover_Remote
begin

text \<open>
  The proofs the cutover tool collects before it commits: the doctor, the marker reply and the tool
  task of the running Hermes, correlated with the gateway's request log, and the scan of every surface
  for credentials.
\<close>

section \<open>Correlated requests\<close>

record request_item =
  ri_request_id :: uuid
  ri_client :: "uuid option"
  ri_outcome :: str
  ri_started :: time
  ri_finished :: "time option"
  ri_attempts :: "json list option"

definition as_time :: "tool \<Rightarrow> json \<Rightarrow> time option" where
  "as_time c v = Option.bind (as_str v) (tl_parse_time c)"

definition decode_request :: "tool \<Rightarrow> json \<Rightarrow> request_item option" where
  "decode_request c v =
     Option.bind (Option.bind (get_field ''request_id'' v) (as_uuid c)) (\<lambda>i.
     Option.bind (field_optional (as_uuid c) ''client_id'' v) (\<lambda>client_id.
     Option.bind (get_str ''outcome'' v) (\<lambda>outcome.
     Option.bind (Option.bind (get_field ''started_at'' v) (as_time c)) (\<lambda>started.
     Option.bind (field_optional (as_time c) ''finished_at'' v) (\<lambda>finished.
     Option.bind (field_optional as_array ''attempts'' v) (\<lambda>attempts.
       Some \<lparr>ri_request_id = i, ri_client = client_id, ri_outcome = outcome, ri_started = started,
             ri_finished = finished, ri_attempts = attempts\<rparr>))))))"

definition in_window :: "uuid \<Rightarrow> time \<Rightarrow> time \<Rightarrow> request_item \<Rightarrow> bool" where
  "in_window client_id started finished i \<longleftrightarrow>
     ri_client i = Some client_id \<and> started \<le> ri_started i \<and> ri_started i \<le> finished \<and>
     is_some_and (\<lambda>f. f \<le> finished) (ri_finished i)"

definition oldest_before :: "time \<Rightarrow> request_item list \<Rightarrow> bool" where
  "oldest_before started items \<longleftrightarrow> items \<noteq> [] \<and> Min (set (map ri_started items)) < started"

primrec request_pages ::
    "nat \<Rightarrow> tool \<Rightarrow> str \<Rightarrow> uuid \<Rightarrow> time \<Rightarrow> time \<Rightarrow> str option \<Rightarrow> request_item list \<Rightarrow> request_item list step" where
  "request_pages 0 c token client_id started finished cursor kept = bail"
| "request_pages (Suc fuel) c token client_id started finished cursor kept =
     chain (get_json c token (ADMIN_BASE @ ''/requests?limit=100'' @ page_suffix cursor)) (\<lambda>v.
     chain (require (decode_page (decode_request c) v)) (\<lambda>(items, following).
       let kept = kept @ filter (in_window client_id started finished) items
       in if following = None \<or> oldest_before started items then return kept
          else request_pages fuel c token client_id started finished following kept))"

definition request_detail :: "tool \<Rightarrow> str \<Rightarrow> str \<Rightarrow> request_item \<Rightarrow> request_receipt step" where
  "request_detail c token stage i =
     chain (get_json c token (ADMIN_BASE @ ''/requests/'' @ show_uuid (ri_request_id i))) (\<lambda>v.
     chain (require (decode_request c v)) (\<lambda>detail.
     chain (require (ri_finished i)) (\<lambda>finished.
       return \<lparr>rr_request_id = ri_request_id i,
               rr_attempt_count = length (unwrap_or [] (ri_attempts detail)),
               rr_outcome = ri_outcome i, rr_stage = stage, rr_started = ri_started i, rr_finished = finished\<rparr>)))"

text \<open>Sorted by start, then by identifier.\<close>

definition by_start :: "request_receipt list \<Rightarrow> request_receipt list" where
  "by_start items = sort_key rr_started (sort_key rr_request_id items)"

definition correlated_requests ::
    "tool \<Rightarrow> str \<Rightarrow> uuid option \<Rightarrow> time \<Rightarrow> time \<Rightarrow> str \<Rightarrow> request_receipt list step" where
  "correlated_requests c token client_id started finished stage =
     chain (require client_id) (\<lambda>client_id.
     chain (enough (\<lambda>n. request_pages n c token client_id started finished None [])) (\<lambda>kept.
     chain (collect (request_detail c token stage) kept) (\<lambda>items.
     let items = by_start items
     in if list_ex (\<lambda>i. rr_outcome i \<noteq> ''succeeded'') items then bail else return items)))"

section \<open>The running Hermes\<close>

record verification =
  vf_doctor :: bool
  vf_marker :: bool
  vf_tool :: bool
  vf_tool_sha256 :: str
  vf_requests :: "request_receipt list"

definition TOOL_CONTENT :: bytes where "TOOL_CONTENT = ''NBLB_TOOL_OK'' @ [LF]"

definition tool_prompt :: "str \<Rightarrow> str" where
  "tool_prompt marker = TOOL_PROMPT @ marker @ TOOL_PROMPT_END"

definition reply_is :: "bytes \<Rightarrow> str \<Rightarrow> bool" where
  "reply_is out expected \<longleftrightarrow> trim (bounded_text out) = expected"

definition marker_phase :: "tool \<Rightarrow> (bool \<times> time \<times> time) step" where
  "marker_phase c =
     chain utc_now (\<lambda>started.
     chain (docker c (in_container [HERMES, ''chat'', ''-Q'', ''--source'', ''tool'', ''--max-turns'', ''1'',
              ''-q'', ''Reply with exactly: NBLB_HERMES_OK''])) (\<lambda>out.
     chain utc_now (\<lambda>finished. return (reply_is out ''NBLB_HERMES_OK'', started, finished))))"

definition tool_phase :: "tool \<Rightarrow> str \<Rightarrow> (bytes \<times> time \<times> time) step" where
  "tool_phase c marker =
     chain utc_now (\<lambda>started.
     chain (docker c (in_container [HERMES, ''chat'', ''-Q'', ''--source'', ''tool'', ''--max-turns'', ''4'', ''--yolo'',
              ''-t'', ''terminal'', ''-q'', tool_prompt marker])) (\<lambda>out.
     chain utc_now (\<lambda>finished. return (out, started, finished))))"

definition prove_hermes :: "tool \<Rightarrow> str \<Rightarrow> str \<Rightarrow> uuid option \<Rightarrow> verification step" where
  "prove_hermes c token marker client_id =
     chain (docker c (in_container [HERMES, ''doctor''])) (\<lambda>_.
     chain (marker_phase c) (\<lambda>(marker_ok, marker_started, marker_finished).
     chain (tool_phase c marker) (\<lambda>(tool_out, tool_started, tool_finished).
     chain (docker c (in_container [''/usr/bin/stat'', ''--format=%F:%s'', marker])) (\<lambda>stat.
     chain (docker c (in_container [''/usr/bin/sha256sum'', marker])) (\<lambda>checksum.
     chain (correlated_requests c token client_id marker_started marker_finished ''marker'') (\<lambda>marker_requests.
     before (check_that (length marker_requests = 1))
    (chain (correlated_requests c token client_id tool_started tool_finished ''tool'') (\<lambda>tool_requests.
     before (check_that (2 \<le> length tool_requests \<and> length tool_requests \<le> 4))
    (let requests = marker_requests @ tool_requests;
         tool_reply_ok = reply_is tool_out ''NBLB_TOOL_OK'';
         stat_ok = reply_is stat ''regular file:13'';
         checksum_ok = nth_piece 0 (split_whitespace (bounded_text checksum)) = Some (to_hex (tl_sha256 c TOOL_CONTENT))
     in before (check_that (distinct (map rr_request_id requests)))
       (before (check_that (marker_ok \<and> tool_reply_ok \<and> stat_ok \<and> checksum_ok))
         (return \<lparr>vf_doctor = True, vf_marker = marker_ok, vf_tool = tool_reply_ok \<and> stat_ok \<and> checksum_ok,
                  vf_tool_sha256 = to_hex (tl_sha256 c tool_out), vf_requests = requests\<rparr>)))))))))))"

definition verify_hermes :: "tool \<Rightarrow> str \<Rightarrow> str \<Rightarrow> uuid option \<Rightarrow> verification step" where
  "verify_hermes c token marker client_id =
     before (cleanup_marker c marker)
    (chain (attempt (prove_hermes c token marker client_id)) (\<lambda>result.
     chain (attempt (cleanup_marker c marker)) (\<lambda>cleaned.
       if cleaned = None then bail else require result)))"

section \<open>The scan for credentials\<close>

definition scan_output :: "tool \<Rightarrow> str list \<Rightarrow> bytes list \<Rightarrow> nat list step" where
  "scan_output c args patterns =
     chain (run_docker c args) (\<lambda>e.
     chain (require (count_patterns_reader patterns (ev_stdout e))) (\<lambda>out.
     chain (require (count_patterns_reader patterns (ev_stderr e))) (\<lambda>err.
       if ev_exit e then return (add_counts out err) else bail)))"

definition container_image_id :: "tool \<Rightarrow> str \<Rightarrow> str step" where
  "container_image_id c container =
     chain (docker c [''inspect'', ''--format={{.Image}}'', container]) (\<lambda>out.
     before (check_that (utf8_segments out \<noteq> None \<and> valid_image_id (trim out))) (return (trim out)))"

definition SCAN_BOUNDARY :: nat where "SCAN_BOUNDARY = 16 * 1024 * 1024"

fun bounded_chunks :: "bytes \<Rightarrow> bytes option list \<Rightarrow> bytes option" where
  "bounded_chunks acc [] = Some acc"
| "bounded_chunks acc (None # rest) = None"
| "bounded_chunks acc (Some chunk # rest) =
     (if SCAN_BOUNDARY < length acc + length chunk then None else bounded_chunks (acc @ chunk) rest)"

definition bounded_scan_bytes :: "reply \<Rightarrow> bytes step" where
  "bounded_scan_bytes r = chain (error_for_status r) (\<lambda>r. require (bounded_chunks [] (rp_chunks r)))"

text \<open>One response, its bytes and what the patterns count in them.\<close>

definition scan_response :: "str option \<Rightarrow> bytes list \<Rightarrow> str \<Rightarrow> (bytes \<times> nat list) step" where
  "scan_response token patterns url =
     chain (exchange False url token None) (\<lambda>r.
     chain (bounded_scan_bytes r) (\<lambda>b.
     chain (require (count_patterns_reader patterns [b])) (\<lambda>counts. return (b, counts))))"

fun scan_all :: "str option \<Rightarrow> bytes list \<Rightarrow> str list \<Rightarrow> nat list \<Rightarrow> nat list step" where
  "scan_all token patterns [] counts = return counts"
| "scan_all token patterns (url # urls) counts =
     chain (scan_response token patterns url) (\<lambda>(b, new_counts).
       scan_all token patterns urls (add_counts counts new_counts))"

text \<open>The texts under a field of a page's items, and the page's cursor; anything else is passed over.\<close>

definition item_texts :: "str \<Rightarrow> json \<Rightarrow> str list" where
  "item_texts key page =
     (case get_array ''items'' page of None \<Rightarrow> [] | Some items \<Rightarrow> List.map_filter (get_str key) items)"

text \<open>At most a hundred pages of a collection, each followed by the details it lists.\<close>

primrec scan_pages ::
    "nat \<Rightarrow> tool \<Rightarrow> str option \<Rightarrow> bytes list \<Rightarrow> str \<Rightarrow> (json \<Rightarrow> str list) \<Rightarrow> str option \<Rightarrow> nat list \<Rightarrow> nat list step" where
  "scan_pages 0 c token patterns url details cursor counts = bail"
| "scan_pages (Suc n) c token patterns url details cursor counts =
     chain (scan_response token patterns (url @ ''?limit=100'' @ page_suffix cursor)) (\<lambda>(b, new_counts).
     chain (require (tl_parse c b)) (\<lambda>page.
     chain (scan_all token patterns (details page) (add_counts counts new_counts)) (\<lambda>counts.
       case get_str ''next_before'' page of
         None \<Rightarrow> return counts
       | Some cursor \<Rightarrow> scan_pages n c token patterns url details (Some cursor) counts)))"

definition INCIDENTS :: str where "INCIDENTS = PUBLIC_BASE @ ''/api/public/v1/incidents''"

definition public_bundle_pattern_matches :: "tool \<Rightarrow> bytes list \<Rightarrow> nat list step" where
  "public_bundle_pattern_matches c patterns =
     chain (scan_response None patterns PUBLIC_BASE) (\<lambda>(index, counts).
     chain (require (public_asset_paths index)) (\<lambda>assets.
     chain (scan_all None patterns (map (\<lambda>a. PUBLIC_BASE @ a) assets) counts) (\<lambda>counts.
     chain (scan_all None patterns (map (\<lambda>p. PUBLIC_BASE @ p)
         [''/api/public/v1/summary'', ''/api/public/v1/openapi.json'', ''/api/public/v1/metrics?window=24h&step=1h'',
          ''/api/public/v1/models'']) counts) (\<lambda>counts.
       scan_pages 100 c None patterns INCIDENTS
         (\<lambda>page. map (\<lambda>slug. INCIDENTS @ ''/'' @ slug) (item_texts ''slug'' page)) None counts))))"

definition scan_admin_collection ::
    "tool \<Rightarrow> str \<Rightarrow> bytes list \<Rightarrow> str \<times> str option \<times> str \<Rightarrow> nat list \<Rightarrow> nat list step" where
  "scan_admin_collection c token patterns collection counts =
     (let (p, detail, id_field) = collection
      in scan_pages 100 c (Some token) patterns (ADMIN_BASE @ p)
           (\<lambda>page. case detail of
              None \<Rightarrow> []
            | Some d \<Rightarrow> map (\<lambda>i. ADMIN_BASE @ d @ ''/'' @ i) (item_texts id_field page)) None counts)"

definition ADMIN_COLLECTIONS :: "(str \<times> str option \<times> str) list" where
  "ADMIN_COLLECTIONS =
     [(''/upstreams'', Some ''/upstreams'', ''id''), (''/clients'', Some ''/clients'', ''id''),
      (''/requests'', Some ''/requests'', ''request_id''), (''/probes'', Some ''/probes'', ''id''),
      (''/incidents'', None, ''id''), (''/audit'', None, ''id''), (''/qa/runs'', Some ''/qa/runs'', ''id'')]"

fun thread :: "('a \<Rightarrow> 'b \<Rightarrow> 'b step) \<Rightarrow> 'a list \<Rightarrow> 'b \<Rightarrow> 'b step" where
  "thread f [] counts = return counts"
| "thread f (x # xs) counts = chain (f x counts) (thread f xs)"

definition admin_response_pattern_matches :: "tool \<Rightarrow> str \<Rightarrow> bytes list \<Rightarrow> nat list step" where
  "admin_response_pattern_matches c token patterns =
     chain (scan_all (Some token) patterns (map (\<lambda>p. ADMIN_BASE @ p)
         [''/overview'', ''/attentions'', ''/openapi.json'', ''/routing/policy'', ''/models'', ''/settings'',
          ''/qa/secret-scan'']) (replicate (length patterns) 0))
       (thread (scan_admin_collection c token patterns) ADMIN_COLLECTIONS)"

text \<open>The configuration of a container and of its image, and the image's history.\<close>

definition scan_metadata :: "tool \<Rightarrow> bytes list \<Rightarrow> str \<Rightarrow> nat list \<Rightarrow> nat list step" where
  "scan_metadata c patterns container counts =
     chain (scan_output c [''inspect'', ''--format={{json .Config}}'', container] patterns) (\<lambda>config_counts.
     chain (container_image_id c container) (\<lambda>image_id.
     chain (scan_output c [''image'', ''inspect'', ''--format={{json .Config}}'', image_id] patterns) (\<lambda>image_counts.
     chain (scan_output c [''history'', ''--no-trunc'', ''--format={{json .}}'', image_id] patterns) (\<lambda>history_counts.
       return (add_counts (add_counts (add_counts counts config_counts) image_counts) history_counts)))))"

definition collect_secret_scan :: "tool \<Rightarrow> paths \<Rightarrow> str \<Rightarrow> str \<Rightarrow> secret_scan_receipt step" where
  "collect_secret_scan c ps token issued =
     chain (admin_get c token ''/qa/secret-scan'') (\<lambda>persisted.
     before (check_that (get_str ''schema_version'' persisted = Some ''nblb.secret-scan.v1''))
    (chain (require (get_u64 ''database_matches'' persisted)) (\<lambda>database_matches.
     let patterns = sensitive_patterns issued token
     in chain (scan_output c [''logs'', APP_CONTAINER] patterns) (\<lambda>app_counts.
        chain (scan_output c [''logs'', CONTAINER] patterns) (\<lambda>hermes_counts.
        chain (scan_output c [''logs'', CLOUDFLARED_CONTAINER] patterns) (\<lambda>cloudflared_counts.
        chain (thread (scan_metadata c patterns) CONTAINERS (replicate (length patterns) 0)) (\<lambda>metadata_counts.
        chain (public_bundle_pattern_matches c patterns) (\<lambda>public_counts.
        chain (admin_response_pattern_matches c token patterns) (\<lambda>admin_counts.
        chain (symlink_metadata (tl_executable c)) (\<lambda>m.
        before (check_that (md_file m \<and> \<not> md_symlink m))
       (chain (collect (\<lambda>p. chain (read_file (tl_executable c)) (\<lambda>b. return (file_pattern_matches p [b])))
            [nvidia_credential_prefix, issued, token]) (\<lambda>helper_counts.
        chain (tree_pattern_matches (p_hermes_dir ps) nvidia_credential_prefix) (\<lambda>hermes_tree_matches.
        let all_counts = [app_counts, hermes_counts, cloudflared_counts, metadata_counts, public_counts, admin_counts];
            evidence = \<lparr>ss_database = database_matches, ss_app_log = pattern_match_total app_counts,
              ss_hermes_log = pattern_match_total hermes_counts,
              ss_cloudflared_log = pattern_match_total cloudflared_counts,
              ss_image_metadata = pattern_match_total metadata_counts,
              ss_helper_artifact = pattern_match_total helper_counts, ss_hermes_tree = hermes_tree_matches,
              ss_public_bundle = pattern_match_total public_counts,
              ss_admin_response = pattern_match_total admin_counts,
              ss_issued_token = pattern_match_total (map (\<lambda>counts. counts ! 3) all_counts),
              ss_authorization_value = pattern_match_total (concat (map (drop 5) all_counts))\<rparr>
        in if total_matches evidence \<noteq> 0 then bail else return evidence)))))))))))))"

end
