(* ===== verification/Cutover.thy ===== *)
theory Cutover
  imports Cutover_Verify
begin

text \<open>
  The cutover itself: the snapshot of a generation, the candidate's life from its issue to the commit,
  the roll back, the recovery of interrupted generations under the lock, the retirement of a backup
  and \<open>run\<close>, which puts them together.
\<close>

section \<open>What is on disk\<close>

record snapshot_manifest =
  sm_schema :: str
  sm_generation :: uuid
  sm_env_sha256 :: str
  sm_config_sha256 :: str

definition manifest_json :: "snapshot_manifest \<Rightarrow> json" where
  "manifest_json m =
     JObject [(''config_sha256'', JString (sm_config_sha256 m)), (''env_sha256'', JString (sm_env_sha256 m)),
              (''generation'', JString (show_uuid (sm_generation m))), (''schema_version'', JString (sm_schema m))]"

definition decode_manifest :: "tool \<Rightarrow> json \<Rightarrow> snapshot_manifest option" where
  "decode_manifest c v =
     Option.bind (get_str ''schema_version'' v) (\<lambda>schema.
     Option.bind (Option.bind (get_field ''generation'' v) (as_uuid c)) (\<lambda>generation.
     Option.bind (get_str ''env_sha256'' v) (\<lambda>env.
     Option.bind (get_str ''config_sha256'' v) (\<lambda>config.
       Some \<lparr>sm_schema = schema, sm_generation = generation, sm_env_sha256 = env, sm_config_sha256 = config\<rparr>))))"

definition request_json :: "tool \<Rightarrow> request_receipt \<Rightarrow> json" where
  "request_json c i =
     JObject [(''request_id'', JString (show_uuid (rr_request_id i))), (''attempt_count'', jnat (rr_attempt_count i)),
              (''outcome'', JString (rr_outcome i)), (''stage'', JString (rr_stage i)),
              (''started_at'', JString (tl_show_time c (rr_started i))),
              (''finished_at'', JString (tl_show_time c (rr_finished i)))]"

definition receipt_json :: "tool \<Rightarrow> safe_receipt \<Rightarrow> json" where
  "receipt_json c r =
     JObject [(''schema_version'', JString (sr_schema r)), (''generation'', JString (show_uuid (sr_generation r))),
              (''embedded_commit'', JString (sr_commit r)), (''client_id'', JString (show_uuid (sr_client r))),
              (''qa_run_id'', optional_text (map_option show_uuid (sr_qa_run r))),
              (''doctor'', JBool (sr_doctor r)), (''marker'', JBool (sr_marker r)), (''tool'', JBool (sr_tool r)),
              (''rollback_rehearsal'', JBool (sr_rehearsal r)), (''duration_ms'', jnat (sr_duration_ms r)),
              (''tool_output_sha256'', JString (sr_tool_sha256 r)), (''secret_scan'', JObject (scan_fields (sr_scan r))),
              (''lb_requests'', JArray (map (request_json c) (sr_requests r)))]"

definition decode_scan :: "json \<Rightarrow> secret_scan_receipt option" where
  "decode_scan v =
     (case those (map (\<lambda>key. get_u64 key v)
         [''database_matches'', ''app_log_matches'', ''hermes_log_matches'', ''cloudflared_log_matches'',
          ''image_metadata_matches'', ''helper_artifact_matches'', ''hermes_tree_matches'', ''public_bundle_matches'',
          ''admin_response_matches'', ''issued_token_matches'', ''authorization_value_matches'']) of
        Some [a, b, d, e, f, g, h, i, j, k, l] \<Rightarrow>
          Some \<lparr>ss_database = a, ss_app_log = b, ss_hermes_log = d, ss_cloudflared_log = e, ss_image_metadata = f,
                ss_helper_artifact = g, ss_hermes_tree = h, ss_public_bundle = i, ss_admin_response = j,
                ss_issued_token = k, ss_authorization_value = l\<rparr>
      | _ \<Rightarrow> None)"

definition decode_request_receipt :: "tool \<Rightarrow> json \<Rightarrow> request_receipt option" where
  "decode_request_receipt c v =
     Option.bind (Option.bind (get_field ''request_id'' v) (as_uuid c)) (\<lambda>i.
     Option.bind (get_u64 ''attempt_count'' v) (\<lambda>attempts.
     Option.bind (get_str ''outcome'' v) (\<lambda>outcome.
     Option.bind (get_str ''stage'' v) (\<lambda>stage.
     Option.bind (Option.bind (get_field ''started_at'' v) (as_time c)) (\<lambda>started.
     Option.bind (Option.bind (get_field ''finished_at'' v) (as_time c)) (\<lambda>finished.
       Some \<lparr>rr_request_id = i, rr_attempt_count = attempts, rr_outcome = outcome, rr_stage = stage,
             rr_started = started, rr_finished = finished\<rparr>))))))"

definition decode_receipt :: "tool \<Rightarrow> json \<Rightarrow> safe_receipt option" where
  "decode_receipt c v =
     Option.bind (get_str ''schema_version'' v) (\<lambda>schema.
     Option.bind (Option.bind (get_field ''generation'' v) (as_uuid c)) (\<lambda>generation.
     Option.bind (get_str ''embedded_commit'' v) (\<lambda>commit.
     Option.bind (Option.bind (get_field ''client_id'' v) (as_uuid c)) (\<lambda>client_id.
     Option.bind (field_optional (as_uuid c) ''qa_run_id'' v) (\<lambda>run_id.
     Option.bind (get_bool ''doctor'' v) (\<lambda>doctor.
     Option.bind (get_bool ''marker'' v) (\<lambda>marker.
     Option.bind (get_bool ''tool'' v) (\<lambda>tool.
     Option.bind (get_bool ''rollback_rehearsal'' v) (\<lambda>rehearsal.
     Option.bind (get_u64 ''duration_ms'' v) (\<lambda>duration.
     Option.bind (get_str ''tool_output_sha256'' v) (\<lambda>sha.
     Option.bind (Option.bind (get_field ''secret_scan'' v) decode_scan) (\<lambda>scan.
     Option.bind (Option.bind (get_array ''lb_requests'' v) (\<lambda>xs. those (map (decode_request_receipt c) xs))) (\<lambda>requests.
       Some \<lparr>sr_schema = schema, sr_generation = generation, sr_commit = commit, sr_client = client_id,
             sr_qa_run = run_id, sr_doctor = doctor, sr_marker = marker, sr_tool = tool, sr_rehearsal = rehearsal,
             sr_duration_ms = duration, sr_tool_sha256 = sha, sr_scan = scan, sr_requests = requests\<rparr>)))))))))))))"

definition receipt_path :: "path \<Rightarrow> uuid \<Rightarrow> path" where
  "receipt_path d generation = d @ [show_uuid generation @ ''.json'']"

definition write_receipt :: "tool \<Rightarrow> paths \<Rightarrow> safe_receipt \<Rightarrow> unit step" where
  "write_receipt c ps r =
     before (ensure_root_directory c (p_receipt_root ps))
       (atomic_write c (receipt_path (p_receipt_root ps) (sr_generation r)) (tl_show c (receipt_json c r)) 384)"

section \<open>Snapshots\<close>

definition backup_path :: "paths \<Rightarrow> uuid \<Rightarrow> path" where
  "backup_path ps generation = p_backup_root ps @ [show_uuid generation]"

definition stage_path :: "paths \<Rightarrow> uuid \<Rightarrow> path" where
  "stage_path ps generation = p_backup_root ps @ [''.staging-'' @ show_uuid generation]"

definition fill_stage :: "tool \<Rightarrow> paths \<Rightarrow> uuid \<Rightarrow> str \<Rightarrow> unit step" where
  "fill_stage c ps generation label =
     (let stage = stage_path ps generation
      in before (copy_secure c (p_env ps) (stage @ [''hermes.env'']))
        (before (copy_secure c (p_config ps) (stage @ [''config.yaml'']))
        (chain (sha256_file c (stage @ [''hermes.env''])) (\<lambda>env_sha.
         chain (sha256_file c (stage @ [''config.yaml''])) (\<lambda>config_sha.
         before (atomic_write c (stage @ [''manifest.json''])
             (tl_show c (manifest_json \<lparr>sm_schema = ''nblb.hermes-snapshot.v1'', sm_generation = generation,
                                        sm_env_sha256 = env_sha, sm_config_sha256 = config_sha\<rparr>)) 384)
        (before (write_journal c stage ''client_operation_prepared'' (Some label) None)
        (before (sync_directory stage)
        (before (rename_dir stage (backup_path ps generation))
          (sync_directory (p_backup_root ps))))))))))"

definition take_snapshot :: "tool \<Rightarrow> paths \<Rightarrow> uuid \<Rightarrow> str \<Rightarrow> path step" where
  "take_snapshot c ps generation label =
     (let directory = backup_path ps generation; stage = stage_path ps generation
      in before (ensure_root_directory c (p_backup_root ps))
        (chain (inspect (\<lambda>s. exists_at stage s \<or> exists_at directory s)) (\<lambda>there.
         before (check_that (\<not> there))
        (before (create_secure_directory c stage)
        (chain (attempt (fill_stage c ps generation label)) (\<lambda>result.
         if result = None
         then before (attempt (cleanup_snapshot_stage c (p_backup_root ps) stage)) bail
         else return directory))))))"

definition snapshot_manifest_matches :: "tool \<Rightarrow> path \<Rightarrow> snapshot_manifest \<Rightarrow> bool step" where
  "snapshot_manifest_matches c backup m =
     chain (require (tl_parse_uuid c (last backup))) (\<lambda>directory_generation.
       if sm_schema m \<noteq> ''nblb.hermes-snapshot.v1'' \<or> sm_generation m \<noteq> directory_generation then return False
       else chain (sha256_file c (backup @ [''hermes.env''])) (\<lambda>env_sha.
            if sm_env_sha256 m \<noteq> env_sha then return False
            else chain (sha256_file c (backup @ [''config.yaml''])) (\<lambda>config_sha.
                 return (sm_config_sha256 m = config_sha))))"

definition verify_snapshot :: "tool \<Rightarrow> path \<Rightarrow> unit step" where
  "verify_snapshot c backup =
     before (validate_secure_file (backup @ [''manifest.json'']) True)
    (before (validate_secure_file (backup @ [''hermes.env'']) True)
    (before (validate_secure_file (backup @ [''config.yaml'']) True)
    (chain (read_file (backup @ [''manifest.json''])) (\<lambda>b.
     chain (require (Option.bind (tl_parse c b) (decode_manifest c))) (\<lambda>m.
     chain (snapshot_manifest_matches c backup m) check_that)))))"

definition restore_snapshot :: "tool \<Rightarrow> paths \<Rightarrow> path \<Rightarrow> unit step" where
  "restore_snapshot c ps backup =
     before (verify_snapshot c backup)
    (chain (read_file (backup @ [''hermes.env''])) (\<lambda>env.
     before (atomic_write c (p_env ps) env 384)
    (chain (read_file (backup @ [''config.yaml''])) (\<lambda>config.
       atomic_write c (p_config ps) config 384))))"

definition rollback_after_failure :: "tool \<Rightarrow> paths \<Rightarrow> path \<Rightarrow> unit step" where
  "rollback_after_failure c ps backup =
     before (attempt (docker c [''stop'', CONTAINER]))
    (before (restore_snapshot c ps backup)
    (before (docker_ok c [''start'', CONTAINER])
    (chain (attempt (wait_for_container_health c)) (\<lambda>healthy.
       if healthy = None then before (attempt (docker c [''stop'', CONTAINER])) bail else return ()))))"

section \<open>Apply\<close>

datatype cutover_end = Applied | Pre_commit | Reconcile_pending

definition candidate_label :: "uuid \<Rightarrow> str" where
  "candidate_label generation = ''hermes-cutover-'' @ show_uuid generation"

definition write_candidate :: "tool \<Rightarrow> paths \<Rightarrow> bytes \<Rightarrow> bytes \<Rightarrow> unit step" where
  "write_candidate c ps env config =
     before (atomic_write c (p_env ps) env 384) (atomic_write c (p_config ps) config 384)"

definition start_and_wait :: "tool \<Rightarrow> unit step" where
  "start_and_wait c = before (docker_ok c [''start'', CONTAINER]) (wait_for_container_health c)"

definition duration_ms :: "time \<Rightarrow> time \<Rightarrow> nat" where
  "duration_ms started now = min u64_max (nat ((now - started) div millis 1))"

text \<open>The steps up to the commit; any error among them is answered by \<open>abandon_candidate\<close>.\<close>

definition precommit ::
    "tool \<Rightarrow> paths \<Rightarrow> str \<Rightarrow> uuid \<Rightarrow> uuid \<Rightarrow> time \<Rightarrow> path \<Rightarrow> client_item \<times> str \<Rightarrow> safe_receipt step" where
  "precommit c ps token run_id generation started backup issue =
     (let (item, issued) = issue; label = candidate_label generation; client_id = cl_id item;
          marker = marker_path generation
      in chain (read_to_string (p_env ps)) (\<lambda>env.
         chain (read_to_string (p_config ps)) (\<lambda>config.
         chain (require (update_yaml config)) (\<lambda>candidate_config.
         let candidate_env = update_dotenv env ''NVIDIA_API_KEY'' issued
         in before (write_journal c backup ''candidate_ready'' (Some label) (Some client_id))
           (before (docker_ok c [''stop'', CONTAINER])
           (before (write_candidate c ps candidate_env candidate_config)
           (before (scan_for_direct_nvidia_key (p_hermes_dir ps))
           (before (write_journal c backup ''candidate_applied'' (Some label) (Some client_id))
           (before (start_and_wait c)
           (chain (verify_hermes c token marker (Some client_id)) (\<lambda>first.
            before (docker_ok c [''stop'', CONTAINER])
           (before (restore_snapshot c ps backup)
           (before (start_and_wait c)
           (before (docker_ok c [''stop'', CONTAINER])
           (before (write_candidate c ps candidate_env candidate_config)
           (before (start_and_wait c)
           (chain (verify_hermes c token marker (Some client_id)) (\<lambda>second.
            chain (collect_secret_scan c ps token issued) (\<lambda>scan.
            chain utc_now (\<lambda>now.
            let receipt = \<lparr>sr_schema = ''nblb.hermes-cutover.v1'', sr_generation = generation,
                  sr_commit = tl_commit c, sr_client = client_id, sr_qa_run = Some run_id,
                  sr_doctor = vf_doctor first \<and> vf_doctor second, sr_marker = vf_marker first \<and> vf_marker second,
                  sr_tool = vf_tool first \<and> vf_tool second, sr_rehearsal = True,
                  sr_duration_ms = duration_ms started now, sr_tool_sha256 = vf_tool_sha256 second,
                  sr_scan = scan, sr_requests = vf_requests second\<rparr>
            in before (write_receipt c ps receipt)
              (before (write_journal c backup ''committed'' (Some label) (Some client_id))
                (return receipt))))))))))))))))))))))"

definition abandon_candidate :: "tool \<Rightarrow> paths \<Rightarrow> str \<Rightarrow> uuid \<Rightarrow> path \<Rightarrow> str \<Rightarrow> uuid \<Rightarrow> cutover_end step" where
  "abandon_candidate c ps token run_id backup label client_id =
     chain (attempt (rollback_after_failure c ps backup)) (\<lambda>rolled_back.
     before (if rolled_back = None then return ()
             else before (attempt (write_journal c backup ''rollback_cleanup_pending'' (Some label) (Some client_id)))
                 (chain (attempt (revoke_client_from c token client_id)) (\<lambda>revoked.
                  if revoked = None then return ()
                  else before (attempt (write_journal c backup ''rolled_back'' (Some label) (Some client_id))) (return ()))))
    (before (attempt (report_failed_hermes_run c token run_id)) (return Pre_commit)))"

definition finish_commit :: "tool \<Rightarrow> str \<Rightarrow> path \<Rightarrow> str \<Rightarrow> safe_receipt \<Rightarrow> cutover_end step" where
  "finish_commit c token backup label receipt =
     chain (attempt (before (reconcile_remote_state c token receipt)
         (write_journal c backup ''reconciled'' (Some label) (Some (sr_client receipt))))) (\<lambda>reconciled.
       if reconciled = None
       then before (attempt (write_journal c backup ''reconcile_pending'' (Some label) (Some (sr_client receipt))))
           (return Reconcile_pending)
       else return Applied)"

text \<open>An apply of one generation, from its snapshot on.\<close>

definition apply_generation :: "tool \<Rightarrow> paths \<Rightarrow> str \<Rightarrow> uuid \<Rightarrow> time \<Rightarrow> uuid \<Rightarrow> cutover_end step" where
  "apply_generation c ps token run_id started generation =
     (let label = candidate_label generation
      in chain (attempt (take_snapshot c ps generation label)) (\<lambda>snap.
         case snap of
           None \<Rightarrow> before (attempt (report_failed_hermes_run c token run_id)) (return Pre_commit)
         | Some backup \<Rightarrow>
             chain (attempt (issue_or_rotate_client c token label)) (\<lambda>issue.
             case issue of
               None \<Rightarrow>
                 before (attempt (rollback_after_failure c ps backup))
                (before (attempt (report_failed_hermes_run c token run_id)) (return Pre_commit))
             | Some issue \<Rightarrow>
                 chain (attempt (precommit c ps token run_id generation started backup issue)) (\<lambda>result.
                 case result of
                   None \<Rightarrow> abandon_candidate c ps token run_id backup label (cl_id (fst issue))
                 | Some receipt \<Rightarrow> finish_commit c token backup label receipt))))"

definition apply_cutover :: "tool \<Rightarrow> paths \<Rightarrow> str \<Rightarrow> uuid \<Rightarrow> cutover_end step" where
  "apply_cutover c ps token run_id =
     chain utc_now (\<lambda>started. chain new_uuid (\<lambda>generation. apply_generation c ps token run_id started generation))"

section \<open>Recovery\<close>

definition load_committed_receipt :: "tool \<Rightarrow> paths \<Rightarrow> path \<Rightarrow> recovery_journal \<Rightarrow> safe_receipt step" where
  "load_committed_receipt c ps backup j =
     chain (require (tl_parse_uuid c (last backup))) (\<lambda>generation.
     let receipt_file = receipt_path (p_receipt_root ps) generation
     in before (validate_secure_file receipt_file True)
       (chain (read_file receipt_file) (\<lambda>b.
        chain (require (Option.bind (tl_parse c b) (decode_receipt c))) (\<lambda>r.
        before (check_that (sr_schema r = ''nblb.hermes-cutover.v1'' \<and> sr_generation r = generation \<and>
                  sr_commit r = tl_commit c \<and> Some (sr_client r) = jn_client j))
          (return r)))))"

definition reconcile_committed_cutover ::
    "tool \<Rightarrow> paths \<Rightarrow> str \<Rightarrow> path \<Rightarrow> recovery_journal \<Rightarrow> uuid option step" where
  "reconcile_committed_cutover c ps token backup j =
     chain (load_committed_receipt c ps backup j) (\<lambda>r.
     before (reconcile_remote_state c token r)
    (before (write_journal c backup ''reconciled'' (jn_label j) (Some (sr_client r)))
      (return (sr_qa_run r))))"

text \<open>An interrupted generation that was not committed: its files, then its client, then its journal.\<close>

definition undo_generation :: "tool \<Rightarrow> paths \<Rightarrow> str \<Rightarrow> path \<Rightarrow> recovery_journal \<Rightarrow> recovery_act \<Rightarrow> unit step" where
  "undo_generation c ps token backup j act =
     before (if act = Rollback_and_revoke then rollback_after_failure c ps backup else return ())
    (chain (case jn_client j of
              Some i \<Rightarrow> return (Some i)
            | None \<Rightarrow> (case jn_label j of
                         Some label \<Rightarrow> find_active_client_by_label c token label
                       | None \<Rightarrow> return None)) (\<lambda>client_id.
     before (case client_id of Some i \<Rightarrow> revoke_client_from c token i | None \<Rightarrow> return ())
       (write_journal c backup (if act = Revoke_after_rollback then ''rolled_back'' else ''recovered'')
          (jn_label j) client_id)))"

definition recover_generation :: "tool \<Rightarrow> paths \<Rightarrow> str \<Rightarrow> path \<Rightarrow> uuid option step" where
  "recover_generation c ps token backup =
     chain (read_recovery_journal c backup) (\<lambda>j.
     chain (require (recovery_action j)) (\<lambda>act.
     case act of
       No_recovery \<Rightarrow> return None
     | Reconcile_committed \<Rightarrow> reconcile_committed_cutover c ps token backup j
     | _ \<Rightarrow> before (undo_generation c ps token backup j act) (return None)))"

definition is_staging :: "tool \<Rightarrow> str \<Rightarrow> bool" where
  "is_staging c name \<longleftrightarrow> utf8_name name \<and> staging_generation (tl_parse_uuid c) name \<noteq> None"

text \<open>The entries of the backup root: a staged one is removed, the others must be verified snapshots.\<close>

fun survey_backups :: "tool \<Rightarrow> path \<Rightarrow> str list \<Rightarrow> path list step" where
  "survey_backups c backup_root [] = return []"
| "survey_backups c backup_root (name # names) =
     (let entry = backup_root @ [name]
      in chain (symlink_metadata entry) (\<lambda>m.
         before (check_that (real_directory m))
        (if is_staging c name
         then before (cleanup_snapshot_stage c backup_root entry) (survey_backups c backup_root names)
         else before (validate_generation_directory c entry)
             (before (verify_snapshot c entry)
             (chain (survey_backups c backup_root names) (\<lambda>backups. return (entry # backups)))))))"

definition recover_incomplete_cutovers :: "tool \<Rightarrow> paths \<Rightarrow> str \<Rightarrow> uuid list step" where
  "recover_incomplete_cutovers c ps token =
     chain (inspect (exists_at (p_backup_root ps))) (\<lambda>there.
       if \<not> there then return []
       else before (ensure_root_directory c (p_backup_root ps))
           (chain (read_dir (p_backup_root ps)) (\<lambda>names.
            chain (survey_backups c (p_backup_root ps) names) (\<lambda>backups.
            chain (collect (recover_generation c ps token) (sort backups)) (\<lambda>runs.
              return (List.map_filter id runs))))))"

definition matching_generation :: "tool \<Rightarrow> paths \<Rightarrow> uuid \<Rightarrow> str list \<Rightarrow> path \<Rightarrow> bool step" where
  "matching_generation c ps run_id accepted_states entry =
     before (validate_generation_directory c entry)
    (before (cleanup_atomic_temps c entry TARGETS)
    (before (verify_snapshot c entry)
    (chain (read_recovery_journal c entry) (\<lambda>j.
     before (check_that (recovery_action j \<noteq> None))
    (if jn_state j \<notin> set accepted_states then return False
     else chain (load_committed_receipt c ps entry j) (\<lambda>r. return (sr_qa_run r = Some run_id)))))))"

fun any_matching_generation :: "tool \<Rightarrow> paths \<Rightarrow> uuid \<Rightarrow> str list \<Rightarrow> str list \<Rightarrow> bool step" where
  "any_matching_generation c ps run_id accepted_states [] = return False"
| "any_matching_generation c ps run_id accepted_states (name # names) =
     (let entry = p_backup_root ps @ [name]
      in chain (symlink_metadata entry) (\<lambda>m.
         before (check_that (real_directory m))
        (chain (if is_staging c name then return False
                else matching_generation c ps run_id accepted_states entry) (\<lambda>matching.
         if matching then return True
         else any_matching_generation c ps run_id accepted_states names))))"

definition has_matching_local_generation :: "tool \<Rightarrow> paths \<Rightarrow> uuid \<Rightarrow> str list \<Rightarrow> bool step" where
  "has_matching_local_generation c ps run_id accepted_states =
     chain (inspect (exists_at (p_backup_root ps))) (\<lambda>there.
       if \<not> there then return False
       else before (validate_existing_root_directory c (p_backup_root ps))
           (chain (read_dir (p_backup_root ps)) (any_matching_generation c ps run_id accepted_states)))"

section \<open>Retirement\<close>

record retirement_receipt =
  rt_schema :: str
  rt_generation :: uuid
  rt_commit :: str
  rt_client :: uuid
  rt_env_sha256 :: str
  rt_config_sha256 :: str
  rt_confirmed :: bool
  rt_retired_at :: time

definition retirement_json :: "tool \<Rightarrow> retirement_receipt \<Rightarrow> json" where
  "retirement_json c r =
     JObject [(''schema_version'', JString (rt_schema r)), (''generation'', JString (show_uuid (rt_generation r))),
              (''embedded_commit'', JString (rt_commit r)), (''cutover_client_id'', JString (show_uuid (rt_client r))),
              (''snapshot_env_sha256'', JString (rt_env_sha256 r)),
              (''snapshot_config_sha256'', JString (rt_config_sha256 r)),
              (''provider_revocation_confirmed'', JBool (rt_confirmed r)),
              (''retired_at'', JString (tl_show_time c (rt_retired_at r)))]"

definition decode_retirement :: "tool \<Rightarrow> json \<Rightarrow> retirement_receipt option" where
  "decode_retirement c v =
     Option.bind (get_str ''schema_version'' v) (\<lambda>schema.
     Option.bind (Option.bind (get_field ''generation'' v) (as_uuid c)) (\<lambda>generation.
     Option.bind (get_str ''embedded_commit'' v) (\<lambda>commit.
     Option.bind (Option.bind (get_field ''cutover_client_id'' v) (as_uuid c)) (\<lambda>client_id.
     Option.bind (get_str ''snapshot_env_sha256'' v) (\<lambda>env.
     Option.bind (get_str ''snapshot_config_sha256'' v) (\<lambda>config.
     Option.bind (get_bool ''provider_revocation_confirmed'' v) (\<lambda>confirmed.
     Option.bind (Option.bind (get_field ''retired_at'' v) (as_time c)) (\<lambda>retired_at.
       Some \<lparr>rt_schema = schema, rt_generation = generation, rt_commit = commit, rt_client = client_id,
             rt_env_sha256 = env, rt_config_sha256 = config, rt_confirmed = confirmed, rt_retired_at = retired_at\<rparr>))))))))"

definition read_retirement_receipt :: "tool \<Rightarrow> path \<Rightarrow> retirement_receipt step" where
  "read_retirement_receipt c p =
     before (validate_secure_file p True)
    (chain (read_file p) (\<lambda>b.
     chain (require (Option.bind (tl_parse c b) (decode_retirement c))) (\<lambda>r.
     before (check_that (rt_schema r = ''nblb.hermes-backup-retirement.v1'')) (return r))))"

definition remove_retired_file :: "path \<Rightarrow> unit step" where
  "remove_retired_file p =
     chain (inspect (exists_at p)) (\<lambda>there.
       if there then before (validate_secure_file p True) (remove_file p) else return ())"

definition finish_retired_backup_cleanup :: "tool \<Rightarrow> path \<Rightarrow> path \<Rightarrow> unit step" where
  "finish_retired_backup_cleanup c backup_root backup =
     chain (inspect (exists_at backup)) (\<lambda>there.
       if \<not> there then sync_directory backup_root
       else before (validate_generation_directory c backup)
           (chain (read_dir backup) (\<lambda>names.
            before (for_each (\<lambda>name.
                before (check_that (utf8_name name \<and> name \<in> set TARGETS))
                  (chain (symlink_metadata (backup @ [name])) (\<lambda>m. check_that (md_file m \<and> \<not> md_symlink m)))) names)
           (before (for_each (\<lambda>name. remove_retired_file (backup @ [name])) TARGETS)
           (before (sync_directory backup)
           (before (remove_dir backup) (sync_directory backup_root)))))))"

definition terminal_receipt :: "tool \<Rightarrow> uuid \<Rightarrow> uuid \<Rightarrow> safe_receipt \<Rightarrow> bool" where
  "terminal_receipt c generation client_id r \<longleftrightarrow>
     sr_schema r = ''nblb.hermes-cutover.v1'' \<and> sr_generation r = generation \<and> sr_commit r = tl_commit c \<and>
     sr_client r = client_id \<and> sr_doctor r \<and> sr_marker r \<and> sr_tool r \<and> sr_rehearsal r"

text \<open>The first retirement of a generation: what it must show, and the receipt written for it.\<close>

definition retire_generation :: "tool \<Rightarrow> paths \<Rightarrow> uuid \<Rightarrow> unit step" where
  "retire_generation c ps generation =
     (let backup = backup_path ps generation; cutover_file = receipt_path (p_receipt_root ps) generation
      in before (validate_generation_directory c backup)
        (before (verify_snapshot c backup)
        (before (validate_secure_file (backup @ [''journal.json'']) True)
        (chain (read_file (backup @ [''journal.json''])) (\<lambda>b.
         chain (require (Option.bind (tl_parse c b) (decode_journal c))) (\<lambda>j.
         before (check_that (jn_schema j = ''nblb.hermes-journal.v1'' \<and> jn_state j = ''reconciled''))
        (chain (require (jn_client j)) (\<lambda>client_id.
         before (validate_secure_file cutover_file True)
        (chain (read_file cutover_file) (\<lambda>b.
         chain (require (Option.bind (tl_parse c b) (decode_receipt c))) (\<lambda>cutover.
         before (check_that (terminal_receipt c generation client_id cutover))
        (chain (read_file (backup @ [''manifest.json''])) (\<lambda>b.
         chain (require (Option.bind (tl_parse c b) (decode_manifest c))) (\<lambda>m.
         chain utc_now (\<lambda>now.
           atomic_write c (receipt_path (p_retirement_root ps) generation)
             (tl_show c (retirement_json c
                \<lparr>rt_schema = ''nblb.hermes-backup-retirement.v1'', rt_generation = generation, rt_commit = tl_commit c,
                 rt_client = client_id, rt_env_sha256 = sm_env_sha256 m, rt_config_sha256 = sm_config_sha256 m,
                 rt_confirmed = True, rt_retired_at = now\<rparr>)) 384)))))))))))))))"

definition retire_backup :: "tool \<Rightarrow> paths \<Rightarrow> uuid \<Rightarrow> bool \<Rightarrow> unit step" where
  "retire_backup c ps generation provider_revoked =
     (let retirement_file = receipt_path (p_retirement_root ps) generation; backup = backup_path ps generation
      in before (check_that provider_revoked)
        (before (ensure_root_directory c (p_backup_root ps))
        (before (ensure_root_directory c (p_receipt_root ps))
        (before (ensure_root_directory c (p_retirement_root ps))
        (chain (inspect (exists_at retirement_file)) (\<lambda>there.
         before (if there
                 then chain (read_retirement_receipt c retirement_file) (\<lambda>r.
                        check_that (rt_generation r = generation \<and> rt_commit r = tl_commit c \<and> rt_confirmed r))
                 else before (retire_generation c ps generation) (sync_directory (p_retirement_root ps)))
           (finish_retired_backup_cleanup c (p_backup_root ps) backup)))))))"

section \<open>The tool\<close>

definition eligible_upstreams :: "json \<Rightarrow> nat" where
  "eligible_upstreams v =
     (case get_array ''items'' v of
        None \<Rightarrow> 0
      | Some items \<Rightarrow> length (filter (\<lambda>i. get_bool ''eligible_now'' i = Some True) items))"

definition preflight :: "tool \<Rightarrow> paths \<Rightarrow> unit step" where
  "preflight c ps =
     before (require_root c)
    (before (validate_secure_file (p_env ps) True)
    (before (validate_secure_file (p_config ps) True)
    (before (validate_secure_file (p_admin_token ps) False)
    (before (reject_mountpoint c (p_env ps))
    (before (reject_mountpoint c (p_config ps))
    (before (validate_directory (p_hermes_dir ps))
    (chain (exchange False (PUBLIC_BASE @ ''/health/ready'') None None) (\<lambda>ready.
     before (check_that (is_success (rp_status ready)))
    (chain (read_secret (p_admin_token ps)) (\<lambda>token.
     chain (admin_get c token ''/upstreams?limit=100'') (\<lambda>upstreams.
       check_that (eligible_upstreams upstreams = 2))))))))))))"

text \<open>How the process ends: a message on the console and status 0, or an error and status 1.\<close>

datatype run_end =
    Printed_version | Retired | Confirmed | Preflight_ok | Verified verification | Finished cutover_end

definition confirm_or_start :: "tool \<Rightarrow> paths \<Rightarrow> str \<Rightarrow> str \<Rightarrow> qa_run_target \<Rightarrow> run_intent \<Rightarrow> uuid list \<Rightarrow> bool step" where
  "confirm_or_start c ps token expected target intent reconciled_runs =
     chain (validate_qa_run_target c token (qr_id target) expected) (\<lambda>refreshed.
     chain (if qr_id target \<in> set reconciled_runs then return True
            else has_matching_local_generation c ps (qr_id target) [''reconciled'']) (\<lambda>local_reconciled.
     chain (require (post_lock_qa_decision (qr_status refreshed) local_reconciled)) (\<lambda>decision.
       case decision of
         Complete_now \<Rightarrow> return True
       | Start_now \<Rightarrow> if intent = Start_run then return False else bail)))"

definition verify_standalone :: "tool \<Rightarrow> str \<Rightarrow> run_end step" where
  "verify_standalone c token =
     chain new_uuid (\<lambda>generation.
     chain (active_hermes_client c token) (\<lambda>client_id.
     chain (verify_hermes c token (marker_path generation) client_id) (\<lambda>v. return (Verified v))))"

text \<open>What follows once the lock is held and the earlier generations are settled.\<close>

definition perform :: "tool \<Rightarrow> paths \<Rightarrow> str \<Rightarrow> action \<Rightarrow> qa_run_target option \<Rightarrow> run_end step" where
  "perform c ps token act target =
     chain (attempt (preflight c ps)) (\<lambda>ready.
       if ready = None
       then before (case target of
                      None \<Rightarrow> return ()
                    | Some t \<Rightarrow> before (attempt (report_failed_hermes_run c token (qr_id t))) (return ()))
              bail
       else if act = Preflight then return Preflight_ok
       else if act = Verify then verify_standalone c token
       else (case target of
               None \<Rightarrow> bail
             | Some t \<Rightarrow> chain (apply_cutover c ps token (qr_id t)) (\<lambda>e. return (Finished e))))"

definition run_cutover :: "tool \<Rightarrow> paths \<Rightarrow> options \<Rightarrow> str \<Rightarrow> run_end step" where
  "run_cutover c ps opts expected =
     chain (read_secret (p_admin_token ps)) (\<lambda>token.
     chain (case op_qa_run opts of
              None \<Rightarrow> return None
            | Some run_id \<Rightarrow> chain (validate_qa_run_target c token run_id expected) (\<lambda>t. return (Some t))) (\<lambda>target.
     chain (case target of
              None \<Rightarrow> return Start_run
            | Some t \<Rightarrow>
                chain (has_matching_local_generation c ps (qr_id t) [''committed'', ''reconcile_pending'', ''reconciled''])
                  (\<lambda>matching. require (qa_run_intent (qr_status t) matching))) (\<lambda>intent.
     before (acquire_cutover_lock c ps)
    (before (cleanup_atomic_temps c (p_hermes_dir ps) [''.env'', ''config.yaml''])
    (chain (recover_incomplete_cutovers c ps token) (\<lambda>reconciled_runs.
     chain (case target of
              None \<Rightarrow> return False
            | Some t \<Rightarrow> confirm_or_start c ps token expected t intent reconciled_runs) (\<lambda>confirmed.
       if confirmed then return Confirmed else perform c ps token (op_action opts) target)))))))"

definition run :: "tool \<Rightarrow> paths \<Rightarrow> str list \<Rightarrow> run_end step" where
  "run c ps arguments =
     chain (require (parse_options (tl_parse_uuid c) arguments)) (\<lambda>opts.
       if op_action opts = Version then return Printed_version
       else before (require_root c)
           (chain (validate_expected_commit c) (\<lambda>commit.
              if op_action opts = Retire_backup
              then before (acquire_cutover_lock c ps)
                  (chain (require (op_generation opts)) (\<lambda>generation.
                   before (retire_backup c ps generation (op_provider_revoked opts)) (return Retired)))
              else run_cutover c ps opts commit)))"

end
