(* ===== verification/Cutover_Logic.thy ===== *)
theory Cutover_Logic
  imports Cutover
begin

text \<open>
  Reasoning about steps that may fail or be killed anywhere. \<open>ends m s Q E K\<close>: from \<open>s\<close>, a return of
  \<open>m\<close> satisfies \<open>Q\<close>, an error \<open>E\<close> and a killed process leaves a machine that satisfies \<open>K\<close>. The
  temporaries of atomic writes are hidden by \<open>view\<close>, under which an atomic write is one step.
\<close>

definition ends :: "'a step \<Rightarrow> machine \<Rightarrow> ('a \<Rightarrow> machine \<Rightarrow> bool) \<Rightarrow> (machine \<Rightarrow> bool) \<Rightarrow> (machine \<Rightarrow> bool) \<Rightarrow> bool" where
  "ends m s Q E K = (case m s of (Return x, s') \<Rightarrow> Q x s' | (Raise, s') \<Rightarrow> E s' | (Killed, s') \<Rightarrow> K s')"

lemma ends_return [simp]: "ends (return x) s Q E K \<longleftrightarrow> Q x s"
  by (simp add: ends_def return_def)

lemma ends_bail [simp]: "ends bail s Q E K \<longleftrightarrow> E s"
  by (simp add: ends_def bail_def)

lemma ends_chain [simp]: "ends (chain m f) s Q E K \<longleftrightarrow> ends m s (\<lambda>x s'. ends (f x) s' Q E K) E K"
  by (auto simp: ends_def chain_def split: prod.splits outcome.splits)

lemma ends_before [simp]: "ends (before m n) s Q E K \<longleftrightarrow> ends m s (\<lambda>_ s'. ends n s' Q E K) E K"
  by (simp add: before_def)

lemma ends_attempt [simp]: "ends (attempt m) s Q E K \<longleftrightarrow> ends m s (\<lambda>x. Q (Some x)) (Q None) K"
  by (auto simp: ends_def attempt_def split: prod.splits outcome.splits)

lemma ends_check_that [simp]: "ends (check_that b) s Q E K \<longleftrightarrow> (if b then Q () s else E s)"
  by (simp add: check_that_def)

lemma ends_require [simp]: "ends (require r) s Q E K \<longleftrightarrow> (case r of None \<Rightarrow> E s | Some x \<Rightarrow> Q x s)"
  by (simp add: require_def split: option.splits)

lemma ends_inspect [simp]: "ends (inspect f) s Q E K \<longleftrightarrow> Q (f s) s"
  by (simp add: ends_def inspect_def)

lemma ends_mono:
  "ends m s Q E K \<Longrightarrow> (\<And>x s'. Q x s' \<Longrightarrow> Q' x s') \<Longrightarrow> (\<And>s'. E s' \<Longrightarrow> E' s') \<Longrightarrow> (\<And>s'. K s' \<Longrightarrow> K' s') \<Longrightarrow>
    ends m s Q' E' K'"
  by (auto simp: ends_def split: prod.splits outcome.splits)

lemma ends_conj:
  "ends m s Q E K \<Longrightarrow> ends m s Q' E' K' \<Longrightarrow>
    ends m s (\<lambda>x s'. Q x s' \<and> Q' x s') (\<lambda>s'. E s' \<and> E' s') (\<lambda>s'. K s' \<and> K' s')"
  by (auto simp: ends_def split: prod.splits outcome.splits)

section \<open>What every step does to the events and to the log\<close>

definition follows :: "machine \<Rightarrow> machine \<Rightarrow> bool" where
  "follows s s' \<longleftrightarrow> set (mc_events s') \<subseteq> set (mc_events s) \<and> set (mc_log s) \<subseteq> set (mc_log s')"

lemma follows_refl [simp]: "follows s s"
  by (simp add: follows_def)

lemma follows_trans [trans]: "follows a b \<Longrightarrow> follows b d \<Longrightarrow> follows a d"
  by (auto simp: follows_def)

definition honest :: "machine \<Rightarrow> bool" where
  "honest s \<longleftrightarrow> list_all ev_synced (mc_events s)"

lemma honest_follows: "honest s \<Longrightarrow> follows s s' \<Longrightarrow> honest s'"
  by (auto simp: honest_def follows_def list_all_iff)

lemma take_event_facts:
  assumes "take_event s = (e, s')"
  shows "mc_files s' = mc_files s" "mc_log s' = mc_log s" "follows s s'" "honest s \<Longrightarrow> ev_synced e"
  using assms by (auto simp: take_event_def follows_def honest_def fine_def split: list.splits)

lemma node_at_files: "mc_files s' = mc_files s \<Longrightarrow> node_at s' = node_at s"
  by (simp add: node_at_def)

lemma ends_system_call:
  assumes "\<And>e s1. take_event s = (e, s1) \<Longrightarrow>
    E s1 \<and> K s1 \<and> (case f e s1 of None \<Rightarrow> True | Some (x, s') \<Rightarrow> Q x s' \<and> K s')"
  shows "ends (system_call f) s Q E K"
  using assms [of "fst (take_event s)" "snd (take_event s)"]
  by (auto simp: ends_def system_call_def split: prod.splits fate.splits option.splits)

lemma map_of_without: "map_of (filter (\<lambda>(q, _). q \<noteq> p) xs) = (map_of xs)(p := None)"
  by (induction xs) (auto simp: fun_eq_iff)

lemma node_at_put [simp]: "node_at (put_node p n s) = (node_at s)(p \<mapsto> n)"
  by (simp add: node_at_def put_node_def map_of_without)

lemma node_at_drop [simp]: "node_at (drop_node p s) = (node_at s)(p := None)"
  by (simp add: node_at_def drop_node_def map_of_without)

lemma put_node_simps [simp]:
  "mc_events (put_node p n s) = mc_events s" "mc_log (put_node p n s) = mc_log s"
  "mc_events (drop_node p s) = mc_events s" "mc_log (drop_node p s) = mc_log s"
  by (simp_all add: put_node_def drop_node_def)

lemma follows_put [simp]: "follows s (put_node p n s') \<longleftrightarrow> follows s s'" "follows s (drop_node p s') \<longleftrightarrow> follows s s'"
  by (simp_all add: follows_def)

section \<open>The view without temporaries\<close>

definition temporary :: "path \<Rightarrow> bool" where
  "temporary p \<longleftrightarrow> p \<noteq> [] \<and> ends_with ''.tmp'' (last p)"

definition view :: "machine \<Rightarrow> path \<Rightarrow> node option" where
  "view s p = (if temporary p then None else node_at s p)"

lemma temporary_name: "temporary (temporary_name p u)"
  by (simp add: temporary_def temporary_name_def ends_with_iff)

lemma view_cong: "(\<And>q. \<not> temporary q \<Longrightarrow> node_at s q = node_at s' q) \<Longrightarrow> view s = view s'"
  by (auto simp: view_def fun_eq_iff)

lemma view_files: "mc_files s' = mc_files s \<Longrightarrow> view s' = view s"
  by (rule view_cong) (drule node_at_files, simp)

text \<open>A file as an atomic write leaves it.\<close>

definition file_of :: "bytes \<Rightarrow> node" where
  "file_of b = \<lparr>nd_meta = new_meta False 384, nd_content = Some b\<rparr>"

text \<open>
  From \<open>s\<close>, everything an atomic write does before its rename happens to one temporary: \<open>aside\<close>.
\<close>

definition aside :: "path \<Rightarrow> node option \<Rightarrow> machine \<Rightarrow> machine \<Rightarrow> bool" where
  "aside t n s s' \<longleftrightarrow> follows s s' \<and> node_at s' = (node_at s)(t := n)"

lemma aside_view: "aside t n s s' \<Longrightarrow> temporary t \<Longrightarrow> view s' = view s"
  by (auto simp: aside_def intro!: view_cong)

lemma aside_take: "aside t n s s' \<Longrightarrow> take_event s' = (e, s1) \<Longrightarrow> aside t n s s1"
  using take_event_facts [of s' e s1] node_at_files [of s1 s'] by (auto simp: aside_def intro: follows_trans)

lemma create_new_ends:
  assumes "temporary t"
    "\<And>s'. follows s s' \<Longrightarrow> view s' = view s \<Longrightarrow> E s' \<and> K s'"
    "\<And>s'. is_directory (butlast t) s \<Longrightarrow> aside t (Some \<lparr>nd_meta = new_meta False (tl_masked c mode), nd_content = Some []\<rparr>) s s' \<Longrightarrow> Q () s'"
  shows "ends (create_new c t mode) s Q E K"
  unfolding create_new_def
proof (rule ends_system_call, goal_cases)
  case (1 e s1)
  note t = take_event_facts [OF 1]
  have same: "node_at s1 = node_at s" using t(1) by (rule node_at_files)
  have "view s1 = view s" using same by (intro view_cong) simp
  then have "E s1 \<and> K s1" by (intro assms(2)) (use t in auto)
  moreover have "Q () s'" if "s' = put_node t n s1" "n = \<lparr>nd_meta = new_meta False (tl_masked c mode), nd_content = Some []\<rparr>"
    "is_directory (butlast t) s1" for s' n
    by (rule assms(3)) (use that t same in \<open>auto simp: aside_def is_directory_def\<close>)
  moreover have "K (put_node t n s1)" for n
    by (rule assms(2) [THEN conjunct2]) (use t same assms(1) in \<open>auto intro!: view_cong\<close>)
  ultimately show ?case by auto
qed

lemma aside_put: "aside t n s s' \<Longrightarrow> aside t (Some m) s (put_node t m s')"
  by (auto simp: aside_def)

text \<open>A step on the temporary: it stays aside whatever happens, and a return has done its work.\<close>

definition on_temporary :: "path \<Rightarrow> (node \<Rightarrow> node) \<Rightarrow> unit step \<Rightarrow> bool" where
  "on_temporary t g m \<longleftrightarrow>
     (\<forall>s n s'. aside t (Some n) s s' \<longrightarrow>
        ends m s' (\<lambda>_. aside t (Some (g n)) s) (\<lambda>s2. \<exists>x. aside t x s s2) (\<lambda>s2. \<exists>x. aside t x s s2))"

lemma write_all_temporary: "on_temporary t (\<lambda>n. n\<lparr>nd_content := Some b\<rparr>) (write_all t b)"
  unfolding on_temporary_def write_all_def
proof (intro allI impI, simp only: ends_chain, rule ends_system_call, goal_cases)
  case (1 s n s' e s1)
  have a: "aside t (Some n) s s1" using 1 by (rule aside_take)
  then have "node_at s1 t = Some n" by (simp add: aside_def)
  with a show ?case by (auto intro: aside_put)
qed

lemma set_permissions_temporary:
  "on_temporary t (\<lambda>n. n\<lparr>nd_meta := (nd_meta n)\<lparr>md_mode := mode\<rparr>\<rparr>) (set_permissions t mode)"
  unfolding on_temporary_def set_permissions_def
proof (intro allI impI, rule ends_system_call, goal_cases)
  case (1 s n s' e s1)
  have a: "aside t (Some n) s s1" using 1 by (rule aside_take)
  then have "node_at s1 t = Some n" by (simp add: aside_def)
  with a show ?case by (auto intro: aside_put)
qed

lemma sync_temporary: "on_temporary t (\<lambda>n. n) (sync_node t)"
  unfolding on_temporary_def
proof (intro allI impI)
  fix s n s' assume a: "aside t (Some n) s s'"
  obtain e s1 where t: "take_event s' = (e, s1)" by (cases "take_event s'")
  have "aside t (Some n) s s1" using a t by (rule aside_take)
  then show "ends (sync_node t) s' (\<lambda>_. aside t (Some n) s) (\<lambda>s2. \<exists>x. aside t x s s2) (\<lambda>s2. \<exists>x. aside t x s s2)"
    using t by (auto simp: ends_def sync_node_def)
qed

lemma on_temporary_before:
  assumes "on_temporary t g m" "on_temporary t h n"
  shows "on_temporary t (\<lambda>x. h (g x)) (before m n)"
  unfolding on_temporary_def ends_before
  by (intro allI impI ends_mono [OF assms(1) [unfolded on_temporary_def, rule_format]]
      assms(2) [unfolded on_temporary_def, rule_format])

lemma rename_ends:
  assumes a: "aside t (Some n) s s'" and t: "temporary t" "\<not> temporary p"
    and E: "\<And>s2. aside t (Some n) s s2 \<Longrightarrow> E s2 \<and> K s2"
    and Q: "\<And>s2. follows s s2 \<Longrightarrow> node_at s2 = (node_at s)(t := None, p \<mapsto> n) \<Longrightarrow>
      (butlast p \<notin> {p, t} \<Longrightarrow> exists_at (butlast p) s2) \<Longrightarrow> Q () s2 \<and> K s2"
  shows "ends (rename_file t p) s' Q E K"
  unfolding rename_file_def
proof (rule ends_system_call, goal_cases)
  case (1 e s1)
  have a: "aside t (Some n) s s1" using a 1 by (rule aside_take)
  then have n: "node_at s1 t = Some n" by (simp add: aside_def)
  have "Q () (put_node p n (drop_node t s1)) \<and> K (put_node p n (drop_node t s1))" if "is_directory (butlast p) s1"
    by (rule Q) (use a that in \<open>auto simp: aside_def exists_at_def is_directory_def real_directory_def is_some_and_iff\<close>)
  with E [OF a] n show ?case by auto
qed

lemma ends_sync_node:
  assumes "\<And>s1. follows s s1 \<Longrightarrow> mc_files s1 = mc_files s \<Longrightarrow> K s1"
    "\<And>s1. follows s s1 \<Longrightarrow> mc_files s1 = mc_files s \<Longrightarrow> exists_at p s \<Longrightarrow> Q () s1"
    "\<And>s1. follows s s1 \<Longrightarrow> mc_files s1 = mc_files s \<Longrightarrow> \<not> (honest s \<and> exists_at p s) \<Longrightarrow> E s1"
  shows "ends (sync_node p) s Q E K"
proof -
  obtain e s1 where t: "take_event s = (e, s1)" by (cases "take_event s")
  note f = take_event_facts [OF t]
  have "exists_at p s1 = exists_at p s" using f(1) by (simp add: exists_at_def node_at_def)
  then show ?thesis using t f assms [of s1] by (auto simp: ends_def sync_node_def)
qed

lemma ends_remove_file:
  assumes "\<And>s1. follows s s1 \<Longrightarrow> node_at s1 \<in> {node_at s, (node_at s)(p := None)} \<Longrightarrow> Q () s1 \<and> E s1 \<and> K s1"
  shows "ends (remove_file p) s Q E K"
  unfolding remove_file_def
proof (rule ends_system_call, goal_cases)
  case (1 e s1)
  note f = take_event_facts [OF 1]
  have "node_at s1 = node_at s" using f(1) by (rule node_at_files)
  then show ?case using f(3) by (auto intro!: assms [THEN conjunct1] assms [THEN conjunct2, THEN conjunct1] assms [THEN conjunct2, THEN conjunct2])
qed

text \<open>
  An atomic write seen from outside: the old node or the new file, an error leaves the old one unless
  the last \<open>fsync\<close>, of the directory, is what failed.
\<close>

lemma atomic_write_ends:
  assumes p: "p \<noteq> []" "\<not> temporary p"
    and same: "\<And>s'. follows s s' \<Longrightarrow> view s' = view s \<Longrightarrow> E s' \<and> K s'"
    and new: "\<And>s'. follows s s' \<Longrightarrow> view s' = (view s)(p \<mapsto> file_of b) \<Longrightarrow> Q () s' \<and> K s' \<and> (honest s \<or> E s')"
  shows "ends (atomic_write c p b 384) s Q E K"
proof -
  obtain e s0 where t0: "take_event s = (e, s0)" by (cases "take_event s")
  note f0 = take_event_facts [OF t0]
  define t where "t = temporary_name p (ev_uuid e)"
  have t: "temporary t" "butlast t = butlast p" "t \<noteq> p" "butlast p \<noteq> t" "butlast p \<noteq> p"
    using p temporary_name [of p "ev_uuid e"]
    by (auto simp: t_def temporary_name_def dest: arg_cong [where f = length]) (cases p rule: rev_cases; simp)
  let ?K = "\<lambda>s'. follows s s' \<and> view s' \<in> {view s, (view s)(p \<mapsto> file_of b)}"
  let ?E = "\<lambda>s'. follows s s' \<and> (view s' = view s \<or> view s' = (view s)(p \<mapsto> file_of b) \<and> \<not> honest s)"
  let ?Q = "\<lambda>_ s'. follows s s' \<and> view s' = (view s)(p \<mapsto> file_of b) \<and> node_at s' t = None"
  let ?m = "before (create_new c t 384) (before (write_all t b) (before (sync_node t) (before (set_permissions t 384)
     (before (rename_file t p) (sync_directory (butlast p))))))"
  have start: "node_at s0 = node_at s" using f0(1) by (rule node_at_files)
  then have v0: "view s0 = view s" by (intro view_cong) simp
  have h0: "honest s \<Longrightarrow> honest s0" using f0(3) honest_follows by blast
  have keep: "?E s' \<and> ?K s'" if "aside t x s0 s'" for x s'
    using that aside_view [OF that t(1)] f0(3) v0 by (auto simp: aside_def intro: follows_trans)
  have work: "on_temporary t (\<lambda>n. n\<lparr>nd_content := Some b, nd_meta := (nd_meta n)\<lparr>md_mode := 384\<rparr>\<rparr>)
      (before (write_all t b) (before (sync_node t) (set_permissions t 384)))"
    using on_temporary_before [OF write_all_temporary on_temporary_before [OF sync_temporary set_permissions_temporary]]
    by simp
  have finish: "ends (before (rename_file t p) (sync_directory (butlast p))) s1 ?Q ?E ?K"
    if a: "aside t (Some (file_of b)) s0 s1" for s1
    unfolding ends_before
  proof (rule rename_ends [OF a t(1) p(2)], goal_cases)
    case (1 s2)
    then show ?case by (rule keep)
  next
    case (2 s2)
    have fs: "follows s s2" using f0(3) 2(1) by (rule follows_trans)
    have v: "view s2 = (view s)(p \<mapsto> file_of b)" using 2(2) t(1) p(2) start by (auto simp: view_def fun_eq_iff)
    have "ends (sync_directory (butlast p)) s2 ?Q ?E ?K"
      unfolding sync_directory_def
    proof (rule ends_sync_node, goal_cases)
      case (1 s3)
      have "view s3 = view s2" using 1(2) by (rule view_files)
      then show ?case using follows_trans [OF fs 1(1)] v by simp
    next
      case (2 s3)
      have n: "node_at s3 = node_at s2" using 2(2) by (rule node_at_files)
      have "view s3 = view s2" using 2(2) by (rule view_files)
      then show ?case using follows_trans [OF fs 2(1)] v n \<open>node_at s2 = _\<close> t(3) by simp
    next
      case (3 s3)
      have "view s3 = view s2" using 3(2) by (rule view_files)
      moreover have "exists_at (butlast p) s2" using 2(3) t by simp
      ultimately show ?case using follows_trans [OF fs 3(1)] v 3(3) honest_follows [OF _ fs] by auto
    qed
    with fs v show ?case by auto
  qed
  have main: "ends ?m s0 ?Q ?E ?K"
    unfolding ends_before
  proof (rule create_new_ends [OF t(1)], goal_cases)
    case (1 s')
    then show ?case using f0(3) v0 by (auto intro: follows_trans)
  next
    case (2 s1)
    have "ends (before (before (write_all t b) (before (sync_node t) (set_permissions t 384)))
        (before (rename_file t p) (sync_directory (butlast p)))) s1 ?Q ?E ?K"
      unfolding ends_before [of "before (write_all t b) (before (sync_node t) (set_permissions t 384))"]
      by (rule ends_mono [OF work [unfolded on_temporary_def, rule_format, OF 2(2)]])
        (use keep finish in \<open>auto simp: file_of_def new_meta_def\<close>)
    then show ?case by simp
  qed
  let ?N = "\<lambda>result. chain (inspect (exists_at t)) (\<lambda>left_over.
          before (if result = None \<and> left_over
                  then before (attempt (remove_file t)) (before (attempt (sync_directory (butlast p))) (return ()))
                  else return ()) (require result))"
  let ?T = "\<lambda>result s1. ends (?N result) s1 Q E K"
  have tail: "?T result s1"
    if "case result of None \<Rightarrow> ?E s1 | Some x \<Rightarrow> ?Q x s1" for result s1
  proof (cases result)
    case (Some x)
    with that show ?thesis using new by (simp add: exists_at_def)
  next
    case None
    with that have e: "?E s1" by simp
    have fin: "E s' \<and> K s'" if "follows s1 s'" "view s' = view s1" for s'
    proof -
      have "follows s s'" using e that(1) by (blast intro: follows_trans)
      with e that(2) same [of s'] new [of s'] show ?thesis by auto
    qed
    have "ends (sync_directory (butlast p)) s2 (\<lambda>_. E) E K" if "follows s1 s2" "view s2 = view s1" for s2
      unfolding sync_directory_def
      by (rule ends_sync_node; rule fin [THEN conjunct1] fin [THEN conjunct2])
        (use that follows_trans in \<open>auto dest: view_files\<close>)
    then have "ends (attempt (remove_file t)) s1 (\<lambda>_ s2. ends (attempt (sync_directory (butlast p))) s2 (\<lambda>_. E) E K) E K"
      unfolding ends_attempt
      by (intro ends_remove_file) (use t(1) fin in \<open>auto simp: view_def fun_eq_iff\<close>)
    moreover have "E s1" using fin [of s1] by simp
    ultimately show ?thesis using None by simp
  qed
  have "ends ?m s0 (\<lambda>x. ?T (Some x)) (?T None) K"
  proof (rule ends_mono [OF main])
    show "?T (Some x) s'" if "?Q x s'" for x s' by (rule tail) (use that in simp)
    show "?T None s'" if "?E s'" for s' by (rule tail) (use that in simp)
    show "K s'" if "?K s'" for s' using that same new by auto
  qed
  then have "ends (chain (attempt ?m) (\<lambda>result. ?N result)) s0 Q E K"
    unfolding ends_chain ends_attempt .
  moreover have "atomic_write c p b 384 s = chain (attempt ?m) (\<lambda>result. ?N result) s0"
    unfolding atomic_write_def t_def chain_def [of new_uuid] new_uuid_def t0 by (simp add: Let_def)
  ultimately show ?thesis by (simp add: ends_def)
qed

section \<open>Steps that respect a relation\<close>

definition always :: "(machine \<Rightarrow> machine \<Rightarrow> bool) \<Rightarrow> 'a step \<Rightarrow> bool" where
  "always R m \<longleftrightarrow> (\<forall>s. R s (snd (m s)))"

lemma always_iff: "always R m \<longleftrightarrow> (\<forall>s. ends m s (\<lambda>_. R s) (R s) (R s))"
proof -
  have "R s (snd (m s)) \<longleftrightarrow> ends m s (\<lambda>_. R s) (R s) (R s)" for s
    by (cases "m s"; cases "fst (m s)") (simp_all add: ends_def)
  then show ?thesis by (simp add: always_def)
qed

lemma always_ends:
  "always R m \<Longrightarrow> (\<And>x s'. R s s' \<Longrightarrow> Q x s') \<Longrightarrow> (\<And>s'. R s s' \<Longrightarrow> E s') \<Longrightarrow> (\<And>s'. R s s' \<Longrightarrow> K s') \<Longrightarrow> ends m s Q E K"
  unfolding always_iff by (drule spec [of _ s], erule ends_mono) simp_all

locale step_relation =
  fixes R :: "machine \<Rightarrow> machine \<Rightarrow> bool"
  assumes same: "R s s"
    and trans: "R a b \<Longrightarrow> R b d \<Longrightarrow> R a d"
begin

lemma basic: "always R (return x)" "always R bail" "always R (check_that b)" "always R (require r)" "always R (inspect f)"
  by (simp_all add: always_iff same split: option.splits)

lemma chain:
  assumes "always R m" "\<And>x. always R (f x)"
  shows "always R (chain m f)"
  unfolding always_iff ends_chain
proof (intro allI)
  fix s
  show "ends m s (\<lambda>x s'. ends (f x) s' (\<lambda>_. R s) (R s) (R s)) (R s) (R s)"
    by (rule always_ends [OF assms(1)]) (auto intro: always_ends [OF assms(2)] trans)
qed

lemma before: "always R m \<Longrightarrow> always R n \<Longrightarrow> always R (before m n)"
  unfolding before_def by (rule chain)

lemma attempt: "always R m \<Longrightarrow> always R (attempt m)"
  by (simp add: always_iff)

lemma for_each: "(\<And>x. always R (f x)) \<Longrightarrow> always R (for_each f xs)"
  by (induction xs) (auto intro: before basic)

lemma collect: "(\<And>x. always R (f x)) \<Longrightarrow> always R (collect f xs)"
  by (induction xs) (auto intro: chain basic)

lemma thread: "(\<And>x y. always R (f x y)) \<Longrightarrow> always R (thread f xs y)"
  by (induction xs arbitrary: y) (auto intro: chain basic)

lemma enough: "(\<And>n. always R (f n)) \<Longrightarrow> always R (enough f)"
  unfolding enough_def by (intro chain basic)

lemma cases:
  "always R m \<Longrightarrow> always R n \<Longrightarrow> always R (if b then m else n)"
  "always R m \<Longrightarrow> (\<And>x. always R (f x)) \<Longrightarrow> always R (case r of None \<Rightarrow> m | Some x \<Rightarrow> f x)"
  "(\<And>x y. always R (g x y)) \<Longrightarrow> always R (case p of (x, y) \<Rightarrow> g x y)"
  by (auto split: option.splits prod.splits)

lemmas rules = basic before attempt for_each collect thread enough cases chain

end

interpretation onward: step_relation follows
  by unfold_locales (simp, rule follows_trans)

definition unseen :: "machine \<Rightarrow> machine \<Rightarrow> bool" where
  "unseen s s' \<longleftrightarrow> follows s s' \<and> view s' = view s"

interpretation silently: step_relation unseen
  by unfold_locales (simp_all add: unseen_def, blast intro: follows_trans)

abbreviation silent :: "'a step \<Rightarrow> bool" where
  "silent \<equiv> always unseen"

lemma silent_system_call:
  assumes "\<And>e s x s'. f e s = Some (x, s') \<Longrightarrow> unseen s s'"
  shows "silent (system_call f)"
  unfolding always_iff
proof (intro allI ends_system_call, goal_cases)
  case (1 s e s1)
  have "unseen s s1"
    unfolding unseen_def using take_event_facts(3) [OF 1] view_files [OF take_event_facts(1) [OF 1]] by blast
  with assms [of e s1] silently.trans [of s s1] show ?case by (auto split: option.splits)
qed

end
