(* ===== verification/Cutover_Crash.thy ===== *)
theory Cutover_Crash
  imports Cutover_Logic
begin

text \<open>
  The steps that change no file but temporaries: everything that reads, and every conversation with
  docker and the gateway. What they do is in the log.
\<close>

named_theorems silent_steps

lemma silent_reading [silent_steps]: "silent (reading f)"
  unfolding reading_def by (rule silent_system_call) (auto simp: silently.same)

lemma silent_sources [silent_steps]: "silent new_uuid" "silent utc_now" "silent (sync_node p)"
  unfolding always_def unseen_def new_uuid_def utc_now_def sync_node_def
  by (auto split: prod.splits dest: take_event_facts(3) view_files [OF take_event_facts(1)])

lemma silent_reads [silent_steps]:
  "silent (symlink_metadata p)" "silent (read_file p)" "silent (read_to_string p)" "silent (read_dir p)"
  "silent (sync_directory p)"
  unfolding symlink_metadata_def read_file_def read_to_string_def read_dir_def sync_directory_def
  by (intro silently.rules silent_steps)+

lemma silent_checks [silent_steps]:
  "silent (validate_secure_file_with_identity p b u g)" "silent (validate_secure_file p b)"
  "silent (validate_directory p)" "silent (reject_mountpoint c p)" "silent (require_root c)"
  "silent (validate_expected_commit c)" "silent (validate_generation_directory_with_identity c p u g)"
  "silent (validate_generation_directory c p)" "silent (validate_existing_root_directory c p)"
  "silent (read_secret p)" "silent (sha256_file c p)" "silent (read_recovery_journal c p)"
  unfolding validate_secure_file_with_identity_def validate_secure_file_def validate_directory_def
    reject_mountpoint_def require_root_def validate_expected_commit_def validate_generation_directory_def
    validate_generation_directory_with_identity_def validate_existing_root_directory_def read_secret_def
    sha256_file_def read_recovery_journal_def Let_def
  by (intro silently.rules silent_steps)+

lemma silent_walk: "silent (walk_tree fuel pattern pending matches)"
proof (induction fuel arbitrary: pending matches)
  case 0
  show ?case by (cases pending) (auto intro: silently.basic)
next
  case (Suc fuel)
  show ?case by (cases pending) (auto intro!: silently.rules silent_steps Suc)
qed

lemma silent_tree [silent_steps]: "silent (tree_pattern_matches p pattern)" "silent (scan_for_direct_nvidia_key p)"
  unfolding tree_pattern_matches_def scan_for_direct_nvidia_key_def
  by (intro silently.rules silent_steps silent_walk)+

lemma silent_log: "silent (system_call (\<lambda>e s. Some (f e, s\<lparr>mc_log := mc_log s @ g e\<rparr>)))"
  by (rule silent_system_call) (auto simp: unseen_def follows_def view_def fun_eq_iff node_at_def)

lemma silent_talk [silent_steps]: "silent (exchange b url token v)" "silent (run_docker c args)"
  unfolding exchange_def run_docker_def by (intro silently.rules silent_log)+

lemma silent_http [silent_steps]:
  "silent (error_for_status r)" "silent (admin_get c token p)" "silent (get_json c token url)"
  unfolding error_for_status_def admin_get_def get_json_def
  by (intro silently.rules silent_steps)+

lemma silent_client_pages: "silent (client_pages n c token cursor clients)"
  by (induction n arbitrary: cursor clients) (auto intro!: silently.rules silent_steps)

lemma silent_clients [silent_steps]:
  "silent (list_clients_from c token)" "silent (find_active_client_by_label c token label)"
  unfolding list_clients_from_def find_active_client_by_label_def
  by (intro silently.rules silent_client_pages)+

lemma silent_active [silent_steps]: "silent (active_hermes_client c token)"
  unfolding active_hermes_client_def
  by (intro silently.rules silent_steps) (auto split: list.splits intro: silently.rules)

lemma silent_remote [silent_steps]:
  "silent (issue_or_rotate_client c token label)" "silent (revoke_client_from c token i)"
  "silent (revoke_previous_clients c token i)" "silent (validate_qa_run_target c token i e)"
  "silent (report_failed_hermes_run c token i)" "silent (report_passed_hermes_run c token i r)"
  "silent (reconcile_remote_state c token r)"
  unfolding issue_or_rotate_client_def revoke_client_from_def revoke_previous_clients_def validate_qa_run_target_def
    report_failed_hermes_run_def report_passed_hermes_run_def reconcile_remote_state_def
  by (intro silently.rules silent_steps)+

lemma silent_docker [silent_steps]: "silent (docker c args)" "silent (docker_ok c args)"
  unfolding docker_def docker_ok_def Let_def by (intro silently.rules silent_steps)+

lemma silent_health_rounds: "silent (health_rounds n c)"
  by (induction n) (auto intro!: silently.rules silent_steps)

lemma silent_container [silent_steps]: "silent (wait_for_container_health c)" "silent (cleanup_marker c m)" "silent (start_and_wait c)"
  unfolding wait_for_container_health_def cleanup_marker_def start_and_wait_def
  by (intro silently.rules silent_steps silent_health_rounds)+

lemma silent_request_pages: "silent (request_pages n c token client_id a b cursor kept)"
  by (induction n arbitrary: cursor kept) (auto simp: Let_def intro!: silently.rules silent_steps)

lemma silent_requests [silent_steps]:
  "silent (request_detail c token stage i)" "silent (correlated_requests c token client_id a b stage)"
  unfolding request_detail_def correlated_requests_def Let_def
  by (intro silently.rules silent_steps silent_request_pages)+

lemma silent_verify [silent_steps]:
  "silent (marker_phase c)" "silent (tool_phase c m)" "silent (prove_hermes c token m client_id)"
  "silent (verify_hermes c token m client_id)"
  unfolding marker_phase_def tool_phase_def prove_hermes_def verify_hermes_def Let_def
  by (intro silently.rules silent_steps)+

lemma silent_scan_all: "silent (scan_all token patterns urls counts)"
  by (induction token patterns urls counts rule: scan_all.induct)
    (auto simp: scan_response_def bounded_scan_bytes_def intro!: silently.rules silent_steps)

lemma silent_scan_pages: "silent (scan_pages n c token patterns url details cursor counts)"
  by (induction n arbitrary: cursor counts)
    (auto simp: scan_response_def bounded_scan_bytes_def intro!: silently.rules silent_steps silent_scan_all)

lemma silent_scan [silent_steps]:
  "silent (scan_output c args patterns)" "silent (container_image_id c x)" "silent (scan_response t patterns url)"
  "silent (public_bundle_pattern_matches c patterns)" "silent (scan_admin_collection c tk patterns col counts)"
  "silent (scan_metadata c patterns x counts)"
  unfolding scan_output_def container_image_id_def scan_response_def bounded_scan_bytes_def
    public_bundle_pattern_matches_def scan_admin_collection_def scan_metadata_def Let_def
  by (intro silently.rules silent_steps silent_scan_all silent_scan_pages)+

lemma silent_secret_scan [silent_steps]:
  "silent (admin_response_pattern_matches c token patterns)" "silent (collect_secret_scan c ps token issued)"
  unfolding admin_response_pattern_matches_def collect_secret_scan_def Let_def
  by (intro silently.rules silent_steps silent_scan_all silent_scan_pages)+

lemma silent_snapshot_reads [silent_steps]:
  "silent (snapshot_manifest_matches c p m)" "silent (verify_snapshot c p)" "silent (load_committed_receipt c ps p j)"
  unfolding snapshot_manifest_matches_def verify_snapshot_def load_committed_receipt_def Let_def
  by (intro silently.rules silent_steps)+

lemma silent_ends:
  "silent m \<Longrightarrow> (\<And>x s'. follows s s' \<Longrightarrow> view s' = view s \<Longrightarrow> Q x s') \<Longrightarrow>
    (\<And>s'. follows s s' \<Longrightarrow> view s' = view s \<Longrightarrow> E s') \<Longrightarrow> (\<And>s'. follows s s' \<Longrightarrow> view s' = view s \<Longrightarrow> K s') \<Longrightarrow>
    ends m s Q E K"
  by (rule always_ends [where R = unseen]) (simp_all add: unseen_def)

text \<open>
  What an interrupted cutover leaves behind. \<open>recoverable\<close> describes every machine an apply can end or
  die in: the generation's snapshot, its journal and the live files fit together. It is kept by every
  step of the apply and of the recovery.
\<close>

section \<open>Where a step may write\<close>

definition confined :: "path set \<Rightarrow> machine \<Rightarrow> machine \<Rightarrow> bool" where
  "confined W s s' \<longleftrightarrow> follows s s' \<and> (\<forall>q. q \<notin> W \<longrightarrow> view s' q = view s q)"

interpretation inside: step_relation "confined W" for W
  by unfold_locales (auto simp: confined_def intro: follows_trans)

lemma confined_unseen: "always unseen m \<Longrightarrow> always (confined W) m"
  by (simp add: always_def confined_def unseen_def)

lemma confined_mono: "always (confined V) m \<Longrightarrow> V \<subseteq> W \<Longrightarrow> always (confined W) m"
  by (auto simp: always_def confined_def)

lemma confined_system_call:
  assumes "\<And>e s x s'. f e s = Some (x, s') \<Longrightarrow> confined W s s'"
  shows "always (confined W) (system_call f)"
  unfolding always_iff
proof (intro allI ends_system_call, goal_cases)
  case (1 s e s1)
  have "confined W s s1"
    unfolding confined_def using take_event_facts(3) [OF 1] view_files [OF take_event_facts(1) [OF 1]] by simp
  with assms [of e s1] inside.trans [of W s s1] show ?case by (auto split: option.splits)
qed

lemma confined_put: "p \<in> W \<Longrightarrow> confined W s (put_node p n s)" "p \<in> W \<Longrightarrow> confined W s (drop_node p s)"
  by (auto simp: confined_def view_def)

lemma confined_files:
  "p \<in> W \<Longrightarrow> always (confined W) (create_dir c p mode)" "p \<in> W \<Longrightarrow> always (confined W) (set_permissions p mode)"
  "p \<in> W \<Longrightarrow> always (confined W) (remove_file p)" "p \<in> W \<Longrightarrow> always (confined W) (remove_dir p)"
  unfolding create_dir_def set_permissions_def remove_file_def remove_dir_def
  by (rule confined_system_call; auto split: if_splits intro: confined_put)+

lemma confined_atomic_write:
  assumes "p \<noteq> []" "\<not> temporary p" "p \<in> W"
  shows "always (confined W) (atomic_write c p b 384)"
  unfolding always_iff by (intro allI atomic_write_ends [OF assms(1,2)]) (use assms(3) in \<open>auto simp: confined_def\<close>)

lemma confined_ensure: "p \<in> W \<Longrightarrow> always (confined W) (ensure_root_directory c p)"
  unfolding ensure_root_directory_def create_secure_directory_def
  by (intro inside.rules confined_files) (auto intro: confined_unseen silent_steps)

definition beneath :: "path \<Rightarrow> path set" where
  "beneath d = {q. below d q}"

lemma beneath_simps [simp]: "d \<in> beneath d" "d @ x \<in> beneath d"
  by (auto simp: beneath_def below_def starts_with_iff)

lemma confined_cleanup_stage: "always (confined (beneath stage)) (cleanup_snapshot_stage c d stage)"
  unfolding cleanup_snapshot_stage_def normalize_empty_staging_directory_def
  by (intro inside.rules confined_files) (auto intro: confined_unseen silent_steps)

section \<open>The files of a generation\<close>

text \<open>The library the journal is read back with: what it printed, and identifiers, it parses again.\<close>

definition reads_back :: "tool \<Rightarrow> bool" where
  "reads_back c \<longleftrightarrow>
     (\<forall>state label client_id now. tl_parse c (tl_show c (journal_json c state label client_id now)) =
        Some (journal_json c state label client_id now)) \<and>
     (\<forall>u. tl_parse_uuid c (show_uuid u) = Some u)"

abbreviation backup :: "uuid \<Rightarrow> path" where "backup g \<equiv> backup_path production g"

definition bytes_at :: "machine \<Rightarrow> path \<Rightarrow> bytes option" where
  "bytes_at s p = Option.bind (view s p) nd_content"

text \<open>The live configuration of Hermes.\<close>

definition live :: "bytes \<Rightarrow> bytes \<Rightarrow> machine \<Rightarrow> bool" where
  "live env config s \<longleftrightarrow> bytes_at s (p_env production) = Some env \<and> bytes_at s (p_config production) = Some config"

definition backed_up :: "tool \<Rightarrow> uuid \<Rightarrow> bytes \<Rightarrow> bytes \<Rightarrow> machine \<Rightarrow> bool" where
  "backed_up c g env config s \<longleftrightarrow>
     is_some_and (\<lambda>n. real_directory (nd_meta n)) (view s (p_backup_root production)) \<and>
     is_some_and (\<lambda>n. real_directory (nd_meta n)) (view s (backup g)) \<and>
     view s (backup g @ [''hermes.env'']) = Some (file_of env) \<and>
     view s (backup g @ [''config.yaml'']) = Some (file_of config) \<and>
     view s (backup g @ [''manifest.json'']) = Some (file_of (tl_show c (manifest_json
       \<lparr>sm_schema = ''nblb.hermes-snapshot.v1'', sm_generation = g, sm_env_sha256 = to_hex (tl_sha256 c env),
        sm_config_sha256 = to_hex (tl_sha256 c config)\<rparr>)))"

definition journal_at :: "tool \<Rightarrow> uuid \<Rightarrow> str \<Rightarrow> uuid option \<Rightarrow> machine \<Rightarrow> bool" where
  "journal_at c g state client_id s \<longleftrightarrow>
     (\<exists>now. view s (backup g @ [''journal.json'']) =
        Some (file_of (tl_show c (journal_json c state (Some (candidate_label g)) client_id now))))"

text \<open>A receipt that shows everything the commit asks for.\<close>

definition proven :: "tool \<Rightarrow> uuid \<Rightarrow> uuid \<Rightarrow> safe_receipt \<Rightarrow> bool" where
  "proven c g i r \<longleftrightarrow> terminal_receipt c g i r \<and> total_matches (sr_scan r) = 0"

definition receipt_at :: "tool \<Rightarrow> uuid \<Rightarrow> uuid \<Rightarrow> machine \<Rightarrow> bool" where
  "receipt_at c g i s \<longleftrightarrow>
     (\<exists>r. view s (receipt_path (p_receipt_root production) g) = Some (file_of (tl_show c (receipt_json c r))) \<and>
          proven c g i r)"

text \<open>The live files are the candidate's: the gateway's key and model in what was there.\<close>

definition candidate_live :: "bytes \<Rightarrow> bytes \<Rightarrow> machine \<Rightarrow> bool" where
  "candidate_live env config s \<longleftrightarrow>
     (\<exists>key edited. update_yaml config = Some edited \<and> live (update_dotenv env ''NVIDIA_API_KEY'' key) edited s)"

definition revoked :: "str \<Rightarrow> uuid \<Rightarrow> machine \<Rightarrow> bool" where
  "revoked token i s \<longleftrightarrow>
     (\<exists>status. Http True (revoke_url i) (Some token) None (Some status) \<in> set (mc_log s) \<and>
        (is_success status \<or> status = 409))"

section \<open>Phases\<close>

definition undone :: "str \<Rightarrow> uuid option \<Rightarrow> bytes \<Rightarrow> bytes \<Rightarrow> machine \<Rightarrow> bool" where
  "undone token client_id env config s \<longleftrightarrow> live env config s \<and> is_none_or (\<lambda>i. revoked token i s) client_id"

definition committed :: "tool \<Rightarrow> uuid \<Rightarrow> uuid option \<Rightarrow> bytes \<Rightarrow> bytes \<Rightarrow> machine \<Rightarrow> bool" where
  "committed c g client_id env config s \<longleftrightarrow>
     candidate_live env config s \<and> is_some_and (\<lambda>i. receipt_at c g i s) client_id"

text \<open>What a journal's state says about the live files.\<close>

definition phase ::
    "tool \<Rightarrow> str \<Rightarrow> uuid \<Rightarrow> bytes \<Rightarrow> bytes \<Rightarrow> str \<Rightarrow> uuid option \<Rightarrow> machine \<Rightarrow> bool" where
  "phase c token g env config state client_id s \<longleftrightarrow>
     state \<in> set [''client_operation_prepared'', ''candidate_ready'', ''candidate_applied''] \<or>
     state = ''rollback_cleanup_pending'' \<and> client_id \<noteq> None \<and> live env config s \<or>
     state \<in> set [''rolled_back'', ''recovered''] \<and> undone token client_id env config s \<or>
     state \<in> set [''committed'', ''reconcile_pending'', ''reconciled''] \<and> committed c g client_id env config s"

definition unpublished :: "uuid \<Rightarrow> bytes \<Rightarrow> bytes \<Rightarrow> machine \<Rightarrow> bool" where
  "unpublished g env config s \<longleftrightarrow>
     view s (backup g) = None \<and> view s (backup g @ [''journal.json'']) = None \<and> live env config s"

definition recoverable :: "tool \<Rightarrow> str \<Rightarrow> uuid \<Rightarrow> bytes \<Rightarrow> bytes \<Rightarrow> machine \<Rightarrow> bool" where
  "recoverable c token g env config s \<longleftrightarrow>
     unpublished g env config s \<or>
     backed_up c g env config s \<and>
     (\<exists>state client_id. journal_at c g state client_id s \<and> phase c token g env config state client_id s)"

definition settled :: "tool \<Rightarrow> str \<Rightarrow> uuid \<Rightarrow> bytes \<Rightarrow> bytes \<Rightarrow> machine \<Rightarrow> bool" where
  "settled c token g env config s \<longleftrightarrow>
     unpublished g env config s \<or>
     backed_up c g env config s \<and>
     (\<exists>state client_id. journal_at c g state client_id s \<and>
        (state \<in> set [''rolled_back'', ''recovered''] \<and> undone token client_id env config s \<or>
         state = ''reconciled'' \<and> committed c g client_id env config s))"

text \<open>Every other generation has been dealt with: whatever its journal says asks for nothing.\<close>

definition others_settled :: "tool \<Rightarrow> uuid \<Rightarrow> machine \<Rightarrow> bool" where
  "others_settled c g s \<longleftrightarrow>
     (\<forall>name b j. name \<noteq> show_uuid g \<longrightarrow> \<not> is_staging c name \<longrightarrow>
        bytes_at s (p_backup_root production @ [name, ''journal.json'']) = Some b \<longrightarrow>
        Option.bind (tl_parse c b) (decode_journal c) = Some j \<longrightarrow> recovery_action j \<in> {None, Some No_recovery})"

end
