(* ===== verification/Cutover_Triples.thy ===== *)
theory Cutover_Triples
  imports Cutover_Crash
begin

text \<open>
  The facts the crash argument rests on: the files of a generation are apart from each other and from
  the live files, every predicate on them reads only the view and the log, and each write moves from
  one phase to another.
\<close>

section \<open>Paths\<close>

lemma temporary_last: "temporary p \<Longrightarrow> last (last p) = CHR ''p''"
  by (auto simp: temporary_def ends_with_iff)

lemma show_uuid_chars: "x \<in> set (show_uuid u) \<Longrightarrow> is_ascii_hexdigit x \<or> x = CHR ''-''"
proof -
  have h: "list_all is_ascii_hexdigit (to_hex u)" by (rule to_hex_hexdigits)
  assume "x \<in> set (show_uuid u)"
  then have "x \<in> set (to_hex u) \<or> x = CHR ''-''"
    by (auto simp: show_uuid_def Let_def dest: in_set_takeD in_set_dropD)
  with h show ?thesis by (auto simp: list_all_iff)
qed

lemma show_uuid_nonempty [simp]: "show_uuid u \<noteq> []"
  by (simp add: show_uuid_def Let_def)

lemma show_uuid_last: "last (show_uuid u) \<noteq> CHR ''p''"
  using show_uuid_chars [of "last (show_uuid u)" u] last_in_set [of "show_uuid u"]
  by (auto simp: is_ascii_hexdigit_def is_ascii_digit_def code_def)

lemma show_uuid_hd: "show_uuid u \<noteq> CHR ''.'' # r"
  using show_uuid_chars [of "CHR ''.''" u] by (auto simp: is_ascii_hexdigit_def is_ascii_digit_def code_def)

abbreviation stage :: "uuid \<Rightarrow> path" where "stage g \<equiv> stage_path production g"
abbreviation receipt_file :: "uuid \<Rightarrow> path" where "receipt_file g \<equiv> receipt_path (p_receipt_root production) g"

lemma plain_paths [simp]:
  "\<not> temporary (backup g)" "\<not> temporary (stage g)" "\<not> temporary (receipt_file g)"
  "\<not> temporary (p_env production)" "\<not> temporary (p_config production)"
  "\<not> temporary (p_backup_root production)" "\<not> temporary (p_receipt_root production)"
  using show_uuid_last [of g]
  by (auto simp: backup_path_def stage_path_def receipt_path_def production_def HERMES_DIR_def dest!: temporary_last)

lemma plain_names [simp]:
  "\<not> temporary (p @ [''hermes.env''])" "\<not> temporary (p @ [''config.yaml''])" "\<not> temporary (p @ [''manifest.json''])"
  "\<not> temporary (p @ [''journal.json''])"
  by (auto dest: temporary_last)

lemma apart [simp]:
  "backup g @ x \<noteq> p_env production" "backup g @ x \<noteq> p_config production" "backup g @ x \<noteq> receipt_file g"
  "backup g \<noteq> p_env production" "backup g \<noteq> p_config production" "backup g \<noteq> receipt_file g"
  "p_env production \<noteq> p_config production" "p_env production \<noteq> receipt_file g" "p_config production \<noteq> receipt_file g"
  "p_env production \<noteq> backup g @ x" "p_config production \<noteq> backup g @ x" "receipt_file g \<noteq> backup g @ x"
  "p_env production \<noteq> backup g" "p_config production \<noteq> backup g" "receipt_file g \<noteq> backup g"
  "p_config production \<noteq> p_env production" "receipt_file g \<noteq> p_env production" "receipt_file g \<noteq> p_config production"
  by (simp_all add: backup_path_def receipt_path_def production_def HERMES_DIR_def GATEWAY_DIR_def)

lemma roots_apart [simp]:
  "backup g @ x \<noteq> p_receipt_root production" "backup g \<noteq> p_receipt_root production"
  "p_env production \<noteq> p_receipt_root production" "p_config production \<noteq> p_receipt_root production"
  "receipt_file g \<noteq> p_receipt_root production"
  "backup g @ x \<noteq> p_backup_root production" "backup g \<noteq> p_backup_root production"
  "p_env production \<noteq> p_backup_root production" "p_config production \<noteq> p_backup_root production"
  "receipt_file g \<noteq> p_backup_root production" "p_backup_root production \<noteq> p_receipt_root production"
  "p_backup_root production \<noteq> backup g @ x" "p_backup_root production \<noteq> backup g" "p_backup_root production \<noteq> p_env production"
  "p_backup_root production \<noteq> p_config production" "p_backup_root production \<noteq> receipt_file g"
  by (simp_all add: backup_path_def receipt_path_def production_def HERMES_DIR_def GATEWAY_DIR_def)

lemma outside_stage [simp]:
  "backup g @ x \<notin> beneath (stage h)" "backup g \<notin> beneath (stage h)" "p_env production \<notin> beneath (stage h)"
  "p_backup_root production \<notin> beneath (stage h)" "p_config production \<notin> beneath (stage h)" "receipt_file g \<notin> beneath (stage h)"
  using show_uuid_hd [of g]
  by (auto simp: beneath_def below_def starts_with_iff backup_path_def stage_path_def receipt_path_def production_def
      HERMES_DIR_def GATEWAY_DIR_def)

section \<open>Predicates read the view and the log\<close>

text \<open>The files the predicates on a generation look at.\<close>

definition files_of :: "uuid \<Rightarrow> path set" where
  "files_of g = {p_backup_root production, backup g, backup g @ [''hermes.env''], backup g @ [''config.yaml''], backup g @ [''manifest.json''],
     backup g @ [''journal.json''], p_env production, p_config production, receipt_file g}"

definition kept :: "uuid \<Rightarrow> machine \<Rightarrow> machine \<Rightarrow> bool" where
  "kept g s s' \<longleftrightarrow> follows s s' \<and> (\<forall>q \<in> files_of g. view s' q = view s q)"

interpretation keeping: step_relation "kept g" for g
  by unfold_locales (auto simp: kept_def intro: follows_trans)

lemma kept_unseen: "unseen s s' \<Longrightarrow> kept g s s'"
  by (simp add: kept_def unseen_def)

lemma kept_confined: "confined W s s' \<Longrightarrow> W \<inter> files_of g = {} \<Longrightarrow> kept g s s'"
  by (auto simp: kept_def confined_def)

lemma revoked_follows: "revoked token i s \<Longrightarrow> follows s s' \<Longrightarrow> revoked token i s'"
  by (auto simp: revoked_def follows_def)

lemma kept_views:
  assumes "kept g s s'"
  shows "view s' (p_backup_root production) = view s (p_backup_root production)"
    "view s' (backup g) = view s (backup g)" "view s' (backup g @ [''hermes.env'']) = view s (backup g @ [''hermes.env''])"
    "view s' (backup g @ [''config.yaml'']) = view s (backup g @ [''config.yaml''])"
    "view s' (backup g @ [''manifest.json'']) = view s (backup g @ [''manifest.json''])"
    "view s' (backup g @ [''journal.json'']) = view s (backup g @ [''journal.json''])"
    "view s' (p_env production) = view s (p_env production)" "view s' (p_config production) = view s (p_config production)"
    "view s' (receipt_file g) = view s (receipt_file g)"
  using assms by (simp_all add: kept_def files_of_def)

lemma kept_predicates:
  assumes "kept g s s'"
  shows "live env config s' = live env config s" "backed_up c g env config s' = backed_up c g env config s"
    "journal_at c g st cl s' = journal_at c g st cl s" "receipt_at c g i s' = receipt_at c g i s"
    "candidate_live env config s' = candidate_live env config s" "unpublished g env config s' = unpublished g env config s"
    "committed c g cl env config s' = committed c g cl env config s"
  by (simp_all only: live_def bytes_at_def backed_up_def journal_at_def receipt_at_def
      candidate_live_def unpublished_def committed_def kept_views [OF assms])

lemma kept_undone:
  assumes "kept g s s'" "undone token cl env config s"
  shows "undone token cl env config s'"
proof -
  have "follows s s'" using assms(1) by (simp add: kept_def)
  moreover have "live env config s'" using assms kept_predicates(1) [OF assms(1)] by (simp add: undone_def)
  ultimately show ?thesis
    using assms(2) revoked_follows [of token _ s s'] unfolding undone_def is_none_or_iff by blast
qed

lemma kept_phase:
  assumes "kept g s s'" "phase c token g env config st cl s"
  shows "phase c token g env config st cl s'"
  using assms(2) kept_undone [OF assms(1)] unfolding phase_def kept_predicates(1,7) [OF assms(1)] by blast

text \<open>
  Triples of an operation: from a machine in \<open>P\<close>, a return is in \<open>Q\<close>, an error in \<open>E\<close>, and wherever
  the process is killed the machine is in \<open>K\<close>. The writes of a cutover move it between the phases
  of a generation: undecided, restored, committed.
\<close>

definition triple ::
    "(machine \<Rightarrow> bool) \<Rightarrow> (machine \<Rightarrow> bool) \<Rightarrow> (machine \<Rightarrow> bool) \<Rightarrow> 'a step \<Rightarrow> ('a \<Rightarrow> machine \<Rightarrow> bool) \<Rightarrow> bool" where
  "triple E K P m Q \<longleftrightarrow> (\<forall>s. P s \<longrightarrow> ends m s Q E K)"

lemma triple_basic:
  "(\<And>s. P s \<Longrightarrow> Q x s) \<Longrightarrow> triple E K P (return x) Q"
  "(\<And>s. P s \<Longrightarrow> E s) \<Longrightarrow> triple E K P bail Q"
  "(\<And>s. P s \<Longrightarrow> E s) \<Longrightarrow> (\<And>s. b \<Longrightarrow> P s \<Longrightarrow> Q () s) \<Longrightarrow> triple E K P (check_that b) Q"
  "(\<And>s. P s \<Longrightarrow> E s) \<Longrightarrow> (\<And>x s. r = Some x \<Longrightarrow> P s \<Longrightarrow> Q' x s) \<Longrightarrow> triple E K P (require r) Q'"
  by (auto simp: triple_def split: option.splits)

lemma triple_chain: "triple E K P m R \<Longrightarrow> (\<And>x. triple E K (R x) (f x) Q) \<Longrightarrow> triple E K P (chain m f) Q"
  unfolding triple_def ends_chain by (blast intro: ends_mono)

lemma triple_before: "triple E K P m (\<lambda>_. R) \<Longrightarrow> triple E K R n Q \<Longrightarrow> triple E K P (before m n) Q"
  unfolding before_def by (rule triple_chain)

lemma triple_attempt: "triple (Q None) K P m (\<lambda>x. Q (Some x)) \<Longrightarrow> triple E K P (attempt m) Q"
  by (simp add: triple_def)

lemma triple_mono:
  "triple E K P m Q \<Longrightarrow> (\<And>s. P' s \<Longrightarrow> P s) \<Longrightarrow> (\<And>x s. Q x s \<Longrightarrow> Q' x s) \<Longrightarrow> (\<And>s. E s \<Longrightarrow> E' s) \<Longrightarrow> (\<And>s. K s \<Longrightarrow> K' s) \<Longrightarrow>
    triple E' K' P' m Q'"
  unfolding triple_def by (blast intro: ends_mono)

lemma triple_conj:
  "triple E K P m Q \<Longrightarrow> triple (\<lambda>_. True) (\<lambda>_. True) P m R \<Longrightarrow> triple E K P m (\<lambda>x s. Q x s \<and> R x s)"
  unfolding triple_def using ends_conj [where E' = "\<lambda>_. True" and K' = "\<lambda>_. True"] by fastforce

lemma triple_facts:
  "triple E K P m (\<lambda>x s. R s \<and> b x) \<Longrightarrow> (\<And>x. b x \<Longrightarrow> triple E K R (f x) Q) \<Longrightarrow> triple E K P (chain m f) Q"
  by (erule triple_chain) (auto simp: triple_def)

lemma triple_known: "triple E K P m (\<lambda>x s. R s \<and> x = a) \<Longrightarrow> triple E K R (f a) Q \<Longrightarrow> triple E K P (chain m f) Q"
  by (erule triple_facts) simp

text \<open>A predicate that steps without an effect on the files keep.\<close>

definition steady :: "(machine \<Rightarrow> bool) \<Rightarrow> bool" where
  "steady P \<longleftrightarrow> (\<forall>s s'. unseen s s' \<longrightarrow> P s \<longrightarrow> P s')"

lemma triple_silent:
  "silent m \<Longrightarrow> steady P \<Longrightarrow> (\<And>s. P s \<Longrightarrow> E s) \<Longrightarrow> (\<And>s. P s \<Longrightarrow> K s) \<Longrightarrow> triple E K P m (\<lambda>_. P)"
  unfolding triple_def steady_def by (blast intro: always_ends [where R = unseen])

lemma steady_conj: "steady P \<Longrightarrow> steady Q \<Longrightarrow> steady (\<lambda>s. P s \<and> Q s)"
  by (auto simp: steady_def)

lemma steady_disj: "steady P \<Longrightarrow> steady Q \<Longrightarrow> steady (\<lambda>s. P s \<or> Q s)"
  by (auto simp: steady_def)

lemma steady_ex: "(\<And>x. steady (P x)) \<Longrightarrow> steady (\<lambda>s. \<exists>x. P x s)"
  by (auto simp: steady_def)

lemma steady_const: "steady (\<lambda>_. b)"
  by (simp add: steady_def)

lemma steady_honest: "steady honest"
  by (auto simp: steady_def unseen_def intro: honest_follows)

lemma steady_kept: "(\<And>s s'. kept g s s' \<Longrightarrow> P s \<Longrightarrow> P s') \<Longrightarrow> steady P"
  unfolding steady_def by (blast dest: kept_unseen)

lemma steady_files:
  "steady (live env config)" "steady (backed_up c g env config)" "steady (journal_at c g st cl)"
  "steady (receipt_at c g i)" "steady (candidate_live env config)" "steady (unpublished g env config)"
  "steady (committed c g cl env config)" "steady (undone token cl env config)" "steady (phase c token g env config st cl)"
  "steady (revoked token i)"
  by (auto intro!: steady_kept [where g = g] simp: kept_predicates [of g] intro: kept_undone kept_phase)
    (auto simp: kept_def intro: revoked_follows)

lemmas steady_rules = steady_conj steady_disj steady_ex steady_const steady_honest steady_files

text \<open>An atomic write in a triple.\<close>

lemma triple_atomic_write:
  assumes "p \<noteq> []" "\<not> temporary p" "steady P" "\<And>s. P s \<Longrightarrow> honest s \<and> E s \<and> K s"
    "\<And>s s'. P s \<Longrightarrow> follows s s' \<Longrightarrow> honest s' \<Longrightarrow> view s' = (view s)(p \<mapsto> file_of b) \<Longrightarrow> Q s' \<and> K s'"
  shows "triple E K P (atomic_write c p b 384) (\<lambda>_. Q)"
  unfolding triple_def
proof (intro allI impI atomic_write_ends [OF assms(1,2)])
  fix s s' assume P: "P s" "follows s s'"
  then have h: "honest s" "honest s'" using assms(4) honest_follows by blast+
  show "E s' \<and> K s'" if "view s' = view s"
    using P assms(3,4) that unfolding steady_def unseen_def by blast
  show "Q s' \<and> K s' \<and> (honest s \<or> E s')" if "view s' = (view s)(p \<mapsto> file_of b)"
    using assms(5) [OF P h(2) that] h by blast
qed

end
