(* ===== verification/Cutover_Writes.thy ===== *)
theory Cutover_Writes
  imports Cutover_Triples
begin

text \<open>The operations of a cutover on the phases of a generation.\<close>

definition undecided :: "tool \<Rightarrow> uuid \<Rightarrow> bytes \<Rightarrow> bytes \<Rightarrow> uuid option \<Rightarrow> machine \<Rightarrow> bool" where
  "undecided c g env config cl s \<longleftrightarrow>
     honest s \<and> backed_up c g env config s \<and>
     (\<exists>st \<in> set [''client_operation_prepared'', ''candidate_ready'', ''candidate_applied'']. journal_at c g st cl s)"

definition safe :: "tool \<Rightarrow> str \<Rightarrow> uuid \<Rightarrow> bytes \<Rightarrow> bytes \<Rightarrow> machine \<Rightarrow> bool" where
  "safe c token g env config s \<longleftrightarrow> honest s \<and> recoverable c token g env config s"

lemma undecided_safe: "undecided c g env config cl s \<Longrightarrow> safe c token g env config s"
  unfolding undecided_def safe_def recoverable_def phase_def by blast

lemma undecided_parts: "undecided c g env config cl s \<Longrightarrow> honest s \<and> backed_up c g env config s"
  by (simp add: undecided_def)

lemma steady_undecided: "steady (undecided c g env config cl)"
  unfolding undecided_def Bex_def by (intro steady_rules)

lemma steady_safe: "steady (safe c token g env config)"
  unfolding safe_def recoverable_def by (intro steady_rules)

lemma written_apart:
  assumes "view s' = (view s)(p \<mapsto> n)" "p \<in> {p_env production, p_config production, receipt_file g}"
  shows "backed_up c g env config s' = backed_up c g env config s" "journal_at c g st cl s' = journal_at c g st cl s"
  using assms by (auto simp: backed_up_def journal_at_def)

lemma undecided_written:
  assumes "undecided c g env config cl s" "honest s'"
    "view s' = (view s)(p \<mapsto> n)" "p \<in> {p_env production, p_config production, receipt_file g}"
  shows "undecided c g env config cl s'"
  using assms(1,2) unfolding undecided_def written_apart [OF assms(3,4)] by simp

section \<open>Reading\<close>

lemma ends_reading:
  assumes "\<And>s1. follows s s1 \<Longrightarrow> view s1 = view s \<Longrightarrow> E s1 \<and> K s1"
    "\<And>x s1. follows s s1 \<Longrightarrow> view s1 = view s \<Longrightarrow> node_at s1 = node_at s \<Longrightarrow> f s1 = Some x \<Longrightarrow> Q x s1"
  shows "ends (reading f) s Q E K"
  unfolding reading_def
proof (rule ends_system_call, goal_cases)
  case (1 e s1)
  have "view s1 = view s" by (rule view_files [OF take_event_facts(1) [OF 1]])
  moreover have "node_at s1 = node_at s" by (rule node_at_files [OF take_event_facts(1) [OF 1]])
  ultimately show ?case using assms [of s1] assms(2) take_event_facts(3) [OF 1] by (auto split: option.splits)
qed

lemma triple_read_file:
  assumes "steady P" "\<And>s. P s \<Longrightarrow> E s \<and> K s" "\<not> temporary p" "\<And>s. P s \<Longrightarrow> bytes_at s p = Some b"
  shows "triple E K P (read_file p) (\<lambda>x s. P s \<and> x = b)"
  unfolding triple_def read_file_def
proof (intro allI impI ends_reading, goal_cases)
  case (1 s s1)
  then show ?case using assms(1,2) unfolding steady_def unseen_def by blast
next
  case (2 s x s1)
  have P: "P s1" using 2(1-3) assms(1) unfolding steady_def unseen_def by blast
  with assms(4) [OF P] assms(3) 2(5) show ?case by (auto simp: bytes_at_def view_def)
qed

lemma triple_read_text:
  assumes "steady P" "\<And>s. P s \<Longrightarrow> E s \<and> K s" "\<not> temporary p" "\<And>s. P s \<Longrightarrow> bytes_at s p = Some b"
  shows "triple E K P (read_to_string p) (\<lambda>x s. P s \<and> x = b)"
  unfolding read_to_string_def
  by (rule triple_chain [OF triple_read_file [OF assms]]) (use assms(2) in \<open>auto simp: triple_def\<close>)

section \<open>The live files\<close>

lemma live_paths: "p_env production \<noteq> []" "p_config production \<noteq> []" "receipt_file g \<noteq> []" "backup g @ [x] \<noteq> []"
  by (simp_all add: production_def receipt_path_def)

lemma bytes_at_written: "view s' = (view s)(p \<mapsto> file_of b) \<Longrightarrow> bytes_at s' p = Some b"
  "view s' = (view s)(p \<mapsto> n) \<Longrightarrow> q \<noteq> p \<Longrightarrow> bytes_at s' q = bytes_at s q"
  by (simp_all add: bytes_at_def file_of_def)

lemma steady_bytes_at: "steady (\<lambda>s. bytes_at s p = b)"
  by (simp add: steady_def unseen_def bytes_at_def)

text \<open>The two live files, written one after the other in an undecided generation.\<close>

lemma write_env_triple:
  assumes "\<And>s. undecided c g env config cl s \<Longrightarrow> E s \<and> K s"
  shows "triple E K (undecided c g env config cl) (atomic_write c (p_env production) e 384)
    (\<lambda>_ s. undecided c g env config cl s \<and> bytes_at s (p_env production) = Some e)"
proof (rule triple_atomic_write)
  fix s s' assume a: "undecided c g env config cl s" "honest s'" "view s' = (view s)(p_env production \<mapsto> file_of e)"
  from undecided_written [OF a] bytes_at_written(1) [OF a(3)] assms
  show "(undecided c g env config cl s' \<and> bytes_at s' (p_env production) = Some e) \<and> K s'" by simp
qed (use assms undecided_parts in \<open>auto simp: live_paths intro: steady_undecided\<close>)

lemma write_config_triple:
  assumes "\<And>s. undecided c g env config cl s \<Longrightarrow> E s \<and> K s"
  shows "triple E K (\<lambda>s. undecided c g env config cl s \<and> bytes_at s (p_env production) = Some e)
    (atomic_write c (p_config production) f 384) (\<lambda>_ s. undecided c g env config cl s \<and> live e f s)"
proof (rule triple_atomic_write)
  fix s s' assume a: "undecided c g env config cl s \<and> bytes_at s (p_env production) = Some e" "honest s'"
    "view s' = (view s)(p_config production \<mapsto> file_of f)"
  from undecided_written [OF a(1) [THEN conjunct1] a(2,3)] bytes_at_written [OF a(3)] a(1) assms
  show "(undecided c g env config cl s' \<and> live e f s') \<and> K s'" by (simp add: live_def)
qed (use assms undecided_parts in \<open>auto simp: live_paths intro: steady_undecided steady_conj steady_bytes_at\<close>)

lemma write_candidate_triple:
  assumes "\<And>s. undecided c g env config cl s \<Longrightarrow> E s \<and> K s"
  shows "triple E K (undecided c g env config cl) (write_candidate c production e f)
    (\<lambda>_ s. undecided c g env config cl s \<and> live e f s)"
  unfolding write_candidate_def
  by (rule triple_before [OF write_env_triple [OF assms] write_config_triple [OF assms]])

lemma snapshot_bytes:
  "backed_up c g env config s \<Longrightarrow> bytes_at s (backup g @ [''hermes.env'']) = Some env \<and>
    bytes_at s (backup g @ [''config.yaml'']) = Some config"
  by (simp add: backed_up_def bytes_at_def file_of_def)

lemma restore_triple:
  assumes "\<And>s. undecided c g env config cl s \<Longrightarrow> E s \<and> K s"
  shows "triple E K (undecided c g env config cl) (restore_snapshot c production (backup g))
    (\<lambda>_ s. undecided c g env config cl s \<and> live env config s)"
proof -
  let ?U = "undecided c g env config cl"
  let ?V = "\<lambda>s. ?U s \<and> bytes_at s (p_env production) = Some env"
  have steady: "steady ?U" "steady ?V" by (intro steady_conj steady_undecided steady_bytes_at)+
  have parts: "?U s \<Longrightarrow> bytes_at s (backup g @ [''hermes.env'']) = Some env \<and> bytes_at s (backup g @ [''config.yaml'']) = Some config" for s
    using undecided_parts snapshot_bytes by blast
  have v: "triple E K ?U (verify_snapshot c (backup g)) (\<lambda>_. ?U)"
    by (rule triple_silent) (use assms steady in \<open>auto intro: silent_steps\<close>)
  have r: "triple E K ?U (read_file (backup g @ [''hermes.env''])) (\<lambda>x s. ?U s \<and> x = env)"
    by (rule triple_read_file) (use assms steady parts in auto)
  have w: "triple E K (\<lambda>s. ?U s \<and> x = env) (atomic_write c (p_env production) x 384) (\<lambda>_. ?V)" for x
    using write_env_triple [OF assms, where e = env] by (cases "x = env") (simp_all add: triple_def)
  have r': "triple E K ?V (read_file (backup g @ [''config.yaml''])) (\<lambda>x s. ?V s \<and> x = config)"
    by (rule triple_read_file) (use assms steady parts in auto)
  have w': "triple E K (\<lambda>s. ?V s \<and> x = config) (atomic_write c (p_config production) x 384)
      (\<lambda>_ s. ?U s \<and> live env config s)" for x
    using write_config_triple [OF assms, where e = env and f = config] by (cases "x = config") (simp_all add: triple_def)
  show ?thesis
    unfolding restore_snapshot_def
    by (rule triple_before [OF v triple_chain [OF r triple_before [OF w triple_chain [OF r' w']]]])
qed

lemma rollback_triple:
  assumes "\<And>s. undecided c g env config cl s \<Longrightarrow> E s \<and> K s"
  shows "triple E K (undecided c g env config cl) (rollback_after_failure c production (backup g))
    (\<lambda>_ s. undecided c g env config cl s \<and> live env config s)"
  unfolding rollback_after_failure_def
proof (rule triple_before [OF _ triple_before [OF restore_triple [OF assms]]])
  let ?U = "undecided c g env config cl"
  let ?L = "\<lambda>s. ?U s \<and> live env config s"
  have L: "steady ?L" by (intro steady_conj steady_undecided steady_files)
  show "triple E K ?U (attempt (docker c [''stop'', CONTAINER])) (\<lambda>_. ?U)"
    by (rule triple_silent) (use assms in \<open>auto intro: steady_undecided silently.rules silent_steps\<close>)
  show "triple E K ?L (before (docker_ok c [''start'', CONTAINER]) (chain (attempt (wait_for_container_health c))
      (\<lambda>healthy. if healthy = None then before (attempt (docker c [''stop'', CONTAINER])) bail else return ()))) (\<lambda>_. ?L)"
    by (rule triple_silent [OF _ L]) (use assms in \<open>auto intro!: silently.rules silent_steps\<close>)
qed (use assms in auto)

section \<open>The journal\<close>

lemma journal_triple:
  assumes "steady P" "\<And>s. P s \<Longrightarrow> honest s \<and> E s \<and> K s \<and> backed_up c g env config s"
    "\<And>s s'. P s \<Longrightarrow> follows s s' \<Longrightarrow> (\<And>q. q \<noteq> backup g @ [''journal.json''] \<Longrightarrow> view s' q = view s q) \<Longrightarrow>
      honest s' \<Longrightarrow> backed_up c g env config s' \<Longrightarrow> journal_at c g st cl s' \<Longrightarrow> Q s' \<and> K s'"
  shows "triple E K P (write_journal c (backup g) st (Some (candidate_label g)) cl) (\<lambda>_. Q)"
  unfolding write_journal_def
proof (intro triple_chain [OF triple_silent] triple_atomic_write)
  fix now s s'
  assume a: "P s" "follows s s'" "honest s'" "view s' = (view s)(backup g @ [''journal.json''] \<mapsto>
      file_of (tl_show c (journal_json c st (Some (candidate_label g)) cl now)))"
  have "backed_up c g env config s'" using assms(2) [OF a(1)] a(4) by (simp add: backed_up_def)
  moreover have "journal_at c g st cl s'" using a(4) by (auto simp: journal_at_def)
  ultimately show "Q s' \<and> K s'" using assms(3) [OF a(1,2)] a(3,4) by simp
qed (use assms in \<open>auto intro: silent_steps\<close>)

lemma views_kept:
  assumes "follows s s'" "\<And>q. q \<noteq> backup g @ [''journal.json''] \<Longrightarrow> view s' q = view s q"
  shows "live env config s' = live env config s" "candidate_live env config s' = candidate_live env config s"
    "receipt_at c g i s' = receipt_at c g i s" "committed c g cl env config s' = committed c g cl env config s"
    "undone token cl env config s \<Longrightarrow> undone token cl env config s'"
proof -
  show l: "live env config s' = live env config s" for env config using assms(2) by (simp add: live_def bytes_at_def)
  then show k: "candidate_live env config s' = candidate_live env config s" by (simp add: candidate_live_def)
  show r: "receipt_at c g i s' = receipt_at c g i s" for i using assms(2) by (simp add: receipt_at_def)
  show "committed c g cl env config s' = committed c g cl env config s" by (simp add: committed_def k r)
  show "undone token cl env config s \<Longrightarrow> undone token cl env config s'"
    using l assms(1) revoked_follows by (auto simp: undone_def is_none_or_iff)
qed

end
