(* ===== verification/Cutover_Apply.thy ===== *)
theory Cutover_Apply
  imports Cutover_Writes
begin

text \<open>An apply, from the snapshot to its end, leaves a recoverable machine wherever it stops.\<close>

section \<open>What the proofs of a candidate return\<close>

definition yields :: "'a step \<Rightarrow> ('a \<Rightarrow> bool) \<Rightarrow> bool" where
  "yields m Q \<longleftrightarrow> (\<forall>s. ends m s (\<lambda>x _. Q x) (\<lambda>_. True) (\<lambda>_. True))"

lemma yields_any: "yields m (\<lambda>_. True)"
  by (auto simp: yields_def ends_def split: prod.splits outcome.splits)

lemma yields_basic: "Q x \<Longrightarrow> yields (return x) Q" "yields bail Q'" "(\<And>x. r = Some x \<Longrightarrow> Q'' x) \<Longrightarrow> yields (require r) Q''"
  by (auto simp: yields_def split: option.splits)

lemma yields_chain: "yields m R \<Longrightarrow> (\<And>x. R x \<Longrightarrow> yields (f x) Q) \<Longrightarrow> yields (chain m f) Q"
  unfolding yields_def ends_chain by (blast intro: ends_mono)

lemma yields_then: "(\<And>x. yields (f x) Q) \<Longrightarrow> yields (chain m f) Q" "yields n Q \<Longrightarrow> yields (before m n) Q"
  unfolding before_def by (rule yields_chain [OF yields_any], simp)+

lemma yields_checked: "(b \<Longrightarrow> yields n Q) \<Longrightarrow> yields (before (check_that b) n) Q"
  by (auto simp: yields_def)

lemma yields_attempt: "yields m Q \<Longrightarrow> yields (attempt m) (\<lambda>r. is_none_or Q r)"
  by (simp add: yields_def)

lemma verified: "yields (verify_hermes c token m client_id) (\<lambda>v. vf_doctor v \<and> vf_marker v \<and> vf_tool v)"
proof -
  let ?Q = "\<lambda>v. vf_doctor v \<and> vf_marker v \<and> vf_tool v"
  have "yields (prove_hermes c token m client_id) ?Q"
    unfolding prove_hermes_def Let_def split_def
    by (intro yields_then(1)) (intro yields_then yields_checked yields_basic, simp)
  then show ?thesis
    unfolding verify_hermes_def
    by (intro yields_then(2) yields_chain [OF yields_attempt] yields_then(1))
      (auto intro: yields_basic simp: is_none_or_iff)
qed

lemma scanned_clean: "yields (collect_secret_scan c ps token issued) (\<lambda>r. total_matches r = 0)"
  unfolding collect_secret_scan_def Let_def
  by (intro yields_then) (auto intro: yields_basic)

lemma triple_yields:
  "triple E K P m (\<lambda>_. Q) \<Longrightarrow> yields m R \<Longrightarrow> triple E K P m (\<lambda>x s. Q s \<and> R x)"
  unfolding triple_def yields_def
proof (intro allI impI)
  fix s assume a: "\<forall>s. P s \<longrightarrow> ends m s (\<lambda>_. Q) E K" "\<forall>s. ends m s (\<lambda>x _. R x) (\<lambda>_. True) (\<lambda>_. True)" "P s"
  have x: "ends m s (\<lambda>_. Q) E K" using a(1) [THEN spec, THEN mp, OF a(3)] .
  have y: "ends m s (\<lambda>x _. R x) (\<lambda>_. True) (\<lambda>_. True)" using a(2) [THEN spec] .
  show "ends m s (\<lambda>x s. Q s \<and> R x) E K"
    using x y unfolding ends_def by (cases "m s"; cases "fst (m s)") simp_all
qed

lemma live_bytes: "live e f s \<Longrightarrow> bytes_at s (p_env production) = Some e" "live e f s \<Longrightarrow> bytes_at s (p_config production) = Some f"
  by (simp_all add: live_def)

section \<open>Up to the commit\<close>

definition decided :: "tool \<Rightarrow> uuid \<Rightarrow> bytes \<Rightarrow> bytes \<Rightarrow> uuid \<Rightarrow> str set \<Rightarrow> machine \<Rightarrow> bool" where
  "decided c g env config i states s \<longleftrightarrow>
     honest s \<and> backed_up c g env config s \<and> (\<exists>st \<in> states. journal_at c g st (Some i) s) \<and>
     committed c g (Some i) env config s"

lemma decided_safe:
  "decided c g env config i states s \<Longrightarrow> states \<subseteq> set [''committed'', ''reconcile_pending'', ''reconciled''] \<Longrightarrow>
    safe c token g env config s"
  unfolding decided_def safe_def recoverable_def phase_def by blast

lemma steady_decided: "steady (decided c g env config i states)"
  unfolding decided_def Bex_def by (intro steady_rules)

lemma undecided_journal:
  assumes "st \<in> set [''client_operation_prepared'', ''candidate_ready'', ''candidate_applied'']"
    "steady P" "\<And>s. P s \<Longrightarrow> undecided c g env config cl s \<and> E s \<and> K s" "\<And>s. undecided c g env config cl' s \<Longrightarrow> K s"
  shows "triple E K P (write_journal c (backup g) st (Some (candidate_label g)) cl') (\<lambda>_. undecided c g env config cl')"
proof (rule journal_triple [OF assms(2)])
  show "honest s \<and> E s \<and> K s \<and> backed_up c g env config s" if "P s" for s
    using assms(3) [OF that] undecided_parts by blast
  show "undecided c g env config cl' s' \<and> K s'"
    if "honest s'" "backed_up c g env config s'" "journal_at c g st cl' s'" for s'
    using that assms(1,4) unfolding undecided_def by blast
qed

lemma write_receipt_triple:
  assumes "sr_generation r = g" "proven c g i r" "\<And>s. undecided c g env config cl s \<Longrightarrow> E s \<and> K s"
  shows "triple E K (\<lambda>s. undecided c g env config cl s \<and> live e f s) (write_receipt c production r)
    (\<lambda>_ s. undecided c g env config cl s \<and> live e f s \<and> receipt_at c g i s)"
proof -
  let ?P = "\<lambda>s. undecided c g env config cl s \<and> live e f s"
  have P: "steady ?P" by (intro steady_conj steady_undecided steady_files)
  have "triple E K ?P (ensure_root_directory c (p_receipt_root production)) (\<lambda>_. ?P)"
    unfolding triple_def
  proof (intro allI impI)
    fix s assume s: "?P s"
    have k: "?P s'" if "confined {p_receipt_root production} s s'" for s'
    proof -
      have "kept g s s'" by (rule kept_confined [OF that]) (auto simp: files_of_def)
      with s show ?thesis using kept_predicates [of g s s'] honest_follows [of s s']
        by (auto simp: undecided_def kept_def)
    qed
    show "ends (ensure_root_directory c (p_receipt_root production)) s (\<lambda>_. ?P) E K"
      by (rule always_ends [OF confined_ensure [where W = "{p_receipt_root production}"]]) (use k assms(3) in auto)
  qed
  moreover have "triple E K ?P (atomic_write c (receipt_file g) (tl_show c (receipt_json c r)) 384)
      (\<lambda>_ s. ?P s \<and> receipt_at c g i s)"
  proof (rule triple_atomic_write [OF _ _ P])
    fix s s' assume a: "?P s" "honest s'" "view s' = (view s)(receipt_file g \<mapsto> file_of (tl_show c (receipt_json c r)))"
    have "receipt_at c g i s'" using a(3) assms(2) by (auto simp: receipt_at_def)
    moreover have "live e f s'" using a(1,3) by (simp add: live_def bytes_at_def)
    ultimately show "(?P s' \<and> receipt_at c g i s') \<and> K s'"
      using undecided_written [OF a(1) [THEN conjunct1] a(2,3)] assms(3) by simp
  qed (use assms(3) undecided_parts in \<open>auto simp: live_paths\<close>)
  ultimately show ?thesis unfolding write_receipt_def assms(1) by (auto intro: triple_before)
qed

lemma commit_triple:
  assumes "update_yaml config = Some edited" "\<And>s. undecided c g env config (Some i) s \<Longrightarrow> E s \<and> K s"
    "\<And>s. decided c g env config i {''committed''} s \<Longrightarrow> K s"
  shows "triple E K (\<lambda>s. undecided c g env config (Some i) s \<and> live (update_dotenv env ''NVIDIA_API_KEY'' key) edited s \<and> receipt_at c g i s)
    (write_journal c (backup g) ''committed'' (Some (candidate_label g)) (Some i)) (\<lambda>_. decided c g env config i {''committed''})"
proof (rule journal_triple)
  fix s s' assume a: "undecided c g env config (Some i) s \<and> live (update_dotenv env ''NVIDIA_API_KEY'' key) edited s \<and> receipt_at c g i s"
    "follows s s'" "\<And>q. q \<noteq> backup g @ [''journal.json''] \<Longrightarrow> view s' q = view s q"
    "honest s'" "backed_up c g env config s'" "journal_at c g ''committed'' (Some i) s'"
  have "committed c g (Some i) env config s'"
    using a(1) assms(1) views_kept(1,3) [OF a(2,3)] by (auto simp: committed_def candidate_live_def)
  then show "decided c g env config i {''committed''} s' \<and> K s'" using a(4-6) assms(3) by (simp add: decided_def)
qed (use assms(2) undecided_parts in \<open>auto intro!: steady_conj steady_undecided steady_files\<close>)

definition abandoned :: "tool \<Rightarrow> uuid \<Rightarrow> bytes \<Rightarrow> bytes \<Rightarrow> uuid \<Rightarrow> machine \<Rightarrow> bool" where
  "abandoned c g env config i s \<longleftrightarrow> undecided c g env config None s \<or> undecided c g env config (Some i) s"

lemma precommit_triple:
  assumes i: "cl_id item = i"
  shows "triple (abandoned c g env config i) (safe c token g env config)
    (\<lambda>s. undecided c g env config None s \<and> live env config s)
    (precommit c production token run_id g started (backup g) (item, issued))
    (\<lambda>r s. decided c g env config i {''committed''} s \<and> sr_client r = i)"
proof -
  let ?E = "abandoned c g env config i" and ?K = "safe c token g env config"
  let ?P = "\<lambda>s. undecided c g env config None s \<and> live env config s"
  let ?U = "undecided c g env config (Some i)"
  have E: "?U s \<Longrightarrow> ?E s \<and> ?K s" "?P s \<Longrightarrow> ?E s \<and> ?K s" for s
    using undecided_safe by (auto simp: abandoned_def)
  have st: "steady ?P" "steady ?U" "steady (\<lambda>s. ?U s \<and> live e f s)" for e f
    by (intro steady_conj steady_undecided steady_files)+
  have quiet: "triple ?E ?K ?U m (\<lambda>_. ?U)" if "silent m" for m :: "'x step"
    by (rule triple_silent [OF that st(2)]) (use E in auto)
  have calm: "triple ?E ?K (\<lambda>s. ?U s \<and> live e f s) m (\<lambda>_ s. ?U s \<and> live e f s)" if "silent m" for m :: "'x step" and e f
    by (rule triple_silent [OF that st(3)]) (use E in auto)
  have read: "triple ?E ?K ?P (read_to_string (p_env production)) (\<lambda>x s. ?P s \<and> x = env)"
    "triple ?E ?K ?P (read_to_string (p_config production)) (\<lambda>x s. ?P s \<and> x = config)"
    by (rule triple_read_text; use E st in \<open>auto simp: live_bytes\<close>)+
  have parse: "triple ?E ?K ?P (require (update_yaml config)) (\<lambda>z s. ?P s \<and> update_yaml config = Some z)"
    by (rule triple_basic) (use E in auto)
  have ready: "triple ?E ?K ?P (write_journal c (backup g) ''candidate_ready'' (Some (candidate_label g)) (Some i)) (\<lambda>_. ?U)"
    by (rule undecided_journal [OF _ st(1)]) (use E in auto)
  have written: "triple ?E ?K ?U (write_candidate c production e f) (\<lambda>_ s. ?U s \<and> live e f s)" for e f
    by (rule write_candidate_triple) (use E in blast)
  have applied: "triple ?E ?K (\<lambda>s. ?U s \<and> live e f s)
      (write_journal c (backup g) ''candidate_applied'' (Some (candidate_label g)) (Some i)) (\<lambda>_. ?U)" for e f
    by (rule undecided_journal [OF _ st(3)]) (use E in auto)
  have restored: "triple ?E ?K ?U (restore_snapshot c production (backup g)) (\<lambda>_. ?U)"
    by (rule triple_mono [OF restore_triple]) (use E in auto)
  have proved: "triple ?E ?K ?U (verify_hermes c token m x) (\<lambda>v s. ?U s \<and> (vf_doctor v \<and> vf_marker v \<and> vf_tool v))" for m x
    by (rule triple_yields [OF quiet verified]) (rule silent_steps)
  have proved': "triple ?E ?K (\<lambda>s. ?U s \<and> live e f s) (verify_hermes c token m x)
      (\<lambda>v s. (?U s \<and> live e f s) \<and> (vf_doctor v \<and> vf_marker v \<and> vf_tool v))" for m x e f
    by (rule triple_yields [OF calm verified]) (rule silent_steps)
  have clean: "triple ?E ?K (\<lambda>s. ?U s \<and> live e f s) (collect_secret_scan c production token issued)
      (\<lambda>r s. (?U s \<and> live e f s) \<and> total_matches r = 0)" for e f
    by (rule triple_yields [OF calm scanned_clean]) (rule silent_steps)
  show ?thesis
    unfolding precommit_def Let_def prod.case i
    apply (rule triple_known [OF read(1)], rule triple_known [OF read(2)], rule triple_facts [OF parse])
    apply (rule triple_before [OF ready triple_before [OF quiet triple_before [OF written triple_before [OF calm
            triple_before [OF applied triple_before [OF quiet triple_facts [OF proved]]]]]]])
       apply (rule silent_steps)+
    apply (rule triple_before [OF quiet triple_before [OF restored triple_before [OF quiet triple_before [OF quiet
            triple_before [OF written triple_before [OF calm triple_facts [OF proved']]]]]]])
        apply (rule silent_steps)+
    apply (rule triple_facts [OF clean triple_chain [OF calm]])
     apply (rule silent_steps)
    apply (rule triple_before, rule write_receipt_triple [where i = i])
       apply simp
      apply (simp add: proven_def terminal_receipt_def)
     apply (erule E(1))
    apply (rule triple_before, rule commit_triple, assumption, erule E(1), erule decided_safe, simp)
    apply (simp add: triple_def)
    done
qed

section \<open>After the commit, and after a failure\<close>

lemma finish_triple:
  assumes "sr_client r = i"
  shows "triple (safe c token g env config) (safe c token g env config) (decided c g env config i {''committed''})
    (finish_commit c token (backup g) (candidate_label g) r) (\<lambda>_. safe c token g env config)"
proof -
  let ?S = "set [''committed'', ''reconcile_pending'', ''reconciled'']"
  let ?D = "decided c g env config i ?S" and ?K = "safe c token g env config"
  have K: "?D s \<Longrightarrow> ?K s" for s by (erule decided_safe) simp
  have start: "decided c g env config i {''committed''} s \<Longrightarrow> ?D s" for s by (auto simp: decided_def)
  have quiet: "triple ?D ?K ?D m (\<lambda>_. ?D)" if "silent m" for m :: "'x step"
    by (rule triple_silent [OF that steady_decided]) (use K in auto)
  have journal: "triple ?D ?K ?D (write_journal c (backup g) st (Some (candidate_label g)) (Some i)) (\<lambda>_. ?D)"
    if st: "st \<in> ?S" for st
  proof (rule journal_triple [OF steady_decided])
    show "honest s \<and> ?D s \<and> ?K s \<and> backed_up c g env config s" if "?D s" for s
      using that K by (auto simp: decided_def)
    fix s s' assume a: "?D s" "follows s s'" "\<And>q. q \<noteq> backup g @ [''journal.json''] \<Longrightarrow> view s' q = view s q"
      "honest s'" "backed_up c g env config s'" "journal_at c g st (Some i) s'"
    have "committed c g (Some i) env config s'" using a(1) views_kept(4) [OF a(2,3)] by (simp add: decided_def)
    then have "?D s'" using a(4-6) st unfolding decided_def by blast
    with K show "?D s' \<and> ?K s'" by blast
  qed
  have "triple ?K ?K ?D (finish_commit c token (backup g) (candidate_label g) r) (\<lambda>_. ?D)"
    unfolding finish_commit_def assms
  proof (rule triple_chain [OF triple_attempt [OF triple_before [OF quiet journal]]])
    fix x :: "unit option"
    have "triple ?D ?K ?D (attempt (write_journal c (backup g) ''reconcile_pending'' (Some (candidate_label g)) (Some i))) (\<lambda>_. ?D)"
      by (rule triple_attempt [OF journal]) simp
    then show "triple ?K ?K ?D (if x = None
        then before (attempt (write_journal c (backup g) ''reconcile_pending'' (Some (candidate_label g)) (Some i)))
          (return Reconcile_pending) else return Applied) (\<lambda>_. ?D)"
      using K by (auto simp: triple_def intro: ends_mono)
  qed (simp_all add: silent_steps)
  then show ?thesis using start K by (auto intro: triple_mono)
qed

lemma revoke_triple:
  assumes "steady P" "\<And>s. P s \<Longrightarrow> E s \<and> K s"
  shows "triple E K P (revoke_client_from c token i) (\<lambda>_ s. P s \<and> revoked token i s)"
  unfolding triple_def
proof (intro allI impI)
  fix s assume P: "P s"
  have u: "unseen s s' \<Longrightarrow> P s'" for s' using assms(1) P by (auto simp: steady_def)
  have "ends (revoke_client_from c token i) s (\<lambda>_ s'. revoked token i s') (\<lambda>_. True) (\<lambda>_. True)"
    unfolding revoke_client_from_def exchange_def ends_chain
  proof (rule ends_system_call, goal_cases)
    case (1 e s1)
    then show ?case by (auto simp: revoked_def split: option.splits)
  qed
  moreover have "ends (revoke_client_from c token i) s (\<lambda>_. P) P P"
    by (rule always_ends [OF silent_remote(2)]) (use u in auto)
  ultimately show "ends (revoke_client_from c token i) s (\<lambda>_ s. P s \<and> revoked token i s) E K"
    by (rule ends_mono [OF ends_conj]) (use assms(2) in auto)
qed

definition restored :: "tool \<Rightarrow> uuid \<Rightarrow> bytes \<Rightarrow> bytes \<Rightarrow> uuid \<Rightarrow> machine \<Rightarrow> bool" where
  "restored c g env config i s \<longleftrightarrow>
     honest s \<and> backed_up c g env config s \<and> live env config s \<and>
     ((\<exists>cl. \<exists>st \<in> set [''client_operation_prepared'', ''candidate_ready'', ''candidate_applied'']. journal_at c g st cl s) \<or>
      journal_at c g ''rollback_cleanup_pending'' (Some i) s)"

lemma restored_safe: "restored c g env config i s \<Longrightarrow> safe c token g env config s"
  unfolding restored_def safe_def recoverable_def phase_def by blast

lemma restored_parts: "restored c g env config i s \<Longrightarrow> honest s \<and> backed_up c g env config s \<and> live env config s"
  by (simp add: restored_def)

lemma steady_restored: "steady (restored c g env config i)"
  unfolding restored_def Bex_def by (intro steady_rules)

lemma undecided_restored: "undecided c g env config cl s \<Longrightarrow> live env config s \<Longrightarrow> restored c g env config i s"
  unfolding undecided_def restored_def by blast

lemma pending_triple:
  "triple (restored c g env config i) (safe c token g env config) (restored c g env config i)
    (write_journal c (backup g) ''rollback_cleanup_pending'' (Some (candidate_label g)) (Some i)) (\<lambda>_. restored c g env config i)"
proof (rule journal_triple [OF steady_restored])
  show "honest s \<and> restored c g env config i s \<and> safe c token g env config s \<and> backed_up c g env config s"
    if "restored c g env config i s" for s
    using that restored_safe restored_parts by blast
  fix s s' assume a: "restored c g env config i s" "follows s s'" "\<And>q. q \<noteq> backup g @ [''journal.json''] \<Longrightarrow> view s' q = view s q"
    "honest s'" "backed_up c g env config s'" "journal_at c g ''rollback_cleanup_pending'' (Some i) s'"
  have "restored c g env config i s'" using a(1,4-6) views_kept(1) [OF a(2,3)] by (simp add: restored_def)
  then show "restored c g env config i s' \<and> safe c token g env config s'" using restored_safe by blast
qed

lemma undone_triple:
  assumes st: "st \<in> set [''rolled_back'', ''recovered'']" and "steady P"
    "\<And>s. P s \<Longrightarrow> honest s \<and> E s \<and> backed_up c g env config s \<and> safe c token g env config s \<and> undone token cl env config s"
  shows "triple E (safe c token g env config) P
    (write_journal c (backup g) st (Some (candidate_label g)) cl)
    (\<lambda>_ s. safe c token g env config s \<and> settled c token g env config s)"
proof (rule journal_triple [OF assms(2)])
  show "honest s \<and> E s \<and> safe c token g env config s \<and> backed_up c g env config s" if "P s" for s
    using assms(3) [OF that] by blast
  fix s s' assume a: "P s" "follows s s'" "\<And>q. q \<noteq> backup g @ [''journal.json''] \<Longrightarrow> view s' q = view s q"
    "honest s'" "backed_up c g env config s'" "journal_at c g st cl s'"
  have u: "undone token cl env config s'" using views_kept(5) [OF a(2,3)] assms(3) [OF a(1)] by blast
  then have "settled c token g env config s'" using a(5,6) st unfolding settled_def by blast
  moreover have "phase c token g env config st cl s'" using u st unfolding phase_def by blast
  ultimately show "(safe c token g env config s' \<and> settled c token g env config s') \<and> safe c token g env config s'"
    using a(4-6) unfolding safe_def recoverable_def by blast
qed

lemma triple_disj: "triple E K P m Q \<Longrightarrow> triple E K P' m Q \<Longrightarrow> triple E K (\<lambda>s. P s \<or> P' s) m Q"
  by (auto simp: triple_def)

lemma abandon_triple:
  "triple (safe c token g env config) (safe c token g env config) (abandoned c g env config i)
    (abandon_candidate c production token run_id (backup g) (candidate_label g) i) (\<lambda>_. safe c token g env config)"
proof -
  let ?A = "abandoned c g env config i" and ?R = "restored c g env config i" and ?K = "safe c token g env config"
  have K: "?A s \<Longrightarrow> ?K s" "?R s \<Longrightarrow> ?K s" for s
    using undecided_safe restored_safe by (auto simp: abandoned_def)
  have rolled: "triple ?K ?K ?A (attempt (rollback_after_failure c production (backup g)))
      (\<lambda>r s. if r = None then ?K s else ?R s)"
  proof (rule triple_attempt)
    have "triple ?K ?K (undecided c g env config cl) (rollback_after_failure c production (backup g)) (\<lambda>_. ?R)" for cl
      by (rule triple_mono [OF rollback_triple]) (use undecided_safe undecided_restored in auto)
    then have "triple ?K ?K (\<lambda>s. undecided c g env config None s \<or> undecided c g env config (Some i) s)
        (rollback_after_failure c production (backup g)) (\<lambda>_. ?R)"
      by (intro triple_disj)
    then show "triple (\<lambda>s. if None = None then ?K s else ?R s) ?K ?A (rollback_after_failure c production (backup g))
        (\<lambda>x s. if Some x = None then ?K s else ?R s)"
      by (simp add: abandoned_def [abs_def])
  qed
  have revoke: "triple ?K ?K ?R (attempt (revoke_client_from c token i)) (\<lambda>r s. ?R s \<and> (r \<noteq> None \<longrightarrow> revoked token i s))"
    by (rule triple_attempt, rule triple_mono [OF revoke_triple [OF steady_restored, where E = ?R and K = ?K]]) (use K in auto)
  have journal: "triple ?K ?K (\<lambda>s. ?R s \<and> revoked token i s)
      (attempt (write_journal c (backup g) ''rolled_back'' (Some (candidate_label g)) (Some i))) (\<lambda>_. ?K)"
    by (rule triple_attempt, rule triple_mono [OF undone_triple [where P = "\<lambda>s. ?R s \<and> revoked token i s" and E = ?K]])
      (use K restored_parts in \<open>auto intro: steady_conj steady_restored steady_files simp: undone_def\<close>)
  have report: "triple ?K ?K ?K (before (attempt (report_failed_hermes_run c token run_id)) (return Pre_commit)) (\<lambda>_. ?K)"
    by (rule triple_silent) (auto intro!: silently.rules silent_steps steady_safe)
  show ?thesis
    unfolding abandon_candidate_def
  proof (rule triple_chain [OF rolled triple_before [OF _ report]])
    fix rolled_back :: "unit option"
    have later: "triple ?K ?K ?R (before (attempt (write_journal c (backup g) ''rollback_cleanup_pending'' (Some (candidate_label g)) (Some i)))
        (chain (attempt (revoke_client_from c token i)) (\<lambda>revoked. if revoked = None then return ()
           else before (attempt (write_journal c (backup g) ''rolled_back'' (Some (candidate_label g)) (Some i))) (return ()))))
        (\<lambda>_. ?K)"
    proof (rule triple_before [OF _ triple_chain [OF revoke]])
      show "triple ?K ?K ?R (attempt (write_journal c (backup g) ''rollback_cleanup_pending'' (Some (candidate_label g)) (Some i))) (\<lambda>_. ?R)"
        by (rule triple_attempt) (rule pending_triple)
      have "triple ?K ?K (\<lambda>s. ?R s \<and> revoked token i s)
          (before (attempt (write_journal c (backup g) ''rolled_back'' (Some (candidate_label g)) (Some i))) (return ())) (\<lambda>_. ?K)"
        by (rule triple_before [OF journal]) (simp add: triple_def)
      then show "triple ?K ?K (\<lambda>s. ?R s \<and> (r \<noteq> None \<longrightarrow> revoked token i s)) (if r = None then return ()
          else before (attempt (write_journal c (backup g) ''rolled_back'' (Some (candidate_label g)) (Some i))) (return ()))
          (\<lambda>_. ?K)" for r :: "unit option"
        using K by (cases r) (simp_all add: triple_def)
    qed
    then show "triple ?K ?K (\<lambda>s. if rolled_back = None then ?K s else ?R s)
        (if rolled_back = None then return ()
         else before (attempt (write_journal c (backup g) ''rollback_cleanup_pending'' (Some (candidate_label g)) (Some i)))
           (chain (attempt (revoke_client_from c token i)) (\<lambda>revoked. if revoked = None then return ()
             else before (attempt (write_journal c (backup g) ''rolled_back'' (Some (candidate_label g)) (Some i))) (return ()))))
        (\<lambda>_. ?K)"
      by (cases rolled_back) (simp_all add: triple_def)
  qed
qed

end
