(* ===== verification/Cutover_Snapshot.thy ===== *)
theory Cutover_Snapshot
  imports Cutover_Apply
begin

text \<open>The staged snapshot and its publication by one rename; an apply as a whole.\<close>

definition begun :: "uuid \<Rightarrow> bytes \<Rightarrow> bytes \<Rightarrow> machine \<Rightarrow> bool" where
  "begun g env config s \<longleftrightarrow> honest s \<and> live env config s \<and> (\<forall>q \<in> beneath (backup g). view s q = None)"

lemma begun_safe: "begun g env config s \<Longrightarrow> safe c token g env config s"
  by (simp add: begun_def safe_def recoverable_def unpublished_def)

lemma begun_confined:
  assumes "begun g env config s" "confined W s s'" "W \<inter> ({p_env production, p_config production} \<union> beneath (backup g)) = {}"
  shows "begun g env config s'"
proof -
  have v: "view s' q = view s q" if "q \<in> {p_env production, p_config production} \<union> beneath (backup g)" for q
    using assms(2,3) that by (auto simp: confined_def)
  have "honest s'" using assms(1,2) honest_follows by (auto simp: begun_def confined_def)
  with assms(1) v show ?thesis by (simp add: begun_def live_def bytes_at_def)
qed

text \<open>The files of the stage so far.\<close>

definition staged :: "uuid \<Rightarrow> bytes \<Rightarrow> bytes \<Rightarrow> (str \<Rightarrow> bytes option) \<Rightarrow> machine \<Rightarrow> bool" where
  "staged g env config X s \<longleftrightarrow>
     begun g env config s \<and> is_some_and (\<lambda>n. real_directory (nd_meta n)) (view s (stage g)) \<and>
     (\<forall>x b. X x = Some b \<longrightarrow> view s (stage g @ [x]) = Some (file_of b))"

lemma steady_begun: "steady (begun g env config)"
  unfolding steady_def
  by (auto simp: begun_def unseen_def live_def bytes_at_def intro: honest_follows)

lemma steady_staged: "steady (staged g env config X)"
  using steady_begun by (auto simp: steady_def staged_def unseen_def)

lemma staged_safe: "staged g env config X s \<Longrightarrow> safe c token g env config s"
  by (auto simp: staged_def intro: begun_safe)

lemma stage_apart [simp]:
  "stage g \<notin> beneath (backup h)" "stage g @ x \<notin> beneath (backup h)" "stage g \<noteq> p_env production" "stage g \<noteq> p_config production"
  "stage g @ x \<noteq> p_env production" "stage g @ x \<noteq> p_config production" "p_backup_root production \<notin> beneath (backup h)"
  "p_backup_root production \<notin> beneath (stage h)"
  "p_env production \<notin> beneath (backup h)" "p_config production \<notin> beneath (backup h)"
  using show_uuid_hd [of h] show_uuid_hd [of h, THEN not_sym]
  by (auto simp: beneath_def below_def starts_with_iff backup_path_def stage_path_def production_def HERMES_DIR_def GATEWAY_DIR_def)

lemma staged_write:
  assumes "\<not> temporary (stage g @ [x])"
  shows "triple (safe c token g env config) (safe c token g env config) (staged g env config X)
    (atomic_write c (stage g @ [x]) b 384) (\<lambda>_. staged g env config (X(x \<mapsto> b)))"
proof (rule triple_atomic_write [OF _ assms steady_staged])
  show "stage g @ [x] \<noteq> []" by simp
  show "honest s \<and> safe c token g env config s \<and> safe c token g env config s" if "staged g env config X s" for s
    using that staged_safe by (auto simp: staged_def begun_def)
  fix s s' assume a: "staged g env config X s" "follows s s'" "honest s'" "view s' = (view s)(stage g @ [x] \<mapsto> file_of b)"
  have "begun g env config s'"
    by (rule begun_confined [where s = s and W = "{stage g @ [x]}"]) (use a in \<open>auto simp: staged_def confined_def\<close>)
  then have "staged g env config (X(x \<mapsto> b)) s'" using a(1,4) by (auto simp: staged_def)
  then show "staged g env config (X(x \<mapsto> b)) s' \<and> safe c token g env config s'" using staged_safe by blast
qed

lemma staged_read:
  assumes "X x = Some b" "\<not> temporary (stage g @ [x])"
  shows "triple (safe c token g env config) (safe c token g env config) (staged g env config X)
    (sha256_file c (stage g @ [x])) (\<lambda>h s. staged g env config X s \<and> h = to_hex (tl_sha256 c b))"
  unfolding sha256_file_def
proof (rule triple_known [OF triple_read_file])
  show "steady (staged g env config X)" by (rule steady_staged)
  show "safe c token g env config s \<and> safe c token g env config s" if "staged g env config X s" for s
    using staged_safe [OF that] by simp
  show "bytes_at s (stage g @ [x]) = Some b" if "staged g env config X s" for s
    using that assms(1) by (simp add: staged_def bytes_at_def file_of_def)
qed (use assms in \<open>auto simp: triple_def\<close>)

lemma moved_iff:
  assumes "q = b @ x" "\<not> below a b" "\<not> below b a"
  shows "moved a b p = q \<longleftrightarrow> p = a @ x \<or> p = q"
proof -
  have q: "\<not> below a q" using assms by (auto simp: below_def starts_with_iff append_eq_append_conv2)
  show ?thesis
  proof (cases "below a p")
    case True
    then obtain r where p: "p = a @ r" by (auto simp: below_def starts_with_iff)
    with q True have "p \<noteq> q" by auto
    with p True assms(1) show ?thesis by (simp add: moved_def)
  next
    case False
    then have "p \<noteq> a @ x" by (auto simp: below_def starts_with_iff)
    with False show ?thesis by (simp add: moved_def)
  qed
qed

lemma node_at_moved:
  assumes "q = b @ x" "\<not> below a b" "\<not> below b a" "map_of fs q = None"
  shows "map_of (map (\<lambda>(p, n). (moved a b p, n)) fs) q = map_of fs (a @ x)"
  using assms(4)
proof (induction fs)
  case (Cons f fs)
  obtain p n where f: "f = (p, n)" by (cases f)
  with Cons.prems have p: "p \<noteq> q" "map_of fs q = None" by (auto split: if_splits)
  have "q = moved a b p \<longleftrightarrow> a @ x = p" using moved_iff [OF assms(1-3), of p] p(1) by auto
  then show ?case using Cons.IH [OF p(2)] by (simp add: f)
qed simp

lemma node_at_unmoved:
  assumes "\<not> below a q" "\<not> below b q"
  shows "map_of (map (\<lambda>(p, n). (moved a b p, n)) fs) q = map_of fs q"
proof -
  have m: "q = moved a b p \<longleftrightarrow> q = p" for p
  proof (cases "below a p")
    case True
    then have "q \<noteq> p" "below b (moved a b p)" using assms(1) by (auto simp: moved_def below_def starts_with_iff)
    with assms(2) show ?thesis by auto
  qed (simp add: moved_def)
  show ?thesis by (induction fs) (simp, clarsimp simp: m)
qed

definition published :: "uuid \<Rightarrow> bytes \<Rightarrow> bytes \<Rightarrow> (str \<Rightarrow> bytes option) \<Rightarrow> machine \<Rightarrow> bool" where
  "published g env config X s \<longleftrightarrow>
     honest s \<and> live env config s \<and> is_some_and (\<lambda>n. real_directory (nd_meta n)) (view s (p_backup_root production)) \<and>
     is_some_and (\<lambda>n. real_directory (nd_meta n)) (view s (backup g)) \<and>
     (\<forall>x b. X x = Some b \<longrightarrow> \<not> temporary (backup g @ [x]) \<longrightarrow> view s (backup g @ [x]) = Some (file_of b))"

lemma below_beneath: "below d q \<longleftrightarrow> q \<in> beneath d"
  by (simp add: beneath_def)

lemma rename_stage:
  assumes "staged g env config X s" "is_directory (p_backup_root production) s"
  shows "published g env config X (s\<lparr>mc_files := map (\<lambda>(p, n). (moved (stage g) (backup g) p, n)) (mc_files s)\<rparr>)"
    (is "published g env config X ?s'")
proof -
  have apart: "\<not> below (stage g) (backup g)" "\<not> below (backup g) (stage g)"
    by (simp_all add: below_beneath)
  have moved: "node_at ?s' (backup g @ x) = node_at s (stage g @ x)" if "\<not> temporary (backup g @ x)" for x
  proof -
    have "view s (backup g @ x) = None" using assms(1) by (simp add: staged_def begun_def)
    then have "map_of (mc_files s) (backup g @ x) = None" using that by (simp add: view_def node_at_def)
    then show ?thesis using node_at_moved [OF refl apart] by (simp add: node_at_def)
  qed
  have "view ?s' (backup g) = view s (stage g)" using moved [of "[]"] by (simp add: view_def)
  moreover have "view ?s' (backup g @ [x]) = view s (stage g @ [x])" if "\<not> temporary (backup g @ [x])" for x
    using moved [OF that] that by (simp add: view_def temporary_def)
  moreover have "live env config ?s'"
    using assms(1) by (simp add: staged_def begun_def live_def bytes_at_def view_def node_at_def node_at_unmoved below_beneath)
  moreover have "view ?s' (p_backup_root production) = view s (p_backup_root production)"
    by (simp add: view_def node_at_def node_at_unmoved below_beneath)
  ultimately show ?thesis
    using assms unfolding published_def staged_def begun_def by (simp add: honest_def is_directory_def view_def)
qed

lemma rename_triple:
  assumes "\<And>s. published g env config X s \<Longrightarrow> safe c token g env config s"
  shows "triple (safe c token g env config) (safe c token g env config) (staged g env config X)
    (rename_dir (stage g) (backup g)) (\<lambda>_. published g env config X)"
  unfolding triple_def rename_dir_def
proof (intro allI impI ends_system_call, goal_cases)
  case (1 s e s1)
  have "staged g env config X s1"
    using 1(1) steady_staged take_event_facts(3) [OF 1(2)] view_files [OF take_event_facts(1) [OF 1(2)]]
    unfolding steady_def unseen_def by blast
  moreover have "butlast (backup g) = p_backup_root production" by (simp add: backup_path_def)
  ultimately show ?case using rename_stage assms staged_safe by simp
qed

definition SNAPSHOT :: "tool \<Rightarrow> uuid \<Rightarrow> bytes \<Rightarrow> bytes \<Rightarrow> time \<Rightarrow> str \<Rightarrow> bytes option" where
  "SNAPSHOT c g env config now =
     [''hermes.env'' \<mapsto> env, ''config.yaml'' \<mapsto> config,
      ''manifest.json'' \<mapsto> tl_show c (manifest_json
        \<lparr>sm_schema = ''nblb.hermes-snapshot.v1'', sm_generation = g, sm_env_sha256 = to_hex (tl_sha256 c env),
         sm_config_sha256 = to_hex (tl_sha256 c config)\<rparr>),
      ''journal.json'' \<mapsto> tl_show c (journal_json c ''client_operation_prepared'' (Some (candidate_label g)) None now)]"

lemma published_undecided:
  "published g env config (SNAPSHOT c g env config now) s \<Longrightarrow> undecided c g env config None s \<and> live env config s"
  by (auto simp: published_def SNAPSHOT_def undecided_def backed_up_def journal_at_def)

lemma fill_triple:
  "triple (safe c token g env config) (safe c token g env config) (staged g env config Map.empty)
    (fill_stage c production g (candidate_label g)) (\<lambda>_ s. undecided c g env config None s \<and> live env config s)"
proof -
  let ?K = "safe c token g env config" and ?S = "staged g env config"
  let ?P = "\<lambda>s. undecided c g env config None s \<and> live env config s"
  have copy: "triple ?K ?K (?S X) (copy_secure c p (stage g @ [x])) (\<lambda>_. ?S (X(x \<mapsto> b)))"
    if "\<And>s. live env config s \<Longrightarrow> bytes_at s p = Some b" "\<not> temporary p" "\<not> temporary (stage g @ [x])" for X p x b
    unfolding copy_secure_def
    by (rule triple_known [OF triple_read_file [OF steady_staged] staged_write])
      (use that staged_safe in \<open>auto simp: staged_def begun_def\<close>)
  let ?X = "[''hermes.env'' \<mapsto> env, ''config.yaml'' \<mapsto> config]"
  let ?F = "\<lambda>s. \<exists>now. ?S (SNAPSHOT c g env config now) s"
  have F: "steady ?F" "steady ?P" by (intro steady_rules steady_staged steady_undecided)+
  have K: "?S X s \<Longrightarrow> ?K s" "?P s \<Longrightarrow> ?K s" for X s using staged_safe undecided_safe by blast+
  have journal: "triple ?K ?K (?S (?X(''manifest.json'' \<mapsto> tl_show c (manifest_json
        \<lparr>sm_schema = ''nblb.hermes-snapshot.v1'', sm_generation = g, sm_env_sha256 = to_hex (tl_sha256 c env),
         sm_config_sha256 = to_hex (tl_sha256 c config)\<rparr>))))
      (write_journal c (stage g) ''client_operation_prepared'' (Some (candidate_label g)) None) (\<lambda>_. ?F)"
    unfolding write_journal_def SNAPSHOT_def
    by (rule triple_chain [OF triple_silent [OF silent_sources(2) steady_staged]])
      (use K in \<open>auto intro!: triple_mono [OF staged_write]\<close>)
  have sync: "triple ?K ?K ?F (sync_directory (stage g)) (\<lambda>_. ?F)" "triple ?K ?K ?P (sync_directory d) (\<lambda>_. ?P)" for d
    by (rule triple_silent; use F K in \<open>auto intro: silent_steps\<close>)+
  have rename: "triple ?K ?K ?F (rename_dir (stage g) (backup g)) (\<lambda>_. ?P)"
  proof -
    have "triple ?K ?K (?S (SNAPSHOT c g env config now)) (rename_dir (stage g) (backup g)) (\<lambda>_. ?P)" for now
      by (rule triple_mono [OF rename_triple]) (use published_undecided K(2) in blast)+
    then show ?thesis by (auto simp: triple_def)
  qed
  have first: "triple ?K ?K (?S Map.empty) (copy_secure c (p_env production) (stage g @ [''hermes.env''])) (\<lambda>_. ?S [''hermes.env'' \<mapsto> env])"
    and second: "triple ?K ?K (?S [''hermes.env'' \<mapsto> env]) (copy_secure c (p_config production) (stage g @ [''config.yaml''])) (\<lambda>_. ?S ?X)"
    by (rule copy; simp add: live_bytes)+
  have hash: "triple ?K ?K (?S ?X) (sha256_file c (stage g @ [''hermes.env''])) (\<lambda>h s. ?S ?X s \<and> h = to_hex (tl_sha256 c env))"
    "triple ?K ?K (?S ?X) (sha256_file c (stage g @ [''config.yaml''])) (\<lambda>h s. ?S ?X s \<and> h = to_hex (tl_sha256 c config))"
    by (rule staged_read; simp)+
  show ?thesis
    unfolding fill_stage_def Let_def
    by (rule triple_before [OF first], rule triple_before [OF second], rule triple_known [OF hash(1)],
        rule triple_known [OF hash(2)], rule triple_before [OF staged_write], simp,
        rule triple_before [OF journal triple_before [OF sync(1) triple_before [OF rename sync(2)]]])
qed

lemma safe_kept: "safe c token g env config s \<Longrightarrow> kept g s s' \<Longrightarrow> safe c token g env config s'"
  using kept_predicates [of g s s'] kept_phase [of g s s'] honest_follows [of s s'] unfolding safe_def recoverable_def kept_def
  by metis

lemma cleanup_triple:
  "triple (safe c token g env config) (safe c token g env config) (safe c token g env config)
    (cleanup_snapshot_stage c d (stage h)) (\<lambda>_. safe c token g env config)"
  unfolding triple_def
proof (intro allI impI)
  fix s assume s: "safe c token g env config s"
  have "safe c token g env config s'" if "confined (beneath (stage h)) s s'" for s'
    by (rule safe_kept [OF s kept_confined [OF that]]) (auto simp: files_of_def)
  then show "ends (cleanup_snapshot_stage c d (stage h)) s (\<lambda>_. safe c token g env config) (safe c token g env config)
      (safe c token g env config)"
    by (intro always_ends [OF confined_cleanup_stage])
qed

lemma snapshot_triple:
  "triple (safe c token g env config) (safe c token g env config) (begun g env config)
    (take_snapshot c production g (candidate_label g)) (\<lambda>b s. (undecided c g env config None s \<and> live env config s) \<and> b = backup g)"
proof -
  let ?K = "safe c token g env config" and ?B = "begun g env config"
  let ?P = "\<lambda>s. undecided c g env config None s \<and> live env config s"
  have root: "triple ?K ?K ?B (ensure_root_directory c (p_backup_root production)) (\<lambda>_. ?B)"
    unfolding triple_def
  proof (intro allI impI always_ends [OF confined_ensure [where W = "{p_backup_root production}"]])
    fix s s' assume "?B s" "confined {p_backup_root production} s s'"
    then show b: "?B s'" by (rule begun_confined) simp
    then show "?K s'" "?K s'" by (rule begun_safe)+
  qed simp
  have look: "triple ?K ?K ?B (inspect f) (\<lambda>_. ?B)" for f :: "machine \<Rightarrow> bool"
    by (simp add: triple_def)
  have checked: "triple ?K ?K ?B (check_that b) (\<lambda>_. ?B)" for b
    by (rule triple_basic(3)) (simp_all add: begun_safe)
  have made: "triple ?K ?K ?B (create_secure_directory c (stage g)) (\<lambda>_. staged g env config Map.empty)"
    unfolding triple_def create_secure_directory_def create_dir_def
  proof (intro allI impI ends_system_call, goal_cases)
    case (1 s e s1)
    have b: "?B s1"
      using 1(1) steady_begun take_event_facts(3) [OF 1(2)] view_files [OF take_event_facts(1) [OF 1(2)]]
      unfolding steady_def unseen_def by blast
    have "?B (put_node (stage g) n s1)" for n
      by (rule begun_confined [OF b confined_put(1) [where W = "{stage g}"]]) simp_all
    with b begun_safe [of g env config] show ?case by (auto simp: staged_def view_def new_meta_def real_directory_def)
  qed
  have filled: "triple ?K ?K (staged g env config Map.empty) (attempt (fill_stage c production g (candidate_label g)))
      (\<lambda>r s. if r = None then ?K s else ?P s)"
    by (rule triple_attempt) (simp add: fill_triple)
  have clean: "triple ?K ?K ?K (before (attempt (cleanup_snapshot_stage c (p_backup_root production) (stage g))) bail) Q"
    for Q :: "path \<Rightarrow> machine \<Rightarrow> bool"
    by (rule triple_before [OF triple_attempt [OF cleanup_triple]]) (simp add: triple_def)
  have last: "triple ?K ?K (\<lambda>s. if r = None then ?K s else ?P s)
      (if r = None then before (attempt (cleanup_snapshot_stage c (p_backup_root production) (stage g))) bail
       else return (backup g)) (\<lambda>b s. ?P s \<and> b = backup g)" for r :: "unit option"
    using clean by (cases r) (simp_all add: triple_def)
  show ?thesis
    unfolding take_snapshot_def Let_def
    by (rule triple_before [OF root], rule triple_chain [OF look], rule triple_before [OF checked],
        rule triple_before [OF made], rule triple_chain [OF filled last])
qed

text \<open>The generation an apply draws: the identifier in the second event it consumes.\<close>

definition drawn :: "machine \<Rightarrow> uuid" where
  "drawn s = ev_uuid (fst (take_event (snd (take_event s))))"

lemma apply_triple:
  "triple (safe c token g env config) (safe c token g env config) (begun g env config)
    (apply_generation c production token run_id started g) (\<lambda>_. safe c token g env config)"
proof -
  let ?K = "safe c token g env config"
  let ?P = "\<lambda>s. undecided c g env config None s \<and> live env config s"
  have K: "?P s \<Longrightarrow> ?K s" for s using undecided_safe by blast
  have P: "steady ?P" by (intro steady_rules steady_undecided)
  have report: "triple ?K ?K ?K (before (attempt (report_failed_hermes_run c token run_id)) (return Pre_commit)) (\<lambda>_. ?K)"
    by (rule triple_silent) (auto intro!: silently.rules silent_steps steady_safe)
  have rolled: "triple ?K ?K ?P (attempt (rollback_after_failure c production (backup g))) (\<lambda>_. ?K)"
    by (rule triple_attempt, rule triple_mono [OF rollback_triple [where E = ?K and K = ?K]]) (use undecided_safe in auto)
  have issued: "triple ?K ?K ?P (attempt (issue_or_rotate_client c token (candidate_label g))) (\<lambda>_. ?P)"
    by (rule triple_silent [OF _ P]) (use K in \<open>auto intro: silently.rules silent_steps\<close>)
  have tried: "triple ?K ?K ?P (chain (attempt (precommit c production token run_id g started (backup g) issue)) (\<lambda>result.
      case result of
        None \<Rightarrow> abandon_candidate c production token run_id (backup g) (candidate_label g) (cl_id (fst issue))
      | Some receipt \<Rightarrow> finish_commit c token (backup g) (candidate_label g) receipt)) (\<lambda>_. ?K)" for issue
  proof (rule triple_chain)
    let ?i = "cl_id (fst issue)"
    let ?M = "\<lambda>r s. case r of None \<Rightarrow> abandoned c g env config ?i s
        | Some v \<Rightarrow> decided c g env config ?i {''committed''} s \<and> sr_client v = ?i"
    show "triple ?K ?K ?P (attempt (precommit c production token run_id g started (backup g) issue)) ?M"
      using precommit_triple [OF refl, of c g env config "fst issue" token run_id started "snd issue"]
      by (intro triple_attempt) simp
    show "triple ?K ?K (?M r) (case r of
        None \<Rightarrow> abandon_candidate c production token run_id (backup g) (candidate_label g) ?i
      | Some receipt \<Rightarrow> finish_commit c token (backup g) (candidate_label g) receipt) (\<lambda>_. ?K)" for r
    proof (cases r)
      case None
      then show ?thesis using abandon_triple by simp
    next
      case (Some v)
      show ?thesis using finish_triple [of v ?i c token g env config] Some by (cases "sr_client v = ?i") (simp_all add: triple_def)
    qed
  qed
  show ?thesis
    unfolding apply_generation_def Let_def
  proof (rule triple_chain [OF triple_attempt])
    let ?M = "\<lambda>r s. case r of None \<Rightarrow> ?K s | Some b \<Rightarrow> ?P s \<and> b = backup g"
    show "triple (?M None) ?K (begun g env config) (take_snapshot c production g (candidate_label g)) (\<lambda>x. ?M (Some x))"
      using snapshot_triple by simp
    fix r
    have later: "triple ?K ?K ?P (chain (attempt (issue_or_rotate_client c token (candidate_label g))) (\<lambda>issue.
        case issue of
          None \<Rightarrow> before (attempt (rollback_after_failure c production (backup g)))
            (before (attempt (report_failed_hermes_run c token run_id)) (return Pre_commit))
        | Some issue \<Rightarrow> chain (attempt (precommit c production token run_id g started (backup g) issue)) (\<lambda>result.
            case result of
              None \<Rightarrow> abandon_candidate c production token run_id (backup g) (candidate_label g) (cl_id (fst issue))
            | Some receipt \<Rightarrow> finish_commit c token (backup g) (candidate_label g) receipt))) (\<lambda>_. ?K)"
    proof (rule triple_chain [OF issued])
      fix issue
      show "triple ?K ?K ?P (case issue of
          None \<Rightarrow> before (attempt (rollback_after_failure c production (backup g)))
            (before (attempt (report_failed_hermes_run c token run_id)) (return Pre_commit))
        | Some issue \<Rightarrow> chain (attempt (precommit c production token run_id g started (backup g) issue)) (\<lambda>result.
            case result of
              None \<Rightarrow> abandon_candidate c production token run_id (backup g) (candidate_label g) (cl_id (fst issue))
            | Some receipt \<Rightarrow> finish_commit c token (backup g) (candidate_label g) receipt)) (\<lambda>_. ?K)"
        using triple_before [OF rolled report] tried by (cases issue) simp_all
    qed
    show "triple ?K ?K (?M r) (case r of
          None \<Rightarrow> before (attempt (report_failed_hermes_run c token run_id)) (return Pre_commit)
        | Some b \<Rightarrow>
            chain (attempt (issue_or_rotate_client c token (candidate_label g))) (\<lambda>issue.
            case issue of
              None \<Rightarrow> before (attempt (rollback_after_failure c production b))
                (before (attempt (report_failed_hermes_run c token run_id)) (return Pre_commit))
            | Some issue \<Rightarrow> chain (attempt (precommit c production token run_id g started b issue)) (\<lambda>result.
                case result of
                  None \<Rightarrow> abandon_candidate c production token run_id b (candidate_label g) (cl_id (fst issue))
                | Some receipt \<Rightarrow> finish_commit c token b (candidate_label g) receipt))) (\<lambda>_. ?K)"
    proof (cases r)
      case None
      then show ?thesis using report by simp
    next
      case (Some b)
      show ?thesis using later Some by (cases "b = backup g") (simp_all add: triple_def)
    qed
  qed
qed

theorem apply_recoverable:
  assumes "begun (drawn s) env config s"
  shows "safe c token (drawn s) env config (snd (apply_cutover c production token run_id s))"
proof -
  obtain e1 s1 where 1: "take_event s = (e1, s1)" by (cases "take_event s")
  obtain e2 s2 where 2: "take_event s1 = (e2, s2)" by (cases "take_event s1")
  have g: "drawn s = ev_uuid e2" by (simp add: drawn_def 1 2)
  have "follows s s2" using take_event_facts(3) [OF 1] take_event_facts(3) [OF 2] by (rule follows_trans)
  moreover have "view s2 = view s" using take_event_facts(1) [OF 1] take_event_facts(1) [OF 2] by (intro view_files) simp
  ultimately have b: "begun (ev_uuid e2) env config s2"
    using assms steady_begun unfolding g steady_def unseen_def by blast
  have "ends (apply_generation c production token run_id (ev_time e1) (ev_uuid e2)) s2
      (\<lambda>_. safe c token (drawn s) env config) (safe c token (drawn s) env config) (safe c token (drawn s) env config)"
    using apply_triple b unfolding triple_def g by blast
  moreover have "apply_cutover c production token run_id s = apply_generation c production token run_id (ev_time e1) (ev_uuid e2) s2"
    by (simp add: apply_cutover_def chain_def utc_now_def new_uuid_def 1 2)
  ultimately show ?thesis by (auto simp: ends_def split: prod.splits outcome.splits)
qed

end
