(* ===== verification/Cutover_Recover.thy ===== *)
theory Cutover_Recover
  imports Cutover_Snapshot
begin

text \<open>
  The recovery under the lock. When it returns, the generation is settled; when it fails or dies, the
  machine is as recoverable as it was, so it can be tried again.
\<close>

section \<open>The other generations\<close>

text \<open>Everything an apply or a recovery of \<open>g\<close> may write.\<close>

definition own_files :: "tool \<Rightarrow> uuid \<Rightarrow> path set" where
  "own_files c g = insert (p_receipt_root production) (files_of g) \<union> beneath (backup g) \<union>
     {q. \<exists>name. is_staging c name \<and> below (p_backup_root production @ [name]) q}"

lemma others_confined:
  assumes "others_settled c g s" "confined (own_files c g) s s'"
  shows "others_settled c g s'"
proof -
  have "p_backup_root production @ [name, ''journal.json''] \<notin> own_files c g"
    if "name \<noteq> show_uuid g" "\<not> is_staging c name" for name
    using that by (auto simp: own_files_def files_of_def backup_path_def receipt_path_def beneath_def below_def starts_with_iff
        production_def HERMES_DIR_def GATEWAY_DIR_def)
  then have "bytes_at s' (p_backup_root production @ [name, ''journal.json'']) =
      bytes_at s (p_backup_root production @ [name, ''journal.json''])"
    if "name \<noteq> show_uuid g" "\<not> is_staging c name" for name
    using that assms(2) by (simp add: confined_def bytes_at_def)
  with assms(1) show ?thesis by (simp add: others_settled_def)
qed

lemma triple_others:
  assumes "triple E K P m Q" "always (confined (own_files c g)) m"
  shows "triple (\<lambda>s. E s \<and> others_settled c g s) (\<lambda>s. K s \<and> others_settled c g s) (\<lambda>s. P s \<and> others_settled c g s) m
    (\<lambda>x s. Q x s \<and> others_settled c g s)"
  unfolding triple_def
proof (intro allI impI)
  fix s assume s: "P s \<and> others_settled c g s"
  have "ends m s Q E K" using assms(1) s by (simp add: triple_def)
  moreover have "ends m s (\<lambda>_. others_settled c g) (others_settled c g) (others_settled c g)"
    by (rule always_ends [OF assms(2)]) (use s others_confined in auto)
  ultimately show "ends m s (\<lambda>x s. Q x s \<and> others_settled c g s) (\<lambda>s. E s \<and> others_settled c g s) (\<lambda>s. K s \<and> others_settled c g s)"
    by (rule ends_conj)
qed

lemma steady_others: "steady (others_settled c g)"
  by (auto simp: steady_def unseen_def others_settled_def bytes_at_def)

section \<open>What recovery reads\<close>

lemma decode_journal_json:
  assumes "reads_back c"
  shows "Option.bind (tl_parse c (tl_show c (journal_json c st label cl now))) (decode_journal c) =
    Some \<lparr>jn_schema = ''nblb.hermes-journal.v1'', jn_state = st, jn_label = label, jn_client = cl\<rparr>"
  using assms
  by (simp add: reads_back_def journal_json_def decode_journal_def field_text_def json_accessors field_optional_def
      optional_text_def as_uuid_def split: option.splits)

lemma journal_bytes:
  "reads_back c \<Longrightarrow> journal_at c g st cl s \<Longrightarrow>
    \<exists>b. bytes_at s (backup g @ [''journal.json'']) = Some b \<and> Option.bind (tl_parse c b) (decode_journal c) =
      Some \<lparr>jn_schema = ''nblb.hermes-journal.v1'', jn_state = st, jn_label = Some (candidate_label g), jn_client = cl\<rparr>"
  using decode_journal_json by (auto simp: journal_at_def bytes_at_def file_of_def)

lemma read_journal_triple:
  assumes "steady P" "\<And>s. P s \<Longrightarrow> E s \<and> K s"
  shows "triple E K P (read_recovery_journal c d) (\<lambda>j s. P s \<and>
    (\<exists>b. bytes_at s (d @ [''journal.json'']) = Some b \<and> Option.bind (tl_parse c b) (decode_journal c) = Some j))"
proof -
  let ?p = "d @ [''journal.json'']"
  have quiet: "triple E K P m (\<lambda>_. P)" if "silent m" for m :: "'x step"
    by (rule triple_silent [OF that assms(1)]) (use assms(2) in auto)
  have read: "triple E K P (read_file ?p) (\<lambda>b s. P s \<and> bytes_at s ?p = Some b)"
    unfolding triple_def read_file_def
  proof (intro allI impI ends_reading, goal_cases)
    case (1 s s1)
    then show ?case using assms unfolding steady_def unseen_def by blast
  next
    case (2 s b s1)
    then show ?case using assms(1) unfolding steady_def unseen_def by (simp add: bytes_at_def view_def)
  qed
  show ?thesis
    unfolding read_recovery_journal_def Let_def
    by (rule triple_chain [OF quiet triple_before [OF quiet triple_before [OF quiet triple_chain [OF read]]]])
      (use assms in \<open>auto simp: triple_def intro: silently.basic silent_steps split: option.splits\<close>)
qed

section \<open>One generation\<close>

lemma mark_undone_triple:
  assumes "st \<in> set [''rolled_back'', ''recovered'']"
  shows "triple (safe c token g env config) (safe c token g env config) (restored c g env config i)
    (before (case cl of Some j \<Rightarrow> revoke_client_from c token j | None \<Rightarrow> return ())
      (write_journal c (backup g) st (Some (candidate_label g)) cl))
    (\<lambda>_ s. safe c token g env config s \<and> settled c token g env config s)"
proof (rule triple_before)
  let ?R = "restored c g env config i" and ?K = "safe c token g env config"
  let ?Q = "\<lambda>s. ?R s \<and> is_none_or (\<lambda>j. revoked token j s) cl"
  show "triple ?K ?K ?R (case cl of Some j \<Rightarrow> revoke_client_from c token j | None \<Rightarrow> return ()) (\<lambda>_. ?Q)"
    using revoke_triple [OF steady_restored, of c g env config i ?K ?K] restored_safe
    by (cases cl) (auto simp: triple_def)
  have "steady ?Q" by (cases cl) (auto intro: steady_rules steady_restored)
  then show "triple ?K ?K ?Q (write_journal c (backup g) st (Some (candidate_label g)) cl) (\<lambda>_ s. ?K s \<and> settled c token g env config s)"
    by (rule undone_triple [OF assms]) (use restored_safe restored_parts in \<open>auto simp: undone_def\<close>)
qed

lemma find_client_triple:
  assumes "steady P" "\<And>s. P s \<Longrightarrow> E s \<and> K s" "\<And>cl. triple E K P (f cl) Q"
  shows "triple E K P (chain (case x of Some i \<Rightarrow> return (Some i)
      | None \<Rightarrow> (case y of Some label \<Rightarrow> find_active_client_by_label c token label | None \<Rightarrow> return None)) f) Q"
  by (rule triple_chain [OF triple_silent [OF _ assms(1)]])
    (use assms(2,3) in \<open>auto intro: silently.rules silent_steps split: option.splits\<close>)

lemma undo_triple:
  assumes "jn_label j = Some (candidate_label g)"
  shows "triple (safe c token g env config) (safe c token g env config) (undecided c g env config cl)
      (undo_generation c production token (backup g) j Rollback_and_revoke)
      (\<lambda>_ s. safe c token g env config s \<and> settled c token g env config s)"
    "triple (safe c token g env config) (safe c token g env config) (restored c g env config i)
      (undo_generation c production token (backup g) j Revoke_after_rollback)
      (\<lambda>_ s. safe c token g env config s \<and> settled c token g env config s)"
proof -
  let ?K = "safe c token g env config" and ?R = "restored c g env config i"
  have rest: "triple ?K ?K ?R (chain (case jn_client j of Some i \<Rightarrow> return (Some i)
      | None \<Rightarrow> (case jn_label j of Some label \<Rightarrow> find_active_client_by_label c token label | None \<Rightarrow> return None))
      (\<lambda>client_id. before (case client_id of Some i \<Rightarrow> revoke_client_from c token i | None \<Rightarrow> return ())
        (write_journal c (backup g) st (jn_label j) client_id))) (\<lambda>_ s. ?K s \<and> settled c token g env config s)"
    if "st \<in> set [''rolled_back'', ''recovered'']" for st
    unfolding assms
    by (rule find_client_triple [OF steady_restored _ mark_undone_triple [OF that]]) (simp add: restored_safe)
  have "triple ?K ?K (undecided c g env config cl) (rollback_after_failure c production (backup g)) (\<lambda>_. ?R)"
    by (rule triple_mono [OF rollback_triple [where E = ?K and K = ?K]]) (use undecided_safe undecided_restored in auto)
  then show "triple ?K ?K (undecided c g env config cl) (undo_generation c production token (backup g) j Rollback_and_revoke)
      (\<lambda>_ s. ?K s \<and> settled c token g env config s)"
    unfolding undo_generation_def using rest [of "''recovered''"] by (auto intro: triple_before)
  have "triple ?K ?K ?R (return ()) (\<lambda>_. ?R)" by (simp add: triple_def)
  then show "triple ?K ?K ?R (undo_generation c production token (backup g) j Revoke_after_rollback)
      (\<lambda>_ s. ?K s \<and> settled c token g env config s)"
    unfolding undo_generation_def using rest [of "''rolled_back''"] by (auto intro: triple_before)
qed

lemma reconcile_triple:
  assumes "jn_label j = Some (candidate_label g)" "jn_client j = Some i"
    "states \<subseteq> set [''committed'', ''reconcile_pending'', ''reconciled'']"
  shows "triple (safe c token g env config) (safe c token g env config) (decided c g env config i states)
    (reconcile_committed_cutover c production token (backup g) j)
    (\<lambda>_ s. safe c token g env config s \<and> settled c token g env config s)"
proof -
  let ?K = "safe c token g env config" and ?D = "decided c g env config i states"
  let ?Q = "\<lambda>s. ?K s \<and> settled c token g env config s"
  have K: "?D s \<Longrightarrow> ?K s" for s using assms(3) decided_safe by blast
  have load: "triple ?K ?K ?D (load_committed_receipt c production (backup g) j) (\<lambda>r s. ?D s \<and> sr_client r = i)"
  proof (rule triple_yields)
    show "triple ?K ?K ?D (load_committed_receipt c production (backup g) j) (\<lambda>_. ?D)"
      by (rule triple_silent [OF _ steady_decided]) (use K in \<open>auto intro: silent_steps\<close>)
    show "yields (load_committed_receipt c production (backup g) j) (\<lambda>r. sr_client r = i)"
      unfolding load_committed_receipt_def Let_def
      by (intro yields_then yields_checked yields_basic) (simp add: assms(2))
  qed
  have remote: "triple ?K ?K ?D (reconcile_remote_state c token r) (\<lambda>_. ?D)" for r
    by (rule triple_silent [OF _ steady_decided]) (use K in \<open>auto intro: silent_steps\<close>)
  have journal: "triple ?K ?K ?D (write_journal c (backup g) ''reconciled'' (Some (candidate_label g)) (Some i)) (\<lambda>_. ?Q)"
  proof (rule journal_triple [OF steady_decided])
    show "honest s \<and> ?K s \<and> ?K s \<and> backed_up c g env config s" if "?D s" for s
      using that K by (auto simp: decided_def)
    fix s s' assume a: "?D s" "follows s s'" "\<And>q. q \<noteq> backup g @ [''journal.json''] \<Longrightarrow> view s' q = view s q"
      "honest s'" "backed_up c g env config s'" "journal_at c g ''reconciled'' (Some i) s'"
    have k: "committed c g (Some i) env config s'" using a(1) views_kept(4) [OF a(2,3)] by (simp add: decided_def)
    then have "decided c g env config i {''reconciled''} s'" using a(4-6) by (simp add: decided_def)
    then have "?K s'" by (rule decided_safe) simp
    moreover have "settled c token g env config s'" using k a(5,6) unfolding settled_def by blast
    ultimately show "?Q s' \<and> ?K s'" by blast
  qed
  show ?thesis
    unfolding reconcile_committed_cutover_def assms(1)
    by (rule triple_facts [OF load], rule triple_before [OF remote], rule triple_before)
      (use journal in \<open>auto simp: triple_def\<close>)
qed

lemma committed_client: "committed c g cl env config s \<Longrightarrow> \<exists>i. cl = Some i"
  by (auto simp: committed_def is_some_and_iff)

text \<open>What the journal of the generation says, and what recovery makes of it.\<close>

lemma own_journal:
  assumes "reads_back c" "safe c token g env config s"
    "bytes_at s (backup g @ [''journal.json'']) = Some b" "Option.bind (tl_parse c b) (decode_journal c) = Some j"
  shows "jn_label j = Some (candidate_label g)"
    "recovery_action j = Some Rollback_and_revoke \<and> undecided c g env config (jn_client j) s \<or>
     recovery_action j = Some Revoke_after_rollback \<and> (\<exists>i. jn_client j = Some i \<and> restored c g env config i s) \<or>
     recovery_action j = Some No_recovery \<and> settled c token g env config s \<or>
     recovery_action j = Some Reconcile_committed \<and>
       (\<exists>i states. jn_client j = Some i \<and> states \<subseteq> set [''committed'', ''reconcile_pending'', ''reconciled''] \<and>
          decided c g env config i states s)"
proof -
  have "\<not> unpublished g env config s" using assms(3) by (auto simp: unpublished_def bytes_at_def)
  then obtain st cl where f: "honest s" "backed_up c g env config s" "journal_at c g st cl s"
    "phase c token g env config st cl s"
    using assms(2) by (auto simp: safe_def recoverable_def)
  with journal_bytes [OF assms(1) f(3)] assms(3,4)
  have j: "j = \<lparr>jn_schema = ''nblb.hermes-journal.v1'', jn_state = st, jn_label = Some (candidate_label g), jn_client = cl\<rparr>"
    by auto
  then show "jn_label j = Some (candidate_label g)" by simp
  consider
      (undo) "st \<in> set [''client_operation_prepared'', ''candidate_ready'', ''candidate_applied'']"
    | (revoke) i where "st = ''rollback_cleanup_pending''" "cl = Some i" "live env config s"
    | (undone) "st \<in> set [''rolled_back'', ''recovered'']" "undone token cl env config s"
    | (commit) i where "st \<in> set [''committed'', ''reconcile_pending'', ''reconciled'']" "cl = Some i" "committed c g cl env config s"
    using f(4) committed_client [of c g cl env config s] unfolding phase_def not_None_eq by blast
  then show "recovery_action j = Some Rollback_and_revoke \<and> undecided c g env config (jn_client j) s \<or>
     recovery_action j = Some Revoke_after_rollback \<and> (\<exists>i. jn_client j = Some i \<and> restored c g env config i s) \<or>
     recovery_action j = Some No_recovery \<and> settled c token g env config s \<or>
     recovery_action j = Some Reconcile_committed \<and>
       (\<exists>i states. jn_client j = Some i \<and> states \<subseteq> set [''committed'', ''reconcile_pending'', ''reconciled''] \<and>
          decided c g env config i states s)"
  proof cases
    case undo
    then have "undecided c g env config cl s" using f unfolding undecided_def by blast
    moreover have "recovery_action j = Some Rollback_and_revoke"
      using undo unfolding j recovery_action_def list.set insert_iff by (elim disjE) simp_all
    ultimately show ?thesis by (simp add: j)
  next
    case revoke
    then have "restored c g env config i s" using f unfolding restored_def by blast
    then show ?thesis using revoke by (simp add: j recovery_action_def)
  next
    case undone
    then have "settled c token g env config s" using f unfolding settled_def by blast
    moreover have "recovery_action j = Some No_recovery"
      using undone(1) unfolding j recovery_action_def list.set insert_iff by (elim disjE) simp_all
    ultimately show ?thesis by simp
  next
    case commit
    have d: "decided c g env config i {st} s" using f commit by (simp add: decided_def)
    show ?thesis
    proof (cases "st = ''reconciled''")
      case True
      then have "settled c token g env config s" using f commit unfolding settled_def by blast
      then show ?thesis using True by (simp add: j recovery_action_def)
    next
      case False
      then have "recovery_action j = Some Reconcile_committed"
        using commit(1) unfolding j recovery_action_def list.set insert_iff by (elim disjE) simp_all
      moreover have "{st} \<subseteq> set [''committed'', ''reconcile_pending'', ''reconciled'']" using commit(1) by simp
      ultimately show ?thesis using d commit(2) by (auto simp: j)
    qed
  qed
qed

lemma recover_own_triple:
  assumes "reads_back c"
  shows "triple (safe c token g env config) (safe c token g env config) (safe c token g env config)
    (recover_generation c production token (backup g)) (\<lambda>_ s. safe c token g env config s \<and> settled c token g env config s)"
  unfolding recover_generation_def
proof (rule triple_chain [OF read_journal_triple [OF steady_safe]])
  let ?K = "safe c token g env config"
  fix j
  show "triple ?K ?K (\<lambda>s. ?K s \<and> (\<exists>b. bytes_at s (backup g @ [''journal.json'']) = Some b \<and>
      Option.bind (tl_parse c b) (decode_journal c) = Some j))
    (chain (require (recovery_action j)) (\<lambda>act. case act of No_recovery \<Rightarrow> return None
      | Reconcile_committed \<Rightarrow> reconcile_committed_cutover c production token (backup g) j
      | _ \<Rightarrow> before (undo_generation c production token (backup g) j act) (return None)))
    (\<lambda>_ s. ?K s \<and> settled c token g env config s)"
    unfolding triple_def
  proof (intro allI impI, elim conjE exE)
    fix s b assume a: "?K s" "bytes_at s (backup g @ [''journal.json'']) = Some b"
      "Option.bind (tl_parse c b) (decode_journal c) = Some j"
    note l = own_journal(1) [OF assms a]
    show "ends (chain (require (recovery_action j)) (\<lambda>act. case act of No_recovery \<Rightarrow> return None
      | Reconcile_committed \<Rightarrow> reconcile_committed_cutover c production token (backup g) j
      | _ \<Rightarrow> before (undo_generation c production token (backup g) j act) (return None))) s
      (\<lambda>_ s. ?K s \<and> settled c token g env config s) ?K ?K"
      using own_journal(2) [OF assms a] a(1) undo_triple [OF l] reconcile_triple [OF l]
      unfolding triple_def by (elim disjE conjE exE) simp_all
  qed
qed simp_all

lemma recover_other_triple:
  assumes "x \<noteq> show_uuid g" "\<not> is_staging c x" "steady P"
  shows "triple (\<lambda>s. P s \<and> others_settled c g s) (\<lambda>s. P s \<and> others_settled c g s) (\<lambda>s. P s \<and> others_settled c g s)
    (recover_generation c production token (p_backup_root production @ [x])) (\<lambda>_ s. P s \<and> others_settled c g s)"
  unfolding recover_generation_def
proof (rule triple_chain [OF read_journal_triple [OF steady_conj [OF assms(3) steady_others]]])
  let ?P = "\<lambda>s. P s \<and> others_settled c g s"
  fix j
  show "triple ?P ?P (\<lambda>s. ?P s \<and> (\<exists>b. bytes_at s ((p_backup_root production @ [x]) @ [''journal.json'']) = Some b \<and>
      Option.bind (tl_parse c b) (decode_journal c) = Some j))
    (chain (require (recovery_action j)) (\<lambda>act. case act of No_recovery \<Rightarrow> return None
      | Reconcile_committed \<Rightarrow> reconcile_committed_cutover c production token (p_backup_root production @ [x]) j
      | _ \<Rightarrow> before (undo_generation c production token (p_backup_root production @ [x]) j act) (return None)))
    (\<lambda>_. ?P)"
    unfolding triple_def
  proof (intro allI impI, elim conjE exE)
    fix s b assume a: "P s" "others_settled c g s"
      "bytes_at s ((p_backup_root production @ [x]) @ [''journal.json'']) = Some b"
      "Option.bind (tl_parse c b) (decode_journal c) = Some j"
    then have "recovery_action j \<in> {None, Some No_recovery}" using assms(1,2) by (auto simp: others_settled_def)
    then show "ends (chain (require (recovery_action j)) (\<lambda>act. case act of No_recovery \<Rightarrow> return None
      | Reconcile_committed \<Rightarrow> reconcile_committed_cutover c production token (p_backup_root production @ [x]) j
      | _ \<Rightarrow> before (undo_generation c production token (p_backup_root production @ [x]) j act) (return None))) s
      (\<lambda>_. ?P) ?P ?P"
      using a(1,2) by auto
  qed
qed simp_all

section \<open>All of them\<close>

lemma own_not_staging: "\<not> is_staging c (show_uuid g)"
  using show_uuid_hd [of g] by (auto simp: is_staging_def staging_generation_def strip_prefix_Some_iff bind_eq_None_conv)

lemma settled_kept: "settled c token g env config s \<Longrightarrow> kept g s s' \<Longrightarrow> settled c token g env config s'"
  using kept_predicates [of g s s'] kept_undone [of g s s'] unfolding settled_def by metis

lemma steady_settled: "steady (settled c token g env config)"
  using settled_kept kept_unseen unfolding steady_def by blast

text \<open>Safe, with the other generations settled, and this one as well once \<open>b\<close> holds.\<close>

definition underway :: "tool \<Rightarrow> str \<Rightarrow> uuid \<Rightarrow> bytes \<Rightarrow> bytes \<Rightarrow> bool \<Rightarrow> machine \<Rightarrow> bool" where
  "underway c token g env config b s \<longleftrightarrow>
     (safe c token g env config s \<and> others_settled c g s) \<and> (b \<longrightarrow> settled c token g env config s)"

lemma underway_weaken: "underway c token g env config b s \<Longrightarrow> underway c token g env config False s"
  by (simp add: underway_def)

lemma steady_underway: "steady (underway c token g env config b)"
  using steady_safe steady_others steady_settled unfolding underway_def steady_def by blast

lemma underway_silent:
  "silent m \<Longrightarrow> triple (underway c token g env config False) (underway c token g env config False)
    (underway c token g env config b) m (\<lambda>_. underway c token g env config b)"
  by (rule triple_silent [OF _ steady_underway]) (simp_all add: underway_weaken)

lemma underway_cleanup:
  assumes "is_staging c name"
  shows "triple (underway c token g env config False) (underway c token g env config False) (underway c token g env config b)
    (cleanup_snapshot_stage c d (p_backup_root production @ [name])) (\<lambda>_. underway c token g env config b)"
  unfolding triple_def
proof (intro allI impI)
  fix s assume s: "underway c token g env config b s"
  let ?W = "beneath (p_backup_root production @ [name])"
  have n: "name \<noteq> show_uuid g" using assms own_not_staging by auto
  have "underway c token g env config b s'" if c: "confined ?W s s'" for s'
  proof -
    have "kept g s s'"
      by (rule kept_confined [OF c]) (use n in \<open>auto simp: files_of_def beneath_def below_def starts_with_iff backup_path_def
        receipt_path_def production_def HERMES_DIR_def GATEWAY_DIR_def\<close>)
    moreover have "confined (own_files c g) s s'" using c assms by (auto simp: confined_def own_files_def beneath_def)
    ultimately show ?thesis
      using s safe_kept [of c token g env config s s'] settled_kept [of c token g env config s s'] others_confined [of c g s s']
      by (auto simp: underway_def)
  qed
  then show "ends (cleanup_snapshot_stage c d (p_backup_root production @ [name])) s (\<lambda>_. underway c token g env config b)
      (underway c token g env config False) (underway c token g env config False)"
    by (intro always_ends [OF confined_cleanup_stage]) (auto intro: underway_weaken)
qed

lemma survey_triple:
  "triple (underway c token g env config False) (underway c token g env config False) (underway c token g env config b)
    (survey_backups c (p_backup_root production) names)
    (\<lambda>bs s. underway c token g env config b s \<and> set bs = (\<lambda>x. p_backup_root production @ [x]) ` {x \<in> set names. \<not> is_staging c x})"
proof (induction names)
  case Nil
  show ?case by (simp add: triple_def)
next
  case (Cons name names)
  let ?E = "underway c token g env config False" and ?P = "underway c token g env config b"
  let ?d = "p_backup_root production"
  let ?Q = "\<lambda>bs s. ?P s \<and> set bs = (\<lambda>x. ?d @ [x]) ` {x \<in> set (name # names). \<not> is_staging c x}"
  have rest: "triple ?E ?E ?P (if is_staging c name
      then before (cleanup_snapshot_stage c ?d (?d @ [name])) (survey_backups c ?d names)
      else before (validate_generation_directory c (?d @ [name])) (before (verify_snapshot c (?d @ [name]))
        (chain (survey_backups c ?d names) (\<lambda>backups. return ((?d @ [name]) # backups))))) ?Q"
  proof (cases "is_staging c name")
    case True
    have "triple ?E ?E ?P (survey_backups c ?d names) ?Q"
      by (rule triple_mono [OF Cons.IH]) (use True in auto)
    with True show ?thesis by (auto intro: triple_before [OF underway_cleanup])
  next
    case False
    have "triple ?E ?E ?P (chain (survey_backups c ?d names) (\<lambda>backups. return ((?d @ [name]) # backups))) ?Q"
      by (rule triple_facts [OF Cons.IH]) (use False in \<open>auto simp: triple_def\<close>)
    with False show ?thesis
      by (simp, intro triple_before [OF underway_silent] silent_steps) assumption
  qed
  show ?case
    unfolding survey_backups.simps Let_def
    by (rule triple_chain [OF underway_silent], rule silent_steps, rule triple_before [OF underway_silent], rule silently.basic)
      (rule rest)
qed

lemma recover_confined: "always (confined (own_files c g)) (recover_generation c production token (backup g))"
proof -
  have own: "p_env production \<in> own_files c g" "p_config production \<in> own_files c g" "backup g @ [''journal.json''] \<in> own_files c g"
    by (simp_all add: own_files_def files_of_def)
  have journal: "always (confined (own_files c g)) (write_journal c (backup g) st label cl)" for st label cl
    unfolding write_journal_def
    by (intro inside.rules confined_atomic_write own) (auto intro: confined_unseen silent_steps)
  show ?thesis
    unfolding recover_generation_def reconcile_committed_cutover_def undo_generation_def rollback_after_failure_def restore_snapshot_def
    by (intro inside.rules) (auto split: recovery_act.split
      intro!: inside.rules confined_atomic_write own journal intro: confined_unseen silent_steps simp: live_paths)
qed

lemma recover_entry_triple:
  assumes "reads_back c" "\<not> is_staging c x"
  shows "triple (underway c token g env config False) (underway c token g env config False) (underway c token g env config b)
    (recover_generation c production token (p_backup_root production @ [x]))
    (\<lambda>_. underway c token g env config (b \<or> x = show_uuid g))"
proof (cases "x = show_uuid g")
  case True
  then have "p_backup_root production @ [x] = backup g" by (simp add: backup_path_def)
  moreover have "triple (\<lambda>s. safe c token g env config s \<and> others_settled c g s) (\<lambda>s. safe c token g env config s \<and> others_settled c g s)
      (\<lambda>s. safe c token g env config s \<and> others_settled c g s) (recover_generation c production token (backup g))
      (\<lambda>_ s. (safe c token g env config s \<and> settled c token g env config s) \<and> others_settled c g s)"
    by (rule triple_others [OF recover_own_triple [OF assms(1)] recover_confined])
  ultimately show ?thesis using True by (auto simp: underway_def elim!: triple_mono)
next
  case False
  let ?P = "\<lambda>s. safe c token g env config s \<and> (b \<longrightarrow> settled c token g env config s)"
  have "steady ?P" using steady_safe steady_settled unfolding steady_def by blast
  from recover_other_triple [OF False assms(2) this]
  show ?thesis by (rule triple_mono) (use False in \<open>auto simp: underway_def\<close>)
qed

lemma collect_triple:
  assumes "reads_back c"
  shows "\<forall>x \<in> set xs. \<not> is_staging c x \<Longrightarrow>
    triple (underway c token g env config False) (underway c token g env config False) (underway c token g env config b)
      (collect (recover_generation c production token) (map (\<lambda>x. p_backup_root production @ [x]) xs))
      (\<lambda>_. underway c token g env config (b \<or> show_uuid g \<in> set xs))"
proof (induction xs arbitrary: b)
  case Nil
  show ?case by (simp add: triple_def)
next
  case (Cons x xs)
  let ?E = "underway c token g env config False"
  have "triple ?E ?E (underway c token g env config (b \<or> x = show_uuid g))
      (chain (collect (recover_generation c production token) (map (\<lambda>x. p_backup_root production @ [x]) xs)) (\<lambda>ys. return (y # ys)))
      (\<lambda>_. underway c token g env config (b \<or> show_uuid g \<in> set (x # xs)))" for y
    by (rule triple_chain [OF Cons.IH]) (use Cons.prems in \<open>auto simp: triple_def eq_commute [of x]\<close>)
  with Cons.prems show ?case by (auto intro: triple_chain [OF recover_entry_triple [OF assms]])
qed

lemma ensure_existing:
  assumes "exists_at d s" "\<And>s'. unseen s s' \<Longrightarrow> Q () s' \<and> E s' \<and> K s'"
  shows "ends (ensure_root_directory c d) s Q E K"
proof -
  have "ends (validate_existing_root_directory c d) s (\<lambda>_. Q ()) E K"
    by (rule always_ends [where R = unseen]) (use assms(2) in \<open>auto intro: silent_steps\<close>)
  then show ?thesis using assms(1) by (simp add: ensure_root_directory_def)
qed

lemma recover_triple:
  assumes "reads_back c"
  shows "triple (underway c token g env config False) (underway c token g env config False) (underway c token g env config False)
    (recover_incomplete_cutovers c production token) (\<lambda>_. underway c token g env config True)"
  unfolding triple_def
proof (intro allI impI)
  let ?E = "underway c token g env config False" and ?d = "p_backup_root production"
  fix s assume s: "?E s"
  have absent: "underway c token g env config True s'" if "?E s'" "view s' (backup g) = None" for s'
  proof -
    have "\<not> backed_up c g env config s'" using that(2) by (simp add: backed_up_def)
    then have "settled c token g env config s'" using that(1) unfolding underway_def safe_def recoverable_def settled_def by blast
    with that(1) show ?thesis by (simp add: underway_def)
  qed
  have root: "underway c token g env config True s" if "\<not> exists_at ?d s"
  proof -
    have "\<not> backed_up c g env config s"
      using that by (auto simp: backed_up_def exists_at_def view_def is_some_and_iff real_directory_def)
    then have "settled c token g env config s" using s unfolding underway_def safe_def recoverable_def settled_def by blast
    with s show ?thesis by (simp add: underway_def)
  qed
  have listed: "triple ?E ?E ?E (read_dir ?d) (\<lambda>names s'. underway c token g env config (show_uuid g \<notin> set names) s')"
    unfolding triple_def read_dir_def
  proof (intro allI impI ends_reading, goal_cases)
    case (1 s s1)
    then show ?case using steady_underway unfolding steady_def unseen_def by blast
  next
    case (2 s names s1)
    have e: "?E s1" using 2(1-3) steady_underway unfolding steady_def unseen_def by blast
    have "view s1 (backup g) = None" if "show_uuid g \<notin> set names"
    proof (rule ccontr)
      assume "view s1 (backup g) \<noteq> None"
      then have "node_at s1 (?d @ [show_uuid g]) \<noteq> None" by (simp add: view_def backup_path_def split: if_splits)
      then have "?d @ [show_uuid g] \<in> set (map fst (mc_files s1))" by (simp add: node_at_def map_of_eq_None_iff)
      then have "show_uuid g \<in> set (children ?d s1)" by (force simp: children_def)
      with that 2(5) show False by (auto split: if_splits)
    qed
    then show ?case using e absent by (cases "show_uuid g \<in> set names") auto
  qed
  have rest: "triple ?E ?E (underway c token g env config (show_uuid g \<notin> set names))
      (chain (survey_backups c ?d names) (\<lambda>backups. chain (collect (recover_generation c production token) (sort backups))
        (\<lambda>runs. return (List.map_filter id runs)))) (\<lambda>_. underway c token g env config True)" for names
  proof (rule triple_facts [OF survey_triple], rule triple_chain)
    fix bs assume b: "set bs = (\<lambda>x. ?d @ [x]) ` {x \<in> set names. \<not> is_staging c x}"
    define xs where "xs = map last (sort bs)"
    have bs: "sort bs = map (\<lambda>x. ?d @ [x]) xs" unfolding xs_def map_map comp_def
      by (rule map_idI [symmetric]) (auto simp: b)
    have xs: "set xs = {x \<in> set names. \<not> is_staging c x}" by (simp add: xs_def b image_image)
    show "triple ?E ?E (underway c token g env config (show_uuid g \<notin> set names))
        (collect (recover_generation c production token) (sort bs)) (\<lambda>_. underway c token g env config True)"
      unfolding bs
      by (rule triple_mono [OF collect_triple [OF assms, of xs]]) (use xs own_not_staging in auto)
  qed (simp add: triple_def)
  have work: "ends (chain (read_dir ?d) (\<lambda>names. chain (survey_backups c ?d names) (\<lambda>backups.
      chain (collect (recover_generation c production token) (sort backups)) (\<lambda>runs. return (List.map_filter id runs))))) s'
      (\<lambda>_. underway c token g env config True) ?E ?E" if "?E s'" for s'
    using triple_chain [OF listed rest] that by (simp add: triple_def)
  show "ends (recover_incomplete_cutovers c production token) s (\<lambda>_. underway c token g env config True) ?E ?E"
  proof (cases "exists_at ?d s")
    case True
    have "ends (ensure_root_directory c ?d) s (\<lambda>_ s'. ends (chain (read_dir ?d) (\<lambda>names. chain (survey_backups c ?d names) (\<lambda>backups.
      chain (collect (recover_generation c production token) (sort backups)) (\<lambda>runs. return (List.map_filter id runs))))) s'
      (\<lambda>_. underway c token g env config True) ?E ?E) ?E ?E"
      by (rule ensure_existing [OF True]) (use s steady_underway work in \<open>auto simp: steady_def\<close>)
    with True show ?thesis by (simp add: recover_incomplete_cutovers_def del: ends_chain) simp
  next
    case False
    with root show ?thesis by (simp add: recover_incomplete_cutovers_def)
  qed
qed

end
