(* ===== verification/Uuid_Text.thy ===== *)
theory Uuid_Text
  imports Http
begin

text \<open>
  A reader of printed identifiers and of quoted texts, for the demonstrations that need a library
  that reads back what it prints.
\<close>

definition digit_of :: "char \<Rightarrow> nat" where
  "digit_of x = (if code x \<le> code (CHR ''9'') then code x - code (CHR ''0'') else code x - code (CHR ''a'') + 10)"

fun unhex :: "str \<Rightarrow> bytes option" where
  "unhex [] = Some []"
| "unhex [x] = None"
| "unhex (x # y # xs) = map_option (\<lambda>u. char_of (digit_of x * 16 + digit_of y) # u) (unhex xs)"

definition demo_parse_uuid :: "str \<Rightarrow> uuid option" where
  "demo_parse_uuid t = unhex (filter (\<lambda>x. x \<noteq> CHR ''-'') t)"

fun quoted :: "str \<Rightarrow> bytes" where
  "quoted [] = ''.''"
| "quoted (x # xs) = CHR ''+'' # x # quoted xs"

fun unquoted :: "bytes \<Rightarrow> (str \<times> bytes) option" where
  "unquoted (x # xs) =
     (if x = CHR ''.'' then Some ([], xs)
      else case xs of [] \<Rightarrow> None | y # ys \<Rightarrow> map_option (\<lambda>(t, r). (y # t, r)) (unquoted ys))"
| "unquoted [] = None"

lemma digits: "n < 16 \<Longrightarrow> digit_of (hex_digit n) = n \<and> hex_digit n \<noteq> CHR ''-''"
proof -
  assume n: "n < 16"
  have d: "code (hex_digit n) = (if n < 10 then 48 + n else 87 + n)" using n by (simp add: hex_digit_def code_def)
  moreover have "code (CHR ''-'') = 45" "code (CHR ''0'') = 48" "code (CHR ''9'') = 57" "code (CHR ''a'') = 97"
    by (simp_all add: code_def)
  ultimately show ?thesis by (auto simp: digit_of_def split: if_splits)
qed

lemma digits_of_byte:
  "digit_of (hex_digit (code b div 16)) = code b div 16" "digit_of (hex_digit (code b mod 16)) = code b mod 16"
  "hex_digit (code b div 16) \<noteq> CHR ''-''" "hex_digit (code b mod 16) \<noteq> CHR ''-''"
  using digits [of "code b div 16"] digits [of "code b mod 16"] by (simp_all add: less_mult_imp_div_less)

lemma unhex_to_hex: "unhex (to_hex u) = Some u"
proof (induction u)
  case (Cons b u)
  have "char_of (code b div 16 * 16 + code b mod 16) = b" unfolding div_mult_mod_eq by (simp add: code_def)
  with Cons show ?case by (simp add: to_hex_Cons hex2_def digits_of_byte)
qed (simp add: to_hex_def)

lemma demo_uuids: "demo_parse_uuid (show_uuid u) = Some u"
proof -
  let ?f = "filter (\<lambda>x. x \<noteq> CHR ''-'')"
  have "?f (to_hex u) = to_hex u" for u
    by (induction u) (simp_all add: to_hex_Cons hex2_def digits_of_byte, simp add: to_hex_def)
  then have plain: "x \<noteq> CHR ''-''" if "x \<in> set (to_hex u)" for x using that by (metis (mono_tags, lifting) filter_id_conv)
  have "?f xs = xs" if "set xs \<subseteq> set (to_hex u)" for xs
    using that plain by (intro filter_True) auto
  then have "?f (show_uuid u) = take 8 (to_hex u) @ take 4 (drop 8 (to_hex u)) @ take 4 (drop 12 (to_hex u)) @
      take 4 (drop 16 (to_hex u)) @ drop 20 (to_hex u)"
    unfolding show_uuid_def Let_def
    by (simp add: set_take_subset set_drop_subset subset_trans [OF set_take_subset set_drop_subset])
  also have "\<dots> = to_hex u"
    using append_take_drop_id [of 16 "to_hex u"] append_take_drop_id [of 12 "to_hex u"] append_take_drop_id [of 8 "to_hex u"]
    by (smt (verit) add_numeral_left append.assoc append_take_drop_id arith_simps drop_drop)
  finally show ?thesis by (simp add: demo_parse_uuid_def unhex_to_hex)
qed

lemma unquoted_quoted: "unquoted (quoted t @ r) = Some (t, r)"
  by (induction t) auto

end
