(* ===== verification/Cutover_Props.thy ===== *)
theory Cutover_Props
  imports Cutover_Recover Uuid_Text
begin

text \<open>The properties of the cutover as a whole.\<close>

section \<open>An apply leaves the other generations alone\<close>

lemma utf8_ascii: "list_all (\<lambda>x. code x < 128) s \<Longrightarrow> utf8_segments s \<noteq> None"
  by (induction s) (auto simp: utf8_segments_Cons)

lemma stage_is_staging:
  assumes "reads_back c"
  shows "is_staging c (''.staging-'' @ show_uuid g)"
proof -
  have "code x < 128" if "x \<in> set (show_uuid g)" for x
    using show_uuid_chars [OF that] by (auto simp: is_ascii_hexdigit_def is_ascii_digit_def code_def)
  then have "list_all (\<lambda>x. code x < 128) (''.staging-'' @ show_uuid g)" by (simp add: list_all_iff code_def)
  from utf8_ascii [OF this] assms show ?thesis
    by (simp add: is_staging_def utf8_name_def staging_generation_def strip_prefix_def starts_with_def reads_back_def)
qed

lemma inside_yields:
  assumes "always (confined W) m" "yields m Q" "\<And>x. Q x \<Longrightarrow> always (confined W) (f x)"
  shows "always (confined W) (chain m f)"
  unfolding always_iff ends_chain
proof (intro allI)
  fix s
  have "ends m s (\<lambda>x s'. confined W s s' \<and> Q x) (confined W s) (confined W s)"
    using ends_conj [of m s "\<lambda>_. confined W s" "confined W s" "confined W s" "\<lambda>x _. Q x" "\<lambda>_. True" "\<lambda>_. True"] assms(1,2)
    unfolding always_iff yields_def by simp
  then show "ends m s (\<lambda>x s'. ends (f x) s' (\<lambda>_. confined W s) (confined W s) (confined W s)) (confined W s) (confined W s)"
    by (rule ends_mono) (auto intro: always_ends [OF assms(3)] inside.trans)
qed

lemma confined_rename: "a \<in> W \<Longrightarrow> beneath a \<subseteq> W \<Longrightarrow> beneath b \<subseteq> W \<Longrightarrow> always (confined W) (rename_dir a b)"
  unfolding rename_dir_def
proof (rule confined_system_call)
  fix e s x s' assume w: "beneath a \<subseteq> W" "beneath b \<subseteq> W"
    and r: "(if \<not> is_directory a s \<or> \<not> is_directory (butlast b) s \<or> node_at s b \<noteq> None then None
      else Some ((), s\<lparr>mc_files := map (\<lambda>(p, n). (moved a b p, n)) (mc_files s)\<rparr>)) = Some (x, s')"
  have "view s' q = view s q" if "q \<notin> W" for q
  proof -
    have "\<not> below a q" "\<not> below b q" using w that by (auto simp: beneath_def)
    from node_at_unmoved [OF this] show ?thesis using r by (auto simp: view_def node_at_def split: if_splits)
  qed
  moreover have "follows s s'" using r by (auto simp: follows_def split: if_splits)
  ultimately show "confined W s s'" by (simp add: confined_def)
qed

lemma snapshot_returns: "yields (take_snapshot c ps g label) (\<lambda>b. b = backup_path ps g)"
  unfolding take_snapshot_def Let_def by (intro yields_then) (auto intro: yields_basic yields_then)

lemma own_paths:
  "p_env production \<in> own_files c g" "p_config production \<in> own_files c g" "backup g @ [x] \<in> own_files c g"
  "receipt_file g \<in> own_files c g" "p_backup_root production \<in> own_files c g" "p_receipt_root production \<in> own_files c g"
  by (simp_all add: own_files_def files_of_def)

lemma own_stage:
  assumes "reads_back c"
  shows "stage g \<in> own_files c g" "stage g @ x \<in> own_files c g" "beneath (stage g) \<subseteq> own_files c g" "beneath (backup g) \<subseteq> own_files c g"
  using stage_is_staging [OF assms, of g] by (auto simp: own_files_def stage_path_def beneath_def below_def starts_with_iff)

lemma confined_journal: "d @ [''journal.json''] \<in> W \<Longrightarrow> always (confined W) (write_journal c d st label cl)"
  unfolding write_journal_def
  by (intro inside.rules confined_atomic_write) (auto intro: confined_unseen silent_steps)

lemma confined_live:
  "always (confined (own_files c g)) (write_candidate c production e f)"
  "always (confined (own_files c g)) (restore_snapshot c production b)"
  "always (confined (own_files c g)) (rollback_after_failure c production b)"
  unfolding write_candidate_def restore_snapshot_def rollback_after_failure_def
  by (intro inside.rules confined_atomic_write own_paths; auto intro: confined_unseen silent_steps simp: live_paths)+

lemma confined_snapshot:
  assumes "reads_back c"
  shows "always (confined (own_files c g)) (take_snapshot c production g label)"
  unfolding take_snapshot_def fill_stage_def copy_secure_def create_secure_directory_def Let_def
  by (intro inside.rules confined_ensure own_paths confined_files own_stage [OF assms] confined_atomic_write confined_journal
      confined_rename confined_mono [OF confined_cleanup_stage]) (auto intro: confined_unseen silent_steps)

lemma apply_confined:
  assumes "reads_back c"
  shows "always (confined (own_files c g)) (apply_generation c production token run_id started g)"
proof -
  let ?A = "\<lambda>m. always (confined (own_files c g)) m"
  have pre: "?A (precommit c production token run_id g started (backup g) issue)" for issue
    unfolding precommit_def write_receipt_def Let_def
    by (intro inside.rules confined_ensure own_paths confined_live confined_journal confined_atomic_write)
      (auto intro: confined_unseen silent_steps simp: live_paths own_paths)
  have "?A (abandon_candidate c production token run_id (backup g) label i)" for label i
    unfolding abandon_candidate_def
    by (intro inside.rules own_paths confined_live confined_journal) (auto intro: confined_unseen silent_steps)
  moreover have "?A (finish_commit c token (backup g) label r)" for label r
    unfolding finish_commit_def
    by (intro inside.rules own_paths confined_journal) (auto intro: confined_unseen silent_steps)
  ultimately have later: "?A (case snap of
      None \<Rightarrow> before (attempt (report_failed_hermes_run c token run_id)) (return Pre_commit)
    | Some b \<Rightarrow> chain (attempt (issue_or_rotate_client c token (candidate_label g))) (\<lambda>issue.
        case issue of
          None \<Rightarrow> before (attempt (rollback_after_failure c production b))
            (before (attempt (report_failed_hermes_run c token run_id)) (return Pre_commit))
        | Some issue \<Rightarrow> chain (attempt (precommit c production token run_id g started b issue)) (\<lambda>result.
            case result of
              None \<Rightarrow> abandon_candidate c production token run_id b (candidate_label g) (cl_id (fst issue))
            | Some receipt \<Rightarrow> finish_commit c token b (candidate_label g) receipt)))"
    if "is_none_or (\<lambda>b. b = backup g) snap" for snap
    using that pre by (cases snap) (auto intro!: inside.rules confined_live intro: confined_unseen silent_steps)
  show ?thesis
    unfolding apply_generation_def Let_def
    by (rule inside_yields [OF inside.attempt [OF confined_snapshot [OF assms]] yields_attempt [OF snapshot_returns] later])
qed

section \<open>All or nothing\<close>

text \<open>The tool is started again and again, each time with what happens to it then.\<close>

definition restarted :: "event list \<Rightarrow> machine \<Rightarrow> machine" where
  "restarted es s = s\<lparr>mc_events := es\<rparr>"

fun recoveries :: "tool \<Rightarrow> str \<Rightarrow> event list list \<Rightarrow> machine \<Rightarrow> machine" where
  "recoveries c token [] s = s"
| "recoveries c token (es # ess) s =
     recoveries c token ess (snd (recover_incomplete_cutovers c production token (restarted es s)))"

lemma apply_confined_whole:
  assumes "reads_back c"
  shows "confined (own_files c (drawn s)) s (snd (apply_cutover c production token run_id s))"
proof -
  obtain e1 s1 where 1: "take_event s = (e1, s1)" by (cases "take_event s")
  obtain e2 s2 where 2: "take_event s1 = (e2, s2)" by (cases "take_event s1")
  let ?W = "own_files c (drawn s)"
  have "follows s s2" using take_event_facts(3) [OF 1] take_event_facts(3) [OF 2] by (rule follows_trans)
  moreover have "view s2 = view s" using take_event_facts(1) [OF 1] take_event_facts(1) [OF 2] by (intro view_files) simp
  ultimately have "confined ?W s s2" by (simp add: confined_def)
  moreover have "confined ?W s2 (snd (apply_generation c production token run_id (ev_time e1) (drawn s) s2))"
    using apply_confined [OF assms] by (simp add: always_def)
  ultimately have "confined ?W s (snd (apply_generation c production token run_id (ev_time e1) (drawn s) s2))"
    by (rule inside.trans)
  then show ?thesis by (simp add: apply_cutover_def chain_def utc_now_def new_uuid_def drawn_def 1 2)
qed

lemma underway_restarted:
  assumes "underway c token g env config b s" "list_all ev_synced es"
  shows "underway c token g env config b (restarted es s)"
proof -
  have v: "view (restarted es s) = view s" by (intro view_files) (simp add: restarted_def)
  show ?thesis
    using assms unfolding underway_def safe_def recoverable_def settled_def others_settled_def phase_def committed_def
      candidate_live_def undone_def live_def unpublished_def backed_up_def journal_at_def receipt_at_def bytes_at_def
      revoked_def honest_def v
    by (simp add: restarted_def)
qed

lemma underway_recoveries:
  assumes "reads_back c"
  shows "underway c token g env config False s \<Longrightarrow> list_all (list_all ev_synced) ess \<Longrightarrow>
    underway c token g env config False (recoveries c token ess s)"
proof (induction ess arbitrary: s)
  case (Cons es ess)
  let ?r = "restarted es s"
  have "underway c token g env config False ?r" using Cons.prems by (simp add: underway_restarted)
  with recover_triple [OF assms] have
    "ends (recover_incomplete_cutovers c production token) ?r (\<lambda>_. underway c token g env config True)
      (underway c token g env config False) (underway c token g env config False)"
    unfolding triple_def by blast
  then have "underway c token g env config False (snd (recover_incomplete_cutovers c production token ?r))"
    by (auto simp: ends_def dest: underway_weaken split: prod.splits outcome.splits)
  with Cons show ?case by simp
qed simp


section \<open>A run\<close>

text \<open>
  A library that reads back what it prints: objects of texts and nulls in a format of its own.
\<close>

fun show_fields :: "(str \<times> json) list \<Rightarrow> bytes" where
  "show_fields [] = []"
| "show_fields ((k, JString t) # fs) = quoted k @ ''s'' @ quoted t @ show_fields fs"
| "show_fields ((k, _) # fs) = quoted k @ ''n'' @ show_fields fs"

definition demo_show :: "json \<Rightarrow> bytes" where
  "demo_show v = show_fields (case v of JObject fs \<Rightarrow> fs | _ \<Rightarrow> [])"

primrec parse_fields :: "nat \<Rightarrow> bytes \<Rightarrow> (str \<times> json) list option" where
  "parse_fields 0 b = None"
| "parse_fields (Suc n) b =
     (if b = [] then Some []
      else Option.bind (unquoted b) (\<lambda>(k, r).
        case r of
          CHR ''s'' # r \<Rightarrow> Option.bind (unquoted r) (\<lambda>(t, r). map_option (Cons (k, JString t)) (parse_fields n r))
        | CHR ''n'' # r \<Rightarrow> map_option (Cons (k, JNull)) (parse_fields n r)
        | _ \<Rightarrow> None))"

definition demo_parse :: "bytes \<Rightarrow> json option" where
  "demo_parse b =
     map_option JObject (parse_fields (Suc (length b)) b)"

definition demo_tool :: tool where
  "demo_tool = \<lparr>tl_parse_uuid = demo_parse_uuid, tl_parse = demo_parse, tl_show = demo_show, tl_sha256 = (\<lambda>b. b),
     tl_show_time = (\<lambda>_. ''now''), tl_parse_time = (\<lambda>_. None), tl_canonical = Some, tl_masked = (\<lambda>m. m),
     tl_mountinfo = [], tl_status = [], tl_commit = [], tl_expected = None, tl_executable = []\<rparr>"

definition demo_files :: "(path \<times> node) list" where
  "demo_files =
     (let directory = \<lparr>nd_meta = new_meta True 448, nd_content = None\<rparr>
      in [(p_env production, file_of ''K=1''), (p_config production, file_of ''model:\<newline>  default: x\<newline>''),
          (HERMES_DIR, directory), (GATEWAY_DIR, directory), ([''opt''], directory)])"


definition killed_at :: "nat \<Rightarrow> event list" where
  "killed_at n = replicate n (fine\<lparr>ev_uuid := ''g''\<rparr>) @ [fine\<lparr>ev_fate := Dies\<rparr>]"

definition demo_start :: machine where
  "demo_start = \<lparr>mc_files = demo_files, mc_events = [], mc_log = []\<rparr>"

text \<open>Killed while the stage is filled, killed again while the stage is cleaned, and then left alone.\<close>

definition demo_killed :: machine where
  "demo_killed = snd (apply_cutover demo_tool production ''t'' ''r'' (restarted (killed_at 12) demo_start))"

definition demo_last :: machine where
  "demo_last = restarted [] (recoveries demo_tool ''t'' [killed_at 14] demo_killed)"

lemma demo_returns: "fst (recover_incomplete_cutovers demo_tool production ''t'' demo_last) = Return []"
  by code_simp

lemma parse_show:
  "list_all (\<lambda>(k, v). v = JNull \<or> (\<exists>t. v = JString t)) fs \<Longrightarrow> length fs < n \<Longrightarrow> parse_fields n (show_fields fs) = Some fs"
proof (induction fs arbitrary: n)
  case (Cons f fs)
  obtain k v m where "f = (k, v)" "n = Suc m" "m > length fs" using Cons.prems(2) by (cases f; cases n) auto
  moreover have "quoted k \<noteq> []" by (cases k) simp_all
  ultimately show ?case using Cons by (auto simp: unquoted_quoted)
qed (auto simp: gr0_conv_Suc)

lemma length_show: "length fs \<le> length (show_fields fs)"
  by (induction fs rule: show_fields.induct) auto

lemma demo_reads_back: "reads_back demo_tool"
proof -
  have "demo_parse (demo_show (journal_json demo_tool st label cl now)) = Some (journal_json demo_tool st label cl now)"
    for st label cl now
  proof -
    obtain fs where j: "journal_json demo_tool st label cl now = JObject fs"
      "list_all (\<lambda>(k, v). v = JNull \<or> (\<exists>t. v = JString t)) fs"
      by (simp add: journal_json_def optional_text_def split: option.splits)
    with parse_show [OF j(2), of "Suc (length (show_fields fs))"] length_show [of fs] show ?thesis
      by (simp add: demo_parse_def demo_show_def del: parse_fields.simps)
  qed
  then show ?thesis by (simp add: reads_back_def demo_tool_def demo_uuids)
qed

lemma demo_absent:
  assumes "below (p_backup_root production) q"
  shows "view (restarted es demo_start) q = None"
proof -
  obtain x where q: "q = p_backup_root production @ x" using assms by (auto simp: below_def starts_with_iff)
  show ?thesis
    by (simp add: q view_def node_at_def restarted_def demo_start_def demo_files_def Let_def production_def HERMES_DIR_def
        GATEWAY_DIR_def)
qed

lemma demo_begun: "begun ''g'' ''K=1'' ''model:\<newline>  default: x\<newline>'' (restarted (killed_at 12) demo_start)"
proof -
  have "honest (restarted (killed_at 12) demo_start)"
    by (simp add: honest_def restarted_def killed_at_def fine_def list_all_iff)
  moreover have "live ''K=1'' ''model:\<newline>  default: x\<newline>'' (restarted (killed_at 12) demo_start)"
    by (simp add: live_def bytes_at_def view_def temporary_def ends_with_iff node_at_def restarted_def demo_start_def demo_files_def
        Let_def production_def HERMES_DIR_def GATEWAY_DIR_def file_of_def)
  moreover have "view (restarted (killed_at 12) demo_start) q = None" if "q \<in> beneath (backup ''g'')" for q
    by (rule demo_absent) (use that in \<open>auto simp: beneath_def below_def starts_with_iff backup_path_def\<close>)
  ultimately show ?thesis by (simp add: begun_def)
qed

lemma demo_drawn: "drawn (restarted (killed_at 12) demo_start) = ''g''"
  by code_simp

lemma demo_others: "others_settled demo_tool ''g'' (restarted (killed_at 12) demo_start)"
proof -
  have "bytes_at (restarted (killed_at 12) demo_start) (p_backup_root production @ x) = None" for x
    unfolding bytes_at_def using demo_absent [of "p_backup_root production @ x"] by (simp add: below_def starts_with_iff)
  then show ?thesis by (simp add: others_settled_def)
qed


end
