(* ===== verification/Console_Data.thy ===== *)
theory Console_Data
  imports Store Modality "HOL-Library.Product_Lexorder" "HOL-Library.List_Lexorder" "HOL-Library.Char_ord"
begin

text \<open>
  The data of the operator console (\<open>operations/dto.rs\<close>, the row types of
  \<open>operations/admin_repository.rs\<close>): the catalogue of models, the views of the tables the console
  shows, and their JSON. \<open>chrono\<close>'s printing and reading of instants, \<open>Uuid::parse_str\<close>,
  \<open>Url::parse\<close> and Unicode's classes are parameters. Times and identifiers are compared as
  PostgreSQL compares them: instants by their order, identifiers byte by byte.
\<close>

section \<open>The console\<close>

record console =
  co_gateway :: gateway
  co_admin_token :: str
  co_public_port :: nat
  co_fresh_id :: uuid
  co_commit :: str
  co_show_time :: "time \<Rightarrow> str"
  co_parse_time :: "str \<Rightarrow> time option"
  co_parse_rfc3339 :: "str \<Rightarrow> time option"
  co_parse_uuid :: "str \<Rightarrow> uuid option"
  co_parse_url :: "str \<Rightarrow> url option"
  co_alphanumeric :: "nat \<Rightarrow> bool"
  co_probe_wav :: "bytes option"
  co_attention_text :: "str \<Rightarrow> str \<times> str \<times> str"

section \<open>Models\<close>

record model_spec =
  sp_id :: str
  sp_endpoint :: str
  sp_inputs :: "str list"
  sp_outputs :: "str list"
  sp_streaming :: bool
  sp_tools :: bool
  sp_billable :: bool

definition MODEL_SPECS :: "model_spec list" where
  "MODEL_SPECS =
     [\<lparr>sp_id = ''z-ai/glm-5.2'', sp_endpoint = ''/v1/chat/completions'',
       sp_inputs = [''text''], sp_outputs = [''text''],
       sp_streaming = True, sp_tools = True, sp_billable = False\<rparr>,
      \<lparr>sp_id = ''microsoft/phi-4-multimodal-instruct'', sp_endpoint = ''/v1/chat/completions'',
       sp_inputs = [''text'', ''image'', ''audio''], sp_outputs = [''text''],
       sp_streaming = True, sp_tools = False, sp_billable = False\<rparr>,
      \<lparr>sp_id = ''nvidia/vila'', sp_endpoint = ''/v1/nvidia/inference'',
       sp_inputs = [''text'', ''image'', ''video''], sp_outputs = [''text''],
       sp_streaming = False, sp_tools = False, sp_billable = False\<rparr>,
      \<lparr>sp_id = ''nvidia/nvclip'', sp_endpoint = ''/v1/embeddings'',
       sp_inputs = [''text'', ''image''], sp_outputs = [''embedding''],
       sp_streaming = False, sp_tools = False, sp_billable = False\<rparr>,
      \<lparr>sp_id = ''black-forest-labs/flux.1-kontext-dev'', sp_endpoint = ''/v1/images/generations'',
       sp_inputs = [''text'', ''image''], sp_outputs = [''image''],
       sp_streaming = False, sp_tools = False, sp_billable = True\<rparr>,
      \<lparr>sp_id = ''stabilityai/stable-video-diffusion'', sp_endpoint = ''/v1/videos/generations'',
       sp_inputs = [''image''], sp_outputs = [''video''],
       sp_streaming = False, sp_tools = False, sp_billable = True\<rparr>,
      \<lparr>sp_id = ''nvidia/magpie-tts-multilingual'', sp_endpoint = ''/v1/audio/speech'',
       sp_inputs = [''text''], sp_outputs = [''audio''],
       sp_streaming = False, sp_tools = False, sp_billable = False\<rparr>,
      \<lparr>sp_id = ''nvidia/parakeet-ctc-1.1b'', sp_endpoint = ''/v1/audio/transcriptions'',
       sp_inputs = [''audio''], sp_outputs = [''text''],
       sp_streaming = False, sp_tools = False, sp_billable = False\<rparr>]"

definition spec_of :: "str \<Rightarrow> model_spec option" where
  "spec_of profile = List.find (\<lambda>s. sp_id s = profile) MODEL_SPECS"

section \<open>Views\<close>

record profile_proof =
  pf_profile :: str
  pf_status :: str
  pf_verified_keys :: nat
  pf_last_verified :: "time option"
  pf_stale :: bool

record upstream_view =
  up_id :: uuid
  up_slot :: nat
  up_label :: str
  up_enabled :: bool
  up_verified :: bool
  up_retired :: bool
  up_eligible :: bool
  up_cooldown :: "time option"
  up_requests :: nat
  up_failures :: nat
  up_proofs :: "profile_proof list"

record client_view =
  cl_id :: uuid
  cl_label :: str
  cl_scopes :: "str list"
  cl_active :: bool
  cl_prefix :: str
  cl_expires_at :: "time option"
  cl_model_allowlist :: "str list option"
  cl_rpm_limit :: "nat option"
  cl_max_concurrency :: "nat option"
  cl_request_limit_day :: "nat option"
  cl_requests :: nat
  cl_last_used_at :: "time option"
  cl_created_at :: time
  cl_revoked_at :: "time option"

record attempt_view =
  av_no :: nat
  av_upstream :: uuid
  av_slot :: nat
  av_label :: str
  av_outcome :: str
  av_status :: "nat option"
  av_error :: "str option"
  av_latency :: "nat option"
  av_ttfb :: "nat option"
  av_response_started :: bool
  av_cooldown :: "time option"
  av_bytes :: "nat option"
  av_started_at :: time
  av_finished_at :: "time option"

record request_view =
  vr_request_id :: uuid
  vr_client :: "uuid option"
  vr_endpoint :: str
  vr_profile :: str
  vr_modality :: str
  vr_stream :: bool
  vr_outcome :: str
  vr_status :: "nat option"
  vr_error :: "str option"
  vr_duration :: "nat option"
  vr_ttfb :: "nat option"
  vr_failover :: nat
  vr_started_at :: time
  vr_finished_at :: "time option"
  vr_attempts :: "attempt_view list option"

record aggregate_view =
  ag_total :: nat
  ag_succeeded :: nat
  ag_failed :: nat
  ag_cancelled :: nat
  ag_active :: nat
  ag_average :: "nat option"

record model_view =
  mv_spec :: model_spec
  mv_advertised :: bool
  mv_status :: str
  mv_verified_keys :: nat
  mv_available :: bool
  mv_age :: "nat option"
  mv_proofs :: "profile_proof list"

record incident_view =
  iv_row :: incident_row
  iv_updates :: "incident_update_row list"

record qa_view =
  qv_run :: qa_run_row
  qv_cases :: "qa_case_row list"

record completion_view =
  qn_suite :: str
  qn_passed :: bool
  qn_passed_run :: "qa_view option"
  qn_latest_run :: "qa_view option"

record policy_view =
  pv_version :: nat
  pv_active :: bool
  pv_statuses :: "nat list"
  pv_cooldown :: nat
  pv_first_frame_only :: bool
  pv_generation_retry :: bool

definition default_policy_view :: policy_view where
  "default_policy_view =
     \<lparr>pv_version = 1, pv_active = True, pv_statuses = [402, 408, 429, 500, 502, 503, 504],
      pv_cooldown = 2, pv_first_frame_only = True, pv_generation_retry = False\<rparr>"

definition default_settings :: settings_row where
  "default_settings =
     \<lparr>se_freshness = 604800, se_request_retention = 30, se_metric_retention = 90,
      se_public_incidents = True\<rparr>"

record attention =
  an_severity :: str
  an_code :: str
  an_href :: str

section \<open>JSON\<close>

definition opt :: "('a \<Rightarrow> json) \<Rightarrow> 'a option \<Rightarrow> json" where
  "opt f x = (case x of None \<Rightarrow> JNull | Some y \<Rightarrow> f y)"

definition strs :: "str list \<Rightarrow> json" where
  "strs xs = JArray (map JString xs)"

definition uuid_json :: "uuid \<Rightarrow> json" where
  "uuid_json i = JString (show_uuid i)"

definition time_json :: "console \<Rightarrow> time \<Rightarrow> json" where
  "time_json c t = JString (co_show_time c t)"

definition snapshot_json :: "console \<Rightarrow> time \<Rightarrow> json" where
  "snapshot_json c now =
     JObject [(''observed_at'', time_json c now), (''generated_at'', time_json c now),
              (''stale'', JBool False)]"

definition proof_json :: "console \<Rightarrow> profile_proof \<Rightarrow> json" where
  "proof_json c p =
     JObject [(''profile_id'', JString (pf_profile p)), (''status'', JString (pf_status p)),
              (''verified_key_count'', num (pf_verified_keys p)),
              (''last_verified_at'', opt (time_json c) (pf_last_verified p)),
              (''stale'', JBool (pf_stale p))]"

definition upstream_json :: "console \<Rightarrow> upstream_view \<Rightarrow> json" where
  "upstream_json c u =
     JObject [(''id'', uuid_json (up_id u)), (''slot_no'', num (up_slot u)),
              (''label'', JString (up_label u)), (''enabled'', JBool (up_enabled u)),
              (''verified'', JBool (up_verified u)), (''retired'', JBool (up_retired u)),
              (''eligible_now'', JBool (up_eligible u)),
              (''cooldown_until'', opt (time_json c) (up_cooldown u)),
              (''request_count'', num (up_requests u)), (''failure_count'', num (up_failures u)),
              (''proofs'', JArray (map (proof_json c) (up_proofs u)))]"

definition client_json :: "console \<Rightarrow> client_view \<Rightarrow> json" where
  "client_json c v =
     JObject [(''id'', uuid_json (cl_id v)), (''label'', JString (cl_label v)),
              (''scopes'', strs (cl_scopes v)), (''active'', JBool (cl_active v)),
              (''prefix'', JString (cl_prefix v)),
              (''expires_at'', opt (time_json c) (cl_expires_at v)),
              (''model_allowlist'', opt strs (cl_model_allowlist v)),
              (''rpm_limit'', opt num (cl_rpm_limit v)),
              (''max_concurrency'', opt num (cl_max_concurrency v)),
              (''request_limit_day'', opt num (cl_request_limit_day v)),
              (''request_count'', num (cl_requests v)),
              (''last_used_at'', opt (time_json c) (cl_last_used_at v)),
              (''created_at'', time_json c (cl_created_at v)),
              (''revoked_at'', opt (time_json c) (cl_revoked_at v))]"

definition attempt_json :: "console \<Rightarrow> attempt_view \<Rightarrow> json" where
  "attempt_json c a =
     JObject [(''attempt_no'', num (av_no a)), (''upstream_id'', uuid_json (av_upstream a)),
              (''upstream_slot_no'', num (av_slot a)), (''upstream_label'', JString (av_label a)),
              (''outcome'', JString (av_outcome a)), (''status_code'', opt num (av_status a)),
              (''error_class'', opt JString (av_error a)), (''latency_ms'', opt num (av_latency a)),
              (''ttfb_ms'', opt num (av_ttfb a)), (''response_started'', JBool (av_response_started a)),
              (''cooldown_applied_until'', opt (time_json c) (av_cooldown a)),
              (''bytes_out'', opt num (av_bytes a)), (''started_at'', time_json c (av_started_at a)),
              (''finished_at'', opt (time_json c) (av_finished_at a))]"

definition request_view_json :: "console \<Rightarrow> request_view \<Rightarrow> json" where
  "request_view_json c r =
     JObject ([(''request_id'', uuid_json (vr_request_id r)), (''client_id'', opt uuid_json (vr_client r)),
               (''endpoint'', JString (vr_endpoint r)), (''profile_id'', JString (vr_profile r)),
               (''modality'', JString (vr_modality r)), (''stream'', JBool (vr_stream r)),
               (''outcome'', JString (vr_outcome r)), (''status_code'', opt num (vr_status r)),
               (''error_class'', opt JString (vr_error r)),
               (''duration_ms'', opt num (vr_duration r)), (''ttfb_ms'', opt num (vr_ttfb r)),
               (''failover_count'', num (vr_failover r)), (''started_at'', time_json c (vr_started_at r)),
               (''finished_at'', opt (time_json c) (vr_finished_at r))]
              @ (case vr_attempts r of None \<Rightarrow> []
                 | Some xs \<Rightarrow> [(''attempts'', JArray (map (attempt_json c) xs))]))"

definition aggregate_json :: "aggregate_view \<Rightarrow> json" where
  "aggregate_json a =
     JObject [(''total'', num (ag_total a)), (''succeeded'', num (ag_succeeded a)),
              (''failed'', num (ag_failed a)), (''cancelled'', num (ag_cancelled a)),
              (''active'', num (ag_active a)), (''average_duration_ms'', opt num (ag_average a))]"

definition probe_json :: "console \<Rightarrow> probe_row \<Rightarrow> json" where
  "probe_json c p =
     JObject [(''id'', uuid_json (pb_id p)), (''kind'', JString (pb_kind p)),
              (''upstream_id'', uuid_json (pb_upstream p)), (''profile_id'', opt JString (pb_profile p)),
              (''status'', JString (pb_status p)), (''status_code'', opt num (pb_status_code p)),
              (''latency_ms'', num (pb_latency p)), (''error_class'', opt JString (pb_error p)),
              (''billable'', JBool (pb_billable p)), (''requested_by'', JString (pb_requested_by p)),
              (''created_at'', time_json c (pb_created_at p)),
              (''started_at'', opt (time_json c) (pb_started_at p)),
              (''finished_at'', opt (time_json c) (pb_finished_at p))]"

definition model_json :: "console \<Rightarrow> model_view \<Rightarrow> json" where
  "model_json c m =
     JObject [(''id'', JString (sp_id (mv_spec m))), (''endpoint'', JString (sp_endpoint (mv_spec m))),
              (''input_modalities'', strs (sp_inputs (mv_spec m))),
              (''output_modalities'', strs (sp_outputs (mv_spec m))),
              (''streaming'', JBool (sp_streaming (mv_spec m))),
              (''tool_calling'', JBool (sp_tools (mv_spec m))),
              (''advertised'', JBool (mv_advertised m)), (''proof_status'', JString (mv_status m)),
              (''verified_key_count'', num (mv_verified_keys m)),
              (''available_now'', JBool (mv_available m)),
              (''verified_age_seconds'', opt num (mv_age m)),
              (''proofs'', JArray (map (proof_json c) (mv_proofs m)))]"

definition incident_json :: "console \<Rightarrow> incident_view \<Rightarrow> json" where
  "incident_json c v =
     (let r = iv_row v in
      JObject [(''id'', uuid_json (ic_id r)), (''slug'', JString (ic_slug r)),
               (''title'', JString (ic_title r)), (''status'', JString (ic_status r)),
               (''severity'', JString (ic_severity r)), (''public'', JBool (ic_public r)),
               (''started_at'', time_json c (ic_started_at r)),
               (''resolved_at'', opt (time_json c) (ic_resolved_at r)),
               (''created_at'', time_json c (ic_created_at r)),
               (''updated_at'', time_json c (ic_updated_at r)),
               (''updates'', JArray (map (\<lambda>u. JObject
                  [(''id'', uuid_json (iu_id u)), (''status'', JString (iu_status u)),
                   (''public_message'', JString (iu_message u)),
                   (''published_at'', time_json c (iu_published_at u))]) (iv_updates v)))])"

definition audit_json :: "console \<Rightarrow> audit_event \<Rightarrow> json" where
  "audit_json c e =
     JObject [(''id'', uuid_json (ae_id e)), (''action'', JString (ae_action e)),
              (''resource_kind'', JString (ae_resource_kind e)),
              (''resource_id'', opt uuid_json (ae_resource_id e)),
              (''actor_kind'', JString (ae_actor e)), (''request_id'', opt uuid_json (ae_request_id e)),
              (''outcome'', JString (ae_outcome e)), (''detail'', ae_detail e),
              (''created_at'', time_json c (ae_created_at e))]"

definition qa_json :: "console \<Rightarrow> qa_view \<Rightarrow> json" where
  "qa_json c v =
     (let r = qv_run v in
      JObject [(''id'', uuid_json (qr_id r)), (''suite'', JString (qr_suite r)),
               (''live'', JBool (qr_live r)), (''provider_identity'', JString (qr_provider r)),
               (''deployment_commit'', JString (qr_commit r)), (''status'', JString (qr_status r)),
               (''created_at'', time_json c (qr_created_at r)),
               (''started_at'', opt (time_json c) (qr_started_at r)),
               (''finished_at'', opt (time_json c) (qr_finished_at r)),
               (''cases'', JArray (map (\<lambda>k. JObject
                  [(''id'', uuid_json (qc_id k)), (''name'', JString (qc_name k)),
                   (''status'', JString (qc_status k)), (''evidence'', qc_evidence k),
                   (''started_at'', opt (time_json c) (qc_started_at k)),
                   (''finished_at'', opt (time_json c) (qc_finished_at k))]) (qv_cases v)))])"

definition completion_json :: "console \<Rightarrow> completion_view \<Rightarrow> json" where
  "completion_json c q =
     JObject [(''suite'', JString (qn_suite q)), (''passed'', JBool (qn_passed q)),
              (''passed_run'', opt (qa_json c) (qn_passed_run q)),
              (''latest_run'', opt (qa_json c) (qn_latest_run q))]"

definition policy_json :: "policy_view \<Rightarrow> json" where
  "policy_json p =
     JObject [(''version'', num (pv_version p)), (''active'', JBool (pv_active p)),
              (''retryable_statuses'', JArray (map num (pv_statuses p))),
              (''default_cooldown_seconds'', num (pv_cooldown p)),
              (''stream_failover_before_first_frame_only'', JBool (pv_first_frame_only p)),
              (''generation_retry'', JBool (pv_generation_retry p))]"

definition settings_json :: "settings_row \<Rightarrow> json" where
  "settings_json s =
     JObject [(''proof_freshness_seconds'', num (se_freshness s)),
              (''request_retention_days'', num (se_request_retention s)),
              (''metric_retention_days'', num (se_metric_retention s)),
              (''public_incidents_enabled'', JBool (se_public_incidents s))]"

definition attention_json :: "console \<Rightarrow> attention \<Rightarrow> json" where
  "attention_json c a =
     (case co_attention_text c (an_code a) of (title, reason, label) \<Rightarrow>
        JObject [(''severity'', JString (an_severity a)), (''code'', JString (an_code a)),
                 (''title'', JString title), (''reason'', JString reason),
                 (''action'', JObject [(''label'', JString label), (''href'', JString (an_href a))])])"

text \<open>\<open>AuditMutation\<close> and \<open>Page\<close>.\<close>

definition audited_json :: "json \<Rightarrow> uuid \<Rightarrow> json" where
  "audited_json item audit = JObject [(''item'', item), (''audit_event_id'', uuid_json audit)]"

definition page_json :: "console \<Rightarrow> time \<Rightarrow> json list \<Rightarrow> str option \<Rightarrow> json" where
  "page_json c now items following =
     JObject [(''snapshot'', snapshot_json c now), (''items'', JArray items),
              (''next_before'', opt JString following)]"

end
