(* ===== verification/Console_Read.thy ===== *)
theory Console_Read
  imports Console_Data
begin

text \<open>
  What the console reads (\<open>operations/admin_repository.rs\<close>, \<open>operations/repository.rs\<close>): each
  function is the sequence of its statements, and \<open>None\<close> is the error of the first one that
  fails. A statement is one \<open>database_call\<close>; \<open>Utc::now\<close> is the clock after it.
\<close>

section \<open>Statements that only read\<close>

definition db_read :: "(time \<Rightarrow> db \<Rightarrow> 'a) \<Rightarrow> 'a option program" where
  "db_read f = database_call (\<lambda>_ now d. Some (f now d, d))"

text \<open>\<open>statement.await?\<close>, then the rest.\<close>

definition then_read :: "'a option program \<Rightarrow> ('a \<Rightarrow> 'b option program) \<Rightarrow> 'b option program" where
  "then_read m f = do { r \<leftarrow> m; case r of None \<Rightarrow> State_Monad.return None | Some x \<Rightarrow> f x }"

definition clock_now :: "time program" where
  "clock_now = observe w_clock"

text \<open>\<open>ORDER BY at DESC,id DESC\<close>, and one page of it.\<close>

type_synonym page_key = "time \<times> uuid"

definition newest :: "('r \<Rightarrow> page_key) \<Rightarrow> 'r list \<Rightarrow> 'r list" where
  "newest key rows = rev (sort_key key rows)"

definition page_rows :: "('r \<Rightarrow> page_key) \<Rightarrow> page_key option \<Rightarrow> nat \<Rightarrow> 'r list \<Rightarrow> 'r list" where
  "page_rows key before limit rows =
     take (clamp 1 101 limit) (newest key (filter (\<lambda>r. is_none_or (\<lambda>b. key r < b) before) rows))"

section \<open>Upstream keys and their proofs\<close>

record proof_row =
  pw_profile :: str
  pw_key :: uuid
  pw_verified_at :: time

definition proof_rows :: "proof_row list option program" where
  "proof_rows = db_read (\<lambda>_ d.
     sort_key (\<lambda>p. (pw_profile p, pw_key p))
       (map (\<lambda>r. \<lparr>pw_profile = rc_profile r, pw_key = rc_key r, pw_verified_at = rc_verified_at r\<rparr>)
          (filter (\<lambda>r. rc_invalidated_at r = None) (db_receipts d))))"

definition proof_freshness_seconds :: "int option program" where
  "proof_freshness_seconds = do {
     r \<leftarrow> db_read (\<lambda>_ d. map_option se_freshness (db_settings d));
     State_Monad.return (map_option (\<lambda>s. int (unwrap_or 604800 s)) r)
   }"

definition fresh_proof :: "time \<Rightarrow> int \<Rightarrow> proof_row \<Rightarrow> bool" where
  "fresh_proof now freshness p \<longleftrightarrow> num_seconds (now - pw_verified_at p) \<le> freshness"

definition latest :: "time list \<Rightarrow> time option" where
  "latest ts = (case ts of [] \<Rightarrow> None | t # rest \<Rightarrow> Some (foldl max t rest))"

definition proof_status :: "nat \<Rightarrow> bool \<Rightarrow> str" where
  "proof_status verified none_eligible =
     (if 2 \<le> verified then ''pair_verified''
      else if verified = 1 then ''provider_verified''
      else if none_eligible then ''unavailable'' else ''proof_required'')"

definition profile_proofs ::
    "time \<Rightarrow> proof_row list \<Rightarrow> uuid list \<Rightarrow> uuid option \<Rightarrow> int \<Rightarrow> profile_proof list" where
  "profile_proofs now rows eligible_ids only_key freshness =
     map (\<lambda>spec.
        let matching = filter (\<lambda>p. pw_profile p = sp_id spec \<and> is_none_or (\<lambda>k. k = pw_key p) only_key) rows;
            verified = min 2 (length (filter (fresh_proof now freshness) matching));
            last_verified = latest (map pw_verified_at matching)
        in \<lparr>pf_profile = sp_id spec, pf_status = proof_status verified (eligible_ids = []),
            pf_verified_keys = verified, pf_last_verified = last_verified,
            pf_stale = is_some_and (\<lambda>t. freshness < num_seconds (now - t)) last_verified\<rparr>)
       MODEL_SPECS"

definition upstream_eligible :: "time \<Rightarrow> proof_row list \<Rightarrow> int \<Rightarrow> vault_key_record \<Rightarrow> bool" where
  "upstream_eligible now proofs freshness k \<longleftrightarrow>
     \<not> kr_retired k \<and> kr_enabled k \<and> kr_verified k \<and>
     is_none_or (\<lambda>t. t \<le> now) (kr_cooldown_until k) \<and>
     list_ex (\<lambda>p. pw_key p = kr_id k \<and> pw_profile p = ''z-ai/glm-5.2'' \<and> fresh_proof now freshness p) proofs"

text \<open>\<open>ORDER BY retired,slot_no,created_at,id\<close>: the rows are in the order of their creation.\<close>

definition key_rows :: "db \<Rightarrow> key_row list" where
  "key_rows d = sort_key (\<lambda>k. (kr_retired (kw_key k), kw_slot k)) (db_keys d)"

definition upstream_of :: "time \<Rightarrow> proof_row list \<Rightarrow> uuid list \<Rightarrow> int \<Rightarrow> key_row \<Rightarrow> upstream_view" where
  "upstream_of now proofs eligible_ids freshness r =
     (let k = kw_key r in
      \<lparr>up_id = kr_id k, up_slot = kw_slot r, up_label = kr_label k, up_enabled = kr_enabled k,
       up_verified = kr_verified k, up_retired = kr_retired k,
       up_eligible = (kr_id k \<in> set eligible_ids), up_cooldown = kr_cooldown_until k,
       up_requests = kr_request_count k, up_failures = kr_failure_count k,
       up_proofs = profile_proofs now proofs eligible_ids (Some (kr_id k)) freshness\<rparr>)"

definition upstreams :: "upstream_view list option program" where
  "upstreams =
     then_read (db_read (\<lambda>_ d. key_rows d)) (\<lambda>rows.
     then_read proof_rows (\<lambda>proofs.
     then_read proof_freshness_seconds (\<lambda>freshness. do {
       now \<leftarrow> clock_now;
       let eligible_ids = map (\<lambda>r. kr_id (kw_key r))
             (filter (\<lambda>r. upstream_eligible now proofs freshness (kw_key r)) rows);
       State_Monad.return (Some (map (upstream_of now proofs eligible_ids freshness) rows))
     })))"

definition upstream_view_of :: "uuid \<Rightarrow> upstream_view option option program" where
  "upstream_view_of i = do {
     r \<leftarrow> upstreams;
     State_Monad.return (map_option (List.find (\<lambda>u. up_id u = i)) r)
   }"

definition upstream_ids_exist :: "uuid list \<Rightarrow> bool option program" where
  "upstream_ids_exist ids = db_read (\<lambda>_ d.
     length (filter (\<lambda>k. kr_id (kw_key k) \<in> set ids) (db_keys d)) = length ids)"

text \<open>\<open>repository::eligible_key_ids\<close> and \<open>base_eligible_key_ids\<close>.\<close>

definition base_eligible :: "time \<Rightarrow> vault_key_record \<Rightarrow> bool" where
  "base_eligible now k \<longleftrightarrow>
     \<not> kr_retired k \<and> kr_enabled k \<and> kr_verified k \<and> is_none_or (\<lambda>t. t \<le> now) (kr_cooldown_until k)"

definition eligible_key_ids :: "str \<Rightarrow> uuid list option program" where
  "eligible_key_ids profile = db_read (\<lambda>now d.
     map (\<lambda>k. kr_id (kw_key k))
       (sort_key kw_slot (filter (\<lambda>k. base_eligible now (kw_key k) \<and> fresh_receipt now d profile (kr_id (kw_key k)))
          (db_keys d))))"

definition base_eligible_key_ids :: "uuid list option program" where
  "base_eligible_key_ids = db_read (\<lambda>now d.
     map (\<lambda>k. kr_id (kw_key k)) (sort_key kw_slot (filter (\<lambda>k. base_eligible now (kw_key k)) (db_keys d))))"

section \<open>Clients\<close>

text \<open>\<open>key_prefix\<close> is written when the row is inserted and never changed.\<close>

definition key_prefix :: "uuid \<Rightarrow> str" where
  "key_prefix i = ''issued_'' @ take 12 (to_hex i)"

definition client_from_row :: "client_row \<Rightarrow> client_view" where
  "client_from_row r =
     (let c = cw_client r in
      \<lparr>cl_id = dr_id c, cl_label = dr_label c, cl_scopes = dr_scopes c, cl_active = dr_active c,
       cl_prefix = key_prefix (dr_id c), cl_expires_at = cw_expires_at r,
       cl_model_allowlist = cw_model_allowlist r, cl_rpm_limit = cw_rpm_limit r,
       cl_max_concurrency = cw_max_concurrency r, cl_request_limit_day = cw_request_limit_day r,
       cl_requests = dr_request_count c, cl_last_used_at = dr_last_used_at c,
       cl_created_at = dr_created_at c, cl_revoked_at = dr_revoked_at c\<rparr>)"

definition client_key :: "client_row \<Rightarrow> page_key" where
  "client_key r = (dr_created_at (cw_client r), dr_id (cw_client r))"

definition clients :: "client_view list option program" where
  "clients = db_read (\<lambda>_ d. map client_from_row (newest client_key (db_clients d)))"

definition clients_page :: "page_key option \<Rightarrow> nat \<Rightarrow> client_view list option program" where
  "clients_page before limit = db_read (\<lambda>_ d.
     map client_from_row (page_rows client_key before limit (db_clients d)))"

definition client_view_of :: "uuid \<Rightarrow> client_view option option program" where
  "client_view_of i = db_read (\<lambda>_ d.
     map_option client_from_row (List.find (\<lambda>r. dr_id (cw_client r) = i) (db_clients d)))"

section \<open>Requests\<close>

record request_filters =
  fi_request :: "uuid option"
  fi_client :: "uuid option"
  fi_profile :: "str option"
  fi_outcome :: "str option"
  fi_endpoint :: "str option"
  fi_since :: "time option"
  fi_until :: "time option"

definition no_filters :: request_filters where
  "no_filters = \<lparr>fi_request = None, fi_client = None, fi_profile = None, fi_outcome = None,
     fi_endpoint = None, fi_since = None, fi_until = None\<rparr>"

definition passes :: "request_filters \<Rightarrow> request_row \<Rightarrow> bool" where
  "passes f r \<longleftrightarrow>
     is_none_or (\<lambda>i. pr_request_id r = i) (fi_request f) \<and>
     is_none_or (\<lambda>i. pr_client r = Some i) (fi_client f) \<and>
     is_none_or (\<lambda>p. pr_profile r = p) (fi_profile f) \<and>
     is_none_or (\<lambda>s. pr_outcome r = s) (fi_outcome f) \<and>
     is_none_or (\<lambda>e. pr_endpoint r = e) (fi_endpoint f) \<and>
     is_none_or (\<lambda>t. t \<le> pr_started_at r) (fi_since f) \<and>
     is_none_or (\<lambda>t. pr_started_at r \<le> t) (fi_until f)"

definition request_key :: "request_row \<Rightarrow> page_key" where
  "request_key r = (pr_started_at r, pr_request_id r)"

definition clip :: "int \<Rightarrow> nat" where
  "clip n = nat (max 0 n)"

definition request_from_row :: "request_row \<Rightarrow> attempt_view list option \<Rightarrow> request_view" where
  "request_from_row r attempts =
     \<lparr>vr_request_id = pr_request_id r, vr_client = pr_client r, vr_endpoint = pr_endpoint r,
      vr_profile = pr_profile r, vr_modality = pr_modality r, vr_stream = pr_stream r,
      vr_outcome = pr_outcome r, vr_status = pr_status r, vr_error = pr_error r,
      vr_duration = map_option clip (pr_duration r), vr_ttfb = map_option clip (pr_ttfb r),
      vr_failover = pr_failover r, vr_started_at = pr_started_at r, vr_finished_at = pr_finished_at r,
      vr_attempts = attempts\<rparr>"

definition requests_page ::
    "page_key option \<Rightarrow> nat \<Rightarrow> request_filters \<Rightarrow> request_view list option program" where
  "requests_page before limit f = db_read (\<lambda>_ d.
     map (\<lambda>r. request_from_row r None)
       (page_rows request_key before limit (filter (passes f) (db_requests d))))"

text \<open>\<open>round(avg(duration_ms))\<close> of the durations that are not null.\<close>

definition rounded_average :: "int list \<Rightarrow> int option" where
  "rounded_average xs =
     (if xs = [] then None
      else Some ((2 * sum_list xs + int (length xs)) div (2 * int (length xs))))"

definition count_outcome :: "str list \<Rightarrow> request_row list \<Rightarrow> nat" where
  "count_outcome outcomes rows = length (filter (\<lambda>r. pr_outcome r \<in> set outcomes) rows)"

definition aggregate_of :: "request_row list \<Rightarrow> aggregate_view" where
  "aggregate_of rows =
     \<lparr>ag_total = length rows, ag_succeeded = count_outcome [''succeeded''] rows,
      ag_failed = count_outcome [''failed'', ''rejected'', ''abandoned_after_restart''] rows,
      ag_cancelled = count_outcome [''cancelled''] rows,
      ag_active = count_outcome [''started''] rows,
      ag_average = map_option clip (rounded_average (List.map_filter pr_duration rows))\<rparr>"

definition request_aggregate :: "request_filters \<Rightarrow> aggregate_view option program" where
  "request_aggregate f = db_read (\<lambda>_ d. aggregate_of (filter (passes f) (db_requests d)))"

text \<open>The attempts joined with their keys; an attempt whose key has no row is not in the join.\<close>

definition attempt_with_key :: "db \<Rightarrow> attempt_row \<Rightarrow> attempt_view option" where
  "attempt_with_key d a = map_option (\<lambda>k.
     \<lparr>av_no = ra_no a, av_upstream = ra_key a, av_slot = kw_slot k, av_label = kr_label (kw_key k),
      av_outcome = ra_outcome a, av_status = ra_status a, av_error = ra_error a,
      av_latency = map_option clip (ra_latency a), av_ttfb = map_option clip (ra_ttfb a),
      av_response_started = ra_response_started a, av_cooldown = ra_cooldown a,
      av_bytes = map_option clip (ra_bytes a), av_started_at = ra_created_at a,
      av_finished_at = ra_finished_at a\<rparr>)
     (List.find (\<lambda>k. kr_id (kw_key k) = ra_key a) (db_keys d))"

definition request_view_of :: "uuid \<Rightarrow> request_view option option program" where
  "request_view_of i =
     then_read (db_read (\<lambda>_ d. List.find (\<lambda>r. pr_request_id r = i) (db_requests d))) (\<lambda>row.
       case row of
         None \<Rightarrow> State_Monad.return (Some None)
       | Some r \<Rightarrow>
           then_read (db_read (\<lambda>_ d. List.map_filter (attempt_with_key d)
               (sort_key (\<lambda>a. (ra_no a, ra_created_at a))
                  (filter (\<lambda>a. ra_request_id a = i) (db_attempts d))))) (\<lambda>attempts.
             State_Monad.return (Some (Some (request_from_row r (Some attempts))))))"

section \<open>Probe runs and audit events\<close>

definition probe_key :: "probe_row \<Rightarrow> page_key" where
  "probe_key p = (pb_created_at p, pb_id p)"

definition probes_page :: "page_key option \<Rightarrow> nat \<Rightarrow> probe_row list option program" where
  "probes_page before limit = db_read (\<lambda>_ d. page_rows probe_key before limit (db_probes d))"

definition probe_of :: "uuid \<Rightarrow> probe_row option option program" where
  "probe_of i = db_read (\<lambda>_ d. List.find (\<lambda>p. pb_id p = i) (db_probes d))"

definition audit_key :: "audit_event \<Rightarrow> page_key" where
  "audit_key e = (ae_created_at e, ae_id e)"

definition audit_events_page :: "page_key option \<Rightarrow> nat \<Rightarrow> audit_event list option program" where
  "audit_events_page before limit = db_read (\<lambda>_ d. page_rows audit_key before limit (db_audit d))"

section \<open>Models\<close>

definition model_of ::
    "time \<Rightarrow> uuid list \<Rightarrow> proof_row list \<Rightarrow> int \<Rightarrow> (str \<times> bool) list \<Rightarrow> model_spec \<Rightarrow> model_view" where
  "model_of now eligible_ids rows freshness advertised spec =
     (let matching = filter (\<lambda>p. pw_profile p = sp_id spec) rows;
          verified = min 2 (length (filter (fresh_proof now freshness) matching))
      in \<lparr>mv_spec = spec, mv_advertised = unwrap_or False (map_of advertised (sp_id spec)),
          mv_status = proof_status verified (eligible_ids = []), mv_verified_keys = verified,
          mv_available = list_ex (\<lambda>p. pw_key p \<in> set eligible_ids \<and> fresh_proof now freshness p) matching,
          mv_age = map_option (\<lambda>t. clip (num_seconds (now - t))) (latest (map pw_verified_at matching)),
          mv_proofs = filter (\<lambda>p. pf_profile p = sp_id spec)
            (profile_proofs now rows eligible_ids None freshness)\<rparr>)"

definition admin_models :: "model_view list option program" where
  "admin_models =
     then_read base_eligible_key_ids (\<lambda>eligible_ids.
     then_read proof_rows (\<lambda>rows.
     then_read proof_freshness_seconds (\<lambda>freshness.
     then_read (db_read (\<lambda>_ d. map (\<lambda>m. (ct_profile m, ct_advertised m)) (db_catalog d))) (\<lambda>advertised. do {
       now \<leftarrow> clock_now;
       State_Monad.return (Some (map (model_of now eligible_ids rows freshness advertised) MODEL_SPECS))
     }))))"

section \<open>Incidents\<close>

definition incident_key :: "incident_row \<Rightarrow> page_key" where
  "incident_key r = (ic_started_at r, ic_id r)"

definition incident_updates :: "uuid list \<Rightarrow> incident_update_row list option program" where
  "incident_updates ids =
     (if ids = [] then State_Monad.return (Some [])
      else db_read (\<lambda>_ d. sort_key (\<lambda>u. (iu_published_at u, iu_id u))
             (filter (\<lambda>u. iu_incident u \<in> set ids) (db_incident_updates d))))"

definition with_updates :: "incident_row list \<Rightarrow> incident_view list option program" where
  "with_updates rows =
     then_read (incident_updates (map ic_id rows)) (\<lambda>updates.
       State_Monad.return (Some (map (\<lambda>r. \<lparr>iv_row = r,
         iv_updates = filter (\<lambda>u. iu_incident u = ic_id r) updates\<rparr>) rows)))"

definition incidents :: "incident_view list option program" where
  "incidents = then_read (db_read (\<lambda>_ d. take 100 (newest incident_key (db_incidents d)))) with_updates"

definition incidents_page :: "page_key option \<Rightarrow> nat \<Rightarrow> incident_view list option program" where
  "incidents_page before limit =
     then_read (db_read (\<lambda>_ d. page_rows incident_key before limit (db_incidents d))) with_updates"

section \<open>Routing policy and settings\<close>

definition u32_of :: "json \<Rightarrow> nat option" where
  "u32_of v = (case as_u64 v of Some n \<Rightarrow> if n < 2 ^ 32 then Some n else None | None \<Rightarrow> None)"

fun all_some :: "'a option list \<Rightarrow> 'a list option" where
  "all_some [] = Some []"
| "all_some (x # xs) =
     (case x of None \<Rightarrow> None | Some y \<Rightarrow> map_option (Cons y) (all_some xs))"

definition strings_of :: "json \<Rightarrow> str list option" where
  "strings_of v = Option.bind (as_array v) (\<lambda>xs. all_some (map as_str xs))"

definition numbers_of :: "json \<Rightarrow> nat list option" where
  "numbers_of v = Option.bind (as_array v) (\<lambda>xs. all_some (map u16_of xs))"

text \<open>A field the document does not have takes its default; one it has must decode.\<close>

definition decoded :: "str \<Rightarrow> (json \<Rightarrow> 'a option) \<Rightarrow> 'a \<Rightarrow> json \<Rightarrow> 'a option" where
  "decoded key f absent document =
     (case get_field key document of None \<Rightarrow> Some absent | Some v \<Rightarrow> f v)"

definition policy_from_row :: "policy_row \<Rightarrow> policy_view option" where
  "policy_from_row r =
     Option.bind (decoded ''retryable_statuses'' numbers_of (pv_statuses default_policy_view) (po_document r)) (\<lambda>statuses.
     Option.bind (decoded ''default_cooldown_seconds'' u32_of 2 (po_document r)) (\<lambda>cooldown.
     Option.bind (decoded ''stream_failover_before_first_frame_only'' as_bool True (po_document r)) (\<lambda>first_frame.
     Option.bind (decoded ''generation_retry'' as_bool False (po_document r)) (\<lambda>retry.
       Some \<lparr>pv_version = max 1 (po_version r), pv_active = po_active r, pv_statuses = statuses,
             pv_cooldown = cooldown, pv_first_frame_only = first_frame, pv_generation_retry = retry\<rparr>))))"

definition load_policy :: "policy_view option program" where
  "load_policy = then_read (db_read (\<lambda>_ d. active_policy d)) (\<lambda>row.
     State_Monad.return (case row of None \<Rightarrow> Some default_policy_view | Some r \<Rightarrow> policy_from_row r))"

definition load_settings :: "settings_row option program" where
  "load_settings = then_read (db_read (\<lambda>_ d. db_settings d)) (\<lambda>row.
     State_Monad.return (Some (unwrap_or default_settings row)))"

section \<open>QA runs\<close>

definition REQUIRED_SUITES :: "str list" where
  "REQUIRED_SUITES =
     [''smoke'', ''distribution'', ''failover'', ''persistence'', ''multimodal'', ''hermes-e2e'']"

definition qa_key :: "qa_run_row \<Rightarrow> page_key" where
  "qa_key r = (qr_created_at r, qr_id r)"

definition qa_run :: "uuid \<Rightarrow> qa_view option option program" where
  "qa_run i =
     then_read (db_read (\<lambda>_ d. List.find (\<lambda>r. qr_id r = i) (db_qa_runs d))) (\<lambda>row.
       case row of
         None \<Rightarrow> State_Monad.return (Some None)
       | Some r \<Rightarrow>
           then_read (db_read (\<lambda>_ d. sort_key qc_id (filter (\<lambda>k. qc_run k = i) (db_qa_cases d)))) (\<lambda>cases.
             State_Monad.return (Some (Some \<lparr>qv_run = r, qv_cases = cases\<rparr>))))"

definition qa_runs :: "nat \<Rightarrow> page_key option \<Rightarrow> qa_view list option program" where
  "qa_runs limit before =
     then_read (db_read (\<lambda>_ d. page_rows qa_key before limit (db_qa_runs d))) (\<lambda>rows.
       if rows = [] then State_Monad.return (Some [])
       else then_read (db_read (\<lambda>_ d. sort_key (\<lambda>k. (qc_run k, qc_id k))
              (filter (\<lambda>k. qc_run k \<in> set (map qr_id rows)) (db_qa_cases d)))) (\<lambda>cases.
         State_Monad.return (Some (map (\<lambda>r. \<lparr>qv_run = r,
           qv_cases = filter (\<lambda>k. qc_run k = qr_id r) cases\<rparr>) rows))))"

text \<open>A live run against NVIDIA's hosted service on the deployed commit.\<close>

definition authoritative :: "str \<Rightarrow> qa_run_row \<Rightarrow> bool" where
  "authoritative deployed r \<longleftrightarrow>
     qr_live r \<and> qr_provider r = ''nvidia_hosted'' \<and> qr_commit r = deployed"

definition nulls_last :: "time option \<Rightarrow> nat \<times> time" where
  "nulls_last t = (case t of None \<Rightarrow> (0, 0) | Some t \<Rightarrow> (1, t))"

definition first_run :: "qa_run_row list \<Rightarrow> uuid option" where
  "first_run rows = (case rows of [] \<Rightarrow> None | r # _ \<Rightarrow> Some (qr_id r))"

definition passed_run_id :: "str \<Rightarrow> str \<Rightarrow> db \<Rightarrow> uuid option" where
  "passed_run_id deployed suite d =
     first_run (rev (sort_key (\<lambda>r. (nulls_last (qr_finished_at r), qa_key r))
       (filter (\<lambda>r. qr_suite r = suite \<and> authoritative deployed r \<and> qr_status r = ''passed'') (db_qa_runs d))))"

definition latest_run_id :: "str \<Rightarrow> str \<Rightarrow> db \<Rightarrow> uuid option" where
  "latest_run_id deployed suite d =
     first_run (newest qa_key (filter (\<lambda>r. qr_suite r = suite \<and> authoritative deployed r) (db_qa_runs d)))"

definition optional_run :: "uuid option \<Rightarrow> qa_view option option program" where
  "optional_run i = (case i of None \<Rightarrow> State_Monad.return (Some None) | Some i \<Rightarrow> qa_run i)"

fun qa_completion :: "str \<Rightarrow> str list \<Rightarrow> completion_view list option program" where
  "qa_completion deployed [] = State_Monad.return (Some [])"
| "qa_completion deployed (suite # suites) =
     then_read (db_read (\<lambda>_. passed_run_id deployed suite)) (\<lambda>passed_id.
     then_read (db_read (\<lambda>_. latest_run_id deployed suite)) (\<lambda>latest_id.
     then_read (optional_run passed_id) (\<lambda>passed.
     then_read (optional_run latest_id) (\<lambda>latest_run.
     then_read (qa_completion deployed suites) (\<lambda>rest.
       State_Monad.return (Some (\<lparr>qn_suite = suite, qn_passed = (passed \<noteq> None),
         qn_passed_run = passed, qn_latest_run = latest_run\<rparr> # rest)))))))"

end
