(* ===== verification/Console_Write.thy ===== *)
theory Console_Write
  imports Console_Read
begin

text \<open>
  What the console writes outside the vault (\<open>operations/admin_repository.rs\<close>): each mutation
  and its audit row in one transaction, and the view read back after the commit. The identifiers
  PostgreSQL draws are the tick's: its identifier for the audit row, slices of its random bytes for
  the others. The audit details are objects of a few scalars, as their constraint asks.
\<close>

section \<open>Transactions\<close>

type_synonym 'a tx = "tick \<Rightarrow> time \<Rightarrow> db \<Rightarrow> ('a \<times> db) option"

definition random_id :: "tick \<Rightarrow> nat \<Rightarrow> uuid" where
  "random_id t n = take 16 (drop (16 * n) (tk_random t))"

definition insert_audit :: "str \<Rightarrow> str \<Rightarrow> uuid option \<Rightarrow> uuid \<Rightarrow> json \<Rightarrow> uuid tx" where
  "insert_audit action kind i rid detail t now d =
     Some (tk_uuid t, d\<lparr>db_audit := db_audit d @
       [new_audit (tk_uuid t) now action kind i (Some rid) ''succeeded'' detail]\<rparr>)"

text \<open>\<open>Ok((read(pool).await?, audit))\<close> after the commit.\<close>

definition with_audit :: "uuid tx \<Rightarrow> 'a option program \<Rightarrow> ('a \<times> uuid) option program" where
  "with_audit tx view =
     then_read (database_call tx) (\<lambda>audit. then_read view (\<lambda>x. State_Monad.return (Some (x, audit))))"

section \<open>Routing policy, settings, catalogue\<close>

definition next_version :: "policy_row list \<Rightarrow> nat" where
  "next_version rows = foldl max 0 (map po_version rows) + 1"

definition policy_document :: "nat list \<Rightarrow> nat \<Rightarrow> json" where
  "policy_document statuses cooldown =
     JObject [(''default_cooldown_seconds'', num cooldown), (''generation_retry'', JBool False),
              (''retryable_statuses'', JArray (map num statuses)),
              (''stream_failover_before_first_frame_only'', JBool True)]"

definition tx_update_policy :: "nat list \<Rightarrow> nat \<Rightarrow> uuid \<Rightarrow> uuid tx" where
  "tx_update_policy statuses cooldown rid t now d =
     (let version = next_version (db_policies d);
          rows = map (\<lambda>r. r\<lparr>po_active := False\<rparr>) (db_policies d)
            @ [\<lparr>po_version = version, po_active = True, po_document = policy_document statuses cooldown\<rparr>]
      in insert_audit ''routing.policy.update'' ''routing_policy'' None rid
           (JObject [(''version'', num version)]) t now (d\<lparr>db_policies := rows\<rparr>))"

definition update_routing_policy ::
    "nat list \<Rightarrow> nat \<Rightarrow> uuid \<Rightarrow> (policy_view \<times> uuid) option program" where
  "update_routing_policy statuses cooldown rid = with_audit (tx_update_policy statuses cooldown rid) load_policy"

record settings_patch =
  sa_freshness :: "nat option"
  sa_request_retention :: "nat option"
  sa_metric_retention :: "nat option"
  sa_public_incidents :: "bool option"

definition settings_row_ok :: "settings_row \<Rightarrow> bool" where
  "settings_row_ok s \<longleftrightarrow>
     300 \<le> se_freshness s \<and> se_freshness s \<le> 2592000 \<and>
     7 \<le> se_request_retention s \<and> se_request_retention s \<le> 90 \<and>
     7 \<le> se_metric_retention s \<and> se_metric_retention s \<le> 365"

definition patched_settings :: "settings_patch \<Rightarrow> settings_row \<Rightarrow> settings_row" where
  "patched_settings p s =
     \<lparr>se_freshness = unwrap_or (se_freshness s) (sa_freshness p),
      se_request_retention = unwrap_or (se_request_retention s) (sa_request_retention p),
      se_metric_retention = unwrap_or (se_metric_retention s) (sa_metric_retention p),
      se_public_incidents = unwrap_or (se_public_incidents s) (sa_public_incidents p)\<rparr>"

definition tx_update_settings :: "settings_patch \<Rightarrow> uuid \<Rightarrow> uuid tx" where
  "tx_update_settings p rid t now d =
     Option.bind (db_settings d) (\<lambda>s.
     Option.bind (checked settings_row_ok (patched_settings p s)) (\<lambda>s'.
       insert_audit ''settings.update'' ''settings'' None rid
         (JObject [(''metric_retention_days_changed'', JBool (sa_metric_retention p \<noteq> None)),
                   (''proof_freshness_seconds_changed'', JBool (sa_freshness p \<noteq> None)),
                   (''public_incidents_enabled_changed'', JBool (sa_public_incidents p \<noteq> None)),
                   (''request_retention_days_changed'', JBool (sa_request_retention p \<noteq> None))])
         t now (d\<lparr>db_settings := Some s'\<rparr>)))"

definition update_settings :: "settings_patch \<Rightarrow> uuid \<Rightarrow> (settings_row \<times> uuid) option program" where
  "update_settings p rid = with_audit (tx_update_settings p rid) load_settings"

definition catalog_row_of :: "model_spec \<Rightarrow> bool \<Rightarrow> catalog_row" where
  "catalog_row_of s advertised =
     \<lparr>ct_profile = sp_id s, ct_endpoint = sp_endpoint s, ct_inputs = sp_inputs s,
      ct_outputs = sp_outputs s, ct_streaming = sp_streaming s, ct_tools = sp_tools s,
      ct_advertised = advertised, ct_billable = sp_billable s\<rparr>"

definition upsert_catalog :: "model_spec \<Rightarrow> db \<Rightarrow> db option" where
  "upsert_catalog s d =
     (if \<not> has_profile d (sp_id s) then None
      else if list_ex (\<lambda>m. ct_profile m = sp_id s) (db_catalog d)
      then Some (d\<lparr>db_catalog := update_where (\<lambda>m. ct_profile m = sp_id s)
             (\<lambda>m. catalog_row_of s (ct_advertised m)) (db_catalog d)\<rparr>)
      else Some (d\<lparr>db_catalog := db_catalog d @ [catalog_row_of s True]\<rparr>))"

definition tx_sync_catalog :: "uuid \<Rightarrow> uuid tx" where
  "tx_sync_catalog rid t now d =
     Option.bind (for_each upsert_catalog MODEL_SPECS d) (\<lambda>d.
       insert_audit ''models.sync'' ''model_catalog'' None rid
         (JObject [(''catalogued'', num (length MODEL_SPECS))]) t now d)"

definition sync_model_catalog :: "uuid \<Rightarrow> (model_view list \<times> uuid) option program" where
  "sync_model_catalog rid = with_audit (tx_sync_catalog rid) admin_models"

section \<open>Probe results\<close>

text \<open>\<open>ProbeResultInput\<close> is \<open>probe_mutation\<close> without its identifier, which the insert returns.\<close>

definition tx_record_probe :: "probe_mutation \<Rightarrow> uuid \<Rightarrow> (uuid \<times> uuid) tx" where
  "tx_record_probe input rid t now d =
     (let p = input\<lparr>pm_id := random_id t 0\<rparr> in
      Option.bind (insert_probe now p d) (\<lambda>d.
      Option.bind
        (if probe_passed p then store_receipt now p d
         else if auth_refused (pm_status_code p)
         then Some (d\<lparr>db_receipts := update_where
                (\<lambda>r. rc_key r = pm_upstream p \<and> rc_invalidated_at r = None)
                (\<lambda>r. r\<lparr>rc_invalidated_at := Some now, rc_reason := Some ''provider_auth_error''\<rparr>)
                (db_receipts d)\<rparr>)
         else Some d) (\<lambda>d.
      map_option (\<lambda>(audit, d). ((pm_id p, audit), d))
        (insert_audit ''probe.complete'' ''probe'' (Some (pm_id p)) rid
           (JObject [(''billable'', JBool (pm_billable p)), (''kind'', JString (pm_kind p)),
                     (''passed'', JBool (probe_passed p))]) t now d))))"

definition record_probe_result :: "probe_mutation \<Rightarrow> uuid \<Rightarrow> (probe_row \<times> uuid) option program" where
  "record_probe_result input rid =
     then_read (database_call (tx_record_probe input rid)) (\<lambda>(i, audit).
     then_read (probe_of i) (\<lambda>item. State_Monad.return (map_option (\<lambda>p. (p, audit)) item)))"

section \<open>Incidents\<close>

definition INCIDENT_STATUSES :: "str list" where
  "INCIDENT_STATUSES = [''investigating'', ''identified'', ''monitoring'', ''resolved'']"

definition text_within :: "nat \<Rightarrow> str \<Rightarrow> bool" where
  "text_within most s \<longleftrightarrow> CHR 0x00 \<notin> set s \<and> 1 \<le> length (chars s) \<and> length (chars s) \<le> most"

text \<open>\<open>slug ~ '^[a-z0-9]+(?:-[a-z0-9]+)*$'\<close>.\<close>

definition slug_ok :: "str \<Rightarrow> bool" where
  "slug_ok s \<longleftrightarrow>
     length s \<le> 120 \<and>
     list_all (\<lambda>w. w \<noteq> [] \<and> list_all (\<lambda>b. is_ascii_digit b \<or> 97 \<le> code b \<and> code b \<le> 122) w)
       (split_on (CHR ''-'') s)"

definition incident_row_ok :: "incident_row \<Rightarrow> bool" where
  "incident_row_ok r \<longleftrightarrow>
     slug_ok (ic_slug r) \<and> text_within 200 (ic_title r) \<and> ic_status r \<in> set INCIDENT_STATUSES \<and>
     ic_severity r \<in> set [''minor'', ''major'', ''critical''] \<and>
     (ic_status r = ''resolved'' \<longleftrightarrow> ic_resolved_at r \<noteq> None)"

definition insert_incident_update :: "uuid \<Rightarrow> uuid \<Rightarrow> str \<Rightarrow> str \<Rightarrow> time \<Rightarrow> db \<Rightarrow> db option" where
  "insert_incident_update i incident status message now d =
     (if status \<notin> set INCIDENT_STATUSES \<or> \<not> text_within 4000 message
         \<or> \<not> list_ex (\<lambda>r. ic_id r = incident) (db_incidents d)
         \<or> list_ex (\<lambda>u. iu_id u = i) (db_incident_updates d) then None
      else Some (d\<lparr>db_incident_updates := db_incident_updates d @
             [\<lparr>iu_id = i, iu_incident = incident, iu_status = status, iu_message = message,
               iu_published_at = now\<rparr>]\<rparr>))"

record incident_input =
  ii_slug :: str
  ii_title :: str
  ii_status :: str
  ii_severity :: str
  ii_public :: bool
  ii_message :: str

definition resolved_now :: "time \<Rightarrow> str \<Rightarrow> time option" where
  "resolved_now instant status = (if status = ''resolved'' then Some instant else None)"

definition tx_create_incident :: "time \<Rightarrow> incident_input \<Rightarrow> uuid \<Rightarrow> (uuid \<times> uuid) tx" where
  "tx_create_incident instant input rid t now d =
     (let i = random_id t 0;
          row = \<lparr>ic_id = i, ic_slug = ii_slug input, ic_title = ii_title input,
                 ic_status = ii_status input, ic_severity = ii_severity input,
                 ic_public = ii_public input, ic_started_at = now,
                 ic_resolved_at = resolved_now instant (ii_status input),
                 ic_created_at = now, ic_updated_at = now\<rparr>
      in if \<not> incident_row_ok row \<or> list_ex (\<lambda>r. ic_id r = i \<or> ic_slug r = ii_slug input) (db_incidents d)
         then None
         else Option.bind (insert_incident_update (random_id t 1) i (ii_status input) (ii_message input) now
                (d\<lparr>db_incidents := db_incidents d @ [row]\<rparr>)) (\<lambda>d.
           map_option (\<lambda>(audit, d). ((i, audit), d))
             (insert_audit ''incident.create'' ''incident'' (Some i) rid
                (JObject [(''public'', JBool (ii_public input)), (''status'', JString (ii_status input))])
                t now d)))"

text \<open>The mutated incident is looked up among the hundred newest.\<close>

definition incident_after :: "uuid \<Rightarrow> uuid \<Rightarrow> (incident_view \<times> uuid) option program" where
  "incident_after i audit = then_read incidents (\<lambda>items.
     State_Monad.return (map_option (\<lambda>v. (v, audit)) (List.find (\<lambda>v. ic_id (iv_row v) = i) items)))"

definition create_incident :: "incident_input \<Rightarrow> uuid \<Rightarrow> (incident_view \<times> uuid) option program" where
  "create_incident input rid = do {
     instant \<leftarrow> clock_now;
     then_read (database_call (tx_create_incident instant input rid)) (\<lambda>(i, audit). incident_after i audit)
   }"

record incident_patch =
  ip_title :: "str option"
  ip_status :: "str option"
  ip_severity :: "str option"
  ip_public :: "bool option"

definition patched_incident :: "time \<Rightarrow> incident_patch \<Rightarrow> incident_row \<Rightarrow> incident_row" where
  "patched_incident now p r =
     r\<lparr>ic_title := unwrap_or (ic_title r) (ip_title p), ic_status := unwrap_or (ic_status r) (ip_status p),
       ic_severity := unwrap_or (ic_severity r) (ip_severity p),
       ic_public := unwrap_or (ic_public r) (ip_public p),
       ic_resolved_at :=
         (case ip_status p of
            None \<Rightarrow> ic_resolved_at r
          | Some s \<Rightarrow> if s = ''resolved'' then Some (unwrap_or now (ic_resolved_at r)) else None),
       ic_updated_at := now\<rparr>"

definition change_incident ::
    "uuid \<Rightarrow> (incident_row \<Rightarrow> incident_row) \<Rightarrow> db \<Rightarrow> db option" where
  "change_incident i f d =
     map_option (\<lambda>rows. d\<lparr>db_incidents := rows\<rparr>)
       (update_one (\<lambda>r. ic_id r = i) (\<lambda>r. checked incident_row_ok (f r)) (db_incidents d))"

definition tx_update_incident :: "uuid \<Rightarrow> incident_patch \<Rightarrow> uuid \<Rightarrow> uuid tx" where
  "tx_update_incident i p rid t now d =
     Option.bind (change_incident i (patched_incident now p) d) (\<lambda>d.
       insert_audit ''incident.update'' ''incident'' (Some i) rid
         (JObject [(''public_changed'', JBool (ip_public p \<noteq> None)),
                   (''severity_changed'', JBool (ip_severity p \<noteq> None)),
                   (''status_changed'', JBool (ip_status p \<noteq> None)),
                   (''title_changed'', JBool (ip_title p \<noteq> None))]) t now d)"

definition update_incident ::
    "uuid \<Rightarrow> incident_patch \<Rightarrow> uuid \<Rightarrow> (incident_view \<times> uuid) option program" where
  "update_incident i p rid =
     then_read (database_call (tx_update_incident i p rid)) (incident_after i)"

definition tx_incident_message :: "time \<Rightarrow> uuid \<Rightarrow> str \<Rightarrow> str \<Rightarrow> uuid \<Rightarrow> uuid tx" where
  "tx_incident_message instant i status message rid t now d =
     Option.bind (change_incident i (\<lambda>r. r\<lparr>ic_status := status,
         ic_resolved_at := resolved_now instant status, ic_updated_at := now\<rparr>) d) (\<lambda>d.
     Option.bind (insert_incident_update (random_id t 0) i status message now d) (\<lambda>d.
       insert_audit ''incident.message.create'' ''incident'' (Some i) rid
         (JObject [(''status'', JString status)]) t now d))"

definition create_incident_update ::
    "uuid \<Rightarrow> str \<Rightarrow> str \<Rightarrow> uuid \<Rightarrow> (incident_view \<times> uuid) option program" where
  "create_incident_update i status message rid = do {
     instant \<leftarrow> clock_now;
     then_read (database_call (tx_incident_message instant i status message rid)) (incident_after i)
   }"

section \<open>QA runs\<close>

datatype qa_error = Unsupported_suite | Hermes_live_required | Active_run uuid | Internal

definition suite_cases :: "str \<Rightarrow> str list option" where
  "suite_cases suite =
     map_of
       [(''smoke'', [''liveness'', ''readiness'', ''models'', ''chat_non_stream'', ''chat_stream'', ''privacy'']),
        (''distribution'', [''two_eligible_slots'', ''six_requests'', ''skew_at_most_one'']),
        (''failover'', [''before_first_frame'', ''after_first_frame_no_replay'', ''terminal_evidence'']),
        (''persistence'', [''restart_observed'', ''encrypted_keys'', ''downstream_token'',
           ''profile_receipts'', ''routing_cursor'', ''owner_lease'']),
        (''multimodal'', [''phi_text_image_audio'', ''vila_text_image_video'', ''nvclip_text_image'',
           ''flux_text_image'', ''video_generation'', ''speech_and_transcription'']),
        (''hermes-e2e'', [''doctor'', ''exact_marker'', ''tool_task'', ''request_correlation'',
           ''secret_scan'', ''rollback_rehearsal''])] suite"

datatype qa_provider = Fake | Nvidia_hosted

fun provider_name :: "qa_provider \<Rightarrow> str" where
  "provider_name Fake = ''fake''"
| "provider_name Nvidia_hosted = ''nvidia_hosted''"

definition qa_active :: "qa_run_row \<Rightarrow> bool" where
  "qa_active r \<longleftrightarrow> qr_status r = ''queued'' \<or> qr_status r = ''running''"

definition qa_row_ok :: "qa_run_row \<Rightarrow> bool" where
  "qa_row_ok r \<longleftrightarrow>
     qr_suite r \<in> set REQUIRED_SUITES \<and> (qr_suite r \<noteq> ''hermes-e2e'' \<or> qr_live r) \<and>
     (if qr_live r then qr_provider r \<in> set [''nvidia_hosted'', ''unverified'']
      else qr_provider r = ''fake'') \<and>
     (qr_commit r = ''unknown'' \<or>
      length (qr_commit r) = 40 \<and>
      list_all (\<lambda>b. is_ascii_digit b \<or> 97 \<le> code b \<and> code b \<le> 102) (qr_commit r)) \<and>
     (qa_active r \<longleftrightarrow> qr_finished_at r = None)"

text \<open>
  The transaction under the creation lock. Another session that does not take the lock may insert
  an active run between the two statements (\<open>tk_hint\<close> false): the insert then breaks
  \<open>qa_runs_single_active_idx\<close> and the transaction is rolled back for another attempt.
\<close>

datatype qa_outcome = Already_active uuid | Conflicted | Created uuid uuid

definition new_qa_run :: "console \<Rightarrow> tick \<Rightarrow> time \<Rightarrow> str \<Rightarrow> bool \<Rightarrow> qa_provider \<Rightarrow> qa_run_row" where
  "new_qa_run c t now suite live provider =
     \<lparr>qr_id = random_id t 0, qr_suite = suite, qr_live = live, qr_provider = provider_name provider,
      qr_commit = co_commit c, qr_status = ''queued'', qr_created_at = now, qr_started_at = None,
      qr_finished_at = None\<rparr>"

definition new_qa_cases :: "tick \<Rightarrow> uuid \<Rightarrow> str list \<Rightarrow> qa_case_row list" where
  "new_qa_cases t run names =
     map (\<lambda>(n, name). \<lparr>qc_id = random_id t (n + 1), qc_run = run, qc_name = name, qc_status = ''pending'',
        qc_evidence = JObject [], qc_started_at = None, qc_finished_at = None\<rparr>)
       (zip [0..<length names] names)"

definition tx_create_qa_run ::
    "console \<Rightarrow> str \<Rightarrow> str list \<Rightarrow> bool \<Rightarrow> qa_provider \<Rightarrow> uuid \<Rightarrow> qa_outcome tx" where
  "tx_create_qa_run c suite cases live provider rid t now d =
     (case newest qa_key (filter qa_active (db_qa_runs d)) of
        r # _ \<Rightarrow> Some (Already_active (qr_id r), d)
      | [] \<Rightarrow>
          let row = new_qa_run c t now suite live provider;
              case_rows = new_qa_cases t (qr_id row) cases
          in if \<not> tk_hint t then Some (Conflicted, d)
             else if \<not> qa_row_ok row \<or> list_ex (\<lambda>r. qr_id r = qr_id row) (db_qa_runs d)
                \<or> \<not> distinct (map qc_id (db_qa_cases d @ case_rows)) then None
             else map_option (\<lambda>(audit, d). (Created (qr_id row) audit, d))
               (insert_audit ''qa.run.create'' ''qa_run'' (Some (qr_id row)) rid
                  (JObject [(''live'', JBool live), (''provider_identity'', JString (provider_name provider)),
                            (''suite'', JString suite)]) t now
                  (d\<lparr>db_qa_runs := db_qa_runs d @ [row], db_qa_cases := db_qa_cases d @ case_rows\<rparr>)))"

fun create_qa_attempts ::
    "nat \<Rightarrow> console \<Rightarrow> str \<Rightarrow> str list \<Rightarrow> bool \<Rightarrow> qa_provider \<Rightarrow> uuid \<Rightarrow> (qa_error + qa_view \<times> uuid) program" where
  "create_qa_attempts 0 c suite cases live provider rid = State_Monad.return (Err Internal)"
| "create_qa_attempts (Suc n) c suite cases live provider rid = do {
     r \<leftarrow> database_call (tx_create_qa_run c suite cases live provider rid);
     case r of
       None \<Rightarrow> State_Monad.return (Err Internal)
     | Some (Already_active i) \<Rightarrow> State_Monad.return (Err (Active_run i))
     | Some Conflicted \<Rightarrow> create_qa_attempts n c suite cases live provider rid
     | Some (Created i audit) \<Rightarrow> do {
         run \<leftarrow> qa_run i;
         State_Monad.return (case run of Some (Some v) \<Rightarrow> Ok (v, audit) | _ \<Rightarrow> Err Internal)
       }
   }"

definition create_qa_run ::
    "console \<Rightarrow> str \<Rightarrow> bool \<Rightarrow> qa_provider \<Rightarrow> uuid \<Rightarrow> (qa_error + qa_view \<times> uuid) program" where
  "create_qa_run c suite live provider rid =
     (case suite_cases suite of
        None \<Rightarrow> State_Monad.return (Err Unsupported_suite)
      | Some cases \<Rightarrow>
          if suite = ''hermes-e2e'' \<and> \<not> live then State_Monad.return (Err Hermes_live_required)
          else if live \<noteq> (provider = Nvidia_hosted) then State_Monad.return (Err Internal)
          else create_qa_attempts 3 c suite cases live provider rid)"

end
