(* ===== verification/Console_Pages.thy ===== *)
theory Console_Pages
  imports Console_Write
begin

text \<open>
  Pages and filters of the console's lists (\<open>operations/admin.rs\<close>): the offset cursor of the short
  lists, the keyset cursor of the long ones, and the filters of the request list. A cursor is the
  URL-safe base64 of a text or of a JSON object. A query string reaches the handlers as its decoded
  pairs.
\<close>

section \<open>Errors\<close>

definition refuse :: "console \<Rightarrow> http_request \<Rightarrow> nat \<Rightarrow> str \<Rightarrow> str \<Rightarrow> http_response" where
  "refuse c req status error_code message =
     operations_error (co_fresh_id c) req status error_code message False None"

definition invalid :: "console \<Rightarrow> http_request \<Rightarrow> str \<Rightarrow> str \<Rightarrow> http_response" where
  "invalid c req error_code message = refuse c req 422 error_code message"

definition failure :: "console \<Rightarrow> http_request \<Rightarrow> str \<Rightarrow> str \<Rightarrow> http_response" where
  "failure c req error_code message =
     operations_error (co_fresh_id c) req 503 error_code message True None"

definition not_found :: "console \<Rightarrow> http_request \<Rightarrow> str \<Rightarrow> http_response" where
  "not_found c req kind =
     operations_error (co_fresh_id c) req 404 ''resource_not_found''
       ''The requested resource was not found.'' False
       (Some (JObject [(''resource_kind'', JString kind)]))"

section \<open>Windows\<close>

record list_query =
  lq_limit :: "nat option"
  lq_before :: "str option"

definition page_limit :: "console \<Rightarrow> http_request \<Rightarrow> list_query \<Rightarrow> http_response + nat" where
  "page_limit c req q =
     (let n = unwrap_or 50 (lq_limit q)
      in if 1 \<le> n \<and> n \<le> 100 then Ok n
         else Err (invalid c req ''invalid_limit'' ''limit must be between 1 and 100.''))"

definition OFFSET_PREFIX :: str where "OFFSET_PREFIX = ''nblb-page-v1:''"

definition decode_offset :: "console \<Rightarrow> str \<Rightarrow> nat option" where
  "decode_offset c cursor =
     Option.bind (b64_decode (gw_crypto (co_gateway c)) cursor) (\<lambda>raw.
     if \<not> valid_utf8 raw then None
     else Option.bind (strip_prefix OFFSET_PREFIX raw) (\<lambda>digits.
     Option.bind (parse_unsigned u64_max digits) (\<lambda>n. if n \<le> 10000000 then Some n else None)))"

definition encode_offset :: "console \<Rightarrow> nat \<Rightarrow> str" where
  "encode_offset c n = b64_encode (gw_crypto (co_gateway c)) (OFFSET_PREFIX @ show_nat n)"

definition list_window :: "console \<Rightarrow> http_request \<Rightarrow> list_query \<Rightarrow> http_response + nat \<times> nat" where
  "list_window c req q =
     bind_ok (page_limit c req q) (\<lambda>limit.
       case lq_before q of
         None \<Rightarrow> Ok (limit, 0)
       | Some cursor \<Rightarrow>
           (case decode_offset c cursor of
              Some offset \<Rightarrow> Ok (limit, offset)
            | None \<Rightarrow> Err (invalid c req ''invalid_page_cursor''
                ''This cursor is not valid for the current snapshot.'')))"

definition paginate :: "console \<Rightarrow> 'a list \<Rightarrow> nat \<times> nat \<Rightarrow> 'a list \<times> str option" where
  "paginate c items w =
     (case w of (limit, offset) \<Rightarrow>
        let page = (if length items \<le> offset then [] else take limit (drop offset items));
            following = offset + length page
        in (page, if following < length items then Some (encode_offset c following) else None))"

section \<open>Keyset cursors\<close>

definition cursor_json :: "console \<Rightarrow> str \<Rightarrow> page_key \<Rightarrow> json" where
  "cursor_json c kind key =
     JObject [(''at'', time_json c (fst key)), (''id'', uuid_json (snd key)), (''kind'', JString kind),
              (''version'', num 1)]"

text \<open>
  \<open>serde\<close> reads the structure from an object, in which unknown fields are ignored, or from an
  array of its four fields in order.
\<close>

definition cursor_fields :: "json \<Rightarrow> (json \<times> json \<times> json \<times> json) option" where
  "cursor_fields v =
     (case v of
        JArray [version, kind, instant, i] \<Rightarrow> Some (version, kind, instant, i)
      | _ \<Rightarrow>
          (case (get_field ''version'' v, get_field ''kind'' v, get_field ''at'' v, get_field ''id'' v) of
             (Some version, Some kind, Some instant, Some i) \<Rightarrow> Some (version, kind, instant, i)
           | _ \<Rightarrow> None))"

definition cursor_key :: "console \<Rightarrow> str \<Rightarrow> json \<Rightarrow> page_key option" where
  "cursor_key c kind v =
     (case cursor_fields v of
        None \<Rightarrow> None
      | Some (version, k, instant, i) \<Rightarrow>
          if as_u64 version = Some 1 \<and> as_str k = Some kind
          then (case (Option.bind (as_str instant) (co_parse_time c), Option.bind (as_str i) (co_parse_uuid c)) of
                  (Some t, Some u) \<Rightarrow> Some (t, u)
                | _ \<Rightarrow> None)
          else None)"

definition decode_keyset_cursor :: "console \<Rightarrow> str \<Rightarrow> str \<Rightarrow> page_key option" where
  "decode_keyset_cursor c encoded kind =
     Option.bind (b64_decode (gw_crypto (co_gateway c)) encoded) (\<lambda>raw.
     Option.bind (gw_parse (co_gateway c) raw) (cursor_key c kind))"

definition encode_keyset_cursor :: "console \<Rightarrow> str \<Rightarrow> page_key \<Rightarrow> str" where
  "encode_keyset_cursor c kind key =
     b64_encode (gw_crypto (co_gateway c)) (gw_show (co_gateway c) (cursor_json c kind key))"

definition keyset_window ::
    "console \<Rightarrow> http_request \<Rightarrow> list_query \<Rightarrow> str \<Rightarrow> http_response + nat \<times> page_key option" where
  "keyset_window c req q kind =
     bind_ok (page_limit c req q) (\<lambda>limit.
       case lq_before q of
         None \<Rightarrow> Ok (limit, None)
       | Some encoded \<Rightarrow>
           (case decode_keyset_cursor c encoded kind of
              Some key \<Rightarrow> Ok (limit, Some key)
            | None \<Rightarrow> Err (invalid c req ''invalid_page_cursor'' ''This cursor is not valid for this list.'')))"

definition keyset_page ::
    "console \<Rightarrow> 'a list \<Rightarrow> nat \<Rightarrow> str \<Rightarrow> ('a \<Rightarrow> page_key) \<Rightarrow> 'a list \<times> str option" where
  "keyset_page c items limit kind key =
     (let page = take limit items
      in (page, if limit < length items then Some (encode_keyset_cursor c kind (key (last page))) else None))"

section \<open>Filters of the request list\<close>

record request_query =
  qy_list :: list_query
  qy_request_id :: "str option"
  qy_client_id :: "str option"
  qy_profile :: "str option"
  qy_outcome :: "str option"
  qy_endpoint :: "str option"
  qy_since :: "str option"
  qy_until :: "str option"

text \<open>\<open>value.map(parse).transpose()\<close>.\<close>

definition parsed :: "(str \<Rightarrow> 'a option) \<Rightarrow> http_response \<Rightarrow> str option \<Rightarrow> http_response + 'a option" where
  "parsed parse refused v =
     (case v of
        None \<Rightarrow> Ok None
      | Some s \<Rightarrow> (case parse s of None \<Rightarrow> Err refused | Some x \<Rightarrow> Ok (Some x)))"

definition given :: "str option \<Rightarrow> str option" where
  "given v = (case v of Some s \<Rightarrow> if s = [] then None else Some s | None \<Rightarrow> None)"

definition request_filters_of ::
    "console \<Rightarrow> http_request \<Rightarrow> request_query \<Rightarrow> http_response + request_filters" where
  "request_filters_of c req q =
     (let bad = invalid c req ''invalid_request_filter'';
          outcome = given (qy_outcome q); profile = given (qy_profile q); endpoint = given (qy_endpoint q)
      in if is_some_and (\<lambda>v. v \<notin> set REQUEST_OUTCOMES) outcome
         then Err (bad ''outcome is not supported.'')
         else if is_some_and (\<lambda>v. 160 < length v) profile then Err (bad ''profile is too long.'')
         else if is_some_and (\<lambda>v. 128 < length v \<or> \<not> list_ex (\<lambda>s. sp_endpoint s = v) MODEL_SPECS) endpoint
         then Err (bad ''endpoint must be a supported /v1/ path.'')
         else bind_ok (parsed (co_parse_rfc3339 c) (bad ''since must be RFC 3339.'') (qy_since q)) (\<lambda>since.
           bind_ok (parsed (co_parse_rfc3339 c) (bad ''until must be RFC 3339.'') (qy_until q)) (\<lambda>until.
             if (case (since, until) of (Some a, Some b) \<Rightarrow> b < a | _ \<Rightarrow> False)
             then Err (bad ''since must not be later than until.'')
             else bind_ok (parsed (co_parse_uuid c) (bad ''request_id must be a UUID.'') (qy_request_id q)) (\<lambda>rid.
               bind_ok (parsed (co_parse_uuid c) (bad ''client_id must be a UUID.'') (qy_client_id q)) (\<lambda>client.
                 Ok \<lparr>fi_request = rid, fi_client = client, fi_profile = profile, fi_outcome = outcome,
                     fi_endpoint = endpoint, fi_since = since, fi_until = until\<rparr>)))))"

section \<open>Query strings\<close>

text \<open>A field read twice is an error, an unknown one is ignored.\<close>

definition query_field :: "str \<Rightarrow> (str \<times> str) list \<Rightarrow> str option option" where
  "query_field name pairs =
     (case filter (\<lambda>p. fst p = name) pairs of
        [] \<Rightarrow> Some None
      | [p] \<Rightarrow> Some (Some (snd p))
      | _ \<Rightarrow> None)"

definition list_query_of :: "(str \<times> str) list \<Rightarrow> list_query option" where
  "list_query_of pairs =
     Option.bind (query_field ''limit'' pairs) (\<lambda>limit.
     Option.bind (query_field ''before'' pairs) (\<lambda>before.
       case limit of
         None \<Rightarrow> Some \<lparr>lq_limit = None, lq_before = before\<rparr>
       | Some digits \<Rightarrow>
           map_option (\<lambda>n. \<lparr>lq_limit = Some n, lq_before = before\<rparr>) (parse_u16 digits)))"

definition request_query_of :: "(str \<times> str) list \<Rightarrow> request_query option" where
  "request_query_of pairs =
     Option.bind (list_query_of pairs) (\<lambda>window.
     Option.bind (query_field ''request_id'' pairs) (\<lambda>rid.
     Option.bind (query_field ''client_id'' pairs) (\<lambda>client.
     Option.bind (query_field ''profile'' pairs) (\<lambda>profile.
     Option.bind (query_field ''outcome'' pairs) (\<lambda>outcome.
     Option.bind (query_field ''endpoint'' pairs) (\<lambda>endpoint.
     Option.bind (query_field ''since'' pairs) (\<lambda>since.
     Option.bind (query_field ''until'' pairs) (\<lambda>until.
       Some \<lparr>qy_list = window, qy_request_id = rid, qy_client_id = client, qy_profile = profile,
             qy_outcome = outcome, qy_endpoint = endpoint, qy_since = since, qy_until = until\<rparr>))))))))"

end
