(* ===== verification/Console_Inputs.thy ===== *)
theory Console_Inputs
  imports Console_Pages
begin

text \<open>
  The request bodies of the console (\<open>operations/admin.rs\<close>) as \<open>serde\<close> reads them, the answer to
  a body or a query string it refuses (\<open>main.rs\<close>), and the three-valued patch of a nullable column.
\<close>

section \<open>Reading a structure\<close>

text \<open>
  \<open>deny_unknown_fields\<close>: an object of known fields, or an array of the fields in order of which
  \<open>least\<close> have no default. An object that repeats a field has been refused before.
\<close>

definition struct_fields :: "nat \<Rightarrow> str list \<Rightarrow> json \<Rightarrow> (str \<times> json) list option" where
  "struct_fields least names v =
     (case v of
        JObject m \<Rightarrow> if list_all (\<lambda>e. fst e \<in> set names) m then Some m else None
      | JArray xs \<Rightarrow> if least \<le> length xs \<and> length xs \<le> length names then Some (zip names xs) else None
      | _ \<Rightarrow> None)"

definition required :: "(json \<Rightarrow> 'a option) \<Rightarrow> str \<Rightarrow> (str \<times> json) list \<Rightarrow> 'a option" where
  "required f key m = Option.bind (map_of m key) f"

definition optional :: "(json \<Rightarrow> 'a option) \<Rightarrow> str \<Rightarrow> (str \<times> json) list \<Rightarrow> 'a option option" where
  "optional f key m =
     (case map_of m key of
        None \<Rightarrow> Some None
      | Some v \<Rightarrow> if v = JNull then Some None else map_option Some (f v))"

definition time_of :: "console \<Rightarrow> json \<Rightarrow> time option" where
  "time_of c v = Option.bind (as_str v) (co_parse_time c)"

definition uuid_of :: "console \<Rightarrow> json \<Rightarrow> uuid option" where
  "uuid_of c v = Option.bind (as_str v) (co_parse_uuid c)"

definition uuids_of :: "console \<Rightarrow> json \<Rightarrow> uuid list option" where
  "uuids_of c v = Option.bind (as_array v) (\<lambda>xs. all_some (map (uuid_of c) xs))"

section \<open>Nullable patches\<close>

datatype 'a patch = Missing | Null | Given 'a

definition nullable :: "(json \<Rightarrow> 'a option) \<Rightarrow> str \<Rightarrow> (str \<times> json) list \<Rightarrow> 'a patch option" where
  "nullable f key m =
     (case map_of m key of
        None \<Rightarrow> Some Missing
      | Some v \<Rightarrow> if v = JNull then Some Null else map_option Given (f v))"

fun patch_apply :: "'a patch \<Rightarrow> 'a option \<Rightarrow> 'a option" where
  "patch_apply Missing current = current"
| "patch_apply Null current = None"
| "patch_apply (Given x) current = Some x"

fun is_missing :: "'a patch \<Rightarrow> bool" where
  "is_missing Missing = True"
| "is_missing Null = False"
| "is_missing (Given x) = False"

fun patch_value :: "'a patch \<Rightarrow> 'a option" where
  "patch_value Missing = None"
| "patch_value Null = None"
| "patch_value (Given x) = Some x"

section \<open>Upstream keys and models\<close>

record upstream_input =
  ui_label :: str
  ui_credential :: str

definition upstream_input_of :: "json \<Rightarrow> upstream_input option" where
  "upstream_input_of v =
     Option.bind (struct_fields 2 [''label'', ''credential''] v) (\<lambda>m.
     Option.bind (required as_str ''label'' m) (\<lambda>label.
     Option.bind (required as_str ''credential'' m) (\<lambda>credential.
       Some \<lparr>ui_label = label, ui_credential = credential\<rparr>)))"

record profile_probe_input =
  pp_profiles :: "str list"
  pp_confirmed :: bool

definition profile_probe_input_of :: "json \<Rightarrow> profile_probe_input option" where
  "profile_probe_input_of v =
     Option.bind (struct_fields 2 [''profile_ids'', ''confirm_billable''] v) (\<lambda>m.
     Option.bind (required strings_of ''profile_ids'' m) (\<lambda>profiles.
     Option.bind (required as_bool ''confirm_billable'' m) (\<lambda>confirmed.
       Some \<lparr>pp_profiles = profiles, pp_confirmed = confirmed\<rparr>)))"

record model_probe_input =
  mp_model :: str
  mp_upstreams :: "uuid list"
  mp_confirmed :: bool

definition model_probe_input_of :: "console \<Rightarrow> json \<Rightarrow> model_probe_input option" where
  "model_probe_input_of c v =
     Option.bind (struct_fields 3 [''model_id'', ''upstream_ids'', ''confirm_billable''] v) (\<lambda>m.
     Option.bind (required as_str ''model_id'' m) (\<lambda>model.
     Option.bind (required (uuids_of c) ''upstream_ids'' m) (\<lambda>ids.
     Option.bind (required as_bool ''confirm_billable'' m) (\<lambda>confirmed.
       Some \<lparr>mp_model = model, mp_upstreams = ids, mp_confirmed = confirmed\<rparr>))))"

section \<open>Clients\<close>

record client_input =
  ci_label :: str
  ci_scopes :: "str list"
  ci_expires_at :: "time option"
  ci_model_allowlist :: "str list option"
  ci_rpm_limit :: "nat option"
  ci_max_concurrency :: "nat option"
  ci_request_limit_day :: "nat option"

definition client_input_of :: "console \<Rightarrow> json \<Rightarrow> client_input option" where
  "client_input_of c v =
     Option.bind (struct_fields 7 [''label'', ''scopes'', ''expires_at'', ''model_allowlist'',
       ''rpm_limit'', ''max_concurrency'', ''request_limit_day''] v) (\<lambda>m.
     Option.bind (required as_str ''label'' m) (\<lambda>label.
     Option.bind (required strings_of ''scopes'' m) (\<lambda>scopes.
     Option.bind (optional (time_of c) ''expires_at'' m) (\<lambda>expires.
     Option.bind (optional strings_of ''model_allowlist'' m) (\<lambda>models.
     Option.bind (optional u32_of ''rpm_limit'' m) (\<lambda>rpm.
     Option.bind (optional u32_of ''max_concurrency'' m) (\<lambda>concurrency.
     Option.bind (optional u32_of ''request_limit_day'' m) (\<lambda>daily.
       Some \<lparr>ci_label = label, ci_scopes = scopes, ci_expires_at = expires, ci_model_allowlist = models,
             ci_rpm_limit = rpm, ci_max_concurrency = concurrency, ci_request_limit_day = daily\<rparr>))))))))"

record client_patch =
  ch_scopes :: "str list option"
  ch_expires_at :: "time patch"
  ch_model_allowlist :: "str list patch"
  ch_rpm_limit :: "nat patch"
  ch_max_concurrency :: "nat patch"
  ch_request_limit_day :: "nat patch"

definition client_patch_of :: "console \<Rightarrow> json \<Rightarrow> client_patch option" where
  "client_patch_of c v =
     Option.bind (struct_fields 1 [''scopes'', ''expires_at'', ''model_allowlist'', ''rpm_limit'',
       ''max_concurrency'', ''request_limit_day''] v) (\<lambda>m.
     Option.bind (optional strings_of ''scopes'' m) (\<lambda>scopes.
     Option.bind (nullable (time_of c) ''expires_at'' m) (\<lambda>expires.
     Option.bind (nullable strings_of ''model_allowlist'' m) (\<lambda>models.
     Option.bind (nullable u32_of ''rpm_limit'' m) (\<lambda>rpm.
     Option.bind (nullable u32_of ''max_concurrency'' m) (\<lambda>concurrency.
     Option.bind (nullable u32_of ''request_limit_day'' m) (\<lambda>daily.
       Some \<lparr>ch_scopes = scopes, ch_expires_at = expires, ch_model_allowlist = models,
             ch_rpm_limit = rpm, ch_max_concurrency = concurrency, ch_request_limit_day = daily\<rparr>)))))))"

definition invalid_allowlist :: "str list option \<Rightarrow> bool" where
  "invalid_allowlist v \<longleftrightarrow>
     is_some_and (\<lambda>items. items = [] \<or> 64 < length items \<or>
       list_ex (\<lambda>i. i = [] \<or> i \<notin> set PROFILES) items) v"

definition outside :: "nat \<Rightarrow> nat \<Rightarrow> nat option \<Rightarrow> bool" where
  "outside least most v \<longleftrightarrow> is_some_and (\<lambda>n. n < least \<or> most < n) v"

definition invalid_client_limits ::
    "time \<Rightarrow> time option \<Rightarrow> str list option \<Rightarrow> nat option \<Rightarrow> nat option \<Rightarrow> nat option \<Rightarrow> bool" where
  "invalid_client_limits now expires models rpm concurrency daily \<longleftrightarrow>
     is_some_and (\<lambda>t. t \<le> now) expires \<or> invalid_allowlist models \<or> outside 1 100000 rpm \<or>
     outside 1 64 concurrency \<or> outside 1 10000000 daily"

section \<open>Routing, incidents, settings, QA\<close>

record policy_patch =
  py_statuses :: "nat list"
  py_cooldown :: nat

definition policy_patch_of :: "json \<Rightarrow> policy_patch option" where
  "policy_patch_of v =
     Option.bind (struct_fields 2 [''retryable_statuses'', ''default_cooldown_seconds''] v) (\<lambda>m.
     Option.bind (required numbers_of ''retryable_statuses'' m) (\<lambda>statuses.
     Option.bind (required u32_of ''default_cooldown_seconds'' m) (\<lambda>cooldown.
       Some \<lparr>py_statuses = statuses, py_cooldown = cooldown\<rparr>)))"

record simulation_input =
  si_profile :: str
  si_endpoint :: str
  si_stream :: bool

definition simulation_input_of :: "json \<Rightarrow> simulation_input option" where
  "simulation_input_of v =
     Option.bind (struct_fields 3 [''profile_id'', ''endpoint'', ''stream''] v) (\<lambda>m.
     Option.bind (required as_str ''profile_id'' m) (\<lambda>profile.
     Option.bind (required as_str ''endpoint'' m) (\<lambda>endpoint.
     Option.bind (required as_bool ''stream'' m) (\<lambda>stream.
       Some \<lparr>si_profile = profile, si_endpoint = endpoint, si_stream = stream\<rparr>))))"

definition incident_input_of :: "json \<Rightarrow> incident_input option" where
  "incident_input_of v =
     Option.bind (struct_fields 6 [''slug'', ''title'', ''status'', ''severity'', ''public'', ''public_message''] v) (\<lambda>m.
     Option.bind (required as_str ''slug'' m) (\<lambda>slug.
     Option.bind (required as_str ''title'' m) (\<lambda>title.
     Option.bind (required as_str ''status'' m) (\<lambda>status.
     Option.bind (required as_str ''severity'' m) (\<lambda>severity.
     Option.bind (required as_bool ''public'' m) (\<lambda>shown.
     Option.bind (required as_str ''public_message'' m) (\<lambda>message.
       Some \<lparr>ii_slug = slug, ii_title = title, ii_status = status, ii_severity = severity,
             ii_public = shown, ii_message = message\<rparr>)))))))"

definition incident_patch_of :: "json \<Rightarrow> incident_patch option" where
  "incident_patch_of v =
     Option.bind (struct_fields 4 [''title'', ''status'', ''severity'', ''public''] v) (\<lambda>m.
     Option.bind (optional as_str ''title'' m) (\<lambda>title.
     Option.bind (optional as_str ''status'' m) (\<lambda>status.
     Option.bind (optional as_str ''severity'' m) (\<lambda>severity.
     Option.bind (optional as_bool ''public'' m) (\<lambda>shown.
       Some \<lparr>ip_title = title, ip_status = status, ip_severity = severity, ip_public = shown\<rparr>)))))"

record incident_message =
  im_status :: str
  im_message :: str

definition incident_message_of :: "json \<Rightarrow> incident_message option" where
  "incident_message_of v =
     Option.bind (struct_fields 2 [''status'', ''public_message''] v) (\<lambda>m.
     Option.bind (required as_str ''status'' m) (\<lambda>status.
     Option.bind (required as_str ''public_message'' m) (\<lambda>message.
       Some \<lparr>im_status = status, im_message = message\<rparr>)))"

definition settings_patch_of :: "json \<Rightarrow> settings_patch option" where
  "settings_patch_of v =
     Option.bind (struct_fields 4 [''proof_freshness_seconds'', ''request_retention_days'',
       ''metric_retention_days'', ''public_incidents_enabled''] v) (\<lambda>m.
     Option.bind (optional u32_of ''proof_freshness_seconds'' m) (\<lambda>freshness.
     Option.bind (optional u32_of ''request_retention_days'' m) (\<lambda>requests.
     Option.bind (optional u32_of ''metric_retention_days'' m) (\<lambda>metrics.
     Option.bind (optional as_bool ''public_incidents_enabled'' m) (\<lambda>shown.
       Some \<lparr>sa_freshness = freshness, sa_request_retention = requests, sa_metric_retention = metrics,
             sa_public_incidents = shown\<rparr>)))))"

record qa_input =
  qi_suite :: str
  qi_live :: bool
  qi_confirmed :: bool

definition qa_input_of :: "json \<Rightarrow> qa_input option" where
  "qa_input_of v =
     Option.bind (struct_fields 3 [''suite'', ''live'', ''confirm_billable''] v) (\<lambda>m.
     Option.bind (required as_str ''suite'' m) (\<lambda>suite.
     Option.bind (required as_bool ''live'' m) (\<lambda>live.
     Option.bind (required as_bool ''confirm_billable'' m) (\<lambda>confirmed.
       Some \<lparr>qi_suite = suite, qi_live = live, qi_confirmed = confirmed\<rparr>))))"

section \<open>What an extractor refuses\<close>

definition extractor_error :: "console \<Rightarrow> http_request \<Rightarrow> str \<Rightarrow> str \<Rightarrow> http_response" where
  "extractor_error c req error_code message =
     (if starts_with ''/admin/api/v2/'' (rq_path req)
      then refuse c req 422 error_code message
      else if starts_with ''/api/public/'' (rq_path req)
      then json_response 422 []
        (JObject [(''error'', JObject [(''code'', JString error_code), (''message'', JString message),
           (''request_id'', uuid_json (request_id (co_fresh_id c) req)), (''retryable'', JBool False)])])
      else openai_error 400 message ''invalid_request_error'' error_code)"

text \<open>\<open>None\<close> is a body of another type, too long, or not JSON.\<close>

definition with_body ::
    "console \<Rightarrow> http_request \<Rightarrow> (json \<Rightarrow> 'i option) \<Rightarrow> json option \<Rightarrow> ('i \<Rightarrow> 'a handler) \<Rightarrow> 'a handler" where
  "with_body c req decode body f =
     (case Option.bind body decode of
        None \<Rightarrow> answer (extractor_error c req ''invalid_json''
          ''The JSON request body does not match the API contract.'')
      | Some i \<Rightarrow> f i)"

definition with_path_id :: "console \<Rightarrow> http_request \<Rightarrow> str \<Rightarrow> (uuid \<Rightarrow> 'a handler) \<Rightarrow> 'a handler" where
  "with_path_id c req segment f =
     (case co_parse_uuid c segment of
        None \<Rightarrow> answer (extractor_error c req ''invalid_path_parameter''
          ''One or more path parameters are invalid.'')
      | Some i \<Rightarrow> f i)"

definition with_query ::
    "console \<Rightarrow> http_request \<Rightarrow> ((str \<times> str) list \<Rightarrow> 'q option) \<Rightarrow> (str \<times> str) list \<Rightarrow> ('q \<Rightarrow> 'a handler) \<Rightarrow> 'a handler" where
  "with_query c req decode pairs f =
     (case decode pairs of
        None \<Rightarrow> answer (extractor_error c req ''invalid_query_parameter''
          ''One or more query parameters are invalid.'')
      | Some q \<Rightarrow> f q)"

end
