(* ===== verification/Console_Handlers.thy ===== *)
theory Console_Handlers
  imports Console_Inputs
begin

text \<open>
  The console's handlers that do not touch the vault (\<open>operations/admin.rs\<close>): the guard, the
  lists and single views, the routing simulation, the attentions, and the mutations of the routing
  policy, the catalogue, the incidents, the settings and the QA runs.
\<close>

section \<open>Guard and answers\<close>

definition console_guard :: "console \<Rightarrow> http_request \<Rightarrow> unit handler" where
  "console_guard c req =
     (if \<not> admin_surface_allowed_for_port req (co_public_port c)
      then answer \<lparr>rp_status = 404, rp_headers = [], rp_body = http_body.No_body\<rparr>
      else if \<not> authorized (co_admin_token c) (co_public_port c) req
      then answer (insert_header ''www-authenticate'' ''Bearer realm=\"nvidia-build-lb-admin\"''
             (refuse c req 401 ''invalid_admin_token'' ''Invalid admin token.''))
      else yield_ok ())"

definition pool :: "console \<Rightarrow> http_request \<Rightarrow> unit handler" where
  "pool c req = do {
     d \<leftarrow> observe w_db;
     case d of
       None \<Rightarrow> answer (failure c req ''database_unavailable'' ''The operations database is unavailable.'')
     | Some _ \<Rightarrow> yield_ok ()
   }"

definition no_store :: "http_response \<Rightarrow> http_response" where
  "no_store r = insert_header ''cache-control'' ''no-store'' r"

definition reply_json :: "nat \<Rightarrow> json \<Rightarrow> http_response handler" where
  "reply_json status v = yield_ok (no_store (json_response status [] v))"

text \<open>\<open>match read.await { Ok(x) => f(x), Err(_) => return refused }\<close>.\<close>

definition loaded :: "'a option program \<Rightarrow> http_response \<Rightarrow> ('a \<Rightarrow> 'b handler) \<Rightarrow> 'b handler" where
  "loaded m refused f = do { r \<leftarrow> m; case r of None \<Rightarrow> answer refused | Some x \<Rightarrow> f x }"

definition accepted :: "http_response + 'a \<Rightarrow> ('a \<Rightarrow> 'b handler) \<Rightarrow> 'b handler" where
  "accepted r f = (case r of Inl e \<Rightarrow> answer e | Inr x \<Rightarrow> f x)"

definition with_guard :: "console \<Rightarrow> http_request \<Rightarrow> 'a handler \<Rightarrow> 'a handler" where
  "with_guard c req m = and_then (console_guard c req) (\<lambda>_. m)"

definition with_pool :: "console \<Rightarrow> http_request \<Rightarrow> 'a handler \<Rightarrow> 'a handler" where
  "with_pool c req m = and_then (pool c req) (\<lambda>_. m)"

definition rid_of :: "console \<Rightarrow> http_request \<Rightarrow> uuid" where
  "rid_of c req = request_id (co_fresh_id c) req"

section \<open>Lists\<close>

definition reply_page :: "console \<Rightarrow> json list \<times> str option \<Rightarrow> http_response handler" where
  "reply_page c page = and_then (do { now \<leftarrow> clock_now; yield_ok now }) (\<lambda>now.
     reply_json 200 (page_json c now (fst page) (snd page)))"

text \<open>The macro \<open>keyset_list_handler\<close>, and the handlers written out in its shape.\<close>

definition keyset_list ::
    "console \<Rightarrow> http_request \<Rightarrow> list_query \<Rightarrow> str \<Rightarrow> (page_key option \<Rightarrow> nat \<Rightarrow> 'a list option program) \<Rightarrow>
     ('a \<Rightarrow> page_key) \<Rightarrow> ('a \<Rightarrow> json) \<Rightarrow> http_response \<Rightarrow> http_response handler" where
  "keyset_list c req q kind rows key show_item refused =
     with_guard c req (with_pool c req (accepted (keyset_window c req q kind) (\<lambda>(limit, before).
       loaded (rows before (limit + 1)) refused (\<lambda>items.
         case keyset_page c items limit kind key of
           (page, following) \<Rightarrow> reply_page c (map show_item page, following)))))"

definition offset_list ::
    "console \<Rightarrow> http_request \<Rightarrow> list_query \<Rightarrow> 'a list option program \<Rightarrow> ('a \<Rightarrow> json) \<Rightarrow> http_response \<Rightarrow>
     http_response handler" where
  "offset_list c req q rows show_item refused =
     with_guard c req (with_pool c req (accepted (list_window c req q) (\<lambda>window.
       loaded rows refused (\<lambda>items.
         case paginate c items window of
           (page, following) \<Rightarrow> reply_page c (map show_item page, following)))))"

definition list_upstreams :: "console \<Rightarrow> http_request \<Rightarrow> list_query \<Rightarrow> http_response handler" where
  "list_upstreams c req q = offset_list c req q upstreams (upstream_json c)
     (failure c req ''upstreams_unavailable'' ''Upstreams are unavailable.'')"

definition list_models :: "console \<Rightarrow> http_request \<Rightarrow> list_query \<Rightarrow> http_response handler" where
  "list_models c req q = offset_list c req q admin_models (model_json c)
     (failure c req ''models_unavailable'' ''Models are unavailable.'')"

definition list_clients :: "console \<Rightarrow> http_request \<Rightarrow> list_query \<Rightarrow> http_response handler" where
  "list_clients c req q = keyset_list c req q ''clients'' clients_page
     (\<lambda>v. (cl_created_at v, cl_id v)) (client_json c)
     (failure c req ''clients_unavailable'' ''Clients are unavailable.'')"

definition list_probes :: "console \<Rightarrow> http_request \<Rightarrow> list_query \<Rightarrow> http_response handler" where
  "list_probes c req q = keyset_list c req q ''probes'' probes_page probe_key (probe_json c)
     (failure c req ''probes_unavailable'' ''Probe runs are unavailable.'')"

definition list_audit :: "console \<Rightarrow> http_request \<Rightarrow> list_query \<Rightarrow> http_response handler" where
  "list_audit c req q = keyset_list c req q ''audit'' audit_events_page audit_key (audit_json c)
     (failure c req ''audit_unavailable'' ''Audit events are unavailable.'')"

definition list_incidents :: "console \<Rightarrow> http_request \<Rightarrow> list_query \<Rightarrow> http_response handler" where
  "list_incidents c req q = keyset_list c req q ''incidents'' incidents_page
     (\<lambda>v. incident_key (iv_row v)) (incident_json c)
     (failure c req ''incidents_unavailable'' ''Incidents are unavailable.'')"

text \<open>The rows and the aggregate are read side by side and fail together.\<close>

definition list_requests :: "console \<Rightarrow> http_request \<Rightarrow> request_query \<Rightarrow> http_response handler" where
  "list_requests c req q =
     with_guard c req (with_pool c req (accepted (keyset_window c req (qy_list q) ''requests'') (\<lambda>(limit, before).
       accepted (request_filters_of c req q) (\<lambda>filters.
         loaded (then_read (requests_page before (limit + 1) filters) (\<lambda>items.
             then_read (request_aggregate filters) (\<lambda>aggregate. State_Monad.return (Some (items, aggregate)))))
           (failure c req ''requests_unavailable'' ''Requests are unavailable.'') (\<lambda>(items, aggregate).
             case keyset_page c items limit ''requests'' (\<lambda>v. (vr_started_at v, vr_request_id v)) of
               (page, following) \<Rightarrow> and_then (do { now \<leftarrow> clock_now; yield_ok now }) (\<lambda>now.
                 reply_json 200 (JObject [(''aggregate'', aggregate_json aggregate),
                   (''items'', JArray (map (request_view_json c) page)),
                   (''next_before'', opt JString following), (''snapshot'', snapshot_json c now)])))))))"

definition list_qa_runs :: "console \<Rightarrow> http_request \<Rightarrow> list_query \<Rightarrow> http_response handler" where
  "list_qa_runs c req q =
     with_guard c req (with_pool c req (accepted (keyset_window c req q ''qa-runs'') (\<lambda>(limit, before). do {
       items \<leftarrow> qa_runs (limit + 1) before;
       completion \<leftarrow> qa_completion (co_commit c) REQUIRED_SUITES;
       now \<leftarrow> clock_now;
       case (items, completion) of
         (Some items, Some completion) \<Rightarrow>
           (case keyset_page c items limit ''qa-runs'' (\<lambda>v. qa_key (qv_run v)) of
              (page, following) \<Rightarrow>
                reply_json 200 (JObject [(''snapshot'', snapshot_json c now),
                  (''deployment_commit'', JString (co_commit c)), (''items'', JArray (map (qa_json c) page)),
                  (''completion'', JArray (map (completion_json c) completion)),
                  (''next_before'', opt JString following)]))
       | _ \<Rightarrow> answer (failure c req ''qa_unavailable'' ''QA runs are unavailable.'')
     })))"

section \<open>Single views\<close>

definition get_one ::
    "console \<Rightarrow> http_request \<Rightarrow> 'a option option program \<Rightarrow> ('a \<Rightarrow> json) \<Rightarrow> str \<Rightarrow> http_response \<Rightarrow>
     http_response handler" where
  "get_one c req item show_item kind refused =
     with_guard c req (with_pool c req (loaded item refused (\<lambda>found.
       case found of None \<Rightarrow> answer (not_found c req kind) | Some x \<Rightarrow> reply_json 200 (show_item x))))"

definition get_upstream :: "console \<Rightarrow> http_request \<Rightarrow> uuid \<Rightarrow> http_response handler" where
  "get_upstream c req i = get_one c req (upstream_view_of i) (upstream_json c) ''upstream''
     (failure c req ''upstreams_unavailable'' ''Upstream is unavailable.'')"

definition get_client :: "console \<Rightarrow> http_request \<Rightarrow> uuid \<Rightarrow> http_response handler" where
  "get_client c req i = get_one c req (client_view_of i) (client_json c) ''client''
     (failure c req ''clients_unavailable'' ''Client is unavailable.'')"

definition get_request :: "console \<Rightarrow> http_request \<Rightarrow> uuid \<Rightarrow> http_response handler" where
  "get_request c req i = get_one c req (request_view_of i) (request_view_json c) ''request''
     (failure c req ''requests_unavailable'' ''Request is unavailable.'')"

definition get_probe :: "console \<Rightarrow> http_request \<Rightarrow> uuid \<Rightarrow> http_response handler" where
  "get_probe c req i = get_one c req (probe_of i) (probe_json c) ''probe''
     (failure c req ''probes_unavailable'' ''Probe is unavailable.'')"

definition get_qa_run :: "console \<Rightarrow> http_request \<Rightarrow> uuid \<Rightarrow> http_response handler" where
  "get_qa_run c req i = get_one c req (qa_run i) (qa_json c) ''qa_run''
     (failure c req ''qa_unavailable'' ''QA run is unavailable.'')"

definition get_routing_policy :: "console \<Rightarrow> http_request \<Rightarrow> http_response handler" where
  "get_routing_policy c req = with_guard c req (with_pool c req (loaded load_policy
     (failure c req ''routing_policy_unavailable'' ''Routing policy is unavailable.'')
     (\<lambda>p. reply_json 200 (policy_json p))))"

definition get_settings :: "console \<Rightarrow> http_request \<Rightarrow> http_response handler" where
  "get_settings c req = with_guard c req (with_pool c req (loaded load_settings
     (failure c req ''settings_unavailable'' ''Settings are unavailable.'')
     (\<lambda>s. reply_json 200 (settings_json s))))"

section \<open>Routing simulation\<close>

text \<open>The slot the cursor names comes first, then the slots in order.\<close>

definition simulated_order :: "nat \<Rightarrow> upstream_view list \<Rightarrow> upstream_view list" where
  "simulated_order slot items = sort_key (\<lambda>u. (up_slot u \<noteq> slot, up_slot u)) items"

definition routing_slot_or_first :: "str \<Rightarrow> nat program" where
  "routing_slot_or_first profile = do {
     r \<leftarrow> db_read (\<lambda>_ d. routing_slot profile d);
     State_Monad.return (case r of Some (Some slot) \<Rightarrow> slot | _ \<Rightarrow> 1)
   }"

definition simulation_json :: "simulation_input \<Rightarrow> upstream_view list \<Rightarrow> json" where
  "simulation_json input ordered =
     (let selected = (case ordered of [] \<Rightarrow> None | u # _ \<Rightarrow> Some (up_slot u))
      in JObject
        [(''eligible_order'', JArray (map (\<lambda>u. uuid_json (up_id u)) ordered)),
         (''reason_codes'', strs ((if ordered = [] then [''no_eligible_upstream''] else [])
            @ (if si_stream input then [''first_frame_boundary_applies''] else []))),
         (''retry_allowed'', JBool (si_endpoint input \<notin> set [''/v1/images/generations'', ''/v1/videos/generations''])),
         (''selected_slot'', opt num selected),
         (''would_advance_generation'', JBool (selected \<noteq> None)),
         (''would_persist'', JBool False)])"

definition simulate_routing :: "console \<Rightarrow> http_request \<Rightarrow> simulation_input \<Rightarrow> http_response handler" where
  "simulate_routing c req input =
     (let refused = failure c req ''routing_unavailable'' ''Routing simulation is unavailable.''
      in with_guard c req
        (if si_profile input \<notin> set PROFILES
         then answer (invalid c req ''invalid_profile'' ''The profile is not supported.'')
         else with_pool c req (loaded upstreams refused (\<lambda>items.
           loaded (eligible_key_ids (si_profile input)) refused (\<lambda>ids. do {
             slot \<leftarrow> routing_slot_or_first (si_profile input);
             reply_json 200 (simulation_json input
               (simulated_order slot (filter (\<lambda>u. up_id u \<in> set ids) items)))
           })))))"

section \<open>Attentions\<close>

definition attention_of :: "str \<Rightarrow> str \<Rightarrow> str \<Rightarrow> attention" where
  "attention_of severity error_code href =
     \<lparr>an_severity = severity, an_code = error_code, an_href = href\<rparr>"

text \<open>A read whose failure counts as the given answer (\<open>unwrap_or\<close>).\<close>

definition read_or :: "'a \<Rightarrow> 'a option program \<Rightarrow> 'a program" where
  "read_or fallback m = do { r \<leftarrow> m; State_Monad.return (unwrap_or fallback r) }"

definition owner_lease_ready :: "bool program" where
  "owner_lease_ready = do {
     owner \<leftarrow> observe w_owner;
     case owner of
       None \<Rightarrow> State_Monad.return False
     | Some i \<Rightarrow> read_or False (db_read (\<lambda>now d. live_instance now d (Some i)))
   }"

definition passed_suites :: "str \<Rightarrow> db \<Rightarrow> nat" where
  "passed_suites deployed d =
     length (remdups (map qr_suite (filter (\<lambda>r. authoritative deployed r \<and> qr_status r = ''passed'') (db_qa_runs d))))"

definition hermes_passed :: "str \<Rightarrow> db \<Rightarrow> bool" where
  "hermes_passed deployed d \<longleftrightarrow>
     list_ex (\<lambda>r. qr_suite r = ''hermes-e2e'' \<and> authoritative deployed r \<and> qr_status r = ''passed'') (db_qa_runs d)"

text \<open>Finished requests of the last day: how many, their failovers, those with an attempt answered 429.\<close>

definition day_sample :: "time \<Rightarrow> db \<Rightarrow> nat \<times> nat \<times> nat" where
  "day_sample now d =
     (let rows = filter (\<lambda>r. now - secs 86400 \<le> pr_started_at r \<and> pr_finished_at r \<noteq> None) (db_requests d)
      in (length rows, sum_list (map pr_failover rows),
          length (filter (\<lambda>r. list_ex (\<lambda>a. ra_parent a = Some (pr_request_id r) \<and> ra_status a = Some 429)
            (db_attempts d)) rows)))"

definition elevated :: "nat \<Rightarrow> nat \<Rightarrow> bool" where
  "elevated sample n \<longleftrightarrow> 20 \<le> sample \<and> sample \<le> 10 * n"

definition attention_list ::
    "bool \<Rightarrow> upstream_view list \<Rightarrow> client_view list \<Rightarrow> model_view list \<Rightarrow> nat \<Rightarrow> bool \<Rightarrow> nat \<times> nat \<times> nat \<Rightarrow>
     attention list" where
  "attention_list owner_ready ups cls models passed hermes sample =
     (case sample of (n, failovers, limited) \<Rightarrow>
       (if owner_ready then [] else [attention_of ''critical'' ''owner_lease_stale'' []]) @
       (if filter up_eligible ups = []
        then [attention_of ''critical'' ''no_eligible_upstream'' ''/admin/upstreams''] else []) @
       (if list_ex (\<lambda>u. \<not> up_retired u \<and> \<not> up_verified u) ups
        then [attention_of ''warning'' ''probe_required'' ''/admin/upstreams''] else []) @
       (if length (filter (\<lambda>u. \<not> up_retired u) ups) < 2
        then [attention_of ''warning'' ''second_slot_missing'' ''/admin/upstreams''] else []) @
       (if list_ex (\<lambda>m. mv_status m = ''proof_required'') models
        then [attention_of ''warning'' ''profile_proof_missing'' ''/admin/models''] else []) @
       (if \<not> list_ex cl_active cls
        then [attention_of ''warning'' ''downstream_client_missing'' ''/admin/clients''] else []) @
       (if passed < 6 then [attention_of ''warning'' ''qa_incomplete'' ''/admin/qa''] else []) @
       (if \<not> hermes then [attention_of ''info'' ''hermes_unverified'' ''/admin/qa''] else []) @
       (if list_ex (\<lambda>m. list_ex pf_stale (mv_proofs m)) models
        then [attention_of ''warning'' ''proof_stale'' ''/admin/probes''] else []) @
       (if elevated n failovers
        then [attention_of ''warning'' ''elevated_failover'' ''/admin/routing''] else []) @
       (if elevated n limited
        then [attention_of ''warning'' ''elevated_rate_limit'' ''/admin/routing''] else []))"

definition current_attentions :: "console \<Rightarrow> attention list option program" where
  "current_attentions c =
     then_read upstreams (\<lambda>ups. then_read clients (\<lambda>cls. then_read admin_models (\<lambda>models. do {
       owner_ready \<leftarrow> owner_lease_ready;
       passed \<leftarrow> read_or 0 (db_read (\<lambda>_. passed_suites (co_commit c)));
       hermes \<leftarrow> read_or False (db_read (\<lambda>_. hermes_passed (co_commit c)));
       sample \<leftarrow> read_or (0, 0, 0) (db_read day_sample);
       State_Monad.return (Some (attention_list owner_ready ups cls models passed hermes sample))
     })))"

text \<open>The first attention is the overview's own; the list shows the others.\<close>

definition attentions :: "console \<Rightarrow> http_request \<Rightarrow> http_response handler" where
  "attentions c req =
     with_guard c req (with_pool c req (loaded (current_attentions c)
       (failure c req ''attentions_unavailable'' ''Attentions are unavailable.'') (\<lambda>items.
         and_then (do { now \<leftarrow> clock_now; yield_ok now }) (\<lambda>now.
           reply_json 200 (JObject [(''items'', JArray (map (attention_json c) (drop 1 items))),
             (''next_before'', JNull), (''snapshot'', snapshot_json c now)])))))"

section \<open>Mutations of the tables\<close>

definition reply_audited :: "nat \<Rightarrow> ('a \<Rightarrow> json) \<Rightarrow> 'a \<times> uuid \<Rightarrow> http_response handler" where
  "reply_audited status show_item r = reply_json status (audited_json (show_item (fst r)) (snd r))"

definition change_routing_policy :: "console \<Rightarrow> http_request \<Rightarrow> policy_patch \<Rightarrow> http_response handler" where
  "change_routing_policy c req p =
     with_guard c req
       (if py_cooldown p = 0 \<or> 3600 < py_cooldown p \<or> py_statuses p = []
        then answer (invalid c req ''invalid_routing_policy'' ''The routing policy is outside the supported bounds.'')
        else with_pool c req (loaded (update_routing_policy (py_statuses p) (py_cooldown p) (rid_of c req))
          (failure c req ''routing_policy_unavailable'' ''Routing policy could not be updated.'')
          (reply_audited 200 policy_json)))"

definition sync_models :: "console \<Rightarrow> http_request \<Rightarrow> http_response handler" where
  "sync_models c req =
     with_guard c req (with_pool c req (loaded (sync_model_catalog (rid_of c req))
       (failure c req ''models_unavailable'' ''Model catalog could not be synchronized.'') (\<lambda>(items, audit).
         reply_json 200 (JObject [(''audit_event_id'', uuid_json audit), (''items'', JArray (map (model_json c) items))]))))"

definition open_incident :: "console \<Rightarrow> http_request \<Rightarrow> incident_input \<Rightarrow> http_response handler" where
  "open_incident c req input =
     with_guard c req (with_pool c req (loaded (create_incident input (rid_of c req))
       (invalid c req ''invalid_incident'' ''The incident fields are invalid or the slug already exists.'')
       (reply_audited 201 (incident_json c))))"

definition change_incident_fields ::
    "console \<Rightarrow> http_request \<Rightarrow> uuid \<Rightarrow> incident_patch \<Rightarrow> http_response handler" where
  "change_incident_fields c req i p =
     with_guard c req (with_pool c req
       (if ip_title p = None \<and> ip_status p = None \<and> ip_severity p = None \<and> ip_public p = None
        then answer (invalid c req ''empty_patch'' ''At least one incident field is required.'')
        else loaded (update_incident i p (rid_of c req))
          (invalid c req ''invalid_incident'' ''The incident could not be updated.'')
          (reply_audited 200 (incident_json c))))"

definition post_incident_update ::
    "console \<Rightarrow> http_request \<Rightarrow> uuid \<Rightarrow> incident_message \<Rightarrow> http_response handler" where
  "post_incident_update c req i m =
     with_guard c req (with_pool c req
       (loaded (create_incident_update i (im_status m) (im_message m) (rid_of c req))
          (invalid c req ''invalid_incident_update'' ''The incident update is invalid.'')
          (reply_audited 201 (incident_json c))))"

definition change_settings :: "console \<Rightarrow> http_request \<Rightarrow> settings_patch \<Rightarrow> http_response handler" where
  "change_settings c req p =
     with_guard c req
       (if sa_freshness p = None \<and> sa_request_retention p = None \<and> sa_metric_retention p = None
           \<and> sa_public_incidents p = None
        then answer (invalid c req ''invalid_settings'' ''At least one setting is required.'')
        else with_pool c req
          (if outside 300 2592000 (sa_freshness p) \<or> outside 7 90 (sa_request_retention p)
              \<or> outside 7 365 (sa_metric_retention p)
           then answer (invalid c req ''invalid_settings'' ''One or more settings are outside the supported range.'')
           else loaded (update_settings p (rid_of c req))
             (failure c req ''settings_unavailable'' ''Settings could not be updated.'')
             (reply_audited 200 settings_json)))"

definition hermes_refused :: "console \<Rightarrow> http_request \<Rightarrow> http_response" where
  "hermes_refused c req = refuse c req 422 ''hermes_live_required'' ''Hermes E2E QA requires live mode.''"

definition qa_refused :: "console \<Rightarrow> http_request \<Rightarrow> qa_error \<Rightarrow> http_response" where
  "qa_refused c req e =
     (case e of
        Unsupported_suite \<Rightarrow> refuse c req 422 ''invalid_qa_suite'' ''The requested QA suite is not supported.''
      | Hermes_live_required \<Rightarrow> hermes_refused c req
      | Active_run i \<Rightarrow> operations_error (co_fresh_id c) req 409 ''qa_run_active''
          ''Another QA run is already queued or running.'' True
          (Some (JObject [(''active_run_id'', uuid_json i)]))
      | Internal \<Rightarrow> failure c req ''qa_unavailable'' ''QA run could not be created.'')"

text \<open>An accepted run is handed to the QA runner (\<open>Qa_Runner.spawn_run\<close>).\<close>

definition start_qa_run :: "console \<Rightarrow> http_request \<Rightarrow> qa_input \<Rightarrow> http_response handler" where
  "start_qa_run c req input =
     with_guard c req (with_pool c req
       (if qi_live input \<and> \<not> live_qa_provider_is_canonical (co_parse_url c) (gw_magpie_url (co_gateway c))
             (gw_upstream_url (co_gateway c))
        then answer (refuse c req 422 ''live_nvidia_provider_required''
          ''Live QA requires canonical NVIDIA hosted API endpoints.'')
        else if qi_live input \<and> qi_suite input = ''multimodal'' \<and> \<not> qi_confirmed input
        then answer (refuse c req 409 ''billable_confirmation_required''
          ''Live multimodal QA requires explicit billable confirmation.'')
        else if \<not> qi_live input \<and> qi_suite input = ''hermes-e2e''
        then answer (hermes_refused c req)
        else do {
          r \<leftarrow> create_qa_run c (qi_suite input) (qi_live input)
                (if qi_live input then Nvidia_hosted else Fake) (rid_of c req);
          case r of
            Inl e \<Rightarrow> answer (qa_refused c req e)
          | Inr (v, audit) \<Rightarrow> do {
              _ \<leftarrow> modify (\<lambda>w. w\<lparr>w_qa_runs := w_qa_runs w @ [qr_id (qv_run v)]\<rparr>);
              reply_json 202 (audited_json (qa_json c v) audit)
            }
        }))"

end
