(* ===== verification/Console_Vault.thy ===== *)
theory Console_Vault
  imports Console_Handlers
begin

text \<open>
  The console's handlers that change the vault (\<open>operations/admin.rs\<close>): upstream keys, their
  provider probes, and clients. Each change goes through \<open>mutate_with_audit\<close>, so the vault, its
  tables and the audit row move together. The last section is the router of the console.
\<close>

section \<open>Errors of the store\<close>

text \<open>
  The text of the error as the handlers search it: the vault's own error passes unwrapped, a failed
  synchronisation is wrapped, a failed write of the rollback is the file system's.
\<close>

definition vault_error_text :: "vault_error \<Rightarrow> str" where
  "vault_error_text e =
     (case e of
        Read_vault \<Rightarrow> ''read vault'' | Decode_vault \<Rightarrow> ''decode vault''
      | Unsupported_version \<Rightarrow> ''unsupported vault version''
      | Too_many_upstreams \<Rightarrow> ''at most two upstream credentials are supported''
      | Duplicate_fingerprints \<Rightarrow> ''upstream credentials must have distinct fingerprints''
      | Invalid_upstream_row \<Rightarrow> ''invalid encrypted upstream row''
      | Invalid_downstream_digest \<Rightarrow> ''invalid downstream digest''
      | Decode_fingerprint \<Rightarrow> ''decode key fingerprint'' | Decode_nonce \<Rightarrow> ''decode key nonce''
      | Decode_ciphertext \<Rightarrow> ''decode key ciphertext'' | Decode_digest \<Rightarrow> ''decode downstream digest''
      | Label_invalid \<Rightarrow> ''label is invalid'' | Downstream_label_invalid \<Rightarrow> ''downstream label is invalid''
      | Credential_shape_invalid \<Rightarrow> ''credential shape is invalid''
      | Upstream_exists \<Rightarrow> ''upstream credential already exists''
      | Upstream_label_exists \<Rightarrow> ''upstream label already exists''
      | Encryption_failed \<Rightarrow> ''credential encryption failed''
      | Downstream_label_exists \<Rightarrow> ''downstream label already exists''
      | Downstream_not_found \<Rightarrow> ''downstream credential not found''
      | Scopes_invalid \<Rightarrow> ''scopes are invalid'' | Scopes_not_unique \<Rightarrow> ''scopes must be unique''
      | Invalid_downstream_credential \<Rightarrow> ''invalid downstream credential''
      | Auth_error a \<Rightarrow>
          (case a of InvalidCredential \<Rightarrow> ''invalid downstream credential''
           | InsufficientScope \<Rightarrow> ''insufficient scope'')
      | Key_not_found \<Rightarrow> ''key not found''
      | Probe_required \<Rightarrow> ''provider probe is required before enabling key''
      | Key_cooling_down \<Rightarrow> ''key is cooling down''
      | Invalid_nonce \<Rightarrow> ''invalid credential nonce'' | Decryption_failed \<Rightarrow> ''credential decryption failed''
      | Credential_utf8 \<Rightarrow> ''credential utf8'' | Persist_failed \<Rightarrow> ''write vault'')"

definition store_error_text :: "store_error \<Rightarrow> str" where
  "store_error_text e =
     (case e of
        Operation v \<Rightarrow> vault_error_text v
      | Not_exported _ \<Rightarrow> ''rollback audited vault mutation''
      | Not_synced \<Rightarrow> ''rollback audited vault mutation''
      | Rollback_failed \<Rightarrow> ''write vault''
      | Needs_database \<Rightarrow> ''audited mutation requires PostgreSQL'')"

definition mentions :: "str \<Rightarrow> store_error \<Rightarrow> bool" where
  "mentions words e \<longleftrightarrow> has_sub words (store_error_text e)"

definition plain_audit :: "str \<Rightarrow> str \<Rightarrow> uuid option \<Rightarrow> uuid \<Rightarrow> json \<Rightarrow> audit_mutation" where
  "plain_audit action kind i rid detail =
     \<lparr>am_action = action, am_resource_kind = kind, am_resource_id = i, am_request_id = rid,
      am_detail = detail, am_client_policy = None, am_probe = None\<rparr>"

definition CHANGED :: json where "CHANGED = JObject [(''changed'', JBool True)]"
definition POLICY_UPDATED :: json where "POLICY_UPDATED = JObject [(''policy_updated'', JBool True)]"

text \<open>\<open>match store.mutate_with_audit(..).await { Ok(r) => f(r), Err(e) => return refused(e) }\<close>.\<close>

definition mutated ::
    "console \<Rightarrow> (env \<Rightarrow> vault \<Rightarrow> (vault_error + 'a) \<times> vault) \<Rightarrow> ('a \<Rightarrow> audit_mutation) \<Rightarrow>
     (store_error \<Rightarrow> http_response) \<Rightarrow> ('a \<Rightarrow> uuid \<Rightarrow> 'b handler) \<Rightarrow> 'b handler" where
  "mutated c operation audit_for refused f = do {
     r \<leftarrow> mutate_with_audit (co_gateway c) operation audit_for;
     case r of Inl e \<Rightarrow> answer (refused e) | Inr (x, audit) \<Rightarrow> f x audit
   }"

text \<open>\<open>match read.await { Ok(Some(item)) => f(item), _ => return refused }\<close>.\<close>

definition found :: "'a option option program \<Rightarrow> http_response \<Rightarrow> ('a \<Rightarrow> 'b handler) \<Rightarrow> 'b handler" where
  "found m refused f = do { r \<leftarrow> m; case r of Some (Some x) \<Rightarrow> f x | _ \<Rightarrow> answer refused }"

section \<open>Upstream keys\<close>

definition create_upstream :: "console \<Rightarrow> http_request \<Rightarrow> upstream_input \<Rightarrow> http_response handler" where
  "create_upstream c req input =
     with_guard c req (with_pool c req (mutated c
       (\<lambda>e. add (gw_crypto (co_gateway c)) e (ui_label input) (ui_credential input))
       (\<lambda>summary. plain_audit ''upstream.create'' ''upstream'' (Some (ks_id summary)) (rid_of c req) CHANGED)
       (\<lambda>e. if mentions ''already exists'' e \<or> mentions ''at most two'' e
            then refuse c req 409 ''resource_conflict''
              ''No empty upstream slot is available or this credential already exists.''
            else invalid c req ''invalid_upstream'' ''The upstream label or credential is invalid.'')
       (\<lambda>summary audit. found (upstream_view_of (ks_id summary))
         (failure c req ''upstream_unavailable'' ''The created upstream could not be loaded.'')
         (\<lambda>item. reply_audited 201 (upstream_json c) (item, audit)))))"

definition set_upstream_state :: "console \<Rightarrow> http_request \<Rightarrow> uuid \<Rightarrow> bool \<Rightarrow> http_response handler" where
  "set_upstream_state c req i enabled =
     with_pool c req (mutated c
       (\<lambda>e. set_enabled e i enabled)
       (\<lambda>_. plain_audit (if enabled then ''upstream.enable'' else ''upstream.disable'') ''upstream'' (Some i)
          (rid_of c req) CHANGED)
       (\<lambda>e. if mentions ''probe'' e
            then refuse c req 409 ''probe_required'' ''Provider probe is required before enabling this upstream.''
            else not_found c req ''upstream'')
       (\<lambda>_ audit. found (upstream_view_of i) (not_found c req ''upstream'')
         (\<lambda>item. reply_audited 200 (upstream_json c) (item, audit))))"

definition enable_upstream :: "console \<Rightarrow> http_request \<Rightarrow> uuid \<Rightarrow> http_response handler" where
  "enable_upstream c req i = with_guard c req (set_upstream_state c req i True)"

definition disable_upstream :: "console \<Rightarrow> http_request \<Rightarrow> uuid \<Rightarrow> http_response handler" where
  "disable_upstream c req i = with_guard c req (set_upstream_state c req i False)"

definition retire_upstream :: "console \<Rightarrow> http_request \<Rightarrow> uuid \<Rightarrow> http_response handler" where
  "retire_upstream c req i =
     with_guard c req (mutated c (\<lambda>e. delete e i)
       (\<lambda>_. plain_audit ''upstream.retire'' ''upstream'' (Some i) (rid_of c req) CHANGED)
       (\<lambda>_. not_found c req ''upstream'')
       (\<lambda>_ audit. reply_json 200 (JObject [(''audit_event_id'', uuid_json audit),
          (''item'', JObject [(''id'', uuid_json i), (''retired'', JBool True)])])))"

section \<open>Provider probes\<close>

definition TINY_PNG :: str where
  "TINY_PNG = ''data:image/png;base64,iVBORw0KGgoAAAANSUhEUgAAAAEAAAABCAQAAAC1HAwCAAAAC0lEQVR42mNk+A8AAQUBAScY42YAAAAASUVORK5CYII=''"

definition user_text :: "json \<Rightarrow> json" where
  "user_text content = JArray [JObject [(''content'', content), (''role'', JString ''user'')]]"

definition text_and_image :: "str \<Rightarrow> json" where
  "text_and_image words = JArray
     [JObject [(''text'', JString words), (''type'', JString ''text'')],
      JObject [(''image_url'', JObject [(''url'', JString TINY_PNG)]), (''type'', JString ''image_url'')]]"

definition flux_profile_probe_payload :: json where
  "flux_profile_probe_payload =
     JObject [(''aspect_ratio'', JString ''1:1''), (''prompt'', JString ''a green square''), (''samples'', num 1)]"

text \<open>
  What is sent per endpoint; \<open>Inl\<close> is the class of a probe that cannot be built. The transcription
  probe is a form with the model and the speech fixture (its file name and type are left out).
\<close>

definition probe_body :: "console \<Rightarrow> model_spec \<Rightarrow> str + sent_body" where
  "probe_body c s =
     (if sp_endpoint s = ''/v1/chat/completions'' \<and> sp_id s = ''microsoft/phi-4-multimodal-instruct''
      then Ok (Json_body (JObject [(''max_tokens'', num 2), (''messages'', user_text (text_and_image ''Reply OK'')),
        (''model'', JString (sp_id s)), (''stream'', JBool False)]))
      else if sp_endpoint s = ''/v1/chat/completions''
      then Ok (Json_body (JObject [(''max_tokens'', num 2), (''messages'', user_text (JString ''Reply OK'')),
        (''model'', JString (sp_id s)), (''stream'', JBool False)]))
      else if sp_endpoint s = ''/v1/embeddings''
      then Ok (Json_body (JObject [(''encoding_format'', JString ''float''), (''input'', strs [''probe'']),
        (''model'', JString (sp_id s))]))
      else if sp_endpoint s = ''/v1/images/generations'' then Ok (Json_body flux_profile_probe_payload)
      else if sp_endpoint s = ''/v1/videos/generations''
      then Ok (Json_body (JObject [(''cfg_scale'', JNumber (FloatNum (18 / 10))), (''image'', JString TINY_PNG),
        (''motion_bucket_id'', num 127), (''seed'', num 0)]))
      else if sp_endpoint s = ''/v1/audio/speech''
      then Ok (Json_body (JObject [(''input'', JString ''OK''), (''model'', JString (sp_id s)),
        (''response_format'', JString ''wav''), (''voice'', JString ''Magpie-Multilingual.EN-US.Aria'')]))
      else if sp_endpoint s = ''/v1/audio/transcriptions''
      then (case co_probe_wav c of
              None \<Rightarrow> Err ''probe_fixture_invalid''
            | Some wav \<Rightarrow> Ok (Form_body [(''model'', sp_id s), (''file'', wav)]))
      else if sp_endpoint s = ''/v1/nvidia/inference''
      then Ok (Json_body (JObject [(''max_tokens'', num 2),
        (''messages'', user_text (text_and_image ''Describe in one word''))]))
      else Err ''unsupported_probe_profile'')"

text \<open>\<open>text.split(not alphanumeric).any(|token| token.eq_ignore_ascii_case("hello"))\<close>.\<close>

fun tokens :: "(nat \<Rightarrow> bool) \<Rightarrow> nat list \<Rightarrow> nat list list" where
  "tokens keep [] = [[]]"
| "tokens keep (x # xs) =
     (if keep x then (case tokens keep xs of t # ts \<Rightarrow> (x # t) # ts | [] \<Rightarrow> [[x]]) else [] # tokens keep xs)"

definition lower_code :: "nat \<Rightarrow> nat" where
  "lower_code n = (if 65 \<le> n \<and> n \<le> 90 then n + 32 else n)"

definition transcription_text_matches :: "console \<Rightarrow> str \<Rightarrow> bool" where
  "transcription_text_matches c s \<longleftrightarrow>
     list_ex (\<lambda>t. map lower_code t = map code ''hello'') (tokens (co_alphanumeric c) (chars s))"

definition transcription_probe_matches :: "console \<Rightarrow> bytes \<Rightarrow> bool" where
  "transcription_probe_matches c body \<longleftrightarrow>
     is_some_and (transcription_text_matches c)
       (Option.bind (gw_parse (co_gateway c) body) (get_str ''text''))"

definition probe_answer_valid :: "console \<Rightarrow> str \<Rightarrow> time \<Rightarrow> str \<Rightarrow> bytes \<Rightarrow> bool" where
  "probe_answer_valid c endpoint now content_type body \<longleftrightarrow>
     (let g = co_gateway c; usable = (normalized g endpoint content_type now body \<noteq> None)
      in if endpoint = ''/v1/chat/completions''
         then has_media_type ''application/json'' content_type \<and> validate_chat_response (gw_parse g) body False
         else if endpoint = ''/v1/audio/transcriptions''
         then usable \<and> transcription_probe_matches c body
         else usable)"

definition refusal_class :: "nat \<Rightarrow> str" where
  "refusal_class status =
     (if status = 401 \<or> status = 403 then ''upstream_auth_error''
      else if status = 429 then ''upstream_rate_limited''
      else if 500 \<le> status \<and> status \<le> 599 then ''upstream_server_error''
      else ''upstream_probe_rejected'')"

type_synonym probe_result = "(nat option \<times> str) + nat"

definition judge_answer :: "console \<Rightarrow> str \<Rightarrow> provider_response \<Rightarrow> probe_result program" where
  "judge_answer c endpoint p = do {
     now \<leftarrow> clock_now;
     State_Monad.return
       (let status = ps_status p in
        if \<not> is_success status then Err (Some status, refusal_class status)
        else (case collect_results (map chunk_of (ps_body p)) of
                Inl _ \<Rightarrow> Err (Some status, ''upstream_body_error'')
              | Inr chunks \<Rightarrow>
                  if probe_answer_valid c endpoint now
                       (unwrap_or [] (provider_header ''content-type'' p)) (concat chunks)
                  then Ok status else Err (Some status, ''upstream_protocol_error'')))
   }"

definition execute_profile_probe_inner :: "console \<Rightarrow> uuid \<Rightarrow> model_spec \<Rightarrow> probe_result program" where
  "execute_profile_probe_inner c i s = (let g = co_gateway c in do {
     secret \<leftarrow> credential_for_probe g i;
     case secret of
       Inl _ \<Rightarrow> State_Monad.return (Err (None, ''credential_unavailable''))
     | Inr secret \<Rightarrow>
         if starts_with ''mock://'' (gw_upstream_url g)
         then State_Monad.return
           (if has_sub ''fail'' secret then Err (Some 401, ''upstream_auth_error'') else Ok 200)
         else (case probe_body c s of
                 Inl class \<Rightarrow> State_Monad.return (Err (None, class))
               | Inr body \<Rightarrow> do {
                   let endpoint = upstream_endpoint_for (gw_magpie_url g) (gw_upstream_url g) (sp_endpoint s) (sp_id s);
                   r \<leftarrow> send UPSTREAM_REQUEST_TIMEOUT
                     \<lparr>st_verb = Post, st_url = endpoint, st_credential = secret, st_body = body\<rparr>;
                   case r of
                     Inl _ \<Rightarrow> State_Monad.return (Err (None, ''upstream_unavailable''))
                   | Inr p \<Rightarrow>
                       if ps_status p = 202 then do {
                         polled \<leftarrow> poll_nvcf g p secret;
                         case polled of
                           Some (Inr q) \<Rightarrow> judge_answer c (sp_endpoint s) q
                         | _ \<Rightarrow> State_Monad.return (Err (Some 202, ''upstream_poll_error''))
                       }
                       else judge_answer c (sp_endpoint s) p
                 })
   })"

record probe_execution =
  px_status :: "nat option"
  px_error :: "str option"
  px_latency :: nat

definition execute_profile_probe :: "console \<Rightarrow> uuid \<Rightarrow> model_spec \<Rightarrow> probe_execution program" where
  "execute_profile_probe c i s = do {
     started \<leftarrow> clock_now;
     r \<leftarrow> execute_profile_probe_inner c i s;
     now \<leftarrow> clock_now;
     let latency = min u64_max (clip ((now - started) div 1000000));
     State_Monad.return
       (case r of
          Inr status \<Rightarrow> \<lparr>px_status = Some status, px_error = None, px_latency = latency\<rparr>
        | Inl (status, class) \<Rightarrow> \<lparr>px_status = status, px_error = Some class, px_latency = latency\<rparr>)
   }"

definition draw_uuid :: "uuid program" where
  "draw_uuid = do { t \<leftarrow> next_tick; State_Monad.return (tk_uuid t) }"

definition probe_record ::
    "uuid \<Rightarrow> str \<Rightarrow> uuid \<Rightarrow> str option \<Rightarrow> model_spec \<Rightarrow> bool \<Rightarrow> probe_execution \<Rightarrow> probe_mutation" where
  "probe_record i kind key profile s billable x =
     \<lparr>pm_id = i, pm_kind = kind, pm_upstream = key, pm_profile_id = profile,
      pm_receipt_profile = Some (sp_id s), pm_billable = billable, pm_status_code = px_status x,
      pm_error_class = px_error x, pm_latency_ms = px_latency x\<rparr>"

definition probe_status_of :: "str option \<Rightarrow> nat" where
  "probe_status_of error_class = (if error_class = None then 200 else 422)"

text \<open>A pass verifies the key in the vault, a refused credential quarantines it, both with the evidence.\<close>

definition store_credential_probe ::
    "console \<Rightarrow> http_request \<Rightarrow> uuid \<Rightarrow> model_spec \<Rightarrow> probe_execution \<Rightarrow> http_response handler" where
  "store_credential_probe c req i s x = do {
     probe_id \<leftarrow> draw_uuid;
     let audit = \<lparr>am_action = ''probe.complete'', am_resource_kind = ''probe'', am_resource_id = Some probe_id,
           am_request_id = rid_of c req,
           am_detail = JObject [(''billable'', JBool False), (''kind'', JString ''credential''),
             (''passed'', JBool (px_error x = None))],
           am_client_policy = None,
           am_probe = Some (probe_record probe_id ''credential'' i None s False x)\<rparr>;
     mutated c (\<lambda>e v. if px_error x = None then mark_verified e i v else quarantine e i v) (\<lambda>_. audit)
       (\<lambda>_. failure c req ''probe_persistence_failed''
          ''Credential verification and evidence could not be stored atomically.'')
       (\<lambda>_ audit_id. found (probe_of probe_id)
         (failure c req ''probe_persistence_failed'' ''Credential probe evidence could not be loaded.'')
         (\<lambda>item. reply_audited (probe_status_of (px_error x)) (probe_json c) (item, audit_id)))
   }"

definition probe_upstream :: "console \<Rightarrow> http_request \<Rightarrow> uuid \<Rightarrow> http_response handler" where
  "probe_upstream c req i =
     with_guard c req (with_pool c req (do {
       let s = hd MODEL_SPECS;
       x \<leftarrow> execute_profile_probe c i s;
       if px_error x = None \<or> auth_refused (px_status x) then store_credential_probe c req i s x
       else loaded (record_probe_result (probe_record [] ''credential'' i None s False x) (rid_of c req))
         (failure c req ''probe_persistence_failed'' ''Credential probe evidence could not be stored.'')
         (reply_audited (probe_status_of (px_error x)) (probe_json c))
     }))"

definition run_profile_probe ::
    "console \<Rightarrow> http_request \<Rightarrow> uuid \<Rightarrow> model_spec \<Rightarrow> (probe_execution \<times> (probe_row \<times> uuid) option) program" where
  "run_profile_probe c req i s = do {
     x \<leftarrow> execute_profile_probe c i s;
     r \<leftarrow> record_probe_result (probe_record [] ''profile'' i (Some (sp_id s)) s (sp_billable s) x) (rid_of c req);
     State_Monad.return (x, r)
   }"

text \<open>The profiles in order, until one fails: the answer so far, or the runs and the last audit row.\<close>

fun probe_profiles ::
    "console \<Rightarrow> http_request \<Rightarrow> uuid \<Rightarrow> str list \<Rightarrow> probe_row list \<Rightarrow> uuid option \<Rightarrow>
     (probe_row list \<times> uuid option) handler" where
  "probe_profiles c req i [] runs audit = yield_ok (runs, audit)"
| "probe_profiles c req i (profile # rest) runs audit =
     (case spec_of profile of
        None \<Rightarrow> answer (invalid c req ''invalid_profile'' ''The profile is not supported.'')
      | Some s \<Rightarrow> do {
          result \<leftarrow> run_profile_probe c req i s;
          case result of
            (x, None) \<Rightarrow> answer (failure c req ''probe_persistence_failed'' ''Profile probe evidence could not be stored.'')
          | (x, Some (run, audit_id)) \<Rightarrow>
              if px_error x \<noteq> None
              then answer (no_store (json_response 422 []
                (JObject [(''failed_profile'', JString (sp_id s)),
                   (''items'', JArray (map (probe_json c) (runs @ [run])))])))
              else probe_profiles c req i rest (runs @ [run]) (Some audit_id)
        })"

definition billable_profile :: "str \<Rightarrow> bool" where
  "billable_profile profile \<longleftrightarrow> list_ex (\<lambda>s. sp_id s = profile \<and> sp_billable s) MODEL_SPECS"

definition probe_upstream_profiles ::
    "console \<Rightarrow> http_request \<Rightarrow> uuid \<Rightarrow> profile_probe_input \<Rightarrow> http_response handler" where
  "probe_upstream_profiles c req i input =
     with_guard c req
       (if pp_profiles input = [] \<or> \<not> distinct (pp_profiles input) \<or> list_ex (\<lambda>p. p \<notin> set PROFILES) (pp_profiles input)
        then answer (invalid c req ''invalid_profile'' ''profiles must contain distinct supported model IDs.'')
        else if list_ex billable_profile (pp_profiles input) \<and> \<not> pp_confirmed input
        then answer (refuse c req 409 ''billable_confirmation_required''
          ''Billable profile probes require explicit confirmation.'')
        else do {
          secret \<leftarrow> credential_for_probe (co_gateway c) i;
          if is_err secret then answer (not_found c req ''upstream'')
          else with_pool c req (and_then (probe_profiles c req i (pp_profiles input) [] None) (\<lambda>(runs, audit).
            case audit of
              None \<Rightarrow> answer (invalid c req ''invalid_profile'' ''At least one profile is required.'')
            | Some audit_id \<Rightarrow> found (upstream_view_of i) (not_found c req ''upstream'') (\<lambda>item.
                reply_json 200 (JObject [(''audit_event_id'', uuid_json audit_id), (''item'', upstream_json c item),
                  (''runs'', JArray (map (probe_json c) runs))]))))
        })"

fun probe_on_keys ::
    "console \<Rightarrow> http_request \<Rightarrow> model_spec \<Rightarrow> uuid list \<Rightarrow> probe_row list \<Rightarrow> uuid option \<Rightarrow> bool \<Rightarrow>
     (probe_row list \<times> uuid option \<times> bool) handler" where
  "probe_on_keys c req s [] runs audit failed = yield_ok (runs, audit, failed)"
| "probe_on_keys c req s (i # rest) runs audit failed = do {
     result \<leftarrow> run_profile_probe c req i s;
     case result of
       (x, None) \<Rightarrow> answer (failure c req ''probe_persistence_failed'' ''Model probe evidence could not be stored.'')
     | (x, Some (run, audit_id)) \<Rightarrow>
         probe_on_keys c req s rest (runs @ [run]) (Some audit_id) (failed \<or> px_error x \<noteq> None)
   }"

definition probe_model :: "console \<Rightarrow> http_request \<Rightarrow> model_probe_input \<Rightarrow> http_response handler" where
  "probe_model c req input =
     (let unavailable = failure c req ''models_unavailable'' ''Model state is unavailable.''; ids = mp_upstreams input
      in with_guard c req
        (case spec_of (mp_model input) of
           None \<Rightarrow> answer (invalid c req ''invalid_model'' ''The model is not supported.'')
         | Some s \<Rightarrow>
             if ids = [] \<or> 2 < length ids \<or> length ids = 2 \<and> ids ! 0 = ids ! 1
             then answer (invalid c req ''invalid_upstream_ids'' ''One or two distinct upstream IDs are required.'')
             else with_pool c req (loaded (upstream_ids_exist ids)
               (failure c req ''upstreams_unavailable'' ''Upstream state is unavailable.'') (\<lambda>exist.
                 if \<not> exist
                 then answer (invalid c req ''invalid_upstream_ids''
                   ''Every upstream ID must reference an existing upstream.'')
                 else if sp_billable s \<and> \<not> mp_confirmed input
                 then answer (refuse c req 409 ''billable_confirmation_required'' ''This model probe may be billable.'')
                 else and_then (probe_on_keys c req s ids [] None False) (\<lambda>(runs, audit, failed).
                   loaded admin_models unavailable (\<lambda>models.
                     case List.find (\<lambda>m. sp_id (mv_spec m) = mp_model input) models of
                       None \<Rightarrow> answer unavailable
                     | Some m \<Rightarrow> reply_json (if failed then 422 else 202)
                         (JObject [(''audit_event_id'', opt uuid_json audit), (''model'', model_json c m),
                           (''probe_runs'', JArray (map (probe_json c) runs))])))))))"

section \<open>Clients\<close>

definition new_client_policy :: "client_input \<Rightarrow> uuid \<Rightarrow> client_policy" where
  "new_client_policy input i =
     \<lparr>cp_id = i, cp_expires_at = Some (ci_expires_at input),
      cp_model_allowlist = Some (ci_model_allowlist input), cp_rpm_limit = Some (ci_rpm_limit input),
      cp_max_concurrency = Some (ci_max_concurrency input),
      cp_request_limit_day = Some (ci_request_limit_day input)\<rparr>"

definition policy_audit :: "str \<Rightarrow> uuid \<Rightarrow> uuid \<Rightarrow> client_policy \<Rightarrow> audit_mutation" where
  "policy_audit action i rid policy =
     (plain_audit action ''client'' (Some i) rid POLICY_UPDATED)\<lparr>am_client_policy := Some policy\<rparr>"

definition issued_json :: "console \<Rightarrow> client_view \<Rightarrow> str \<Rightarrow> uuid \<Rightarrow> json" where
  "issued_json c item token audit =
     JObject [(''audit_event_id'', uuid_json audit), (''item'', client_json c item), (''token'', JString token)]"

definition create_client :: "console \<Rightarrow> http_request \<Rightarrow> client_input \<Rightarrow> http_response handler" where
  "create_client c req input =
     with_guard c req (with_pool c req (do {
       now \<leftarrow> clock_now;
       if invalid_client_limits now (ci_expires_at input) (ci_model_allowlist input) (ci_rpm_limit input)
            (ci_max_concurrency input) (ci_request_limit_day input)
       then answer (invalid c req ''invalid_client_policy''
         ''One or more client policy fields are outside the supported bounds.'')
       else mutated c
         (\<lambda>e. issue_downstream (gw_crypto (co_gateway c)) e (ci_label input) (ci_scopes input))
         (\<lambda>made. let i = ds_id (iss_summary made)
                 in policy_audit ''client.create'' i (rid_of c req) (new_client_policy input i))
         (\<lambda>e. if mentions ''already exists'' e
              then refuse c req 409 ''resource_conflict'' ''An active client with this label already exists.''
              else invalid c req ''invalid_client'' ''The client label or scopes are invalid.'')
         (\<lambda>made audit. found (client_view_of (ds_id (iss_summary made)))
           (failure c req ''client_unavailable'' ''Client could not be loaded.'')
           (\<lambda>item. reply_json 201 (issued_json c item (iss_token made) audit)))
     }))"

definition changed_field :: "'a patch \<Rightarrow> 'a option \<Rightarrow> 'a option option" where
  "changed_field p current = (if is_missing p then None else Some (patch_apply p current))"

definition patched_policy :: "uuid \<Rightarrow> client_patch \<Rightarrow> client_view \<Rightarrow> client_policy" where
  "patched_policy i p current =
     \<lparr>cp_id = i, cp_expires_at = changed_field (ch_expires_at p) (cl_expires_at current),
      cp_model_allowlist = changed_field (ch_model_allowlist p) (cl_model_allowlist current),
      cp_rpm_limit = changed_field (ch_rpm_limit p) (cl_rpm_limit current),
      cp_max_concurrency = changed_field (ch_max_concurrency p) (cl_max_concurrency current),
      cp_request_limit_day = changed_field (ch_request_limit_day p) (cl_request_limit_day current)\<rparr>"

definition empty_patch :: "client_patch \<Rightarrow> bool" where
  "empty_patch p \<longleftrightarrow>
     ch_scopes p = None \<and> is_missing (ch_expires_at p) \<and> is_missing (ch_model_allowlist p) \<and>
     is_missing (ch_rpm_limit p) \<and> is_missing (ch_max_concurrency p) \<and> is_missing (ch_request_limit_day p)"

definition update_client :: "console \<Rightarrow> http_request \<Rightarrow> uuid \<Rightarrow> client_patch \<Rightarrow> http_response handler" where
  "update_client c req i p =
     with_guard c req (with_pool c req (found (client_view_of i) (not_found c req ''client'') (\<lambda>current. do {
       now \<leftarrow> clock_now;
       if empty_patch p
       then answer (invalid c req ''empty_patch'' ''At least one client policy field is required.'')
       else if invalid_client_limits now (patch_value (ch_expires_at p)) (patch_value (ch_model_allowlist p))
            (patch_value (ch_rpm_limit p)) (patch_value (ch_max_concurrency p)) (patch_value (ch_request_limit_day p))
       then answer (invalid c req ''invalid_client_policy''
         ''One or more client policy fields are outside the supported bounds.'')
       else mutated c
         (\<lambda>e. update_downstream_scopes e i (unwrap_or (cl_scopes current) (ch_scopes p)))
         (\<lambda>_. policy_audit ''client.update'' i (rid_of c req) (patched_policy i p current))
         (\<lambda>e. if mentions ''scope'' e then invalid c req ''invalid_scopes'' ''Client scopes are invalid.''
              else failure c req ''client_unavailable'' ''Client could not be updated.'')
         (\<lambda>_ audit. found (client_view_of i)
           (failure c req ''client_unavailable'' ''Client could not be loaded.'')
           (\<lambda>item. reply_audited 200 (client_json c) (item, audit)))
     })))"

definition rotate_client :: "console \<Rightarrow> http_request \<Rightarrow> uuid \<Rightarrow> http_response handler" where
  "rotate_client c req i =
     with_guard c req (with_pool c req (mutated c
       (\<lambda>e. rotate_downstream (gw_crypto (co_gateway c)) e i)
       (\<lambda>_. plain_audit ''client.rotate'' ''client'' (Some i) (rid_of c req) CHANGED)
       (\<lambda>_. not_found c req ''client'')
       (\<lambda>made audit. found (client_view_of i) (not_found c req ''client'')
         (\<lambda>item. reply_json 200 (issued_json c item (iss_token made) audit)))))"

definition revoke_client :: "console \<Rightarrow> http_request \<Rightarrow> uuid \<Rightarrow> http_response handler" where
  "revoke_client c req i =
     with_guard c req (with_pool c req (mutated c (\<lambda>e. revoke_downstream e i)
       (\<lambda>_. plain_audit ''client.revoke'' ''client'' (Some i) (rid_of c req) CHANGED)
       (\<lambda>_. not_found c req ''client'')
       (\<lambda>_ audit. found (client_view_of i) (not_found c req ''client'')
         (\<lambda>item. reply_audited 200 (client_json c) (item, audit)))))"

section \<open>The router\<close>

text \<open>
  \<open>routes\<close>: method and segments after \<open>/admin/api/v2/\<close>. The overview and the OpenAPI text are
  not modelled and the two routes of the QA helper are in \<open>Qa_Runs\<close> (\<open>None\<close> here); what no route matches is a bare 404.
\<close>

definition other_routes :: "(str \<times> str list) list" where
  "other_routes = [(''GET'', [''openapi.json'']), (''GET'', [''overview'']), (''GET'', [''qa'', ''secret-scan''])]"

definition no_route :: "http_response handler" where
  "no_route = answer \<lparr>rp_status = 404, rp_headers = [], rp_body = http_body.No_body\<rparr>"

definition get_route ::
    "console \<Rightarrow> http_request \<Rightarrow> (str \<times> str) list \<Rightarrow> str list \<Rightarrow> http_response handler" where
  "get_route c req pairs path =
     (let listed = with_query c req list_query_of pairs; one = with_path_id c req in
      case path of
        [a] \<Rightarrow>
          if a = ''attentions'' then attentions c req
          else if a = ''upstreams'' then listed (list_upstreams c req)
          else if a = ''clients'' then listed (list_clients c req)
          else if a = ''models'' then listed (list_models c req)
          else if a = ''requests'' then with_query c req request_query_of pairs (list_requests c req)
          else if a = ''probes'' then listed (list_probes c req)
          else if a = ''incidents'' then listed (list_incidents c req)
          else if a = ''audit'' then listed (list_audit c req)
          else if a = ''settings'' then get_settings c req
          else no_route
      | [a, b] \<Rightarrow>
          if a = ''upstreams'' then one b (get_upstream c req)
          else if a = ''clients'' then one b (get_client c req)
          else if a = ''requests'' then one b (get_request c req)
          else if a = ''probes'' then one b (get_probe c req)
          else if a = ''routing'' \<and> b = ''policy'' then get_routing_policy c req
          else if a = ''qa'' \<and> b = ''runs'' then listed (list_qa_runs c req)
          else no_route
      | [a, b, d] \<Rightarrow> if a = ''qa'' \<and> b = ''runs'' then one d (get_qa_run c req) else no_route
      | _ \<Rightarrow> no_route)"

definition post_route :: "console \<Rightarrow> http_request \<Rightarrow> json option \<Rightarrow> str list \<Rightarrow> http_response handler" where
  "post_route c req body path =
     (let one = with_path_id c req in
      case path of
        [a] \<Rightarrow>
          if a = ''upstreams'' then with_body c req upstream_input_of body (create_upstream c req)
          else if a = ''clients'' then with_body c req (client_input_of c) body (create_client c req)
          else if a = ''incidents'' then with_body c req incident_input_of body (open_incident c req)
          else no_route
      | [a, b] \<Rightarrow>
          if a = ''routing'' \<and> b = ''simulate'' then with_body c req simulation_input_of body (simulate_routing c req)
          else if a = ''models'' \<and> b = ''sync'' then sync_models c req
          else if a = ''models'' \<and> b = ''probe'' then with_body c req (model_probe_input_of c) body (probe_model c req)
          else if a = ''qa'' \<and> b = ''runs'' then with_body c req qa_input_of body (start_qa_run c req)
          else no_route
      | [a, b, d] \<Rightarrow>
          if a = ''upstreams'' \<and> d = ''probe'' then one b (probe_upstream c req)
          else if a = ''upstreams'' \<and> d = ''probe-profiles''
          then one b (\<lambda>i. with_body c req profile_probe_input_of body (probe_upstream_profiles c req i))
          else if a = ''upstreams'' \<and> d = ''enable'' then one b (enable_upstream c req)
          else if a = ''upstreams'' \<and> d = ''disable'' then one b (disable_upstream c req)
          else if a = ''upstreams'' \<and> d = ''retire'' then one b (retire_upstream c req)
          else if a = ''clients'' \<and> d = ''rotate'' then one b (rotate_client c req)
          else if a = ''clients'' \<and> d = ''revoke'' then one b (revoke_client c req)
          else if a = ''incidents'' \<and> d = ''updates''
          then one b (\<lambda>i. with_body c req incident_message_of body (post_incident_update c req i))
          else no_route
      | _ \<Rightarrow> no_route)"

definition patch_route :: "console \<Rightarrow> http_request \<Rightarrow> json option \<Rightarrow> str list \<Rightarrow> http_response handler" where
  "patch_route c req body path =
     (case path of
        [a] \<Rightarrow> if a = ''settings'' then with_body c req settings_patch_of body (change_settings c req) else no_route
      | [a, b] \<Rightarrow>
          if a = ''clients''
          then with_path_id c req b (\<lambda>i. with_body c req (client_patch_of c) body (update_client c req i))
          else if a = ''incidents''
          then with_path_id c req b (\<lambda>i. with_body c req incident_patch_of body (change_incident_fields c req i))
          else if a = ''routing'' \<and> b = ''policy''
          then with_body c req policy_patch_of body (change_routing_policy c req)
          else no_route
      | _ \<Rightarrow> no_route)"

definition unmodelled_route :: "str \<Rightarrow> str list \<Rightarrow> bool" where
  "unmodelled_route verb path \<longleftrightarrow>
     (verb, path) \<in> set other_routes \<or>
     verb = ''POST'' \<and> length path = 4 \<and> take 2 path = [''qa'', ''runs''] \<and> last path = ''hermes-completion''"

definition console_route ::
    "console \<Rightarrow> http_request \<Rightarrow> (str \<times> str) list \<Rightarrow> json option \<Rightarrow> http_response handler option" where
  "console_route c req pairs body =
     (case strip_prefix ''/admin/api/v2/'' (rq_path req) of
        None \<Rightarrow> None
      | Some rest \<Rightarrow>
          (let path = split_on (CHR ''/'') rest; verb = rq_method req
           in if unmodelled_route verb path then None
              else Some (if verb = ''GET'' then get_route c req pairs path
                         else if verb = ''POST'' then post_route c req body path
                         else if verb = ''PATCH'' then patch_route c req body path
                         else no_route)))"

text \<open>The handler's answer, early or not.\<close>

definition served :: "http_response handler \<Rightarrow> http_response program" where
  "served m = do { r \<leftarrow> m; State_Monad.return (case r of Inl e \<Rightarrow> e | Inr x \<Rightarrow> x) }"

end
