(* ===== verification/Console_Demo.thy ===== *)
theory Console_Demo
  imports Console_Vault Store_Props
begin

text \<open>A console over the demonstration gateway, on which the properties are applied.\<close>

text \<open>Instants in unary, which is enough for the few of the demonstrations.\<close>

definition demo_show_time :: "time \<Rightarrow> str" where
  "demo_show_time t = (if t < 0 then CHR ''-'' # replicate (nat (- t)) (CHR ''1'') else replicate (nat t) (CHR ''1''))"

definition demo_parse_time :: "str \<Rightarrow> time option" where
  "demo_parse_time s = Some (if CHR ''-'' \<in> set s then - int (length s - 1) else int (length s))"

lemma demo_time [simp]: "demo_parse_time (demo_show_time t) = Some t"
  by (simp add: demo_show_time_def demo_parse_time_def)

definition demo_console :: console where
  "demo_console =
     \<lparr>co_gateway = demo_gateway, co_admin_token = ''t'', co_public_port = 80, co_fresh_id = ''r'',
      co_commit = ''unknown'', co_show_time = demo_show_time, co_parse_time = demo_parse_time,
      co_parse_rfc3339 = demo_parse_time, co_parse_uuid = Some, co_parse_url = (\<lambda>_. None),
      co_alphanumeric = (\<lambda>n. 97 \<le> n \<and> n \<le> 122), co_probe_wav = None, co_attention_text = (\<lambda>_. ([], [], []))\<rparr>"

definition demo_console_request :: "str \<Rightarrow> str \<Rightarrow> http_request" where
  "demo_console_request verb path =
     \<lparr>rq_method = verb, rq_path = ''/admin/api/v2/'' @ path, rq_headers = [], rq_id = None\<rparr>"

lemma demo_routed:
  "console_route demo_console (demo_console_request ''GET'' ''settings'') [] None =
     Some (get_settings demo_console (demo_console_request ''GET'' ''settings''))"
  "console_route demo_console (demo_console_request ''PATCH'' ''settings'') [] body =
     Some (with_body demo_console (demo_console_request ''PATCH'' ''settings'') settings_patch_of body
       (change_settings demo_console (demo_console_request ''PATCH'' ''settings'')))"
  by (simp_all add: console_route_def demo_console_request_def strip_prefix_def starts_with_def
      unmodelled_route_def other_routes_def get_route_def patch_route_def Let_def)

end
