(* ===== verification/Console_Token.thy ===== *)
theory Console_Token
  imports Console_Demo
begin

text \<open>Without the administrator's token no route of the console reads or writes anything.\<close>

section \<open>Turned away\<close>

text \<open>The program is a constant answer: it neither reads nor changes the state.\<close>

definition turned_away :: "console \<Rightarrow> http_request \<Rightarrow> http_response handler \<Rightarrow> bool" where
  "turned_away c req m \<longleftrightarrow> \<not> authorized (co_admin_token c) (co_public_port c) req \<longrightarrow>
     (\<exists>r. m = answer r \<and> rp_status r \<in> {401, 404, 422})"

lemma and_then_answer [simp]: "and_then (answer r) f = answer r"
  by (rule State_Monad.state.expand) (simp add: and_then_def answer_def State_Monad.bind_def fun_eq_iff)

lemma turned_guard: "turned_away c req (with_guard c req m)"
  unfolding turned_away_def with_guard_def console_guard_def
  by (auto simp: refuse_def operations_error_def json_response_def insert_header_def)

lemma turned_choice:
  "turned_away c req a \<Longrightarrow> turned_away c req b \<Longrightarrow> turned_away c req (if p then a else b)"
  by simp

lemma turned_list:
  "turned_away c req m \<Longrightarrow> (\<And>x rest. turned_away c req (f x rest)) \<Longrightarrow>
   turned_away c req (case xs of [] \<Rightarrow> m | x # rest \<Rightarrow> f x rest)"
  by (cases xs) simp_all

lemma turned_no_route: "turned_away c req no_route"
  unfolding turned_away_def no_route_def by (intro impI exI conjI, rule refl, simp)

text \<open>The extractors run before the handler, and refuse with a constant.\<close>

lemma extractor_turned:
  "starts_with ''/admin/api/v2/'' (rq_path req) \<Longrightarrow> rp_status (extractor_error c req k message) = 422"
  by (simp add: extractor_error_def refuse_def operations_error_def json_response_def insert_header_def)

lemma turned_extractors:
  assumes "starts_with ''/admin/api/v2/'' (rq_path req)"
  shows "(\<And>q. turned_away c req (f q)) \<Longrightarrow> turned_away c req (with_query c req decode pairs f)"
    "(\<And>i. turned_away c req (g i)) \<Longrightarrow> turned_away c req (with_body c req decode' body g)"
    "(\<And>i. turned_away c req (h i)) \<Longrightarrow> turned_away c req (with_path_id c req segment h)"
  unfolding with_query_def with_body_def with_path_id_def
  by (auto simp: turned_away_def extractor_turned [OF assms] split: option.splits)

lemma handlers_turned:
  "turned_away c req (list_upstreams c req q)" "turned_away c req (list_models c req q)"
  "turned_away c req (list_clients c req q)" "turned_away c req (list_probes c req q)"
  "turned_away c req (list_audit c req q)" "turned_away c req (list_incidents c req q)"
  "turned_away c req (list_requests c req rq)" "turned_away c req (list_qa_runs c req q)"
  "turned_away c req (get_upstream c req i)" "turned_away c req (get_client c req i)"
  "turned_away c req (get_request c req i)" "turned_away c req (get_probe c req i)"
  "turned_away c req (get_qa_run c req i)" "turned_away c req (get_routing_policy c req)"
  "turned_away c req (get_settings c req)" "turned_away c req (attentions c req)"
  "turned_away c req (simulate_routing c req sim)" "turned_away c req (change_routing_policy c req py)"
  "turned_away c req (sync_models c req)" "turned_away c req (open_incident c req ii)"
  "turned_away c req (change_incident_fields c req i ip)" "turned_away c req (post_incident_update c req i im)"
  "turned_away c req (change_settings c req sp)" "turned_away c req (start_qa_run c req qi)"
  "turned_away c req (create_upstream c req ui)" "turned_away c req (enable_upstream c req i)"
  "turned_away c req (disable_upstream c req i)" "turned_away c req (retire_upstream c req i)"
  "turned_away c req (probe_upstream c req i)" "turned_away c req (probe_upstream_profiles c req i pp)"
  "turned_away c req (probe_model c req mp)" "turned_away c req (create_client c req ci)"
  "turned_away c req (update_client c req i cp)" "turned_away c req (rotate_client c req i)"
  "turned_away c req (revoke_client c req i)"
  unfolding list_upstreams_def list_models_def list_clients_def list_probes_def list_audit_def
    list_incidents_def list_requests_def list_qa_runs_def keyset_list_def offset_list_def
    get_upstream_def get_client_def get_request_def get_probe_def get_qa_run_def get_one_def
    get_routing_policy_def get_settings_def attentions_def simulate_routing_def Let_def
    change_routing_policy_def sync_models_def open_incident_def change_incident_fields_def
    post_incident_update_def change_settings_def start_qa_run_def create_upstream_def
    enable_upstream_def disable_upstream_def retire_upstream_def probe_upstream_def
    probe_upstream_profiles_def probe_model_def create_client_def update_client_def rotate_client_def
    revoke_client_def
  by (rule turned_guard)+

lemma routes_turned:
  assumes "starts_with ''/admin/api/v2/'' (rq_path req)"
  shows "turned_away c req (get_route c req pairs path)" "turned_away c req (post_route c req body path)"
    "turned_away c req (patch_route c req body path)"
  unfolding get_route_def post_route_def patch_route_def Let_def
  by (intro turned_list turned_choice turned_no_route turned_extractors [OF assms] handlers_turned)+

text \<open>
  C8. A request to the console without the administrator's token is answered 401, 404 or 422 by a
  program that is a constant answer: whatever the route, the body and the state, nothing of the
  tables or the vault is read, changed or shown.
\<close>

theorem console_needs_token:
  assumes "console_route c req pairs body = Some m"
    and "\<not> authorized (co_admin_token c) (co_public_port c) req"
  shows "\<exists>r. m = answer r \<and> rp_status r \<in> {401, 404, 422}"
proof -
  have "starts_with ''/admin/api/v2/'' (rq_path req)"
    using assms(1) by (auto simp: console_route_def strip_prefix_def split: option.splits if_splits)
  from routes_turned [OF this] turned_no_route
  have "turned_away c req m"
    using assms(1) by (auto simp: console_route_def Let_def split: option.splits if_splits)
  then show ?thesis using assms(2) by (simp add: turned_away_def)
qed

theorem console_needs_token_witness:
  "\<exists>r. get_settings demo_console (demo_console_request ''GET'' ''settings'') = answer r \<and> rp_status r \<in> {401, 404, 422}"
  by (rule console_needs_token [OF demo_routed(1)])
    (simp add: authorized_def bearer_def header_str_def header_first_def header_all_def demo_console_request_def)

end
