(* ===== verification/Console_Steps.thy ===== *)
theory Console_Steps
  imports Console_Vault Ledger_Props
begin

text \<open>
  The console as a state machine on the tables: one step per transaction it commits, each with its
  audit row. \<open>moves\<close> relates the states before and after a request: either nothing the console
  manages changed, or the tables took at least one step.
\<close>

section \<open>Steps\<close>

inductive console_step :: "console \<Rightarrow> uuid \<Rightarrow> db \<Rightarrow> db \<Rightarrow> bool" for c :: console and rid :: uuid where
  policy: "tx_update_policy statuses cooldown rid t now d = Some (audit, d') \<Longrightarrow> console_step c rid d d'"
| settings: "tx_update_settings p rid t now d = Some (audit, d') \<Longrightarrow> console_step c rid d d'"
| catalog: "tx_sync_catalog rid t now d = Some (audit, d') \<Longrightarrow> console_step c rid d d'"
| probe: "tx_record_probe input rid t now d = Some (ids, d') \<Longrightarrow> console_step c rid d d'"
| incident: "tx_create_incident instant i rid t now d = Some (ids, d') \<Longrightarrow> console_step c rid d d'"
| incident_fields: "tx_update_incident k q rid t now d = Some (audit, d') \<Longrightarrow> console_step c rid d d'"
| incident_note:
    "tx_incident_message instant k status message rid t now d = Some (audit, d') \<Longrightarrow> console_step c rid d d'"
| qa: "tx_create_qa_run c suite cases live provider rid t now d = Some (Created run audit, d') \<Longrightarrow>
    console_step c rid d d'"
| credentials: "sync_database_delta now fresh previous current (Some a) d = Some (r, d') \<Longrightarrow>
    am_request_id a = rid \<Longrightarrow> console_step c rid d d'"

definition console_steps :: "console \<Rightarrow> uuid \<Rightarrow> db \<Rightarrow> db \<Rightarrow> bool" where
  "console_steps c rid = (console_step c rid)\<^sup>+\<^sup>+"

lemma console_steps_one [intro]: "console_step c rid d d' \<Longrightarrow> console_steps c rid d d'"
  by (auto simp: console_steps_def)

lemma console_steps_trans [trans]: "console_steps c rid a b \<Longrightarrow> console_steps c rid b d \<Longrightarrow> console_steps c rid a d"
  by (auto simp: console_steps_def)

lemma console_steps_induct [consumes 1, case_names step trans]:
  assumes "console_steps c rid d d'" "\<And>a b. console_step c rid a b \<Longrightarrow> P a b"
    "\<And>a b e. P a b \<Longrightarrow> P b e \<Longrightarrow> P a e"
  shows "P d d'"
  using assms(1) unfolding console_steps_def by (induction rule: tranclp.induct) (use assms(2,3) in blast)+

section \<open>Moves\<close>

definition at_rest :: "world \<Rightarrow> world \<Rightarrow> bool" where
  "at_rest w w' \<longleftrightarrow> w_db w' = w_db w \<and> v_state (w_vault w') = v_state (w_vault w)"

definition stepped :: "console \<Rightarrow> uuid \<Rightarrow> world \<Rightarrow> world \<Rightarrow> bool" where
  "stepped c rid w w' \<longleftrightarrow> (\<exists>d d'. w_db w = Some d \<and> w_db w' = Some d' \<and> console_steps c rid d d')"

definition moves :: "console \<Rightarrow> uuid \<Rightarrow> world \<Rightarrow> world \<Rightarrow> bool" where
  "moves c rid w w' \<longleftrightarrow> at_rest w w' \<or> stepped c rid w w'"

lemma stepped_trans: "stepped c rid a b \<Longrightarrow> moves c rid b e \<Longrightarrow> stepped c rid a e"
  unfolding stepped_def moves_def at_rest_def by (auto intro: console_steps_trans)

lemma stepped_after: "moves c rid a b \<Longrightarrow> stepped c rid b e \<Longrightarrow> stepped c rid a e"
  unfolding stepped_def moves_def at_rest_def by (auto intro: console_steps_trans)

lemma moves_trans: "moves c rid a b \<Longrightarrow> moves c rid b e \<Longrightarrow> moves c rid a e"
  using stepped_trans [of c rid a b e] stepped_after [of c rid a b e]
  unfolding moves_def at_rest_def by auto

text \<open>
  Everything but the clock and the ticks. A relation of states that allows whatever leaves this
  alone and composes is respected by all that only reads.
\<close>

definition still :: "world \<Rightarrow> world \<Rightarrow> bool" where
  "still w w' \<longleftrightarrow> w'\<lparr>w_clock := 0, w_ticks := []\<rparr> = w\<lparr>w_clock := 0, w_ticks := []\<rparr>"

lemma still_fields: "still w w' \<Longrightarrow> w_db w' = w_db w \<and> w_vault w' = w_vault w"
proof -
  assume "still w w'"
  then have "w_db (w'\<lparr>w_clock := 0, w_ticks := []\<rparr>) = w_db (w\<lparr>w_clock := 0, w_ticks := []\<rparr>)"
    "w_vault (w'\<lparr>w_clock := 0, w_ticks := []\<rparr>) = w_vault (w\<lparr>w_clock := 0, w_ticks := []\<rparr>)"
    unfolding still_def by simp_all
  then show ?thesis by simp
qed

lemma still_clock: "still w (w\<lparr>w_ticks := ts, w_clock := now\<rparr>)"
  by (cases w) (simp add: still_def)

locale reading = history +
  assumes allows_still: "still w w' \<Longrightarrow> R w w'"
begin

lemma db_read: "evolves R (db_read f)"
proof (rule evolvesI)
  fix w
  show "post (db_read f) w (\<lambda>_ w'. R w w')"
  proof (cases "w_db w")
    case None
    then show ?thesis
      unfolding db_read_def database_call_def next_tick_def post_def
      by (cases "w_ticks w") (auto intro!: allows_still still_clock simp: same)
  next
    case (Some d)
    show ?thesis
      unfolding db_read_def
      by (rule database_callI [OF Some])
        (auto simp: run_tx_def Some [symmetric] split: fault.splits intro!: allows_still,
         auto simp: still_def Some)
  qed
qed

lemma clock: "evolves R clock_now"
  unfolding clock_now_def by (rule simple)

lemma then_read: "evolves R m \<Longrightarrow> (\<And>x. evolves R (f x)) \<Longrightarrow> evolves R (then_read m f)"
  unfolding then_read_def by (rule bind) (auto split: option.splits intro: return)

lemma read_or: "evolves R m \<Longrightarrow> evolves R (read_or x m)"
  unfolding read_or_def by (rule bind) (auto intro: return)

lemma loaded: "evolves R m \<Longrightarrow> (\<And>x. evolves R (f x)) \<Longrightarrow> evolves R (loaded m e f)"
  unfolding loaded_def by (rule bind) (auto split: option.splits intro: simple)

lemma found: "evolves R m \<Longrightarrow> (\<And>x. evolves R (f x)) \<Longrightarrow> evolves R (found m e f)"
  unfolding found_def by (rule bind) (auto split: option.splits intro: simple)

lemma accepted: "(\<And>x. evolves R (f x)) \<Longrightarrow> evolves R (accepted r f)"
  unfolding accepted_def by (auto split: sum.splits intro: simple)

lemma with_guard: "evolves R m \<Longrightarrow> evolves R (with_guard c req m)"
  unfolding with_guard_def console_guard_def by (rule and_then) (auto intro: simple)

lemma with_pool: "evolves R m \<Longrightarrow> evolves R (with_pool c req m)"
  unfolding with_pool_def pool_def by (rule and_then) (auto intro!: bind simple split: option.splits)

lemma reply_json: "evolves R (reply_json status v)"
  unfolding reply_json_def by (rule simple)

lemma reply_audited: "evolves R (reply_audited status f x)"
  unfolding reply_audited_def by (rule reply_json)

lemma reply_page: "evolves R (reply_page c page)"
  unfolding reply_page_def by (intro and_then bind clock simple reply_json)

lemma with_query: "(\<And>q. evolves R (f q)) \<Longrightarrow> evolves R (with_query c req decode pairs f)"
  unfolding with_query_def by (auto split: option.splits intro: simple)

lemma with_body: "(\<And>i. evolves R (f i)) \<Longrightarrow> evolves R (with_body c req decode body f)"
  unfolding with_body_def by (auto split: option.splits intro: simple)

lemma with_path_id: "(\<And>i. evolves R (f i)) \<Longrightarrow> evolves R (with_path_id c req s f)"
  unfolding with_path_id_def by (auto split: option.splits intro: simple)

lemmas steps = return bind and_then simple db_read clock then_read read_or loaded found accepted
  with_guard with_pool reply_json reply_audited reply_page with_query with_body with_path_id

text \<open>The repository's reads.\<close>

lemma upstreams: "evolves R upstreams"
  unfolding upstreams_def proof_rows_def proof_freshness_seconds_def Let_def by (intro steps)

lemma clients: "evolves R clients"
  unfolding clients_def by (intro steps)

lemma admin_models: "evolves R admin_models"
  unfolding admin_models_def base_eligible_key_ids_def proof_rows_def proof_freshness_seconds_def
  by (intro steps)

lemma upstream_view_of: "evolves R (upstream_view_of i)"
  unfolding upstream_view_of_def by (intro steps upstreams)

lemma client_view_of: "evolves R (client_view_of i)"
  unfolding client_view_of_def by (intro steps)

lemma probe_of: "evolves R (probe_of i)"
  unfolding probe_of_def by (intro steps)

lemma with_updates: "evolves R (with_updates rows)"
  unfolding with_updates_def incident_updates_def by (auto intro!: steps)

lemma incidents: "evolves R incidents"
  unfolding incidents_def by (intro steps with_updates)

lemma load_policy: "evolves R load_policy"
  unfolding load_policy_def by (intro steps)

lemma load_settings: "evolves R load_settings"
  unfolding load_settings_def by (intro steps)

lemma request_view_of: "evolves R (request_view_of i)"
  unfolding request_view_of_def by (intro steps) (auto split: option.splits intro!: steps)

lemma qa_run: "evolves R (qa_run i)"
  unfolding qa_run_def by (intro steps) (auto split: option.splits intro!: steps)

lemma qa_runs: "evolves R (qa_runs n before)"
  unfolding qa_runs_def by (intro steps) (auto intro!: steps)

lemma qa_completion: "evolves R (qa_completion deployed suites)"
  by (induction suites)
    (auto simp: optional_run_def split: option.splits intro!: steps qa_run)

lemma current_attentions: "evolves R (current_attentions c)"
  unfolding current_attentions_def owner_lease_ready_def
  by (intro steps upstreams clients admin_models) (auto split: option.splits intro!: steps)

lemmas reads = upstreams clients admin_models upstream_view_of client_view_of probe_of with_updates
  incidents load_policy load_settings request_view_of qa_run qa_runs qa_completion current_attentions

lemmas page_reads = clients_page_def probes_page_def audit_events_page_def incidents_page_def
  requests_page_def request_aggregate_def eligible_key_ids_def upstream_ids_exist_def
  routing_slot_or_first_def

text \<open>The handlers that only read.\<close>

lemma keyset_list:
  "(\<And>before n. evolves R (rows before n)) \<Longrightarrow> evolves R (keyset_list c req q kind rows key f e)"
  unfolding keyset_list_def by (intro steps) (auto split: prod.splits intro!: steps)

lemma offset_list: "evolves R rows \<Longrightarrow> evolves R (offset_list c req q rows f e)"
  unfolding offset_list_def by (intro steps) (auto split: prod.splits intro!: steps)

lemma get_one: "evolves R item \<Longrightarrow> evolves R (get_one c req item f kind e)"
  unfolding get_one_def by (intro steps) (auto split: option.splits intro!: steps)

lemma lists:
  "evolves R (list_upstreams c req q)" "evolves R (list_models c req q)" "evolves R (list_clients c req q)"
  "evolves R (list_probes c req q)" "evolves R (list_audit c req q)" "evolves R (list_incidents c req q)"
  unfolding list_upstreams_def list_models_def list_clients_def list_probes_def list_audit_def
    list_incidents_def page_reads
  by (intro offset_list keyset_list steps reads)+

lemma list_requests: "evolves R (list_requests c req q)"
  unfolding list_requests_def page_reads by (intro steps) (auto split: prod.splits intro!: steps)

lemma list_qa_runs: "evolves R (list_qa_runs c req q)"
  unfolding list_qa_runs_def
  by (intro steps) (auto split: prod.splits option.splits intro!: steps reads)

lemma singles:
  "evolves R (get_upstream c req i)" "evolves R (get_client c req i)" "evolves R (get_request c req i)"
  "evolves R (get_probe c req i)" "evolves R (get_qa_run c req i)" "evolves R (get_routing_policy c req)"
  "evolves R (get_settings c req)" "evolves R (attentions c req)"
  unfolding get_upstream_def get_client_def get_request_def get_probe_def get_qa_run_def
    get_routing_policy_def get_settings_def attentions_def
  by (intro get_one steps reads)+

lemma simulate_routing: "evolves R (simulate_routing c req input)"
  unfolding simulate_routing_def Let_def page_reads by (auto intro!: steps reads)

lemma choice: "evolves R a \<Longrightarrow> evolves R b \<Longrightarrow> evolves R (if p then a else b)"
  by simp

lemma list_choice:
  "evolves R m \<Longrightarrow> (\<And>x rest. evolves R (f x rest)) \<Longrightarrow> evolves R (case xs of [] \<Rightarrow> m | x # rest \<Rightarrow> f x rest)"
  by (cases xs) simp_all

lemma no_route: "evolves R no_route"
  unfolding no_route_def by (rule simple)

lemmas routing = list_choice choice no_route with_query with_path_id with_body

lemma get_route: "evolves R (get_route c req pairs path)"
  unfolding get_route_def Let_def by (intro routing lists list_requests list_qa_runs singles)

end

interpretation moving: reading "moves c rid"
proof unfold_locales
  show "moves c rid w w" for w by (simp add: moves_def at_rest_def)
  show "moves c rid a b \<Longrightarrow> moves c rid b e \<Longrightarrow> moves c rid a e" for a b e by (rule moves_trans)
  show "still w w' \<Longrightarrow> moves c rid w w'" for w w'
    by (drule still_fields) (simp add: moves_def at_rest_def)
qed

interpretation quiet_reading: reading still
  by unfold_locales (auto simp: still_def)

end
