(* ===== verification/Console_Acts.thy ===== *)
theory Console_Acts
  imports Console_Steps
begin

text \<open>
  Every route of the console respects \<open>moves\<close>: whatever fails, what a request changes is a
  sequence of audited steps.
\<close>

section \<open>Transactions\<close>

lemma tx_moves:
  assumes "\<And>t now d x d'. tx t now d = Some (x, d') \<Longrightarrow> d' = d \<or> console_step c rid d d'"
  shows "evolves (moves c rid) (database_call tx)"
proof (rule evolvesI)
  fix w
  show "post (database_call tx) w (\<lambda>_ w'. moves c rid w w')"
  proof (cases "w_db w")
    case None
    then show ?thesis
      unfolding database_call_def next_tick_def post_def
      by (cases "w_ticks w") (auto simp: moves_def at_rest_def)
  next
    case (Some d)
    show ?thesis
    proof (rule database_callI [OF Some])
      fix t now ts r d'
      assume r: "run_tx (tk_fault t) (tx t now) d = (r, d')"
      have "d' = d \<or> console_step c rid d d'"
        using r assms [of t now d] by (cases rule: run_tx_cases [of "tk_fault t" "tx t now" d]) auto
      then show "moves c rid w (w\<lparr>w_ticks := ts, w_clock := now, w_db := Some d'\<rparr>)"
        using Some by (auto simp: moves_def at_rest_def stepped_def)
    qed
  qed
qed

lemma kept_moves: "keeps w_db m \<Longrightarrow> keeps w_vault m \<Longrightarrow> evolves (moves c rid) m"
  by (simp add: keeps_def evolves_def moves_def at_rest_def)

lemma with_audit_moves:
  assumes "\<And>t now d x d'. tx t now d = Some (x, d') \<Longrightarrow> console_step c rid d d'" "evolves (moves c rid) view"
  shows "evolves (moves c rid) (with_audit tx view)"
  unfolding with_audit_def by (intro moving.steps tx_moves assms(2)) (use assms(1) in blast)

lemma table_writes:
  "evolves (moves c rid) (update_routing_policy s n rid)"
  "evolves (moves c rid) (update_settings p rid)"
  "evolves (moves c rid) (sync_model_catalog rid)"
  unfolding update_routing_policy_def update_settings_def sync_model_catalog_def
  by (intro with_audit_moves moving.reads; fact console_step.intros)+

lemma record_probe_moves: "evolves (moves c rid) (record_probe_result input rid)"
  unfolding record_probe_result_def
  by (intro moving.steps tx_moves) (auto intro!: moving.steps moving.reads intro: console_step.probe)

lemma incident_after_moves: "evolves (moves c rid) (incident_after i audit)"
  unfolding incident_after_def by (intro moving.steps moving.reads)

lemma incident_writes:
  "evolves (moves c rid) (create_incident input rid)"
  "evolves (moves c rid) (update_incident i p rid)"
  "evolves (moves c rid) (create_incident_update i s m rid)"
  unfolding create_incident_def update_incident_def create_incident_update_def
  by (auto intro!: moving.steps tx_moves incident_after_moves
      intro: console_step.incident console_step.incident_fields console_step.incident_note)

lemma tx_create_qa_run_same:
  "tx_create_qa_run c suite cases live provider rid t now d = Some (x, d') \<Longrightarrow>
     d' = d \<or> console_step c rid d d'"
  using console_step.qa [of c suite cases live provider rid t now d]
  by (cases x) (auto simp: tx_create_qa_run_def Let_def split: list.splits if_splits)

lemma create_qa_attempts_moves: "evolves (moves c rid) (create_qa_attempts n c s cases live provider rid)"
proof (induction n)
  case (Suc n)
  show ?case
    by (simp, intro moving.steps tx_moves tx_create_qa_run_same, assumption)
      (auto split: option.splits qa_outcome.splits intro!: moving.steps moving.reads Suc)
qed (simp add: moving.steps)

lemma create_qa_run_moves: "evolves (moves c rid) (create_qa_run c suite live provider rid)"
  unfolding create_qa_run_def
  by (auto split: option.splits intro!: moving.steps create_qa_attempts_moves)

section \<open>The vault\<close>

lemma vault_call_db: "post (vault_call f) w (\<lambda>_ w'. w_db w' = w_db w)"
  by (rule vault_callI) simp

lemma restored_rest:
  assumes "w_db w' = w_db w"
  shows "post (restore_vault (w_vault w)) w' (\<lambda>_ w2. at_rest w w2)"
  using assms by (simp add: restore_vault_def at_rest_def)

lemma roll_back_state:
  "post (roll_back v e) w (\<lambda>r w'. w_db w' = w_db w \<and> v_state (w_vault w') = v_state v \<and> is_err r)"
  unfolding roll_back_def restore_vault_def
  by (auto simp: persist_for_rollback_def persist_def split: persist_io.splits sum.splits intro!: vault_callI)

lemma sync_audit_steps:
  assumes "am_request_id a = rid"
  shows "post (sync_unlocked_with_audit g (Some v) (Some a)) w (\<lambda>r w'. w_vault w' = w_vault w \<and>
    (w_db w' = w_db w \<and> (\<forall>i. r \<noteq> Ok (Some i)) \<or> stepped c rid w w'))"
proof (cases "w_db w")
  case None
  then show ?thesis unfolding sync_unlocked_with_audit_def by simp
next
  case (Some d)
  have call: "post (database_call (\<lambda>t now. sync_database_delta now (tk_uuid t) before current (Some a))) w
      (\<lambda>r w'. w_vault w' = w_vault w \<and> (w_db w' = w_db w \<and> r = None \<or> stepped c rid w w'))" for before current
  proof (rule database_callI [OF Some])
    fix t now ts r d'
    assume r: "run_tx (tk_fault t) (sync_database_delta now (tk_uuid t) before current (Some a)) d = (r, d')"
    have "d' = d \<and> r = None \<or> console_step c rid d d'"
      using r console_step.credentials [OF _ assms, of now "tk_uuid t" before current d]
      by (cases rule: run_tx_cases [of "tk_fault t" "sync_database_delta now (tk_uuid t) before current (Some a)" d]) auto
    then show "w_vault (w\<lparr>w_ticks := ts, w_clock := now, w_db := Some d'\<rparr>) = w_vault w \<and>
        (w_db (w\<lparr>w_ticks := ts, w_clock := now, w_db := Some d'\<rparr>) = w_db w \<and> r = None \<or>
         stepped c rid w (w\<lparr>w_ticks := ts, w_clock := now, w_db := Some d'\<rparr>))"
      using Some by (auto simp: stepped_def)
  qed
  then show ?thesis
    unfolding sync_unlocked_with_audit_def
    by (auto simp: Some ok_or_def split: sum.splits) (rule post_mono [OF call], auto simp: Some split: option.splits)
qed

text \<open>An operation that answers has stepped; one that fails has at most moved.\<close>

definition vault_moved :: "console \<Rightarrow> uuid \<Rightarrow> world \<Rightarrow> 'e + 'a \<Rightarrow> world \<Rightarrow> bool" where
  "vault_moved c rid w r w' \<longleftrightarrow> (if is_ok r then stepped c rid w w' else moves c rid w w')"

lemma vault_moved_simps [simp]:
  "vault_moved c rid w (Ok x) w' \<longleftrightarrow> stepped c rid w w'"
  "vault_moved c rid w (Err e) w' \<longleftrightarrow> moves c rid w w'"
  by (simp_all add: vault_moved_def)

lemma mutate_with_audit_moves:
  fixes operation :: "env \<Rightarrow> vault \<Rightarrow> (vault_error + 'a) \<times> vault"
  assumes "\<And>x. am_request_id (audit_for x) = rid"
  shows "post (mutate_with_audit g operation audit_for) w (vault_moved c rid w)"
proof -
  have undone: "post (roll_back (w_vault w) e) w2 (vault_moved c rid w)"
    if "w_db w2 = w_db w \<or> stepped c rid w w2" for e w2
    by (rule post_mono [OF roll_back_state])
      (use that in \<open>auto simp: moves_def at_rest_def stepped_def is_err_iff\<close>)
  have synced: "post (do {
        s \<leftarrow> sync_unlocked_with_audit g (Some (w_vault w)) (Some (audit_for x));
        case s of
          Inr (Some audit_id) \<Rightarrow> State_Monad.return (Ok (x, audit_id))
        | Inr None \<Rightarrow> roll_back (w_vault w) Needs_database
        | Inl e \<Rightarrow> roll_back (w_vault w) e }) w1
      (vault_moved c rid w)"
    if "w_db w1 = w_db w" for x w1
    unfolding post_bind
  proof (rule post_mono [OF sync_audit_steps [OF assms, of g "w_vault w" x w1 c]], elim conjE)
    fix s :: "store_error + uuid option" and w2
    assume v: "w_vault w2 = w_vault w1"
      and s: "w_db w2 = w_db w1 \<and> (\<forall>i. s \<noteq> Ok (Some i)) \<or> stepped c rid w1 w2"
    have "w_db w2 = w_db w \<and> (\<forall>i. s \<noteq> Ok (Some i)) \<or> stepped c rid w w2"
      using s that by (auto simp: stepped_def)
    then show "post (case s of Inr (Some audit_id) \<Rightarrow> State_Monad.return (Ok (x, audit_id))
        | Inr None \<Rightarrow> roll_back (w_vault w) Needs_database | Inl e \<Rightarrow> roll_back (w_vault w) e) w2
      (vault_moved c rid w)"
      by (auto split: sum.splits option.splits intro!: undone)
  qed
  show ?thesis
    unfolding mutate_with_audit_def post_bind post_observe
  proof (rule post_mono [OF vault_call_db])
    fix r :: "vault_error + 'a" and w1 :: world
    assume d: "w_db w1 = w_db w"
    show "post (case r of Inl e \<Rightarrow> do { _ \<leftarrow> restore_vault (w_vault w); State_Monad.return (Err (Operation e)) }
        | Inr x \<Rightarrow> do {
            s \<leftarrow> sync_unlocked_with_audit g (Some (w_vault w)) (Some (audit_for x));
            case s of
              Inr (Some audit_id) \<Rightarrow> State_Monad.return (Ok (x, audit_id))
            | Inr None \<Rightarrow> roll_back (w_vault w) Needs_database
            | Inl e \<Rightarrow> roll_back (w_vault w) e }) w1
      (vault_moved c rid w)"
      using d synced [OF d]
      by (auto split: sum.splits simp: restore_vault_def moves_def at_rest_def)
  qed
qed

text \<open>
  What an answer of the console says of the state: an error answer may follow a change, a success
  of a mutation always does. \<open>acts s m\<close>: every answer of \<open>m\<close> follows a move, an early answer is no
  success, and a value with \<open>s\<close> follows at least one step.
\<close>

section \<open>Acting programs\<close>

definition acts :: "console \<Rightarrow> uuid \<Rightarrow> ('a \<Rightarrow> bool) \<Rightarrow> 'a handler \<Rightarrow> bool" where
  "acts c rid s m \<longleftrightarrow> (\<forall>w. post m w (\<lambda>r w'. moves c rid w w' \<and>
     (case r of Inl e \<Rightarrow> \<not> is_success (rp_status e) | Inr x \<Rightarrow> s x \<longrightarrow> stepped c rid w w')))"

definition writes :: "console \<Rightarrow> uuid \<Rightarrow> ('a \<Rightarrow> bool) \<Rightarrow> 'a program \<Rightarrow> bool" where
  "writes c rid s m \<longleftrightarrow> (\<forall>w. post m w (\<lambda>r w'. moves c rid w w' \<and> (s r \<longrightarrow> stepped c rid w w')))"

lemma stepped_moves: "stepped c rid w w' \<Longrightarrow> moves c rid w w'"
  by (simp add: moves_def)

lemma writes_evolves: "writes c rid s m \<Longrightarrow> evolves (moves c rid) m"
  by (rule evolvesI) (auto simp: writes_def elim!: post_mono allE)

lemma evolves_writes: "evolves (moves c rid) m \<Longrightarrow> writes c rid (\<lambda>_. False) m"
  by (auto simp: writes_def intro: post_mono [OF evolves_post])

lemma acts_weaken: "acts c rid s m \<Longrightarrow> (\<And>x. s' x \<Longrightarrow> s x) \<Longrightarrow> acts c rid s' m"
  unfolding acts_def by (intro allI, rule post_mono, erule spec) (auto split: sum.splits)

lemma acts_answer: "\<not> is_success (rp_status e) \<Longrightarrow> acts c rid s (answer e)"
  by (simp add: acts_def moves_def at_rest_def)

lemma acts_yield: "\<not> s x \<Longrightarrow> acts c rid s (yield_ok x)"
  by (simp add: acts_def moves_def at_rest_def)

text \<open>A step before or after is a step of the whole.\<close>

lemma acts_bind:
  assumes "writes c rid p m" "\<And>x. p x \<Longrightarrow> acts c rid (\<lambda>_. False) (f x)" "\<And>x. \<not> p x \<Longrightarrow> acts c rid s (f x)"
  shows "acts c rid s (State_Monad.bind m f)"
  unfolding acts_def post_bind
proof
  fix w
  have "post m w (\<lambda>r w'. moves c rid w w' \<and> (p r \<longrightarrow> stepped c rid w w'))"
    using assms(1) by (simp add: writes_def)
  then show "post m w (\<lambda>x w1. post (f x) w1 (\<lambda>r w'. moves c rid w w' \<and>
      (case r of Inl e \<Rightarrow> \<not> is_success (rp_status e) | Inr y \<Rightarrow> s y \<longrightarrow> stepped c rid w w')))"
  proof (rule post_mono)
    fix x w1
    assume m: "moves c rid w w1 \<and> (p x \<longrightarrow> stepped c rid w w1)"
    show "post (f x) w1 (\<lambda>r w'. moves c rid w w' \<and>
        (case r of Inl e \<Rightarrow> \<not> is_success (rp_status e) | Inr y \<Rightarrow> s y \<longrightarrow> stepped c rid w w'))"
    proof (cases "p x")
      case True
      then have "post (f x) w1 (\<lambda>r w'. moves c rid w1 w' \<and>
          (case r of Inl e \<Rightarrow> \<not> is_success (rp_status e) | Inr y \<Rightarrow> False \<longrightarrow> stepped c rid w1 w'))"
        using assms(2) [of x] unfolding acts_def by blast
      then show ?thesis
        by (rule post_mono)
          (use m True in \<open>auto split: sum.splits intro: stepped_trans stepped_moves\<close>)
    next
      case False
      then have "post (f x) w1 (\<lambda>r w'. moves c rid w1 w' \<and>
          (case r of Inl e \<Rightarrow> \<not> is_success (rp_status e) | Inr y \<Rightarrow> s y \<longrightarrow> stepped c rid w1 w'))"
        using assms(3) [of x] by (simp add: acts_def)
      then show ?thesis
        by (rule post_mono)
          (use m in \<open>auto split: sum.splits intro: stepped_after moves_trans\<close>)
    qed
  qed
qed

lemma acts_read: "evolves (moves c rid) m \<Longrightarrow> (\<And>x. acts c rid s (f x)) \<Longrightarrow> acts c rid s (State_Monad.bind m f)"
  by (rule acts_bind [OF evolves_writes]) auto

lemma acts_and_then:
  assumes "acts c rid p m" "\<And>x. p x \<Longrightarrow> acts c rid (\<lambda>_. False) (f x)" "\<And>x. \<not> p x \<Longrightarrow> acts c rid s (f x)"
  shows "acts c rid s (and_then m f)"
proof -
  have m: "post m w (\<lambda>r w'. moves c rid w w' \<and>
      (case r of Inl e \<Rightarrow> \<not> is_success (rp_status e) | Inr x \<Rightarrow> p x \<longrightarrow> stepped c rid w w'))" for w
    using assms(1) by (simp add: acts_def)
  have rest: "post (f x) w1 (\<lambda>r w'. moves c rid w w' \<and>
      (case r of Inl e \<Rightarrow> \<not> is_success (rp_status e) | Inr y \<Rightarrow> s y \<longrightarrow> stepped c rid w w'))"
    if "moves c rid w w1" "p x \<longrightarrow> stepped c rid w w1" for x w w1
  proof (cases "p x")
    case True
    then have "post (f x) w1 (\<lambda>r w'. moves c rid w1 w' \<and>
        (case r of Inl e \<Rightarrow> \<not> is_success (rp_status e) | Inr y \<Rightarrow> False \<longrightarrow> stepped c rid w1 w'))"
      using assms(2) [of x] unfolding acts_def by blast
    then show ?thesis
      by (rule post_mono) (use that True in \<open>auto split: sum.splits intro: stepped_trans stepped_moves\<close>)
  next
    case False
    then have "post (f x) w1 (\<lambda>r w'. moves c rid w1 w' \<and>
        (case r of Inl e \<Rightarrow> \<not> is_success (rp_status e) | Inr y \<Rightarrow> s y \<longrightarrow> stepped c rid w1 w'))"
      using assms(3) [of x] by (simp add: acts_def)
    then show ?thesis
      by (rule post_mono) (use that in \<open>auto split: sum.splits intro: stepped_after moves_trans\<close>)
  qed
  show ?thesis
    unfolding acts_def post_and_then
    by (intro allI, rule post_mono [OF m], split sum.split) (use rest in auto)
qed

lemmas acts_then_read = acts_and_then [where p = "\<lambda>_. False", simplified]

text \<open>The handlers' own combinators.\<close>

lemma status_simps [simp]:
  "rp_status (refuse c req n a b) = n" "rp_status (invalid c req a b) = 422"
  "rp_status (failure c req a b) = 503" "rp_status (not_found c req k) = 404"
  "rp_status (insert_header k h r) = rp_status r" "rp_status (no_store r) = rp_status r"
  "rp_status (json_response n hs v) = n"
  by (simp_all add: refuse_def invalid_def failure_def not_found_def operations_error_def
      json_response_def insert_header_def no_store_def)

lemma failure_codes [simp]:
  "\<not> is_success 401" "\<not> is_success 404" "\<not> is_success 409" "\<not> is_success 422" "\<not> is_success 503"
  "\<not> is_success 400"
  by (simp_all add: is_success_def)

lemma acts_guard: "acts c rid (\<lambda>_. False) (console_guard k req)"
  unfolding console_guard_def by (auto intro!: acts_answer acts_yield)

lemma acts_guarded: "acts c rid s m \<Longrightarrow> acts c rid s (with_guard k req m)"
  unfolding with_guard_def by (rule acts_then_read [OF acts_guard])

lemma acts_pool: "acts c rid (\<lambda>_. False) (pool k req)"
  unfolding pool_def
  by (rule acts_read) (auto intro!: moving.steps acts_answer acts_yield split: option.splits)

lemma acts_with_pool: "acts c rid s m \<Longrightarrow> acts c rid s (with_pool k req m)"
  unfolding with_pool_def by (rule acts_then_read [OF acts_pool])

lemma acts_reply: "acts c rid (\<lambda>_. False) (reply_json n v)" "\<not> is_success n \<Longrightarrow> acts c rid (\<lambda>r. is_success (rp_status r)) (reply_json n v)"
  unfolding reply_json_def by (auto intro!: acts_yield)

lemma acts_reply_audited: "acts c rid (\<lambda>_. False) (reply_audited n f x)"
  unfolding reply_audited_def by (rule acts_reply)

lemma acts_loaded_read:
  "evolves (moves c rid) m \<Longrightarrow> \<not> is_success (rp_status e) \<Longrightarrow> (\<And>x. acts c rid s (f x)) \<Longrightarrow> acts c rid s (loaded m e f)"
  unfolding loaded_def by (rule acts_read) (auto split: option.splits intro: acts_answer)

lemma acts_loaded:
  "writes c rid (\<lambda>r. r \<noteq> None) m \<Longrightarrow> \<not> is_success (rp_status e) \<Longrightarrow> (\<And>x. acts c rid (\<lambda>_. False) (f x)) \<Longrightarrow>
   acts c rid s (loaded m e f)"
  unfolding loaded_def by (rule acts_bind, assumption) (auto intro: acts_answer)

lemma acts_found:
  "evolves (moves c rid) m \<Longrightarrow> \<not> is_success (rp_status e) \<Longrightarrow> (\<And>x. acts c rid s (f x)) \<Longrightarrow> acts c rid s (found m e f)"
  unfolding found_def by (rule acts_read) (auto split: option.splits intro: acts_answer)

lemma acts_mutated:
  assumes "\<And>x. am_request_id (audit_for x) = rid" "\<And>e. \<not> is_success (rp_status (refused e))"
    "\<And>x a. acts c rid (\<lambda>_. False) (f x a)"
  shows "acts c rid s (mutated k operation audit_for refused f)"
  unfolding mutated_def
proof (rule acts_bind [where p = is_ok])
  show "writes c rid is_ok (mutate_with_audit (co_gateway k) operation audit_for)"
    unfolding writes_def
    by (intro allI, rule post_mono [OF mutate_with_audit_moves [where c = c and rid = rid, OF assms(1)]])
      (auto simp: vault_moved_def intro: stepped_moves split: if_splits)
  show "acts c rid (\<lambda>_. False) (case r of Inl e \<Rightarrow> answer (refused e) | Inr (x, a) \<Rightarrow> f x a)" for r
    by (auto split: sum.splits simp: assms(2) intro!: acts_answer assms(3))
  show "acts c rid s (case r of Inl e \<Rightarrow> answer (refused e) | Inr (x, a) \<Rightarrow> f x a)" if "\<not> is_ok r" for r
    using that by (cases r) (auto simp: assms(2) intro!: acts_answer)
qed

section \<open>Writing programs\<close>

lemma writes_tx:
  assumes "\<And>t now d x d'. tx t now d = Some (x, d') \<Longrightarrow> console_step c rid d d' \<or> d' = d \<and> \<not> s (Some x)" "\<not> s None"
  shows "writes c rid s (database_call tx)"
  unfolding writes_def
proof
  fix w
  show "post (database_call tx) w (\<lambda>r w'. moves c rid w w' \<and> (s r \<longrightarrow> stepped c rid w w'))"
  proof (cases "w_db w")
    case None
    then show ?thesis
      unfolding database_call_def next_tick_def post_def
      by (cases "w_ticks w") (auto simp: moves_def at_rest_def assms(2))
  next
    case (Some d)
    show ?thesis
    proof (rule database_callI [OF Some])
      fix t now ts r d'
      assume r: "run_tx (tk_fault t) (tx t now) d = (r, d')"
      have "(d' = d \<or> console_step c rid d d') \<and> (s r \<longrightarrow> console_step c rid d d')"
        using r assms(1) [of t now d] assms(2)
        by (cases rule: run_tx_cases [of "tk_fault t" "tx t now" d]) auto
      then show "moves c rid w (w\<lparr>w_ticks := ts, w_clock := now, w_db := Some d'\<rparr>) \<and>
          (s r \<longrightarrow> stepped c rid w (w\<lparr>w_ticks := ts, w_clock := now, w_db := Some d'\<rparr>))"
        using Some by (auto simp: moves_def at_rest_def stepped_def)
    qed
  qed
qed

lemma writes_then_read:
  assumes "writes c rid (\<lambda>r. r \<noteq> None) m" "\<And>x. evolves (moves c rid) (f x)"
  shows "writes c rid (\<lambda>r. r \<noteq> None) (then_read m f)"
  unfolding writes_def then_read_def post_bind
proof
  fix w
  have "post m w (\<lambda>r w'. moves c rid w w' \<and> (r \<noteq> None \<longrightarrow> stepped c rid w w'))"
    using assms(1) by (simp add: writes_def)
  then show "post m w (\<lambda>r w1. post (case r of None \<Rightarrow> State_Monad.return None | Some x \<Rightarrow> f x) w1
      (\<lambda>r w'. moves c rid w w' \<and> (r \<noteq> None \<longrightarrow> stepped c rid w w')))"
    by (rule post_mono)
      (auto split: option.splits intro!: post_mono [OF evolves_post [OF assms(2)]] intro: stepped_trans stepped_moves)
qed

lemma writes_after: "evolves (moves c rid) m \<Longrightarrow> (\<And>x. writes c rid s (f x)) \<Longrightarrow> writes c rid s (State_Monad.bind m f)"
  unfolding writes_def post_bind
  by (intro allI, rule post_mono [OF evolves_post], assumption, rule post_mono, drule meta_spec, erule spec)
    (auto intro: moves_trans stepped_after)

lemma with_audit_writes:
  assumes "\<And>t now d x d'. tx t now d = Some (x, d') \<Longrightarrow> console_step c rid d d'" "evolves (moves c rid) view"
  shows "writes c rid (\<lambda>r. r \<noteq> None) (with_audit tx view)"
  unfolding with_audit_def
  by (intro writes_then_read writes_tx moving.steps assms(2)) (use assms(1) in auto)

lemma table_writes_step:
  "writes c rid (\<lambda>r. r \<noteq> None) (update_routing_policy st n rid)"
  "writes c rid (\<lambda>r. r \<noteq> None) (update_settings p rid)"
  "writes c rid (\<lambda>r. r \<noteq> None) (sync_model_catalog rid)"
  unfolding update_routing_policy_def update_settings_def sync_model_catalog_def
  by (intro with_audit_writes moving.reads; fact console_step.intros)+

lemma incident_writes_step:
  "writes c rid (\<lambda>r. r \<noteq> None) (create_incident input rid)"
  "writes c rid (\<lambda>r. r \<noteq> None) (update_incident i p rid)"
  "writes c rid (\<lambda>r. r \<noteq> None) (create_incident_update i st m rid)"
  unfolding create_incident_def update_incident_def create_incident_update_def
  by (intro writes_after moving.clock writes_then_read writes_tx; (auto intro!: incident_after_moves
      intro: console_step.incident console_step.incident_fields console_step.incident_note)?)+

lemma record_probe_writes: "writes c rid (\<lambda>r. r \<noteq> None) (record_probe_result input rid)"
  unfolding record_probe_result_def
  by (intro writes_then_read writes_tx; (auto intro!: moving.steps moving.reads intro: console_step.probe)?)

lemma create_qa_attempts_writes: "writes c rid is_ok (create_qa_attempts n c s cases live provider rid)"
proof (induction n)
  case (Suc n)
  let ?p = "\<lambda>r. \<exists>i a. r = Some (Created i a)"
  have tx: "writes c rid ?p (database_call (tx_create_qa_run c s cases live provider rid))"
  proof (rule writes_tx)
    fix t now d x d'
    assume x: "tx_create_qa_run c s cases live provider rid t now d = Some (x, d')"
    show "console_step c rid d d' \<or> d' = d \<and> \<not> ?p (Some x)"
      using x console_step.qa [of c s cases live provider rid t now d]
      by (cases x) (auto simp: tx_create_qa_run_def Let_def split: list.splits if_splits)
  qed simp
  show ?case
    unfolding writes_def create_qa_attempts.simps post_bind
  proof
    fix w
    have "post (database_call (tx_create_qa_run c s cases live provider rid)) w
        (\<lambda>r w'. moves c rid w w' \<and> (?p r \<longrightarrow> stepped c rid w w'))"
      using tx by (simp add: writes_def)
    then show "post (database_call (tx_create_qa_run c s cases live provider rid)) w (\<lambda>r w1.
        post (case r of
            None \<Rightarrow> State_Monad.return (Err Internal)
          | Some (Already_active i) \<Rightarrow> State_Monad.return (Err (Active_run i))
          | Some Conflicted \<Rightarrow> create_qa_attempts n c s cases live provider rid
          | Some (Created i audit) \<Rightarrow> do {
              run \<leftarrow> qa_run i;
              State_Monad.return (case run of Some (Some v) \<Rightarrow> Ok (v, audit) | _ \<Rightarrow> Err Internal) }) w1
          (\<lambda>r w'. moves c rid w w' \<and> (is_ok r \<longrightarrow> stepped c rid w w')))"
    proof (rule post_mono)
      fix r w1
      assume m: "moves c rid w w1 \<and> (?p r \<longrightarrow> stepped c rid w w1)"
      have again: "post (create_qa_attempts n c s cases live provider rid) w1
          (\<lambda>r w'. moves c rid w w' \<and> (is_ok r \<longrightarrow> stepped c rid w w'))"
        using Suc m unfolding writes_def
        by (auto intro: moves_trans stepped_after elim!: post_mono allE)
      have shown: "stepped c rid w w1 \<Longrightarrow>
          post (qa_run i) w1 (\<lambda>x w'. moves c rid w w' \<and> stepped c rid w w')" for i
        by (rule post_mono [OF evolves_post [OF moving.qa_run]]) (auto intro: stepped_trans stepped_moves)
      show "post (case r of
            None \<Rightarrow> State_Monad.return (Err Internal)
          | Some (Already_active i) \<Rightarrow> State_Monad.return (Err (Active_run i))
          | Some Conflicted \<Rightarrow> create_qa_attempts n c s cases live provider rid
          | Some (Created i audit) \<Rightarrow> do {
              run \<leftarrow> qa_run i;
              State_Monad.return (case run of Some (Some v) \<Rightarrow> Ok (v, audit) | _ \<Rightarrow> Err Internal) }) w1
          (\<lambda>r w'. moves c rid w w' \<and> (is_ok r \<longrightarrow> stepped c rid w w'))"
        using m again by (auto split: option.splits qa_outcome.splits elim!: post_mono [OF shown])
    qed
  qed
qed (simp add: writes_def moves_def at_rest_def)

lemma create_qa_run_writes: "writes c rid is_ok (create_qa_run c suite live provider rid)"
  unfolding create_qa_run_def
  by (auto split: option.splits intro: create_qa_attempts_writes) (simp_all add: writes_def moves_def at_rest_def)

end
