(* ===== verification/Console_Frames.thy ===== *)
theory Console_Frames
  imports Console_Steps
begin

text \<open>
  What a step of the console leaves alone. The tables of credentials change only in their own rows;
  every step appends exactly one audit row, of the request that made it; the request ledger is never
  touched.
\<close>

section \<open>Credential tables\<close>

definition without_credentials :: "db \<Rightarrow> db" where
  "without_credentials d =
     d\<lparr>db_keys := [], db_clients := [], db_routing := [], db_receipts := [], db_probes := []\<rparr>"

lemma without_credentials_updates [simp]:
  "without_credentials (d\<lparr>db_keys := ks\<rparr>) = without_credentials d"
  "without_credentials (d\<lparr>db_clients := cs\<rparr>) = without_credentials d"
  "without_credentials (d\<lparr>db_routing := rs\<rparr>) = without_credentials d"
  "without_credentials (d\<lparr>db_receipts := vs\<rparr>) = without_credentials d"
  "without_credentials (d\<lparr>db_probes := ps\<rparr>) = without_credentials d"
  by (simp_all add: without_credentials_def)

lemma credentials_frame:
  assumes "without_credentials d' = without_credentials d"
  shows "db_audit d' = db_audit d" "ledger_of d' = ledger_of d" "db_policies d' = db_policies d"
    "db_settings d' = db_settings d" "db_incidents d' = db_incidents d"
    "db_incident_updates d' = db_incident_updates d" "db_catalog d' = db_catalog d"
    "db_qa_runs d' = db_qa_runs d" "db_qa_cases d' = db_qa_cases d"
  using arg_cong [OF assms, of db_audit] arg_cong [OF assms, of ledger_of] arg_cong [OF assms, of db_policies]
    arg_cong [OF assms, of db_settings] arg_cong [OF assms, of db_incidents]
    arg_cong [OF assms, of db_incident_updates] arg_cong [OF assms, of db_catalog]
    arg_cong [OF assms, of db_qa_runs] arg_cong [OF assms, of db_qa_cases]
  by (simp_all add: without_credentials_def ledger_of_def)

lemma update_key_only: "update_key i n c f d = Some d' \<Longrightarrow> without_credentials d' = without_credentials d"
  by (auto simp: update_key_def bind_eq_Some_conv split: if_splits)

lemma update_key_count_only:
  "update_key_count i put get n m d = Some d' \<Longrightarrow> without_credentials d' = without_credentials d"
  by (auto simp: update_key_count_def bind_eq_Some_conv update_key_only split: if_splits)

lemma stale_receipts_only:
  "stale_receipts now p c d = Some d' \<Longrightarrow> without_credentials d' = without_credentials d"
  by (auto simp: stale_receipts_def Let_def split: if_splits)

lemma sync_key_only: "sync_key now prev c d = Some d' \<Longrightarrow> without_credentials d' = without_credentials d"
proof (cases "previous_key prev (kr_id c)")
  case (Some p)
  assume "sync_key now prev c d = Some d'"
  then have "sync_existing_key now p c d = Some d'" using Some by (simp add: sync_key_def)
  then show ?thesis
    unfolding sync_existing_key_def Let_def
    by (elim bind_SomeE) (auto dest!: update_key_only update_key_count_only stale_receipts_only)
qed (auto simp: sync_key_def insert_key_def Let_def bind_eq_Some_conv split: if_splits)

lemma update_client_row_only:
  "update_client_row i n c f d = Some d' \<Longrightarrow> without_credentials d' = without_credentials d"
  by (auto simp: update_client_row_def bind_eq_Some_conv split: if_splits)

lemma update_client_count_only:
  "update_client_count i n m d = Some d' \<Longrightarrow> without_credentials d' = without_credentials d"
  by (auto simp: update_client_count_def bind_eq_Some_conv update_client_row_only split: if_splits)

lemma sync_client_only: "sync_client now prev c d = Some d' \<Longrightarrow> without_credentials d' = without_credentials d"
proof (cases "previous_client prev (dr_id c)")
  case (Some p)
  assume "sync_client now prev c d = Some d'"
  then have "sync_existing_client now p c d = Some d'" using Some by (simp add: sync_client_def)
  then show ?thesis
    unfolding sync_existing_client_def Let_def
    by (elim bind_SomeE) (auto dest!: update_client_row_only update_client_count_only)
qed (auto simp: sync_client_def insert_client_def Let_def bind_eq_Some_conv split: if_splits)

lemma sync_cursor_only: "sync_cursor a b p d = Some d' \<Longrightarrow> without_credentials d' = without_credentials d"
  by (auto simp: sync_cursor_def split: if_splits)

lemma store_receipt_only: "store_receipt now p d = Some d' \<Longrightarrow> without_credentials d' = without_credentials d"
  by (auto simp: store_receipt_def upsert_receipt_def Let_def bind_eq_Some_conv split: if_splits option.splits)

lemma insert_probe_only: "insert_probe now p d = Some d' \<Longrightarrow> without_credentials d' = without_credentials d"
  by (auto simp: insert_probe_def Let_def split: if_splits)

lemma record_probe_only: "record_probe now p d = Some d' \<Longrightarrow> without_credentials d' = without_credentials d"
  unfolding record_probe_def
  by (elim bind_SomeE) (auto split: if_splits dest!: insert_probe_only store_receipt_only)

text \<open>The four parts of an audited change of the vault.\<close>

lemma sync_delta_cases:
  assumes "sync_database_delta now fresh previous current (Some a) d = Some (r, d')"
  obtains d1 where "without_credentials d1 = without_credentials d" and
    "d' = d1\<lparr>db_audit := db_audit d1 @ [new_audit fresh now (am_action a) (am_resource_kind a)
        (am_resource_id a) (Some (am_request_id a)) ''succeeded'' (am_detail a)]\<rparr>"
proof -
  obtain d1 d2 d3 where s:
    "for_each (sync_key now (sn_keys previous)) (sn_keys current) d = Some d1"
    "for_each (sync_client now (sn_downstream previous)) (sn_downstream current) d1 = Some d2"
    "for_each (sync_cursor (sn_cursors previous) (sn_cursors current)) PROFILES d2 = Some d3"
    "\<exists>i. write_audit now fresh a d3 = Some (i, d')"
    using assms unfolding sync_database_delta_def by (elim bind_SomeE) (rule that, auto)
  have k: "without_credentials d3 = without_credentials d"
    using for_each_keeps [where g = without_credentials, OF sync_key_only s(1)]
      for_each_keeps [where g = without_credentials, OF sync_client_only s(2)]
      for_each_keeps [where g = without_credentials, OF sync_cursor_only s(3)] by simp
  obtain d4 d5 where w:
    "(case am_client_policy a of None \<Rightarrow> Some d3 | Some p \<Rightarrow> apply_client_policy p d3) = Some d4"
    "(case am_probe a of None \<Rightarrow> Some d4 | Some p \<Rightarrow> record_probe now p d4) = Some d5"
    "d' = d5\<lparr>db_audit := db_audit d5 @ [new_audit fresh now (am_action a) (am_resource_kind a)
        (am_resource_id a) (Some (am_request_id a)) ''succeeded'' (am_detail a)]\<rparr>"
    using s(4) by (auto simp: write_audit_def bind_eq_Some_conv)
  have "without_credentials d4 = without_credentials d3"
    using w(1) by (auto simp: apply_client_policy_def split: option.splits)
  moreover have "without_credentials d5 = without_credentials d4"
    using w(2) record_probe_only by (auto split: option.splits)
  ultimately show ?thesis using that k w(3) by simp
qed

section \<open>One audit row per step\<close>

definition audit_row_of :: "uuid \<Rightarrow> audit_event \<Rightarrow> bool" where
  "audit_row_of rid a \<longleftrightarrow> ae_request_id a = Some rid \<and> ae_outcome a = ''succeeded''"

definition audits :: "uuid \<Rightarrow> db \<Rightarrow> db \<Rightarrow> bool" where
  "audits rid d d' \<longleftrightarrow> (\<exists>a. audit_row_of rid a \<and> db_audit d' = db_audit d @ [a]) \<and> ledger_of d' = ledger_of d"

lemma insert_audit_audits:
  "insert_audit action kind i rid detail t now d = Some (a, d') \<Longrightarrow> audits rid d d'"
  by (auto simp: insert_audit_def audits_def audit_row_of_def new_audit_def ledger_of_def)

lemma audits_before:
  "db_audit d1 = db_audit d \<Longrightarrow> ledger_of d1 = ledger_of d \<Longrightarrow> audits rid d1 d' \<Longrightarrow> audits rid d d'"
  by (simp add: audits_def)

lemma upsert_catalog_frame:
  "upsert_catalog s d = Some d' \<Longrightarrow> (db_audit d', ledger_of d') = (db_audit d, ledger_of d)"
  by (auto simp: upsert_catalog_def ledger_of_def split: if_splits)

lemma change_incident_frame:
  "change_incident i f d = Some d' \<Longrightarrow> db_audit d' = db_audit d \<and> ledger_of d' = ledger_of d"
  by (auto simp: change_incident_def ledger_of_def)

lemma insert_incident_update_frame:
  "insert_incident_update i k status message now d = Some d' \<Longrightarrow>
     db_audit d' = db_audit d \<and> ledger_of d' = ledger_of d"
  by (auto simp: insert_incident_update_def ledger_of_def split: if_splits)

lemma credentials_step_audits:
  assumes "sync_database_delta now fresh previous current (Some a) d = Some (r, d')"
  shows "audits (am_request_id a) d d'"
proof -
  obtain d1 where d1: "without_credentials d1 = without_credentials d" and
    "d' = d1\<lparr>db_audit := db_audit d1 @ [new_audit fresh now (am_action a) (am_resource_kind a)
        (am_resource_id a) (Some (am_request_id a)) ''succeeded'' (am_detail a)]\<rparr>"
    by (rule sync_delta_cases [OF assms])
  then show ?thesis
    using credentials_frame(1,2) [OF d1]
    by (auto simp: audits_def audit_row_of_def new_audit_def ledger_of_def)
qed

lemma console_step_audits:
  assumes "console_step c rid d d'"
  shows "audits rid d d'"
  using assms
proof cases
  case (catalog t now audit)
  then obtain d1 where d1: "for_each upsert_catalog MODEL_SPECS d = Some d1"
    and i: "audits rid d1 d'"
    by (auto simp: tx_sync_catalog_def bind_eq_Some_conv dest: insert_audit_audits)
  have "(db_audit d1, ledger_of d1) = (db_audit d, ledger_of d)"
    by (rule for_each_keeps [where g = "\<lambda>d. (db_audit d, ledger_of d)", OF upsert_catalog_frame d1])
  then show ?thesis using i by (simp add: audits_def)
next
  case (probe input t now ids)
  then have "\<exists>d2. audits rid d2 d' \<and> without_credentials d2 = without_credentials d"
    by (auto simp: tx_record_probe_def Let_def bind_eq_Some_conv split: if_splits
        dest!: insert_probe_only store_receipt_only insert_audit_audits; intro exI conjI, assumption, simp)
  then show ?thesis
    by (elim exE conjE) (rule audits_before, auto dest: credentials_frame(1,2))
next
  case (incident_fields k q t now audit)
  then show ?thesis
    by (auto simp: tx_update_incident_def bind_eq_Some_conv dest!: change_incident_frame insert_audit_audits
        intro: audits_before)
next
  case (incident_note instant k status message t now audit)
  then show ?thesis
    by (auto simp: tx_incident_message_def bind_eq_Some_conv
        dest!: change_incident_frame insert_incident_update_frame insert_audit_audits intro: audits_before)
next
  case (incident instant i t now ids)
  then obtain rows d1 where
    "insert_incident_update (random_id t 1) (random_id t 0) (ii_status i) (ii_message i) now
      (d\<lparr>db_incidents := rows\<rparr>) = Some d1"
    and i: "audits rid d1 d'"
    by (auto simp: tx_create_incident_def Let_def bind_eq_Some_conv split: if_splits
        dest!: insert_audit_audits)
  from insert_incident_update_frame [OF this(1)] i show ?thesis
    by (simp add: audits_def ledger_of_def)
next
  case (policy statuses cooldown t now audit)
  then show ?thesis
    by (auto simp: tx_update_policy_def Let_def audits_def ledger_of_def dest!: insert_audit_audits)
next
  case (settings p t now audit)
  then obtain s where "insert_audit ''settings.update'' ''settings'' None rid
      (JObject [(''metric_retention_days_changed'', JBool (sa_metric_retention p \<noteq> None)),
                (''proof_freshness_seconds_changed'', JBool (sa_freshness p \<noteq> None)),
                (''public_incidents_enabled_changed'', JBool (sa_public_incidents p \<noteq> None)),
                (''request_retention_days_changed'', JBool (sa_request_retention p \<noteq> None))])
      t now (d\<lparr>db_settings := s\<rparr>) = Some (audit, d')"
    by (auto simp: tx_update_settings_def bind_eq_Some_conv)
  then show ?thesis
    by (rule audits_before [rotated 2, OF insert_audit_audits]) (simp_all add: ledger_of_def)
next
  case (qa suite cases live provider t now run audit)
  then show ?thesis
    by (auto simp: tx_create_qa_run_def Let_def audits_def ledger_of_def split: list.splits if_splits
        dest!: insert_audit_audits)
next
  case (credentials now fresh previous current a r)
  then show ?thesis using credentials_step_audits by blast
qed

definition audit_trail :: "uuid \<Rightarrow> db \<Rightarrow> db \<Rightarrow> bool" where
  "audit_trail rid d d' \<longleftrightarrow>
     (\<exists>rows. rows \<noteq> [] \<and> list_all (audit_row_of rid) rows \<and> db_audit d' = db_audit d @ rows) \<and>
     ledger_of d' = ledger_of d"

lemma console_steps_trail: "console_steps c rid d d' \<Longrightarrow> audit_trail rid d d'"
proof (induction rule: console_steps_induct)
  case (step a b)
  then show ?case using console_step_audits unfolding audits_def audit_trail_def by fastforce
next
  case (trans a b e)
  then show ?case unfolding audit_trail_def by fastforce
qed

end
