(* ===== verification/Console_Audited.thy ===== *)
theory Console_Audited
  imports Console_Acts Console_Frames Console_Demo
begin

text \<open>
  Every mutation of the console that is answered with success has committed a step of the tables,
  so it has left its audit row; whatever else a request does, it only reads.
\<close>

section \<open>Provider probes\<close>

lemma send_moves: "evolves (moves c rid) (send l s)"
  by (intro kept_moves send_simple_keeps)

lemma sleep_moves: "evolves (moves c rid) (sleep d)"
  unfolding sleep_def by (intro moving.modify) (simp add: moves_def at_rest_def)

lemma draw_moves: "evolves (moves c rid) draw_uuid"
  unfolding draw_uuid_def
  by (intro moving.bind moving.return kept_moves) (auto simp: keeps_def next_tick_def split: list.splits)

lemma poll_loop_moves: "evolves (moves c rid) (poll_loop n endpoint secret deadline delay)"
proof (induction n arbitrary: delay)
  case (Suc n)
  then show ?case
    by (auto simp: poll_loop.simps split: sum.split intro!: moving.compose send_moves sleep_moves)
qed (simp add: poll_loop.simps moving.return)

lemma poll_nvcf_moves: "evolves (moves c rid) (poll_nvcf g p secret)"
  unfolding poll_nvcf_def by (auto split: option.split intro!: moving.compose poll_loop_moves)

lemma judge_moves: "evolves (moves c rid) (judge_answer k endpoint p)"
  unfolding judge_answer_def by (intro moving.steps)

lemma inner_moves: "evolves (moves c rid) (execute_profile_probe_inner k i s)"
  unfolding execute_profile_probe_inner_def credential_for_probe_def Let_def
  by (auto split: sum.split option.split
      intro!: moving.compose send_moves poll_nvcf_moves judge_moves)

lemma execute_moves: "evolves (moves c rid) (execute_profile_probe k i s)"
  unfolding execute_profile_probe_def Let_def by (intro moving.steps inner_moves)

lemma writes_map: "writes c rid s m \<Longrightarrow> (\<And>x. s' (f x) \<Longrightarrow> s x) \<Longrightarrow>
    writes c rid s' (State_Monad.bind m (\<lambda>x. State_Monad.return (f x)))"
  unfolding writes_def post_bind by (auto intro: post_mono)

lemma run_probe_writes: "writes c (rid_of k req) (\<lambda>r. snd r \<noteq> None) (run_profile_probe k req i s)"
  unfolding run_profile_probe_def
  by (intro writes_after [OF execute_moves] writes_map [OF record_probe_writes]) simp

lemma acts_run_probe:
  assumes "\<And>x. acts c (rid_of k req) s (answer (refused x))"
    "\<And>x run audit. acts c (rid_of k req) (\<lambda>_. False) (f x run audit)"
  shows "acts c (rid_of k req) s (do { r \<leftarrow> run_profile_probe k req i profile;
    case r of (x, None) \<Rightarrow> answer (refused x) | (x, Some (run, audit)) \<Rightarrow> f x run audit })"
  by (rule acts_bind [OF run_probe_writes]) (auto split: option.splits intro: assms)


lemma probe_profiles_acts:
  "acts c (rid_of k req) (\<lambda>r. snd r \<noteq> None \<and> audit = None) (probe_profiles k req i profiles runs audit)"
proof (induction profiles arbitrary: runs audit)
  case (Cons profile rest)
  show ?case
    by (auto split: option.splits intro!: acts_answer acts_run_probe acts_weaken [OF Cons.IH])
qed (auto intro: acts_yield)

lemma probe_on_keys_acts:
  "acts c (rid_of k req) (\<lambda>_. keys \<noteq> []) (probe_on_keys k req s keys runs audit failed)"
proof (induction keys arbitrary: runs audit failed)
  case (Cons i rest)
  show ?case
    by (auto intro!: acts_answer acts_run_probe acts_weaken [OF Cons.IH])
qed (simp add: acts_yield)

lemma acts_draw: "(\<And>x. acts c rid s (f x)) \<Longrightarrow> acts c rid s (State_Monad.bind draw_uuid f)"
  by (rule acts_read [OF draw_moves])

text \<open>A status chosen between two failures.\<close>

lemma choice_status:
  "is_success (rp_status (if b then x else y)) \<longleftrightarrow> b \<and> is_success (rp_status x) \<or> \<not> b \<and> is_success (rp_status y)"
  by simp

lemma store_probe_acts: "acts c (rid_of k req) s (store_credential_probe k req i spec x)"
  unfolding store_credential_probe_def
  by (auto simp: Let_def intro!: acts_draw acts_mutated acts_found acts_reply_audited moving.reads)

lemma probe_upstream_acts: "acts c (rid_of k req) (\<lambda>_. True) (probe_upstream k req i)"
  unfolding probe_upstream_def Let_def
  by (intro acts_guarded acts_with_pool acts_read [OF execute_moves])
    (auto intro!: store_probe_acts acts_loaded record_probe_writes acts_reply_audited)

lemma probe_profiles_route_acts: "acts c (rid_of k req) (\<lambda>_. True) (probe_upstream_profiles k req i input)"
  unfolding probe_upstream_profiles_def
  by (auto simp: credential_for_probe_def split: option.splits
      intro!: acts_guarded acts_answer acts_with_pool acts_found acts_reply acts_read moving.simple moving.reads
        acts_and_then [OF probe_profiles_acts])

lemma probe_model_acts: "acts c (rid_of k req) (\<lambda>_. True) (probe_model k req input)"
  unfolding probe_model_def Let_def
  by (auto simp: moving.page_reads split: option.split
      intro!: acts_guarded acts_answer acts_with_pool acts_loaded_read acts_reply moving.steps moving.reads
        acts_and_then [OF probe_on_keys_acts])

section \<open>Upstreams and clients\<close>

lemma upstream_acts:
  "acts c (rid_of k req) (\<lambda>_. True) (create_upstream k req input)"
  "acts c (rid_of k req) (\<lambda>_. True) (enable_upstream k req i)"
  "acts c (rid_of k req) (\<lambda>_. True) (disable_upstream k req i)"
  "acts c (rid_of k req) (\<lambda>_. True) (retire_upstream k req i)"
  unfolding create_upstream_def enable_upstream_def disable_upstream_def set_upstream_state_def
    retire_upstream_def plain_audit_def
  by (auto simp: choice_status intro!: acts_guarded acts_with_pool acts_mutated acts_found acts_reply acts_reply_audited moving.reads)

lemma client_acts:
  "acts c (rid_of k req) (\<lambda>_. True) (create_client k req cin)"
  "acts c (rid_of k req) (\<lambda>_. True) (update_client k req i p)"
  "acts c (rid_of k req) (\<lambda>_. True) (rotate_client k req i)"
  "acts c (rid_of k req) (\<lambda>_. True) (revoke_client k req i)"
  unfolding create_client_def update_client_def rotate_client_def revoke_client_def policy_audit_def plain_audit_def
  by (auto simp: Let_def choice_status intro!: acts_guarded acts_with_pool acts_answer acts_mutated acts_found acts_reply
      acts_reply_audited acts_read moving.reads moving.clock)

section \<open>Tables\<close>

lemma table_acts:
  "acts c (rid_of k req) (\<lambda>_. True) (change_routing_policy k req py)"
  "acts c (rid_of k req) (\<lambda>_. True) (sync_models k req)"
  "acts c (rid_of k req) (\<lambda>_. True) (change_settings k req sp)"
  unfolding change_routing_policy_def sync_models_def change_settings_def
  by (auto intro!: acts_guarded acts_with_pool acts_answer acts_loaded table_writes_step acts_reply acts_reply_audited)

lemma incident_acts:
  "acts c (rid_of k req) (\<lambda>_. True) (open_incident k req input)"
  "acts c (rid_of k req) (\<lambda>_. True) (change_incident_fields k req i ip)"
  "acts c (rid_of k req) (\<lambda>_. True) (post_incident_update k req i m)"
  unfolding open_incident_def change_incident_fields_def post_incident_update_def
  by (auto intro!: acts_guarded acts_with_pool acts_answer acts_loaded incident_writes_step acts_reply_audited)


section \<open>Routes\<close>

lemma qa_refused_status: "\<not> is_success (rp_status (qa_refused k req e))"
  by (cases e) (simp_all add: qa_refused_def hermes_refused_def operations_error_def json_response_def insert_header_def)

lemma moving_modify: "(\<And>w. w_db (g w) = w_db w \<and> w_vault (g w) = w_vault w) \<Longrightarrow> evolves (moves c rid) (modify g)"
  by (intro moving.modify) (simp add: moves_def at_rest_def)

lemma qa_acts: "acts c (rid_of c req) (\<lambda>_. True) (start_qa_run c req input)"
  unfolding start_qa_run_def
  by (auto simp: hermes_refused_def qa_refused_status split: sum.splits
      intro!: acts_guarded acts_with_pool acts_answer acts_bind [OF create_qa_run_writes]
        acts_read [OF moving_modify] acts_reply)

text \<open>What the router adds.\<close>

lemma extractor_status [simp]: "\<not> is_success (rp_status (extractor_error c req k message))"
  unfolding extractor_error_def
  by (simp add: choice_status openai_error_def json_response_def refuse_def operations_error_def
      insert_header_def is_success_def)

lemma acts_no_route: "acts c rid s no_route"
  unfolding no_route_def by (rule acts_answer) (simp add: is_success_def)

lemma acts_with_body: "(\<And>i. acts c rid s (f i)) \<Longrightarrow> acts c rid s (with_body k req decode body f)"
  unfolding with_body_def by (auto split: option.splits intro: acts_answer)

lemma acts_with_path_id: "(\<And>i. acts c rid s (f i)) \<Longrightarrow> acts c rid s (with_path_id k req segment f)"
  unfolding with_path_id_def by (auto split: option.splits intro: acts_answer)

lemma acts_if: "(p \<Longrightarrow> acts c rid s a) \<Longrightarrow> (\<not> p \<Longrightarrow> acts c rid s b) \<Longrightarrow> acts c rid s (if p then a else b)"
  by simp

lemma acts_list:
  "(xs = [] \<Longrightarrow> acts c rid s m) \<Longrightarrow> (\<And>x rest. xs = x # rest \<Longrightarrow> acts c rid s (f x rest)) \<Longrightarrow>
   acts c rid s (case xs of [] \<Rightarrow> m | x # rest \<Rightarrow> f x rest)"
  by (cases xs) simp_all

lemmas acts_routes = acts_list acts_if acts_no_route acts_with_body acts_with_path_id probe_upstream_acts
  probe_profiles_route_acts probe_model_acts upstream_acts client_acts table_acts incident_acts qa_acts

text \<open>The simulation is a \<open>POST\<close> that reads.\<close>

definition mutating_route :: "str \<Rightarrow> str list \<Rightarrow> bool" where
  "mutating_route verb path \<longleftrightarrow> verb \<in> set [''POST'', ''PATCH''] \<and> path \<noteq> [''routing'', ''simulate'']"

lemma post_route_acts:
  "path \<noteq> [''routing'', ''simulate''] \<Longrightarrow> acts c (rid_of c req) (\<lambda>_. True) (post_route c req body path)"
  unfolding post_route_def Let_def by (intro acts_routes) simp_all

lemma patch_route_acts: "acts c (rid_of c req) (\<lambda>_. True) (patch_route c req body path)"
  unfolding patch_route_def by (intro acts_routes)

lemma simulate_still: "evolves still (post_route c req body [''routing'', ''simulate''])"
  unfolding post_route_def by (simp add: quiet_reading.with_body quiet_reading.simulate_routing)


section \<open>The console's promise\<close>

lemma served_post: "post (served m) w Q \<longleftrightarrow> post m w (\<lambda>r w'. Q (case r of Inl e \<Rightarrow> e | Inr x \<Rightarrow> x) w')"
  by (simp add: served_def)

lemma acts_served:
  assumes "acts c rid (\<lambda>_. True) m"
  shows "post (served m) w (\<lambda>r w'. moves c rid w w' \<and> (is_success (rp_status r) \<longrightarrow> stepped c rid w w'))"
  unfolding served_post
  using assms unfolding acts_def
  by (intro post_mono [OF spec [of _ w]], assumption) (auto split: sum.splits)

text \<open>
  After a request: nothing the console manages has changed, or the tables have an audit row more,
  each with the request's identifier. The ledger of requests is the same in either case.
\<close>

definition audited_change :: "uuid \<Rightarrow> world \<Rightarrow> world \<Rightarrow> bool" where
  "audited_change rid w w' \<longleftrightarrow>
     (\<exists>d d'. w_db w = Some d \<and> w_db w' = Some d' \<and> audit_trail rid d d')"

lemma stepped_audited: "stepped c rid w w' \<Longrightarrow> audited_change rid w w'"
  unfolding stepped_def audited_change_def using console_steps_trail by blast

lemma moves_audited: "moves c rid w w' \<Longrightarrow> at_rest w w' \<or> audited_change rid w w'"
  unfolding moves_def using stepped_audited by blast

definition mutating_request :: "http_request \<Rightarrow> bool" where
  "mutating_request req \<longleftrightarrow>
     rq_method req \<in> set [''POST'', ''PATCH''] \<and> rq_path req \<noteq> ''/admin/api/v2/routing/simulate''"

lemma split_on_one: "split_on c s = [a] \<Longrightarrow> s = a"
  by (induction s arbitrary: a) (auto split: if_splits list.splits)

lemma split_on_two: "split_on c s = [a, b] \<Longrightarrow> s = a @ c # b"
  by (induction s arbitrary: a) (auto split: if_splits list.splits dest: split_on_one)

lemma simulate_path:
  assumes "strip_prefix ''/admin/api/v2/'' (rq_path req) = Some rest"
  shows "split_on (CHR ''/'') rest = [''routing'', ''simulate''] \<longleftrightarrow>
    rq_path req = ''/admin/api/v2/routing/simulate''"
proof -
  have p: "rq_path req = ''/admin/api/v2/'' @ rest" using assms by (simp add: strip_prefix_Some_iff)
  show ?thesis
  proof
    assume "split_on (CHR ''/'') rest = [''routing'', ''simulate'']"
    from split_on_two [OF this] show "rq_path req = ''/admin/api/v2/routing/simulate''" by (simp add: p)
  qed (simp add: p)
qed

lemma still_rest: "still w w' \<Longrightarrow> at_rest w w'"
  by (drule still_fields) (simp add: at_rest_def)

lemma served_still: "evolves still m \<Longrightarrow> post (served m) w (\<lambda>_ w'. still w w')"
  unfolding served_post by (rule evolves_post)

definition promise :: "console \<Rightarrow> http_request \<Rightarrow> http_response handler \<Rightarrow> bool" where
  "promise c req m \<longleftrightarrow> (\<forall>w. post (served m) w (\<lambda>r w'.
     (at_rest w w' \<or> audited_change (rid_of c req) w w') \<and>
     (mutating_request req \<longrightarrow> is_success (rp_status r) \<longrightarrow> audited_change (rid_of c req) w w') \<and>
     (\<not> mutating_request req \<longrightarrow> still w w')))"

lemma promise_still: "\<not> mutating_request req \<Longrightarrow> evolves still m \<Longrightarrow> promise c req m"
  unfolding promise_def by (auto elim!: served_still [THEN post_mono] intro: still_rest)

lemma promise_acts: "mutating_request req \<Longrightarrow> acts c (rid_of c req) (\<lambda>_. True) m \<Longrightarrow> promise c req m"
  unfolding promise_def
  by (intro allI, rule post_mono [OF acts_served], assumption) (auto dest: moves_audited stepped_audited)

lemma no_route_promise: "promise c req no_route"
  unfolding promise_def no_route_def
  by (auto simp: served_post quiet_reading.same at_rest_def is_success_def)

lemma routes_promise:
  assumes "console_route c req pairs body = Some m"
  shows "promise c req m"
proof -
  obtain rest where rest: "strip_prefix ''/admin/api/v2/'' (rq_path req) = Some rest"
    using assms by (auto simp: console_route_def split: option.splits)
  define path where "path = split_on (CHR ''/'') rest"
  have m: "m = (if rq_method req = ''GET'' then get_route c req pairs path
      else if rq_method req = ''POST'' then post_route c req body path
      else if rq_method req = ''PATCH'' then patch_route c req body path else no_route)"
    using assms rest by (auto simp: console_route_def path_def Let_def split: if_splits)
  have mutating: "mutating_request req \<longleftrightarrow>
      rq_method req \<in> set [''POST'', ''PATCH''] \<and> path \<noteq> [''routing'', ''simulate'']"
    using simulate_path [OF rest] by (simp add: mutating_request_def path_def)
  consider "rq_method req = ''GET''" | "rq_method req = ''POST''" "path = [''routing'', ''simulate'']"
    | "rq_method req = ''POST''" "path \<noteq> [''routing'', ''simulate'']" | "rq_method req = ''PATCH''"
    | "rq_method req \<notin> set [''GET'', ''POST'', ''PATCH'']"
    unfolding list.set insert_iff by blast
  then show ?thesis
  proof cases
    case 1
    then have "\<not> mutating_request req" by (simp add: mutating_request_def)
    from this quiet_reading.get_route show ?thesis unfolding m using 1 by (simp add: promise_still)
  next
    case 2
    then have "\<not> mutating_request req" by (simp add: mutating)
    from this simulate_still show ?thesis unfolding m using 2 by (simp add: promise_still)
  next
    case 3
    then have "mutating_request req" by (simp add: mutating)
    then show ?thesis unfolding m using 3 by (simp add: promise_acts post_route_acts)
  next
    case 4
    have "promise c req (patch_route c req body path)"
    proof (cases "path = [''routing'', ''simulate'']")
      case True
      then show ?thesis by (simp add: patch_route_def no_route_promise)
    next
      case False
      then have "mutating_request req" using 4 by (simp add: mutating)
      then show ?thesis by (simp add: promise_acts patch_route_acts)
    qed
    then show ?thesis unfolding m using 4 by simp
  next
    case 5
    then show ?thesis unfolding m by (simp add: no_route_promise)
  qed
qed

text \<open>
  C7. Every request the console's router accepts leaves its trace: it either changes nothing the
  console manages, in the tables or in the vault, or it leaves at least one audit row, each with
  the request's identifier and the outcome succeeded, appended after the rows there were, and the
  ledger of requests as it was. A mutating request answered with success is of the second kind,
  whatever fails on the way; every other request changes nothing but the clock.
\<close>

theorem console_changes_are_audited:
  assumes "console_route c req pairs body = Some m"
  shows "post (served m) w (\<lambda>r w'.
    (at_rest w w' \<or> audited_change (rid_of c req) w w') \<and>
    (mutating_request req \<and> is_success (rp_status r) \<longrightarrow> audited_change (rid_of c req) w w') \<and>
    (\<not> mutating_request req \<longrightarrow> still w w'))"
  using routes_promise [OF assms] unfolding promise_def by (simp only: imp_conjL)

theorem console_changes_are_audited_witness:
  "post (served (with_body demo_console (demo_console_request ''PATCH'' ''settings'') settings_patch_of
       (Some (JObject [(''request_retention_days'', num 14)]))
       (change_settings demo_console (demo_console_request ''PATCH'' ''settings'')))) demo_world (\<lambda>r w'.
    is_success (rp_status r) \<longrightarrow>
      audited_change (rid_of demo_console (demo_console_request ''PATCH'' ''settings'')) demo_world w')"
  by (rule post_mono [OF console_changes_are_audited [OF demo_routed(2)]])
    (simp add: mutating_request_def demo_console_request_def)

end
