(* ===== verification/Console_Walk.thy ===== *)
theory Console_Walk
  imports Console_Demo Uuid_Text
begin

text \<open>
  Following the cursors of a keyset list: page after page, while rows come and go between the
  pages. The walk is composed of the window, the statement and the page the handler
  \<open>keyset_list\<close> composes.
\<close>

section \<open>The walk\<close>

text \<open>The pages of successive states of the table, and whether the last one had no cursor.\<close>

fun keyset_walk ::
    "console \<Rightarrow> http_request \<Rightarrow> str \<Rightarrow> ('r \<Rightarrow> page_key) \<Rightarrow> nat \<Rightarrow> str option \<Rightarrow> 'r list list \<Rightarrow>
     'r list list \<times> bool" where
  "keyset_walk c req kind key limit cursor [] = ([], False)"
| "keyset_walk c req kind key limit cursor (rows # rest) =
     (case keyset_window c req \<lparr>lq_limit = Some limit, lq_before = cursor\<rparr> kind of
        Inl _ \<Rightarrow> ([], False)
      | Inr (n, before) \<Rightarrow>
          (case keyset_page c (page_rows key before (n + 1) rows) n kind key of
             (page, None) \<Rightarrow> ([page], True)
           | (page, Some following) \<Rightarrow>
               (case keyset_walk c req kind key limit (Some following) rest of
                  (pages, finished) \<Rightarrow> (page # pages, finished))))"

text \<open>What the libraries behind a cursor promise: what they print they read back.\<close>

definition cursors_read_back :: "console \<Rightarrow> bool" where
  "cursors_read_back c \<longleftrightarrow>
     crypto_ok (gw_crypto (co_gateway c)) \<and>
     (\<forall>t. co_parse_time c (co_show_time c t) = Some t) \<and>
     (\<forall>i. co_parse_uuid c (show_uuid i) = Some i) \<and>
     (\<forall>kind k. gw_parse (co_gateway c) (gw_show (co_gateway c) (cursor_json c kind k)) = Some (cursor_json c kind k))"

lemma cursor_roundtrip:
  assumes "cursors_read_back c"
  shows "decode_keyset_cursor c (encode_keyset_cursor c kind k) kind = Some k"
  using assms
  by (cases k)
    (simp add: cursors_read_back_def decode_keyset_cursor_def encode_keyset_cursor_def crypto_ok_def
      cursor_key_def cursor_fields_def cursor_json_def get_field_def uuid_json_def time_json_def num_def as_u64_def as_str_def)

section \<open>One page\<close>

definition below :: "page_key option \<Rightarrow> page_key \<Rightarrow> bool" where
  "below before k \<longleftrightarrow> is_none_or (\<lambda>b. k < b) before"

lemma below_trans: "below (Some b) k \<Longrightarrow> below before b \<Longrightarrow> below before k"
  by (cases before) (auto simp: below_def is_none_or_def)

lemma newest_set [simp]: "set (newest key rows) = set rows"
  by (simp add: newest_def)

lemma newest_descends:
  assumes "distinct (map key rows)"
  shows "sorted_wrt (>) (map key (newest key rows))"
proof -
  have "distinct (map key (sort_key key rows))"
    using assms by (simp add: distinct_map)
  then have "sorted_wrt (<) (map key (sort_key key rows))"
    by (simp add: strict_sorted_iff)
  then show ?thesis by (simp add: newest_def rev_map [symmetric] sorted_wrt_rev)
qed

lemma page_split:
  fixes before :: "page_key option" and key :: "'r \<Rightarrow> page_key"
  assumes "distinct (map key rows)" "1 \<le> n" "n \<le> 100"
  defines "items \<equiv> page_rows key before (n + 1) rows"
  shows "sorted_wrt (>) (map key (take n items))"
    "set (take n items) \<subseteq> {r \<in> set rows. below before (key r)}"
    "length items \<le> n \<Longrightarrow> set (take n items) = {r \<in> set rows. below before (key r)}"
    "n < length items \<Longrightarrow> length (take n items) = n \<and>
       (\<forall>r \<in> set rows. below before (key r) \<longrightarrow> r \<in> set (take n items) \<or> key r < key (last (take n items)))"
proof -
  define shown where "shown = newest key (filter (\<lambda>r. below before (key r)) rows)"
  have items: "items = take (n + 1) shown"
    using assms(2,3) by (simp add: items_def page_rows_def shown_def below_def clamp_def)
  have shown_set: "set shown = {r \<in> set rows. below before (key r)}" by (simp add: shown_def)
  have descends: "sorted_wrt (>) (map key shown)"
    using assms(1) by (simp add: shown_def newest_descends distinct_map_filter)
  have page: "take n items = take n shown" by (simp add: items)
  have "sorted_wrt (\<lambda>x y. key y < key x) (take n shown @ drop n shown)"
    using descends by (simp add: sorted_wrt_map)
  then have d: "sorted_wrt (>) (map key (take n shown))"
    "\<forall>x \<in> set (take n shown). \<forall>y \<in> set (drop n shown). key y < key x"
    unfolding sorted_wrt_append sorted_wrt_map by blast+
  show "sorted_wrt (>) (map key (take n items))" using d(1) page by simp
  show "set (take n items) \<subseteq> {r \<in> set rows. below before (key r)}"
    using shown_set set_take_subset [of n shown] by (simp add: page)
  show "set (take n items) = {r \<in> set rows. below before (key r)}" if "length items \<le> n"
    using that shown_set by (auto simp: page items min_def split: if_splits)
  show "length (take n items) = n \<and>
       (\<forall>r \<in> set rows. below before (key r) \<longrightarrow> r \<in> set (take n items) \<or> key r < key (last (take n items)))"
    if "n < length items"
  proof -
    have l: "n < length shown" using that by (simp add: items)
    then have "last (take n shown) \<in> set (take n shown)" using assms(2) by (intro last_in_set) auto
    moreover have "r \<in> set (take n shown) \<or> r \<in> set (drop n shown)" if "r \<in> set shown" for r
      using that set_append [of "take n shown" "drop n shown"] by simp
    ultimately show ?thesis using d(2) l shown_set page by auto
  qed
qed

section \<open>Many pages\<close>

lemma window_limit:
  "1 \<le> n \<Longrightarrow> n \<le> 100 \<Longrightarrow> keyset_window c req \<lparr>lq_limit = Some n, lq_before = None\<rparr> kind = Ok (n, None)"
  by (simp add: keyset_window_def page_limit_def)

lemma window_cursor:
  "1 \<le> n \<Longrightarrow> n \<le> 100 \<Longrightarrow> cursors_read_back c \<Longrightarrow>
   keyset_window c req \<lparr>lq_limit = Some n, lq_before = Some (encode_keyset_cursor c kind k)\<rparr> kind = Ok (n, Some k)"
  by (simp add: keyset_window_def page_limit_def cursor_roundtrip)

lemma descending_last: "sorted_wrt (>) (ks :: page_key list) \<Longrightarrow> k \<in> set ks \<Longrightarrow> last ks \<le> k"
  by (induction ks) (auto intro: less_imp_le)

lemma descending_distinct: "sorted_wrt (>) (ks :: page_key list) \<Longrightarrow> distinct ks"
  by (induction ks) auto

text \<open>What a walk from a key has shown, over whatever tables it was served from.\<close>

definition walked :: "('r \<Rightarrow> page_key) \<Rightarrow> nat \<Rightarrow> page_key option \<Rightarrow> 'r list list \<Rightarrow> 'r list list \<Rightarrow> bool \<Rightarrow> bool" where
  "walked key n before tables pages finished \<longleftrightarrow>
     sorted_wrt (>) (map key (concat pages)) \<and>
     (\<forall>r \<in> set (concat pages). below before (key r) \<and> (\<exists>t \<in> set tables. r \<in> set t)) \<and>
     (finished \<longrightarrow> (\<forall>r. (\<forall>t \<in> set tables. r \<in> set t) \<and> below before (key r) \<longrightarrow> r \<in> set (concat pages))) \<and>
     (\<not> finished \<longrightarrow> length (concat pages) = n * length tables)"

lemma walk_walked:
  assumes "cursors_read_back c" "1 \<le> n" "n \<le> 100"
    "\<forall>rows \<in> set tables. distinct (map key rows)"
    "keyset_window c req \<lparr>lq_limit = Some n, lq_before = cursor\<rparr> kind = Ok (n, before)"
    "keyset_walk c req kind key n cursor tables = (pages, finished)"
  shows "walked key n before tables pages finished"
  using assms(4-6)
proof (induction tables arbitrary: cursor before pages)
  case (Cons rows rest)
  let ?items = "page_rows key before (n + 1) rows"
  have split: "distinct (map key rows)" using Cons.prems(1) by simp
  note page = page_split [OF split assms(2,3), of before]
  show ?case
  proof (cases "n < length ?items")
    case False
    then have "pages = [take n ?items]" "finished"
      using Cons.prems(2,3) by (auto simp: keyset_page_def Let_def)
    then show ?thesis using page(1-3) False by (auto simp: walked_def)
  next
    case True
    let ?k = "key (last (take n ?items))"
    obtain more_pages where more: "keyset_walk c req kind key n (Some (encode_keyset_cursor c kind ?k)) rest = (more_pages, finished)"
      and pages: "pages = take n ?items # more_pages"
      using Cons.prems(2,3) True by (auto simp: keyset_page_def Let_def split: prod.splits)
    have w: "walked key n (Some ?k) rest more_pages finished"
      using Cons.IH [OF _ window_cursor [OF assms(2,3,1)] more] Cons.prems(1) by simp
    note p4 = page(4) [OF True]
    then have "take n ?items \<noteq> []" using assms(2) by auto
    then have last: "last (take n ?items) \<in> set (take n ?items)" by simp
    have low: "?k \<le> key r" if "r \<in> set (take n ?items)" for r
      using descending_last [OF page(1), of "key r"] that \<open>take n ?items \<noteq> []\<close> by (simp add: last_map)
    have before: "below before ?k" using page(2) last by auto
    have "sorted_wrt (>) (map key (concat pages))"
      using page(1) w low by (force simp: pages walked_def sorted_wrt_append below_def)
    moreover have "below before (key r) \<and> (\<exists>t \<in> set (rows # rest). r \<in> set t)" if "r \<in> set (concat pages)" for r
    proof (cases "r \<in> set (take n ?items)")
      case True
      then show ?thesis using page(2) by auto
    next
      case False
      then have "below (Some ?k) (key r) \<and> (\<exists>t \<in> set rest. r \<in> set t)"
        using that w unfolding walked_def pages by auto
      then show ?thesis using below_trans [of ?k "key r" before] before by auto
    qed
    moreover have "r \<in> set (concat pages)"
      if "finished" "\<forall>t \<in> set (rows # rest). r \<in> set t" "below before (key r)" for r
      using that p4 w unfolding walked_def pages by (auto simp: below_def is_none_or_def)
    moreover have "length (concat pages) = n * length (rows # rest)" if "\<not> finished"
      using that p4 w by (simp add: pages walked_def)
    ultimately show ?thesis unfolding walked_def by blast
  qed
qed (auto simp: walked_def)

text \<open>
  C11. A client that follows the cursors of a list, page after page, while rows appear and disappear
  between the pages, sees rows of the table only, in strictly descending order of time and
  identifier, so none twice. When it reaches the page without a cursor it has seen every row that was
  there all along; and it does reach it, before it has asked for more rows than there are.
\<close>

theorem keyset_walk_complete:
  assumes "cursors_read_back c" "1 \<le> limit" "limit \<le> 100"
    and "\<forall>rows \<in> set tables. distinct (map key rows)"
    and "keyset_walk c req kind key limit None tables = (pages, finished)"
  shows "sorted_wrt (>) (map key (concat pages)) \<and>
    set (concat pages) \<subseteq> (\<Union>rows \<in> set tables. set rows) \<and>
    (finished \<longrightarrow> (\<forall>r. (\<forall>rows \<in> set tables. r \<in> set rows) \<longrightarrow> r \<in> set (concat pages))) \<and>
    (card (\<Union>rows \<in> set tables. key ` set rows) < limit * length tables \<longrightarrow> finished)"
proof -
  have w: "walked key limit None tables pages finished"
    by (rule walk_walked [OF assms(1-4) window_limit [OF assms(2,3)] assms(5)])
  have "limit * length tables \<le> card (\<Union>rows \<in> set tables. key ` set rows)" if "\<not> finished"
  proof -
    have "distinct (map key (concat pages))"
      using w unfolding walked_def by (intro descending_distinct) simp
    then have "card (set (map key (concat pages))) = limit * length tables"
      using w that by (simp add: walked_def distinct_card del: set_map)
    moreover have "set (map key (concat pages)) \<subseteq> (\<Union>rows \<in> set tables. key ` set rows)"
    proof
      fix k
      assume "k \<in> set (map key (concat pages))"
      then obtain r where "r \<in> set (concat pages)" "k = key r" by auto
      then show "k \<in> (\<Union>rows \<in> set tables. key ` set rows)" using w unfolding walked_def by blast
    qed
    moreover have "finite (\<Union>rows \<in> set tables. key ` set rows)" by simp
    ultimately show ?thesis using card_mono by metis
  qed
  moreover have "set (concat pages) \<subseteq> (\<Union>rows \<in> set tables. set rows)" using w unfolding walked_def by blast
  moreover have "below None k" for k by (simp add: below_def)
  ultimately show ?thesis using w unfolding walked_def not_less [symmetric] by blast
qed

section \<open>A walk\<close>

text \<open>A library that prints the texts of a cursor and reads them back.\<close>

definition demo_show_cursor :: "json \<Rightarrow> bytes" where
  "demo_show_cursor v =
     (case v of
        JObject [(_, JString a), (_, JString b), (_, JString k), _] \<Rightarrow> quoted a @ quoted b @ quoted k
      | _ \<Rightarrow> [])"

definition demo_parse_cursor :: "bytes \<Rightarrow> json option" where
  "demo_parse_cursor raw =
     Option.bind (unquoted raw) (\<lambda>(a, raw). Option.bind (unquoted raw) (\<lambda>(b, raw).
       map_option (\<lambda>(k, _). JObject [(''at'', JString a), (''id'', JString b), (''kind'', JString k), (''version'', num 1)])
         (unquoted raw)))"

definition demo_reader :: console where
  "demo_reader = demo_console\<lparr>co_gateway := demo_gateway\<lparr>gw_show := demo_show_cursor, gw_parse := demo_parse_cursor\<rparr>,
     co_parse_uuid := demo_parse_uuid\<rparr>"

lemma demo_cursors: "cursors_read_back demo_reader"
proof -
  have "unquoted (quoted t) = Some (t, [])" for t using unquoted_quoted [of t "[]"] by simp
  then have "demo_parse_cursor (demo_show_cursor (cursor_json c kind k)) = Some (cursor_json c kind k)" for c kind k
    by (simp add: demo_parse_cursor_def demo_show_cursor_def cursor_json_def time_json_def uuid_json_def unquoted_quoted)
  then show ?thesis
    using plain_crypto_ok
    by (simp add: cursors_read_back_def demo_reader_def demo_console_def demo_gateway_def demo_uuids)
qed

definition demo_rows :: "page_key list" where "demo_rows = [(1, ''a''), (2, ''b''), (2, ''c'')]"

theorem keyset_walk_complete_witness:
  "snd (keyset_walk demo_reader (demo_console_request ''GET'' ''audit'') ''audit'' (\<lambda>k. k) 2 None [demo_rows, (3, ''d'') # demo_rows, demo_rows])"
proof -
  let ?req = "demo_console_request ''GET'' ''audit''"
  let ?tables = "[demo_rows, (3, ''d'') # demo_rows, demo_rows]"
  obtain pages finished where w: "keyset_walk demo_reader ?req ''audit'' (\<lambda>k. k) 2 None ?tables = (pages, finished)"
    by (cases "keyset_walk demo_reader ?req ''audit'' (\<lambda>k. k) 2 None ?tables")
  have d: "\<forall>rows \<in> set ?tables. distinct (map (\<lambda>k. k) rows)" by (simp add: demo_rows_def)
  have "(\<Union>rows \<in> set ?tables. (\<lambda>k. k) ` set rows) = set ((3, ''d'') # demo_rows)" by auto
  then have "card (\<Union>rows \<in> set ?tables. (\<lambda>k. k) ` set rows) < 2 * length ?tables"
    using card_length [of "(3, ''d'') # demo_rows"] by (simp add: demo_rows_def)
  then have finished
    using keyset_walk_complete [OF demo_cursors _ _ d w] by simp
  then show ?thesis unfolding w by simp
qed

end
