(* ===== verification/Console_Tables.thy ===== *)
theory Console_Tables
  imports Console_Frames Console_Demo
begin

text \<open>What the console keeps of its tables, over every history of its transactions.\<close>

section \<open>The invariant\<close>

definition policies_ok :: "policy_row list \<Rightarrow> bool" where
  "policies_ok rows \<longleftrightarrow> distinct (map po_version rows) \<and> length (filter po_active rows) \<le> 1"

definition incidents_ok :: "incident_row list \<Rightarrow> incident_update_row list \<Rightarrow> bool" where
  "incidents_ok rows updates \<longleftrightarrow>
     distinct (map ic_id rows) \<and> distinct (map ic_slug rows) \<and> list_all incident_row_ok rows \<and>
     distinct (map iu_id updates) \<and>
     list_all (\<lambda>u. iu_incident u \<in> set (map ic_id rows) \<and> iu_status u \<in> set INCIDENT_STATUSES) updates"

definition qa_ok :: "qa_run_row list \<Rightarrow> qa_case_row list \<Rightarrow> bool" where
  "qa_ok runs cases \<longleftrightarrow>
     distinct (map qr_id runs) \<and> list_all qa_row_ok runs \<and> length (filter qa_active runs) \<le> 1 \<and>
     distinct (map qc_id cases) \<and> list_all (\<lambda>k. qc_run k \<in> set (map qr_id runs)) cases"

definition tables_ok :: "db \<Rightarrow> bool" where
  "tables_ok d \<longleftrightarrow>
     policies_ok (db_policies d) \<and> (\<forall>s. db_settings d = Some s \<longrightarrow> settings_row_ok s) \<and>
     incidents_ok (db_incidents d) (db_incident_updates d) \<and> qa_ok (db_qa_runs d) (db_qa_cases d)"

text \<open>What a history adds to: the audit rows, the versions of the policy, the messages of incidents.\<close>

definition extends :: "db \<Rightarrow> db \<Rightarrow> bool" where
  "extends d d' \<longleftrightarrow>
     (\<exists>rows. db_audit d' = db_audit d @ rows) \<and>
     (\<exists>rows. map (\<lambda>p. (po_version p, po_document p)) (db_policies d') =
        map (\<lambda>p. (po_version p, po_document p)) (db_policies d) @ rows) \<and>
     (\<exists>rows. db_incident_updates d' = db_incident_updates d @ rows)"

lemma extends_refl [simp]: "extends d d"
  by (simp add: extends_def)

lemma extends_trans: "extends a b \<Longrightarrow> extends b e \<Longrightarrow> extends a e"
  unfolding extends_def by (elim conjE exE) simp

section \<open>Steps\<close>

lemma insert_audit_tables:
  assumes "insert_audit action kind i rid detail t now d = Some (a, d')"
  shows "tables_ok d' = tables_ok d" "extends d d'"
  using assms by (auto simp: insert_audit_def tables_ok_def extends_def)

definition kept_tables :: "db \<Rightarrow> db \<Rightarrow> bool" where
  "kept_tables d d' \<longleftrightarrow> tables_ok d' = tables_ok d \<and> extends d d'"

lemma insert_audit_kept: "insert_audit action kind i rid detail t now d = Some (a, d') \<Longrightarrow> kept_tables d d'"
  by (simp add: kept_tables_def insert_audit_tables)

lemma same_tables:
  assumes "db_policies d' = db_policies d" "db_settings d' = db_settings d" "db_incidents d' = db_incidents d"
    "db_incident_updates d' = db_incident_updates d" "db_qa_runs d' = db_qa_runs d"
    "db_qa_cases d' = db_qa_cases d" "db_audit d' = db_audit d"
  shows "tables_ok d' = tables_ok d" "extends d d'"
  using assms by (simp_all add: tables_ok_def extends_def)

lemma credential_tables:
  assumes "without_credentials d' = without_credentials d"
  shows "tables_ok d' = tables_ok d" "extends d d'"
  by (rule same_tables; rule credentials_frame [OF assms])+

lemma foldl_max_start: "m \<le> foldl max m (xs :: nat list)"
  by (induction xs arbitrary: m) (auto intro: order_trans [OF max.cobounded1])

lemma foldl_max_member: "x \<in> set xs \<Longrightarrow> x \<le> foldl max m (xs :: nat list)"
  by (induction xs arbitrary: m) (auto intro: order_trans [OF max.cobounded2 foldl_max_start])

lemma next_version_fresh: "r \<in> set rows \<Longrightarrow> po_version r < next_version rows"
  unfolding next_version_def by (simp add: less_Suc_eq_le foldl_max_member)

lemma policy_tables:
  assumes "tx_update_policy statuses cooldown rid t now d = Some (a, d')"
  shows "tables_ok d \<longrightarrow> tables_ok d'" "extends d d'"
proof -
  let ?rows = "map (\<lambda>r. r\<lparr>po_active := False\<rparr>) (db_policies d)
      @ [\<lparr>po_version = next_version (db_policies d), po_active = True, po_document = policy_document statuses cooldown\<rparr>]"
  have d': "tables_ok d' = tables_ok (d\<lparr>db_policies := ?rows\<rparr>)" "extends (d\<lparr>db_policies := ?rows\<rparr>) d'"
    using assms unfolding tx_update_policy_def Let_def by (auto dest: insert_audit_tables)
  have "filter po_active (map (\<lambda>r. r\<lparr>po_active := False\<rparr>) rows) = []" for rows :: "policy_row list"
    by (induction rows) auto
  then have "policies_ok ?rows" if "policies_ok (db_policies d)"
    using that next_version_fresh [of _ "db_policies d"] by (fastforce simp: policies_ok_def comp_def)
  then show "tables_ok d \<longrightarrow> tables_ok d'" unfolding d'(1) by (simp add: tables_ok_def)
  have "extends d (d\<lparr>db_policies := ?rows\<rparr>)" by (simp add: extends_def comp_def)
  with d'(2) show "extends d d'" using extends_trans by blast
qed

lemma settings_tables:
  assumes "tx_update_settings p rid t now d = Some (a, d')"
  shows "tables_ok d \<longrightarrow> tables_ok d'" "extends d d'"
proof -
  obtain s where s: "settings_row_ok s" and "tables_ok d' = tables_ok (d\<lparr>db_settings := Some s\<rparr>)"
    "extends (d\<lparr>db_settings := Some s\<rparr>) d'"
    using assms unfolding tx_update_settings_def by (auto simp: bind_eq_Some_conv dest: insert_audit_tables)
  moreover have "extends d (d\<lparr>db_settings := Some s\<rparr>)" by (simp add: extends_def)
  ultimately show "tables_ok d \<longrightarrow> tables_ok d'" "extends d d'"
    using extends_trans by (auto simp: tables_ok_def)
qed

lemma catalog_tables:
  assumes "tx_sync_catalog rid t now d = Some (a, d')"
  shows "tables_ok d \<longrightarrow> tables_ok d'" "extends d d'"
proof -
  let ?kept = "\<lambda>d. (db_policies d, db_settings d, db_incidents d, db_incident_updates d, db_qa_runs d,
      db_qa_cases d, db_audit d)"
  obtain d1 where d1: "for_each upsert_catalog MODEL_SPECS d = Some d1" and i: "tables_ok d' = tables_ok d1" "extends d1 d'"
    using assms unfolding tx_sync_catalog_def by (auto simp: bind_eq_Some_conv dest: insert_audit_tables)
  have k: "?kept d1 = ?kept d"
    by (rule for_each_keeps [where g = ?kept, OF _ d1]) (auto simp: upsert_catalog_def split: if_splits)
  have "tables_ok d1 = tables_ok d" "extends d d1" by (rule same_tables; use k in simp)+
  then show "tables_ok d \<longrightarrow> tables_ok d'" "extends d d'" using i extends_trans by blast+
qed

lemma probe_tables:
  assumes "tx_record_probe input rid t now d = Some (ids, d')"
  shows "tables_ok d \<longrightarrow> tables_ok d'" "extends d d'"
proof -
  have "\<exists>d2. kept_tables d2 d' \<and> without_credentials d2 = without_credentials d"
    using assms unfolding tx_record_probe_def Let_def
    by (auto simp: bind_eq_Some_conv split: if_splits
        dest!: insert_probe_only store_receipt_only insert_audit_kept; intro exI conjI, assumption, simp)
  then show "tables_ok d \<longrightarrow> tables_ok d'" "extends d d'"
    using credential_tables extends_trans unfolding kept_tables_def by blast+
qed

lemma incident_message_tables:
  assumes "insert_incident_update i k status message now d = Some d'"
  shows "tables_ok d \<longrightarrow> tables_ok d'" "extends d d'"
  using assms
  by (auto simp: insert_incident_update_def tables_ok_def extends_def incidents_ok_def list_ex_iff list_all_iff
      split: if_splits)

lemma change_incident_tables:
  assumes "change_incident i (\<lambda>r. f r) d = Some d'" "\<And>r. ic_id (f r) = ic_id r" "\<And>r. ic_slug (f r) = ic_slug r"
  shows "tables_ok d \<longrightarrow> tables_ok d'" "extends d d'"
proof -
  let ?u = "update_one (\<lambda>r. ic_id r = i) (\<lambda>r. checked incident_row_ok (f r)) (db_incidents d)"
  obtain rows where u: "?u = Some rows" and d': "d' = d\<lparr>db_incidents := rows\<rparr>"
    using assms(1) by (auto simp: change_incident_def)
  have "map ic_id rows = map ic_id (db_incidents d)" "map ic_slug rows = map ic_slug (db_incidents d)"
    by (rule update_one_map [OF u]; use assms(2,3) in auto)+
  moreover have "list_all incident_row_ok rows" if "list_all incident_row_ok (db_incidents d)"
    using update_one_member [OF u] that by (fastforce simp: list_all_iff)
  ultimately show "tables_ok d \<longrightarrow> tables_ok d'" "extends d d'"
    by (auto simp: d' tables_ok_def incidents_ok_def extends_def simp del: set_map)
qed

lemma incident_tables:
  assumes "tx_create_incident instant input rid t now d = Some (ids, d')"
  shows "tables_ok d \<longrightarrow> tables_ok d'" "extends d d'"
proof -
  define row where "row = \<lparr>ic_id = random_id t 0, ic_slug = ii_slug input, ic_title = ii_title input,
    ic_status = ii_status input, ic_severity = ii_severity input, ic_public = ii_public input,
    ic_started_at = now, ic_resolved_at = resolved_now instant (ii_status input), ic_created_at = now,
    ic_updated_at = now\<rparr>"
  have keys: "ic_id row = random_id t 0" "ic_slug row = ii_slug input" by (simp_all add: row_def)
  obtain d1 where row: "incident_row_ok row" "\<not> list_ex (\<lambda>r. ic_id r = ic_id row \<or> ic_slug r = ic_slug row) (db_incidents d)"
    and d1: "insert_incident_update (random_id t 1) (ic_id row) (ii_status input) (ii_message input) now
        (d\<lparr>db_incidents := db_incidents d @ [row]\<rparr>) = Some d1"
    and d': "tables_ok d' = tables_ok d1" "extends d1 d'"
    using assms unfolding tx_create_incident_def Let_def row_def [symmetric] keys
    by (auto simp: bind_eq_Some_conv split: if_splits dest: insert_audit_tables)
  have "tables_ok d \<longrightarrow> tables_ok (d\<lparr>db_incidents := db_incidents d @ [row]\<rparr>)"
    using row by (auto simp: tables_ok_def incidents_ok_def list_ex_iff list_all_iff)
  moreover have "extends d (d\<lparr>db_incidents := db_incidents d @ [row]\<rparr>)" by (simp add: extends_def)
  ultimately show "tables_ok d \<longrightarrow> tables_ok d'" "extends d d'"
    using incident_message_tables [OF d1] d' extends_trans by blast+
qed

lemma newest_Nil [simp]: "newest key rows = [] \<longleftrightarrow> rows = []"
proof -
  have "set (newest key rows) = set rows" by (simp add: newest_def)
  then show ?thesis by (metis set_empty)
qed

lemma qa_tables:
  assumes "tx_create_qa_run c suite cases live provider rid t now d = Some (Created run audit, d')"
  shows "tables_ok d \<longrightarrow> tables_ok d'" "extends d d'"
proof -
  let ?row = "new_qa_run c t now suite live provider"
  let ?cases = "new_qa_cases t (qr_id ?row) cases"
  let ?d = "d\<lparr>db_qa_runs := db_qa_runs d @ [?row], db_qa_cases := db_qa_cases d @ ?cases\<rparr>"
  have idle: "filter qa_active (db_qa_runs d) = []"
    using assms unfolding tx_create_qa_run_def by (auto split: list.splits)
  have new: "qa_row_ok ?row" "\<not> list_ex (\<lambda>r. qr_id r = qr_id ?row) (db_qa_runs d)"
    "distinct (map qc_id (db_qa_cases d @ ?cases))"
    and d': "tables_ok d' = tables_ok ?d" "extends ?d d'"
    using assms idle unfolding tx_create_qa_run_def Let_def
    by (auto split: list.splits if_splits dest: insert_audit_tables)
  have "list_all (\<lambda>k. qc_run k = qr_id ?row) ?cases"
    by (auto simp: new_qa_cases_def list_all_iff)
  then have "tables_ok d \<longrightarrow> tables_ok ?d"
    using new idle by (auto simp: tables_ok_def qa_ok_def list_ex_iff list_all_iff)
  moreover have "extends d ?d" by (simp add: extends_def)
  ultimately show "tables_ok d \<longrightarrow> tables_ok d'" "extends d d'"
    using d' extends_trans by blast+
qed

lemma step_tables:
  assumes "console_step c rid d d'"
  shows "tables_ok d \<longrightarrow> tables_ok d'" "extends d d'"
proof -
  have "(tables_ok d \<longrightarrow> tables_ok d') \<and> extends d d'"
    using assms
  proof cases
    case (incident_fields k q t now audit)
    then obtain d1 where d1: "change_incident k (patched_incident now q) d = Some d1" and i: "kept_tables d1 d'"
      unfolding tx_update_incident_def by (auto simp: bind_eq_Some_conv dest: insert_audit_kept)
    have "tables_ok d \<longrightarrow> tables_ok d1" "extends d d1"
      using change_incident_tables [OF d1] by (simp_all add: patched_incident_def)
    with i show ?thesis unfolding kept_tables_def using extends_trans by blast
  next
    case (incident_note instant k status message t now audit)
    then obtain d1 d2 where d1: "change_incident k (\<lambda>r. r\<lparr>ic_status := status,
         ic_resolved_at := resolved_now instant status, ic_updated_at := now\<rparr>) d = Some d1"
      and d2: "insert_incident_update (random_id t 0) k status message now d1 = Some d2" and i: "kept_tables d2 d'"
      unfolding tx_incident_message_def by (auto simp: bind_eq_Some_conv dest: insert_audit_kept)
    have "tables_ok d \<longrightarrow> tables_ok d1" "extends d d1" using change_incident_tables [OF d1] by simp_all
    with i incident_message_tables [OF d2] show ?thesis unfolding kept_tables_def using extends_trans by blast
  next
    case (credentials now fresh previous current a r)
    then obtain d1 where d1: "without_credentials d1 = without_credentials d"
      and d': "d' = d1\<lparr>db_audit := db_audit d1 @ [new_audit fresh now (am_action a) (am_resource_kind a)
        (am_resource_id a) (Some (am_request_id a)) ''succeeded'' (am_detail a)]\<rparr>"
      using sync_delta_cases by metis
    have "kept_tables d1 d'" by (simp add: d' kept_tables_def tables_ok_def extends_def)
    with credential_tables [OF d1] show ?thesis unfolding kept_tables_def using extends_trans by blast
  qed (intro conjI; erule policy_tables settings_tables catalog_tables probe_tables incident_tables qa_tables)+
  then show "tables_ok d \<longrightarrow> tables_ok d'" "extends d d'" by blast+
qed

text \<open>
  C12. Over every history of console transactions, whoever made them: at most one version of the
  routing policy is active and versions are never reused; the settings stay within the ranges the
  database demands; incidents keep distinct slugs, a resolution time exactly when resolved, and
  messages that belong to them; at most one QA run is queued or running, none has a result without an
  end. The audit rows, the documents of past policies and the messages are only ever added to.
\<close>

theorem console_tables_well_formed:
  assumes "(\<lambda>a b. \<exists>c rid. console_step c rid a b)\<^sup>*\<^sup>* d d'" "tables_ok d"
  shows "tables_ok d' \<and> extends d d'"
  using assms
proof (induction rule: rtranclp_induct)
  case (step a b)
  then show ?case using step_tables extends_trans by blast
qed simp

definition demo_change :: settings_patch where
  "demo_change = \<lparr>sa_freshness = None, sa_request_retention = Some 14, sa_metric_retention = None,
     sa_public_incidents = None\<rparr>"

theorem console_tables_well_formed_witness:
  "\<exists>a d'. tx_update_settings demo_change ''r'' quiet 0 demo_db = Some (a, d') \<and>
     map_option se_request_retention (db_settings d') = Some 14 \<and> tables_ok d' \<and> extends demo_db d'"
proof -
  have ok: "tables_ok demo_db"
    by (simp add: tables_ok_def demo_db_def policies_ok_def settings_row_ok_def incidents_ok_def qa_ok_def)
  obtain a d' where t: "tx_update_settings demo_change ''r'' quiet 0 demo_db = Some (a, d')"
    and s: "map_option se_request_retention (db_settings d') = Some 14"
    by (auto simp: tx_update_settings_def demo_db_def demo_change_def patched_settings_def settings_row_ok_def
        checked_def insert_audit_def unwrap_or_def)
  have "(\<lambda>a b. \<exists>c rid. console_step c rid a b)\<^sup>*\<^sup>* demo_db d'"
    using console_step.settings [OF t] by blast
  from console_tables_well_formed [OF this ok] t s show ?thesis by blast
qed

end
