(* ===== verification/Console_Simulate.thy ===== *)
theory Console_Simulate
  imports Guard_Props Console_Demo Ledger_Props
begin

text \<open>
  The simulation of routing against the selection itself: the order it answers is the order in which
  the keys would be tried, the first by the selection at admission and each next one by the
  selection of a failover.
\<close>

section \<open>The order\<close>

definition key_id :: "key_row \<Rightarrow> uuid" where
  "key_id k = kr_id (kw_key k)"

lemma key_id_eq: "key_id = (\<lambda>k. kr_id (kw_key k))"
  by (simp add: fun_eq_iff key_id_def)

lemma pick_slot_Nil [simp]: "pick_slot slot [] = None"
  by (simp add: pick_slot_def)

text \<open>The keys in the order they would be tried.\<close>

definition trying_order :: "nat \<Rightarrow> key_row list \<Rightarrow> key_row list" where
  "trying_order slot ks =
     (case pick_slot slot ks of None \<Rightarrow> [] | Some k \<Rightarrow> k # filter (\<lambda>x. x \<noteq> k) ks)"

lemma sort_key_map: "sort_key h (map v xs) = map v (sort_key (\<lambda>x. h (v x)) xs)"
proof -
  have "insort_key h (v x) (map v ys) = map v (insort_key (\<lambda>x. h (v x)) x ys)" for x ys
    by (induction ys) auto
  then show ?thesis by (induction xs) auto
qed

lemma pick_slot_None [simp]: "pick_slot slot ks = None \<longleftrightarrow> ks = []"
  by (auto simp: pick_slot_def split: option.splits list.splits)

lemma pick_slot_Some:
  assumes "pick_slot slot ks = Some k"
  shows "k \<in> set ks" "kw_slot k = slot \<or> (\<forall>x \<in> set ks. kw_slot x \<noteq> slot) \<and> k = hd ks"
proof -
  have "k \<in> set ks \<and> (kw_slot k = slot \<or> (\<forall>x \<in> set ks. kw_slot x \<noteq> slot) \<and> k = hd ks)"
  proof (cases "List.find (\<lambda>k. kw_slot k = slot) ks")
    case None
    then have "\<forall>x \<in> set ks. kw_slot x \<noteq> slot" by (auto simp: find_None_iff)
    then show ?thesis using assms None by (cases ks) (auto simp: pick_slot_def)
  next
    case (Some x)
    then have "k = x" using assms by (simp add: pick_slot_def)
    then show ?thesis using Some by (auto simp: find_Some_iff)
  qed
  then show "k \<in> set ks" "kw_slot k = slot \<or> (\<forall>x \<in> set ks. kw_slot x \<noteq> slot) \<and> k = hd ks" by blast+
qed

lemma trying_order_set [simp]: "set (trying_order slot ks) = set ks"
proof (cases "pick_slot slot ks")
  case (Some k)
  then show ?thesis using pick_slot_Some(1) [OF Some] by (auto simp: trying_order_def)
next
  case None
  then have "ks = []" using pick_slot_None by metis
  then show ?thesis by (simp add: trying_order_def pick_slot_def)
qed

lemma trying_order_distinct: "distinct ks \<Longrightarrow> distinct (trying_order slot ks)"
  by (simp add: trying_order_def split: option.splits)

lemma trying_order_sorted:
  assumes "sorted (map kw_slot ks)" "distinct (map kw_slot ks)"
  shows "sorted (map (\<lambda>k. (kw_slot k \<noteq> slot, kw_slot k)) (trying_order slot ks))"
proof (cases "pick_slot slot ks")
  case (Some k)
  note k = pick_slot_Some [OF Some]
  let ?rest = "filter (\<lambda>x. x \<noteq> k) ks"
  have others: "kw_slot x \<noteq> slot" if "x \<in> set ks" "x \<noteq> k" for x
    using that k assms(2) by (auto simp: distinct_map inj_on_def)
  have "sorted (map kw_slot ?rest)" using assms(1) by (rule sorted_filter)
  then have rest: "sorted (map (\<lambda>k. (kw_slot k \<noteq> slot, kw_slot k)) ?rest)"
    unfolding sorted_map by (rule sorted_wrt_mono_rel [rotated]) (use others in \<open>auto simp: less_eq_prod_def\<close>)
  have "(kw_slot k \<noteq> slot, kw_slot k) \<le> (kw_slot x \<noteq> slot, kw_slot x)" if "x \<in> set ?rest" for x
    using k(2)
  proof
    assume "kw_slot k = slot"
    then show ?thesis using others that by (simp add: less_eq_prod_def)
  next
    assume h: "(\<forall>x \<in> set ks. kw_slot x \<noteq> slot) \<and> k = hd ks"
    have "kw_slot k \<le> kw_slot x" using assms(1) h that by (cases ks) auto
    then show ?thesis using h k(1) that by simp
  qed
  then show ?thesis using rest Some by (auto simp: trying_order_def)
qed (auto simp: trying_order_def)

text \<open>The sort of the simulation and the order of trying are the same list.\<close>

lemma simulated_trying:
  assumes "distinct (map kw_slot ks)" "set rows = set ks" "distinct rows"
  shows "sort_key (\<lambda>k. (kw_slot k \<noteq> slot, kw_slot k)) rows = trying_order slot (sort_key kw_slot ks)"
proof -
  let ?f = "\<lambda>k. (kw_slot k \<noteq> slot, kw_slot k)"
  have d: "distinct (map kw_slot (sort_key kw_slot ks))" "distinct (sort_key kw_slot ks)"
    using assms(1) by (auto simp: distinct_map)
  have i: "inj_on ?f (set ks)" using assms(1) by (auto simp: distinct_map inj_on_def)
  show ?thesis
    by (rule map_sorted_distinct_set_unique [of ?f])
      (use i assms d in \<open>auto simp: trying_order_sorted trying_order_distinct distinct_map intro: inj_on_subset\<close>)
qed

section \<open>The handler in a quiet world\<close>

lemma quiet_read: "w_ticks w = [] \<Longrightarrow> w_db w = Some d \<Longrightarrow> post (db_read f) w Q \<longleftrightarrow> Q (Some (f (w_clock w) d)) w"
  by (cases w) (simp add: db_read_def database_call_def next_tick_def post_def quiet_def run_tx_def)

lemma quiet_then_read: "post (then_read m f) w Q \<longleftrightarrow>
    post m w (\<lambda>r w'. case r of None \<Rightarrow> Q None w' | Some x \<Rightarrow> post (f x) w' Q)"
  unfolding then_read_def post_bind by (rule iffI; erule post_mono; auto split: option.splits)

lemma quiet_upstreams:
  assumes "w_ticks w = []" "w_db w = Some d"
  shows "post upstreams w (\<lambda>r w'. w' = w \<and>
    (\<exists>v. r = Some (map v (key_rows d)) \<and> (\<forall>k. up_id (v k) = key_id k \<and> up_slot (v k) = kw_slot k)))"
  using assms
  by (auto simp: upstreams_def proof_rows_def proof_freshness_seconds_def quiet_then_read quiet_read clock_now_def
      Let_def upstream_of_def key_id_def)

text \<open>
  The keys a request of the profile may be sent to, when the gateway holds its lease.
\<close>

lemma hard_eligible_live:
  assumes "live_instance now d (Some owner)"
  shows "hard_eligible now d owner profile k \<longleftrightarrow>
    base_eligible now (kw_key k) \<and> fresh_receipt now d profile (key_id k)"
  using assms by (auto simp: hard_eligible_def base_eligible_def key_id_def)

lemma quiet_eligible:
  assumes "w_ticks w = []" "w_db w = Some d" "live_instance (w_clock w) d (Some owner)"
  shows "post (eligible_key_ids profile) w (\<lambda>r w'. w' = w \<and>
    r = Some (map key_id (candidates (w_clock w) d owner profile)))"
  using assms
  by (simp add: eligible_key_ids_def quiet_read candidates_def hard_eligible_live key_id_def cong: filter_cong)

lemma quiet_slot:
  assumes "w_ticks w = []" "w_db w = Some d" "routing_slot profile d = Some slot"
  shows "post (routing_slot_or_first profile) w (\<lambda>r w'. w' = w \<and> r = slot)"
  using assms by (simp add: routing_slot_or_first_def quiet_read)

lemma candidate_facts:
  fixes now :: time and owner :: uuid and profile :: str
  assumes "key_rows_unique (db_keys d)" "distinct (map key_id (db_keys d))"
  defines "chosen \<equiv> filter (hard_eligible now d owner profile) (db_keys d)"
  shows "distinct (map kw_slot chosen)" "distinct (map key_id chosen)"
    "candidates now d owner profile = sort_key kw_slot chosen"
proof -
  have "chosen = filter (hard_eligible now d owner profile) (active_rows (db_keys d))"
    unfolding chosen_def active_rows_def filter_filter by (rule filter_cong) (auto simp: hard_eligible_def)
  then show "distinct (map kw_slot chosen)"
    using assms(1) by (simp add: key_rows_unique_def distinct_map_filter)
  show "distinct (map key_id chosen)" using assms(2) by (simp add: chosen_def distinct_map_filter)
  show "candidates now d owner profile = sort_key kw_slot chosen" by (simp add: candidates_def chosen_def)
qed

lemma simulation_order:
  assumes "key_rows_unique (db_keys d)" "distinct (map key_id (db_keys d))"
    "\<forall>k. up_id (v k) = key_id k \<and> up_slot (v k) = kw_slot k"
  shows "map up_id (simulated_order slot
      (filter (\<lambda>u. up_id u \<in> set (map key_id (candidates now d owner profile))) (map v (key_rows d)))) =
    map key_id (trying_order slot (candidates now d owner profile))"
proof -
  let ?c = "candidates now d owner profile"
  let ?f = "\<lambda>k. (kw_slot k \<noteq> slot, kw_slot k)"
  note c = candidate_facts [OF assms(1,2), of now owner profile]
  have keep: "filter (\<lambda>u. up_id u \<in> set (map key_id ?c)) (map v (key_rows d)) =
      map v (filter (\<lambda>k. key_id k \<in> key_id ` set ?c) (key_rows d))"
    using assms(3) by (simp add: filter_map comp_def)
  have rows: "set (key_rows d) = set (db_keys d)" "distinct (key_rows d)"
    using assms(2) by (auto simp: key_rows_def distinct_map)
  have "set (filter (\<lambda>k. key_id k \<in> key_id ` set ?c) (key_rows d)) =
      set (filter (hard_eligible now d owner profile) (db_keys d))"
    using rows(1) assms(2) by (auto simp: c(3) distinct_map inj_on_def)
  then have "sort_key ?f (filter (\<lambda>k. key_id k \<in> key_id ` set ?c) (key_rows d)) = trying_order slot ?c"
    unfolding c(3) by (intro simulated_trying c(1) distinct_filter rows(2))
  moreover have "simulated_order slot (map v xs) = map v (sort_key ?f xs)" for xs
    using assms(3) by (simp add: simulated_order_def sort_key_map)
  ultimately show ?thesis unfolding keep using assms(3) by (simp add: comp_def)
qed

section \<open>The prediction\<close>

lemma filter_untried:
  assumes "distinct (map g xs)"
  shows "filter (\<lambda>x. g x \<notin> g ` set (take n xs)) xs = drop n xs"
proof -
  have "distinct (map g (take n xs @ drop n xs))" using assms by simp
  then have "g ` set (take n xs) \<inter> g ` set (drop n xs) = {}" by (simp del: append_take_drop_id)
  then have "filter (\<lambda>x. g x \<notin> g ` set (take n xs)) (take n xs @ drop n xs) = drop n xs"
    by (auto simp del: append_take_drop_id simp: filter_empty_conv filter_id_conv)
  then show ?thesis by simp
qed

text \<open>What a failover has left once the first keys of the order were tried.\<close>

lemma failover_skips:
  assumes "distinct (map key_id ks)" "trying_order slot ks = k # rest"
  shows "filter (\<lambda>x. key_id x \<notin> set (map key_id (take (Suc n) (k # rest)))) ks = drop n rest"
proof -
  have rest: "rest = filter (\<lambda>x. x \<noteq> k) ks" and k: "k \<in> set ks"
    using assms(2) pick_slot_Some(1) by (auto simp: trying_order_def split: option.splits)
  have d: "distinct (map key_id rest)" using assms(1) by (simp add: rest distinct_map_filter)
  have "filter (\<lambda>x. key_id x \<notin> set (map key_id (take (Suc n) (k # rest)))) ks =
      filter (\<lambda>x. key_id x \<notin> key_id ` set (take n rest)) (filter (\<lambda>x. x \<noteq> k) ks)"
    unfolding filter_filter using assms(1) k by (intro filter_cong) (auto simp: distinct_map inj_on_def)
  then show ?thesis using filter_untried [OF d] rest by simp
qed

text \<open>The selections after one another, as the identifiers they answer.\<close>

definition selections_follow :: "time \<Rightarrow> uuid \<Rightarrow> str \<Rightarrow> db \<Rightarrow> uuid list \<Rightarrow> bool" where
  "selections_follow now owner profile d order =
     (case order of
        [] \<Rightarrow> tx_select_initial now owner profile d = None
      | i # rest \<Rightarrow>
          (case tx_select_initial now owner profile d of
             None \<Rightarrow> False
           | Some ((chosen, _), d') \<Rightarrow>
               chosen = i \<and> tx_select_failover now owner profile order d' = None \<and>
               list_all (\<lambda>n. tx_select_failover now owner profile (take (Suc n) order) d' = Some (rest ! n, d'))
                 [0..<length rest]))"

lemma order_followed:
  assumes "routing_slot profile d = Some slot" "distinct (map key_id (candidates now d owner profile))"
  shows "selections_follow now owner profile d (map key_id (trying_order slot (candidates now d owner profile)))"
proof (cases "trying_order slot (candidates now d owner profile)")
  case Nil
  then show ?thesis using assms(1)
    by (auto simp: selections_follow_def tx_select_initial_def trying_order_def split: option.splits)
next
  case (Cons k rest)
  let ?d' = "advance_cursor profile (following_slot (kw_slot k)) d"
  have p: "pick_slot slot (candidates now d owner profile) = Some k"
    using Cons by (auto simp: trying_order_def split: option.splits)
  have c: "candidates now ?d' owner profile = candidates now d owner profile"
    by (simp add: candidates_def advance_cursor_def hard_eligible_def fresh_receipt_def live_instance_def cong: filter_cong)
  have f: "tx_select_failover now owner profile (take (Suc n) (map key_id (k # rest))) ?d' =
      (case drop n rest of [] \<Rightarrow> None | x # _ \<Rightarrow> Some (key_id x, ?d'))" for n
    using failover_skips [OF assms(2) Cons, of n]
    unfolding tx_select_failover_def c take_map by (simp add: key_id_def split: list.split)
  have "tx_select_failover now owner profile (take (Suc n) (map key_id (k # rest))) ?d' = Some (map key_id rest ! n, ?d')"
    if "n < length rest" for n
    using that unfolding f by (simp add: Cons_nth_drop_Suc [symmetric])
  moreover have "tx_select_failover now owner profile (map key_id (k # rest)) ?d' = None"
    using f [of "length rest"] by simp
  ultimately show ?thesis using assms(1) p
    by (simp add: selections_follow_def Cons tx_select_initial_def list_all_iff key_id_def)
qed


section \<open>A demonstration\<close>

text \<open>Two keys, the second of which the cursor names.\<close>

definition demo_operator :: http_request where
  "demo_operator =
     \<lparr>rq_method = ''POST'', rq_path = ''/admin/api/v2/routing/simulate'',
      rq_headers = [(''host'', ''localhost:80''), (''authorization'', ''Bearer t'')], rq_id = None\<rparr>"

definition demo_key :: "uuid \<Rightarrow> nat \<Rightarrow> key_row" where
  "demo_key i slot =
     \<lparr>kw_key = demo_exported\<lparr>kr_id := i, kr_label := i, kr_fingerprint := i, kr_enabled := True,
        kr_verified := True, kr_retired := False, kr_cooldown_until := None\<rparr>, kw_slot = slot\<rparr>"

definition demo_receipt :: "uuid \<Rightarrow> receipt_row" where
  "demo_receipt i =
     \<lparr>rc_profile = ''z-ai/glm-5.2'', rc_key = i, rc_verified_at = 5, rc_probe = None, rc_invalidated_at = None,
      rc_reason = None\<rparr>"

definition demo_routed_db :: db where
  "demo_routed_db = demo_db
     \<lparr>db_keys := [demo_key ''a'' 1, demo_key ''b'' 2],
      db_receipts := [demo_receipt ''a'', demo_receipt ''b''],
      db_routing := [\<lparr>rt_profile = ''z-ai/glm-5.2'', rt_next_slot = 2, rt_generation = 0\<rparr>],
      db_instances := [\<lparr>in_id = ''o'', in_last_seen = 9\<rparr>]\<rparr>"

definition demo_routed_world :: world where
  "demo_routed_world = demo_world\<lparr>w_db := Some demo_routed_db\<rparr>"

definition demo_question :: simulation_input where
  "demo_question = \<lparr>si_profile = ''z-ai/glm-5.2'', si_endpoint = ''/v1/chat/completions'', si_stream = True\<rparr>"

lemma demo_operator_authorized: "authorized ''t'' 80 demo_operator"
proof -
  have h: "header_all ''host'' demo_operator = [''localhost:80'']" "header_first ''origin'' demo_operator = None"
    "header_all ''authorization'' demo_operator = [''Bearer t'']"
    by (simp_all add: header_all_def header_first_def demo_operator_def)
  have u: "parse_u16 ''80'' = Some 80"
    by (simp add: parse_u16_def parse_unsigned_def is_ascii_digit_def code_def digit_val_def)
  have p: "parse_host_authority ''localhost:80'' = (''localhost'', Some 80)"
    by (simp add: parse_host_authority_def strip_prefix_def starts_with_def rsplit_once_def u
        to_ascii_lowercase_def ascii_lower_def code_def)
  have w: "host_authority_well_formed ''localhost:80''" "host_authority_well_formed ''localhost''"
    by (simp_all add: host_authority_well_formed_def strip_prefix_def starts_with_def u)
  have l: "admin_host_allowed ''localhost''"
    by (simp add: admin_host_allowed_def w(2) strip_prefix_def starts_with_def
        eq_ignore_ascii_case_def to_ascii_lowercase_def ascii_lower_def code_def)
  have v: "header_str ''localhost:80'' = Some ''localhost:80''" "header_str ''Bearer t'' = Some ''Bearer t''"
    by (simp_all add: header_str_def code_def)
  have "admin_surface_allowed_for_port demo_operator 80"
    by (simp add: admin_surface_allowed_for_port_def h v(1) w p l)
  then show ?thesis
    by (simp add: authorized_def bearer_def h v(2) strip_prefix_def starts_with_def constant_time_equal_iff)
qed


end
