(* ===== verification/Admin_Views.thy ===== *)
theory Admin_Views
  imports Console_Vault
begin

text \<open>
  The reads of the first administration API (\<open>admin.rs\<close>): the catalogue of models, the keys and
  credentials as the vault lists them, the slots with the profiles they are proven for, and the
  attempts of the ledger page by page. An attempt's identifier is the table's own, a function of
  the request and the number of the attempt, which are unique; the texts of the recommendations
  (Korean) and \<open>to_rfc3339\<close> are parameters. The order of an object's fields is that of the sources.
\<close>

section \<open>The API and its guard\<close>

record admin_api =
  ad_console :: console
  ad_attempt_id :: "uuid \<Rightarrow> nat \<Rightarrow> uuid"
  ad_rfc3339 :: "time \<Rightarrow> str"
  ad_text :: "str \<Rightarrow> str"

definition with_token :: "admin_api \<Rightarrow> http_request \<Rightarrow> 'a handler \<Rightarrow> 'a handler" where
  "with_token a req m =
     (if \<not> authorized (co_admin_token (ad_console a)) (co_public_port (ad_console a)) req
      then answer admin_unauthorized else m)"

definition plain_json :: "nat \<Rightarrow> json \<Rightarrow> http_response" where
  "plain_json status v = json_response status [] v"

text \<open>\<open>json!({"error": {"code": ..}})\<close>, and with a message.\<close>

definition code_error :: "nat \<Rightarrow> str \<Rightarrow> http_response" where
  "code_error status error_code =
     plain_json status (JObject [(''error'', JObject [(''code'', JString error_code)])])"

definition message_error :: "nat \<Rightarrow> str \<Rightarrow> str \<Rightarrow> http_response" where
  "message_error status error_code message =
     plain_json status (JObject [(''error'', JObject [(''code'', JString error_code), (''message'', JString message)])])"

definition fresh_reply :: "json \<Rightarrow> http_response handler" where
  "fresh_reply v = yield_ok (no_store (plain_json 200 v))"

text \<open>\<open>SELECT 1\<close>: without a database there is nothing to wait for.\<close>

definition database_answers :: "bool program" where
  "database_answers = do {
     d \<leftarrow> observe w_db;
     case d of
       None \<Rightarrow> State_Monad.return True
     | Some _ \<Rightarrow> do { r \<leftarrow> db_read (\<lambda>_ _. ()); State_Monad.return (r \<noteq> None) }
   }"

definition operator_readiness :: "admin_api \<Rightarrow> http_request \<Rightarrow> http_response handler" where
  "operator_readiness a req = with_token a req (do {
     database_ready \<leftarrow> database_answers;
     if \<not> database_ready
     then answer (plain_json 503 (JObject
       [(''runtime_state'', JString ''unavailable''), (''readiness_cause'', JString ''runtime_unavailable''),
        (''ledger_status'', JString ''capacity_blocked''), (''capacity_blocker'', JString ''orphaned_pending'')]))
     else do {
       now \<leftarrow> clock_now;
       keys \<leftarrow> store_list;
       fresh_reply (JObject
         [(''runtime_state'', JString ''operational''),
          (''readiness_cause'', JString (if 0 < eligible_key_count now keys then ''ready'' else ''no_eligible_upstream'')),
          (''ledger_status'', JString ''ok''), (''capacity_blocker'', JString ''none'')])
     }
   })"

section \<open>Profiles\<close>

text \<open>The receipts that are not invalidated, of whatever age; \<open>None\<close> where the query fails.\<close>

definition profile_proof_keys :: "(str \<times> uuid) list option program" where
  "profile_proof_keys = do {
     d \<leftarrow> observe w_db;
     case d of
       None \<Rightarrow> State_Monad.return (Some [])
     | Some _ \<Rightarrow> db_read (\<lambda>_ d. map (\<lambda>r. (rc_profile r, rc_key r))
                          (filter (\<lambda>r. rc_invalidated_at r = None) (db_receipts d)))
   }"

text \<open>The catalogue for clients: every profile, whatever its proof.\<close>

definition model_entry :: "str \<Rightarrow> json" where
  "model_entry i = JObject [(''id'', JString i), (''object'', JString ''model''), (''owned_by'', JString ''nvidia''),
     (''created'', num 1784332800)]"

definition models :: "admin_api \<Rightarrow> http_request \<Rightarrow> http_response handler" where
  "models a req =
     (let g = co_gateway (ad_console a)
      in case public_guard_response (co_fresh_id (ad_console a)) (gw_public_port g) req of
           Some response \<Rightarrow> answer response
         | None \<Rightarrow> and_then (authorize_scope g req ''models:read'') (\<lambda>downstream.
             and_then (record_accepted_downstream_use g downstream) (\<lambda>_.
               yield_ok (plain_json 200 (JObject
                 [(''object'', JString ''list''), (''data'', JArray (map model_entry PROFILES))])))))"

section \<open>Keys and credentials\<close>

definition key_summary_json :: "console \<Rightarrow> key_summary \<Rightarrow> json" where
  "key_summary_json c k =
     JObject [(''id'', uuid_json (ks_id k)), (''label'', JString (ks_label k)),
       (''fingerprint'', JString (ks_fingerprint k)), (''enabled'', JBool (ks_enabled k)),
       (''verified'', JBool (ks_verified k)), (''cooldown_until'', opt (time_json c) (ks_cooldown_until k)),
       (''request_count'', num (ks_request_count k)), (''failure_count'', num (ks_failure_count k))]"

definition downstream_summary_json :: "console \<Rightarrow> downstream_summary_view \<Rightarrow> json" where
  "downstream_summary_json c d =
     JObject [(''id'', uuid_json (ds_id d)), (''label'', JString (ds_label d)), (''scopes'', strs (ds_scopes d)),
       (''active'', JBool (ds_active d)), (''request_count'', num (ds_request_count d)),
       (''last_used_at'', opt (time_json c) (ds_last_used_at d)), (''created_at'', time_json c (ds_created_at d)),
       (''revoked_at'', opt (time_json c) (ds_revoked_at d))]"

definition items_json :: "json list \<Rightarrow> json" where
  "items_json xs = JObject [(''items'', JArray xs)]"

definition store_list_downstream :: "downstream_summary_view list program" where
  "store_list_downstream = observe (\<lambda>w. list_downstream (w_vault w))"

definition list_keys :: "admin_api \<Rightarrow> http_request \<Rightarrow> http_response handler" where
  "list_keys a req = with_token a req (do {
     keys \<leftarrow> store_list;
     yield_ok (plain_json 200 (items_json (map (key_summary_json (ad_console a)) keys)))
   })"

definition list_downstream_credentials :: "admin_api \<Rightarrow> http_request \<Rightarrow> http_response handler" where
  "list_downstream_credentials a req = with_token a req (do {
     items \<leftarrow> store_list_downstream;
     yield_ok (plain_json 200 (items_json (map (downstream_summary_json (ad_console a)) items)))
   })"

section \<open>Evidence\<close>

definition evidence_json :: "str \<Rightarrow> nat \<Rightarrow> nat \<Rightarrow> nat \<Rightarrow> nat \<Rightarrow> json" where
  "evidence_json source keys downstream profiles attempts =
     JObject [(''source_of_truth'', JString source), (''persisted_upstream_keys'', num keys),
       (''persisted_downstream_credentials'', num downstream), (''persisted_routing_profiles'', num profiles),
       (''persisted_request_attempts'', num attempts)]"

text \<open>Four counts, each a statement of its own.\<close>

definition store_evidence :: "json option program" where
  "store_evidence = do {
     d \<leftarrow> observe w_db;
     case d of
       None \<Rightarrow> do {
         keys \<leftarrow> store_list;
         downstream \<leftarrow> store_list_downstream;
         State_Monad.return (Some (evidence_json ''encrypted-file-fallback'' (length keys) (length downstream) 0 0))
       }
     | Some _ \<Rightarrow>
         then_read (db_read (\<lambda>_ d. length (active_rows (db_keys d)))) (\<lambda>keys.
         then_read (db_read (\<lambda>_ d. length (db_clients d))) (\<lambda>downstream.
         then_read (db_read (\<lambda>_ d. length (db_routing d))) (\<lambda>profiles.
         then_read (db_read (\<lambda>_ d. length (db_attempts d))) (\<lambda>attempts.
           State_Monad.return (Some (evidence_json ''postgresql'' keys downstream profiles attempts))))))
   }"

definition admin_evidence :: "admin_api \<Rightarrow> http_request \<Rightarrow> http_response handler" where
  "admin_evidence a req =
     with_token a req (loaded store_evidence (code_error 503 ''evidence_unavailable'') fresh_reply)"

section \<open>Overview\<close>

definition recommendation :: "admin_api \<Rightarrow> nat \<Rightarrow> key_summary list \<Rightarrow> json" where
  "recommendation a eligible_keys keys =
     (let entry = (\<lambda>name action route. JObject
            [(''action'', JString action), (''label'', JString (ad_text a (name @ ''.label''))),
             (''route'', JString route), (''reason'', JString (ad_text a (name @ ''.reason'')))])
      in if keys = [] then entry ''first_key'' ''add_upstream_key'' ''routing''
         else if list_ex (\<lambda>k. \<not> ks_verified k) keys then entry ''probe'' ''probe_upstream_key'' ''routing''
         else if eligible_keys = 0 then entry ''inspect'' ''inspect_routing'' ''routing''
         else if length keys < MAX_UPSTREAM_KEYS then entry ''second_key'' ''add_upstream_key'' ''routing''
         else entry ''monitor'' ''monitor'' ''evidence'')"

definition needs_attention :: "key_summary \<Rightarrow> bool" where
  "needs_attention k \<longleftrightarrow> \<not> ks_enabled k \<or> \<not> ks_verified k \<or> ks_cooldown_until k \<noteq> None"

definition attention_fields :: "console \<Rightarrow> key_summary \<Rightarrow> (str \<times> json) list" where
  "attention_fields c k =
     [(''code'', JString (if ks_cooldown_until k \<noteq> None then ''upstream_cooldown''
                          else if \<not> ks_verified k then ''probe_required'' else ''upstream_disabled'')),
      (''resource'', JObject [(''kind'', JString ''upstream_key''), (''id'', uuid_json (ks_id k))]),
      (''label'', JString (ks_label k)),
      (''next_action'', JString (if \<not> ks_verified k then ''probe'' else ''inspect_routing'')),
      (''expires_at'', opt (time_json c) (ks_cooldown_until k))]"

definition check_json :: "key_summary \<Rightarrow> json" where
  "check_json k = JObject
     [(''kind'', JString ''upstream_key''), (''id'', uuid_json (ks_id k)), (''label'', JString (ks_label k)),
      (''status'', JString (if ks_enabled k \<and> ks_verified k \<and> ks_cooldown_until k = None then ''eligible''
         else if ks_cooldown_until k \<noteq> None then ''cooldown'' else if ks_verified k then ''disabled''
         else ''probe_required'')),
      (''failure_count'', num (ks_failure_count k)), (''request_count'', num (ks_request_count k))]"

definition overview_json ::
    "admin_api \<Rightarrow> time \<Rightarrow> key_summary list \<Rightarrow> downstream_summary_view list \<Rightarrow> nat \<Rightarrow> bool \<Rightarrow> json \<Rightarrow> json" where
  "overview_json a now keys downstream eligible_keys database_ready shown =
     (let c = ad_console a; traffic = database_ready \<and> 0 < eligible_keys in JObject
      [(''runtime'', JObject [(''status'', JString (if traffic then ''ok'' else ''degraded'')),
          (''ready'', JBool (database_ready \<and> length keys = MAX_UPSTREAM_KEYS)), (''traffic_ready'', JBool traffic),
          (''eligible_keys'', num (if database_ready then eligible_keys else 0))]),
       (''upstream_keys'', items_json (map (key_summary_json c) keys)),
       (''downstream_credentials'', items_json (map (downstream_summary_json c) downstream)),
       (''models'', strs PROFILES), (''evidence'', shown),
       (''server_recommendation'', recommendation a eligible_keys keys),
       (''attentions'', JArray (map (\<lambda>k. JObject (attention_fields c k)) (filter needs_attention keys))),
       (''checks'', JArray (map check_json keys)),
       (''public_health'', JObject [(''hostname'', JString ''nvidia-lb.dongwontuna.net''),
          (''status'', JString ''not_verified''), (''next_action'', JString ''verify_public_route'')]),
       (''snapshot_observed_at'', time_json c now)])"

definition admin_overview :: "admin_api \<Rightarrow> http_request \<Rightarrow> http_response handler" where
  "admin_overview a req = with_token a req (do {
     keys \<leftarrow> store_list;
     downstream \<leftarrow> store_list_downstream;
     started \<leftarrow> clock_now;
     let eligible_keys = eligible_key_count started keys;
     database_ready \<leftarrow> database_answers;
     shown \<leftarrow> store_evidence;
     now \<leftarrow> clock_now;
     fresh_reply (overview_json a now keys downstream eligible_keys database_ready
       (unwrap_or (JObject [(''source_of_truth'', JString ''unavailable'')]) shown))
   })"

section \<open>Slots, capabilities, readiness\<close>

definition admin_snapshot :: "admin_api \<Rightarrow> time \<Rightarrow> json" where
  "admin_snapshot a now =
     JObject [(''observed_at'', time_json (ad_console a) now), (''generation'', JString (ad_rfc3339 a now))]"

definition snapshot_reply :: "admin_api \<Rightarrow> time \<Rightarrow> (str \<times> json) list \<Rightarrow> http_response handler" where
  "snapshot_reply a now members = fresh_reply (JObject ((''snapshot'', admin_snapshot a now) # members))"

text \<open>Eligible as these views say it: without the receipts the routing asks for.\<close>

definition slot_eligible :: "time \<Rightarrow> key_summary \<Rightarrow> bool" where
  "slot_eligible now k \<longleftrightarrow>
     ks_enabled k \<and> ks_verified k \<and> is_none_or (\<lambda>until. until \<le> now) (ks_cooldown_until k)"

definition profile_status_json :: "time \<Rightarrow> (str \<times> uuid) list \<Rightarrow> key_summary \<Rightarrow> str \<Rightarrow> json" where
  "profile_status_json now proofs k profile =
     (let eligible_key = slot_eligible now k; proof = (profile, ks_id k) \<in> set proofs in JObject
      [(''profile_id'', JString profile), (''proof_revision'', JString (if proof then ''durable'' else ''missing'')),
       (''eligible_now'', JBool (eligible_key \<and> proof)),
       (''reason'',
          if \<not> eligible_key
          then JString (if \<not> ks_verified k then ''missing_key_probe''
                        else if ks_cooldown_until k \<noteq> None then ''cooldown'' else ''manual_disabled'')
          else if \<not> proof then JString ''missing_profile_proof'' else JNull)])"

definition slot_json :: "console \<Rightarrow> time \<Rightarrow> (str \<times> uuid) list \<Rightarrow> nat \<Rightarrow> key_summary \<Rightarrow> json" where
  "slot_json c now proofs slot k = JObject
     [(''slot_no'', num slot), (''key_id'', uuid_json (ks_id k)), (''label'', JString (ks_label k)),
      (''status'', JString (if slot_eligible now k then ''eligible''
         else if ks_cooldown_until k \<noteq> None then ''cooldown'' else if \<not> ks_verified k then ''probe_required''
         else ''disabled'')),
      (''request_count'', num (ks_request_count k)), (''failure_count'', num (ks_failure_count k)),
      (''cooldown_until'', opt (time_json c) (ks_cooldown_until k)),
      (''profiles'', JArray (map (profile_status_json now proofs k) PROFILES))]"

definition with_proofs ::
    "(time \<Rightarrow> key_summary list \<Rightarrow> (str \<times> uuid) list \<Rightarrow> http_response handler) \<Rightarrow> http_response handler" where
  "with_proofs f = do {
     keys \<leftarrow> store_list;
     loaded profile_proof_keys (code_error 503 ''capability_state_unavailable'') (\<lambda>proofs. do {
       now \<leftarrow> clock_now;
       f now keys proofs
     })
   }"

definition slots_json :: "console \<Rightarrow> time \<Rightarrow> (str \<times> uuid) list \<Rightarrow> key_summary list \<Rightarrow> json list" where
  "slots_json c now proofs keys =
     map (\<lambda>(i, k). slot_json c now proofs (i + 1) k) (List.enumerate 0 keys)"

definition upstream_slots :: "admin_api \<Rightarrow> http_request \<Rightarrow> http_response handler" where
  "upstream_slots a req = with_token a req (with_proofs (\<lambda>now keys proofs.
     snapshot_reply a now [(''slots'', JArray (slots_json (ad_console a) now proofs keys))]))"

definition capability_route :: "str \<Rightarrow> str" where
  "capability_route profile =
     (if profile \<in> set [''z-ai/glm-5.2'', ''microsoft/phi-4-multimodal-instruct'', ''nvidia/vila'']
      then ''/v1/chat/completions''
      else unwrap_or ''/v1/nvidia/inference''
        (map_of [(''nvidia/nvclip'', ''/v1/embeddings''),
                 (''black-forest-labs/flux.1-kontext-dev'', ''/v1/images/generations''),
                 (''stabilityai/stable-video-diffusion'', ''/v1/videos/generations''),
                 (''nvidia/magpie-tts-multilingual'', ''/v1/audio/speech''),
                 (''nvidia/parakeet-ctc-1.1b'', ''/v1/audio/transcriptions'')] profile))"

definition model_modalities :: "str \<Rightarrow> str list" where
  "model_modalities profile =
     unwrap_or []
       (map_of [(''z-ai/glm-5.2'', [''text'']),
                (''microsoft/phi-4-multimodal-instruct'', [''text'', ''image'', ''audio'']),
                (''nvidia/vila'', [''text'', ''image'', ''video'']),
                (''nvidia/nvclip'', [''image'', ''embedding'']),
                (''black-forest-labs/flux.1-kontext-dev'', [''image_generation'']),
                (''stabilityai/stable-video-diffusion'', [''video_generation'']),
                (''nvidia/magpie-tts-multilingual'', [''audio_generation'']),
                (''nvidia/parakeet-ctc-1.1b'', [''audio_transcription''])] profile)"

definition eligible_ids :: "time \<Rightarrow> key_summary list \<Rightarrow> uuid list" where
  "eligible_ids now keys = map ks_id (filter (slot_eligible now) keys)"

definition profile_available :: "uuid list \<Rightarrow> (str \<times> uuid) list \<Rightarrow> str \<Rightarrow> bool" where
  "profile_available ids proofs profile \<longleftrightarrow> list_ex (\<lambda>p. fst p = profile \<and> snd p \<in> set ids) proofs"

definition capability_json :: "uuid list \<Rightarrow> (str \<times> uuid) list \<Rightarrow> str \<Rightarrow> json" where
  "capability_json ids proofs profile =
     (let available_now = profile_available ids proofs profile in JObject
      [(''id'', JString profile), (''route'', JString (capability_route profile)), (''advertised'', JBool True),
       (''available_now'', JBool available_now),
       (''proof_status'', JString (if available_now then ''provider_proof_verified''
          else if ids = [] then ''pair_not_ready'' else ''provider_proof_required'')),
       (''modalities'', strs (model_modalities profile))])"

text \<open>The eligible keys are taken before the receipts are read.\<close>

definition model_capabilities :: "admin_api \<Rightarrow> http_request \<Rightarrow> http_response handler" where
  "model_capabilities a req = with_token a req (do {
     started \<leftarrow> clock_now;
     keys \<leftarrow> store_list;
     let ids = eligible_ids started keys;
     loaded profile_proof_keys (code_error 503 ''capability_state_unavailable'') (\<lambda>proofs. do {
       now \<leftarrow> clock_now;
       snapshot_reply a now [(''models'', JArray (map (capability_json ids proofs) PROFILES))]
     })
   })"

definition generation_ready :: "nat \<Rightarrow> nat \<Rightarrow> nat \<Rightarrow> nat \<Rightarrow> bool" where
  "generation_ready configured verified eligible_keys available \<longleftrightarrow>
     configured = MAX_UPSTREAM_KEYS \<and> verified = MAX_UPSTREAM_KEYS \<and> eligible_keys = MAX_UPSTREAM_KEYS \<and>
     available = length PROFILES"

definition generation_reasons :: "nat \<Rightarrow> nat \<Rightarrow> nat \<Rightarrow> nat \<Rightarrow> str list" where
  "generation_reasons configured verified eligible_keys available =
     (if generation_ready configured verified eligible_keys available then []
      else (if configured < MAX_UPSTREAM_KEYS then [''missing_upstream_slot''] else []) @
           (if verified < MAX_UPSTREAM_KEYS then [''probe_required''] else []) @
           (if eligible_keys < MAX_UPSTREAM_KEYS then [''slot_unavailable''] else []) @
           (if available < length PROFILES then [''provider_proof_required''] else []))"

definition generation_readiness :: "admin_api \<Rightarrow> http_request \<Rightarrow> http_response handler" where
  "generation_readiness a req = with_token a req (do {
     started \<leftarrow> clock_now;
     keys \<leftarrow> store_list;
     let configured = length keys;
     let verified = length (filter ks_verified keys);
     let eligible_keys = eligible_key_count started keys;
     loaded profile_proof_keys (code_error 503 ''capability_state_unavailable'') (\<lambda>proofs. do {
       now \<leftarrow> clock_now;
       let available = length (filter (profile_available (eligible_ids now keys) proofs) PROFILES);
       snapshot_reply a now
         [(''ready'', JBool (generation_ready configured verified eligible_keys available)),
          (''configured_slots'', num configured), (''verified_slots'', num verified),
          (''eligible_slots'', num eligible_keys), (''advertised_profiles'', num (length PROFILES)),
          (''available_profiles'', num available),
          (''reasons'', strs (generation_reasons configured verified eligible_keys available))]
     })
   })"

definition admin_attentions :: "admin_api \<Rightarrow> http_request \<Rightarrow> http_response handler" where
  "admin_attentions a req = with_token a req (do {
     keys \<leftarrow> store_list;
     now \<leftarrow> clock_now;
     snapshot_reply a now [(''attentions'',
       JArray (map (\<lambda>k. JObject ((''id'', uuid_json (ks_id k)) # attention_fields (ad_console a) k))
         (filter needs_attention keys)))]
   })"

section \<open>Attempts, page by page\<close>

definition page_cursor_json :: "console \<Rightarrow> page_key \<Rightarrow> json" where
  "page_cursor_json c key = JObject [(''created_at'', time_json c (fst key)), (''id'', uuid_json (snd key))]"

definition encode_page_cursor :: "console \<Rightarrow> page_key \<Rightarrow> str" where
  "encode_page_cursor c key =
     b64_encode (gw_crypto (co_gateway c)) (gw_show (co_gateway c) (page_cursor_json c key))"

text \<open>As for the console's cursors, an array of the two fields is read as well.\<close>

definition page_cursor_of :: "console \<Rightarrow> json \<Rightarrow> page_key option" where
  "page_cursor_of c v =
     (let (instant, i) = (case v of JArray [x, y] \<Rightarrow> (Some x, Some y) | _ \<Rightarrow> (get_field ''created_at'' v, get_field ''id'' v))
      in case (Option.bind (Option.bind instant as_str) (co_parse_time c),
               Option.bind (Option.bind i as_str) (co_parse_uuid c)) of
           (Some t, Some u) \<Rightarrow> Some (t, u)
         | _ \<Rightarrow> None)"

definition page_before :: "console \<Rightarrow> str option \<Rightarrow> http_response + page_key option" where
  "page_before c before =
     (case before of
        None \<Rightarrow> Ok None
      | Some encoded \<Rightarrow>
          (case Option.bind (b64_decode (gw_crypto (co_gateway c)) encoded) (\<lambda>raw.
                Option.bind (gw_parse (co_gateway c) raw) (page_cursor_of c)) of
             None \<Rightarrow> Err (message_error 400 ''invalid_page_cursor'' ''before is not a valid page cursor'')
           | Some key \<Rightarrow> Ok (Some key)))"

definition attempt_id :: "admin_api \<Rightarrow> attempt_row \<Rightarrow> uuid" where
  "attempt_id a r = ad_attempt_id a (ra_request_id r) (ra_no r)"

definition attempt_key :: "admin_api \<Rightarrow> attempt_row \<Rightarrow> page_key" where
  "attempt_key a r = (ra_created_at r, attempt_id a r)"

definition attempts_page :: "admin_api \<Rightarrow> page_key option \<Rightarrow> nat \<Rightarrow> attempt_row list option program" where
  "attempts_page a before limit = db_read (\<lambda>_ d. page_rows (attempt_key a) before limit (db_attempts d))"

definition next_before :: "admin_api \<Rightarrow> nat \<Rightarrow> attempt_row list \<Rightarrow> json" where
  "next_before a limit rows =
     (if length rows = limit \<and> rows \<noteq> []
      then JString (encode_page_cursor (ad_console a) (attempt_key a (last rows))) else JNull)"

text \<open>\<open>operations\<close> and \<open>events\<close> differ in the names of the list and in what they show of a row.\<close>

definition attempt_listing ::
    "admin_api \<Rightarrow> http_request \<Rightarrow> list_query \<Rightarrow> str \<Rightarrow> str \<Rightarrow> (attempt_row \<Rightarrow> json) \<Rightarrow> http_response handler" where
  "attempt_listing a req q name refused show_row = with_token a req
     (case page_before (ad_console a) (lq_before q) of
        Inl e \<Rightarrow> answer e
      | Inr before \<Rightarrow>
          (let limit = clamp 1 100 (unwrap_or 50 (lq_limit q)) in do {
             d \<leftarrow> observe w_db;
             case d of
               None \<Rightarrow> do {
                 now \<leftarrow> clock_now;
                 snapshot_reply a now [(name, JArray []), (''next_before'', JNull)]
               }
             | Some _ \<Rightarrow> loaded (attempts_page a before limit) (code_error 503 refused) (\<lambda>rows. do {
                 now \<leftarrow> clock_now;
                 snapshot_reply a now [(name, JArray (map show_row rows)), (''next_before'', next_before a limit rows)]
               })
           }))"

definition operation_row :: "admin_api \<Rightarrow> attempt_row \<Rightarrow> json" where
  "operation_row a r = (let c = ad_console a in JObject
     [(''id'', uuid_json (attempt_id a r)), (''request_id'', uuid_json (ra_request_id r)),
      (''profile_id'', JString (ra_profile r)), (''key_id'', uuid_json (ra_key r)), (''status'', JString (ra_outcome r)),
      (''created_at'', time_json c (ra_created_at r)), (''finished_at'', opt (time_json c) (ra_finished_at r))])"

definition event_row :: "admin_api \<Rightarrow> attempt_row \<Rightarrow> json" where
  "event_row a r = JObject
     [(''id'', uuid_json (attempt_id a r)), (''kind'', JString ''request_attempt''),
      (''request_id'', uuid_json (ra_request_id r)), (''profile_id'', JString (ra_profile r)),
      (''key_id'', uuid_json (ra_key r)), (''outcome'', JString (ra_outcome r)),
      (''created_at'', time_json (ad_console a) (ra_created_at r))]"

definition admin_operations :: "admin_api \<Rightarrow> http_request \<Rightarrow> list_query \<Rightarrow> http_response handler" where
  "admin_operations a req q = attempt_listing a req q ''operations'' ''operations_unavailable'' (operation_row a)"

definition admin_events :: "admin_api \<Rightarrow> http_request \<Rightarrow> list_query \<Rightarrow> http_response handler" where
  "admin_events a req q = attempt_listing a req q ''events'' ''events_unavailable'' (event_row a)"

definition one_attempt ::
    "admin_api \<Rightarrow> http_request \<Rightarrow> uuid \<Rightarrow> str \<Rightarrow> (attempt_row \<Rightarrow> (str \<times> json) list) \<Rightarrow> http_response handler" where
  "one_attempt a req i name show_row = with_token a req (do {
     d \<leftarrow> observe w_db;
     let missing = code_error 404 ''resource_not_found'';
     case d of
       None \<Rightarrow> answer missing
     | Some _ \<Rightarrow> found (db_read (\<lambda>_ d. List.find (\<lambda>r. attempt_id a r = i) (db_attempts d))) missing (\<lambda>r. do {
         now \<leftarrow> clock_now;
         yield_ok (plain_json 200 (JObject
           [(''snapshot'', admin_snapshot a now), (name, JObject (show_row r))]))
       })
   })"

definition operation_detail :: "admin_api \<Rightarrow> http_request \<Rightarrow> uuid \<Rightarrow> http_response handler" where
  "operation_detail a req i = one_attempt a req i ''operation'' (\<lambda>r.
     [(''id'', uuid_json (attempt_id a r)), (''request_id'', uuid_json (ra_request_id r)),
      (''profile_id'', JString (ra_profile r)), (''key_id'', uuid_json (ra_key r)), (''status'', JString (ra_outcome r)),
      (''finished_at'', opt (time_json (ad_console a)) (ra_finished_at r))])"

definition event_detail :: "admin_api \<Rightarrow> http_request \<Rightarrow> uuid \<Rightarrow> http_response handler" where
  "event_detail a req i = operation_detail a req i"

definition evidence_detail :: "admin_api \<Rightarrow> http_request \<Rightarrow> uuid \<Rightarrow> http_response handler" where
  "evidence_detail a req i = one_attempt a req i ''evidence'' (\<lambda>r.
     [(''id'', uuid_json (attempt_id a r)), (''request_id'', uuid_json (ra_request_id r)),
      (''profile_id'', JString (ra_profile r)), (''outcome'', JString (ra_outcome r))])"

end
