(* ===== verification/Admin_Handlers.thy ===== *)
theory Admin_Handlers
  imports Admin_Views
begin

text \<open>
  The mutations of the first administration API (\<open>admin.rs\<close>), its provider probe, and its routes
  (\<open>main.rs\<close>). Every mutation goes through \<open>mutate_with_audit\<close>, as the console's do.
\<close>

section \<open>Inputs\<close>

text \<open>Unknown fields are ignored; an array of exactly the fields is read as well.\<close>

definition loose_fields :: "str list \<Rightarrow> json \<Rightarrow> (str \<times> json) list option" where
  "loose_fields names v =
     (case v of
        JObject m \<Rightarrow> Some m
      | JArray xs \<Rightarrow> if length xs = length names then Some (zip names xs) else None
      | _ \<Rightarrow> None)"

record key_input =
  ki_label :: str
  ki_credential :: str

definition key_input_of :: "json \<Rightarrow> key_input option" where
  "key_input_of v =
     Option.bind (loose_fields [''label'', ''credential''] v) (\<lambda>m.
     Option.bind (required as_str ''label'' m) (\<lambda>label.
     Option.bind (required as_str ''credential'' m) (\<lambda>credential.
       Some \<lparr>ki_label = label, ki_credential = credential\<rparr>)))"

definition toggle_input_of :: "json \<Rightarrow> bool option" where
  "toggle_input_of v = Option.bind (loose_fields [''enabled''] v) (required as_bool ''enabled'')"

record downstream_input =
  dn_label :: str
  dn_scopes :: "str list"

definition downstream_input_of :: "json \<Rightarrow> downstream_input option" where
  "downstream_input_of v =
     Option.bind (loose_fields [''label'', ''scopes''] v) (\<lambda>m.
     Option.bind (required as_str ''label'' m) (\<lambda>label.
     Option.bind (required strings_of ''scopes'' m) (\<lambda>scopes.
       Some \<lparr>dn_label = label, dn_scopes = scopes\<rparr>)))"

section \<open>Mutations\<close>

definition LEGACY :: json where "LEGACY = JObject [(''legacy_adapter'', JBool True)]"

definition legacy_audit :: "admin_api \<Rightarrow> http_request \<Rightarrow> str \<Rightarrow> str \<Rightarrow> uuid \<Rightarrow> audit_mutation" where
  "legacy_audit a req action kind i = plain_audit action kind (Some i) (rid_of (ad_console a) req) LEGACY"

text \<open>\<open>match store.mutate_with_audit(..).await { Ok((r, _)) => f(r), Err(e) => refused(e) }\<close>.\<close>

definition legacy_mutation ::
    "admin_api \<Rightarrow> (env \<Rightarrow> vault \<Rightarrow> (vault_error + 'a) \<times> vault) \<Rightarrow> ('a \<Rightarrow> audit_mutation) \<Rightarrow>
     (store_error \<Rightarrow> 'b handler) \<Rightarrow> ('a \<Rightarrow> 'b handler) \<Rightarrow> 'b handler" where
  "legacy_mutation a operation audit_for refused f = do {
     r \<leftarrow> mutate_with_audit (co_gateway (ad_console a)) operation audit_for;
     case r of Inl e \<Rightarrow> refused e | Inr (x, _) \<Rightarrow> f x
   }"

text \<open>
  \<open>is_unique_conflict\<close> searches the chain of causes. Below a failed synchronisation is what the
  database said: whether it named a unique constraint is drawn from the environment.
\<close>

definition is_unique_conflict :: "store_error \<Rightarrow> bool program" where
  "is_unique_conflict e =
     (case e of
        Not_synced \<Rightarrow> do { t \<leftarrow> next_tick; State_Monad.return (tk_hint t) }
      | _ \<Rightarrow> State_Monad.return
          (mentions ''duplicate key value violates unique constraint'' e \<or> mentions ''upstream_keys_active_'' e \<or>
           mentions ''downstream_credentials_active_label_idx'' e))"

definition resource_missing :: http_response where
  "resource_missing = code_error 404 ''resource_not_found''"

definition add_key :: "admin_api \<Rightarrow> http_request \<Rightarrow> key_input \<Rightarrow> http_response handler" where
  "add_key a req input =
     with_token a req (legacy_mutation a
       (\<lambda>e. add (gw_crypto (co_gateway (ad_console a))) e (ki_label input) (ki_credential input))
       (\<lambda>summary. legacy_audit a req ''upstream.create'' ''upstream'' (ks_id summary))
       (\<lambda>e. if mentions ''audited mutation requires PostgreSQL'' e
            then answer (message_error 503 ''audit_unavailable'' ''The audited mutation store is unavailable.'')
            else do {
              conflict \<leftarrow> is_unique_conflict e;
              answer (if conflict
                then message_error 409 ''resource_conflict''
                  ''An active upstream slot with this label or credential already exists.''
                else message_error 422 ''invalid_request'' (store_error_text e))
            })
       (\<lambda>summary. yield_ok (plain_json 201 (key_summary_json (ad_console a) summary))))"

definition toggle_key :: "admin_api \<Rightarrow> http_request \<Rightarrow> uuid \<Rightarrow> bool \<Rightarrow> http_response handler" where
  "toggle_key a req i enabled =
     with_token a req (legacy_mutation a
       (\<lambda>e. set_enabled e i enabled)
       (\<lambda>_. legacy_audit a req (if enabled then ''upstream.enable'' else ''upstream.disable'') ''upstream'' i)
       (\<lambda>e. answer (if mentions ''probe'' e
          then message_error 409 ''probe_required'' ''provider probe is required before enabling this key''
          else resource_missing))
       (\<lambda>summary. yield_ok (plain_json 200 (key_summary_json (ad_console a) summary))))"

definition enable_key_alias :: "admin_api \<Rightarrow> http_request \<Rightarrow> uuid \<Rightarrow> http_response handler" where
  "enable_key_alias a req i = toggle_key a req i True"

definition disable_key_alias :: "admin_api \<Rightarrow> http_request \<Rightarrow> uuid \<Rightarrow> http_response handler" where
  "disable_key_alias a req i = toggle_key a req i False"

definition delete_key :: "admin_api \<Rightarrow> http_request \<Rightarrow> uuid \<Rightarrow> http_response handler" where
  "delete_key a req i =
     with_token a req (legacy_mutation a (\<lambda>e. delete e i)
       (\<lambda>_. legacy_audit a req ''upstream.retire'' ''upstream'' i)
       (\<lambda>_. answer resource_missing)
       (\<lambda>_. yield_ok \<lparr>rp_status = 204, rp_headers = [], rp_body = http_body.No_body\<rparr>))"

section \<open>The provider probe\<close>

definition legacy_probe :: "uuid \<Rightarrow> uuid \<Rightarrow> nat option \<Rightarrow> str option \<Rightarrow> probe_mutation" where
  "legacy_probe i key status error_class =
     \<lparr>pm_id = i, pm_kind = ''credential'', pm_upstream = key, pm_profile_id = None,
      pm_receipt_profile = Some ''z-ai/glm-5.2'', pm_billable = False, pm_status_code = status,
      pm_error_class = error_class, pm_latency_ms = 0\<rparr>"

definition legacy_probe_audit :: "uuid \<Rightarrow> bool \<Rightarrow> uuid \<Rightarrow> probe_mutation \<Rightarrow> audit_mutation" where
  "legacy_probe_audit i success rid probe =
     \<lparr>am_action = ''probe.complete'', am_resource_kind = ''probe'', am_resource_id = Some i, am_request_id = rid,
      am_detail = JObject [(''billable'', JBool False), (''kind'', JString ''credential''),
        (''legacy_adapter'', JBool True), (''passed'', JBool success)],
      am_client_policy = None, am_probe = Some probe\<rparr>"

text \<open>Whether the evidence was stored; a pass or a refused credential moves the vault with it.\<close>

definition persist_credential_probe ::
    "admin_api \<Rightarrow> uuid \<Rightarrow> nat option \<Rightarrow> str option \<Rightarrow> uuid \<Rightarrow> bool program" where
  "persist_credential_probe a i status error_class rid =
     (let success = (error_class = None \<and> is_some_and is_success status)
      in if success \<or> auth_refused status then do {
           probe_id \<leftarrow> draw_uuid;
           r \<leftarrow> mutate_with_audit (co_gateway (ad_console a))
             (\<lambda>e v. if success then mark_verified e i v else quarantine e i v)
             (\<lambda>_. legacy_probe_audit probe_id success rid (legacy_probe probe_id i status error_class));
           State_Monad.return (is_ok r)
         }
         else do {
           d \<leftarrow> observe w_db;
           case d of
             None \<Rightarrow> State_Monad.return False
           | Some _ \<Rightarrow> do {
               r \<leftarrow> record_probe_result (legacy_probe [] i status error_class) rid;
               State_Monad.return (r \<noteq> None)
             }
         })"

definition probe_answer :: "nat \<Rightarrow> str \<Rightarrow> nat option \<Rightarrow> str option \<Rightarrow> http_response" where
  "probe_answer status verdict provider_status error_code =
     plain_json status (JObject
       ((''probe_status'', JString verdict) #
        (case provider_status of None \<Rightarrow> [] | Some n \<Rightarrow> [(''status'', num n)]) @
        (case error_code of None \<Rightarrow> [] | Some k \<Rightarrow> [(''error'', JObject [(''code'', JString k)])])))"

definition evidence_lost :: http_response where
  "evidence_lost = probe_answer 503 ''unavailable'' None (Some ''probe_persistence_failed'')"

definition probe_accepted :: "admin_api \<Rightarrow> uuid \<Rightarrow> nat \<Rightarrow> uuid \<Rightarrow> http_response handler" where
  "probe_accepted a i status rid = do {
     stored \<leftarrow> persist_credential_probe a i (Some status) None rid;
     if stored then yield_ok (probe_answer 200 ''valid'' (Some status) None) else answer evidence_lost
   }"

text \<open>A failure whose evidence may be lost without being noticed (\<open>let _ = ..\<close>).\<close>

definition probe_failed ::
    "admin_api \<Rightarrow> uuid \<Rightarrow> nat option \<Rightarrow> str \<Rightarrow> uuid \<Rightarrow> http_response \<Rightarrow> http_response handler" where
  "probe_failed a i status error_class rid e = do {
     _ \<leftarrow> persist_credential_probe a i status (Some error_class) rid;
     answer e
   }"

definition probe_refused ::
    "admin_api \<Rightarrow> uuid \<Rightarrow> nat \<Rightarrow> nat option \<Rightarrow> uuid \<Rightarrow> http_response handler" where
  "probe_refused a i status shown rid = do {
     stored \<leftarrow> persist_credential_probe a i (Some status) (Some ''upstream_auth_error'') rid;
     answer (if stored then probe_answer 422 ''invalid_credential'' shown (Some ''invalid_upstream_credential'')
             else evidence_lost)
   }"

definition judge_key_probe :: "admin_api \<Rightarrow> uuid \<Rightarrow> uuid \<Rightarrow> provider_response \<Rightarrow> http_response handler" where
  "judge_key_probe a i rid p =
     (let status = ps_status p in
      if status = 401 \<or> status = 403 then probe_refused a i status (Some status) rid
      else if status = 429
      then probe_failed a i (Some status) ''upstream_rate_limited'' rid
        (probe_answer 429 ''rate_limited'' (Some status) (Some ''upstream_rate_limited''))
      else if \<not> is_success status
      then probe_failed a i (Some status) ''upstream_unavailable'' rid
        (probe_answer 503 ''unavailable'' (Some status) (Some ''upstream_unavailable''))
      else (let broken = probe_answer 502 ''invalid_response'' None (Some ''upstream_protocol_error'') in
        case collect_results (map chunk_of (ps_body p)) of
          Inl _ \<Rightarrow> answer broken
        | Inr chunks \<Rightarrow>
            if \<not> validate_chat_response (gw_parse (co_gateway (ad_console a))) (concat chunks) False
            then probe_failed a i (Some status) ''upstream_protocol_error'' rid broken
            else probe_accepted a i status rid))"

definition HEALTH_PROBE :: json where
  "HEALTH_PROBE = JObject
     [(''model'', JString ''z-ai/glm-5.2''),
      (''messages'', JArray [JObject [(''role'', JString ''user''), (''content'', JString ''health probe'')]]),
      (''max_tokens'', num 1), (''stream'', JBool False)]"

definition probe_upstream_key :: "admin_api \<Rightarrow> http_request \<Rightarrow> uuid \<Rightarrow> http_response handler" where
  "probe_upstream_key a req i = (let g = co_gateway (ad_console a); rid = rid_of (ad_console a) req in
     with_token a req (do {
       secret \<leftarrow> credential_for_probe g i;
       case secret of
         Inl _ \<Rightarrow> answer resource_missing
       | Inr secret \<Rightarrow>
           if starts_with ''mock://'' (gw_upstream_url g)
           then (if has_sub ''fail'' secret then probe_refused a i 401 None rid else probe_accepted a i 200 rid)
           else do {
             r \<leftarrow> send UPSTREAM_REQUEST_TIMEOUT
               \<lparr>st_verb = Post,
                st_url = upstream_endpoint_for (gw_magpie_url g) (gw_upstream_url g) ''/v1/chat/completions'' ''z-ai/glm-5.2'',
                st_credential = secret, st_body = Json_body HEALTH_PROBE\<rparr>;
             case r of
               Inl _ \<Rightarrow> probe_failed a i None ''upstream_unavailable'' rid
                 (probe_answer 503 ''unavailable'' None (Some ''upstream_unavailable''))
             | Inr p \<Rightarrow> judge_key_probe a i rid p
           }
     }))"

section \<open>Downstream credentials\<close>

definition pair_ready :: "time \<Rightarrow> key_summary list \<Rightarrow> bool" where
  "pair_ready now keys \<longleftrightarrow> length keys = MAX_UPSTREAM_KEYS \<and> list_all (slot_eligible now) keys"

definition issued_credential_json :: "console \<Rightarrow> issued_downstream \<Rightarrow> json" where
  "issued_credential_json c issued_credential =
     (case downstream_summary_json c (iss_summary issued_credential) of
        JObject m \<Rightarrow> JObject (m @ [(''token'', JString (iss_token issued_credential))])
      | v \<Rightarrow> v)"

definition add_downstream :: "admin_api \<Rightarrow> http_request \<Rightarrow> downstream_input \<Rightarrow> http_response handler" where
  "add_downstream a req input =
     with_token a req (do {
       keys \<leftarrow> store_list;
       now \<leftarrow> clock_now;
       if \<not> pair_ready now keys
       then answer (plain_json 409 (JObject [(''error'', JObject
         [(''code'', JString ''generation_not_ready''),
          (''message'', JString ''Both NVIDIA upstream slots must be probed and available before issuing a downstream credential.''),
          (''next_action'', JString ''probe_and_enable_all_upstream_slots'')])]))
       else legacy_mutation a
         (\<lambda>e. issue_downstream (gw_crypto (co_gateway (ad_console a))) e (dn_label input) (dn_scopes input))
         (\<lambda>made. legacy_audit a req ''client.create'' ''client'' (ds_id (iss_summary made)))
         (\<lambda>e. do {
            conflict \<leftarrow> (if mentions ''already exists'' e then State_Monad.return True else is_unique_conflict e);
            answer (if conflict then message_error 409 ''resource_conflict'' (store_error_text e)
                    else message_error 422 ''invalid_request'' (store_error_text e))
          })
         (\<lambda>made. yield_ok (plain_json 201 (issued_credential_json (ad_console a) made)))
     })"

definition revoke_credential ::
    "admin_api \<Rightarrow> http_request \<Rightarrow> uuid \<Rightarrow> (downstream_summary_view \<Rightarrow> http_response) \<Rightarrow> http_response handler" where
  "revoke_credential a req i shown =
     with_token a req (legacy_mutation a (\<lambda>e. revoke_downstream e i)
       (\<lambda>_. legacy_audit a req ''client.revoke'' ''client'' i)
       (\<lambda>_. answer resource_missing)
       (\<lambda>summary. yield_ok (shown summary)))"

definition revoke_downstream_credential :: "admin_api \<Rightarrow> http_request \<Rightarrow> uuid \<Rightarrow> http_response handler" where
  "revoke_downstream_credential a req i =
     revoke_credential a req i (\<lambda>summary. plain_json 200 (downstream_summary_json (ad_console a) summary))"

definition revoke_downstream_legacy :: "admin_api \<Rightarrow> http_request \<Rightarrow> uuid \<Rightarrow> http_response handler" where
  "revoke_downstream_legacy a req i =
     revoke_credential a req i (\<lambda>_. \<lparr>rp_status = 204, rp_headers = [], rp_body = http_body.No_body\<rparr>)"

section \<open>The routes\<close>

text \<open>\<open>None\<close>: no route of this API; the request falls to the files of the application.\<close>

definition admin_get_route ::
    "admin_api \<Rightarrow> http_request \<Rightarrow> (str \<times> str) list \<Rightarrow> str list \<Rightarrow> http_response handler option" where
  "admin_get_route a req pairs path =
     (let c = ad_console a in
      case path of
        [r] \<Rightarrow>
          if r = ''operator-readiness'' then Some (operator_readiness a req)
          else if r = ''upstream-keys'' then Some (list_keys a req)
          else if r = ''overview'' then Some (admin_overview a req)
          else if r = ''evidence'' then Some (admin_evidence a req)
          else if r = ''upstream-slots'' then Some (upstream_slots a req)
          else if r = ''model-capabilities'' then Some (model_capabilities a req)
          else if r = ''generation-readiness'' then Some (generation_readiness a req)
          else if r = ''operations'' then Some (with_query c req list_query_of pairs (admin_operations a req))
          else if r = ''attentions'' then Some (admin_attentions a req)
          else if r = ''events'' then Some (with_query c req list_query_of pairs (admin_events a req))
          else if r = ''downstream-credentials'' \<or> r = ''downstream-tokens''
          then Some (list_downstream_credentials a req)
          else None
      | [r, i] \<Rightarrow>
          if i = [] then None
          else if r = ''operations'' then Some (with_path_id c req i (operation_detail a req))
          else if r = ''events'' then Some (with_path_id c req i (event_detail a req))
          else if r = ''evidence'' then Some (with_path_id c req i (evidence_detail a req))
          else None
      | _ \<Rightarrow> None)"

definition admin_post_route ::
    "admin_api \<Rightarrow> http_request \<Rightarrow> json option \<Rightarrow> str list \<Rightarrow> http_response handler option" where
  "admin_post_route a req body path =
     (let c = ad_console a in
      case path of
        [r] \<Rightarrow>
          if r = ''upstream-keys'' then Some (with_body c req key_input_of body (add_key a req))
          else if r = ''downstream-credentials'' \<or> r = ''downstream-tokens''
          then Some (with_body c req downstream_input_of body (add_downstream a req))
          else None
      | [r, i, verb] \<Rightarrow>
          if i = [] then None
          else if r = ''upstream-keys'' \<and> verb = ''state''
          then Some (with_path_id c req i (\<lambda>i. with_body c req toggle_input_of body (toggle_key a req i)))
          else if r = ''upstream-keys'' \<and> verb = ''enable'' then Some (with_path_id c req i (enable_key_alias a req))
          else if r = ''upstream-keys'' \<and> verb = ''disable'' then Some (with_path_id c req i (disable_key_alias a req))
          else if r = ''upstream-keys'' \<and> verb = ''probe'' then Some (with_path_id c req i (probe_upstream_key a req))
          else if r = ''downstream-credentials'' \<and> verb = ''revoke''
          then Some (with_path_id c req i (revoke_downstream_credential a req))
          else None
      | _ \<Rightarrow> None)"

definition admin_delete_route :: "admin_api \<Rightarrow> http_request \<Rightarrow> str list \<Rightarrow> http_response handler option" where
  "admin_delete_route a req path =
     (let c = ad_console a in
      case path of
        [r, i] \<Rightarrow>
          if i = [] then None
          else if r = ''upstream-keys'' then Some (with_path_id c req i (delete_key a req))
          else if r = ''downstream-tokens'' then Some (with_path_id c req i (revoke_downstream_legacy a req))
          else None
      | _ \<Rightarrow> None)"

definition admin_route ::
    "admin_api \<Rightarrow> http_request \<Rightarrow> (str \<times> str) list \<Rightarrow> json option \<Rightarrow> http_response handler option" where
  "admin_route a req pairs body =
     (case strip_prefix ''/admin/api/v1/'' (rq_path req) of
        None \<Rightarrow> None
      | Some rest \<Rightarrow>
          (let path = split_on (CHR ''/'') rest
           in if rq_method req = ''GET'' then admin_get_route a req pairs path
              else if rq_method req = ''POST'' then admin_post_route a req body path
              else if rq_method req = ''DELETE'' then admin_delete_route a req path
              else None))"

end
