(* ===== verification/Admin_Audited.thy ===== *)
theory Admin_Audited
  imports Admin_Handlers Console_Audited Console_Token
begin

text \<open>
  The first administration API keeps the promises of the console: what it changes it audits, and
  without the operator's token it is a constant answer.
\<close>

section \<open>Programs that act\<close>

lemma admin_status_simps [simp]:
  "rp_status (plain_json n v) = n" "rp_status (code_error n s) = n" "rp_status (message_error n s t) = n"
  "rp_status resource_missing = 404" "rp_status (probe_answer n verdict st shown) = n" "rp_status evidence_lost = 503"
  "rp_status admin_unauthorized = 401"
  by (simp_all add: plain_json_def code_error_def message_error_def resource_missing_def probe_answer_def
      evidence_lost_def admin_unauthorized_def)

lemma admin_failure_codes [simp]: "\<not> is_success 429" "\<not> is_success 502"
  by (simp_all add: is_success_def)

lemma acts_token: "acts c rid s m \<Longrightarrow> acts c rid s (with_token a req m)"
  unfolding with_token_def by (auto intro: acts_answer)

lemma acts_legacy:
  assumes "\<And>x. am_request_id (audit_for x) = rid" "\<And>e. acts c rid s (refused e)"
    "\<And>x. acts c rid (\<lambda>_. False) (f x)"
  shows "acts c rid s (legacy_mutation a operation audit_for refused f)"
  unfolding legacy_mutation_def
proof (rule acts_bind [where p = is_ok])
  show "writes c rid is_ok (mutate_with_audit (co_gateway (ad_console a)) operation audit_for)"
    unfolding writes_def
    by (intro allI, rule post_mono [OF mutate_with_audit_moves [where c = c and rid = rid, OF assms(1)]])
      (auto simp: vault_moved_def intro: stepped_moves split: if_splits)
  show "acts c rid (\<lambda>_. False) (case r of Inl e \<Rightarrow> refused e | Inr (x, _) \<Rightarrow> f x)" if "is_ok r" for r
    using that assms(3) by (cases r) auto
  show "acts c rid s (case r of Inl e \<Rightarrow> refused e | Inr (x, _) \<Rightarrow> f x)" if "\<not> is_ok r" for r
    using that assms(2) by (cases r) auto
qed

lemma tick_moves: "evolves (moves c rid) next_tick"
  by (intro kept_moves) (auto simp: keeps_def next_tick_def split: list.splits)

lemma conflict_moves: "evolves (moves c rid) (is_unique_conflict e)"
  unfolding is_unique_conflict_def
  by (auto split: store_error.splits intro!: moving.steps tick_moves)

lemma legacy_request [simp]: "am_request_id (legacy_audit a req action kind i) = rid_of (ad_console a) req"
  by (simp add: legacy_audit_def plain_audit_def)

lemma legacy_acts:
  "acts c (rid_of (ad_console a) req) (\<lambda>_. True) (add_key a req input)"
  "acts c (rid_of (ad_console a) req) (\<lambda>_. True) (toggle_key a req i enabled)"
  "acts c (rid_of (ad_console a) req) (\<lambda>_. True) (enable_key_alias a req i)"
  "acts c (rid_of (ad_console a) req) (\<lambda>_. True) (disable_key_alias a req i)"
  "acts c (rid_of (ad_console a) req) (\<lambda>_. True) (delete_key a req i)"
  "acts c (rid_of (ad_console a) req) (\<lambda>_. True) (revoke_downstream_credential a req i)"
  "acts c (rid_of (ad_console a) req) (\<lambda>_. True) (revoke_downstream_legacy a req i)"
  unfolding add_key_def toggle_key_def enable_key_alias_def disable_key_alias_def delete_key_def
    revoke_downstream_credential_def revoke_downstream_legacy_def revoke_credential_def
  by (auto simp: choice_status intro!: acts_token acts_legacy acts_answer acts_yield acts_read [OF conflict_moves])

lemma add_downstream_acts: "acts c (rid_of (ad_console a) req) (\<lambda>_. True) (add_downstream a req din)"
  unfolding add_downstream_def
  by (auto simp: choice_status store_list_def intro!: acts_token acts_legacy acts_answer acts_yield acts_read [OF conflict_moves]
      acts_read [OF moving.clock] acts_read [OF moving.simple(1)] acts_read [OF moving.simple(2)])

text \<open>Stored evidence is a step.\<close>

lemma writes_return: "\<not> s x \<Longrightarrow> writes c rid s (State_Monad.return x)"
  by (simp add: writes_def moves_def at_rest_def)

lemma persist_writes: "writes c rid (\<lambda>stored. stored) (persist_credential_probe a i status class rid)"
proof -
  have mutation: "writes c rid (\<lambda>stored. stored) (do {
      r \<leftarrow> mutate_with_audit g operation (\<lambda>_. legacy_probe_audit probe_id success rid probe);
      State_Monad.return (is_ok r) })" for g operation probe_id success probe
    unfolding writes_def post_bind post_return
    by (intro allI, rule post_mono [OF mutate_with_audit_moves [where c = c and rid = rid]])
      (auto simp: legacy_probe_audit_def vault_moved_def intro: stepped_moves split: if_splits)
  have recorded: "writes c rid (\<lambda>stored. stored) (do {
      r \<leftarrow> record_probe_result input rid; State_Monad.return (r \<noteq> None) })" for input
    by (rule writes_map [OF record_probe_writes]) simp
  show ?thesis
    unfolding persist_credential_probe_def Let_def
  proof (split if_split, intro conjI impI)
    show "writes c rid (\<lambda>stored. stored) (State_Monad.bind draw_uuid (\<lambda>probe_id. do {
        r \<leftarrow> mutate_with_audit (co_gateway (ad_console a)) (operation probe_id)
          (\<lambda>_. legacy_probe_audit probe_id success rid (probe probe_id));
        State_Monad.return (is_ok r) }))" for operation :: "uuid \<Rightarrow> env \<Rightarrow> vault \<Rightarrow> (vault_error + 'a) \<times> vault" and success probe
      by (intro writes_after draw_moves mutation)
    show "writes c rid (\<lambda>stored. stored) (State_Monad.bind (observe w_db) (\<lambda>d. case d of
        None \<Rightarrow> State_Monad.return False
      | Some _ \<Rightarrow> do { r \<leftarrow> record_probe_result input rid; State_Monad.return (r \<noteq> None) }))" for input
      by (rule writes_after [OF moving.simple(1)]) (auto simp del: not_None_eq intro: writes_return recorded split: option.split)
  qed
qed

lemma probe_results:
  "acts c rid (\<lambda>_. True) (probe_accepted a i n rid)"
  "acts c rid (\<lambda>_. True) (probe_refused a i n shown rid)"
  "\<not> is_success (rp_status e) \<Longrightarrow> acts c rid (\<lambda>_. True) (probe_failed a i st class rid e)"
  unfolding probe_accepted_def probe_refused_def probe_failed_def
  by (auto simp: choice_status intro!: acts_bind [OF persist_writes] acts_answer acts_yield)

lemma judge_acts: "acts c rid (\<lambda>_. True) (judge_key_probe a i rid p)"
  unfolding judge_key_probe_def Let_def
  by (auto split: sum.splits intro!: probe_results acts_answer)

lemma probe_upstream_key_acts: "acts c (rid_of (ad_console a) req) (\<lambda>_. True) (probe_upstream_key a req i)"
  unfolding probe_upstream_key_def Let_def credential_for_probe_def
  by (auto split: sum.splits intro!: acts_token acts_read [OF moving.simple(1)] acts_read [OF send_moves]
      acts_answer probe_results judge_acts)

section \<open>Reads\<close>

context reading begin

lemma with_token: "evolves R m \<Longrightarrow> evolves R (with_token a req m)"
  unfolding with_token_def by (auto intro: simple)

lemma fresh_reply: "evolves R (fresh_reply v)"
  unfolding fresh_reply_def by (rule simple)

lemma snapshot_reply: "evolves R (snapshot_reply a now members)"
  unfolding snapshot_reply_def by (rule fresh_reply)

lemma store_reads: "evolves R store_list" "evolves R store_list_downstream"
  unfolding store_list_def store_list_downstream_def by (rule simple)+

lemma database_answers: "evolves R database_answers"
  unfolding database_answers_def by (auto split: option.splits intro!: steps)

lemma profile_proof_keys: "evolves R profile_proof_keys"
  unfolding profile_proof_keys_def by (auto split: option.splits intro!: steps)

lemma store_evidence: "evolves R store_evidence"
  unfolding store_evidence_def by (auto split: option.splits intro!: steps store_reads)

lemma choice: "evolves R m \<Longrightarrow> evolves R m' \<Longrightarrow> evolves R (if b then m else m')"
  by simp

lemmas views = steps choice with_token fresh_reply snapshot_reply store_reads database_answers profile_proof_keys store_evidence

lemma with_proofs: "(\<And>now keys proofs. evolves R (f now keys proofs)) \<Longrightarrow> evolves R (with_proofs f)"
  unfolding with_proofs_def by (intro views)

lemma admin_views:
  "evolves R (operator_readiness a req)" "evolves R (list_keys a req)"
  "evolves R (list_downstream_credentials a req)" "evolves R (admin_evidence a req)"
  "evolves R (admin_overview a req)" "evolves R (upstream_slots a req)" "evolves R (model_capabilities a req)"
  "evolves R (generation_readiness a req)" "evolves R (admin_attentions a req)"
  unfolding operator_readiness_def list_keys_def list_downstream_credentials_def admin_evidence_def
    admin_overview_def upstream_slots_def model_capabilities_def generation_readiness_def admin_attentions_def Let_def
  by (intro views with_proofs)+

lemma attempts_page: "evolves R (attempts_page a before n)"
  unfolding attempts_page_def by (rule db_read)

lemma attempt_listing: "evolves R (attempt_listing a req q name refused show_row)"
  unfolding attempt_listing_def Let_def
  by (auto split: sum.split option.split intro!: views attempts_page)

lemma one_attempt: "evolves R (one_attempt a req i name show_row)"
  unfolding one_attempt_def Let_def by (auto split: option.split intro!: views)

lemma attempt_views:
  "evolves R (admin_operations a req q)" "evolves R (admin_events a req q)" "evolves R (operation_detail a req i)"
  "evolves R (event_detail a req i)" "evolves R (evidence_detail a req i)"
  unfolding admin_operations_def admin_events_def operation_detail_def event_detail_def evidence_detail_def
  by (rule attempt_listing one_attempt)+

end

section \<open>Routes\<close>

lemma optional_cases:
  "(case xs of [] \<Rightarrow> None | x # rest \<Rightarrow> f x rest) = Some m \<longleftrightarrow> (\<exists>x rest. xs = x # rest \<and> f x rest = Some m)"
  by (cases xs) auto

lemma admin_get_still: "admin_get_route a req pairs path = Some m \<Longrightarrow> evolves still m"
  unfolding admin_get_route_def Let_def
  by (auto split: list.splits if_splits
      intro!: quiet_reading.admin_views quiet_reading.attempt_views quiet_reading.with_query quiet_reading.with_path_id)

lemma admin_post_acts: "admin_post_route a req body path = Some m \<Longrightarrow> acts c (rid_of (ad_console a) req) (\<lambda>_. True) m"
  unfolding admin_post_route_def Let_def
  by (auto split: list.splits if_splits
      intro!: acts_with_body acts_with_path_id legacy_acts add_downstream_acts probe_upstream_key_acts)

lemma admin_delete_acts: "admin_delete_route a req path = Some m \<Longrightarrow> acts c (rid_of (ad_console a) req) (\<lambda>_. True) m"
  unfolding admin_delete_route_def Let_def
  by (auto split: list.splits if_splits intro!: acts_with_path_id legacy_acts)

definition admin_promise :: "admin_api \<Rightarrow> http_request \<Rightarrow> http_response handler \<Rightarrow> bool" where
  "admin_promise a req m \<longleftrightarrow>
     (if rq_method req = ''GET'' then evolves still m else acts (ad_console a) (rid_of (ad_console a) req) (\<lambda>_. True) m)"

lemma admin_route_promise: "admin_route a req pairs body = Some m \<Longrightarrow> admin_promise a req m"
  by (auto simp: admin_route_def admin_promise_def Let_def split: option.splits if_splits
      intro: admin_get_still admin_post_acts admin_delete_acts)

lemma audited_database: "audited_change rid w w' \<Longrightarrow> w_db w \<noteq> None"
  by (auto simp: audited_change_def)

text \<open>
  C9. A request of the first administration API leaves its trace as one of the console does: either
  nothing of the tables and the vault has changed, or the tables have audit rows of the request more;
  a mutation answered with success is of the second kind, and a read changes nothing but the clock.
  A gateway without a database therefore never changes its vault through this API, and answers none
  of its mutations with success.
\<close>

theorem admin_changes_are_audited:
  assumes "admin_route a req pairs body = Some m"
  defines "rid \<equiv> rid_of (ad_console a) req"
  shows "post (served m) w (\<lambda>r w'.
    (at_rest w w' \<or> audited_change rid w w') \<and>
    (rq_method req \<noteq> ''GET'' \<and> is_success (rp_status r) \<longrightarrow> audited_change rid w w') \<and>
    (rq_method req = ''GET'' \<longrightarrow> still w w') \<and>
    (w_db w = None \<longrightarrow> v_state (w_vault w') = v_state (w_vault w)))"
proof (cases "rq_method req = ''GET''")
  case True
  then have "post (served m) w (\<lambda>_ w'. still w w')"
    using admin_route_promise [OF assms(1)] served_still by (simp add: admin_promise_def)
  then show ?thesis by (rule post_mono) (use True in \<open>auto dest: still_fields intro: still_rest\<close>)
next
  case False
  then have "post (served m) w (\<lambda>r w'. moves (ad_console a) rid w w' \<and>
      (is_success (rp_status r) \<longrightarrow> stepped (ad_console a) rid w w'))"
    using admin_route_promise [OF assms(1)] unfolding admin_promise_def rid_def by (simp add: acts_served)
  then show ?thesis
  proof (rule post_mono)
    fix r w'
    assume m: "moves (ad_console a) rid w w' \<and> (is_success (rp_status r) \<longrightarrow> stepped (ad_console a) rid w w')"
    then have "at_rest w w' \<or> audited_change rid w w'" by (auto dest: moves_audited)
    moreover have "v_state (w_vault w') = v_state (w_vault w)" if "w_db w = None"
      using calculation audited_database [of rid w w'] that by (auto simp: at_rest_def)
    ultimately show "(at_rest w w' \<or> audited_change rid w w') \<and>
        (rq_method req \<noteq> ''GET'' \<and> is_success (rp_status r) \<longrightarrow> audited_change rid w w') \<and>
        (rq_method req = ''GET'' \<longrightarrow> still w w') \<and> (w_db w = None \<longrightarrow> v_state (w_vault w') = v_state (w_vault w))"
      using m False by (auto dest: stepped_audited)
  qed
qed

definition demo_admin :: admin_api where
  "demo_admin = \<lparr>ad_console = demo_console, ad_attempt_id = (\<lambda>i n. i), ad_rfc3339 = demo_show_time, ad_text = (\<lambda>_. [])\<rparr>"

definition demo_admin_request :: "str \<Rightarrow> str \<Rightarrow> http_request" where
  "demo_admin_request verb path =
     \<lparr>rq_method = verb, rq_path = ''/admin/api/v1/'' @ path, rq_headers = [], rq_id = None\<rparr>"

lemma demo_admin_routed:
  "admin_route demo_admin (demo_admin_request ''GET'' ''upstream-keys'') [] None =
     Some (list_keys demo_admin (demo_admin_request ''GET'' ''upstream-keys''))"
  "admin_route demo_admin (demo_admin_request ''POST'' ''upstream-keys'') [] body =
     Some (with_body demo_console (demo_admin_request ''POST'' ''upstream-keys'') key_input_of body
       (add_key demo_admin (demo_admin_request ''POST'' ''upstream-keys'')))"
  by (simp_all add: admin_route_def demo_admin_request_def strip_prefix_def starts_with_def admin_get_route_def
      admin_post_route_def demo_admin_def Let_def)

theorem admin_changes_are_audited_witness:
  "post (served (with_body demo_console (demo_admin_request ''POST'' ''upstream-keys'') key_input_of
       (Some (JObject [(''label'', JString ''two''), (''credential'', JString ''nvapi-x'')]))
       (add_key demo_admin (demo_admin_request ''POST'' ''upstream-keys'')))) demo_world (\<lambda>r w'.
    is_success (rp_status r) \<longrightarrow>
      audited_change (rid_of (ad_console demo_admin) (demo_admin_request ''POST'' ''upstream-keys'')) demo_world w')"
  by (rule post_mono [OF admin_changes_are_audited [OF demo_admin_routed(2)]])
    (simp add: demo_admin_request_def)

section \<open>The token\<close>

definition shut_out :: "admin_api \<Rightarrow> http_request \<Rightarrow> http_response handler \<Rightarrow> bool" where
  "shut_out a req m \<longleftrightarrow> \<not> authorized (co_admin_token (ad_console a)) (co_public_port (ad_console a)) req \<longrightarrow>
     (\<exists>r. m = answer r \<and> rp_status r \<in> {400, 401})"

lemma shut_token: "shut_out a req (with_token a req m)"
  unfolding shut_out_def with_token_def by auto

lemma admin_extractor:
  assumes "rq_path req = ''/admin/api/v1/'' @ rest"
  shows "rp_status (extractor_error c req k message) = 400"
  by (simp add: assms extractor_error_def starts_with_def openai_error_def json_response_def)

lemma shut_extractors:
  assumes "rq_path req = ''/admin/api/v1/'' @ rest"
  shows "(\<And>q. shut_out a req (f q)) \<Longrightarrow> shut_out a req (with_query c req decode pairs f)"
    "(\<And>i. shut_out a req (g i)) \<Longrightarrow> shut_out a req (with_body c req decode' body g)"
    "(\<And>i. shut_out a req (h i)) \<Longrightarrow> shut_out a req (with_path_id c req segment h)"
  unfolding with_query_def with_body_def with_path_id_def
  by (auto simp: shut_out_def admin_extractor [OF assms] split: option.splits)

lemma handlers_shut:
  "shut_out a req (operator_readiness a req)" "shut_out a req (list_keys a req)"
  "shut_out a req (list_downstream_credentials a req)" "shut_out a req (admin_evidence a req)"
  "shut_out a req (admin_overview a req)" "shut_out a req (upstream_slots a req)"
  "shut_out a req (model_capabilities a req)" "shut_out a req (generation_readiness a req)"
  "shut_out a req (admin_attentions a req)" "shut_out a req (admin_operations a req q)"
  "shut_out a req (admin_events a req q)" "shut_out a req (operation_detail a req i)"
  "shut_out a req (event_detail a req i)" "shut_out a req (evidence_detail a req i)"
  "shut_out a req (add_key a req ki)" "shut_out a req (toggle_key a req i enabled)"
  "shut_out a req (enable_key_alias a req i)" "shut_out a req (disable_key_alias a req i)"
  "shut_out a req (delete_key a req i)" "shut_out a req (probe_upstream_key a req i)"
  "shut_out a req (add_downstream a req din)" "shut_out a req (revoke_downstream_credential a req i)"
  "shut_out a req (revoke_downstream_legacy a req i)"
  unfolding operator_readiness_def list_keys_def list_downstream_credentials_def admin_evidence_def
    admin_overview_def upstream_slots_def model_capabilities_def generation_readiness_def admin_attentions_def
    admin_operations_def admin_events_def attempt_listing_def operation_detail_def event_detail_def
    evidence_detail_def one_attempt_def add_key_def toggle_key_def enable_key_alias_def disable_key_alias_def
    delete_key_def probe_upstream_key_def add_downstream_def revoke_downstream_credential_def revoke_downstream_legacy_def
    revoke_credential_def Let_def
  by (rule shut_token)+

text \<open>
  C1. Without the operator's token every route of the first administration API is a constant answer,
  401 or, where the path, the query or the body cannot be read, 400: nothing of the vault or the
  tables is read, changed or shown.
\<close>

theorem admin_needs_token:
  assumes "admin_route a req pairs body = Some m"
    and "\<not> authorized (co_admin_token (ad_console a)) (co_public_port (ad_console a)) req"
  shows "\<exists>r. m = answer r \<and> rp_status r \<in> {400, 401}"
proof -
  obtain rest where s: "rq_path req = ''/admin/api/v1/'' @ rest"
    using assms(1) by (auto simp: admin_route_def strip_prefix_Some_iff split: option.splits)
  have "shut_out a req m"
    using assms(1) unfolding admin_route_def admin_get_route_def admin_post_route_def admin_delete_route_def Let_def
    by (auto split: option.splits list.splits if_splits intro!: handlers_shut shut_extractors [OF s])
  then show ?thesis using assms(2) by (simp add: shut_out_def)
qed

theorem admin_needs_token_witness:
  "\<exists>r. list_keys demo_admin (demo_admin_request ''GET'' ''upstream-keys'') = answer r \<and> rp_status r \<in> {400, 401}"
  by (rule admin_needs_token [OF demo_admin_routed(1)])
    (simp add: authorized_def bearer_def header_str_def header_first_def header_all_def demo_admin_request_def)

end
