(* ===== verification/Admin_Slots.thy ===== *)
theory Admin_Slots
  imports Admin_Audited Console_Simulate
begin

text \<open>What the slots of the first administration API show, against what the routing does.\<close>

section \<open>What a slot shows\<close>

text \<open>The entry of a key and profile in the answer of the slots, and what it says.\<close>

definition shows_eligible :: "http_response \<Rightarrow> uuid \<Rightarrow> str \<Rightarrow> bool" where
  "shows_eligible response key profile \<longleftrightarrow>
     (case rp_body response of
        http_body.Json_body v \<Rightarrow> list_ex (\<lambda>slot. get_field ''key_id'' slot = Some (uuid_json key) \<and>
          list_ex (\<lambda>p. get_field ''profile_id'' p = Some (JString profile) \<and> get_field ''eligible_now'' p = Some (JBool True))
            (unwrap_or [] (get_array ''profiles'' slot))) (unwrap_or [] (get_array ''slots'' v))
      | _ \<Rightarrow> False)"

lemma slots_show_eligible:
  assumes "k \<in> set keys" "slot_eligible now k" "(profile, ks_id k) \<in> set proofs" "profile \<in> set PROFILES"
  shows "shows_eligible (no_store (plain_json 200 (JObject ((''snapshot'', snapshot) #
    [(''slots'', JArray (slots_json c now proofs keys))])))) (ks_id k) profile"
proof -
  obtain i where "i < length keys" "keys ! i = k" using assms(1) by (auto simp: in_set_conv_nth)
  then have "(i, k) \<in> set (List.enumerate 0 keys)" by (force simp: in_set_enumerate_eq)
  then have "slot_json c now proofs (i + 1) k \<in> set (slots_json c now proofs keys)"
    unfolding slots_json_def by (force simp: image_iff)
  moreover have "get_field ''key_id'' (slot_json c now proofs n k) = Some (uuid_json (ks_id k))"
    "get_array ''profiles'' (slot_json c now proofs n k) = Some (map (profile_status_json now proofs k) PROFILES)" for n
    by (simp_all add: slot_json_def get_array_def get_field_def as_array_def)
  moreover have "get_field ''profile_id'' (profile_status_json now proofs k profile) = Some (JString profile)"
    "get_field ''eligible_now'' (profile_status_json now proofs k profile) = Some (JBool True)"
    using assms(2,3) by (simp_all add: profile_status_json_def Let_def get_field_def)
  ultimately show ?thesis
    using assms(4)
    unfolding shows_eligible_def
    by (auto simp: no_store_def insert_header_def plain_json_def json_response_def get_array_def get_field_def as_array_def
        list_ex_iff unwrap_or_def intro!: bexI)
qed


definition demo_shown :: stored_key where
  "demo_shown = demo_row\<lparr>sk_enabled := True, sk_verified := True\<rparr>"

definition demo_stale :: world where
  "demo_stale = demo_world\<lparr>w_vault := set_keys [demo_shown] demo_vault, w_clock := secs 604801,
     w_db := Some (demo_db\<lparr>db_receipts := [\<lparr>rc_profile = ''z-ai/glm-5.2'', rc_key = demo_id, rc_verified_at = 0,
       rc_probe = None, rc_invalidated_at = None, rc_reason = None\<rparr>]\<rparr>)\<rparr>"


end
