(* ===== verification/Workers.thy ===== *)
theory Workers
  imports Maintenance Console_Read
begin

text \<open>
  The background workers of \<open>evidence.rs\<close>: the rollup and the sample of the public capacity every
  five seconds, the retention every hour, each failure reported and left to the next tick. The
  lemmas say that a rollup counts every request it marks once, in its own bucket.
\<close>

section \<open>What one tick of a worker does\<close>

definition rollup_request_metrics ::
    "bool \<Rightarrow> (uuid \<Rightarrow> bool) \<Rightarrow> (uuid \<Rightarrow> nat) \<Rightarrow> nat option program" where
  "rollup_request_metrics got free rank = do {
     d \<leftarrow> observe w_db;
     case d of
       None \<Rightarrow> State_Monad.return (Some 0)
     | Some _ \<Rightarrow> database_call (\<lambda>_ now. tx_rollup got free rank now)
   }"

definition apply_operations_retention :: "bool \<Rightarrow> nat option program" where
  "apply_operations_retention got = do {
     d \<leftarrow> observe w_db;
     case d of
       None \<Rightarrow> State_Monad.return (Some 0)
     | Some _ \<Rightarrow> database_call (\<lambda>_ now. tx_retention got now)
   }"

definition tx_capacity :: "nat \<Rightarrow> time \<Rightarrow> db \<Rightarrow> (unit \<times> db) option" where
  "tx_capacity n now d =
     (let minute = trunc_to (secs 60) now in
      Some ((), d\<lparr>db_capacity :=
        (if list_ex (\<lambda>c. ca_start c = minute) (db_capacity d)
         then update_where (\<lambda>c. ca_start c = minute) (\<lambda>c. c\<lparr>ca_eligible := n\<rparr>) (db_capacity d)
         else db_capacity d @ [\<lparr>ca_start = minute, ca_eligible = n\<rparr>])\<rparr>))"

definition sample_public_capacity :: "nat option program" where
  "sample_public_capacity =
     then_read (eligible_key_ids ''z-ai/glm-5.2'') (\<lambda>ids.
       let eligible = min (length ids) 2
       in then_read (database_call (\<lambda>_. tx_capacity eligible)) (\<lambda>_. State_Monad.return (Some eligible)))"

definition rollup_worker :: "bool \<Rightarrow> (uuid \<Rightarrow> bool) \<Rightarrow> (uuid \<Rightarrow> nat) \<Rightarrow> unit program" where
  "rollup_worker got free rank = do {
     _ \<leftarrow> rollup_request_metrics got free rank;
     _ \<leftarrow> sample_public_capacity;
     State_Monad.return ()
   }"

definition retention_worker :: "bool \<Rightarrow> unit program" where
  "retention_worker got = do { _ \<leftarrow> apply_operations_retention got; State_Monad.return () }"

section \<open>Counting once\<close>

definition bucket_count :: "bucket \<Rightarrow> metric_row list \<Rightarrow> nat" where
  "bucket_count b ms = sum_list (map me_requests (filter (\<lambda>m. metric_key m = b) ms))"

lemma add_metric_facts [simp]:
  "metric_key (add_metric e m) = metric_key m" "me_requests (add_metric e m) = me_requests m + me_requests e"
  by (simp_all add: add_metric_def metric_key_def)

lemma bucket_count_Cons [simp]:
  "bucket_count b [] = 0"
  "bucket_count b (m # ms) = (if metric_key m = b then me_requests m else 0) + bucket_count b ms"
  by (simp_all add: bucket_count_def)

lemma update_where_Cons [simp]:
  "update_where p f [] = []" "update_where p f (r # rows) = (if p r then f r else r) # update_where p f rows"
  by (simp_all add: update_where_def)

lemma metric_of_facts [simp]: "metric_key (metric_of b rows) = b" "me_requests (metric_of b rows) = length rows"
  by (cases b; simp add: metric_of_def metric_key_def)+

lemma bucket_count_absent: "b \<notin> metric_key ` set ms \<Longrightarrow> bucket_count b ms = 0"
  by (auto simp: bucket_count_def filter_empty_conv)

lemma update_absent: "metric_key e \<notin> metric_key ` set ms \<Longrightarrow>
    update_where (\<lambda>m. metric_key m = metric_key e) (add_metric e) ms = ms"
  unfolding update_where_def by (rule map_idI) (metis imageI)

lemma update_bucket_count:
  "distinct (map metric_key ms) \<Longrightarrow> metric_key e \<in> metric_key ` set ms \<Longrightarrow>
   bucket_count b (update_where (\<lambda>m. metric_key m = metric_key e) (add_metric e) ms) =
     bucket_count b ms + (if metric_key e = b then me_requests e else 0)"
proof (induction ms)
  case (Cons m ms)
  show ?case
  proof (cases "metric_key m = metric_key e")
    case True
    then have "metric_key e \<notin> metric_key ` set ms" using Cons.prems(1) by auto
    then show ?thesis using update_absent [of e ms] True by simp
  next
    case False
    then have "metric_key e \<in> metric_key ` set ms" using Cons.prems(2) by auto
    then show ?thesis using Cons False by simp
  qed
qed simp

lemma upsert_bucket_count:
  assumes "distinct (map metric_key ms)"
  shows "distinct (map metric_key (upsert_metric e ms))"
    "bucket_count b (upsert_metric e ms) = bucket_count b ms + (if metric_key e = b then me_requests e else 0)"
proof -
  have keys: "map metric_key (update_where p (add_metric e) ms) = map metric_key ms" for p
    by (simp add: update_where_def)
  show "distinct (map metric_key (upsert_metric e ms))"
  proof (cases "list_ex (\<lambda>m. metric_key m = metric_key e) ms")
    case True
    then show ?thesis using assms by (simp add: upsert_metric_def keys)
  next
    case False
    then have "metric_key e \<notin> set (map metric_key ms)" unfolding list_ex_iff by fastforce
    then show ?thesis using assms False by (simp add: upsert_metric_def)
  qed
  show "bucket_count b (upsert_metric e ms) = bucket_count b ms + (if metric_key e = b then me_requests e else 0)"
  proof (cases "list_ex (\<lambda>m. metric_key m = metric_key e) ms")
    case True
    then obtain m where "m \<in> set ms" "metric_key e = metric_key m" unfolding list_ex_iff by metis
    then have "metric_key e \<in> metric_key ` set ms" by (rule image_eqI [rotated])
    then show ?thesis using update_bucket_count [OF assms, of e b] True by (simp add: upsert_metric_def)
  next
    case False
    then show ?thesis by (simp add: upsert_metric_def bucket_count_def)
  qed
qed

lemma fold_bucket_count:
  "distinct (map metric_key ms) \<Longrightarrow> distinct (map metric_key es) \<Longrightarrow>
   distinct (map metric_key (fold upsert_metric es ms)) \<and>
   bucket_count b (fold upsert_metric es ms) = bucket_count b ms + bucket_count b es"
proof (induction es arbitrary: ms)
  case (Cons e es)
  then show ?case
    using Cons.IH [of "upsert_metric e ms"] Cons.prems upsert_bucket_count [OF Cons.prems(1)] by simp
qed simp

lemma aggregated_count:
  "distinct (map metric_key (aggregated rows))"
  "bucket_count b (aggregated rows) = length (filter (\<lambda>r. bucket_of r = b) rows)"
proof -
  have keys: "map metric_key (aggregated rows) = remdups (map bucket_of rows)"
    by (simp add: aggregated_def comp_def)
  show "distinct (map metric_key (aggregated rows))" by (simp add: keys)
  have "filter (\<lambda>m. metric_key m = b) (aggregated rows) =
      map (\<lambda>c. metric_of c (filter (\<lambda>r. bucket_of r = c) rows)) (filter (\<lambda>c. c = b) (remdups (map bucket_of rows)))"
    by (simp add: aggregated_def filter_map comp_def)
  moreover have "filter (\<lambda>c. c = b) (remdups xs) = (if b \<in> set xs then [b] else [])" for xs :: "bucket list"
    by (induction xs) auto
  ultimately show "bucket_count b (aggregated rows) = length (filter (\<lambda>r. bucket_of r = b) rows)"
    by (auto simp: bucket_count_def filter_empty_conv)
qed

text \<open>
  A rollup marks what it selected and adds each of them to its own bucket, once; the buckets keep
  their keys apart.
\<close>

lemma rollup_counts_once:
  assumes "tx_rollup True free rank now d = Some (n, d')" "distinct (map metric_key (db_metrics d))"
  shows "distinct (map metric_key (db_metrics d')) \<and>
    bucket_count b (db_metrics d') = bucket_count b (db_metrics d) +
      length (filter (\<lambda>r. bucket_of r = b) (selected_requests free rank ROLLUP_BATCH_SIZE d))"
proof -
  let ?rows = "selected_requests free rank ROLLUP_BATCH_SIZE d"
  have "db_metrics d' = fold upsert_metric (aggregated ?rows) (db_metrics d)"
    using assms(1) by (auto simp: tx_rollup_def Let_def)
  then show ?thesis
    using fold_bucket_count [OF assms(2) aggregated_count(1) [of ?rows], of b] by (simp add: aggregated_count(2))
qed

lemma rollup_selects:
  assumes "r \<in> set (selected_requests free rank n d)"
  shows "r \<in> set (db_requests d) \<and> unrolled r"
  using assms by (auto simp: selected_requests_def dest!: in_set_takeD)

text \<open>A rollup never takes a row twice: what it marked is no longer unrolled.\<close>

lemma rollup_marks:
  assumes "tx_rollup True free rank now d = Some (n, d')"
    "r \<in> set (selected_requests free rank ROLLUP_BATCH_SIZE d)"
  shows "pr_request_id r \<notin> pr_request_id ` set (filter unrolled (db_requests d'))"
proof
  let ?ids = "map pr_request_id (selected_requests free rank ROLLUP_BATCH_SIZE d)"
  let ?f = "\<lambda>r. if pr_request_id r \<in> set ?ids then r\<lparr>pr_rolled_up := Some now\<rparr> else r"
  have d': "db_requests d' = map ?f (db_requests d)"
    using assms(1) by (auto simp: tx_rollup_def Let_def update_where_def)
  assume "pr_request_id r \<in> pr_request_id ` set (filter unrolled (db_requests d'))"
  then obtain x where x: "x \<in> set (db_requests d)" "unrolled (?f x)" "pr_request_id (?f x) = pr_request_id r"
    unfolding d' by auto
  have "pr_request_id (?f x) = pr_request_id x" by simp
  with x(3) have "pr_request_id x \<in> set ?ids" using assms(2) by (metis image_eqI list.set_map)
  then show False using x(2) by (simp add: unrolled_def)
qed

end
