(* ===== verification/Qa_Runs.thy ===== *)
theory Qa_Runs
  imports Console_Vault
begin

text \<open>
  The life of a QA run (\<open>operations/qa.rs\<close>) in its two tables: armed, started, completed by the
  Hermes helper, resumed after a restart, closed when it fails or was interrupted. Each function is
  one transaction; \<open>Inl\<close> is a refusal with its text (\<open>bail!\<close>, nothing is written), \<open>None\<close> an SQL error.
  What PostgreSQL computes of whole rows is a parameter: their JSON texts, \<open>md5\<close>, the text of an
  instant, the columns with forbidden names. So are the texts of the drivers' errors, the video
  fixture, and what the runner is answered when it calls the gateway over HTTP.
\<close>

section \<open>The environment of a run\<close>

record qa_call =
  ql_verb :: str
  ql_url :: str
  ql_host :: str
  ql_token :: "str option"
  ql_body :: sent_body

record qa_env =
  qe_console :: console
  qe_texts :: "db \<Rightarrow> str list"
  qe_md5 :: "str \<Rightarrow> str"
  qe_instant :: "time \<Rightarrow> str"
  qe_forbidden_columns :: nat
  qe_sql_text :: str
  qe_body_text :: str
  qe_b64 :: "bytes \<Rightarrow> str"
  qe_mp4_url :: str
  qe_call :: "qa_call \<Rightarrow> (str + provider_response) program"

section \<open>Rows\<close>

text \<open>\<open>jsonb_is_scalar_object\<close> and the contract of a case's status.\<close>

definition scalar_member :: "json \<Rightarrow> bool" where
  "scalar_member v =
     (case v of JArray _ \<Rightarrow> False | JObject _ \<Rightarrow> False | JString s \<Rightarrow> length (chars s) \<le> 256 | _ \<Rightarrow> True)"

definition scalar_object :: "json \<Rightarrow> bool" where
  "scalar_object v =
     (case v of JObject m \<Rightarrow> list_all (\<lambda>e. scalar_member (snd e)) m \<and> length m \<le> 32 | _ \<Rightarrow> False)"

definition case_open :: "qa_case_row \<Rightarrow> bool" where
  "case_open k \<longleftrightarrow> qc_status k = ''pending'' \<or> qc_status k = ''running''"

definition case_row_ok :: "qa_case_row \<Rightarrow> bool" where
  "case_row_ok k \<longleftrightarrow>
     qc_status k \<in> set [''pending'', ''running'', ''passed'', ''failed'', ''skipped''] \<and>
     (case_open k \<longleftrightarrow> qc_finished_at k = None) \<and> scalar_object (qc_evidence k)"

text \<open>An \<open>UPDATE\<close>: \<open>None\<close> where a new row breaks a constraint.\<close>

definition update_cases :: "(qa_case_row \<Rightarrow> bool) \<Rightarrow> (qa_case_row \<Rightarrow> qa_case_row) \<Rightarrow> db \<Rightarrow> db option" where
  "update_cases p f d =
     (if list_ex (\<lambda>k. p k \<and> \<not> case_row_ok (f k)) (db_qa_cases d) then None
      else Some (d\<lparr>db_qa_cases := update_where p f (db_qa_cases d)\<rparr>))"

definition update_runs :: "(qa_run_row \<Rightarrow> bool) \<Rightarrow> (qa_run_row \<Rightarrow> qa_run_row) \<Rightarrow> db \<Rightarrow> db option" where
  "update_runs p f d =
     (if list_ex (\<lambda>r. p r \<and> \<not> qa_row_ok (f r)) (db_qa_runs d) then None
      else Some (d\<lparr>db_qa_runs := update_where p f (db_qa_runs d)\<rparr>))"

definition run_of :: "uuid \<Rightarrow> db \<Rightarrow> qa_run_row option" where
  "run_of i d = List.find (\<lambda>r. qr_id r = i) (db_qa_runs d)"

definition running_run :: "time \<Rightarrow> qa_run_row \<Rightarrow> qa_run_row" where
  "running_run now r = r\<lparr>qr_status := ''running'', qr_started_at := Some now\<rparr>"

definition failed_case :: "str \<Rightarrow> time \<Rightarrow> qa_case_row \<Rightarrow> qa_case_row" where
  "failed_case error_code now k =
     k\<lparr>qc_status := ''failed'', qc_evidence := JObject [(''error_code'', JString error_code)],
       qc_started_at := Some (unwrap_or now (qc_started_at k)), qc_finished_at := Some now\<rparr>"

definition failed_run :: "time \<Rightarrow> qa_run_row \<Rightarrow> qa_run_row" where
  "failed_run now r =
     r\<lparr>qr_status := ''failed'', qr_started_at := Some (unwrap_or now (qr_started_at r)), qr_finished_at := Some now\<rparr>"

definition settled_case :: "bool \<Rightarrow> json \<Rightarrow> time \<Rightarrow> qa_case_row \<Rightarrow> qa_case_row" where
  "settled_case passed evidence now k =
     k\<lparr>qc_status := (if passed then ''passed'' else ''failed''), qc_evidence := evidence, qc_finished_at := Some now\<rparr>"

definition settled_run :: "bool \<Rightarrow> time \<Rightarrow> qa_run_row \<Rightarrow> qa_run_row" where
  "settled_run passed now r =
     r\<lparr>qr_status := (if passed then ''passed'' else ''failed''), qr_finished_at := Some now\<rparr>"

section \<open>Closing\<close>

text \<open>The two statements of \<open>spawn\<close> after a failed execution; each is a statement of its own.\<close>

definition close_failed_cases :: "uuid \<Rightarrow> unit tx" where
  "close_failed_cases i t now d =
     map_option (Pair ()) (update_cases (\<lambda>k. qc_run k = i \<and> case_open k) (failed_case ''qa_runner_failed'' now) d)"

definition close_failed_run :: "uuid \<Rightarrow> unit tx" where
  "close_failed_run i t now d =
     map_option (Pair ()) (update_runs (\<lambda>r. qr_id r = i \<and> qa_active r) (failed_run now) d)"

definition tx_fail_running_run :: "uuid \<Rightarrow> str \<Rightarrow> unit tx" where
  "tx_fail_running_run i error_code t now d =
     (case run_of i d of
        None \<Rightarrow> Some ((), d)
      | Some r \<Rightarrow>
          if \<not> qa_active r then Some ((), d)
          else map_option (Pair ())
            (Option.bind (update_cases (\<lambda>k. qc_run k = i \<and> case_open k) (failed_case error_code now) d)
               (update_runs (\<lambda>r. qr_id r = i \<and> qa_active r) (failed_run now))))"

text \<open>A run that is queued, or running and not waiting for a restart.\<close>

definition interrupted :: "qa_run_row \<Rightarrow> bool" where
  "interrupted r \<longleftrightarrow> qr_status r = ''queued'' \<or> qr_status r = ''running'' \<and> qr_suite r \<noteq> ''persistence''"

definition tx_close_interrupted_runs :: "unit tx" where
  "tx_close_interrupted_runs t now d =
     map_option (Pair ())
       (Option.bind (update_cases
            (\<lambda>k. list_ex (\<lambda>r. qr_id r = qc_run k \<and> interrupted r) (db_qa_runs d) \<and> case_open k)
            (failed_case ''gateway_restarted_during_qa'' now) d)
          (update_runs interrupted (failed_run now)))"

section \<open>Starting\<close>

definition tx_start_queued_run :: "uuid \<Rightarrow> (str + unit) tx" where
  "tx_start_queued_run i t now d =
     (if length (filter (\<lambda>r. qr_id r = i \<and> qr_status r = ''queued'') (db_qa_runs d)) \<noteq> 1
      then Some (Err ''QA run is not queued'', d)
      else map_option (Pair (Ok ()))
        (update_runs (\<lambda>r. qr_id r = i \<and> qr_status r = ''queued'') (running_run now) d))"

definition HERMES_QA_TIMEOUT :: int where "HERMES_QA_TIMEOUT = 1800"
definition PERSISTENCE_QA_TIMEOUT :: int where "PERSISTENCE_QA_TIMEOUT = 900"

definition armed_case :: "time \<Rightarrow> qa_case_row \<Rightarrow> qa_case_row" where
  "armed_case now k =
     k\<lparr>qc_status := ''running'',
       qc_evidence := JObject [(''contract'', JString ''external_rust_helper''), (''timeout_seconds'', num (nat HERMES_QA_TIMEOUT))],
       qc_started_at := Some now\<rparr>"

definition tx_arm_hermes :: "uuid \<Rightarrow> (str + unit) tx" where
  "tx_arm_hermes i t now d =
     (let pending = (\<lambda>k. qc_run k = i \<and> qc_status k = ''pending'') in
      case run_of i d of
        None \<Rightarrow> None
      | Some r \<Rightarrow>
          if qr_suite r \<noteq> ''hermes-e2e'' \<or> \<not> qr_live r
          then Some (Err ''Hermes QA arm requires a live Hermes E2E run'', d)
          else if qr_status r \<noteq> ''queued'' then Some (Err ''Hermes QA run is not queued'', d)
          else Option.bind (update_cases pending (armed_case now) d) (\<lambda>d1.
            if length (filter pending (db_qa_cases d)) \<noteq> 6
            then Some (Err ''Hermes QA run does not contain the complete six-case contract'', d)
            else map_option (Pair (Ok ())) (update_runs (\<lambda>r. qr_id r = i) (running_run now) d1)))"

section \<open>Evidence of the Hermes helper\<close>

record secret_scan =
  ss_database :: nat
  ss_app_log :: nat
  ss_hermes_log :: nat
  ss_cloudflared_log :: nat
  ss_image_metadata :: nat
  ss_helper_artifact :: nat
  ss_hermes_tree :: nat
  ss_public_bundle :: nat
  ss_admin_response :: nat
  ss_issued_token :: nat
  ss_authorization_value :: nat

definition scan_counts :: "secret_scan \<Rightarrow> (str \<times> nat) list" where
  "scan_counts s =
     [(''database_matches'', ss_database s), (''app_log_matches'', ss_app_log s),
      (''hermes_log_matches'', ss_hermes_log s), (''cloudflared_log_matches'', ss_cloudflared_log s),
      (''image_metadata_matches'', ss_image_metadata s), (''helper_artifact_matches'', ss_helper_artifact s),
      (''hermes_tree_matches'', ss_hermes_tree s), (''public_bundle_matches'', ss_public_bundle s),
      (''admin_response_matches'', ss_admin_response s), (''issued_token_matches'', ss_issued_token s),
      (''authorization_value_matches'', ss_authorization_value s)]"

definition scan_total :: "secret_scan \<Rightarrow> nat" where
  "scan_total s = foldl sat_add_u64 0 (map snd (scan_counts s))"

definition database_secret_matches :: "qa_env \<Rightarrow> db \<Rightarrow> nat" where
  "database_secret_matches q d =
     length (filter (\<lambda>v. has_sub ''nvapi-'' v \<or> has_sub ''nblb_ds_'' v \<or> has_sub ''nblb_admin_'' v) (qe_texts q d))"

record hermes_request =
  hr_request_id :: uuid
  hr_attempts :: nat
  hr_outcome :: str
  hr_stage :: str

record hermes_completion =
  hc_status :: str
  hc_commit :: "str option"
  hc_generation :: "uuid option"
  hc_client :: "uuid option"
  hc_doctor :: bool
  hc_marker :: bool
  hc_tool :: bool
  hc_correlation :: bool
  hc_scan :: "secret_scan option"
  hc_rollback :: bool
  hc_reconcile :: bool
  hc_duration :: "nat option"
  hc_requests :: "hermes_request list"

definition defaulted :: "(json \<Rightarrow> 'a option) \<Rightarrow> 'a \<Rightarrow> str \<Rightarrow> (str \<times> json) list \<Rightarrow> 'a option" where
  "defaulted f x key m = (case map_of m key of None \<Rightarrow> Some x | Some v \<Rightarrow> f v)"

definition secret_scan_of :: "json \<Rightarrow> secret_scan option" where
  "secret_scan_of v =
     (let names = map fst (scan_counts (secret_scan.make 0 0 0 0 0 0 0 0 0 0 0)) in
      Option.bind (struct_fields 11 names v) (\<lambda>m.
      case map (\<lambda>n. required as_u64 n m) names of
        [Some a, Some b, Some c, Some d, Some e, Some f, Some g, Some h, Some i, Some j, Some k] \<Rightarrow>
          Some (secret_scan.make a b c d e f g h i j k)
      | _ \<Rightarrow> None))"

definition hermes_request_of :: "console \<Rightarrow> json \<Rightarrow> hermes_request option" where
  "hermes_request_of c v =
     Option.bind (struct_fields 4 [''request_id'', ''attempt_count'', ''outcome'', ''stage''] v) (\<lambda>m.
     Option.bind (required (uuid_of c) ''request_id'' m) (\<lambda>i.
     Option.bind (required as_u64 ''attempt_count'' m) (\<lambda>n.
     Option.bind (required as_str ''outcome'' m) (\<lambda>outcome.
     Option.bind (required as_str ''stage'' m) (\<lambda>stage.
       Some \<lparr>hr_request_id = i, hr_attempts = n, hr_outcome = outcome, hr_stage = stage\<rparr>)))))"

definition hermes_requests_of :: "console \<Rightarrow> json \<Rightarrow> hermes_request list option" where
  "hermes_requests_of c v = Option.bind (as_array v) (\<lambda>xs. all_some (map (hermes_request_of c) xs))"

definition hermes_completion_of :: "console \<Rightarrow> json \<Rightarrow> hermes_completion option" where
  "hermes_completion_of c v =
     Option.bind (struct_fields 12 [''status'', ''app_commit'', ''generation'', ''client_id'', ''doctor'', ''exact_marker'',
       ''tool_task'', ''request_correlation'', ''secret_scan'', ''rollback_rehearsal'', ''reconcile_committed'',
       ''duration_ms'', ''lb_requests''] v) (\<lambda>m.
     Option.bind (required as_str ''status'' m) (\<lambda>status.
     Option.bind (optional as_str ''app_commit'' m) (\<lambda>commit_id.
     Option.bind (optional (uuid_of c) ''generation'' m) (\<lambda>generation.
     Option.bind (optional (uuid_of c) ''client_id'' m) (\<lambda>client.
     Option.bind (defaulted as_bool False ''doctor'' m) (\<lambda>doctor.
     Option.bind (defaulted as_bool False ''exact_marker'' m) (\<lambda>marker.
     Option.bind (defaulted as_bool False ''tool_task'' m) (\<lambda>tool.
     Option.bind (defaulted as_bool False ''request_correlation'' m) (\<lambda>correlation.
     Option.bind (optional secret_scan_of ''secret_scan'' m) (\<lambda>scan.
     Option.bind (defaulted as_bool False ''rollback_rehearsal'' m) (\<lambda>rollback.
     Option.bind (defaulted as_bool False ''reconcile_committed'' m) (\<lambda>reconcile.
     Option.bind (optional as_u64 ''duration_ms'' m) (\<lambda>duration.
     Option.bind (defaulted (hermes_requests_of c) [] ''lb_requests'' m) (\<lambda>requests.
       Some \<lparr>hc_status = status, hc_commit = commit_id, hc_generation = generation, hc_client = client,
             hc_doctor = doctor, hc_marker = marker, hc_tool = tool, hc_correlation = correlation, hc_scan = scan,
             hc_rollback = rollback, hc_reconcile = reconcile, hc_duration = duration, hc_requests = requests\<rparr>))))))))))))))"

text \<open>What the tables say of the requests the helper names, oldest first.\<close>

record correlated =
  cq_request :: request_row
  cq_attempts :: nat

definition correlated_rows :: "uuid \<Rightarrow> time \<Rightarrow> uuid list \<Rightarrow> db \<Rightarrow> correlated list" where
  "correlated_rows client started ids d =
     map (\<lambda>r. \<lparr>cq_request = r, cq_attempts = length (filter (\<lambda>x. ra_parent x = Some (pr_request_id r)) (db_attempts d))\<rparr>)
       (sort_key (\<lambda>r. (pr_started_at r, pr_request_id r))
          (filter (\<lambda>r. pr_client r = Some client \<and> started \<le> pr_started_at r \<and> pr_request_id r \<in> set ids)
             (db_requests d)))"

definition correlated_as :: "correlated list \<Rightarrow> uuid \<Rightarrow> correlated option" where
  "correlated_as rows i = List.find (\<lambda>c. pr_request_id (cq_request c) = i) rows"

text \<open>The persisted row agrees with what was submitted, and is over.\<close>

definition request_agrees :: "correlated list \<Rightarrow> hermes_request \<Rightarrow> bool" where
  "request_agrees rows h \<longleftrightarrow>
     hr_outcome h = ''succeeded'' \<and>
     is_some_and (\<lambda>c. pr_outcome (cq_request c) = hr_outcome h \<and> cq_attempts c = hr_attempts h \<and>
       pr_finished_at (cq_request c) \<noteq> None) (correlated_as rows (hr_request_id h))"

fun persisted_refusal :: "correlated list \<Rightarrow> hermes_request list \<Rightarrow> str option" where
  "persisted_refusal rows [] = None"
| "persisted_refusal rows (h # hs) =
     (if correlated_as rows (hr_request_id h) = None
      then Some ''Hermes QA request evidence is missing a persisted request''
      else if \<not> request_agrees rows h
      then Some ''Hermes QA request evidence disagrees with terminal persistence''
      else persisted_refusal rows hs)"

definition of_stage :: "str \<Rightarrow> hermes_completion \<Rightarrow> hermes_request list" where
  "of_stage stage input = filter (\<lambda>h. hr_stage h = stage) (hc_requests input)"

definition started_of :: "correlated list \<Rightarrow> hermes_request \<Rightarrow> time option" where
  "started_of rows h = map_option (\<lambda>c. pr_started_at (cq_request c)) (correlated_as rows (hr_request_id h))"

definition tool_before_marker :: "correlated list \<Rightarrow> hermes_completion \<Rightarrow> bool" where
  "tool_before_marker rows input \<longleftrightarrow>
     (case of_stage ''marker'' input of
        [] \<Rightarrow> True
      | marker # _ \<Rightarrow>
          (case started_of rows marker of
             None \<Rightarrow> True
           | Some t \<Rightarrow> list_ex (\<lambda>h. is_some_and (\<lambda>u. u < t) (started_of rows h)) (of_stage ''tool'' input)))"

text \<open>The requests of the client between the first start and the last end.\<close>

definition window_count :: "uuid \<Rightarrow> correlated list \<Rightarrow> db \<Rightarrow> nat" where
  "window_count client rows d =
     (case (rows, List.map_filter (\<lambda>c. pr_finished_at (cq_request c)) rows) of
        (first # _, ends) \<Rightarrow>
          length (filter (\<lambda>r. pr_client r = Some client \<and> pr_started_at (cq_request first) \<le> pr_started_at r \<and>
            (ends \<noteq> [] \<and> pr_started_at r \<le> Max (set ends))) (db_requests d))
      | _ \<Rightarrow> 0)"

definition client_fits :: "uuid \<Rightarrow> time \<Rightarrow> client_row \<Rightarrow> bool" where
  "client_fits generation started c \<longleftrightarrow>
     dr_label (cw_client c) = ''hermes-cutover-'' @ show_uuid generation \<and> dr_active (cw_client c) \<and>
     started \<le> dr_created_at (cw_client c) \<and> dr_revoked_at (cw_client c) = None"

text \<open>The refusals of a passed completion, in their order; \<open>None\<close> where the evidence is accepted.\<close>

definition stage_refusal :: "hermes_completion \<Rightarrow> str option" where
  "stage_refusal input =
     (let n = length (hc_requests input); markers = length (of_stage ''marker'' input); tools = length (of_stage ''tool'' input) in
      if \<not> (3 \<le> n \<and> n \<le> 5) then Some ''passed Hermes QA requires three to five correlated requests''
      else if markers \<noteq> 1 \<or> \<not> (2 \<le> tools \<and> tools \<le> 4) \<or> markers + tools \<noteq> n
      then Some ''Hermes QA requires exactly one marker request and two to four tool requests''
      else if \<not> distinct (map hr_request_id (hc_requests input))
      then Some ''Hermes QA request evidence contains duplicate IDs''
      else None)"

definition window_refusal :: "uuid \<Rightarrow> hermes_completion \<Rightarrow> correlated list \<Rightarrow> db \<Rightarrow> str option" where
  "window_refusal client input rows d =
     (if length rows \<noteq> length (hc_requests input)
      then Some ''Hermes QA request evidence does not match persisted requests''
      else case persisted_refusal rows (hc_requests input) of
        Some text \<Rightarrow> Some text
      | None \<Rightarrow>
          if tool_before_marker rows input then Some ''Hermes QA tool requests precede the marker request''
          else if window_count client rows d \<noteq> length rows
          then Some ''Hermes QA request window contains unreported requests''
          else None)"

definition every_check :: "hermes_completion \<Rightarrow> bool" where
  "every_check input \<longleftrightarrow>
     hc_doctor input \<and> hc_marker input \<and> hc_tool input \<and> hc_correlation input \<and> hc_scan input \<noteq> None \<and> hc_rollback input"

text \<open>What is accepted: generation, client, duration, commit, scan and the correlated requests.\<close>

type_synonym accepted_run = "uuid \<times> uuid \<times> nat \<times> str \<times> secret_scan \<times> correlated list"

definition judge_completion ::
    "qa_env \<Rightarrow> qa_run_row \<Rightarrow> time \<Rightarrow> hermes_completion \<Rightarrow> db \<Rightarrow> str + accepted_run" where
  "judge_completion q run started input d =
     (case (hc_generation input, hc_client input, hc_duration input, hc_commit input) of
        (None, _, _, _) \<Rightarrow> Err ''passed Hermes QA requires generation''
      | (_, None, _, _) \<Rightarrow> Err ''passed Hermes QA requires client_id''
      | (_, _, None, _) \<Rightarrow> Err ''passed Hermes QA requires duration_ms''
      | (Some generation, Some client, Some duration, commit_id) \<Rightarrow>
          if duration = 0 \<or> 3600000 < duration then Err ''Hermes QA duration is outside the accepted range''
          else (case commit_id of
            None \<Rightarrow> Err ''passed Hermes QA requires app_commit''
          | Some app \<Rightarrow>
              if app \<noteq> qr_commit run \<or> app \<noteq> co_commit (qe_console q)
              then Err ''Hermes QA app commit does not match the active deployment''
              else (case List.find (\<lambda>c. dr_id (cw_client c) = client) (db_clients d) of
                None \<Rightarrow> Err ''Hermes downstream client not found''
              | Some row \<Rightarrow>
                  if \<not> client_fits generation started row
                  then Err ''Hermes downstream client identity is not valid for this run''
                  else (case (every_check input, hc_scan input) of
                    (True, Some scan) \<Rightarrow>
                      if ss_database scan \<noteq> database_secret_matches q d \<or> scan_total scan \<noteq> 0
                      then Err ''Hermes secret scan evidence contains or disagrees on raw secret matches''
                      else (case stage_refusal input of
                        Some text \<Rightarrow> Err text
                      | None \<Rightarrow>
                          (let rows = correlated_rows client started (map hr_request_id (hc_requests input)) d
                           in case window_refusal client input rows d of
                                Some text \<Rightarrow> Err text
                              | None \<Rightarrow> Ok (generation, client, duration, app, scan, rows)))
                  | _ \<Rightarrow> Err ''passed Hermes QA requires every verification boolean''))))"

section \<open>Completion by the Hermes helper\<close>

definition comma_joined :: "str list \<Rightarrow> str" where
  "comma_joined xs = (case xs of [] \<Rightarrow> [] | x # rest \<Rightarrow> foldl (\<lambda>acc y. acc @ '', '' @ y) x rest)"

definition passed_json :: "bool \<Rightarrow> json" where
  "passed_json b = JObject [(''passed'', JBool b)]"

text \<open>The profiles come out of a hash set; here in the order of the requests.\<close>

definition correlation_json :: "hermes_completion \<Rightarrow> uuid \<Rightarrow> correlated list \<Rightarrow> json" where
  "correlation_json input client rows = JObject
     [(''passed'', JBool (hc_correlation input)), (''client_id'', JString (show_uuid client)),
      (''request_count'', num (length rows)),
      (''request_ids'', JString (comma_joined (map (\<lambda>c. show_uuid (pr_request_id (cq_request c))) rows))),
      (''profiles'', JString (comma_joined (remdups (map (\<lambda>c. pr_profile (cq_request c)) rows)))),
      (''attempt_counts'', JString (comma_joined (map (\<lambda>c.
         show_uuid (pr_request_id (cq_request c)) @ '':'' @ show_nat (cq_attempts c)) rows))),
      (''marker_request_count'', num (length (of_stage ''marker'' input))),
      (''tool_request_count'', num (length (of_stage ''tool'' input)))]"

definition scan_json :: "secret_scan \<Rightarrow> json" where
  "scan_json s = JObject (map (\<lambda>(n, k). (n, num k)) (scan_counts s) @ [(''total_matches'', num (scan_total s))])"

definition completed_cases :: "hermes_completion \<Rightarrow> uuid \<Rightarrow> secret_scan \<Rightarrow> correlated list \<Rightarrow> (str \<times> bool \<times> json) list" where
  "completed_cases input client scan rows =
     [(''doctor'', hc_doctor input, passed_json (hc_doctor input)),
      (''exact_marker'', hc_marker input, passed_json (hc_marker input)),
      (''tool_task'', hc_tool input, passed_json (hc_tool input)),
      (''request_correlation'', hc_correlation input, correlation_json input client rows),
      (''secret_scan'', scan_total scan = 0, scan_json scan),
      (''rollback_rehearsal'', hc_rollback input, passed_json (hc_rollback input))]"

text \<open>One case after the other; \<open>Inl\<close> where one is not in the expected state.\<close>

fun settle_cases ::
    "uuid \<Rightarrow> str \<Rightarrow> time \<Rightarrow> (str \<times> bool \<times> json) list \<Rightarrow> db \<Rightarrow> (str + db) option" where
  "settle_cases i expected now [] d = Some (Ok d)"
| "settle_cases i expected now ((name, passed, evidence) # rest) d =
     (let p = (\<lambda>k. qc_run k = i \<and> qc_name k = name \<and> qc_status k = expected) in
      Option.bind (update_cases p (settled_case passed evidence now) d) (\<lambda>d'.
        if length (filter p (db_qa_cases d)) \<noteq> 1
        then Some (Err ''Hermes QA case is not in the expected reconciliation state'')
        else settle_cases i expected now rest d'))"

text \<open>An earlier completion of the same generation and commit is answered again.\<close>

definition completed_before :: "uuid \<Rightarrow> uuid \<Rightarrow> str \<Rightarrow> db \<Rightarrow> uuid option" where
  "completed_before i generation app d =
     (case newest (\<lambda>e. (ae_created_at e, ae_id e)) (filter (\<lambda>e. ae_action e = ''qa.hermes.complete'' \<and> ae_resource_id e = Some i \<and>
          ae_outcome e = ''succeeded'' \<and> get_str ''generation'' (ae_detail e) = Some (show_uuid generation) \<and>
          get_str ''app_commit'' (ae_detail e) = Some app) (db_audit d)) of
        [] \<Rightarrow> None
      | e # _ \<Rightarrow> Some (ae_id e))"

definition store_failure :: "uuid \<Rightarrow> uuid \<Rightarrow> (str + uuid) tx" where
  "store_failure i rid t now d =
     Option.bind (update_cases (\<lambda>k. qc_run k = i \<and> qc_status k = ''running'')
         (\<lambda>k. settled_case False (JObject [(''error_code'', JString ''hermes_helper_failed'')]) now k) d) (\<lambda>d1.
     Option.bind (update_runs (\<lambda>r. qr_id r = i \<and> qr_status r = ''running'') (settled_run False now) d1) (\<lambda>d2.
     map_option (\<lambda>(audit, d3). (Ok audit, d3))
       (insert_audit ''qa.hermes.complete'' ''qa_run'' (Some i) rid
          (JObject [(''error_code'', JString ''hermes_helper_failed''), (''status'', JString ''failed'')]) t now d2)))"

definition store_success ::
    "hermes_completion \<Rightarrow> uuid \<Rightarrow> uuid \<Rightarrow> bool \<Rightarrow> accepted_run \<Rightarrow> (str + uuid) tx" where
  "store_success input i rid recovering evidence t now d =
     (case evidence of (generation, client, duration, app, scan, rows) \<Rightarrow>
        (let expected = (if recovering then ''failed'' else ''running'');
             p = (\<lambda>r. qr_id r = i \<and> qr_status r = expected)
         in Option.bind (settle_cases i expected now (completed_cases input client scan rows) d) (\<lambda>r.
            case r of
              Inl text \<Rightarrow> Some (Err text, d)
            | Inr d1 \<Rightarrow>
                Option.bind (update_runs p (settled_run True now) d1) (\<lambda>d2.
                  if length (filter p (db_qa_runs d1)) \<noteq> 1
                  then Some (Err ''Hermes QA run changed while completing reconciliation'', d)
                  else map_option (\<lambda>(audit, d3). (Ok audit, d3))
                    (insert_audit ''qa.hermes.complete'' ''qa_run'' (Some i) rid
                       (JObject [(''app_commit'', JString app), (''client_id'', uuid_json client),
                          (''duration_ms'', num duration), (''generation'', uuid_json generation),
                          (''reconciled_from_failed'', JBool recovering), (''request_count'', num (length rows)),
                          (''rollback_rehearsal'', JBool True), (''status'', JString ''passed'')]) t now d2)))))"

definition finish_hermes :: "qa_env \<Rightarrow> qa_run_row \<Rightarrow> hermes_completion \<Rightarrow> uuid \<Rightarrow> (str + uuid) tx" where
  "finish_hermes q run input rid t now d =
     (let i = qr_id run;
          recovering = (qr_status run = ''failed'' \<and> hc_status input = ''passed'' \<and> hc_reconcile input)
      in if qr_status run \<noteq> ''running'' \<and> \<not> recovering then Some (Err ''Hermes QA run is not running'', d)
         else (case qr_started_at run of
           None \<Rightarrow> Some (Err ''Hermes QA run has no start time'', d)
         | Some started \<Rightarrow>
             if hc_status input = ''failed'' then store_failure i rid t now d
             else if hc_status input \<noteq> ''passed''
             then Some (Err ''Hermes completion status must be passed or failed'', d)
             else (case judge_completion q run started input d of
               Inl text \<Rightarrow> Some (Err text, d)
             | Inr evidence \<Rightarrow> store_success input i rid recovering evidence t now d)))"

definition tx_complete_hermes :: "qa_env \<Rightarrow> uuid \<Rightarrow> hermes_completion \<Rightarrow> uuid \<Rightarrow> (str + uuid) tx" where
  "tx_complete_hermes q i input rid t now d =
     (case run_of i d of
        None \<Rightarrow> Some (Err ''Hermes QA run not found'', d)
      | Some run \<Rightarrow>
          if qr_suite run \<noteq> ''hermes-e2e'' then Some (Err ''QA run is not a Hermes E2E run'', d)
          else if \<not> qr_live run \<or> qr_provider run \<noteq> ''nvidia_hosted''
          then Some (Err ''Hermes QA completion requires NVIDIA hosted live evidence'', d)
          else if qr_status run = ''passed'' \<and> hc_status input = ''passed''
          then (case (hc_generation input, hc_commit input) of
              (None, _) \<Rightarrow> Some (Err ''passed Hermes QA requires generation'', d)
            | (_, None) \<Rightarrow> Some (Err ''passed Hermes QA requires app_commit'', d)
            | (Some generation, Some app) \<Rightarrow>
                (case completed_before i generation app d of
                   Some audit \<Rightarrow> Some (Ok audit, d)
                 | None \<Rightarrow> finish_hermes q run input rid t now d))
          else finish_hermes q run input rid t now d)"

text \<open>The run as it is after the commit; an SQL error has no text the handler knows.\<close>

definition complete_hermes :: "qa_env \<Rightarrow> uuid \<Rightarrow> hermes_completion \<Rightarrow> uuid \<Rightarrow> (str + qa_view \<times> uuid) program" where
  "complete_hermes q i input rid = do {
     r \<leftarrow> database_call (tx_complete_hermes q i input rid);
     case r of
       None \<Rightarrow> State_Monad.return (Err ''database error'')
     | Some (Inl text) \<Rightarrow> State_Monad.return (Err text)
     | Some (Inr audit) \<Rightarrow> do {
         item \<leftarrow> qa_run i;
         State_Monad.return (case item of
             None \<Rightarrow> Err ''database error''
           | Some None \<Rightarrow> Err ''completed Hermes QA run missing''
           | Some (Some v) \<Rightarrow> Ok (v, audit))
       }
   }"

definition complete_hermes_qa_run ::
    "qa_env \<Rightarrow> http_request \<Rightarrow> uuid \<Rightarrow> hermes_completion \<Rightarrow> http_response handler" where
  "complete_hermes_qa_run q req i input = (let c = qe_console q in
     with_guard c req (with_pool c req (do {
       r \<leftarrow> complete_hermes q i input (rid_of c req);
       case r of
         Inr (item, audit) \<Rightarrow> reply_audited 200 (qa_json c) (item, audit)
       | Inl text \<Rightarrow> answer
           (if has_sub ''not found'' text \<or> has_sub ''not a Hermes'' text then not_found c req ''qa_run''
            else if list_ex (\<lambda>w. has_sub w text)
              [''not running'', ''requires'', ''outside'', ''disagrees'', ''duplicate'', ''unreported'']
            then refuse c req 409 ''hermes_completion_rejected''
              ''Hermes completion evidence did not satisfy the armed QA contract.''
            else failure c req ''qa_unavailable'' ''Hermes QA completion could not be stored.'')
     })))"

definition get_secret_scan :: "qa_env \<Rightarrow> http_request \<Rightarrow> http_response handler" where
  "get_secret_scan q req = (let c = qe_console q in
     with_guard c req (with_pool c req
       (loaded (db_read (\<lambda>_. database_secret_matches q))
          (failure c req ''qa_unavailable'' ''Persisted secret evidence could not be scanned.'')
          (\<lambda>n. reply_json 200 (JObject [(''database_matches'', num n), (''schema_version'', JString ''nblb.secret-scan.v1'')])))))"

text \<open>
  The persistence suite of the QA runner and the recovery at start-up (\<open>operations/qa.rs\<close>): the
  state is summarised before the restart and compared after it, by a gateway of another owner.
\<close>

section \<open>The summary of the durable state\<close>

record persistence_snapshot =
  ps_owner_id :: uuid
  ps_key_count :: nat
  ps_key_hash :: str
  ps_client_count :: nat
  ps_client_hash :: str
  ps_receipt_count :: nat
  ps_receipt_keys :: nat
  ps_receipt_hash :: str
  ps_routing_count :: nat
  ps_routing_advanced :: nat
  ps_routing_hash :: str

text \<open>\<open>md5(coalesce(string_agg(.., '|'), ''))\<close>.\<close>

definition bar_joined :: "str list \<Rightarrow> str" where
  "bar_joined xs = (case xs of [] \<Rightarrow> [] | x # rest \<Rightarrow> foldl (\<lambda>acc y. acc @ ''|'' @ y) x rest)"

definition key_texts :: "db \<Rightarrow> str list" where
  "key_texts d =
     map (\<lambda>k. to_hex (kr_ciphertext (kw_key k)) @ '':'' @ to_hex (kr_nonce (kw_key k)))
       (sort_key (\<lambda>k. kr_id (kw_key k)) (active_rows (db_keys d)))"

definition client_texts :: "db \<Rightarrow> str list" where
  "client_texts d =
     map (\<lambda>c. to_hex (dr_token_digest (cw_client c)))
       (sort_key (\<lambda>c. dr_id (cw_client c)) (filter (\<lambda>c. dr_active (cw_client c)) (db_clients d)))"

definition valid_receipts :: "db \<Rightarrow> receipt_row list" where
  "valid_receipts d =
     sort_key (\<lambda>r. (rc_profile r, rc_key r)) (filter (\<lambda>r. rc_invalidated_at r = None) (db_receipts d))"

definition receipt_texts :: "qa_env \<Rightarrow> db \<Rightarrow> str list" where
  "receipt_texts q d =
     map (\<lambda>r. rc_profile r @ '':'' @ show_uuid (rc_key r) @ '':'' @ qe_instant q (rc_verified_at r)) (valid_receipts d)"

definition routing_texts :: "db \<Rightarrow> str list" where
  "routing_texts d =
     map (\<lambda>r. rt_profile r @ '':'' @ show_nat (rt_next_slot r) @ '':'' @ show_nat (rt_generation r))
       (sort_key rt_profile (db_routing d))"

definition persistence_snapshot_of :: "qa_env \<Rightarrow> uuid \<Rightarrow> db \<Rightarrow> persistence_snapshot" where
  "persistence_snapshot_of q owner d =
     \<lparr>ps_owner_id = owner,
      ps_key_count = length (key_texts d), ps_key_hash = qe_md5 q (bar_joined (key_texts d)),
      ps_client_count = length (client_texts d), ps_client_hash = qe_md5 q (bar_joined (client_texts d)),
      ps_receipt_count = length (valid_receipts d), ps_receipt_keys = length (remdups (map rc_key (valid_receipts d))),
      ps_receipt_hash = qe_md5 q (bar_joined (receipt_texts q d)),
      ps_routing_count = length (db_routing d),
      ps_routing_advanced = length (filter (\<lambda>r. 0 < rt_generation r) (db_routing d)),
      ps_routing_hash = qe_md5 q (bar_joined (routing_texts d))\<rparr>"

definition persistence_json :: "persistence_snapshot \<Rightarrow> json" where
  "persistence_json s = JObject
     [(''owner_id'', uuid_json (ps_owner_id s)), (''key_count'', num (ps_key_count s)),
      (''key_hash'', JString (ps_key_hash s)), (''active_client_count'', num (ps_client_count s)),
      (''client_hash'', JString (ps_client_hash s)), (''receipt_count'', num (ps_receipt_count s)),
      (''receipt_key_count'', num (ps_receipt_keys s)), (''receipt_hash'', JString (ps_receipt_hash s)),
      (''routing_count'', num (ps_routing_count s)), (''routing_generation_count'', num (ps_routing_advanced s)),
      (''routing_hash'', JString (ps_routing_hash s))]"

text \<open>The counts are \<open>i64\<close>, of which only what \<open>persistence_json\<close> writes is ever read.\<close>

definition persistence_of :: "console \<Rightarrow> json \<Rightarrow> persistence_snapshot option" where
  "persistence_of c v =
     Option.bind (as_object v) (\<lambda>m.
     Option.bind (required (uuid_of c) ''owner_id'' m) (\<lambda>owner.
     Option.bind (required as_u64 ''key_count'' m) (\<lambda>keys.
     Option.bind (required as_str ''key_hash'' m) (\<lambda>key_hash.
     Option.bind (required as_u64 ''active_client_count'' m) (\<lambda>client_count.
     Option.bind (required as_str ''client_hash'' m) (\<lambda>client_hash.
     Option.bind (required as_u64 ''receipt_count'' m) (\<lambda>receipts.
     Option.bind (required as_u64 ''receipt_key_count'' m) (\<lambda>receipt_keys.
     Option.bind (required as_str ''receipt_hash'' m) (\<lambda>receipt_hash.
     Option.bind (required as_u64 ''routing_count'' m) (\<lambda>routing.
     Option.bind (required as_u64 ''routing_generation_count'' m) (\<lambda>advanced.
     Option.bind (required as_str ''routing_hash'' m) (\<lambda>routing_hash.
       Some \<lparr>ps_owner_id = owner, ps_key_count = keys, ps_key_hash = key_hash, ps_client_count = client_count,
             ps_client_hash = client_hash, ps_receipt_count = receipts, ps_receipt_keys = receipt_keys,
             ps_receipt_hash = receipt_hash, ps_routing_count = routing, ps_routing_advanced = advanced,
             ps_routing_hash = routing_hash\<rparr>))))))))))))"

section \<open>Before the restart\<close>

definition tx_prepare_persistence :: "qa_env \<Rightarrow> uuid \<Rightarrow> uuid \<Rightarrow> (str + unit) tx" where
  "tx_prepare_persistence q owner i t now d =
     (let p = (\<lambda>k. qc_run k = i \<and> qc_name k = ''restart_observed'' \<and> qc_status k = ''pending'');
          arm = (\<lambda>k. k\<lparr>qc_status := ''running'', qc_evidence := persistence_json (persistence_snapshot_of q owner d),
                  qc_started_at := Some now\<rparr>)
      in case run_of i d of
           None \<Rightarrow> None
         | Some r \<Rightarrow>
             if qr_status r \<noteq> ''queued'' then Some (Err ''persistence QA run is not queued'', d)
             else if length (filter (\<lambda>k. qc_run k = i) (db_qa_cases d)) \<noteq> 6
             then Some (Err ''persistence QA run does not contain the complete six-case contract'', d)
             else Option.bind (update_cases p arm d) (\<lambda>d1.
               if length (filter p (db_qa_cases d)) \<noteq> 1
               then Some (Err ''persistence QA restart case could not be armed'', d)
               else map_option (Pair (Ok ())) (update_runs (\<lambda>r. qr_id r = i) (running_run now) d1)))"

section \<open>After the restart\<close>

definition persistence_case :: "persistence_snapshot \<Rightarrow> persistence_snapshot \<Rightarrow> str \<Rightarrow> bool \<times> json" where
  "persistence_case before after name =
     (if name = ''encrypted_keys''
      then (2 \<le> ps_key_count before \<and> ps_key_count before = ps_key_count after \<and> ps_key_hash before = ps_key_hash after,
        JObject [(''before'', num (ps_key_count before)), (''after'', num (ps_key_count after)),
          (''ciphertext_hash_preserved'', JBool (ps_key_hash before = ps_key_hash after))])
      else if name = ''downstream_token''
      then (1 \<le> ps_client_count before \<and> ps_client_count before = ps_client_count after \<and>
            ps_client_hash before = ps_client_hash after,
        JObject [(''before'', num (ps_client_count before)), (''after'', num (ps_client_count after)),
          (''digest_hash_preserved'', JBool (ps_client_hash before = ps_client_hash after))])
      else if name = ''profile_receipts''
      then (2 \<le> ps_receipt_keys before \<and> ps_receipt_count before = ps_receipt_count after \<and>
            ps_receipt_hash before = ps_receipt_hash after,
        JObject [(''before'', num (ps_receipt_count before)), (''after'', num (ps_receipt_count after)),
          (''key_count'', num (ps_receipt_keys after)),
          (''receipt_hash_preserved'', JBool (ps_receipt_hash before = ps_receipt_hash after))])
      else if name = ''routing_cursor''
      then (1 \<le> ps_routing_advanced before \<and> ps_routing_count before = ps_routing_count after \<and>
            ps_routing_hash before = ps_routing_hash after,
        JObject [(''profiles'', num (ps_routing_count after)), (''advanced_profiles'', num (ps_routing_advanced after)),
          (''routing_hash_preserved'', JBool (ps_routing_hash before = ps_routing_hash after))])
      else if name = ''owner_lease''
      then (let passed = ps_owner_id before \<noteq> ps_owner_id after in
        (passed, JObject [(''owner_changed'', JBool passed), (''active_owner'', uuid_json (ps_owner_id after))]))
      else (False, JObject [(''error_code'', JString ''unknown_persistence_case'')]))"

definition judged_case :: "persistence_snapshot \<Rightarrow> persistence_snapshot \<Rightarrow> time \<Rightarrow> qa_case_row \<Rightarrow> qa_case_row" where
  "judged_case before after now k =
     (case persistence_case before after (qc_name k) of
        (passed, evidence) \<Rightarrow> (settled_case passed evidence now k)\<lparr>qc_started_at := Some now\<rparr>)"

fun judge_pending ::
    "persistence_snapshot \<Rightarrow> persistence_snapshot \<Rightarrow> time \<Rightarrow> qa_case_row list \<Rightarrow> db \<Rightarrow> db option" where
  "judge_pending before after now [] d = Some d"
| "judge_pending before after now (k # ks) d =
     Option.bind (update_cases (\<lambda>x. qc_id x = qc_id k \<and> qc_status x = ''pending'') (judged_case before after now) d)
       (judge_pending before after now ks)"

definition restart_json :: "persistence_snapshot \<Rightarrow> persistence_snapshot \<Rightarrow> json" where
  "restart_json before after = JObject
     [(''owner_changed'', JBool (ps_owner_id before \<noteq> ps_owner_id after)),
      (''before_owner'', uuid_json (ps_owner_id before)), (''after_owner'', uuid_json (ps_owner_id after))]"

definition tx_resume_persistence :: "qa_env \<Rightarrow> uuid \<Rightarrow> uuid \<Rightarrow> (str + unit) tx" where
  "tx_resume_persistence q owner i t now d =
     (let waiting = (\<lambda>k. qc_run k = i \<and> qc_name k = ''restart_observed'' \<and> qc_status k = ''running'') in
      case run_of i d of
        None \<Rightarrow> None
      | Some r \<Rightarrow>
          if qr_status r \<noteq> ''running'' then Some (Err ''persistence QA run is not running'', d)
          else (case List.find waiting (db_qa_cases d) of
            None \<Rightarrow> None
          | Some k \<Rightarrow>
              (case persistence_of (qe_console q) (qc_evidence k) of
                 None \<Rightarrow> Some (Err ''decode persistence QA baseline'', d)
               | Some before \<Rightarrow>
                   if ps_owner_id before = owner
                   then Some (Err ''persistence QA has not observed a different gateway owner'', d)
                   else (let after = persistence_snapshot_of q owner d;
                             owner_changed = ps_owner_id before \<noteq> ps_owner_id after
                     in Option.bind (update_cases waiting (settled_case owner_changed (restart_json before after) now) d) (\<lambda>d1.
                        let pending = sort_key qc_id (filter (\<lambda>k. qc_run k = i \<and> qc_status k = ''pending'') (db_qa_cases d1));
                            failed = (\<not> owner_changed \<or> list_ex (\<lambda>k. \<not> fst (persistence_case before after (qc_name k))) pending)
                        in Option.bind (judge_pending before after now pending d1) (\<lambda>d2.
                           map_option (Pair (Ok ()))
                             (update_runs (\<lambda>r. qr_id r = i \<and> qr_status r = ''running'')
                                (settled_run (\<not> failed) now) d2)))))))"

section \<open>Recovery at start-up\<close>

definition fail_running_run :: "uuid \<Rightarrow> str \<Rightarrow> bool program" where
  "fail_running_run i error_code = do {
     r \<leftarrow> database_call (tx_fail_running_run i error_code);
     State_Monad.return (r \<noteq> None)
   }"

text \<open>\<open>.await?\<close> of a transaction that may refuse: whether it went through.\<close>

definition went_through :: "(str + unit) option \<Rightarrow> bool" where
  "went_through r \<longleftrightarrow> r = Some (Ok ())"

definition resume_persistence :: "qa_env \<Rightarrow> uuid \<Rightarrow> bool program" where
  "resume_persistence q i = do {
     owner \<leftarrow> observe w_owner;
     case owner of
       None \<Rightarrow> State_Monad.return False
     | Some owner \<Rightarrow> do {
         r \<leftarrow> database_call (tx_resume_persistence q owner i);
         State_Monad.return (went_through r)
       }
   }"

fun resume_runs :: "qa_env \<Rightarrow> uuid list \<Rightarrow> bool program" where
  "resume_runs q [] = State_Monad.return True"
| "resume_runs q (i # rest) = do {
     resumed \<leftarrow> resume_persistence q i;
     closed \<leftarrow> (if resumed then State_Monad.return True else fail_running_run i ''persistence_resume_failed'');
     if closed then resume_runs q rest else State_Monad.return False
   }"

definition waiting_runs :: "db \<Rightarrow> uuid list" where
  "waiting_runs d =
     map qr_id (sort_key qr_created_at
       (filter (\<lambda>r. qr_status r = ''running'' \<and> qr_suite r = ''persistence'') (db_qa_runs d)))"

definition recover_interrupted_runs :: "qa_env \<Rightarrow> bool program" where
  "recover_interrupted_runs q = do {
     d \<leftarrow> observe w_db;
     case d of
       None \<Rightarrow> State_Monad.return True
     | Some _ \<Rightarrow> do {
         closed \<leftarrow> database_call tx_close_interrupted_runs;
         if closed = None then State_Monad.return False
         else do {
           runs \<leftarrow> db_read (\<lambda>_. waiting_runs);
           case runs of None \<Rightarrow> State_Monad.return False | Some ids \<Rightarrow> resume_runs q ids
         }
       }
   }"

end
