(* ===== verification/Qa_Runner.thy ===== *)
theory Qa_Runner
  imports Qa_Runs
begin

text \<open>
  The traffic of a QA run (\<open>operations/qa.rs\<close>): the requests of a suite through the gateway's own
  port, with a client of its own. They are calls of the environment; what the gateway does to serve
  them is theirs.
\<close>

section \<open>Failures\<close>

definition bounded_reason :: "str \<Rightarrow> str" where
  "bounded_reason text = (case utf8_segments text of None \<Rightarrow> [] | Some gs \<Rightarrow> concat (map snd (take 160 gs)))"

definition store_reason :: "qa_env \<Rightarrow> store_error \<Rightarrow> str" where
  "store_reason q e =
     (case e of Operation v \<Rightarrow> vault_error_text v | Not_exported v \<Rightarrow> vault_error_text v
      | Not_synced \<Rightarrow> qe_sql_text q | _ \<Rightarrow> store_error_text e)"

text \<open>Programs that fail with a text (\<open>?\<close> on \<open>anyhow::Result\<close>).\<close>

type_synonym 'a attempted = "(str + 'a) program"

definition go :: "'a attempted \<Rightarrow> ('a \<Rightarrow> 'b attempted) \<Rightarrow> 'b attempted" where
  "go m f = do { r \<leftarrow> m; case r of Inl e \<Rightarrow> State_Monad.return (Err e) | Inr x \<Rightarrow> f x }"

definition finish :: "'a \<Rightarrow> 'a attempted" where
  "finish x = State_Monad.return (Ok x)"

definition give_up :: "str \<Rightarrow> 'a attempted" where
  "give_up text = State_Monad.return (Err text)"

definition sql :: "qa_env \<Rightarrow> 'a option program \<Rightarrow> 'a attempted" where
  "sql q m = do { r \<leftarrow> m; State_Monad.return (ok_or (qe_sql_text q) r) }"

text \<open>A transaction that may refuse, and one row fetched that must be there.\<close>

definition refusing :: "qa_env \<Rightarrow> (str + 'a) tx \<Rightarrow> 'a attempted" where
  "refusing q m = do {
     r \<leftarrow> database_call m;
     State_Monad.return (case r of None \<Rightarrow> Err (qe_sql_text q) | Some x \<Rightarrow> x)
   }"

definition one_row :: "qa_env \<Rightarrow> (db \<Rightarrow> 'a option) \<Rightarrow> 'a attempted" where
  "one_row q f = do {
     r \<leftarrow> db_read (\<lambda>_. f);
     State_Monad.return (case r of Some (Some x) \<Rightarrow> Ok x | _ \<Rightarrow> Err (qe_sql_text q))
   }"

section \<open>Requests of the runner\<close>

definition LOCAL_QA_BASE_URL :: str where "LOCAL_QA_BASE_URL = ''http://127.0.0.1:2456''"
definition PUBLIC_QA_BASE_URL :: str where "PUBLIC_QA_BASE_URL = ''https://nvidia-lb.dongwontuna.net''"
definition QA_RESPONSE_LIMIT :: nat where "QA_RESPONSE_LIMIT = 134217728"

text \<open>The Host is the public port's, whatever the listener's.\<close>

definition local_qa_request :: "qa_env \<Rightarrow> str \<Rightarrow> str \<Rightarrow> str option \<Rightarrow> sent_body \<Rightarrow> qa_call" where
  "local_qa_request q verb path token body =
     \<lparr>ql_verb = verb, ql_url = LOCAL_QA_BASE_URL @ path,
      ql_host = ''127.0.0.1:'' @ show_nat (co_public_port (qe_console q)), ql_token = token, ql_body = body\<rparr>"

definition public_qa_request :: "str \<Rightarrow> qa_call" where
  "public_qa_request path =
     \<lparr>ql_verb = ''GET'', ql_url = PUBLIC_QA_BASE_URL @ path, ql_host = ''nvidia-lb.dongwontuna.net'',
      ql_token = None, ql_body = sent_body.No_body\<rparr>"

fun qa_body :: "qa_env \<Rightarrow> str \<Rightarrow> bytes \<Rightarrow> body_item list \<Rightarrow> str + bytes" where
  "qa_body q endpoint acc [] = Ok acc"
| "qa_body q endpoint acc (i # rest) =
     (case chunk_of i of
        Inl _ \<Rightarrow> Err (qe_body_text q)
      | Inr chunk \<Rightarrow>
          if QA_RESPONSE_LIMIT < length acc + length chunk then Err (endpoint @ '' QA response exceeded the size limit'')
          else qa_body q endpoint (acc @ chunk) rest)"

definition require_success :: "qa_env \<Rightarrow> str \<Rightarrow> provider_response \<Rightarrow> str + bytes" where
  "require_success q endpoint p =
     (if is_some_and (\<lambda>n. QA_RESPONSE_LIMIT < n) (ps_length p)
      then Err (endpoint @ '' QA response exceeded the size limit'')
      else bind_ok (qa_body q endpoint [] (ps_body p)) (\<lambda>body.
        if \<not> is_success (ps_status p) then Err (endpoint @ '' QA request returned HTTP '' @ show_nat (ps_status p))
        else if body = [] then Err (endpoint @ '' QA response was empty'')
        else Ok body))"

definition send_json :: "qa_env \<Rightarrow> str \<Rightarrow> str \<Rightarrow> json \<Rightarrow> bytes attempted" where
  "send_json q token path body =
     go (qe_call q (local_qa_request q ''POST'' path (Some token) (Json_body body))) (\<lambda>p.
       State_Monad.return (require_success q ''JSON endpoint'' p))"

section \<open>The HTTP contract\<close>

record http_contract =
  hk_local_live :: nat
  hk_local_ready :: nat
  hk_public_root :: "nat option"
  hk_public_live :: "nat option"
  hk_unauthorized :: nat
  hk_authorized :: nat
  hk_request_id :: "uuid option"
  hk_models :: nat
  hk_public_required :: bool

definition get_status :: "qa_env \<Rightarrow> qa_call \<Rightarrow> nat attempted" where
  "get_status q call = go (qe_call q call) (\<lambda>p. finish (ps_status p))"

definition models_counted :: "qa_env \<Rightarrow> provider_response \<Rightarrow> str + nat" where
  "models_counted q p =
     (if \<not> is_success (ps_status p) then Ok 0
      else (case collect_results (map chunk_of (ps_body p)) of
              Inl _ \<Rightarrow> Err (qe_body_text q)
            | Inr chunks \<Rightarrow>
                (case gw_parse (co_gateway (qe_console q)) (concat chunks) of
                   None \<Rightarrow> Err (qe_body_text q)
                 | Some v \<Rightarrow> Ok (case Option.bind (get_field ''data'' v) as_array of None \<Rightarrow> 0 | Some xs \<Rightarrow> length xs))))"

definition probe_http_contract :: "qa_env \<Rightarrow> str \<Rightarrow> bool \<Rightarrow> http_contract attempted" where
  "probe_http_contract q token live =
     (let local_get = (\<lambda>path token. local_qa_request q ''GET'' path token sent_body.No_body) in
      go (get_status q (local_get ''/health/live'' None)) (\<lambda>local_live.
      go (get_status q (local_get ''/health/ready'' None)) (\<lambda>local_ready.
      go (if live
          then go (get_status q (public_qa_request ''/'')) (\<lambda>a.
               go (get_status q (public_qa_request ''/health/live'')) (\<lambda>b. finish (Some a, Some b)))
          else finish (None, None)) (\<lambda>(public_root, public_live).
      go (get_status q (local_get ''/v1/models'' None)) (\<lambda>unauthorized.
      go (qe_call q (local_get ''/v1/models'' (Some token))) (\<lambda>p.
      go (State_Monad.return (models_counted q p)) (\<lambda>count.
        finish \<lparr>hk_local_live = local_live, hk_local_ready = local_ready, hk_public_root = public_root,
                hk_public_live = public_live, hk_unauthorized = unauthorized, hk_authorized = ps_status p,
                hk_request_id = Option.bind (provider_header ''x-request-id'' p) (co_parse_uuid (qe_console q)),
                hk_models = count, hk_public_required = live\<rparr>)))))))"

section \<open>The suites' traffic\<close>

definition qa_chat :: "str \<Rightarrow> (str \<times> json) list \<Rightarrow> nat \<Rightarrow> json \<Rightarrow> json" where
  "qa_chat model extra limit content =
     JObject ([(''model'', JString model),
       (''messages'', JArray [JObject [(''role'', JString ''user''), (''content'', content)]]),
       (''max_tokens'', num limit)] @ extra)"

definition glm_chat :: "str option \<Rightarrow> bool \<Rightarrow> json" where
  "glm_chat scenario stream =
     qa_chat ''z-ai/glm-5.2''
       ((case scenario of None \<Rightarrow> [] | Some s \<Rightarrow> [(''metadata'', JObject [(''mock_stream_scenario'', JString s)])]) @
        [(''stream'', JBool stream)]) 2 (JString ''QA'')"

definition described :: "str \<Rightarrow> str \<Rightarrow> str \<Rightarrow> json" where
  "described words kind url = JArray
     [JObject [(''type'', JString ''text''), (''text'', JString words)],
      JObject [(''type'', JString kind), (kind, JObject [(''url'', JString url)])]]"

definition multimodal_requests :: "qa_env \<Rightarrow> (str \<times> json) list" where
  "multimodal_requests q =
     (let phi = ''microsoft/phi-4-multimodal-instruct''; flux = ''black-forest-labs/flux.1-kontext-dev'';
          picture = [(''n'', num 1), (''size'', JString ''1024x1024''), (''response_format'', JString ''b64_json'')]
      in [(''/v1/chat/completions'', qa_chat phi [] 2 (JString ''Reply QA'')),
          (''/v1/chat/completions'', qa_chat phi [] 2 (described ''Describe'' ''image_url'' TINY_PNG)),
          (''/v1/nvidia/inference'', qa_chat ''nvidia/vila'' [] 2 (JString ''Reply QA'')),
          (''/v1/nvidia/inference'', qa_chat ''nvidia/vila'' [] 2 (described ''Describe'' ''image_url'' TINY_PNG)),
          (''/v1/nvidia/inference'', qa_chat ''nvidia/vila'' [] 2 (described ''Describe'' ''video_url'' (qe_mp4_url q))),
          (''/v1/embeddings'', JObject [(''model'', JString ''nvidia/nvclip''), (''input'', strs [''QA'']),
             (''encoding_format'', JString ''float'')]),
          (''/v1/embeddings'', JObject [(''model'', JString ''nvidia/nvclip''), (''input'', strs [TINY_PNG]),
             (''encoding_format'', JString ''float'')]),
          (''/v1/images/generations'', JObject ([(''model'', JString flux), (''prompt'', JString ''green square'')] @ picture)),
          (''/v1/images/generations'', JObject ([(''model'', JString flux), (''prompt'', JString ''make it greener''),
             (''image'', JString TINY_PNG)] @ picture)),
          (''/v1/videos/generations'', JObject [(''model'', JString ''stabilityai/stable-video-diffusion''),
             (''input_reference'', JString TINY_PNG)]),
          (''/v1/audio/speech'', JObject [(''model'', JString ''nvidia/magpie-tts-multilingual''), (''input'', JString ''QA''),
             (''voice'', JString ''Magpie-Multilingual.EN-US.Aria''), (''response_format'', JString ''wav'')])])"

fun send_all :: "qa_env \<Rightarrow> str \<Rightarrow> (str \<times> json) list \<Rightarrow> unit attempted" where
  "send_all q token [] = finish ()"
| "send_all q token ((path, body) # rest) = go (send_json q token path body) (\<lambda>_. send_all q token rest)"

definition validate_transcription_qa_response :: "qa_env \<Rightarrow> bytes \<Rightarrow> str + unit" where
  "validate_transcription_qa_response q body =
     (if transcription_probe_matches (qe_console q) body then Ok ()
      else Err ''transcription QA response did not contain the expected spoken token'')"

definition first_message :: "json \<Rightarrow> str option" where
  "first_message v =
     Option.bind (get_field ''choices'' v) (\<lambda>choices.
     Option.bind (case choices of JArray (c # _) \<Rightarrow> Some c | _ \<Rightarrow> None) (\<lambda>c.
     Option.bind (get_field ''message'' c) (get_str ''content'')))"

definition validate_audio_chat_qa_response :: "qa_env \<Rightarrow> bytes \<Rightarrow> str + unit" where
  "validate_audio_chat_qa_response q body =
     (if is_some_and (transcription_text_matches (qe_console q))
           (Option.bind (gw_parse (co_gateway (qe_console q)) body) first_message)
      then Ok () else Err ''audio chat QA response did not contain the expected spoken token'')"

definition send_multimodal :: "qa_env \<Rightarrow> str \<Rightarrow> unit attempted" where
  "send_multimodal q token =
     (case co_probe_wav (qe_console q) of
        None \<Rightarrow> give_up (qe_body_text q)
      | Some wav \<Rightarrow>
          go (send_all q token (multimodal_requests q)) (\<lambda>_.
          go (send_json q token ''/v1/chat/completions''
                (qa_chat ''microsoft/phi-4-multimodal-instruct'' [] 8
                  (described ''Transcribe the audio and reply with the spoken word.'' ''audio_url''
                    (''data:audio/wav;base64,'' @ qe_b64 q wav)))) (\<lambda>body.
          go (State_Monad.return (validate_audio_chat_qa_response q body)) (\<lambda>_.
          go (qe_call q (local_qa_request q ''POST'' ''/v1/audio/transcriptions'' (Some token)
                (Form_body [(''model'', ''nvidia/parakeet-ctc-1.1b''), (''file'', wav)]))) (\<lambda>p.
          go (State_Monad.return (require_success q ''transcription'' p)) (\<lambda>body.
            State_Monad.return (validate_transcription_qa_response q body)))))))"

definition send_suite_requests :: "qa_env \<Rightarrow> str \<Rightarrow> str \<Rightarrow> unit attempted" where
  "send_suite_requests q suite token =
     (let chat = ''/v1/chat/completions'' in
      if suite = ''smoke''
      then send_all q token [(chat, glm_chat None False), (chat, glm_chat (Some ''fragmented_sse'') True)]
      else if suite = ''distribution'' then send_all q token (replicate 6 (chat, glm_chat None False))
      else if suite = ''failover''
      then go (send_json q token chat (glm_chat (Some ''disconnect_before_first_frame'') True)) (\<lambda>_.
           go (send_json q token chat (glm_chat (Some ''disconnect_after_first_frame'') True)) (\<lambda>body.
             if \<not> has_sub ''event: error'' body
             then give_up ''post-first-frame fixture did not emit a terminal SSE error'' else finish ()))
      else if suite = ''multimodal'' then send_multimodal q token
      else give_up ''unsupported traffic QA suite'')"

section \<open>Traffic with a client of its own\<close>

record traffic_evidence =
  te_contract :: "http_contract option"
  te_before :: "nat option"
  te_after :: "nat option"

definition qa_label :: "uuid \<Rightarrow> str" where
  "qa_label run = ''qa-run-'' @ show_uuid run"

definition QA_SCOPES :: "str list" where
  "QA_SCOPES = [''models:read'', ''chat:write'', ''embeddings:write'', ''images:write'', ''media:write'', ''audio:write'']"

definition qa_client_audit :: "str \<Rightarrow> uuid \<Rightarrow> uuid \<Rightarrow> audit_mutation" where
  "qa_client_audit action client run = plain_audit action ''client'' (Some client) run (JObject [(''ephemeral'', JBool True)])"

definition issue_qa_client :: "qa_env \<Rightarrow> uuid \<Rightarrow> issued_downstream attempted" where
  "issue_qa_client q run = (let g = co_gateway (qe_console q) in do {
     r \<leftarrow> mutate_with_audit g (\<lambda>e. issue_downstream (gw_crypto g) e (qa_label run) QA_SCOPES)
       (\<lambda>made. qa_client_audit ''qa.client.create'' (ds_id (iss_summary made)) run);
     State_Monad.return (case r of Inl e \<Rightarrow> Err (store_reason q e) | Inr (made, _) \<Rightarrow> Ok made)
   })"

definition revoke_qa_client :: "qa_env \<Rightarrow> uuid \<Rightarrow> uuid \<Rightarrow> unit attempted" where
  "revoke_qa_client q client run = do {
     r \<leftarrow> mutate_with_audit (co_gateway (qe_console q)) (\<lambda>e. revoke_downstream e client)
       (\<lambda>_. qa_client_audit ''qa.client.revoke'' client run);
     State_Monad.return (case r of Inl e \<Rightarrow> Err (store_reason q e) | Inr _ \<Rightarrow> Ok ())
   }"

definition tx_arm_fixture :: "uuid \<Rightarrow> str \<Rightarrow> uuid \<Rightarrow> unit tx" where
  "tx_arm_fixture run kind client t now d =
     (if list_ex (\<lambda>f. fx_run f = run \<and> fx_kind f = kind) (db_fixtures d) \<or> run_of run d = None \<or>
         \<not> list_ex (\<lambda>c. dr_id (cw_client c) = client) (db_clients d) then None
      else Some ((), d\<lparr>db_fixtures := db_fixtures d @
        [\<lparr>fx_kind = kind, fx_client = client, fx_run = run, fx_consumed_at = None, fx_request = None, fx_key = None\<rparr>]\<rparr>))"

definition arm_fixtures :: "qa_env \<Rightarrow> uuid \<Rightarrow> uuid \<Rightarrow> unit attempted" where
  "arm_fixtures q run client =
     go (one_row q (\<lambda>d. map_option qr_live (run_of run d))) (\<lambda>live.
       if live \<and> \<not> starts_with ''mock://'' (gw_upstream_url (co_gateway (qe_console q)))
       then go (sql q (database_call (tx_arm_fixture run ''before_first_frame'' client))) (\<lambda>_.
            sql q (database_call (tx_arm_fixture run ''after_first_frame'' client)))
       else finish ())"

definition glm_generation :: "db \<Rightarrow> nat option" where
  "glm_generation d =
     map_option rt_generation (List.find (\<lambda>r. rt_profile r = ''z-ai/glm-5.2'') (db_routing d))"

definition tx_prepare_cursor :: "nat tx" where
  "tx_prepare_cursor t now d =
     map_option (\<lambda>n. (n, d\<lparr>db_routing := update_where (\<lambda>r. rt_profile r = ''z-ai/glm-5.2'')
       (\<lambda>r. r\<lparr>rt_next_slot := 1\<rparr>) (db_routing d)\<rparr>)) (glm_generation d)"

definition combine_traffic_cleanup :: "str + 'a \<Rightarrow> str + unit \<Rightarrow> str + 'a" where
  "combine_traffic_cleanup traffic cleanup =
     (case (traffic, cleanup) of
        (Inr x, Inr _) \<Rightarrow> Ok x
      | (Inl e, Inr _) \<Rightarrow> Err e
      | (Inr _, Inl e) \<Rightarrow> Err e
      | (Inl e, Inl k) \<Rightarrow> Err (''QA traffic and client cleanup both failed: traffic='' @ bounded_reason e @
          ''; cleanup='' @ bounded_reason k))"

text \<open>
  What fails before the traffic leaves the client as it is (\<open>?\<close>); after the traffic it is revoked,
  except where the final generation cannot be read.
\<close>

definition exercise_traffic :: "qa_env \<Rightarrow> uuid \<Rightarrow> str \<Rightarrow> bool \<Rightarrow> traffic_evidence attempted" where
  "exercise_traffic q run suite live =
     go (issue_qa_client q run) (\<lambda>made. (let token = iss_token made; client = ds_id (iss_summary made) in
     go (if suite = ''failover'' then arm_fixtures q run client else finish ()) (\<lambda>_.
     go (if suite = ''smoke'' then go (probe_http_contract q token live) (\<lambda>h. finish (Some h)) else finish None) (\<lambda>contract.
     go (if suite = ''distribution''
         then go (sql q (database_call tx_prepare_cursor)) (\<lambda>n. finish (Some n)) else finish None) (\<lambda>before. do {
       traffic \<leftarrow> send_suite_requests q suite token;
       go (if is_ok traffic \<and> suite = ''distribution''
           then go (one_row q glm_generation) (\<lambda>n. finish (Some n)) else finish None) (\<lambda>after. do {
         cleanup \<leftarrow> revoke_qa_client q client run;
         State_Monad.return (combine_traffic_cleanup
           (bind_ok traffic (\<lambda>_. Ok \<lparr>te_contract = contract, te_before = before, te_after = after\<rparr>)) cleanup)
       })
     })))))"

text \<open>
  The execution of a QA run (\<open>operations/qa.rs\<close>): armed for a helper or a restart, or its traffic
  sent and every case judged on what the tables say of that traffic. A timer is what closes an armed
  run that nobody completes: the time it sleeps and its error code.
\<close>

section \<open>What the tables say\<close>

definition int_json :: "int \<Rightarrow> json" where
  "int_json i = JNumber (if 0 \<le> i then NatNum (nat i) else NegNum i)"

definition client_labelled :: "(str \<Rightarrow> bool) \<Rightarrow> db \<Rightarrow> request_row \<Rightarrow> bool" where
  "client_labelled p d r \<longleftrightarrow>
     list_ex (\<lambda>c. pr_client r = Some (dr_id (cw_client c)) \<and> p (dr_label (cw_client c))) (db_clients d)"

text \<open>The requests the client of this run made since it started.\<close>

definition run_requests :: "uuid \<Rightarrow> time \<Rightarrow> db \<Rightarrow> request_row list" where
  "run_requests run started d =
     filter (\<lambda>r. started \<le> pr_started_at r \<and> client_labelled (\<lambda>l. l = qa_label run) d r) (db_requests d)"

definition attempts_of :: "db \<Rightarrow> request_row \<Rightarrow> attempt_row list" where
  "attempts_of d r = filter (\<lambda>a. ra_parent a = Some (pr_request_id r)) (db_attempts d)"

definition succeeded_requests :: "uuid \<Rightarrow> time \<Rightarrow> (request_row \<Rightarrow> bool) \<Rightarrow> db \<Rightarrow> nat" where
  "succeeded_requests run started p d =
     length (filter (\<lambda>r. pr_outcome r = ''succeeded'' \<and> p r) (run_requests run started d))"

definition successful_request_count :: "time \<Rightarrow> (str \<Rightarrow> bool) \<Rightarrow> db \<Rightarrow> nat" where
  "successful_request_count started p d =
     length (filter (\<lambda>r. started \<le> pr_started_at r \<and> pr_outcome r = ''succeeded'' \<and> client_labelled p d r) (db_requests d))"

definition eligible_count :: "time \<Rightarrow> db \<Rightarrow> nat" where
  "eligible_count now d =
     length (filter (\<lambda>k. kr_enabled (kw_key k) \<and> kr_verified (kw_key k) \<and>
         (case kr_cooldown_until (kw_key k) of None \<Rightarrow> True | Some t \<Rightarrow> t \<le> now) \<and>
         list_ex (\<lambda>r. rc_key r = kr_id (kw_key k) \<and> rc_profile r = ''z-ai/glm-5.2'' \<and> rc_invalidated_at r = None \<and>
           (case db_settings d of None \<Rightarrow> False | Some s \<Rightarrow> now - secs (int (se_freshness s)) \<le> rc_verified_at r))
           (db_receipts d))
       (active_rows (db_keys d)))"

record distribution_row =
  dv_request :: uuid
  dv_slot :: nat
  dv_outcome :: str
  dv_attempts :: nat
  dv_succeeded :: nat

text \<open>\<open>None\<close> where a request has no first attempt: its slot is \<open>NULL\<close>.\<close>

definition distribution_row_of :: "db \<Rightarrow> request_row \<Rightarrow> distribution_row option" where
  "distribution_row_of d r =
     (let keyed = filter (\<lambda>a. list_ex (\<lambda>k. kr_id (kw_key k) = ra_key a) (db_keys d)) (attempts_of d r);
          slots = concat (map (\<lambda>a. if ra_no a = 1 then map kw_slot (filter (\<lambda>k. kr_id (kw_key k) = ra_key a) (db_keys d)) else [])
                    keyed)
      in case slots of
           [] \<Rightarrow> None
         | s # rest \<Rightarrow> Some \<lparr>dv_request = pr_request_id r, dv_slot = foldl min s rest, dv_outcome = pr_outcome r,
             dv_attempts = length keyed, dv_succeeded = length (filter (\<lambda>a. ra_outcome a = ''succeeded'') keyed)\<rparr>)"

definition distribution_rows :: "uuid \<Rightarrow> time \<Rightarrow> db \<Rightarrow> distribution_row list option" where
  "distribution_rows run started d =
     all_some (map (distribution_row_of d)
       (sort_key (\<lambda>r. (pr_started_at r, pr_request_id r))
         (filter (\<lambda>r. pr_profile r = ''z-ai/glm-5.2'' \<and>
             list_ex (\<lambda>a. list_ex (\<lambda>k. kr_id (kw_key k) = ra_key a) (db_keys d)) (attempts_of d r))
           (run_requests run started d))))"

definition failed_over :: "db \<Rightarrow> request_row \<Rightarrow> bool" where
  "failed_over d r \<longleftrightarrow>
     pr_outcome r = ''succeeded'' \<and>
     list_ex (\<lambda>a. ra_no a = 1 \<and> ra_outcome a = ''failed'' \<and> \<not> ra_response_started a) (attempts_of d r) \<and>
     list_ex (\<lambda>a. ra_no a = 2 \<and> ra_outcome a = ''succeeded'') (attempts_of d r)"

definition broke_after_frame :: "attempt_row \<Rightarrow> bool" where
  "broke_after_frame a \<longleftrightarrow>
     ra_response_started a \<and> ra_outcome a = ''failed'' \<and>
     is_some_and (\<lambda>e. e \<in> set [''upstream_stream_error'', ''incomplete_upstream_stream'', ''upstream_protocol_error'',
       ''qa_injected_post_frame_failure'']) (ra_error a)"

text \<open>The pairs of a started attempt and a later one of the same request.\<close>

definition replays :: "db \<Rightarrow> request_row \<Rightarrow> nat" where
  "replays d r =
     sum_list (map (\<lambda>a. length (filter (\<lambda>b. ra_no a < ra_no b) (attempts_of d r)))
       (filter ra_response_started (attempts_of d r)))"

section \<open>Judging a case\<close>

type_synonym verdict = "bool \<times> json"

definition counted :: "nat \<Rightarrow> nat \<Rightarrow> verdict" where
  "counted least n = (least \<le> n, JObject [(''count'', num n), (''required'', num least)])"

definition count_case :: "qa_env \<Rightarrow> (time \<Rightarrow> db \<Rightarrow> nat) \<Rightarrow> nat \<Rightarrow> verdict attempted" where
  "count_case q f least = go (sql q (db_read f)) (\<lambda>n. finish (counted least n))"

definition request_case :: "qa_env \<Rightarrow> uuid \<Rightarrow> time \<Rightarrow> (request_row \<Rightarrow> bool) \<Rightarrow> verdict attempted" where
  "request_case q run started p =
     go (sql q (db_read (\<lambda>_. succeeded_requests run started p)))
       (\<lambda>n. finish (1 \<le> n, JObject [(''successful_requests'', num n)]))"

definition request_profile_count_case :: "qa_env \<Rightarrow> uuid \<Rightarrow> time \<Rightarrow> str \<Rightarrow> nat \<Rightarrow> verdict attempted" where
  "request_profile_count_case q run started profile least =
     go (sql q (db_read (\<lambda>_. succeeded_requests run started (\<lambda>r. pr_profile r = profile))))
       (\<lambda>n. finish (least \<le> n,
         JObject [(''profile_id'', JString profile), (''successful_requests'', num n), (''required'', num least)]))"

definition liveness_case :: "http_contract option \<Rightarrow> verdict" where
  "liveness_case contract =
     (case contract of
        None \<Rightarrow> (False, JObject [(''error_code'', JString ''http_contract_evidence_missing'')])
      | Some h \<Rightarrow>
          (hk_local_live h = 200 \<and>
             (\<not> hk_public_required h \<or> hk_public_root h = Some 200 \<and> hk_public_live h = Some 200),
           JObject [(''local_liveness_status'', num (hk_local_live h)), (''public_required'', JBool (hk_public_required h)),
             (''public_root_status'', opt num (hk_public_root h)), (''public_liveness_status'', opt num (hk_public_live h))]))"

definition models_case :: "http_contract option \<Rightarrow> verdict" where
  "models_case contract =
     (case contract of
        None \<Rightarrow> (False, JObject [(''error_code'', JString ''models_http_evidence_missing'')])
      | Some h \<Rightarrow>
          (hk_unauthorized h = 401 \<and> hk_authorized h = 200 \<and> hk_request_id h \<noteq> None \<and> hk_models h = length PROFILES,
           JObject [(''unauthorized_status'', num (hk_unauthorized h)), (''authorized_status'', num (hk_authorized h)),
             (''request_id'', opt uuid_json (hk_request_id h)), (''model_count'', num (hk_models h)),
             (''required'', num (length PROFILES))]))"

definition slots_case :: "str \<Rightarrow> http_contract option \<Rightarrow> nat \<Rightarrow> verdict" where
  "slots_case name contract n =
     (let required = (if name = ''two_eligible_slots'' then 2 else 1);
          status = map_option hk_local_ready contract
      in (required \<le> n \<and> (name \<noteq> ''readiness'' \<or> status = Some 200),
          JObject [(''eligible_slots'', num n), (''required'', num required), (''local_readiness_status'', opt num status)]))"

definition one_each :: "distribution_row list \<Rightarrow> bool" where
  "one_each rows \<longleftrightarrow>
     list_all (\<lambda>v. dv_outcome v = ''succeeded'' \<and> dv_attempts v = 1 \<and> dv_succeeded v = 1) rows"

definition six_requests_case :: "distribution_row list \<Rightarrow> verdict" where
  "six_requests_case rows =
     (let attempts = sum_list (map dv_attempts rows) in
      (length rows = 6 \<and> attempts = 6 \<and> one_each rows,
       JObject [(''successful_requests'', num (length rows)), (''required'', num 6),
         (''request_ids'', JString (comma_joined (map (\<lambda>v. show_uuid (dv_request v)) rows))),
         (''attempt_count'', num attempts), (''one_attempt_each'', JBool (one_each rows))]))"

definition slot_sequence :: "nat list \<Rightarrow> str" where
  "slot_sequence slots =
     (case map show_nat slots of [] \<Rightarrow> [] | x # rest \<Rightarrow> foldl (\<lambda>acc y. acc @ '','' @ y) x rest)"

definition skew_case :: "traffic_evidence option \<Rightarrow> distribution_row list \<Rightarrow> verdict" where
  "skew_case traffic rows =
     (let slots = map dv_slot rows;
          before = Option.bind traffic te_before; after = Option.bind traffic te_after;
          delta = (case (before, after) of (Some a, Some b) \<Rightarrow> Some (int b - int a) | _ \<Rightarrow> None);
          single = list_all (\<lambda>v. dv_attempts v = 1) rows
      in (slots = [1, 2, 1, 2, 1, 2] \<and> single \<and> delta = Some 6,
          JObject [(''slot_sequence'', JString (slot_sequence slots)), (''expected_sequence'', JString ''1,2,1,2,1,2''),
            (''slot_1'', num (length (filter (\<lambda>s. s = 1) slots))), (''slot_2'', num (length (filter (\<lambda>s. s = 2) slots))),
            (''one_attempt_each'', JBool single), (''generation_before'', opt num before),
            (''generation_after'', opt num after), (''generation_delta'', opt int_json delta),
            (''required_generation_delta'', num 6)]))"

definition privacy_case :: "qa_env \<Rightarrow> verdict attempted" where
  "privacy_case q =
     go (sql q (db_read (\<lambda>_ _. qe_forbidden_columns q))) (\<lambda>forbidden.
     go (sql q (db_read (\<lambda>_. database_secret_matches q))) (\<lambda>raw.
       finish (forbidden = 0 \<and> raw = 0,
         JObject [(''forbidden_columns'', num forbidden), (''database_raw_secret_matches'', num raw)])))"

definition distribution_case ::
    "qa_env \<Rightarrow> uuid \<Rightarrow> time \<Rightarrow> (distribution_row list \<Rightarrow> verdict) \<Rightarrow> verdict attempted" where
  "distribution_case q run started judge = go (one_row q (distribution_rows run started)) (\<lambda>rows. finish (judge rows))"

definition before_frame_case :: "qa_env \<Rightarrow> uuid \<Rightarrow> time \<Rightarrow> verdict attempted" where
  "before_frame_case q run started =
     go (sql q (db_read (\<lambda>_ d. length (filter (failed_over d) (run_requests run started d)))))
       (\<lambda>n. finish (1 \<le> n, JObject [(''successful_failovers'', num n)]))"

definition after_frame_case :: "qa_env \<Rightarrow> uuid \<Rightarrow> time \<Rightarrow> verdict attempted" where
  "after_frame_case q run started =
     go (sql q (db_read (\<lambda>_ d. sum_list (map (\<lambda>r. length (filter broke_after_frame (attempts_of d r)))
           (run_requests run started d))))) (\<lambda>broken.
     go (sql q (db_read (\<lambda>_ d. sum_list (map (replays d) (run_requests run started d))))) (\<lambda>replayed.
       finish (1 \<le> broken \<and> replayed = 0,
         JObject [(''post_first_frame_failures'', num broken), (''replayed_after_first_frame'', num replayed)])))"

definition terminal_case :: "qa_env \<Rightarrow> uuid \<Rightarrow> time \<Rightarrow> verdict attempted" where
  "terminal_case q run started =
     go (sql q (db_read (\<lambda>_ d. length (filter (\<lambda>r. pr_finished_at r = None) (run_requests run started d)))))
       (\<lambda>n. finish (n = 0, JObject [(''preexisting_open_requests'', num n)]))"

definition speech_case :: "qa_env \<Rightarrow> uuid \<Rightarrow> time \<Rightarrow> verdict attempted" where
  "speech_case q run started =
     (let counted = (\<lambda>profile. sql q (db_read (\<lambda>_. succeeded_requests run started (\<lambda>r. pr_profile r = profile)))) in
      go (counted ''nvidia/magpie-tts-multilingual'') (\<lambda>speech.
      go (counted ''nvidia/parakeet-ctc-1.1b'') (\<lambda>transcription.
        finish (1 \<le> speech \<and> 1 \<le> transcription,
          JObject [(''speech'', num speech), (''transcription'', num transcription), (''required_each'', num 1)]))))"

definition helper_case :: "qa_env \<Rightarrow> time \<Rightarrow> str \<Rightarrow> verdict attempted" where
  "helper_case q started name =
     (let required = (if name = ''tool_task'' then 2 else 1) in
      go (sql q (db_read (\<lambda>_. successful_request_count started (starts_with ''hermes-cutover-'')))) (\<lambda>n.
        finish (required \<le> n, JObject [(''correlated_requests'', num n), (''required'', num required)])))"

text \<open>The cases of the suites; the ones of persistence and Hermes are never executed by the runner.\<close>

definition sealed_keys :: "db \<Rightarrow> nat" where
  "sealed_keys d =
     length (filter (\<lambda>k. kr_ciphertext (kw_key k) \<noteq> [] \<and> length (kr_nonce (kw_key k)) = 12) (active_rows (db_keys d)))"

definition digested_tokens :: "db \<Rightarrow> nat" where
  "digested_tokens d =
     length (filter (\<lambda>c. dr_active (cw_client c) \<and> length (dr_token_digest (cw_client c)) = 32) (db_clients d))"

definition alive_instances :: "time \<Rightarrow> db \<Rightarrow> nat" where
  "alive_instances now d = length (filter (\<lambda>r. now - secs 30 \<le> in_last_seen r) (db_instances d))"

definition state_case :: "qa_env \<Rightarrow> str \<Rightarrow> verdict attempted option" where
  "state_case q name =
     (if name = ''encrypted_keys'' then Some (count_case q (\<lambda>_. sealed_keys) 2)
      else if name = ''downstream_token'' then Some (count_case q (\<lambda>_. digested_tokens) 1)
      else if name = ''profile_receipts''
      then Some (count_case q (\<lambda>_ d. length (remdups (map rc_key (valid_receipts d)))) 2)
      else if name = ''routing_cursor''
      then Some (count_case q (\<lambda>_ d. length (filter (\<lambda>r. 0 < rt_generation r) (db_routing d))) 1)
      else if name = ''owner_lease'' then Some (count_case q alive_instances 1)
      else None)"

definition profile_case :: "qa_env \<Rightarrow> uuid \<Rightarrow> time \<Rightarrow> str \<Rightarrow> verdict attempted option" where
  "profile_case q run started name =
     (let counted = request_profile_count_case q run started in
      if name = ''phi_text_image_audio'' then Some (counted ''microsoft/phi-4-multimodal-instruct'' 3)
      else if name = ''vila_text_image_video'' then Some (counted ''nvidia/vila'' 3)
      else if name = ''nvclip_text_image'' then Some (counted ''nvidia/nvclip'' 2)
      else if name = ''flux_text_image'' then Some (counted ''black-forest-labs/flux.1-kontext-dev'' 2)
      else if name = ''video_generation'' then Some (counted ''stabilityai/stable-video-diffusion'' 1)
      else if name = ''speech_and_transcription'' then Some (speech_case q run started)
      else None)"

definition judge_case :: "qa_env \<Rightarrow> uuid \<Rightarrow> time \<Rightarrow> str \<Rightarrow> traffic_evidence option \<Rightarrow> verdict attempted" where
  "judge_case q run started name traffic =
     (let contract = Option.bind traffic te_contract;
          chat = (\<lambda>s. request_case q run started (\<lambda>r. pr_profile r = ''z-ai/glm-5.2'' \<and> pr_stream r = s)) in
      if name = ''liveness'' then finish (liveness_case contract)
      else if name = ''readiness'' \<or> name = ''two_eligible_slots''
      then go (sql q (db_read eligible_count)) (\<lambda>n. finish (slots_case name contract n))
      else if name = ''models'' then finish (models_case contract)
      else if name = ''chat_non_stream'' then chat False
      else if name = ''chat_stream'' then chat True
      else if name = ''privacy'' \<or> name = ''secret_scan'' then privacy_case q
      else if name = ''six_requests'' then distribution_case q run started six_requests_case
      else if name = ''skew_at_most_one'' then distribution_case q run started (skew_case traffic)
      else if name = ''before_first_frame'' then before_frame_case q run started
      else if name = ''after_first_frame_no_replay'' then after_frame_case q run started
      else if name = ''terminal_evidence'' then terminal_case q run started
      else if name \<in> set [''doctor'', ''exact_marker'', ''tool_task'', ''request_correlation'']
      then helper_case q started name
      else (case (state_case q name, profile_case q run started name) of
              (Some m, _) \<Rightarrow> m
            | (None, Some m) \<Rightarrow> m
            | (None, None) \<Rightarrow>
                finish (False, JObject [(''error_code'', JString ''unknown_qa_case''), (''case'', JString name)])))"

definition evaluate_case :: "qa_env \<Rightarrow> uuid \<Rightarrow> str \<Rightarrow> traffic_evidence option \<Rightarrow> verdict attempted" where
  "evaluate_case q run name traffic =
     go (one_row q (\<lambda>d. Option.bind (run_of run d) qr_started_at)) (\<lambda>started. judge_case q run started name traffic)"

section \<open>Execution\<close>

definition tx_start_case :: "uuid \<Rightarrow> unit tx" where
  "tx_start_case i t now d =
     map_option (Pair ()) (update_cases (\<lambda>k. qc_id k = i)
       (\<lambda>k. k\<lparr>qc_status := ''running'', qc_started_at := Some now\<rparr>) d)"

definition tx_finish_case :: "uuid \<Rightarrow> bool \<Rightarrow> json \<Rightarrow> unit tx" where
  "tx_finish_case i passed evidence t now d =
     map_option (Pair ()) (update_cases (\<lambda>k. qc_id k = i \<and> qc_status k = ''running'') (settled_case passed evidence now) d)"

definition tx_finish_run :: "uuid \<Rightarrow> bool \<Rightarrow> unit tx" where
  "tx_finish_run i passed t now d =
     map_option (Pair ()) (update_runs (\<lambda>r. qr_id r = i \<and> qr_status r = ''running'') (settled_run passed now) d)"

definition with_traffic_error :: "str option \<Rightarrow> json \<Rightarrow> json" where
  "with_traffic_error traffic_error v =
     (case (traffic_error, v) of
        (Some reason, JObject m) \<Rightarrow> JObject (filter (\<lambda>e. fst e \<noteq> ''traffic_error'') m @ [(''traffic_error'', JString reason)])
      | _ \<Rightarrow> v)"

text \<open>The cases in the order of their identifiers; whether one failed.\<close>

fun run_cases ::
    "qa_env \<Rightarrow> uuid \<Rightarrow> traffic_evidence option \<Rightarrow> str option \<Rightarrow> bool \<Rightarrow> (uuid \<times> str) list \<Rightarrow> bool attempted" where
  "run_cases q run traffic traffic_error failed [] = finish failed"
| "run_cases q run traffic traffic_error failed ((i, name) # rest) =
     go (sql q (database_call (tx_start_case i))) (\<lambda>_. do {
       r \<leftarrow> evaluate_case q run name traffic;
       let (passed, evidence) = (case r of
           Inr v \<Rightarrow> v
         | Inl e \<Rightarrow> (False, JObject [(''error_code'', JString ''qa_case_query_failed''), (''reason'', JString (bounded_reason e))]));
       go (sql q (database_call (tx_finish_case i passed (with_traffic_error traffic_error evidence))))
         (\<lambda>_. run_cases q run traffic traffic_error (failed \<or> \<not> passed) rest)
     })"

definition case_names :: "uuid \<Rightarrow> db \<Rightarrow> (uuid \<times> str) list" where
  "case_names run d = map (\<lambda>k. (qc_id k, qc_name k)) (sort_key qc_id (filter (\<lambda>k. qc_run k = run) (db_qa_cases d)))"

definition traffic_suite :: "str \<Rightarrow> bool" where
  "traffic_suite suite \<longleftrightarrow> suite \<in> set [''smoke'', ''distribution'', ''failover'', ''multimodal'']"

text \<open>The evidence of the traffic, or what went wrong with it.\<close>

definition traffic_of :: "qa_env \<Rightarrow> uuid \<Rightarrow> str \<Rightarrow> bool \<Rightarrow> (traffic_evidence option \<times> str option) program" where
  "traffic_of q run suite live =
     (if traffic_suite suite \<and> (live \<or> starts_with ''mock://'' (gw_upstream_url (co_gateway (qe_console q))))
      then do {
        r \<leftarrow> exercise_traffic q run suite live;
        State_Monad.return (case r of Inr te \<Rightarrow> (Some te, None) | Inl e \<Rightarrow> (None, Some (bounded_reason e)))
      }
      else State_Monad.return (None,
        if traffic_suite suite then Some ''non_live_traffic_requires_mock_provider'' else None))"

definition judge_run :: "qa_env \<Rightarrow> uuid \<Rightarrow> str \<Rightarrow> bool \<Rightarrow> unit attempted" where
  "judge_run q run suite live =
     go (refusing q (tx_start_queued_run run)) (\<lambda>_. do {
       (traffic, traffic_error) \<leftarrow> traffic_of q run suite live;
       go (sql q (db_read (\<lambda>_. case_names run))) (\<lambda>cases.
       go (run_cases q run traffic traffic_error (traffic_error \<noteq> None) cases) (\<lambda>failed.
         sql q (database_call (tx_finish_run run (\<not> failed)))))
     })"

datatype qa_timer = Qa_timer int str

definition canonical_provider :: "qa_env \<Rightarrow> bool" where
  "canonical_provider q \<longleftrightarrow> (let g = co_gateway (qe_console q) in
     live_qa_provider_is_canonical (co_parse_url (qe_console q)) (gw_magpie_url g) (gw_upstream_url g))"

definition queued_run :: "uuid \<Rightarrow> db \<Rightarrow> qa_run_row option" where
  "queued_run run d = List.find (\<lambda>r. qr_id r = run \<and> qr_status r = ''queued'') (db_qa_runs d)"

definition execute :: "qa_env \<Rightarrow> uuid \<Rightarrow> qa_timer option attempted" where
  "execute q run = do {
     owner \<leftarrow> observe w_owner;
     case owner of
       None \<Rightarrow> give_up ''QA runner requires PostgreSQL''
     | Some owner \<Rightarrow>
         go (one_row q (queued_run run)) (\<lambda>r.
           if qr_live r \<and> (qr_provider r \<noteq> ''nvidia_hosted'' \<or> \<not> canonical_provider q)
           then give_up ''live QA requires canonical NVIDIA hosted provider identity''
           else if \<not> qr_live r \<and> qr_provider r \<noteq> ''fake''
           then give_up ''fake QA requires fake provider identity''
           else if qr_suite r = ''persistence''
           then go (refusing q (tx_prepare_persistence q owner run))
             (\<lambda>_. finish (Some (Qa_timer PERSISTENCE_QA_TIMEOUT ''persistence_restart_timeout'')))
           else if qr_suite r = ''hermes-e2e''
           then if \<not> qr_live r \<or> qr_provider r \<noteq> ''nvidia_hosted'' \<or> \<not> canonical_provider q
             then give_up ''Hermes E2E QA requires canonical NVIDIA hosted live mode''
             else go (refusing q (tx_arm_hermes run))
               (\<lambda>_. finish (Some (Qa_timer HERMES_QA_TIMEOUT ''hermes_helper_timeout'')))
           else go (judge_run q run (qr_suite r) (qr_live r)) (\<lambda>_. finish None))
   }"

text \<open>\<open>spawn\<close>: what failed is closed, by two statements whose own failure is ignored.\<close>

definition spawn_run :: "qa_env \<Rightarrow> uuid \<Rightarrow> qa_timer option program" where
  "spawn_run q run = do {
     r \<leftarrow> execute q run;
     case r of
       Inr timer \<Rightarrow> State_Monad.return timer
     | Inl _ \<Rightarrow> do {
         _ \<leftarrow> database_call (close_failed_cases run);
         _ \<leftarrow> database_call (close_failed_run run);
         State_Monad.return None
       }
   }"

text \<open>The timer has slept.\<close>

definition timer_fires :: "uuid \<Rightarrow> qa_timer \<Rightarrow> bool program" where
  "timer_fires run timer = (case timer of Qa_timer _ error_code \<Rightarrow> fail_running_run run error_code)"

end
