(* ===== verification/Qa_Moves.thy ===== *)
theory Qa_Moves
  imports Qa_Runner Console_Tables
begin

text \<open>
  What every transaction of the QA runner keeps of its two tables: the constraints of the rows, that
  a passed run has passed cases only, and the direction in which runs and cases move.
\<close>

section \<open>The invariant\<close>

definition cases_of :: "uuid \<Rightarrow> db \<Rightarrow> qa_case_row list" where
  "cases_of i d = filter (\<lambda>k. qc_run k = i) (db_qa_cases d)"

definition HERMES_CASES :: "str list" where
  "HERMES_CASES = [''doctor'', ''exact_marker'', ''tool_task'', ''request_correlation'', ''secret_scan'', ''rollback_rehearsal'']"

definition case_pending :: "qa_case_row \<Rightarrow> bool" where
  "case_pending k \<longleftrightarrow> qc_status k = ''pending''"

definition case_waiting :: "qa_case_row \<Rightarrow> bool" where
  "case_waiting k \<longleftrightarrow> qc_name k = ''restart_observed'' \<and> qc_status k = ''running''"

definition case_closed :: "qa_case_row \<Rightarrow> bool" where
  "case_closed k \<longleftrightarrow> \<not> case_open k"

definition run_sound :: "qa_case_row list \<Rightarrow> qa_run_row \<Rightarrow> bool" where
  "run_sound ks r \<longleftrightarrow>
     (qr_status r = ''passed'' \<longrightarrow> list_all (\<lambda>k. qc_status k = ''passed'') ks) \<and>
     (qr_suite r = ''hermes-e2e'' \<longrightarrow> list_all (\<lambda>k. qc_name k \<in> set HERMES_CASES) ks) \<and>
     (qr_suite r \<noteq> ''persistence'' \<longrightarrow> list_all (\<lambda>k. qc_name k \<noteq> ''restart_observed'') ks) \<and>
     (qr_status r = ''queued'' \<longrightarrow> list_all case_pending ks \<or> list_all case_closed ks) \<and>
     (qr_status r = ''running'' \<and> qr_suite r = ''persistence'' \<longrightarrow>
        list_all (\<lambda>k. case_pending k \<or> case_waiting k) ks \<or> list_all case_closed ks)"

definition rows_sound :: "db \<Rightarrow> bool" where
  "rows_sound d \<longleftrightarrow>
     distinct (map qr_id (db_qa_runs d)) \<and> distinct (map qc_id (db_qa_cases d)) \<and>
     distinct (map (\<lambda>k. (qc_run k, qc_name k)) (db_qa_cases d)) \<and>
     list_all qa_row_ok (db_qa_runs d) \<and> list_all case_row_ok (db_qa_cases d) \<and>
     list_all (\<lambda>k. qc_run k \<in> set (map qr_id (db_qa_runs d))) (db_qa_cases d)"

definition qa_sound :: "db \<Rightarrow> bool" where
  "qa_sound d \<longleftrightarrow> rows_sound d \<and> list_all (\<lambda>r. run_sound (cases_of (qr_id r) d) r) (db_qa_runs d)"

section \<open>The direction\<close>

definition reconcilable :: "qa_run_row \<Rightarrow> bool" where
  "reconcilable r \<longleftrightarrow> qr_suite r = ''hermes-e2e'' \<and> qr_live r \<and> qr_provider r = ''nvidia_hosted''"

definition same_run :: "qa_run_row \<Rightarrow> qa_run_row \<Rightarrow> bool" where
  "same_run r r' \<longleftrightarrow> qr_id r' = qr_id r \<and> qr_suite r' = qr_suite r \<and> qr_live r' = qr_live r \<and>
     qr_provider r' = qr_provider r \<and> qr_commit r' = qr_commit r \<and> qr_created_at r' = qr_created_at r"

definition run_moved :: "qa_run_row \<Rightarrow> qa_run_row \<Rightarrow> bool" where
  "run_moved r r' \<longleftrightarrow> same_run r r' \<and>
     (r' = r \<or>
      qa_active r \<and> (qr_status r' = ''queued'' \<longrightarrow> qr_status r = ''queued'') \<or>
      qr_status r = ''failed'' \<and> qr_status r' = ''passed'' \<and> reconcilable r)"

definition case_moved :: "uuid set \<Rightarrow> qa_case_row \<Rightarrow> qa_case_row \<Rightarrow> bool" where
  "case_moved hermes k k' \<longleftrightarrow> qc_id k' = qc_id k \<and> qc_run k' = qc_run k \<and> qc_name k' = qc_name k \<and>
     (k' = k \<or>
      case_open k \<and> (case_pending k' \<longrightarrow> case_pending k) \<or>
      qc_status k = ''failed'' \<and> qc_status k' = ''passed'' \<and> qc_run k \<in> hermes)"

definition prefix_moved :: "('a \<Rightarrow> 'a \<Rightarrow> bool) \<Rightarrow> 'a list \<Rightarrow> 'a list \<Rightarrow> bool" where
  "prefix_moved R xs ys \<longleftrightarrow> (\<exists>zs new. ys = zs @ new \<and> list_all2 R xs zs)"

definition hermes_ids :: "db \<Rightarrow> uuid set" where
  "hermes_ids d = set (map qr_id (filter reconcilable (db_qa_runs d)))"

definition forward :: "db \<Rightarrow> db \<Rightarrow> bool" where
  "forward d d' \<longleftrightarrow>
     prefix_moved run_moved (db_qa_runs d) (db_qa_runs d') \<and>
     prefix_moved (case_moved (hermes_ids d')) (db_qa_cases d) (db_qa_cases d')"

definition qa_moved :: "db \<Rightarrow> db \<Rightarrow> bool" where
  "qa_moved d d' \<longleftrightarrow> (qa_sound d \<longrightarrow> qa_sound d' \<and> forward d d')"

lemma run_moved_refl [simp]: "run_moved r r"
  by (simp add: run_moved_def same_run_def)

lemma case_moved_refl [simp]: "case_moved h k k"
  by (simp add: case_moved_def)

lemma same_run_trans: "same_run a b \<Longrightarrow> same_run b c \<Longrightarrow> same_run a c"
  by (simp add: same_run_def)

lemma same_run_reconcilable: "same_run a b \<Longrightarrow> reconcilable b = reconcilable a"
  by (simp add: same_run_def reconcilable_def)

lemma not_active [simp]: "qr_status r = ''passed'' \<Longrightarrow> \<not> qa_active r" "qr_status r = ''failed'' \<Longrightarrow> \<not> qa_active r"
  by (simp_all add: qa_active_def)

lemma run_moved_trans:
  assumes "run_moved a b" "run_moved b c"
  shows "run_moved a c"
proof -
  have s: "same_run a c" using assms same_run_trans by (auto simp: run_moved_def)
  consider "b = a" | "c = b" | "qa_active a" "qr_status b = ''queued'' \<longrightarrow> qr_status a = ''queued''" "b \<noteq> a" "c \<noteq> b"
    | "qr_status b = ''passed''" "b \<noteq> a" "c \<noteq> b"
    using assms(1) unfolding run_moved_def by blast
  then show ?thesis
  proof cases
    case 3
    then have "qr_status c = ''queued'' \<longrightarrow> qr_status a = ''queued''"
      using assms(2) by (auto simp: run_moved_def)
    with s 3(1) show ?thesis by (simp add: run_moved_def)
  qed (use assms in \<open>auto simp: run_moved_def\<close>)
qed

lemma case_moved_trans: "case_moved h a b \<Longrightarrow> case_moved h' b c \<Longrightarrow> h \<subseteq> h' \<Longrightarrow> case_moved h' a c"
  by (auto simp: case_moved_def case_open_def case_pending_def)

lemma prefix_moved_same: "(\<And>x. x \<in> set xs \<Longrightarrow> R x x) \<Longrightarrow> prefix_moved R xs (xs @ new)"
  unfolding prefix_moved_def by (intro exI [of _ xs] exI [of _ new]) (simp add: list.rel_refl_strong)

lemma prefix_moved_map: "(\<And>x. x \<in> set xs \<Longrightarrow> R x (f x)) \<Longrightarrow> prefix_moved R xs (map f xs)"
  unfolding prefix_moved_def
  by (intro exI [of _ "map f xs"] exI [of _ "[]"]) (simp add: list_all2_map2 list.rel_refl_strong)

lemma prefix_moved_trans:
  assumes "prefix_moved R xs ys" "prefix_moved S ys us" "\<And>x y z. R x y \<Longrightarrow> S y z \<Longrightarrow> T x z"
  shows "prefix_moved T xs us"
proof -
  obtain zs new where ys: "ys = zs @ new" and R: "list_all2 R xs zs"
    using assms(1) by (auto simp: prefix_moved_def)
  obtain vs more_new where us: "us = vs @ more_new" and S: "list_all2 S ys vs"
    using assms(2) by (auto simp: prefix_moved_def)
  obtain v1 v2 where "vs = v1 @ v2" and S1: "list_all2 S zs v1"
    using S ys by (auto simp: list_all2_append1)
  moreover have "list_all2 T xs v1"
    using R S1 by (rule list_all2_trans [rotated 1]) (rule assms(3))
  ultimately show ?thesis
    unfolding prefix_moved_def us by (intro exI [of _ v1] exI [of _ "v2 @ more_new"]) simp
qed

lemma prefix_moved_member:
  assumes "prefix_moved R xs ys" "x \<in> set xs"
  obtains y where "y \<in> set ys" "R x y"
  using assms unfolding prefix_moved_def by (force simp: list_all2_conv_all_nth in_set_conv_nth)

lemma hermes_ids_forward: "prefix_moved run_moved (db_qa_runs d) (db_qa_runs d') \<Longrightarrow> hermes_ids d \<subseteq> hermes_ids d'"
proof
  fix i
  assume m: "prefix_moved run_moved (db_qa_runs d) (db_qa_runs d')" and "i \<in> hermes_ids d"
  then obtain r where "r \<in> set (db_qa_runs d)" "reconcilable r" "i = qr_id r" by (auto simp: hermes_ids_def)
  moreover from prefix_moved_member [OF m this(1)] obtain r' where "r' \<in> set (db_qa_runs d')" "run_moved r r'" .
  moreover from calculation(5) have "same_run r r'" by (simp add: run_moved_def)
  then have "reconcilable r' = reconcilable r" "qr_id r' = qr_id r"
    by (simp_all add: same_run_reconcilable) (simp add: same_run_def)
  ultimately show "i \<in> hermes_ids d'"
    unfolding hermes_ids_def by (auto simp: image_iff intro!: bexI [of _ r'])
qed

lemma forward_trans: "forward a b \<Longrightarrow> forward b c \<Longrightarrow> forward a c"
  unfolding forward_def
  by (elim conjE, intro conjI)
    (erule (1) prefix_moved_trans, erule (1) run_moved_trans,
     erule (1) prefix_moved_trans, erule (1) case_moved_trans, erule hermes_ids_forward)

lemma qa_moved_trans: "qa_moved a b \<Longrightarrow> qa_moved b c \<Longrightarrow> qa_moved a c"
  unfolding qa_moved_def using forward_trans by blast

lemma qa_moved_same: "db_qa_runs d' = db_qa_runs d \<Longrightarrow> db_qa_cases d' = db_qa_cases d \<Longrightarrow> qa_moved d d'"
  unfolding qa_moved_def forward_def
  by (auto simp: qa_sound_def rows_sound_def cases_of_def intro: prefix_moved_same [of _ _ "[]", simplified])

section \<open>Updates of both tables\<close>

lemma update_cases_Some:
  assumes "update_cases p f d = Some d'"
  shows "d' = d\<lparr>db_qa_cases := map (\<lambda>k. if p k then f k else k) (db_qa_cases d)\<rparr>"
    "k \<in> set (db_qa_cases d) \<Longrightarrow> p k \<Longrightarrow> case_row_ok (f k)"
  using assms by (auto simp: update_cases_def update_where_def list_ex_iff split: if_splits)

lemma update_runs_Some:
  assumes "update_runs p f d = Some d'"
  shows "d' = d\<lparr>db_qa_runs := map (\<lambda>r. if p r then f r else r) (db_qa_runs d)\<rparr>"
    "r \<in> set (db_qa_runs d) \<Longrightarrow> p r \<Longrightarrow> qa_row_ok (f r)"
  using assms by (auto simp: update_runs_def update_where_def list_ex_iff split: if_splits)

lemma update_none:
  "update_cases (\<lambda>_. False) f d = Some d" "update_runs (\<lambda>_. False) g d = Some d"
  by (simp_all add: update_cases_def update_runs_def update_where_def list_ex_iff)

lemma case_moved_keys: "case_moved h k k' \<Longrightarrow> qc_id k' = qc_id k \<and> qc_run k' = qc_run k \<and> qc_name k' = qc_name k"
  by (simp add: case_moved_def)

lemma run_moved_keys: "run_moved r r' \<Longrightarrow> qr_id r' = qr_id r \<and> qr_suite r' = qr_suite r"
  by (simp add: run_moved_def same_run_def)

lemma qa_moved_maps:
  assumes d': "db_qa_runs d' = map fr (db_qa_runs d)" "db_qa_cases d' = map fk (db_qa_cases d)"
    and runs: "\<And>r. qa_sound d \<Longrightarrow> r \<in> set (db_qa_runs d) \<Longrightarrow> run_moved r (fr r) \<and> qa_row_ok (fr r)"
    and cases: "\<And>k. qa_sound d \<Longrightarrow> k \<in> set (db_qa_cases d) \<Longrightarrow> case_moved (hermes_ids d) k (fk k) \<and> case_row_ok (fk k)"
    and sound: "\<And>r. qa_sound d \<Longrightarrow> r \<in> set (db_qa_runs d) \<Longrightarrow> run_sound (map fk (cases_of (qr_id r) d)) (fr r)"
  shows "qa_moved d d'"
  unfolding qa_moved_def
proof
  assume s: "qa_sound d"
  have r: "qr_id (fr r) = qr_id r" if "r \<in> set (db_qa_runs d)" for r
    using runs [OF s that] run_moved_keys by blast
  have k: "qc_id (fk k) = qc_id k \<and> qc_run (fk k) = qc_run k \<and> qc_name (fk k) = qc_name k" if "k \<in> set (db_qa_cases d)" for k
    using cases [OF s that] case_moved_keys by blast
  have ids: "map qr_id (db_qa_runs d') = map qr_id (db_qa_runs d)" "map qc_id (db_qa_cases d') = map qc_id (db_qa_cases d)"
    "map (\<lambda>k. (qc_run k, qc_name k)) (db_qa_cases d') = map (\<lambda>k. (qc_run k, qc_name k)) (db_qa_cases d)"
    "map qc_run (db_qa_cases d') = map qc_run (db_qa_cases d)"
    by (simp_all add: d' r k)
  have of_run: "cases_of i d' = map fk (cases_of i d)" for i
    unfolding cases_of_def d' filter_map comp_def by (rule arg_cong [where f = "map fk"], rule filter_cong) (simp_all add: k)
  have fw: "prefix_moved run_moved (db_qa_runs d) (db_qa_runs d')"
    unfolding d' by (rule prefix_moved_map) (use runs [OF s] in blast)
  have "prefix_moved (case_moved (hermes_ids d')) (db_qa_cases d) (db_qa_cases d')"
    unfolding d'(2)
  proof (rule prefix_moved_map)
    fix k assume "k \<in> set (db_qa_cases d)"
    from cases [OF s this] have "case_moved (hermes_ids d) k (fk k)" ..
    then show "case_moved (hermes_ids d') k (fk k)"
      by (rule case_moved_trans [OF _ case_moved_refl hermes_ids_forward [OF fw]])
  qed
  moreover have "rows_sound d'"
  proof -
    have refs: "list_all (\<lambda>k. qc_run k \<in> set (map qr_id rs)) ks = (set (map qc_run ks) \<subseteq> set (map qr_id rs))" for ks rs
      by (auto simp: list_all_iff)
    have "list_all qa_row_ok (db_qa_runs d')" "list_all case_row_ok (db_qa_cases d')"
      using runs [OF s] cases [OF s] by (simp_all add: d' list_all_iff)
    then show ?thesis
      using s unfolding qa_sound_def rows_sound_def refs ids by simp
  qed
  moreover have "list_all (\<lambda>r. run_sound (cases_of (qr_id r) d') r) (db_qa_runs d')"
    using sound [OF s] r by (simp add: d'(1) of_run list_all_iff)
  ultimately show "qa_sound d' \<and> forward d d'"
    using fw by (simp add: qa_sound_def forward_def)
qed

lemma updates_moved:
  assumes "update_cases pk fk d = Some d1" "update_runs pr fr d1 = Some d2"
    and runs: "\<And>r. pr r \<Longrightarrow> run_moved r (fr r)"
    and cases: "\<And>k. case_row_ok k \<Longrightarrow> pk k \<Longrightarrow> case_row_ok (fk k) \<Longrightarrow> case_moved (hermes_ids d) k (fk k)"
    and sound: "\<And>r. qa_sound d \<Longrightarrow> r \<in> set (db_qa_runs d) \<Longrightarrow> run_sound (cases_of (qr_id r) d) r \<Longrightarrow>
      run_sound (map (\<lambda>k. if pk k then fk k else k) (cases_of (qr_id r) d)) (if pr r then fr r else r)"
  shows "qa_moved d d2"
proof (rule qa_moved_maps)
  note c = update_cases_Some [OF assms(1)]
  note r = update_runs_Some [OF assms(2)]
  show "db_qa_runs d2 = map (\<lambda>r. if pr r then fr r else r) (db_qa_runs d)"
    "db_qa_cases d2 = map (\<lambda>k. if pk k then fk k else k) (db_qa_cases d)"
    using c(1) r(1) by simp_all
  have "db_qa_runs d1 = db_qa_runs d" using c(1) by simp
  then show "run_moved x (if pr x then fr x else x) \<and> qa_row_ok (if pr x then fr x else x)"
    if "qa_sound d" "x \<in> set (db_qa_runs d)" for x
    using that r(2) [of x] runs by (simp add: qa_sound_def rows_sound_def list_all_iff)
  show "case_moved (hermes_ids d) x (if pk x then fk x else x) \<and> case_row_ok (if pk x then fk x else x)"
    if "qa_sound d" "x \<in> set (db_qa_cases d)" for x
    using that c(2) [of x] cases by (simp add: qa_sound_def rows_sound_def list_all_iff)
  show "run_sound (map (\<lambda>k. if pk k then fk k else k) (cases_of (qr_id x) d)) (if pr x then fr x else x)"
    if "qa_sound d" "x \<in> set (db_qa_runs d)" for x
    using that sound by (simp add: qa_sound_def list_all_iff)
qed

lemma untouched_cases:
  assumes "\<And>k. pk k \<Longrightarrow> qc_run k = i" "j \<noteq> i"
  shows "map (\<lambda>k. if pk k then fk k else k) (cases_of j d) = cases_of j d"
  using assms by (induction "db_qa_cases d") (auto simp: cases_of_def intro!: map_idI)

text \<open>Updates of the rows of one run.\<close>

lemma run_updates_moved:
  assumes "update_cases pk fk d = Some d1" "update_runs pr fr d1 = Some d2"
    and "\<And>r. pr r \<Longrightarrow> run_moved r (fr r)"
    and "\<And>k. case_row_ok k \<Longrightarrow> pk k \<Longrightarrow> case_row_ok (fk k) \<Longrightarrow> case_moved (hermes_ids d) k (fk k)"
    and i: "\<And>k. pk k \<Longrightarrow> qc_run k = i" "\<And>r. pr r \<Longrightarrow> qr_id r = i"
    and "\<And>r. qa_sound d \<Longrightarrow> r \<in> set (db_qa_runs d) \<Longrightarrow> qr_id r = i \<Longrightarrow> run_sound (cases_of i d) r \<Longrightarrow>
      run_sound (map (\<lambda>k. if pk k then fk k else k) (cases_of i d)) (if pr r then fr r else r)"
  shows "qa_moved d d2"
proof (rule updates_moved [OF assms(1-4)])
  fix r assume a: "qa_sound d" "r \<in> set (db_qa_runs d)" "run_sound (cases_of (qr_id r) d) r"
  show "run_sound (map (\<lambda>k. if pk k then fk k else k) (cases_of (qr_id r) d)) (if pr r then fr r else r)"
  proof (cases "qr_id r = i")
    case True
    then show ?thesis using assms(7) [OF a(1,2)] a(3) by simp
  next
    case False
    then show ?thesis using a(3) i(2) untouched_cases [of pk i, OF i(1) False] by auto
  qed
qed

text \<open>Every transaction of the QA runner moves its tables forward and keeps them sound.\<close>

section \<open>Rows\<close>

lemma new_rows [simp]:
  "qc_run (failed_case e now k) = qc_run k" "qc_name (failed_case e now k) = qc_name k"
  "qc_id (failed_case e now k) = qc_id k" "qc_status (failed_case e now k) = ''failed''"
  "qc_run (settled_case b v now k) = qc_run k" "qc_name (settled_case b v now k) = qc_name k"
  "qc_id (settled_case b v now k) = qc_id k"
  "qc_status (settled_case b v now k) = (if b then ''passed'' else ''failed'')"
  "qr_id (failed_run now r) = qr_id r" "qr_suite (failed_run now r) = qr_suite r" "qr_status (failed_run now r) = ''failed''"
  "qr_id (running_run now r) = qr_id r" "qr_suite (running_run now r) = qr_suite r"
  "qr_status (running_run now r) = ''running''"
  "qr_id (settled_run b now r) = qr_id r" "qr_suite (settled_run b now r) = qr_suite r"
  "qr_status (settled_run b now r) = (if b then ''passed'' else ''failed'')"
  by (simp_all add: failed_case_def settled_case_def failed_run_def running_run_def settled_run_def)

lemma runs_moved:
  "qa_active r \<Longrightarrow> run_moved r (failed_run now r)"
  "qr_status r = ''queued'' \<Longrightarrow> run_moved r (running_run now r)"
  "qr_status r = ''running'' \<Longrightarrow> run_moved r (settled_run b now r)"
  "qr_status r = ''failed'' \<Longrightarrow> reconcilable r \<Longrightarrow> run_moved r (settled_run True now r)"
  by (simp_all add: run_moved_def same_run_def failed_run_def running_run_def settled_run_def qa_active_def)

lemma cases_moved:
  "case_open k \<Longrightarrow> case_moved h k (failed_case e now k)"
  "case_open k \<Longrightarrow> case_moved h k (settled_case b v now k)"
  "qc_status k = ''failed'' \<Longrightarrow> qc_run k \<in> h \<Longrightarrow> case_moved h k (settled_case True v now k)"
  by (simp_all add: case_moved_def case_pending_def)

lemma run_sound_names:
  assumes "run_sound ks r" "qr_status r' = ''failed''" "qr_suite r' = qr_suite r" "\<And>k. qc_name (f k) = qc_name k"
  shows "run_sound (map f ks) r'"
  using assms by (simp add: run_sound_def list_all_iff)

lemma run_sound_running:
  assumes "run_sound ks r" "qr_status r' = ''running''" "qr_suite r' = qr_suite r" "\<And>k. qc_name (f k) = qc_name k"
    "qr_suite r \<noteq> ''persistence''"
  shows "run_sound (map f ks) r'"
  using assms by (simp add: run_sound_def list_all_iff)

lemma closed_case: "case_closed (failed_case e now k)"
  by (simp add: case_closed_def case_open_def)

text \<open>Open cases are closed: all of a run then are.\<close>

lemma run_sound_closed:
  assumes "run_sound ks r" "\<And>k. k \<in> set ks \<Longrightarrow> case_open k \<Longrightarrow> q k"
  shows "run_sound (map (\<lambda>k. if q k \<and> case_open k then failed_case e now k else k) ks) r"
proof -
  have passed: "map (\<lambda>k. if q k \<and> case_open k then failed_case e now k else k) ks = ks"
    if "list_all (\<lambda>k. qc_status k = ''passed'') ks"
    using that by (intro map_idI) (auto simp: list_all_iff case_open_def)
  have closed: "list_all case_closed (map (\<lambda>k. if q k \<and> case_open k then failed_case e now k else k) ks)"
    using assms(2) closed_case by (auto simp: list_all_iff case_closed_def)
  have names: "list_all (\<lambda>k. P (qc_name k)) (map (\<lambda>k. if q k \<and> case_open k then failed_case e now k else k) ks)"
    if "list_all (\<lambda>k. P (qc_name k)) ks" for P
    using that by (auto simp: list_all_iff)
  show ?thesis
    unfolding run_sound_def
  proof (intro conjI impI)
    assume "qr_status r = ''passed''"
    then have "list_all (\<lambda>k. qc_status k = ''passed'') ks" using assms(1) by (simp add: run_sound_def)
    then show "list_all (\<lambda>k. qc_status k = ''passed'')
        (map (\<lambda>k. if q k \<and> case_open k then failed_case e now k else k) ks)"
      by (simp only: passed)
  next
    assume "qr_suite r = ''hermes-e2e''"
    then show "list_all (\<lambda>k. qc_name k \<in> set HERMES_CASES)
        (map (\<lambda>k. if q k \<and> case_open k then failed_case e now k else k) ks)"
      using assms(1) by (intro names) (simp add: run_sound_def)
  next
    assume "qr_suite r \<noteq> ''persistence''"
    then show "list_all (\<lambda>k. qc_name k \<noteq> ''restart_observed'')
        (map (\<lambda>k. if q k \<and> case_open k then failed_case e now k else k) ks)"
      using assms(1) by (intro names) (simp add: run_sound_def)
  qed (rule disjI2, rule closed)+
qed

section \<open>Closing\<close>

lemma cases_of_run: "k \<in> set (cases_of i d) \<Longrightarrow> qc_run k = i"
  by (simp add: cases_of_def)

lemma close_failed_cases_moved:
  assumes "close_failed_cases i t now d = Some (x, d')"
  shows "qa_moved d d'"
proof (rule run_updates_moved [OF _ update_none(2)])
  show "update_cases (\<lambda>k. qc_run k = i \<and> case_open k) (failed_case ''qa_runner_failed'' now) d = Some d'"
    using assms by (simp add: close_failed_cases_def)
  show "run_sound (map (\<lambda>k. if qc_run k = i \<and> case_open k then failed_case ''qa_runner_failed'' now k else k) (cases_of i d))
      (if False then r else r)" if "run_sound (cases_of i d) r" for r
    using run_sound_closed [OF that] cases_of_run by simp
qed (auto intro: cases_moved)

lemma close_failed_run_moved:
  assumes "close_failed_run i t now d = Some (x, d')"
  shows "qa_moved d d'"
proof (rule run_updates_moved [OF update_none(1)])
  show "update_runs (\<lambda>r. qr_id r = i \<and> qa_active r) (failed_run now) d = Some d'"
    using assms by (simp add: close_failed_run_def)
  show "run_sound (map (\<lambda>k. if False then k else k) (cases_of i d)) (if qr_id r = i \<and> qa_active r then failed_run now r else r)"
    if "run_sound (cases_of i d) r" for r
    using run_sound_names [OF that, of "failed_run now r" "\<lambda>k. k"] that by simp
qed (auto intro: runs_moved)

lemma fail_running_run_moved:
  assumes "tx_fail_running_run i e t now d = Some (x, d')"
  shows "qa_moved d d'"
proof (cases "\<exists>r. run_of i d = Some r \<and> qa_active r")
  case False
  then show ?thesis
    using assms by (auto simp: tx_fail_running_run_def intro: qa_moved_same split: option.splits if_splits)
next
  case True
  then obtain d1 where d1: "update_cases (\<lambda>k. qc_run k = i \<and> case_open k) (failed_case e now) d = Some d1"
    and d': "update_runs (\<lambda>r. qr_id r = i \<and> qa_active r) (failed_run now) d1 = Some d'"
    using assms by (auto simp: tx_fail_running_run_def bind_eq_Some_conv)
  show ?thesis
  proof (rule run_updates_moved [OF d1 d'])
    show "run_sound (map (\<lambda>k. if qc_run k = i \<and> case_open k then failed_case e now k else k) (cases_of i d))
        (if qr_id r = i \<and> qa_active r then failed_run now r else r)" if "run_sound (cases_of i d) r" for r
      using run_sound_names [OF that, of "failed_run now r" "\<lambda>k. if qc_run k = i \<and> case_open k then failed_case e now k else k"]
        run_sound_closed [OF that] cases_of_run by simp
  qed (auto intro: cases_moved runs_moved)
qed

lemma close_interrupted_runs_moved:
  assumes "tx_close_interrupted_runs t now d = Some (x, d')"
  shows "qa_moved d d'"
proof -
  let ?p = "\<lambda>k. list_ex (\<lambda>r. qr_id r = qc_run k \<and> interrupted r) (db_qa_runs d) \<and> case_open k"
  obtain d1 where d1: "update_cases ?p (failed_case ''gateway_restarted_during_qa'' now) d = Some d1"
    and d': "update_runs interrupted (failed_run now) d1 = Some d'"
    using assms by (auto simp: tx_close_interrupted_runs_def bind_eq_Some_conv)
  show ?thesis
  proof (rule updates_moved [OF d1 d'])
    fix r assume a: "qa_sound d" "r \<in> set (db_qa_runs d)" "run_sound (cases_of (qr_id r) d) r"
    have only: "list_ex (\<lambda>r. qr_id r = qc_run k \<and> interrupted r) (db_qa_runs d) = interrupted r"
      if "k \<in> set (cases_of (qr_id r) d)" for k
      using a(1,2) cases_of_run [OF that]
      by (auto simp: list_ex_iff qa_sound_def rows_sound_def dest: eq_key_imp_eq_value inj_onD simp add: distinct_map)
    show "run_sound (map (\<lambda>k. if ?p k then failed_case ''gateway_restarted_during_qa'' now k else k) (cases_of (qr_id r) d))
        (if interrupted r then failed_run now r else r)"
    proof (cases "interrupted r")
      case True
      then show ?thesis using run_sound_names [OF a(3), of "failed_run now r"] by simp
    next
      case False
      then have "map (\<lambda>k. if ?p k then failed_case ''gateway_restarted_during_qa'' now k else k) (cases_of (qr_id r) d)
          = cases_of (qr_id r) d"
        using only by (intro map_idI) simp
      then show ?thesis using False a(3) by simp
    qed
  qed (auto intro: cases_moved runs_moved simp: interrupted_def qa_active_def)
qed

section \<open>Starting\<close>

lemma start_queued_run_moved:
  assumes "tx_start_queued_run i t now d = Some (x, d')"
  shows "qa_moved d d'"
proof (cases "d' = d")
  case False
  then have d': "update_runs (\<lambda>r. qr_id r = i \<and> qr_status r = ''queued'') (running_run now) d = Some d'"
    using assms by (auto simp: tx_start_queued_run_def split: if_splits)
  show ?thesis
  proof (rule run_updates_moved [OF update_none(1) d'])
    show "run_sound (map (\<lambda>k. if False then k else k) (cases_of i d))
        (if qr_id r = i \<and> qr_status r = ''queued'' then running_run now r else r)" if "run_sound (cases_of i d) r" for r
      using that by (auto simp: run_sound_def list_all_iff)
  qed (auto intro: runs_moved)
qed (auto intro: qa_moved_same)

lemma only_run:
  assumes "qa_sound d" "run_of i d = Some r0" "r \<in> set (db_qa_runs d)" "qr_id r = i"
  shows "r = r0"
  using assms by (auto simp: run_of_def find_Some_iff qa_sound_def rows_sound_def distinct_conv_nth in_set_conv_nth)

lemma run_of_member: "run_of i d = Some r \<Longrightarrow> r \<in> set (db_qa_runs d) \<and> qr_id r = i"
  by (auto simp: run_of_def find_Some_iff)

text \<open>The run that was looked at is the only one updated.\<close>

lemma update_only_run:
  assumes "qa_sound d" "run_of i d = Some r0" "s r0" "db_qa_runs d1 = db_qa_runs d"
  shows "update_runs (\<lambda>r. qr_id r = i) f d1 = update_runs (\<lambda>r. qr_id r = i \<and> s r) f d1"
proof -
  have same: "(qr_id r = i \<and> s r) = (qr_id r = i)" if "r \<in> set (db_qa_runs d1)" for r
    using only_run [OF assms(1,2), of r] assms(3,4) that by auto
  have "update_where (\<lambda>r. qr_id r = i \<and> s r) f (db_qa_runs d1) = update_where (\<lambda>r. qr_id r = i) f (db_qa_runs d1)"
    unfolding update_where_def by (rule map_cong) (simp_all add: same)
  moreover have "list_ex (\<lambda>r. (qr_id r = i \<and> s r) \<and> \<not> qa_row_ok (f r)) (db_qa_runs d1) =
      list_ex (\<lambda>r. qr_id r = i \<and> \<not> qa_row_ok (f r)) (db_qa_runs d1)"
    using same by (auto simp: list_ex_iff)
  ultimately show ?thesis by (simp add: update_runs_def)
qed

text \<open>A queued run is started together with a change of its cases.\<close>

lemma started_run_moved:
  assumes "run_of i d = Some r0" "qr_status r0 = ''queued''"
    and d1: "update_cases p f d = Some d1" and d': "update_runs (\<lambda>r. qr_id r = i) (running_run now) d1 = Some d'"
    and f: "\<And>k. p k \<Longrightarrow> qc_run k = i \<and> case_pending k"
      "\<And>k. qc_id (f k) = qc_id k \<and> qc_run (f k) = qc_run k \<and> qc_name (f k) = qc_name k \<and> qc_status (f k) = ''running''"
    and waiting: "qr_suite r0 = ''persistence'' \<Longrightarrow> run_sound (cases_of i d) r0 \<Longrightarrow>
      list_all (\<lambda>k. case_pending k \<or> case_waiting k) (map (\<lambda>k. if p k then f k else k) (cases_of i d))"
  shows "qa_moved d d'"
proof (cases "qa_sound d")
  case True
  have "db_qa_runs d1 = db_qa_runs d" using update_cases_Some(1) [OF d1] by simp
  then have u: "update_runs (\<lambda>r. qr_id r = i \<and> qr_status r = ''queued'') (running_run now) d1 = Some d'"
    using update_only_run [OF True assms(1), of "\<lambda>r. qr_status r = ''queued''"] assms(2) d' by simp
  show ?thesis
  proof (rule run_updates_moved [OF d1 u])
    fix r assume a: "qa_sound d" "r \<in> set (db_qa_runs d)" "qr_id r = i" "run_sound (cases_of i d) r"
    have r: "r = r0" by (rule only_run [OF a(1) assms(1) a(2,3)])
    show "run_sound (map (\<lambda>k. if p k then f k else k) (cases_of i d))
        (if qr_id r = i \<and> qr_status r = ''queued'' then running_run now r else r)"
      using a(3,4) waiting f(2) assms(2) unfolding r by (auto simp: run_sound_def list_all_iff)
  next
    show "case_moved (hermes_ids d) k (f k)" if "p k" for k
      using f(1) [OF that] f(2) [of k] by (simp add: case_moved_def case_open_def case_pending_def)
  qed (use f(1) in \<open>auto intro: runs_moved\<close>)
qed (simp add: qa_moved_def)

lemma arm_hermes_moved:
  assumes "tx_arm_hermes i t now d = Some (x, d')"
  shows "qa_moved d d'"
proof (cases "d' = d")
  case False
  let ?p = "\<lambda>k. qc_run k = i \<and> qc_status k = ''pending''"
  obtain r0 d1 where r0: "run_of i d = Some r0" "qr_status r0 = ''queued''"
      "update_cases ?p (armed_case now) d = Some d1" "update_runs (\<lambda>r. qr_id r = i) (running_run now) d1 = Some d'"
    and suite: "qr_suite r0 = ''hermes-e2e''"
    using assms False by (auto simp: tx_arm_hermes_def Let_def bind_eq_Some_conv split: option.splits if_splits)
  from r0 show ?thesis
    by (rule started_run_moved) (simp_all add: case_pending_def armed_case_def suite)
qed (auto intro: qa_moved_same)

lemma prepare_persistence_moved:
  assumes "tx_prepare_persistence q owner i t now d = Some (x, d')"
  shows "qa_moved d d'"
proof (cases "d' = d")
  case False
  let ?p = "\<lambda>k. qc_run k = i \<and> qc_name k = ''restart_observed'' \<and> qc_status k = ''pending''"
  let ?f = "\<lambda>k. k\<lparr>qc_status := ''running'', qc_evidence := persistence_json (persistence_snapshot_of q owner d),
      qc_started_at := Some now\<rparr>"
  obtain r0 d1 where r0: "run_of i d = Some r0" "qr_status r0 = ''queued''"
    and d1: "update_cases ?p ?f d = Some d1" "update_runs (\<lambda>r. qr_id r = i) (running_run now) d1 = Some d'"
    and one: "length (filter ?p (db_qa_cases d)) = 1"
    using assms False
    by (auto simp: tx_prepare_persistence_def Let_def bind_eq_Some_conv split: option.splits if_splits)
  have "filter ?p (db_qa_cases d) \<noteq> []" using one by auto
  then obtain k0 where k0: "k0 \<in> set (cases_of i d)" "case_pending k0"
    by (auto simp: filter_empty_conv cases_of_def case_pending_def)
  from r0 d1 show ?thesis
  proof (rule started_run_moved)
    assume "run_sound (cases_of i d) r0"
    then have "list_all case_pending (cases_of i d)"
      using k0 r0(2) by (auto simp: run_sound_def list_all_iff case_closed_def case_open_def case_pending_def)
    then show "list_all (\<lambda>k. case_pending k \<or> case_waiting k) (map (\<lambda>k. if ?p k then ?f k else k) (cases_of i d))"
      by (auto simp: list_all_iff case_pending_def case_waiting_def)
  qed (simp_all add: case_pending_def)
qed (auto intro: qa_moved_same)

section \<open>Resuming\<close>

lemma judge_pending_Some:
  assumes "judge_pending b a now ks d = Some d'"
  shows "db_qa_runs d' = db_qa_runs d"
    "db_qa_cases d' = map (\<lambda>k. if case_pending k \<and> qc_id k \<in> qc_id ` set ks then judged_case b a now k else k) (db_qa_cases d)"
    "list_all case_row_ok (db_qa_cases d) \<Longrightarrow> list_all case_row_ok (db_qa_cases d')"
proof -
  have kept: "\<not> case_pending (judged_case b a now k)" "qc_id (judged_case b a now k) = qc_id k" for k
    by (simp_all add: judged_case_def case_pending_def split: prod.splits)
  have "db_qa_runs d' = db_qa_runs d \<and>
    db_qa_cases d' = map (\<lambda>k. if case_pending k \<and> qc_id k \<in> qc_id ` set ks then judged_case b a now k else k) (db_qa_cases d) \<and>
    (list_all case_row_ok (db_qa_cases d) \<longrightarrow> list_all case_row_ok (db_qa_cases d'))"
    using assms
  proof (induction ks arbitrary: d)
    case (Cons k ks)
    let ?p = "\<lambda>x. qc_id x = qc_id k \<and> qc_status x = ''pending''"
    obtain d1 where d1: "update_cases ?p (judged_case b a now) d = Some d1" and "judge_pending b a now ks d1 = Some d'"
      using Cons.prems by (auto simp: bind_eq_Some_conv)
    note rest = Cons.IH [OF this(2)] and c = update_cases_Some [OF d1, unfolded case_pending_def [symmetric]]
    have "list_all case_row_ok (db_qa_cases d) \<Longrightarrow> list_all case_row_ok (db_qa_cases d1)"
      using c by (auto simp: list_all_iff)
    then show ?case
      using rest by (simp add: c(1)) (auto simp: kept intro!: map_cong)
  qed simp
  then show "db_qa_runs d' = db_qa_runs d"
    "db_qa_cases d' = map (\<lambda>k. if case_pending k \<and> qc_id k \<in> qc_id ` set ks then judged_case b a now k else k) (db_qa_cases d)"
    "list_all case_row_ok (db_qa_cases d) \<Longrightarrow> list_all case_row_ok (db_qa_cases d')"
    by blast+
qed

lemma judged_case_simps [simp]:
  "qc_id (judged_case b a now k) = qc_id k" "qc_run (judged_case b a now k) = qc_run k"
  "qc_name (judged_case b a now k) = qc_name k"
  "qc_status (judged_case b a now k) = (if fst (persistence_case b a (qc_name k)) then ''passed'' else ''failed'')"
  by (simp_all add: judged_case_def split: prod.splits)

lemma resume_persistence_moved:
  assumes "tx_resume_persistence q owner i t now d = Some (x, d')"
  shows "qa_moved d d'"
proof (cases "d' = d")
  case False
  let ?w = "\<lambda>k. qc_run k = i \<and> qc_name k = ''restart_observed'' \<and> qc_status k = ''running''"
  let ?after = "persistence_snapshot_of q owner d"
  let ?s = "\<lambda>r. qr_id r = i \<and> qr_status r = ''running''"
  let ?pending = "\<lambda>d1. sort_key qc_id (filter (\<lambda>k. qc_run k = i \<and> qc_status k = ''pending'') (db_qa_cases d1))"
  let ?failed = "\<lambda>before ks. list_ex (\<lambda>k. \<not> fst (persistence_case before ?after (qc_name k))) ks"
  have owner: "ps_owner_id ?after = owner" by (simp add: persistence_snapshot_of_def)
  obtain r0 k0 before d1 d2 where r0: "run_of i d = Some r0" "qr_status r0 = ''running''"
    and "List.find ?w (db_qa_cases d) = Some k0"
    and d1: "update_cases ?w (settled_case True (restart_json before ?after) now) d = Some d1"
    and d2': "judge_pending before ?after now (?pending d1) d1 = Some d2"
    and d'': "update_runs ?s (settled_run (\<not> ?failed before (?pending d1)) now) d2 = Some d'"
    using assms False
    by (auto simp: tx_resume_persistence_def Let_def bind_eq_Some_conv owner split: option.splits if_splits)
  then have k0: "k0 \<in> set (db_qa_cases d)" "?w k0" by (auto simp: find_Some_iff)
  define pending where "pending = ?pending d1"
  define failed where "failed = ?failed before pending"
  note d2 = d2' [folded pending_def] and d' = d'' [folded pending_def, folded failed_def]
  let ?f = "\<lambda>k. if ?w k then settled_case True (restart_json before ?after) now k else k"
  let ?g = "\<lambda>k. if case_pending k \<and> qc_id k \<in> qc_id ` set pending then judged_case before ?after now k else k"
  note c1 = update_cases_Some [OF d1] and c2 = judge_pending_Some [OF d2] and u = update_runs_Some [OF d']
  have same: "db_qa_runs d2 = db_qa_runs d" using c1(1) c2(1) by simp
  have cases': "db_qa_cases d' = map (?g \<circ> ?f) (db_qa_cases d)" using c1(1) c2(2) u(1) by simp
  show ?thesis
  proof (rule qa_moved_maps [OF _ cases'])
    show "db_qa_runs d' = map (\<lambda>r. if ?s r then settled_run (\<not> failed) now r else r) (db_qa_runs d)"
      using u(1) same by simp
  next
    fix r assume "qa_sound d" "r \<in> set (db_qa_runs d)"
    then show "run_moved r (if ?s r then settled_run (\<not> failed) now r else r) \<and>
        qa_row_ok (if ?s r then settled_run (\<not> failed) now r else r)"
      using u(2) [of r] same by (auto simp: qa_sound_def rows_sound_def list_all_iff intro: runs_moved)
  next
    fix k assume s: "qa_sound d" and k: "k \<in> set (db_qa_cases d)"
    have "list_all case_row_ok (db_qa_cases d1)"
      using s c1 by (auto simp: qa_sound_def rows_sound_def list_all_iff)
    from c2(3) [OF this] have "list_all case_row_ok (db_qa_cases d')" using u(1) by simp
    then have "case_row_ok ((?g \<circ> ?f) k)"
      using k unfolding cases' list_all_iff list.set_map by blast
    moreover have "case_moved (hermes_ids d) k ((?g \<circ> ?f) k)"
      by (auto simp: case_moved_def case_open_def case_pending_def)
    ultimately show "case_moved (hermes_ids d) k ((?g \<circ> ?f) k) \<and> case_row_ok ((?g \<circ> ?f) k)" by simp
  next
    fix r assume s: "qa_sound d" and r: "r \<in> set (db_qa_runs d)"
    then have sound: "run_sound (cases_of (qr_id r) d) r" by (simp add: qa_sound_def list_all_iff)
    have mem: "k \<in> set pending \<longleftrightarrow> k \<in> set (db_qa_cases d1) \<and> qc_run k = i \<and> case_pending k" for k
      by (auto simp: pending_def case_pending_def)
    have distinct: "distinct (map qc_id (db_qa_cases d1))"
      using s c1(1) by (simp add: qa_sound_def rows_sound_def comp_def if_distrib cong: if_cong)
    have g: "?g k = (if qc_run k = i \<and> case_pending k then judged_case before ?after now k else k)"
      if "k \<in> set (db_qa_cases d1)" for k
      using that mem distinct by (auto simp: distinct_map inj_on_def)
    have f: "?f k \<in> set (db_qa_cases d1)" if "k \<in> set (db_qa_cases d)" for k
      using that c1(1) by auto
    show "run_sound (map (?g \<circ> ?f) (cases_of (qr_id r) d)) (if ?s r then settled_run (\<not> failed) now r else r)"
    proof (cases "qr_id r = i")
      case False
      have "(?g \<circ> ?f) k = k" if "k \<in> set (cases_of (qr_id r) d)" for k
      proof -
        have k: "k \<in> set (db_qa_cases d)" "qc_run k \<noteq> i" using that False by (auto simp: cases_of_def)
        then have fk: "?f k = k" by simp
        have "?g k = k" unfolding g [OF f [OF k(1), unfolded fk]] using k(2) by simp
        then show ?thesis unfolding comp_def fk .
      qed
      then have "map (?g \<circ> ?f) (cases_of (qr_id r) d) = cases_of (qr_id r) d" by (rule map_idI)
      then show ?thesis using False sound by simp
    next
      case True
      then have rr: "r = r0" using only_run [OF s r0(1) r] by simp
      have sound0: "run_sound (cases_of i d) r0" using sound True rr by simp
      have "k0 \<in> set (cases_of i d)" using k0 by (simp add: cases_of_def)
      then have suite: "qr_suite r0 = ''persistence''" "\<not> list_all case_closed (cases_of i d)"
        using sound0 k0(2) by (auto simp: run_sound_def list_all_iff case_closed_def case_open_def)
      show ?thesis
      proof (cases failed)
        case True
        then show ?thesis
          using run_sound_names [OF sound0, of "settled_run False now r0" "?g \<circ> ?f"] r0(2) \<open>qr_id r = i\<close> rr by simp
      next
        case False
        have "list_all (\<lambda>k. case_pending k \<or> case_waiting k) (cases_of i d)"
          using sound0 suite r0(2) by (auto simp: run_sound_def)
        moreover have "qc_status ((?g \<circ> ?f) k) = ''passed''"
          if "k \<in> set (cases_of i d)" "case_pending k \<or> case_waiting k" for k
        proof (cases "case_waiting k")
          case True
          then show ?thesis using that by (auto simp: case_waiting_def case_pending_def cases_of_def)
        next
          case w: False
          then have p: "case_pending k" "?f k = k" using that by (auto simp: case_pending_def)
          moreover from that have k: "k \<in> set (db_qa_cases d)" "qc_run k = i" by (auto simp: cases_of_def)
          ultimately have "k \<in> set pending" using mem f [OF k(1)] by simp
          then show ?thesis
            using False p by (auto simp: failed_def list_ex_iff)
        qed
        ultimately have "list_all (\<lambda>k. qc_status k = ''passed'') (map (?g \<circ> ?f) (cases_of i d))"
          by (simp only: list_all_iff list.set_map) blast
        then show ?thesis
          using False r0(2) \<open>qr_id r = i\<close> suite(1) unfolding rr by (simp add: run_sound_def)
      qed
    qed
  qed
qed (auto intro: qa_moved_same)

end
