(* ===== verification/Qa_Programs.thy ===== *)
theory Qa_Programs
  imports Qa_Moves
begin

text \<open>The completion by the Hermes helper, and a new run, keep the tables sound.\<close>

section \<open>Settling the six cases\<close>

lemma settle_cases_Some:
  assumes "settle_cases i e now xs d = Some (Ok d')" "list_all (\<lambda>(_, b, _). b) xs" "e \<noteq> ''passed''"
  shows "\<exists>g. db_qa_runs d' = db_qa_runs d \<and> db_qa_cases d' = map g (db_qa_cases d) \<and>
    (\<forall>k \<in> set (db_qa_cases d). g k = k \<or>
       qc_run k = i \<and> qc_status k = e \<and> case_row_ok (g k) \<and> (\<exists>v. g k = settled_case True v now k)) \<and>
    (\<forall>n \<in> fst ` set xs. \<exists>k \<in> set (db_qa_cases d). qc_run k = i \<and> qc_name k = n \<and> qc_status (g k) = ''passed'')"
  using assms(1,2)
proof (induction xs arbitrary: d)
  case Nil
  then show ?case by (intro exI [of _ "\<lambda>k. k"]) simp
next
  case (Cons x xs)
  obtain n b v where x: "x = (n, b, v)" by (cases x)
  let ?p = "\<lambda>k. qc_run k = i \<and> qc_name k = n \<and> qc_status k = e"
  let ?f = "\<lambda>k. if ?p k then settled_case True v now k else k"
  obtain d1 where d1: "update_cases ?p (settled_case True v now) d = Some d1"
    and one: "length (filter ?p (db_qa_cases d)) = 1" and rest: "settle_cases i e now xs d1 = Some (Ok d')"
    using Cons.prems by (auto simp: x Let_def bind_eq_Some_conv split: if_splits)
  obtain g where g: "db_qa_runs d' = db_qa_runs d1" "db_qa_cases d' = map g (db_qa_cases d1)"
    "\<And>k. k \<in> set (db_qa_cases d1) \<Longrightarrow> g k = k \<or>
       qc_run k = i \<and> qc_status k = e \<and> case_row_ok (g k) \<and> (\<exists>v. g k = settled_case True v now k)"
    "\<And>m. m \<in> fst ` set xs \<Longrightarrow> \<exists>k \<in> set (db_qa_cases d1). qc_run k = i \<and> qc_name k = m \<and> qc_status (g k) = ''passed''"
    using Cons.IH [OF rest] Cons.prems(2) by (auto simp: x)
  note c = update_cases_Some [OF d1]
  have f: "?f k \<in> set (db_qa_cases d1)" if "k \<in> set (db_qa_cases d)" for k using that c(1) by auto
  have stays: "g (?f k) = ?f k" if "k \<in> set (db_qa_cases d)" "?p k" for k
    using g(3) [OF f [OF that(1)]] that(2) assms(3) by auto
  show ?case
  proof (intro exI [of _ "g \<circ> ?f"] conjI ballI)
    show "db_qa_runs d' = db_qa_runs d" "db_qa_cases d' = map (g \<circ> ?f) (db_qa_cases d)"
      using c(1) g(1,2) by simp_all
  next
    fix k assume k: "k \<in> set (db_qa_cases d)"
    show "(g \<circ> ?f) k = k \<or> qc_run k = i \<and> qc_status k = e \<and> case_row_ok ((g \<circ> ?f) k) \<and>
        (\<exists>v. (g \<circ> ?f) k = settled_case True v now k)"
    proof (cases "?p k")
      case True
      then show ?thesis using stays [OF k True] c(2) [OF k True] by auto
    next
      case False
      then show ?thesis using g(3) [OF f [OF k]] by auto
    qed
  next
    fix m assume "m \<in> fst ` set (x # xs)"
    then consider "m = n" | "m \<in> fst ` set xs" by (auto simp: x)
    then show "\<exists>k \<in> set (db_qa_cases d). qc_run k = i \<and> qc_name k = m \<and> qc_status ((g \<circ> ?f) k) = ''passed''"
    proof cases
      case 1
      have "filter ?p (db_qa_cases d) \<noteq> []" using one by auto
      then obtain k where k: "k \<in> set (db_qa_cases d)" "?p k" by (auto simp: filter_empty_conv)
      have "?f k = settled_case True v now k" using k(2) by simp
      with stays [OF k] have "qc_status ((g \<circ> ?f) k) = ''passed''" by simp
      with k 1 show ?thesis by blast
    next
      case 2
      from g(4) [OF this] obtain y where mem: "y \<in> set (db_qa_cases d1)" and y: "qc_run y = i" "qc_name y = m"
        "qc_status (g y) = ''passed''" by blast
      have "set (db_qa_cases d1) = ?f ` set (db_qa_cases d)" using c(1) by simp
      with mem obtain k where k: "k \<in> set (db_qa_cases d)" "y = ?f k" by blast
      have "qc_run k = i" "qc_name k = m" using y(1,2) unfolding k(2) by (simp_all split: if_splits)
      moreover have "qc_status ((g \<circ> ?f) k) = ''passed''" using y(3) unfolding k(2) comp_def .
      ultimately show ?thesis using k(1) by blast
    qed
  qed
qed

lemma insert_audit_qa:
  assumes "insert_audit action kind res rid detail t now d = Some (x, d')"
  shows "db_qa_runs d' = db_qa_runs d \<and> db_qa_cases d' = db_qa_cases d"
  using assms by (auto simp: insert_audit_def)

lemma insert_audit_moved: "insert_audit action kind res rid detail t now d = Some (x, d') \<Longrightarrow> qa_moved d d'"
  by (drule insert_audit_qa) (simp add: qa_moved_same)

lemma store_failure_moved:
  assumes "store_failure i rid t now d = Some (x, d')" "\<And>r. qa_sound d \<Longrightarrow> r \<in> set (db_qa_runs d) \<Longrightarrow> qr_id r = i \<Longrightarrow>
    qr_suite r = ''hermes-e2e'' \<and> qr_status r = ''running''"
  shows "qa_moved d d'"
proof -
  let ?p = "\<lambda>k. qc_run k = i \<and> qc_status k = ''running''"
  let ?f = "settled_case False (JObject [(''error_code'', JString ''hermes_helper_failed'')]) now"
  obtain d1 d2 a where d1: "update_cases ?p ?f d = Some d1"
    and d2: "update_runs (\<lambda>r. qr_id r = i \<and> qr_status r = ''running'') (settled_run False now) d1 = Some d2"
    and d': "qa_moved d2 d'"
    using assms(1) by (auto simp: store_failure_def bind_eq_Some_conv dest: insert_audit_moved)
  have "qa_moved d d2"
  proof (rule run_updates_moved [OF d1 d2])
    show "run_sound (map (\<lambda>k. if ?p k then ?f k else k) (cases_of i d))
        (if qr_id r = i \<and> qr_status r = ''running'' then settled_run False now r else r)"
      if "qa_sound d" "r \<in> set (db_qa_runs d)" "qr_id r = i" "run_sound (cases_of i d) r" for r
      using run_sound_names [OF that(4), of "settled_run False now r" "\<lambda>k. if ?p k then ?f k else k"]
        assms(2) [OF that(1-3)] that(3) by simp
  qed (auto intro: cases_moved runs_moved simp: case_open_def)
  with d' show ?thesis by (rule qa_moved_trans [rotated])
qed

lemma judge_completion_Ok:
  assumes "judge_completion q run started input d = Ok (generation, client, duration, app, scan, rows)"
  shows "every_check input" "hc_scan input = Some scan" "scan_total scan = 0" "app = qr_commit run"
    "app = co_commit (qe_console q)" "hc_generation input = Some generation" "hc_client input = Some client"
    "rows = correlated_rows client started (map hr_request_id (hc_requests input)) d"
    "stage_refusal input = None" "window_refusal client input rows d = None"
    "ss_database scan = database_secret_matches q d"
    "\<exists>c. List.find (\<lambda>c. dr_id (cw_client c) = client) (db_clients d) = Some c \<and> client_fits generation started c"
  using assms unfolding judge_completion_def
  by (auto simp: Let_def split: option.splits if_splits bool.splits prod.splits)

lemma completed_names: "fst ` set (completed_cases input client scan rows) = set HERMES_CASES"
  by (auto simp: completed_cases_def HERMES_CASES_def)

lemma completed_checks:
  "every_check input \<Longrightarrow> scan_total scan = 0 \<Longrightarrow> list_all (\<lambda>(_, b, _). b) (completed_cases input client scan rows)"
  by (simp add: completed_cases_def every_check_def)

lemma store_success_moved:
  assumes st: "store_success input i rid recovering (generation, client, duration, app, scan, rows) t now d = Some (x, d')"
    and checks: "every_check input" "scan_total scan = 0"
    and r0: "run_of i d = Some r0" "reconcilable r0" "qr_status r0 = (if recovering then ''failed'' else ''running'')"
  shows "qa_moved d d' \<and> (x = Ok audit \<longrightarrow> (\<exists>r \<in> set (db_qa_runs d'). qr_id r = i \<and> qr_status r = ''passed''))"
proof (cases "d' = d \<and> is_err x")
  case False
  define e where "e = (if recovering then ''failed'' else ''running'')"
  have e: "e \<noteq> ''passed''" by (simp add: e_def)
  let ?s = "\<lambda>r. qr_id r = i \<and> qr_status r = e"
  note st = st [unfolded store_success_def Let_def prod.case e_def [symmetric]]
  obtain y where y: "settle_cases i e now (completed_cases input client scan rows) d = Some y"
    using st by (auto simp: bind_eq_Some_conv)
  then obtain d1 where d1: "settle_cases i e now (completed_cases input client scan rows) d = Some (Ok d1)"
    using st False by (cases y) auto
  obtain d2 where d2: "update_runs ?s (settled_run True now) d1 = Some d2"
    using st d1 by (auto simp: bind_eq_Some_conv)
  have a: "db_qa_runs d' = db_qa_runs d2 \<and> db_qa_cases d' = db_qa_cases d2"
    using st d1 d2 False by (auto split: if_splits dest: insert_audit_qa)
  obtain g where g: "db_qa_runs d1 = db_qa_runs d" "db_qa_cases d1 = map g (db_qa_cases d)"
    "\<And>k. k \<in> set (db_qa_cases d) \<Longrightarrow> g k = k \<or>
       qc_run k = i \<and> qc_status k = e \<and> case_row_ok (g k) \<and> (\<exists>v. g k = settled_case True v now k)"
    "\<And>n. n \<in> set HERMES_CASES \<Longrightarrow>
       \<exists>k \<in> set (db_qa_cases d). qc_run k = i \<and> qc_name k = n \<and> qc_status (g k) = ''passed''"
    using settle_cases_Some [OF d1 completed_checks [OF checks] e] unfolding completed_names by blast
  note u = update_runs_Some [OF d2]
  let ?fr = "\<lambda>r. if ?s r then settled_run True now r else r"
  have "qa_moved d d2"
  proof (rule qa_moved_maps)
    show "db_qa_runs d2 = map ?fr (db_qa_runs d)" "db_qa_cases d2 = map g (db_qa_cases d)"
      using u(1) g(1,2) by simp_all
  next
    fix r assume s: "qa_sound d" and r: "r \<in> set (db_qa_runs d)"
    have "run_moved r (settled_run True now r)" if "?s r"
      using that only_run [OF s r0(1) r] r0(2) by (auto simp: e_def intro: runs_moved split: if_splits)
    then show "run_moved r (?fr r) \<and> qa_row_ok (?fr r)"
      using s r u(2) [of r] g(1) by (simp add: qa_sound_def rows_sound_def list_all_iff)
  next
    fix k assume s: "qa_sound d" and k: "k \<in> set (db_qa_cases d)"
    have h: "i \<in> hermes_ids d" using run_of_member [OF r0(1)] r0(2) by (auto simp: hermes_ids_def)
    have "case_moved (hermes_ids d) k (settled_case True v now k)" if "qc_run k = i" "qc_status k = e" for v
      using that h by (auto simp: e_def case_open_def intro: cases_moved split: if_splits)
    then show "case_moved (hermes_ids d) k (g k) \<and> case_row_ok (g k)"
      using g(3) [OF k] s k by (auto simp: qa_sound_def rows_sound_def list_all_iff)
  next
    fix r assume s: "qa_sound d" and r: "r \<in> set (db_qa_runs d)"
    then have sound: "run_sound (cases_of (qr_id r) d) r" by (simp add: qa_sound_def list_all_iff)
    show "run_sound (map g (cases_of (qr_id r) d)) (?fr r)"
    proof (cases "qr_id r = i")
      case False
      have "g k = k" if "k \<in> set (cases_of (qr_id r) d)" for k
        using g(3) [of k] that False by (auto simp: cases_of_def)
      then have "map g (cases_of (qr_id r) d) = cases_of (qr_id r) d" by (rule map_idI)
      with False sound show ?thesis by simp
    next
      case True
      then have rr: "r = r0" using only_run [OF s r0(1) r] by simp
      have passed: "qc_status (g k) = ''passed''" if "k \<in> set (cases_of i d)" for k
      proof -
        have "qc_name k \<in> set HERMES_CASES"
          using sound that r0(2) True unfolding rr by (auto simp: run_sound_def list_all_iff reconcilable_def)
        from g(4) [OF this] obtain k' where k': "k' \<in> set (db_qa_cases d)" "qc_run k' = i" "qc_name k' = qc_name k"
          "qc_status (g k') = ''passed''" by auto
        have "k' = k"
          using s k'(1-3) that unfolding qa_sound_def rows_sound_def cases_of_def
          by (auto simp: distinct_map inj_on_def)
        with k'(4) show ?thesis by simp
      qed
      have names: "qc_name (g k) = qc_name k" if "k \<in> set (cases_of i d)" for k
        using g(3) [of k] that by (auto simp: cases_of_def)
      have st: "?s r" using True r0(3) unfolding rr by (simp add: e_def)
      show ?thesis
        using sound True passed names r0(2) st
        unfolding rr by (auto simp: run_sound_def list_all_iff reconcilable_def)
    qed
  qed
  then have "qa_moved d d'" by (rule qa_moved_trans) (rule qa_moved_same, use a in simp_all)
  moreover have "\<exists>r \<in> set (db_qa_runs d'). qr_id r = i \<and> qr_status r = ''passed''"
    using run_of_member [OF r0(1)] r0(3) a u(1) g(1)
    by (auto simp: e_def intro!: bexI [of _ "settled_run True now r0"] image_eqI [of _ _ r0])
  ultimately show ?thesis by simp
qed (auto intro: qa_moved_same simp: is_err_iff)

lemma finish_hermes_moved:
  assumes "finish_hermes q run input rid t now d = Some (x, d')" "run_of i d = Some run" "reconcilable run"
  shows "qa_moved d d'"
    "x = Ok audit \<Longrightarrow> hc_status input = ''passed'' \<Longrightarrow>
     (\<exists>r \<in> set (db_qa_runs d'). qr_id r = i \<and> qr_status r = ''passed'') \<and>
     (\<exists>started accepted. qr_started_at run = Some started \<and> judge_completion q run started input d = Ok accepted)"
proof -
  have i: "qr_id run = i" using run_of_member [OF assms(2)] by simp
  have "qa_moved d d' \<and> (x = Ok audit \<longrightarrow> hc_status input = ''passed'' \<longrightarrow>
     (\<exists>r \<in> set (db_qa_runs d'). qr_id r = i \<and> qr_status r = ''passed'') \<and>
     (\<exists>started accepted. qr_started_at run = Some started \<and> judge_completion q run started input d = Ok accepted))"
  proof (cases "d' = d \<and> is_err x")
    case False
    then obtain started where st: "qr_started_at run = Some started"
      using assms(1) by (auto simp: finish_hermes_def Let_def split: if_splits option.splits)
    let ?recovering = "qr_status run = ''failed'' \<and> hc_status input = ''passed'' \<and> hc_reconcile input"
    have status: "qr_status run = ''running'' \<or> ?recovering"
      using assms(1) False by (auto simp: finish_hermes_def Let_def split: if_splits)
    show ?thesis
    proof (cases "hc_status input = ''failed''")
      case True
      then have sf: "store_failure i rid t now d = Some (x, d')" and "qr_status run = ''running''"
        using assms(1) status st i by (auto simp: finish_hermes_def Let_def)
      then have "qa_moved d d'"
        using only_run [OF _ assms(2)] assms(3) by (intro store_failure_moved [OF sf]) (auto simp: reconcilable_def)
      with True show ?thesis by simp
    next
      case no_failure: False
      then obtain generation client duration app scan rows where
        j: "judge_completion q run started input d = Ok (generation, client, duration, app, scan, rows)"
        and ss: "store_success input i rid ?recovering (generation, client, duration, app, scan, rows) t now d = Some (x, d')"
        using assms(1) False status st i by (auto simp: finish_hermes_def Let_def split: if_splits sum.splits)
      from store_success_moved [OF ss judge_completion_Ok(1,3) [OF j] assms(2,3), of audit] status st j show ?thesis
        by auto
    qed
  qed (auto intro: qa_moved_same simp: is_err_iff)
  then show "qa_moved d d'"
    "x = Ok audit \<Longrightarrow> hc_status input = ''passed'' \<Longrightarrow>
     (\<exists>r \<in> set (db_qa_runs d'). qr_id r = i \<and> qr_status r = ''passed'') \<and>
     (\<exists>started accepted. qr_started_at run = Some started \<and> judge_completion q run started input d = Ok accepted)"
    by blast+
qed

lemma complete_hermes_moved:
  assumes "tx_complete_hermes q i input rid t now d = Some (x, d')"
  shows "qa_moved d d'"
  using assms
  by (auto simp: tx_complete_hermes_def reconcilable_def intro: qa_moved_same
      dest: finish_hermes_moved(1) split: option.splits if_splits)

section \<open>New runs\<close>

lemma suite_cases_names:
  assumes "suite_cases suite = Some cases"
  shows "distinct cases" "suite = ''hermes-e2e'' \<Longrightarrow> cases = HERMES_CASES"
    "suite \<noteq> ''persistence'' \<Longrightarrow> ''restart_observed'' \<notin> set cases"
  using assms by (auto simp: suite_cases_def HERMES_CASES_def split: if_splits)

lemma create_qa_run_moved:
  assumes "tx_create_qa_run c suite cases live provider rid t now d = Some (x, d')" "suite_cases suite = Some cases"
  shows "qa_moved d d'"
proof (cases "d' = d")
  case False
  let ?row = "new_qa_run c t now suite live provider"
  let ?cases = "new_qa_cases t (qr_id ?row) cases"
  have new: "qa_row_ok ?row" "\<not> list_ex (\<lambda>r. qr_id r = qr_id ?row) (db_qa_runs d)"
    "distinct (map qc_id (db_qa_cases d @ ?cases))"
    and d': "db_qa_runs d' = db_qa_runs d @ [?row]" "db_qa_cases d' = db_qa_cases d @ ?cases"
    using assms(1) False unfolding tx_create_qa_run_def Let_def
    by (auto split: list.splits if_splits dest!: insert_audit_qa)
  have rows: "map qc_name ?cases = cases" "list_all (\<lambda>k. qc_run k = qr_id ?row) ?cases" "list_all case_pending ?cases"
    "list_all case_row_ok ?cases"
    by (simp_all add: new_qa_cases_def comp_def case_prod_unfold)
      (auto simp: list_all_iff case_pending_def case_row_ok_def case_open_def scalar_object_def)
  show ?thesis
    unfolding qa_moved_def
  proof
    assume s: "qa_sound d"
    have other: "cases_of i d' = cases_of i d" if "i \<noteq> qr_id ?row" for i
      using that rows(2) by (auto simp: cases_of_def d' list_all_iff filter_empty_conv)
    have mine: "cases_of (qr_id ?row) d' = ?cases"
    proof -
      have "filter (\<lambda>k. qc_run k = qr_id ?row) (db_qa_cases d) = []"
        using s new(2) by (auto simp: qa_sound_def rows_sound_def list_all_iff list_ex_iff filter_empty_conv)
      moreover have "filter (\<lambda>k. qc_run k = qr_id ?row) ?cases = ?cases"
        using rows(2) by (simp add: list_all_iff)
      ultimately show ?thesis by (simp add: cases_of_def d')
    qed
    have nm: "set cases = qc_name ` set ?cases" using arg_cong [OF rows(1), of set] by simp
    have "list_all (\<lambda>k. qc_name k \<in> set N) ?cases = (set cases \<subseteq> set N)"
      "list_all (\<lambda>k. qc_name k \<noteq> n) ?cases = (n \<notin> set cases)" for N n
      unfolding nm by (auto simp: list_all_iff)
    then have "run_sound ?cases ?row"
      using rows(3) suite_cases_names [OF assms(2)] by (auto simp: run_sound_def new_qa_run_def)
    moreover have "run_sound (cases_of (qr_id r) d') r" if "r \<in> set (db_qa_runs d)" for r
      using s that new(2) other [of "qr_id r"] by (auto simp: qa_sound_def list_all_iff list_ex_iff)
    moreover have "rows_sound d'"
    proof -
      have "distinct (map (\<lambda>k. (qc_run k, qc_name k)) ?cases)"
      proof -
        have "distinct (map qc_name ?cases)" using suite_cases_names(1) [OF assms(2)] by (simp only: rows(1))
        then show ?thesis by (auto simp: distinct_map inj_on_def)
      qed
      moreover have "qc_run k \<noteq> qr_id ?row" if "k \<in> set (db_qa_cases d)" for k
        using s new(2) that by (auto simp: qa_sound_def rows_sound_def list_all_iff list_ex_iff)
      ultimately have "distinct (map (\<lambda>k. (qc_run k, qc_name k)) (db_qa_cases d @ ?cases))"
        using s rows(2) by (auto simp: qa_sound_def rows_sound_def list_all_iff)
      moreover have "distinct (map qr_id (db_qa_runs d @ [?row]))"
        using s new(2) by (auto simp: qa_sound_def rows_sound_def list_ex_iff)
      moreover have "list_all (\<lambda>k. qc_run k \<in> set (map qr_id (db_qa_runs d @ [?row]))) (db_qa_cases d @ ?cases)"
        using s rows(2) by (auto simp: qa_sound_def rows_sound_def list_all_iff)
      ultimately show ?thesis
        using s new(1,3) rows(4) by (simp add: qa_sound_def rows_sound_def d')
    qed
    ultimately have "qa_sound d'" by (simp add: qa_sound_def d'(1) list_all_iff mine)
    moreover have "forward d d'"
      unfolding forward_def d' by (intro conjI prefix_moved_same) simp_all
    ultimately show "qa_sound d' \<and> forward d d'" by simp
  qed
qed (auto intro: qa_moved_same)

text \<open>
  The runner, its timers, the recovery and the helper's route as whole programs: whatever fails in
  between, the tables stay sound and move forward.
\<close>

section \<open>Moves of the world\<close>

definition qa_moves :: "world \<Rightarrow> world \<Rightarrow> bool" where
  "qa_moves w w' \<longleftrightarrow>
     (\<forall>d. w_db w = Some d \<and> qa_sound d \<longrightarrow> (\<exists>d'. w_db w' = Some d' \<and> qa_sound d' \<and> forward d d'))"

lemma qa_moves_trans: "qa_moves a b \<Longrightarrow> qa_moves b c \<Longrightarrow> qa_moves a c"
  unfolding qa_moves_def using forward_trans by blast

lemma qa_moved_refl [simp]: "qa_moved d d"
  by (rule qa_moved_same) simp_all

lemma qa_moves_db: "w_db w' = w_db w \<Longrightarrow> qa_moves w w'"
  using qa_moved_refl unfolding qa_moves_def qa_moved_def by simp

interpretation qa_history: reading qa_moves
  by unfold_locales (auto intro: qa_moves_db qa_moves_trans dest: still_fields)

text \<open>One transaction: what holds of every outcome it can commit.\<close>

lemma tx_post:
  assumes "w_db w = Some d" "\<And>t now x d'. tx t now d = Some (x, d') \<Longrightarrow> qa_moved d d' \<and> P x d'"
  shows "post (database_call tx) w (\<lambda>r w'. qa_moves w w' \<and>
    (\<forall>x. r = Some x \<longrightarrow> (\<exists>d'. w_db w' = Some d' \<and> P x d')))"
proof (rule database_callI [OF assms(1)])
  fix t now ts r d'
  assume r: "run_tx (tk_fault t) (tx t now) d = (r, d')"
  have "qa_moved d d' \<and> (\<forall>x. r = Some x \<longrightarrow> P x d')"
    using r assms(2) by (cases rule: run_tx_cases [of "tk_fault t" "tx t now" d]) auto
  then show "qa_moves w (w\<lparr>w_ticks := ts, w_clock := now, w_db := Some d'\<rparr>) \<and>
      (\<forall>x. r = Some x \<longrightarrow> (\<exists>d''. w_db (w\<lparr>w_ticks := ts, w_clock := now, w_db := Some d'\<rparr>) = Some d'' \<and> P x d''))"
    using assms(1) by (simp add: qa_moves_def qa_moved_def)
qed

lemma qa_tx_moves:
  assumes "\<And>t now d x d'. tx t now d = Some (x, d') \<Longrightarrow> qa_moved d d'"
  shows "evolves qa_moves (database_call tx)"
proof (rule evolvesI)
  fix w
  show "post (database_call tx) w (\<lambda>_ w'. qa_moves w w')"
  proof (cases "w_db w")
    case None
    then show ?thesis by (simp add: qa_moves_def post_def split: prod.split)
  next
    case (Some d)
    show ?thesis by (rule post_mono [OF tx_post [OF Some, where P = "\<lambda>_ _. True"]]) (use assms in blast)+
  qed
qed

lemma close_moves:
  "evolves qa_moves (database_call (close_failed_cases i))"
  "evolves qa_moves (database_call (close_failed_run i))"
  "evolves qa_moves (database_call (tx_fail_running_run i e))"
  "evolves qa_moves (database_call tx_close_interrupted_runs)"
  "evolves qa_moves (database_call (tx_resume_persistence q owner i))"
  "evolves qa_moves (database_call (tx_complete_hermes q i input rid))"
  by (rule qa_tx_moves, erule close_failed_cases_moved close_failed_run_moved fail_running_run_moved
      close_interrupted_runs_moved resume_persistence_moved complete_hermes_moved)+

lemma arm_moves:
  "evolves qa_moves (database_call (tx_start_queued_run i))"
  "evolves qa_moves (database_call (tx_arm_hermes i))"
  "evolves qa_moves (database_call (tx_prepare_persistence q owner i))"
  by (rule qa_tx_moves, erule start_queued_run_moved arm_hermes_moved prepare_persistence_moved)+

section \<open>Programs that fail with a text\<close>

lemma go_evolves: "evolves qa_moves m \<Longrightarrow> (\<And>x. evolves qa_moves (f x)) \<Longrightarrow> evolves qa_moves (go m f)"
  unfolding go_def by (intro qa_history.bind) (auto split: sum.split intro: qa_history.return)

lemma attempt_evolves:
  "evolves qa_moves (finish x)" "evolves qa_moves (give_up text)"
  "evolves qa_moves m \<Longrightarrow> evolves qa_moves (sql q m)"
  "evolves qa_moves (database_call tx) \<Longrightarrow> evolves qa_moves (refusing q tx)"
  "evolves qa_moves (one_row q h)"
  unfolding finish_def give_up_def sql_def refusing_def one_row_def
  by (intro qa_history.return qa_history.bind qa_history.db_read; assumption?)+

lemma go_post:
  assumes "post m w (\<lambda>r w'. case r of Inl e \<Rightarrow> Q (Err e) w' | Inr x \<Rightarrow> post (f x) w' Q)"
  shows "post (go m f) w Q"
  unfolding go_def post_bind by (rule post_mono [OF assms]) (simp split: sum.splits)

lemma sql_post:
  assumes "post m w (\<lambda>r w'. case r of None \<Rightarrow> Q (Err (qe_sql_text q)) w' | Some x \<Rightarrow> Q (Ok x) w')"
  shows "post (sql q m) w Q"
  unfolding sql_def post_bind by (rule post_mono [OF assms]) (simp add: ok_or_def split: option.splits)

section \<open>Traffic\<close>

lemma sync_audit_qa:
  assumes "sync_database_delta now fresh previous current (Some a) d = Some (r, d')"
  shows "qa_moved d d'"
proof -
  obtain d1 where d1: "without_credentials d1 = without_credentials d"
    and d': "d' = d1\<lparr>db_audit := db_audit d1 @ [new_audit fresh now (am_action a) (am_resource_kind a)
      (am_resource_id a) (Some (am_request_id a)) ''succeeded'' (am_detail a)]\<rparr>"
    using assms by (rule sync_delta_cases)
  show ?thesis by (rule qa_moved_same) (simp_all add: d' credentials_frame [OF d1])
qed

lemma mutate_qa: "evolves qa_moves (mutate_with_audit g operation audit_for)"
proof -
  have vault: "evolves qa_moves (vault_call f)" for f :: "env \<Rightarrow> vault \<Rightarrow> 'c \<times> vault"
    by (rule evolvesI, rule vault_callI) (auto intro: qa_moves_db)
  have restore: "evolves qa_moves (restore_vault v)" for v
    unfolding restore_vault_def by (rule qa_history.modify) (simp add: qa_moves_db)
  have sync: "evolves qa_moves (sync_unlocked_with_audit g (Some v) (Some a))" for v a
    unfolding sync_unlocked_with_audit_def
    by (auto split: option.split sum.split intro!: qa_history.steps qa_tx_moves dest: sync_audit_qa)
  show ?thesis
    unfolding mutate_with_audit_def roll_back_def
    by (auto split: sum.split option.split intro!: qa_history.steps vault restore sync)
qed

text \<open>The requests of the runner move the two tables forward, or leave them alone.\<close>

definition calls_forward :: "qa_env \<Rightarrow> bool" where
  "calls_forward q \<longleftrightarrow> (\<forall>call. evolves qa_moves (qe_call q call))"

lemma client_moves:
  "evolves qa_moves (issue_qa_client q run)" "evolves qa_moves (revoke_qa_client q client run)"
  unfolding issue_qa_client_def revoke_qa_client_def Let_def
  by (intro qa_history.bind qa_history.return mutate_qa)+

lemma fixture_moves:
  "evolves qa_moves (database_call (tx_arm_fixture run kind client))"
  "evolves qa_moves (database_call tx_prepare_cursor)"
  by (rule qa_tx_moves; auto simp: tx_arm_fixture_def tx_prepare_cursor_def intro!: qa_moved_same split: if_splits)+

lemma arm_fixtures_moves: "evolves qa_moves (arm_fixtures q run client)"
  unfolding arm_fixtures_def by (auto intro!: go_evolves attempt_evolves fixture_moves)

lemma call_moves: "calls_forward q \<Longrightarrow> evolves qa_moves (qe_call q call)"
  by (simp add: calls_forward_def)

lemma send_json_moves: "calls_forward q \<Longrightarrow> evolves qa_moves (send_json q token path body)"
  unfolding send_json_def by (intro go_evolves call_moves qa_history.return)

lemma send_all_moves: "calls_forward q \<Longrightarrow> evolves qa_moves (send_all q token rs)"
  by (induction rs rule: send_all.induct) (auto intro!: go_evolves attempt_evolves send_json_moves)

lemma multimodal_moves: "calls_forward q \<Longrightarrow> evolves qa_moves (send_multimodal q token)"
  unfolding send_multimodal_def
  by (auto split: option.split
      intro!: go_evolves attempt_evolves send_all_moves send_json_moves call_moves qa_history.return)

lemma suite_moves: "calls_forward q \<Longrightarrow> evolves qa_moves (send_suite_requests q suite token)"
  unfolding send_suite_requests_def Let_def
  by (intro qa_history.choice go_evolves attempt_evolves send_all_moves send_json_moves multimodal_moves; assumption)

lemma contract_moves: "calls_forward q \<Longrightarrow> evolves qa_moves (probe_http_contract q token live)"
  unfolding probe_http_contract_def get_status_def Let_def
  by (auto split: prod.split intro!: go_evolves attempt_evolves call_moves qa_history.return)

lemma exercise_traffic_moves: "calls_forward q \<Longrightarrow> evolves qa_moves (exercise_traffic q run suite live)"
  unfolding exercise_traffic_def Let_def
  by (intro go_evolves client_moves qa_history.bind qa_history.return suite_moves qa_history.choice
      arm_fixtures_moves contract_moves attempt_evolves fixture_moves)

lemma traffic_of_moves: "calls_forward q \<Longrightarrow> evolves qa_moves (traffic_of q run suite live)"
  unfolding traffic_of_def by (intro qa_history.choice qa_history.bind qa_history.return exercise_traffic_moves)

section \<open>Judging reads only\<close>

lemma go_still: "evolves still m \<Longrightarrow> (\<And>x. evolves still (f x)) \<Longrightarrow> evolves still (go m f)"
  unfolding go_def by (intro quiet_reading.bind) (auto split: sum.split intro: quiet_reading.return)

lemma attempt_still:
  "evolves still (finish x)" "evolves still (sql q (db_read h))" "evolves still (one_row q f)"
  unfolding finish_def sql_def one_row_def
  by (intro quiet_reading.return quiet_reading.bind quiet_reading.db_read)+

lemma counting_still:
  "evolves still (count_case q h n)" "evolves still (request_case q run started p)"
  "evolves still (request_profile_count_case q run started profile n)" "evolves still (privacy_case q)"
  "evolves still (distribution_case q run started judge)" "evolves still (before_frame_case q run started)"
  "evolves still (after_frame_case q run started)" "evolves still (terminal_case q run started)"
  "evolves still (speech_case q run started)" "evolves still (helper_case q started name)"
  unfolding count_case_def request_case_def request_profile_count_case_def privacy_case_def distribution_case_def
    before_frame_case_def after_frame_case_def terminal_case_def speech_case_def helper_case_def Let_def
  by (intro go_still attempt_still)+

lemma named_case_still:
  "state_case q name = Some m \<Longrightarrow> evolves still m" "profile_case q run started name = Some m \<Longrightarrow> evolves still m"
  unfolding state_case_def profile_case_def Let_def
  by (auto intro: counting_still split: if_splits)

lemma judge_case_still: "evolves still (judge_case q run started name traffic)"
  unfolding judge_case_def Let_def
  by (intro quiet_reading.choice counting_still go_still attempt_still)
    (auto split: option.split intro: named_case_still attempt_still)

lemma evaluate_case_still: "evolves still (evaluate_case q run name traffic)"
  unfolding evaluate_case_def by (intro go_still attempt_still judge_case_still)

end
