(* ===== verification/Qa_Props.thy ===== *)
theory Qa_Props
  imports Qa_Programs Console_Demo
begin

text \<open>The execution of a run, case after case, and the properties of the runner as a whole.\<close>

section \<open>One case\<close>

text \<open>The run is being judged: it was started, and nobody waits for a restart.\<close>

definition judged_run :: "uuid \<Rightarrow> db \<Rightarrow> bool" where
  "judged_run run d \<longleftrightarrow>
     (\<exists>r \<in> set (db_qa_runs d). qr_id r = run \<and> qr_status r \<noteq> ''queued'' \<and> qr_suite r \<noteq> ''persistence'')"

lemma single_case_moved:
  assumes u: "update_cases p f d = Some d'" and run: "judged_run run d"
    and p: "\<And>k. qa_sound d \<Longrightarrow> k \<in> set (db_qa_cases d) \<Longrightarrow> p k \<Longrightarrow> qc_run k = run \<and> case_open k"
    and f: "\<And>k. qc_id (f k) = qc_id k \<and> qc_run (f k) = qc_run k \<and> qc_name (f k) = qc_name k \<and> \<not> case_pending (f k)"
  shows "qa_moved d d'"
proof (rule qa_moved_maps)
  note c = update_cases_Some [OF u]
  let ?f = "\<lambda>k. if p k then f k else k"
  show "db_qa_runs d' = map (\<lambda>r. r) (db_qa_runs d)" "db_qa_cases d' = map ?f (db_qa_cases d)"
    using c(1) by simp_all
  show "run_moved r r \<and> qa_row_ok r" if "qa_sound d" "r \<in> set (db_qa_runs d)" for r
    using that by (simp add: qa_sound_def rows_sound_def list_all_iff)
  show "case_moved (hermes_ids d) k (?f k) \<and> case_row_ok (?f k)"
    if "qa_sound d" "k \<in> set (db_qa_cases d)" for k
    using that c(2) [of k] p [of k] f [of k] by (simp add: qa_sound_def rows_sound_def list_all_iff case_moved_def)
  fix r assume s: "qa_sound d" and r: "r \<in> set (db_qa_runs d)"
  then have sound: "run_sound (cases_of (qr_id r) d) r" by (simp add: qa_sound_def list_all_iff)
  have in_cases: "k \<in> set (db_qa_cases d)" if "k \<in> set (cases_of i d)" for i k using that by (simp add: cases_of_def)
  show "run_sound (map ?f (cases_of (qr_id r) d)) r"
  proof (cases "qr_id r = run \<and> (\<exists>k \<in> set (cases_of run d). p k)")
    case False
    have "?f k = k" if "k \<in> set (cases_of (qr_id r) d)" for k
      using False that p [OF s in_cases [OF that]] cases_of_run [OF that] by auto
    then have "map ?f (cases_of (qr_id r) d) = cases_of (qr_id r) d" by (rule map_idI)
    then show ?thesis using sound by simp
  next
    case True
    obtain r0 where r0: "r0 \<in> set (db_qa_runs d)" "qr_id r0 = run" "qr_status r0 \<noteq> ''queued''" "qr_suite r0 \<noteq> ''persistence''"
      using run by (auto simp: judged_run_def)
    have "r = r0" using s r r0(1,2) True by (auto simp: qa_sound_def rows_sound_def distinct_map inj_on_def)
    moreover have "qr_status r \<noteq> ''passed''"
    proof
      assume "qr_status r = ''passed''"
      then have "list_all (\<lambda>k. qc_status k = ''passed'') (cases_of run d)"
        using sound True by (simp add: run_sound_def)
      moreover obtain k where k: "k \<in> set (cases_of run d)" "p k" using True by auto
      ultimately have "qc_status k = ''passed''" by (simp add: list_all_iff)
      moreover have "case_open k" using p [OF s in_cases [OF k(1)] k(2)] by simp
      ultimately show False by (simp add: case_open_def)
    qed
    ultimately show ?thesis
      using sound r0(3,4) f by (auto simp: run_sound_def list_all_iff)
  qed
qed

lemma start_case_moved:
  assumes "tx_start_case i t now d = Some (x, d')" "judged_run run d"
    "\<And>k. k \<in> set (db_qa_cases d) \<Longrightarrow> qc_id k = i \<Longrightarrow> qc_run k = run"
  shows "qa_moved d d'"
proof (rule single_case_moved)
  let ?f = "\<lambda>k. k\<lparr>qc_status := ''running'', qc_started_at := Some now\<rparr>"
  show u: "update_cases (\<lambda>k. qc_id k = i) ?f d = Some d'"
    using assms(1) by (simp add: tx_start_case_def)
  show "qc_run k = run \<and> case_open k" if "qa_sound d" "k \<in> set (db_qa_cases d)" "qc_id k = i" for k
    using that assms(3) update_cases_Some(2) [OF u that(2,3)]
    by (auto simp: qa_sound_def rows_sound_def list_all_iff case_row_ok_def case_open_def)
qed (use assms(2) in \<open>auto simp: case_pending_def\<close>)

lemma finish_case_moved:
  assumes "tx_finish_case i passed evidence t now d = Some (x, d')" "judged_run run d"
    "\<And>k. k \<in> set (db_qa_cases d) \<Longrightarrow> qc_id k = i \<Longrightarrow> qc_run k = run"
  shows "qa_moved d d'"
proof (rule single_case_moved)
  show "update_cases (\<lambda>k. qc_id k = i \<and> qc_status k = ''running'') (settled_case passed evidence now) d = Some d'"
    using assms(1) by (simp add: tx_finish_case_def)
qed (use assms(2,3) in \<open>auto simp: case_pending_def case_open_def\<close>)

section \<open>Case after case\<close>

text \<open>What holds while the cases in \<open>left\<close> are still to be judged.\<close>

definition judging :: "uuid \<Rightarrow> bool \<Rightarrow> uuid set \<Rightarrow> db \<Rightarrow> bool" where
  "judging run failed left d \<longleftrightarrow>
     qa_sound d \<and> judged_run run d \<and>
     (\<forall>k \<in> set (db_qa_cases d). qc_id k \<in> left \<longrightarrow> qc_run k = run) \<and>
     (\<forall>k \<in> set (cases_of run d). failed \<or> qc_status k = ''passed'' \<or> qc_id k \<in> left)"

lemma judged_run_moved: "qa_sound d \<Longrightarrow> qa_moved d d' \<Longrightarrow> judged_run run d \<Longrightarrow> judged_run run d'"
proof -
  assume "qa_sound d" "qa_moved d d'" "judged_run run d"
  then obtain r where f: "forward d d'" and r: "r \<in> set (db_qa_runs d)" "qr_id r = run" "qr_status r \<noteq> ''queued''"
    "qr_suite r \<noteq> ''persistence''"
    by (auto simp: qa_moved_def judged_run_def)
  obtain r' where "r' \<in> set (db_qa_runs d')" "run_moved r r'"
    using f r(1) prefix_moved_member unfolding forward_def by metis
  then show "judged_run run d'"
    using r unfolding judged_run_def by (intro bexI [of _ r']) (auto simp: run_moved_def same_run_def)
qed

lemma judging_step:
  assumes "judging run failed left d" "qa_moved d d'" "db_qa_cases d' = map g (db_qa_cases d)"
    and keys: "\<And>k. qc_id (g k) = qc_id k \<and> qc_run (g k) = qc_run k"
    and "left' \<subseteq> left"
    and status: "\<And>k. k \<in> set (cases_of run d) \<Longrightarrow> failed \<or> qc_status k = ''passed'' \<or> qc_id k \<in> left \<Longrightarrow>
      failed' \<or> qc_status (g k) = ''passed'' \<or> qc_id k \<in> left'"
  shows "judging run failed' left' d'"
proof -
  have of_run: "cases_of run d' = map g (cases_of run d)"
    by (simp add: cases_of_def assms(3) filter_map comp_def keys)
  have "failed' \<or> qc_status (g k) = ''passed'' \<or> qc_id (g k) \<in> left'" if "k \<in> set (cases_of run d)" for k
    using status [OF that] assms(1) that keys unfolding judging_def by metis
  then have "\<forall>k \<in> set (cases_of run d'). failed' \<or> qc_status k = ''passed'' \<or> qc_id k \<in> left'"
    unfolding of_run list.set_map by blast
  moreover have "\<forall>k \<in> set (db_qa_cases d'). qc_id k \<in> left' \<longrightarrow> qc_run k = run"
    using assms(1,5) keys by (auto simp: judging_def assms(3))
  moreover have "qa_sound d'" "judged_run run d'"
    using assms(1,2) judged_run_moved by (auto simp: judging_def qa_moved_def)
  ultimately show ?thesis by (simp add: judging_def)
qed

lemma judging_started:
  assumes "judging run failed (insert i left) d" "tx_start_case i t now d = Some (x, d')"
  shows "qa_moved d d'" "judging run failed (insert i left) d'"
    "\<And>k. k \<in> set (db_qa_cases d') \<Longrightarrow> qc_id k = i \<Longrightarrow> qc_status k = ''running''"
proof -
  show m: "qa_moved d d'"
    by (rule start_case_moved [OF assms(2)]) (use assms(1) in \<open>auto simp: judging_def\<close>)
  have u: "update_cases (\<lambda>k. qc_id k = i) (\<lambda>k. k\<lparr>qc_status := ''running'', qc_started_at := Some now\<rparr>) d = Some d'"
    using assms(2) by (simp add: tx_start_case_def)
  let ?f = "\<lambda>k. if qc_id k = i then k\<lparr>qc_status := ''running'', qc_started_at := Some now\<rparr> else k"
  have d': "db_qa_cases d' = map ?f (db_qa_cases d)" using update_cases_Some(1) [OF u] by simp
  show "qc_status k = ''running''" if "k \<in> set (db_qa_cases d')" "qc_id k = i" for k
  proof -
    have "k \<in> ?f ` set (db_qa_cases d)" using that(1) unfolding d' list.set_map .
    then obtain x where x: "k = ?f x" by (rule imageE)
    have "qc_id (?f x) = qc_id x" by simp
    with x that(2) have "qc_id x = i" by simp
    then show ?thesis unfolding x by simp
  qed
  show "judging run failed (insert i left) d'"
  proof (rule judging_step [OF assms(1) m])
    show "db_qa_cases d' = map ?f (db_qa_cases d)" by (rule d')
  qed auto
qed

lemma judging_finished:
  assumes "judging run failed (insert i left) d" "tx_finish_case i passed evidence t now d = Some (x, d')"
    and running: "\<And>k. k \<in> set (db_qa_cases d) \<Longrightarrow> qc_id k = i \<Longrightarrow> qc_status k = ''running''"
  shows "qa_moved d d'" "judging run (failed \<or> \<not> passed) left d'"
proof -
  show m: "qa_moved d d'"
    by (rule finish_case_moved [OF assms(2)]) (use assms(1) in \<open>auto simp: judging_def\<close>)
  have u: "update_cases (\<lambda>k. qc_id k = i \<and> qc_status k = ''running'') (settled_case passed evidence now) d = Some d'"
    using assms(2) by (simp add: tx_finish_case_def)
  show "judging run (failed \<or> \<not> passed) left d'"
  proof (rule judging_step [OF assms(1) m])
    show "db_qa_cases d' = map (\<lambda>k. if qc_id k = i \<and> qc_status k = ''running'' then settled_case passed evidence now k else k)
        (db_qa_cases d)"
      using update_cases_Some(1) [OF u] by simp
    fix k assume k: "k \<in> set (cases_of run d)" and or: "failed \<or> qc_status k = ''passed'' \<or> qc_id k \<in> insert i left"
    have "qc_id k = i \<Longrightarrow> qc_status k = ''running''" using k running by (simp add: cases_of_def)
    with or show "(failed \<or> \<not> passed) \<or> qc_status (if qc_id k = i \<and> qc_status k = ''running''
        then settled_case passed evidence now k else k) = ''passed'' \<or> qc_id k \<in> left"
      by (cases passed) auto
  qed auto
qed

lemma still_db: "evolves still m \<Longrightarrow> post m w (\<lambda>_ w'. w_db w' = w_db w)"
  by (drule evolves_post, erule post_mono) (auto dest: still_fields)

definition cases_done :: "uuid \<Rightarrow> str + bool \<Rightarrow> world \<Rightarrow> bool" where
  "cases_done run r w \<longleftrightarrow> (\<forall>failed. r = Ok failed \<longrightarrow> (\<exists>d. w_db w = Some d \<and> judging run failed {} d))"

lemma run_cases_judged:
  assumes "w_db w = Some d" "judging run failed (fst ` set cases) d"
  shows "post (run_cases q run traffic traffic_error failed cases) w (\<lambda>r w'. qa_moves w w' \<and> cases_done run r w')"
  using assms
proof (induction cases arbitrary: w d failed)
  case Nil
  then show ?case by (auto simp: finish_def qa_moves_db cases_done_def)
next
  case (Cons c cases)
  obtain i name where c: "c = (i, name)" by (cases c)
  let ?left = "fst ` set cases"
  let ?Q = "\<lambda>w r w'. qa_moves w w' \<and> cases_done run r w'"
  let ?running = "\<lambda>d. judging run failed (insert i ?left) d \<and>
    (\<forall>k. k \<in> set (db_qa_cases d) \<longrightarrow> qc_id k = i \<longrightarrow> qc_status k = ''running'')"
  have finished: "post (go (sql q (database_call (tx_finish_case i passed evidence)))
      (\<lambda>_. run_cases q run traffic traffic_error (failed \<or> \<not> passed) cases)) w2 (?Q w2)"
    if w2: "w_db w2 = Some d2" and d2: "?running d2" for w2 d2 passed evidence
  proof (rule go_post, rule sql_post, rule post_mono [OF tx_post [OF w2,
        where P = "\<lambda>_ d'. judging run (failed \<or> \<not> passed) ?left d'"]])
    show "qa_moved d2 d' \<and> judging run (failed \<or> \<not> passed) ?left d'"
      if "tx_finish_case i passed evidence t now d2 = Some (x, d')" for t now x d'
      using judging_finished [OF _ that, of run failed ?left] d2 by blast
    fix r :: "unit option" and w3 :: world
    assume a: "qa_moves w2 w3 \<and> (\<forall>x. r = Some x \<longrightarrow> (\<exists>d'. w_db w3 = Some d' \<and> judging run (failed \<or> \<not> passed) ?left d'))"
    show "case r of None \<Rightarrow> (case Err (qe_sql_text q) of Inl e \<Rightarrow> ?Q w2 (Err e) w3
          | Inr x \<Rightarrow> post (run_cases q run traffic traffic_error (failed \<or> \<not> passed) cases) w3 (?Q w2))
        | Some x \<Rightarrow> (case Ok x of Inl e \<Rightarrow> ?Q w2 (Err e) w3
          | Inr x \<Rightarrow> post (run_cases q run traffic traffic_error (failed \<or> \<not> passed) cases) w3 (?Q w2))"
    proof (cases r)
      case None
      then show ?thesis using a by (simp add: cases_done_def)
    next
      case (Some x)
      with a obtain d3 where "w_db w3 = Some d3" "judging run (failed \<or> \<not> passed) ?left d3" by auto
      then have "post (run_cases q run traffic traffic_error (failed \<or> \<not> passed) cases) w3 (?Q w3)"
        by (rule Cons.IH)
      then have "post (run_cases q run traffic traffic_error (failed \<or> \<not> passed) cases) w3 (?Q w2)"
        by (rule post_mono) (use a qa_moves_trans in blast)
      then show ?thesis using Some by simp
    qed
  qed
  have judged: "post (do {
       r \<leftarrow> evaluate_case q run name traffic;
       let (passed, evidence) = (case r of
           Inr v \<Rightarrow> v
         | Inl e \<Rightarrow> (False, JObject [(''error_code'', JString ''qa_case_query_failed''), (''reason'', JString (bounded_reason e))]));
       go (sql q (database_call (tx_finish_case i passed (with_traffic_error traffic_error evidence))))
         (\<lambda>_. run_cases q run traffic traffic_error (failed \<or> \<not> passed) cases)
     }) w1 (?Q w1)"
    if w1: "w_db w1 = Some d1" and d1: "?running d1" for w1 d1
    unfolding post_bind Let_def
  proof (rule post_mono [OF still_db [OF evaluate_case_still]])
    fix v :: "str + verdict" and w2 :: world
    assume w2: "w_db w2 = w_db w1"
    have "post (go (sql q (database_call (tx_finish_case i passed evidence)))
        (\<lambda>_. run_cases q run traffic traffic_error (failed \<or> \<not> passed) cases)) w2 (?Q w1)" for passed evidence
      by (rule post_mono [OF finished [OF w2 [unfolded w1] d1]]) (use qa_moves_db [OF w2] qa_moves_trans in blast)
    then show "post (case case v of
           Inr v \<Rightarrow> v
         | Inl e \<Rightarrow> (False, JObject [(''error_code'', JString ''qa_case_query_failed''), (''reason'', JString (bounded_reason e))])
       of (passed, evidence) \<Rightarrow> go (sql q (database_call (tx_finish_case i passed (with_traffic_error traffic_error evidence))))
         (\<lambda>_. run_cases q run traffic traffic_error (failed \<or> \<not> passed) cases)) w2 (?Q w1)"
      by (simp split: prod.split)
  qed
  show ?case
    unfolding c run_cases.simps
  proof (rule go_post, rule sql_post, rule post_mono [OF tx_post [OF Cons.prems(1), where P = "\<lambda>_. ?running"]])
    show "qa_moved d d' \<and> ?running d'" if "tx_start_case i t now d = Some (x, d')" for t now x d'
      using judging_started [OF _ that, of run failed ?left] Cons.prems(2) by (simp add: c)
    fix r :: "unit option" and w1 :: world
    assume a: "qa_moves w w1 \<and> (\<forall>x. r = Some x \<longrightarrow> (\<exists>d'. w_db w1 = Some d' \<and> ?running d'))"
    let ?rest = "do {
       r \<leftarrow> evaluate_case q run name traffic;
       let (passed, evidence) = (case r of
           Inr v \<Rightarrow> v
         | Inl e \<Rightarrow> (False, JObject [(''error_code'', JString ''qa_case_query_failed''), (''reason'', JString (bounded_reason e))]));
       go (sql q (database_call (tx_finish_case i passed (with_traffic_error traffic_error evidence))))
         (\<lambda>_. run_cases q run traffic traffic_error (failed \<or> \<not> passed) cases)
     }"
    show "case r of None \<Rightarrow> (case Err (qe_sql_text q) of Inl e \<Rightarrow> ?Q w (Err e) w1 | Inr x \<Rightarrow> post ?rest w1 (?Q w))
        | Some x \<Rightarrow> (case Ok x of Inl e \<Rightarrow> ?Q w (Err e) w1 | Inr x \<Rightarrow> post ?rest w1 (?Q w))"
    proof (cases r)
      case None
      then show ?thesis using a by (simp add: cases_done_def)
    next
      case (Some x)
      with a obtain d1 where "w_db w1 = Some d1" "?running d1" by auto
      then have "post ?rest w1 (?Q w1)" by (rule judged)
      then have "post ?rest w1 (?Q w)" by (rule post_mono) (use a qa_moves_trans in blast)
      then show ?thesis using Some by simp
    qed
  qed
qed

section \<open>A run\<close>

definition judged_world :: "uuid \<Rightarrow> world \<Rightarrow> bool" where
  "judged_world run w \<longleftrightarrow> (\<exists>d. w_db w = Some d \<and> qa_sound d \<and> judged_run run d)"

lemma judged_world_moves: "judged_world run w \<Longrightarrow> qa_moves w w' \<Longrightarrow> judged_world run w'"
  using judged_run_moved unfolding judged_world_def qa_moves_def qa_moved_def by blast

lemma judged_started:
  assumes "tx_start_queued_run run t now d = Some (Ok (), d')" "qa_sound d"
    and r: "r \<in> set (db_qa_runs d)" "qr_id r = run" "qr_suite r \<noteq> ''persistence''"
  shows "judged_run run d'"
proof -
  have "update_runs (\<lambda>r. qr_id r = run \<and> qr_status r = ''queued'') (running_run now) d = Some d'"
    using assms(1) by (auto simp: tx_start_queued_run_def split: if_splits)
  from update_runs_Some(1) [OF this]
  have "db_qa_runs d' = map (\<lambda>r. if qr_id r = run \<and> qr_status r = ''queued'' then running_run now r else r) (db_qa_runs d)"
    by simp
  then have "(if qr_id r = run \<and> qr_status r = ''queued'' then running_run now r else r) \<in> set (db_qa_runs d')"
    using r(1) by (simp only: list.set_map) (rule imageI)
  then show ?thesis
    using r(2,3) unfolding judged_run_def by (intro bexI) auto
qed

lemma judging_all:
  assumes "qa_sound d" "judged_run run d"
  shows "judging run failed (fst ` set (case_names run d)) d"
proof -
  have ids: "fst ` set (case_names run d) = qc_id ` set (cases_of run d)"
    by (force simp: case_names_def cases_of_def)
  have "qc_run k = run" if "k \<in> set (db_qa_cases d)" "qc_id k \<in> qc_id ` set (cases_of run d)" for k
    using that assms(1) by (auto simp: qa_sound_def rows_sound_def cases_of_def distinct_map inj_on_def)
  then show ?thesis
    using assms by (simp add: judging_def ids)
qed

lemma finish_run_moved:
  assumes "tx_finish_run run passed t now d = Some (x, d')" "judging run (\<not> passed) {} d"
  shows "qa_moved d d'"
proof (rule run_updates_moved [OF update_none(1)])
  show "update_runs (\<lambda>r. qr_id r = run \<and> qr_status r = ''running'') (settled_run passed now) d = Some d'"
    using assms(1) by (simp add: tx_finish_run_def)
  show "run_sound (map (\<lambda>k. if False then k else k) (cases_of run d))
      (if qr_id r = run \<and> qr_status r = ''running'' then settled_run passed now r else r)"
    if "run_sound (cases_of run d) r" for r
    using that assms(2) by (auto simp: run_sound_def judging_def list_all_iff)
qed (auto intro: runs_moved)

lemma judge_run_judged:
  assumes "judged_world run w"
  shows "post (go (sql q (db_read (\<lambda>_. case_names run))) (\<lambda>cases.
       go (run_cases q run traffic traffic_error failed cases) (\<lambda>failed.
         sql q (database_call (tx_finish_run run (\<not> failed)))))) w (\<lambda>_. qa_moves w)"
proof -
  obtain d where d: "w_db w = Some d" "qa_sound d" "judged_run run d" using assms by (auto simp: judged_world_def)
  have finish: "post (sql q (database_call (tx_finish_run run (\<not> failed)))) w2 (\<lambda>_. qa_moves w2)"
    if "w_db w2 = Some d2" "judging run failed {} d2" for failed w2 d2
    by (rule sql_post, rule post_mono [OF tx_post [OF that(1), where P = "\<lambda>_ _. True"]])
      (use finish_run_moved [of run "\<not> failed"] that(2) in \<open>auto split: option.split\<close>)
  have rest: "post (go (run_cases q run traffic traffic_error failed cases) (\<lambda>failed.
       sql q (database_call (tx_finish_run run (\<not> failed))))) w1 (\<lambda>_. qa_moves w)"
    if w1: "w_db w1 = Some d" and cases: "cases = case_names run d" for cases w1
  proof (rule go_post, rule post_mono [OF run_cases_judged [OF w1, of run failed cases]])
    show "judging run failed (fst ` set cases) d" unfolding cases by (rule judging_all [OF d(2,3)])
    fix r :: "str + bool" and w2 :: world
    assume a: "qa_moves w1 w2 \<and> cases_done run r w2"
    have m: "qa_moves w w2" using a qa_moves_trans [OF qa_moves_db] w1 d(1) by metis
    show "case r of Inl e \<Rightarrow> qa_moves w w2
        | Inr failed \<Rightarrow> post (sql q (database_call (tx_finish_run run (\<not> failed)))) w2 (\<lambda>_. qa_moves w)"
    proof (cases r)
      case (Inr f)
      with a obtain d2 where "w_db w2 = Some d2" "judging run f {} d2" by (auto simp: cases_done_def)
      then have "post (sql q (database_call (tx_finish_run run (\<not> f)))) w2 (\<lambda>_. qa_moves w2)" by (rule finish)
      then have "post (sql q (database_call (tx_finish_run run (\<not> f)))) w2 (\<lambda>_. qa_moves w)"
        by (rule post_mono) (rule qa_moves_trans [OF m])
      with Inr show ?thesis by simp
    qed (simp add: m)
  qed
  show ?thesis
  proof (rule go_post, rule sql_post, unfold db_read_def,
      rule post_mono [OF tx_post [OF d(1), where P = "\<lambda>cases d'. d' = d \<and> cases = case_names run d"]])
    fix r :: "(uuid \<times> str) list option" and w1 :: world
    assume a: "qa_moves w w1 \<and> (\<forall>x. r = Some x \<longrightarrow> (\<exists>d'. w_db w1 = Some d' \<and> d' = d \<and> x = case_names run d))"
    then show "case r of None \<Rightarrow> (case Err (qe_sql_text q) of Inl e \<Rightarrow> qa_moves w w1 | Inr cases \<Rightarrow>
          post (go (run_cases q run traffic traffic_error failed cases) (\<lambda>failed.
            sql q (database_call (tx_finish_run run (\<not> failed))))) w1 (\<lambda>_. qa_moves w))
        | Some x \<Rightarrow> (case Ok x of Inl e \<Rightarrow> qa_moves w w1 | Inr cases \<Rightarrow>
          post (go (run_cases q run traffic traffic_error failed cases) (\<lambda>failed.
            sql q (database_call (tx_finish_run run (\<not> failed))))) w1 (\<lambda>_. qa_moves w))"
      using rest by (auto split: option.split)
  qed auto
qed

lemma choice_post: "(c \<Longrightarrow> post a w Q) \<Longrightarrow> (\<not> c \<Longrightarrow> post b w Q) \<Longrightarrow> post (if c then a else b) w Q"
  by simp

lemma refusing_post:
  "post (database_call tx) w (\<lambda>r w'. Q (case r of None \<Rightarrow> Err (qe_sql_text q) | Some x \<Rightarrow> x) w') \<Longrightarrow>
   post (refusing q tx) w Q"
  by (simp add: refusing_def)

lemma judge_run_moves:
  assumes "calls_forward q" "w_db w = Some d" "queued_run run d = Some r" "qr_suite r \<noteq> ''persistence''"
  shows "post (judge_run q run suite live) w (\<lambda>_. qa_moves w)"
proof (cases "qa_sound d")
  case False
  then show ?thesis using assms(2) by (simp add: post_def qa_moves_def split: prod.split)
next
  case True
  have r: "r \<in> set (db_qa_runs d)" "qr_id r = run" using assms(3) by (auto simp: queued_run_def find_Some_iff)
  let ?rest = "do {
       (traffic, traffic_error) \<leftarrow> traffic_of q run suite live;
       go (sql q (db_read (\<lambda>_. case_names run))) (\<lambda>cases.
       go (run_cases q run traffic traffic_error (traffic_error \<noteq> None) cases) (\<lambda>failed.
         sql q (database_call (tx_finish_run run (\<not> failed)))))
     }"
  have judged: "post ?rest w1 (\<lambda>_. qa_moves w)" if "judged_world run w1" "qa_moves w w1" for w1
    unfolding post_bind
  proof (rule post_mono [OF evolves_post [OF traffic_of_moves [OF assms(1)]]])
    fix x :: "traffic_evidence option \<times> str option" and w2
    assume m: "qa_moves w1 w2"
    have "post (go (sql q (db_read (\<lambda>_. case_names run))) (\<lambda>cases.
        go (run_cases q run (fst x) (snd x) (snd x \<noteq> None) cases) (\<lambda>failed.
          sql q (database_call (tx_finish_run run (\<not> failed)))))) w2 (\<lambda>_. qa_moves w)"
      by (rule post_mono [OF judge_run_judged [OF judged_world_moves [OF that(1) m]]])
        (rule qa_moves_trans [OF qa_moves_trans [OF that(2) m]])
    then show "post (case x of (traffic, traffic_error) \<Rightarrow> go (sql q (db_read (\<lambda>_. case_names run))) (\<lambda>cases.
        go (run_cases q run traffic traffic_error (traffic_error \<noteq> None) cases) (\<lambda>failed.
          sql q (database_call (tx_finish_run run (\<not> failed)))))) w2 (\<lambda>_. qa_moves w)"
      by (simp add: case_prod_unfold)
  qed
  show ?thesis
    unfolding judge_run_def
  proof (rule go_post, rule refusing_post, rule post_mono [OF tx_post [OF assms(2),
        where P = "\<lambda>x d'. qa_sound d' \<and> (x = Ok () \<longrightarrow> judged_run run d')"]])
    show "qa_moved d d' \<and> qa_sound d' \<and> (x = Ok () \<longrightarrow> judged_run run d')"
      if "tx_start_queued_run run t now d = Some (x, d')" for t now x d'
      using start_queued_run_moved [OF that] judged_started [OF _ True r assms(4)] that True by (auto simp: qa_moved_def)
    fix x :: "(str + unit) option" and w1 :: world
    assume a: "qa_moves w w1 \<and> (\<forall>y. x = Some y \<longrightarrow> (\<exists>d'. w_db w1 = Some d' \<and> qa_sound d' \<and> (y = Ok () \<longrightarrow> judged_run run d')))"
    then show "case (case x of None \<Rightarrow> Err (qe_sql_text q) | Some y \<Rightarrow> y) of
        Inl e \<Rightarrow> qa_moves w w1 | Inr x \<Rightarrow> post ?rest w1 (\<lambda>_. qa_moves w)"
      using judged by (auto simp: judged_world_def split: option.split sum.split)
  qed
qed

lemma qa_execute_moves:
  assumes "calls_forward q"
  shows "evolves qa_moves (execute q run)"
proof (rule evolvesI)
  fix w
  have refuse: "evolves qa_moves (give_up e)" for e :: str by (rule attempt_evolves)
  show "post (execute q run) w (\<lambda>_. qa_moves w)"
  proof (cases "w_db w")
    case None
    then show ?thesis by (simp add: post_def qa_moves_def split: prod.split)
  next
    case (Some d)
    have go_on: "post (go (judge_run q run (qr_suite r) live) (\<lambda>_. finish None)) w1 (\<lambda>_. qa_moves w)"
      if "w_db w1 = Some d" "queued_run run d = Some r" "qr_suite r \<noteq> ''persistence''" for r live w1
      by (rule go_post, rule post_mono [OF judge_run_moves [OF assms that]])
        (use qa_moves_trans [OF qa_moves_db [of w1 w]] Some that(1) in \<open>auto simp: finish_def split: sum.split\<close>)
    have simple: "post m w1 (\<lambda>_. qa_moves w)" if "evolves qa_moves m" "w_db w1 = Some d" for m :: "'z attempted" and w1
      by (rule post_mono [OF evolves_post [OF that(1)]]) (use qa_moves_trans [OF qa_moves_db [of w1 w]] Some that(2) in auto)
    have read: "post (go (one_row q (queued_run run)) F) w1 (\<lambda>_. qa_moves w)"
      if "w_db w1 = Some d" "\<And>w2 r. w_db w2 = Some d \<Longrightarrow> queued_run run d = Some r \<Longrightarrow> post (F r) w2 (\<lambda>_. qa_moves w)"
      for F :: "qa_run_row \<Rightarrow> 'z attempted" and w1
      unfolding one_row_def db_read_def
      by (rule go_post, subst post_bind, rule post_mono [OF tx_post [OF that(1),
            where P = "\<lambda>x d'. d' = d \<and> x = queued_run run d"]])
        (use that(2) qa_moves_trans [OF qa_moves_db [of w1 w]] Some that(1) in \<open>auto split: option.split sum.split\<close>)
    show ?thesis
      unfolding execute_def
    proof (subst post_bind, subst post_observe, split option.split, intro conjI allI impI)
      show "post (give_up ''QA runner requires PostgreSQL'') w (\<lambda>_. qa_moves w)" by (rule simple [OF refuse Some])
    qed ((rule read [OF Some], intro choice_post);
        ((rule go_on; assumption) | (rule simple, (intro refuse go_evolves attempt_evolves arm_moves | assumption)+)))
  qed
qed

lemma spawn_moves: "calls_forward q \<Longrightarrow> evolves qa_moves (spawn_run q run)"
  unfolding spawn_run_def
  by (auto split: sum.split intro!: qa_history.bind qa_history.return qa_execute_moves close_moves)

lemma fail_running_moves: "evolves qa_moves (fail_running_run i e)"
  unfolding fail_running_run_def by (intro qa_history.bind qa_history.return close_moves)

lemma timer_moves: "evolves qa_moves (timer_fires run timer)"
  unfolding timer_fires_def by (cases timer) (simp add: fail_running_moves)

lemma resume_moves: "evolves qa_moves (resume_persistence q i)"
  unfolding resume_persistence_def
  by (auto split: option.split intro!: qa_history.bind qa_history.return qa_history.simple close_moves)

lemma resume_runs_moves: "evolves qa_moves (resume_runs q ids)"
proof (induction ids)
  case (Cons i ids)
  then show ?case
    unfolding resume_runs.simps
    by (intro qa_history.bind qa_history.choice qa_history.return resume_moves fail_running_moves)
qed (simp add: qa_history.return)

lemma recover_moves: "evolves qa_moves (recover_interrupted_runs q)"
  unfolding recover_interrupted_runs_def
  by (auto split: option.split intro!: qa_history.bind qa_history.return qa_history.simple qa_history.db_read
      close_moves resume_runs_moves)

lemma complete_moves: "evolves qa_moves (complete_hermes_qa_run q req i input)"
  unfolding complete_hermes_qa_run_def complete_hermes_def Let_def
  by (auto split: option.split sum.split intro!: qa_history.steps qa_history.qa_run close_moves)

lemma create_attempts_moves:
  assumes "suite_cases suite = Some cases"
  shows "evolves qa_moves (create_qa_attempts n c suite cases live provider rid)"
proof (induction n)
  case (Suc n)
  have "evolves qa_moves (database_call (tx_create_qa_run c suite cases live provider rid))"
    by (rule qa_tx_moves, erule create_qa_run_moved, rule assms)
  with Suc show ?case
    by (auto split: option.split qa_outcome.split intro!: qa_history.bind qa_history.return qa_history.qa_run)
qed (simp add: qa_history.return)

lemma start_moves: "evolves qa_moves (start_qa_run c req input)"
  unfolding start_qa_run_def create_qa_run_def
  by (auto split: option.split sum.split
      intro!: qa_history.steps create_attempts_moves qa_history.modify qa_moves_db)

text \<open>
  The QA runs over any history of one gateway: creation by the console, execution, timers, the
  recovery after a restart, the helper's completion, and whatever else leaves the two tables alone.
\<close>

section \<open>Histories\<close>

text \<open>The two tables of a world.\<close>

definition qa_tables :: "world \<Rightarrow> (qa_run_row list \<times> qa_case_row list) option" where
  "qa_tables w = map_option (\<lambda>d. (db_qa_runs d, db_qa_cases d)) (w_db w)"

lemma qa_moves_tables: "qa_tables w' = qa_tables w \<Longrightarrow> qa_moves w w'"
  unfolding qa_moves_def qa_tables_def
  by (auto dest!: qa_moved_same simp: qa_moved_def)

text \<open>
  The runner's requests go to the gateway's own public routes, whose statements write neither table.
\<close>

definition calls_elsewhere :: "qa_env \<Rightarrow> bool" where
  "calls_elsewhere q \<longleftrightarrow> (\<forall>call w. post (qe_call q call) w (\<lambda>_ w'. qa_tables w' = qa_tables w))"

lemma calls_elsewhere_forward: "calls_elsewhere q \<Longrightarrow> calls_forward q"
  unfolding calls_elsewhere_def calls_forward_def
  by (intro allI evolvesI) (metis (mono_tags, lifting) post_mono qa_moves_tables)

definition after_run :: "'a program \<Rightarrow> world \<Rightarrow> world" where
  "after_run m w = snd (run_state m w)"

inductive qa_step :: "qa_env \<Rightarrow> world \<Rightarrow> world \<Rightarrow> bool" for q where
  qa_created: "qa_step q w (after_run (start_qa_run (qe_console q) req input) w)"
| qa_spawned: "qa_step q w (after_run (spawn_run q run) w)"
| qa_timed_out: "qa_step q w (after_run (timer_fires run timer) w)"
| qa_recovered: "qa_step q w (after_run (recover_interrupted_runs q) w)"
| qa_completed: "qa_step q w (after_run (complete_hermes_qa_run q req run done_input) w)"
| qa_elsewhere: "qa_tables w' = qa_tables w \<Longrightarrow> qa_step q w w'"

lemma evolves_after: "evolves qa_moves m \<Longrightarrow> qa_moves w (after_run m w)"
  using evolves_post [of qa_moves m w] by (simp add: post_def after_run_def split: prod.splits)

lemma qa_step_moves: "calls_elsewhere q \<Longrightarrow> qa_step q w w' \<Longrightarrow> qa_moves w w'"
  by (erule qa_step.cases)
    (auto intro: evolves_after start_moves timer_moves recover_moves complete_moves qa_moves_tables
      spawn_moves [OF calls_elsewhere_forward])

lemma qa_steps_move: "(qa_step q)\<^sup>*\<^sup>* w w' \<Longrightarrow> calls_elsewhere q \<Longrightarrow> qa_moves w w'"
proof (induction rule: rtranclp_induct)
  case base
  show ?case by (rule qa_moves_db) simp
next
  case (step v u)
  then show ?case using qa_step_moves qa_moves_trans by blast
qed

section \<open>What a history keeps\<close>

lemma filter_run:
  "distinct (map qr_id rs) \<Longrightarrow> r \<in> set rs \<Longrightarrow> filter (\<lambda>x. qr_id x = qr_id r) rs = [r]"
  by (rule filter_distinct_key [OF _ _ refl])

text \<open>
  C31. A QA run that says it passed did pass: whatever history of creations, executions, timers,
  recoveries after a restart and completions by the helper a gateway goes through, and whatever
  statement of them fails or loses its answer (so also where the process is killed), every run whose
  status is \<open>passed\<close> has only passed cases. And runs only move forward: each keeps its row, identity,
  suite, mode, provider and commit; a passed run never changes again; a failed one never does, unless
  it is a live Hermes run on the hosted provider, which the helper's late evidence may turn into a
  passed one; a started run is never queued again. The steps run one after another, the deletion of
  old runs by the retention is not one of them, and the premise on the environment says that the
  runner's own HTTP requests write neither table.
\<close>

theorem qa_runs_move_forward:
  assumes "calls_elsewhere q" "(qa_step q)\<^sup>*\<^sup>* w w'" "w_db w = Some d" "qa_sound d"
  shows "\<exists>d'. w_db w' = Some d' \<and>
    (\<forall>r \<in> set (db_qa_runs d'). qr_status r = ''passed'' \<longrightarrow>
       (\<forall>k \<in> set (db_qa_cases d'). qc_run k = qr_id r \<longrightarrow> qc_status k = ''passed'')) \<and>
    (\<forall>r \<in> set (db_qa_runs d). \<exists>r'. filter (\<lambda>x. qr_id x = qr_id r) (db_qa_runs d') = [r'] \<and> same_run r r' \<and>
       (qr_status r = ''passed'' \<longrightarrow> r' = r) \<and>
       (qr_status r = ''failed'' \<longrightarrow> r' = r \<or> qr_status r' = ''passed'' \<and> reconcilable r) \<and>
       (qr_status r = ''running'' \<longrightarrow> qr_status r' \<noteq> ''queued''))"
proof -
  obtain d' where d': "w_db w' = Some d'" "qa_sound d'" "forward d d'"
    using qa_steps_move [OF assms(2,1)] assms(3,4) unfolding qa_moves_def by blast
  have "qc_status k = ''passed''"
    if "r \<in> set (db_qa_runs d')" "qr_status r = ''passed''" "k \<in> set (db_qa_cases d')" "qc_run k = qr_id r" for r k
    using d'(2) that unfolding qa_sound_def run_sound_def cases_of_def by (auto simp: list_all_iff)
  moreover have "\<exists>r'. filter (\<lambda>x. qr_id x = qr_id r) (db_qa_runs d') = [r'] \<and> same_run r r' \<and>
       (qr_status r = ''passed'' \<longrightarrow> r' = r) \<and>
       (qr_status r = ''failed'' \<longrightarrow> r' = r \<or> qr_status r' = ''passed'' \<and> reconcilable r) \<and>
       (qr_status r = ''running'' \<longrightarrow> qr_status r' \<noteq> ''queued'')"
    if r: "r \<in> set (db_qa_runs d)" for r
  proof -
    obtain r' where r': "r' \<in> set (db_qa_runs d')" "run_moved r r'"
      using d'(3) r prefix_moved_member unfolding forward_def by metis
    have "qr_id r' = qr_id r" using r'(2) by (simp add: run_moved_def same_run_def)
    moreover have "distinct (map qr_id (db_qa_runs d'))" using d'(2) by (simp add: qa_sound_def rows_sound_def)
    ultimately have "filter (\<lambda>x. qr_id x = qr_id r) (db_qa_runs d') = [r']"
      using filter_run r'(1) by metis
    then show ?thesis using r'(2) by (auto simp: run_moved_def)
  qed
  ultimately show ?thesis using d'(1) by blast
qed

section \<open>A restart\<close>

definition demo_run :: "uuid \<Rightarrow> str \<Rightarrow> time option \<Rightarrow> qa_run_row" where
  "demo_run i status finished =
     \<lparr>qr_id = i, qr_suite = ''smoke'', qr_live = False, qr_provider = ''fake'', qr_commit = ''unknown'',
      qr_status = status, qr_created_at = 0, qr_started_at = Some 0, qr_finished_at = finished\<rparr>"

definition demo_case :: "uuid \<Rightarrow> uuid \<Rightarrow> str \<Rightarrow> str \<Rightarrow> time option \<Rightarrow> qa_case_row" where
  "demo_case i run name status finished =
     \<lparr>qc_id = i, qc_run = run, qc_name = name, qc_status = status, qc_evidence = JObject [],
      qc_started_at = Some 0, qc_finished_at = finished\<rparr>"

definition demo_qa_db :: db where
  "demo_qa_db = demo_db
     \<lparr>db_qa_runs := [demo_run ''a'' ''passed'' (Some 1), demo_run ''b'' ''running'' None],
      db_qa_cases := [demo_case ''1'' ''a'' ''liveness'' ''passed'' (Some 1),
        demo_case ''2'' ''b'' ''liveness'' ''passed'' (Some 1), demo_case ''3'' ''b'' ''readiness'' ''running'' None]\<rparr>"

definition demo_qa_world :: world where
  "demo_qa_world = demo_world\<lparr>w_db := Some demo_qa_db\<rparr>"

definition demo_qa_env :: qa_env where
  "demo_qa_env =
     \<lparr>qe_console = demo_console, qe_texts = (\<lambda>_. []), qe_md5 = id, qe_instant = (\<lambda>_. []), qe_forbidden_columns = 0,
      qe_sql_text = ''sql'', qe_body_text = ''body'', qe_b64 = id, qe_mp4_url = [],
      qe_call = (\<lambda>_. State_Monad.return (Err ''unreachable''))\<rparr>"

lemma demo_qa_env: "calls_elsewhere demo_qa_env"
  by (simp add: calls_elsewhere_def demo_qa_env_def)

lemma demo_qa_sound: "qa_sound demo_qa_db"
  by (simp add: qa_sound_def rows_sound_def demo_qa_db_def demo_run_def demo_case_def qa_row_ok_def
      REQUIRED_SUITES_def qa_active_def case_row_ok_def case_open_def scalar_object_def run_sound_def cases_of_def)

lemma demo_text: "length (chars ''gateway_restarted_during_qa'') \<le> 256"
  by code_simp

lemma demo_qa_recovered:
  "\<exists>d'. w_db (after_run (recover_interrupted_runs demo_qa_env) demo_qa_world) = Some d' \<and>
     map qr_status (db_qa_runs d') = [''passed'', ''failed''] \<and>
     map qc_status (db_qa_cases d') = [''passed'', ''passed'', ''failed'']"
  by (simp add: after_run_def recover_interrupted_runs_def demo_qa_world_def demo_world_def database_call_def
      next_tick_def quiet_def run_tx_def db_read_def tx_close_interrupted_runs_def update_cases_def update_runs_def
      demo_qa_db_def demo_db_def demo_run_def demo_case_def interrupted_def case_open_def failed_case_def failed_run_def
      case_row_ok_def scalar_object_def scalar_member_def qa_row_ok_def REQUIRED_SUITES_def qa_active_def
      update_where_def waiting_runs_def observe_def demo_text)

theorem qa_runs_move_forward_witness:
  "\<exists>d'. w_db (after_run (recover_interrupted_runs demo_qa_env) demo_qa_world) = Some d' \<and>
     map qr_status (db_qa_runs d') = [''passed'', ''failed''] \<and>
     filter (\<lambda>x. qr_id x = ''a'') (db_qa_runs d') = [demo_run ''a'' ''passed'' (Some 1)]"
proof -
  let ?w' = "after_run (recover_interrupted_runs demo_qa_env) demo_qa_world"
  have steps: "(qa_step demo_qa_env)\<^sup>*\<^sup>* demo_qa_world ?w'" by (rule r_into_rtranclp) (rule qa_recovered)
  have "w_db demo_qa_world = Some demo_qa_db" by (simp add: demo_qa_world_def)
  from qa_runs_move_forward [OF demo_qa_env steps this demo_qa_sound] demo_qa_recovered
  show ?thesis by (auto simp: demo_qa_db_def demo_run_def)
qed

end
